(* ===== verification/Prelude.thy ===== *)
theory Prelude
  imports Main "HOL-Library.AList" "HOL-Library.Multiset" "HOL-Library.Word"
begin

text \<open>
  What every component of the development shares: the fact collections, Go's fixed-width
  integers, the functions of Go's package \<open>strings\<close> that the sources call, and the two
  generic interfaces the components are proved against: a transition system with an
  inductive invariant, and a supplier of fresh names.
\<close>

named_theorems go_strings \<open>definitions of the string functions of Go's standard library\<close>
named_theorems conn_defs \<open>definitions of the critical sections of a connection\<close>

type_synonym int64 = "64 word"

section \<open>Package strings\<close>

definition has_prefix :: "string \<Rightarrow> string \<Rightarrow> bool" where
  [go_strings]: "has_prefix s p = (take (length p) s = p)"

definition trim_prefix :: "string \<Rightarrow> string \<Rightarrow> string" where
  [go_strings]: "trim_prefix s p = (if has_prefix s p then drop (length p) s else s)"

definition has_suffix :: "string \<Rightarrow> string \<Rightarrow> bool" where
  [go_strings]: "has_suffix s p = (length p \<le> length s \<and> drop (length s - length p) s = p)"

definition trim_suffix :: "string \<Rightarrow> string \<Rightarrow> string" where
  [go_strings]: "trim_suffix s p = (if has_suffix s p then take (length s - length p) s else s)"

lemma has_prefix_iff: "has_prefix s p \<longleftrightarrow> (\<exists>t. s = p @ t)"
  by (auto simp: has_prefix_def) (metis append_take_drop_id)

lemma has_prefix_append [simp]: "has_prefix (p @ t) p"
  by (simp add: has_prefix_def)

lemma trim_prefix_append [simp]: "trim_prefix (p @ t) p = t"
  by (simp add: trim_prefix_def)

lemma has_suffix_iff: "has_suffix s p \<longleftrightarrow> (\<exists>t. s = t @ p)"
  by (auto simp: has_suffix_def) (metis append_take_drop_id)

lemma trim_suffix_append [simp]: "trim_suffix (t @ p) p = t"
  by (simp add: trim_suffix_def has_suffix_def)

text \<open>Decimal output of an integer, as \<open>strconv.AppendInt\<close> and \<open>%d\<close> write it.\<close>

definition digit_char :: "nat \<Rightarrow> char" where
  "digit_char d = char_of (48 + d)"

definition is_digit :: "char \<Rightarrow> bool" where
  "is_digit c = (48 \<le> (of_char c :: nat) \<and> (of_char c :: nat) \<le> 57)"

definition digit_val :: "char \<Rightarrow> nat" where
  "digit_val c = of_char c - 48"

fun show_nat :: "nat \<Rightarrow> string" where
  "show_nat n = (if n < 10 then [digit_char n] else show_nat (n div 10) @ [digit_char (n mod 10)])"

declare show_nat.simps [simp del]

definition show_int :: "int \<Rightarrow> string" where
  "show_int i = (if i < 0 then ''-'' @ show_nat (nat (- i)) else show_nat (nat i))"

definition read_nat :: "string \<Rightarrow> nat" where
  "read_nat s = foldl (\<lambda>a c. 10 * a + digit_val c) 0 s"

lemma of_char_digit: "d < 10 \<Longrightarrow> (of_char (digit_char d) :: nat) = 48 + d"
  by (simp add: digit_char_def)

lemma is_digit_digit_char [simp]: "d < 10 \<Longrightarrow> is_digit (digit_char d)"
  by (simp add: is_digit_def of_char_digit)

lemma digit_val_digit_char [simp]: "d < 10 \<Longrightarrow> digit_val (digit_char d) = d"
  by (simp add: digit_val_def of_char_digit)

lemma show_nat_digits: "\<forall>c \<in> set (show_nat n). is_digit c"
proof (induction n rule: show_nat.induct)
  case (1 n)
  then show ?case by (subst show_nat.simps) auto
qed

lemma show_nat_nonempty [simp]: "show_nat n \<noteq> []"
  by (subst show_nat.simps) simp

lemma read_show_nat [simp]: "read_nat (show_nat n) = n"
proof (induction n rule: show_nat.induct)
  case (1 n)
  then show ?case
    by (subst show_nat.simps) (auto simp: read_nat_def)
qed

lemma show_nat_inj: "show_nat m = show_nat n \<Longrightarrow> m = n"
  by (metis read_show_nat)

section \<open>Interface: a transition system with an inductive invariant\<close>

inductive reachable_from :: "('s \<Rightarrow> bool) \<Rightarrow> ('s \<Rightarrow> 's \<Rightarrow> bool) \<Rightarrow> 's \<Rightarrow> bool"
  for ini :: "'s \<Rightarrow> bool" and stp :: "'s \<Rightarrow> 's \<Rightarrow> bool" where
  initial: "ini s \<Longrightarrow> reachable_from ini stp s"
| follow: "reachable_from ini stp s \<Longrightarrow> stp s t \<Longrightarrow> reachable_from ini stp t"

locale invariant_system =
  fixes ini :: "'s \<Rightarrow> bool"
    and stp :: "'s \<Rightarrow> 's \<Rightarrow> bool"
    and inv :: "'s \<Rightarrow> bool"
  assumes inv_initial: "ini s \<Longrightarrow> inv s"
    and inv_follow: "inv s \<Longrightarrow> stp s t \<Longrightarrow> inv t"
begin

lemma inv_reachable: "reachable_from ini stp s \<Longrightarrow> inv s"
  by (induction rule: reachable_from.induct) (auto intro: inv_initial inv_follow)

lemma inv_steps: "inv s \<Longrightarrow> stp\<^sup>*\<^sup>* s t \<Longrightarrow> inv t"
  by (rotate_tac, induction rule: rtranclp_induct) (auto intro: inv_follow)

end

section \<open>Interface: a supplier of fresh names\<close>

text \<open>
  A naming function takes a wanted name and the names already used and returns a name
  not yet used together with the new used names. Running it over a list of wanted names
  gives pairwise distinct names.
\<close>

fun name_all :: "(string \<Rightarrow> string list \<Rightarrow> string \<times> string list) \<Rightarrow> string list \<Rightarrow> string list \<Rightarrow> string list" where
  "name_all f [] used = []"
| "name_all f (n # ns) used = (case f n used of (m, used') \<Rightarrow> m # name_all f ns used')"

locale fresh_namer =
  fixes uniq :: "string \<Rightarrow> string list \<Rightarrow> string \<times> string list"
  assumes uniq_fresh: "fst (uniq n used) \<notin> set used"
    and uniq_used: "set (snd (uniq n used)) = insert (fst (uniq n used)) (set used)"
    and uniq_keeps: "n \<notin> set used \<Longrightarrow> fst (uniq n used) = n"
begin

lemma name_all_fresh: "set (name_all uniq ns used) \<inter> set used = {}"
proof (induction ns arbitrary: used)
  case Nil
  then show ?case by simp
next
  case (Cons n ns)
  obtain m used' where m: "uniq n used = (m, used')" by fastforce
  show ?case
    using Cons.IH [of used'] uniq_fresh [of n used] uniq_used [of n used] m by auto
qed

lemma name_all_distinct: "distinct (name_all uniq ns used)"
proof (induction ns arbitrary: used)
  case Nil
  then show ?case by simp
next
  case (Cons n ns)
  obtain m used' where m: "uniq n used = (m, used')" by fastforce
  show ?case
    using Cons.IH [of used'] name_all_fresh [of ns used'] uniq_used [of n used] m by auto
qed

lemma name_all_length: "length (name_all uniq ns used) = length ns"
  by (induction ns arbitrary: used) (auto split: prod.splits)

lemma name_all_keeps:
  "distinct ns \<Longrightarrow> set ns \<inter> set used = {} \<Longrightarrow> name_all uniq ns used = ns"
proof (induction ns arbitrary: used)
  case Nil
  then show ?case by simp
next
  case (Cons n ns)
  obtain m used' where m: "uniq n used = (m, used')" by fastforce
  with Cons.prems have "m = n" using uniq_keeps [of n used] by simp
  with Cons m show ?case
    using uniq_used [of n used] by auto
qed

end

section \<open>Interface: a registry by name\<close>

text \<open>
  Something is registered under a name once; a name that is not acceptable is refused.
  Registering a list of different names makes exactly those found.
\<close>

fun add_all :: "(string \<Rightarrow> 'f \<Rightarrow> 's \<Rightarrow> 'e + 's) \<Rightarrow> (string \<times> 'f) list \<Rightarrow> 's \<Rightarrow> 'e + 's" where
  "add_all add [] s = Inr s"
| "add_all add ((m, f) # ms) s = (case add m f s of Inl e \<Rightarrow> Inl e | Inr s' \<Rightarrow> add_all add ms s')"

locale registry =
  fixes add :: "string \<Rightarrow> 'f \<Rightarrow> 's \<Rightarrow> 'e + 's"
    and found :: "'s \<Rightarrow> string \<Rightarrow> 'f option"
    and acceptable :: "string \<Rightarrow> bool"
  assumes add_new: "acceptable m \<Longrightarrow> found s m = None \<Longrightarrow> \<exists>s'. add m f s = Inr s'"
    and add_found: "add m f s = Inr s' \<Longrightarrow> found s' k = (if k = m then Some f else found s k)"
    and add_refused: "\<not> acceptable m \<or> found s m \<noteq> None \<Longrightarrow> \<exists>e. add m f s = Inl e"
begin

lemma add_ok_iff: "(\<exists>s'. add m f s = Inr s') \<longleftrightarrow> acceptable m \<and> found s m = None"
  using add_new add_refused by (metis Inl_Inr_False)

lemma add_all_ok_iff:
  "(\<exists>s'. add_all add ms s = Inr s') \<longleftrightarrow>
     distinct (map fst ms) \<and> (\<forall>m \<in> fst ` set ms. acceptable m \<and> found s m = None)"
proof (induction ms arbitrary: s)
  case Nil
  then show ?case by simp
next
  case (Cons mf ms)
  obtain m f where mf: "mf = (m, f)" by fastforce
  show ?case
  proof (cases "add m f s")
    case (Inl e)
    with add_ok_iff [of m f s] have "\<not> (acceptable m \<and> found s m = None)" by auto
    with Inl mf show ?thesis by auto
  next
    case (Inr s')
    with add_ok_iff [of m f s] have "acceptable m" "found s m = None" by auto
    with Inr mf Cons.IH [of s'] show ?thesis by (auto simp: add_found [OF Inr] image_iff)
  qed
qed

lemma add_all_found:
  assumes "add_all add ms s = Inr s'"
  shows "found s' k = (case map_of ms k of Some f \<Rightarrow> Some f | None \<Rightarrow> found s k)"
  using assms
proof (induction ms arbitrary: s)
  case Nil
  then show ?case by simp
next
  case (Cons mf ms)
  obtain m f where mf: "mf = (m, f)" by fastforce
  with Cons.prems obtain s1 where s1: "add m f s = Inr s1" "add_all add ms s1 = Inr s'"
    by (auto split: sum.splits)
  from s1(2) add_all_ok_iff [of ms s1] add_found [OF s1(1)] have "m \<notin> fst ` set ms" by fastforce
  then have "map_of ms m = None" by (simp add: map_of_eq_None_iff)
  with Cons.IH [OF s1(2)] mf add_found [OF s1(1)] show ?case by (auto split: option.splits)
qed

end

end
