(* ===== verification/Errors.thy ===== *)
theory Errors
  imports Prelude
begin

text \<open>
  Go errors as the sources build and inspect them: internal/jsonrpc2/wire.go (the error
  variables, \<open>WireError\<close>, its \<open>Error\<close> and \<open>Is\<close> methods), the chains that
  \<open>fmt.Errorf("%w")\<close> and \<open>errors.Join\<close> build, \<open>errors.Is\<close> and \<open>errors.As\<close>
  over them, and \<open>toWireError\<close> of internal/jsonrpc2/messages.go.
\<close>

section \<open>Error values\<close>

record wire_error =
  wcode :: int64
  wmessage :: string
  wdata :: string

text \<open>The package-level error variables the sources compare against. Each is one pointer.\<close>

datatype errvar =
    ErrParse | ErrInvalidRequest | ErrMethodNotFound | ErrInvalidParams | ErrInternal
  | ErrUnknown | ErrServerClosing | ErrClientClosing | ErrRejected
  | ErrNotHandled | ErrConnectionClosed | EOF | Canceled | DeadlineExceeded

definition new_error :: "int64 \<Rightarrow> string \<Rightarrow> wire_error" where
  "new_error c m = \<lparr>wcode = c, wmessage = m, wdata = []\<rparr>"

text \<open>The variables made by \<open>NewError\<close> point to a \<open>WireError\<close>; the others do not.\<close>

fun errvar_wire :: "errvar \<Rightarrow> wire_error option" where
  "errvar_wire ErrParse = Some (new_error (-32700) ''parse error'')"
| "errvar_wire ErrInvalidRequest = Some (new_error (-32600) ''invalid request'')"
| "errvar_wire ErrMethodNotFound = Some (new_error (-32601) ''method not found'')"
| "errvar_wire ErrInvalidParams = Some (new_error (-32602) ''invalid params'')"
| "errvar_wire ErrInternal = Some (new_error (-32603) ''internal error'')"
| "errvar_wire ErrUnknown = Some (new_error (-32001) ''unknown error'')"
| "errvar_wire ErrServerClosing = Some (new_error (-32004) ''server is closing'')"
| "errvar_wire ErrClientClosing = Some (new_error (-32003) ''client is closing'')"
| "errvar_wire ErrRejected = Some (new_error (-32005) ''rejected by transport'')"
| "errvar_wire _ = None"

fun errvar_text :: "errvar \<Rightarrow> string" where
  "errvar_text ErrNotHandled = ''JSON RPC not handled''"
| "errvar_text ErrConnectionClosed = ''connection closed''"
| "errvar_text EOF = ''EOF''"
| "errvar_text Canceled = ''context canceled''"
| "errvar_text DeadlineExceeded = ''context deadline exceeded''"
| "errvar_text v = (case errvar_wire v of Some w \<Rightarrow> wmessage w | None \<Rightarrow> [])"

text \<open>
  An error value: one of the variables, another \<open>*WireError\<close>, an error made by
  \<open>fmt.Errorf\<close> with a \<open>%w\<close> verb (its whole text and the wrapped error), a join of
  non-nil errors, or an error that wraps nothing.
\<close>

datatype go_error =
    ErrVar errvar
  | WirePtr wire_error
  | Wrapped string go_error
  | Joined "go_error list"
  | Opaque string

fun join_lines :: "string list \<Rightarrow> string" where
  "join_lines [] = []"
| "join_lines [s] = s"
| "join_lines (s # t # ss) = s @ [CHR 0x0A] @ join_lines (t # ss)"

fun error_text :: "go_error \<Rightarrow> string" where
  "error_text (ErrVar v) = errvar_text v"
| "error_text (WirePtr w) = wmessage w"
| "error_text (Wrapped m e) = m"
| "error_text (Joined es) = join_lines (map error_text es)"
| "error_text (Opaque m) = m"

text \<open>\<open>fmt.Errorf("%w: %v", e, detail)\<close> and \<open>fmt.Errorf("prefix: %w", e)\<close>.\<close>

definition errorf_w_v :: "go_error \<Rightarrow> string \<Rightarrow> go_error" where
  "errorf_w_v e detail = Wrapped (error_text e @ '': '' @ detail) e"

definition errorf_prefix :: "string \<Rightarrow> go_error \<Rightarrow> go_error" where
  "errorf_prefix p e = Wrapped (p @ '': '' @ error_text e) e"

text \<open>\<open>errors.Join\<close> of two possibly nil errors.\<close>

definition errors_join :: "go_error option \<Rightarrow> go_error option \<Rightarrow> go_error option" where
  "errors_join a b =
     (let es = List.map_filter id [a, b] in if es = [] then None else Some (Joined es))"

section \<open>errors.Is and errors.As\<close>

text \<open>
  The dynamic type test \<open>err.(*WireError)\<close>: the error itself is a \<open>*WireError\<close>.
\<close>

fun type_wire :: "go_error \<Rightarrow> wire_error option" where
  "type_wire (ErrVar v) = errvar_wire v"
| "type_wire (WirePtr w) = Some w"
| "type_wire _ = None"

text \<open>\<open>(*WireError).Is\<close> compares codes with another \<open>*WireError\<close>.\<close>

definition wire_error_is :: "wire_error \<Rightarrow> go_error \<Rightarrow> bool" where
  "wire_error_is w other = (case type_wire other of None \<Rightarrow> False | Some w' \<Rightarrow> wcode w = wcode w')"

fun errors_is :: "go_error \<Rightarrow> errvar \<Rightarrow> bool" where
  "errors_is (ErrVar v) t = (v = t \<or> (case errvar_wire v of None \<Rightarrow> False | Some w \<Rightarrow> wire_error_is w (ErrVar t)))"
| "errors_is (WirePtr w) t = wire_error_is w (ErrVar t)"
| "errors_is (Wrapped m e) t = errors_is e t"
| "errors_is (Joined es) t = list_ex (\<lambda>e. errors_is e t) es"
| "errors_is (Opaque m) t = False"

fun errors_as_wire :: "go_error \<Rightarrow> wire_error option"
  and errors_as_wire_list :: "go_error list \<Rightarrow> wire_error option" where
  "errors_as_wire (ErrVar v) = errvar_wire v"
| "errors_as_wire (WirePtr w) = Some w"
| "errors_as_wire (Wrapped m e) = errors_as_wire e"
| "errors_as_wire (Joined es) = errors_as_wire_list es"
| "errors_as_wire (Opaque m) = None"
| "errors_as_wire_list [] = None"
| "errors_as_wire_list (e # es) =
     (case errors_as_wire e of Some w \<Rightarrow> Some w | None \<Rightarrow> errors_as_wire_list es)"

section \<open>toWireError\<close>

definition to_wire_error :: "go_error option \<Rightarrow> wire_error option" where
  "to_wire_error err =
     (case err of
        None \<Rightarrow> None
      | Some e \<Rightarrow>
          (case type_wire e of
             Some w \<Rightarrow> Some w
           | None \<Rightarrow>
               Some \<lparr>wcode = (case errors_as_wire e of Some w \<Rightarrow> wcode w | None \<Rightarrow> 0),
                     wmessage = error_text e, wdata = []\<rparr>))"

section \<open>Facts\<close>

lemma to_wire_error_None [simp]: "to_wire_error err = None \<longleftrightarrow> err = None"
  by (auto simp: to_wire_error_def split: option.splits)

lemma errvar_code_nonzero: "errvar_wire v = Some w \<Longrightarrow> wcode w \<noteq> 0"
  by (cases v) (auto simp: new_error_def)

lemma errvar_code_inj:
  "errvar_wire v = Some w \<Longrightarrow> errvar_wire t = Some w' \<Longrightarrow> wcode w = wcode w' \<Longrightarrow> v = t"
  by (cases v; cases t) (auto simp: new_error_def)

lemma errors_is_ErrVar [simp]: "errors_is (ErrVar v) t \<longleftrightarrow> v = t"
  by (auto simp: wire_error_is_def dest: errvar_code_inj split: option.splits)

lemma errors_is_errorf_w_v [simp]: "errors_is (errorf_w_v e d) t = errors_is e t"
  by (simp add: errorf_w_v_def)

lemma errors_is_errorf_prefix [simp]: "errors_is (errorf_prefix p e) t = errors_is e t"
  by (simp add: errorf_prefix_def)

lemma errors_as_wire_type: "type_wire e = Some w \<Longrightarrow> errors_as_wire e = Some w"
  by (cases e) auto

lemma to_wire_error_text:
  "to_wire_error (Some e) = Some w \<Longrightarrow> wmessage w = error_text e"
  by (cases e) (auto simp: to_wire_error_def split: option.splits dest: errvar_text.elims,
      auto elim: errvar_wire.elims)

text \<open>An error chain built by \<open>fmt.Errorf\<close> alone, without \<open>errors.Join\<close>.\<close>

fun linear_error :: "go_error \<Rightarrow> bool" where
  "linear_error (Wrapped m e) = linear_error e"
| "linear_error (Joined es) = False"
| "linear_error _ = True"

lemma errors_is_linear_wire:
  assumes "linear_error e" and "errvar_wire t = Some w'"
  shows "errors_is e t \<longleftrightarrow> (\<exists>w. errors_as_wire e = Some w \<and> wcode w = wcode w')"
  using assms
  by (induction e) (auto simp: wire_error_is_def dest: errvar_code_inj split: option.splits)

end
