(* ===== verification/Json.thy ===== *)
theory Json
  imports Prelude
begin

text \<open>
  The part of Go's \<open>encoding/json\<close> the sources rely on, at the level of the text: which
  byte strings are valid JSON (\<open>json.Valid\<close>), the compact form an encoder emits, and the
  quoting of strings without HTML escaping. A syntax tree keeps number and string tokens
  as they are written, so printing a tree is exactly \<open>json.Compact\<close>. Strings are byte
  strings; bytes from 128 on are copied, which is what the encoder does for valid UTF-8
  other than U+2028 and U+2029.
\<close>

section \<open>Syntax trees and compact text\<close>

datatype json =
    JNull | JTrue | JFalse
  | JNum string
  | JStr string
  | JArr "json list"
  | JObj "(string \<times> json) list"

abbreviation (input) dquote :: char where "dquote \<equiv> CHR 0x22"
abbreviation (input) backslash :: char where "backslash \<equiv> CHR 0x5C"

fun commas :: "string list \<Rightarrow> string" where
  "commas [] = []"
| "commas [s] = s"
| "commas (s # t # ss) = s @ CHR '','' # commas (t # ss)"

fun json_print :: "json \<Rightarrow> string" where
  "json_print JNull = ''null''"
| "json_print JTrue = ''true''"
| "json_print JFalse = ''false''"
| "json_print (JNum t) = t"
| "json_print (JStr b) = dquote # b @ [dquote]"
| "json_print (JArr vs) = CHR ''['' # commas (map json_print vs) @ '']''"
| "json_print (JObj ms) =
     CHR ''{'' # commas (map (\<lambda>(k, v). dquote # k @ dquote # CHR '':'' # json_print v) ms) @ ''}''"

section \<open>Scanner\<close>

definition is_ws :: "char \<Rightarrow> bool" where
  "is_ws c = (c = CHR '' '' \<or> c = CHR 0x09 \<or> c = CHR 0x0A \<or> c = CHR 0x0D)"

definition skip_ws :: "string \<Rightarrow> string" where
  "skip_ws s = dropWhile is_ws s"

definition is_hex :: "char \<Rightarrow> bool" where
  "is_hex c = (is_digit c \<or> c \<in> set ''abcdefABCDEF'')"

definition cons_result :: "string \<Rightarrow> (string \<times> string) option \<Rightarrow> (string \<times> string) option" where
  "cons_result p = map_option (\<lambda>(b, r). (p @ b, r))"

text \<open>The body of a string token, after its opening quote: the body and the text after the closing quote.\<close>

fun scan_string :: "string \<Rightarrow> (string \<times> string) option" where
  "scan_string [] = None"
| "scan_string (c # s) =
     (if c = dquote then Some ([], s)
      else if c = backslash then
        (case s of
           [] \<Rightarrow> None
         | e # s' \<Rightarrow>
             if e = dquote \<or> e = backslash \<or> e \<in> set ''/bfnrt'' then cons_result [c, e] (scan_string s')
             else if e = CHR ''u'' then
               (case s' of
                  h1 # h2 # h3 # h4 # s'' \<Rightarrow>
                    if is_hex h1 \<and> is_hex h2 \<and> is_hex h3 \<and> is_hex h4
                    then cons_result [c, e, h1, h2, h3, h4] (scan_string s'') else None
                | _ \<Rightarrow> None)
             else None)
      else if (of_char c :: nat) < 32 then None
      else cons_result [c] (scan_string s))"

definition scan_digits :: "string \<Rightarrow> string \<times> string" where
  "scan_digits s = (takeWhile is_digit s, dropWhile is_digit s)"

definition scan_int :: "string \<Rightarrow> (string \<times> string) option" where
  "scan_int s =
     (case s of
        [] \<Rightarrow> None
      | c # r \<Rightarrow> if c = CHR ''0'' then Some (''0'', r)
                 else if is_digit c then Some (scan_digits s) else None)"

definition scan_frac :: "string \<Rightarrow> (string \<times> string) option" where
  "scan_frac s =
     (case s of
        [] \<Rightarrow> Some ([], s)
      | c # r \<Rightarrow> if c = CHR ''.'' then
                   (case scan_digits r of (d, r') \<Rightarrow> if d = [] then None else Some (c # d, r'))
                 else Some ([], s))"

definition scan_exp :: "string \<Rightarrow> (string \<times> string) option" where
  "scan_exp s =
     (case s of
        [] \<Rightarrow> Some ([], s)
      | c # r \<Rightarrow> if c = CHR ''e'' \<or> c = CHR ''E'' then
                   (case r of
                      [] \<Rightarrow> None
                    | g # r' \<Rightarrow>
                        if g = CHR ''+'' \<or> g = CHR ''-''
                        then (case scan_digits r' of (d, q) \<Rightarrow> if d = [] then None else Some (c # g # d, q))
                        else (case scan_digits r of (d, q) \<Rightarrow> if d = [] then None else Some (c # d, q)))
                 else Some ([], s))"

definition scan_unsigned :: "string \<Rightarrow> (string \<times> string) option" where
  "scan_unsigned s =
     (case scan_int s of
        None \<Rightarrow> None
      | Some (i, s1) \<Rightarrow>
          (case scan_frac s1 of
             None \<Rightarrow> None
           | Some (f, s2) \<Rightarrow>
               (case scan_exp s2 of None \<Rightarrow> None | Some (e, s3) \<Rightarrow> Some (i @ f @ e, s3))))"

definition scan_number :: "string \<Rightarrow> (string \<times> string) option" where
  "scan_number s =
     (case s of
        [] \<Rightarrow> None
      | c # r \<Rightarrow> if c = CHR ''-'' then cons_result [c] (scan_unsigned r) else scan_unsigned s)"

section \<open>Parser\<close>

text \<open>
  Recursive descent with fuel: a nested value uses at most two units per character, so
  \<open>2 * length s + 2\<close> units are enough for a text \<open>s\<close> (\<open>json_parse_print\<close>
  shows it for every text an encoder emits).
\<close>

fun p_value :: "nat \<Rightarrow> string \<Rightarrow> (json \<times> string) option"
  and p_elems :: "nat \<Rightarrow> string \<Rightarrow> (json list \<times> string) option"
  and p_members :: "nat \<Rightarrow> string \<Rightarrow> ((string \<times> json) list \<times> string) option" where
  "p_value 0 s = None"
| "p_value (Suc n) s =
     (case skip_ws s of
        [] \<Rightarrow> None
      | c # r \<Rightarrow>
          if c = CHR ''{'' then
            (if take 1 (skip_ws r) = ''}'' then Some (JObj [], drop 1 (skip_ws r))
             else map_option (\<lambda>(ms, q). (JObj ms, q)) (p_members n r))
          else if c = CHR ''['' then
            (if take 1 (skip_ws r) = '']'' then Some (JArr [], drop 1 (skip_ws r))
             else map_option (\<lambda>(vs, q). (JArr vs, q)) (p_elems n r))
          else if c = dquote then map_option (\<lambda>(b, q). (JStr b, q)) (scan_string r)
          else if has_prefix (c # r) ''null'' then Some (JNull, drop 4 (c # r))
          else if has_prefix (c # r) ''true'' then Some (JTrue, drop 4 (c # r))
          else if has_prefix (c # r) ''false'' then Some (JFalse, drop 5 (c # r))
          else map_option (\<lambda>(t, q). (JNum t, q)) (scan_number (c # r)))"
| "p_elems 0 s = None"
| "p_elems (Suc n) s =
     (case p_value n s of
        None \<Rightarrow> None
      | Some (v, r) \<Rightarrow>
          (case skip_ws r of
             [] \<Rightarrow> None
           | c # q \<Rightarrow>
               if c = CHR '']'' then Some ([v], q)
               else if c = CHR '','' then map_option (\<lambda>(vs, q'). (v # vs, q')) (p_elems n q)
               else None))"
| "p_members 0 s = None"
| "p_members (Suc n) s =
     (case skip_ws s of
        [] \<Rightarrow> None
      | c # r \<Rightarrow>
          if c = dquote then
            (case scan_string r of
               None \<Rightarrow> None
             | Some (k, r1) \<Rightarrow>
                 (case skip_ws r1 of
                    [] \<Rightarrow> None
                  | c1 # r2 \<Rightarrow>
                      if c1 = CHR '':'' then
                        (case p_value n r2 of
                           None \<Rightarrow> None
                         | Some (v, r3) \<Rightarrow>
                             (case skip_ws r3 of
                                [] \<Rightarrow> None
                              | c2 # q \<Rightarrow>
                                  if c2 = CHR ''}'' then Some ([(k, v)], q)
                                  else if c2 = CHR '','' then
                                    map_option (\<lambda>(ms, q'). ((k, v) # ms, q')) (p_members n q)
                                  else None))
                      else None))
          else None)"

definition json_parse :: "string \<Rightarrow> json option" where
  "json_parse s =
     (case p_value (2 * length s + 2) s of
        None \<Rightarrow> None
      | Some (v, r) \<Rightarrow> if skip_ws r = [] then Some v else None)"

definition json_valid :: "string \<Rightarrow> bool" where
  "json_valid s = (json_parse s \<noteq> None)"

definition json_compact :: "string \<Rightarrow> string option" where
  "json_compact s = map_option json_print (json_parse s)"

section \<open>Tokens are rescanned as they were\<close>

definition string_token :: "string \<Rightarrow> bool" where
  "string_token b = (scan_string (b @ [dquote]) = Some (b, []))"

definition number_token :: "string \<Rightarrow> bool" where
  "number_token t = (scan_number t = Some (t, []))"

lemma cons_result_Some:
  "cons_result p x = Some (b, r) \<longleftrightarrow> (\<exists>b'. x = Some (b', r) \<and> b = p @ b')"
  by (auto simp: cons_result_def)

definition simple_escape :: "char \<Rightarrow> bool" where
  "simple_escape e = (e = dquote \<or> e = backslash \<or> e \<in> set ''/bfnrt'')"

lemma scan_string_Nil: "scan_string [] = None"
  by simp

lemma scan_string_quote: "scan_string (dquote # s) = Some ([], s)"
  by simp

lemma scan_string_plain:
  "c \<noteq> dquote \<Longrightarrow> c \<noteq> backslash \<Longrightarrow> \<not> (of_char c :: nat) < 32 \<Longrightarrow>
     scan_string (c # s) = cons_result [c] (scan_string s)"
  by (subst scan_string.simps) simp

lemma scan_string_escape:
  "simple_escape e \<Longrightarrow> scan_string (backslash # e # s) = cons_result [backslash, e] (scan_string s)"
  by (subst scan_string.simps) (simp add: simple_escape_def)

lemma scan_string_unicode:
  "is_hex h1 \<Longrightarrow> is_hex h2 \<Longrightarrow> is_hex h3 \<Longrightarrow> is_hex h4 \<Longrightarrow>
     scan_string (backslash # CHR ''u'' # h1 # h2 # h3 # h4 # s) =
     cons_result [backslash, CHR ''u'', h1, h2, h3, h4] (scan_string s)"
  by (subst scan_string.simps) simp

lemmas scan_string_eqs =
  scan_string_Nil scan_string_quote scan_string_plain scan_string_escape scan_string_unicode

lemma scan_string_Cons_cases:
  assumes "scan_string (c # s) = Some (b, r)"
  obtains (Quote) "c = dquote" "b = []" "r = s"
    | (Plain) b' where "c \<noteq> dquote" "c \<noteq> backslash" "\<not> (of_char c :: nat) < 32"
        "scan_string s = Some (b', r)" "b = c # b'"
    | (Escape) e s' b' where "c = backslash" "s = e # s'" "simple_escape e"
        "scan_string s' = Some (b', r)" "b = c # e # b'"
    | (Unicode) h1 h2 h3 h4 s' b' where "c = backslash" "s = CHR ''u'' # h1 # h2 # h3 # h4 # s'"
        "is_hex h1" "is_hex h2" "is_hex h3" "is_hex h4"
        "scan_string s' = Some (b', r)" "b = c # CHR ''u'' # h1 # h2 # h3 # h4 # b'"
proof (cases "c = dquote")
  case True
  with assms show ?thesis using Quote by simp
next
  case q: False
  show ?thesis
  proof (cases "c = backslash")
    case bs: True
    then obtain e s' where s: "s = e # s'" using assms by (cases s) simp_all
    show ?thesis
    proof (cases "simple_escape e")
      case True
      with assms bs s show ?thesis using Escape
        by (auto simp: scan_string_escape cons_result_Some simp del: scan_string.simps)
    next
      case False
      with assms bs s obtain h1 h2 h3 h4 s'' b' where
        "e = CHR ''u''" "s' = h1 # h2 # h3 # h4 # s''"
        "is_hex h1" "is_hex h2" "is_hex h3" "is_hex h4"
        "scan_string s'' = Some (b', r)" "b = [c, e, h1, h2, h3, h4] @ b'"
        unfolding scan_string.simps(2) [of c s] simple_escape_def
        by (simp add: cons_result_Some split: if_splits list.splits) blast
      with bs s show ?thesis using Unicode by simp
    qed
  next
    case False
    with assms q have "\<not> (of_char c :: nat) < 32"
      by (simp split: if_splits)
    with assms q False show ?thesis using Plain
      by (auto simp: scan_string_plain cons_result_Some simp del: scan_string.simps)
  qed
qed

declare scan_string.simps [simp del]

lemma scan_string_prefix:
  "scan_string s = Some (b, r) \<Longrightarrow>
     s = b @ dquote # r \<and> (\<forall>q. scan_string (b @ dquote # q) = Some (b, q))"
proof (induction "length s" arbitrary: s b r rule: less_induct)
  case less
  from less.prems obtain c t where s: "s = c # t" by (cases s) (auto simp: scan_string_Nil)
  from less.prems [unfolded s] show ?case
    by (cases rule: scan_string_Cons_cases)
      (use less.hyps s in \<open>force simp: scan_string_eqs cons_result_Some\<close>)+
qed

lemma scan_string_token: "string_token b \<Longrightarrow> scan_string (b @ dquote # q) = Some (b, q)"
  unfolding string_token_def using scan_string_prefix [of "b @ [dquote]" b "[]"] by blast

lemma scan_string_is_token: "scan_string s = Some (b, r) \<Longrightarrow> string_token b"
  unfolding string_token_def using scan_string_prefix by blast

definition ends_number :: "string \<Rightarrow> bool" where
  "ends_number r = (case r of [] \<Rightarrow> True | c # _ \<Rightarrow> \<not> is_digit c \<and> c \<notin> set ''.eE'')"

lemma scan_digits_append:
  assumes "scan_digits s = (d, r)"
  shows "s = d @ r" and "\<forall>c \<in> set d. is_digit c"
    and "case r of [] \<Rightarrow> True | c # _ \<Rightarrow> \<not> is_digit c"
proof -
  from assms have d: "d = takeWhile is_digit s" and r: "r = dropWhile is_digit s"
    by (simp_all add: scan_digits_def)
  show "s = d @ r" by (simp add: d r)
  show "\<forall>c \<in> set d. is_digit c" by (auto simp: d dest: set_takeWhileD)
  show "case r of [] \<Rightarrow> True | c # _ \<Rightarrow> \<not> is_digit c"
  proof (cases r)
    case Nil
    then show ?thesis by simp
  next
    case (Cons c t)
    with r have "\<not> is_digit c" by (metis dropWhile_eq_Cons_conv)
    with Cons show ?thesis by simp
  qed
qed

lemma scan_digits_again:
  assumes "\<forall>c \<in> set d. is_digit c" and "case r of [] \<Rightarrow> True | c # _ \<Rightarrow> \<not> is_digit c"
  shows "scan_digits (d @ r) = (d, r)"
proof -
  have "takeWhile is_digit r = []" "dropWhile is_digit r = r"
    using assms(2) by (cases r; simp)+
  with assms(1) show ?thesis by (simp add: scan_digits_def)
qed

lemma ends_number_digit: "ends_number q \<Longrightarrow> (case q of [] \<Rightarrow> True | c # _ \<Rightarrow> \<not> is_digit c)"
  by (auto simp: ends_number_def split: list.splits)

text \<open>
  Each scanner of a number part returns the same token when it is run on that token
  followed by a text that the part cannot continue into.
\<close>

lemma scan_int_again:
  assumes "scan_int s = Some (i, r)" and "case q of [] \<Rightarrow> True | c # _ \<Rightarrow> \<not> is_digit c"
  shows "s = i @ r" and "scan_int (i @ q) = Some (i, q)" and "i \<noteq> []"
proof -
  obtain c t where s: "s = c # t" using assms(1) by (cases s) (auto simp: scan_int_def)
  have "s = i @ r \<and> scan_int (i @ q) = Some (i, q) \<and> i \<noteq> []"
  proof (cases "c = CHR ''0''")
    case True
    with assms(1) s have "i = ''0''" "r = t" by (auto simp: scan_int_def)
    with True s show ?thesis by (simp add: scan_int_def)
  next
    case False
    with assms(1) s have d: "is_digit c" and sd: "scan_digits s = (i, r)"
      by (auto simp: scan_int_def split: if_splits)
    from d s sd obtain i' where i: "i = c # i'" by (auto simp: scan_digits_def)
    have "scan_digits (i @ q) = (i, q)"
      by (rule scan_digits_again [OF scan_digits_append(2) [OF sd] assms(2)])
    with False d i scan_digits_append(1) [OF sd] show ?thesis by (simp add: scan_int_def)
  qed
  then show "s = i @ r" and "scan_int (i @ q) = Some (i, q)" and "i \<noteq> []" by simp_all
qed

lemma scan_frac_again:
  assumes "scan_frac s = Some (f, r)" and "ends_number q \<or> (\<exists>c q'. q = c # q' \<and> c \<in> set ''eE'')"
  shows "s = f @ r" and "scan_frac (f @ q) = Some (f, q)"
proof -
  have q: "case q of [] \<Rightarrow> True | c # _ \<Rightarrow> \<not> is_digit c \<and> c \<noteq> CHR ''.''"
    using assms(2) by (auto simp: ends_number_def is_digit_def split: list.splits)
  have "s = f @ r \<and> scan_frac (f @ q) = Some (f, q)"
  proof (cases "f = []")
    case True
    with assms(1) have "s = f @ r"
      by (auto simp: scan_frac_def split: list.splits if_splits prod.splits)
    moreover from True q have "scan_frac (f @ q) = Some (f, q)"
      by (auto simp: scan_frac_def split: list.splits)
    ultimately show ?thesis by simp
  next
    case False
    with assms(1) obtain t d where s: "s = CHR ''.'' # t" and sd: "scan_digits t = (d, r)"
      and f: "f = CHR ''.'' # d" "d \<noteq> []"
      by (auto simp: scan_frac_def split: list.splits if_splits prod.splits)
    have "scan_digits (d @ q) = (d, q)"
      using q by (intro scan_digits_again [OF scan_digits_append(2) [OF sd]]) (auto split: list.splits)
    with f s scan_digits_append(1) [OF sd] show ?thesis by (simp add: scan_frac_def)
  qed
  then show "s = f @ r" and "scan_frac (f @ q) = Some (f, q)" by simp_all
qed

lemma scan_exp_again:
  assumes "scan_exp s = Some (e, r)" and "ends_number q"
  shows "s = e @ r" and "scan_exp (e @ q) = Some (e, q)"
    and "e = [] \<or> (\<exists>c e'. e = c # e' \<and> c \<in> set ''eE'')"
proof -
  have dq: "scan_digits (d @ q) = (d, q)" if "scan_digits t = (d, u)" for d t u
    using that assms(2) by (intro scan_digits_again scan_digits_append(2) ends_number_digit)
  consider (None) "e = []" "s = r"
    | (Signed) c g t d where "s = c # g # t" "c \<in> set ''eE''" "g \<in> set ''+-''"
        "scan_digits t = (d, r)" "d \<noteq> []" "e = c # g # d"
    | (Plain) c g t d where "s = c # g # t" "c \<in> set ''eE''" "g \<notin> set ''+-''"
        "scan_digits (g # t) = (d, r)" "d \<noteq> []" "e = c # d"
    using assms(1) by (fastforce simp: scan_exp_def split: list.splits if_splits prod.splits)
  then have "s = e @ r \<and> scan_exp (e @ q) = Some (e, q) \<and>
      (e = [] \<or> (\<exists>c e'. e = c # e' \<and> c \<in> set ''eE''))"
  proof cases
    case None
    then show ?thesis
      using assms(2) by (auto simp: scan_exp_def ends_number_def split: list.splits)
  next
    case Signed
    then show ?thesis
      using dq [OF Signed(4)] scan_digits_append(1) [OF Signed(4)] by (auto simp: scan_exp_def)
  next
    case Plain
    then obtain d' where d: "d = g # d'" by (auto simp: scan_digits_def split: if_splits)
    from Plain d show ?thesis
      using dq [OF Plain(4)] scan_digits_append(1) [OF Plain(4)] by (auto simp: scan_exp_def)
  qed
  then show "s = e @ r" and "scan_exp (e @ q) = Some (e, q)"
    and "e = [] \<or> (\<exists>c e'. e = c # e' \<and> c \<in> set ''eE'')" by simp_all
qed

lemma scan_unsigned_again:
  assumes "scan_unsigned s = Some (t, r)" and "ends_number q"
  shows "s = t @ r \<and> t \<noteq> [] \<and> scan_unsigned (t @ q) = Some (t, q)"
proof -
  from assms(1) obtain i s1 f s2 e where i: "scan_int s = Some (i, s1)"
    and f: "scan_frac s1 = Some (f, s2)" and e: "scan_exp s2 = Some (e, r)" and t: "t = i @ f @ e"
    by (auto simp: scan_unsigned_def split: option.splits prod.splits)
  note e' = scan_exp_again [OF e assms(2)]
  have eq: "ends_number (e @ q) \<or> (\<exists>c q'. e @ q = c # q' \<and> c \<in> set ''eE'')"
    using e'(3) assms(2) by auto
  note f' = scan_frac_again [OF f eq]
  have fq: "case f @ e @ q of [] \<Rightarrow> True | c # _ \<Rightarrow> \<not> is_digit c"
  proof (cases f)
    case Nil
    with eq show ?thesis
      by (auto simp: ends_number_def is_digit_def split: list.splits)
  next
    case (Cons c f0)
    with f have "c = CHR ''.''"
      by (auto simp: scan_frac_def split: list.splits if_splits prod.splits)
    with Cons show ?thesis by (simp add: is_digit_def)
  qed
  note i' = scan_int_again [OF i fq]
  show ?thesis
    using i' f' e'(1,2) t by (simp add: scan_unsigned_def)
qed

lemma scan_number_again:
  assumes "scan_number s = Some (t, r)" and "ends_number q"
  shows "scan_number (t @ q) = Some (t, q)" and "t \<noteq> []" and "s = t @ r"
proof -
  obtain c u where s: "s = c # u" using assms(1) by (cases s) (auto simp: scan_number_def)
  have "scan_number (t @ q) = Some (t, q) \<and> t \<noteq> [] \<and> s = t @ r"
  proof (cases "c = CHR ''-''")
    case True
    with assms s obtain t' where "t = c # t'" "scan_unsigned u = Some (t', r)"
      by (auto simp: scan_number_def cons_result_Some)
    with True s scan_unsigned_again [OF this(2) assms(2)] show ?thesis
      by (simp add: scan_number_def cons_result_def)
  next
    case False
    with assms s have su: "scan_unsigned s = Some (t, r)" by (simp add: scan_number_def)
    from scan_unsigned_again [OF su assms(2)] s obtain t' where "t = c # t'"
      by (cases t) auto
    with False su s scan_unsigned_again [OF su assms(2)] show ?thesis
      by (simp add: scan_number_def)
  qed
  then show "scan_number (t @ q) = Some (t, q)" and "t \<noteq> []" and "s = t @ r" by simp_all
qed

section \<open>Printing and parsing are inverse\<close>

fun json_wf :: "json \<Rightarrow> bool" where
  "json_wf (JNum t) = number_token t"
| "json_wf (JStr b) = string_token b"
| "json_wf (JArr vs) = (\<forall>v \<in> set vs. json_wf v)"
| "json_wf (JObj ms) = (\<forall>(k, v) \<in> set ms. string_token k \<and> json_wf v)"
| "json_wf _ = True"

lemma number_token_scan: "number_token t \<Longrightarrow> ends_number q \<Longrightarrow> scan_number (t @ q) = Some (t, q)"
  unfolding number_token_def by (rule scan_number_again(1))

lemma number_token_head:
  assumes "number_token t"
  obtains c u where "t = c # u" and "is_digit c \<or> c = CHR ''-''"
proof -
  from assms obtain c u where t: "t = c # u"
    by (cases t) (auto simp: number_token_def scan_number_def)
  with assms have "c = CHR ''-'' \<or> scan_unsigned (c # u) \<noteq> None"
    by (auto simp: number_token_def scan_number_def split: if_splits)
  then have "is_digit c \<or> c = CHR ''-''"
    by (auto simp: scan_unsigned_def scan_int_def is_digit_def split: option.splits if_splits)
  with t show ?thesis by (rule that)
qed

lemma number_head_chars:
  assumes "is_digit c \<or> c = CHR ''-''"
  shows "\<not> is_ws c" and "c \<notin> set ''{}[]\",:ntf''" and "is_digit c \<or> c = CHR ''-''"
  using assms by (auto simp: is_digit_def is_ws_def)

lemma json_print_head:
  assumes "json_wf v"
  obtains c u where "json_print v = c # u" and "\<not> is_ws c" and "c \<notin> set ''}]''"
proof (cases v)
  case (JNum t)
  with assms obtain c u where "t = c # u" "is_digit c \<or> c = CHR ''-''"
    by (auto elim: number_token_head)
  with JNum number_head_chars(1,2) [OF this(2)] show ?thesis by (intro that) auto
qed (use that in \<open>auto simp: is_ws_def\<close>)

lemma skip_ws_Cons [simp]: "\<not> is_ws c \<Longrightarrow> skip_ws (c # s) = c # s"
  by (simp add: skip_ws_def)

lemma not_ws_punct [simp]:
  "\<not> is_ws CHR '',''" "\<not> is_ws CHR '']''" "\<not> is_ws CHR ''}''" "\<not> is_ws CHR '':''"
  "\<not> is_ws dquote" "\<not> is_ws CHR ''{''" "\<not> is_ws CHR ''[''"
  "\<not> is_ws CHR ''n''" "\<not> is_ws CHR ''t''" "\<not> is_ws CHR ''f''"
  by (simp_all add: is_ws_def)

lemma ends_number_punct [simp]:
  "ends_number []" "ends_number (CHR '','' # q)" "ends_number (CHR '']'' # q)" "ends_number (CHR ''}'' # q)"
  by (simp_all add: ends_number_def is_digit_def)

definition reads_back :: "json \<Rightarrow> bool" where
  "reads_back v = (\<forall>n q. 2 * length (json_print v) \<le> n \<longrightarrow> ends_number q \<longrightarrow>
     p_value n (json_print v @ q) = Some (v, q))"

lemma reads_backD:
  "reads_back v \<Longrightarrow> 2 * length (json_print v) \<le> n \<Longrightarrow> ends_number q \<Longrightarrow>
     p_value n (json_print v @ q) = Some (v, q)"
  by (simp add: reads_back_def)

lemma reads_backI:
  assumes "json_print v \<noteq> []"
    and "\<And>m q. 2 * length (json_print v) \<le> Suc m \<Longrightarrow> ends_number q \<Longrightarrow>
      p_value (Suc m) (json_print v @ q) = Some (v, q)"
  shows "reads_back v"
  unfolding reads_back_def
proof (intro allI impI)
  fix n q
  assume n: "2 * length (json_print v) \<le> n" and q: "ends_number q"
  with assms(1) obtain m where "n = Suc m" by (cases n) auto
  with n q show "p_value n (json_print v @ q) = Some (v, q)" by (simp only: assms(2))
qed

lemma p_elems_print:
  "\<forall>v \<in> set vs. reads_back v \<Longrightarrow> vs \<noteq> [] \<Longrightarrow>
     2 * length (commas (map json_print vs)) + 1 \<le> n \<Longrightarrow>
     p_elems n (commas (map json_print vs) @ CHR '']'' # q) = Some (vs, q)"
proof (induction vs arbitrary: n)
  case Nil
  then show ?case by simp
next
  case (Cons v vs)
  then obtain m where n: "n = Suc m" by (cases n) auto
  show ?case
  proof (cases vs)
    case Nil
    with Cons.prems n show ?thesis by (simp add: reads_backD)
  next
    case (Cons w ws)
    let ?rest = "commas (map json_print vs)"
    have shape: "commas (map json_print (v # vs)) = json_print v @ CHR '','' # ?rest"
      using Cons by simp
    have "p_value m (json_print v @ CHR '','' # ?rest @ CHR '']'' # q) =
        Some (v, CHR '','' # ?rest @ CHR '']'' # q)"
      using Cons.prems n shape by (intro reads_backD) auto
    moreover have "p_elems m (?rest @ CHR '']'' # q) = Some (vs, q)"
      using Cons.prems n shape Cons by (intro Cons.IH) auto
    ultimately show ?thesis unfolding shape n by simp
  qed
qed

abbreviation (input) member_text :: "string \<times> json \<Rightarrow> string" where
  "member_text \<equiv> \<lambda>(k, v). dquote # k @ dquote # CHR '':'' # json_print v"

lemma p_members_print:
  "\<forall>(k, v) \<in> set ms. string_token k \<and> reads_back v \<Longrightarrow> ms \<noteq> [] \<Longrightarrow>
     2 * length (commas (map member_text ms)) + 1 \<le> n \<Longrightarrow>
     p_members n (commas (map member_text ms) @ CHR ''}'' # q) = Some (ms, q)"
proof (induction ms arbitrary: n)
  case Nil
  then show ?case by simp
next
  case (Cons kv ms)
  obtain k v where kv: "kv = (k, v)" by fastforce
  from Cons.prems obtain m where n: "n = Suc m" by (cases n) auto
  from Cons.prems kv have k: "string_token k" and v: "reads_back v" by auto
  show ?case
  proof (cases ms)
    case Nil
    with Cons.prems n k v kv show ?thesis by (simp add: reads_backD scan_string_token)
  next
    case (Cons w ws)
    let ?rest = "commas (map member_text ms)"
    have shape: "commas (map member_text (kv # ms)) =
        dquote # k @ dquote # CHR '':'' # json_print v @ CHR '','' # ?rest"
      using Cons by (simp add: kv)
    have "p_value m (json_print v @ CHR '','' # ?rest @ CHR ''}'' # q) =
        Some (v, CHR '','' # ?rest @ CHR ''}'' # q)"
      using Cons.prems(3) n shape v by (intro reads_backD) auto
    moreover have "p_members m (?rest @ CHR ''}'' # q) = Some (ms, q)"
      using Cons.prems n shape Cons by (intro Cons.IH) auto
    ultimately show ?thesis unfolding shape n by (simp add: k kv scan_string_token)
  qed
qed

lemma p_value_print: "json_wf v \<Longrightarrow> reads_back v"
proof (induction v)
  case (JNum t)
  show ?case
  proof (rule reads_backI)
    from JNum show "json_print (JNum t) \<noteq> []" by (auto elim: number_token_head)
    fix m q
    assume q: "ends_number q"
    from JNum obtain c u where t: "t = c # u" and c: "is_digit c \<or> c = CHR ''-''"
      by (auto elim: number_token_head)
    note h = number_head_chars [OF c]
    from JNum q t have "scan_number (c # u @ q) = Some (c # u, q)"
      using number_token_scan [of t q] by simp
    with h show "p_value (Suc m) (json_print (JNum t) @ q) = Some (JNum t, q)"
      by (simp add: t has_prefix_def)
  qed
next
  case (JStr b)
  then show ?case by (intro reads_backI) (simp_all add: scan_string_token)
next
  case (JArr vs)
  then have sub: "\<forall>v \<in> set vs. reads_back v" by simp
  show ?case
  proof (rule reads_backI)
    fix m q
    assume m: "2 * length (json_print (JArr vs)) \<le> Suc m" and q: "ends_number q"
    show "p_value (Suc m) (json_print (JArr vs) @ q) = Some (JArr vs, q)"
    proof (cases vs)
      case Nil
      then show ?thesis by simp
    next
      case (Cons w ws)
      from JArr.prems Cons have "json_wf w" by simp
      then obtain c u where c: "json_print w = c # u" "\<not> is_ws c" "c \<notin> set ''}]''"
        by (rule json_print_head)
      then obtain u' where "commas (map json_print vs) = c # u'"
        using Cons by (cases ws) auto
      moreover have "p_elems m (commas (map json_print vs) @ CHR '']'' # q) = Some (vs, q)"
        using m Cons by (intro p_elems_print [OF sub]) auto
      ultimately show ?thesis using c by simp
    qed
  qed simp
next
  case (JObj ms)
  then have sub: "\<forall>(k, v) \<in> set ms. string_token k \<and> reads_back v"
    by (fastforce simp: snds.simps)
  show ?case
  proof (rule reads_backI)
    fix m q
    assume m: "2 * length (json_print (JObj ms)) \<le> Suc m" and q: "ends_number q"
    show "p_value (Suc m) (json_print (JObj ms) @ q) = Some (JObj ms, q)"
    proof (cases ms)
      case Nil
      then show ?thesis by simp
    next
      case (Cons kv ws)
      obtain u' where "commas (map member_text ms) = dquote # u'"
        using Cons by (cases kv; cases ws) auto
      moreover have "p_members m (commas (map member_text ms) @ CHR ''}'' # q) = Some (ms, q)"
        using m Cons by (intro p_members_print [OF sub]) auto
      ultimately show ?thesis by simp
    qed
  qed simp
qed (rule reads_backI; simp add: has_prefix_def)+

theorem json_parse_print: "json_wf v \<Longrightarrow> json_parse (json_print v) = Some v"
  using reads_backD [OF p_value_print, of v "2 * length (json_print v) + 2" "[]"]
  by (simp add: json_parse_def skip_ws_def del: p_value.simps)

lemma json_valid_print [simp]: "json_wf v \<Longrightarrow> json_valid (json_print v)"
  by (simp add: json_valid_def json_parse_print)

lemma json_compact_print [simp]: "json_wf v \<Longrightarrow> json_compact (json_print v) = Some (json_print v)"
  by (simp add: json_compact_def json_parse_print)

text \<open>What the parser returns is well formed, so compact text is a fixed point of \<open>json_compact\<close>.\<close>

lemma scan_number_is_token: "scan_number s = Some (t, r) \<Longrightarrow> number_token t"
  unfolding number_token_def using scan_number_again(1) [of s t r "[]"] by simp

lemma p_value_wf:
  "p_value n s = Some (v, r) \<Longrightarrow> json_wf v"
  "p_elems n s = Some (vs, r) \<Longrightarrow> \<forall>v \<in> set vs. json_wf v"
  "p_members n s = Some (ms, r) \<Longrightarrow> \<forall>(k, v) \<in> set ms. string_token k \<and> json_wf v"
proof (induction n s and n s and n s arbitrary: v r and vs r and ms r rule: p_value_p_elems_p_members.induct)
  case (2 n s)
  then show ?case
    by (auto split: list.splits if_splits simp: scan_string_is_token scan_number_is_token)
next
  case (4 n s)
  then show ?case
    by (auto split: list.splits if_splits option.splits prod.splits)
next
  case (6 n s)
  then show ?case
    by (auto split: list.splits if_splits option.splits prod.splits simp: scan_string_is_token)
      fastforce+
qed auto

lemma json_parse_wf: "json_parse s = Some v \<Longrightarrow> json_wf v"
  by (auto simp: json_parse_def simp del: p_value.simps dest: p_value_wf(1) split: option.splits if_splits)

lemma json_compact_wf:
  "json_compact s = Some t \<Longrightarrow> \<exists>v. json_parse s = Some v \<and> json_wf v \<and> t = json_print v"
  by (auto simp: json_compact_def dest: json_parse_wf)

section \<open>Quoting of strings\<close>

definition hex_digit :: "nat \<Rightarrow> char" where
  "hex_digit n = ''0123456789abcdef'' ! (n mod 16)"

definition hex_val :: "char \<Rightarrow> nat" where
  "hex_val c = (let n = of_char c in if n \<le> 57 then n - 48 else if n \<le> 70 then n - 55 else n - 87)"

text \<open>The body an encoder writes for a string when HTML escaping is off.\<close>

definition quote_char :: "char \<Rightarrow> string" where
  "quote_char c =
     (if c = dquote \<or> c = backslash then [backslash, c]
      else if c = CHR 0x08 then backslash # ''b''
      else if c = CHR 0x0C then backslash # ''f''
      else if c = CHR 0x0A then backslash # ''n''
      else if c = CHR 0x0D then backslash # ''r''
      else if c = CHR 0x09 then backslash # ''t''
      else if (of_char c :: nat) < 32
        then backslash # ''u00'' @ [hex_digit (of_char c div 16), hex_digit (of_char c)]
      else [c])"

definition json_quote :: "string \<Rightarrow> string" where
  "json_quote s = concat (map quote_char s)"

definition utf8_encode :: "nat \<Rightarrow> string" where
  "utf8_encode n =
     (if n < 128 then [char_of n]
      else if n < 2048 then [char_of (192 + n div 64), char_of (128 + n mod 64)]
      else if n < 65536 then
        [char_of (224 + n div 4096), char_of (128 + n div 64 mod 64), char_of (128 + n mod 64)]
      else
        [char_of (240 + n div 262144), char_of (128 + n div 4096 mod 64),
         char_of (128 + n div 64 mod 64), char_of (128 + n mod 64)])"

definition unescape :: "char \<Rightarrow> char" where
  "unescape e =
     (if e = CHR ''b'' then CHR 0x08 else if e = CHR ''f'' then CHR 0x0C
      else if e = CHR ''n'' then CHR 0x0A else if e = CHR ''r'' then CHR 0x0D
      else if e = CHR ''t'' then CHR 0x09 else e)"

definition hex4 :: "char \<Rightarrow> char \<Rightarrow> char \<Rightarrow> char \<Rightarrow> nat" where
  "hex4 a b c d = ((hex_val a * 16 + hex_val b) * 16 + hex_val c) * 16 + hex_val d"

text \<open>
  The decoded value of a body. A high surrogate followed by an escaped low surrogate is one
  code point; a lone surrogate becomes U+FFFD, as in \<open>encoding/json\<close>.
\<close>

fun json_unquote :: "string \<Rightarrow> string" where
  "json_unquote [] = []"
| "json_unquote (c # s) =
     (if c = backslash then
        (case s of
           [] \<Rightarrow> []
         | e # s' \<Rightarrow>
             if e = CHR ''u'' then
               (case s' of
                  h1 # h2 # h3 # h4 # r \<Rightarrow>
                    (let n = hex4 h1 h2 h3 h4 in
                     if 55296 \<le> n \<and> n < 57344 then
                       (case r of
                          b # u # g1 # g2 # g3 # g4 # r' \<Rightarrow>
                            (let m = hex4 g1 g2 g3 g4 in
                             if b = backslash \<and> u = CHR ''u'' \<and> n < 56320 \<and> 56320 \<le> m \<and> m < 57344
                             then utf8_encode (65536 + (n - 55296) * 1024 + (m - 56320)) @ json_unquote r'
                             else utf8_encode 65533 @ json_unquote r)
                        | _ \<Rightarrow> utf8_encode 65533 @ json_unquote r)
                     else utf8_encode n @ json_unquote r)
                | _ \<Rightarrow> [])
             else unescape e # json_unquote s')
      else c # json_unquote s)"

declare json_unquote.simps [simp del]

lemma less_16: "n < 16 \<Longrightarrow> n \<in> {0, 1, 2, 3, 4, 5, 6, 7, 8, 9, 10, 11, 12, 13, 14, 15 :: nat}"
  unfolding insert_iff empty_iff by arith

lemma hex_digit_val [simp]: "n < 16 \<Longrightarrow> hex_val (hex_digit n) = n"
  by (drule less_16) (auto simp: hex_digit_def hex_val_def)

lemma hex_digit_is_hex [simp]: "is_hex (hex_digit n)"
proof -
  have "\<forall>k \<in> {..<16 :: nat}. is_hex (''0123456789abcdef'' ! k)"
    by (simp add: lessThan_Suc numeral_eq_Suc is_hex_def is_digit_def)
  moreover have "n mod 16 \<in> {..<16}" by simp
  ultimately show ?thesis unfolding hex_digit_def by blast
qed

lemma hex_digit_mod [simp]: "hex_digit (n mod 16) = hex_digit n"
  by (simp add: hex_digit_def)

lemma scan_quote_char:
  "scan_string (quote_char c @ t) = cons_result (quote_char c) (scan_string t)"
proof -
  have z: "is_hex CHR ''0''" by (simp add: is_hex_def is_digit_def)
  show ?thesis
    by (simp add: quote_char_def scan_string_escape scan_string_unicode scan_string_plain
        simple_escape_def z)
qed

lemma cons_result_compose: "cons_result p (cons_result q x) = cons_result (p @ q) x"
  by (cases x) (auto simp: cons_result_def)

lemma scan_json_quote: "scan_string (json_quote s @ t) = cons_result (json_quote s) (scan_string t)"
proof (induction s)
  case Nil
  show ?case by (cases "scan_string t") (auto simp: json_quote_def cons_result_def)
next
  case (Cons c s)
  then show ?case by (simp add: json_quote_def scan_quote_char cons_result_compose)
qed

theorem string_token_quote [simp]: "string_token (json_quote s)"
  by (simp add: string_token_def scan_json_quote scan_string_quote cons_result_def)

lemma json_unquote_plain: "c \<noteq> backslash \<Longrightarrow> json_unquote (c # s) = c # json_unquote s"
  by (subst json_unquote.simps) simp

lemma json_unquote_escape:
  "e \<noteq> CHR ''u'' \<Longrightarrow> json_unquote (backslash # e # s) = unescape e # json_unquote s"
  by (subst json_unquote.simps) simp

lemma json_unquote_unicode:
  "hex4 a b d e < 128 \<Longrightarrow>
     json_unquote (backslash # CHR ''u'' # a # b # d # e # s) =
     char_of (hex4 a b d e) # json_unquote s"
  by (subst json_unquote.simps) (simp add: utf8_encode_def Let_def)

lemma hex4_control:
  assumes "n < 32"
  shows "hex4 CHR ''0'' CHR ''0'' (hex_digit (n div 16)) (hex_digit n) = n"
proof -
  have "hex_val (hex_digit (n div 16)) = n div 16" using assms by (intro hex_digit_val) auto
  moreover have "hex_val (hex_digit n) = n mod 16" using hex_digit_val [of "n mod 16"] by simp
  moreover have "hex_val CHR ''0'' = 0" by (simp add: hex_val_def)
  ultimately show ?thesis by (simp add: hex4_def)
qed

lemma quote_char_cases:
  obtains (Self) "c = dquote \<or> c = backslash" "quote_char c = [backslash, c]"
    | (Named) e where "quote_char c = [backslash, e]" "e \<noteq> CHR ''u''" "unescape e = c"
    | (Control) "(of_char c :: nat) < 32"
        "quote_char c = [backslash, CHR ''u'', CHR ''0'', CHR ''0'', hex_digit (of_char c div 16), hex_digit (of_char c)]"
    | (Plain) "c \<noteq> backslash" "quote_char c = [c]"
proof -
  consider "c = dquote \<or> c = backslash" | "c = CHR 0x08" | "c = CHR 0x0C" | "c = CHR 0x0A"
    | "c = CHR 0x0D" | "c = CHR 0x09"
    | (Ctl) "(of_char c :: nat) < 32" "c \<notin> {dquote, backslash, CHR 0x08, CHR 0x0C, CHR 0x0A, CHR 0x0D, CHR 0x09}"
    | (Pln) "\<not> (of_char c :: nat) < 32" "c \<noteq> dquote" "c \<noteq> backslash"
    by blast
  then show ?thesis
  proof cases
    case 1
    then show ?thesis by (intro Self) (auto simp: quote_char_def)
  next
    case 2
    then show ?thesis by (intro Named [of "CHR ''b''"]) (simp_all add: quote_char_def unescape_def)
  next
    case 3
    then show ?thesis by (intro Named [of "CHR ''f''"]) (simp_all add: quote_char_def unescape_def)
  next
    case 4
    then show ?thesis by (intro Named [of "CHR ''n''"]) (simp_all add: quote_char_def unescape_def)
  next
    case 5
    then show ?thesis by (intro Named [of "CHR ''r''"]) (simp_all add: quote_char_def unescape_def)
  next
    case 6
    then show ?thesis by (intro Named [of "CHR ''t''"]) (simp_all add: quote_char_def unescape_def)
  next
    case Ctl
    then show ?thesis by (intro Control) (simp_all add: quote_char_def)
  next
    case Pln
    then have "quote_char c = [c]"
      by (auto simp: quote_char_def)
    with Pln show ?thesis by (intro Plain)
  qed
qed

lemma unquote_quote_char: "json_unquote (quote_char c @ t) = c # json_unquote t"
proof (cases rule: quote_char_cases [of c])
  case Self
  then show ?thesis by (auto simp: json_unquote_escape unescape_def)
next
  case Control
  then show ?thesis by (simp add: json_unquote_unicode hex4_control)
qed (simp_all add: json_unquote_escape json_unquote_plain)

theorem unquote_quote [simp]: "json_unquote (json_quote s) = s"
  by (induction s) (auto simp: json_quote_def unquote_quote_char json_unquote.simps(1))

section \<open>Compact text has no control characters\<close>

abbreviation (input) printable :: "string \<Rightarrow> bool" where
  "printable s \<equiv> \<forall>c \<in> set s. 32 \<le> (of_char c :: nat)"

lemma hex_printable: "is_hex c \<Longrightarrow> 32 \<le> (of_char c :: nat)"
  by (auto simp: is_hex_def is_digit_def)

lemma digit_printable: "is_digit c \<Longrightarrow> 32 \<le> (of_char c :: nat)"
  by (simp add: is_digit_def)

lemma scan_string_printable: "scan_string s = Some (b, r) \<Longrightarrow> printable b"
proof (induction "length s" arbitrary: s b r rule: less_induct)
  case less
  from less.prems obtain c t where s: "s = c # t" by (cases s) (auto simp: scan_string_Nil)
  from less.prems [unfolded s] show ?case
  proof (cases rule: scan_string_Cons_cases)
    case Quote
    then show ?thesis by simp
  next
    case (Plain b')
    with less.hyps [of t b' r] s show ?thesis by simp
  next
    case (Escape e s' b')
    with less.hyps [of s' b' r] s have "printable b'" by simp
    with Escape show ?thesis by (auto simp: simple_escape_def)
  next
    case (Unicode h1 h2 h3 h4 s' b')
    with less.hyps [of s' b' r] s have "printable b'" by simp
    with Unicode show ?thesis by (simp add: hex_printable)
  qed
qed

lemma scan_digits_printable: "scan_digits s = (d, r) \<Longrightarrow> printable d"
  using scan_digits_append(2) [of s d r] by (auto dest: digit_printable)

lemma scan_number_printable:
  assumes "scan_number s = Some (t, r)"
  shows "printable t"
proof -
  have i: "printable i" if "scan_int u = Some (i, q)" for u i q
    using that by (auto simp: scan_int_def split: list.splits if_splits dest: scan_digits_printable)
  have f: "printable i" if "scan_frac u = Some (i, q)" for u i q
    using that
    by (auto simp: scan_frac_def split: list.splits if_splits prod.splits dest!: scan_digits_printable)
  have e: "printable i" if "scan_exp u = Some (i, q)" for u i q
    using that
    by (auto simp: scan_exp_def split: list.splits if_splits prod.splits dest!: scan_digits_printable)
  have u: "printable i" if "scan_unsigned u = Some (i, q)" for u i q
    using that by (auto simp: scan_unsigned_def split: option.splits prod.splits dest!: i f e)
  show ?thesis
    using assms
    by (auto simp: scan_number_def cons_result_Some split: list.splits if_splits dest!: u)
qed

lemma commas_printable: "\<forall>s \<in> set ss. printable s \<Longrightarrow> printable (commas ss)"
  by (induction ss rule: commas.induct) auto

lemma json_print_printable: "json_wf v \<Longrightarrow> printable (json_print v)"
proof (induction v)
  case (JNum t)
  then show ?case by (auto simp: number_token_def dest: scan_number_printable)
next
  case (JStr b)
  then show ?case by (auto simp: string_token_def dest: scan_string_printable)
next
  case (JArr vs)
  then have "printable (commas (map json_print vs))" by (intro commas_printable) auto
  then show ?case by auto
next
  case (JObj ms)
  have "printable (commas (map member_text ms))"
  proof (intro commas_printable ballI)
    fix s c
    assume "s \<in> set (map member_text ms)" and c: "c \<in> set s"
    then obtain k v where kv: "(k, v) \<in> set ms" "s = dquote # k @ dquote # CHR '':'' # json_print v"
      by auto
    with JObj have "string_token k" "printable (json_print v)" by (fastforce simp: snds.simps)+
    then show "32 \<le> (of_char c :: nat)"
      using kv(2) c by (auto simp: string_token_def dest: scan_string_printable)
  qed
  then show ?case by auto
qed auto

end
