(* ===== verification/Messages.thy ===== *)
theory Messages
  imports Errors Json
begin

text \<open>
  internal/jsonrpc2/messages.go and the wire structures of internal/jsonrpc2/wire.go:
  request identifiers, requests and responses, the combined wire form, and
  \<open>EncodeMessage\<close> and \<open>DecodeMessage\<close>. The decoder behind \<open>DecodeMessage\<close> is the
  third-party package segmentio/encoding/json: it is the parameter \<open>unmarshal\<close>, and
  \<open>decodes_wire\<close> states what it is documented to do on the compact texts an encoder
  emits. The field \<open>Extra\<close> of requests and responses never reaches the wire and no code
  reads it; it is left out.
\<close>

section \<open>Identifiers\<close>

text \<open>A finite \<open>float64\<close> is \<open>m * 2 ^ e\<close> for integers \<open>m\<close> and \<open>e\<close>.\<close>

datatype float64 = Float64 int int

fun float_trunc :: "float64 \<Rightarrow> int" where
  "float_trunc (Float64 m e) =
     (if 0 \<le> e then m * 2 ^ nat e else sgn m * (\<bar>m\<bar> div 2 ^ nat (- e)))"

text \<open>
  Go's conversion \<open>int64(f)\<close> truncates towards zero; out of range the result depends on
  the implementation, and amd64 gives the smallest \<open>int64\<close>.
\<close>

definition float_to_int64 :: "float64 \<Rightarrow> int64" where
  "float_to_int64 f =
     (let t = float_trunc f in
      if - (2 ^ 63) \<le> t \<and> t < 2 ^ 63 then word_of_int t else word_of_int (- (2 ^ 63)))"

fun bit_len :: "nat \<Rightarrow> nat" where
  "bit_len n = (if n = 0 then 0 else Suc (bit_len (n div 2)))"

declare bit_len.simps [simp del]

text \<open>The \<open>float64\<close> nearest to an integer, ties to even (53 significant bits).\<close>

definition float_of_int :: "int \<Rightarrow> float64" where
  "float_of_int n =
     (let a = nat \<bar>n\<bar> in
      if a < 2 ^ 53 then Float64 n 0
      else
        (let k = bit_len a - 53; q = a div 2 ^ k; r = a mod 2 ^ k;
             q' = (if 2 * r > 2 ^ k \<or> (2 * r = 2 ^ k \<and> odd q) then q + 1 else q)
         in Float64 (sgn n * int q') (int k)))"

text \<open>The dynamic values an \<open>any\<close> field holds: on encoding an ID's, on decoding a JSON value's.\<close>

datatype go_any = AnyNil | AnyInt64 int64 | AnyFloat float64 | AnyString string | AnyOther string

text \<open>\<open>ID{value any}\<close>: nil, an \<open>int64\<close> or a string.\<close>

datatype rpc_id = NoID | Int64ID int64 | StringID string

fun id_value :: "rpc_id \<Rightarrow> go_any" where
  "id_value NoID = AnyNil"
| "id_value (Int64ID i) = AnyInt64 i"
| "id_value (StringID s) = AnyString s"

definition id_is_valid :: "rpc_id \<Rightarrow> bool" where
  "id_is_valid i = (i \<noteq> NoID)"

definition invalid_id_type :: "string \<Rightarrow> go_error" where
  "invalid_id_type t = errorf_w_v (ErrVar ErrParse) (''invalid ID type '' @ t)"

fun make_id :: "go_any \<Rightarrow> go_error + rpc_id" where
  "make_id AnyNil = Inr NoID"
| "make_id (AnyFloat f) = Inr (Int64ID (float_to_int64 f))"
| "make_id (AnyString s) = Inr (StringID s)"
| "make_id (AnyInt64 i) = Inl (invalid_id_type ''int64'')"
| "make_id (AnyOther t) = Inl (invalid_id_type t)"

section \<open>Requests and responses\<close>

text \<open>
  A Go value passed as \<open>any\<close> to be marshalled is represented by what \<open>jsonMarshal\<close>
  returns for it: an error, or its JSON text. The nil interface is \<open>None\<close>.
\<close>

type_synonym go_value = "go_error + string"

definition marshal_to_raw :: "go_value option \<Rightarrow> string \<times> go_error option" where
  "marshal_to_raw v =
     (case v of
        None \<Rightarrow> ([], None)
      | Some (Inl e) \<Rightarrow> ([], Some e)
      | Some (Inr data) \<Rightarrow> (data, None))"

record request =
  req_id :: rpc_id
  req_method :: string
  req_params :: string

record response =
  resp_id :: rpc_id
  resp_result :: string
  resp_error :: "go_error option"

datatype message = MsgRequest request | MsgResponse response

definition is_call :: "request \<Rightarrow> bool" where
  "is_call r = id_is_valid (req_id r)"

definition new_notification :: "string \<Rightarrow> go_value option \<Rightarrow> request \<times> go_error option" where
  "new_notification m params =
     (case marshal_to_raw params of (p, merr) \<Rightarrow>
        (\<lparr>req_id = NoID, req_method = m, req_params = p\<rparr>, merr))"

definition new_call :: "rpc_id \<Rightarrow> string \<Rightarrow> go_value option \<Rightarrow> request \<times> go_error option" where
  "new_call i m params =
     (case marshal_to_raw params of (p, merr) \<Rightarrow>
        (\<lparr>req_id = i, req_method = m, req_params = p\<rparr>, merr))"

definition new_response ::
  "rpc_id \<Rightarrow> go_value option \<Rightarrow> go_error option \<Rightarrow> response \<times> go_error option" where
  "new_response i result rerr =
     (case marshal_to_raw result of (r, merr) \<Rightarrow>
        (\<lparr>resp_id = i, resp_result = r, resp_error = rerr\<rparr>, merr))"

section \<open>The wire form\<close>

record wire_combined =
  w_version :: string
  w_id :: go_any
  w_method :: string
  w_params :: string
  w_result :: string
  w_error :: "wire_error option"

definition wire_version :: string where "wire_version = ''2.0''"

fun marshal_message :: "message \<Rightarrow> wire_combined" where
  "marshal_message (MsgRequest r) =
     \<lparr>w_version = wire_version, w_id = id_value (req_id r), w_method = req_method r,
      w_params = req_params r, w_result = [], w_error = None\<rparr>"
| "marshal_message (MsgResponse r) =
     \<lparr>w_version = wire_version, w_id = id_value (resp_id r), w_method = [],
      w_params = [], w_result = resp_result r, w_error = to_wire_error (resp_error r)\<rparr>"

text \<open>
  The JSON object \<open>encoding/json\<close> writes for \<open>wireCombined\<close>, by its struct tags: the
  version always, every other field unless empty; raw messages are compacted and must be
  valid JSON.
\<close>

definition str_json :: "string \<Rightarrow> json" where
  "str_json s = JStr (json_quote s)"

definition int_json :: "int64 \<Rightarrow> json" where
  "int_json i = JNum (show_int (sint i))"

definition member :: "string \<Rightarrow> json \<Rightarrow> string \<times> json" where
  "member k v = (json_quote k, v)"

definition raw_member :: "string \<Rightarrow> string \<Rightarrow> (string \<times> json) list option" where
  "raw_member k raw =
     (if raw = [] then Some [] else map_option (\<lambda>v. [member k v]) (json_parse raw))"

fun id_member :: "go_any \<Rightarrow> (string \<times> json) list" where
  "id_member (AnyInt64 i) = [member ''id'' (int_json i)]"
| "id_member (AnyString s) = [member ''id'' (str_json s)]"
| "id_member _ = []"

definition error_member :: "wire_error option \<Rightarrow> (string \<times> json) list option" where
  "error_member e =
     (case e of
        None \<Rightarrow> Some []
      | Some w \<Rightarrow>
          map_option
            (\<lambda>d. [member ''error'' (JObj ([member ''code'' (int_json (wcode w)),
                                          member ''message'' (str_json (wmessage w))] @ d))])
            (raw_member ''data'' (wdata w)))"

definition wire_json :: "wire_combined \<Rightarrow> json option" where
  "wire_json w =
     (case (raw_member ''params'' (w_params w), raw_member ''result'' (w_result w), error_member (w_error w)) of
        (Some p, Some r, Some e) \<Rightarrow>
          Some (JObj ([member ''jsonrpc'' (str_json (w_version w))] @ id_member (w_id w)
            @ (if w_method w = [] then [] else [member ''method'' (str_json (w_method w))]) @ p @ r @ e))
      | _ \<Rightarrow> None)"

definition encode_message :: "message \<Rightarrow> go_error + string" where
  "encode_message m =
     (case wire_json (marshal_message m) of
        None \<Rightarrow> Inl (errorf_prefix ''marshaling jsonrpc message'' (Opaque ''invalid raw message''))
      | Some v \<Rightarrow> Inr (json_print v))"

section \<open>DecodeMessage\<close>

text \<open>The verb \<open>%q\<close>, on printable ASCII.\<close>

definition go_q :: "string \<Rightarrow> string" where
  "go_q s = CHR 0x22 # json_quote s @ [CHR 0x22]"

definition decode_message :: "(string \<Rightarrow> go_error + wire_combined) \<Rightarrow> string \<Rightarrow> go_error + message" where
  "decode_message unmarshal data =
     (case unmarshal data of
        Inl err \<Rightarrow> Inl (errorf_prefix ''unmarshaling jsonrpc message'' err)
      | Inr msg \<Rightarrow>
          if w_version msg \<noteq> wire_version then
            Inl (Opaque (''invalid message version tag '' @ go_q (w_version msg) @ ''; expected '' @ go_q wire_version))
          else
            (case make_id (w_id msg) of
               Inl err \<Rightarrow> Inl err
             | Inr i \<Rightarrow>
                 if w_method msg \<noteq> [] then
                   Inr (MsgRequest \<lparr>req_id = i, req_method = w_method msg, req_params = w_params msg\<rparr>)
                 else if \<not> id_is_valid i then Inl (ErrVar ErrInvalidRequest)
                 else
                   Inr (MsgResponse \<lparr>resp_id = i, resp_result = w_result msg,
                                     resp_error = map_option WirePtr (w_error msg)\<rparr>)))"

section \<open>What the third-party decoder is documented to do\<close>

definition lookup_member :: "(string \<times> json) list \<Rightarrow> string \<Rightarrow> json option" where
  "lookup_member ms k = map_of (rev (map (\<lambda>(k, v). (json_unquote k, v)) ms)) k"

definition read_int :: "string \<Rightarrow> int option" where
  "read_int s =
     (case s of
        [] \<Rightarrow> None
      | c # r \<Rightarrow>
          if c = CHR ''-'' then (if r \<noteq> [] \<and> list_all is_digit r then Some (- int (read_nat r)) else None)
          else (if list_all is_digit s then Some (int (read_nat s)) else None))"

fun any_of_json :: "json option \<Rightarrow> go_any option" where
  "any_of_json None = Some AnyNil"
| "any_of_json (Some JNull) = Some AnyNil"
| "any_of_json (Some (JStr b)) = Some (AnyString (json_unquote b))"
| "any_of_json (Some (JNum t)) = map_option (\<lambda>n. AnyFloat (float_of_int n)) (read_int t)"
| "any_of_json (Some (JArr vs)) = Some (AnyOther ''[]interface {}'')"
| "any_of_json (Some (JObj ms)) = Some (AnyOther ''map[string]interface {}'')"
| "any_of_json (Some _) = Some (AnyOther ''bool'')"

fun string_of_json :: "json option \<Rightarrow> string option" where
  "string_of_json None = Some []"
| "string_of_json (Some (JStr b)) = Some (json_unquote b)"
| "string_of_json _ = None"

definition raw_of_json :: "json option \<Rightarrow> string" where
  "raw_of_json v = (case v of None \<Rightarrow> [] | Some j \<Rightarrow> json_print j)"

fun int64_of_json :: "json option \<Rightarrow> int64 option" where
  "int64_of_json None = Some 0"
| "int64_of_json (Some (JNum t)) =
     (case read_int t of
        None \<Rightarrow> None
      | Some n \<Rightarrow> if - (2 ^ 63) \<le> n \<and> n < 2 ^ 63 then Some (word_of_int n) else None)"
| "int64_of_json _ = None"

fun wire_error_of_json :: "json option \<Rightarrow> wire_error option option" where
  "wire_error_of_json None = Some None"
| "wire_error_of_json (Some JNull) = Some None"
| "wire_error_of_json (Some (JObj ms)) =
     (case (int64_of_json (lookup_member ms ''code''), string_of_json (lookup_member ms ''message'')) of
        (Some c, Some m) \<Rightarrow>
          Some (Some \<lparr>wcode = c, wmessage = m, wdata = raw_of_json (lookup_member ms ''data'')\<rparr>)
      | _ \<Rightarrow> None)"
| "wire_error_of_json _ = None"

text \<open>
  The struct a decoder fills from an object, field by field and with exact, case-sensitive
  names (\<open>None\<close> where a field has a value outside what is stated here, such as a number
  with a fraction as the identifier).
\<close>

fun wire_of_json :: "json \<Rightarrow> wire_combined option" where
  "wire_of_json (JObj ms) =
     (case (string_of_json (lookup_member ms ''jsonrpc''), any_of_json (lookup_member ms ''id''),
            string_of_json (lookup_member ms ''method''), wire_error_of_json (lookup_member ms ''error'')) of
        (Some v, Some i, Some m, Some e) \<Rightarrow>
          Some \<lparr>w_version = v, w_id = i, w_method = m,
                w_params = raw_of_json (lookup_member ms ''params''),
                w_result = raw_of_json (lookup_member ms ''result''), w_error = e\<rparr>
      | _ \<Rightarrow> None)"
| "wire_of_json _ = None"

definition decodes_wire :: "(string \<Rightarrow> go_error + wire_combined) \<Rightarrow> bool" where
  "decodes_wire unmarshal \<longleftrightarrow>
     (\<forall>v w. json_wf v \<longrightarrow> wire_of_json v = Some w \<longrightarrow> unmarshal (json_print v) = Inr w)"

text \<open>A decoder with this behaviour: parse the text, fill the struct.\<close>

definition ref_unmarshal :: "string \<Rightarrow> go_error + wire_combined" where
  "ref_unmarshal t =
     (case json_parse t of
        None \<Rightarrow> Inl (Opaque ''invalid JSON'')
      | Some v \<Rightarrow> (case wire_of_json v of None \<Rightarrow> Inl (Opaque ''cannot unmarshal'') | Some w \<Rightarrow> Inr w))"

lemma decodes_wire_ref: "decodes_wire ref_unmarshal"
  by (simp add: decodes_wire_def ref_unmarshal_def json_parse_print)

section \<open>Integers as JSON numbers\<close>

lemma show_nat_head: "0 < n \<Longrightarrow> hd (show_nat n) \<noteq> CHR ''0''"
proof (induction n rule: show_nat.induct)
  case (1 n)
  show ?case
  proof (cases "n < 10")
    case True
    with "1.prems" of_char_digit [of n] have "digit_char n \<noteq> CHR ''0''" by auto
    with True show ?thesis by (subst show_nat.simps) simp
  next
    case False
    with "1.IH" have "hd (show_nat (n div 10)) \<noteq> CHR ''0''" by simp
    with False show ?thesis by (subst show_nat.simps) (simp add: hd_append)
  qed
qed

lemma show_nat_0 [simp]: "show_nat 0 = ''0''"
  by code_simp

lemma scan_unsigned_show_nat: "scan_unsigned (show_nat n) = Some (show_nat n, [])"
proof -
  have d: "scan_digits (show_nat n) = (show_nat n, [])"
    using show_nat_digits [of n] by (simp add: scan_digits_def)
  obtain c r where s: "show_nat n = c # r" by (cases "show_nat n") auto
  have "scan_int (show_nat n) = Some (show_nat n, [])"
  proof (cases "n = 0")
    case False
    with show_nat_head [of n] s have "c \<noteq> CHR ''0''" by simp
    moreover have "is_digit c" using show_nat_digits [of n] s by simp
    ultimately show ?thesis using d s by (simp add: scan_int_def)
  qed (simp add: scan_int_def)
  then show ?thesis by (simp add: scan_unsigned_def scan_frac_def scan_exp_def)
qed

lemma show_nat_no_minus: "show_nat n \<noteq> CHR ''-'' # r"
  using show_nat_digits [of n] by (auto simp: is_digit_def)

lemma number_token_show_int [simp]: "number_token (show_int i)"
proof (cases "i < 0")
  case True
  then show ?thesis
    by (simp add: number_token_def scan_number_def show_int_def scan_unsigned_show_nat cons_result_def)
next
  case False
  obtain c r where s: "show_nat (nat i) = c # r" by (cases "show_nat (nat i)") auto
  with show_nat_no_minus [of "nat i" r] have "c \<noteq> CHR ''-''" by auto
  with False s scan_unsigned_show_nat [of "nat i"] show ?thesis
    by (simp add: number_token_def scan_number_def show_int_def)
qed

lemma read_int_show_int [simp]: "read_int (show_int i) = Some i"
proof (cases "i < 0")
  case True
  then show ?thesis
    using show_nat_digits [of "nat (- i)"]
    by (simp add: read_int_def show_int_def list_all_iff)
next
  case False
  obtain c r where s: "show_nat (nat i) = c # r" by (cases "show_nat (nat i)") auto
  with show_nat_no_minus [of "nat i" r] have "c \<noteq> CHR ''-''" by auto
  with False s show_nat_digits [of "nat i"] read_show_nat [of "nat i"] show ?thesis
    by (simp add: read_int_def show_int_def list_all_iff)
qed

section \<open>Identifiers through \<open>float64\<close>\<close>

lemma bit_len_2_53: "bit_len (2 ^ 53) = 54"
  by (simp add: bit_len.simps)

lemma float_of_int_small: "\<bar>n\<bar> < 2 ^ 53 \<Longrightarrow> float_of_int n = Float64 n 0"
  by (simp add: float_of_int_def nat_less_iff Let_def)

lemma float_of_int_trunc:
  assumes "\<bar>n\<bar> \<le> 2 ^ 53"
  shows "float_trunc (float_of_int n) = n"
proof (cases "\<bar>n\<bar> < 2 ^ 53")
  case True
  then show ?thesis by (simp add: float_of_int_small)
next
  case False
  with assms have "n = 2 ^ 53 \<or> n = - (2 ^ 53)" by linarith
  then show ?thesis
    using bit_len_2_53 by (auto simp: float_of_int_def Let_def)
qed

lemma float_to_int64_exact:
  assumes "\<bar>n\<bar> \<le> 2 ^ 53"
  shows "float_to_int64 (float_of_int n) = word_of_int n"
proof -
  from assms have "- (2 ^ 63) \<le> n \<and> n < 2 ^ 63" by auto
  with float_of_int_trunc [OF assms] show ?thesis by (simp add: float_to_int64_def)
qed

lemma make_id_exact:
  "\<bar>sint i\<bar> \<le> 2 ^ 53 \<Longrightarrow> make_id (AnyFloat (float_of_int (sint i))) = Inr (Int64ID i)"
  by (simp add: float_to_int64_exact)

section \<open>Encoded messages are read back\<close>

lemma lookup_member_Nil [simp]: "lookup_member [] k = None"
  by (simp add: lookup_member_def)

lemma lookup_member_single [simp]:
  "lookup_member [member k v] k' = (if k = k' then Some v else None)"
  by (simp add: lookup_member_def member_def)

lemma lookup_member_append [simp]:
  "lookup_member (xs @ ys) k =
     (case lookup_member ys k of Some v \<Rightarrow> Some v | None \<Rightarrow> lookup_member xs k)"
  unfolding lookup_member_def by (simp add: map_add_def)

lemma lookup_member_Cons [simp]:
  "lookup_member (member k v # ys) k' =
     (case lookup_member ys k' of Some w \<Rightarrow> Some w | None \<Rightarrow> if k = k' then Some v else None)"
  using lookup_member_append [of "[member k v]" ys k']
  by (simp only: append_Cons append_Nil lookup_member_single)

definition compact_raw :: "string \<Rightarrow> bool" where
  "compact_raw raw = (raw = [] \<or> json_compact raw = Some raw)"

lemma compact_rawD:
  assumes "compact_raw raw" and "raw \<noteq> []"
  obtains v where "json_parse raw = Some v" "json_wf v" "json_print v = raw"
  using assms json_compact_wf [of raw raw] by (auto simp: compact_raw_def)

lemma raw_member_compact:
  assumes "compact_raw raw"
  obtains p where "raw_member k raw = Some p" and "\<forall>(k', v) \<in> set p. string_token k' \<and> json_wf v"
    and "raw_of_json (lookup_member p k) = raw" and "\<And>k'. k' \<noteq> k \<Longrightarrow> lookup_member p k' = None"
proof (cases "raw = []")
  case True
  then show ?thesis by (intro that [of "[]"]) (simp_all add: raw_member_def raw_of_json_def)
next
  case False
  with assms obtain v where "json_parse raw = Some v" "json_wf v" "json_print v = raw"
    by (rule compact_rawD)
  with False show ?thesis
    by (intro that [of "[member k v]"]) (simp_all add: raw_member_def raw_of_json_def, simp add: member_def)
qed

fun exact_id :: "rpc_id \<Rightarrow> bool" where
  "exact_id (Int64ID i) = (\<bar>sint i\<bar> \<le> 2 ^ 53)"
| "exact_id _ = True"

lemma int_json_wf [simp]: "json_wf (int_json i)"
  by (simp add: int_json_def)

lemma str_json_wf [simp]: "json_wf (str_json s)"
  by (simp add: str_json_def)

lemma string_of_str_json [simp]: "string_of_json (Some (str_json s)) = Some s"
  by (simp add: str_json_def)

lemma int64_of_int_json [simp]: "int64_of_json (Some (int_json c)) = Some c"
  using sint_greater_eq [of c] sint_less [of c] by (simp add: int_json_def)

text \<open>The dynamic value an encoded identifier is decoded to, and that \<open>MakeID\<close> restores it.\<close>

fun any_back :: "rpc_id \<Rightarrow> go_any" where
  "any_back NoID = AnyNil"
| "any_back (Int64ID i) = AnyFloat (float_of_int (sint i))"
| "any_back (StringID s) = AnyString s"

lemma id_member_back:
  "any_of_json (lookup_member (id_member (id_value i)) ''id'') = Some (any_back i)"
  by (cases i) (simp_all add: int_json_def str_json_def)

lemma id_member_other: "k \<noteq> ''id'' \<Longrightarrow> lookup_member (id_member (id_value i)) k = None"
  by (cases i) simp_all

lemma id_member_wf: "\<forall>(k, v) \<in> set (id_member (id_value i)). string_token k \<and> json_wf v"
  by (cases i) (simp_all add: member_def)

lemma make_id_back: "exact_id i \<Longrightarrow> make_id (any_back i) = Inr i"
  by (cases i) (simp_all add: float_to_int64_exact)

lemma error_member_compact:
  assumes "\<And>w. e = Some w \<Longrightarrow> compact_raw (wdata w)"
  shows "\<exists>p. error_member e = Some p \<and> (\<forall>(k, v) \<in> set p. string_token k \<and> json_wf v) \<and>
    wire_error_of_json (lookup_member p ''error'') = Some e \<and>
    (\<forall>k. k \<noteq> ''error'' \<longrightarrow> lookup_member p k = None)"
proof (cases e)
  case None
  then show ?thesis by (intro exI [of _ "[]"]) (simp add: error_member_def)
next
  case (Some w)
  with assms have "compact_raw (wdata w)" by blast
  then obtain d where d: "raw_member ''data'' (wdata w) = Some d"
    "\<forall>(k, v) \<in> set d. string_token k \<and> json_wf v"
    "raw_of_json (lookup_member d ''data'') = wdata w"
    "\<And>k. k \<noteq> ''data'' \<Longrightarrow> lookup_member d k = None"
    by (rule raw_member_compact [where k = "''data''"]) blast
  let ?o = "JObj ([member ''code'' (int_json (wcode w)), member ''message'' (str_json (wmessage w))] @ d)"
  have "json_wf ?o" using d(2) by (simp add: member_def)
  moreover have "wire_error_of_json (Some ?o) = Some (Some w)"
    using d(3,4) by (auto split: option.splits)
  ultimately show ?thesis
    using Some d(1) by (intro exI [of _ "[member ''error'' ?o]"]) (simp add: error_member_def, simp add: member_def)
qed

text \<open>What the encoder writes is well formed and is decoded to the same fields.\<close>

definition wire_back :: "rpc_id \<Rightarrow> wire_combined \<Rightarrow> wire_combined" where
  "wire_back i w = w\<lparr>w_id := any_back i\<rparr>"

lemma wire_json_back:
  assumes "w_id w = id_value i" and "compact_raw (w_params w)" and "compact_raw (w_result w)"
    and "\<And>e. w_error w = Some e \<Longrightarrow> compact_raw (wdata e)"
  obtains v where "wire_json w = Some v" and "json_wf v" and "wire_of_json v = Some (wire_back i w)"
proof -
  obtain p where p: "raw_member ''params'' (w_params w) = Some p"
    "\<forall>(k, v) \<in> set p. string_token k \<and> json_wf v"
    "raw_of_json (lookup_member p ''params'') = w_params w"
    "\<And>k. k \<noteq> ''params'' \<Longrightarrow> lookup_member p k = None"
    using assms(2) by (rule raw_member_compact [where k = "''params''"]) blast
  obtain r where r: "raw_member ''result'' (w_result w) = Some r"
    "\<forall>(k, v) \<in> set r. string_token k \<and> json_wf v"
    "raw_of_json (lookup_member r ''result'') = w_result w"
    "\<And>k. k \<noteq> ''result'' \<Longrightarrow> lookup_member r k = None"
    using assms(3) by (rule raw_member_compact [where k = "''result''"]) blast
  from error_member_compact [of "w_error w", OF assms(4)] obtain e where e: "error_member (w_error w) = Some e"
    "\<forall>(k, v) \<in> set e. string_token k \<and> json_wf v"
    "wire_error_of_json (lookup_member e ''error'') = Some (w_error w)"
    "\<forall>k. k \<noteq> ''error'' \<longrightarrow> lookup_member e k = None"
    by auto
  define m where "m = (if w_method w = [] then [] else [member ''method'' (str_json (w_method w))])"
  have m: "\<forall>(k, v) \<in> set m. string_token k \<and> json_wf v"
    by (simp add: m_def member_def)
  have m': "string_of_json (lookup_member m ''method'') = Some (w_method w)"
    "\<And>k. k \<noteq> ''method'' \<Longrightarrow> lookup_member m k = None"
    by (simp_all add: m_def)
  define ms where "ms = [member ''jsonrpc'' (str_json (w_version w))] @ id_member (id_value i) @ m @ p @ r @ e"
  have "wire_json w = Some (JObj ms)"
    using assms(1) p(1) r(1) e(1) by (simp add: wire_json_def ms_def m_def)
  moreover have "json_wf (JObj ms)"
    using p(2) r(2) e(2) m id_member_wf [of i] by (auto simp: ms_def member_def)
  moreover have "wire_of_json (JObj ms) = Some (wire_back i w)"
  proof -
    have "lookup_member ms ''jsonrpc'' = Some (str_json (w_version w))"
      "lookup_member ms ''id'' = lookup_member (id_member (id_value i)) ''id''"
      "lookup_member ms ''method'' = lookup_member m ''method''"
      "lookup_member ms ''params'' = lookup_member p ''params''"
      "lookup_member ms ''result'' = lookup_member r ''result''"
      "lookup_member ms ''error'' = lookup_member e ''error''"
      using p(4) r(4) e(4) m'(2) id_member_other by (simp_all add: ms_def split: option.splits)
    then show ?thesis
      using p(3) r(3) e(3) m'(1) by (simp add: id_member_back wire_back_def)
  qed
  ultimately show ?thesis by (rule that)
qed

section \<open>Round trip\<close>

definition wf_message :: "message \<Rightarrow> bool" where
  "wf_message m =
     (case m of
        MsgRequest r \<Rightarrow> req_method r \<noteq> [] \<and> exact_id (req_id r) \<and> compact_raw (req_params r)
      | MsgResponse r \<Rightarrow> id_is_valid (resp_id r) \<and> exact_id (resp_id r) \<and> compact_raw (resp_result r)
          \<and> (case to_wire_error (resp_error r) of None \<Rightarrow> True | Some w \<Rightarrow> compact_raw (wdata w)))"

text \<open>What the peer sees of a message: an error is flattened to its wire form.\<close>

fun on_wire :: "message \<Rightarrow> message" where
  "on_wire (MsgRequest r) = MsgRequest r"
| "on_wire (MsgResponse r) = MsgResponse (r\<lparr>resp_error := map_option WirePtr (to_wire_error (resp_error r))\<rparr>)"

fun message_id :: "message \<Rightarrow> rpc_id" where
  "message_id (MsgRequest r) = req_id r"
| "message_id (MsgResponse r) = resp_id r"

definition raw_parts_ok :: "message \<Rightarrow> bool" where
  "raw_parts_ok m =
     (case m of
        MsgRequest r \<Rightarrow> compact_raw (req_params r)
      | MsgResponse r \<Rightarrow> compact_raw (resp_result r)
          \<and> (case to_wire_error (resp_error r) of None \<Rightarrow> True | Some w \<Rightarrow> compact_raw (wdata w)))"

lemma wf_message_raw: "wf_message m \<Longrightarrow> raw_parts_ok m"
  by (cases m) (simp_all add: wf_message_def raw_parts_ok_def)

lemma encode_back:
  assumes "raw_parts_ok m"
  obtains v where "encode_message m = Inr (json_print v)" and "json_wf v"
    and "wire_of_json v = Some (wire_back (message_id m) (marshal_message m))"
proof (rule wire_json_back [where w = "marshal_message m" and i = "message_id m"])
  show "w_id (marshal_message m) = id_value (message_id m)" by (cases m) simp_all
  show "compact_raw (w_params (marshal_message m))"
    using assms by (cases m) (auto simp: raw_parts_ok_def compact_raw_def)
  show "compact_raw (w_result (marshal_message m))"
    using assms by (cases m) (auto simp: raw_parts_ok_def compact_raw_def)
  show "compact_raw (wdata e)" if "w_error (marshal_message m) = Some e" for e
    using assms that by (cases m) (auto simp: raw_parts_ok_def)
  fix v
  assume "wire_json (marshal_message m) = Some v" "json_wf v"
    "wire_of_json v = Some (wire_back (message_id m) (marshal_message m))"
  then show thesis by (intro that [of v]) (simp_all add: encode_message_def)
qed

lemma decode_encode_message:
  assumes "decodes_wire unmarshal" and "wf_message m"
  shows "\<exists>t. encode_message m = Inr t \<and> decode_message unmarshal t = Inr (on_wire m)"
proof -
  from wf_message_raw [OF assms(2)] obtain v where e: "encode_message m = Inr (json_print v)" and "json_wf v"
    and "wire_of_json v = Some (wire_back (message_id m) (marshal_message m))"
    by (rule encode_back)
  with assms(1) have u: "unmarshal (json_print v) = Inr (wire_back (message_id m) (marshal_message m))"
    by (simp add: decodes_wire_def)
  have "decode_message unmarshal (json_print v) = Inr (on_wire m)"
  proof (cases m)
    case (MsgRequest r)
    with assms(2) have "make_id (any_back (req_id r)) = Inr (req_id r)" "req_method r \<noteq> []"
      by (simp_all add: wf_message_def make_id_back)
    with u MsgRequest show ?thesis by (simp add: decode_message_def wire_back_def)
  next
    case (MsgResponse r)
    with assms(2) have "make_id (any_back (resp_id r)) = Inr (resp_id r)" "id_is_valid (resp_id r)"
      by (simp_all add: wf_message_def make_id_back)
    with u MsgResponse show ?thesis by (simp add: decode_message_def wire_back_def)
  qed
  with e show ?thesis by blast
qed

text \<open>An encoded message is one line: no byte of it is a line feed or a carriage return.\<close>

lemma encode_message_line:
  assumes "encode_message m = Inr t"
  shows "CHR 0x0A \<notin> set t" and "CHR 0x0D \<notin> set t" and "t \<noteq> []"
proof -
  from assms obtain v where v: "wire_json (marshal_message m) = Some v" "t = json_print v"
    by (auto simp: encode_message_def split: option.splits)
  from v(1) obtain p r e where ms:
    "raw_member ''params'' (w_params (marshal_message m)) = Some p"
    "raw_member ''result'' (w_result (marshal_message m)) = Some r"
    "error_member (w_error (marshal_message m)) = Some e"
    by (auto simp: wire_json_def split: option.splits)
  have raw: "\<forall>(k', v) \<in> set q. string_token k' \<and> json_wf v" if "raw_member k x = Some q" for k x q
    using that by (auto simp: raw_member_def member_def json_parse_wf split: if_splits)
  have "\<forall>(k, v) \<in> set e. string_token k \<and> json_wf v"
    using ms(3) raw by (fastforce simp: error_member_def member_def split: option.splits)
  moreover have "\<forall>(k, v) \<in> set (id_member (w_id (marshal_message m))). string_token k \<and> json_wf v"
    using id_member_wf by (cases m) simp_all
  ultimately have "json_wf v"
    using v(1) ms raw [OF ms(1)] raw [OF ms(2)] by (auto simp: wire_json_def member_def)
  then have "\<forall>c \<in> set t. 32 \<le> (of_char c :: nat)"
    using v(2) by (simp add: json_print_printable)
  then show "CHR 0x0A \<notin> set t" and "CHR 0x0D \<notin> set t" by auto
  from v show "t \<noteq> []" by (auto simp: wire_json_def split: option.splits)
qed

end
