(* ===== verification/Conn.thy ===== *)
theory Conn
  imports Messages
begin

text \<open>
  internal/jsonrpc2/conn.go: the state of a connection and every operation on it. Each
  closure that the code passes to \<open>updateInFlight\<close> runs under the state mutex; it is a
  definition here, and the operation is the composition of its closures with the calls to
  the writer, the preempter and the handler, whose results are arguments. Pointers to
  \<open>AsyncCall\<close> and \<open>incomingRequest\<close> objects are indices into the two stores of the
  connection; a Go map is an association list with distinct keys. A panic is the left
  value of a sum.
\<close>

section \<open>State\<close>

record in_flight =
  conn_closing :: bool
  reading :: bool
  read_err :: "go_error option"
  write_err :: "go_error option"
  closer :: bool
  close_err :: "go_error option"
  outgoing_calls :: "(rpc_id \<times> nat) list"
  outgoing_notifications :: int
  incoming :: int
  incoming_by_id :: "(rpc_id \<times> nat) list"
  handler_queue :: "nat list"
  handler_running :: bool

text \<open>The channel \<open>ready\<close> of a call is closed exactly when its response is set.\<close>

record async_call =
  ac_id :: rpc_id
  ac_response :: "response option"

text \<open>
  \<open>in_cancelled\<close>: the request's context is cancelled. \<open>in_released\<close>: the releaser made
  for the request by \<open>handleAsync\<close> is released.
\<close>

record incoming_request =
  in_req :: request
  in_cancelled :: bool
  in_released :: bool

text \<open>
  \<open>close_result\<close> is what \<open>closer.Close()\<close> returns when it is called,
  \<open>has_internal_hook\<close> whether \<open>OnInternalError\<close> is set. Four fields record what the
  connection did to the outside: calls of \<open>closer.Close\<close>, of \<open>OnDone\<close>, of the
  \<open>OnInternalError\<close> hook, and the messages handed to \<open>Writer.Write\<close>.
\<close>

record conn =
  seq :: int64
  state :: in_flight
  conn_done :: bool
  calls :: "async_call list"
  requests :: "incoming_request list"
  close_result :: "go_error option"
  has_internal_hook :: bool
  closer_closed :: nat
  on_done_called :: nat
  internal_reports :: "go_error list"
  handed_to_writer :: "message list"

datatype panic =
    PanicNotIdleWhenDone | PanicRetireTwice | PanicIncomingZero | PanicAsyncTwice
  | PanicInternal go_error

definition empty_in_flight :: in_flight where
  "empty_in_flight =
     \<lparr>conn_closing = False, reading = False, read_err = None, write_err = None, closer = True,
      close_err = None, outgoing_calls = [], outgoing_notifications = 0, incoming = 0,
      incoming_by_id = [], handler_queue = [], handler_running = False\<rparr>"

text \<open>The value \<open>NewConnection\<close> builds before it calls \<open>Bind\<close> and \<open>start\<close>.\<close>

definition new_conn :: "go_error option \<Rightarrow> bool \<Rightarrow> conn" where
  "new_conn close_res hook =
     \<lparr>seq = 0, state = empty_in_flight, conn_done = False, calls = [], requests = [],
      close_result = close_res, has_internal_hook = hook, closer_closed = 0, on_done_called = 0,
      internal_reports = [], handed_to_writer = []\<rparr>"

definition upd_state :: "(in_flight \<Rightarrow> in_flight) \<Rightarrow> conn \<Rightarrow> conn" where
  "upd_state f c = c\<lparr>state := f (state c)\<rparr>"

section \<open>Computations that may panic\<close>

type_synonym 'a action = "conn \<Rightarrow> panic + 'a \<times> conn"

definition cret :: "'a \<Rightarrow> 'a action" where
  "cret a c = Inr (a, c)"

definition cbind :: "'a action \<Rightarrow> ('a \<Rightarrow> 'b action) \<Rightarrow> 'b action" where
  "cbind m k c = (case m c of Inl p \<Rightarrow> Inl p | Inr (a, c') \<Rightarrow> k a c')"

definition cpanic :: "panic \<Rightarrow> 'a action" where
  "cpanic p c = Inl p"

lemma cret_apply [simp]: "cret a c = Inr (a, c)"
  by (simp add: cret_def)

lemma cbind_Inr [simp]: "m c = Inr (a, c') \<Longrightarrow> cbind m k c = k a c'"
  by (simp add: cbind_def)

lemma cbind_Inl [simp]: "m c = Inl p \<Longrightarrow> cbind m k c = Inl p"
  by (simp add: cbind_def)

lemma cbind_eq_Inr:
  "cbind m k c = Inr (b, c'') \<longleftrightarrow> (\<exists>a c'. m c = Inr (a, c') \<and> k a c' = Inr (b, c''))"
  by (auto simp: cbind_def split: sum.splits)

lemma cbind_eq_Inl:
  "cbind m k c = Inl p \<longleftrightarrow> m c = Inl p \<or> (\<exists>a c'. m c = Inr (a, c') \<and> k a c' = Inl p)"
  by (auto simp: cbind_def split: sum.splits)

section \<open>idle, shuttingDown, updateInFlight\<close>

definition idle :: "in_flight \<Rightarrow> bool" where
  "idle s = (outgoing_calls s = [] \<and> outgoing_notifications s = 0 \<and> incoming s = 0
             \<and> \<not> handler_running s)"

definition shutting_down :: "in_flight \<Rightarrow> errvar \<Rightarrow> go_error option" where
  "shutting_down s err_closing =
     (if conn_closing s then Some (ErrVar err_closing)
      else
        (case read_err s of
           Some e \<Rightarrow> Some (errorf_w_v (ErrVar err_closing) (error_text e))
         | None \<Rightarrow>
             (case write_err s of
                Some e \<Rightarrow> Some (errorf_w_v (ErrVar err_closing) (error_text e))
              | None \<Rightarrow> None)))"

text \<open>
  What \<open>updateInFlight\<close> does after the closure has run on a connection that is not done:
  when the connection is idle and shutting down, close the closer once, and finish unless
  the reader still runs.
\<close>

definition close_closer :: "conn \<Rightarrow> conn" where
  "close_closer c =
     (if closer (state c)
      then c\<lparr>state := (state c)\<lparr>close_err := close_result c, closer := False\<rparr>,
             closer_closed := closer_closed c + 1\<rparr>
      else c)"

definition settle :: "conn \<Rightarrow> conn" where
  "settle c =
     (if idle (state c) \<and> shutting_down (state c) ErrUnknown \<noteq> None then
        (let c' = close_closer c in
         if reading (state c') then c'
         else c'\<lparr>conn_done := True, on_done_called := on_done_called c' + 1\<rparr>)
      else c)"

definition update_in_flight :: "'a action \<Rightarrow> 'a action" where
  "update_in_flight f c =
     (case f c of
        Inl p \<Rightarrow> Inl p
      | Inr (a, c1) \<Rightarrow>
          if conn_done c1 then (if idle (state c1) then Inr (a, c1) else Inl PanicNotIdleWhenDone)
          else Inr (a, settle c1))"

section \<open>start\<close>

text \<open>The result says whether the goroutine \<open>readIncoming\<close> is started.\<close>

definition start_section :: "bool action" where
  [conn_defs]: "start_section c =
     (if conn_done c then Inr (False, c) else Inr (True, upd_state (reading_update (\<lambda>_. True)) c))"

definition start :: "bool action" where
  "start = update_in_flight start_section"

section \<open>write\<close>

definition write_check_section :: "go_error option action" where
  [conn_defs]: "write_check_section c = Inr (shutting_down (state c) ErrServerClosing, c)"

definition cancel_request :: "nat \<Rightarrow> conn \<Rightarrow> conn" where
  "cancel_request r c = c\<lparr>requests := (requests c)[r := (requests c ! r)\<lparr>in_cancelled := True\<rparr>]\<rparr>"

definition cancel_all :: "nat list \<Rightarrow> conn \<Rightarrow> conn" where
  "cancel_all rs c = fold cancel_request rs c"

definition write_failed_section :: "go_error \<Rightarrow> unit action" where
  [conn_defs]: "write_failed_section err c =
     (if write_err (state c) = None
      then Inr ((), cancel_all (map snd (incoming_by_id (state c)))
                      (upd_state (write_err_update (\<lambda>_. Some err)) c))
      else Inr ((), c))"

definition write_check :: "go_error option action" where
  "write_check = update_in_flight write_check_section"

definition write_failed :: "go_error \<Rightarrow> unit action" where
  "write_failed err = update_in_flight (write_failed_section err)"

text \<open>
  \<open>ctx_err\<close>: whether \<open>ctx.Err()\<close> is non-nil after the attempt. \<open>wres\<close>: what
  \<open>Writer.Write\<close> returns, should it be called.
\<close>

definition breaks_connection :: "bool \<Rightarrow> go_error option \<Rightarrow> bool" where
  "breaks_connection ctx_err err =
     (case err of None \<Rightarrow> False | Some e \<Rightarrow> \<not> ctx_err \<and> \<not> errors_is e ErrRejected)"

definition hand_to_writer :: "message \<Rightarrow> conn \<Rightarrow> conn" where
  "hand_to_writer msg c = c\<lparr>handed_to_writer := handed_to_writer c @ [msg]\<rparr>"

definition write_settle :: "bool \<Rightarrow> go_error option \<Rightarrow> go_error option action" where
  "write_settle ctx_err err =
     (if breaks_connection ctx_err err
      then cbind (write_failed (the err)) (\<lambda>_. cret err)
      else cret err)"

definition conn_write :: "bool \<Rightarrow> go_error option \<Rightarrow> message \<Rightarrow> go_error option action" where
  "conn_write ctx_err wres msg =
     cbind write_check
       (\<lambda>err. case err of
           Some e \<Rightarrow> write_settle ctx_err (Some e)
         | None \<Rightarrow> (\<lambda>c. write_settle ctx_err wres (hand_to_writer msg c)))"

section \<open>Outgoing calls\<close>

definition retire :: "nat \<Rightarrow> response \<Rightarrow> unit action" where
  "retire a resp c =
     (case ac_response (calls c ! a) of
        Some _ \<Rightarrow> Inl PanicRetireTwice
      | None \<Rightarrow> Inr ((), c\<lparr>calls := (calls c)[a := (calls c ! a)\<lparr>ac_response := Some resp\<rparr>]\<rparr>))"

definition error_response :: "rpc_id \<Rightarrow> go_error \<Rightarrow> response" where
  "error_response i e = \<lparr>resp_id = i, resp_result = [], resp_error = Some e\<rparr>"

text \<open>\<open>atomic.AddInt64(&c.seq, 1)\<close> and the new \<open>AsyncCall\<close> object.\<close>

definition new_async_call :: "(nat \<times> rpc_id) action" where
  [conn_defs]: "new_async_call c =
     (let i = Int64ID (seq c + 1) in
      Inr ((length (calls c), i),
           c\<lparr>seq := seq c + 1, calls := calls c @ [\<lparr>ac_id = i, ac_response = None\<rparr>]\<rparr>))"

definition register_call_section :: "nat \<Rightarrow> go_error option action" where
  [conn_defs]: "register_call_section a c =
     (case shutting_down (state c) ErrClientClosing of
        Some e \<Rightarrow> Inr (Some e, c)
      | None \<Rightarrow>
          Inr (None, upd_state (outgoing_calls_update (AList.update (ac_id (calls c ! a)) a)) c))"

definition register_call :: "nat \<Rightarrow> go_error option action" where
  "register_call a = update_in_flight (register_call_section a)"

definition retire_call_section :: "nat \<Rightarrow> go_error \<Rightarrow> unit action" where
  [conn_defs]: "retire_call_section a err c =
     (let i = ac_id (calls c ! a) in
      if map_of (outgoing_calls (state c)) i = Some a
      then retire a (error_response i err) (upd_state (outgoing_calls_update (AList.delete i)) c)
      else Inr ((), c))"

text \<open>\<open>Retire\<close>.\<close>

definition retire_call :: "nat \<Rightarrow> go_error \<Rightarrow> unit action" where
  "retire_call a err = update_in_flight (retire_call_section a err)"

text \<open>\<open>Call\<close>: the result is the \<open>AsyncCall\<close>.\<close>

definition call :: "bool \<Rightarrow> go_error option \<Rightarrow> string \<Rightarrow> go_value option \<Rightarrow> nat action" where
  "call ctx_err wres m params =
     cbind new_async_call
       (\<lambda>(a, i).
          case new_call i m params of (req, merr) \<Rightarrow>
            (case merr of
               Some e \<Rightarrow>
                 cbind (retire a (error_response i (errorf_prefix ''marshaling call parameters'' e)))
                   (\<lambda>_. cret a)
             | None \<Rightarrow>
                 cbind (register_call a)
                   (\<lambda>err. case err of
                       Some e \<Rightarrow> cbind (retire a (error_response i e)) (\<lambda>_. cret a)
                     | None \<Rightarrow>
                         cbind (conn_write ctx_err wres (MsgRequest req))
                           (\<lambda>err. case err of
                               Some e \<Rightarrow> cbind (retire_call a e) (\<lambda>_. cret a)
                             | None \<Rightarrow> cret a))))"

text \<open>
  \<open>Await\<close>: the outcomes \<open>select\<close> may pick from, none while it blocks. \<open>ctx_err\<close> is
  \<open>ctx.Err()\<close> once the context is done. \<open>decode\<close> is the decoder of internal/json for the
  wanted result, \<open>None\<close> where no result is wanted.
\<close>

definition await ::
  "go_error option \<Rightarrow> (string \<Rightarrow> go_error + 'r) option \<Rightarrow> async_call \<Rightarrow> (go_error + 'r option) list" where
  "await ctx_err decode ac =
     (case ctx_err of Some e \<Rightarrow> [Inl e] | None \<Rightarrow> []) @
     (case ac_response ac of
        None \<Rightarrow> []
      | Some r \<Rightarrow>
          [case resp_error r of
             Some e \<Rightarrow> Inl e
           | None \<Rightarrow>
               (case decode of
                  None \<Rightarrow> Inr None
                | Some d \<Rightarrow> (case d (resp_result r) of Inl e \<Rightarrow> Inl e | Inr v \<Rightarrow> Inr (Some v)))])"

section \<open>Notify\<close>

text \<open>The result is the error; without one the notification is counted and attempted.\<close>

definition notify_begin_section :: "go_error option action" where
  [conn_defs]: "notify_begin_section c =
     (let s = state c;
          err = (if outgoing_calls s = [] \<and> incoming_by_id s = []
                 then shutting_down s ErrClientClosing else None)
      in case err of
           Some e \<Rightarrow> Inr (Some e, c)
         | None \<Rightarrow> Inr (None, upd_state (outgoing_notifications_update (\<lambda>n. n + 1)) c))"

definition notify_end_section :: "unit action" where
  [conn_defs]: "notify_end_section c = Inr ((), upd_state (outgoing_notifications_update (\<lambda>n. n - 1)) c)"

definition notify_begin :: "go_error option action" where
  "notify_begin = update_in_flight notify_begin_section"

definition notify_end :: "unit action" where
  "notify_end = update_in_flight notify_end_section"

definition notify :: "bool \<Rightarrow> go_error option \<Rightarrow> string \<Rightarrow> go_value option \<Rightarrow> go_error option action" where
  "notify ctx_err wres m params =
     cbind notify_begin
       (\<lambda>err. case err of
           Some e \<Rightarrow> cret (Some e)
         | None \<Rightarrow>
             (case new_notification m params of (req, merr) \<Rightarrow>
                cbind (case merr of
                         Some e \<Rightarrow> cret (Some (Opaque (''marshaling notify parameters: '' @ error_text e)))
                       | None \<Rightarrow> conn_write ctx_err wres (MsgRequest req))
                  (\<lambda>err. cbind notify_end (\<lambda>_. cret err))))"

section \<open>Cancel, Wait, Close\<close>

definition cancel :: "rpc_id \<Rightarrow> unit action" where
  "cancel i =
     cbind (update_in_flight (\<lambda>c. Inr (map_of (incoming_by_id (state c)) i, c)))
       (\<lambda>r. case r of None \<Rightarrow> cret () | Some r \<Rightarrow> (\<lambda>c. Inr ((), cancel_request r c)))"

definition is_eof :: "go_error option \<Rightarrow> bool" where
  "is_eof e = (case e of None \<Rightarrow> False | Some e \<Rightarrow> errors_is e EOF)"

text \<open>The closure of \<open>wait\<close>, which runs once the connection is done.\<close>

definition wait_section :: "bool \<Rightarrow> go_error option action" where
  [conn_defs]: "wait_section from_wait c =
     (let s = state c;
          e1 = (if from_wait \<and> \<not> is_eof (read_err s) then read_err s else None);
          e2 = (if from_wait \<and> e1 = None \<and> \<not> is_eof (write_err s) then write_err s else e1);
          e3 = (if e2 = None then close_err s else e2)
      in Inr (e3, c))"

definition wait :: "bool \<Rightarrow> go_error option action" where
  "wait from_wait = update_in_flight (wait_section from_wait)"

definition close_section :: "unit action" where
  [conn_defs]: "close_section c = Inr ((), upd_state (conn_closing_update (\<lambda>_. True)) c)"

definition close_begin :: "unit action" where
  "close_begin = update_in_flight close_section"

section \<open>Processing the result of a request\<close>

text \<open>
  \<open>internalErrorf\<close>: panics unless the hook is set. (The texts name the method; the parts
  printed with \<open>%#v\<close> are left out.)
\<close>

definition internal_errorf :: "go_error \<Rightarrow> go_error action" where
  "internal_errorf err c =
     (if has_internal_hook c
      then Inr (errorf_w_v (ErrVar ErrInternal) (error_text err),
                c\<lparr>internal_reports := internal_reports c @ [err]\<rparr>)
      else Inl (PanicInternal err))"

definition unhandled_detail :: "string \<Rightarrow> go_error option \<Rightarrow> go_error option" where
  "unhandled_detail m err =
     (if err = Some (ErrVar ErrNotHandled) \<or> err = Some (ErrVar ErrMethodNotFound)
      then Some (errorf_w_v (ErrVar ErrMethodNotFound) (go_q m)) else err)"

text \<open>The first part of \<open>processResult\<close>: the result and error to respond with.\<close>

definition checked_result ::
  "request \<Rightarrow> go_value option \<Rightarrow> go_error option \<Rightarrow> (go_value option \<times> go_error option) action" where
  "checked_result req result err =
     (let m = req_method req; err = unhandled_detail m err in
      cbind (if result \<noteq> None \<and> err \<noteq> None
             then cbind (internal_errorf (Opaque (''non-nil result with a non-nil error for '' @ m)))
                    (\<lambda>_. cret None)
             else cret result)
        (\<lambda>result.
           if is_call req then
             (if result = None \<and> err = None
              then cbind (internal_errorf (Opaque (''nil result and nil error for '' @ go_q m)))
                     (\<lambda>e. cret (None, Some e))
              else cret (result, err))
           else
             (if result \<noteq> None
              then cbind (internal_errorf (Opaque (''non-nil result without an ID for '' @ go_q m)))
                     (\<lambda>e. cret (None, Some e))
              else cret (None, map_option (\<lambda>e. errorf_w_v (ErrVar ErrInternal)
                                  (go_q m @ '' notification failed: '' @ error_text e)) err))))"

definition forget_section :: "rpc_id \<Rightarrow> unit action" where
  [conn_defs]: "forget_section i c = Inr ((), upd_state (incoming_by_id_update (AList.delete i)) c)"

definition forget_request :: "rpc_id \<Rightarrow> unit action" where
  "forget_request i = update_in_flight (forget_section i)"

definition finish_section :: "unit action" where
  [conn_defs]: "finish_section c =
     (if incoming (state c) = 0 then Inl PanicIncomingZero
      else Inr ((), upd_state (incoming_update (\<lambda>n. n - 1)) c))"

definition finish_request :: "nat \<Rightarrow> unit action" where
  "finish_request r c = update_in_flight finish_section (cancel_request r c)"

text \<open>
  \<open>processResult\<close>. A response is written with a context that is never done
  (\<open>notDone\<close>), so a failed write always breaks the connection unless it was rejected.
\<close>

definition process_result ::
  "go_error option \<Rightarrow> nat \<Rightarrow> go_value option \<Rightarrow> go_error option \<Rightarrow> unit action" where
  "process_result wres r result err c =
     (let req = in_req (requests c ! r) in
      cbind (checked_result req result err)
        (\<lambda>(result, err).
           cbind
             (if is_call req then
                (case new_response (req_id req) result err of (resp, resp_err) \<Rightarrow>
                   cbind (forget_request (req_id req))
                     (\<lambda>_. case resp_err of
                         None \<Rightarrow> cbind (conn_write False wres (MsgResponse resp)) (\<lambda>_. cret ())
                       | Some e \<Rightarrow>
                           cbind (internal_errorf (errorf_prefix (''malformed result for '' @ go_q (req_method req)) e))
                             (\<lambda>_. cret ())))
              else cret ())
             (\<lambda>_. finish_request r)) c)"

section \<open>The reader\<close>

definition new_incoming :: "request \<Rightarrow> nat action" where
  "new_incoming req c =
     Inr (length (requests c),
          c\<lparr>requests := requests c @ [\<lparr>in_req = req, in_cancelled = False, in_released = False\<rparr>]\<rparr>)"

definition clear_id :: "nat \<Rightarrow> conn \<Rightarrow> conn" where
  "clear_id r c =
     c\<lparr>requests := (requests c)[r := (requests c ! r)\<lparr>in_req := (in_req (requests c ! r))\<lparr>req_id := NoID\<rparr>\<rparr>]\<rparr>"

fun id_text :: "rpc_id \<Rightarrow> string" where
  "id_text NoID = ''{<nil>}''"
| "id_text (Int64ID i) = ''{'' @ show_int (sint i) @ ''}''"
| "id_text (StringID s) = ''{'' @ s @ ''}''"

definition id_in_use :: "rpc_id \<Rightarrow> go_error" where
  "id_in_use i =
     errorf_w_v (ErrVar ErrInvalidRequest) (''request ID '' @ id_text i @ '' already in use'')"

text \<open>The first closure of \<open>acceptRequest\<close>: count the request and register a call by its ID.\<close>

definition accept_section :: "nat \<Rightarrow> go_error option action" where
  [conn_defs]: "accept_section r c0 =
     (let c = upd_state (incoming_update (\<lambda>n. n + 1)) c0; req = in_req (requests c ! r) in
      if is_call req then
        (if map_of (incoming_by_id (state c)) (req_id req) \<noteq> None
         then Inr (Some (id_in_use (req_id req)), clear_id r c)
         else Inr (shutting_down (state c) ErrServerClosing,
                   upd_state (incoming_by_id_update (AList.update (req_id req) r)) c))
      else Inr (None, c))"

definition accept :: "nat \<Rightarrow> go_error option action" where
  "accept r = update_in_flight (accept_section r)"

text \<open>The second closure. The result: an error, or whether \<open>handleAsync\<close> is started.\<close>

definition enqueue_section :: "nat \<Rightarrow> (go_error + bool) action" where
  [conn_defs]: "enqueue_section r c =
     (case shutting_down (state c) ErrServerClosing of
        Some e \<Rightarrow> Inr (Inl e, c)
      | None \<Rightarrow>
          Inr (Inr (\<not> handler_running (state c)),
               upd_state (\<lambda>s. s\<lparr>handler_queue := handler_queue s @ [r], handler_running := True\<rparr>) c))"

definition enqueue :: "nat \<Rightarrow> (go_error + bool) action" where
  "enqueue r = update_in_flight (enqueue_section r)"

text \<open>
  \<open>acceptRequest\<close>; \<open>preempted\<close> is what the preempter returns, \<open>None\<close> without one. The
  result says whether the goroutine \<open>handleAsync\<close> is started.
\<close>

definition preempt_handled :: "(go_value option \<times> go_error option) option \<Rightarrow> bool" where
  "preempt_handled p =
     (case p of
        None \<Rightarrow> False
      | Some (_, None) \<Rightarrow> True
      | Some (_, Some e) \<Rightarrow> \<not> errors_is e ErrNotHandled)"

definition accept_request ::
  "go_error option \<Rightarrow> (go_value option \<times> go_error option) option \<Rightarrow> request \<Rightarrow> bool action" where
  "accept_request wres preempted req =
     cbind (new_incoming req)
       (\<lambda>r. cbind (accept r)
          (\<lambda>err. case err of
              Some e \<Rightarrow> cbind (process_result wres r None (Some e)) (\<lambda>_. cret False)
            | None \<Rightarrow>
                if preempt_handled preempted
                then cbind (process_result wres r (fst (the preempted)) (snd (the preempted))) (\<lambda>_. cret False)
                else
                  cbind (enqueue r)
                    (\<lambda>res. case res of
                        Inl e \<Rightarrow> cbind (process_result wres r None (Some e)) (\<lambda>_. cret False)
                      | Inr spawn \<Rightarrow> cret spawn)))"

text \<open>A response read from the peer.\<close>

definition response_section :: "response \<Rightarrow> unit action" where
  [conn_defs]: "response_section msg c =
     (case map_of (outgoing_calls (state c)) (resp_id msg) of
        Some a \<Rightarrow> retire a msg (upd_state (outgoing_calls_update (AList.delete (resp_id msg))) c)
      | None \<Rightarrow> Inr ((), c))"

definition read_response :: "response \<Rightarrow> unit action" where
  "read_response msg = update_in_flight (response_section msg)"

text \<open>The end of \<open>readIncoming\<close>, after \<open>Read\<close> failed with \<open>err\<close>.\<close>

fun retire_all :: "go_error \<Rightarrow> (rpc_id \<times> nat) list \<Rightarrow> unit action" where
  "retire_all err [] = cret ()"
| "retire_all err ((i, a) # xs) = cbind (retire a (error_response i err)) (\<lambda>_. retire_all err xs)"

definition read_end_section :: "go_error \<Rightarrow> unit action" where
  [conn_defs]: "read_end_section err c =
     cbind (retire_all err (outgoing_calls (state c)))
       (\<lambda>_ c. Inr ((), upd_state (outgoing_calls_update (\<lambda>_. [])) c))
       (upd_state (\<lambda>s. s\<lparr>reading := False, read_err := Some err\<rparr>) c)"

definition read_end :: "go_error \<Rightarrow> unit action" where
  "read_end err = update_in_flight (read_end_section err)"

section \<open>The handler goroutine\<close>

definition dequeue_section :: "nat option action" where
  [conn_defs]: "dequeue_section c =
     (case handler_queue (state c) of
        r # rs \<Rightarrow> Inr (Some r, upd_state (handler_queue_update (\<lambda>_. rs)) c)
      | [] \<Rightarrow> Inr (None, upd_state (handler_running_update (\<lambda>_. False)) c))"

definition dequeue :: "nat option action" where
  "dequeue = update_in_flight dequeue_section"

text \<open>
  What \<open>handleAsync\<close> does with a request it took: a cancelled one is answered with the
  error returned here, any other goes to the handler.
\<close>

definition delivery_error :: "nat \<Rightarrow> go_error option action" where
  "delivery_error r c =
     (if in_cancelled (requests c ! r)
      then update_in_flight
             (\<lambda>c. Inr (Some (case write_err (state c) of
                               Some e \<Rightarrow> errorf_w_v (ErrVar ErrServerClosing) (error_text e)
                             | None \<Rightarrow> ErrVar Canceled), c)) c
      else Inr (None, c))"

text \<open>\<open>release\<close>; \<open>Async\<close> releases hard, the end of the handler's goroutine softly.\<close>

definition release :: "bool \<Rightarrow> nat \<Rightarrow> unit action" where
  "release soft r c =
     (if in_released (requests c ! r)
      then (if soft then Inr ((), c) else Inl PanicAsyncTwice)
      else Inr ((), c\<lparr>requests := (requests c)[r := (requests c ! r)\<lparr>in_released := True\<rparr>]\<rparr>))"

text \<open>
  One turn of \<open>handleAsync\<close> with a handler that returns \<open>(result, err)\<close>, run to the end
  without interleaving; the result says whether the goroutine goes on.
\<close>

definition handle_turn ::
  "go_error option \<Rightarrow> (request \<Rightarrow> go_value option \<times> go_error option) \<Rightarrow> bool action" where
  "handle_turn wres handler =
     cbind dequeue
       (\<lambda>next. case next of
           None \<Rightarrow> cret False
         | Some r \<Rightarrow>
             cbind (delivery_error r)
               (\<lambda>err. case err of
                   Some e \<Rightarrow> cbind (process_result wres r None (Some e)) (\<lambda>_. cret True)
                 | None \<Rightarrow>
                     (\<lambda>c. case handler (in_req (requests c ! r)) of (result, herr) \<Rightarrow>
                        cbind (process_result wres r result herr)
                          (\<lambda>_. cbind (release True r) (\<lambda>_. cret True)) c)))"

end
