(* ===== verification/Conn_Steps.thy ===== *)
theory Conn_Steps
  imports Conn
begin

text \<open>
  The goroutines of a connection (internal/jsonrpc2/conn.go) and how they interleave. A
  system state is a connection and the multiset of its goroutines, each with the point it
  has reached; one step runs one closure under the state mutex, or one call of the reader,
  writer, preempter or handler. The invariant ties the counters and tables of the
  connection to the goroutines, and from it no reachable state can panic.
\<close>

section \<open>Goroutines\<close>

text \<open>What a goroutine that runs \<open>processResult\<close> for a request goes on with.\<close>

datatype cont = ToRead | ToDequeue | ToEnd

text \<open>On whose behalf a message is written: a response to a request, a call, a notification.\<close>

datatype purpose = ForResponse nat cont | ForCall nat | ForNotify

datatype goroutine =
    GUser
  | GStart
  | GRead
  | GPreempt nat
  | GEnqueue nat
  | GDequeue
  | GDeliver nat
  | GAwaitRelease nat
  | GHandle nat
  | GProcess nat cont "go_value option" "go_error option"
  | GRelease nat
  | GCall nat request
  | GCallFailed nat go_error
  | GWriteCheck purpose message
  | GWriting purpose message
  | GWriteFailed purpose go_error
  | GWritten purpose "go_error option"
  | GCancel nat

fun continue :: "nat \<Rightarrow> cont \<Rightarrow> goroutine list" where
  "continue r ToRead = [GRead]"
| "continue r ToDequeue = [GDequeue]"
| "continue r ToEnd = [GRelease r]"

definition after_write :: "bool \<Rightarrow> purpose \<Rightarrow> go_error option \<Rightarrow> goroutine list" where
  "after_write ctx_err p err =
     (if breaks_connection ctx_err err then [GWriteFailed p (the err)] else [GWritten p err])"

text \<open>
  What the interfaces ask of a handler or preempter: exactly one of result and error for a
  call, with a result that can be marshalled, and no result for a notification. With
  \<open>OnInternalError\<close> set the connection tolerates anything.
\<close>

definition respects_contract :: "conn \<Rightarrow> nat \<Rightarrow> go_value option \<Rightarrow> go_error option \<Rightarrow> bool" where
  "respects_contract c r result err =
     (has_internal_hook c \<or>
      (if is_call (in_req (requests c ! r))
       then (result = None \<longleftrightarrow> err \<noteq> None) \<and> (\<forall>e. result \<noteq> Some (Inl e))
       else result = None))"

text \<open>The contexts of \<open>processResult\<close> are never done; those of callers may be.\<close>

fun ctx_may_end :: "purpose \<Rightarrow> bool \<Rightarrow> bool" where
  "ctx_may_end (ForResponse r k) ctx_err = (\<not> ctx_err)"
| "ctx_may_end _ ctx_err = True"

text \<open>The actions a goroutine may take next; each returns the goroutines it continues as.\<close>

inductive gstep :: "conn \<Rightarrow> goroutine \<Rightarrow> goroutine list action \<Rightarrow> bool" where
  user_call:
    "gstep c GUser
       (cbind new_async_call
          (\<lambda>(a, i). case new_call i m params of (req, merr) \<Rightarrow>
             (case merr of
                Some e \<Rightarrow> cbind (retire a (error_response i (errorf_prefix ''marshaling call parameters'' e)))
                            (\<lambda>_. cret [GUser])
              | None \<Rightarrow> cret [GUser, GCall a req])))"
| user_notify:
    "gstep c GUser
       (cbind notify_begin
          (\<lambda>err. case err of
              Some e \<Rightarrow> cret [GUser]
            | None \<Rightarrow>
                (case new_notification m params of (req, merr) \<Rightarrow>
                   (case merr of
                      Some e \<Rightarrow> cret [GUser, GWritten ForNotify
                                  (Some (Opaque (''marshaling notify parameters: '' @ error_text e)))]
                    | None \<Rightarrow> cret [GUser, GWriteCheck ForNotify (MsgRequest req)]))))"
| user_cancel:
    "gstep c GUser
       (cbind (update_in_flight (\<lambda>c. Inr (map_of (incoming_by_id (state c)) i, c)))
          (\<lambda>r. cret (case r of None \<Rightarrow> [GUser] | Some r \<Rightarrow> [GUser, GCancel r])))"
| user_close: "gstep c GUser (cbind close_begin (\<lambda>_. cret [GUser]))"
| user_wait: "conn_done c \<Longrightarrow> gstep c GUser (cbind (wait from_wait) (\<lambda>_. cret [GUser]))"
| cancel_req: "gstep c (GCancel r) (\<lambda>c. Inr ([], cancel_request r c))"
| call_register:
    "gstep c (GCall a req)
       (cbind (register_call a)
          (\<lambda>err. cret (case err of
              Some e \<Rightarrow> [GCallFailed a e]
            | None \<Rightarrow> [GWriteCheck (ForCall a) (MsgRequest req)])))"
| call_failed:
    "gstep c (GCallFailed a e)
       (cbind (retire a (error_response (ac_id (calls c ! a)) e)) (\<lambda>_. cret []))"
| write_checked:
    "ctx_may_end p ctx_err \<Longrightarrow>
     gstep c (GWriteCheck p msg)
       (cbind write_check
          (\<lambda>err. cret (case err of Some e \<Rightarrow> after_write ctx_err p (Some e) | None \<Rightarrow> [GWriting p msg])))"
| write_done:
    "ctx_may_end p ctx_err \<Longrightarrow>
     gstep c (GWriting p msg) (\<lambda>c. Inr (after_write ctx_err p wres, hand_to_writer msg c))"
| write_broken: "gstep c (GWriteFailed p e) (cbind (write_failed e) (\<lambda>_. cret [GWritten p (Some e)]))"
| written_response:
    "gstep c (GWritten (ForResponse r k) err) (cbind (finish_request r) (\<lambda>_. cret (continue r k)))"
| written_call: "gstep c (GWritten (ForCall a) None) (cret [])"
| written_call_failed:
    "gstep c (GWritten (ForCall a) (Some e)) (cbind (retire_call a e) (\<lambda>_. cret []))"
| written_notify: "gstep c (GWritten ForNotify err) (cbind notify_end (\<lambda>_. cret []))"
| reader_start: "gstep c GStart (cbind start (\<lambda>b. cret (if b then [GRead] else [])))"
| read_request:
    "gstep c GRead
       (cbind (new_incoming req)
          (\<lambda>r. cbind (accept r)
             (\<lambda>err. cret (case err of Some e \<Rightarrow> [GProcess r ToRead None (Some e)] | None \<Rightarrow> [GPreempt r]))))"
| read_resp: "gstep c GRead (cbind (read_response resp) (\<lambda>_. cret [GRead]))"
| read_failed: "gstep c GRead (cbind (read_end err) (\<lambda>_. cret []))"
| preempt_none: "\<not> preempt_handled p \<Longrightarrow> gstep c (GPreempt r) (cret [GEnqueue r])"
| preempt_some:
    "preempt_handled (Some (result, err)) \<Longrightarrow> respects_contract c r result err \<Longrightarrow>
     gstep c (GPreempt r) (cret [GProcess r ToRead result err])"
| enqueue_req:
    "gstep c (GEnqueue r)
       (cbind (enqueue r)
          (\<lambda>res. cret (case res of
              Inl e \<Rightarrow> [GProcess r ToRead None (Some e)]
            | Inr spawn \<Rightarrow> (if spawn then [GRead, GDequeue] else [GRead]))))"
| dequeue_next:
    "gstep c GDequeue
       (cbind dequeue (\<lambda>next. cret (case next of None \<Rightarrow> [] | Some r \<Rightarrow> [GDeliver r])))"
| deliver:
    "gstep c (GDeliver r)
       (cbind (delivery_error r)
          (\<lambda>err. cret (case err of
              Some e \<Rightarrow> [GProcess r ToDequeue None (Some e)]
            | None \<Rightarrow> [GAwaitRelease r, GHandle r])))"
| released: "in_released (requests c ! r) \<Longrightarrow> gstep c (GAwaitRelease r) (cret [GDequeue])"
| handler_async:
    "\<not> in_released (requests c ! r) \<Longrightarrow>
     gstep c (GHandle r) (cbind (release False r) (\<lambda>_. cret [GHandle r]))"
| handler_done:
    "respects_contract c r result err \<Longrightarrow>
     gstep c (GHandle r) (cret [GProcess r ToEnd result err])"
| soft_release: "gstep c (GRelease r) (cbind (release True r) (\<lambda>_. cret []))"
| process:
    "gstep c (GProcess r k result err)
       (\<lambda>c. let req = in_req (requests c ! r) in
        cbind (checked_result req result err)
          (\<lambda>(result, err).
             if is_call req then
               (case new_response (req_id req) result err of (resp, resp_err) \<Rightarrow>
                  cbind (forget_request (req_id req))
                    (\<lambda>_. case resp_err of
                        None \<Rightarrow> cret [GWriteCheck (ForResponse r k) (MsgResponse resp)]
                      | Some e \<Rightarrow>
                          cbind (internal_errorf (errorf_prefix (''malformed result for '' @ go_q (req_method req)) e))
                            (\<lambda>_. cret [GWritten (ForResponse r k) err])))
             else cret [GWritten (ForResponse r k) err]) c)"

inductive_cases gstep_cases: "gstep c g act"

text \<open>A system: \<open>NewConnection\<close> with the application and the goroutine that starts the reader.\<close>

type_synonym system = "conn \<times> goroutine multiset"

definition sys_init :: "system \<Rightarrow> bool" where
  "sys_init s = (\<exists>close_res hook. s = (new_conn close_res hook, {#GUser, GStart#}))"

inductive sys_step :: "system \<Rightarrow> system \<Rightarrow> bool" where
  sys_stepI: "gstep c g act \<Longrightarrow> act c = Inr (gs, c') \<Longrightarrow>
     sys_step (c, add_mset g gT) (c', mset gs + gT)"

inductive_cases sys_stepE: "sys_step s t"

text \<open>A system can panic when an action of one of its goroutines does.\<close>

definition can_panic :: "system \<Rightarrow> bool" where
  "can_panic s = (\<exists>g act p. g \<in># snd s \<and> gstep (fst s) g act \<and> act (fst s) = Inl p)"

end
