(* ===== verification/Conn_Inv.thy ===== *)
theory Conn_Inv
  imports Conn_Steps
begin

text \<open>
  The invariant of a connection and its goroutines: what the counters of the in-flight
  state count, what the two tables hold, and when a connection is done. Every step keeps
  it, and under it no action panics.
\<close>

section \<open>Goroutines by what they hold\<close>

fun purpose_owner :: "purpose \<Rightarrow> nat option" where
  "purpose_owner (ForResponse r k) = Some r"
| "purpose_owner _ = None"

fun purpose_cont :: "purpose \<Rightarrow> cont option" where
  "purpose_cont (ForResponse r k) = Some k"
| "purpose_cont _ = None"

text \<open>The request a goroutine has accepted and not yet finished.\<close>

fun owns :: "goroutine \<Rightarrow> nat option" where
  "owns (GPreempt r) = Some r"
| "owns (GEnqueue r) = Some r"
| "owns (GDeliver r) = Some r"
| "owns (GHandle r) = Some r"
| "owns (GProcess r k res err) = Some r"
| "owns (GWriteCheck p m) = purpose_owner p"
| "owns (GWriting p m) = purpose_owner p"
| "owns (GWriteFailed p e) = purpose_owner p"
| "owns (GWritten p e) = purpose_owner p"
| "owns _ = None"

fun runs_as :: "cont \<Rightarrow> goroutine \<Rightarrow> bool" where
  "runs_as k (GProcess r k' res err) = (k' = k)"
| "runs_as k (GWriteCheck p m) = (purpose_cont p = Some k)"
| "runs_as k (GWriting p m) = (purpose_cont p = Some k)"
| "runs_as k (GWriteFailed p e) = (purpose_cont p = Some k)"
| "runs_as k (GWritten p e) = (purpose_cont p = Some k)"
| "runs_as k GDequeue = (k = ToDequeue)"
| "runs_as k (GDeliver r) = (k = ToDequeue)"
| "runs_as k (GAwaitRelease r) = (k = ToDequeue)"
| "runs_as k GRead = (k = ToRead)"
| "runs_as k (GPreempt r) = (k = ToRead)"
| "runs_as k (GEnqueue r) = (k = ToRead)"
| "runs_as k _ = False"

abbreviation "is_loop \<equiv> runs_as ToDequeue"
abbreviation "is_reader \<equiv> runs_as ToRead"

fun notifies :: "goroutine \<Rightarrow> bool" where
  "notifies (GWriteCheck p m) = (p = ForNotify)"
| "notifies (GWriting p m) = (p = ForNotify)"
| "notifies (GWriteFailed p e) = (p = ForNotify)"
| "notifies (GWritten p e) = (p = ForNotify)"
| "notifies _ = False"

text \<open>The call object a goroutine has made and not yet registered.\<close>

fun registering :: "goroutine \<Rightarrow> nat option" where
  "registering (GCall a req) = Some a"
| "registering (GCallFailed a e) = Some a"
| "registering _ = None"

text \<open>The request a goroutine holds whose ID may still be in the table of incoming calls.\<close>

fun holds :: "goroutine \<Rightarrow> nat option" where
  "holds (GPreempt r) = Some r"
| "holds (GEnqueue r) = Some r"
| "holds (GDeliver r) = Some r"
| "holds (GHandle r) = Some r"
| "holds (GProcess r k res err) = Some r"
| "holds _ = None"

section \<open>settle and updateInFlight\<close>

lemma settle_core [simp]:
  "calls (settle c) = calls c" "requests (settle c) = requests c" "seq (settle c) = seq c"
  "has_internal_hook (settle c) = has_internal_hook c"
  "handed_to_writer (settle c) = handed_to_writer c"
  "close_result (settle c) = close_result c"
  "conn_closing (state (settle c)) = conn_closing (state c)"
  "reading (state (settle c)) = reading (state c)"
  "read_err (state (settle c)) = read_err (state c)"
  "write_err (state (settle c)) = write_err (state c)"
  "outgoing_calls (state (settle c)) = outgoing_calls (state c)"
  "outgoing_notifications (state (settle c)) = outgoing_notifications (state c)"
  "incoming (state (settle c)) = incoming (state c)"
  "incoming_by_id (state (settle c)) = incoming_by_id (state c)"
  "handler_queue (state (settle c)) = handler_queue (state c)"
  "handler_running (state (settle c)) = handler_running (state c)"
  by (simp_all add: settle_def close_closer_def Let_def)

lemma upd_state_core [simp]:
  "state (upd_state f c) = f (state c)" "calls (upd_state f c) = calls c"
  "requests (upd_state f c) = requests c" "conn_done (upd_state f c) = conn_done c"
  "has_internal_hook (upd_state f c) = has_internal_hook c" "seq (upd_state f c) = seq c"
  "closer_closed (upd_state f c) = closer_closed c" "on_done_called (upd_state f c) = on_done_called c"
  "handed_to_writer (upd_state f c) = handed_to_writer c" "close_result (upd_state f c) = close_result c"
  by (simp_all add: upd_state_def)

lemma cancel_request_core [simp]:
  "state (cancel_request r c) = state c" "calls (cancel_request r c) = calls c"
  "conn_done (cancel_request r c) = conn_done c" "seq (cancel_request r c) = seq c"
  "has_internal_hook (cancel_request r c) = has_internal_hook c"
  "closer_closed (cancel_request r c) = closer_closed c"
  "on_done_called (cancel_request r c) = on_done_called c"
  "length (requests (cancel_request r c)) = length (requests c)"
  "handed_to_writer (cancel_request r c) = handed_to_writer c"
  by (simp_all add: cancel_request_def)

lemma cancel_request_req [simp]:
  "in_req (requests (cancel_request r c) ! q) = in_req (requests c ! q)"
  by (cases "r < length (requests c)"; cases "r = q")
     (simp_all add: cancel_request_def list_update_beyond)

lemma cancel_all_core [simp]:
  "state (cancel_all rs c) = state c" "calls (cancel_all rs c) = calls c"
  "conn_done (cancel_all rs c) = conn_done c" "seq (cancel_all rs c) = seq c"
  "has_internal_hook (cancel_all rs c) = has_internal_hook c"
  "closer_closed (cancel_all rs c) = closer_closed c"
  "on_done_called (cancel_all rs c) = on_done_called c"
  "length (requests (cancel_all rs c)) = length (requests c)"
  "handed_to_writer (cancel_all rs c) = handed_to_writer c"
  "in_req (requests (cancel_all rs c) ! q) = in_req (requests c ! q)"
  by (induction rs arbitrary: c) (simp_all add: cancel_all_def)

lemma uif_eq_Inr:
  "update_in_flight f c = Inr (a, c') \<longleftrightarrow>
     (\<exists>c1. f c = Inr (a, c1) \<and>
        (conn_done c1 \<and> idle (state c1) \<and> c' = c1 \<or> \<not> conn_done c1 \<and> c' = settle c1))"
  by (auto simp: update_in_flight_def split: sum.splits if_splits)

lemma uif_eq_Inl:
  "update_in_flight f c = Inl p \<longleftrightarrow>
     f c = Inl p \<or>
     (\<exists>a c1. f c = Inr (a, c1) \<and> conn_done c1 \<and> \<not> idle (state c1) \<and> p = PanicNotIdleWhenDone)"
  by (auto simp: update_in_flight_def split: sum.splits if_splits)

lemmas action_ops =
  start_def write_check_def write_failed_def register_call_def retire_call_def notify_begin_def
  notify_end_def wait_def close_begin_def forget_request_def finish_request_def accept_def
  enqueue_def read_response_def read_end_def dequeue_def

lemmas action_eqs = cbind_eq_Inr cbind_eq_Inl uif_eq_Inr uif_eq_Inl

lemma retire_eq_Inr:
  "retire a resp c = Inr (u, c') \<longleftrightarrow>
     ac_response (calls c ! a) = None \<and>
     c' = c\<lparr>calls := (calls c)[a := (calls c ! a)\<lparr>ac_response := Some resp\<rparr>]\<rparr>"
  by (auto simp: retire_def split: option.splits)

lemma retire_eq_Inl:
  "retire a resp c = Inl p \<longleftrightarrow> ac_response (calls c ! a) \<noteq> None \<and> p = PanicRetireTwice"
  by (auto simp: retire_def split: option.splits)

lemma retire_core:
  "retire a resp c = Inr (u, c') \<Longrightarrow>
     state c' = state c \<and> requests c' = requests c \<and> conn_done c' = conn_done c \<and> seq c' = seq c
     \<and> has_internal_hook c' = has_internal_hook c \<and> length (calls c') = length (calls c)
     \<and> closer_closed c' = closer_closed c \<and> on_done_called c' = on_done_called c
     \<and> handed_to_writer c' = handed_to_writer c \<and> close_result c' = close_result c"
  by (auto simp: retire_eq_Inr)

lemma retire_all_core:
  "retire_all err xs c = Inr (u, c') \<Longrightarrow>
     state c' = state c \<and> requests c' = requests c \<and> conn_done c' = conn_done c \<and> seq c' = seq c
     \<and> has_internal_hook c' = has_internal_hook c \<and> length (calls c') = length (calls c)
     \<and> closer_closed c' = closer_closed c \<and> on_done_called c' = on_done_called c
     \<and> handed_to_writer c' = handed_to_writer c \<and> close_result c' = close_result c"
proof (induction err xs arbitrary: c rule: retire_all.induct)
  case (1 err)
  then show ?case by simp
next
  case (2 err i a xs)
  then obtain v c1 where "retire a (error_response i err) c = Inr (v, c1)"
    and "retire_all err xs c1 = Inr (u, c')"
    by (auto simp: cbind_eq_Inr)
  with retire_core 2 show ?case by metis
qed

section \<open>The part of a connection the invariants speak of\<close>

text \<open>
  All but the cancelled and released marks of the requests, the reports of internal errors
  and the record of what was handed to the writer.
\<close>

definition core ::
  "conn \<Rightarrow> in_flight \<times> async_call list \<times> bool \<times> int64 \<times> bool \<times> go_error option \<times> nat \<times> nat \<times> request list" where
  "core c = (state c, calls c, conn_done c, seq c, has_internal_hook c, close_result c,
             closer_closed c, on_done_called c, map in_req (requests c))"

lemma core_eqD:
  assumes "core c = core d"
  shows "state c = state d" "calls c = calls d" "conn_done c = conn_done d" "seq c = seq d"
    "has_internal_hook c = has_internal_hook d" "close_result c = close_result d"
    "closer_closed c = closer_closed d" "on_done_called c = on_done_called d"
    "map in_req (requests c) = map in_req (requests d)" "length (requests c) = length (requests d)"
  using assms by (auto simp: core_def dest: map_eq_imp_length_eq)

lemma core_in_req:
  "core c = core d \<Longrightarrow> r < length (requests c) \<Longrightarrow> in_req (requests c ! r) = in_req (requests d ! r)"
  by (metis core_eqD(9,10) nth_map)

lemma core_close_closer: "core c = core d \<Longrightarrow> core (close_closer c) = core (close_closer d)"
  by (auto simp: core_def close_closer_def)

lemma core_settle: "core c = core d \<Longrightarrow> core (settle c) = core (settle d)"
  by (auto simp: core_def close_closer_def settle_def Let_def)

lemma core_upd_state: "core c = core d \<Longrightarrow> core (upd_state f c) = core (upd_state f d)"
  by (auto simp: core_def upd_state_def)

lemma nth_update_in: "j < length xs \<Longrightarrow> xs[i := x] ! j = (if i = j then x else xs ! j)"
  by (cases "i = j") auto

lemma core_cancel_request [simp]: "core (cancel_request r c) = core c"
  by (auto simp: core_def cancel_request_def list_eq_iff_nth_eq nth_update_in)

lemma core_cancel_all [simp]: "core (cancel_all rs c) = core c"
  by (induction rs arbitrary: c) (simp_all add: cancel_all_def)

lemma core_hand_to_writer [simp]: "core (hand_to_writer m c) = core c"
  by (simp add: core_def hand_to_writer_def)

lemma core_release: "release soft r c = Inr (u, c') \<Longrightarrow> core c' = core c"
  by (auto simp: core_def release_def list_eq_iff_nth_eq nth_update_in split: if_splits)

lemma core_internal_errorf: "internal_errorf e c = Inr (x, c') \<Longrightarrow> core c' = core c"
  by (auto simp: internal_errorf_def core_def split: if_splits)

lemma core_checked_result: "checked_result req result err c = Inr (x, c') \<Longrightarrow> core c' = core c"
  unfolding checked_result_def Let_def
  by (auto simp: cbind_eq_Inr split: if_splits dest!: core_internal_errorf)

section \<open>The counters\<close>

definition holders :: "(goroutine \<Rightarrow> bool) \<Rightarrow> goroutine list \<Rightarrow> int" where
  "holders P gs = int (length (filter P gs))"

definition holders_in :: "(goroutine \<Rightarrow> bool) \<Rightarrow> goroutine multiset \<Rightarrow> int" where
  "holders_in P T = int (size (filter_mset P T))"

lemma holders_in_step: "holders_in P (mset gs + T) = holders P gs + holders_in P T"
  by (simp add: holders_in_def holders_def flip: mset_filter)

lemma holders_in_add: "holders_in P (add_mset g T) = (if P g then 1 else 0) + holders_in P T"
  by (simp add: holders_in_def)

lemma holders_simps [simp]:
  "holders P [] = 0" "holders P (g # gs) = (if P g then 1 else 0) + holders P gs"
  by (simp_all add: holders_def)

end
