(* ===== verification/Conn_Moves.thy ===== *)
theory Conn_Moves
  imports Conn_Inv
begin

text \<open>
  What each step of a goroutine does to the core of the connection. \<open>quiet\<close> steps leave
  it alone; the others change it as \<open>move\<close> says, and then \<open>updateInFlight\<close> settles it.
  The invariants are proved over these moves.
\<close>

inductive quiet :: "conn \<Rightarrow> goroutine \<Rightarrow> goroutine list \<Rightarrow> bool" for c :: conn where
  "quiet c GUser [GUser]"
| "quiet c GUser [GUser, GCancel r]"
| "quiet c (GCancel r) []"
| "shutting_down (state c) ErrClientClosing = Some e \<Longrightarrow> quiet c (GCall a req) [GCallFailed a e]"
| "quiet c (GWriteCheck p m) [GWriteFailed p e]"
| "quiet c (GWriteCheck p m) [GWritten p x]"
| "quiet c (GWriteCheck p m) [GWriting p m]"
| "quiet c (GWriting p m) [GWriteFailed p e]"
| "quiet c (GWriting p m) [GWritten p x]"
| "quiet c (GWritten (ForCall a) x) []"
| "conn_done c \<Longrightarrow> quiet c GStart []"
| "quiet c (GPreempt r) [GEnqueue r]"
| "respects_contract c r res err \<Longrightarrow> quiet c (GPreempt r) [GProcess r ToRead res err]"
| "quiet c (GEnqueue r) [GProcess r ToRead None (Some e)]"
| "quiet c (GDeliver r) [GProcess r ToDequeue None (Some e)]"
| "quiet c (GDeliver r) [GAwaitRelease r, GHandle r]"
| "quiet c (GAwaitRelease r) [GDequeue]"
| "quiet c (GHandle r) [GHandle r]"
| "respects_contract c r res err \<Longrightarrow> quiet c (GHandle r) [GProcess r ToEnd res err]"
| "quiet c (GRelease r) []"
| "quiet c GRead [GRead]"
| "\<not> is_call (in_req (requests c ! r)) \<Longrightarrow>
   quiet c (GProcess r k res err) [GWritten (ForResponse r k) x]"

definition retired :: "nat \<Rightarrow> response \<Rightarrow> conn \<Rightarrow> conn" where
  "retired a resp c = c\<lparr>calls := (calls c)[a := (calls c ! a)\<lparr>ac_response := Some resp\<rparr>]\<rparr>"

definition new_object :: "async_call \<Rightarrow> conn \<Rightarrow> conn" where
  "new_object ac c = c\<lparr>seq := seq c + 1, calls := calls c @ [ac]\<rparr>"

definition arrived :: "request \<Rightarrow> conn \<Rightarrow> conn" where
  "arrived req c = upd_state (incoming_update (\<lambda>n. n + 1))
     (c\<lparr>requests := requests c @ [\<lparr>in_req = req, in_cancelled = False, in_released = False\<rparr>]\<rparr>)"

inductive move :: "conn \<Rightarrow> goroutine \<Rightarrow> goroutine list \<Rightarrow> conn \<Rightarrow> bool" for c :: conn where
  quiet: "quiet c g gs \<Longrightarrow> move c g gs c"
| malformed_call:
    "move c GUser [GUser] (new_object \<lparr>ac_id = Int64ID (seq c + 1), ac_response = Some resp\<rparr> c)"
| new_call:
    "move c GUser [GUser, GCall (length (calls c)) req]
       (new_object \<lparr>ac_id = Int64ID (seq c + 1), ac_response = None\<rparr> c)"
| begin_notify:
    "outgoing_calls (state c) \<noteq> [] \<or> incoming_by_id (state c) \<noteq> []
       \<or> shutting_down (state c) ErrClientClosing = None \<Longrightarrow>
     g' = GWritten ForNotify x \<or> g' = GWriteCheck ForNotify m \<Longrightarrow>
     move c GUser [GUser, g'] (upd_state (outgoing_notifications_update (\<lambda>n. n + 1)) c)"
| end_notify:
    "move c (GWritten ForNotify x) [] (upd_state (outgoing_notifications_update (\<lambda>n. n - 1)) c)"
| closing: "move c GUser [GUser] (upd_state (conn_closing_update (\<lambda>_. True)) c)"
| registered:
    "shutting_down (state c) ErrClientClosing = None \<Longrightarrow>
     move c (GCall a req) [GWriteCheck (ForCall a) m]
       (upd_state (outgoing_calls_update (AList.update (ac_id (calls c ! a)) a)) c)"
| refused_call:
    "ac_response (calls c ! a) = None \<Longrightarrow> move c (GCallFailed a e) [] (retired a resp c)"
| retire_call:
    "map_of (outgoing_calls (state c)) (ac_id (calls c ! a)) = Some a \<Longrightarrow>
     ac_response (calls c ! a) = None \<Longrightarrow>
     move c (GWritten (ForCall a) x) []
       (retired a resp (upd_state (outgoing_calls_update (AList.delete (ac_id (calls c ! a)))) c))"
| write_broke:
    "write_err (state c) = None \<Longrightarrow>
     move c (GWriteFailed p e) [GWritten p x] (upd_state (write_err_update (\<lambda>_. Some e)) c)"
| write_broke_again:
    "write_err (state c) \<noteq> None \<Longrightarrow> move c (GWriteFailed p e) [GWritten p x] c"
| finish:
    "incoming (state c) \<noteq> 0 \<Longrightarrow>
     move c (GWritten (ForResponse r k) x) (continue r k) (upd_state (incoming_update (\<lambda>n. n - 1)) c)"
| start_reader:
    "\<not> conn_done c \<Longrightarrow> move c GStart [GRead] (upd_state (reading_update (\<lambda>_. True)) c)"
| arrived_call:
    "is_call req \<Longrightarrow> map_of (incoming_by_id (state c)) (req_id req) = None \<Longrightarrow> r = length (requests c) \<Longrightarrow>
     g' = GPreempt r \<or> g' = GProcess r ToRead None (Some e) \<Longrightarrow>
     move c GRead [g'] (upd_state (incoming_by_id_update (AList.update (req_id req) r)) (arrived req c))"
| arrived_duplicate:
    "r = length (requests c) \<Longrightarrow>
     move c GRead [GProcess r ToRead None (Some e)] (arrived (req\<lparr>req_id := NoID\<rparr>) c)"
| arrived_notification:
    "\<not> is_call req \<Longrightarrow> r = length (requests c) \<Longrightarrow> move c GRead [GPreempt r] (arrived req c)"
| answered:
    "map_of (outgoing_calls (state c)) i = Some a \<Longrightarrow> ac_response (calls c ! a) = None \<Longrightarrow>
     resp_id resp = i \<Longrightarrow>
     move c GRead [GRead] (retired a resp (upd_state (outgoing_calls_update (AList.delete i)) c))"
| read_ended:
    "retire_all err (outgoing_calls (state c)) c = Inr (u, c') \<Longrightarrow>
     move c GRead [] (upd_state (\<lambda>s. s\<lparr>reading := False, read_err := Some err, outgoing_calls := []\<rparr>) c')"
| enqueued:
    "shutting_down (state c) ErrServerClosing = None \<Longrightarrow>
     gs = (if handler_running (state c) then [GRead] else [GRead, GDequeue]) \<Longrightarrow>
     move c (GEnqueue r) gs
       (upd_state (\<lambda>s. s\<lparr>handler_queue := handler_queue s @ [r], handler_running := True\<rparr>) c)"
| dequeued:
    "handler_queue (state c) = r # rs \<Longrightarrow>
     move c GDequeue [GDeliver r] (upd_state (handler_queue_update (\<lambda>_. rs)) c)"
| queue_empty:
    "handler_queue (state c) = [] \<Longrightarrow>
     move c GDequeue [] (upd_state (handler_running_update (\<lambda>_. False)) c)"
| forget:
    "is_call (in_req (requests c ! r)) \<Longrightarrow>
     g' = GWriteCheck (ForResponse r k) m \<or> g' = GWritten (ForResponse r k) x \<Longrightarrow>
     move c (GProcess r k res err) [g']
       (upd_state (incoming_by_id_update (AList.delete (req_id (in_req (requests c ! r))))) c)"

lemma retired_core [simp]:
  "state (retired a resp c) = state c" "conn_done (retired a resp c) = conn_done c"
  "requests (retired a resp c) = requests c" "seq (retired a resp c) = seq c"
  "length (calls (retired a resp c)) = length (calls c)"
  "close_result (retired a resp c) = close_result c"
  "closer_closed (retired a resp c) = closer_closed c" "on_done_called (retired a resp c) = on_done_called c"
  by (simp_all add: retired_def)

lemma new_object_core [simp]:
  "state (new_object ac c) = state c" "conn_done (new_object ac c) = conn_done c"
  "requests (new_object ac c) = requests c" "seq (new_object ac c) = seq c + 1"
  "calls (new_object ac c) = calls c @ [ac]"
  "close_result (new_object ac c) = close_result c"
  "closer_closed (new_object ac c) = closer_closed c" "on_done_called (new_object ac c) = on_done_called c"
  by (simp_all add: new_object_def)

text \<open>
  The settled core after a move from \<open>c\<close> to \<open>c1\<close>. Only a move that leaves the in-flight
  state alone, or finds the connection done, is not followed by \<open>settle\<close>.
\<close>

definition settled :: "conn \<Rightarrow> conn \<Rightarrow> conn \<Rightarrow> bool" where
  "settled c c1 c' =
     (\<exists>c2. (c2 = c1 \<and> (state c1 = state c \<or> conn_done c1) \<or> \<not> conn_done c1 \<and> c2 = settle c1)
        \<and> core c' = core c2)"

lemma settledI: "state c1 = state c \<or> conn_done c1 \<Longrightarrow> settled c c1 c1" "\<not> conn_done c1 \<Longrightarrow> settled c c1 (settle c1)"
  by (auto simp: settled_def)

lemma settled_core: "settled c c1 c2 \<Longrightarrow> core c' = core c2 \<Longrightarrow> settled c c1 c'"
  by (auto simp: settled_def)

lemma settled_cong: "settled c c1 c' \<Longrightarrow> core c1 = core d1 \<Longrightarrow> settled c d1 c'"
  using core_settle [of c1 d1] core_eqD(1) [of c1 d1] core_eqD(3) [of c1 d1] by (auto simp: settled_def)

lemma uif_settled:
  "update_in_flight f c = Inr (a, c') \<Longrightarrow> \<exists>c1. f c = Inr (a, c1) \<and> settled d c1 c'"
  by (auto simp: uif_eq_Inr intro: settledI)

lemma retire_retired:
  "retire a resp c = Inr (u, c') \<longleftrightarrow> ac_response (calls c ! a) = None \<and> c' = retired a resp c"
  by (auto simp: retire_eq_Inr retired_def)

lemma retire_all_upd_state:
  "retire_all err xs (upd_state f c) = Inr (u, c') \<Longrightarrow>
     \<exists>c''. retire_all err xs c = Inr (u, c'') \<and> c' = upd_state f c''"
proof (induction err xs arbitrary: c rule: retire_all.induct)
  case (1 err)
  then show ?case by auto
next
  case (2 err i a xs)
  have comm: "retired a resp (upd_state f c) = upd_state f (retired a resp c)" for resp
    by (simp add: retired_def upd_state_def)
  from 2 show ?case
    by (auto simp: cbind_eq_Inr retire_retired comm)
qed

lemma quiet_move: "quiet c g gs \<Longrightarrow> core c' = core c \<Longrightarrow> \<exists>c1. move c g gs c1 \<and> settled c c1 c'"
  by (auto intro: move.quiet simp: settled_def)

lemmas quiet_moves = quiet.intros [THEN move.quiet]

lemma via: "settled c c1 c' \<Longrightarrow> move c g gs c1 \<Longrightarrow> \<exists>c1. move c g gs c1 \<and> settled c c1 c'"
  by auto

lemma move_same: "move c g gs c1 \<Longrightarrow> state c1 = state c \<Longrightarrow> \<exists>c2. move c g gs c2 \<and> settled c c2 c1"
  by (auto simp: settled_def)

lemma quiet_settled: "quiet c g gs \<Longrightarrow> settled c c c' \<Longrightarrow> \<exists>c1. move c g gs c1 \<and> settled c c1 c'"
  by (auto intro: move.quiet)

lemma after_write_quiet:
  "quiet c (GWriteCheck p m) (after_write x p e)" "quiet c (GWriting p m) (after_write x p e)"
  by (auto simp: after_write_def intro: quiet.intros)

lemma cancel_all_settled:
  "settled c (cancel_all rs c1) c' \<Longrightarrow> move c g gs c1 \<Longrightarrow> \<exists>c1. move c g gs c1 \<and> settled c c1 c'"
  by (blast intro: settled_cong [OF _ core_cancel_all])

lemma cancelled_settled:
  "settled c (upd_state f (cancel_request r c1)) c' \<Longrightarrow> move c g gs (upd_state f c1) \<Longrightarrow>
     \<exists>c1. move c g gs c1 \<and> settled c c1 c'"
  by (blast intro: settled_cong core_upd_state core_cancel_request)

lemma arrived_req [simp]: "in_req (requests (arrived req c) ! length (requests c)) = req"
  by (simp add: arrived_def)

lemma arrived_state [simp]: "state (arrived req c) = (state c)\<lparr>incoming := incoming (state c) + 1\<rparr>"
  by (simp add: arrived_def)

lemma clear_id_arrived: "clear_id (length (requests c)) (arrived req c) = arrived (req\<lparr>req_id := NoID\<rparr>) c"
  by (simp add: clear_id_def arrived_def upd_state_def)

theorem gstep_move:
  assumes "gstep c g act" and "act c = Inr (gs, c')"
  shows "\<exists>c1. move c g gs c1 \<and> settled c c1 c'"
  using assms(1)
proof (cases rule: gstep.cases)
  case (user_call m params)
  obtain req merr where n: "new_call (Int64ID (seq c + 1)) m params = (req, merr)" by fastforce
  show ?thesis
  proof (cases merr)
    case None
    then have "gs = [GUser, GCall (length (calls c)) req]"
      and "c' = new_object \<lparr>ac_id = Int64ID (seq c + 1), ac_response = None\<rparr> c"
      using user_call assms(2) n by (auto simp: cbind_eq_Inr conn_defs Let_def new_object_def)
    with user_call show ?thesis by (auto intro!: move_same move.new_call)
  next
    case (Some e)
    then have "gs = [GUser]"
      and "\<exists>resp. c' = new_object \<lparr>ac_id = Int64ID (seq c + 1), ac_response = Some resp\<rparr> c"
      using user_call assms(2) n
      by (auto simp: cbind_eq_Inr conn_defs Let_def new_object_def retire_retired retired_def)
    with user_call show ?thesis by (auto intro!: move_same move.malformed_call)
  qed
next
  case (user_notify m params)
  then show ?thesis using assms(2)
    by (auto simp: cbind_eq_Inr conn_defs notify_begin_def Let_def dest!: uif_settled [where d = c]
        split: prod.splits option.splits if_splits
        elim!: via intro!: quiet_moves move.begin_notify)
next
  case (user_cancel i)
  then show ?thesis using assms(2)
    by (auto simp: cbind_eq_Inr dest!: uif_settled [where d = c] split: option.splits elim!: via intro!: quiet_moves)
next
  case user_close
  then show ?thesis using assms(2)
    by (auto simp: cbind_eq_Inr conn_defs close_begin_def dest!: uif_settled [where d = c] elim!: via intro!: move.closing)
next
  case (user_wait from_wait)
  then show ?thesis using assms(2)
    by (auto simp: cbind_eq_Inr conn_defs wait_def Let_def dest!: uif_settled [where d = c] elim!: via intro!: quiet_moves)
next
  case (cancel_req r)
  then show ?thesis using assms(2) by (auto intro!: quiet_move quiet.intros)
next
  case (call_register a req)
  then show ?thesis using assms(2)
    by (auto simp: cbind_eq_Inr conn_defs register_call_def dest!: uif_settled [where d = c] split: option.splits
        elim!: via intro!: move.registered intro!: quiet_moves(4))
next
  case (call_failed a e)
  then show ?thesis using assms(2)
    by (auto simp: cbind_eq_Inr retire_retired intro!: move_same move.refused_call)
next
  case (write_checked p ctx_err msg)
  then show ?thesis using assms(2)
    by (auto simp: cbind_eq_Inr conn_defs write_check_def dest!: uif_settled [where d = c] split: option.splits
        elim!: via intro!: quiet_moves(7) after_write_quiet [THEN move.quiet])
next
  case (write_done p ctx_err msg wres)
  then show ?thesis using assms(2) by (auto intro!: quiet_move after_write_quiet)
next
  case (write_broken p e)
  show ?thesis
  proof (cases "write_err (state c) = None")
    case True
    then show ?thesis using write_broken assms(2)
      by (auto simp: cbind_eq_Inr conn_defs write_failed_def dest!: uif_settled [where d = c]
          elim!: cancel_all_settled intro!: move.write_broke)
  next
    case False
    then show ?thesis using write_broken assms(2)
      by (auto simp: cbind_eq_Inr conn_defs write_failed_def dest!: uif_settled [where d = c]
          elim!: via intro!: move.write_broke_again)
  qed
next
  case (written_response r k err)
  then show ?thesis using assms(2)
    by (auto simp: cbind_eq_Inr conn_defs finish_request_def dest!: uif_settled [where d = c] split: if_splits
        elim!: cancelled_settled intro!: move.finish)
next
  case (written_call a)
  then show ?thesis using assms(2) by (auto intro!: quiet_move quiet.intros)
next
  case (written_call_failed a e)
  then show ?thesis using assms(2)
    by (auto simp: cbind_eq_Inr conn_defs retire_call_def retire_retired Let_def dest!: uif_settled [where d = c]
        split: if_splits elim!: via intro!: quiet_moves move.retire_call)
next
  case (written_notify err)
  then show ?thesis using assms(2)
    by (auto simp: cbind_eq_Inr conn_defs notify_end_def dest!: uif_settled [where d = c] elim!: via intro!: move.end_notify)
next
  case reader_start
  then show ?thesis using assms(2)
    by (auto simp: cbind_eq_Inr conn_defs start_def dest!: uif_settled [where d = c] split: if_splits
        elim!: via intro!: quiet_moves move.start_reader)
next
  case (read_request req)
  then obtain err where acc: "accept (length (requests c))
      (c\<lparr>requests := requests c @ [\<lparr>in_req = req, in_cancelled = False, in_released = False\<rparr>]\<rparr>) = Inr (err, c')"
    and gs: "gs = (case err of Some e \<Rightarrow> [GProcess (length (requests c)) ToRead None (Some e)]
                | None \<Rightarrow> [GPreempt (length (requests c))])"
    using assms(2) by (auto simp: cbind_eq_Inr new_incoming_def)
  from acc obtain c1 where c1: "accept_section (length (requests c))
      (c\<lparr>requests := requests c @ [\<lparr>in_req = req, in_cancelled = False, in_released = False\<rparr>]\<rparr>) = Inr (err, c1)"
    and "settled c c1 c'"
    unfolding accept_def by (blast dest: uif_settled [where d = c])
  have "move c GRead gs c1"
    using c1 gs
    by (cases "is_call req")
       (auto simp: accept_section_def Let_def arrived_def [symmetric] arrived_req arrived_state clear_id_arrived
        split: if_splits option.splits
        intro!: move.arrived_call move.arrived_duplicate move.arrived_notification)
  with \<open>settled c c1 c'\<close> read_request show ?thesis by blast
next
  case (read_resp resp)
  then show ?thesis using assms(2)
    by (auto simp: cbind_eq_Inr conn_defs read_response_def retire_retired dest!: uif_settled [where d = c]
        split: option.splits elim!: via intro!: quiet_moves move.answered)
next
  case (read_failed err)
  define f where "f = (\<lambda>s::in_flight. s\<lparr>reading := False, read_err := Some err\<rparr>)"
  from read_failed assms(2) obtain c1 where c1: "read_end_section err c = Inr ((), c1)"
    and st: "settled c c1 c'" and gs: "gs = []"
    by (auto simp: cbind_eq_Inr read_end_def dest!: uif_settled [where d = c])
  then obtain u c2 where "retire_all err (outgoing_calls (state c)) (upd_state f c) = Inr (u, c2)"
    and c1: "c1 = upd_state (outgoing_calls_update (\<lambda>_. [])) c2"
    by (auto simp: cbind_eq_Inr read_end_section_def f_def)
  with retire_all_upd_state obtain c3
    where c3: "retire_all err (outgoing_calls (state c)) c = Inr (u, c3)" "c2 = upd_state f c3"
    by blast
  from c1 c3 have "c1 = upd_state (\<lambda>s. s\<lparr>reading := False, read_err := Some err, outgoing_calls := []\<rparr>) c3"
    by (simp add: upd_state_def f_def)
  with c3(1) st gs read_failed move.read_ended show ?thesis by blast
next
  case (enqueue_req r)
  then show ?thesis using assms(2)
    by (auto simp: cbind_eq_Inr conn_defs enqueue_def dest!: uif_settled [where d = c]
        split: option.splits elim!: via intro!: quiet_moves move.enqueued)
next
  case dequeue_next
  then show ?thesis using assms(2)
    by (auto simp: cbind_eq_Inr conn_defs dequeue_def dest!: uif_settled [where d = c]
        split: list.splits elim!: via intro!: move.dequeued move.queue_empty)
next
  case (deliver r)
  then show ?thesis using assms(2)
    by (auto simp: cbind_eq_Inr delivery_error_def dest!: uif_settled [where d = c]
        split: if_splits elim!: via intro!: quiet_moves quiet_move quiet.intros)
next
  case (soft_release r)
  then show ?thesis using assms(2)
    by (auto simp: cbind_eq_Inr dest!: core_release intro!: quiet_move quiet.intros)
next
  case (handler_async r)
  then show ?thesis using assms(2)
    by (auto simp: cbind_eq_Inr dest!: core_release intro!: quiet_move quiet.intros)
next
  case (process r k result err)
  let ?req = "in_req (requests c ! r)"
  from process assms(2) obtain res' err' c0 where
    "checked_result ?req result err c = Inr ((res', err'), c0)"
    and rest: "(if is_call ?req then
               (case new_response (req_id ?req) res' err' of (resp, resp_err) \<Rightarrow>
                  cbind (forget_request (req_id ?req))
                    (\<lambda>_. case resp_err of
                        None \<Rightarrow> cret [GWriteCheck (ForResponse r k) (MsgResponse resp)]
                      | Some e \<Rightarrow>
                          cbind (internal_errorf (errorf_prefix (''malformed result for '' @ go_q (req_method ?req)) e))
                            (\<lambda>_. cret [GWritten (ForResponse r k) err'])))
             else cret [GWritten (ForResponse r k) err']) c0 = Inr (gs, c')"
    by (auto simp: cbind_eq_Inr Let_def)
  then have c0: "core c0 = core c" by (simp add: core_checked_result)
  show ?thesis
  proof (cases "is_call ?req")
    case False
    with rest c0 process show ?thesis by (auto intro!: quiet_move quiet.intros)
  next
    case True
    from rest True obtain c1 g' where f: "forget_request (req_id ?req) c0 = Inr ((), c1)"
      and "core c' = core c1" and g': "gs = [g']"
      "(\<exists>m. g' = GWriteCheck (ForResponse r k) m) \<or> (\<exists>x. g' = GWritten (ForResponse r k) x)"
      by (auto simp: cbind_eq_Inr split: prod.splits option.splits dest!: core_internal_errorf)
    moreover from f have "settled c (upd_state (incoming_by_id_update (AList.delete (req_id ?req))) c0) c1"
      by (auto simp: forget_request_def forget_section_def dest!: uif_settled [where d = c])
    ultimately have "settled c (upd_state (incoming_by_id_update (AList.delete (req_id ?req))) c) c'"
      using c0 by (blast intro: settled_cong settled_core core_upd_state)
    moreover have "move c g gs (upd_state (incoming_by_id_update (AList.delete (req_id ?req))) c)"
      unfolding process(1) g'(1) using g'(2) True move.forget by blast
    ultimately show ?thesis by blast
  qed
qed (insert assms(2), auto intro!: quiet_move quiet.intros)

section \<open>Interface: an invariant kept by the moves\<close>

lemma sys_step_move:
  "sys_step s t \<Longrightarrow>
     \<exists>c g T gs c1 c'. s = (c, add_mset g T) \<and> t = (c', mset gs + T) \<and> move c g gs c1 \<and> settled c c1 c'"
  by (erule sys_stepE) (use gstep_move in blast)

locale move_invariant =
  fixes I :: "system \<Rightarrow> bool"
  assumes I_init: "sys_init s \<Longrightarrow> I s"
    and I_core: "core c' = core c \<Longrightarrow> I (c, T) \<Longrightarrow> I (c', T)"
    and I_settle: "\<not> conn_done c \<Longrightarrow> I (c, T) \<Longrightarrow> I (settle c, T)"
    and I_move: "move c g gs c1 \<Longrightarrow> I (c, add_mset g T) \<Longrightarrow> I (c1, mset gs + T)"
begin

lemma I_step: "I s \<Longrightarrow> sys_step s t \<Longrightarrow> I t"
  by (drule sys_step_move) (auto simp: settled_def intro: I_core I_settle I_move)

end

sublocale move_invariant \<subseteq> invariant_system sys_init sys_step I
  by unfold_locales (auto intro: I_init I_step)

end
