(* ===== verification/Conn_Counts.thy ===== *)
theory Conn_Counts
  imports Conn_Moves
begin

text \<open>
  The counters of the in-flight state against the goroutines: a move changes a counter by
  what its goroutine takes up or gives back, so the counts agree in every state.
\<close>

definition gains :: "(goroutine \<Rightarrow> bool) \<Rightarrow> goroutine \<Rightarrow> goroutine list \<Rightarrow> int" where
  "gains P g gs = holders P gs - (if P g then 1 else 0)"

definition owned_count :: "in_flight \<Rightarrow> int" where
  "owned_count s = incoming s - int (length (handler_queue s))"

abbreviation "is_owner \<equiv> \<lambda>g. owns g \<noteq> None"

definition balanced :: "conn \<Rightarrow> conn \<Rightarrow> goroutine \<Rightarrow> goroutine list \<Rightarrow> bool" where
  "balanced c c' g gs =
     (owned_count (state c') = owned_count (state c) + gains is_owner g gs
      \<and> outgoing_notifications (state c') = outgoing_notifications (state c) + gains notifies g gs
      \<and> of_bool (handler_running (state c')) = of_bool (handler_running (state c)) + gains is_loop g gs
      \<and> of_bool (reading (state c')) = of_bool (reading (state c)) + gains is_reader g gs)"

lemma holders_continue [simp]:
  "holders P (continue r k) =
     (case k of ToRead \<Rightarrow> if P GRead then 1 else 0 | ToDequeue \<Rightarrow> if P GDequeue then 1 else 0
      | ToEnd \<Rightarrow> if P (GRelease r) then 1 else 0)"
  by (cases k) simp_all

lemma quiet_balanced: "quiet c g gs \<Longrightarrow> balanced c c g gs"
  by (erule quiet.cases) (auto simp: balanced_def gains_def)

lemma move_balanced:
  assumes "move c g gs c1"
    and "is_loop g \<Longrightarrow> handler_running (state c)"
    and "is_reader g \<Longrightarrow> reading (state c)"
    and "g = GStart \<Longrightarrow> \<not> reading (state c)"
  shows "balanced c c1 g gs"
  using assms
proof (cases rule: move.cases)
  case quiet
  then show ?thesis by (simp add: quiet_balanced)
next
  case (finish r k x)
  then show ?thesis by (cases k) (auto simp: balanced_def gains_def owned_count_def)
next
  case (read_ended err u c')
  with assms show ?thesis
    by (auto simp: balanced_def gains_def owned_count_def dest!: retire_all_core)
next
  case (enqueued r)
  with assms show ?thesis
    by (cases "handler_running (state c)") (simp_all add: balanced_def gains_def owned_count_def)
next
  case begin_notify
  then show ?thesis by (elim disjE) (simp_all add: balanced_def gains_def owned_count_def)
next
  case arrived_call
  then show ?thesis by (elim disjE) (simp_all add: balanced_def gains_def owned_count_def arrived_def)
next
  case forget
  then show ?thesis by (elim disjE) (simp_all add: balanced_def gains_def owned_count_def)
qed (insert assms, simp_all add: balanced_def gains_def owned_count_def arrived_def)

definition inv_counts :: "system \<Rightarrow> bool" where
  "inv_counts s =
     (let st = state (fst s); T = snd s in
      owned_count st = holders_in is_owner T
      \<and> outgoing_notifications st = holders_in notifies T
      \<and> holders_in is_loop T = of_bool (handler_running st)
      \<and> holders_in is_reader T = of_bool (reading st)
      \<and> holders_in (\<lambda>g. g = GStart) T + of_bool (reading st) \<le> 1
      \<and> (handler_queue st \<noteq> [] \<longrightarrow> handler_running st))"

lemma holders_in_nonneg: "0 \<le> holders_in P T"
  by (simp add: holders_in_def)

lemma holders_in_gains: "holders_in P (mset gs + T) = holders_in P (add_mset g T) + gains P g gs"
  by (simp add: holders_in_step holders_in_add gains_def)

lemma holders_in_member: "P g \<Longrightarrow> 0 < holders_in P (add_mset g T)"
  using holders_in_nonneg [of P T] by (simp add: holders_in_add)

lemma holders_in_count: "holders_in P T = of_bool b \<Longrightarrow> size (filter_mset P T) = (if b then 1 else 0)"
  by (auto simp: holders_in_def)

lemma inv_counts_parts:
  assumes "inv_counts (c, T)"
  shows "owned_count (state c) = holders_in is_owner T"
    "outgoing_notifications (state c) = holders_in notifies T"
    "holders_in is_loop T = of_bool (handler_running (state c))"
    "holders_in is_reader T = of_bool (reading (state c))"
    "holders_in (\<lambda>g. g = GStart) T + of_bool (reading (state c)) \<le> 1"
    "handler_queue (state c) \<noteq> [] \<longrightarrow> handler_running (state c)"
  using assms unfolding inv_counts_def Let_def by auto

lemma inv_counts_active:
  assumes i: "inv_counts (c, add_mset g T)"
  shows "is_loop g \<Longrightarrow> handler_running (state c)" "is_reader g \<Longrightarrow> reading (state c)"
    "g = GStart \<Longrightarrow> \<not> reading (state c)"
    "is_owner g \<Longrightarrow> incoming (state c) > 0" "notifies g \<Longrightarrow> outgoing_notifications (state c) > 0"
  using inv_counts_parts [OF i] holders_in_member [of is_loop g T] holders_in_member [of is_reader g T]
    holders_in_member [of "\<lambda>g. g = GStart" g T] holders_in_member [of is_owner g T]
    holders_in_member [of notifies g T]
  by (simp_all add: owned_count_def of_bool_def split: if_splits)

lemma move_start: "move c g gs c1 \<Longrightarrow>
    gains (\<lambda>g. g = GStart) g gs + of_bool (reading (state c1)) \<le> of_bool (reading (state c)) \<or>
    g = GStart \<and> gains (\<lambda>g. g = GStart) g gs = - 1"
  by (erule move.cases) (auto simp: gains_def arrived_def dest!: retire_all_core elim!: quiet.cases split: cont.splits)

lemma move_queue:
  "move c g gs c1 \<Longrightarrow> handler_queue (state c) \<noteq> [] \<longrightarrow> handler_running (state c) \<Longrightarrow>
   handler_queue (state c1) \<noteq> [] \<Longrightarrow> handler_running (state c1)"
  by (erule move.cases) (auto simp: arrived_def dest!: retire_all_core)

lemma inv_counts_move:
  assumes i: "inv_counts (c, add_mset g T)" and m: "move c g gs c1"
  shows "inv_counts (c1, mset gs + T)"
proof -
  have b: "balanced c c1 g gs"
    using inv_counts_active [OF i] m by (intro move_balanced)
  have st: "holders_in (\<lambda>g. g = GStart) (mset gs + T) + of_bool (reading (state c1)) \<le> 1"
    using move_start [OF m] i
    by (auto simp: inv_counts_def Let_def holders_in_gains [of _ gs T g] of_bool_def split: if_splits)
  show ?thesis
    using i b st move_queue [OF m]
    by (auto simp: inv_counts_def Let_def balanced_def holders_in_gains [of _ gs T g])
qed

lemma inv_counts_settle: "inv_counts (settle c, T) = inv_counts (c, T)"
  by (simp add: inv_counts_def owned_count_def Let_def)

lemma inv_counts_core: "core c' = core c \<Longrightarrow> inv_counts (c', T) = inv_counts (c, T)"
  by (simp add: inv_counts_def Let_def core_eqD(1) [of c' c])

lemma inv_counts_init: "sys_init s \<Longrightarrow> inv_counts s"
  by (auto simp: sys_init_def inv_counts_def new_conn_def empty_in_flight_def holders_in_def owned_count_def)

interpretation counts: move_invariant inv_counts
  by unfold_locales
    (erule inv_counts_init inv_counts_core [THEN iffD2] inv_counts_settle [THEN iffD2] inv_counts_move;
     assumption)+

end
