(* ===== verification/Conn_Table.thy ===== *)
theory Conn_Table
  imports Conn_Counts
begin

text \<open>
  The table of incoming calls: every entry is a call with that ID which waits in the
  handler queue or is held by a goroutine, so an idle connection has an empty table.
\<close>

definition entry_ok :: "conn \<Rightarrow> goroutine multiset \<Rightarrow> rpc_id \<Rightarrow> nat \<Rightarrow> bool" where
  "entry_ok c T i r =
     (r < length (requests c) \<and> req_id (in_req (requests c ! r)) = i \<and> id_is_valid i
      \<and> (r \<in> set (handler_queue (state c)) \<or> (\<exists>g \<in># T. holds g = Some r)))"

definition inv_table :: "system \<Rightarrow> bool" where
  "inv_table s =
     (distinct (map fst (incoming_by_id (state (fst s))))
      \<and> (\<forall>i r. map_of (incoming_by_id (state (fst s))) i = Some r \<longrightarrow> entry_ok (fst s) (snd s) i r))"

lemma inv_table_init: "sys_init s \<Longrightarrow> inv_table s"
  by (auto simp: sys_init_def inv_table_def new_conn_def empty_in_flight_def)

lemma entry_ok_core: "core c' = core c \<Longrightarrow> entry_ok c' T i r = entry_ok c T i r"
  unfolding entry_ok_def using core_in_req [of c' c r]
  by (auto simp: core_eqD(1,10) [of c' c])

lemma inv_table_core: "core c' = core c \<Longrightarrow> inv_table (c', T) = inv_table (c, T)"
  unfolding inv_table_def by (simp add: entry_ok_core [of c' c] core_eqD(1) [of c' c])

lemma inv_table_settle: "inv_table (settle c, T) = inv_table (c, T)"
  by (simp add: inv_table_def entry_ok_def)

text \<open>An entry survives a step when its holder is another goroutine or passes the request on.\<close>

lemma entry_ok_keep:
  assumes "entry_ok c (add_mset g T) i r"
    and "\<And>r. r < length (requests c) \<Longrightarrow> in_req (requests c1 ! r) = in_req (requests c ! r)"
    and "length (requests c) \<le> length (requests c1)"
    and "r \<in> set (handler_queue (state c)) \<Longrightarrow> r \<in> set (handler_queue (state c1)) \<or> (\<exists>g' \<in> set gs. holds g' = Some r)"
    and "holds g = Some r \<Longrightarrow> r \<in> set (handler_queue (state c1)) \<or> (\<exists>g' \<in> set gs. holds g' = Some r)"
  shows "entry_ok c1 (mset gs + T) i r"
  using assms unfolding entry_ok_def by auto

lemma quiet_holds:
  "quiet c g gs \<Longrightarrow> holds g = Some r \<Longrightarrow> is_call (in_req (requests c ! r)) \<Longrightarrow> \<exists>g' \<in> set gs. holds g' = Some r"
  by (erule quiet.cases) auto

lemma move_keeps_requests:
  assumes "move c g gs c1"
  shows "length (requests c) \<le> length (requests c1)"
    and "r < length (requests c) \<Longrightarrow> in_req (requests c1 ! r) = in_req (requests c ! r)"
proof -
  have "length (requests c) \<le> length (requests c1) \<and>
    (r < length (requests c) \<longrightarrow> in_req (requests c1 ! r) = in_req (requests c ! r))"
    using assms by (cases rule: move.cases) (auto simp: arrived_def nth_append dest!: retire_all_core)
  then show "length (requests c) \<le> length (requests c1)"
    and "r < length (requests c) \<Longrightarrow> in_req (requests c1 ! r) = in_req (requests c ! r)" by auto
qed

lemma move_queue_keeps:
  assumes "move c g gs c1" and "r \<in> set (handler_queue (state c))"
  shows "r \<in> set (handler_queue (state c1)) \<or> (\<exists>g' \<in> set gs. holds g' = Some r)"
  using assms by (cases rule: move.cases) (auto simp: arrived_def dest!: retire_all_core)

lemma move_holds_keeps:
  assumes "move c g gs c1" and "holds g = Some r" and "is_call (in_req (requests c ! r))"
    and "map_of (incoming_by_id (state c1)) (req_id (in_req (requests c ! r))) \<noteq> None"
  shows "r \<in> set (handler_queue (state c1)) \<or> (\<exists>g' \<in> set gs. holds g' = Some r)"
  using assms
  by (cases rule: move.cases)
     (auto simp: arrived_def delete_conv' dest!: retire_all_core dest: quiet_holds)

lemma move_table:
  assumes "move c g gs c1" and "map_of (incoming_by_id (state c1)) i = Some r"
  shows "map_of (incoming_by_id (state c)) i = Some r \<or>
         (\<exists>req e. is_call req \<and> r = length (requests c) \<and> in_req (requests c1 ! r) = req \<and> req_id req = i
            \<and> r < length (requests c1) \<and> (gs = [GPreempt r] \<or> gs = [GProcess r ToRead None (Some e)]))"
  using assms
  by (cases rule: move.cases)
     (auto simp: arrived_def delete_conv' update_conv' dest!: retire_all_core split: if_splits)

lemma move_table_distinct:
  assumes "move c g gs c1" and "distinct (map fst (incoming_by_id (state c)))"
  shows "distinct (map fst (incoming_by_id (state c1)))"
  using assms
  by (cases rule: move.cases)
     (auto simp: arrived_def intro: distinct_update distinct_delete dest!: retire_all_core)


lemma inv_table_move:
  assumes m: "move c g gs c1" and i: "inv_table (c, add_mset g T)"
  shows "inv_table (c1, mset gs + T)"
proof -
  have "entry_ok c1 (mset gs + T) i r" if e: "map_of (incoming_by_id (state c1)) i = Some r" for i r
    using move_table [OF m e]
  proof
    assume "map_of (incoming_by_id (state c)) i = Some r"
    with i have k: "entry_ok c (add_mset g T) i r" by (simp add: inv_table_def)
    show ?thesis
    proof (rule entry_ok_keep [OF k])
      assume "holds g = Some r"
      with m k e show "r \<in> set (handler_queue (state c1)) \<or> (\<exists>g' \<in> set gs. holds g' = Some r)"
        by (intro move_holds_keeps) (auto simp: entry_ok_def is_call_def)
    qed (use m in \<open>auto dest: move_keeps_requests move_queue_keeps\<close>)
  next
    assume "\<exists>req e. is_call req \<and> r = length (requests c) \<and> in_req (requests c1 ! r) = req \<and> req_id req = i
            \<and> r < length (requests c1) \<and> (gs = [GPreempt r] \<or> gs = [GProcess r ToRead None (Some e)])"
    then show ?thesis by (auto simp: entry_ok_def is_call_def)
  qed
  with i move_table_distinct [OF m] show ?thesis by (simp add: inv_table_def)
qed

interpretation table: move_invariant inv_table
  by unfold_locales
    (erule inv_table_init inv_table_core [THEN iffD2] inv_table_settle [THEN iffD2] inv_table_move;
     assumption)+

lemma holds_owns: "holds g = Some r \<Longrightarrow> owns g = Some r"
  by (cases g) auto

lemma holders_in_zero: "holders_in P T = 0 \<Longrightarrow> g \<in># T \<Longrightarrow> \<not> P g"
  by (auto simp: holders_in_def)

lemma idle_table_empty:
  assumes "inv_counts (c, T)" and "inv_table (c, T)" and "incoming (state c) = 0"
  shows "incoming_by_id (state c) = []" "handler_queue (state c) = []"
proof -
  have n: "int (length (handler_queue (state c))) + holders_in is_owner T = 0"
    using inv_counts_parts(1) [OF assms(1)] assms(3) by (simp add: owned_count_def)
  with holders_in_nonneg [of is_owner T]
  have "length (handler_queue (state c)) = 0" "holders_in is_owner T = 0" by linarith+
  then have q: "handler_queue (state c) = []" "holders_in is_owner T = 0" by auto
  show "incoming_by_id (state c) = []"
  proof (rule ccontr)
    assume "incoming_by_id (state c) \<noteq> []"
    then obtain i r xs where "incoming_by_id (state c) = (i, r) # xs"
      by (metis neq_Nil_conv surj_pair)
    then have "entry_ok c T i r" using assms(2) by (simp add: inv_table_def)
    with q holders_in_zero holds_owns show False by (fastforce simp: entry_ok_def)
  qed
  show "handler_queue (state c) = []" by (fact q)
qed

end
