(* ===== verification/Conn_Calls.thy ===== *)
theory Conn_Calls
  imports Conn_Counts
begin

text \<open>
  The table of outgoing calls: a call without a response is either in the table or still
  with the goroutine that registers it, and never both, so no call is answered twice and
  none is lost.
\<close>

definition open_call :: "conn \<Rightarrow> nat \<Rightarrow> bool" where
  "open_call c a = (a < length (calls c) \<and> ac_response (calls c ! a) = None)"

definition tracked :: "conn \<Rightarrow> nat \<Rightarrow> bool" where
  "tracked c a = (map_of (outgoing_calls (state c)) (ac_id (calls c ! a)) = Some a)"

definition claims :: "conn \<Rightarrow> goroutine multiset \<Rightarrow> nat \<Rightarrow> int" where
  "claims c T a = holders_in (\<lambda>g. registering g = Some a) T + of_bool (tracked c a)"

definition nth_id :: "nat \<Rightarrow> rpc_id" where
  "nth_id a = Int64ID (word_of_nat (a + 1))"

definition calls_wf :: "conn \<Rightarrow> bool" where
  "calls_wf c =
     (seq c = word_of_nat (length (calls c))
      \<and> (\<forall>a < length (calls c). ac_id (calls c ! a) = nth_id a)
      \<and> distinct (map fst (outgoing_calls (state c)))
      \<and> (\<forall>i a. map_of (outgoing_calls (state c)) i = Some a \<longrightarrow> a < length (calls c) \<and> nth_id a = i)
      \<and> (read_err (state c) \<noteq> None \<longrightarrow> outgoing_calls (state c) = []))"

definition inv_calls :: "system \<Rightarrow> bool" where
  "inv_calls s =
     (calls_wf (fst s)
      \<and> (\<forall>a. claims (fst s) (snd s) a \<le> of_bool (open_call (fst s) a))
      \<and> (length (calls (fst s)) \<le> 2 ^ 64 \<longrightarrow>
          (\<forall>a. of_bool (open_call (fst s) a) \<le> claims (fst s) (snd s) a)))"

lemma nth_id_inj: "nth_id a = nth_id b \<Longrightarrow> a < 2 ^ 64 \<Longrightarrow> b < 2 ^ 64 \<Longrightarrow> a = b"
proof -
  assume e: "nth_id a = nth_id b" and a: "a < 2 ^ 64" and b: "b < 2 ^ 64"
  from e have "unat (word_of_nat (a + 1) :: int64) = unat (word_of_nat (b + 1) :: int64)"
    by (simp add: nth_id_def)
  then have "(a + 1) mod 2 ^ 64 = (b + 1) mod 2 ^ 64"
    unfolding unat_of_nat by simp
  with a b show "a = b" by (auto simp: mod_Suc split: if_splits)
qed

lemma calls_wfD:
  assumes "calls_wf c"
  shows "seq c = word_of_nat (length (calls c))"
    "a < length (calls c) \<Longrightarrow> ac_id (calls c ! a) = nth_id a"
    "distinct (map fst (outgoing_calls (state c)))"
    "map_of (outgoing_calls (state c)) i = Some a \<Longrightarrow> a < length (calls c)"
    "map_of (outgoing_calls (state c)) i = Some a \<Longrightarrow> nth_id a = i"
    "read_err (state c) \<noteq> None \<Longrightarrow> outgoing_calls (state c) = []"
  using assms by (auto simp: calls_wf_def)

lemma tracked_nth:
  "calls_wf c \<Longrightarrow> a < length (calls c) \<Longrightarrow> tracked c a = (map_of (outgoing_calls (state c)) (nth_id a) = Some a)"
  by (simp add: tracked_def calls_wfD)

lemma tracked_length: "calls_wf c \<Longrightarrow> tracked c a \<Longrightarrow> a < length (calls c)"
  by (auto simp: tracked_def dest: calls_wfD(4))

lemma calls_wf_distinct_snd:
  assumes "calls_wf c" shows "distinct (map snd (outgoing_calls (state c)))"
proof -
  have "inj_on snd (set (outgoing_calls (state c)))"
    using calls_wfD(5) [OF assms] calls_wfD(3) [OF assms]
    by (intro inj_onI) (metis map_of_is_SomeI prod.collapse)
  moreover have "distinct (outgoing_calls (state c))"
    using calls_wfD(3) [OF assms] by (simp add: distinct_map)
  ultimately show ?thesis by (simp add: distinct_map)
qed

lemma retire_all_calls:
  assumes "retire_all err xs c = Inr (u, c')" and "\<forall>x \<in> set xs. snd x < length (calls c)"
  shows "length (calls c') = length (calls c)
    \<and> (\<forall>b < length (calls c). ac_id (calls c' ! b) = ac_id (calls c ! b)
         \<and> (ac_response (calls c' ! b) = None \<longleftrightarrow> ac_response (calls c ! b) = None \<and> b \<notin> snd ` set xs))"
  using assms
proof (induction err xs arbitrary: c rule: retire_all.induct)
  case (1 err)
  then show ?case by simp
next
  case (2 err i a xs)
  from 2(2) have r: "retire_all err xs (retired a (error_response i err) c) = Inr (u, c')"
    by (auto simp: cbind_eq_Inr retire_retired)
  have "\<forall>x \<in> set xs. snd x < length (calls (retired a (error_response i err) c))"
    using 2(3) by simp
  from 2(1) [OF r this] 2(3) show ?case
    by (auto simp: retired_def nth_list_update)
qed


lemma read_ended_calls:
  assumes "calls_wf c" and "retire_all err (outgoing_calls (state c)) c = Inr (u, c')"
  shows "length (calls c') = length (calls c)"
    and "b < length (calls c) \<Longrightarrow> ac_id (calls c' ! b) = ac_id (calls c ! b)"
    and "b < length (calls c) \<Longrightarrow>
       ac_response (calls c' ! b) = None \<longleftrightarrow> ac_response (calls c ! b) = None \<and> \<not> tracked c b"
proof -
  have "\<forall>x \<in> set (outgoing_calls (state c)). snd x < length (calls c)"
    using calls_wfD(3,4) [OF assms(1)] by (metis map_of_is_SomeI prod.collapse)
  note r = retire_all_calls [OF assms(2) this]
  from r show "length (calls c') = length (calls c)"
    and "b < length (calls c) \<Longrightarrow> ac_id (calls c' ! b) = ac_id (calls c ! b)" by simp_all
  assume b: "b < length (calls c)"
  have "b \<in> snd ` set (outgoing_calls (state c)) \<longleftrightarrow> tracked c b"
    unfolding tracked_nth [OF assms(1) b]
  proof
    assume "b \<in> snd ` set (outgoing_calls (state c))"
    then obtain i where "(i, b) \<in> set (outgoing_calls (state c))" by auto
    then have "map_of (outgoing_calls (state c)) i = Some b"
      by (rule map_of_is_SomeI [OF calls_wfD(3) [OF assms(1)]])
    with calls_wfD(5) [OF assms(1)] show "map_of (outgoing_calls (state c)) (nth_id b) = Some b" by auto
  next
    assume "map_of (outgoing_calls (state c)) (nth_id b) = Some b"
    then show "b \<in> snd ` set (outgoing_calls (state c))" by (force dest: map_of_SomeD)
  qed
  with r b show "ac_response (calls c' ! b) = None \<longleftrightarrow> ac_response (calls c ! b) = None \<and> \<not> tracked c b"
    by simp
qed

lemma nth_id_length: "Int64ID (word_of_nat (length xs) + 1) = nth_id (length xs)"
  by (simp add: nth_id_def)

lemma calls_wf_new_object:
  "calls_wf c \<Longrightarrow> calls_wf (new_object \<lparr>ac_id = Int64ID (seq c + 1), ac_response = r\<rparr> c)"
  by (auto simp: calls_wf_def nth_append nth_id_length less_Suc_eq)

lemma calls_wf_retired: "calls_wf c \<Longrightarrow> calls_wf (retired a resp c)"
  by (cases "a < length (calls c)") (auto simp: calls_wf_def retired_def nth_list_update)

lemma calls_wf_delete: "calls_wf c \<Longrightarrow> calls_wf (upd_state (outgoing_calls_update (AList.delete i)) c)"
  by (auto simp: calls_wf_def delete_conv' intro: distinct_delete split: if_splits)

lemma calls_wf_register:
  assumes "calls_wf c" "a < length (calls c)" "read_err (state c) = None"
  shows "calls_wf (upd_state (outgoing_calls_update (AList.update (ac_id (calls c ! a)) a)) c)"
  using assms by (auto simp: calls_wf_def update_conv' intro: distinct_update split: if_splits)

lemma shutting_down_None:
  "shutting_down s e = None \<longleftrightarrow> \<not> conn_closing s \<and> read_err s = None \<and> write_err s = None"
  by (auto simp: shutting_down_def split: option.splits)

lemma calls_wf_move:
  assumes w: "calls_wf c" and m: "move c g gs c1"
    and reg: "\<And>a. registering g = Some a \<Longrightarrow> a < length (calls c)"
  shows "calls_wf c1"
  using m
proof (cases rule: move.cases)
  case (read_ended err u c')
  note r = read_ended_calls [OF w read_ended(4)]
  from read_ended w r retire_all_core [OF read_ended(4)] show ?thesis by (simp add: calls_wf_def)
next
  case registered
  with w reg show ?thesis by (auto intro: calls_wf_register simp: shutting_down_None)
qed (use w in \<open>auto intro: calls_wf_new_object calls_wf_retired calls_wf_delete\<close>,
     auto simp: calls_wf_def arrived_def)


text \<open>Each move settles as many claims on a call as it closes; registering may only displace one.\<close>

definition registers :: "nat \<Rightarrow> goroutine \<Rightarrow> bool" where
  "registers a g = (registering g = Some a)"

definition claim_gain :: "conn \<Rightarrow> conn \<Rightarrow> goroutine \<Rightarrow> goroutine list \<Rightarrow> nat \<Rightarrow> int" where
  "claim_gain c c1 g gs a =
     gains (registers a) g gs + of_bool (tracked c1 a) - of_bool (tracked c a)"

lemma claims_registers: "claims c T a = holders_in (registers a) T + of_bool (tracked c a)"
  by (simp add: claims_def registers_def [abs_def])

lemma quiet_registers: "quiet c g gs \<Longrightarrow> gains (registers a) g gs = 0"
  by (erule quiet.cases) (auto simp: gains_def registers_def)

lemma tracked_retired [simp]: "tracked (retired b resp c) a = tracked c a"
  by (cases "b < length (calls c)"; cases "a = b") (simp_all add: tracked_def retired_def list_update_beyond)

lemma open_call_retired:
  "open_call (retired b resp c) a = (open_call c a \<and> a \<noteq> b)"
  by (cases "b < length (calls c)") (auto simp: open_call_def retired_def nth_list_update)

lemma tracked_delete:
  assumes "calls_wf c" and "map_of (outgoing_calls (state c)) i = Some b"
  shows "tracked (upd_state (outgoing_calls_update (AList.delete i)) c) a = (tracked c a \<and> a \<noteq> b)"
proof (cases "a < length (calls c) \<and> nth_id a = i")
  case True
  with assms show ?thesis by (auto simp: tracked_def delete_conv' calls_wfD(2))
next
  case False
  with assms(1) have "tracked (upd_state (outgoing_calls_update (AList.delete i)) c) a = tracked c a"
    using calls_wfD(2,4) [OF assms(1)] by (auto simp: tracked_def delete_conv')
  moreover have "a \<noteq> b" using assms False calls_wfD(4,5) by blast
  ultimately show ?thesis by simp
qed

lemma open_call_upd_state [simp]: "open_call (upd_state f c) a = open_call c a"
  by (simp add: open_call_def)

lemma tracked_upd_state:
  "outgoing_calls (f (state c)) = outgoing_calls (state c) \<Longrightarrow> tracked (upd_state f c) a = tracked c a"
  by (simp add: tracked_def)

lemma tracked_new_object:
  assumes "calls_wf c" shows "tracked (new_object ac c) a = tracked c a"
proof (cases "a < length (calls c)")
  case True then show ?thesis by (simp add: tracked_def nth_append)
next
  case False
  with assms show ?thesis by (auto simp: tracked_def dest: calls_wfD(4))
qed

lemma tracked_arrived [simp]: "tracked (arrived req c) a = tracked c a"
  "open_call (arrived req c) a = open_call c a"
  by (simp_all add: arrived_def tracked_def open_call_def)

lemma open_call_new_object:
  "open_call (new_object ac c) a = (open_call c a \<or> a = length (calls c) \<and> ac_response ac = None)"
  by (auto simp: open_call_def nth_append less_Suc_eq)

lemma open_call_length [simp]: "\<not> open_call c (length (calls c))"
  by (simp add: open_call_def)

lemma tracked_register:
  assumes "calls_wf c" and "b < length (calls c)"
  shows "tracked (upd_state (outgoing_calls_update (AList.update (ac_id (calls c ! b)) b)) c) a =
    (a = b \<or> tracked c a \<and> ac_id (calls c ! a) \<noteq> ac_id (calls c ! b))"
  using assms by (auto simp: tracked_def update_conv')

lemma move_claims:
  assumes w: "calls_wf c" and m: "move c g gs c1"
    and reg: "\<And>a. registering g = Some a \<Longrightarrow> open_call c a \<and> \<not> tracked c a"
    and trk: "\<And>a. tracked c a \<Longrightarrow> open_call c a"
  shows "claim_gain c c1 g gs a \<le> of_bool (open_call c1 a) - of_bool (open_call c a)"
    and "length (calls c) \<le> 2 ^ 64 \<Longrightarrow>
         claim_gain c c1 g gs a = of_bool (open_call c1 a) - of_bool (open_call c a)"
proof -
  have "claim_gain c c1 g gs a = of_bool (open_call c1 a) - of_bool (open_call c a) \<or>
    claim_gain c c1 g gs a \<le> of_bool (open_call c1 a) - of_bool (open_call c a) \<and> 2 ^ 64 < length (calls c)"
    using m
  proof (cases rule: move.cases)
    case quiet
    then show ?thesis by (simp add: claim_gain_def quiet_registers)
  next
    case (registered b req m)
    then have b: "b < length (calls c)" "open_call c b" "\<not> tracked c b" using reg by (auto simp: open_call_def)
    show ?thesis
    proof (cases "tracked c a \<and> ac_id (calls c ! a) = ac_id (calls c ! b)")
      case False
      with registered b w show ?thesis
        by (auto simp: claim_gain_def tracked_register gains_def registers_def)
    next
      case True
      with w b have "a < length (calls c)" "nth_id a = nth_id b" "a \<noteq> b"
        using tracked_length [OF w] calls_wfD(2) [OF w] by auto
      with nth_id_inj [of a b] b have "2 ^ 64 < length (calls c)" by force
      with True registered b w \<open>a \<noteq> b\<close> show ?thesis
        by (auto simp: claim_gain_def tracked_register gains_def registers_def)
    qed
  next
    case (retire_call b resp x)
    then have "open_call c b" "tracked c b"
      using calls_wfD(4) [OF w] by (auto simp: open_call_def tracked_def)
    with retire_call w show ?thesis
      by (auto simp: claim_gain_def gains_def registers_def tracked_delete open_call_retired)
  next
    case (answered i b resp)
    then have "open_call c b" "tracked c b"
      using calls_wfD(2,4,5) [OF w] by (auto simp: open_call_def tracked_def)
    with answered w show ?thesis
      by (auto simp: claim_gain_def gains_def registers_def tracked_delete open_call_retired)
  next
    case (refused_call b e resp)
    then have "open_call c b" "\<not> tracked c b" using reg by auto
    with refused_call show ?thesis
      by (auto simp: claim_gain_def gains_def registers_def open_call_retired)
  next
    case (read_ended err u c')
    note r = read_ended_calls [OF w read_ended(4)]
    have "open_call c1 a = (open_call c a \<and> \<not> tracked c a)"
      using read_ended r by (auto simp: open_call_def)
    moreover have "\<not> tracked c1 a" using read_ended by (simp add: tracked_def)
    ultimately show ?thesis using read_ended trk [of a] by (auto simp: claim_gain_def gains_def registers_def)
  next
    case finish
    then show ?thesis
      by (auto simp: claim_gain_def gains_def registers_def tracked_upd_state split: cont.splits)
  qed (auto simp: claim_gain_def gains_def registers_def tracked_upd_state tracked_new_object [OF w]
         open_call_new_object)
  then show "claim_gain c c1 g gs a \<le> of_bool (open_call c1 a) - of_bool (open_call c a)"
    and "length (calls c) \<le> 2 ^ 64 \<Longrightarrow>
         claim_gain c c1 g gs a = of_bool (open_call c1 a) - of_bool (open_call c a)"
    by auto
qed


lemma inv_callsD:
  assumes "inv_calls (c, T)"
  shows "calls_wf c" "claims c T a \<le> of_bool (open_call c a)"
    "length (calls c) \<le> 2 ^ 64 \<Longrightarrow> of_bool (open_call c a) \<le> claims c T a"
  using assms by (auto simp: inv_calls_def)

lemma inv_calls_registering:
  assumes i: "inv_calls (c, T)" and g: "g \<in># T" "registering g = Some a"
  shows "open_call c a" "\<not> tracked c a"
proof -
  have "0 < holders_in (registers a) T"
    using g holders_in_member [of "registers a" g "T - {#g#}"] by (simp add: registers_def)
  with inv_callsD(2) [OF i, of a] show "open_call c a" "\<not> tracked c a"
    by (auto simp: claims_registers of_bool_def split: if_splits)
qed

lemma inv_calls_tracked: "inv_calls (c, T) \<Longrightarrow> tracked c a \<Longrightarrow> open_call c a"
  using inv_callsD(2) [of c T a] holders_in_nonneg [of "registers a" T]
  by (auto simp: claims_registers of_bool_def split: if_splits)

lemma claims_move:
  "claims c1 (mset gs + T) a = claims c (add_mset g T) a + claim_gain c c1 g gs a"
  by (simp add: claims_registers claim_gain_def holders_in_gains [of _ gs T g])

lemma move_calls_length: "move c g gs c1 \<Longrightarrow> length (calls c) \<le> length (calls c1)"
  by (erule move.cases) (auto simp: arrived_def dest!: retire_all_core)

lemma inv_calls_move:
  assumes m: "move c g gs c1" and i: "inv_calls (c, add_mset g T)"
  shows "inv_calls (c1, mset gs + T)"
proof -
  note w = inv_callsD(1) [OF i]
  have reg: "open_call c a \<and> \<not> tracked c a" if "registering g = Some a" for a
    using inv_calls_registering [OF i _ that] by simp
  note mc = move_claims [OF w m reg inv_calls_tracked [OF i]]
  have "calls_wf c1"
    using calls_wf_move [OF w m] reg by (auto simp: open_call_def)
  moreover have "claims c1 (mset gs + T) a \<le> of_bool (open_call c1 a)" for a
    using mc(1) [of a] inv_callsD(2) [OF i, of a] by (simp add: claims_move [of c1 gs T a c g])
  moreover have "of_bool (open_call c1 a) \<le> claims c1 (mset gs + T) a" if "length (calls c1) \<le> 2 ^ 64" for a
  proof -
    have l: "length (calls c) \<le> 2 ^ 64" using move_calls_length [OF m] that by simp
    show ?thesis
      using mc(2) [OF _ _ l, of a] inv_callsD(3) [OF i l, of a] by (simp add: claims_move [of c1 gs T a c g])
  qed
  ultimately show ?thesis by (simp add: inv_calls_def)
qed

lemma inv_calls_init: "sys_init s \<Longrightarrow> inv_calls s"
  by (auto simp: sys_init_def inv_calls_def new_conn_def empty_in_flight_def calls_wf_def claims_def
      holders_in_def tracked_def open_call_def)

lemma inv_calls_core: "core c' = core c \<Longrightarrow> inv_calls (c', T) = inv_calls (c, T)"
  unfolding inv_calls_def calls_wf_def claims_def tracked_def open_call_def
  by (simp add: core_eqD(1,2,4) [of c' c])

lemma inv_calls_settle: "inv_calls (settle c, T) = inv_calls (c, T)"
  by (simp add: inv_calls_def calls_wf_def claims_def tracked_def open_call_def)

interpretation outgoing: move_invariant inv_calls
  by unfold_locales
    (erule inv_calls_init inv_calls_core [THEN iffD2] inv_calls_settle [THEN iffD2] inv_calls_move;
     assumption)+

end
