(* ===== verification/Conn_Done.thy ===== *)
theory Conn_Done
  imports Conn_Table Conn_Calls
begin

text \<open>
  When a connection is done: it is idle, its closer has been closed exactly once and
  \<open>OnDone\<close> called exactly once; and a connection that is idle, shutting down and no longer
  read is done, so \<open>Wait\<close> and \<open>Close\<close> are not left blocked.
\<close>

definition must_finish :: "in_flight \<Rightarrow> bool" where
  "must_finish s = (idle s \<and> shutting_down s ErrUnknown \<noteq> None)"

definition done_ok :: "conn \<Rightarrow> bool" where
  "done_ok c =
     ((conn_done c \<longrightarrow> must_finish (state c) \<and> \<not> reading (state c) \<and> \<not> closer (state c))
      \<and> closer_closed c = (if closer (state c) then 0 else 1)
      \<and> on_done_called c = (if conn_done c then 1 else 0)
      \<and> (closer (state c) \<longrightarrow> close_err (state c) = None)
      \<and> (\<not> closer (state c) \<longrightarrow> close_err (state c) = close_result c))"

definition inv_done :: "system \<Rightarrow> bool" where
  "inv_done s = (inv_counts s \<and> inv_table s \<and> inv_calls s \<and> done_ok (fst s))"

lemma must_finish_iff:
  "must_finish s \<longleftrightarrow> idle s \<and> (conn_closing s \<or> read_err s \<noteq> None \<or> write_err s \<noteq> None)"
  using shutting_down_None [of s ErrUnknown] by (auto simp: must_finish_def)

lemma settle_must_finish:
  "settle c = (if must_finish (state c) then
     (let c' = close_closer c in if reading (state c') then c'
      else c'\<lparr>conn_done := True, on_done_called := on_done_called c' + 1\<rparr>) else c)"
  by (simp add: settle_def must_finish_def)

lemma done_ok_settle: "\<not> conn_done c \<Longrightarrow> done_ok c \<Longrightarrow> done_ok (settle c)"
  by (auto simp: done_ok_def settle_must_finish close_closer_def must_finish_iff Let_def idle_def)

lemma done_ok_core: "core c' = core c \<Longrightarrow> done_ok c' = done_ok c"
  unfolding done_ok_def by (simp add: core_eqD [of c' c])

lemma shutting_down_Some: "shutting_down s e \<noteq> None \<longleftrightarrow> shutting_down s ErrUnknown \<noteq> None"
  using shutting_down_None [of s e] shutting_down_None [of s ErrUnknown] by auto

lemma done_idle:
  assumes "inv_counts (c, add_mset g T)" and "must_finish (state c)" and "\<not> reading (state c)"
  shows "\<not> is_owner g" "\<not> notifies g" "\<not> is_loop g" "\<not> is_reader g"
  using inv_counts_active [OF assms(1)] assms(2,3)
  by (simp_all add: must_finish_def idle_def) (metis less_irrefl option.exhaust)+

text \<open>A done connection stays idle and shutting down, whatever its goroutines still do.\<close>

lemma move_done:
  "move c g gs c1 \<Longrightarrow> conn_done c1 = conn_done c \<and> closer (state c1) = closer (state c)
     \<and> close_err (state c1) = close_err (state c) \<and> close_result c1 = close_result c
     \<and> closer_closed c1 = closer_closed c \<and> on_done_called c1 = on_done_called c"
  by (erule move.cases) (auto simp: arrived_def dest!: retire_all_core)

lemma move_must_finish:
  assumes m: "move c g gs c1" and i: "inv_done (c, add_mset g T)" and d: "conn_done c"
  shows "must_finish (state c1) \<and> \<not> reading (state c1)"
proof -
  have ok: "must_finish (state c)" "\<not> reading (state c)"
    using i d by (auto simp: inv_done_def done_ok_def)
  have i': "inv_counts (c, add_mset g T)" "inv_table (c, add_mset g T)"
    using i by (auto simp: inv_done_def)
  note nope = done_idle [OF i'(1) ok]
  have t: "incoming_by_id (state c) = []"
    using idle_table_empty [OF i'] ok by (auto simp: must_finish_def idle_def)
  show ?thesis
    using m ok nope t d
    by (cases rule: move.cases)
       (auto simp: must_finish_def idle_def shutting_down_None)
qed

lemma inv_done_move:
  assumes m: "move c g gs c1" and i: "inv_done (c, add_mset g T)"
  shows "inv_done (c1, mset gs + T)"
  using i move_must_finish [OF m i] move_done [OF m]
  using counts.I_move [OF m] table.I_move [OF m] outgoing.I_move [OF m]
  by (auto simp: inv_done_def done_ok_def)

lemma inv_done_init: "sys_init s \<Longrightarrow> inv_done s"
  by (auto simp: inv_done_def done_ok_def sys_init_def new_conn_def empty_in_flight_def
      intro: counts.I_init table.I_init outgoing.I_init)

end
