(* ===== verification/Conn_Safety.thy ===== *)
theory Conn_Safety
  imports Conn_Done
begin

text \<open>
  The properties of a connection and its goroutines that follow from the invariants: no
  panic, one close, one \<open>OnDone\<close>, no lost call, and a done connection whenever nothing
  remains to wait for.
\<close>

section \<open>The invariant of the requests that goroutines own\<close>

fun process_ok :: "conn \<Rightarrow> goroutine \<Rightarrow> bool" where
  "process_ok c (GProcess r k res err) = respects_contract c r res err"
| "process_ok c _ = True"

definition goroutine_ok :: "conn \<Rightarrow> goroutine \<Rightarrow> bool" where
  "goroutine_ok c g = ((\<forall>r. owns g = Some r \<longrightarrow> r < length (requests c)) \<and> process_ok c g)"

definition inv_owned :: "system \<Rightarrow> bool" where
  "inv_owned s =
     ((\<forall>g \<in># snd s. goroutine_ok (fst s) g)
      \<and> (\<forall>r \<in> set (handler_queue (state (fst s))). r < length (requests (fst s))))"

lemma respects_contract_error [simp]: "respects_contract c r None (Some e)"
  by (simp add: respects_contract_def)

lemma goroutine_ok_keep:
  assumes "goroutine_ok c g" and "length (requests c) \<le> length (requests c1)"
    and "has_internal_hook c1 = has_internal_hook c"
    and "\<And>r. r < length (requests c) \<Longrightarrow> in_req (requests c1 ! r) = in_req (requests c ! r)"
  shows "goroutine_ok c1 g"
  using assms by (cases g) (auto simp: goroutine_ok_def respects_contract_def)

lemma quiet_goroutines: "quiet c g gs \<Longrightarrow> goroutine_ok c g \<Longrightarrow> g' \<in> set gs \<Longrightarrow> goroutine_ok c g'"
  by (erule quiet.cases) (auto simp: goroutine_ok_def)

lemma move_hook: "move c g gs c1 \<Longrightarrow> has_internal_hook c1 = has_internal_hook c"
  by (erule move.cases) (auto simp: arrived_def retired_def new_object_def dest!: retire_all_core)

lemma owns_continue: "g \<in> set (continue r k) \<Longrightarrow> owns g = None \<and> process_ok c g"
  by (cases k) auto

lemma move_goroutines:
  assumes m: "move c g gs c1" and "goroutine_ok c g"
    and "\<forall>r \<in> set (handler_queue (state c)). r < length (requests c)" and "g' \<in> set gs"
  shows "goroutine_ok c1 g'"
  using m
proof (cases rule: move.cases)
  case quiet
  with assms show ?thesis by (auto intro: quiet_goroutines)
next
  case finish
  with assms owns_continue show ?thesis by (fastforce simp: goroutine_ok_def)
qed (use assms in \<open>auto simp: goroutine_ok_def arrived_def split: if_splits\<close>)

lemma move_queue_bound:
  assumes m: "move c g gs c1" and "goroutine_ok c g"
    and "\<forall>r \<in> set (handler_queue (state c)). r < length (requests c)"
  shows "\<forall>r \<in> set (handler_queue (state c1)). r < length (requests c1)"
  using m assms
  by (cases rule: move.cases) (auto simp: goroutine_ok_def arrived_def dest!: retire_all_core)

lemma inv_owned_move:
  assumes m: "move c g gs c1" and i: "inv_owned (c, add_mset g T)"
  shows "inv_owned (c1, mset gs + T)"
proof -
  from i have g: "goroutine_ok c g" and q: "\<forall>r \<in> set (handler_queue (state c)). r < length (requests c)"
    and t: "\<And>g'. g' \<in># T \<Longrightarrow> goroutine_ok c g'"
    by (auto simp: inv_owned_def)
  have "goroutine_ok c1 g'" if "g' \<in># T" for g'
    using goroutine_ok_keep [OF t [OF that] _ move_hook [OF m]] move_keeps_requests [OF m] by blast
  with move_goroutines [OF m g q] move_queue_bound [OF m g q] show ?thesis
    by (auto simp: inv_owned_def)
qed

lemma goroutine_ok_core: "core c' = core c \<Longrightarrow> goroutine_ok c g \<Longrightarrow> goroutine_ok c' g"
  by (erule goroutine_ok_keep)
    (simp_all add: core_eqD(5) [of c' c] core_eqD(10) [of c' c] core_in_req [of c' c])

lemma inv_owned_core: "core c' = core c \<Longrightarrow> inv_owned (c, T) \<Longrightarrow> inv_owned (c', T)"
  unfolding inv_owned_def using goroutine_ok_core [of c' c]
  by (simp add: core_eqD(1,10) [of c' c])

lemma inv_owned_settle: "inv_owned (c, T) \<Longrightarrow> inv_owned (settle c, T)"
  unfolding inv_owned_def by (auto intro: goroutine_ok_keep)

lemma inv_owned_init: "sys_init s \<Longrightarrow> inv_owned s"
  by (auto simp: sys_init_def inv_owned_def goroutine_ok_def new_conn_def empty_in_flight_def)

definition inv_all :: "system \<Rightarrow> bool" where
  "inv_all s = (inv_done s \<and> inv_owned s)"

interpretation all: move_invariant inv_all
proof
  show "inv_all s" if "sys_init s" for s
    using that by (simp add: inv_all_def inv_done_init inv_owned_init)
  show "inv_all (c', T)" if "core c' = core c" "inv_all (c, T)" for c' c T
    using that unfolding inv_all_def inv_done_def fst_conv done_ok_core [OF that(1)]
    by (blast intro: inv_owned_core counts.I_core table.I_core outgoing.I_core)
  show "inv_all (settle c, T)" if "\<not> conn_done c" "inv_all (c, T)" for c T
    using that unfolding inv_all_def inv_done_def fst_conv
    by (blast intro: inv_owned_settle done_ok_settle counts.I_settle table.I_settle outgoing.I_settle)
  show "inv_all (c1, mset gs + T)" if "move c g gs c1" "inv_all (c, add_mset g T)" for c g gs c1 T
    using that by (simp add: inv_all_def inv_done_move inv_owned_move)
qed

section \<open>Nothing panics\<close>

lemma done_facts:
  assumes i: "inv_all (c, add_mset g T)" and d: "conn_done c"
  shows "outgoing_calls (state c) = []" "outgoing_notifications (state c) = 0" "incoming (state c) = 0"
    "\<not> handler_running (state c)" "incoming_by_id (state c) = []" "\<not> reading (state c)"
    "shutting_down (state c) e \<noteq> None"
    "\<not> is_owner g" "\<not> notifies g" "\<not> is_loop g" "\<not> is_reader g"
proof -
  from i d have ok: "must_finish (state c)" "\<not> reading (state c)"
    and i': "inv_counts (c, add_mset g T)" "inv_table (c, add_mset g T)"
    by (auto simp: inv_all_def inv_done_def done_ok_def)
  show "outgoing_calls (state c) = []" "outgoing_notifications (state c) = 0" "incoming (state c) = 0"
    "\<not> handler_running (state c)" "\<not> reading (state c)"
    using ok by (auto simp: must_finish_def idle_def)
  with idle_table_empty [OF i'] show "incoming_by_id (state c) = []" by simp
  show "shutting_down (state c) e \<noteq> None" using ok shutting_down_Some [of "state c" e] by (auto simp: must_finish_def)
  show "\<not> is_owner g" "\<not> notifies g" "\<not> is_loop g" "\<not> is_reader g"
    using done_idle [OF i'(1) ok] by auto
qed


lemma read_end_no_panic:
  assumes "inv_calls (c, T)"
  shows "\<exists>c'. retire_all err (outgoing_calls (state c)) (upd_state f c) = Inr ((), c')"
proof -
  have "\<exists>c'. retire_all err xs d = Inr ((), c')"
    if "distinct (map snd xs)" "\<forall>a \<in> snd ` set xs. ac_response (calls d ! a) = None" for xs d
    using that
  proof (induction err xs arbitrary: d rule: retire_all.induct)
    case (1 err)
    then show ?case by simp
  next
    case (2 err i a xs)
    let ?d = "retired a (error_response i err) d"
    have "retire a (error_response i err) d = Inr ((), ?d)"
      using 2(3) by (auto simp: retire_retired)
    moreover have "\<exists>c'. retire_all err xs ?d = Inr ((), c')"
      using 2(2,3) by (intro 2(1)) (auto simp: retired_def nth_list_update image_iff)
    ultimately show ?case by simp
  qed
  moreover have "\<forall>a \<in> snd ` set (outgoing_calls (state c)). ac_response (calls (upd_state f c) ! a) = None"
  proof
    fix a assume "a \<in> snd ` set (outgoing_calls (state c))"
    note w = inv_callsD(1) [OF assms]
    from \<open>a \<in> _\<close> obtain i where "map_of (outgoing_calls (state c)) i = Some a"
      using calls_wfD(3) [OF w] by (auto intro: map_of_is_SomeI)
    then have "tracked c a" using calls_wfD(2,4,5) [OF w] by (auto simp: tracked_def)
    with inv_calls_tracked [OF assms] show "ac_response (calls (upd_state f c) ! a) = None"
      by (auto simp: open_call_def)
  qed
  ultimately show ?thesis using calls_wf_distinct_snd [OF inv_callsD(1) [OF assms]] by simp
qed

lemma checked_result_no_panic:
  assumes "respects_contract c r result err" and "req = in_req (requests c ! r)"
  shows "\<exists>res' err' c'. checked_result req result err c = Inr ((res', err'), c')
           \<and> (is_call req \<longrightarrow> has_internal_hook c \<or> (\<forall>e. res' \<noteq> Some (Inl e)))"
proof (cases "has_internal_hook c")
  case True
  then show ?thesis
    by (auto simp: checked_result_def Let_def cbind_def internal_errorf_def split: sum.splits)
next
  case False
  then show ?thesis
    using assms by (auto simp: checked_result_def Let_def respects_contract_def unhandled_detail_def split: if_splits)
qed


text \<open>A closure does not panic when it returns and a done connection is idle after it.\<close>

lemma uif_no_panic:
  assumes "\<And>p. f c \<noteq> Inl p" and "\<And>a c1. f c = Inr (a, c1) \<Longrightarrow> conn_done c1 \<Longrightarrow> idle (state c1)"
  shows "update_in_flight f c \<noteq> Inl p"
  using assms by (auto simp: uif_eq_Inl)

theorem gstep_no_panic:
  assumes i: "inv_all (c, add_mset g T)" and st: "gstep c g act"
  shows "act c \<noteq> Inl p"
proof
  assume p: "act c = Inl p"
  note d = done_facts [OF i]
  have calls: "inv_calls (c, add_mset g T)" and counts: "inv_counts (c, add_mset g T)"
    and g: "goroutine_ok c g"
    using i by (auto simp: inv_all_def inv_done_def inv_owned_def)
  note act = inv_counts_active [OF counts]
  from st show False
  proof (cases rule: gstep.cases)
    case (user_call m params)
    then show ?thesis using p
      by (auto simp: cbind_eq_Inl conn_defs Let_def retire_eq_Inl split: prod.splits option.splits)
  next
    case (user_notify m params)
    then show ?thesis using p d(1-5) d(7) [of ErrClientClosing]
      by (auto simp: cbind_eq_Inl uif_eq_Inl notify_begin_def conn_defs Let_def idle_def split: prod.splits option.splits if_splits)
  next
    case (user_cancel i)
    then show ?thesis using p d(1-4) by (auto simp: cbind_eq_Inl uif_eq_Inl idle_def)
  next
    case user_close
    then show ?thesis using p d(1-4) by (auto simp: cbind_eq_Inl uif_eq_Inl close_begin_def conn_defs idle_def)
  next
    case user_wait
    then show ?thesis using p d(1-4) by (auto simp: cbind_eq_Inl uif_eq_Inl wait_def conn_defs Let_def idle_def)
  next
    case (call_register a req)
    then show ?thesis using p d(1-4) d(7) [of ErrClientClosing]
      by (auto simp: cbind_eq_Inl uif_eq_Inl register_call_def conn_defs idle_def split: option.splits)
  next
    case (call_failed a e)
    then show ?thesis using p inv_calls_registering(1) [OF calls, of g a]
      by (auto simp: cbind_eq_Inl retire_eq_Inl open_call_def)
  next
    case (write_checked q ctx_err msg)
    then show ?thesis using p d(1-4) by (auto simp: cbind_eq_Inl uif_eq_Inl write_check_def conn_defs idle_def)
  next
    case (write_broken q e)
    then show ?thesis using p d(1-4)
      by (auto simp: cbind_eq_Inl uif_eq_Inl write_failed_def conn_defs idle_def split: if_splits)
  next
    case (written_response r k err)
    then show ?thesis using p d(8) act(4)
      by (auto simp: cbind_eq_Inl uif_eq_Inl finish_request_def conn_defs split: if_splits)
  next
    case (written_call_failed a e)
    have "map_of (outgoing_calls (state c)) (ac_id (calls c ! a)) = Some a \<Longrightarrow> ac_response (calls c ! a) = None"
      using inv_calls_tracked [OF calls, of a] by (auto simp: tracked_def open_call_def)
    with written_call_failed p d(1-4) show ?thesis
      by (auto simp: cbind_eq_Inl uif_eq_Inl retire_call_def conn_defs Let_def retire_eq_Inl retire_eq_Inr
          idle_def split: if_splits)
  next
    case (written_notify err)
    then show ?thesis using p d(9) by (auto simp: cbind_eq_Inl uif_eq_Inl notify_end_def conn_defs)
  next
    case reader_start
    then show ?thesis using p d(1-4) by (auto simp: cbind_eq_Inl uif_eq_Inl start_def conn_defs idle_def split: if_splits)
  next
    case (read_request req)
    then show ?thesis using p d(11)
      by (auto simp: cbind_eq_Inl uif_eq_Inl accept_def conn_defs Let_def new_incoming_def clear_id_def
          split: if_splits)
  next
    case (read_resp resp)
    have "map_of (outgoing_calls (state c)) (resp_id resp) = Some a \<Longrightarrow> ac_response (calls c ! a) = None" for a
      using inv_calls_tracked [OF calls, of a] calls_wfD(2,4,5) [OF inv_callsD(1) [OF calls]]
      by (auto simp: tracked_def open_call_def)
    with read_resp p d(11) show ?thesis
      by (auto simp: cbind_eq_Inl uif_eq_Inl read_response_def conn_defs retire_eq_Inl retire_eq_Inr
          split: option.splits)
  next
    case (read_failed err)
    obtain c' where c': "retire_all err (outgoing_calls (state c))
        (upd_state (\<lambda>s. s\<lparr>reading := False, read_err := Some err\<rparr>) c) = Inr ((), c')"
      using read_end_no_panic [OF calls] by blast
    with read_failed p d(11) retire_all_core [OF c'] show ?thesis
      by (auto simp: cbind_eq_Inl uif_eq_Inl read_end_def conn_defs)
  next
    case (enqueue_req r)
    then show ?thesis using p d(11)
      by (auto simp: cbind_eq_Inl uif_eq_Inl enqueue_def conn_defs split: option.splits)
  next
    case dequeue_next
    then show ?thesis using p d(10)
      by (auto simp: cbind_eq_Inl uif_eq_Inl dequeue_def conn_defs split: list.splits)
  next
    case (deliver r)
    then show ?thesis using p d(10)
      by (auto simp: cbind_eq_Inl uif_eq_Inl delivery_error_def split: if_splits)
  next
    case (process r k result err)
    have "respects_contract c r result err" using g process by (simp add: goroutine_ok_def)
    from checked_result_no_panic [OF this refl] obtain res' err' c0
      where c0: "checked_result (in_req (requests c ! r)) result err c = Inr ((res', err'), c0)"
        and ok: "is_call (in_req (requests c ! r)) \<longrightarrow> has_internal_hook c \<or> (\<forall>e. res' \<noteq> Some (Inl e))"
      by blast
    have k: "conn_done c0 = conn_done c" "has_internal_hook c0 = has_internal_hook c"
      using core_eqD [OF core_checked_result [OF c0]] by auto
    from process p c0 ok k d(8) show ?thesis
      by (auto simp: cbind_eq_Inl uif_eq_Inl uif_eq_Inr Let_def forget_request_def conn_defs new_response_def marshal_to_raw_def
          internal_errorf_def split: if_splits prod.splits option.splits sum.splits)
  qed (use p in \<open>auto simp: cbind_eq_Inl release_def split: if_splits\<close>)
qed

lemma inv_all_no_panic: "inv_all s \<Longrightarrow> \<not> can_panic s"
proof
  assume i: "inv_all s" and "can_panic s"
  then obtain g act p where g: "g \<in># snd s" "gstep (fst s) g act" "act (fst s) = Inl p"
    by (auto simp: can_panic_def)
  then obtain T where "snd s = add_mset g T" by (blast dest: multi_member_split)
  with i have "inv_all (fst s, add_mset g T)" by (metis prod.collapse)
  with gstep_no_panic [OF this g(2), of p] g(3) show False by blast
qed

section \<open>Nothing is left to wait for\<close>

definition finished_ok :: "in_flight \<Rightarrow> bool \<Rightarrow> bool" where
  "finished_ok s dn = (must_finish s \<longrightarrow> \<not> closer s \<and> (\<not> reading s \<longrightarrow> dn))"

definition inv_finished :: "system \<Rightarrow> bool" where
  "inv_finished s = (inv_all s \<and> finished_ok (state (fst s)) (conn_done (fst s)))"

lemma settle_finished: "\<not> conn_done c \<Longrightarrow> finished_ok (state (settle c)) (conn_done (settle c))"
  by (auto simp: finished_ok_def settle_must_finish close_closer_def must_finish_iff Let_def idle_def)

lemma inv_finished_step: "inv_finished s \<Longrightarrow> sys_step s t \<Longrightarrow> inv_finished t"
proof -
  assume i: "inv_finished s" and st: "sys_step s t"
  then obtain c g T gs c1 c' where s: "s = (c, add_mset g T)" and t: "t = (c', mset gs + T)"
    and m: "move c g gs c1" and w: "settled c c1 c'"
    using sys_step_move by blast
  from i s have c: "done_ok c" "finished_ok (state c) (conn_done c)"
    by (auto simp: inv_finished_def inv_all_def inv_done_def)
  from w obtain c2 where c': "core c' = core c2"
    and c2: "c2 = c1 \<and> (state c1 = state c \<or> conn_done c1) \<or> \<not> conn_done c1 \<and> c2 = settle c1"
    by (auto simp: settled_def)
  from c2 have "finished_ok (state c2) (conn_done c2)"
    using move_done [OF m] c settle_finished [of c1] by (auto simp: finished_ok_def done_ok_def)
  then have "finished_ok (state c') (conn_done c')"
    using core_eqD(1,3) [OF c'] by simp
  moreover have "inv_all t" using i all.I_step [OF _ st] by (simp add: inv_finished_def)
  ultimately show ?thesis by (simp add: inv_finished_def t)
qed

interpretation finished: invariant_system sys_init sys_step inv_finished
proof
  show "inv_finished s" if "sys_init s" for s
    using that all.I_init [OF that]
    by (auto simp: inv_finished_def finished_ok_def sys_init_def new_conn_def empty_in_flight_def must_finish_iff)
qed (rule inv_finished_step)

section \<open>Properties\<close>

text \<open>Two steps from the start: the reader goroutine runs, and the application has called \<open>Close\<close>.\<close>

definition closing_system :: system where
  "closing_system =
     ((new_conn None False)\<lparr>state := empty_in_flight\<lparr>reading := True, conn_closing := True, closer := False\<rparr>,
        closer_closed := 1\<rparr>, {#GUser, GRead#})"

lemma closing_system_reachable: "reachable_from sys_init sys_step closing_system"
proof -
  let ?c0 = "new_conn None False"
  let ?c1 = "?c0\<lparr>state := empty_in_flight\<lparr>reading := True\<rparr>\<rparr>"
  have "sys_init (?c0, {#GUser, GStart#})" by (auto simp: sys_init_def)
  then have r0: "reachable_from sys_init sys_step (?c0, {#GUser, GStart#})" by (rule initial)
  have "sys_step (?c0, add_mset GStart {#GUser#}) (?c1, mset [GRead] + {#GUser#})"
    by (rule sys_stepI [OF reader_start])
       (simp add: start_def start_section_def update_in_flight_def cbind_def new_conn_def upd_state_def
         settle_must_finish must_finish_iff empty_in_flight_def)
  with r0 have r1: "reachable_from sys_init sys_step (?c1, {#GUser, GRead#})"
    using follow by (fastforce simp: add_mset_commute)
  have "sys_step (?c1, add_mset GUser {#GRead#}) (fst closing_system, mset [GUser] + {#GRead#})"
    by (rule sys_stepI [OF user_close])
       (simp add: close_begin_def close_section_def update_in_flight_def cbind_def new_conn_def upd_state_def
         settle_must_finish must_finish_iff empty_in_flight_def close_closer_def closing_system_def idle_def)
  with r1 have "reachable_from sys_init sys_step (fst closing_system, {#GUser, GRead#})"
    using follow by (fastforce simp: add_mset_commute)
  then show ?thesis by (simp add: closing_system_def)
qed

text \<open>One step from the start: the application has begun a call.\<close>

definition calling_system :: system where
  "calling_system =
     (new_object \<lparr>ac_id = Int64ID 1, ac_response = None\<rparr> (new_conn None False),
      {#GUser, GCall 0 (fst (new_call (Int64ID 1) ''ping'' None)), GStart#})"

lemma calling_system_reachable: "reachable_from sys_init sys_step calling_system"
proof -
  let ?c0 = "new_conn None False"
  have "sys_init (?c0, {#GUser, GStart#})" by (auto simp: sys_init_def)
  then have r0: "reachable_from sys_init sys_step (?c0, {#GUser, GStart#})" by (rule initial)
  have "sys_step (?c0, add_mset GUser {#GStart#})
    (fst calling_system, mset [GUser, GCall 0 (fst (new_call (Int64ID 1) ''ping'' None))] + {#GStart#})"
    by (rule sys_stepI [OF user_call [where m = "''ping''" and params = None]])
       (simp add: cbind_def new_async_call_def new_conn_def new_object_def calling_system_def
         new_call_def marshal_to_raw_def Let_def)
  with r0 show ?thesis
    using follow [of sys_init sys_step "(?c0, add_mset GUser {#GStart#})"]
    by (simp add: calling_system_def add_mset_commute)
qed

text \<open>
  C1: however the goroutines of a connection interleave, no reachable state lets one of them
  panic: no call is retired twice, the count of incoming requests never goes below zero, a
  connection that is done stays idle, and no internal error is raised, as long as handlers
  and preempters keep to their contract.
\<close>

theorem no_reachable_panic: "reachable_from sys_init sys_step s \<Longrightarrow> \<not> can_panic s"
  by (blast dest: all.inv_reachable inv_all_no_panic)

theorem no_reachable_panic_witness: "\<not> can_panic closing_system"
  by (rule no_reachable_panic [OF closing_system_reachable])



text \<open>
  C3: no outgoing call is lost. While fewer than \<open>2 ^ 64\<close> calls have been made, a call
  without a response is in the table of outgoing calls under its own ID or with exactly one
  goroutine that is about to register or refuse it, never both.
\<close>

theorem no_lost_call:
  assumes "reachable_from sys_init sys_step (c, T)" and "length (calls c) \<le> 2 ^ 64"
    and "a < length (calls c)" and "ac_response (calls c ! a) = None"
  shows "map_of (outgoing_calls (state c)) (ac_id (calls c ! a)) = Some a
           \<and> size (filter_mset (\<lambda>g. registering g = Some a) T) = 0 \<or>
         map_of (outgoing_calls (state c)) (ac_id (calls c ! a)) \<noteq> Some a
           \<and> size (filter_mset (\<lambda>g. registering g = Some a) T) = 1"
proof -
  have i: "inv_calls (c, T)" using outgoing.inv_reachable [OF assms(1)] .
  have "open_call c a" using assms by (simp add: open_call_def)
  then have "claims c T a = 1"
    using inv_callsD(2) [OF i, of a] inv_callsD(3) [OF i assms(2), of a] by simp
  then have "holders_in (\<lambda>g. registering g = Some a) T = of_bool (\<not> tracked c a)"
    by (simp add: claims_def of_bool_def split: if_splits)
  from holders_in_count [OF this] show ?thesis by (auto simp: tracked_def)
qed

theorem no_lost_call_witness:
  "size (filter_mset (\<lambda>g. registering g = Some 0) (snd calling_system)) = 1"
  using no_lost_call [of "fst calling_system" "snd calling_system" 0] calling_system_reachable
  by (simp add: calling_system_def new_object_def new_conn_def empty_in_flight_def)

text \<open>
  C5: nothing leaves \<open>Wait\<close> or \<open>Close\<close> blocked for no reason: in every reachable state in
  which nothing is in flight, the connection is shutting down and the reader has ended, the
  connection is done; and while the reader still runs the closer has already been closed.
\<close>

theorem no_lost_wakeup:
  assumes "reachable_from sys_init sys_step (c, T)" and "idle (state c)"
    and "shutting_down (state c) ErrUnknown \<noteq> None"
  shows "\<not> closer (state c) \<and> (reading (state c) \<or> conn_done c)"
  using finished.inv_reachable [OF assms(1)] assms(2,3)
  by (auto simp: inv_finished_def finished_ok_def must_finish_def)

theorem no_lost_wakeup_witness:
  "\<not> closer (state (fst closing_system)) \<and> (reading (state (fst closing_system)) \<or> conn_done (fst closing_system))"
  by (rule no_lost_wakeup [of _ "snd closing_system"])
     (use closing_system_reachable in \<open>simp_all add: closing_system_def idle_def shutting_down_def empty_in_flight_def\<close>)

text \<open>
  C15: the counters of the in-flight state are exact in every reachable state: \<open>incoming\<close>
  counts the queued requests and the goroutines that hold one, \<open>outgoingNotifications\<close> the
  goroutines that write one, and there is one reader and one handler loop exactly when the
  flags say so.
\<close>

theorem counters_exact:
  assumes "reachable_from sys_init sys_step (c, T)"
  shows "incoming (state c) =
           int (length (handler_queue (state c))) + int (size (filter_mset (\<lambda>g. owns g \<noteq> None) T))
    \<and> outgoing_notifications (state c) = int (size (filter_mset notifies T))
    \<and> size (filter_mset is_loop T) = (if handler_running (state c) then 1 else 0)
    \<and> size (filter_mset is_reader T) = (if reading (state c) then 1 else 0)"
  using inv_counts_parts [OF counts.inv_reachable [OF assms]]
  by (simp add: holders_in_count owned_count_def) (simp add: holders_in_def)

theorem counters_exact_witness: "size (filter_mset is_reader (snd closing_system)) = 1"
  using counters_exact [of "fst closing_system" "snd closing_system"] closing_system_reachable
  by (simp add: closing_system_def empty_in_flight_def)

end
