(* ===== verification/Conn_Props.thy ===== *)
theory Conn_Props
  imports Conn_Calls
begin

text \<open>
  What single operations of a connection do from start to end: a call and its response, a
  request and its handler, refusals while the connection shuts down, duplicate IDs,
  cancellation, and what \<open>Wait\<close> reports.
\<close>

section \<open>Running a closure\<close>

definition serving :: "conn \<Rightarrow> bool" where
  "serving c = (\<not> conn_done c \<and> shutting_down (state c) ErrUnknown = None)"

lemma serving_shutting_down: "serving c \<Longrightarrow> shutting_down (state c) e = None"
  by (simp add: serving_def shutting_down_None)

lemma settle_serving: "serving c \<Longrightarrow> settle c = c"
  by (simp add: settle_def serving_def)

lemma uif_serving: "f c = Inr (a, c1) \<Longrightarrow> serving c1 \<Longrightarrow> update_in_flight f c = Inr (a, c1)"
  by (simp add: update_in_flight_def settle_serving serving_def)

text \<open>What a closure that changes neither error, flag nor \<open>done\<close> keeps.\<close>

lemma serving_upd_state [simp]:
  "conn_closing (f (state c)) = conn_closing (state c) \<Longrightarrow> read_err (f (state c)) = read_err (state c) \<Longrightarrow>
   write_err (f (state c)) = write_err (state c) \<Longrightarrow> serving (upd_state f c) = serving c"
  using shutting_down_None [of "f (state c)" ErrUnknown] shutting_down_None [of "state c" ErrUnknown]
  by (auto simp: serving_def)

lemma hand_to_writer_core [simp]:
  "state (hand_to_writer m c) = state c" "conn_done (hand_to_writer m c) = conn_done c"
  "calls (hand_to_writer m c) = calls c" "requests (hand_to_writer m c) = requests c"
  "handed_to_writer (hand_to_writer m c) = handed_to_writer c @ [m]"
  by (simp_all add: hand_to_writer_def)

lemma retired_new_object_writer [simp]:
  "handed_to_writer (retired a resp c) = handed_to_writer c"
  "handed_to_writer (new_object ac c) = handed_to_writer c"
  by (simp_all add: retired_def new_object_def)

lemma serving_others [simp]:
  "serving (hand_to_writer m c) = serving c" "serving (retired a resp c) = serving c"
  "serving (new_object ac c) = serving c" "serving (cancel_request r c) = serving c"
  by (simp_all add: serving_def)

lemma conn_write_serving:
  "serving c \<Longrightarrow> conn_write x None msg c = Inr (None, hand_to_writer msg c)"
  by (simp add: conn_write_def write_check_def uif_serving write_check_section_def serving_shutting_down
      write_settle_def breaks_connection_def)

section \<open>A call and its response\<close>

lemma call_serving:
  assumes s: "serving c" and p: "\<forall>e. params \<noteq> Some (Inl e)"
  shows "call ctx_err None m params c =
    Inr (length (calls c),
      hand_to_writer (MsgRequest \<lparr>req_id = Int64ID (seq c + 1), req_method = m, req_params = fst (marshal_to_raw params)\<rparr>)
        (upd_state (outgoing_calls_update (AList.update (Int64ID (seq c + 1)) (length (calls c))))
          (new_object \<lparr>ac_id = Int64ID (seq c + 1), ac_response = None\<rparr> c)))"
proof -
  let ?i = "Int64ID (seq c + 1)" and ?a = "length (calls c)"
  let ?c1 = "new_object \<lparr>ac_id = ?i, ac_response = None\<rparr> c"
  let ?c2 = "upd_state (outgoing_calls_update (AList.update ?i ?a)) ?c1"
  have n: "new_call ?i m params =
      (\<lparr>req_id = ?i, req_method = m, req_params = fst (marshal_to_raw params)\<rparr>, None)"
    using p by (auto simp: new_call_def marshal_to_raw_def split: option.splits sum.splits)
  have 1: "new_async_call c = Inr ((?a, ?i), ?c1)"
    by (simp add: new_async_call_def new_object_def Let_def)
  have 2: "register_call ?a ?c1 = Inr (None, ?c2)"
    using s unfolding register_call_def
    by (intro uif_serving) (simp_all add: register_call_section_def serving_shutting_down)
  show ?thesis
    using s by (simp add: call_def 1 2 n conn_write_serving)
qed

lemma call_and_answer:
  assumes "serving c" and "\<forall>e. params \<noteq> Some (Inl e)" and "resp_id resp = Int64ID (seq c + 1)"
  shows "\<exists>c1 c2. call ctx_err None m params c = Inr (length (calls c), c1)
    \<and> handed_to_writer c1 = handed_to_writer c @
        [MsgRequest \<lparr>req_id = Int64ID (seq c + 1), req_method = m, req_params = fst (marshal_to_raw params)\<rparr>]
    \<and> read_response resp c1 = Inr ((), c2)
    \<and> await None (Some decode) (calls c2 ! length (calls c)) =
        [case resp_error resp of Some e \<Rightarrow> Inl e
         | None \<Rightarrow> (case decode (resp_result resp) of Inl e \<Rightarrow> Inl e | Inr v \<Rightarrow> Inr (Some v))]
    \<and> map_of (outgoing_calls (state c2)) (Int64ID (seq c + 1)) = None"
proof -
  let ?i = "Int64ID (seq c + 1)" and ?a = "length (calls c)"
  let ?c1 = "hand_to_writer (MsgRequest \<lparr>req_id = ?i, req_method = m, req_params = fst (marshal_to_raw params)\<rparr>)
        (upd_state (outgoing_calls_update (AList.update ?i ?a))
          (new_object \<lparr>ac_id = ?i, ac_response = None\<rparr> c))"
  let ?c2 = "retired ?a resp (upd_state (outgoing_calls_update (AList.delete ?i)) ?c1)"
  have "read_response resp ?c1 = Inr ((), ?c2)"
    using assms(1,3) unfolding read_response_def
    by (intro uif_serving) (simp_all add: response_section_def update_conv' retire_retired)
  then show ?thesis
    using call_serving [OF assms(1,2)]
    by (auto simp: await_def retired_def delete_conv' split: option.splits)
qed

text \<open>
  C7: a call on a connection that serves hands exactly one message to the writer, the
  request under the next ID with the marshalled parameters, and once the response with
  that ID is read, awaiting the call gives the response's error or decoded result.
\<close>

theorem call_answered:
  assumes "serving c" and "\<forall>e. params \<noteq> Some (Inl e)" and "resp_id resp = Int64ID (seq c + 1)"
  shows "\<exists>c1 c2. call ctx_err None m params c = Inr (length (calls c), c1)
    \<and> handed_to_writer c1 = handed_to_writer c @
        [MsgRequest \<lparr>req_id = Int64ID (seq c + 1), req_method = m, req_params = fst (marshal_to_raw params)\<rparr>]
    \<and> read_response resp c1 = Inr ((), c2)
    \<and> await None (Some decode) (calls c2 ! length (calls c)) =
        [case resp_error resp of Some e \<Rightarrow> Inl e
         | None \<Rightarrow> (case decode (resp_result resp) of Inl e \<Rightarrow> Inl e | Inr v \<Rightarrow> Inr (Some v))]
    \<and> map_of (outgoing_calls (state c2)) (Int64ID (seq c + 1)) = None"
  using assms by (rule call_and_answer)

theorem call_answered_witness:
  "\<exists>c1 c2. call False None ''ping'' None (new_conn None False) = Inr (0, c1)
     \<and> read_response \<lparr>resp_id = Int64ID 1, resp_result = ''7'', resp_error = None\<rparr> c1 = Inr ((), c2)
     \<and> await None (Some Inr) (calls c2 ! 0) = [Inr (Some ''7'')]"
  using call_answered [of "new_conn None False" None "\<lparr>resp_id = Int64ID 1, resp_result = ''7'', resp_error = None\<rparr>"
      False "''ping''" Inr]
  by (fastforce simp: serving_def new_conn_def shutting_down_def empty_in_flight_def)


section \<open>A request and its handler\<close>

lemma forget_finish_serving:
  assumes s: "serving c" and i: "incoming (state c) \<noteq> 0"
  shows "finish_request r c = Inr ((), upd_state (incoming_update (\<lambda>n. n - 1)) (cancel_request r c))"
    and "forget_request j c = Inr ((), upd_state (incoming_by_id_update (AList.delete j)) c)"
  using s i unfolding finish_request_def forget_request_def
  by (auto intro!: uif_serving simp: finish_section_def forget_section_def)

definition answer :: "string \<Rightarrow> rpc_id \<Rightarrow> go_value option \<Rightarrow> go_error option \<Rightarrow> response" where
  "answer m i result err =
     \<lparr>resp_id = i, resp_result = fst (marshal_to_raw result), resp_error = unhandled_detail m err\<rparr>"

lemma process_result_serving:
  assumes s: "serving c" and i: "incoming (state c) \<noteq> 0"
    and req: "in_req (requests c ! r) = req" "is_call req"
    and res: "result = None \<longleftrightarrow> err \<noteq> None" "\<forall>e. result \<noteq> Some (Inl e)"
  shows "process_result None r result err c =
    Inr ((), upd_state (incoming_update (\<lambda>n. n - 1)) (cancel_request r
      (hand_to_writer (MsgResponse (answer (req_method req) (req_id req) result err))
        (upd_state (incoming_by_id_update (AList.delete (req_id req))) c))))"
proof -
  have u: "unhandled_detail m err = None \<longleftrightarrow> err = None" for m
    by (auto simp: unhandled_detail_def)
  have k: "checked_result req result err c = Inr ((result, unhandled_detail (req_method req) err), c)"
    using req(2) res u by (auto simp: checked_result_def Let_def)
  have n: "new_response (req_id req) result (unhandled_detail (req_method req) err) =
      (answer (req_method req) (req_id req) result err, None)"
    using res(2) by (auto simp: new_response_def answer_def marshal_to_raw_def split: option.splits sum.splits)
  show ?thesis
    using s i req
    by (simp add: process_result_def Let_def k n forget_finish_serving conn_write_serving)
qed

lemma accept_serving:
  assumes s: "serving c" and c: "is_call req" and i: "map_of (incoming_by_id (state c)) (req_id req) = None"
  shows "accept_request wres None req c =
    Inr (\<not> handler_running (state c),
      upd_state (\<lambda>s. s\<lparr>handler_queue := handler_queue s @ [length (requests c)], handler_running := True\<rparr>)
        (upd_state (incoming_by_id_update (AList.update (req_id req) (length (requests c)))) (arrived req c)))"
proof -
  let ?r = "length (requests c)"
  let ?c1 = "upd_state (incoming_by_id_update (AList.update (req_id req) ?r)) (arrived req c)"
  let ?c0 = "c\<lparr>requests := requests c @ [\<lparr>in_req = req, in_cancelled = False, in_released = False\<rparr>]\<rparr>"
  let ?c2 = "upd_state (\<lambda>s. s\<lparr>handler_queue := handler_queue s @ [?r], handler_running := True\<rparr>) ?c1"
  have sa: "serving (arrived req c)" using s by (simp add: arrived_def serving_def shutting_down_None)
  have 0: "new_incoming req c = Inr (?r, ?c0)" by (simp add: new_incoming_def)
  have "accept_section ?r ?c0 = Inr (None, ?c1)"
    using c i serving_shutting_down [OF sa]
    by (simp add: accept_section_def Let_def arrived_def [symmetric])
  then have 1: "accept ?r ?c0 = Inr (None, ?c1)"
    using sa unfolding accept_def by (intro uif_serving) simp_all
  have "enqueue_section ?r ?c1 = Inr (Inr (\<not> handler_running (state c)), ?c2)"
    using serving_shutting_down [of ?c1] sa by (simp add: enqueue_section_def)
  then have 2: "enqueue ?r ?c1 = Inr (Inr (\<not> handler_running (state c)), ?c2)"
    using sa unfolding enqueue_def by (intro uif_serving) simp_all
  show ?thesis by (simp add: accept_request_def 0 1 2 preempt_handled_def)
qed


text \<open>The request a serving connection is working on is taken and answered by one turn of the handler.\<close>

lemma handle_turn_serving:
  assumes s: "serving c" and q: "handler_queue (state c) = r # rs" and i: "incoming (state c) \<noteq> 0"
    and req: "requests c ! r = \<lparr>in_req = req, in_cancelled = False, in_released = False\<rparr>" "is_call req"
    and r: "r < length (requests c)"
    and res: "handler req = (result, err)" "result = None \<longleftrightarrow> err \<noteq> None" "\<forall>e. result \<noteq> Some (Inl e)"
  shows "\<exists>c'. handle_turn None handler c = Inr (True, c')
    \<and> state c' = (state c)\<lparr>handler_queue := rs, incoming := incoming (state c) - 1,
                           incoming_by_id := AList.delete (req_id req) (incoming_by_id (state c))\<rparr>
    \<and> handed_to_writer c' = handed_to_writer c @ [MsgResponse (answer (req_method req) (req_id req) result err)]"
proof -
  let ?c1 = "upd_state (handler_queue_update (\<lambda>_. rs)) c"
  have 1: "dequeue c = Inr (Some r, ?c1)"
    using s q unfolding dequeue_def by (intro uif_serving) (simp_all add: dequeue_section_def)
  have 2: "delivery_error r ?c1 = Inr (None, ?c1)" using req by (simp add: delivery_error_def)
  have 3: "process_result None r result err ?c1 =
    Inr ((), upd_state (incoming_update (\<lambda>n. n - 1)) (cancel_request r
      (hand_to_writer (MsgResponse (answer (req_method req) (req_id req) result err))
        (upd_state (incoming_by_id_update (AList.delete (req_id req))) ?c1))))"
    using s i req res by (intro process_result_serving) simp_all
  have "\<exists>c'. handle_turn None handler c = Inr (True, c') \<and> release True r (upd_state (incoming_update (\<lambda>n. n - 1))
      (cancel_request r (hand_to_writer (MsgResponse (answer (req_method req) (req_id req) result err))
        (upd_state (incoming_by_id_update (AList.delete (req_id req))) ?c1)))) = Inr ((), c')"
    using req by (simp add: handle_turn_def 1 2 3 res(1) release_def)
  then show ?thesis
    using r req by (auto simp: release_def upd_state_def cancel_request_def hand_to_writer_def)
qed

lemma accept_and_handle:
  assumes "serving c" and "is_call req" and "map_of (incoming_by_id (state c)) (req_id req) = None"
    and "handler_queue (state c) = []" and "0 \<le> incoming (state c)"
    and "handler req = (result, err)" and "result = None \<longleftrightarrow> err \<noteq> None" and "\<forall>e. result \<noteq> Some (Inl e)"
  shows "\<exists>c1 c2. accept_request None None req c = Inr (\<not> handler_running (state c), c1)
    \<and> handle_turn None handler c1 = Inr (True, c2)
    \<and> handed_to_writer c2 = handed_to_writer c @
        [MsgResponse \<lparr>resp_id = req_id req, resp_result = fst (marshal_to_raw result),
                      resp_error = unhandled_detail (req_method req) err\<rparr>]
    \<and> state c2 = (state c)\<lparr>handler_running := True\<rparr>"
proof -
  let ?r = "length (requests c)"
  let ?c1 = "upd_state (\<lambda>s. s\<lparr>handler_queue := handler_queue s @ [?r], handler_running := True\<rparr>)
        (upd_state (incoming_by_id_update (AList.update (req_id req) ?r)) (arrived req c))"
  have acc: "accept_request None None req c = Inr (\<not> handler_running (state c), ?c1)"
    using assms(1-3) by (rule accept_serving)
  have "serving ?c1" using assms(1) by (simp add: arrived_def serving_def shutting_down_None)
  moreover have "requests ?c1 = requests c @ [\<lparr>in_req = req, in_cancelled = False, in_released = False\<rparr>]"
    by (simp add: arrived_def)
  ultimately obtain c2 where c2: "handle_turn None handler ?c1 = Inr (True, c2)"
    and st: "state c2 = (state ?c1)\<lparr>handler_queue := [], incoming := incoming (state ?c1) - 1,
                           incoming_by_id := AList.delete (req_id req) (incoming_by_id (state ?c1))\<rparr>"
    and h: "handed_to_writer c2 = handed_to_writer ?c1 @ [MsgResponse (answer (req_method req) (req_id req) result err)]"
    using handle_turn_serving [of ?c1 ?r "[]" req handler result err] assms by auto
  have "req_id req \<notin> fst ` set (incoming_by_id (state c))"
    using assms(3) by (simp add: map_of_eq_None_iff)
  then have "state c2 = (state c)\<lparr>handler_running := True\<rparr>"
    using st assms(4) by (simp add: delete_update_same)
  with acc c2 h show ?thesis by (auto simp: answer_def arrived_def)
qed

text \<open>
  C6: a call that arrives on a connection that serves, with an ID not in use, is enqueued,
  and the next turn of the handler hands to the writer exactly one message for it: the
  response with that ID and the handler's result or error. Afterwards nothing of the
  request is left in the in-flight state.
\<close>

theorem request_answered:
  assumes "serving c" and "is_call req" and "map_of (incoming_by_id (state c)) (req_id req) = None"
    and "handler_queue (state c) = []" and "0 \<le> incoming (state c)"
    and "handler req = (result, err)" and "result = None \<longleftrightarrow> err \<noteq> None" and "\<forall>e. result \<noteq> Some (Inl e)"
  shows "\<exists>c1 c2. accept_request None None req c = Inr (\<not> handler_running (state c), c1)
    \<and> handle_turn None handler c1 = Inr (True, c2)
    \<and> handed_to_writer c2 = handed_to_writer c @
        [MsgResponse \<lparr>resp_id = req_id req, resp_result = fst (marshal_to_raw result),
                      resp_error = unhandled_detail (req_method req) err\<rparr>]
    \<and> state c2 = (state c)\<lparr>handler_running := True\<rparr>"
  using assms by (rule accept_and_handle)

definition echo_handler :: "request \<Rightarrow> go_value option \<times> go_error option" where
  "echo_handler req = (Some (Inr (req_params req)), None)"

definition echo_request :: request where
  "echo_request = \<lparr>req_id = StringID ''a'', req_method = ''echo'', req_params = ''7''\<rparr>"

lemma new_conn_serving [simp]:
  "serving (new_conn x h)" "incoming (state (new_conn x h)) = 0"
  "incoming_by_id (state (new_conn x h)) = []" "handler_queue (state (new_conn x h)) = []"
  "handler_running (state (new_conn x h)) = False" "handed_to_writer (new_conn x h) = []"
  "conn_done (new_conn x h) = False"
  by (simp_all add: serving_def new_conn_def shutting_down_def empty_in_flight_def)

theorem request_answered_witness:
  "\<exists>c1 c2. accept_request None None echo_request (new_conn None False) = Inr (True, c1)
     \<and> handle_turn None echo_handler c1 = Inr (True, c2)
     \<and> handed_to_writer c2 = [MsgResponse \<lparr>resp_id = StringID ''a'', resp_result = ''7'', resp_error = None\<rparr>]"
  using request_answered [of "new_conn None False" echo_request echo_handler "Some (Inr ''7'')" None]
  by (auto simp: echo_request_def echo_handler_def marshal_to_raw_def unhandled_detail_def is_call_def
      id_is_valid_def)

section \<open>Refusals while the connection shuts down\<close>

lemma shutting_down_is: "shutting_down s v = Some e \<Longrightarrow> errors_is e t \<longleftrightarrow> v = t"
  by (auto simp: shutting_down_def simp del: errors_is.simps split: if_splits option.splits)

lemma cancelled_stays:
  "in_cancelled (requests c ! r) \<Longrightarrow> in_cancelled (requests (cancel_request q c) ! r)"
  by (cases "q < length (requests c)"; cases "q = r") (simp_all add: cancel_request_def list_update_beyond)

lemma cancel_all_stays:
  "in_cancelled (requests c ! r) \<Longrightarrow> in_cancelled (requests (cancel_all rs c) ! r)"
  by (induction rs arbitrary: c) (simp_all add: cancel_all_def cancelled_stays)

lemma cancel_all_cancels:
  "r \<in> set rs \<Longrightarrow> r < length (requests c) \<Longrightarrow> in_cancelled (requests (cancel_all rs c) ! r)"
proof (induction rs arbitrary: c)
  case Nil
  then show ?case by simp
next
  case (Cons q rs)
  have e: "cancel_all (q # rs) c = cancel_all rs (cancel_request q c)" by (simp add: cancel_all_def)
  show ?case
  proof (cases "r = q")
    case True
    with Cons have "in_cancelled (requests (cancel_request q c) ! r)" by (simp add: cancel_request_def)
    with e show ?thesis by (simp add: cancel_all_stays)
  next
    case False
    with Cons e show ?thesis by simp
  qed
qed

lemma write_refused:
  assumes e: "shutting_down (state c) ErrServerClosing = Some e"
    and w: "conn_write ctx_err wres msg c = Inr (res, c')"
  obtains c1 where "c1 = c \<or> c1 = settle c" and "res = Some e"
    and "ctx_err \<and> c' = c1 \<or> \<not> ctx_err \<and> write_failed e c1 = Inr ((), c')"
proof -
  from w e obtain c1 where "c1 = c \<or> c1 = settle c" "write_settle ctx_err (Some e) c1 = Inr (res, c')"
    by (auto simp: conn_write_def write_check_def write_check_section_def cbind_eq_Inr uif_eq_Inr)
  with that shutting_down_is [OF e, of ErrRejected] show ?thesis
    by (auto simp: write_settle_def breaks_connection_def cbind_eq_Inr split: if_splits)
qed

lemma idle_settle [simp]: "idle (state (settle c)) = idle (state c)"
  by (simp add: idle_def)

lemma settle_done: "\<not> conn_done c \<Longrightarrow> conn_done (settle c) \<Longrightarrow> idle (state c)"
  by (auto simp: settle_def split: if_splits)

text \<open>Writing on a connection that is not done never panics.\<close>

lemma write_failed_total:
  assumes "conn_done c \<longrightarrow> idle (state c)"
  shows "\<exists>c'. write_failed e c = Inr ((), c')"
proof -
  have "\<exists>c1. write_failed_section e c = Inr ((), c1) \<and> (conn_done c1 \<longrightarrow> idle (state c1))"
    using assms by (auto simp: write_failed_section_def idle_def)
  then show ?thesis unfolding write_failed_def by (auto simp: update_in_flight_def)
qed

lemma conn_write_total:
  assumes "\<not> conn_done c"
  shows "\<exists>res c'. conn_write ctx_err wres msg c = Inr (res, c')"
proof -
  have 1: "write_check c = Inr (shutting_down (state c) ErrServerClosing, settle c)"
    using assms by (simp add: write_check_def write_check_section_def update_in_flight_def)
  have d: "conn_done (settle c) \<longrightarrow> idle (state (settle c))" using settle_done [OF assms] by auto
  have 2: "\<exists>res c'. write_settle ctx_err e c1 = Inr (res, c')" if "conn_done c1 \<longrightarrow> idle (state c1)" for e c1
    using write_failed_total [OF that, of "the e"] by (auto simp: write_settle_def)
  show ?thesis using d by (auto simp: conn_write_def 1 split: option.split intro!: 2)
qed

lemma conn_write_refused_handed:
  assumes "shutting_down (state c) ErrServerClosing = Some e"
    and "conn_write ctx_err wres msg c = Inr (res, c')"
  shows "handed_to_writer c' = handed_to_writer c"
proof (rule write_refused [OF assms])
  fix c1 assume c1: "c1 = c \<or> c1 = settle c"
    and "ctx_err \<and> c' = c1 \<or> \<not> ctx_err \<and> write_failed e c1 = Inr ((), c')"
  then have "handed_to_writer c' = handed_to_writer c1"
    by (auto simp: write_failed_def uif_eq_Inr write_failed_section_def split: if_splits)
  with c1 show "handed_to_writer c' = handed_to_writer c" by auto
qed

text \<open>
  While the connection shuts down no message reaches the writer, not even a response:
  writing fails with an error that is \<open>ErrServerClosing\<close>. Unless the caller's context is done,
  that failure is recorded as a write error of the connection, and the contexts of all
  calls still being handled are cancelled.
\<close>

theorem shutdown_write_refused:
  assumes "shutting_down (state c) ErrServerClosing = Some e"
    and "conn_write ctx_err wres msg c = Inr (res, c')"
  shows "res = Some e \<and> errors_is e ErrServerClosing \<and> handed_to_writer c' = handed_to_writer c
    \<and> (\<not> ctx_err \<longrightarrow> write_err (state c') \<noteq> None
         \<and> (write_err (state c) = None \<longrightarrow>
              (\<forall>(i, r) \<in> set (incoming_by_id (state c)). r < length (requests c) \<longrightarrow> in_cancelled (requests c' ! r))))"
proof -
  from write_refused [OF assms] obtain c1 where c1: "c1 = c \<or> c1 = settle c" and r: "res = Some e"
    and f: "ctx_err \<and> c' = c1 \<or> \<not> ctx_err \<and> write_failed e c1 = Inr ((), c')" .
  from c1 have k: "handed_to_writer c1 = handed_to_writer c" "requests c1 = requests c"
    "write_err (state c1) = write_err (state c)" "incoming_by_id (state c1) = incoming_by_id (state c)"
    by auto
  have ei: "errors_is e ErrServerClosing" using shutting_down_is [OF assms(1)] by simp
  show ?thesis
  proof (cases ctx_err)
    case True
    with f r k ei show ?thesis by simp
  next
    case False
    with f have w: "write_failed e c1 = Inr ((), c')" by simp
    from w obtain c2 where c2: "write_failed_section e c1 = Inr ((), c2)"
      and c': "requests c' = requests c2" "handed_to_writer c' = handed_to_writer c2"
        "write_err (state c') = write_err (state c2)"
      by (auto simp: write_failed_def uif_eq_Inr)
    show ?thesis
    proof (cases "write_err (state c1) = None")
      case True
      with c2 have "c2 = cancel_all (map snd (incoming_by_id (state c1))) (upd_state (write_err_update (\<lambda>_. Some e)) c1)"
        by (simp add: write_failed_section_def)
      moreover from this k have "in_cancelled (requests c2 ! r)"
        if "(i, r) \<in> set (incoming_by_id (state c))" "r < length (requests c)" for i r
        using that by (auto intro!: cancel_all_cancels simp: rev_image_eqI)
      ultimately show ?thesis using c' k r ei by auto
    next
      case False
      with c2 have "c2 = c1" by (simp add: write_failed_section_def)
      with False c' k r ei show ?thesis by auto
    qed
  qed
qed

theorem shutdown_write_refused_witness:
  "\<exists>c'. conn_write False None (MsgResponse \<lparr>resp_id = Int64ID 1, resp_result = ''7'', resp_error = None\<rparr>)
      (upd_state (conn_closing_update (\<lambda>_. True)) (new_conn None False)) = Inr (Some (ErrVar ErrServerClosing), c')
    \<and> handed_to_writer c' = [] \<and> write_err (state c') \<noteq> None"
proof -
  let ?c = "upd_state (conn_closing_update (\<lambda>_. True)) (new_conn None False)"
  let ?m = "MsgResponse \<lparr>resp_id = Int64ID 1, resp_result = ''7'', resp_error = None\<rparr>"
  have "\<exists>res c'. conn_write False None ?m ?c = Inr (res, c')"
    by (rule conn_write_total) (simp add: new_conn_def)
  then obtain res c' where w: "conn_write False None ?m ?c = Inr (res, c')" by blast
  have "shutting_down (state ?c) ErrServerClosing = Some (ErrVar ErrServerClosing)"
    by (simp add: new_conn_def empty_in_flight_def shutting_down_def)
  from shutdown_write_refused [OF this w]
  have "res = Some (ErrVar ErrServerClosing)" "handed_to_writer c' = handed_to_writer ?c" "write_err (state c') \<noteq> None"
    by blast+
  with w show ?thesis by (intro exI [of _ c']) (simp add: new_conn_def)
qed


lemma shutting_down_closing: "conn_closing s \<Longrightarrow> shutting_down s e = Some (ErrVar e)"
  by (simp add: shutting_down_def)

lemma process_result_closing:
  assumes "shutting_down (state c) ErrServerClosing \<noteq> None"
    and "process_result wres r result err c = Inr (u, c')"
  shows "handed_to_writer c' = handed_to_writer c"
proof -
  let ?req = "in_req (requests c ! r)"
  have keep: "handed_to_writer c3 = handed_to_writer c2" if "finish_request r c2 = Inr (v, c3)" for v c2 c3
    using that by (auto simp: finish_request_def uif_eq_Inr finish_section_def split: if_splits)
  from assms(2) obtain res' err' c0 c1 where
    k: "checked_result ?req result err c = Inr ((res', err'), c0)"
    and w: "(if is_call ?req then
                (case new_response (req_id ?req) res' err' of (resp, resp_err) \<Rightarrow>
                   cbind (forget_request (req_id ?req))
                     (\<lambda>_. case resp_err of
                         None \<Rightarrow> cbind (conn_write False wres (MsgResponse resp)) (\<lambda>_. cret ())
                       | Some e \<Rightarrow>
                           cbind (internal_errorf (errorf_prefix (''malformed result for '' @ go_q (req_method ?req)) e))
                             (\<lambda>_. cret ())))
              else cret ()) c0 = Inr ((), c1)"
    and f: "finish_request r c1 = Inr (u, c')"
    by (auto simp: process_result_def Let_def cbind_eq_Inr)
  have c0: "core c0 = core c" by (rule core_checked_result [OF k])
  have h0: "handed_to_writer c0 = handed_to_writer c"
    using k unfolding checked_result_def Let_def
    by (auto simp: cbind_eq_Inr internal_errorf_def split: if_splits)
  have "handed_to_writer c1 = handed_to_writer c0"
  proof (cases "is_call ?req")
    case False
    with w show ?thesis by simp
  next
    case True
    obtain resp resp_err where n: "new_response (req_id ?req) res' err' = (resp, resp_err)" by fastforce
    from w True n obtain c2 where fo: "forget_request (req_id ?req) c0 = Inr ((), c2)"
      and wr: "(case resp_err of
                         None \<Rightarrow> cbind (conn_write False wres (MsgResponse resp)) (\<lambda>_. cret ())
                       | Some e \<Rightarrow>
                           cbind (internal_errorf (errorf_prefix (''malformed result for '' @ go_q (req_method ?req)) e))
                             (\<lambda>_. cret ())) c2 = Inr ((), c1)"
      by (auto simp: cbind_eq_Inr)
    from fo have h2: "handed_to_writer c2 = handed_to_writer c0"
      by (auto simp: forget_request_def uif_eq_Inr forget_section_def)
    have "shutting_down (state c2) ErrServerClosing \<noteq> None"
      using fo assms(1) core_eqD(1) [OF c0]
      by (auto simp: forget_request_def uif_eq_Inr forget_section_def shutting_down_None
          simp flip: not_None_eq)
    then obtain e where e: "shutting_down (state c2) ErrServerClosing = Some e" by blast
    have "handed_to_writer c1 = handed_to_writer c2"
    proof (cases resp_err)
      case None
      with wr obtain res where "conn_write False wres (MsgResponse resp) c2 = Inr (res, c1)"
        by (auto simp: cbind_eq_Inr)
      from conn_write_refused_handed [OF e this] show ?thesis .
    next
      case (Some x)
      with wr show ?thesis by (auto simp: cbind_eq_Inr internal_errorf_def split: if_splits)
    qed
    with h2 show ?thesis by simp
  qed
  with h0 keep [OF f] show ?thesis by simp
qed

text \<open>
  C12: once \<open>Close\<close> has begun, a call that arrives gets no response at all: its ID is
  recorded, the response with \<open>ErrServerClosing\<close> is built, and the write of it is refused,
  so nothing is handed to the writer and the handler is not started.
\<close>

theorem closing_call_gets_no_response:
  assumes "conn_closing (state c)" and "is_call req"
    and "accept_request wres preempted req c = Inr (spawn, c')"
  shows "handed_to_writer c' = handed_to_writer c \<and> \<not> spawn"
proof -
  let ?r = "length (requests c)"
  let ?c0 = "c\<lparr>requests := requests c @ [\<lparr>in_req = req, in_cancelled = False, in_released = False\<rparr>]\<rparr>"
  obtain err c1 where a: "accept ?r ?c0 = Inr (err, c1)"
    using assms(3) by (auto simp: accept_request_def new_incoming_def cbind_eq_Inr)
  then obtain c2 where c2: "accept_section ?r ?c0 = Inr (err, c2)" and s: "c1 = c2 \<or> c1 = settle c2"
    by (auto simp: accept_def uif_eq_Inr)
  from c2 assms(1,2) have err: "err \<noteq> None" and h2: "handed_to_writer c2 = handed_to_writer c"
    and cl: "conn_closing (state c2)"
    by (auto simp: accept_section_def Let_def shutting_down_closing clear_id_def split: if_splits)
  from err obtain e where e: "err = Some e" by blast
  with a assms(3) have p: "process_result wres ?r None (Some e) c1 = Inr ((), c')" and sp: "\<not> spawn"
    by (auto simp: accept_request_def new_incoming_def cbind_eq_Inr)
  from s h2 cl have "handed_to_writer c1 = handed_to_writer c" and "conn_closing (state c1)" by auto
  with process_result_closing [OF _ p] sp show ?thesis by (simp add: shutting_down_closing)
qed


text \<open>A connection that is closing and still reads.\<close>

definition closing_conn :: conn where
  "closing_conn = upd_state (\<lambda>s. s\<lparr>reading := True, conn_closing := True\<rparr>) (new_conn None False)"

lemma not_isl_Inr: "\<not> isl x \<Longrightarrow> \<exists>a c. x = Inr (a, c)"
  by (cases x) auto

theorem closing_call_gets_no_response_witness:
  "\<exists>c'. accept_request None None echo_request closing_conn = Inr (False, c') \<and> handed_to_writer c' = []"
proof -
  have "\<not> isl (accept_request None None echo_request closing_conn)" by code_simp
  then obtain b c' where a: "accept_request None None echo_request closing_conn = Inr (b, c')"
    by (blast dest: not_isl_Inr)
  have "conn_closing (state closing_conn)" "is_call echo_request" "handed_to_writer closing_conn = []"
    by (simp_all add: closing_conn_def echo_request_def is_call_def id_is_valid_def)
  with closing_call_gets_no_response [OF _ _ a] a show ?thesis by auto
qed

section \<open>Notifications while the connection shuts down\<close>

text \<open>
  C13: once \<open>Close\<close> has begun a notification is never written, even while calls are in
  flight and \<open>Notify\<close> counts it and tries: it returns an error and nothing is handed to the
  writer.
\<close>

theorem closing_notification_not_sent:
  assumes "conn_closing (state c)" and "notify ctx_err wres m params c = Inr (res, c')"
  shows "res \<noteq> None \<and> handed_to_writer c' = handed_to_writer c"
proof -
  obtain req merr where n: "new_notification m params = (req, merr)" by fastforce
  from assms(2) obtain err c1 where b: "notify_begin c = Inr (err, c1)"
    and rest: "(case err of
           Some e \<Rightarrow> cret (Some e)
         | None \<Rightarrow>
                cbind (case merr of
                         Some e \<Rightarrow> cret (Some (Opaque (''marshaling notify parameters: '' @ error_text e)))
                       | None \<Rightarrow> conn_write ctx_err wres (MsgRequest req))
                  (\<lambda>err. cbind notify_end (\<lambda>_. cret err))) c1 = Inr (res, c')"
    by (auto simp: notify_def cbind_eq_Inr n split: option.splits)
  from b have c1: "handed_to_writer c1 = handed_to_writer c" "conn_closing (state c1)"
    using assms(1)
    by (auto simp: notify_begin_def uif_eq_Inr notify_begin_section_def Let_def split: option.splits if_splits)
  show ?thesis
  proof (cases err)
    case (Some e)
    with rest c1 show ?thesis by auto
  next
    case None
    with rest obtain c2 where w: "(case merr of
                         Some e \<Rightarrow> cret (Some (Opaque (''marshaling notify parameters: '' @ error_text e)))
                       | None \<Rightarrow> conn_write ctx_err wres (MsgRequest req)) c1 = Inr (res, c2)"
      and e: "notify_end c2 = Inr ((), c')"
      by (auto simp: cbind_eq_Inr)
    from e have "handed_to_writer c' = handed_to_writer c2"
      by (auto simp: notify_end_def uif_eq_Inr notify_end_section_def)
    moreover have "res \<noteq> None \<and> handed_to_writer c2 = handed_to_writer c1"
    proof (cases merr)
      case (Some e)
      with w show ?thesis by auto
    next
      case None
      with w have w: "conn_write ctx_err wres (MsgRequest req) c1 = Inr (res, c2)" by simp
      have s: "shutting_down (state c1) ErrServerClosing = Some (ErrVar ErrServerClosing)"
        using c1(2) by (rule shutting_down_closing)
      have "res = Some (ErrVar ErrServerClosing)"
        by (rule write_refused [OF s w])
      with conn_write_refused_handed [OF s w] show ?thesis by simp
    qed
    ultimately show ?thesis using c1 by simp
  qed
qed

theorem closing_notification_not_sent_witness:
  "\<exists>res c'. notify False None ''session/update'' None closing_conn = Inr (res, c') \<and> handed_to_writer c' = []"
proof -
  have "\<not> isl (notify False None ''session/update'' None closing_conn)" by code_simp
  then obtain res c' where n: "notify False None ''session/update'' None closing_conn = Inr (res, c')"
    by (blast dest: not_isl_Inr)
  have "conn_closing (state closing_conn)" "handed_to_writer closing_conn = []"
    by (simp_all add: closing_conn_def)
  with closing_notification_not_sent [OF _ n] n show ?thesis by auto
qed

section \<open>Duplicate IDs, cancellation, Wait\<close>

text \<open>
  C16: a call whose ID is already in use by a call in progress does not disturb that call:
  its own ID is cleared, so no response is sent, the table still maps the ID to the first
  request, and the count of incoming requests is what it was.
\<close>

theorem duplicate_id_rejected:
  assumes "serving c" and "is_call req" and "map_of (incoming_by_id (state c)) (req_id req) = Some q"
    and "0 \<le> incoming (state c)" and "q < length (requests c)"
  shows "\<exists>c'. accept_request wres preempted req c = Inr (False, c') \<and> state c' = state c
    \<and> handed_to_writer c' = handed_to_writer c \<and> requests c' ! q = requests c ! q"
proof -
  let ?r = "length (requests c)" and ?req = "req\<lparr>req_id := NoID\<rparr>"
  let ?c0 = "c\<lparr>requests := requests c @ [\<lparr>in_req = req, in_cancelled = False, in_released = False\<rparr>]\<rparr>"
  let ?c1 = "arrived ?req c"
  let ?c2 = "upd_state (incoming_update (\<lambda>n. n - 1)) (cancel_request ?r ?c1)"
  have s1: "serving ?c1" using assms(1) by (simp add: arrived_def serving_def shutting_down_None)
  have "accept_section ?r ?c0 = Inr (Some (id_in_use (req_id req)), ?c1)"
    using assms(2,3) by (simp add: accept_section_def Let_def arrived_def [symmetric] clear_id_arrived)
  then have 1: "accept ?r ?c0 = Inr (Some (id_in_use (req_id req)), ?c1)"
    using s1 unfolding accept_def by (intro uif_serving) simp_all
  have "finish_request ?r ?c1 = Inr ((), ?c2)"
    using forget_finish_serving(1) [OF s1] assms(4) by simp
  moreover have "\<not> is_call ?req" by (simp add: is_call_def id_is_valid_def)
  ultimately have "process_result wres ?r None (Some (id_in_use (req_id req))) ?c1 = Inr ((), ?c2)"
    by (simp add: process_result_def checked_result_def Let_def)
  then have "accept_request wres preempted req c = Inr (False, ?c2)"
    by (simp add: accept_request_def new_incoming_def 1)
  moreover have "requests ?c2 ! q = requests c ! q"
    using assms(5) by (simp add: arrived_def cancel_request_def nth_append nth_update_in)
  ultimately show ?thesis by (simp add: arrived_def)
qed

text \<open>A connection that handles the call \<open>echo_request\<close>.\<close>

definition busy_conn :: conn where
  "busy_conn = upd_state (incoming_by_id_update (\<lambda>_. [(StringID ''a'', 0)])) (arrived echo_request (new_conn None False))"

lemma busy_conn_facts [simp]:
  "serving busy_conn" "conn_done busy_conn = False" "length (requests busy_conn) = 1"
  "incoming_by_id (state busy_conn) = [(StringID ''a'', 0)]" "incoming (state busy_conn) = 1"
  by (simp_all add: busy_conn_def arrived_def new_conn_def serving_def shutting_down_def empty_in_flight_def)

theorem duplicate_id_rejected_witness:
  "\<exists>c'. accept_request None None echo_request busy_conn = Inr (False, c') \<and> state c' = state busy_conn"
  using duplicate_id_rejected [of busy_conn echo_request 0 None None]
  by (auto simp: echo_request_def is_call_def id_is_valid_def)

text \<open>
  C18: \<open>Cancel\<close> with an ID cancels the context of the request in progress under that ID and
  of no other request, and does nothing when there is none.
\<close>

theorem cancel_exact:
  assumes "\<not> conn_done c" and "r < length (requests c)"
  shows "\<exists>c'. cancel i c = Inr ((), c')
    \<and> in_cancelled (requests c' ! r) = (in_cancelled (requests c ! r) \<or> map_of (incoming_by_id (state c)) i = Some r)
    \<and> handed_to_writer c' = handed_to_writer c"
  using assms
  by (cases "map_of (incoming_by_id (state c)) i")
     (auto simp: cancel_def update_in_flight_def cancel_request_def nth_update_in hand_to_writer_def)

theorem cancel_exact_witness:
  "\<exists>c'. cancel (StringID ''a'') busy_conn = Inr ((), c') \<and> in_cancelled (requests c' ! 0)"
  using cancel_exact [of busy_conn 0 "StringID ''a''"] by auto

text \<open>
  What \<open>Wait\<close> and \<open>Close\<close> return for a connection that is done. \<open>Close\<close> reports only
  the error of closing the stream. \<open>Wait\<close> reports the read error unless it is an end of
  file, else the write error unless it is an end of file, else the error of closing.
\<close>

theorem wait_reports:
  assumes "conn_done c" and "idle (state c)"
  shows "wait False c = Inr (close_err (state c), c)
    \<and> wait True c = Inr
       (if read_err (state c) \<noteq> None \<and> \<not> errors_is (the (read_err (state c))) EOF then read_err (state c)
        else if write_err (state c) \<noteq> None \<and> \<not> errors_is (the (write_err (state c))) EOF then write_err (state c)
        else close_err (state c), c)"
  using assms
  by (auto simp: wait_def update_in_flight_def wait_section_def Let_def is_eof_def split: option.splits)


theorem wait_reports_witness:
  "wait True ((new_conn None False)\<lparr>conn_done := True,
      state := empty_in_flight\<lparr>read_err := Some (ErrVar EOF), write_err := Some (Opaque ''w''), closer := False\<rparr>\<rparr>) =
    Inr (Some (Opaque ''w''), (new_conn None False)\<lparr>conn_done := True,
      state := empty_in_flight\<lparr>read_err := Some (ErrVar EOF), write_err := Some (Opaque ''w''), closer := False\<rparr>\<rparr>)"
  by (subst wait_reports [THEN conjunct2]) (simp_all add: empty_in_flight_def idle_def)

end
