(* ===== verification/Methods.thy ===== *)
theory Methods
  imports Prelude
begin

text \<open>
  The generated protocol tables: the method names and handler interfaces of
  acp/methods_gen.go, the cases of the two dispatch functions of acp/agent_gen.go and
  acp/client_gen.go, and the methods of \<open>Client\<close> and \<open>AgentConnection\<close>, each with the
  protocol method it calls or notifies and its Go types. A long block of the source is a
  table in parts.
\<close>

section \<open>Method names\<close>

datatype acp_method =
    MethodAuthStatus | MethodAuthStatusUpdate | MethodAuthenticate
  | MethodElicitationComplete | MethodElicitationCreate | MethodFsReadTextFile
  | MethodFsWriteTextFile | MethodInitialize | MethodLogout | MethodMcpMessage
  | MethodProvidersDisable | MethodProvidersList | MethodProvidersSet
  | MethodProxyInitialize | MethodProxySuccessor | MethodSessionArchive
  | MethodSessionCancel | MethodSessionClose | MethodSessionDelete | MethodSessionFork
  | MethodSessionList | MethodSessionLoad | MethodSessionNew | MethodSessionPrompt
  | MethodSessionRequestPermission | MethodSessionResume | MethodSessionSetConfigOption
  | MethodSessionSetMode | MethodSessionSetTitle | MethodSessionStatus
  | MethodSessionUnarchive | MethodSessionUpdate | MethodTerminalCreate
  | MethodTerminalKill | MethodTerminalOutput | MethodTerminalRelease
  | MethodTerminalWaitForExit

definition method_names_1 :: "(acp_method \<times> string) list" where
  "method_names_1 =
    [(MethodAuthStatus, ''auth/status''),
     (MethodAuthStatusUpdate, ''auth/status_update''),
     (MethodAuthenticate, ''authenticate''),
     (MethodElicitationComplete, ''elicitation/complete''),
     (MethodElicitationCreate, ''elicitation/create''),
     (MethodFsReadTextFile, ''fs/read_text_file''),
     (MethodFsWriteTextFile, ''fs/write_text_file''),
     (MethodInitialize, ''initialize''),
     (MethodLogout, ''logout''),
     (MethodMcpMessage, ''mcp/message''),
     (MethodProvidersDisable, ''providers/disable''),
     (MethodProvidersList, ''providers/list''),
     (MethodProvidersSet, ''providers/set''),
     (MethodProxyInitialize, ''proxy/initialize''),
     (MethodProxySuccessor, ''proxy/successor''),
     (MethodSessionArchive, ''session/archive''),
     (MethodSessionCancel, ''session/cancel''),
     (MethodSessionClose, ''session/close''),
     (MethodSessionDelete, ''session/delete''),
     (MethodSessionFork, ''session/fork'')]"

definition method_names_2 :: "(acp_method \<times> string) list" where
  "method_names_2 =
    [(MethodSessionList, ''session/list''),
     (MethodSessionLoad, ''session/load''),
     (MethodSessionNew, ''session/new''),
     (MethodSessionPrompt, ''session/prompt''),
     (MethodSessionRequestPermission, ''session/request_permission''),
     (MethodSessionResume, ''session/resume''),
     (MethodSessionSetConfigOption, ''session/set_config_option''),
     (MethodSessionSetMode, ''session/set_mode''),
     (MethodSessionSetTitle, ''session/set_title''),
     (MethodSessionStatus, ''session/status''),
     (MethodSessionUnarchive, ''session/unarchive''),
     (MethodSessionUpdate, ''session/update''),
     (MethodTerminalCreate, ''terminal/create''),
     (MethodTerminalKill, ''terminal/kill''),
     (MethodTerminalOutput, ''terminal/output'')]"

definition method_names_3 :: "(acp_method \<times> string) list" where
  "method_names_3 =
    [(MethodTerminalRelease, ''terminal/release''),
     (MethodTerminalWaitForExit, ''terminal/wait_for_exit'')]"

definition method_names :: "(acp_method \<times> string) list" where
  "method_names = method_names_1 @ method_names_2 @ method_names_3"

definition method_name :: "acp_method \<Rightarrow> string" where
  "method_name m = (case map_of method_names m of Some s \<Rightarrow> s | None \<Rightarrow> [])"

lemma method_name_cases [code]:
  "method_name MethodAuthStatus = ''auth/status''"
  "method_name MethodAuthStatusUpdate = ''auth/status_update''"
  "method_name MethodAuthenticate = ''authenticate''"
  "method_name MethodElicitationComplete = ''elicitation/complete''"
  "method_name MethodElicitationCreate = ''elicitation/create''"
  "method_name MethodFsReadTextFile = ''fs/read_text_file''"
  "method_name MethodFsWriteTextFile = ''fs/write_text_file''"
  "method_name MethodInitialize = ''initialize''"
  "method_name MethodLogout = ''logout''"
  "method_name MethodMcpMessage = ''mcp/message''"
  "method_name MethodProvidersDisable = ''providers/disable''"
  "method_name MethodProvidersList = ''providers/list''"
  "method_name MethodProvidersSet = ''providers/set''"
  "method_name MethodProxyInitialize = ''proxy/initialize''"
  "method_name MethodProxySuccessor = ''proxy/successor''"
  "method_name MethodSessionArchive = ''session/archive''"
  "method_name MethodSessionCancel = ''session/cancel''"
  "method_name MethodSessionClose = ''session/close''"
  "method_name MethodSessionDelete = ''session/delete''"
  "method_name MethodSessionFork = ''session/fork''"
  "method_name MethodSessionList = ''session/list''"
  "method_name MethodSessionLoad = ''session/load''"
  "method_name MethodSessionNew = ''session/new''"
  "method_name MethodSessionPrompt = ''session/prompt''"
  "method_name MethodSessionRequestPermission = ''session/request_permission''"
  "method_name MethodSessionResume = ''session/resume''"
  "method_name MethodSessionSetConfigOption = ''session/set_config_option''"
  "method_name MethodSessionSetMode = ''session/set_mode''"
  "method_name MethodSessionSetTitle = ''session/set_title''"
  "method_name MethodSessionStatus = ''session/status''"
  "method_name MethodSessionUnarchive = ''session/unarchive''"
  "method_name MethodSessionUpdate = ''session/update''"
  "method_name MethodTerminalCreate = ''terminal/create''"
  "method_name MethodTerminalKill = ''terminal/kill''"
  "method_name MethodTerminalOutput = ''terminal/output''"
  "method_name MethodTerminalRelease = ''terminal/release''"
  "method_name MethodTerminalWaitForExit = ''terminal/wait_for_exit''"
  unfolding method_name_def method_names_def method_names_1_def method_names_2_def method_names_3_def append.simps
  by (simp_all only: map_of.simps fun_upd_apply acp_method.distinct refl if_True if_False fst_conv snd_conv option.case)

section \<open>Handler interfaces\<close>

datatype handler_iface =
    AuthStatusHandler | AuthStatusUpdateHandler | AuthenticateHandler
  | ElicitationCompleteHandler | ElicitationCreateHandler | FsReadTextFileHandler
  | FsWriteTextFileHandler | InitializeHandler | LogoutHandler | McpMessageHandler
  | McpMessageNotificationHandler | ProvidersDisableHandler | ProvidersListHandler
  | ProvidersSetHandler | ProxyInitializeHandler | ProxySuccessorHandler
  | ProxySuccessorNotificationHandler | SessionArchiveHandler | SessionCancelHandler
  | SessionCloseHandler | SessionDeleteHandler | SessionForkHandler
  | SessionListHandler | SessionLoadHandler | SessionNewHandler | SessionPromptHandler
  | SessionRequestPermissionHandler | SessionResumeHandler
  | SessionSetConfigOptionHandler | SessionSetModeHandler | SessionSetTitleHandler
  | SessionStatusHandler | SessionUnarchiveHandler | SessionUpdateHandler
  | TerminalCreateHandler | TerminalKillHandler | TerminalOutputHandler
  | TerminalReleaseHandler | TerminalWaitForExitHandler

text \<open>The one method of each interface: the types of its parameter and, for a request, of its result.\<close>

datatype handler_sig = RequestSig string string | NotifySig string

definition interface_sigs_1 :: "(handler_iface \<times> handler_sig) list" where
  "interface_sigs_1 =
    [(AuthStatusHandler, RequestSig ''AuthStatusRequest'' ''AuthStatusResponse''),
     (AuthStatusUpdateHandler, NotifySig ''AuthStatusUpdateNotification''),
     (AuthenticateHandler, RequestSig ''AuthenticateRequest'' ''AuthenticateResponse''),
     (ElicitationCompleteHandler, NotifySig ''CompleteElicitationNotification''),
     (ElicitationCreateHandler, RequestSig ''CreateElicitationRequest'' ''CreateElicitationResponse''),
     (FsReadTextFileHandler, RequestSig ''ReadTextFileRequest'' ''ReadTextFileResponse''),
     (FsWriteTextFileHandler, RequestSig ''WriteTextFileRequest'' ''WriteTextFileResponse''),
     (InitializeHandler, RequestSig ''InitializeRequest'' ''InitializeResponse''),
     (LogoutHandler, RequestSig ''LogoutRequest'' ''LogoutResponse''),
     (McpMessageHandler, RequestSig ''MessageMcpRequest'' ''MessageMcpResponse''),
     (McpMessageNotificationHandler, NotifySig ''MessageMcpNotification''),
     (ProvidersDisableHandler, RequestSig ''DisableProviderRequest'' ''DisableProviderResponse''),
     (ProvidersListHandler, RequestSig ''ListProvidersRequest'' ''ListProvidersResponse'')]"

definition interface_sigs_2 :: "(handler_iface \<times> handler_sig) list" where
  "interface_sigs_2 =
    [(ProvidersSetHandler, RequestSig ''SetProviderRequest'' ''SetProviderResponse''),
     (ProxyInitializeHandler, RequestSig ''InitializeProxyRequest'' ''InitializeProxyResponse''),
     (ProxySuccessorHandler, RequestSig ''ProxySuccessorRequest'' ''ProxySuccessorResponse''),
     (ProxySuccessorNotificationHandler, NotifySig ''ProxySuccessorNotification''),
     (SessionArchiveHandler, RequestSig ''ArchiveSessionRequest'' ''ArchiveSessionResponse''),
     (SessionCancelHandler, NotifySig ''CancelNotification''),
     (SessionCloseHandler, RequestSig ''CloseSessionRequest'' ''CloseSessionResponse''),
     (SessionDeleteHandler, RequestSig ''DeleteSessionRequest'' ''DeleteSessionResponse''),
     (SessionForkHandler, RequestSig ''ForkSessionRequest'' ''ForkSessionResponse''),
     (SessionListHandler, RequestSig ''ListSessionsRequest'' ''ListSessionsResponse''),
     (SessionLoadHandler, RequestSig ''LoadSessionRequest'' ''LoadSessionResponse''),
     (SessionNewHandler, RequestSig ''NewSessionRequest'' ''NewSessionResponse'')]"

definition interface_sigs_3 :: "(handler_iface \<times> handler_sig) list" where
  "interface_sigs_3 =
    [(SessionPromptHandler, RequestSig ''PromptRequest'' ''PromptResponse''),
     (SessionRequestPermissionHandler, RequestSig ''RequestPermissionRequest'' ''RequestPermissionResponse''),
     (SessionResumeHandler, RequestSig ''ResumeSessionRequest'' ''ResumeSessionResponse''),
     (SessionSetConfigOptionHandler, RequestSig ''SetSessionConfigOptionRequest'' ''SetSessionConfigOptionResponse''),
     (SessionSetModeHandler, RequestSig ''SetSessionModeRequest'' ''SetSessionModeResponse''),
     (SessionSetTitleHandler, RequestSig ''SetSessionTitleRequest'' ''SetSessionTitleResponse''),
     (SessionStatusHandler, RequestSig ''SessionStatusRequest'' ''SessionStatusResponse''),
     (SessionUnarchiveHandler, RequestSig ''UnarchiveSessionRequest'' ''UnarchiveSessionResponse''),
     (SessionUpdateHandler, NotifySig ''SessionNotification''),
     (TerminalCreateHandler, RequestSig ''CreateTerminalRequest'' ''CreateTerminalResponse'')]"

definition interface_sigs_4 :: "(handler_iface \<times> handler_sig) list" where
  "interface_sigs_4 =
    [(TerminalKillHandler, RequestSig ''KillTerminalRequest'' ''KillTerminalResponse''),
     (TerminalOutputHandler, RequestSig ''TerminalOutputRequest'' ''TerminalOutputResponse''),
     (TerminalReleaseHandler, RequestSig ''ReleaseTerminalRequest'' ''ReleaseTerminalResponse''),
     (TerminalWaitForExitHandler, RequestSig ''WaitForTerminalExitRequest'' ''WaitForTerminalExitResponse'')]"

definition interface_sigs :: "(handler_iface \<times> handler_sig) list" where
  "interface_sigs = interface_sigs_1 @ interface_sigs_2 @ interface_sigs_3 @ interface_sigs_4"

definition sig_of :: "handler_iface \<Rightarrow> handler_sig option" where
  "sig_of = map_of interface_sigs"

lemma sig_of_cases [code]:
  "sig_of AuthStatusHandler = Some (RequestSig ''AuthStatusRequest'' ''AuthStatusResponse'')"
  "sig_of AuthStatusUpdateHandler = Some (NotifySig ''AuthStatusUpdateNotification'')"
  "sig_of AuthenticateHandler = Some (RequestSig ''AuthenticateRequest'' ''AuthenticateResponse'')"
  "sig_of ElicitationCompleteHandler = Some (NotifySig ''CompleteElicitationNotification'')"
  "sig_of ElicitationCreateHandler = Some (RequestSig ''CreateElicitationRequest'' ''CreateElicitationResponse'')"
  "sig_of FsReadTextFileHandler = Some (RequestSig ''ReadTextFileRequest'' ''ReadTextFileResponse'')"
  "sig_of FsWriteTextFileHandler = Some (RequestSig ''WriteTextFileRequest'' ''WriteTextFileResponse'')"
  "sig_of InitializeHandler = Some (RequestSig ''InitializeRequest'' ''InitializeResponse'')"
  "sig_of LogoutHandler = Some (RequestSig ''LogoutRequest'' ''LogoutResponse'')"
  "sig_of McpMessageHandler = Some (RequestSig ''MessageMcpRequest'' ''MessageMcpResponse'')"
  "sig_of McpMessageNotificationHandler = Some (NotifySig ''MessageMcpNotification'')"
  "sig_of ProvidersDisableHandler = Some (RequestSig ''DisableProviderRequest'' ''DisableProviderResponse'')"
  "sig_of ProvidersListHandler = Some (RequestSig ''ListProvidersRequest'' ''ListProvidersResponse'')"
  "sig_of ProvidersSetHandler = Some (RequestSig ''SetProviderRequest'' ''SetProviderResponse'')"
  "sig_of ProxyInitializeHandler = Some (RequestSig ''InitializeProxyRequest'' ''InitializeProxyResponse'')"
  "sig_of ProxySuccessorHandler = Some (RequestSig ''ProxySuccessorRequest'' ''ProxySuccessorResponse'')"
  "sig_of ProxySuccessorNotificationHandler = Some (NotifySig ''ProxySuccessorNotification'')"
  "sig_of SessionArchiveHandler = Some (RequestSig ''ArchiveSessionRequest'' ''ArchiveSessionResponse'')"
  "sig_of SessionCancelHandler = Some (NotifySig ''CancelNotification'')"
  "sig_of SessionCloseHandler = Some (RequestSig ''CloseSessionRequest'' ''CloseSessionResponse'')"
  "sig_of SessionDeleteHandler = Some (RequestSig ''DeleteSessionRequest'' ''DeleteSessionResponse'')"
  "sig_of SessionForkHandler = Some (RequestSig ''ForkSessionRequest'' ''ForkSessionResponse'')"
  "sig_of SessionListHandler = Some (RequestSig ''ListSessionsRequest'' ''ListSessionsResponse'')"
  "sig_of SessionLoadHandler = Some (RequestSig ''LoadSessionRequest'' ''LoadSessionResponse'')"
  "sig_of SessionNewHandler = Some (RequestSig ''NewSessionRequest'' ''NewSessionResponse'')"
  "sig_of SessionPromptHandler = Some (RequestSig ''PromptRequest'' ''PromptResponse'')"
  "sig_of SessionRequestPermissionHandler = Some (RequestSig ''RequestPermissionRequest'' ''RequestPermissionResponse'')"
  "sig_of SessionResumeHandler = Some (RequestSig ''ResumeSessionRequest'' ''ResumeSessionResponse'')"
  "sig_of SessionSetConfigOptionHandler = Some (RequestSig ''SetSessionConfigOptionRequest'' ''SetSessionConfigOptionResponse'')"
  "sig_of SessionSetModeHandler = Some (RequestSig ''SetSessionModeRequest'' ''SetSessionModeResponse'')"
  "sig_of SessionSetTitleHandler = Some (RequestSig ''SetSessionTitleRequest'' ''SetSessionTitleResponse'')"
  "sig_of SessionStatusHandler = Some (RequestSig ''SessionStatusRequest'' ''SessionStatusResponse'')"
  "sig_of SessionUnarchiveHandler = Some (RequestSig ''UnarchiveSessionRequest'' ''UnarchiveSessionResponse'')"
  "sig_of SessionUpdateHandler = Some (NotifySig ''SessionNotification'')"
  "sig_of TerminalCreateHandler = Some (RequestSig ''CreateTerminalRequest'' ''CreateTerminalResponse'')"
  "sig_of TerminalKillHandler = Some (RequestSig ''KillTerminalRequest'' ''KillTerminalResponse'')"
  "sig_of TerminalOutputHandler = Some (RequestSig ''TerminalOutputRequest'' ''TerminalOutputResponse'')"
  "sig_of TerminalReleaseHandler = Some (RequestSig ''ReleaseTerminalRequest'' ''ReleaseTerminalResponse'')"
  "sig_of TerminalWaitForExitHandler = Some (RequestSig ''WaitForTerminalExitRequest'' ''WaitForTerminalExitResponse'')"
  unfolding sig_of_def interface_sigs_def interface_sigs_1_def interface_sigs_2_def interface_sigs_3_def
    interface_sigs_4_def append.simps
  by (simp_all only: map_of.simps fun_upd_apply handler_iface.distinct refl if_True if_False fst_conv snd_conv)

section \<open>Dispatch tables\<close>

text \<open>
  A case of the switch: the interface the handler is asserted to be, the type the
  parameters are decoded as, and whether the result is returned (\<open>rpcResult\<close>) or nil. The
  argument says whether the request is a call.
\<close>

datatype route = RequestTo handler_iface string | NotifyTo handler_iface string

definition agent_cases_1 :: "(acp_method \<times> (bool \<Rightarrow> route)) list" where
  "agent_cases_1 =
    [(MethodAuthStatus, \<lambda>_. RequestTo AuthStatusHandler ''AuthStatusRequest''),
     (MethodAuthenticate, \<lambda>_. RequestTo AuthenticateHandler ''AuthenticateRequest''),
     (MethodInitialize, \<lambda>_. RequestTo InitializeHandler ''InitializeRequest''),
     (MethodLogout, \<lambda>_. RequestTo LogoutHandler ''LogoutRequest''),
     (MethodMcpMessage, \<lambda>_. NotifyTo McpMessageNotificationHandler ''MessageMcpNotification''),
     (MethodProvidersDisable, \<lambda>_. RequestTo ProvidersDisableHandler ''DisableProviderRequest''),
     (MethodProvidersList, \<lambda>_. RequestTo ProvidersListHandler ''ListProvidersRequest''),
     (MethodProvidersSet, \<lambda>_. RequestTo ProvidersSetHandler ''SetProviderRequest''),
     (MethodProxyInitialize, \<lambda>_. RequestTo ProxyInitializeHandler ''InitializeProxyRequest''),
     (MethodProxySuccessor, \<lambda>is_call.
       if is_call then RequestTo ProxySuccessorHandler ''ProxySuccessorRequest''
       else NotifyTo ProxySuccessorNotificationHandler ''ProxySuccessorNotification''),
     (MethodSessionArchive, \<lambda>_. RequestTo SessionArchiveHandler ''ArchiveSessionRequest''),
     (MethodSessionCancel, \<lambda>_. NotifyTo SessionCancelHandler ''CancelNotification''),
     (MethodSessionClose, \<lambda>_. RequestTo SessionCloseHandler ''CloseSessionRequest'')]"

definition agent_cases_2 :: "(acp_method \<times> (bool \<Rightarrow> route)) list" where
  "agent_cases_2 =
    [(MethodSessionDelete, \<lambda>_. RequestTo SessionDeleteHandler ''DeleteSessionRequest''),
     (MethodSessionFork, \<lambda>_. RequestTo SessionForkHandler ''ForkSessionRequest''),
     (MethodSessionList, \<lambda>_. RequestTo SessionListHandler ''ListSessionsRequest''),
     (MethodSessionLoad, \<lambda>_. RequestTo SessionLoadHandler ''LoadSessionRequest''),
     (MethodSessionNew, \<lambda>_. RequestTo SessionNewHandler ''NewSessionRequest''),
     (MethodSessionPrompt, \<lambda>_. RequestTo SessionPromptHandler ''PromptRequest''),
     (MethodSessionResume, \<lambda>_. RequestTo SessionResumeHandler ''ResumeSessionRequest''),
     (MethodSessionSetConfigOption, \<lambda>_. RequestTo SessionSetConfigOptionHandler ''SetSessionConfigOptionRequest''),
     (MethodSessionSetMode, \<lambda>_. RequestTo SessionSetModeHandler ''SetSessionModeRequest''),
     (MethodSessionSetTitle, \<lambda>_. RequestTo SessionSetTitleHandler ''SetSessionTitleRequest''),
     (MethodSessionStatus, \<lambda>_. RequestTo SessionStatusHandler ''SessionStatusRequest''),
     (MethodSessionUnarchive, \<lambda>_. RequestTo SessionUnarchiveHandler ''UnarchiveSessionRequest'')]"

definition agent_cases :: "(acp_method \<times> (bool \<Rightarrow> route)) list" where
  "agent_cases = agent_cases_1 @ agent_cases_2"

definition client_cases_1 :: "(acp_method \<times> (bool \<Rightarrow> route)) list" where
  "client_cases_1 =
    [(MethodAuthStatusUpdate, \<lambda>_. NotifyTo AuthStatusUpdateHandler ''AuthStatusUpdateNotification''),
     (MethodElicitationComplete, \<lambda>_. NotifyTo ElicitationCompleteHandler ''CompleteElicitationNotification''),
     (MethodElicitationCreate, \<lambda>_. RequestTo ElicitationCreateHandler ''CreateElicitationRequest''),
     (MethodFsReadTextFile, \<lambda>_. RequestTo FsReadTextFileHandler ''ReadTextFileRequest''),
     (MethodFsWriteTextFile, \<lambda>_. RequestTo FsWriteTextFileHandler ''WriteTextFileRequest''),
     (MethodMcpMessage, \<lambda>_. RequestTo McpMessageHandler ''MessageMcpRequest''),
     (MethodProxySuccessor, \<lambda>is_call.
       if is_call then RequestTo ProxySuccessorHandler ''ProxySuccessorRequest''
       else NotifyTo ProxySuccessorNotificationHandler ''ProxySuccessorNotification''),
     (MethodSessionRequestPermission, \<lambda>_. RequestTo SessionRequestPermissionHandler ''RequestPermissionRequest''),
     (MethodSessionUpdate, \<lambda>_. NotifyTo SessionUpdateHandler ''SessionNotification''),
     (MethodTerminalCreate, \<lambda>_. RequestTo TerminalCreateHandler ''CreateTerminalRequest''),
     (MethodTerminalKill, \<lambda>_. RequestTo TerminalKillHandler ''KillTerminalRequest''),
     (MethodTerminalOutput, \<lambda>_. RequestTo TerminalOutputHandler ''TerminalOutputRequest''),
     (MethodTerminalRelease, \<lambda>_. RequestTo TerminalReleaseHandler ''ReleaseTerminalRequest'')]"

definition client_cases_2 :: "(acp_method \<times> (bool \<Rightarrow> route)) list" where
  "client_cases_2 =
    [(MethodTerminalWaitForExit, \<lambda>_. RequestTo TerminalWaitForExitHandler ''WaitForTerminalExitRequest'')]"

definition client_cases :: "(acp_method \<times> (bool \<Rightarrow> route)) list" where
  "client_cases = client_cases_1 @ client_cases_2"

section \<open>Methods of the two connections\<close>

text \<open>\<open>call[R](ctx, conn, m, params)\<close> and \<open>notify(ctx, conn, m, params)\<close> with their Go types.\<close>

datatype outgoing_use = CallsMethod acp_method string string | NotifiesMethod acp_method string

definition client_methods_1 :: "(string \<times> outgoing_use) list" where
  "client_methods_1 =
    [(''AuthStatus'', CallsMethod MethodAuthStatus ''AuthStatusRequest'' ''AuthStatusResponse''),
     (''Authenticate'', CallsMethod MethodAuthenticate ''AuthenticateRequest'' ''AuthenticateResponse''),
     (''Initialize'', CallsMethod MethodInitialize ''InitializeRequest'' ''InitializeResponse''),
     (''Logout'', CallsMethod MethodLogout ''LogoutRequest'' ''LogoutResponse''),
     (''McpMessageNotification'', NotifiesMethod MethodMcpMessage ''MessageMcpNotification''),
     (''ProvidersDisable'', CallsMethod MethodProvidersDisable ''DisableProviderRequest'' ''DisableProviderResponse''),
     (''ProvidersList'', CallsMethod MethodProvidersList ''ListProvidersRequest'' ''ListProvidersResponse''),
     (''ProvidersSet'', CallsMethod MethodProvidersSet ''SetProviderRequest'' ''SetProviderResponse''),
     (''ProxyInitialize'', CallsMethod MethodProxyInitialize ''InitializeProxyRequest'' ''InitializeProxyResponse''),
     (''ProxySuccessor'', CallsMethod MethodProxySuccessor ''ProxySuccessorRequest'' ''ProxySuccessorResponse''),
     (''ProxySuccessorNotification'', NotifiesMethod MethodProxySuccessor ''ProxySuccessorNotification''),
     (''SessionArchive'', CallsMethod MethodSessionArchive ''ArchiveSessionRequest'' ''ArchiveSessionResponse''),
     (''SessionCancel'', NotifiesMethod MethodSessionCancel ''CancelNotification''),
     (''SessionClose'', CallsMethod MethodSessionClose ''CloseSessionRequest'' ''CloseSessionResponse'')]"

definition client_methods_2 :: "(string \<times> outgoing_use) list" where
  "client_methods_2 =
    [(''SessionDelete'', CallsMethod MethodSessionDelete ''DeleteSessionRequest'' ''DeleteSessionResponse''),
     (''SessionFork'', CallsMethod MethodSessionFork ''ForkSessionRequest'' ''ForkSessionResponse''),
     (''SessionList'', CallsMethod MethodSessionList ''ListSessionsRequest'' ''ListSessionsResponse''),
     (''SessionLoad'', CallsMethod MethodSessionLoad ''LoadSessionRequest'' ''LoadSessionResponse''),
     (''SessionNew'', CallsMethod MethodSessionNew ''NewSessionRequest'' ''NewSessionResponse''),
     (''SessionPrompt'', CallsMethod MethodSessionPrompt ''PromptRequest'' ''PromptResponse''),
     (''SessionResume'', CallsMethod MethodSessionResume ''ResumeSessionRequest'' ''ResumeSessionResponse''),
     (''SessionSetConfigOption'', CallsMethod MethodSessionSetConfigOption ''SetSessionConfigOptionRequest'' ''SetSessionConfigOptionResponse''),
     (''SessionSetMode'', CallsMethod MethodSessionSetMode ''SetSessionModeRequest'' ''SetSessionModeResponse''),
     (''SessionSetTitle'', CallsMethod MethodSessionSetTitle ''SetSessionTitleRequest'' ''SetSessionTitleResponse''),
     (''SessionStatus'', CallsMethod MethodSessionStatus ''SessionStatusRequest'' ''SessionStatusResponse''),
     (''SessionUnarchive'', CallsMethod MethodSessionUnarchive ''UnarchiveSessionRequest'' ''UnarchiveSessionResponse'')]"

definition client_methods :: "(string \<times> outgoing_use) list" where
  "client_methods = client_methods_1 @ client_methods_2"

definition agent_connection_methods_1 :: "(string \<times> outgoing_use) list" where
  "agent_connection_methods_1 =
    [(''AuthStatusUpdate'', NotifiesMethod MethodAuthStatusUpdate ''AuthStatusUpdateNotification''),
     (''ElicitationComplete'', NotifiesMethod MethodElicitationComplete ''CompleteElicitationNotification''),
     (''ElicitationCreate'', CallsMethod MethodElicitationCreate ''CreateElicitationRequest'' ''CreateElicitationResponse''),
     (''FsReadTextFile'', CallsMethod MethodFsReadTextFile ''ReadTextFileRequest'' ''ReadTextFileResponse''),
     (''FsWriteTextFile'', CallsMethod MethodFsWriteTextFile ''WriteTextFileRequest'' ''WriteTextFileResponse''),
     (''McpMessage'', CallsMethod MethodMcpMessage ''MessageMcpRequest'' ''MessageMcpResponse''),
     (''ProxySuccessor'', CallsMethod MethodProxySuccessor ''ProxySuccessorRequest'' ''ProxySuccessorResponse''),
     (''ProxySuccessorNotification'', NotifiesMethod MethodProxySuccessor ''ProxySuccessorNotification''),
     (''SessionRequestPermission'', CallsMethod MethodSessionRequestPermission ''RequestPermissionRequest'' ''RequestPermissionResponse''),
     (''SessionUpdate'', NotifiesMethod MethodSessionUpdate ''SessionNotification''),
     (''TerminalCreate'', CallsMethod MethodTerminalCreate ''CreateTerminalRequest'' ''CreateTerminalResponse''),
     (''TerminalKill'', CallsMethod MethodTerminalKill ''KillTerminalRequest'' ''KillTerminalResponse''),
     (''TerminalOutput'', CallsMethod MethodTerminalOutput ''TerminalOutputRequest'' ''TerminalOutputResponse'')]"

definition agent_connection_methods_2 :: "(string \<times> outgoing_use) list" where
  "agent_connection_methods_2 =
    [(''TerminalRelease'', CallsMethod MethodTerminalRelease ''ReleaseTerminalRequest'' ''ReleaseTerminalResponse''),
     (''TerminalWaitForExit'', CallsMethod MethodTerminalWaitForExit ''WaitForTerminalExitRequest'' ''WaitForTerminalExitResponse'')]"

definition agent_connection_methods :: "(string \<times> outgoing_use) list" where
  "agent_connection_methods = agent_connection_methods_1 @ agent_connection_methods_2"

section \<open>The tables agree\<close>

lemma method_names_distinct: "distinct (map fst method_names) \<and> distinct (map snd method_names)"
  by code_simp

definition lookup_case :: "(acp_method \<times> (bool \<Rightarrow> route)) list \<Rightarrow> string \<Rightarrow> bool \<Rightarrow> route option" where
  "lookup_case cases m is_call =
     map_option (\<lambda>f. f is_call) (map_of (map (\<lambda>(k, f). (method_name k, f)) cases) m)"

text \<open>A use of a method is served when the peer's case decodes the same parameter type and answers alike.\<close>

fun serves :: "(acp_method \<times> (bool \<Rightarrow> route)) list \<Rightarrow> outgoing_use \<Rightarrow> bool" where
  "serves cases (CallsMethod m p r) =
     (case lookup_case cases (method_name m) True of
        Some (RequestTo i p') \<Rightarrow> p' = p \<and> sig_of i = Some (RequestSig p r)
      | _ \<Rightarrow> False)"
| "serves cases (NotifiesMethod m p) =
     (case lookup_case cases (method_name m) False of
        Some (NotifyTo i p') \<Rightarrow> p' = p \<and> sig_of i = Some (NotifySig p)
      | _ \<Rightarrow> False)"

definition use_of_case :: "acp_method \<Rightarrow> route \<Rightarrow> outgoing_use" where
  "use_of_case m rt =
     (case rt of
        RequestTo i p \<Rightarrow> CallsMethod m p (case sig_of i of Some (RequestSig _ r) \<Rightarrow> r | _ \<Rightarrow> [])
      | NotifyTo i p \<Rightarrow> NotifiesMethod m p)"

text \<open>
  The two sides agree. Every method of \<open>Client\<close> is served by a case of the agent's
  dispatch that decodes the parameter type it sends and returns the result type it expects,
  and every method of \<open>AgentConnection\<close> by a case of the client's dispatch; and each case of
  either dispatch, for calls and notifications, is used by a method of the other side.
\<close>

theorem sides_agree:
  "list_all (serves agent_cases) (map snd client_methods)
   \<and> list_all (serves client_cases) (map snd agent_connection_methods)
   \<and> list_all (\<lambda>(m, f). use_of_case m (f True) \<in> set (map snd client_methods)
                        \<and> use_of_case m (f False) \<in> set (map snd client_methods)) agent_cases
   \<and> list_all (\<lambda>(m, f). use_of_case m (f True) \<in> set (map snd agent_connection_methods)
                        \<and> use_of_case m (f False) \<in> set (map snd agent_connection_methods)) client_cases"
  by code_simp

end
