(* ===== verification/Rpc.thy ===== *)
theory Rpc
  imports Methods Conn_Props
begin

text \<open>
  The ACP layer over a connection: acp/rpc.go, acp/json.go, acp/agent.go, acp/client.go, the
  dispatch functions of acp/agent_gen.go and acp/client_gen.go, and the extension methods
  and \<open>ExtensionMux\<close> of acp/extensions.go. A handler, an \<open>any\<close> in the code, is a record of
  what it does when asserted to an interface. The decoders of the parameter types
  (acp/types_gen.go, through encoding/json) are arguments.
\<close>

section \<open>JSON helpers\<close>

text \<open>\<open>bytes.TrimSpace\<close> on ASCII; no other white space is around a value of valid JSON.\<close>

definition go_space :: "char \<Rightarrow> bool" where
  "go_space c = (let k = (of_char c :: nat) in k = 32 \<or> (9 \<le> k \<and> k \<le> 13))"

definition trim_space :: "string \<Rightarrow> string" where
  "trim_space s = rev (dropWhile go_space (rev (dropWhile go_space s)))"

definition is_json_null :: "string \<Rightarrow> bool" where
  "is_json_null data = (trim_space data = ''null'')"

text \<open>
  \<open>unmarshalJSON\<close>: text that is not valid JSON goes to \<open>json.Unmarshal\<close> for its error; the
  decoder keeps numbers as \<open>json.Number\<close>.
\<close>

definition unmarshal_json :: "(string \<Rightarrow> go_error + 'v) \<Rightarrow> (string \<Rightarrow> go_error + 'v) \<Rightarrow> string \<Rightarrow> go_error + 'v" where
  "unmarshal_json std use_number data = (if \<not> json_valid data then std data else use_number data)"

text \<open>\<open>requireJSONProperties\<close>; \<open>unmarshal\<close> is the decoder into \<open>map[string]json.RawMessage\<close>.\<close>

definition field_text :: "(string \<times> string) list \<Rightarrow> string \<Rightarrow> string" where
  "field_text fs name = (case map_of fs name of None \<Rightarrow> [] | Some t \<Rightarrow> t)"

definition require_json_properties ::
  "(string \<Rightarrow> go_error + (string \<times> string) list) \<Rightarrow> string \<Rightarrow> string list \<Rightarrow> string list \<Rightarrow> go_error option" where
  "require_json_properties unmarshal data required non_null =
     (case unmarshal data of
        Inl e \<Rightarrow> Some e
      | Inr fs \<Rightarrow>
          (case find (\<lambda>n. field_text fs n = []) required of
             Some n \<Rightarrow> Some (Opaque (''missing required property '' @ go_q n))
           | None \<Rightarrow>
               (case find (\<lambda>n. is_json_null (field_text fs n)) non_null of
                  Some n \<Rightarrow> Some (Opaque (''property '' @ go_q n @ '' must not be null''))
                | None \<Rightarrow> None)))"

section \<open>Calls and notifications\<close>

text \<open>\<open>connectRPC\<close> and \<open>RunAgent\<close> give \<open>NewConnection\<close> neither a preempter nor \<open>OnInternalError\<close>.\<close>

definition connect_rpc :: "go_error + go_error option \<Rightarrow> go_error + conn" where
  "connect_rpc connected =
     (case connected of Inl e \<Rightarrow> Inl e | Inr close_res \<Rightarrow> Inr (new_conn close_res False))"

definition translate_call_error :: "string \<Rightarrow> go_error \<Rightarrow> go_error" where
  "translate_call_error m err =
     (if errors_is err ErrClientClosing \<or> errors_is err ErrServerClosing
      then errorf_w_v (ErrVar ErrConnectionClosed) (error_text err)
      else errorf_prefix (''calling '' @ go_q m) err)"

text \<open>\<open>call\<close> after \<open>Await\<close> has returned one of its outcomes, and \<open>notify\<close>.\<close>

definition call_outcome :: "string \<Rightarrow> go_error + 'r option \<Rightarrow> go_error + 'r option" where
  "call_outcome m awaited =
     (case awaited of Inl e \<Rightarrow> Inl (translate_call_error m e) | Inr v \<Rightarrow> Inr v)"

definition rpc_notify :: "bool \<Rightarrow> go_error option \<Rightarrow> string \<Rightarrow> go_value option \<Rightarrow> go_error option action" where
  "rpc_notify ctx_err wres m params =
     cbind (notify ctx_err wres m params) (\<lambda>err. cret (map_option (translate_call_error m) err))"

section \<open>Handlers and dispatch\<close>

text \<open>Decoders of the parameter types, by the name of the type: the zero value and \<open>unmarshalJSON\<close>.\<close>

record 'p codec =
  zero_params :: "string \<Rightarrow> 'p"
  unmarshal_params :: "string \<Rightarrow> string \<Rightarrow> go_error + 'p"

record 'p app_handler =
  request_method :: "handler_iface \<Rightarrow> ('p \<Rightarrow> go_value \<times> go_error option) option"
  notify_method :: "handler_iface \<Rightarrow> ('p \<Rightarrow> go_error option) option"
  extension_request :: "(string \<Rightarrow> string \<Rightarrow> string \<times> go_error option) option"
  extension_notification :: "(string \<Rightarrow> string \<Rightarrow> go_error option) option"

definition decode_params :: "'p \<Rightarrow> (string \<Rightarrow> go_error + 'p) \<Rightarrow> request \<Rightarrow> go_error + 'p" where
  "decode_params zero unmarshal req =
     (if req_params req = [] then Inr zero
      else
        (case unmarshal (req_params req) of
           Inl e \<Rightarrow> Inl (errorf_w_v (ErrVar ErrInvalidParams) (error_text e))
         | Inr p \<Rightarrow> Inr p))"

definition rpc_result :: "go_value \<times> go_error option \<Rightarrow> go_value option \<times> go_error option" where
  "rpc_result r = (case snd r of Some e \<Rightarrow> (None, Some e) | None \<Rightarrow> (Some (fst r), None))"

definition method_not_found :: "string \<Rightarrow> go_error" where
  "method_not_found m = errorf_w_v (ErrVar ErrMethodNotFound) m"

definition run_route ::
  "'p codec \<Rightarrow> 'p app_handler \<Rightarrow> request \<Rightarrow> route \<Rightarrow> go_value option \<times> go_error option" where
  "run_route cd h req rt =
     (case rt of
        RequestTo i ty \<Rightarrow>
          (case request_method h i of
             None \<Rightarrow> (None, Some (method_not_found (req_method req)))
           | Some f \<Rightarrow>
               (case decode_params (zero_params cd ty) (unmarshal_params cd ty) req of
                  Inl e \<Rightarrow> (None, Some e)
                | Inr p \<Rightarrow> rpc_result (f p)))
      | NotifyTo i ty \<Rightarrow>
          (case notify_method h i of
             None \<Rightarrow> (None, Some (method_not_found (req_method req)))
           | Some f \<Rightarrow>
               (case decode_params (zero_params cd ty) (unmarshal_params cd ty) req of
                  Inl e \<Rightarrow> (None, Some e)
                | Inr p \<Rightarrow> (None, f p))))"

text \<open>A \<open>json.RawMessage\<close> result, which \<open>NewResponse\<close> compacts.\<close>

definition raw_value :: "string \<Rightarrow> go_value" where
  "raw_value raw =
     (case json_compact raw of Some t \<Rightarrow> Inr t | None \<Rightarrow> Inl (Opaque ''invalid raw message''))"

definition handle_extension :: "'p app_handler \<Rightarrow> request \<Rightarrow> go_value option \<times> go_error option" where
  "handle_extension h req =
     (let m = req_method req in
      if \<not> has_prefix m ''_'' then (None, Some (method_not_found m))
      else if \<not> is_call req then
        (case extension_notification h of Some f \<Rightarrow> (None, f m (req_params req)) | None \<Rightarrow> (None, None))
      else
        (case extension_request h of
           None \<Rightarrow> (None, Some (method_not_found m))
         | Some f \<Rightarrow>
             (case f m (req_params req) of
                (result, Some e) \<Rightarrow> (None, Some e)
              | (result, None) \<Rightarrow>
                  if result = [] then (Some (raw_value ''null''), None)
                  else if \<not> json_valid result
                  then (None, Some (errorf_w_v (ErrVar ErrInternal)
                          (''extension '' @ go_q m @ '' returned invalid JSON'')))
                  else (Some (raw_value result), None))))"

definition handle_with ::
  "(acp_method \<times> (bool \<Rightarrow> route)) list \<Rightarrow> 'p codec \<Rightarrow> 'p app_handler \<Rightarrow> request
     \<Rightarrow> go_value option \<times> go_error option" where
  "handle_with cases cd h req =
     (case lookup_case cases (req_method req) (is_call req) of
        Some rt \<Rightarrow> run_route cd h req rt
      | None \<Rightarrow> handle_extension h req)"

definition handle_agent_request :: "'p codec \<Rightarrow> 'p app_handler \<Rightarrow> request \<Rightarrow> go_value option \<times> go_error option" where
  "handle_agent_request = handle_with agent_cases"

definition handle_client_request :: "'p codec \<Rightarrow> 'p app_handler \<Rightarrow> request \<Rightarrow> go_value option \<times> go_error option" where
  "handle_client_request = handle_with client_cases"

section \<open>Extension methods\<close>

definition validate_extension_method :: "string \<Rightarrow> go_error option" where
  "validate_extension_method m =
     (if has_prefix m ''_'' then None
      else Some (Opaque (''extension method '' @ go_q m @ '' must start with an underscore'')))"

definition notify_extension :: "bool \<Rightarrow> go_error option \<Rightarrow> string \<Rightarrow> go_value option \<Rightarrow> go_error option action" where
  "notify_extension ctx_err wres m params =
     (case validate_extension_method m of
        Some e \<Rightarrow> cret (Some e)
      | None \<Rightarrow> rpc_notify ctx_err wres m params)"

text \<open>\<open>callExtension\<close> up to the \<open>AsyncCall\<close>, and \<open>CallExtension[R]\<close> after its raw result came back.\<close>

definition call_extension :: "bool \<Rightarrow> go_error option \<Rightarrow> string \<Rightarrow> go_value option \<Rightarrow> (go_error + nat) action" where
  "call_extension ctx_err wres m params =
     (case validate_extension_method m of
        Some e \<Rightarrow> cret (Inl e)
      | None \<Rightarrow> cbind (call ctx_err wres m params) (\<lambda>a. cret (Inr a)))"

definition typed_extension_result ::
  "string \<Rightarrow> (string \<Rightarrow> go_error + 'r) \<Rightarrow> go_error + string \<Rightarrow> go_error + 'r" where
  "typed_extension_result m unmarshal raw =
     (case raw of
        Inl e \<Rightarrow> Inl e
      | Inr t \<Rightarrow>
          (case unmarshal t of
             Inl e \<Rightarrow> Inl (errorf_prefix (''decoding extension '' @ go_q m @ '' result'') e)
           | Inr r \<Rightarrow> Inr r))"

subsection \<open>ExtensionMux\<close>

type_synonym request_func = "string \<Rightarrow> string \<times> go_error option"
type_synonym notification_func = "string \<Rightarrow> go_error option"

record extension_mux =
  mux_requests :: "(string \<times> request_func) list"
  mux_notifications :: "(string \<times> notification_func) list"

definition new_extension_mux :: extension_mux where
  "new_extension_mux = \<lparr>mux_requests = [], mux_notifications = []\<rparr>"

text \<open>The closures that the two \<open>Add\<close> functions register for a typed handler.\<close>

definition raw_params :: "string \<Rightarrow> request" where
  "raw_params raw = \<lparr>req_id = NoID, req_method = [], req_params = raw\<rparr>"

definition request_closure ::
  "string \<Rightarrow> 'p \<Rightarrow> (string \<Rightarrow> go_error + 'p) \<Rightarrow> ('p \<Rightarrow> go_value \<times> go_error option) \<Rightarrow> request_func" where
  "request_closure m zero unmarshal handler raw =
     (case decode_params zero unmarshal (raw_params raw) of
        Inl e \<Rightarrow> ([], Some e)
      | Inr p \<Rightarrow>
          (case handler p of
             (result, Some e) \<Rightarrow> ([], Some e)
           | (Inl e, None) \<Rightarrow>
               ([], Some (errorf_w_v (ErrVar ErrInternal)
                      (''encoding extension '' @ go_q m @ '' result: '' @ error_text e)))
           | (Inr data, None) \<Rightarrow> (data, None)))"

definition notification_closure ::
  "'p \<Rightarrow> (string \<Rightarrow> go_error + 'p) \<Rightarrow> ('p \<Rightarrow> go_error option) \<Rightarrow> notification_func" where
  "notification_closure zero unmarshal handler raw =
     (case decode_params zero unmarshal (raw_params raw) of Inl e \<Rightarrow> Some e | Inr p \<Rightarrow> handler p)"

text \<open>A nil mux or a nil handler is \<open>None\<close>.\<close>

definition nil_error :: "string \<Rightarrow> go_error" where
  "nil_error m = Opaque (''extension '' @ go_q m @ '' requires a non-nil mux and handler'')"

definition add_extension_request ::
  "string \<Rightarrow> request_func option \<Rightarrow> extension_mux option \<Rightarrow> go_error + extension_mux" where
  "add_extension_request m handler mux =
     (case validate_extension_method m of
        Some e \<Rightarrow> Inl e
      | None \<Rightarrow>
          (case (mux, handler) of
             (Some x, Some f) \<Rightarrow>
               if map_of (mux_requests x) m \<noteq> None
               then Inl (Opaque (''extension request '' @ go_q m @ '' already registered''))
               else Inr (x\<lparr>mux_requests := AList.update m f (mux_requests x)\<rparr>)
           | _ \<Rightarrow> Inl (nil_error m)))"

definition add_extension_notification ::
  "string \<Rightarrow> notification_func option \<Rightarrow> extension_mux option \<Rightarrow> go_error + extension_mux" where
  "add_extension_notification m handler mux =
     (case validate_extension_method m of
        Some e \<Rightarrow> Inl e
      | None \<Rightarrow>
          (case (mux, handler) of
             (Some x, Some f) \<Rightarrow>
               if map_of (mux_notifications x) m \<noteq> None
               then Inl (Opaque (''extension notification '' @ go_q m @ '' already registered''))
               else Inr (x\<lparr>mux_notifications := AList.update m f (mux_notifications x)\<rparr>)
           | _ \<Rightarrow> Inl (nil_error m)))"

definition handle_extension_request :: "extension_mux option \<Rightarrow> string \<Rightarrow> string \<Rightarrow> string \<times> go_error option" where
  "handle_extension_request mux m params =
     (case mux of
        None \<Rightarrow> ([], Some (method_not_found m))
      | Some x \<Rightarrow>
          (case map_of (mux_requests x) m of
             None \<Rightarrow> ([], Some (method_not_found m))
           | Some f \<Rightarrow> f params))"

definition handle_extension_notification :: "extension_mux option \<Rightarrow> string \<Rightarrow> string \<Rightarrow> go_error option" where
  "handle_extension_notification mux m params =
     (case mux of
        None \<Rightarrow> None
      | Some x \<Rightarrow> (case map_of (mux_notifications x) m of None \<Rightarrow> None | Some f \<Rightarrow> f params))"

text \<open>A handler that embeds a mux.\<close>

definition with_mux :: "extension_mux option \<Rightarrow> 'p app_handler \<Rightarrow> 'p app_handler" where
  "with_mux mux h =
     h\<lparr>extension_request := Some (handle_extension_request mux),
       extension_notification := Some (handle_extension_notification mux)\<rparr>"

end
