(* ===== verification/Rpc_Props.thy ===== *)
theory Rpc_Props
  imports Rpc
begin

text \<open>
  The ACP layer is correct: dispatch keeps the handler contract of a connection for peers
  that use each method as the protocol says, what happens to the others, errors by class,
  and the extension mux as a registry.
\<close>

section \<open>The contract of a handler\<close>

text \<open>The request is of the kind its method's case expects.\<close>

definition matches_kind :: "(acp_method \<times> (bool \<Rightarrow> route)) list \<Rightarrow> request \<Rightarrow> bool" where
  "matches_kind cases req =
     (case lookup_case cases (req_method req) (is_call req) of
        None \<Rightarrow> True
      | Some (RequestTo i ty) \<Rightarrow> is_call req
      | Some (NotifyTo i ty) \<Rightarrow> \<not> is_call req)"

text \<open>Results that \<open>json.Marshal\<close> accepts.\<close>

definition marshals :: "'p app_handler \<Rightarrow> bool" where
  "marshals h = (\<forall>i f p v. request_method h i = Some f \<longrightarrow> f p = (v, None) \<longrightarrow> (\<exists>t. v = Inr t))"

definition keeps_contract :: "request \<Rightarrow> go_value option \<times> go_error option \<Rightarrow> bool" where
  "keeps_contract req res =
     (if is_call req then (fst res = None \<longleftrightarrow> snd res \<noteq> None) \<and> (\<forall>e. fst res \<noteq> Some (Inl e))
      else fst res = None)"

lemma raw_value_valid: "json_valid raw \<Longrightarrow> \<exists>t. raw_value raw = Inr t"
  by (auto simp: raw_value_def json_compact_def json_valid_def)

lemma null_valid: "json_valid ''null''"
  by code_simp

lemma rpc_result_contract:
  "rpc_result (f p) = (res, err) \<Longrightarrow> (\<And>v. f p = (v, None) \<Longrightarrow> \<exists>t. v = Inr t) \<Longrightarrow>
     (res = None \<longleftrightarrow> err \<noteq> None) \<and> (\<forall>e. res \<noteq> Some (Inl e))"
  by (cases "f p") (auto simp: rpc_result_def split: option.splits)

lemma run_route_contract:
  assumes "marshals h" and "case rt of RequestTo i ty \<Rightarrow> is_call req | NotifyTo i ty \<Rightarrow> \<not> is_call req"
  shows "keeps_contract req (run_route cd h req rt)"
proof (cases rt)
  case (RequestTo i ty)
  show ?thesis
  proof (cases "request_method h i")
    case None
    with RequestTo show ?thesis by (simp add: keeps_contract_def run_route_def)
  next
    case (Some f)
    show ?thesis
    proof (cases "decode_params (zero_params cd ty) (unmarshal_params cd ty) req")
      case (Inl e)
      with RequestTo Some show ?thesis by (simp add: keeps_contract_def run_route_def)
    next
      case (Inr p)
      obtain res err where r: "rpc_result (f p) = (res, err)" by fastforce
      have "(res = None \<longleftrightarrow> err \<noteq> None) \<and> (\<forall>e. res \<noteq> Some (Inl e))"
        using r by (rule rpc_result_contract) (use assms(1) Some in \<open>auto simp: marshals_def\<close>)
      with RequestTo Some Inr r assms(2) show ?thesis by (simp add: keeps_contract_def run_route_def)
    qed
  qed
next
  case (NotifyTo i ty)
  with assms(2) show ?thesis
    by (auto simp: keeps_contract_def run_route_def split: option.splits sum.splits)
qed

lemma handle_extension_contract: "keeps_contract req (handle_extension h req)"
proof (cases "has_prefix (req_method req) ''_'' \<and> is_call req")
  case False
  then show ?thesis
    by (auto simp: keeps_contract_def handle_extension_def Let_def split: option.splits)
next
  case True
  show ?thesis
  proof (cases "extension_request h")
    case None
    with True show ?thesis by (simp add: keeps_contract_def handle_extension_def Let_def)
  next
    case (Some f)
    obtain t err where r: "f (req_method req) (req_params req) = (t, err)" by fastforce
    from raw_value_valid [OF null_valid] obtain n where n: "raw_value ''null'' = Inr n" by blast
    show ?thesis
    proof (cases "err = None \<and> json_valid t")
      case True
      then obtain s where "raw_value t = Inr s" using raw_value_valid by blast
      with True \<open>_ \<and> is_call req\<close> Some r n show ?thesis
        by (simp add: keeps_contract_def handle_extension_def Let_def)
    next
      case False
      with \<open>_ \<and> is_call req\<close> Some r n show ?thesis
        by (auto simp: keeps_contract_def handle_extension_def Let_def split: option.splits)
    qed
  qed
qed

lemma handle_with_contract:
  assumes "marshals h" and "matches_kind cases req"
  shows "keeps_contract req (handle_with cases cd h req)"
proof (cases "lookup_case cases (req_method req) (is_call req)")
  case None
  then show ?thesis by (simp add: handle_with_def handle_extension_contract)
next
  case (Some rt)
  with assms(2) have "case rt of RequestTo i ty \<Rightarrow> is_call req | NotifyTo i ty \<Rightarrow> \<not> is_call req"
    by (simp add: matches_kind_def)
  with Some assms(1) show ?thesis by (simp add: handle_with_def run_route_contract)
qed

text \<open>
  C10: dispatch keeps the handler contract. When the peer uses every method of the protocol
  as the kind it is, calls as calls and notifications as notifications, and results can be
  marshalled, the agent's and the client's dispatch return for a call exactly one of a
  result and an error, and no result for a notification; extension methods, unknown
  methods and undecodable parameters included.
\<close>

theorem dispatch_keeps_contract:
  assumes "marshals h"
  shows "(matches_kind agent_cases req \<longrightarrow> keeps_contract req (handle_agent_request cd h req))
       \<and> (matches_kind client_cases req \<longrightarrow> keeps_contract req (handle_client_request cd h req))"
  using assms by (simp add: handle_agent_request_def handle_client_request_def handle_with_contract)

definition text_codec :: "string codec" where
  "text_codec = \<lparr>zero_params = (\<lambda>_. []), unmarshal_params = (\<lambda>_ t. Inr t)\<rparr>"

text \<open>An application that implements \<open>SessionNewHandler\<close> and \<open>SessionCancelHandler\<close>.\<close>

definition demo_app :: "string app_handler" where
  "demo_app =
     \<lparr>request_method = (\<lambda>i. if i = SessionNewHandler then Some (\<lambda>p. (Inr ''{}'', None)) else None),
      notify_method = (\<lambda>i. if i = SessionCancelHandler then Some (\<lambda>p. None) else None),
      extension_request = None, extension_notification = None\<rparr>"

lemma demo_app_marshals: "marshals demo_app"
  by (simp add: marshals_def demo_app_def)

theorem dispatch_keeps_contract_witness:
  "keeps_contract \<lparr>req_id = Int64ID 1, req_method = ''session/new'', req_params = ''{}''\<rparr>
     (handle_agent_request text_codec demo_app \<lparr>req_id = Int64ID 1, req_method = ''session/new'', req_params = ''{}''\<rparr>)"
proof -
  have "matches_kind agent_cases \<lparr>req_id = Int64ID 1, req_method = ''session/new'', req_params = ''{}''\<rparr>"
    by code_simp
  with dispatch_keeps_contract [OF demo_app_marshals] show ?thesis by blast
qed

section \<open>Methods used as the wrong kind\<close>

text \<open>What the case's handler gives when it is there, the parameters decode and it succeeds.\<close>

definition route_succeeds :: "'p codec \<Rightarrow> 'p app_handler \<Rightarrow> request \<Rightarrow> route \<Rightarrow> bool" where
  "route_succeeds cd h req rt = (snd (run_route cd h req rt) = None)"

lemma run_route_wrong_kind:
  assumes "route_succeeds cd h req rt"
    and "case rt of RequestTo i ty \<Rightarrow> \<not> is_call req | NotifyTo i ty \<Rightarrow> is_call req"
  shows "(\<not> is_call req \<and> (\<exists>v. run_route cd h req rt = (Some v, None))) \<or>
         (is_call req \<and> run_route cd h req rt = (None, None))"
  using assms
  by (cases rt) (auto simp: run_route_def route_succeeds_def rpc_result_def split: option.splits sum.splits)

text \<open>
  C11: a peer that sends a request method without an ID, or a notification method with one,
  crashes the process. The handler runs and succeeds, its result breaks the contract of the
  connection, and because neither \<open>RunAgent\<close> nor \<open>Connect\<close> sets \<open>OnInternalError\<close>,
  \<open>processResult\<close> panics.
\<close>

theorem wrong_kind_panics:
  assumes "connect_rpc (Inr close_res) = Inr c0" and "has_internal_hook c = has_internal_hook c0"
    and "lookup_case cases (req_method req) (is_call req) = Some rt"
    and "case rt of RequestTo i ty \<Rightarrow> \<not> is_call req | NotifyTo i ty \<Rightarrow> is_call req"
    and "route_succeeds cd h req rt" and "in_req (requests c ! r) = req"
  shows "\<exists>e. process_result wres r (fst (handle_with cases cd h req)) (snd (handle_with cases cd h req)) c
              = Inl (PanicInternal e)"
proof -
  have hook: "\<not> has_internal_hook c" using assms(1,2) by (auto simp: connect_rpc_def new_conn_def)
  have h: "handle_with cases cd h req = run_route cd h req rt" using assms(3) by (simp add: handle_with_def)
  have "\<exists>e. checked_result req (fst (run_route cd h req rt)) (snd (run_route cd h req rt)) c = Inl (PanicInternal e)"
    using run_route_wrong_kind [OF assms(5,4)] hook
    by (auto simp: checked_result_def Let_def unhandled_detail_def internal_errorf_def)
  then show ?thesis using assms(6) h by (auto simp: process_result_def Let_def)
qed

theorem wrong_kind_panics_witness:
  "\<exists>e. process_result None 0
         (fst (handle_with agent_cases text_codec demo_app \<lparr>req_id = NoID, req_method = ''session/new'', req_params = ''{}''\<rparr>))
         (snd (handle_with agent_cases text_codec demo_app \<lparr>req_id = NoID, req_method = ''session/new'', req_params = ''{}''\<rparr>))
         (arrived \<lparr>req_id = NoID, req_method = ''session/new'', req_params = ''{}''\<rparr> (new_conn None False))
       = Inl (PanicInternal e)"
proof -
  let ?req = "\<lparr>req_id = NoID, req_method = ''session/new'', req_params = ''{}''\<rparr>"
  let ?rt = "RequestTo SessionNewHandler ''NewSessionRequest''"
  have l: "lookup_case agent_cases (req_method ?req) (is_call ?req) = Some ?rt" by code_simp
  have s: "route_succeeds text_codec demo_app ?req ?rt" by code_simp
  have n: "\<not> is_call ?req" by code_simp
  let ?c = "arrived ?req (new_conn None False)"
  have c: "connect_rpc (Inr None) = Inr (new_conn None False)"
    "has_internal_hook ?c = has_internal_hook (new_conn None False)" "in_req (requests ?c ! 0) = ?req"
    by (simp_all add: connect_rpc_def arrived_def new_conn_def)
  have k: "case ?rt of RequestTo i ty \<Rightarrow> \<not> is_call ?req | NotifyTo i ty \<Rightarrow> is_call ?req" using n by simp
  show ?thesis by (rule wrong_kind_panics [OF c(1,2) l k s c(3)])
qed

section \<open>Errors by class\<close>

text \<open>
  A method without a case that is no extension method, and a method whose interface the
  handler does not implement, get an error that is \<open>ErrMethodNotFound\<close> and goes over the
  wire with code -32601; parameters that do not decode get code -32602. The handler is not
  run in any of these cases.
\<close>

theorem dispatch_error_codes:
  "(lookup_case cases (req_method req) (is_call req) = None \<and> \<not> has_prefix (req_method req) ''_''
      \<longrightarrow> fst (handle_with cases cd h req) = None
          \<and> map_option wcode (to_wire_error (snd (handle_with cases cd h req))) = Some (-32601))
   \<and> (lookup_case cases (req_method req) (is_call req) = Some (RequestTo i ty) \<and> request_method h i = None
      \<longrightarrow> fst (handle_with cases cd h req) = None
          \<and> map_option wcode (to_wire_error (snd (handle_with cases cd h req))) = Some (-32601))
   \<and> (lookup_case cases (req_method req) (is_call req) = Some (RequestTo i ty) \<and> request_method h i \<noteq> None
        \<and> req_params req \<noteq> [] \<and> unmarshal_params cd ty (req_params req) = Inl e
      \<longrightarrow> fst (handle_with cases cd h req) = None
          \<and> map_option wcode (to_wire_error (snd (handle_with cases cd h req))) = Some (-32602))"
  by (auto simp: handle_with_def handle_extension_def Let_def run_route_def decode_params_def
      method_not_found_def errorf_w_v_def to_wire_error_def new_error_def)

theorem dispatch_error_codes_witness:
  "map_option wcode (to_wire_error (snd (handle_with agent_cases text_codec demo_app
     \<lparr>req_id = Int64ID 1, req_method = ''session/old'', req_params = ''{}''\<rparr>))) = Some (-32601)"
proof -
  let ?req = "\<lparr>req_id = Int64ID 1, req_method = ''session/old'', req_params = ''{}''\<rparr>"
  have "lookup_case agent_cases (req_method ?req) (is_call ?req) = None \<and> \<not> has_prefix (req_method ?req) ''_''"
    by code_simp
  with dispatch_error_codes [of agent_cases ?req text_codec demo_app] show ?thesis by blast
qed

text \<open>
  The error of a failed call is \<open>ErrConnectionClosed\<close> exactly when the connection was
  closing on either side or the error already was; any other error keeps its class, so
  \<open>errors.Is\<close> sees the error of the peer or of the context through it.
\<close>

theorem translate_call_error_class:
  "(errors_is e ErrClientClosing \<or> errors_is e ErrServerClosing
      \<longrightarrow> errors_is (translate_call_error m e) t = (t = ErrConnectionClosed))
   \<and> (\<not> errors_is e ErrClientClosing \<and> \<not> errors_is e ErrServerClosing
      \<longrightarrow> errors_is (translate_call_error m e) t = errors_is e t)"
  by (auto simp: translate_call_error_def simp del: errors_is.simps)

theorem translate_call_error_class_witness:
  "errors_is (translate_call_error ''session/new'' (ErrVar ErrServerClosing)) ErrConnectionClosed
   \<and> errors_is (translate_call_error ''session/new'' (ErrVar Canceled)) Canceled"
  using translate_call_error_class [of "ErrVar ErrServerClosing" "''session/new''" ErrConnectionClosed]
    translate_call_error_class [of "ErrVar Canceled" "''session/new''" Canceled]
  by (simp del: errors_is.simps)

section \<open>Extensions\<close>

text \<open>
  A call of an extension method is answered with an error or with valid JSON: a handler
  that returns no bytes answers \<open>null\<close>, and one that returns bytes that are not JSON answers
  with an internal error instead.
\<close>

theorem extension_result_valid:
  assumes "is_call req" and "has_prefix (req_method req) ''_''" and "extension_request h = Some f"
    and "f (req_method req) (req_params req) = (t, None)"
  shows "handle_extension h req =
    (if t = [] then (Some (Inr ''null''), None)
     else if json_valid t then (Some (Inr (the (json_compact t))), None)
     else (None, Some (errorf_w_v (ErrVar ErrInternal)
             (''extension '' @ go_q (req_method req) @ '' returned invalid JSON''))))"
proof -
  have "raw_value ''null'' = Inr ''null''" by code_simp
  with assms show ?thesis
    by (auto simp: handle_extension_def Let_def raw_value_def json_compact_def json_valid_def)
qed

theorem extension_result_valid_witness:
  "handle_extension (demo_app\<lparr>extension_request := Some (\<lambda>m p. (''{ }'', None))\<rparr>)
     \<lparr>req_id = Int64ID 1, req_method = ''_x'', req_params = []\<rparr> = (Some (Inr ''{}''), None)"
proof -
  have "is_call \<lparr>req_id = Int64ID 1, req_method = ''_x'', req_params = []\<rparr>" "json_valid ''{ }''"
    "the (json_compact ''{ }'') = ''{}''" "has_prefix ''_x'' ''_''"
    by code_simp+
  then show ?thesis
    by (subst extension_result_valid [where f = "\<lambda>m p. (''{ }'', None)" and t = "''{ }''"]) simp_all
qed

text \<open>The two tables of a mux are registries.\<close>

abbreviation extension_name :: "string \<Rightarrow> bool" where
  "extension_name m \<equiv> has_prefix m ''_''"

interpretation mux_req: registry "\<lambda>m f x. add_extension_request m (Some f) (Some x)"
  "\<lambda>x. map_of (mux_requests x)" extension_name
  by unfold_locales
     (auto simp: add_extension_request_def validate_extension_method_def update_conv' split: if_splits)

interpretation mux_note: registry "\<lambda>m f x. add_extension_notification m (Some f) (Some x)"
  "\<lambda>x. map_of (mux_notifications x)" extension_name
  by unfold_locales
     (auto simp: add_extension_notification_def validate_extension_method_def update_conv' split: if_splits)

text \<open>
  Registering a list of request handlers on a new mux succeeds exactly when the names
  are different and each starts with an underscore; then a request for one of the names
  runs its handler on the raw parameters, and a request for any other name is answered
  with \<open>ErrMethodNotFound\<close>.
\<close>

theorem mux_requests_routed:
  "(\<exists>x. add_all (\<lambda>m f x. add_extension_request m (Some f) (Some x)) ms new_extension_mux = Inr x)
      = (distinct (map fst ms) \<and> (\<forall>m \<in> fst ` set ms. extension_name m))
   \<and> (add_all (\<lambda>m f x. add_extension_request m (Some f) (Some x)) ms new_extension_mux = Inr x
      \<longrightarrow> handle_extension_request (Some x) k params =
            (case map_of ms k of Some f \<Rightarrow> f params | None \<Rightarrow> ([], Some (method_not_found k))))"
  using mux_req.add_all_ok_iff [of ms new_extension_mux] mux_req.add_all_found [of ms new_extension_mux x k]
  by (auto simp: new_extension_mux_def handle_extension_request_def split: option.splits)

theorem mux_requests_routed_witness:
  "\<exists>x. add_all (\<lambda>m f x. add_extension_request m (Some f) (Some x)) [(''_a'', \<lambda>p. (p, None))] new_extension_mux = Inr x
     \<and> handle_extension_request (Some x) ''_a'' ''1'' = (''1'', None)"
proof -
  have "distinct (map fst [(''_a'', \<lambda>p. (p, None))]) \<and> extension_name ''_a''"
    by (simp add: has_prefix_def)
  with mux_requests_routed [of "[(''_a'', \<lambda>p. (p, None))]"] show ?thesis by fastforce
qed

text \<open>
  Requests and notifications of a mux are independent: registering a handler of one kind
  leaves what is found for the other kind, and one name may have both.
\<close>

theorem mux_kinds_independent:
  "(add_extension_request m (Some f) (Some x) = Inr x'
      \<longrightarrow> handle_extension_notification (Some x') k p = handle_extension_notification (Some x) k p)
   \<and> (add_extension_notification m (Some g) (Some x) = Inr x'
      \<longrightarrow> handle_extension_request (Some x') k p = handle_extension_request (Some x) k p)"
  by (auto simp: add_extension_request_def add_extension_notification_def handle_extension_request_def
      handle_extension_notification_def split: option.splits if_splits)

theorem mux_kinds_independent_witness:
  "\<exists>x x'. add_extension_request ''_a'' (Some (\<lambda>p. (p, None))) (Some new_extension_mux) = Inr x
     \<and> add_extension_notification ''_a'' (Some (\<lambda>p. None)) (Some x) = Inr x'
     \<and> handle_extension_request (Some x') ''_a'' ''1'' = (''1'', None)"
proof -
  let ?x = "\<lparr>mux_requests = [(''_a'', \<lambda>p. (p, None))], mux_notifications = []\<rparr>"
  let ?y = "\<lparr>mux_requests = [(''_a'', \<lambda>p. (p, None))], mux_notifications = [(''_a'', \<lambda>p. None)]\<rparr>"
  have 1: "add_extension_request ''_a'' (Some (\<lambda>p. (p, None))) (Some new_extension_mux) = Inr ?x"
    and 2: "add_extension_notification ''_a'' (Some (\<lambda>p. None)) (Some ?x) = Inr ?y"
    by (simp_all add: add_extension_request_def add_extension_notification_def validate_extension_method_def
        has_prefix_def new_extension_mux_def)
  have "handle_extension_request (Some ?x) ''_a'' ''1'' = (''1'', None)"
    by (simp add: handle_extension_request_def)
  with mux_kinds_independent [of _ _ ?x ?y] 1 2 show ?thesis by metis
qed

end
