(* ===== verification/Transport.thy ===== *)
theory Transport
  imports Messages
begin

text \<open>
  acp/transport.go and acp/cmd.go: the line-framed connection over a byte stream, its reader
  goroutine, \<open>Read\<close>, \<open>Write\<close> and \<open>Close\<close>, the transports that make one, and the
  termination of a subprocess. What the streams, the context and the process do are
  arguments.
\<close>

section \<open>The reader goroutine\<close>

text \<open>\<open>ReadBytes('\n')\<close>: the line with its line feed and what follows, or the rest of the stream.\<close>

fun read_line :: "string \<Rightarrow> string \<times> string option" where
  "read_line [] = ([], None)"
| "read_line (c # s) =
     (if c = CHR 0x0A then ([c], Some s)
      else (case read_line s of (l, r) \<Rightarrow> (c # l, r)))"

lemma read_line_shorter: "read_line s = (l, Some r) \<Longrightarrow> length r < length s"
  by (induction s arbitrary: l) (auto split: if_splits prod.splits)

definition trim_right_crlf :: "string \<Rightarrow> string" where
  "trim_right_crlf s = rev (dropWhile (\<lambda>c. c = CHR 0x0D \<or> c = CHR 0x0A) (rev s))"

text \<open>
  What the goroutine offers on the channel, in order, for a stream that ends with the error
  \<open>err\<close>: every line decoded, then the error.
\<close>

function reader_outputs :: "(string \<Rightarrow> go_error + 'm) \<Rightarrow> go_error \<Rightarrow> string \<Rightarrow> (go_error + 'm) list" where
  "reader_outputs decode err s =
     (case read_line s of
        (l, Some r) \<Rightarrow> decode (trim_right_crlf l) # reader_outputs decode err r
      | (l, None) \<Rightarrow> (if l = [] then [] else [decode (trim_right_crlf l)]) @ [Inl err])"
  by pat_completeness auto
termination
  by (relation "measure (\<lambda>(decode, err, s). length s)") (auto dest!: read_line_shorter [OF sym])

declare reader_outputs.simps [simp del]

section \<open>ioConn\<close>

text \<open>
  \<open>io_pending\<close>: what the reader goroutine still has to offer. \<open>io_written\<close>: the bytes given
  to the stream. \<open>io_rwc_close\<close> is what \<open>rwc.Close\<close> returns and \<open>io_close_calls\<close> how often it
  was called.
\<close>

record io_conn =
  io_pending :: "(go_error + message) list"
  io_written :: string
  io_closed :: bool
  io_close_err :: "go_error option"
  io_rwc_close :: "go_error option"
  io_close_calls :: nat

definition new_io_conn ::
  "(string \<Rightarrow> go_error + message) \<Rightarrow> string \<Rightarrow> go_error \<Rightarrow> go_error option \<Rightarrow> io_conn" where
  "new_io_conn decode stream err close_res =
     \<lparr>io_pending = reader_outputs decode err stream, io_written = [], io_closed = False,
      io_close_err = None, io_rwc_close = close_res, io_close_calls = 0\<rparr>"

text \<open>\<open>Read\<close>: the outcomes \<open>select\<close> may pick from, none while it blocks.\<close>

definition io_read :: "go_error option \<Rightarrow> io_conn \<Rightarrow> ((go_error + message) \<times> io_conn) list" where
  "io_read ctx_err c =
     (case ctx_err of Some e \<Rightarrow> [(Inl e, c)] | None \<Rightarrow> []) @
     (case io_pending c of v # vs \<Rightarrow> [(v, c\<lparr>io_pending := vs\<rparr>)] | [] \<Rightarrow> []) @
     (if io_closed c then [(Inl (ErrVar EOF), c)] else [])"

definition io_write :: "go_error option \<Rightarrow> go_error option \<Rightarrow> message \<Rightarrow> io_conn \<Rightarrow> go_error option \<times> io_conn" where
  "io_write ctx_err wres msg c =
     (case ctx_err of
        Some e \<Rightarrow> (Some e, c)
      | None \<Rightarrow>
          (case encode_message msg of
             Inl e \<Rightarrow> (Some (errorf_prefix ''marshaling message'' e), c)
           | Inr data \<Rightarrow> (wres, c\<lparr>io_written := io_written c @ data @ [CHR 0x0A]\<rparr>)))"

definition io_close :: "io_conn \<Rightarrow> go_error option \<times> io_conn" where
  "io_close c =
     (let c' = (if io_closed c then c
                else c\<lparr>io_close_err := io_rwc_close c, io_closed := True,
                       io_close_calls := io_close_calls c + 1\<rparr>)
      in (io_close_err c', c'))"

text \<open>\<open>rwc.Close\<close> closes both streams.\<close>

definition rwc_close :: "go_error option \<Rightarrow> go_error option \<Rightarrow> go_error option" where
  "rwc_close rc_close wc_close = errors_join rc_close wc_close"

text \<open>
  \<open>Connect\<close> of \<open>IOTransport\<close>: a stream is what it yields, how it ends and what its \<open>Close\<close>
  returns; \<open>None\<close> is a nil stream. \<open>StdioTransport\<close> never closes standard output.
\<close>

definition io_transport_connect ::
  "(string \<Rightarrow> go_error + message) \<Rightarrow> (string \<times> go_error \<times> go_error option) option
     \<Rightarrow> go_error option option \<Rightarrow> go_error + io_conn" where
  "io_transport_connect decode reader writer =
     (case reader of
        None \<Rightarrow> Inl (Opaque ''nil reader'')
      | Some (stream, err, rc_close) \<Rightarrow>
          (case writer of
             None \<Rightarrow> Inl (Opaque ''nil writer'')
           | Some wc_close \<Rightarrow> Inr (new_io_conn decode stream err (rwc_close rc_close wc_close))))"

definition stdio_transport_connect ::
  "(string \<Rightarrow> go_error + message) \<Rightarrow> string \<Rightarrow> go_error \<Rightarrow> go_error option \<Rightarrow> io_conn" where
  "stdio_transport_connect decode stream err stdin_close =
     new_io_conn decode stream err (rwc_close stdin_close None)"

section \<open>A subprocess\<close>

text \<open>
  \<open>pipeRWC.Close\<close>. A wait gives the result of \<open>cmd.Wait\<close>, or \<open>None\<close> when the time is up; the
  three waits, the signal and the kill are arguments. The second component records what was
  done, in order.
\<close>

datatype cmd_action = CloseStdin | AwaitExit | SendTerm | SendKill

definition pipe_close ::
  "go_error option \<Rightarrow> go_error option option \<Rightarrow> go_error option \<Rightarrow> go_error option option
     \<Rightarrow> go_error option \<Rightarrow> go_error option option \<Rightarrow> go_error option \<times> cmd_action list" where
  "pipe_close stdin_close wait1 term wait2 kill wait3 =
     (case stdin_close of
        Some e \<Rightarrow> (Some (errorf_prefix ''closing stdin'' e), [CloseStdin])
      | None \<Rightarrow>
          (case wait1 of
             Some res \<Rightarrow> (res, [CloseStdin, AwaitExit])
           | None \<Rightarrow>
               (let waited = (term = None);
                    acts = [CloseStdin, AwaitExit, SendTerm] @ (if waited then [AwaitExit] else [])
                in case (if waited then wait2 else None) of
                     Some res \<Rightarrow> (res, acts)
                   | None \<Rightarrow>
                       (case kill of
                          Some e \<Rightarrow> (Some e, acts @ [SendKill])
                        | None \<Rightarrow>
                            (case wait3 of
                               Some res \<Rightarrow> (res, acts @ [SendKill, AwaitExit])
                             | None \<Rightarrow> (Some (Opaque ''unresponsive subprocess''),
                                        acts @ [SendKill, AwaitExit]))))))"

text \<open>
  \<open>CommandTransport.Connect\<close>: nil command, the two pipes, \<open>Start\<close>, then the connection; the
  duration is in nanoseconds.
\<close>

definition default_terminate_duration :: int where
  "default_terminate_duration = 5 * 10 ^ 9"

definition command_connect ::
  "bool \<Rightarrow> go_error option \<Rightarrow> go_error option \<Rightarrow> go_error option \<Rightarrow> int \<Rightarrow> go_error + int" where
  "command_connect has_command stdout_err stdin_err start_err duration =
     (if \<not> has_command then Inl (Opaque ''nil command'')
      else
        (case stdout_err of
           Some e \<Rightarrow> Inl e
         | None \<Rightarrow>
             (case stdin_err of
                Some e \<Rightarrow> Inl e
              | None \<Rightarrow>
                  (case start_err of
                     Some e \<Rightarrow> Inl e
                   | None \<Rightarrow> Inr (if duration \<le> 0 then default_terminate_duration else duration)))))"

section \<open>Interface: one message per line\<close>

locale line_codec =
  fixes enc :: "'m \<Rightarrow> 'e + string"
    and dec :: "string \<Rightarrow> go_error + 'm"
    and seen :: "'m \<Rightarrow> 'm"
    and ok :: "'m \<Rightarrow> bool"
  assumes enc_dec: "ok m \<Longrightarrow> \<exists>t. enc m = Inr t \<and> dec t = Inr (seen m)"
    and enc_line: "enc m = Inr t \<Longrightarrow> CHR 0x0A \<notin> set t \<and> CHR 0x0D \<notin> set t"

text \<open>What a list of messages is on the stream.\<close>

fun frames :: "('m \<Rightarrow> 'e + string) \<Rightarrow> 'm list \<Rightarrow> string" where
  "frames enc [] = []"
| "frames enc (m # ms) = (case enc m of Inl e \<Rightarrow> [] | Inr t \<Rightarrow> t @ [CHR 0x0A]) @ frames enc ms"

lemma read_line_append:
  "CHR 0x0A \<notin> set t \<Longrightarrow> read_line (t @ CHR 0x0A # s) = (t @ [CHR 0x0A], Some s)"
  by (induction t) auto

lemma read_line_tail: "CHR 0x0A \<notin> set t \<Longrightarrow> read_line t = (t, None)"
  by (induction t) auto

lemma trim_right_clean:
  "CHR 0x0A \<notin> set t \<Longrightarrow> CHR 0x0D \<notin> set t \<Longrightarrow> trim_right_crlf (t @ [CHR 0x0A]) = t"
  "CHR 0x0A \<notin> set t \<Longrightarrow> CHR 0x0D \<notin> set t \<Longrightarrow> trim_right_crlf (t @ [CHR 0x0D, CHR 0x0A]) = t"
proof -
  assume "CHR 0x0A \<notin> set t" "CHR 0x0D \<notin> set t"
  then have "dropWhile (\<lambda>c. c = CHR 0x0D \<or> c = CHR 0x0A) (rev t) = rev t"
    by (cases t rule: rev_cases) auto
  then show "trim_right_crlf (t @ [CHR 0x0A]) = t" "trim_right_crlf (t @ [CHR 0x0D, CHR 0x0A]) = t"
    by (simp_all add: trim_right_crlf_def)
qed

lemma reader_outputs_line:
  "CHR 0x0A \<notin> set l \<Longrightarrow>
     reader_outputs decode err (l @ CHR 0x0A # s) = decode (trim_right_crlf (l @ [CHR 0x0A])) # reader_outputs decode err s"
  by (subst reader_outputs.simps) (simp add: read_line_append)

lemma reader_outputs_end [simp]: "reader_outputs decode err [] = [Inl err]"
  by (subst reader_outputs.simps) simp

context line_codec
begin

lemma read_back:
  "\<forall>m \<in> set ms. ok m \<Longrightarrow>
     reader_outputs dec err (frames enc ms @ rest) = map (\<lambda>m. Inr (seen m)) ms @ reader_outputs dec err rest"
proof (induction ms)
  case Nil
  then show ?case by simp
next
  case (Cons m ms)
  from Cons.prems enc_dec obtain t where t: "enc m = Inr t" "dec t = Inr (seen m)" by fastforce
  from enc_line [OF t(1)] have "CHR 0x0A \<notin> set t" "CHR 0x0D \<notin> set t" by auto
  with Cons t show ?case by (simp add: reader_outputs_line trim_right_clean)
qed

end

lemma wire_line_codec:
  assumes "decodes_wire unmarshal"
  shows "line_codec encode_message (decode_message unmarshal) on_wire wf_message"
  by unfold_locales (use assms decode_encode_message encode_message_line in blast)+

interpretation ref_wire: line_codec encode_message "decode_message ref_unmarshal" on_wire wf_message
  by (rule wire_line_codec [OF decodes_wire_ref])


section \<open>Properties\<close>

fun write_all :: "message list \<Rightarrow> io_conn \<Rightarrow> io_conn" where
  "write_all [] c = c"
| "write_all (m # ms) c = write_all ms (snd (io_write None None m c))"

lemma write_all_frames: "io_written (write_all ms c) = io_written c @ frames encode_message ms"
  by (induction ms arbitrary: c) (auto simp: io_write_def split: sum.splits)


text \<open>A request and a response on one stream.\<close>

definition demo_messages :: "message list" where
  "demo_messages =
     [MsgRequest \<lparr>req_id = Int64ID 1, req_method = ''session/new'', req_params = ''{}''\<rparr>,
      MsgResponse \<lparr>resp_id = StringID ''a'', resp_result = [], resp_error = Some (ErrVar ErrMethodNotFound)\<rparr>]"

lemma demo_messages_wf: "\<forall>m \<in> set demo_messages. wf_message m"
proof -
  have "json_compact ''{}'' = Some ''{}''" by code_simp
  then show ?thesis
    by (simp add: demo_messages_def wf_message_def compact_raw_def id_is_valid_def to_wire_error_def new_error_def)
qed


text \<open>
  The framing takes lines apart one by one: a line ended by a carriage return and a line
  feed is decoded as the one ended by a line feed alone, and a line that does not decode
  costs one error, after which the lines that follow are read as if it had not been there.
\<close>

theorem lines_independent:
  assumes "CHR 0x0A \<notin> set l" and "CHR 0x0D \<notin> set l"
  shows "reader_outputs decode err (l @ [CHR 0x0A] @ s) = decode l # reader_outputs decode err s
    \<and> reader_outputs decode err (l @ [CHR 0x0D, CHR 0x0A] @ s) = decode l # reader_outputs decode err s"
  using assms reader_outputs_line [of l decode err s] reader_outputs_line [of "l @ [CHR 0x0D]" decode err s]
  by (simp add: trim_right_clean)

theorem lines_independent_witness:
  "reader_outputs (decode_message ref_unmarshal) (ErrVar EOF) (''x'' @ [CHR 0x0D, CHR 0x0A] @ []) =
     [decode_message ref_unmarshal ''x'', Inl (ErrVar EOF)]"
  by (subst lines_independent [THEN conjunct2]) simp_all

text \<open>
  Closing a connection is idempotent: however often \<open>Close\<close> is called, the stream is
  closed once, every call returns the same error, and a later \<open>Read\<close> whose context is not
  done can always return, with an end of file.
\<close>

theorem io_close_idempotent:
  assumes "c = new_io_conn decode s err close_res" and "0 < n"
  shows "fst (io_close (((snd \<circ> io_close) ^^ n) c)) = close_res
    \<and> io_close_calls (((snd \<circ> io_close) ^^ n) c) = 1
    \<and> (Inl (ErrVar EOF), ((snd \<circ> io_close) ^^ n) c) \<in> set (io_read None (((snd \<circ> io_close) ^^ n) c))"
proof -
  have "((snd \<circ> io_close) ^^ n) c = c\<lparr>io_close_err := close_res, io_closed := True, io_close_calls := 1\<rparr>"
    using assms(2)
  proof (induction n rule: nat_induct_non_zero)
    case 1
    then show ?case by (simp add: assms(1) io_close_def new_io_conn_def)
  next
    case (Suc n)
    then show ?case by (simp add: io_close_def)
  qed
  then show ?thesis by (simp add: io_close_def io_read_def)
qed

theorem io_close_idempotent_witness:
  "io_close_calls (snd (io_close (snd (io_close (new_io_conn (decode_message ref_unmarshal) [] (ErrVar EOF) None))))) = 1"
  using io_close_idempotent [OF refl, of 2 "decode_message ref_unmarshal" "[]" "ErrVar EOF" None]
  by (simp add: numeral_2_eq_2)

text \<open>
  A subprocess is asked to stop in steps, each only when the one before has not ended it:
  its input is closed, after a first wait it gets a signal, after a second it is killed. It
  is killed exactly when its input closed, it did not exit in the first wait, and it could
  not be signalled or did not exit in the second; the error it exited with is returned
  whenever it exits in time.
\<close>

theorem pipe_close_escalates:
  "(SendTerm \<in> set (snd (pipe_close stdin_close wait1 term wait2 kill wait3))) =
      (stdin_close = None \<and> wait1 = None)
   \<and> (SendKill \<in> set (snd (pipe_close stdin_close wait1 term wait2 kill wait3))) =
      (stdin_close = None \<and> wait1 = None \<and> \<not> (term = None \<and> wait2 \<noteq> None))
   \<and> length (filter (\<lambda>a. a = AwaitExit) (snd (pipe_close stdin_close wait1 term wait2 kill wait3))) \<le> 3
   \<and> hd (snd (pipe_close stdin_close wait1 term wait2 kill wait3)) = CloseStdin
   \<and> fst (pipe_close None (Some res) term wait2 kill wait3) = res
   \<and> fst (pipe_close None None None (Some res) kill wait3) = res
   \<and> fst (pipe_close None None (Some e) wait2 None (Some res)) = res"
  by (auto simp: pipe_close_def Let_def split: option.splits)

end
