(* ===== verification/Wire_Props.thy ===== *)
theory Wire_Props
  imports Messages
begin

text \<open>
  What the wire form of messages, identifiers and errors keeps of them, and what it loses.
\<close>


definition ping :: request where
  "ping = \<lparr>req_id = Int64ID 7, req_method = ''session/new'', req_params = ''{}''\<rparr>"


text \<open>
  An encoded message is never empty and holds no line feed and no carriage return,
  whatever its method, parameters and error text, so one message is one line.
\<close>

theorem message_is_one_line:
  assumes "encode_message m = Inr t"
  shows "t \<noteq> [] \<and> CHR 0x0A \<notin> set t \<and> CHR 0x0D \<notin> set t"
  using encode_message_line [OF assms] by blast

theorem message_is_one_line_witness:
  "\<exists>t. encode_message (MsgRequest \<lparr>req_id = NoID, req_method = [CHR 0x0A], req_params = []\<rparr>) = Inr t
     \<and> CHR 0x0A \<notin> set t"
proof -
  have "raw_parts_ok (MsgRequest \<lparr>req_id = NoID, req_method = [CHR 0x0A], req_params = []\<rparr>)"
    by (simp add: raw_parts_ok_def compact_raw_def)
  then obtain t where "encode_message (MsgRequest \<lparr>req_id = NoID, req_method = [CHR 0x0A], req_params = []\<rparr>) = Inr t"
    by (rule encode_back)
  with message_is_one_line show ?thesis by blast
qed

lemma bit_len_2_53_Suc: "bit_len (2 ^ 53 + 1) = 54"
  by (simp add: bit_len.simps)

lemma make_id_2_53_Suc: "make_id (AnyFloat (float_of_int (2 ^ 53 + 1))) = Inr (Int64ID (2 ^ 53))"
proof -
  have "float_of_int (2 ^ 53 + 1) = Float64 (2 ^ 52) 1"
    using bit_len_2_53_Suc by (simp add: float_of_int_def Let_def)
  then show ?thesis by (simp add: float_to_int64_def)
qed



text \<open>
  C17: the class of an error survives the wire: for an error that wraps at most one error at
  each step, \<open>errors.Is\<close> with a standard JSON-RPC error holds of what the peer receives
  exactly when it held of the error that was sent, and the text is the same.
\<close>

theorem error_class_survives:
  assumes "linear_error e" and "errvar_wire t = Some w'" and "to_wire_error (Some e) = Some w"
  shows "errors_is (WirePtr w) t = errors_is e t \<and> wmessage w = error_text e"
proof -
  have "errors_is (WirePtr w) t = (wcode w = wcode w')" using assms(2) by (simp add: wire_error_is_def)
  moreover have "(wcode w = wcode w') = (\<exists>w0. errors_as_wire e = Some w0 \<and> wcode w0 = wcode w')"
    using assms(3) errvar_code_nonzero [OF assms(2)]
    by (auto simp: to_wire_error_def errors_as_wire_type split: option.splits)
  ultimately show ?thesis
    using errors_is_linear_wire [OF assms(1,2)] to_wire_error_text [OF assms(3)] by simp
qed

theorem error_class_survives_witness:
  "\<exists>w. to_wire_error (Some (errorf_w_v (ErrVar ErrMethodNotFound) ''x'')) = Some w
     \<and> errors_is (WirePtr w) ErrMethodNotFound"
proof -
  let ?e = "errorf_w_v (ErrVar ErrMethodNotFound) ''x''"
  have "to_wire_error (Some ?e) \<noteq> None" by (simp only: to_wire_error_None) simp
  then obtain w where w: "to_wire_error (Some ?e) = Some w" by blast
  have "linear_error ?e" "errvar_wire ErrMethodNotFound = Some (new_error (-32601) ''method not found'')"
    by (simp_all add: errorf_w_v_def)
  from error_class_survives [OF this w] w show ?thesis by auto
qed

end
