(* ===== verification/Names.thy ===== *)
theory Names
  imports Prelude "HOL-Library.Char_ord" "HOL-Library.List_Lexorder"
begin

text \<open>
  How the schema generator names things in Go: identifiers made of schema names
  (internal/schemagen/typegen/const.go), and the suffixing that makes them unique
  (\<open>uniqueConstName\<close> there and \<open>uniqueName\<close> of rpcgen/model.go, the two interpretations of
  \<open>fresh_namer\<close>). Schema names are ASCII text, so that a character is a rune; the \<open>used\<close> map of
  the code, whose values are all true, is the list of its keys.
\<close>

section \<open>Characters\<close>

definition is_upper :: "char \<Rightarrow> bool" where
  [go_strings]: "is_upper c = (65 \<le> (of_char c :: nat) \<and> (of_char c :: nat) \<le> 90)"

definition is_lower :: "char \<Rightarrow> bool" where
  [go_strings]: "is_lower c = (97 \<le> (of_char c :: nat) \<and> (of_char c :: nat) \<le> 122)"

definition is_letter :: "char \<Rightarrow> bool" where
  "is_letter c = (is_upper c \<or> is_lower c)"

definition to_upper :: "char \<Rightarrow> char" where
  [go_strings]: "to_upper c = (if is_lower c then char_of ((of_char c :: nat) - 32) else c)"

definition to_lower :: "char \<Rightarrow> char" where
  [go_strings]: "to_lower c = (if is_upper c then char_of ((of_char c :: nat) + 32) else c)"

lemma is_upper_to_upper: "is_upper (to_upper c) = is_letter c"
  by (auto simp: to_upper_def is_upper_def is_lower_def is_letter_def)

lemma not_lower_to_upper [simp]: "\<not> is_lower (to_upper c)"
  by (auto simp: to_upper_def is_lower_def)

lemma is_digit_to_upper [simp]: "is_digit (to_upper c) = is_digit c"
  by (auto simp: to_upper_def is_digit_def is_lower_def)

lemma is_digit_to_lower [simp]: "is_digit (to_lower c) = is_digit c"
  by (auto simp: to_lower_def is_digit_def is_upper_def)

lemma is_letter_to_upper [simp]: "is_letter (to_upper c) = is_letter c"
  by (auto simp: to_upper_def is_letter_def is_lower_def is_upper_def)

text \<open>Characters are compared and classified by their bits when a term is evaluated.\<close>

lemma lexordp_bool: "ord_class.lexordp (a # xs) (b # ys) = (if a = b then ord_class.lexordp xs ys else (b::bool))"
  by (cases a; cases b) simp_all

lemma less_char_bits [code]:
  "Char a0 a1 a2 a3 a4 a5 a6 a7 < Char b0 b1 b2 b3 b4 b5 b6 b7 \<longleftrightarrow>
     (if a7 = b7 then if a6 = b6 then if a5 = b5 then if a4 = b4 then if a3 = b3 then if a2 = b2 then if a1 = b1
      then if a0 = b0 then False else b0 else b1 else b2 else b3 else b4 else b5 else b6 else b7)"
  by (simp only: less_char_simp lexordp_bool lexordp_simps)

lemma less_eq_char_bits [code]: "c \<le> d \<longleftrightarrow> c = d \<or> c < (d::char)"
  by auto

lemma is_digit_bits [code]:
  "is_digit (Char b0 b1 b2 b3 b4 b5 b6 b7) = (\<not> b7 \<and> \<not> b6 \<and> b5 \<and> b4 \<and> \<not> (b3 \<and> (b2 \<or> b1)))"
  by (cases b7; cases b6; cases b5; cases b4; cases b3; cases b2; cases b1; cases b0) (simp_all add: is_digit_def)

lemma is_upper_bits [code]:
  "is_upper (Char b0 b1 b2 b3 b4 b5 b6 b7) =
     (\<not> b7 \<and> b6 \<and> \<not> b5 \<and> (b4 \<or> b3 \<or> b2 \<or> b1 \<or> b0) \<and> \<not> (b4 \<and> b3 \<and> (b2 \<or> b1 \<and> b0)))"
  by (cases b7; cases b6; cases b5; cases b4; cases b3; cases b2; cases b1; cases b0) (simp_all add: is_upper_def)

lemma is_lower_bits [code]:
  "is_lower (Char b0 b1 b2 b3 b4 b5 b6 b7) =
     (\<not> b7 \<and> b6 \<and> b5 \<and> (b4 \<or> b3 \<or> b2 \<or> b1 \<or> b0) \<and> \<not> (b4 \<and> b3 \<and> (b2 \<or> b1 \<and> b0)))"
  by (cases b7; cases b6; cases b5; cases b4; cases b3; cases b2; cases b1; cases b0) (simp_all add: is_lower_def)

lemma to_upper_bits [code]:
  "to_upper (Char b0 b1 b2 b3 b4 b5 b6 b7) =
     (if is_lower (Char b0 b1 b2 b3 b4 b5 b6 b7) then Char b0 b1 b2 b3 b4 False b6 b7
      else Char b0 b1 b2 b3 b4 b5 b6 b7)"
proof (cases "is_lower (Char b0 b1 b2 b3 b4 b5 b6 b7)")
  case True
  then have "b5 = True" by (simp add: is_lower_bits)
  then have "of_char (Char b0 b1 b2 b3 b4 b5 b6 b7) = of_char (Char b0 b1 b2 b3 b4 False b6 b7) + (32::nat)"
    by simp
  then have "of_char (Char b0 b1 b2 b3 b4 b5 b6 b7) - (32::nat) = of_char (Char b0 b1 b2 b3 b4 False b6 b7)"
    by (simp only: add_diff_cancel_right')
  with True show ?thesis by (simp only: to_upper_def if_True char_of_char)
next
  case False
  then show ?thesis by (simp only: to_upper_def if_False)
qed

section \<open>Unique names\<close>

text \<open>
  The loop over the suffixes 2, 3, ... of both functions. Every candidate it passes is a used
  name with a larger suffix, and there are finitely many of those.
\<close>

definition taken :: "string \<Rightarrow> string list \<Rightarrow> nat \<Rightarrow> nat set" where
  "taken name used k = {j. k \<le> j \<and> name @ show_nat j \<in> set used}"

lemma finite_taken: "finite (taken name used k)"
proof -
  have "inj_on (\<lambda>j. name @ show_nat j) (taken name used k)"
    by (auto intro!: inj_onI dest: show_nat_inj)
  moreover have "(\<lambda>j. name @ show_nat j) ` taken name used k \<subseteq> set used"
    by (auto simp: taken_def)
  ultimately show ?thesis
    using finite_subset [OF _ finite_set] finite_imageD by blast
qed

lemma taken_Suc:
  assumes "name @ show_nat k \<in> set used"
  shows "taken name used (Suc k) = taken name used k - {k}" "k \<in> taken name used k"
  using assms by (auto simp: taken_def)

lemma card_taken_Suc:
  "name @ show_nat k \<in> set used \<Longrightarrow> card (taken name used (Suc k)) < card (taken name used k)"
  by (simp add: taken_Suc(1) card_Diff1_less [OF finite_taken taken_Suc(2)] del: card_Diff_insert card_Diff_singleton)

function suffixed :: "string \<Rightarrow> string list \<Rightarrow> nat \<Rightarrow> string" where
  "suffixed name used suffix =
     (if name @ show_nat suffix \<in> set used then suffixed name used (Suc suffix)
      else name @ show_nat suffix)"
  by pat_completeness auto
termination
proof (relation "measure (\<lambda>(name, used, k). card (taken name used k))", goal_cases)
  case 1
  then show ?case by simp
next
  case (2 name used k)
  then show ?case
    by (simp add: card_taken_Suc)
qed

declare suffixed.simps [simp del]

definition unique_const_name :: "string \<Rightarrow> string list \<Rightarrow> string \<times> string list" where
  "unique_const_name name used =
     (if name \<notin> set used then (name, name # used)
      else let candidate = suffixed name used 2 in (candidate, candidate # used))"

text \<open>The same loop, entered with the name itself as the first candidate.\<close>

function unique_from :: "string \<Rightarrow> string list \<Rightarrow> string \<Rightarrow> nat \<Rightarrow> string" where
  "unique_from name used candidate suffix =
     (if candidate \<in> set used then unique_from name used (name @ show_nat suffix) (Suc suffix)
      else candidate)"
  by pat_completeness auto
termination
proof (relation "measures [\<lambda>(name, used, c, k). card (taken name used k),
    \<lambda>(name, used, c, k). if c \<in> set used \<and> name @ show_nat k \<notin> set used then 1 else 0]", goal_cases)
  case 1
  then show ?case by simp
next
  case (2 name used c k)
  show ?case
  proof (cases "name @ show_nat k \<in> set used")
    case True
    then show ?thesis by (simp add: card_taken_Suc)
  next
    case False
    then have "taken name used (Suc k) = taken name used k"
      by (auto simp: taken_def not_less_eq_eq) (metis le_antisym not_less_eq_eq)
    with 2 False show ?thesis by simp
  qed
qed

declare unique_from.simps [simp del]

definition unique_name :: "string \<Rightarrow> string list \<Rightarrow> string \<times> string list" where
  "unique_name name used = (let candidate = unique_from name used name 2 in (candidate, candidate # used))"

lemma suffixed_fresh: "suffixed name used k \<notin> set used"
  by (induction name used k rule: suffixed.induct) (subst suffixed.simps, simp)

lemma suffixed_form: "\<exists>j \<ge> k. suffixed name used k = name @ show_nat j"
proof (induction name used k rule: suffixed.induct)
  case (1 name used k)
  then show ?case by (subst suffixed.simps) (auto dest: Suc_leD)
qed

lemma unique_from_suffixed: "unique_from name used (name @ show_nat k) (Suc k) = suffixed name used k"
proof (induction name used k rule: suffixed.induct)
  case (1 name used k)
  then show ?case by (subst suffixed.simps, subst unique_from.simps) simp
qed

lemma unique_name_eq: "unique_name = unique_const_name"
proof (intro ext)
  fix name used
  have "unique_from name used (name @ show_nat 2) 3 = suffixed name used 2"
    using unique_from_suffixed [of name used 2] by simp
  then show "unique_name name used = unique_const_name name used"
    unfolding unique_name_def unique_const_name_def by (subst unique_from.simps) simp
qed

interpretation const_namer: fresh_namer unique_const_name
  by unfold_locales (auto simp: unique_const_name_def Let_def suffixed_fresh)

interpretation rpc_namer: fresh_namer unique_name
  unfolding unique_name_eq by (rule const_namer.fresh_namer_axioms)

section \<open>Identifiers of schema names\<close>

definition upper_first :: "string \<Rightarrow> string" where
  "upper_first value = (case value of [] \<Rightarrow> [] | c # cs \<Rightarrow> to_upper c # cs)"

text \<open>The loop of \<open>PascalIdentifier\<close>: the words of the rest of the text, given the word begun.\<close>

fun pascal_words :: "string \<Rightarrow> string \<Rightarrow> string list" where
  "pascal_words [] word = (if word \<noteq> [] then [word] else [])"
| "pascal_words (r # rs) word =
     (if is_letter r \<or> is_digit r then pascal_words rs (word @ [r])
      else if word \<noteq> [] then word # pascal_words rs []
      else pascal_words rs [])"

definition pascal_identifier :: "string \<Rightarrow> string" where
  "pascal_identifier value = concat (map upper_first (pascal_words value []))"

definition lower_camel :: "string \<Rightarrow> string" where
  "lower_camel value =
     (case value of
        [] \<Rightarrow> []
      | c # cs \<Rightarrow> if value = map to_upper value then map to_lower value else to_lower c # cs)"

definition lower_first_sentence :: "string \<Rightarrow> string" where
  "lower_first_sentence value = (case value of [] \<Rightarrow> [] | c # cs \<Rightarrow> to_lower c # cs)"

definition field_name :: "string \<Rightarrow> string" where
  "field_name json_name =
     (if json_name = ''_meta'' then ''Meta''
      else if json_name = ''id'' then ''ID''
      else if json_name = ''uri'' then ''URI''
      else let name = pascal_identifier json_name in
           if has_suffix name ''Id'' then trim_suffix name ''Id'' @ ''ID'' else name)"

definition go_keywords :: "string list" where
  "go_keywords =
    [''break'', ''default'', ''func'', ''interface'', ''select'',
     ''case'', ''defer'', ''go'', ''map'', ''struct'',
     ''chan'', ''else'', ''goto'', ''package'', ''switch'',
     ''const'', ''fallthrough'', ''if'', ''range'', ''type'',
     ''continue'', ''for'', ''import'', ''return'', ''var'']"

definition parameter_name :: "string \<Rightarrow> string" where
  "parameter_name json_name =
     (let name = lower_camel (field_name json_name) in
      if name \<in> set go_keywords then name @ ''_'' else name)"

definition json_tag :: "string \<Rightarrow> bool \<Rightarrow> bool \<Rightarrow> string" where
  "json_tag name omitempty omitzero =
     name @ (if omitempty then '',omitempty'' else []) @ (if omitzero then '',omitzero'' else [])"

section \<open>Maps from schema names to Go names\<close>

text \<open>
  The loop the three functions share: each raw name is given the wanted name, made unique,
  and stored in the map. A raw name that comes twice keeps its last name.
\<close>

fun name_map :: "(string \<Rightarrow> string) \<Rightarrow> string list \<Rightarrow> string list \<Rightarrow> (string \<rightharpoonup> string) \<Rightarrow> (string \<rightharpoonup> string)" where
  "name_map wanted [] used names = names"
| "name_map wanted (r # rs) used names =
     (case unique_const_name (wanted r) used of
        (name, used') \<Rightarrow> name_map wanted rs used' (names(r \<mapsto> name)))"

definition wanted_field :: "string \<Rightarrow> string" where
  "wanted_field json_name = (let name = field_name json_name in if name = [] then ''Field'' else name)"

definition wanted_parameter :: "string \<Rightarrow> string" where
  "wanted_parameter json_name = (let name = parameter_name json_name in if name = [] then ''field'' else name)"

definition wanted_definition :: "string \<Rightarrow> string" where
  "wanted_definition raw = (let name = pascal_identifier raw in if name = [] then ''Definition'' else name)"

definition unique_field_names_with_reserved :: "string list \<Rightarrow> string list \<Rightarrow> (string \<rightharpoonup> string)" where
  "unique_field_names_with_reserved json_names reserved =
     name_map wanted_field json_names (filter (\<lambda>n. n \<noteq> []) reserved) Map.empty"

definition unique_parameter_names :: "string list \<Rightarrow> (string \<rightharpoonup> string)" where
  "unique_parameter_names json_names = name_map wanted_parameter json_names [] Map.empty"

text \<open>\<open>DefinitionNames\<close> reads only the names of the definitions, in byte order (\<open>sort.Strings\<close>).\<close>

definition definition_names :: "string list \<Rightarrow> (string \<rightharpoonup> string)" where
  "definition_names raw_names = name_map wanted_definition (sort raw_names) [] Map.empty"

lemma name_map_zip:
  "name_map wanted rs used names = names ++ map_of (rev (zip rs (name_all unique_const_name (map wanted rs) used)))"
proof (induction rs arbitrary: used names)
  case Nil
  then show ?case by simp
next
  case (Cons r rs)
  then show ?case by (simp add: map_add_def split: prod.splits option.splits) (auto simp: map_add_def fun_eq_iff split: option.splits)
qed

lemma name_all_form:
  "m \<in> set (name_all unique_const_name ns used) \<Longrightarrow> \<exists>n \<in> set ns. m = n \<or> (\<exists>j. m = n @ show_nat j)"
proof (induction ns arbitrary: used)
  case Nil
  then show ?case by simp
next
  case (Cons n ns)
  have "fst (unique_const_name n used) = n \<or> (\<exists>j. fst (unique_const_name n used) = n @ show_nat j)"
    using suffixed_form [of 2 n used] by (auto simp: unique_const_name_def Let_def)
  with Cons show ?case
    by (cases "unique_const_name n used") auto
qed

lemma name_map_names:
  assumes "names = name_map wanted rs used Map.empty"
  shows "dom names = set rs"
    and "inj_on names (dom names)"
    and "ran names \<inter> set used = {}"
    and "v \<in> ran names \<Longrightarrow> \<exists>r \<in> set rs. v = wanted r \<or> (\<exists>j. v = wanted r @ show_nat j)"
proof -
  let ?ns = "name_all unique_const_name (map wanted rs) used"
  have len: "length ?ns = length rs"
    by (simp add: const_namer.name_all_length)
  have names: "names = map_of (rev (zip rs ?ns))"
    using assms by (simp add: name_map_zip)
  have in_zip: "names r = Some v \<Longrightarrow> (r, v) \<in> set (zip rs ?ns)" for r v
    unfolding names by (auto dest: map_of_SomeD)
  have in_ns: "v \<in> ran names \<Longrightarrow> v \<in> set ?ns" for v
    by (auto simp: ran_def dest!: in_zip dest: set_zip_rightD)
  show "dom names = set rs"
    unfolding names using len by (simp add: dom_map_of_conv_image_fst image_set map_fst_zip del: set_map flip: set_map)
  show "inj_on names (dom names)"
  proof (rule inj_onI)
    fix x y assume "x \<in> dom names" "names x = names y"
    then obtain v where "names x = Some v" "names y = Some v" by (metis domD)
    then obtain i j where ij: "i < length rs" "j < length rs" "rs ! i = x" "rs ! j = y" "?ns ! i = v" "?ns ! j = v"
      using len by (auto dest!: in_zip simp: in_set_zip)
    moreover from ij len have "i = j"
      using const_namer.name_all_distinct [of "map wanted rs" used] by (metis nth_eq_iff_index_eq)
    ultimately show "x = y" by simp
  qed
  show "ran names \<inter> set used = {}"
    using in_ns const_namer.name_all_fresh [of "map wanted rs" used] by blast
  show "v \<in> ran names \<Longrightarrow> \<exists>r \<in> set rs. v = wanted r \<or> (\<exists>j. v = wanted r @ show_nat j)"
    using in_ns name_all_form [of v "map wanted rs" used] by auto
qed

section \<open>The names are Go identifiers\<close>

definition alnum :: "char \<Rightarrow> bool" where
  "alnum c = (is_letter c \<or> is_digit c)"

text \<open>An exported identifier: an upper-case letter, then letters and digits.\<close>

definition exported :: "string \<Rightarrow> bool" where
  "exported s = (case s of [] \<Rightarrow> False | c # cs \<Rightarrow> is_upper c \<and> (\<forall>d \<in> set cs. alnum d))"

text \<open>The first letter or digit of a schema name is a letter.\<close>

definition starts_with_letter :: "string \<Rightarrow> bool" where
  "starts_with_letter s = (case dropWhile (\<lambda>c. \<not> alnum c) s of [] \<Rightarrow> False | c # _ \<Rightarrow> is_letter c)"

lemma alnum_to_upper [simp]: "alnum (to_upper c) = alnum c"
  by (simp add: alnum_def)

lemma alnum_upper_first: "\<forall>c \<in> set w. alnum c \<Longrightarrow> \<forall>c \<in> set (upper_first w). alnum c"
  by (auto simp: upper_first_def split: list.splits)

lemma pascal_words_alnum:
  "w \<in> set (pascal_words s word) \<Longrightarrow> \<forall>c \<in> set word. alnum c \<Longrightarrow> w \<noteq> [] \<and> (\<forall>c \<in> set w. alnum c)"
  by (induction s word rule: pascal_words.induct) (auto simp: alnum_def split: if_splits)

lemma pascal_words_started:
  "word \<noteq> [] \<Longrightarrow> \<exists>w ws. pascal_words s word = w # ws \<and> w \<noteq> [] \<and> hd w = hd word"
  by (induction s word rule: pascal_words.induct) auto

lemma pascal_words_first:
  "starts_with_letter s \<Longrightarrow> \<exists>w ws. pascal_words s [] = w # ws \<and> w \<noteq> [] \<and> is_letter (hd w)"
proof (induction s)
  case Nil
  then show ?case by (simp add: starts_with_letter_def)
next
  case (Cons c s)
  show ?case
  proof (cases "alnum c")
    case True
    with Cons.prems have "is_letter c" by (simp add: starts_with_letter_def)
    with pascal_words_started [of "[c]" s] show ?thesis by auto
  next
    case False
    with Cons show ?thesis by (simp add: starts_with_letter_def alnum_def)
  qed
qed

lemma exported_pascal: "starts_with_letter s \<Longrightarrow> exported (pascal_identifier s)"
proof -
  assume "starts_with_letter s"
  then obtain w ws where w: "pascal_words s [] = w # ws" "w \<noteq> []" "is_letter (hd w)"
    using pascal_words_first by blast
  have "\<forall>u \<in> set (pascal_words s []). \<forall>c \<in> set u. alnum c"
    using pascal_words_alnum [of _ s "[]"] by fastforce
  then have "\<forall>u \<in> set (pascal_words s []). \<forall>c \<in> set (upper_first u). alnum c"
    using alnum_upper_first by blast
  with w show ?thesis
    by (cases w) (auto simp: pascal_identifier_def upper_first_def exported_def is_upper_to_upper)
qed

lemma exported_suffix: "exported s \<Longrightarrow> \<forall>c \<in> set t. alnum c \<Longrightarrow> exported (s @ t)"
  by (auto simp: exported_def split: list.splits)

lemma alnum_show_nat: "\<forall>c \<in> set (show_nat j). alnum c"
  using show_nat_digits by (simp add: alnum_def)

lemma exported_field_name: "starts_with_letter s \<Longrightarrow> exported (field_name s)"
proof -
  assume s: "starts_with_letter s"
  have D: "alnum (CHR ''D'')" "is_upper (CHR ''I'')"
    by (simp_all add: alnum_def is_letter_def is_upper_def)
  have up_ID: "exported (t @ ''Id'') \<Longrightarrow> exported (t @ ''ID'')" for t
    using D by (cases t) (auto simp: exported_def)
  have up: "exported t \<Longrightarrow> has_suffix t ''Id'' \<Longrightarrow> exported (trim_suffix t ''Id'' @ ''ID'')" for t
    using up_ID by (auto simp: has_suffix_iff)
  have fixed: "exported ''Meta''" "exported ''ID''" "exported ''URI''"
    by (simp_all add: exported_def alnum_def is_letter_def is_upper_def is_lower_def)
  show ?thesis
    using exported_pascal [OF s] fixed up by (simp add: field_name_def Let_def)
qed

section \<open>Properties\<close>

lemma exported_wanted_field: "starts_with_letter s \<Longrightarrow> exported (wanted_field s)"
  using exported_field_name [of s] by (auto simp: wanted_field_def Let_def exported_def split: list.splits)

lemma exported_with_suffix: "exported s \<Longrightarrow> exported (s @ show_nat j)"
  by (rule exported_suffix [OF _ alnum_show_nat])

text \<open>
  The fields of a generated struct. Every JSON name is given a Go name, different JSON
  names different Go names, no Go name is one of the reserved ones, and every Go name is an
  exported identifier, if the first letter or digit of each JSON name is a letter.
\<close>

theorem field_names_unique:
  assumes "\<forall>s \<in> set json_names. starts_with_letter s"
  shows "dom (unique_field_names_with_reserved json_names reserved) = set json_names
    \<and> inj_on (unique_field_names_with_reserved json_names reserved) (set json_names)
    \<and> ran (unique_field_names_with_reserved json_names reserved) \<inter> set reserved = {}
    \<and> (\<forall>v \<in> ran (unique_field_names_with_reserved json_names reserved). exported v)"
proof -
  let ?m = "unique_field_names_with_reserved json_names reserved"
  note m = name_map_names [OF unique_field_names_with_reserved_def [of json_names reserved]]
  have ex: "exported v" if "v \<in> ran ?m" for v
    using m(4) [OF that] assms exported_wanted_field exported_with_suffix by metis
  moreover have "\<not> exported []" by (simp add: exported_def)
  ultimately have "[] \<notin> ran ?m" by blast
  with m(3) have "ran ?m \<inter> set reserved = {}" by auto
  with m(1,2) ex show ?thesis by simp
qed

theorem field_names_unique_witness:
  "unique_field_names_with_reserved [''session-id'', ''session_id'', ''_meta''] [''Meta''] ''_meta'' = Some ''Meta2''
    \<and> inj_on (unique_field_names_with_reserved [''session-id'', ''session_id'', ''_meta''] [''Meta''])
        (set [''session-id'', ''session_id'', ''_meta''])"
proof -
  have "\<forall>s \<in> set [''session-id'', ''session_id'', ''_meta'']. starts_with_letter s"
    by code_simp
  note field_names_unique [OF this, of "[''Meta'']"]
  moreover have "unique_field_names_with_reserved [''session-id'', ''session_id'', ''_meta''] [''Meta''] ''_meta'' = Some ''Meta2''"
    by code_simp
  ultimately show ?thesis by blast
qed

lemma keyword_last: "k \<in> set go_keywords \<Longrightarrow> k \<noteq> [] \<and> \<not> is_digit (last k) \<and> last k \<noteq> CHR ''_''"
  by (auto simp: go_keywords_def is_digit_def)

lemma wanted_parameter_not_keyword: "wanted_parameter s \<notin> set go_keywords"
  using keyword_last [of "lower_camel (field_name s) @ ''_''"]
  by (auto simp: wanted_parameter_def parameter_name_def Let_def) (simp add: go_keywords_def)

text \<open>
  The parameters of a generated constructor. Different JSON names are given different
  Go names, and none of them is a keyword of Go, not even one that got a number appended.
\<close>

theorem parameter_names_usable:
  "dom (unique_parameter_names json_names) = set json_names
    \<and> inj_on (unique_parameter_names json_names) (set json_names)
    \<and> ran (unique_parameter_names json_names) \<inter> set go_keywords = {}"
proof -
  note m = name_map_names [OF unique_parameter_names_def [of json_names]]
  have "v \<notin> set go_keywords" if v: "v \<in> ran (unique_parameter_names json_names)" for v
  proof -
    obtain s where "v = wanted_parameter s \<or> (\<exists>j. v = wanted_parameter s @ show_nat j)"
      using m(4) [OF v] by blast
    then show ?thesis
    proof
      assume "v = wanted_parameter s"
      then show ?thesis using wanted_parameter_not_keyword by simp
    next
      assume "\<exists>j. v = wanted_parameter s @ show_nat j"
      then obtain j where j: "v = wanted_parameter s @ show_nat j" ..
      then have "last v = last (show_nat j)" by simp
      then have "is_digit (last v)" using show_nat_digits [of j] by simp
      then show ?thesis using keyword_last by blast
    qed
  qed
  with m(1,2) show ?thesis by auto
qed

end
