(* ===== verification/Acp_Names.thy ===== *)
theory Acp_Names
  imports Main
begin

text \<open>
  The named types of acp/types_gen.go, numbered in the order of the file.
\<close>

type_synonym go_name = int

abbreviation (input) ty_Meta :: go_name where "ty_Meta \<equiv> 0"
abbreviation (input) ty_AgentAuthCapabilities :: go_name where "ty_AgentAuthCapabilities \<equiv> 1"
abbreviation (input) ty_AgentCapabilities :: go_name where "ty_AgentCapabilities \<equiv> 2"
abbreviation (input) ty_Annotations :: go_name where "ty_Annotations \<equiv> 3"
abbreviation (input) ty_ArchiveSessionRequest :: go_name where "ty_ArchiveSessionRequest \<equiv> 4"
abbreviation (input) ty_ArchiveSessionResponse :: go_name where "ty_ArchiveSessionResponse \<equiv> 5"
abbreviation (input) ty_AudioContent :: go_name where "ty_AudioContent \<equiv> 6"
abbreviation (input) ty_AuthAccount :: go_name where "ty_AuthAccount \<equiv> 7"
abbreviation (input) ty_AuthCapabilities :: go_name where "ty_AuthCapabilities \<equiv> 8"
abbreviation (input) ty_AuthMethod :: go_name where "ty_AuthMethod \<equiv> 9"
abbreviation (input) ty_AuthMethodType :: go_name where "ty_AuthMethodType \<equiv> 10"
abbreviation (input) ty_AuthMethodAgent :: go_name where "ty_AuthMethodAgent \<equiv> 11"
abbreviation (input) ty_AuthMethodId :: go_name where "ty_AuthMethodId \<equiv> 12"
abbreviation (input) ty_AuthMethodTerminal :: go_name where "ty_AuthMethodTerminal \<equiv> 13"
abbreviation (input) ty_AuthState :: go_name where "ty_AuthState \<equiv> 14"
abbreviation (input) ty_AuthStatusCapabilities :: go_name where "ty_AuthStatusCapabilities \<equiv> 15"
abbreviation (input) ty_AuthStatusRequest :: go_name where "ty_AuthStatusRequest \<equiv> 16"
abbreviation (input) ty_AuthStatusResponse :: go_name where "ty_AuthStatusResponse \<equiv> 17"
abbreviation (input) ty_AuthStatusUpdateNotification :: go_name where "ty_AuthStatusUpdateNotification \<equiv> 18"
abbreviation (input) ty_AuthenticateRequest :: go_name where "ty_AuthenticateRequest \<equiv> 19"
abbreviation (input) ty_AuthenticateResponse :: go_name where "ty_AuthenticateResponse \<equiv> 20"
abbreviation (input) ty_AvailableCommand :: go_name where "ty_AvailableCommand \<equiv> 21"
abbreviation (input) ty_AvailableCommandInput :: go_name where "ty_AvailableCommandInput \<equiv> 22"
abbreviation (input) ty_AvailableCommandsUpdate :: go_name where "ty_AvailableCommandsUpdate \<equiv> 23"
abbreviation (input) ty_BlobResourceContents :: go_name where "ty_BlobResourceContents \<equiv> 24"
abbreviation (input) ty_BooleanConfigOptionCapabilities :: go_name where "ty_BooleanConfigOptionCapabilities \<equiv> 25"
abbreviation (input) ty_BooleanPropertySchema :: go_name where "ty_BooleanPropertySchema \<equiv> 26"
abbreviation (input) ty_CancelNotification :: go_name where "ty_CancelNotification \<equiv> 27"
abbreviation (input) ty_ClientCapabilities :: go_name where "ty_ClientCapabilities \<equiv> 28"
abbreviation (input) ty_ClientSessionCapabilities :: go_name where "ty_ClientSessionCapabilities \<equiv> 29"
abbreviation (input) ty_CloseSessionRequest :: go_name where "ty_CloseSessionRequest \<equiv> 30"
abbreviation (input) ty_CloseSessionResponse :: go_name where "ty_CloseSessionResponse \<equiv> 31"
abbreviation (input) ty_CompactionCapabilities :: go_name where "ty_CompactionCapabilities \<equiv> 32"
abbreviation (input) ty_CompactionId :: go_name where "ty_CompactionId \<equiv> 33"
abbreviation (input) ty_CompactionStatus :: go_name where "ty_CompactionStatus \<equiv> 34"
abbreviation (input) ty_CompactionSummaryChunk :: go_name where "ty_CompactionSummaryChunk \<equiv> 35"
abbreviation (input) ty_CompactionUpdate :: go_name where "ty_CompactionUpdate \<equiv> 36"
abbreviation (input) ty_CompleteElicitationNotification :: go_name where "ty_CompleteElicitationNotification \<equiv> 37"
abbreviation (input) ty_ConfigOptionUpdate :: go_name where "ty_ConfigOptionUpdate \<equiv> 38"
abbreviation (input) ty_Content :: go_name where "ty_Content \<equiv> 39"
abbreviation (input) ty_ContentBlock :: go_name where "ty_ContentBlock \<equiv> 40"
abbreviation (input) ty_ContentBlockType :: go_name where "ty_ContentBlockType \<equiv> 41"
abbreviation (input) ty_ContentChunk :: go_name where "ty_ContentChunk \<equiv> 42"
abbreviation (input) ty_Cost :: go_name where "ty_Cost \<equiv> 43"
abbreviation (input) ty_CreateElicitationRequest :: go_name where "ty_CreateElicitationRequest \<equiv> 44"
abbreviation (input) ty_CreateElicitationRequestType :: go_name where "ty_CreateElicitationRequestType \<equiv> 45"
abbreviation (input) ty_CreateElicitationResponse :: go_name where "ty_CreateElicitationResponse \<equiv> 46"
abbreviation (input) ty_CreateElicitationResponseType :: go_name where "ty_CreateElicitationResponseType \<equiv> 47"
abbreviation (input) ty_CreateTerminalRequest :: go_name where "ty_CreateTerminalRequest \<equiv> 48"
abbreviation (input) ty_CreateTerminalResponse :: go_name where "ty_CreateTerminalResponse \<equiv> 49"
abbreviation (input) ty_CurrentModeUpdate :: go_name where "ty_CurrentModeUpdate \<equiv> 50"
abbreviation (input) ty_DeleteSessionRequest :: go_name where "ty_DeleteSessionRequest \<equiv> 51"
abbreviation (input) ty_DeleteSessionResponse :: go_name where "ty_DeleteSessionResponse \<equiv> 52"
abbreviation (input) ty_Diff :: go_name where "ty_Diff \<equiv> 53"
abbreviation (input) ty_DisableProviderRequest :: go_name where "ty_DisableProviderRequest \<equiv> 54"
abbreviation (input) ty_DisableProviderResponse :: go_name where "ty_DisableProviderResponse \<equiv> 55"
abbreviation (input) ty_ElicitationAcceptAction :: go_name where "ty_ElicitationAcceptAction \<equiv> 56"
abbreviation (input) ty_ElicitationCapabilities :: go_name where "ty_ElicitationCapabilities \<equiv> 57"
abbreviation (input) ty_ElicitationFormCapabilities :: go_name where "ty_ElicitationFormCapabilities \<equiv> 58"
abbreviation (input) ty_ElicitationFormMode :: go_name where "ty_ElicitationFormMode \<equiv> 59"
abbreviation (input) ty_ElicitationId :: go_name where "ty_ElicitationId \<equiv> 60"
abbreviation (input) ty_ElicitationPropertySchema :: go_name where "ty_ElicitationPropertySchema \<equiv> 61"
abbreviation (input) ty_ElicitationPropertySchemaType :: go_name where "ty_ElicitationPropertySchemaType \<equiv> 62"
abbreviation (input) ty_ElicitationRequestScope :: go_name where "ty_ElicitationRequestScope \<equiv> 63"
abbreviation (input) ty_ElicitationSchema :: go_name where "ty_ElicitationSchema \<equiv> 64"
abbreviation (input) ty_ElicitationSchemaType :: go_name where "ty_ElicitationSchemaType \<equiv> 65"
abbreviation (input) ty_ElicitationSessionScope :: go_name where "ty_ElicitationSessionScope \<equiv> 66"
abbreviation (input) ty_ElicitationUrlCapabilities :: go_name where "ty_ElicitationUrlCapabilities \<equiv> 67"
abbreviation (input) ty_ElicitationUrlMode :: go_name where "ty_ElicitationUrlMode \<equiv> 68"
abbreviation (input) ty_EmbeddedResource :: go_name where "ty_EmbeddedResource \<equiv> 69"
abbreviation (input) ty_EmbeddedResourceResource :: go_name where "ty_EmbeddedResourceResource \<equiv> 70"
abbreviation (input) ty_EnumOption :: go_name where "ty_EnumOption \<equiv> 71"
abbreviation (input) ty_EnvVariable :: go_name where "ty_EnvVariable \<equiv> 72"
abbreviation (input) ty_Error :: go_name where "ty_Error \<equiv> 73"
abbreviation (input) ty_ErrorCode :: go_name where "ty_ErrorCode \<equiv> 74"
abbreviation (input) ty_ErrorStopReason :: go_name where "ty_ErrorStopReason \<equiv> 75"
abbreviation (input) ty_ExtNotification :: go_name where "ty_ExtNotification \<equiv> 76"
abbreviation (input) ty_ExtRequest :: go_name where "ty_ExtRequest \<equiv> 77"
abbreviation (input) ty_ExtResponse :: go_name where "ty_ExtResponse \<equiv> 78"
abbreviation (input) ty_FileSystemCapabilities :: go_name where "ty_FileSystemCapabilities \<equiv> 79"
abbreviation (input) ty_ForkSessionRequest :: go_name where "ty_ForkSessionRequest \<equiv> 80"
abbreviation (input) ty_ForkSessionResponse :: go_name where "ty_ForkSessionResponse \<equiv> 81"
abbreviation (input) ty_HttpHeader :: go_name where "ty_HttpHeader \<equiv> 82"
abbreviation (input) ty_IdleStateUpdate :: go_name where "ty_IdleStateUpdate \<equiv> 83"
abbreviation (input) ty_IdleStateUpdateType :: go_name where "ty_IdleStateUpdateType \<equiv> 84"
abbreviation (input) ty_ImageContent :: go_name where "ty_ImageContent \<equiv> 85"
abbreviation (input) ty_Implementation :: go_name where "ty_Implementation \<equiv> 86"
abbreviation (input) ty_InitializeProxyRequest :: go_name where "ty_InitializeProxyRequest \<equiv> 87"
abbreviation (input) ty_InitializeProxyResponse :: go_name where "ty_InitializeProxyResponse \<equiv> 88"
abbreviation (input) ty_InitializeRequest :: go_name where "ty_InitializeRequest \<equiv> 89"
abbreviation (input) ty_InitializeResponse :: go_name where "ty_InitializeResponse \<equiv> 90"
abbreviation (input) ty_IntegerPropertySchema :: go_name where "ty_IntegerPropertySchema \<equiv> 91"
abbreviation (input) ty_KillTerminalRequest :: go_name where "ty_KillTerminalRequest \<equiv> 92"
abbreviation (input) ty_KillTerminalResponse :: go_name where "ty_KillTerminalResponse \<equiv> 93"
abbreviation (input) ty_ListProvidersRequest :: go_name where "ty_ListProvidersRequest \<equiv> 94"
abbreviation (input) ty_ListProvidersResponse :: go_name where "ty_ListProvidersResponse \<equiv> 95"
abbreviation (input) ty_ListSessionsRequest :: go_name where "ty_ListSessionsRequest \<equiv> 96"
abbreviation (input) ty_ListSessionsResponse :: go_name where "ty_ListSessionsResponse \<equiv> 97"
abbreviation (input) ty_LlmProtocol :: go_name where "ty_LlmProtocol \<equiv> 98"
abbreviation (input) ty_LoadSessionRequest :: go_name where "ty_LoadSessionRequest \<equiv> 99"
abbreviation (input) ty_LoadSessionResponse :: go_name where "ty_LoadSessionResponse \<equiv> 100"
abbreviation (input) ty_LogoutCapabilities :: go_name where "ty_LogoutCapabilities \<equiv> 101"
abbreviation (input) ty_LogoutRequest :: go_name where "ty_LogoutRequest \<equiv> 102"
abbreviation (input) ty_LogoutResponse :: go_name where "ty_LogoutResponse \<equiv> 103"
abbreviation (input) ty_McpCapabilities :: go_name where "ty_McpCapabilities \<equiv> 104"
abbreviation (input) ty_McpError :: go_name where "ty_McpError \<equiv> 105"
abbreviation (input) ty_McpRequestId :: go_name where "ty_McpRequestId \<equiv> 106"
abbreviation (input) ty_McpServer :: go_name where "ty_McpServer \<equiv> 107"
abbreviation (input) ty_McpServerType :: go_name where "ty_McpServerType \<equiv> 108"
abbreviation (input) ty_McpServerAcp :: go_name where "ty_McpServerAcp \<equiv> 109"
abbreviation (input) ty_McpServerAcpId :: go_name where "ty_McpServerAcpId \<equiv> 110"
abbreviation (input) ty_McpServerHttp :: go_name where "ty_McpServerHttp \<equiv> 111"
abbreviation (input) ty_McpServerSse :: go_name where "ty_McpServerSse \<equiv> 112"
abbreviation (input) ty_McpServerStdio :: go_name where "ty_McpServerStdio \<equiv> 113"
abbreviation (input) ty_MessageId :: go_name where "ty_MessageId \<equiv> 114"
abbreviation (input) ty_MessageMcpNotification :: go_name where "ty_MessageMcpNotification \<equiv> 115"
abbreviation (input) ty_MessageMcpRequest :: go_name where "ty_MessageMcpRequest \<equiv> 116"
abbreviation (input) ty_MessageMcpResponse :: go_name where "ty_MessageMcpResponse \<equiv> 117"
abbreviation (input) ty_MultiSelectItems :: go_name where "ty_MultiSelectItems \<equiv> 118"
abbreviation (input) ty_MultiSelectItemsType :: go_name where "ty_MultiSelectItemsType \<equiv> 119"
abbreviation (input) ty_MultiSelectPropertySchema :: go_name where "ty_MultiSelectPropertySchema \<equiv> 120"
abbreviation (input) ty_NewSessionRequest :: go_name where "ty_NewSessionRequest \<equiv> 121"
abbreviation (input) ty_NewSessionResponse :: go_name where "ty_NewSessionResponse \<equiv> 122"
abbreviation (input) ty_Notice :: go_name where "ty_Notice \<equiv> 123"
abbreviation (input) ty_NoticeCapabilities :: go_name where "ty_NoticeCapabilities \<equiv> 124"
abbreviation (input) ty_NoticeSeverity :: go_name where "ty_NoticeSeverity \<equiv> 125"
abbreviation (input) ty_NumberPropertySchema :: go_name where "ty_NumberPropertySchema \<equiv> 126"
abbreviation (input) ty_PermissionOption :: go_name where "ty_PermissionOption \<equiv> 127"
abbreviation (input) ty_PermissionOptionId :: go_name where "ty_PermissionOptionId \<equiv> 128"
abbreviation (input) ty_PermissionOptionKind :: go_name where "ty_PermissionOptionKind \<equiv> 129"
abbreviation (input) ty_Plan :: go_name where "ty_Plan \<equiv> 130"
abbreviation (input) ty_PlanCapabilities :: go_name where "ty_PlanCapabilities \<equiv> 131"
abbreviation (input) ty_PlanEntry :: go_name where "ty_PlanEntry \<equiv> 132"
abbreviation (input) ty_PlanEntryPriority :: go_name where "ty_PlanEntryPriority \<equiv> 133"
abbreviation (input) ty_PlanEntryStatus :: go_name where "ty_PlanEntryStatus \<equiv> 134"
abbreviation (input) ty_PlanFile :: go_name where "ty_PlanFile \<equiv> 135"
abbreviation (input) ty_PlanId :: go_name where "ty_PlanId \<equiv> 136"
abbreviation (input) ty_PlanItems :: go_name where "ty_PlanItems \<equiv> 137"
abbreviation (input) ty_PlanMarkdown :: go_name where "ty_PlanMarkdown \<equiv> 138"
abbreviation (input) ty_PlanRemoved :: go_name where "ty_PlanRemoved \<equiv> 139"
abbreviation (input) ty_PlanUpdate :: go_name where "ty_PlanUpdate \<equiv> 140"
abbreviation (input) ty_PlanUpdateContent :: go_name where "ty_PlanUpdateContent \<equiv> 141"
abbreviation (input) ty_PlanUpdateContentType :: go_name where "ty_PlanUpdateContentType \<equiv> 142"
abbreviation (input) ty_PromptCapabilities :: go_name where "ty_PromptCapabilities \<equiv> 143"
abbreviation (input) ty_PromptRequest :: go_name where "ty_PromptRequest \<equiv> 144"
abbreviation (input) ty_PromptResponse :: go_name where "ty_PromptResponse \<equiv> 145"
abbreviation (input) ty_ProtocolVersion :: go_name where "ty_ProtocolVersion \<equiv> 146"
abbreviation (input) ty_ProviderCurrentConfig :: go_name where "ty_ProviderCurrentConfig \<equiv> 147"
abbreviation (input) ty_ProviderId :: go_name where "ty_ProviderId \<equiv> 148"
abbreviation (input) ty_ProviderInfo :: go_name where "ty_ProviderInfo \<equiv> 149"
abbreviation (input) ty_ProvidersCapabilities :: go_name where "ty_ProvidersCapabilities \<equiv> 150"
abbreviation (input) ty_ProxySuccessorNotification :: go_name where "ty_ProxySuccessorNotification \<equiv> 151"
abbreviation (input) ty_ProxySuccessorRequest :: go_name where "ty_ProxySuccessorRequest \<equiv> 152"
abbreviation (input) ty_ProxySuccessorResponse :: go_name where "ty_ProxySuccessorResponse \<equiv> 153"
abbreviation (input) ty_ReadTextFileRequest :: go_name where "ty_ReadTextFileRequest \<equiv> 154"
abbreviation (input) ty_ReadTextFileResponse :: go_name where "ty_ReadTextFileResponse \<equiv> 155"
abbreviation (input) ty_ReleaseTerminalRequest :: go_name where "ty_ReleaseTerminalRequest \<equiv> 156"
abbreviation (input) ty_ReleaseTerminalResponse :: go_name where "ty_ReleaseTerminalResponse \<equiv> 157"
abbreviation (input) ty_RequestPermissionOutcome :: go_name where "ty_RequestPermissionOutcome \<equiv> 158"
abbreviation (input) ty_RequestPermissionOutcomeType :: go_name where "ty_RequestPermissionOutcomeType \<equiv> 159"
abbreviation (input) ty_RequestPermissionRequest :: go_name where "ty_RequestPermissionRequest \<equiv> 160"
abbreviation (input) ty_RequestPermissionResponse :: go_name where "ty_RequestPermissionResponse \<equiv> 161"
abbreviation (input) ty_RequiresActionStateUpdate :: go_name where "ty_RequiresActionStateUpdate \<equiv> 162"
abbreviation (input) ty_ResourceLink :: go_name where "ty_ResourceLink \<equiv> 163"
abbreviation (input) ty_ResumeSessionRequest :: go_name where "ty_ResumeSessionRequest \<equiv> 164"
abbreviation (input) ty_ResumeSessionResponse :: go_name where "ty_ResumeSessionResponse \<equiv> 165"
abbreviation (input) ty_Role :: go_name where "ty_Role \<equiv> 166"
abbreviation (input) ty_RunningStateUpdate :: go_name where "ty_RunningStateUpdate \<equiv> 167"
abbreviation (input) ty_SelectedPermissionOutcome :: go_name where "ty_SelectedPermissionOutcome \<equiv> 168"
abbreviation (input) ty_SessionAdditionalDirectoriesCapabilities :: go_name where "ty_SessionAdditionalDirectoriesCapabilities \<equiv> 169"
abbreviation (input) ty_SessionArchiveCapabilities :: go_name where "ty_SessionArchiveCapabilities \<equiv> 170"
abbreviation (input) ty_SessionArchiveFilter :: go_name where "ty_SessionArchiveFilter \<equiv> 171"
abbreviation (input) ty_SessionCancelCapabilities :: go_name where "ty_SessionCancelCapabilities \<equiv> 172"
abbreviation (input) ty_SessionCapabilities :: go_name where "ty_SessionCapabilities \<equiv> 173"
abbreviation (input) ty_SessionCloseCapabilities :: go_name where "ty_SessionCloseCapabilities \<equiv> 174"
abbreviation (input) ty_SessionConfigBoolean :: go_name where "ty_SessionConfigBoolean \<equiv> 175"
abbreviation (input) ty_SessionConfigGroupId :: go_name where "ty_SessionConfigGroupId \<equiv> 176"
abbreviation (input) ty_SessionConfigId :: go_name where "ty_SessionConfigId \<equiv> 177"
abbreviation (input) ty_SessionConfigOption :: go_name where "ty_SessionConfigOption \<equiv> 178"
abbreviation (input) ty_SessionConfigOptionType :: go_name where "ty_SessionConfigOptionType \<equiv> 179"
abbreviation (input) ty_SessionConfigOptionCategory :: go_name where "ty_SessionConfigOptionCategory \<equiv> 180"
abbreviation (input) ty_SessionConfigOptionsCapabilities :: go_name where "ty_SessionConfigOptionsCapabilities \<equiv> 181"
abbreviation (input) ty_SessionConfigSelect :: go_name where "ty_SessionConfigSelect \<equiv> 182"
abbreviation (input) ty_SessionConfigSelectGroup :: go_name where "ty_SessionConfigSelectGroup \<equiv> 183"
abbreviation (input) ty_SessionConfigSelectOption :: go_name where "ty_SessionConfigSelectOption \<equiv> 184"
abbreviation (input) ty_SessionConfigSelectOptions :: go_name where "ty_SessionConfigSelectOptions \<equiv> 185"
abbreviation (input) ty_UngroupedSessionConfigSelectOptions :: go_name where "ty_UngroupedSessionConfigSelectOptions \<equiv> 186"
abbreviation (input) ty_GroupedSessionConfigSelectOptions :: go_name where "ty_GroupedSessionConfigSelectOptions \<equiv> 187"
abbreviation (input) ty_SessionConfigValueId :: go_name where "ty_SessionConfigValueId \<equiv> 188"
abbreviation (input) ty_SessionDeleteCapabilities :: go_name where "ty_SessionDeleteCapabilities \<equiv> 189"
abbreviation (input) ty_SessionForkCapabilities :: go_name where "ty_SessionForkCapabilities \<equiv> 190"
abbreviation (input) ty_SessionId :: go_name where "ty_SessionId \<equiv> 191"
abbreviation (input) ty_SessionInfo :: go_name where "ty_SessionInfo \<equiv> 192"
abbreviation (input) ty_SessionInfoUpdate :: go_name where "ty_SessionInfoUpdate \<equiv> 193"
abbreviation (input) ty_SessionListCapabilities :: go_name where "ty_SessionListCapabilities \<equiv> 194"
abbreviation (input) ty_SessionMessage :: go_name where "ty_SessionMessage \<equiv> 195"
abbreviation (input) ty_SessionMessageChunk :: go_name where "ty_SessionMessageChunk \<equiv> 196"
abbreviation (input) ty_SessionMode :: go_name where "ty_SessionMode \<equiv> 197"
abbreviation (input) ty_SessionModeId :: go_name where "ty_SessionModeId \<equiv> 198"
abbreviation (input) ty_SessionModeState :: go_name where "ty_SessionModeState \<equiv> 199"
abbreviation (input) ty_SessionNotification :: go_name where "ty_SessionNotification \<equiv> 200"
abbreviation (input) ty_SessionResumeCapabilities :: go_name where "ty_SessionResumeCapabilities \<equiv> 201"
abbreviation (input) ty_SessionStatus :: go_name where "ty_SessionStatus \<equiv> 202"
abbreviation (input) ty_SessionStatusCapabilities :: go_name where "ty_SessionStatusCapabilities \<equiv> 203"
abbreviation (input) ty_SessionStatusRequest :: go_name where "ty_SessionStatusRequest \<equiv> 204"
abbreviation (input) ty_SessionStatusResponse :: go_name where "ty_SessionStatusResponse \<equiv> 205"
abbreviation (input) ty_SessionSystemPromptCapabilities :: go_name where "ty_SessionSystemPromptCapabilities \<equiv> 206"
abbreviation (input) ty_SessionSystemPromptModeCapabilities :: go_name where "ty_SessionSystemPromptModeCapabilities \<equiv> 207"
abbreviation (input) ty_SessionSystemPromptOverrideCapabilities :: go_name where "ty_SessionSystemPromptOverrideCapabilities \<equiv> 208"
abbreviation (input) ty_SessionTitleCapabilities :: go_name where "ty_SessionTitleCapabilities \<equiv> 209"
abbreviation (input) ty_SessionUpdate :: go_name where "ty_SessionUpdate \<equiv> 210"
abbreviation (input) ty_SessionUpdateType :: go_name where "ty_SessionUpdateType \<equiv> 211"
abbreviation (input) ty_SetProviderRequest :: go_name where "ty_SetProviderRequest \<equiv> 212"
abbreviation (input) ty_SetProviderResponse :: go_name where "ty_SetProviderResponse \<equiv> 213"
abbreviation (input) ty_SetSessionConfigOptionRequest :: go_name where "ty_SetSessionConfigOptionRequest \<equiv> 214"
abbreviation (input) ty_SetSessionConfigOptionRequestType :: go_name where "ty_SetSessionConfigOptionRequestType \<equiv> 215"
abbreviation (input) ty_SetSessionConfigOptionResponse :: go_name where "ty_SetSessionConfigOptionResponse \<equiv> 216"
abbreviation (input) ty_SetSessionModeRequest :: go_name where "ty_SetSessionModeRequest \<equiv> 217"
abbreviation (input) ty_SetSessionModeResponse :: go_name where "ty_SetSessionModeResponse \<equiv> 218"
abbreviation (input) ty_SetSessionTitleRequest :: go_name where "ty_SetSessionTitleRequest \<equiv> 219"
abbreviation (input) ty_SetSessionTitleResponse :: go_name where "ty_SetSessionTitleResponse \<equiv> 220"
abbreviation (input) ty_StateUpdate :: go_name where "ty_StateUpdate \<equiv> 221"
abbreviation (input) ty_StateUpdateType :: go_name where "ty_StateUpdateType \<equiv> 222"
abbreviation (input) ty_StopReason :: go_name where "ty_StopReason \<equiv> 223"
abbreviation (input) ty_StringFormat :: go_name where "ty_StringFormat \<equiv> 224"
abbreviation (input) ty_StringMultiSelectItems :: go_name where "ty_StringMultiSelectItems \<equiv> 225"
abbreviation (input) ty_StringPropertySchema :: go_name where "ty_StringPropertySchema \<equiv> 226"
abbreviation (input) ty_SubagentCapabilities :: go_name where "ty_SubagentCapabilities \<equiv> 227"
abbreviation (input) ty_SubagentSessionCapabilities :: go_name where "ty_SubagentSessionCapabilities \<equiv> 228"
abbreviation (input) ty_SubagentUpdate :: go_name where "ty_SubagentUpdate \<equiv> 229"
abbreviation (input) ty_SystemPrompt :: go_name where "ty_SystemPrompt \<equiv> 230"
abbreviation (input) ty_SystemPromptMode :: go_name where "ty_SystemPromptMode \<equiv> 231"
abbreviation (input) ty_Terminal :: go_name where "ty_Terminal \<equiv> 232"
abbreviation (input) ty_TerminalExitStatus :: go_name where "ty_TerminalExitStatus \<equiv> 233"
abbreviation (input) ty_TerminalId :: go_name where "ty_TerminalId \<equiv> 234"
abbreviation (input) ty_TerminalOutputRequest :: go_name where "ty_TerminalOutputRequest \<equiv> 235"
abbreviation (input) ty_TerminalOutputResponse :: go_name where "ty_TerminalOutputResponse \<equiv> 236"
abbreviation (input) ty_TextContent :: go_name where "ty_TextContent \<equiv> 237"
abbreviation (input) ty_TextResourceContents :: go_name where "ty_TextResourceContents \<equiv> 238"
abbreviation (input) ty_TitledMultiSelectItems :: go_name where "ty_TitledMultiSelectItems \<equiv> 239"
abbreviation (input) ty_ToolCall :: go_name where "ty_ToolCall \<equiv> 240"
abbreviation (input) ty_ToolCallContent :: go_name where "ty_ToolCallContent \<equiv> 241"
abbreviation (input) ty_ToolCallContentType :: go_name where "ty_ToolCallContentType \<equiv> 242"
abbreviation (input) ty_ToolCallId :: go_name where "ty_ToolCallId \<equiv> 243"
abbreviation (input) ty_ToolCallLocation :: go_name where "ty_ToolCallLocation \<equiv> 244"
abbreviation (input) ty_ToolCallStatus :: go_name where "ty_ToolCallStatus \<equiv> 245"
abbreviation (input) ty_ToolCallUpdate :: go_name where "ty_ToolCallUpdate \<equiv> 246"
abbreviation (input) ty_ToolKind :: go_name where "ty_ToolKind \<equiv> 247"
abbreviation (input) ty_UnarchiveSessionRequest :: go_name where "ty_UnarchiveSessionRequest \<equiv> 248"
abbreviation (input) ty_UnarchiveSessionResponse :: go_name where "ty_UnarchiveSessionResponse \<equiv> 249"
abbreviation (input) ty_UnknownStateUpdate :: go_name where "ty_UnknownStateUpdate \<equiv> 250"
abbreviation (input) ty_UnstructuredCommandInput :: go_name where "ty_UnstructuredCommandInput \<equiv> 251"
abbreviation (input) ty_Usage :: go_name where "ty_Usage \<equiv> 252"
abbreviation (input) ty_UsageUpdate :: go_name where "ty_UsageUpdate \<equiv> 253"
abbreviation (input) ty_WaitForTerminalExitRequest :: go_name where "ty_WaitForTerminalExitRequest \<equiv> 254"
abbreviation (input) ty_WaitForTerminalExitResponse :: go_name where "ty_WaitForTerminalExitResponse \<equiv> 255"
abbreviation (input) ty_WriteTextFileRequest :: go_name where "ty_WriteTextFileRequest \<equiv> 256"
abbreviation (input) ty_WriteTextFileResponse :: go_name where "ty_WriteTextFileResponse \<equiv> 257"

end
