(* ===== verification/Go_Types.thy ===== *)
theory Go_Types
  imports Json Acp_Names
begin

text \<open>
  The Go types the ACP types are built of, their values, and the declarations of
  acp/types_gen.go as data: a declaration is a type and the JSON methods the generated code
  gives it, written in the few statement forms that occur there. Go_Decode and Go_Encode give
  them their meaning; Acp_Types_1 to Acp_Types_4 list the declarations.
\<close>

section \<open>Types and values\<close>

datatype go_type =
    TBool | TString | TFloat64 | TAny
  | TNumber                              \<comment> \<open>\<open>json.Number\<close>\<close>
  | TRaw                                 \<comment> \<open>\<open>json.RawMessage\<close>\<close>
  | TSigned nat | TUnsigned nat          \<comment> \<open>integers of so many bits\<close>
  | TPtr go_type | TSlice go_type | TMap go_type
  | TName go_name

text \<open>
  \<open>VNil\<close> is the nil pointer, slice, map, interface and raw message. A value in an interface
  carries its dynamic type. A float64 is the numeral it was read from. A raw message is the
  syntax tree of its text. Integers are kept as \<open>int\<close>, in the range of their type.
\<close>

datatype go_val =
    VNil
  | VBool bool | VStr string | VFloat string | VInt int | VNumber string | VRaw json
  | VPtr go_val
  | VSlice "go_val list"
  | VMap "(string \<times> go_val) list"
  | VStruct "(string \<times> go_val) list"
  | VIface go_type go_val

text \<open>A struct field with its JSON tag. The name \<open>-\<close> keeps the field out of the text.\<close>

record go_field =
  fd_name :: string
  fd_type :: go_type
  fd_json :: string
  fd_omitempty :: bool
  fd_omitzero :: bool

definition fld :: "string \<Rightarrow> go_type \<Rightarrow> string \<Rightarrow> go_field" where
  "fld n t j = \<lparr>fd_name = n, fd_type = t, fd_json = j, fd_omitempty = False, fd_omitzero = False\<rparr>"

definition opt :: "string \<Rightarrow> go_type \<Rightarrow> string \<Rightarrow> go_field" where
  "opt n t j = \<lparr>fd_name = n, fd_type = t, fd_json = j, fd_omitempty = True, fd_omitzero = False\<rparr>"

definition omz :: "string \<Rightarrow> go_type \<Rightarrow> string \<Rightarrow> go_field" where
  "omz n t j = \<lparr>fd_name = n, fd_type = t, fd_json = j, fd_omitempty = False, fd_omitzero = True\<rparr>"

definition optz :: "string \<Rightarrow> go_type \<Rightarrow> string \<Rightarrow> go_field" where
  "optz n t j = \<lparr>fd_name = n, fd_type = t, fd_json = j, fd_omitempty = True, fd_omitzero = True\<rparr>"

section \<open>The statements of the JSON methods\<close>

text \<open>How a decoded value, or its address, is assigned: as it is, or put into an interface.\<close>

datatype conv = Same | Address | Box go_type | BoxAddress go_type

text \<open>Which items of an array are kept: all, those equal to one of the strings, or those with such a field.\<close>

datatype item_filter = AnyItem | ItemIn "string list" | ItemField string "string list"

text \<open>
  What an \<open>UnmarshalJSON\<close> does with a member it has as a raw message:
  \<open>Tolerate\<close> is \<open>_ = unmarshalJSON(raw.F, &decoded.F)\<close>.
  \<open>Into t c\<close> decodes into a fresh \<open>value\<close> of type \<open>t\<close>, returns its error, and assigns it.
  \<open>TryInto t c\<close> assigns it only if there was no error.
  \<open>TryEnum t ss c\<close> assigns it only if, besides, the string is one of \<open>ss\<close>.
  \<open>TryItems t f n c\<close> decodes the elements of an array one by one, keeping the good ones; with
  \<open>n\<close>, null leaves the field alone.
  \<open>NullOr a\<close> records an explicit null in \<open>NullFields\<close>, and is \<open>a\<close> otherwise.
  \<open>SwitchOn d cs\<close> chooses by the decoded discriminator field.
\<close>

datatype member_action =
    Tolerate
  | Into go_type conv
  | TryInto go_type conv
  | TryEnum go_type "string list" conv
  | TryItems go_type item_filter bool conv
  | NullOr member_action
  | SwitchOn string "(string \<times> member_action) list"

text \<open>
  The bodies of \<open>UnmarshalJSON\<close>: none; \<open>type plain X\<close>; an alias with raw fields (Go name, JSON
  name) and an action for each; and the two methods that occur once.
\<close>

datatype unmarshaler =
    Reflected
  | PlainNumbers
  | ByAlias "(string \<times> string \<times> member_action) list"
  | McpCarriers
  | FlatOrGroups

text \<open>
  The statements of a \<open>MarshalJSON\<close> over the alias \<open>a\<close> and the wire struct \<open>w\<close>:
  \<open>NonNil g\<close> makes a nil slice an empty one; \<open>NonNilOptions g\<close> is the same for the options of a
  selector. \<open>SendNonNil\<close>, \<open>SendNonEmpty\<close>, \<open>SendNonZero\<close> set the wire field under a condition,
  \<open>Send\<close> always, \<open>SendSlice\<close> and \<open>SendOptions\<close> with the nil value replaced, and \<open>SendNull g j\<close>
  if \<open>NullFields\<close> holds \<open>j\<close>.
\<close>

datatype emit =
    NonNil string | NonNilOptions string
  | SendNonNil string | SendNonEmpty string | SendNonZero string
  | Send string | SendSlice string | SendOptions string
  | SendNull string string
  | EmitSwitch string "(string \<times> emit list) list"

datatype marshaler =
    Encoded
  | ByWire "go_field list" "emit list"
  | EmitCarriers
  | EmitFlatOrGroups

datatype go_shape =
    Defined go_type
  | Struct "go_field list"
  | LikeStruct go_name                     \<comment> \<open>\<open>type X Y\<close> of a struct \<open>Y\<close>: its fields, not its methods\<close>

record go_decl =
  gd_shape :: go_shape
  gd_unmarshal :: unmarshaler
  gd_marshal :: marshaler

type_synonym go_env = "go_name \<rightharpoonup> go_decl"

definition struct_decl :: "go_field list \<Rightarrow> unmarshaler \<Rightarrow> marshaler \<Rightarrow> go_decl" where
  "struct_decl fs u m = \<lparr>gd_shape = Struct fs, gd_unmarshal = u, gd_marshal = m\<rparr>"

definition defined_decl :: "go_type \<Rightarrow> unmarshaler \<Rightarrow> go_decl" where
  "defined_decl t u = \<lparr>gd_shape = Defined t, gd_unmarshal = u, gd_marshal = Encoded\<rparr>"

definition like_decl :: "go_name \<Rightarrow> go_decl" where
  "like_decl x = \<lparr>gd_shape = LikeStruct x, gd_unmarshal = Reflected, gd_marshal = Encoded\<rparr>"

section \<open>Looking at declarations\<close>

text \<open>The fields of a struct type; \<open>LikeStruct\<close> names a type that is a \<open>Struct\<close>.\<close>

definition struct_fields :: "go_env \<Rightarrow> go_name \<Rightarrow> go_field list option" where
  "struct_fields E x =
     (case E x of
        None \<Rightarrow> None
      | Some D \<Rightarrow>
          (case gd_shape D of
             Defined t \<Rightarrow> None
           | Struct fs \<Rightarrow> Some fs
           | LikeStruct y \<Rightarrow>
               (case E y of
                  None \<Rightarrow> None
                | Some D' \<Rightarrow> (case gd_shape D' of Struct fs \<Rightarrow> Some fs | _ \<Rightarrow> None))))"

text \<open>
  The zero value of a type. A struct holds others by value only to a small depth, which
  the first argument bounds; \<open>zero_deep\<close> says that it is enough.
\<close>

fun zero :: "go_env \<Rightarrow> nat \<Rightarrow> go_type \<Rightarrow> go_val" where
  "zero E n TBool = VBool False"
| "zero E n TString = VStr []"
| "zero E n TFloat64 = VFloat ''0''"
| "zero E n TNumber = VNumber []"
| "zero E n (TSigned b) = VInt 0"
| "zero E n (TUnsigned b) = VInt 0"
| "zero E n (TName x) =
     (case n of
        0 \<Rightarrow> VNil
      | Suc m \<Rightarrow>
          (case struct_fields E x of
             Some fs \<Rightarrow> VStruct (map (\<lambda>f. (fd_name f, zero E m (fd_type f))) fs)
           | None \<Rightarrow> (case E x of Some D \<Rightarrow> (case gd_shape D of Defined t \<Rightarrow> zero E m t | _ \<Rightarrow> VNil) | None \<Rightarrow> VNil)))"
| "zero E n _ = VNil"

fun zero_deep :: "go_env \<Rightarrow> nat \<Rightarrow> go_type \<Rightarrow> bool" where
  "zero_deep E n (TName x) =
     (case n of
        0 \<Rightarrow> False
      | Suc m \<Rightarrow>
          (case struct_fields E x of
             Some fs \<Rightarrow> list_all (\<lambda>f. zero_deep E m (fd_type f)) fs
           | None \<Rightarrow> (case E x of Some D \<Rightarrow> (case gd_shape D of Defined t \<Rightarrow> zero_deep E m t | _ \<Rightarrow> False) | None \<Rightarrow> False)))"
| "zero_deep E n _ = True"

definition depth :: nat where "depth = 6"

abbreviation zero_of :: "go_env \<Rightarrow> go_type \<Rightarrow> go_val" where
  "zero_of E t \<equiv> zero E depth t"

text \<open>\<open>reflect.Value.IsZero\<close> and the emptiness test of \<open>omitempty\<close>.\<close>

definition zero_numeral :: "string \<Rightarrow> bool" where
  "zero_numeral t =
     (t \<noteq> [] \<and> hd t \<noteq> CHR ''-''
      \<and> (\<forall>c \<in> set (takeWhile (\<lambda>c. c \<noteq> CHR ''e'' \<and> c \<noteq> CHR ''E'') t). c \<notin> set ''123456789''))"

fun is_zero :: "go_val \<Rightarrow> bool" where
  "is_zero VNil = True"
| "is_zero (VBool b) = (\<not> b)"
| "is_zero (VStr s) = (s = [])"
| "is_zero (VFloat t) = zero_numeral t"
| "is_zero (VInt i) = (i = 0)"
| "is_zero (VNumber s) = (s = [])"
| "is_zero (VStruct kvs) = list_all (\<lambda>(k, v). is_zero v) kvs"
| "is_zero _ = False"

fun is_empty :: "go_val \<Rightarrow> bool" where
  "is_empty VNil = True"
| "is_empty (VBool b) = (\<not> b)"
| "is_empty (VStr s) = (s = [])"
| "is_empty (VFloat t) = zero_numeral t"
| "is_empty (VInt i) = (i = 0)"
| "is_empty (VNumber s) = (s = [])"
| "is_empty (VSlice vs) = (vs = [])"
| "is_empty (VMap kvs) = (kvs = [])"
| "is_empty _ = False"

section \<open>Fields of a value\<close>

definition get_field :: "string \<Rightarrow> (string \<times> go_val) list \<Rightarrow> go_val" where
  "get_field g kvs = (case map_of kvs g of Some v \<Rightarrow> v | None \<Rightarrow> VNil)"

definition set_field :: "string \<Rightarrow> go_val \<Rightarrow> (string \<times> go_val) list \<Rightarrow> (string \<times> go_val) list" where
  "set_field g v kvs = map (\<lambda>(k, w). if k = g then (k, v) else (k, w)) kvs"

fun struct_of :: "go_val \<Rightarrow> (string \<times> go_val) list" where
  "struct_of (VStruct kvs) = kvs"
| "struct_of _ = []"

fun text_of :: "go_val \<Rightarrow> string" where
  "text_of (VStr s) = s"
| "text_of _ = []"

section \<open>Well-typed values\<close>

definition in_signed :: "nat \<Rightarrow> int \<Rightarrow> bool" where
  "in_signed b i = (- (2 ^ (b - 1)) \<le> i \<and> i < 2 ^ (b - 1))"

definition in_unsigned :: "nat \<Rightarrow> int \<Rightarrow> bool" where
  "in_unsigned b i = (0 \<le> i \<and> i < 2 ^ b)"

inductive typed :: "go_env \<Rightarrow> go_type \<Rightarrow> go_val \<Rightarrow> bool" for E where
  ty_bool: "typed E TBool (VBool b)"
| ty_string: "typed E TString (VStr s)"
| ty_float: "typed E TFloat64 (VFloat t)"
| ty_number: "typed E TNumber (VNumber t)"
| ty_signed: "in_signed b i \<Longrightarrow> typed E (TSigned b) (VInt i)"
| ty_unsigned: "in_unsigned b i \<Longrightarrow> typed E (TUnsigned b) (VInt i)"
| ty_raw_nil: "typed E TRaw VNil"
| ty_raw: "typed E TRaw (VRaw j)"
| ty_any_nil: "typed E TAny VNil"
| ty_any: "typed E t v \<Longrightarrow> typed E TAny (VIface t v)"
| ty_ptr_nil: "typed E (TPtr t) VNil"
| ty_ptr: "typed E t v \<Longrightarrow> typed E (TPtr t) (VPtr v)"
| ty_slice_nil: "typed E (TSlice t) VNil"
| ty_slice: "\<forall>v \<in> set vs. typed E t v \<Longrightarrow> typed E (TSlice t) (VSlice vs)"
| ty_map_nil: "typed E (TMap t) VNil"
| ty_map: "\<forall>kv \<in> set kvs. typed E t (snd kv) \<Longrightarrow> typed E (TMap t) (VMap kvs)"
| ty_defined: "E x = Some D \<Longrightarrow> gd_shape D = Defined t \<Longrightarrow> typed E t v \<Longrightarrow> typed E (TName x) v"
| ty_struct: "struct_fields E x = Some fs \<Longrightarrow>
    list_all2 (\<lambda>f kv. fst kv = fd_name f \<and> typed E (fd_type f) (snd kv)) fs kvs \<Longrightarrow>
    typed E (TName x) (VStruct kvs)"

lemmas typed_plain = ty_bool ty_string ty_float ty_number ty_signed ty_unsigned ty_raw_nil ty_raw
  ty_any_nil ty_any ty_ptr_nil ty_ptr ty_slice_nil ty_slice ty_map_nil ty_map

declare typed_plain [intro]

inductive_cases typed_ptrE [elim!]: "typed E (TPtr t) v"
inductive_cases typed_sliceE [elim!]: "typed E (TSlice t) v"
inductive_cases typed_mapE [elim!]: "typed E (TMap t) v"
inductive_simps typed_value [simp]:
  "typed E (TSlice t) (VSlice vs)" "typed E (TPtr t) (VPtr v)" "typed E (TMap t) (VMap kvs)"
  "typed E (TPtr t) VNil" "typed E (TSlice t) VNil" "typed E (TMap t) VNil" "typed E TAny VNil" "typed E TAny (VIface t v)"
  "typed E TRaw v" "typed E TString v" "typed E TBool v"

inductive_cases typed_nameE: "typed E (TName x) v"

lemma typed_struct_iff:
  "struct_fields E x = Some fs \<Longrightarrow> typed E (TName x) v \<longleftrightarrow>
     (\<exists>kvs. v = VStruct kvs \<and> list_all2 (\<lambda>f kv. fst kv = fd_name f \<and> typed E (fd_type f) (snd kv)) fs kvs)"
  by (auto elim!: typed_nameE intro: ty_struct) (auto simp: struct_fields_def)

lemma typed_defined_iff:
  "E x = Some D \<Longrightarrow> gd_shape D = Defined t \<Longrightarrow> typed E (TName x) v \<longleftrightarrow> typed E t v"
  by (auto elim!: typed_nameE intro: ty_defined simp: struct_fields_def)

lemma typed_zero: "zero_deep E n t \<Longrightarrow> typed E t (zero E n t)"
proof (induction E n t rule: zero.induct)
  case (7 E n x)
  then obtain m where n: "n = Suc m" by (cases n) auto
  show ?case
  proof (cases "struct_fields E x")
    case (Some fs)
    with 7 n show ?thesis
      by (auto simp: typed_struct_iff list_all_iff list_all2_map2 list.rel_refl_strong list_all2_same)
  next
    case None
    with 7 n show ?thesis
      by (auto simp: typed_defined_iff split: option.splits go_shape.splits)
  qed
qed (auto simp: in_signed_def in_unsigned_def)

text \<open>Names are unfolded only where a proof asks for it.\<close>

declare zero.simps(7) [simp del] zero_deep.simps(1) [simp del]

end
