(* ===== verification/Acp_Types_1.thy ===== *)
theory Acp_Types_1
  imports Go_Types
begin

text \<open>
  The types \<open>Meta\<close> to \<open>ElicitationSchema\<close> of acp/types_gen.go: fields, \<open>UnmarshalJSON\<close> and
  \<open>MarshalJSON\<close>. The constants of a discriminator or an enumeration are written as their values.
\<close>

definition decl_Meta :: go_decl where
  "decl_Meta = defined_decl (TMap TAny) PlainNumbers"

definition unmarshal_AgentAuthCapabilities :: "(string \<times> string \<times> member_action) list" where
  "unmarshal_AgentAuthCapabilities =
    [(''Logout'', ''logout'', Tolerate), (''Status'', ''status'', Tolerate)]"

definition decl_AgentAuthCapabilities :: go_decl where
  "decl_AgentAuthCapabilities = struct_decl
    [omz ''Meta'' (TName ty_Meta) ''_meta'',
     opt ''Logout'' (TPtr (TName ty_LogoutCapabilities)) ''logout'',
     opt ''Status'' (TPtr (TName ty_AuthStatusCapabilities)) ''status'']
    (ByAlias unmarshal_AgentAuthCapabilities) Encoded"

definition unmarshal_AgentCapabilities :: "(string \<times> string \<times> member_action) list" where
  "unmarshal_AgentCapabilities =
    [(''Auth'', ''auth'', Tolerate), (''LoadSession'', ''loadSession'', Tolerate),
     (''McpCapabilities'', ''mcpCapabilities'', Tolerate),
     (''PromptCapabilities'', ''promptCapabilities'', Tolerate),
     (''Providers'', ''providers'', Tolerate),
     (''SessionCapabilities'', ''sessionCapabilities'', Tolerate)]"

definition decl_AgentCapabilities :: go_decl where
  "decl_AgentCapabilities = struct_decl
    [omz ''Meta'' (TName ty_Meta) ''_meta'',
     opt ''Auth'' (TPtr (TName ty_AgentAuthCapabilities)) ''auth'',
     opt ''LoadSession'' TBool ''loadSession'',
     opt ''McpCapabilities'' (TPtr (TName ty_McpCapabilities)) ''mcpCapabilities'',
     opt ''PromptCapabilities'' (TPtr (TName ty_PromptCapabilities)) ''promptCapabilities'',
     opt ''Providers'' (TPtr (TName ty_ProvidersCapabilities)) ''providers'',
     opt ''SessionCapabilities'' (TPtr (TName ty_SessionCapabilities)) ''sessionCapabilities'']
    (ByAlias unmarshal_AgentCapabilities) Encoded"

definition unmarshal_Annotations :: "(string \<times> string \<times> member_action) list" where
  "unmarshal_Annotations =
    [(''Audience'', ''audience'', TryItems (TName ty_Role) (ItemIn [''assistant'', ''user'']) True Address),
     (''LastModified'', ''lastModified'', Tolerate), (''Priority'', ''priority'', Tolerate)]"

definition decl_Annotations :: go_decl where
  "decl_Annotations = struct_decl
    [omz ''Meta'' (TName ty_Meta) ''_meta'',
     opt ''Audience'' (TPtr (TSlice (TName ty_Role))) ''audience'',
     opt ''LastModified'' (TPtr TString) ''lastModified'',
     opt ''Priority'' (TPtr TFloat64) ''priority'']
    (ByAlias unmarshal_Annotations) Encoded"

definition decl_ArchiveSessionRequest :: go_decl where
  "decl_ArchiveSessionRequest = struct_decl
    [omz ''Meta'' (TName ty_Meta) ''_meta'', fld ''SessionID'' (TName ty_SessionId) ''sessionId'']
    Reflected Encoded"

definition decl_ArchiveSessionResponse :: go_decl where
  "decl_ArchiveSessionResponse = struct_decl
    [omz ''Meta'' (TName ty_Meta) ''_meta'']
    Reflected Encoded"

definition unmarshal_AudioContent :: "(string \<times> string \<times> member_action) list" where
  "unmarshal_AudioContent =
    [(''Annotations'', ''annotations'', Tolerate)]"

definition decl_AudioContent :: go_decl where
  "decl_AudioContent = struct_decl
    [omz ''Meta'' (TName ty_Meta) ''_meta'',
     opt ''Annotations'' (TPtr (TName ty_Annotations)) ''annotations'',
     fld ''Data'' TString ''data'', fld ''MimeType'' TString ''mimeType'']
    (ByAlias unmarshal_AudioContent) Encoded"

definition unmarshal_AuthAccount :: "(string \<times> string \<times> member_action) list" where
  "unmarshal_AuthAccount =
    [(''Active'', ''active'', Tolerate), (''Email'', ''email'', Tolerate),
     (''Name'', ''name'', Tolerate), (''Organization'', ''organization'', Tolerate)]"

definition decl_AuthAccount :: go_decl where
  "decl_AuthAccount = struct_decl
    [omz ''Meta'' (TName ty_Meta) ''_meta'', opt ''Active'' (TPtr TBool) ''active'',
     opt ''Email'' (TPtr TString) ''email'', fld ''Label'' TString ''label'',
     opt ''Name'' (TPtr TString) ''name'', opt ''Organization'' (TPtr TString) ''organization'']
    (ByAlias unmarshal_AuthAccount) Encoded"

definition unmarshal_AuthCapabilities :: "(string \<times> string \<times> member_action) list" where
  "unmarshal_AuthCapabilities =
    [(''Terminal'', ''terminal'', Tolerate)]"

definition decl_AuthCapabilities :: go_decl where
  "decl_AuthCapabilities = struct_decl
    [omz ''Meta'' (TName ty_Meta) ''_meta'', opt ''Terminal'' TBool ''terminal'']
    (ByAlias unmarshal_AuthCapabilities) Encoded"

definition unmarshal_AuthMethod :: "(string \<times> string \<times> member_action) list" where
  "unmarshal_AuthMethod =
    [(''Description'', ''description'', Tolerate)]"

definition decl_AuthMethod :: go_decl where
  "decl_AuthMethod = struct_decl
    [opt ''Type'' (TName ty_AuthMethodType) ''type'', omz ''Meta'' (TName ty_Meta) ''_meta'',
     opt ''Args'' (TSlice TString) ''args'', opt ''Description'' (TPtr TString) ''description'',
     opt ''Env'' (TMap TString) ''env'', fld ''ID'' (TName ty_AuthMethodId) ''id'',
     fld ''Name'' TString ''name'']
    (ByAlias unmarshal_AuthMethod) Encoded"

definition decl_AuthMethodType :: go_decl where
  "decl_AuthMethodType = defined_decl TString Reflected"

definition unmarshal_AuthMethodAgent :: "(string \<times> string \<times> member_action) list" where
  "unmarshal_AuthMethodAgent =
    [(''Description'', ''description'', Tolerate)]"

definition decl_AuthMethodAgent :: go_decl where
  "decl_AuthMethodAgent = struct_decl
    [omz ''Meta'' (TName ty_Meta) ''_meta'', opt ''Description'' (TPtr TString) ''description'',
     fld ''ID'' (TName ty_AuthMethodId) ''id'', fld ''Name'' TString ''name'']
    (ByAlias unmarshal_AuthMethodAgent) Encoded"

definition decl_AuthMethodId :: go_decl where
  "decl_AuthMethodId = defined_decl TString Reflected"

definition unmarshal_AuthMethodTerminal :: "(string \<times> string \<times> member_action) list" where
  "unmarshal_AuthMethodTerminal =
    [(''Description'', ''description'', Tolerate)]"

definition decl_AuthMethodTerminal :: go_decl where
  "decl_AuthMethodTerminal = struct_decl
    [omz ''Meta'' (TName ty_Meta) ''_meta'', opt ''Args'' (TSlice TString) ''args'',
     opt ''Description'' (TPtr TString) ''description'', opt ''Env'' (TMap TString) ''env'',
     fld ''ID'' (TName ty_AuthMethodId) ''id'', fld ''Name'' TString ''name'']
    (ByAlias unmarshal_AuthMethodTerminal) Encoded"

definition decl_AuthState :: go_decl where
  "decl_AuthState = defined_decl TString Reflected"

definition decl_AuthStatusCapabilities :: go_decl where
  "decl_AuthStatusCapabilities = struct_decl
    [omz ''Meta'' (TName ty_Meta) ''_meta'']
    Reflected Encoded"

definition decl_AuthStatusRequest :: go_decl where
  "decl_AuthStatusRequest = struct_decl
    [omz ''Meta'' (TName ty_Meta) ''_meta'']
    Reflected Encoded"

definition unmarshal_AuthStatusResponse :: "(string \<times> string \<times> member_action) list" where
  "unmarshal_AuthStatusResponse =
    [(''Accounts'', ''accounts'', TryItems (TName ty_AuthAccount) AnyItem False Same)]"

definition decl_AuthStatusResponse :: go_decl where
  "decl_AuthStatusResponse = struct_decl
    [omz ''Meta'' (TName ty_Meta) ''_meta'',
     opt ''Accounts'' (TSlice (TName ty_AuthAccount)) ''accounts'',
     fld ''State'' (TName ty_AuthState) ''state'']
    (ByAlias unmarshal_AuthStatusResponse) Encoded"

definition unmarshal_AuthStatusUpdateNotification :: "(string \<times> string \<times> member_action) list" where
  "unmarshal_AuthStatusUpdateNotification =
    [(''Accounts'', ''accounts'', TryItems (TName ty_AuthAccount) AnyItem False Same)]"

definition decl_AuthStatusUpdateNotification :: go_decl where
  "decl_AuthStatusUpdateNotification = struct_decl
    [omz ''Meta'' (TName ty_Meta) ''_meta'',
     opt ''Accounts'' (TSlice (TName ty_AuthAccount)) ''accounts'',
     fld ''State'' (TName ty_AuthState) ''state'']
    (ByAlias unmarshal_AuthStatusUpdateNotification) Encoded"

definition decl_AuthenticateRequest :: go_decl where
  "decl_AuthenticateRequest = struct_decl
    [omz ''Meta'' (TName ty_Meta) ''_meta'',
     fld ''MethodID'' (TName ty_AuthMethodId) ''methodId'']
    Reflected Encoded"

definition decl_AuthenticateResponse :: go_decl where
  "decl_AuthenticateResponse = struct_decl
    [omz ''Meta'' (TName ty_Meta) ''_meta'']
    Reflected Encoded"

definition unmarshal_AvailableCommand :: "(string \<times> string \<times> member_action) list" where
  "unmarshal_AvailableCommand =
    [(''Input'', ''input'', Tolerate)]"

definition decl_AvailableCommand :: go_decl where
  "decl_AvailableCommand = struct_decl
    [omz ''Meta'' (TName ty_Meta) ''_meta'', fld ''Description'' TString ''description'',
     opt ''Input'' (TPtr (TName ty_AvailableCommandInput)) ''input'',
     fld ''Name'' TString ''name'']
    (ByAlias unmarshal_AvailableCommand) Encoded"

definition decl_AvailableCommandInput :: go_decl where
  "decl_AvailableCommandInput = struct_decl
    [omz ''Meta'' (TName ty_Meta) ''_meta'', fld ''Hint'' TString ''hint'']
    Reflected Encoded"

definition unmarshal_AvailableCommandsUpdate :: "(string \<times> string \<times> member_action) list" where
  "unmarshal_AvailableCommandsUpdate =
    [(''AvailableCommands'', ''availableCommands'', TryItems (TName ty_AvailableCommand) AnyItem False Same)]"

definition marshal_AvailableCommandsUpdate :: marshaler where
  "marshal_AvailableCommandsUpdate = ByWire
    []
    [NonNil ''AvailableCommands'']"

definition decl_AvailableCommandsUpdate :: go_decl where
  "decl_AvailableCommandsUpdate = struct_decl
    [omz ''Meta'' (TName ty_Meta) ''_meta'',
     fld ''AvailableCommands'' (TSlice (TName ty_AvailableCommand)) ''availableCommands'']
    (ByAlias unmarshal_AvailableCommandsUpdate) marshal_AvailableCommandsUpdate"

definition unmarshal_BlobResourceContents :: "(string \<times> string \<times> member_action) list" where
  "unmarshal_BlobResourceContents =
    [(''MimeType'', ''mimeType'', Tolerate)]"

definition decl_BlobResourceContents :: go_decl where
  "decl_BlobResourceContents = struct_decl
    [omz ''Meta'' (TName ty_Meta) ''_meta'', fld ''Blob'' TString ''blob'',
     opt ''MimeType'' (TPtr TString) ''mimeType'', fld ''URI'' TString ''uri'']
    (ByAlias unmarshal_BlobResourceContents) Encoded"

definition decl_BooleanConfigOptionCapabilities :: go_decl where
  "decl_BooleanConfigOptionCapabilities = struct_decl
    [omz ''Meta'' (TName ty_Meta) ''_meta'']
    Reflected Encoded"

definition unmarshal_BooleanPropertySchema :: "(string \<times> string \<times> member_action) list" where
  "unmarshal_BooleanPropertySchema =
    [(''Default'', ''default'', Tolerate), (''Description'', ''description'', Tolerate),
     (''Title'', ''title'', Tolerate)]"

definition decl_BooleanPropertySchema :: go_decl where
  "decl_BooleanPropertySchema = struct_decl
    [omz ''Meta'' (TName ty_Meta) ''_meta'', opt ''Default'' (TPtr TBool) ''default'',
     opt ''Description'' (TPtr TString) ''description'', opt ''Title'' (TPtr TString) ''title'']
    (ByAlias unmarshal_BooleanPropertySchema) Encoded"

definition decl_CancelNotification :: go_decl where
  "decl_CancelNotification = struct_decl
    [omz ''Meta'' (TName ty_Meta) ''_meta'', fld ''SessionID'' (TName ty_SessionId) ''sessionId'']
    Reflected Encoded"

definition unmarshal_ClientCapabilities :: "(string \<times> string \<times> member_action) list" where
  "unmarshal_ClientCapabilities =
    [(''Auth'', ''auth'', Tolerate), (''Elicitation'', ''elicitation'', Tolerate),
     (''Fs'', ''fs'', Tolerate), (''Plan'', ''plan'', Tolerate),
     (''Session'', ''session'', Tolerate), (''Subagents'', ''subagents'', Tolerate),
     (''Terminal'', ''terminal'', Tolerate)]"

definition decl_ClientCapabilities :: go_decl where
  "decl_ClientCapabilities = struct_decl
    [omz ''Meta'' (TName ty_Meta) ''_meta'',
     opt ''Auth'' (TPtr (TName ty_AuthCapabilities)) ''auth'',
     opt ''Elicitation'' (TPtr (TName ty_ElicitationCapabilities)) ''elicitation'',
     opt ''Fs'' (TPtr (TName ty_FileSystemCapabilities)) ''fs'',
     opt ''Plan'' (TPtr (TName ty_PlanCapabilities)) ''plan'',
     opt ''Session'' (TPtr (TName ty_ClientSessionCapabilities)) ''session'',
     opt ''Subagents'' (TPtr (TName ty_SubagentCapabilities)) ''subagents'',
     opt ''Terminal'' TBool ''terminal'']
    (ByAlias unmarshal_ClientCapabilities) Encoded"

definition unmarshal_ClientSessionCapabilities :: "(string \<times> string \<times> member_action) list" where
  "unmarshal_ClientSessionCapabilities =
    [(''Compaction'', ''compaction'', Tolerate),
     (''ConfigOptions'', ''configOptions'', Tolerate), (''Notices'', ''notices'', Tolerate)]"

definition decl_ClientSessionCapabilities :: go_decl where
  "decl_ClientSessionCapabilities = struct_decl
    [omz ''Meta'' (TName ty_Meta) ''_meta'',
     opt ''Compaction'' (TPtr (TName ty_CompactionCapabilities)) ''compaction'',
     opt ''ConfigOptions'' (TPtr (TName ty_SessionConfigOptionsCapabilities)) ''configOptions'',
     opt ''Notices'' (TPtr (TName ty_NoticeCapabilities)) ''notices'']
    (ByAlias unmarshal_ClientSessionCapabilities) Encoded"

definition decl_CloseSessionRequest :: go_decl where
  "decl_CloseSessionRequest = struct_decl
    [omz ''Meta'' (TName ty_Meta) ''_meta'', fld ''SessionID'' (TName ty_SessionId) ''sessionId'']
    Reflected Encoded"

definition decl_CloseSessionResponse :: go_decl where
  "decl_CloseSessionResponse = struct_decl
    [omz ''Meta'' (TName ty_Meta) ''_meta'']
    Reflected Encoded"

definition decl_CompactionCapabilities :: go_decl where
  "decl_CompactionCapabilities = defined_decl (TMap TAny) PlainNumbers"

definition decl_CompactionId :: go_decl where
  "decl_CompactionId = defined_decl TString Reflected"

definition decl_CompactionStatus :: go_decl where
  "decl_CompactionStatus = defined_decl TString Reflected"

definition decl_CompactionSummaryChunk :: go_decl where
  "decl_CompactionSummaryChunk = struct_decl
    [omz ''Meta'' (TName ty_Meta) ''_meta'',
     fld ''CompactionID'' (TName ty_CompactionId) ''compactionId'',
     fld ''Content'' (TName ty_ContentBlock) ''content'']
    Reflected Encoded"

definition unmarshal_CompactionUpdate :: "(string \<times> string \<times> member_action) list" where
  "unmarshal_CompactionUpdate =
    [(''Error'', ''error'', Tolerate),
     (''Summary'', ''summary'', TryItems (TName ty_ContentBlock) (ItemField ''Type'' [''text'', ''image'', ''audio'', ''resource_link'', ''resource'']) True Address)]"

definition decl_CompactionUpdate :: go_decl where
  "decl_CompactionUpdate = struct_decl
    [omz ''Meta'' (TName ty_Meta) ''_meta'',
     fld ''CompactionID'' (TName ty_CompactionId) ''compactionId'',
     opt ''Error'' (TPtr TString) ''error'',
     fld ''Status'' (TName ty_CompactionStatus) ''status'',
     opt ''Summary'' (TPtr (TSlice (TName ty_ContentBlock))) ''summary'']
    (ByAlias unmarshal_CompactionUpdate) Encoded"

definition decl_CompleteElicitationNotification :: go_decl where
  "decl_CompleteElicitationNotification = struct_decl
    [omz ''Meta'' (TName ty_Meta) ''_meta'',
     fld ''ElicitationID'' (TName ty_ElicitationId) ''elicitationId'']
    Reflected Encoded"

definition unmarshal_ConfigOptionUpdate :: "(string \<times> string \<times> member_action) list" where
  "unmarshal_ConfigOptionUpdate =
    [(''ConfigOptions'', ''configOptions'', TryItems (TName ty_SessionConfigOption) (ItemField ''Type'' [''select'', ''boolean'']) False Same)]"

definition marshal_ConfigOptionUpdate :: marshaler where
  "marshal_ConfigOptionUpdate = ByWire
    []
    [NonNil ''ConfigOptions'']"

definition decl_ConfigOptionUpdate :: go_decl where
  "decl_ConfigOptionUpdate = struct_decl
    [omz ''Meta'' (TName ty_Meta) ''_meta'',
     fld ''ConfigOptions'' (TSlice (TName ty_SessionConfigOption)) ''configOptions'']
    (ByAlias unmarshal_ConfigOptionUpdate) marshal_ConfigOptionUpdate"

definition decl_Content :: go_decl where
  "decl_Content = struct_decl
    [omz ''Meta'' (TName ty_Meta) ''_meta'', fld ''Content'' (TName ty_ContentBlock) ''content'']
    Reflected Encoded"

definition unmarshal_ContentBlock :: "(string \<times> string \<times> member_action) list" where
  "unmarshal_ContentBlock =
    [(''Annotations'', ''annotations'', Tolerate),
     (''Description'', ''description'', Tolerate),
     (''MimeType'', ''mimeType'', SwitchOn ''Type''
        [(''image'', Into TString Address), (''audio'', Into TString Address),
         (''resource_link'', TryInto (TPtr TString) Same)]),
     (''Size'', ''size'', Tolerate),
     (''Title'', ''title'', Tolerate),
     (''URI'', ''uri'', SwitchOn ''Type''
        [(''image'', TryInto (TPtr TString) Same), (''resource_link'', Into TString Address)])]"

definition marshal_ContentBlock :: marshaler where
  "marshal_ContentBlock = ByWire
    [opt ''Text'' (TPtr TString) ''text'', opt ''Data'' (TPtr TString) ''data'',
     opt ''MimeType'' (TPtr (TPtr TString)) ''mimeType'', opt ''Name'' (TPtr TString) ''name'',
     opt ''URI'' (TPtr (TPtr TString)) ''uri'',
     opt ''Resource'' (TPtr (TName ty_EmbeddedResourceResource)) ''resource'']
    [SendNonZero ''Text'', SendNonZero ''Data'', SendNonNil ''MimeType'', SendNonZero ''Name'',
     SendNonNil ''URI'', SendNonZero ''Resource'',
     EmitSwitch ''Type''
       [(''text'', [Send ''Text'']),
        (''image'', [Send ''Data'', Send ''MimeType'']),
        (''audio'', [Send ''Data'', Send ''MimeType'']),
        (''resource_link'', [Send ''Name'', Send ''URI'']),
        (''resource'', [Send ''Resource''])]]"

definition decl_ContentBlock :: go_decl where
  "decl_ContentBlock = struct_decl
    [fld ''Type'' (TName ty_ContentBlockType) ''type'', omz ''Meta'' (TName ty_Meta) ''_meta'',
     opt ''Annotations'' (TPtr (TName ty_Annotations)) ''annotations'',
     opt ''Data'' TString ''data'', opt ''Description'' (TPtr TString) ''description'',
     opt ''MimeType'' (TPtr TString) ''mimeType'', opt ''Name'' TString ''name'',
     optz ''Resource'' (TName ty_EmbeddedResourceResource) ''resource'',
     opt ''Size'' (TPtr (TSigned 64)) ''size'', opt ''Text'' TString ''text'',
     opt ''Title'' (TPtr TString) ''title'', opt ''URI'' (TPtr TString) ''uri'']
    (ByAlias unmarshal_ContentBlock) marshal_ContentBlock"

definition decl_ContentBlockType :: go_decl where
  "decl_ContentBlockType = defined_decl TString Reflected"

definition unmarshal_ContentChunk :: "(string \<times> string \<times> member_action) list" where
  "unmarshal_ContentChunk =
    [(''MessageID'', ''messageId'', Tolerate)]"

definition decl_ContentChunk :: go_decl where
  "decl_ContentChunk = struct_decl
    [omz ''Meta'' (TName ty_Meta) ''_meta'', fld ''Content'' (TName ty_ContentBlock) ''content'',
     opt ''MessageID'' (TPtr (TName ty_MessageId)) ''messageId'']
    (ByAlias unmarshal_ContentChunk) Encoded"

definition decl_Cost :: go_decl where
  "decl_Cost = struct_decl
    [omz ''Meta'' (TName ty_Meta) ''_meta'', fld ''Amount'' TFloat64 ''amount'',
     fld ''Currency'' TString ''currency'']
    Reflected Encoded"

definition unmarshal_CreateElicitationRequest :: "(string \<times> string \<times> member_action) list" where
  "unmarshal_CreateElicitationRequest =
    [(''ToolCallID'', ''toolCallId'', Tolerate)]"

definition marshal_CreateElicitationRequest :: marshaler where
  "marshal_CreateElicitationRequest = ByWire
    [opt ''RequestedSchema'' (TPtr (TName ty_ElicitationSchema)) ''requestedSchema'',
     opt ''ElicitationID'' (TPtr (TName ty_ElicitationId)) ''elicitationId'',
     opt ''Url'' (TPtr TString) ''url'']
    [SendNonZero ''RequestedSchema'', SendNonZero ''ElicitationID'', SendNonZero ''Url'',
     EmitSwitch ''Mode''
       [(''form'', [Send ''RequestedSchema'']),
        (''url'', [Send ''ElicitationID'', Send ''Url''])]]"

definition decl_CreateElicitationRequest :: go_decl where
  "decl_CreateElicitationRequest = struct_decl
    [fld ''Mode'' (TName ty_CreateElicitationRequestType) ''mode'',
     omz ''Meta'' (TName ty_Meta) ''_meta'',
     opt ''ElicitationID'' (TName ty_ElicitationId) ''elicitationId'',
     fld ''Message'' TString ''message'', opt ''RequestID'' TRaw ''requestId'',
     optz ''RequestedSchema'' (TName ty_ElicitationSchema) ''requestedSchema'',
     opt ''SessionID'' (TName ty_SessionId) ''sessionId'',
     opt ''ToolCallID'' (TPtr (TName ty_ToolCallId)) ''toolCallId'', opt ''Url'' TString ''url'']
    (ByAlias unmarshal_CreateElicitationRequest) marshal_CreateElicitationRequest"

definition decl_CreateElicitationRequestType :: go_decl where
  "decl_CreateElicitationRequestType = defined_decl TString Reflected"

definition decl_CreateElicitationResponse :: go_decl where
  "decl_CreateElicitationResponse = struct_decl
    [fld ''Action'' (TName ty_CreateElicitationResponseType) ''action'',
     omz ''Meta'' (TName ty_Meta) ''_meta'', opt ''Content'' (TPtr (TMap TRaw)) ''content'']
    Reflected Encoded"

definition decl_CreateElicitationResponseType :: go_decl where
  "decl_CreateElicitationResponseType = defined_decl TString Reflected"

definition decl_CreateTerminalRequest :: go_decl where
  "decl_CreateTerminalRequest = struct_decl
    [omz ''Meta'' (TName ty_Meta) ''_meta'', opt ''Args'' (TSlice TString) ''args'',
     fld ''Command'' TString ''command'', opt ''Cwd'' (TPtr TString) ''cwd'',
     opt ''Env'' (TSlice (TName ty_EnvVariable)) ''env'',
     opt ''OutputByteLimit'' (TPtr (TUnsigned 64)) ''outputByteLimit'',
     fld ''SessionID'' (TName ty_SessionId) ''sessionId'']
    Reflected Encoded"

definition decl_CreateTerminalResponse :: go_decl where
  "decl_CreateTerminalResponse = struct_decl
    [omz ''Meta'' (TName ty_Meta) ''_meta'',
     fld ''TerminalID'' (TName ty_TerminalId) ''terminalId'']
    Reflected Encoded"

definition decl_CurrentModeUpdate :: go_decl where
  "decl_CurrentModeUpdate = struct_decl
    [omz ''Meta'' (TName ty_Meta) ''_meta'',
     fld ''CurrentModeID'' (TName ty_SessionModeId) ''currentModeId'']
    Reflected Encoded"

definition decl_DeleteSessionRequest :: go_decl where
  "decl_DeleteSessionRequest = struct_decl
    [omz ''Meta'' (TName ty_Meta) ''_meta'', fld ''SessionID'' (TName ty_SessionId) ''sessionId'']
    Reflected Encoded"

definition decl_DeleteSessionResponse :: go_decl where
  "decl_DeleteSessionResponse = struct_decl
    [omz ''Meta'' (TName ty_Meta) ''_meta'']
    Reflected Encoded"

definition unmarshal_Diff :: "(string \<times> string \<times> member_action) list" where
  "unmarshal_Diff =
    [(''OldText'', ''oldText'', Tolerate)]"

definition decl_Diff :: go_decl where
  "decl_Diff = struct_decl
    [omz ''Meta'' (TName ty_Meta) ''_meta'', fld ''NewText'' TString ''newText'',
     opt ''OldText'' (TPtr TString) ''oldText'', fld ''Path'' TString ''path'']
    (ByAlias unmarshal_Diff) Encoded"

definition decl_DisableProviderRequest :: go_decl where
  "decl_DisableProviderRequest = struct_decl
    [omz ''Meta'' (TName ty_Meta) ''_meta'',
     fld ''ProviderID'' (TName ty_ProviderId) ''providerId'']
    Reflected Encoded"

definition decl_DisableProviderResponse :: go_decl where
  "decl_DisableProviderResponse = struct_decl
    [omz ''Meta'' (TName ty_Meta) ''_meta'']
    Reflected Encoded"

definition decl_ElicitationAcceptAction :: go_decl where
  "decl_ElicitationAcceptAction = struct_decl
    [opt ''Content'' (TPtr (TMap TRaw)) ''content'']
    Reflected Encoded"

definition unmarshal_ElicitationCapabilities :: "(string \<times> string \<times> member_action) list" where
  "unmarshal_ElicitationCapabilities =
    [(''Form'', ''form'', Tolerate), (''Url'', ''url'', Tolerate)]"

definition decl_ElicitationCapabilities :: go_decl where
  "decl_ElicitationCapabilities = struct_decl
    [omz ''Meta'' (TName ty_Meta) ''_meta'',
     opt ''Form'' (TPtr (TName ty_ElicitationFormCapabilities)) ''form'',
     opt ''Url'' (TPtr (TName ty_ElicitationUrlCapabilities)) ''url'']
    (ByAlias unmarshal_ElicitationCapabilities) Encoded"

definition decl_ElicitationFormCapabilities :: go_decl where
  "decl_ElicitationFormCapabilities = struct_decl
    [omz ''Meta'' (TName ty_Meta) ''_meta'']
    Reflected Encoded"

definition unmarshal_ElicitationFormMode :: "(string \<times> string \<times> member_action) list" where
  "unmarshal_ElicitationFormMode =
    [(''ToolCallID'', ''toolCallId'', Tolerate)]"

definition decl_ElicitationFormMode :: go_decl where
  "decl_ElicitationFormMode = struct_decl
    [opt ''RequestID'' (TPtr TRaw) ''requestId'',
     fld ''RequestedSchema'' (TName ty_ElicitationSchema) ''requestedSchema'',
     opt ''SessionID'' (TPtr (TName ty_SessionId)) ''sessionId'',
     opt ''ToolCallID'' (TPtr (TName ty_ToolCallId)) ''toolCallId'']
    (ByAlias unmarshal_ElicitationFormMode) Encoded"

definition decl_ElicitationId :: go_decl where
  "decl_ElicitationId = defined_decl TString Reflected"

definition unmarshal_ElicitationPropertySchema :: "(string \<times> string \<times> member_action) list" where
  "unmarshal_ElicitationPropertySchema =
    [(''Default'', ''default'', SwitchOn ''Type''
        [(''string'', TryInto (TPtr TString) (Box (TPtr TString))),
         (''number'', TryInto (TPtr TFloat64) (Box (TPtr TFloat64))),
         (''integer'', TryInto (TPtr (TSigned 64)) (Box (TPtr (TSigned 64)))),
         (''boolean'', TryInto (TPtr TBool) (Box (TPtr TBool))),
         (''array'', TryItems TString AnyItem True (BoxAddress (TSlice TString)))]),
     (''Description'', ''description'', Tolerate),
     (''Title'', ''title'', Tolerate)]"

definition marshal_ElicitationPropertySchema :: marshaler where
  "marshal_ElicitationPropertySchema = ByWire
    [opt ''Items'' (TPtr (TName ty_MultiSelectItems)) ''items'']
    [SendNonZero ''Items'',
     EmitSwitch ''Type''
       [(''array'', [Send ''Items''])]]"

definition decl_ElicitationPropertySchema :: go_decl where
  "decl_ElicitationPropertySchema = struct_decl
    [fld ''Type'' (TName ty_ElicitationPropertySchemaType) ''type'',
     omz ''Meta'' (TName ty_Meta) ''_meta'', opt ''Default'' TAny ''default'',
     opt ''Description'' (TPtr TString) ''description'',
     opt ''Enum'' (TPtr (TSlice TString)) ''enum'',
     opt ''Format'' (TPtr (TName ty_StringFormat)) ''format'',
     optz ''Items'' (TName ty_MultiSelectItems) ''items'',
     opt ''MaxItems'' (TPtr (TUnsigned 64)) ''maxItems'',
     opt ''MaxLength'' (TPtr (TUnsigned 32)) ''maxLength'', opt ''Maximum'' TAny ''maximum'',
     opt ''MinItems'' (TPtr (TUnsigned 64)) ''minItems'',
     opt ''MinLength'' (TPtr (TUnsigned 32)) ''minLength'', opt ''Minimum'' TAny ''minimum'',
     opt ''OneOf'' (TPtr (TSlice (TName ty_EnumOption))) ''oneOf'',
     opt ''Pattern'' (TPtr TString) ''pattern'', opt ''Title'' (TPtr TString) ''title'']
    (ByAlias unmarshal_ElicitationPropertySchema) marshal_ElicitationPropertySchema"

definition decl_ElicitationPropertySchemaType :: go_decl where
  "decl_ElicitationPropertySchemaType = defined_decl TString Reflected"

definition decl_ElicitationRequestScope :: go_decl where
  "decl_ElicitationRequestScope = struct_decl
    [fld ''RequestID'' TRaw ''requestId'']
    Reflected Encoded"

definition unmarshal_ElicitationSchema :: "(string \<times> string \<times> member_action) list" where
  "unmarshal_ElicitationSchema =
    [(''Description'', ''description'', Tolerate), (''Title'', ''title'', Tolerate),
     (''Type'', ''type'', TryEnum (TName ty_ElicitationSchemaType) [''object''] Same)]"

definition decl_ElicitationSchema :: go_decl where
  "decl_ElicitationSchema = struct_decl
    [omz ''Meta'' (TName ty_Meta) ''_meta'', opt ''Description'' (TPtr TString) ''description'',
     opt ''Properties'' (TMap (TName ty_ElicitationPropertySchema)) ''properties'',
     opt ''Required'' (TPtr (TSlice TString)) ''required'',
     opt ''Title'' (TPtr TString) ''title'',
     opt ''Type'' (TName ty_ElicitationSchemaType) ''type'']
    (ByAlias unmarshal_ElicitationSchema) Encoded"

definition acp_1 :: go_env where
  "acp_1 x =
    (if x = ty_Meta then Some decl_Meta
     else if x = ty_AgentAuthCapabilities then Some decl_AgentAuthCapabilities
     else if x = ty_AgentCapabilities then Some decl_AgentCapabilities
     else if x = ty_Annotations then Some decl_Annotations
     else if x = ty_ArchiveSessionRequest then Some decl_ArchiveSessionRequest
     else if x = ty_ArchiveSessionResponse then Some decl_ArchiveSessionResponse
     else if x = ty_AudioContent then Some decl_AudioContent
     else if x = ty_AuthAccount then Some decl_AuthAccount
     else if x = ty_AuthCapabilities then Some decl_AuthCapabilities
     else if x = ty_AuthMethod then Some decl_AuthMethod
     else if x = ty_AuthMethodType then Some decl_AuthMethodType
     else if x = ty_AuthMethodAgent then Some decl_AuthMethodAgent
     else if x = ty_AuthMethodId then Some decl_AuthMethodId
     else if x = ty_AuthMethodTerminal then Some decl_AuthMethodTerminal
     else if x = ty_AuthState then Some decl_AuthState
     else if x = ty_AuthStatusCapabilities then Some decl_AuthStatusCapabilities
     else if x = ty_AuthStatusRequest then Some decl_AuthStatusRequest
     else if x = ty_AuthStatusResponse then Some decl_AuthStatusResponse
     else if x = ty_AuthStatusUpdateNotification then Some decl_AuthStatusUpdateNotification
     else if x = ty_AuthenticateRequest then Some decl_AuthenticateRequest
     else if x = ty_AuthenticateResponse then Some decl_AuthenticateResponse
     else if x = ty_AvailableCommand then Some decl_AvailableCommand
     else if x = ty_AvailableCommandInput then Some decl_AvailableCommandInput
     else if x = ty_AvailableCommandsUpdate then Some decl_AvailableCommandsUpdate
     else if x = ty_BlobResourceContents then Some decl_BlobResourceContents
     else if x = ty_BooleanConfigOptionCapabilities then Some decl_BooleanConfigOptionCapabilities
     else if x = ty_BooleanPropertySchema then Some decl_BooleanPropertySchema
     else if x = ty_CancelNotification then Some decl_CancelNotification
     else if x = ty_ClientCapabilities then Some decl_ClientCapabilities
     else if x = ty_ClientSessionCapabilities then Some decl_ClientSessionCapabilities
     else if x = ty_CloseSessionRequest then Some decl_CloseSessionRequest
     else if x = ty_CloseSessionResponse then Some decl_CloseSessionResponse
     else if x = ty_CompactionCapabilities then Some decl_CompactionCapabilities
     else if x = ty_CompactionId then Some decl_CompactionId
     else if x = ty_CompactionStatus then Some decl_CompactionStatus
     else if x = ty_CompactionSummaryChunk then Some decl_CompactionSummaryChunk
     else if x = ty_CompactionUpdate then Some decl_CompactionUpdate
     else if x = ty_CompleteElicitationNotification then Some decl_CompleteElicitationNotification
     else if x = ty_ConfigOptionUpdate then Some decl_ConfigOptionUpdate
     else if x = ty_Content then Some decl_Content
     else if x = ty_ContentBlock then Some decl_ContentBlock
     else if x = ty_ContentBlockType then Some decl_ContentBlockType
     else if x = ty_ContentChunk then Some decl_ContentChunk
     else if x = ty_Cost then Some decl_Cost
     else if x = ty_CreateElicitationRequest then Some decl_CreateElicitationRequest
     else if x = ty_CreateElicitationRequestType then Some decl_CreateElicitationRequestType
     else if x = ty_CreateElicitationResponse then Some decl_CreateElicitationResponse
     else if x = ty_CreateElicitationResponseType then Some decl_CreateElicitationResponseType
     else if x = ty_CreateTerminalRequest then Some decl_CreateTerminalRequest
     else if x = ty_CreateTerminalResponse then Some decl_CreateTerminalResponse
     else if x = ty_CurrentModeUpdate then Some decl_CurrentModeUpdate
     else if x = ty_DeleteSessionRequest then Some decl_DeleteSessionRequest
     else if x = ty_DeleteSessionResponse then Some decl_DeleteSessionResponse
     else if x = ty_Diff then Some decl_Diff
     else if x = ty_DisableProviderRequest then Some decl_DisableProviderRequest
     else if x = ty_DisableProviderResponse then Some decl_DisableProviderResponse
     else if x = ty_ElicitationAcceptAction then Some decl_ElicitationAcceptAction
     else if x = ty_ElicitationCapabilities then Some decl_ElicitationCapabilities
     else if x = ty_ElicitationFormCapabilities then Some decl_ElicitationFormCapabilities
     else if x = ty_ElicitationFormMode then Some decl_ElicitationFormMode
     else if x = ty_ElicitationId then Some decl_ElicitationId
     else if x = ty_ElicitationPropertySchema then Some decl_ElicitationPropertySchema
     else if x = ty_ElicitationPropertySchemaType then Some decl_ElicitationPropertySchemaType
     else if x = ty_ElicitationRequestScope then Some decl_ElicitationRequestScope
     else if x = ty_ElicitationSchema then Some decl_ElicitationSchema
     else None)"

end
