(* ===== verification/Acp_Types_2.thy ===== *)
theory Acp_Types_2
  imports Go_Types
begin

text \<open>
  The types \<open>ElicitationSchemaType\<close> to \<open>PermissionOptionKind\<close> of acp/types_gen.go: fields, \<open>UnmarshalJSON\<close> and
  \<open>MarshalJSON\<close>. The constants of a discriminator or an enumeration are written as their values.
\<close>

definition decl_ElicitationSchemaType :: go_decl where
  "decl_ElicitationSchemaType = defined_decl TString Reflected"

definition unmarshal_ElicitationSessionScope :: "(string \<times> string \<times> member_action) list" where
  "unmarshal_ElicitationSessionScope =
    [(''ToolCallID'', ''toolCallId'', Tolerate)]"

definition decl_ElicitationSessionScope :: go_decl where
  "decl_ElicitationSessionScope = struct_decl
    [fld ''SessionID'' (TName ty_SessionId) ''sessionId'',
     opt ''ToolCallID'' (TPtr (TName ty_ToolCallId)) ''toolCallId'']
    (ByAlias unmarshal_ElicitationSessionScope) Encoded"

definition decl_ElicitationUrlCapabilities :: go_decl where
  "decl_ElicitationUrlCapabilities = struct_decl
    [omz ''Meta'' (TName ty_Meta) ''_meta'']
    Reflected Encoded"

definition unmarshal_ElicitationUrlMode :: "(string \<times> string \<times> member_action) list" where
  "unmarshal_ElicitationUrlMode =
    [(''ToolCallID'', ''toolCallId'', Tolerate)]"

definition decl_ElicitationUrlMode :: go_decl where
  "decl_ElicitationUrlMode = struct_decl
    [fld ''ElicitationID'' (TName ty_ElicitationId) ''elicitationId'',
     opt ''RequestID'' (TPtr TRaw) ''requestId'',
     opt ''SessionID'' (TPtr (TName ty_SessionId)) ''sessionId'',
     opt ''ToolCallID'' (TPtr (TName ty_ToolCallId)) ''toolCallId'', fld ''Url'' TString ''url'']
    (ByAlias unmarshal_ElicitationUrlMode) Encoded"

definition unmarshal_EmbeddedResource :: "(string \<times> string \<times> member_action) list" where
  "unmarshal_EmbeddedResource =
    [(''Annotations'', ''annotations'', Tolerate)]"

definition decl_EmbeddedResource :: go_decl where
  "decl_EmbeddedResource = struct_decl
    [omz ''Meta'' (TName ty_Meta) ''_meta'',
     opt ''Annotations'' (TPtr (TName ty_Annotations)) ''annotations'',
     fld ''Resource'' (TName ty_EmbeddedResourceResource) ''resource'']
    (ByAlias unmarshal_EmbeddedResource) Encoded"

definition unmarshal_EmbeddedResourceResource :: "(string \<times> string \<times> member_action) list" where
  "unmarshal_EmbeddedResourceResource =
    [(''MimeType'', ''mimeType'', Tolerate)]"

definition decl_EmbeddedResourceResource :: go_decl where
  "decl_EmbeddedResourceResource = struct_decl
    [omz ''Meta'' (TName ty_Meta) ''_meta'', opt ''Blob'' (TPtr TString) ''blob'',
     opt ''MimeType'' (TPtr TString) ''mimeType'', opt ''Text'' (TPtr TString) ''text'',
     fld ''URI'' TString ''uri'']
    (ByAlias unmarshal_EmbeddedResourceResource) Encoded"

definition unmarshal_EnumOption :: "(string \<times> string \<times> member_action) list" where
  "unmarshal_EnumOption =
    [(''Description'', ''description'', Tolerate)]"

definition decl_EnumOption :: go_decl where
  "decl_EnumOption = struct_decl
    [omz ''Meta'' (TName ty_Meta) ''_meta'', fld ''Const'' TString ''const'',
     opt ''Description'' (TPtr TString) ''description'', fld ''Title'' TString ''title'']
    (ByAlias unmarshal_EnumOption) Encoded"

definition decl_EnvVariable :: go_decl where
  "decl_EnvVariable = struct_decl
    [omz ''Meta'' (TName ty_Meta) ''_meta'', fld ''Name'' TString ''name'',
     fld ''Value'' TString ''value'']
    Reflected Encoded"

definition unmarshal_Error :: "(string \<times> string \<times> member_action) list" where
  "unmarshal_Error =
    [(''Data'', ''data'', Tolerate)]"

definition decl_Error :: go_decl where
  "decl_Error = struct_decl
    [fld ''Code'' (TName ty_ErrorCode) ''code'', opt ''Data'' TAny ''data'',
     fld ''Message'' TString ''message'']
    (ByAlias unmarshal_Error) Encoded"

definition decl_ErrorCode :: go_decl where
  "decl_ErrorCode = defined_decl (TSigned 32) Reflected"

definition unmarshal_ErrorStopReason :: "(string \<times> string \<times> member_action) list" where
  "unmarshal_ErrorStopReason =
    [(''Error'', ''error'', Tolerate)]"

definition decl_ErrorStopReason :: go_decl where
  "decl_ErrorStopReason = struct_decl
    [opt ''Error'' (TPtr (TName ty_Error)) ''error'']
    (ByAlias unmarshal_ErrorStopReason) Encoded"

definition decl_ExtNotification :: go_decl where
  "decl_ExtNotification = defined_decl TAny Reflected"

definition decl_ExtRequest :: go_decl where
  "decl_ExtRequest = defined_decl TAny Reflected"

definition decl_ExtResponse :: go_decl where
  "decl_ExtResponse = defined_decl TAny Reflected"

definition unmarshal_FileSystemCapabilities :: "(string \<times> string \<times> member_action) list" where
  "unmarshal_FileSystemCapabilities =
    [(''ReadTextFile'', ''readTextFile'', Tolerate),
     (''WriteTextFile'', ''writeTextFile'', Tolerate)]"

definition decl_FileSystemCapabilities :: go_decl where
  "decl_FileSystemCapabilities = struct_decl
    [omz ''Meta'' (TName ty_Meta) ''_meta'', opt ''ReadTextFile'' TBool ''readTextFile'',
     opt ''WriteTextFile'' TBool ''writeTextFile'']
    (ByAlias unmarshal_FileSystemCapabilities) Encoded"

definition decl_ForkSessionRequest :: go_decl where
  "decl_ForkSessionRequest = struct_decl
    [omz ''Meta'' (TName ty_Meta) ''_meta'',
     opt ''AdditionalDirectories'' (TSlice TString) ''additionalDirectories'',
     fld ''Cwd'' TString ''cwd'',
     opt ''McpServers'' (TSlice (TName ty_McpServer)) ''mcpServers'',
     fld ''SessionID'' (TName ty_SessionId) ''sessionId'',
     opt ''SystemPrompt'' (TPtr (TName ty_SystemPrompt)) ''systemPrompt'']
    Reflected Encoded"

definition unmarshal_ForkSessionResponse :: "(string \<times> string \<times> member_action) list" where
  "unmarshal_ForkSessionResponse =
    [(''ConfigOptions'', ''configOptions'', TryItems (TName ty_SessionConfigOption) (ItemField ''Type'' [''select'', ''boolean'']) True Address),
     (''Modes'', ''modes'', Tolerate)]"

definition decl_ForkSessionResponse :: go_decl where
  "decl_ForkSessionResponse = struct_decl
    [omz ''Meta'' (TName ty_Meta) ''_meta'',
     opt ''ConfigOptions'' (TPtr (TSlice (TName ty_SessionConfigOption))) ''configOptions'',
     opt ''Modes'' (TPtr (TName ty_SessionModeState)) ''modes'',
     fld ''SessionID'' (TName ty_SessionId) ''sessionId'']
    (ByAlias unmarshal_ForkSessionResponse) Encoded"

definition decl_HttpHeader :: go_decl where
  "decl_HttpHeader = struct_decl
    [omz ''Meta'' (TName ty_Meta) ''_meta'', fld ''Name'' TString ''name'',
     fld ''Value'' TString ''value'']
    Reflected Encoded"

definition unmarshal_IdleStateUpdate :: "(string \<times> string \<times> member_action) list" where
  "unmarshal_IdleStateUpdate =
    [(''Error'', ''error'', Tolerate), (''Usage'', ''usage'', Tolerate)]"

definition decl_IdleStateUpdate :: go_decl where
  "decl_IdleStateUpdate = struct_decl
    [opt ''StopReason'' (TName ty_IdleStateUpdateType) ''stopReason'',
     omz ''Meta'' (TName ty_Meta) ''_meta'', opt ''Error'' (TPtr (TName ty_Error)) ''error'',
     opt ''Usage'' (TPtr (TName ty_Usage)) ''usage'']
    (ByAlias unmarshal_IdleStateUpdate) Encoded"

definition decl_IdleStateUpdateType :: go_decl where
  "decl_IdleStateUpdateType = defined_decl TString Reflected"

definition unmarshal_ImageContent :: "(string \<times> string \<times> member_action) list" where
  "unmarshal_ImageContent =
    [(''Annotations'', ''annotations'', Tolerate), (''URI'', ''uri'', Tolerate)]"

definition decl_ImageContent :: go_decl where
  "decl_ImageContent = struct_decl
    [omz ''Meta'' (TName ty_Meta) ''_meta'',
     opt ''Annotations'' (TPtr (TName ty_Annotations)) ''annotations'',
     fld ''Data'' TString ''data'', fld ''MimeType'' TString ''mimeType'',
     opt ''URI'' (TPtr TString) ''uri'']
    (ByAlias unmarshal_ImageContent) Encoded"

definition unmarshal_Implementation :: "(string \<times> string \<times> member_action) list" where
  "unmarshal_Implementation =
    [(''Title'', ''title'', Tolerate)]"

definition decl_Implementation :: go_decl where
  "decl_Implementation = struct_decl
    [omz ''Meta'' (TName ty_Meta) ''_meta'', fld ''Name'' TString ''name'',
     opt ''Title'' (TPtr TString) ''title'', fld ''Version'' TString ''version'']
    (ByAlias unmarshal_Implementation) Encoded"

definition decl_InitializeProxyRequest :: go_decl where
  "decl_InitializeProxyRequest = like_decl ty_InitializeRequest"

definition decl_InitializeProxyResponse :: go_decl where
  "decl_InitializeProxyResponse = like_decl ty_InitializeResponse"

definition unmarshal_InitializeRequest :: "(string \<times> string \<times> member_action) list" where
  "unmarshal_InitializeRequest =
    [(''ClientCapabilities'', ''clientCapabilities'', Tolerate),
     (''ClientInfo'', ''clientInfo'', Tolerate)]"

definition decl_InitializeRequest :: go_decl where
  "decl_InitializeRequest = struct_decl
    [omz ''Meta'' (TName ty_Meta) ''_meta'',
     opt ''ClientCapabilities'' (TPtr (TName ty_ClientCapabilities)) ''clientCapabilities'',
     opt ''ClientInfo'' (TPtr (TName ty_Implementation)) ''clientInfo'',
     fld ''ProtocolVersion'' (TName ty_ProtocolVersion) ''protocolVersion'']
    (ByAlias unmarshal_InitializeRequest) Encoded"

definition unmarshal_InitializeResponse :: "(string \<times> string \<times> member_action) list" where
  "unmarshal_InitializeResponse =
    [(''AgentCapabilities'', ''agentCapabilities'', Tolerate),
     (''AgentInfo'', ''agentInfo'', Tolerate),
     (''AuthMethods'', ''authMethods'', TryItems (TName ty_AuthMethod) (ItemField ''Type'' [''terminal'', []]) False Same)]"

definition decl_InitializeResponse :: go_decl where
  "decl_InitializeResponse = struct_decl
    [omz ''Meta'' (TName ty_Meta) ''_meta'',
     opt ''AgentCapabilities'' (TPtr (TName ty_AgentCapabilities)) ''agentCapabilities'',
     opt ''AgentInfo'' (TPtr (TName ty_Implementation)) ''agentInfo'',
     opt ''AuthMethods'' (TSlice (TName ty_AuthMethod)) ''authMethods'',
     fld ''ProtocolVersion'' (TName ty_ProtocolVersion) ''protocolVersion'']
    (ByAlias unmarshal_InitializeResponse) Encoded"

definition unmarshal_IntegerPropertySchema :: "(string \<times> string \<times> member_action) list" where
  "unmarshal_IntegerPropertySchema =
    [(''Default'', ''default'', Tolerate), (''Description'', ''description'', Tolerate),
     (''Title'', ''title'', Tolerate)]"

definition decl_IntegerPropertySchema :: go_decl where
  "decl_IntegerPropertySchema = struct_decl
    [omz ''Meta'' (TName ty_Meta) ''_meta'', opt ''Default'' (TPtr (TSigned 64)) ''default'',
     opt ''Description'' (TPtr TString) ''description'',
     opt ''Maximum'' (TPtr (TSigned 64)) ''maximum'',
     opt ''Minimum'' (TPtr (TSigned 64)) ''minimum'', opt ''Title'' (TPtr TString) ''title'']
    (ByAlias unmarshal_IntegerPropertySchema) Encoded"

definition decl_KillTerminalRequest :: go_decl where
  "decl_KillTerminalRequest = struct_decl
    [omz ''Meta'' (TName ty_Meta) ''_meta'',
     fld ''SessionID'' (TName ty_SessionId) ''sessionId'',
     fld ''TerminalID'' (TName ty_TerminalId) ''terminalId'']
    Reflected Encoded"

definition decl_KillTerminalResponse :: go_decl where
  "decl_KillTerminalResponse = struct_decl
    [omz ''Meta'' (TName ty_Meta) ''_meta'']
    Reflected Encoded"

definition decl_ListProvidersRequest :: go_decl where
  "decl_ListProvidersRequest = struct_decl
    [omz ''Meta'' (TName ty_Meta) ''_meta'']
    Reflected Encoded"

definition marshal_ListProvidersResponse :: marshaler where
  "marshal_ListProvidersResponse = ByWire
    []
    [NonNil ''Providers'']"

definition decl_ListProvidersResponse :: go_decl where
  "decl_ListProvidersResponse = struct_decl
    [omz ''Meta'' (TName ty_Meta) ''_meta'',
     fld ''Providers'' (TSlice (TName ty_ProviderInfo)) ''providers'']
    Reflected marshal_ListProvidersResponse"

definition decl_ListSessionsRequest :: go_decl where
  "decl_ListSessionsRequest = struct_decl
    [omz ''Meta'' (TName ty_Meta) ''_meta'',
     opt ''Archived'' (TPtr (TName ty_SessionArchiveFilter)) ''archived'',
     opt ''Cursor'' (TPtr TString) ''cursor'', opt ''Cwd'' (TPtr TString) ''cwd'']
    Reflected Encoded"

definition unmarshal_ListSessionsResponse :: "(string \<times> string \<times> member_action) list" where
  "unmarshal_ListSessionsResponse =
    [(''NextCursor'', ''nextCursor'', Tolerate),
     (''Sessions'', ''sessions'', TryItems (TName ty_SessionInfo) AnyItem False Same)]"

definition marshal_ListSessionsResponse :: marshaler where
  "marshal_ListSessionsResponse = ByWire
    []
    [NonNil ''Sessions'']"

definition decl_ListSessionsResponse :: go_decl where
  "decl_ListSessionsResponse = struct_decl
    [omz ''Meta'' (TName ty_Meta) ''_meta'', opt ''NextCursor'' (TPtr TString) ''nextCursor'',
     fld ''Sessions'' (TSlice (TName ty_SessionInfo)) ''sessions'']
    (ByAlias unmarshal_ListSessionsResponse) marshal_ListSessionsResponse"

definition decl_LlmProtocol :: go_decl where
  "decl_LlmProtocol = defined_decl TString Reflected"

definition marshal_LoadSessionRequest :: marshaler where
  "marshal_LoadSessionRequest = ByWire
    []
    [NonNil ''McpServers'']"

definition decl_LoadSessionRequest :: go_decl where
  "decl_LoadSessionRequest = struct_decl
    [omz ''Meta'' (TName ty_Meta) ''_meta'',
     opt ''AdditionalDirectories'' (TSlice TString) ''additionalDirectories'',
     fld ''Cwd'' TString ''cwd'',
     fld ''McpServers'' (TSlice (TName ty_McpServer)) ''mcpServers'',
     fld ''SessionID'' (TName ty_SessionId) ''sessionId'',
     opt ''SystemPrompt'' (TPtr (TName ty_SystemPrompt)) ''systemPrompt'']
    Reflected marshal_LoadSessionRequest"

definition unmarshal_LoadSessionResponse :: "(string \<times> string \<times> member_action) list" where
  "unmarshal_LoadSessionResponse =
    [(''ConfigOptions'', ''configOptions'', TryItems (TName ty_SessionConfigOption) (ItemField ''Type'' [''select'', ''boolean'']) True Address),
     (''Modes'', ''modes'', Tolerate)]"

definition decl_LoadSessionResponse :: go_decl where
  "decl_LoadSessionResponse = struct_decl
    [omz ''Meta'' (TName ty_Meta) ''_meta'',
     opt ''ConfigOptions'' (TPtr (TSlice (TName ty_SessionConfigOption))) ''configOptions'',
     opt ''Modes'' (TPtr (TName ty_SessionModeState)) ''modes'']
    (ByAlias unmarshal_LoadSessionResponse) Encoded"

definition decl_LogoutCapabilities :: go_decl where
  "decl_LogoutCapabilities = struct_decl
    [omz ''Meta'' (TName ty_Meta) ''_meta'']
    Reflected Encoded"

definition decl_LogoutRequest :: go_decl where
  "decl_LogoutRequest = struct_decl
    [omz ''Meta'' (TName ty_Meta) ''_meta'']
    Reflected Encoded"

definition decl_LogoutResponse :: go_decl where
  "decl_LogoutResponse = struct_decl
    [omz ''Meta'' (TName ty_Meta) ''_meta'']
    Reflected Encoded"

definition unmarshal_McpCapabilities :: "(string \<times> string \<times> member_action) list" where
  "unmarshal_McpCapabilities =
    [(''Acp'', ''acp'', Tolerate), (''Http'', ''http'', Tolerate), (''Sse'', ''sse'', Tolerate)]"

definition decl_McpCapabilities :: go_decl where
  "decl_McpCapabilities = struct_decl
    [omz ''Meta'' (TName ty_Meta) ''_meta'', opt ''Acp'' TBool ''acp'',
     opt ''Http'' TBool ''http'', opt ''Sse'' TBool ''sse'']
    (ByAlias unmarshal_McpCapabilities) Encoded"

definition unmarshal_McpError :: "(string \<times> string \<times> member_action) list" where
  "unmarshal_McpError =
    [(''Data'', ''data'', NullOr (Into TAny Same))]"

definition marshal_McpError :: marshaler where
  "marshal_McpError = ByWire
    [opt ''Data'' (TPtr TAny) ''data'']
    [SendNonNil ''Data'', SendNull ''Data'' ''data'']"

definition decl_McpError :: go_decl where
  "decl_McpError = struct_decl
    [fld ''Code'' (TSigned 32) ''code'', opt ''Data'' TAny ''data'',
     fld ''Message'' TString ''message'', fld ''NullFields'' (TSlice TString) ''-'']
    (ByAlias unmarshal_McpError) marshal_McpError"

definition decl_McpRequestId :: go_decl where
  "decl_McpRequestId = defined_decl TString Reflected"

definition marshal_McpServer :: marshaler where
  "marshal_McpServer = ByWire
    [opt ''Headers'' (TPtr (TSlice (TName ty_HttpHeader))) ''headers'',
     opt ''Url'' (TPtr TString) ''url'',
     opt ''ServerID'' (TPtr (TName ty_McpServerAcpId)) ''serverId'',
     opt ''Args'' (TPtr (TSlice TString)) ''args'', opt ''Command'' (TPtr TString) ''command'',
     opt ''Env'' (TPtr (TSlice (TName ty_EnvVariable))) ''env'']
    [SendNonEmpty ''Headers'', SendNonZero ''Url'', SendNonZero ''ServerID'',
     SendNonEmpty ''Args'', SendNonZero ''Command'', SendNonEmpty ''Env'',
     EmitSwitch ''Type''
       [(''http'', [SendSlice ''Headers'', Send ''Url'']),
        (''sse'', [SendSlice ''Headers'', Send ''Url'']),
        (''acp'', [Send ''ServerID'']),
        ([], [SendSlice ''Args'', Send ''Command'', SendSlice ''Env''])]]"

definition decl_McpServer :: go_decl where
  "decl_McpServer = struct_decl
    [opt ''Type'' (TName ty_McpServerType) ''type'', omz ''Meta'' (TName ty_Meta) ''_meta'',
     opt ''Args'' (TSlice TString) ''args'', opt ''Command'' TString ''command'',
     opt ''Env'' (TSlice (TName ty_EnvVariable)) ''env'',
     opt ''Headers'' (TSlice (TName ty_HttpHeader)) ''headers'', fld ''Name'' TString ''name'',
     opt ''ServerID'' (TName ty_McpServerAcpId) ''serverId'', opt ''Url'' TString ''url'']
    Reflected marshal_McpServer"

definition decl_McpServerType :: go_decl where
  "decl_McpServerType = defined_decl TString Reflected"

definition decl_McpServerAcp :: go_decl where
  "decl_McpServerAcp = struct_decl
    [omz ''Meta'' (TName ty_Meta) ''_meta'', fld ''Name'' TString ''name'',
     fld ''ServerID'' (TName ty_McpServerAcpId) ''serverId'']
    Reflected Encoded"

definition decl_McpServerAcpId :: go_decl where
  "decl_McpServerAcpId = defined_decl TString Reflected"

definition marshal_McpServerHttp :: marshaler where
  "marshal_McpServerHttp = ByWire
    []
    [NonNil ''Headers'']"

definition decl_McpServerHttp :: go_decl where
  "decl_McpServerHttp = struct_decl
    [omz ''Meta'' (TName ty_Meta) ''_meta'',
     fld ''Headers'' (TSlice (TName ty_HttpHeader)) ''headers'', fld ''Name'' TString ''name'',
     fld ''Url'' TString ''url'']
    Reflected marshal_McpServerHttp"

definition marshal_McpServerSse :: marshaler where
  "marshal_McpServerSse = ByWire
    []
    [NonNil ''Headers'']"

definition decl_McpServerSse :: go_decl where
  "decl_McpServerSse = struct_decl
    [omz ''Meta'' (TName ty_Meta) ''_meta'',
     fld ''Headers'' (TSlice (TName ty_HttpHeader)) ''headers'', fld ''Name'' TString ''name'',
     fld ''Url'' TString ''url'']
    Reflected marshal_McpServerSse"

definition marshal_McpServerStdio :: marshaler where
  "marshal_McpServerStdio = ByWire
    []
    [NonNil ''Args'', NonNil ''Env'']"

definition decl_McpServerStdio :: go_decl where
  "decl_McpServerStdio = struct_decl
    [omz ''Meta'' (TName ty_Meta) ''_meta'', fld ''Args'' (TSlice TString) ''args'',
     fld ''Command'' TString ''command'', fld ''Env'' (TSlice (TName ty_EnvVariable)) ''env'',
     fld ''Name'' TString ''name'']
    Reflected marshal_McpServerStdio"

definition decl_MessageId :: go_decl where
  "decl_MessageId = defined_decl TString Reflected"

definition decl_MessageMcpNotification :: go_decl where
  "decl_MessageMcpNotification = struct_decl
    [omz ''Meta'' (TName ty_Meta) ''_meta'', fld ''Method'' TString ''method'',
     opt ''Params'' (TMap TAny) ''params'',
     fld ''RequestID'' (TName ty_McpRequestId) ''requestId'',
     fld ''ServerID'' (TName ty_McpServerAcpId) ''serverId'']
    PlainNumbers Encoded"

definition decl_MessageMcpRequest :: go_decl where
  "decl_MessageMcpRequest = struct_decl
    [omz ''Meta'' (TName ty_Meta) ''_meta'', fld ''Method'' TString ''method'',
     opt ''Params'' (TMap TAny) ''params'',
     fld ''RequestID'' (TName ty_McpRequestId) ''requestId'',
     fld ''ServerID'' (TName ty_McpServerAcpId) ''serverId'']
    PlainNumbers Encoded"

definition decl_MessageMcpResponse :: go_decl where
  "decl_MessageMcpResponse = struct_decl
    [omz ''Meta'' (TName ty_Meta) ''_meta'', optz ''Error'' (TPtr (TName ty_McpError)) ''error'',
     opt ''Result'' (TPtr TAny) ''result'']
    McpCarriers EmitCarriers"

definition marshal_MultiSelectItems :: marshaler where
  "marshal_MultiSelectItems = ByWire
    [opt ''Enum'' (TPtr (TSlice TString)) ''enum'',
     opt ''AnyOf'' (TPtr (TSlice (TName ty_EnumOption))) ''anyOf'']
    [SendNonEmpty ''Enum'', SendNonEmpty ''AnyOf'',
     EmitSwitch ''Type''
       [(''string'', [SendSlice ''Enum'']),
        ([], [SendSlice ''AnyOf''])]]"

definition decl_MultiSelectItems :: go_decl where
  "decl_MultiSelectItems = struct_decl
    [opt ''Type'' (TName ty_MultiSelectItemsType) ''type'',
     omz ''Meta'' (TName ty_Meta) ''_meta'',
     opt ''AnyOf'' (TSlice (TName ty_EnumOption)) ''anyOf'',
     opt ''Enum'' (TSlice TString) ''enum'']
    Reflected marshal_MultiSelectItems"

definition decl_MultiSelectItemsType :: go_decl where
  "decl_MultiSelectItemsType = defined_decl TString Reflected"

definition unmarshal_MultiSelectPropertySchema :: "(string \<times> string \<times> member_action) list" where
  "unmarshal_MultiSelectPropertySchema =
    [(''Default'', ''default'', TryItems TString AnyItem True Address),
     (''Description'', ''description'', Tolerate), (''Title'', ''title'', Tolerate)]"

definition decl_MultiSelectPropertySchema :: go_decl where
  "decl_MultiSelectPropertySchema = struct_decl
    [omz ''Meta'' (TName ty_Meta) ''_meta'', opt ''Default'' (TPtr (TSlice TString)) ''default'',
     opt ''Description'' (TPtr TString) ''description'',
     fld ''Items'' (TName ty_MultiSelectItems) ''items'',
     opt ''MaxItems'' (TPtr (TUnsigned 64)) ''maxItems'',
     opt ''MinItems'' (TPtr (TUnsigned 64)) ''minItems'', opt ''Title'' (TPtr TString) ''title'']
    (ByAlias unmarshal_MultiSelectPropertySchema) Encoded"

definition marshal_NewSessionRequest :: marshaler where
  "marshal_NewSessionRequest = ByWire
    []
    [NonNil ''McpServers'']"

definition decl_NewSessionRequest :: go_decl where
  "decl_NewSessionRequest = struct_decl
    [omz ''Meta'' (TName ty_Meta) ''_meta'',
     opt ''AdditionalDirectories'' (TSlice TString) ''additionalDirectories'',
     fld ''Cwd'' TString ''cwd'',
     fld ''McpServers'' (TSlice (TName ty_McpServer)) ''mcpServers'',
     opt ''SystemPrompt'' (TPtr (TName ty_SystemPrompt)) ''systemPrompt'']
    Reflected marshal_NewSessionRequest"

definition unmarshal_NewSessionResponse :: "(string \<times> string \<times> member_action) list" where
  "unmarshal_NewSessionResponse =
    [(''ConfigOptions'', ''configOptions'', TryItems (TName ty_SessionConfigOption) (ItemField ''Type'' [''select'', ''boolean'']) True Address),
     (''Modes'', ''modes'', Tolerate)]"

definition decl_NewSessionResponse :: go_decl where
  "decl_NewSessionResponse = struct_decl
    [omz ''Meta'' (TName ty_Meta) ''_meta'',
     opt ''ConfigOptions'' (TPtr (TSlice (TName ty_SessionConfigOption))) ''configOptions'',
     opt ''Modes'' (TPtr (TName ty_SessionModeState)) ''modes'',
     fld ''SessionID'' (TName ty_SessionId) ''sessionId'']
    (ByAlias unmarshal_NewSessionResponse) Encoded"

definition unmarshal_Notice :: "(string \<times> string \<times> member_action) list" where
  "unmarshal_Notice =
    [(''Description'', ''description'', Tolerate)]"

definition decl_Notice :: go_decl where
  "decl_Notice = struct_decl
    [omz ''Meta'' (TName ty_Meta) ''_meta'', opt ''Description'' (TPtr TString) ''description'',
     fld ''Severity'' (TName ty_NoticeSeverity) ''severity'', fld ''Title'' TString ''title'']
    (ByAlias unmarshal_Notice) Encoded"

definition decl_NoticeCapabilities :: go_decl where
  "decl_NoticeCapabilities = defined_decl (TMap TAny) PlainNumbers"

definition decl_NoticeSeverity :: go_decl where
  "decl_NoticeSeverity = defined_decl TString Reflected"

definition unmarshal_NumberPropertySchema :: "(string \<times> string \<times> member_action) list" where
  "unmarshal_NumberPropertySchema =
    [(''Default'', ''default'', Tolerate), (''Description'', ''description'', Tolerate),
     (''Title'', ''title'', Tolerate)]"

definition decl_NumberPropertySchema :: go_decl where
  "decl_NumberPropertySchema = struct_decl
    [omz ''Meta'' (TName ty_Meta) ''_meta'', opt ''Default'' (TPtr TFloat64) ''default'',
     opt ''Description'' (TPtr TString) ''description'',
     opt ''Maximum'' (TPtr TFloat64) ''maximum'', opt ''Minimum'' (TPtr TFloat64) ''minimum'',
     opt ''Title'' (TPtr TString) ''title'']
    (ByAlias unmarshal_NumberPropertySchema) Encoded"

definition decl_PermissionOption :: go_decl where
  "decl_PermissionOption = struct_decl
    [omz ''Meta'' (TName ty_Meta) ''_meta'',
     fld ''Kind'' (TName ty_PermissionOptionKind) ''kind'', fld ''Name'' TString ''name'',
     fld ''OptionID'' (TName ty_PermissionOptionId) ''optionId'']
    Reflected Encoded"

definition decl_PermissionOptionId :: go_decl where
  "decl_PermissionOptionId = defined_decl TString Reflected"

definition decl_PermissionOptionKind :: go_decl where
  "decl_PermissionOptionKind = defined_decl TString Reflected"

definition acp_2 :: go_env where
  "acp_2 x =
    (if x = ty_ElicitationSchemaType then Some decl_ElicitationSchemaType
     else if x = ty_ElicitationSessionScope then Some decl_ElicitationSessionScope
     else if x = ty_ElicitationUrlCapabilities then Some decl_ElicitationUrlCapabilities
     else if x = ty_ElicitationUrlMode then Some decl_ElicitationUrlMode
     else if x = ty_EmbeddedResource then Some decl_EmbeddedResource
     else if x = ty_EmbeddedResourceResource then Some decl_EmbeddedResourceResource
     else if x = ty_EnumOption then Some decl_EnumOption
     else if x = ty_EnvVariable then Some decl_EnvVariable
     else if x = ty_Error then Some decl_Error
     else if x = ty_ErrorCode then Some decl_ErrorCode
     else if x = ty_ErrorStopReason then Some decl_ErrorStopReason
     else if x = ty_ExtNotification then Some decl_ExtNotification
     else if x = ty_ExtRequest then Some decl_ExtRequest
     else if x = ty_ExtResponse then Some decl_ExtResponse
     else if x = ty_FileSystemCapabilities then Some decl_FileSystemCapabilities
     else if x = ty_ForkSessionRequest then Some decl_ForkSessionRequest
     else if x = ty_ForkSessionResponse then Some decl_ForkSessionResponse
     else if x = ty_HttpHeader then Some decl_HttpHeader
     else if x = ty_IdleStateUpdate then Some decl_IdleStateUpdate
     else if x = ty_IdleStateUpdateType then Some decl_IdleStateUpdateType
     else if x = ty_ImageContent then Some decl_ImageContent
     else if x = ty_Implementation then Some decl_Implementation
     else if x = ty_InitializeProxyRequest then Some decl_InitializeProxyRequest
     else if x = ty_InitializeProxyResponse then Some decl_InitializeProxyResponse
     else if x = ty_InitializeRequest then Some decl_InitializeRequest
     else if x = ty_InitializeResponse then Some decl_InitializeResponse
     else if x = ty_IntegerPropertySchema then Some decl_IntegerPropertySchema
     else if x = ty_KillTerminalRequest then Some decl_KillTerminalRequest
     else if x = ty_KillTerminalResponse then Some decl_KillTerminalResponse
     else if x = ty_ListProvidersRequest then Some decl_ListProvidersRequest
     else if x = ty_ListProvidersResponse then Some decl_ListProvidersResponse
     else if x = ty_ListSessionsRequest then Some decl_ListSessionsRequest
     else if x = ty_ListSessionsResponse then Some decl_ListSessionsResponse
     else if x = ty_LlmProtocol then Some decl_LlmProtocol
     else if x = ty_LoadSessionRequest then Some decl_LoadSessionRequest
     else if x = ty_LoadSessionResponse then Some decl_LoadSessionResponse
     else if x = ty_LogoutCapabilities then Some decl_LogoutCapabilities
     else if x = ty_LogoutRequest then Some decl_LogoutRequest
     else if x = ty_LogoutResponse then Some decl_LogoutResponse
     else if x = ty_McpCapabilities then Some decl_McpCapabilities
     else if x = ty_McpError then Some decl_McpError
     else if x = ty_McpRequestId then Some decl_McpRequestId
     else if x = ty_McpServer then Some decl_McpServer
     else if x = ty_McpServerType then Some decl_McpServerType
     else if x = ty_McpServerAcp then Some decl_McpServerAcp
     else if x = ty_McpServerAcpId then Some decl_McpServerAcpId
     else if x = ty_McpServerHttp then Some decl_McpServerHttp
     else if x = ty_McpServerSse then Some decl_McpServerSse
     else if x = ty_McpServerStdio then Some decl_McpServerStdio
     else if x = ty_MessageId then Some decl_MessageId
     else if x = ty_MessageMcpNotification then Some decl_MessageMcpNotification
     else if x = ty_MessageMcpRequest then Some decl_MessageMcpRequest
     else if x = ty_MessageMcpResponse then Some decl_MessageMcpResponse
     else if x = ty_MultiSelectItems then Some decl_MultiSelectItems
     else if x = ty_MultiSelectItemsType then Some decl_MultiSelectItemsType
     else if x = ty_MultiSelectPropertySchema then Some decl_MultiSelectPropertySchema
     else if x = ty_NewSessionRequest then Some decl_NewSessionRequest
     else if x = ty_NewSessionResponse then Some decl_NewSessionResponse
     else if x = ty_Notice then Some decl_Notice
     else if x = ty_NoticeCapabilities then Some decl_NoticeCapabilities
     else if x = ty_NoticeSeverity then Some decl_NoticeSeverity
     else if x = ty_NumberPropertySchema then Some decl_NumberPropertySchema
     else if x = ty_PermissionOption then Some decl_PermissionOption
     else if x = ty_PermissionOptionId then Some decl_PermissionOptionId
     else if x = ty_PermissionOptionKind then Some decl_PermissionOptionKind
     else None)"

end
