(* ===== verification/Acp_Types_3.thy ===== *)
theory Acp_Types_3
  imports Go_Types
begin

text \<open>
  The types \<open>Plan\<close> to \<open>SessionListCapabilities\<close> of acp/types_gen.go: fields, \<open>UnmarshalJSON\<close> and
  \<open>MarshalJSON\<close>. The constants of a discriminator or an enumeration are written as their values.
\<close>

definition unmarshal_Plan :: "(string \<times> string \<times> member_action) list" where
  "unmarshal_Plan =
    [(''Entries'', ''entries'', TryItems (TName ty_PlanEntry) AnyItem False Same)]"

definition marshal_Plan :: marshaler where
  "marshal_Plan = ByWire
    []
    [NonNil ''Entries'']"

definition decl_Plan :: go_decl where
  "decl_Plan = struct_decl
    [omz ''Meta'' (TName ty_Meta) ''_meta'',
     fld ''Entries'' (TSlice (TName ty_PlanEntry)) ''entries'']
    (ByAlias unmarshal_Plan) marshal_Plan"

definition decl_PlanCapabilities :: go_decl where
  "decl_PlanCapabilities = struct_decl
    [omz ''Meta'' (TName ty_Meta) ''_meta'']
    Reflected Encoded"

definition decl_PlanEntry :: go_decl where
  "decl_PlanEntry = struct_decl
    [omz ''Meta'' (TName ty_Meta) ''_meta'', fld ''Content'' TString ''content'',
     fld ''Priority'' (TName ty_PlanEntryPriority) ''priority'',
     fld ''Status'' (TName ty_PlanEntryStatus) ''status'']
    Reflected Encoded"

definition decl_PlanEntryPriority :: go_decl where
  "decl_PlanEntryPriority = defined_decl TString Reflected"

definition decl_PlanEntryStatus :: go_decl where
  "decl_PlanEntryStatus = defined_decl TString Reflected"

definition decl_PlanFile :: go_decl where
  "decl_PlanFile = struct_decl
    [omz ''Meta'' (TName ty_Meta) ''_meta'', fld ''PlanID'' (TName ty_PlanId) ''planId'',
     fld ''URI'' TString ''uri'']
    Reflected Encoded"

definition decl_PlanId :: go_decl where
  "decl_PlanId = defined_decl TString Reflected"

definition unmarshal_PlanItems :: "(string \<times> string \<times> member_action) list" where
  "unmarshal_PlanItems =
    [(''Entries'', ''entries'', TryItems (TName ty_PlanEntry) AnyItem False Same)]"

definition marshal_PlanItems :: marshaler where
  "marshal_PlanItems = ByWire
    []
    [NonNil ''Entries'']"

definition decl_PlanItems :: go_decl where
  "decl_PlanItems = struct_decl
    [omz ''Meta'' (TName ty_Meta) ''_meta'',
     fld ''Entries'' (TSlice (TName ty_PlanEntry)) ''entries'',
     fld ''PlanID'' (TName ty_PlanId) ''planId'']
    (ByAlias unmarshal_PlanItems) marshal_PlanItems"

definition decl_PlanMarkdown :: go_decl where
  "decl_PlanMarkdown = struct_decl
    [omz ''Meta'' (TName ty_Meta) ''_meta'', fld ''Content'' TString ''content'',
     fld ''PlanID'' (TName ty_PlanId) ''planId'']
    Reflected Encoded"

definition decl_PlanRemoved :: go_decl where
  "decl_PlanRemoved = struct_decl
    [omz ''Meta'' (TName ty_Meta) ''_meta'', fld ''PlanID'' (TName ty_PlanId) ''planId'']
    Reflected Encoded"

definition decl_PlanUpdate :: go_decl where
  "decl_PlanUpdate = struct_decl
    [omz ''Meta'' (TName ty_Meta) ''_meta'', fld ''Plan'' (TName ty_PlanUpdateContent) ''plan'']
    Reflected Encoded"

definition unmarshal_PlanUpdateContent :: "(string \<times> string \<times> member_action) list" where
  "unmarshal_PlanUpdateContent =
    [(''Entries'', ''entries'', TryItems (TName ty_PlanEntry) AnyItem False Same)]"

definition marshal_PlanUpdateContent :: marshaler where
  "marshal_PlanUpdateContent = ByWire
    [opt ''Entries'' (TPtr (TSlice (TName ty_PlanEntry))) ''entries'',
     opt ''URI'' (TPtr TString) ''uri'', opt ''Content'' (TPtr TString) ''content'']
    [SendNonEmpty ''Entries'', SendNonZero ''URI'', SendNonZero ''Content'',
     EmitSwitch ''Type''
       [(''items'', [SendSlice ''Entries'']),
        (''file'', [Send ''URI'']),
        (''markdown'', [Send ''Content''])]]"

definition decl_PlanUpdateContent :: go_decl where
  "decl_PlanUpdateContent = struct_decl
    [fld ''Type'' (TName ty_PlanUpdateContentType) ''type'',
     omz ''Meta'' (TName ty_Meta) ''_meta'', opt ''Content'' TString ''content'',
     opt ''Entries'' (TSlice (TName ty_PlanEntry)) ''entries'',
     fld ''PlanID'' (TName ty_PlanId) ''planId'', opt ''URI'' TString ''uri'']
    (ByAlias unmarshal_PlanUpdateContent) marshal_PlanUpdateContent"

definition decl_PlanUpdateContentType :: go_decl where
  "decl_PlanUpdateContentType = defined_decl TString Reflected"

definition unmarshal_PromptCapabilities :: "(string \<times> string \<times> member_action) list" where
  "unmarshal_PromptCapabilities =
    [(''Audio'', ''audio'', Tolerate), (''EmbeddedContext'', ''embeddedContext'', Tolerate),
     (''Image'', ''image'', Tolerate)]"

definition decl_PromptCapabilities :: go_decl where
  "decl_PromptCapabilities = struct_decl
    [omz ''Meta'' (TName ty_Meta) ''_meta'', opt ''Audio'' TBool ''audio'',
     opt ''EmbeddedContext'' TBool ''embeddedContext'', opt ''Image'' TBool ''image'']
    (ByAlias unmarshal_PromptCapabilities) Encoded"

definition marshal_PromptRequest :: marshaler where
  "marshal_PromptRequest = ByWire
    []
    [NonNil ''Prompt'']"

definition decl_PromptRequest :: go_decl where
  "decl_PromptRequest = struct_decl
    [omz ''Meta'' (TName ty_Meta) ''_meta'',
     fld ''Prompt'' (TSlice (TName ty_ContentBlock)) ''prompt'',
     fld ''SessionID'' (TName ty_SessionId) ''sessionId'']
    Reflected marshal_PromptRequest"

definition unmarshal_PromptResponse :: "(string \<times> string \<times> member_action) list" where
  "unmarshal_PromptResponse =
    [(''Usage'', ''usage'', Tolerate)]"

definition decl_PromptResponse :: go_decl where
  "decl_PromptResponse = struct_decl
    [omz ''Meta'' (TName ty_Meta) ''_meta'',
     fld ''StopReason'' (TName ty_StopReason) ''stopReason'',
     opt ''Usage'' (TPtr (TName ty_Usage)) ''usage'']
    (ByAlias unmarshal_PromptResponse) Encoded"

definition decl_ProtocolVersion :: go_decl where
  "decl_ProtocolVersion = defined_decl (TUnsigned 16) Reflected"

definition decl_ProviderCurrentConfig :: go_decl where
  "decl_ProviderCurrentConfig = struct_decl
    [omz ''Meta'' (TName ty_Meta) ''_meta'', fld ''ApiType'' (TName ty_LlmProtocol) ''apiType'',
     fld ''BaseUrl'' TString ''baseUrl'']
    Reflected Encoded"

definition decl_ProviderId :: go_decl where
  "decl_ProviderId = defined_decl TString Reflected"

definition unmarshal_ProviderInfo :: "(string \<times> string \<times> member_action) list" where
  "unmarshal_ProviderInfo =
    [(''Supported'', ''supported'', TryItems (TName ty_LlmProtocol) AnyItem False Same)]"

definition marshal_ProviderInfo :: marshaler where
  "marshal_ProviderInfo = ByWire
    []
    [NonNil ''Supported'']"

definition decl_ProviderInfo :: go_decl where
  "decl_ProviderInfo = struct_decl
    [omz ''Meta'' (TName ty_Meta) ''_meta'',
     opt ''Current'' (TPtr (TName ty_ProviderCurrentConfig)) ''current'',
     fld ''ProviderID'' (TName ty_ProviderId) ''providerId'',
     fld ''Required'' TBool ''required'',
     fld ''Supported'' (TSlice (TName ty_LlmProtocol)) ''supported'']
    (ByAlias unmarshal_ProviderInfo) marshal_ProviderInfo"

definition decl_ProvidersCapabilities :: go_decl where
  "decl_ProvidersCapabilities = struct_decl
    [omz ''Meta'' (TName ty_Meta) ''_meta'']
    Reflected Encoded"

definition decl_ProxySuccessorNotification :: go_decl where
  "decl_ProxySuccessorNotification = struct_decl
    [omz ''Meta'' (TName ty_Meta) ''_meta'', fld ''Method'' TString ''method'',
     opt ''Params'' TAny ''params'']
    PlainNumbers Encoded"

definition decl_ProxySuccessorRequest :: go_decl where
  "decl_ProxySuccessorRequest = struct_decl
    [omz ''Meta'' (TName ty_Meta) ''_meta'', fld ''Method'' TString ''method'',
     opt ''Params'' TAny ''params'']
    PlainNumbers Encoded"

definition decl_ProxySuccessorResponse :: go_decl where
  "decl_ProxySuccessorResponse = defined_decl TAny Reflected"

definition decl_ReadTextFileRequest :: go_decl where
  "decl_ReadTextFileRequest = struct_decl
    [omz ''Meta'' (TName ty_Meta) ''_meta'', opt ''Limit'' (TPtr (TUnsigned 32)) ''limit'',
     opt ''Line'' (TPtr (TUnsigned 32)) ''line'', fld ''Path'' TString ''path'',
     fld ''SessionID'' (TName ty_SessionId) ''sessionId'']
    Reflected Encoded"

definition decl_ReadTextFileResponse :: go_decl where
  "decl_ReadTextFileResponse = struct_decl
    [omz ''Meta'' (TName ty_Meta) ''_meta'', fld ''Content'' TString ''content'']
    Reflected Encoded"

definition decl_ReleaseTerminalRequest :: go_decl where
  "decl_ReleaseTerminalRequest = struct_decl
    [omz ''Meta'' (TName ty_Meta) ''_meta'',
     fld ''SessionID'' (TName ty_SessionId) ''sessionId'',
     fld ''TerminalID'' (TName ty_TerminalId) ''terminalId'']
    Reflected Encoded"

definition decl_ReleaseTerminalResponse :: go_decl where
  "decl_ReleaseTerminalResponse = struct_decl
    [omz ''Meta'' (TName ty_Meta) ''_meta'']
    Reflected Encoded"

definition marshal_RequestPermissionOutcome :: marshaler where
  "marshal_RequestPermissionOutcome = ByWire
    [opt ''OptionID'' (TPtr (TName ty_PermissionOptionId)) ''optionId'']
    [SendNonZero ''OptionID'',
     EmitSwitch ''Outcome''
       [(''selected'', [Send ''OptionID''])]]"

definition decl_RequestPermissionOutcome :: go_decl where
  "decl_RequestPermissionOutcome = struct_decl
    [fld ''Outcome'' (TName ty_RequestPermissionOutcomeType) ''outcome'',
     omz ''Meta'' (TName ty_Meta) ''_meta'',
     opt ''OptionID'' (TName ty_PermissionOptionId) ''optionId'']
    Reflected marshal_RequestPermissionOutcome"

definition decl_RequestPermissionOutcomeType :: go_decl where
  "decl_RequestPermissionOutcomeType = defined_decl TString Reflected"

definition marshal_RequestPermissionRequest :: marshaler where
  "marshal_RequestPermissionRequest = ByWire
    []
    [NonNil ''Options'']"

definition decl_RequestPermissionRequest :: go_decl where
  "decl_RequestPermissionRequest = struct_decl
    [omz ''Meta'' (TName ty_Meta) ''_meta'',
     fld ''Options'' (TSlice (TName ty_PermissionOption)) ''options'',
     fld ''SessionID'' (TName ty_SessionId) ''sessionId'',
     fld ''ToolCall'' (TName ty_ToolCallUpdate) ''toolCall'']
    Reflected marshal_RequestPermissionRequest"

definition decl_RequestPermissionResponse :: go_decl where
  "decl_RequestPermissionResponse = struct_decl
    [omz ''Meta'' (TName ty_Meta) ''_meta'',
     fld ''Outcome'' (TName ty_RequestPermissionOutcome) ''outcome'']
    Reflected Encoded"

definition decl_RequiresActionStateUpdate :: go_decl where
  "decl_RequiresActionStateUpdate = struct_decl
    [omz ''Meta'' (TName ty_Meta) ''_meta'']
    Reflected Encoded"

definition unmarshal_ResourceLink :: "(string \<times> string \<times> member_action) list" where
  "unmarshal_ResourceLink =
    [(''Annotations'', ''annotations'', Tolerate), (''Description'', ''description'', Tolerate),
     (''MimeType'', ''mimeType'', Tolerate), (''Size'', ''size'', Tolerate),
     (''Title'', ''title'', Tolerate)]"

definition decl_ResourceLink :: go_decl where
  "decl_ResourceLink = struct_decl
    [omz ''Meta'' (TName ty_Meta) ''_meta'',
     opt ''Annotations'' (TPtr (TName ty_Annotations)) ''annotations'',
     opt ''Description'' (TPtr TString) ''description'',
     opt ''MimeType'' (TPtr TString) ''mimeType'', fld ''Name'' TString ''name'',
     opt ''Size'' (TPtr (TSigned 64)) ''size'', opt ''Title'' (TPtr TString) ''title'',
     fld ''URI'' TString ''uri'']
    (ByAlias unmarshal_ResourceLink) Encoded"

definition decl_ResumeSessionRequest :: go_decl where
  "decl_ResumeSessionRequest = struct_decl
    [omz ''Meta'' (TName ty_Meta) ''_meta'',
     opt ''AdditionalDirectories'' (TSlice TString) ''additionalDirectories'',
     fld ''Cwd'' TString ''cwd'',
     opt ''McpServers'' (TSlice (TName ty_McpServer)) ''mcpServers'',
     fld ''SessionID'' (TName ty_SessionId) ''sessionId'',
     opt ''SystemPrompt'' (TPtr (TName ty_SystemPrompt)) ''systemPrompt'']
    Reflected Encoded"

definition unmarshal_ResumeSessionResponse :: "(string \<times> string \<times> member_action) list" where
  "unmarshal_ResumeSessionResponse =
    [(''ConfigOptions'', ''configOptions'', TryItems (TName ty_SessionConfigOption) (ItemField ''Type'' [''select'', ''boolean'']) True Address),
     (''Modes'', ''modes'', Tolerate)]"

definition decl_ResumeSessionResponse :: go_decl where
  "decl_ResumeSessionResponse = struct_decl
    [omz ''Meta'' (TName ty_Meta) ''_meta'',
     opt ''ConfigOptions'' (TPtr (TSlice (TName ty_SessionConfigOption))) ''configOptions'',
     opt ''Modes'' (TPtr (TName ty_SessionModeState)) ''modes'']
    (ByAlias unmarshal_ResumeSessionResponse) Encoded"

definition decl_Role :: go_decl where
  "decl_Role = defined_decl TString Reflected"

definition decl_RunningStateUpdate :: go_decl where
  "decl_RunningStateUpdate = struct_decl
    [omz ''Meta'' (TName ty_Meta) ''_meta'']
    Reflected Encoded"

definition decl_SelectedPermissionOutcome :: go_decl where
  "decl_SelectedPermissionOutcome = struct_decl
    [omz ''Meta'' (TName ty_Meta) ''_meta'',
     fld ''OptionID'' (TName ty_PermissionOptionId) ''optionId'']
    Reflected Encoded"

definition decl_SessionAdditionalDirectoriesCapabilities :: go_decl where
  "decl_SessionAdditionalDirectoriesCapabilities = struct_decl
    [omz ''Meta'' (TName ty_Meta) ''_meta'']
    Reflected Encoded"

definition decl_SessionArchiveCapabilities :: go_decl where
  "decl_SessionArchiveCapabilities = struct_decl
    [omz ''Meta'' (TName ty_Meta) ''_meta'']
    Reflected Encoded"

definition decl_SessionArchiveFilter :: go_decl where
  "decl_SessionArchiveFilter = defined_decl TString Reflected"

definition decl_SessionCancelCapabilities :: go_decl where
  "decl_SessionCancelCapabilities = struct_decl
    [omz ''Meta'' (TName ty_Meta) ''_meta'']
    Reflected Encoded"

definition unmarshal_SessionCapabilities :: "(string \<times> string \<times> member_action) list" where
  "unmarshal_SessionCapabilities =
    [(''AdditionalDirectories'', ''additionalDirectories'', Tolerate),
     (''Archive'', ''archive'', Tolerate), (''Close'', ''close'', Tolerate),
     (''Delete'', ''delete'', Tolerate), (''Fork'', ''fork'', Tolerate),
     (''List'', ''list'', Tolerate), (''Resume'', ''resume'', Tolerate),
     (''Status'', ''status'', Tolerate), (''SystemPrompt'', ''systemPrompt'', Tolerate),
     (''Title'', ''title'', Tolerate)]"

definition decl_SessionCapabilities :: go_decl where
  "decl_SessionCapabilities = struct_decl
    [omz ''Meta'' (TName ty_Meta) ''_meta'',
     opt ''AdditionalDirectories'' (TPtr (TName ty_SessionAdditionalDirectoriesCapabilities)) ''additionalDirectories'',
     opt ''Archive'' (TPtr (TName ty_SessionArchiveCapabilities)) ''archive'',
     opt ''Close'' (TPtr (TName ty_SessionCloseCapabilities)) ''close'',
     opt ''Delete'' (TPtr (TName ty_SessionDeleteCapabilities)) ''delete'',
     opt ''Fork'' (TPtr (TName ty_SessionForkCapabilities)) ''fork'',
     opt ''List'' (TPtr (TName ty_SessionListCapabilities)) ''list'',
     opt ''Resume'' (TPtr (TName ty_SessionResumeCapabilities)) ''resume'',
     opt ''Status'' (TPtr (TName ty_SessionStatusCapabilities)) ''status'',
     opt ''SystemPrompt'' (TPtr (TName ty_SessionSystemPromptCapabilities)) ''systemPrompt'',
     opt ''Title'' (TPtr (TName ty_SessionTitleCapabilities)) ''title'']
    (ByAlias unmarshal_SessionCapabilities) Encoded"

definition decl_SessionCloseCapabilities :: go_decl where
  "decl_SessionCloseCapabilities = struct_decl
    [omz ''Meta'' (TName ty_Meta) ''_meta'']
    Reflected Encoded"

definition decl_SessionConfigBoolean :: go_decl where
  "decl_SessionConfigBoolean = struct_decl
    [fld ''CurrentValue'' TBool ''currentValue'']
    Reflected Encoded"

definition decl_SessionConfigGroupId :: go_decl where
  "decl_SessionConfigGroupId = defined_decl TString Reflected"

definition decl_SessionConfigId :: go_decl where
  "decl_SessionConfigId = defined_decl TString Reflected"

definition unmarshal_SessionConfigOption :: "(string \<times> string \<times> member_action) list" where
  "unmarshal_SessionConfigOption =
    [(''Category'', ''category'', Tolerate), (''Description'', ''description'', Tolerate)]"

definition marshal_SessionConfigOption :: marshaler where
  "marshal_SessionConfigOption = ByWire
    [opt ''Options'' (TPtr (TName ty_SessionConfigSelectOptions)) ''options'']
    [SendNonZero ''Options'',
     EmitSwitch ''Type''
       [(''select'', [SendOptions ''Options''])]]"

definition decl_SessionConfigOption :: go_decl where
  "decl_SessionConfigOption = struct_decl
    [fld ''Type'' (TName ty_SessionConfigOptionType) ''type'',
     omz ''Meta'' (TName ty_Meta) ''_meta'',
     opt ''Category'' (TPtr (TName ty_SessionConfigOptionCategory)) ''category'',
     fld ''CurrentValue'' TAny ''currentValue'',
     opt ''Description'' (TPtr TString) ''description'',
     fld ''ID'' (TName ty_SessionConfigId) ''id'', fld ''Name'' TString ''name'',
     optz ''Options'' (TName ty_SessionConfigSelectOptions) ''options'']
    (ByAlias unmarshal_SessionConfigOption) marshal_SessionConfigOption"

definition decl_SessionConfigOptionType :: go_decl where
  "decl_SessionConfigOptionType = defined_decl TString Reflected"

definition decl_SessionConfigOptionCategory :: go_decl where
  "decl_SessionConfigOptionCategory = defined_decl TString Reflected"

definition unmarshal_SessionConfigOptionsCapabilities :: "(string \<times> string \<times> member_action) list" where
  "unmarshal_SessionConfigOptionsCapabilities =
    [(''Boolean'', ''boolean'', Tolerate)]"

definition decl_SessionConfigOptionsCapabilities :: go_decl where
  "decl_SessionConfigOptionsCapabilities = struct_decl
    [omz ''Meta'' (TName ty_Meta) ''_meta'',
     opt ''Boolean'' (TPtr (TName ty_BooleanConfigOptionCapabilities)) ''boolean'']
    (ByAlias unmarshal_SessionConfigOptionsCapabilities) Encoded"

definition marshal_SessionConfigSelect :: marshaler where
  "marshal_SessionConfigSelect = ByWire
    []
    [NonNilOptions ''Options'']"

definition decl_SessionConfigSelect :: go_decl where
  "decl_SessionConfigSelect = struct_decl
    [fld ''CurrentValue'' (TName ty_SessionConfigValueId) ''currentValue'',
     fld ''Options'' (TName ty_SessionConfigSelectOptions) ''options'']
    Reflected marshal_SessionConfigSelect"

definition unmarshal_SessionConfigSelectGroup :: "(string \<times> string \<times> member_action) list" where
  "unmarshal_SessionConfigSelectGroup =
    [(''Options'', ''options'', TryItems (TName ty_SessionConfigSelectOption) AnyItem False Same)]"

definition marshal_SessionConfigSelectGroup :: marshaler where
  "marshal_SessionConfigSelectGroup = ByWire
    []
    [NonNil ''Options'']"

definition decl_SessionConfigSelectGroup :: go_decl where
  "decl_SessionConfigSelectGroup = struct_decl
    [omz ''Meta'' (TName ty_Meta) ''_meta'',
     fld ''Group'' (TName ty_SessionConfigGroupId) ''group'', fld ''Name'' TString ''name'',
     fld ''Options'' (TSlice (TName ty_SessionConfigSelectOption)) ''options'']
    (ByAlias unmarshal_SessionConfigSelectGroup) marshal_SessionConfigSelectGroup"

definition unmarshal_SessionConfigSelectOption :: "(string \<times> string \<times> member_action) list" where
  "unmarshal_SessionConfigSelectOption =
    [(''Description'', ''description'', Tolerate)]"

definition decl_SessionConfigSelectOption :: go_decl where
  "decl_SessionConfigSelectOption = struct_decl
    [omz ''Meta'' (TName ty_Meta) ''_meta'', opt ''Description'' (TPtr TString) ''description'',
     fld ''Name'' TString ''name'', fld ''Value'' (TName ty_SessionConfigValueId) ''value'']
    (ByAlias unmarshal_SessionConfigSelectOption) Encoded"

definition decl_SessionConfigSelectOptions :: go_decl where
  "decl_SessionConfigSelectOptions = struct_decl
    [fld ''Ungrouped'' (TPtr (TName ty_UngroupedSessionConfigSelectOptions)) ''Ungrouped'',
     fld ''Groups'' (TPtr (TName ty_GroupedSessionConfigSelectOptions)) ''Groups'']
    FlatOrGroups EmitFlatOrGroups"

definition decl_UngroupedSessionConfigSelectOptions :: go_decl where
  "decl_UngroupedSessionConfigSelectOptions = defined_decl (TSlice (TName ty_SessionConfigSelectOption)) Reflected"

definition decl_GroupedSessionConfigSelectOptions :: go_decl where
  "decl_GroupedSessionConfigSelectOptions = defined_decl (TSlice (TName ty_SessionConfigSelectGroup)) Reflected"

definition decl_SessionConfigValueId :: go_decl where
  "decl_SessionConfigValueId = defined_decl TString Reflected"

definition decl_SessionDeleteCapabilities :: go_decl where
  "decl_SessionDeleteCapabilities = struct_decl
    [omz ''Meta'' (TName ty_Meta) ''_meta'']
    Reflected Encoded"

definition decl_SessionForkCapabilities :: go_decl where
  "decl_SessionForkCapabilities = struct_decl
    [omz ''Meta'' (TName ty_Meta) ''_meta'']
    Reflected Encoded"

definition decl_SessionId :: go_decl where
  "decl_SessionId = defined_decl TString Reflected"

definition unmarshal_SessionInfo :: "(string \<times> string \<times> member_action) list" where
  "unmarshal_SessionInfo =
    [(''AdditionalDirectories'', ''additionalDirectories'', TryItems TString AnyItem False Same),
     (''Archived'', ''archived'', Tolerate), (''Title'', ''title'', Tolerate),
     (''UpdatedAt'', ''updatedAt'', Tolerate)]"

definition decl_SessionInfo :: go_decl where
  "decl_SessionInfo = struct_decl
    [omz ''Meta'' (TName ty_Meta) ''_meta'',
     opt ''AdditionalDirectories'' (TSlice TString) ''additionalDirectories'',
     opt ''Archived'' (TPtr TBool) ''archived'', fld ''Cwd'' TString ''cwd'',
     fld ''SessionID'' (TName ty_SessionId) ''sessionId'',
     opt ''Title'' (TPtr TString) ''title'', opt ''UpdatedAt'' (TPtr TString) ''updatedAt'']
    (ByAlias unmarshal_SessionInfo) Encoded"

definition unmarshal_SessionInfoUpdate :: "(string \<times> string \<times> member_action) list" where
  "unmarshal_SessionInfoUpdate =
    [(''Title'', ''title'', Tolerate), (''UpdatedAt'', ''updatedAt'', Tolerate)]"

definition decl_SessionInfoUpdate :: go_decl where
  "decl_SessionInfoUpdate = struct_decl
    [omz ''Meta'' (TName ty_Meta) ''_meta'', opt ''Title'' (TPtr TString) ''title'',
     opt ''UpdatedAt'' (TPtr TString) ''updatedAt'']
    (ByAlias unmarshal_SessionInfoUpdate) Encoded"

definition decl_SessionListCapabilities :: go_decl where
  "decl_SessionListCapabilities = struct_decl
    [omz ''Meta'' (TName ty_Meta) ''_meta'']
    Reflected Encoded"

definition acp_3 :: go_env where
  "acp_3 x =
    (if x = ty_Plan then Some decl_Plan
     else if x = ty_PlanCapabilities then Some decl_PlanCapabilities
     else if x = ty_PlanEntry then Some decl_PlanEntry
     else if x = ty_PlanEntryPriority then Some decl_PlanEntryPriority
     else if x = ty_PlanEntryStatus then Some decl_PlanEntryStatus
     else if x = ty_PlanFile then Some decl_PlanFile
     else if x = ty_PlanId then Some decl_PlanId
     else if x = ty_PlanItems then Some decl_PlanItems
     else if x = ty_PlanMarkdown then Some decl_PlanMarkdown
     else if x = ty_PlanRemoved then Some decl_PlanRemoved
     else if x = ty_PlanUpdate then Some decl_PlanUpdate
     else if x = ty_PlanUpdateContent then Some decl_PlanUpdateContent
     else if x = ty_PlanUpdateContentType then Some decl_PlanUpdateContentType
     else if x = ty_PromptCapabilities then Some decl_PromptCapabilities
     else if x = ty_PromptRequest then Some decl_PromptRequest
     else if x = ty_PromptResponse then Some decl_PromptResponse
     else if x = ty_ProtocolVersion then Some decl_ProtocolVersion
     else if x = ty_ProviderCurrentConfig then Some decl_ProviderCurrentConfig
     else if x = ty_ProviderId then Some decl_ProviderId
     else if x = ty_ProviderInfo then Some decl_ProviderInfo
     else if x = ty_ProvidersCapabilities then Some decl_ProvidersCapabilities
     else if x = ty_ProxySuccessorNotification then Some decl_ProxySuccessorNotification
     else if x = ty_ProxySuccessorRequest then Some decl_ProxySuccessorRequest
     else if x = ty_ProxySuccessorResponse then Some decl_ProxySuccessorResponse
     else if x = ty_ReadTextFileRequest then Some decl_ReadTextFileRequest
     else if x = ty_ReadTextFileResponse then Some decl_ReadTextFileResponse
     else if x = ty_ReleaseTerminalRequest then Some decl_ReleaseTerminalRequest
     else if x = ty_ReleaseTerminalResponse then Some decl_ReleaseTerminalResponse
     else if x = ty_RequestPermissionOutcome then Some decl_RequestPermissionOutcome
     else if x = ty_RequestPermissionOutcomeType then Some decl_RequestPermissionOutcomeType
     else if x = ty_RequestPermissionRequest then Some decl_RequestPermissionRequest
     else if x = ty_RequestPermissionResponse then Some decl_RequestPermissionResponse
     else if x = ty_RequiresActionStateUpdate then Some decl_RequiresActionStateUpdate
     else if x = ty_ResourceLink then Some decl_ResourceLink
     else if x = ty_ResumeSessionRequest then Some decl_ResumeSessionRequest
     else if x = ty_ResumeSessionResponse then Some decl_ResumeSessionResponse
     else if x = ty_Role then Some decl_Role
     else if x = ty_RunningStateUpdate then Some decl_RunningStateUpdate
     else if x = ty_SelectedPermissionOutcome then Some decl_SelectedPermissionOutcome
     else if x = ty_SessionAdditionalDirectoriesCapabilities then Some decl_SessionAdditionalDirectoriesCapabilities
     else if x = ty_SessionArchiveCapabilities then Some decl_SessionArchiveCapabilities
     else if x = ty_SessionArchiveFilter then Some decl_SessionArchiveFilter
     else if x = ty_SessionCancelCapabilities then Some decl_SessionCancelCapabilities
     else if x = ty_SessionCapabilities then Some decl_SessionCapabilities
     else if x = ty_SessionCloseCapabilities then Some decl_SessionCloseCapabilities
     else if x = ty_SessionConfigBoolean then Some decl_SessionConfigBoolean
     else if x = ty_SessionConfigGroupId then Some decl_SessionConfigGroupId
     else if x = ty_SessionConfigId then Some decl_SessionConfigId
     else if x = ty_SessionConfigOption then Some decl_SessionConfigOption
     else if x = ty_SessionConfigOptionType then Some decl_SessionConfigOptionType
     else if x = ty_SessionConfigOptionCategory then Some decl_SessionConfigOptionCategory
     else if x = ty_SessionConfigOptionsCapabilities then Some decl_SessionConfigOptionsCapabilities
     else if x = ty_SessionConfigSelect then Some decl_SessionConfigSelect
     else if x = ty_SessionConfigSelectGroup then Some decl_SessionConfigSelectGroup
     else if x = ty_SessionConfigSelectOption then Some decl_SessionConfigSelectOption
     else if x = ty_SessionConfigSelectOptions then Some decl_SessionConfigSelectOptions
     else if x = ty_UngroupedSessionConfigSelectOptions then Some decl_UngroupedSessionConfigSelectOptions
     else if x = ty_GroupedSessionConfigSelectOptions then Some decl_GroupedSessionConfigSelectOptions
     else if x = ty_SessionConfigValueId then Some decl_SessionConfigValueId
     else if x = ty_SessionDeleteCapabilities then Some decl_SessionDeleteCapabilities
     else if x = ty_SessionForkCapabilities then Some decl_SessionForkCapabilities
     else if x = ty_SessionId then Some decl_SessionId
     else if x = ty_SessionInfo then Some decl_SessionInfo
     else if x = ty_SessionInfoUpdate then Some decl_SessionInfoUpdate
     else if x = ty_SessionListCapabilities then Some decl_SessionListCapabilities
     else None)"

end
