(* ===== verification/Acp_Types_4.thy ===== *)
theory Acp_Types_4
  imports Go_Types
begin

text \<open>
  The types \<open>SessionMessage\<close> to \<open>WriteTextFileResponse\<close> of acp/types_gen.go: fields, \<open>UnmarshalJSON\<close> and
  \<open>MarshalJSON\<close>. The constants of a discriminator or an enumeration are written as their values.
\<close>

definition unmarshal_SessionMessage :: "(string \<times> string \<times> member_action) list" where
  "unmarshal_SessionMessage =
    [(''Meta'', ''_meta'', NullOr (TryInto (TName ty_Meta) Same)),
     (''Content'', ''content'', NullOr (TryItems (TName ty_ContentBlock) (ItemField ''Type'' [''text'', ''image'', ''audio'', ''resource_link'', ''resource'']) True Address)),
     (''RecipientMessageID'', ''recipientMessageId'', NullOr (TryInto (TPtr (TName ty_MessageId)) Same)),
     (''RecipientSessionID'', ''recipientSessionId'', NullOr (TryInto (TPtr (TName ty_SessionId)) Same)),
     (''SenderMessageID'', ''senderMessageId'', NullOr (TryInto (TPtr (TName ty_MessageId)) Same)),
     (''SenderSessionID'', ''senderSessionId'', NullOr (TryInto (TPtr (TName ty_SessionId)) Same))]"

definition marshal_SessionMessage :: marshaler where
  "marshal_SessionMessage = ByWire
    [opt ''Meta'' (TPtr (TName ty_Meta)) ''_meta'',
     opt ''Content'' (TPtr (TPtr (TSlice (TName ty_ContentBlock)))) ''content'',
     opt ''RecipientMessageID'' (TPtr (TPtr (TName ty_MessageId))) ''recipientMessageId'',
     opt ''RecipientSessionID'' (TPtr (TPtr (TName ty_SessionId))) ''recipientSessionId'',
     opt ''SenderMessageID'' (TPtr (TPtr (TName ty_MessageId))) ''senderMessageId'',
     opt ''SenderSessionID'' (TPtr (TPtr (TName ty_SessionId))) ''senderSessionId'']
    [SendNonNil ''Meta'', SendNonNil ''Content'', SendNonNil ''RecipientMessageID'',
     SendNonNil ''RecipientSessionID'', SendNonNil ''SenderMessageID'',
     SendNonNil ''SenderSessionID'', SendNull ''Meta'' ''_meta'',
     SendNull ''Content'' ''content'', SendNull ''RecipientMessageID'' ''recipientMessageId'',
     SendNull ''RecipientSessionID'' ''recipientSessionId'',
     SendNull ''SenderMessageID'' ''senderMessageId'',
     SendNull ''SenderSessionID'' ''senderSessionId'']"

definition decl_SessionMessage :: go_decl where
  "decl_SessionMessage = struct_decl
    [omz ''Meta'' (TName ty_Meta) ''_meta'',
     opt ''Content'' (TPtr (TSlice (TName ty_ContentBlock))) ''content'',
     fld ''MessageID'' (TName ty_MessageId) ''messageId'',
     opt ''RecipientMessageID'' (TPtr (TName ty_MessageId)) ''recipientMessageId'',
     opt ''RecipientSessionID'' (TPtr (TName ty_SessionId)) ''recipientSessionId'',
     opt ''SenderMessageID'' (TPtr (TName ty_MessageId)) ''senderMessageId'',
     opt ''SenderSessionID'' (TPtr (TName ty_SessionId)) ''senderSessionId'',
     fld ''NullFields'' (TSlice TString) ''-'']
    (ByAlias unmarshal_SessionMessage) marshal_SessionMessage"

definition decl_SessionMessageChunk :: go_decl where
  "decl_SessionMessageChunk = struct_decl
    [omz ''Meta'' (TName ty_Meta) ''_meta'', fld ''Content'' (TName ty_ContentBlock) ''content'',
     fld ''MessageID'' (TName ty_MessageId) ''messageId'']
    Reflected Encoded"

definition unmarshal_SessionMode :: "(string \<times> string \<times> member_action) list" where
  "unmarshal_SessionMode =
    [(''Description'', ''description'', Tolerate)]"

definition decl_SessionMode :: go_decl where
  "decl_SessionMode = struct_decl
    [omz ''Meta'' (TName ty_Meta) ''_meta'', opt ''Description'' (TPtr TString) ''description'',
     fld ''ID'' (TName ty_SessionModeId) ''id'', fld ''Name'' TString ''name'']
    (ByAlias unmarshal_SessionMode) Encoded"

definition decl_SessionModeId :: go_decl where
  "decl_SessionModeId = defined_decl TString Reflected"

definition unmarshal_SessionModeState :: "(string \<times> string \<times> member_action) list" where
  "unmarshal_SessionModeState =
    [(''AvailableModes'', ''availableModes'', TryItems (TName ty_SessionMode) AnyItem False Same)]"

definition marshal_SessionModeState :: marshaler where
  "marshal_SessionModeState = ByWire
    []
    [NonNil ''AvailableModes'']"

definition decl_SessionModeState :: go_decl where
  "decl_SessionModeState = struct_decl
    [omz ''Meta'' (TName ty_Meta) ''_meta'',
     fld ''AvailableModes'' (TSlice (TName ty_SessionMode)) ''availableModes'',
     fld ''CurrentModeID'' (TName ty_SessionModeId) ''currentModeId'']
    (ByAlias unmarshal_SessionModeState) marshal_SessionModeState"

definition decl_SessionNotification :: go_decl where
  "decl_SessionNotification = struct_decl
    [omz ''Meta'' (TName ty_Meta) ''_meta'',
     fld ''SessionID'' (TName ty_SessionId) ''sessionId'',
     fld ''Update'' (TName ty_SessionUpdate) ''update'']
    Reflected Encoded"

definition decl_SessionResumeCapabilities :: go_decl where
  "decl_SessionResumeCapabilities = struct_decl
    [omz ''Meta'' (TName ty_Meta) ''_meta'']
    Reflected Encoded"

definition decl_SessionStatus :: go_decl where
  "decl_SessionStatus = defined_decl TString Reflected"

definition decl_SessionStatusCapabilities :: go_decl where
  "decl_SessionStatusCapabilities = struct_decl
    [omz ''Meta'' (TName ty_Meta) ''_meta'']
    Reflected Encoded"

definition decl_SessionStatusRequest :: go_decl where
  "decl_SessionStatusRequest = struct_decl
    [omz ''Meta'' (TName ty_Meta) ''_meta'', fld ''SessionID'' (TName ty_SessionId) ''sessionId'']
    Reflected Encoded"

definition decl_SessionStatusResponse :: go_decl where
  "decl_SessionStatusResponse = struct_decl
    [omz ''Meta'' (TName ty_Meta) ''_meta'', fld ''Status'' (TName ty_SessionStatus) ''status'']
    Reflected Encoded"

definition unmarshal_SessionSystemPromptCapabilities :: "(string \<times> string \<times> member_action) list" where
  "unmarshal_SessionSystemPromptCapabilities =
    [(''Mode'', ''mode'', Tolerate)]"

definition decl_SessionSystemPromptCapabilities :: go_decl where
  "decl_SessionSystemPromptCapabilities = struct_decl
    [omz ''Meta'' (TName ty_Meta) ''_meta'',
     opt ''Mode'' (TPtr (TName ty_SessionSystemPromptModeCapabilities)) ''mode'']
    (ByAlias unmarshal_SessionSystemPromptCapabilities) Encoded"

definition unmarshal_SessionSystemPromptModeCapabilities :: "(string \<times> string \<times> member_action) list" where
  "unmarshal_SessionSystemPromptModeCapabilities =
    [(''Override'', ''override'', Tolerate)]"

definition decl_SessionSystemPromptModeCapabilities :: go_decl where
  "decl_SessionSystemPromptModeCapabilities = struct_decl
    [omz ''Meta'' (TName ty_Meta) ''_meta'',
     opt ''Override'' (TPtr (TName ty_SessionSystemPromptOverrideCapabilities)) ''override'']
    (ByAlias unmarshal_SessionSystemPromptModeCapabilities) Encoded"

definition decl_SessionSystemPromptOverrideCapabilities :: go_decl where
  "decl_SessionSystemPromptOverrideCapabilities = struct_decl
    [omz ''Meta'' (TName ty_Meta) ''_meta'']
    Reflected Encoded"

definition decl_SessionTitleCapabilities :: go_decl where
  "decl_SessionTitleCapabilities = struct_decl
    [omz ''Meta'' (TName ty_Meta) ''_meta'']
    Reflected Encoded"

definition unmarshal_SessionUpdate_Meta :: member_action where
  "unmarshal_SessionUpdate_Meta = SwitchOn ''SessionUpdate''
    [(''user_message_chunk'', Into (TName ty_Meta) Same),
     (''agent_message_chunk'', Into (TName ty_Meta) Same),
     (''agent_thought_chunk'', Into (TName ty_Meta) Same),
     (''tool_call'', Into (TName ty_Meta) Same),
     (''tool_call_update'', Into (TName ty_Meta) Same), (''plan'', Into (TName ty_Meta) Same),
     (''plan_update'', Into (TName ty_Meta) Same), (''plan_removed'', Into (TName ty_Meta) Same),
     (''available_commands_update'', Into (TName ty_Meta) Same),
     (''current_mode_update'', Into (TName ty_Meta) Same),
     (''config_option_update'', Into (TName ty_Meta) Same),
     (''session_info_update'', Into (TName ty_Meta) Same),
     (''usage_update'', Into (TName ty_Meta) Same), (''notice'', Into (TName ty_Meta) Same),
     (''compaction_update'', Into (TName ty_Meta) Same),
     (''compaction_summary_chunk'', Into (TName ty_Meta) Same),
     (''subagent_update'', NullOr (TryInto (TName ty_Meta) Same)),
     (''session_message'', NullOr (TryInto (TName ty_Meta) Same)),
     (''session_message_chunk'', Into (TName ty_Meta) Same)]"

definition unmarshal_SessionUpdate_AdditionalDirectories :: member_action where
  "unmarshal_SessionUpdate_AdditionalDirectories = SwitchOn ''SessionUpdate''
    [(''subagent_update'', NullOr (Into (TPtr (TSlice TString)) Same))]"

definition unmarshal_SessionUpdate_Capabilities :: member_action where
  "unmarshal_SessionUpdate_Capabilities = SwitchOn ''SessionUpdate''
    [(''subagent_update'', NullOr (TryInto (TPtr (TName ty_SubagentSessionCapabilities)) Same))]"

definition unmarshal_SessionUpdate_Content :: member_action where
  "unmarshal_SessionUpdate_Content = SwitchOn ''SessionUpdate''
    [(''user_message_chunk'', Into (TName ty_ContentBlock) (Box (TName ty_ContentBlock))),
     (''agent_message_chunk'', Into (TName ty_ContentBlock) (Box (TName ty_ContentBlock))),
     (''agent_thought_chunk'', Into (TName ty_ContentBlock) (Box (TName ty_ContentBlock))),
     (''tool_call'', TryItems (TName ty_ToolCallContent) (ItemField ''Type'' [''content'', ''diff'', ''terminal'']) False (Box (TSlice (TName ty_ToolCallContent)))),
     (''tool_call_update'', TryItems (TName ty_ToolCallContent) (ItemField ''Type'' [''content'', ''diff'', ''terminal'']) True (BoxAddress (TSlice (TName ty_ToolCallContent)))),
     (''compaction_summary_chunk'', Into (TName ty_ContentBlock) (Box (TName ty_ContentBlock))),
     (''session_message'', NullOr (TryItems (TName ty_ContentBlock) (ItemField ''Type'' [''text'', ''image'', ''audio'', ''resource_link'', ''resource'']) True (BoxAddress (TSlice (TName ty_ContentBlock))))),
     (''session_message_chunk'', Into (TName ty_ContentBlock) (Box (TName ty_ContentBlock)))]"

definition unmarshal_SessionUpdate_Cwd :: member_action where
  "unmarshal_SessionUpdate_Cwd = SwitchOn ''SessionUpdate''
    [(''subagent_update'', NullOr (Into (TPtr TString) Same))]"

definition unmarshal_SessionUpdate_Description :: member_action where
  "unmarshal_SessionUpdate_Description = SwitchOn ''SessionUpdate''
    [(''notice'', TryInto (TPtr TString) Same),
     (''subagent_update'', NullOr (TryInto (TPtr TString) Same))]"

definition unmarshal_SessionUpdate_Kind :: member_action where
  "unmarshal_SessionUpdate_Kind = SwitchOn ''SessionUpdate''
    [(''tool_call'', TryEnum (TName ty_ToolKind) [''read'', ''edit'', ''delete'', ''move'', ''search'', ''execute'', ''think'', ''fetch'', ''switch_mode'', ''other''] Address),
     (''tool_call_update'', TryEnum (TName ty_ToolKind) [''read'', ''edit'', ''delete'', ''move'', ''search'', ''execute'', ''think'', ''fetch'', ''switch_mode'', ''other''] Address)]"

definition unmarshal_SessionUpdate_Locations :: member_action where
  "unmarshal_SessionUpdate_Locations = SwitchOn ''SessionUpdate''
    [(''tool_call'', TryItems (TName ty_ToolCallLocation) AnyItem False Address),
     (''tool_call_update'', TryItems (TName ty_ToolCallLocation) AnyItem True Address)]"

definition unmarshal_SessionUpdate_MessageID :: member_action where
  "unmarshal_SessionUpdate_MessageID = SwitchOn ''SessionUpdate''
    [(''user_message_chunk'', TryInto (TPtr (TName ty_MessageId)) Same),
     (''agent_message_chunk'', TryInto (TPtr (TName ty_MessageId)) Same),
     (''agent_thought_chunk'', TryInto (TPtr (TName ty_MessageId)) Same),
     (''session_message'', Into (TName ty_MessageId) Address),
     (''session_message_chunk'', Into (TName ty_MessageId) Address)]"

definition unmarshal_SessionUpdate_RecipientMessageID :: member_action where
  "unmarshal_SessionUpdate_RecipientMessageID = SwitchOn ''SessionUpdate''
    [(''session_message'', NullOr (TryInto (TPtr (TName ty_MessageId)) Same))]"

definition unmarshal_SessionUpdate_RecipientSessionID :: member_action where
  "unmarshal_SessionUpdate_RecipientSessionID = SwitchOn ''SessionUpdate''
    [(''session_message'', NullOr (TryInto (TPtr (TName ty_SessionId)) Same))]"

definition unmarshal_SessionUpdate_SenderMessageID :: member_action where
  "unmarshal_SessionUpdate_SenderMessageID = SwitchOn ''SessionUpdate''
    [(''session_message'', NullOr (TryInto (TPtr (TName ty_MessageId)) Same))]"

definition unmarshal_SessionUpdate_SenderSessionID :: member_action where
  "unmarshal_SessionUpdate_SenderSessionID = SwitchOn ''SessionUpdate''
    [(''session_message'', NullOr (TryInto (TPtr (TName ty_SessionId)) Same))]"

definition unmarshal_SessionUpdate_State :: member_action where
  "unmarshal_SessionUpdate_State = SwitchOn ''SessionUpdate''
    [(''subagent_update'', NullOr (TryInto (TPtr (TName ty_StateUpdate)) Same))]"

definition unmarshal_SessionUpdate_Status :: member_action where
  "unmarshal_SessionUpdate_Status = SwitchOn ''SessionUpdate''
    [(''tool_call'', TryEnum (TName ty_ToolCallStatus) [''pending'', ''in_progress'', ''completed'', ''failed''] Address),
     (''tool_call_update'', TryEnum (TName ty_ToolCallStatus) [''pending'', ''in_progress'', ''completed'', ''failed''] Address),
     (''compaction_update'', Into (TName ty_CompactionStatus) Address)]"

definition unmarshal_SessionUpdate_Title :: member_action where
  "unmarshal_SessionUpdate_Title = SwitchOn ''SessionUpdate''
    [(''tool_call'', Into TString Address), (''tool_call_update'', TryInto (TPtr TString) Same),
     (''session_info_update'', TryInto (TPtr TString) Same), (''notice'', Into TString Address),
     (''subagent_update'', NullOr (TryInto (TPtr TString) Same))]"

definition unmarshal_SessionUpdate :: "(string \<times> string \<times> member_action) list" where
  "unmarshal_SessionUpdate =
    [(''Meta'', ''_meta'', unmarshal_SessionUpdate_Meta),
     (''AdditionalDirectories'', ''additionalDirectories'', unmarshal_SessionUpdate_AdditionalDirectories),
     (''AvailableCommands'', ''availableCommands'', TryItems (TName ty_AvailableCommand) AnyItem False Same),
     (''Capabilities'', ''capabilities'', unmarshal_SessionUpdate_Capabilities),
     (''ConfigOptions'', ''configOptions'', TryItems (TName ty_SessionConfigOption) (ItemField ''Type'' [''select'', ''boolean'']) False Same),
     (''Content'', ''content'', unmarshal_SessionUpdate_Content), (''Cost'', ''cost'', Tolerate),
     (''Cwd'', ''cwd'', unmarshal_SessionUpdate_Cwd),
     (''Description'', ''description'', unmarshal_SessionUpdate_Description),
     (''Entries'', ''entries'', TryItems (TName ty_PlanEntry) AnyItem False Same),
     (''Error'', ''error'', Tolerate), (''Kind'', ''kind'', unmarshal_SessionUpdate_Kind),
     (''Locations'', ''locations'', unmarshal_SessionUpdate_Locations),
     (''MessageID'', ''messageId'', unmarshal_SessionUpdate_MessageID),
     (''Name'', ''name'', Tolerate), (''RawInput'', ''rawInput'', Tolerate),
     (''RawOutput'', ''rawOutput'', Tolerate),
     (''RecipientMessageID'', ''recipientMessageId'', unmarshal_SessionUpdate_RecipientMessageID),
     (''RecipientSessionID'', ''recipientSessionId'', unmarshal_SessionUpdate_RecipientSessionID),
     (''SenderMessageID'', ''senderMessageId'', unmarshal_SessionUpdate_SenderMessageID),
     (''SenderSessionID'', ''senderSessionId'', unmarshal_SessionUpdate_SenderSessionID),
     (''State'', ''state'', unmarshal_SessionUpdate_State),
     (''Status'', ''status'', unmarshal_SessionUpdate_Status),
     (''Summary'', ''summary'', TryItems (TName ty_ContentBlock) (ItemField ''Type'' [''text'', ''image'', ''audio'', ''resource_link'', ''resource'']) True Address),
     (''Title'', ''title'', unmarshal_SessionUpdate_Title),
     (''UpdatedAt'', ''updatedAt'', Tolerate)]"

definition marshal_SessionUpdate_switch1 :: emit where
  "marshal_SessionUpdate_switch1 = EmitSwitch ''SessionUpdate''
    [(''user_message_chunk'', [Send ''Content'']),
     (''agent_message_chunk'', [Send ''Content'']),
     (''agent_thought_chunk'', [Send ''Content'']),
     (''tool_call'', [Send ''Title'', Send ''ToolCallID'']),
     (''tool_call_update'', [Send ''ToolCallID'']),
     (''plan'', [SendSlice ''Entries'']),
     (''plan_update'', [Send ''Plan'']),
     (''plan_removed'', [Send ''PlanID'']),
     (''available_commands_update'', [SendSlice ''AvailableCommands'']),
     (''current_mode_update'', [Send ''CurrentModeID'']),
     (''config_option_update'', [SendSlice ''ConfigOptions'']),
     (''usage_update'', [Send ''Size'', Send ''Used'']),
     (''notice'', [Send ''Severity'', Send ''Title'']),
     (''compaction_update'', [Send ''CompactionID'', Send ''Status'']),
     (''compaction_summary_chunk'', [Send ''CompactionID'', Send ''Content'']),
     (''subagent_update'', [Send ''SessionID'']),
     (''session_message'', [Send ''MessageID'']),
     (''session_message_chunk'', [Send ''Content'', Send ''MessageID''])]"

definition marshal_SessionUpdate_switch2 :: emit where
  "marshal_SessionUpdate_switch2 = EmitSwitch ''SessionUpdate''
    [(''subagent_update'',
       [SendNull ''Meta'' ''_meta'',
        SendNull ''AdditionalDirectories'' ''additionalDirectories'',
        SendNull ''Capabilities'' ''capabilities'', SendNull ''Cwd'' ''cwd'',
        SendNull ''Description'' ''description'', SendNull ''State'' ''state'',
        SendNull ''Title'' ''title'']),
     (''session_message'',
       [SendNull ''Meta'' ''_meta'', SendNull ''Content'' ''content'',
        SendNull ''RecipientMessageID'' ''recipientMessageId'',
        SendNull ''RecipientSessionID'' ''recipientSessionId'',
        SendNull ''SenderMessageID'' ''senderMessageId'',
        SendNull ''SenderSessionID'' ''senderSessionId''])]"

definition marshal_SessionUpdate :: marshaler where
  "marshal_SessionUpdate = ByWire
    [opt ''Content'' (TPtr TAny) ''content'', opt ''Title'' (TPtr (TPtr TString)) ''title'',
     opt ''ToolCallID'' (TPtr (TName ty_ToolCallId)) ''toolCallId'',
     opt ''Entries'' (TPtr (TSlice (TName ty_PlanEntry))) ''entries'',
     opt ''Plan'' (TPtr (TName ty_PlanUpdateContent)) ''plan'',
     opt ''PlanID'' (TPtr (TName ty_PlanId)) ''planId'',
     opt ''AvailableCommands'' (TPtr (TSlice (TName ty_AvailableCommand))) ''availableCommands'',
     opt ''CurrentModeID'' (TPtr (TName ty_SessionModeId)) ''currentModeId'',
     opt ''ConfigOptions'' (TPtr (TSlice (TName ty_SessionConfigOption))) ''configOptions'',
     opt ''Size'' (TPtr (TUnsigned 64)) ''size'', opt ''Used'' (TPtr (TUnsigned 64)) ''used'',
     opt ''Severity'' (TPtr (TName ty_NoticeSeverity)) ''severity'',
     opt ''CompactionID'' (TPtr (TName ty_CompactionId)) ''compactionId'',
     opt ''Status'' (TPtr (TPtr (TName ty_ToolCallStatus))) ''status'',
     opt ''SessionID'' (TPtr (TName ty_SessionId)) ''sessionId'',
     opt ''MessageID'' (TPtr (TPtr (TName ty_MessageId))) ''messageId'',
     opt ''Meta'' (TPtr (TName ty_Meta)) ''_meta'',
     opt ''AdditionalDirectories'' (TPtr (TPtr (TSlice TString))) ''additionalDirectories'',
     opt ''Capabilities'' (TPtr (TPtr (TName ty_SubagentSessionCapabilities))) ''capabilities'',
     opt ''Cwd'' (TPtr (TPtr TString)) ''cwd'',
     opt ''Description'' (TPtr (TPtr TString)) ''description'',
     opt ''RecipientMessageID'' (TPtr (TPtr (TName ty_MessageId))) ''recipientMessageId'',
     opt ''RecipientSessionID'' (TPtr (TPtr (TName ty_SessionId))) ''recipientSessionId'',
     opt ''SenderMessageID'' (TPtr (TPtr (TName ty_MessageId))) ''senderMessageId'',
     opt ''SenderSessionID'' (TPtr (TPtr (TName ty_SessionId))) ''senderSessionId'',
     opt ''State'' (TPtr (TPtr (TName ty_StateUpdate))) ''state'']
    [SendNonNil ''Content'', SendNonNil ''Title'', SendNonZero ''ToolCallID'',
     SendNonEmpty ''Entries'', SendNonZero ''Plan'', SendNonZero ''PlanID'',
     SendNonEmpty ''AvailableCommands'', SendNonZero ''CurrentModeID'',
     SendNonEmpty ''ConfigOptions'', SendNonZero ''Size'', SendNonZero ''Used'',
     SendNonZero ''Severity'', SendNonZero ''CompactionID'', SendNonNil ''Status'',
     SendNonZero ''SessionID'', SendNonNil ''MessageID'', SendNonNil ''Meta'',
     SendNonNil ''AdditionalDirectories'', SendNonNil ''Capabilities'', SendNonNil ''Cwd'',
     SendNonNil ''Description'', SendNonNil ''RecipientMessageID'',
     SendNonNil ''RecipientSessionID'', SendNonNil ''SenderMessageID'',
     SendNonNil ''SenderSessionID'', SendNonNil ''State'',
     marshal_SessionUpdate_switch1,
     marshal_SessionUpdate_switch2]"

definition decl_SessionUpdate :: go_decl where
  "decl_SessionUpdate = struct_decl
    [fld ''SessionUpdate'' (TName ty_SessionUpdateType) ''sessionUpdate'',
     omz ''Meta'' (TName ty_Meta) ''_meta'',
     opt ''AdditionalDirectories'' (TPtr (TSlice TString)) ''additionalDirectories'',
     opt ''AvailableCommands'' (TSlice (TName ty_AvailableCommand)) ''availableCommands'',
     opt ''Capabilities'' (TPtr (TName ty_SubagentSessionCapabilities)) ''capabilities'',
     opt ''CompactionID'' (TName ty_CompactionId) ''compactionId'',
     opt ''ConfigOptions'' (TSlice (TName ty_SessionConfigOption)) ''configOptions'',
     optz ''Content'' TAny ''content'', opt ''Cost'' (TPtr (TName ty_Cost)) ''cost'',
     opt ''CurrentModeID'' (TName ty_SessionModeId) ''currentModeId'',
     opt ''Cwd'' (TPtr TString) ''cwd'', opt ''Description'' (TPtr TString) ''description'',
     opt ''Entries'' (TSlice (TName ty_PlanEntry)) ''entries'',
     opt ''Error'' (TPtr TString) ''error'', opt ''Kind'' (TPtr (TName ty_ToolKind)) ''kind'',
     opt ''Locations'' (TPtr (TSlice (TName ty_ToolCallLocation))) ''locations'',
     opt ''MessageID'' (TPtr (TName ty_MessageId)) ''messageId'',
     opt ''Name'' (TPtr TString) ''name'', optz ''Plan'' (TName ty_PlanUpdateContent) ''plan'',
     opt ''PlanID'' (TName ty_PlanId) ''planId'', opt ''RawInput'' TAny ''rawInput'',
     opt ''RawOutput'' TAny ''rawOutput'',
     opt ''RecipientMessageID'' (TPtr (TName ty_MessageId)) ''recipientMessageId'',
     opt ''RecipientSessionID'' (TPtr (TName ty_SessionId)) ''recipientSessionId'',
     opt ''SenderMessageID'' (TPtr (TName ty_MessageId)) ''senderMessageId'',
     opt ''SenderSessionID'' (TPtr (TName ty_SessionId)) ''senderSessionId'',
     opt ''SessionID'' (TName ty_SessionId) ''sessionId'',
     opt ''Severity'' (TName ty_NoticeSeverity) ''severity'',
     opt ''Size'' (TUnsigned 64) ''size'', opt ''State'' (TPtr (TName ty_StateUpdate)) ''state'',
     opt ''Status'' (TPtr (TName ty_ToolCallStatus)) ''status'',
     opt ''Summary'' (TPtr (TSlice (TName ty_ContentBlock))) ''summary'',
     opt ''Title'' (TPtr TString) ''title'',
     opt ''ToolCallID'' (TName ty_ToolCallId) ''toolCallId'',
     opt ''UpdatedAt'' (TPtr TString) ''updatedAt'', opt ''Used'' (TUnsigned 64) ''used'',
     fld ''NullFields'' (TSlice TString) ''-'']
    (ByAlias unmarshal_SessionUpdate) marshal_SessionUpdate"

definition decl_SessionUpdateType :: go_decl where
  "decl_SessionUpdateType = defined_decl TString Reflected"

definition decl_SetProviderRequest :: go_decl where
  "decl_SetProviderRequest = struct_decl
    [omz ''Meta'' (TName ty_Meta) ''_meta'', fld ''ApiType'' (TName ty_LlmProtocol) ''apiType'',
     fld ''BaseUrl'' TString ''baseUrl'', opt ''Headers'' (TMap TString) ''headers'',
     fld ''ProviderID'' (TName ty_ProviderId) ''providerId'']
    Reflected Encoded"

definition decl_SetProviderResponse :: go_decl where
  "decl_SetProviderResponse = struct_decl
    [omz ''Meta'' (TName ty_Meta) ''_meta'']
    Reflected Encoded"

definition decl_SetSessionConfigOptionRequest :: go_decl where
  "decl_SetSessionConfigOptionRequest = struct_decl
    [opt ''Type'' (TName ty_SetSessionConfigOptionRequestType) ''type'',
     omz ''Meta'' (TName ty_Meta) ''_meta'',
     fld ''ConfigID'' (TName ty_SessionConfigId) ''configId'',
     fld ''SessionID'' (TName ty_SessionId) ''sessionId'', fld ''Value'' TAny ''value'']
    PlainNumbers Encoded"

definition decl_SetSessionConfigOptionRequestType :: go_decl where
  "decl_SetSessionConfigOptionRequestType = defined_decl TString Reflected"

definition unmarshal_SetSessionConfigOptionResponse :: "(string \<times> string \<times> member_action) list" where
  "unmarshal_SetSessionConfigOptionResponse =
    [(''ConfigOptions'', ''configOptions'', TryItems (TName ty_SessionConfigOption) (ItemField ''Type'' [''select'', ''boolean'']) False Same)]"

definition marshal_SetSessionConfigOptionResponse :: marshaler where
  "marshal_SetSessionConfigOptionResponse = ByWire
    []
    [NonNil ''ConfigOptions'']"

definition decl_SetSessionConfigOptionResponse :: go_decl where
  "decl_SetSessionConfigOptionResponse = struct_decl
    [omz ''Meta'' (TName ty_Meta) ''_meta'',
     fld ''ConfigOptions'' (TSlice (TName ty_SessionConfigOption)) ''configOptions'']
    (ByAlias unmarshal_SetSessionConfigOptionResponse) marshal_SetSessionConfigOptionResponse"

definition decl_SetSessionModeRequest :: go_decl where
  "decl_SetSessionModeRequest = struct_decl
    [omz ''Meta'' (TName ty_Meta) ''_meta'', fld ''ModeID'' (TName ty_SessionModeId) ''modeId'',
     fld ''SessionID'' (TName ty_SessionId) ''sessionId'']
    Reflected Encoded"

definition decl_SetSessionModeResponse :: go_decl where
  "decl_SetSessionModeResponse = struct_decl
    [omz ''Meta'' (TName ty_Meta) ''_meta'']
    Reflected Encoded"

definition decl_SetSessionTitleRequest :: go_decl where
  "decl_SetSessionTitleRequest = struct_decl
    [omz ''Meta'' (TName ty_Meta) ''_meta'',
     fld ''SessionID'' (TName ty_SessionId) ''sessionId'', fld ''Title'' TString ''title'']
    Reflected Encoded"

definition decl_SetSessionTitleResponse :: go_decl where
  "decl_SetSessionTitleResponse = struct_decl
    [omz ''Meta'' (TName ty_Meta) ''_meta'', fld ''Title'' TString ''title'']
    Reflected Encoded"

definition unmarshal_StateUpdate :: "(string \<times> string \<times> member_action) list" where
  "unmarshal_StateUpdate =
    [(''Error'', ''error'', Tolerate), (''Usage'', ''usage'', Tolerate)]"

definition decl_StateUpdate :: go_decl where
  "decl_StateUpdate = struct_decl
    [fld ''State'' (TName ty_StateUpdateType) ''state'', omz ''Meta'' (TName ty_Meta) ''_meta'',
     opt ''Error'' (TPtr (TName ty_Error)) ''error'', opt ''StopReason'' TAny ''stopReason'',
     opt ''Usage'' (TPtr (TName ty_Usage)) ''usage'']
    (ByAlias unmarshal_StateUpdate) Encoded"

definition decl_StateUpdateType :: go_decl where
  "decl_StateUpdateType = defined_decl TString Reflected"

definition decl_StopReason :: go_decl where
  "decl_StopReason = defined_decl TString Reflected"

definition decl_StringFormat :: go_decl where
  "decl_StringFormat = defined_decl TString Reflected"

definition marshal_StringMultiSelectItems :: marshaler where
  "marshal_StringMultiSelectItems = ByWire
    []
    [NonNil ''Enum'']"

definition decl_StringMultiSelectItems :: go_decl where
  "decl_StringMultiSelectItems = struct_decl
    [omz ''Meta'' (TName ty_Meta) ''_meta'', fld ''Enum'' (TSlice TString) ''enum'']
    Reflected marshal_StringMultiSelectItems"

definition unmarshal_StringPropertySchema :: "(string \<times> string \<times> member_action) list" where
  "unmarshal_StringPropertySchema =
    [(''Default'', ''default'', Tolerate), (''Description'', ''description'', Tolerate),
     (''Title'', ''title'', Tolerate)]"

definition decl_StringPropertySchema :: go_decl where
  "decl_StringPropertySchema = struct_decl
    [omz ''Meta'' (TName ty_Meta) ''_meta'', opt ''Default'' (TPtr TString) ''default'',
     opt ''Description'' (TPtr TString) ''description'',
     opt ''Enum'' (TPtr (TSlice TString)) ''enum'',
     opt ''Format'' (TPtr (TName ty_StringFormat)) ''format'',
     opt ''MaxLength'' (TPtr (TUnsigned 32)) ''maxLength'',
     opt ''MinLength'' (TPtr (TUnsigned 32)) ''minLength'',
     opt ''OneOf'' (TPtr (TSlice (TName ty_EnumOption))) ''oneOf'',
     opt ''Pattern'' (TPtr TString) ''pattern'', opt ''Title'' (TPtr TString) ''title'']
    (ByAlias unmarshal_StringPropertySchema) Encoded"

definition decl_SubagentCapabilities :: go_decl where
  "decl_SubagentCapabilities = struct_decl
    [omz ''Meta'' (TName ty_Meta) ''_meta'']
    Reflected Encoded"

definition unmarshal_SubagentSessionCapabilities :: "(string \<times> string \<times> member_action) list" where
  "unmarshal_SubagentSessionCapabilities =
    [(''Cancel'', ''cancel'', Tolerate)]"

definition decl_SubagentSessionCapabilities :: go_decl where
  "decl_SubagentSessionCapabilities = struct_decl
    [omz ''Meta'' (TName ty_Meta) ''_meta'',
     opt ''Cancel'' (TPtr (TName ty_SessionCancelCapabilities)) ''cancel'']
    (ByAlias unmarshal_SubagentSessionCapabilities) Encoded"

definition unmarshal_SubagentUpdate :: "(string \<times> string \<times> member_action) list" where
  "unmarshal_SubagentUpdate =
    [(''Meta'', ''_meta'', NullOr (TryInto (TName ty_Meta) Same)),
     (''AdditionalDirectories'', ''additionalDirectories'', NullOr (Into (TPtr (TSlice TString)) Same)),
     (''Capabilities'', ''capabilities'', NullOr (TryInto (TPtr (TName ty_SubagentSessionCapabilities)) Same)),
     (''Cwd'', ''cwd'', NullOr (Into (TPtr TString) Same)),
     (''Description'', ''description'', NullOr (TryInto (TPtr TString) Same)),
     (''State'', ''state'', NullOr (TryInto (TPtr (TName ty_StateUpdate)) Same)),
     (''Title'', ''title'', NullOr (TryInto (TPtr TString) Same))]"

definition marshal_SubagentUpdate :: marshaler where
  "marshal_SubagentUpdate = ByWire
    [opt ''Meta'' (TPtr (TName ty_Meta)) ''_meta'',
     opt ''AdditionalDirectories'' (TPtr (TPtr (TSlice TString))) ''additionalDirectories'',
     opt ''Capabilities'' (TPtr (TPtr (TName ty_SubagentSessionCapabilities))) ''capabilities'',
     opt ''Cwd'' (TPtr (TPtr TString)) ''cwd'',
     opt ''Description'' (TPtr (TPtr TString)) ''description'',
     opt ''State'' (TPtr (TPtr (TName ty_StateUpdate))) ''state'',
     opt ''Title'' (TPtr (TPtr TString)) ''title'']
    [SendNonNil ''Meta'', SendNonNil ''AdditionalDirectories'', SendNonNil ''Capabilities'',
     SendNonNil ''Cwd'', SendNonNil ''Description'', SendNonNil ''State'', SendNonNil ''Title'',
     SendNull ''Meta'' ''_meta'', SendNull ''AdditionalDirectories'' ''additionalDirectories'',
     SendNull ''Capabilities'' ''capabilities'', SendNull ''Cwd'' ''cwd'',
     SendNull ''Description'' ''description'', SendNull ''State'' ''state'',
     SendNull ''Title'' ''title'']"

definition decl_SubagentUpdate :: go_decl where
  "decl_SubagentUpdate = struct_decl
    [omz ''Meta'' (TName ty_Meta) ''_meta'',
     opt ''AdditionalDirectories'' (TPtr (TSlice TString)) ''additionalDirectories'',
     opt ''Capabilities'' (TPtr (TName ty_SubagentSessionCapabilities)) ''capabilities'',
     opt ''Cwd'' (TPtr TString) ''cwd'', opt ''Description'' (TPtr TString) ''description'',
     fld ''SessionID'' (TName ty_SessionId) ''sessionId'',
     opt ''State'' (TPtr (TName ty_StateUpdate)) ''state'',
     opt ''Title'' (TPtr TString) ''title'', fld ''NullFields'' (TSlice TString) ''-'']
    (ByAlias unmarshal_SubagentUpdate) marshal_SubagentUpdate"

definition marshal_SystemPrompt :: marshaler where
  "marshal_SystemPrompt = ByWire
    []
    [NonNil ''Content'']"

definition decl_SystemPrompt :: go_decl where
  "decl_SystemPrompt = struct_decl
    [omz ''Meta'' (TName ty_Meta) ''_meta'',
     fld ''Content'' (TSlice (TName ty_ContentBlock)) ''content'',
     fld ''Mode'' (TName ty_SystemPromptMode) ''mode'']
    Reflected marshal_SystemPrompt"

definition decl_SystemPromptMode :: go_decl where
  "decl_SystemPromptMode = defined_decl TString Reflected"

definition decl_Terminal :: go_decl where
  "decl_Terminal = struct_decl
    [omz ''Meta'' (TName ty_Meta) ''_meta'',
     fld ''TerminalID'' (TName ty_TerminalId) ''terminalId'']
    Reflected Encoded"

definition unmarshal_TerminalExitStatus :: "(string \<times> string \<times> member_action) list" where
  "unmarshal_TerminalExitStatus =
    [(''ExitCode'', ''exitCode'', Tolerate), (''Signal'', ''signal'', Tolerate)]"

definition decl_TerminalExitStatus :: go_decl where
  "decl_TerminalExitStatus = struct_decl
    [omz ''Meta'' (TName ty_Meta) ''_meta'', opt ''ExitCode'' (TPtr (TUnsigned 32)) ''exitCode'',
     opt ''Signal'' (TPtr TString) ''signal'']
    (ByAlias unmarshal_TerminalExitStatus) Encoded"

definition decl_TerminalId :: go_decl where
  "decl_TerminalId = defined_decl TString Reflected"

definition decl_TerminalOutputRequest :: go_decl where
  "decl_TerminalOutputRequest = struct_decl
    [omz ''Meta'' (TName ty_Meta) ''_meta'',
     fld ''SessionID'' (TName ty_SessionId) ''sessionId'',
     fld ''TerminalID'' (TName ty_TerminalId) ''terminalId'']
    Reflected Encoded"

definition unmarshal_TerminalOutputResponse :: "(string \<times> string \<times> member_action) list" where
  "unmarshal_TerminalOutputResponse =
    [(''ExitStatus'', ''exitStatus'', Tolerate)]"

definition decl_TerminalOutputResponse :: go_decl where
  "decl_TerminalOutputResponse = struct_decl
    [omz ''Meta'' (TName ty_Meta) ''_meta'',
     opt ''ExitStatus'' (TPtr (TName ty_TerminalExitStatus)) ''exitStatus'',
     fld ''Output'' TString ''output'', fld ''Truncated'' TBool ''truncated'']
    (ByAlias unmarshal_TerminalOutputResponse) Encoded"

definition unmarshal_TextContent :: "(string \<times> string \<times> member_action) list" where
  "unmarshal_TextContent =
    [(''Annotations'', ''annotations'', Tolerate)]"

definition decl_TextContent :: go_decl where
  "decl_TextContent = struct_decl
    [omz ''Meta'' (TName ty_Meta) ''_meta'',
     opt ''Annotations'' (TPtr (TName ty_Annotations)) ''annotations'',
     fld ''Text'' TString ''text'']
    (ByAlias unmarshal_TextContent) Encoded"

definition unmarshal_TextResourceContents :: "(string \<times> string \<times> member_action) list" where
  "unmarshal_TextResourceContents =
    [(''MimeType'', ''mimeType'', Tolerate)]"

definition decl_TextResourceContents :: go_decl where
  "decl_TextResourceContents = struct_decl
    [omz ''Meta'' (TName ty_Meta) ''_meta'', opt ''MimeType'' (TPtr TString) ''mimeType'',
     fld ''Text'' TString ''text'', fld ''URI'' TString ''uri'']
    (ByAlias unmarshal_TextResourceContents) Encoded"

definition marshal_TitledMultiSelectItems :: marshaler where
  "marshal_TitledMultiSelectItems = ByWire
    []
    [NonNil ''AnyOf'']"

definition decl_TitledMultiSelectItems :: go_decl where
  "decl_TitledMultiSelectItems = struct_decl
    [omz ''Meta'' (TName ty_Meta) ''_meta'',
     fld ''AnyOf'' (TSlice (TName ty_EnumOption)) ''anyOf'']
    Reflected marshal_TitledMultiSelectItems"

definition unmarshal_ToolCall :: "(string \<times> string \<times> member_action) list" where
  "unmarshal_ToolCall =
    [(''Content'', ''content'', TryItems (TName ty_ToolCallContent) (ItemField ''Type'' [''content'', ''diff'', ''terminal'']) False Same),
     (''Kind'', ''kind'', TryEnum (TName ty_ToolKind) [''read'', ''edit'', ''delete'', ''move'', ''search'', ''execute'', ''think'', ''fetch'', ''switch_mode'', ''other''] Same),
     (''Locations'', ''locations'', TryItems (TName ty_ToolCallLocation) AnyItem False Same),
     (''Name'', ''name'', Tolerate), (''RawInput'', ''rawInput'', Tolerate),
     (''RawOutput'', ''rawOutput'', Tolerate),
     (''Status'', ''status'', TryEnum (TName ty_ToolCallStatus) [''pending'', ''in_progress'', ''completed'', ''failed''] Same)]"

definition decl_ToolCall :: go_decl where
  "decl_ToolCall = struct_decl
    [omz ''Meta'' (TName ty_Meta) ''_meta'',
     opt ''Content'' (TSlice (TName ty_ToolCallContent)) ''content'',
     opt ''Kind'' (TName ty_ToolKind) ''kind'',
     opt ''Locations'' (TSlice (TName ty_ToolCallLocation)) ''locations'',
     opt ''Name'' (TPtr TString) ''name'', opt ''RawInput'' TAny ''rawInput'',
     opt ''RawOutput'' TAny ''rawOutput'', opt ''Status'' (TName ty_ToolCallStatus) ''status'',
     fld ''Title'' TString ''title'', fld ''ToolCallID'' (TName ty_ToolCallId) ''toolCallId'']
    (ByAlias unmarshal_ToolCall) Encoded"

definition unmarshal_ToolCallContent :: "(string \<times> string \<times> member_action) list" where
  "unmarshal_ToolCallContent =
    [(''OldText'', ''oldText'', Tolerate)]"

definition marshal_ToolCallContent :: marshaler where
  "marshal_ToolCallContent = ByWire
    [opt ''Content'' (TPtr (TName ty_ContentBlock)) ''content'',
     opt ''NewText'' (TPtr TString) ''newText'', opt ''Path'' (TPtr TString) ''path'',
     opt ''TerminalID'' (TPtr (TName ty_TerminalId)) ''terminalId'']
    [SendNonZero ''Content'', SendNonZero ''NewText'', SendNonZero ''Path'',
     SendNonZero ''TerminalID'',
     EmitSwitch ''Type''
       [(''content'', [Send ''Content'']),
        (''diff'', [Send ''NewText'', Send ''Path'']),
        (''terminal'', [Send ''TerminalID''])]]"

definition decl_ToolCallContent :: go_decl where
  "decl_ToolCallContent = struct_decl
    [fld ''Type'' (TName ty_ToolCallContentType) ''type'',
     omz ''Meta'' (TName ty_Meta) ''_meta'',
     optz ''Content'' (TName ty_ContentBlock) ''content'', opt ''NewText'' TString ''newText'',
     opt ''OldText'' (TPtr TString) ''oldText'', opt ''Path'' TString ''path'',
     opt ''TerminalID'' (TName ty_TerminalId) ''terminalId'']
    (ByAlias unmarshal_ToolCallContent) marshal_ToolCallContent"

definition decl_ToolCallContentType :: go_decl where
  "decl_ToolCallContentType = defined_decl TString Reflected"

definition decl_ToolCallId :: go_decl where
  "decl_ToolCallId = defined_decl TString Reflected"

definition unmarshal_ToolCallLocation :: "(string \<times> string \<times> member_action) list" where
  "unmarshal_ToolCallLocation =
    [(''Line'', ''line'', Tolerate)]"

definition decl_ToolCallLocation :: go_decl where
  "decl_ToolCallLocation = struct_decl
    [omz ''Meta'' (TName ty_Meta) ''_meta'', opt ''Line'' (TPtr (TUnsigned 32)) ''line'',
     fld ''Path'' TString ''path'']
    (ByAlias unmarshal_ToolCallLocation) Encoded"

definition decl_ToolCallStatus :: go_decl where
  "decl_ToolCallStatus = defined_decl TString Reflected"

definition unmarshal_ToolCallUpdate :: "(string \<times> string \<times> member_action) list" where
  "unmarshal_ToolCallUpdate =
    [(''Content'', ''content'', TryItems (TName ty_ToolCallContent) (ItemField ''Type'' [''content'', ''diff'', ''terminal'']) True Address),
     (''Kind'', ''kind'', TryEnum (TName ty_ToolKind) [''read'', ''edit'', ''delete'', ''move'', ''search'', ''execute'', ''think'', ''fetch'', ''switch_mode'', ''other''] Address),
     (''Locations'', ''locations'', TryItems (TName ty_ToolCallLocation) AnyItem True Address),
     (''Name'', ''name'', Tolerate), (''RawInput'', ''rawInput'', Tolerate),
     (''RawOutput'', ''rawOutput'', Tolerate),
     (''Status'', ''status'', TryEnum (TName ty_ToolCallStatus) [''pending'', ''in_progress'', ''completed'', ''failed''] Address),
     (''Title'', ''title'', Tolerate)]"

definition decl_ToolCallUpdate :: go_decl where
  "decl_ToolCallUpdate = struct_decl
    [omz ''Meta'' (TName ty_Meta) ''_meta'',
     opt ''Content'' (TPtr (TSlice (TName ty_ToolCallContent))) ''content'',
     opt ''Kind'' (TPtr (TName ty_ToolKind)) ''kind'',
     opt ''Locations'' (TPtr (TSlice (TName ty_ToolCallLocation))) ''locations'',
     opt ''Name'' (TPtr TString) ''name'', opt ''RawInput'' TAny ''rawInput'',
     opt ''RawOutput'' TAny ''rawOutput'',
     opt ''Status'' (TPtr (TName ty_ToolCallStatus)) ''status'',
     opt ''Title'' (TPtr TString) ''title'',
     fld ''ToolCallID'' (TName ty_ToolCallId) ''toolCallId'']
    (ByAlias unmarshal_ToolCallUpdate) Encoded"

definition decl_ToolKind :: go_decl where
  "decl_ToolKind = defined_decl TString Reflected"

definition decl_UnarchiveSessionRequest :: go_decl where
  "decl_UnarchiveSessionRequest = struct_decl
    [omz ''Meta'' (TName ty_Meta) ''_meta'', fld ''SessionID'' (TName ty_SessionId) ''sessionId'']
    Reflected Encoded"

definition decl_UnarchiveSessionResponse :: go_decl where
  "decl_UnarchiveSessionResponse = struct_decl
    [omz ''Meta'' (TName ty_Meta) ''_meta'']
    Reflected Encoded"

definition decl_UnknownStateUpdate :: go_decl where
  "decl_UnknownStateUpdate = struct_decl
    [omz ''Meta'' (TName ty_Meta) ''_meta'']
    Reflected Encoded"

definition decl_UnstructuredCommandInput :: go_decl where
  "decl_UnstructuredCommandInput = struct_decl
    [omz ''Meta'' (TName ty_Meta) ''_meta'', fld ''Hint'' TString ''hint'']
    Reflected Encoded"

definition unmarshal_Usage :: "(string \<times> string \<times> member_action) list" where
  "unmarshal_Usage =
    [(''CachedReadTokens'', ''cachedReadTokens'', Tolerate),
     (''CachedWriteTokens'', ''cachedWriteTokens'', Tolerate),
     (''ThoughtTokens'', ''thoughtTokens'', Tolerate)]"

definition decl_Usage :: go_decl where
  "decl_Usage = struct_decl
    [omz ''Meta'' (TName ty_Meta) ''_meta'',
     opt ''CachedReadTokens'' (TPtr (TUnsigned 64)) ''cachedReadTokens'',
     opt ''CachedWriteTokens'' (TPtr (TUnsigned 64)) ''cachedWriteTokens'',
     fld ''InputTokens'' (TUnsigned 64) ''inputTokens'',
     fld ''OutputTokens'' (TUnsigned 64) ''outputTokens'',
     opt ''ThoughtTokens'' (TPtr (TUnsigned 64)) ''thoughtTokens'',
     fld ''TotalTokens'' (TUnsigned 64) ''totalTokens'']
    (ByAlias unmarshal_Usage) Encoded"

definition unmarshal_UsageUpdate :: "(string \<times> string \<times> member_action) list" where
  "unmarshal_UsageUpdate =
    [(''Cost'', ''cost'', Tolerate)]"

definition decl_UsageUpdate :: go_decl where
  "decl_UsageUpdate = struct_decl
    [omz ''Meta'' (TName ty_Meta) ''_meta'', opt ''Cost'' (TPtr (TName ty_Cost)) ''cost'',
     fld ''Size'' (TUnsigned 64) ''size'', fld ''Used'' (TUnsigned 64) ''used'']
    (ByAlias unmarshal_UsageUpdate) Encoded"

definition decl_WaitForTerminalExitRequest :: go_decl where
  "decl_WaitForTerminalExitRequest = struct_decl
    [omz ''Meta'' (TName ty_Meta) ''_meta'',
     fld ''SessionID'' (TName ty_SessionId) ''sessionId'',
     fld ''TerminalID'' (TName ty_TerminalId) ''terminalId'']
    Reflected Encoded"

definition unmarshal_WaitForTerminalExitResponse :: "(string \<times> string \<times> member_action) list" where
  "unmarshal_WaitForTerminalExitResponse =
    [(''ExitCode'', ''exitCode'', Tolerate), (''Signal'', ''signal'', Tolerate)]"

definition decl_WaitForTerminalExitResponse :: go_decl where
  "decl_WaitForTerminalExitResponse = struct_decl
    [omz ''Meta'' (TName ty_Meta) ''_meta'', opt ''ExitCode'' (TPtr (TUnsigned 32)) ''exitCode'',
     opt ''Signal'' (TPtr TString) ''signal'']
    (ByAlias unmarshal_WaitForTerminalExitResponse) Encoded"

definition decl_WriteTextFileRequest :: go_decl where
  "decl_WriteTextFileRequest = struct_decl
    [omz ''Meta'' (TName ty_Meta) ''_meta'', fld ''Content'' TString ''content'',
     fld ''Path'' TString ''path'', fld ''SessionID'' (TName ty_SessionId) ''sessionId'']
    Reflected Encoded"

definition decl_WriteTextFileResponse :: go_decl where
  "decl_WriteTextFileResponse = struct_decl
    [omz ''Meta'' (TName ty_Meta) ''_meta'']
    Reflected Encoded"

definition acp_4 :: go_env where
  "acp_4 x =
    (if x = ty_SessionMessage then Some decl_SessionMessage
     else if x = ty_SessionMessageChunk then Some decl_SessionMessageChunk
     else if x = ty_SessionMode then Some decl_SessionMode
     else if x = ty_SessionModeId then Some decl_SessionModeId
     else if x = ty_SessionModeState then Some decl_SessionModeState
     else if x = ty_SessionNotification then Some decl_SessionNotification
     else if x = ty_SessionResumeCapabilities then Some decl_SessionResumeCapabilities
     else if x = ty_SessionStatus then Some decl_SessionStatus
     else if x = ty_SessionStatusCapabilities then Some decl_SessionStatusCapabilities
     else if x = ty_SessionStatusRequest then Some decl_SessionStatusRequest
     else if x = ty_SessionStatusResponse then Some decl_SessionStatusResponse
     else if x = ty_SessionSystemPromptCapabilities then Some decl_SessionSystemPromptCapabilities
     else if x = ty_SessionSystemPromptModeCapabilities then Some decl_SessionSystemPromptModeCapabilities
     else if x = ty_SessionSystemPromptOverrideCapabilities then Some decl_SessionSystemPromptOverrideCapabilities
     else if x = ty_SessionTitleCapabilities then Some decl_SessionTitleCapabilities
     else if x = ty_SessionUpdate then Some decl_SessionUpdate
     else if x = ty_SessionUpdateType then Some decl_SessionUpdateType
     else if x = ty_SetProviderRequest then Some decl_SetProviderRequest
     else if x = ty_SetProviderResponse then Some decl_SetProviderResponse
     else if x = ty_SetSessionConfigOptionRequest then Some decl_SetSessionConfigOptionRequest
     else if x = ty_SetSessionConfigOptionRequestType then Some decl_SetSessionConfigOptionRequestType
     else if x = ty_SetSessionConfigOptionResponse then Some decl_SetSessionConfigOptionResponse
     else if x = ty_SetSessionModeRequest then Some decl_SetSessionModeRequest
     else if x = ty_SetSessionModeResponse then Some decl_SetSessionModeResponse
     else if x = ty_SetSessionTitleRequest then Some decl_SetSessionTitleRequest
     else if x = ty_SetSessionTitleResponse then Some decl_SetSessionTitleResponse
     else if x = ty_StateUpdate then Some decl_StateUpdate
     else if x = ty_StateUpdateType then Some decl_StateUpdateType
     else if x = ty_StopReason then Some decl_StopReason
     else if x = ty_StringFormat then Some decl_StringFormat
     else if x = ty_StringMultiSelectItems then Some decl_StringMultiSelectItems
     else if x = ty_StringPropertySchema then Some decl_StringPropertySchema
     else if x = ty_SubagentCapabilities then Some decl_SubagentCapabilities
     else if x = ty_SubagentSessionCapabilities then Some decl_SubagentSessionCapabilities
     else if x = ty_SubagentUpdate then Some decl_SubagentUpdate
     else if x = ty_SystemPrompt then Some decl_SystemPrompt
     else if x = ty_SystemPromptMode then Some decl_SystemPromptMode
     else if x = ty_Terminal then Some decl_Terminal
     else if x = ty_TerminalExitStatus then Some decl_TerminalExitStatus
     else if x = ty_TerminalId then Some decl_TerminalId
     else if x = ty_TerminalOutputRequest then Some decl_TerminalOutputRequest
     else if x = ty_TerminalOutputResponse then Some decl_TerminalOutputResponse
     else if x = ty_TextContent then Some decl_TextContent
     else if x = ty_TextResourceContents then Some decl_TextResourceContents
     else if x = ty_TitledMultiSelectItems then Some decl_TitledMultiSelectItems
     else if x = ty_ToolCall then Some decl_ToolCall
     else if x = ty_ToolCallContent then Some decl_ToolCallContent
     else if x = ty_ToolCallContentType then Some decl_ToolCallContentType
     else if x = ty_ToolCallId then Some decl_ToolCallId
     else if x = ty_ToolCallLocation then Some decl_ToolCallLocation
     else if x = ty_ToolCallStatus then Some decl_ToolCallStatus
     else if x = ty_ToolCallUpdate then Some decl_ToolCallUpdate
     else if x = ty_ToolKind then Some decl_ToolKind
     else if x = ty_UnarchiveSessionRequest then Some decl_UnarchiveSessionRequest
     else if x = ty_UnarchiveSessionResponse then Some decl_UnarchiveSessionResponse
     else if x = ty_UnknownStateUpdate then Some decl_UnknownStateUpdate
     else if x = ty_UnstructuredCommandInput then Some decl_UnstructuredCommandInput
     else if x = ty_Usage then Some decl_Usage
     else if x = ty_UsageUpdate then Some decl_UsageUpdate
     else if x = ty_WaitForTerminalExitRequest then Some decl_WaitForTerminalExitRequest
     else if x = ty_WaitForTerminalExitResponse then Some decl_WaitForTerminalExitResponse
     else if x = ty_WriteTextFileRequest then Some decl_WriteTextFileRequest
     else if x = ty_WriteTextFileResponse then Some decl_WriteTextFileResponse
     else None)"

end
