(* ===== verification/Go_Decode.thy ===== *)
theory Go_Decode
  imports Go_Types
begin

text \<open>
  Decoding JSON into a Go value, as \<open>encoding/json\<close> does it for the types of Go_Types, with the
  \<open>UnmarshalJSON\<close> methods of acp/types_gen.go and \<open>unmarshalJSON\<close> of acp/json.go. The text is
  its syntax tree, so it is valid, and numbers in interfaces are \<open>json.Number\<close>. A member is
  decoded into what its field holds already, which matters when a member comes twice; the
  elements a slice had beyond its present length are forgotten.

  A mismatch of a value with its type is noted and decoding goes on; the error of an
  \<open>UnmarshalJSON\<close> ends it at once. In both cases what was decoded until then stays where it was
  put, which a caller that ignores the error sees.
\<close>

datatype dec_error = Mismatch go_type | Refused string

datatype status = Fine | Saved dec_error | Abort dec_error

fun joined :: "status \<Rightarrow> status \<Rightarrow> status" where
  "joined Fine s = s"
| "joined (Saved e) (Abort e') = Abort e'"
| "joined (Saved e) s = Saved e"
| "joined (Abort e) s = Abort e"

text \<open>What \<open>Decode\<close> returns.\<close>

fun error_of :: "status \<Rightarrow> dec_error option" where
  "error_of Fine = None"
| "error_of (Saved e) = Some e"
| "error_of (Abort e) = Some e"

text \<open>What an \<open>UnmarshalJSON\<close> that returns this error is to the decoder that called it.\<close>

fun returned :: "dec_error option \<Rightarrow> status" where
  "returned None = Fine"
| "returned (Some e) = Abort e"

type_synonym decoded = "(go_val \<times> status) option"
type_synonym decoder = "go_type \<Rightarrow> go_val \<Rightarrow> json \<Rightarrow> decoded"

section \<open>Tokens\<close>

text \<open>An integer numeral in range; a fraction or an exponent is a mismatch.\<close>

definition int_numeral :: "string \<Rightarrow> int option" where
  "int_numeral t =
     (case t of
        c # ds \<Rightarrow>
          (if c = CHR ''-'' then (if ds \<noteq> [] \<and> list_all is_digit ds then Some (- int (read_nat ds)) else None)
           else if list_all is_digit t then Some (int (read_nat t)) else None)
      | [] \<Rightarrow> None)"

definition uint_numeral :: "string \<Rightarrow> int option" where
  "uint_numeral t = (if t \<noteq> [] \<and> list_all is_digit t then Some (int (read_nat t)) else None)"

text \<open>
  Whether a numeral is beyond the float64 range: its value, times a power of ten that makes
  it whole, is at least half a unit above the largest float64.
\<close>

definition exponent_of :: "string \<Rightarrow> int" where
  "exponent_of t =
     (case dropWhile (\<lambda>c. c \<noteq> CHR ''e'' \<and> c \<noteq> CHR ''E'') t of
        [] \<Rightarrow> 0
      | _ # x \<Rightarrow> (case x of [] \<Rightarrow> 0
                 | c # ds \<Rightarrow> if c = CHR ''-'' then - int (read_nat ds)
                            else if c = CHR ''+'' then int (read_nat ds) else int (read_nat x)))"

definition float_overflows :: "string \<Rightarrow> bool" where
  "float_overflows t =
     (let m = takeWhile (\<lambda>c. c \<noteq> CHR ''e'' \<and> c \<noteq> CHR ''E'') t;
          frac = drop 1 (dropWhile (\<lambda>c. c \<noteq> CHR ''.'') m);
          digits = read_nat (filter is_digit m);
          e = exponent_of t - int (length frac);
          limit = 2 ^ 1024 - 2 ^ 970 in
      digits \<noteq> 0 \<and>
      (if e < 0 then limit * 10 ^ nat (- e) \<le> digits else limit \<le> digits * 10 ^ nat e))"

text \<open>
  Case folding of member names: letters of ASCII, and the two runes outside it that fold to
  one (U+017F to S, U+212A to K).
\<close>

fun fold_name :: "string \<Rightarrow> string" where
  "fold_name [] = []"
| "fold_name (c # cs) =
     (case cs of
        d # ds \<Rightarrow>
          (if c = CHR 0xC5 \<and> d = CHR 0xBF then CHR ''S'' # fold_name ds
           else (case ds of
                   e # es \<Rightarrow>
                     (if c = CHR 0xE2 \<and> d = CHR 0x84 \<and> e = CHR 0xAA then CHR ''K'' # fold_name es
                      else (if (97 \<le> (of_char c :: nat) \<and> (of_char c :: nat) \<le> 122) then char_of ((of_char c :: nat) - 32) else c) # fold_name cs)
                 | [] \<Rightarrow> (if (97 \<le> (of_char c :: nat) \<and> (of_char c :: nat) \<le> 122) then char_of ((of_char c :: nat) - 32) else c) # fold_name cs))
      | [] \<Rightarrow> [if (97 \<le> (of_char c :: nat) \<and> (of_char c :: nat) \<le> 122) then char_of ((of_char c :: nat) - 32) else c])"

definition find_field :: "go_field list \<Rightarrow> string \<Rightarrow> go_field option" where
  "find_field fs key =
     (case find (\<lambda>f. fd_json f = key) fs of
        Some f \<Rightarrow> Some f
      | None \<Rightarrow> find (\<lambda>f. fold_name (fd_json f) = fold_name key) fs)"

section \<open>Values without a declared type\<close>

text \<open>Into an empty interface.\<close>

fun any_of :: "json \<Rightarrow> go_val" where
  "any_of JNull = VNil"
| "any_of JTrue = VIface TBool (VBool True)"
| "any_of JFalse = VIface TBool (VBool False)"
| "any_of (JNum t) = VIface TNumber (VNumber t)"
| "any_of (JStr b) = VIface TString (VStr (json_unquote b))"
| "any_of (JArr js) = VIface (TSlice TAny) (VSlice (map any_of js))"
| "any_of (JObj ms) = VIface (TMap TAny)
     (VMap (foldl (\<lambda>kvs (k, v). AList.update (json_unquote k) v kvs) [] (map (\<lambda>(k, j). (k, any_of j)) ms)))"

definition dec_ptr :: "decoder \<Rightarrow> (go_type \<Rightarrow> go_val) \<Rightarrow> go_type \<Rightarrow> go_val \<Rightarrow> json \<Rightarrow> decoded" where
  "dec_ptr d z t old j =
     (if j = JNull then Some (VNil, Fine)
      else map_option (\<lambda>(v, s). (VPtr v, s)) (d t (case old of VPtr v \<Rightarrow> v | _ \<Rightarrow> z t) j))"

fun dec_items :: "decoder \<Rightarrow> (go_type \<Rightarrow> go_val) \<Rightarrow> go_type \<Rightarrow> go_val list \<Rightarrow> json list \<Rightarrow> (go_val list \<times> status) option" where
  "dec_items d z t olds [] = Some ([], Fine)"
| "dec_items d z t olds (j # js) =
     (case d t (case olds of v # _ \<Rightarrow> v | [] \<Rightarrow> z t) j of
        None \<Rightarrow> None
      | Some (v, Abort e) \<Rightarrow> Some (v # tl olds, Abort e)
      | Some (v, s) \<Rightarrow>
          map_option (\<lambda>(vs, s'). (v # vs, joined s s')) (dec_items d z t (tl olds) js))"

definition dec_slice :: "decoder \<Rightarrow> (go_type \<Rightarrow> go_val) \<Rightarrow> go_type \<Rightarrow> go_val \<Rightarrow> json \<Rightarrow> decoded" where
  "dec_slice d z t old j =
     (case j of
        JNull \<Rightarrow> Some (VNil, Fine)
      | JArr js \<Rightarrow>
          map_option (\<lambda>(vs, s). (VSlice vs, s))
            (dec_items d z t (case old of VSlice vs \<Rightarrow> vs | _ \<Rightarrow> []) js)
      | _ \<Rightarrow> Some (old, Saved (Mismatch (TSlice t))))"

fun dec_entries :: "decoder \<Rightarrow> (go_type \<Rightarrow> go_val) \<Rightarrow> go_type \<Rightarrow> (string \<times> go_val) list \<Rightarrow> (string \<times> json) list \<Rightarrow> ((string \<times> go_val) list \<times> status) option" where
  "dec_entries d z t kvs [] = Some (kvs, Fine)"
| "dec_entries d z t kvs ((k, j) # ms) =
     (case d t (z t) j of
        None \<Rightarrow> None
      | Some (v, Abort e) \<Rightarrow> Some (kvs, Abort e)
      | Some (v, s) \<Rightarrow>
          map_option (\<lambda>(kvs', s'). (kvs', joined s s'))
            (dec_entries d z t (AList.update (json_unquote k) v kvs) ms))"

definition dec_map :: "decoder \<Rightarrow> (go_type \<Rightarrow> go_val) \<Rightarrow> go_type \<Rightarrow> go_val \<Rightarrow> json \<Rightarrow> decoded" where
  "dec_map d z t old j =
     (case j of
        JNull \<Rightarrow> Some (VNil, Fine)
      | JObj ms \<Rightarrow>
          map_option (\<lambda>(kvs, s). (VMap kvs, s))
            (dec_entries d z t (case old of VMap kvs \<Rightarrow> kvs | _ \<Rightarrow> []) ms)
      | _ \<Rightarrow> Some (old, Saved (Mismatch (TMap t))))"

text \<open>A scalar: null leaves it as it is.\<close>

fun dec_scalar :: "go_type \<Rightarrow> go_val \<Rightarrow> json \<Rightarrow> go_val \<times> status" where
  "dec_scalar t old JNull = (old, Fine)"
| "dec_scalar TBool old JTrue = (VBool True, Fine)"
| "dec_scalar TBool old JFalse = (VBool False, Fine)"
| "dec_scalar TString old (JStr b) = (VStr (json_unquote b), Fine)"
| "dec_scalar TNumber old (JNum t) = (VNumber t, Fine)"
| "dec_scalar TNumber old (JStr b) =
     (if number_token (json_unquote b) then (VNumber (json_unquote b), Fine) else (old, Saved (Mismatch TNumber)))"
| "dec_scalar TFloat64 old (JNum t) =
     (if float_overflows t then (old, Saved (Mismatch TFloat64)) else (VFloat t, Fine))"
| "dec_scalar (TSigned b) old (JNum t) =
     (case int_numeral t of
        Some i \<Rightarrow> if in_signed b i then (VInt i, Fine) else (old, Saved (Mismatch (TSigned b)))
      | None \<Rightarrow> (old, Saved (Mismatch (TSigned b))))"
| "dec_scalar (TUnsigned b) old (JNum t) =
     (case uint_numeral t of
        Some i \<Rightarrow> if in_unsigned b i then (VInt i, Fine) else (old, Saved (Mismatch (TUnsigned b)))
      | None \<Rightarrow> (old, Saved (Mismatch (TUnsigned b))))"
| "dec_scalar t old j = (old, Saved (Mismatch t))"

text \<open>A value of a type that is not a name; \<open>d\<close> decodes its parts.\<close>

fun dec_plain :: "decoder \<Rightarrow> (go_type \<Rightarrow> go_val) \<Rightarrow> go_type \<Rightarrow> go_val \<Rightarrow> json \<Rightarrow> decoded" where
  "dec_plain d z (TPtr t) old j = dec_ptr d z t old j"
| "dec_plain d z (TSlice t) old j = dec_slice d z t old j"
| "dec_plain d z (TMap t) old j = dec_map d z t old j"
| "dec_plain d z TAny old j = Some (any_of j, Fine)"
| "dec_plain d z TRaw old j = Some (VRaw j, Fine)"
| "dec_plain d z (TName x) old j = None"
| "dec_plain d z t old j = Some (dec_scalar t old j)"

section \<open>Structs\<close>

text \<open>The members in their order, each into the field of its name; others are skipped.\<close>

fun dec_members :: "decoder \<Rightarrow> go_field list \<Rightarrow> (string \<times> go_val) list \<Rightarrow> (string \<times> json) list \<Rightarrow> ((string \<times> go_val) list \<times> status) option" where
  "dec_members d fs kvs [] = Some (kvs, Fine)"
| "dec_members d fs kvs ((k, j) # ms) =
     (case find_field fs (json_unquote k) of
        None \<Rightarrow> dec_members d fs kvs ms
      | Some f \<Rightarrow>
          (case d (fd_type f) (get_field (fd_name f) kvs) j of
             None \<Rightarrow> None
           | Some (v, Abort e) \<Rightarrow> Some (set_field (fd_name f) v kvs, Abort e)
           | Some (v, s) \<Rightarrow>
               map_option (\<lambda>(kvs', s'). (kvs', joined s s'))
                 (dec_members d fs (set_field (fd_name f) v kvs) ms)))"

text \<open>The fields that take part in JSON.\<close>

definition json_fields :: "go_field list \<Rightarrow> go_field list" where
  "json_fields fs = filter (\<lambda>f. fd_json f \<noteq> ''-'') fs"

definition dec_struct :: "decoder \<Rightarrow> go_name \<Rightarrow> go_field list \<Rightarrow> go_val \<Rightarrow> json \<Rightarrow> decoded" where
  "dec_struct d x fs old j =
     (case j of
        JNull \<Rightarrow> Some (old, Fine)
      | JObj ms \<Rightarrow> map_option (\<lambda>(kvs, s). (VStruct kvs, s)) (dec_members d (json_fields fs) (struct_of old) ms)
      | _ \<Rightarrow> Some (old, Saved (Mismatch (TName x))))"

section \<open>Methods over an alias with raw fields\<close>

text \<open>
  The struct \<open>raw\<close> of a method: its raw fields, and the fields of the alias that no raw field
  of the same JSON name hides.
\<close>

definition raw_name :: "string \<Rightarrow> string" where
  "raw_name g = ''raw.'' @ g"

definition raw_fields :: "(string \<times> string \<times> member_action) list \<Rightarrow> go_field list" where
  "raw_fields acts = map (\<lambda>(g, jn, a). fld (raw_name g) TRaw jn) acts"

definition alias_fields :: "(string \<times> string \<times> member_action) list \<Rightarrow> go_field list \<Rightarrow> go_field list" where
  "alias_fields acts fs = filter (\<lambda>f. fd_json f \<notin> (fst \<circ> snd) ` set acts) fs"

fun apply_conv :: "conv \<Rightarrow> go_val \<Rightarrow> go_val" where
  "apply_conv Same v = v"
| "apply_conv Address v = VPtr v"
| "apply_conv (Box t) v = VIface t v"
| "apply_conv (BoxAddress t) v = VIface (TPtr t) (VPtr v)"

fun keeps_item :: "item_filter \<Rightarrow> go_val \<Rightarrow> bool" where
  "keeps_item AnyItem v = True"
| "keeps_item (ItemIn ss) v = (text_of v \<in> set ss)"
| "keeps_item (ItemField g ss) v = (text_of (get_field g (struct_of v)) \<in> set ss)"

text \<open>The elements that decode without an error and pass the filter.\<close>

fun good_items :: "decoder \<Rightarrow> (go_type \<Rightarrow> go_val) \<Rightarrow> go_type \<Rightarrow> item_filter \<Rightarrow> json list \<Rightarrow> go_val list option" where
  "good_items d z t flt [] = Some []"
| "good_items d z t flt (j # js) =
     (case d t (z t) j of
        None \<Rightarrow> None
      | Some (v, s) \<Rightarrow>
          map_option (\<lambda>vs. if s = Fine \<and> keeps_item flt v then v # vs else vs) (good_items d z t flt js))"

text \<open>
  One action on the member \<open>j\<close> of the field \<open>g\<close>: the fields after it, and the error the
  method returns, if it does.
\<close>

type_synonym fields_result = "((string \<times> go_val) list \<times> dec_error option) option"

fun dec_action :: "decoder \<Rightarrow> (go_type \<Rightarrow> go_val) \<Rightarrow> go_field list \<Rightarrow> string \<Rightarrow> string \<Rightarrow> json \<Rightarrow> (string \<times> go_val) list \<Rightarrow> member_action \<Rightarrow> fields_result"
  and dec_cases :: "decoder \<Rightarrow> (go_type \<Rightarrow> go_val) \<Rightarrow> go_field list \<Rightarrow> string \<Rightarrow> string \<Rightarrow> json \<Rightarrow> (string \<times> go_val) list \<Rightarrow> string \<Rightarrow> (string \<times> member_action) list \<Rightarrow> fields_result" where
  "dec_action d z fs g jn j kvs Tolerate =
     (case find (\<lambda>f. fd_name f = g) fs of
        None \<Rightarrow> None
      | Some f \<Rightarrow>
          map_option (\<lambda>(v, s). (set_field g v kvs, None)) (d (fd_type f) (get_field g kvs) j))"
| "dec_action d z fs g jn j kvs (Into t c) =
     map_option (\<lambda>(v, s). if s = Fine then (set_field g (apply_conv c v) kvs, None) else (kvs, error_of s))
       (d t (z t) j)"
| "dec_action d z fs g jn j kvs (TryInto t c) =
     map_option (\<lambda>(v, s). (if s = Fine then set_field g (apply_conv c v) kvs else kvs, None))
       (d t (z t) j)"
| "dec_action d z fs g jn j kvs (TryEnum t ss c) =
     map_option (\<lambda>(v, s). (if s = Fine \<and> text_of v \<in> set ss then set_field g (apply_conv c v) kvs else kvs, None))
       (d t (z t) j)"
| "dec_action d z fs g jn j kvs (TryItems t flt non_nil c) =
     (case j of
        JArr js \<Rightarrow> map_option (\<lambda>vs. (set_field g (apply_conv c (VSlice vs)) kvs, None)) (good_items d z t flt js)
      | JNull \<Rightarrow> Some (if non_nil then kvs else set_field g (apply_conv c (VSlice [])) kvs, None)
      | _ \<Rightarrow> Some (kvs, None))"
| "dec_action d z fs g jn j kvs (NullOr a) =
     (if j = JNull
      then Some (set_field ''NullFields''
             (VSlice ((case get_field ''NullFields'' kvs of VSlice vs \<Rightarrow> vs | _ \<Rightarrow> []) @ [VStr jn])) kvs, None)
      else dec_action d z fs g jn j kvs a)"
| "dec_action d z fs g jn j kvs (SwitchOn dsc cases) =
     dec_cases d z fs g jn j kvs (text_of (get_field dsc kvs)) cases"
| "dec_cases d z fs g jn j kvs tag [] = Some (kvs, None)"
| "dec_cases d z fs g jn j kvs tag ((s, a) # cs) =
     (if s = tag then dec_action d z fs g jn j kvs a else dec_cases d z fs g jn j kvs tag cs)"

text \<open>The actions of the raw fields that are present, in order, until one returns an error.\<close>

fun dec_actions :: "decoder \<Rightarrow> (go_type \<Rightarrow> go_val) \<Rightarrow> go_field list \<Rightarrow> (string \<times> string \<times> member_action) list \<Rightarrow> (string \<times> go_val) list \<Rightarrow> (string \<times> go_val) list \<Rightarrow> fields_result" where
  "dec_actions d z fs [] raws kvs = Some (kvs, None)"
| "dec_actions d z fs ((g, jn, a) # acts) raws kvs =
     (case get_field (raw_name g) raws of
        VRaw j \<Rightarrow>
          (case dec_action d z fs g jn j kvs a of
             None \<Rightarrow> None
           | Some (kvs', Some e) \<Rightarrow> Some (kvs', Some e)
           | Some (kvs', None) \<Rightarrow> dec_actions d z fs acts raws kvs')
      | _ \<Rightarrow> dec_actions d z fs acts raws kvs)"

text \<open>The method: into a fresh alias, which replaces the receiver only if there was no error.\<close>

definition dec_alias :: "decoder \<Rightarrow> (go_type \<Rightarrow> go_val) \<Rightarrow> go_name \<Rightarrow> go_field list \<Rightarrow> (string \<times> string \<times> member_action) list \<Rightarrow> go_val \<Rightarrow> json \<Rightarrow> decoded" where
  "dec_alias d z x fs acts old j =
     (let raws = map (\<lambda>(g, jn, a). (raw_name g, VNil)) acts in
      case dec_struct d x (raw_fields acts @ alias_fields acts fs) (VStruct (raws @ struct_of (z (TName x)))) j of
        None \<Rightarrow> None
      | Some (v, s) \<Rightarrow>
          if s \<noteq> Fine then Some (old, returned (error_of s))
          else (case dec_actions d z fs acts (struct_of v) (drop (length acts) (struct_of v)) of
                  None \<Rightarrow> None
                | Some (kvs, None) \<Rightarrow> Some (VStruct kvs, Fine)
                | Some (kvs, Some e) \<Rightarrow> Some (old, Abort e)))"

section \<open>The two methods that occur once\<close>

text \<open>\<open>requireJSONProperties\<close> on a syntax tree; of a member that comes twice the last counts.\<close>

definition last_member :: "string \<Rightarrow> (string \<times> json) list \<Rightarrow> json option" where
  "last_member name ms = map_of (rev (map (\<lambda>(k, j). (json_unquote k, j)) ms)) name"

definition require_properties :: "json \<Rightarrow> string list \<Rightarrow> string list \<Rightarrow> dec_error option" where
  "require_properties j required non_null =
     (case j of
        JObj ms \<Rightarrow>
          (case find (\<lambda>n. last_member n ms = None) required of
             Some n \<Rightarrow> Some (Refused (''missing required property '' @ n))
           | None \<Rightarrow>
               (case find (\<lambda>n. last_member n ms = Some JNull) non_null of
                  Some n \<Rightarrow> Some (Refused (''property '' @ n @ '' must not be null''))
                | None \<Rightarrow> None))
      | JNull \<Rightarrow> (case required of n # _ \<Rightarrow> Some (Refused (''missing required property '' @ n)) | [] \<Rightarrow> None)
      | _ \<Rightarrow> Some (Mismatch (TMap TRaw)))"

text \<open>\<open>MessageMcpResponse.UnmarshalJSON\<close>: the first carrier present, \<open>result\<close> before \<open>error\<close>.\<close>

definition carrier_fields :: "go_field list" where
  "carrier_fields = [fld ''Meta'' TRaw ''_meta'', fld ''Error'' TRaw ''error'', fld ''Result'' TRaw ''result'']"

definition dec_carrier_meta :: "decoder \<Rightarrow> (string \<times> go_val) list \<Rightarrow> (string \<times> go_val) list \<Rightarrow> (string \<times> go_val) list option" where
  "dec_carrier_meta d raw kvs =
     (case get_field ''Meta'' raw of
        VRaw m \<Rightarrow>
          map_option (\<lambda>(v, s). if s = Fine then set_field ''Meta'' v kvs else kvs) (d (TName ty_Meta) VNil m)
      | _ \<Rightarrow> Some kvs)"

definition dec_carrier :: "decoder \<Rightarrow> (go_type \<Rightarrow> go_val) \<Rightarrow> string \<Rightarrow> go_type \<Rightarrow> json \<Rightarrow> (string \<times> go_val) list \<Rightarrow> go_val \<Rightarrow> (string \<times> go_val) list \<Rightarrow> decoded" where
  "dec_carrier d z g t j raw old kvs =
     (case dec_carrier_meta d raw kvs of
        None \<Rightarrow> None
      | Some kvs' \<Rightarrow>
          map_option (\<lambda>(v, s). if s = Fine then (VStruct (set_field g (VPtr v) kvs'), Fine) else (old, returned (error_of s)))
            (d t (z t) j))"

definition dec_carriers :: "decoder \<Rightarrow> (go_type \<Rightarrow> go_val) \<Rightarrow> go_name \<Rightarrow> go_val \<Rightarrow> json \<Rightarrow> decoded" where
  "dec_carriers d z x old j =
     (case dec_struct d x carrier_fields (VStruct (map (\<lambda>f. (fd_name f, VNil)) carrier_fields)) j of
        None \<Rightarrow> None
      | Some (v, s) \<Rightarrow>
          if s \<noteq> Fine then Some (old, returned (error_of s))
          else let raw = struct_of v; kvs = struct_of (z (TName x)) in
            (case get_field ''Result'' raw of
               VRaw r \<Rightarrow> dec_carrier d z ''Result'' TAny r raw old kvs
             | _ \<Rightarrow>
                 (case get_field ''Error'' raw of
                    VRaw e \<Rightarrow>
                      (if e = JNull then Some (old, Abort (Refused ''MessageMcpResponse.error must not be null''))
                       else (case require_properties e [''code'', ''message''] [''code'', ''message''] of
                               Some err \<Rightarrow> Some (old, Abort err)
                             | None \<Rightarrow> dec_carrier d z ''Error'' (TName ty_McpError) e raw old kvs))
                  | _ \<Rightarrow> Some (old, Abort (Refused ''MessageMcpResponse requires one of: result, error'')))))"

text \<open>
  \<open>SessionConfigSelectOptions.UnmarshalJSON\<close>: an array whose first element has the member
  \<open>group\<close> is a list of groups.
\<close>

definition options_value :: "go_val \<Rightarrow> go_val \<Rightarrow> go_val" where
  "options_value ungrouped groups = VStruct [(''Ungrouped'', ungrouped), (''Groups'', groups)]"

definition dec_options_as :: "decoder \<Rightarrow> (go_type \<Rightarrow> go_val) \<Rightarrow> go_name \<Rightarrow> (go_val \<Rightarrow> go_val) \<Rightarrow> go_val \<Rightarrow> json \<Rightarrow> decoded" where
  "dec_options_as d z x wrap old j =
     map_option (\<lambda>(v, s). if s = Fine then (wrap (VPtr v), Fine) else (old, returned (error_of s)))
       (d (TName x) (z (TName x)) j)"

definition dec_flat_or_groups :: "decoder \<Rightarrow> (go_type \<Rightarrow> go_val) \<Rightarrow> go_val \<Rightarrow> json \<Rightarrow> decoded" where
  "dec_flat_or_groups d z old j =
     (case j of
        JNull \<Rightarrow> Some (options_value VNil VNil, Fine)
      | JArr [] \<Rightarrow> Some (options_value (VPtr (VSlice [])) VNil, Fine)
      | JArr (j0 # js) \<Rightarrow>
          (case dec_struct d ty_SessionConfigSelectOptions [fld ''Group'' TRaw ''group''] (VStruct [(''Group'', VNil)]) j0 of
             None \<Rightarrow> None
           | Some (probe, s) \<Rightarrow>
               if s \<noteq> Fine then Some (old, returned (error_of s))
               else (case get_field ''Group'' (struct_of probe) of
                       VRaw g \<Rightarrow> dec_options_as d z ty_GroupedSessionConfigSelectOptions (options_value VNil) old j
                     | _ \<Rightarrow> dec_options_as d z ty_UngroupedSessionConfigSelectOptions (\<lambda>v. options_value v VNil) old j))
      | _ \<Rightarrow> Some (old, Abort (Mismatch (TSlice TRaw))))"

section \<open>The decoder\<close>

text \<open>A value of a declared type, without its method.\<close>

definition dec_shape :: "go_env \<Rightarrow> decoder \<Rightarrow> (go_type \<Rightarrow> go_val) \<Rightarrow> go_name \<Rightarrow> go_val \<Rightarrow> json \<Rightarrow> decoded" where
  "dec_shape E d z x old j =
     (case struct_fields E x of
        Some fs \<Rightarrow> dec_struct d x fs old j
      | None \<Rightarrow>
          (case E x of
             Some D \<Rightarrow> (case gd_shape D of Defined t \<Rightarrow> dec_plain d z t old j | _ \<Rightarrow> None)
           | None \<Rightarrow> None))"

definition dec_name :: "go_env \<Rightarrow> decoder \<Rightarrow> (go_type \<Rightarrow> go_val) \<Rightarrow> go_name \<Rightarrow> go_val \<Rightarrow> json \<Rightarrow> decoded" where
  "dec_name E d z x old j =
     (case E x of
        None \<Rightarrow> None
      | Some D \<Rightarrow>
          (case gd_unmarshal D of
             Reflected \<Rightarrow> dec_shape E d z x old j
           | PlainNumbers \<Rightarrow> map_option (\<lambda>(v, s). (v, returned (error_of s))) (dec_shape E d z x old j)
           | ByAlias acts \<Rightarrow>
               (case struct_fields E x of
                  Some fs \<Rightarrow> dec_alias d z x fs acts old j
                | None \<Rightarrow> None)
           | McpCarriers \<Rightarrow> dec_carriers d z x old j
           | FlatOrGroups \<Rightarrow> dec_flat_or_groups d z old j))"

definition dec_layer :: "go_env \<Rightarrow> decoder \<Rightarrow> decoder" where
  "dec_layer E d t old j =
     (case t of
        TName x \<Rightarrow> dec_name E d (zero E depth) x old j
      | _ \<Rightarrow> dec_plain d (zero E depth) t old j)"

text \<open>The first argument bounds the nesting of calls; \<open>None\<close> is an exceeded bound.\<close>

fun dec :: "go_env \<Rightarrow> nat \<Rightarrow> decoder" where
  "dec E 0 t old j = None"
| "dec E (Suc n) t old j = dec_layer E (dec E n) t old j"

end
