(* ===== verification/Go_Typing.thy ===== *)
theory Go_Typing
  imports Go_Decode
begin

text \<open>
  When declarations fit together, decoding returns within a bound that grows with the nesting
  of the text, and what it leaves in a variable is of the variable's type, whether or not there
  was an error. \<open>wf_env\<close> says that they fit; it is computable.
\<close>

section \<open>Declarations that fit together\<close>

text \<open>How many calls decode the same text before a member or an element is entered.\<close>

fun rereads :: "go_env \<Rightarrow> go_type \<Rightarrow> nat" where
  "rereads E (TPtr t) = Suc (rereads E t)"
| "rereads E (TName x) =
     (case E x of Some D \<Rightarrow> (if gd_unmarshal D = FlatOrGroups then 2 else 1) | None \<Rightarrow> 1)"
| "rereads E t = 1"

fun type_ok :: "go_env \<Rightarrow> go_type \<Rightarrow> bool" where
  "type_ok E (TPtr t) = (type_ok E t \<and> rereads E t \<le> 3)"
| "type_ok E (TSlice t) = type_ok E t"
| "type_ok E (TMap t) = type_ok E t"
| "type_ok E (TName x) = (E x \<noteq> None)"
| "type_ok E t = True"

definition same_shape :: "go_env \<Rightarrow> go_type \<Rightarrow> go_type \<Rightarrow> bool" where
  "same_shape E t u =
     (t = u \<or>
      (case t of
         TName x \<Rightarrow>
           (case u of
              TName y \<Rightarrow>
                (case E x of
                   Some D \<Rightarrow>
                     (case E y of
                        Some D' \<Rightarrow> (case gd_shape D of Defined t' \<Rightarrow> gd_shape D' = Defined t' | _ \<Rightarrow> False)
                      | None \<Rightarrow> False)
                 | None \<Rightarrow> False)
            | _ \<Rightarrow> False)
       | _ \<Rightarrow> False))"

fun conv_ok :: "go_env \<Rightarrow> conv \<Rightarrow> go_type \<Rightarrow> go_type \<Rightarrow> bool" where
  "conv_ok E Same t u = same_shape E t u"
| "conv_ok E Address t u = (case u of TPtr u' \<Rightarrow> same_shape E t u' | _ \<Rightarrow> False)"
| "conv_ok E (Box t') t u = (u = TAny \<and> t = t')"
| "conv_ok E (BoxAddress t') t u = (u = TAny \<and> t = t')"

fun action_ok :: "go_env \<Rightarrow> bool \<Rightarrow> go_type \<Rightarrow> member_action \<Rightarrow> bool" where
  "action_ok E nf u Tolerate = True"
| "action_ok E nf u (Into t c) = (type_ok E t \<and> conv_ok E c t u)"
| "action_ok E nf u (TryInto t c) = (type_ok E t \<and> conv_ok E c t u)"
| "action_ok E nf u (TryEnum t ss c) = (type_ok E t \<and> conv_ok E c t u)"
| "action_ok E nf u (TryItems t flt n c) = (type_ok E t \<and> conv_ok E c (TSlice t) u)"
| "action_ok E nf u (NullOr a) = (nf \<and> action_ok E nf u a)"
| "action_ok E nf u (SwitchOn d cs) = (\<forall>(s, a) \<in> set cs. action_ok E nf u a)"

definition has_null_fields :: "go_field list \<Rightarrow> bool" where
  "has_null_fields fs = list_ex (\<lambda>f. fd_name f = ''NullFields'' \<and> fd_type f = TSlice TString) fs"

definition alias_ok :: "go_env \<Rightarrow> go_field list \<Rightarrow> (string \<times> string \<times> member_action) list \<Rightarrow> bool" where
  "alias_ok E fs acts =
     (distinct (map (\<lambda>(g, jn, a). raw_name g) acts @ map fd_name fs)
      \<and> list_all (\<lambda>(g, jn, a). (case find (\<lambda>f. fd_name f = g) fs of
                                 None \<Rightarrow> False
                               | Some f \<Rightarrow> action_ok E (has_null_fields fs) (fd_type f) a)) acts)"

definition unmarshal_ok :: "go_env \<Rightarrow> go_name \<Rightarrow> go_decl \<Rightarrow> bool" where
  "unmarshal_ok E x D =
     (case gd_unmarshal D of
        Reflected \<Rightarrow> True
      | PlainNumbers \<Rightarrow> True
      | ByAlias acts \<Rightarrow> (case struct_fields E x of Some fs \<Rightarrow> alias_ok E fs acts | None \<Rightarrow> False)
      | McpCarriers \<Rightarrow>
          type_ok E (TName ty_Meta) \<and> type_ok E (TName ty_McpError)
          \<and> rereads E (TName ty_Meta) = 1 \<and> rereads E (TName ty_McpError) = 1
          \<and> (case E ty_Meta of Some D' \<Rightarrow> (case gd_shape D' of Defined (TMap t) \<Rightarrow> True | _ \<Rightarrow> False) | None \<Rightarrow> False)
          \<and> (case struct_fields E x of
               Some fs \<Rightarrow> map (\<lambda>f. (fd_name f, fd_type f)) fs =
                 [(''Meta'', TName ty_Meta), (''Error'', TPtr (TName ty_McpError)), (''Result'', TPtr TAny)]
             | None \<Rightarrow> False)
      | FlatOrGroups \<Rightarrow>
          (\<forall>y \<in> {ty_UngroupedSessionConfigSelectOptions, ty_GroupedSessionConfigSelectOptions}.
             type_ok E (TName y) \<and> rereads E (TName y) = 1
             \<and> (case E y of Some D' \<Rightarrow> (case gd_shape D' of Defined (TSlice t) \<Rightarrow> True | _ \<Rightarrow> False) | None \<Rightarrow> False))
          \<and> (case struct_fields E x of
               Some fs \<Rightarrow> map (\<lambda>f. (fd_name f, fd_type f)) fs =
                 [(''Ungrouped'', TPtr (TName ty_UngroupedSessionConfigSelectOptions)),
                  (''Groups'', TPtr (TName ty_GroupedSessionConfigSelectOptions))]
             | None \<Rightarrow> False))"

definition shape_ok :: "go_env \<Rightarrow> go_name \<Rightarrow> go_decl \<Rightarrow> bool" where
  "shape_ok E x D =
     (case struct_fields E x of
        Some fs \<Rightarrow> distinct (map fd_name fs) \<and> list_all (\<lambda>f. type_ok E (fd_type f)) fs
      | None \<Rightarrow>
          (case gd_shape D of
             Defined t \<Rightarrow> type_ok E t \<and> (case t of TName y \<Rightarrow> False | TPtr u \<Rightarrow> False | _ \<Rightarrow> True)
           | _ \<Rightarrow> False))"

definition decl_ok :: "go_env \<Rightarrow> go_name \<Rightarrow> go_decl \<Rightarrow> bool" where
  "decl_ok E x D = (shape_ok E x D \<and> unmarshal_ok E x D \<and> zero_deep E depth (TName x))"

definition wf_env :: "go_env \<Rightarrow> bool" where
  "wf_env E = (\<forall>x D. E x = Some D \<longrightarrow> decl_ok E x D)"

lemma rereads_le: "type_ok E t \<Longrightarrow> rereads E t \<le> 4"
  by (cases t) (auto split: option.splits)

lemma rereads_pos: "0 < rereads E t"
  by (cases t) (auto split: option.splits)

lemma wf_zero: "wf_env E \<Longrightarrow> type_ok E t \<Longrightarrow> typed E t (zero_of E t)"
  by (rule typed_zero) (cases t; auto simp: wf_env_def decl_ok_def)

section \<open>Decoding returns\<close>

fun nesting :: "json \<Rightarrow> nat" where
  "nesting (JArr js) = Suc (foldr max (map nesting js) 0)"
| "nesting (JObj ms) = Suc (foldr max (map (\<lambda>(k, j). nesting j) ms) 0)"
| "nesting j = 0"

definition enough :: "go_env \<Rightarrow> go_type \<Rightarrow> json \<Rightarrow> nat" where
  "enough E t j = 4 * nesting j + rereads E t"

definition returns_on :: "go_env \<Rightarrow> nat \<Rightarrow> decoder \<Rightarrow> bool" where
  "returns_on E m d = (\<forall>t old j. type_ok E t \<longrightarrow> enough E t j \<le> m \<longrightarrow> d t old j \<noteq> None)"

lemma le_foldr_max: "x \<in> set xs \<Longrightarrow> (x :: nat) \<le> foldr max xs 0"
  by (induction xs) auto

lemma nesting_elem: "j \<in> set js \<Longrightarrow> Suc (nesting j) \<le> nesting (JArr js)"
  by (auto intro!: le_foldr_max)

lemma nesting_member: "(k, j) \<in> set ms \<Longrightarrow> Suc (nesting j) \<le> nesting (JObj ms)"
  by (force intro!: le_foldr_max)

lemma enough_inside: "type_ok E t \<Longrightarrow> Suc (nesting j') \<le> nesting j \<Longrightarrow> enough E t j' \<le> 4 * nesting j"
  using rereads_le [of E t] by (simp add: enough_def)

text \<open>Every part of \<open>j\<close> can be decoded into every good type.\<close>

definition inner :: "go_env \<Rightarrow> decoder \<Rightarrow> json \<Rightarrow> bool" where
  "inner E d j = (\<forall>t old j'. type_ok E t \<longrightarrow> Suc (nesting j') \<le> nesting j \<longrightarrow> d t old j' \<noteq> None)"

lemma inner_of: "returns_on E m d \<Longrightarrow> 4 * nesting j \<le> m \<Longrightarrow> inner E d j"
  unfolding inner_def returns_on_def by (meson enough_inside le_trans)

lemma innerD: "inner E d j \<Longrightarrow> type_ok E t \<Longrightarrow> Suc (nesting j') \<le> nesting j \<Longrightarrow> \<exists>v s. d t old j' = Some (v, s)"
  unfolding inner_def by (metis not_None_eq surj_pair)

lemma inner_mono: "inner E d j \<Longrightarrow> nesting j' \<le> nesting j \<Longrightarrow> inner E d j'"
  by (simp add: inner_def)

lemma dec_items_returns:
  "inner E d j0 \<Longrightarrow> type_ok E t \<Longrightarrow> \<forall>j \<in> set js. Suc (nesting j) \<le> nesting j0 \<Longrightarrow> dec_items d z t olds js \<noteq> None"
proof (induction js arbitrary: olds)
  case Nil
  then show ?case by simp
next
  case (Cons j js)
  then obtain v s where "d t (case olds of v # _ \<Rightarrow> v | [] \<Rightarrow> z t) j = Some (v, s)"
    using innerD [of E d j0 t j] by fastforce
  with Cons show ?case by (cases s) auto
qed

lemma dec_entries_returns:
  "inner E d j0 \<Longrightarrow> type_ok E t \<Longrightarrow> \<forall>(k, j) \<in> set ms. Suc (nesting j) \<le> nesting j0 \<Longrightarrow> dec_entries d z t kvs ms \<noteq> None"
proof (induction ms arbitrary: kvs)
  case Nil
  then show ?case by simp
next
  case (Cons m ms)
  obtain k j where m: "m = (k, j)" by fastforce
  with Cons.prems obtain v s where "d t (z t) j = Some (v, s)"
    using innerD [of E d j0 t j] by fastforce
  with Cons m show ?case by (cases s) auto
qed

lemma find_field_mem: "find_field fs key = Some f \<Longrightarrow> f \<in> set fs"
  by (auto simp: find_field_def find_Some_iff split: option.splits)

lemma dec_members_returns:
  "inner E d j0 \<Longrightarrow> \<forall>f \<in> set fs. type_ok E (fd_type f) \<Longrightarrow>
     \<forall>(k, j) \<in> set ms. Suc (nesting j) \<le> nesting j0 \<Longrightarrow> dec_members d fs kvs ms \<noteq> None"
proof (induction ms arbitrary: kvs)
  case Nil
  then show ?case by simp
next
  case (Cons m ms)
  obtain k j where m: "m = (k, j)" by fastforce
  show ?case
  proof (cases "find_field fs (json_unquote k)")
    case None
    with Cons m show ?thesis by auto
  next
    case (Some f)
    with Cons.prems m obtain v s where "d (fd_type f) (get_field (fd_name f) kvs) j = Some (v, s)"
      using innerD [of E d j0 "fd_type f" j] find_field_mem by fastforce
    with Cons m Some show ?thesis by (cases s) auto
  qed
qed

lemma dec_struct_returns:
  assumes "inner E d j" "\<forall>f \<in> set fs. type_ok E (fd_type f)"
  shows "dec_struct d x fs old j \<noteq> None"
proof (cases j)
  case (JObj ms)
  have "\<forall>(k, j') \<in> set ms. Suc (nesting j') \<le> nesting j"
    unfolding JObj using nesting_member by blast
  then have "dec_members d (json_fields fs) kvs ms \<noteq> None" for kvs
    using assms by (intro dec_members_returns) (auto simp: json_fields_def)
  with JObj show ?thesis by (auto simp: dec_struct_def)
qed (simp_all add: dec_struct_def)

lemma good_items_returns:
  "inner E d j0 \<Longrightarrow> type_ok E t \<Longrightarrow> \<forall>j \<in> set js. Suc (nesting j) \<le> nesting j0 \<Longrightarrow> good_items d z t flt js \<noteq> None"
proof (induction js)
  case Nil
  then show ?case by simp
next
  case (Cons j js)
  then obtain v s where "d t (z t) j = Some (v, s)"
    using innerD [of E d j0 t j] by fastforce
  with Cons show ?case by auto
qed

lemma nesting_elems: "Suc (nesting (JArr js)) \<le> n \<Longrightarrow> \<forall>j \<in> set js. Suc (nesting j) \<le> n"
  using nesting_elem [of _ js] by (metis Suc_leD le_trans)

lemma dec_action_returns:
  assumes "inner E d j0" "Suc (nesting j) \<le> nesting j0"
    and "find (\<lambda>f. fd_name f = g) fs = Some f" "type_ok E (fd_type f)"
  shows "action_ok E nf u a \<Longrightarrow> dec_action d z fs g jn j kvs a \<noteq> None"
    and "\<forall>(s, a) \<in> set cs. action_ok E nf u a \<Longrightarrow> dec_cases d z fs g jn j kvs tag cs \<noteq> None"
  using assms
proof (induction d z fs g jn j kvs a and d z fs g jn j kvs tag cs rule: dec_action_dec_cases.induct)
  case (1 d z fs g jn j kvs)
  then show ?case using innerD [of E d j0 "fd_type f" j] by auto
next
  case (2 d z fs g jn j kvs t c)
  then show ?case using innerD [of E d j0 t j] by auto
next
  case (3 d z fs g jn j kvs t c)
  then show ?case using innerD [of E d j0 t j] by auto
next
  case (4 d z fs g jn j kvs t ss c)
  then show ?case using innerD [of E d j0 t j] by auto
next
  case (5 d z fs g jn j kvs t flt n c)
  then show ?case
    using good_items_returns [of E d j0 t _ z flt] nesting_elems
    by (cases j) auto
next
  case (6 d z fs g jn j kvs a)
  then show ?case by (cases "j = JNull") auto
next
  case (7 d z fs g jn j kvs dsc cases)
  then show ?case by simp
next
  case (8 d z fs g jn j kvs tag)
  then show ?case by simp
next
  case (9 d z fs g jn j kvs tag s a cs)
  then show ?case by (cases "s = tag") simp_all
qed

lemma get_set_field:
  "get_field h (set_field g v kvs) = (if h = g \<and> g \<in> fst ` set kvs then v else get_field h kvs)"
proof (induction kvs)
  case Nil
  then show ?case by (simp add: get_field_def set_field_def)
next
  case (Cons kw kvs)
  obtain k w where "kw = (k, w)" by fastforce
  with Cons show ?case by (cases "k = h"; cases "k = g") (simp_all add: get_field_def set_field_def)
qed

lemma set_field_keys [simp]: "map fst (set_field g v kvs) = map fst kvs"
  by (induction kvs) (auto simp: set_field_def)

definition raw_exact :: "decoder \<Rightarrow> bool" where
  "raw_exact d = (\<forall>old j v s. d TRaw old j = Some (v, s) \<longrightarrow> v = VRaw j \<and> s = Fine)"

lemma raw_exact_dec: "raw_exact (dec E n)"
  by (cases n) (auto simp: raw_exact_def dec_layer_def)

lemma dec_members_raw:
  assumes "raw_exact d" "\<forall>f \<in> set fs. fd_name f = g \<longrightarrow> fd_type f = TRaw"
  shows "dec_members d fs kvs ms = Some (kvs', s) \<Longrightarrow>
    get_field g kvs' = get_field g kvs \<or> (\<exists>(k, j) \<in> set ms. get_field g kvs' = VRaw j)"
proof (induction ms arbitrary: kvs s)
  case Nil
  then show ?case by simp
next
  case (Cons m ms)
  obtain k j where m: "m = (k, j)" by fastforce
  show ?case
  proof (cases "find_field fs (json_unquote k)")
    case None
    with Cons m show ?thesis by fastforce
  next
    case (Some f)
    then have f: "f \<in> set fs" by (rule find_field_mem)
    from Cons.prems m Some obtain v s1 where v: "d (fd_type f) (get_field (fd_name f) kvs) j = Some (v, s1)"
      by (auto split: option.splits)
    have one: "get_field g (set_field (fd_name f) v kvs) = get_field g kvs \<or> get_field g (set_field (fd_name f) v kvs) = VRaw j"
      using assms f v by (auto simp: get_set_field raw_exact_def)
    show ?thesis
    proof (cases "\<exists>e. s1 = Abort e")
      case True
      with Cons.prems m Some v one show ?thesis by auto
    next
      case False
      with Cons.prems m Some v obtain s' where "dec_members d fs (set_field (fd_name f) v kvs) ms = Some (kvs', s')"
        by (cases s1) auto
      with Cons.IH one m show ?thesis by fastforce
    qed
  qed
qed

text \<open>A raw field holds nothing or a member of the text.\<close>

lemma dec_struct_raw:
  assumes "raw_exact d" "\<forall>f \<in> set fs. fd_name f = g \<longrightarrow> fd_type f = TRaw"
    and "dec_struct d x fs (VStruct kvs) j = Some (v, s)" "get_field g kvs = VNil"
    and "get_field g (struct_of v) = VRaw j'"
  shows "Suc (nesting j') \<le> nesting j"
proof (cases j)
  case (JObj ms)
  with assms obtain kvs' where kvs': "dec_members d (json_fields fs) kvs ms = Some (kvs', s)" "v = VStruct kvs'"
    by (auto simp: dec_struct_def)
  with dec_members_raw [OF assms(1) _ kvs'(1), of g] assms obtain k where "(k, j') \<in> set ms"
    by (fastforce simp: json_fields_def)
  then show ?thesis unfolding JObj by (rule nesting_member)
qed (use assms in \<open>auto simp: dec_struct_def\<close>)

lemma dec_actions_returns:
  assumes "inner E d j" "list_all (\<lambda>f. type_ok E (fd_type f)) fs"
  shows "list_all (\<lambda>(g, jn, a). (case find (\<lambda>f. fd_name f = g) fs of
                None \<Rightarrow> False | Some f \<Rightarrow> action_ok E nf (fd_type f) a)) acts \<Longrightarrow>
    \<forall>(g, jn, a) \<in> set acts. \<forall>j'. get_field (raw_name g) raws = VRaw j' \<longrightarrow> Suc (nesting j') \<le> nesting j \<Longrightarrow>
    dec_actions d z fs acts raws kvs \<noteq> None"
proof (induction acts arbitrary: kvs)
  case Nil
  then show ?case by simp
next
  case (Cons gja acts)
  obtain g jn a where gja: "gja = (g, jn, a)" using prod_cases3 by blast
  show ?case
  proof (cases "\<exists>j'. get_field (raw_name g) raws = VRaw j'")
    case False
    with Cons gja show ?thesis by (auto split: go_val.splits)
  next
    case True
    then obtain j' where j': "get_field (raw_name g) raws = VRaw j'" by blast
    from Cons.prems(1) gja obtain f where f: "find (\<lambda>f. fd_name f = g) fs = Some f" "action_ok E nf (fd_type f) a"
      by (auto split: option.splits)
    with assms(2) have "type_ok E (fd_type f)" by (auto simp: find_Some_iff list_all_length)
    with f assms(1) Cons.prems(2) gja j' have "dec_action d z fs g jn j' kvs a \<noteq> None"
      by (intro dec_action_returns(1) [of E d j j' g fs f nf "fd_type f"]) auto
    with Cons gja j' show ?thesis by (auto split: option.splits)
  qed
qed

lemma raw_fields_type [simp]: "f \<in> set (raw_fields acts) \<Longrightarrow> fd_type f = TRaw"
  by (auto simp: raw_fields_def fld_def)

lemma alias_fields_subset: "set (alias_fields acts fs) \<subseteq> set fs"
  by (auto simp: alias_fields_def)

lemma raw_not_alias:
  assumes "distinct (map (\<lambda>(g, jn, a). raw_name g) acts @ map fd_name fs)" "(g, jn, a) \<in> set acts"
  shows "\<forall>f \<in> set (raw_fields acts @ alias_fields acts fs). fd_name f = raw_name g \<longrightarrow> fd_type f = TRaw"
proof -
  have "raw_name g \<notin> fd_name ` set fs" using assms by force
  then show ?thesis using alias_fields_subset [of acts fs] by (metis Un_iff imageI raw_fields_type set_append subsetD)
qed

lemma raws_start:
  assumes "(g, jn, a) \<in> set acts"
  shows "get_field (raw_name g) (map (\<lambda>(g, jn, a). (raw_name g, VNil)) acts @ kvs) = VNil"
  using assms
proof (induction acts)
  case Nil
  then show ?case by simp
next
  case (Cons a acts)
  then show ?case by (cases a) (auto simp: get_field_def)
qed

lemma dec_alias_returns:
  assumes "inner E d j" "raw_exact d" "alias_ok E fs acts" "list_all (\<lambda>f. type_ok E (fd_type f)) fs"
  shows "dec_alias d z x fs acts old j \<noteq> None"
proof -
  let ?fs = "raw_fields acts @ alias_fields acts fs"
  let ?kvs = "map (\<lambda>(g, jn, a). (raw_name g, VNil)) acts @ struct_of (z (TName x))"
  have ok: "\<forall>f \<in> set ?fs. type_ok E (fd_type f)"
    using assms(4) alias_fields_subset [of acts fs] by (auto simp: list_all_iff)
  from dec_struct_returns [OF assms(1) ok] obtain v s
    where v: "dec_struct d x ?fs (VStruct ?kvs) j = Some (v, s)" by fastforce
  have raw: "Suc (nesting j') \<le> nesting j"
    if "(g, jn, a) \<in> set acts" "get_field (raw_name g) (struct_of v) = VRaw j'" for g jn a j'
    using dec_struct_raw [OF assms(2) raw_not_alias v raws_start that(2)] that(1) assms(3)
    by (auto simp: alias_ok_def)
  have "dec_actions d z fs acts (struct_of v) kvs \<noteq> None" for kvs
    by (rule dec_actions_returns [OF assms(1,4), where nf = "has_null_fields fs"])
      (use assms(3) raw in \<open>auto simp: alias_ok_def\<close>)
  then obtain r where "dec_actions d z fs acts (struct_of v) (drop (length acts) (struct_of v)) = Some r" by blast
  with v show ?thesis
    by (cases r; cases "snd r") (simp_all add: dec_alias_def Let_def)
qed

lemma carrier_fields_raw: "f \<in> set carrier_fields \<Longrightarrow> fd_type f = TRaw"
  by (auto simp: carrier_fields_def fld_def)

lemma dec_carrier_returns:
  assumes "inner E d j0" "Suc (nesting j) \<le> nesting j0" "type_ok E t" "type_ok E (TName ty_Meta)"
    and "\<And>m. get_field ''Meta'' raw = VRaw m \<Longrightarrow> Suc (nesting m) \<le> nesting j0"
  shows "dec_carrier d z g t j raw old kvs \<noteq> None"
proof -
  have "dec_carrier_meta d raw kvs \<noteq> None"
    using innerD [OF assms(1,4)] assms(5)
    by (cases "get_field ''Meta'' raw") (fastforce simp: dec_carrier_meta_def)+
  moreover obtain v s where "d t (z t) j = Some (v, s)"
    using innerD [OF assms(1,3,2)] by blast
  ultimately show ?thesis
    by (auto simp: dec_carrier_def)
qed

lemma dec_carriers_returns:
  assumes "inner E d j" "raw_exact d" "type_ok E (TName ty_McpError)" "type_ok E (TName ty_Meta)"
  shows "dec_carriers d z x old j \<noteq> None"
proof -
  let ?kvs = "map (\<lambda>f. (fd_name f, VNil)) carrier_fields"
  have "dec_struct d x carrier_fields (VStruct ?kvs) j \<noteq> None"
    by (rule dec_struct_returns [OF assms(1)]) (simp add: carrier_fields_raw)
  then obtain v s where v: "dec_struct d x carrier_fields (VStruct ?kvs) j = Some (v, s)" by fastforce
  have start: "get_field g ?kvs = VNil" for g
    by (simp add: get_field_def carrier_fields_def fld_def)
  have raw: "Suc (nesting j') \<le> nesting j" if "get_field g (struct_of v) = VRaw j'" for g j'
    by (rule dec_struct_raw [OF assms(2) _ v start that]) (simp add: carrier_fields_raw)
  note c = dec_carrier_returns [OF assms(1) _ _ assms(4)]
  have "dec_carrier d z ''Result'' TAny r (struct_of v) old kvs \<noteq> None"
    if "get_field ''Result'' (struct_of v) = VRaw r" for r kvs
    using c raw that by simp
  moreover have "dec_carrier d z ''Error'' (TName ty_McpError) r (struct_of v) old kvs \<noteq> None"
    if "get_field ''Error'' (struct_of v) = VRaw r" for r kvs
    using c raw that assms(3) by simp
  ultimately show ?thesis
    using v by (simp add: dec_carriers_def Let_def split: go_val.splits option.splits)
qed

lemma dec_flat_or_groups_returns:
  assumes "returns_on E m d" "raw_exact d" "4 * nesting j + 1 \<le> m"
    and "\<forall>y \<in> {ty_UngroupedSessionConfigSelectOptions, ty_GroupedSessionConfigSelectOptions}.
      type_ok E (TName y) \<and> rereads E (TName y) = 1"
  shows "dec_flat_or_groups d z old j \<noteq> None"
proof (cases "\<exists>j0 js. j = JArr (j0 # js)")
  case False
  then show ?thesis by (auto simp: dec_flat_or_groups_def split: json.splits list.splits)
next
  case True
  then obtain j0 js where j: "j = JArr (j0 # js)" by blast
  have "nesting j0 \<le> nesting j" using nesting_elem [of j0 "j0 # js"] j by simp
  then have "inner E d j0"
    using inner_of [OF assms(1), of j] assms(3) inner_mono by auto
  then have "dec_struct d ty_SessionConfigSelectOptions [fld ''Group'' TRaw ''group''] (VStruct [(''Group'', VNil)]) j0 \<noteq> None"
    by (intro dec_struct_returns [of E]) (auto simp: fld_def)
  then obtain p s where p: "dec_struct d ty_SessionConfigSelectOptions [fld ''Group'' TRaw ''group''] (VStruct [(''Group'', VNil)]) j0 = Some (p, s)"
    by fastforce
  have "d (TName y) old' j \<noteq> None"
    if "y \<in> {ty_UngroupedSessionConfigSelectOptions, ty_GroupedSessionConfigSelectOptions}" for y old'
    using assms(1,3,4) that unfolding returns_on_def enough_def by (metis)
  then have "dec_options_as d z y w old j \<noteq> None"
    if "y \<in> {ty_UngroupedSessionConfigSelectOptions, ty_GroupedSessionConfigSelectOptions}" for y w
    using that by (simp add: dec_options_as_def)
  with p j show ?thesis
    by (simp add: dec_flat_or_groups_def split: go_val.splits)
qed

lemma dec_plain_returns:
  assumes "returns_on E m d" "type_ok E t" "\<And>x. t \<noteq> TName x"
    and "4 * nesting j + rereads E t \<le> Suc m"
  shows "dec_plain d z t old j \<noteq> None"
proof -
  have inn: "inner E d j"
    using inner_of [OF assms(1)] assms(4) rereads_pos [of E t] by simp
  show ?thesis
  proof (cases t)
    case (TPtr u)
    with assms have "d u old' j \<noteq> None" for old'
      unfolding returns_on_def enough_def by simp
    with TPtr show ?thesis by (simp add: dec_ptr_def del: not_None_eq)
  next
    case (TSlice u)
    then show ?thesis
      using dec_items_returns [OF inn, of u] nesting_elem assms(2)
      by (cases j) (auto simp: dec_slice_def)
  next
    case (TMap u)
    have "dec_entries d z u kvs ms \<noteq> None" if "j = JObj ms" for kvs ms
      using nesting_member that assms(2) TMap by (intro dec_entries_returns [OF inn]) auto
    with TMap show ?thesis by (cases j) (auto simp: dec_map_def)
  qed (use assms(3) in auto)
qed

theorem dec_layer_returns:
  assumes "wf_env E" "returns_on E m d" "raw_exact d"
  shows "returns_on E (Suc m) (dec_layer E d)"
  unfolding returns_on_def
proof (intro allI impI)
  fix t old j
  assume t: "type_ok E t" and m: "enough E t j \<le> Suc m"
  have inn: "inner E d j"
    using inner_of [OF assms(2)] m rereads_pos [of E t] by (simp add: enough_def)
  show "dec_layer E d t old j \<noteq> None"
  proof (cases "\<exists>x. t = TName x")
    case False
    then show ?thesis
      using dec_plain_returns [OF assms(2) t, of j] m by (auto simp: dec_layer_def enough_def split: go_type.splits)
  next
    case True
    then obtain x D where x: "t = TName x" "E x = Some D" using t by auto
    with assms(1) have D: "shape_ok E x D" "unmarshal_ok E x D" by (auto simp: wf_env_def decl_ok_def)
    have shape: "dec_shape E d z x old j \<noteq> None" for z
    proof (cases "struct_fields E x")
      case (Some fs)
      with D(1) dec_struct_returns [OF inn, of fs x] show ?thesis
        by (simp add: dec_shape_def shape_ok_def list_all_iff)
    next
      case None
      with D(1) x obtain u where u: "gd_shape D = Defined u" "type_ok E u" "\<And>y. u \<noteq> TName y" "\<And>y. u \<noteq> TPtr y"
        by (auto simp: shape_ok_def split: go_shape.splits go_type.splits)
      then have "rereads E u = 1" by (cases u) auto
      with m have "4 * nesting j + rereads E u \<le> Suc m"
        using rereads_pos [of E t] by (simp add: enough_def)
      with u x None dec_plain_returns [OF assms(2) u(2,3)] show ?thesis by (simp add: dec_shape_def)
    qed
    show ?thesis
    proof (cases "gd_unmarshal D")
      case (ByAlias acts)
      with D x show ?thesis
        using dec_alias_returns [OF inn assms(3)]
        by (auto simp: dec_layer_def dec_name_def unmarshal_ok_def shape_ok_def split: option.splits)
    next
      case McpCarriers
      with D x show ?thesis
        using dec_carriers_returns [OF inn assms(3)]
        by (auto simp: dec_layer_def dec_name_def unmarshal_ok_def)
    next
      case FlatOrGroups
      with x m have "4 * nesting j + 1 \<le> m" by (simp add: enough_def)
      from dec_flat_or_groups_returns [OF assms(2,3) this] D FlatOrGroups x show ?thesis
        by (auto simp: dec_layer_def dec_name_def unmarshal_ok_def)
    qed (use shape x in \<open>simp_all add: dec_layer_def dec_name_def\<close>)
  qed
qed

theorem dec_returns: "wf_env E \<Longrightarrow> returns_on E n (dec E n)"
proof (induction n)
  case 0
  then show ?case
    using rereads_pos by (auto simp: returns_on_def enough_def)
next
  case (Suc n)
  have "dec E (Suc n) = dec_layer E (dec E n)" by (intro ext) simp
  with dec_layer_returns [OF Suc.prems Suc.IH [OF Suc.prems] raw_exact_dec] show ?case by simp
qed

section \<open>What is decoded is well-typed\<close>

definition fields_typed :: "go_env \<Rightarrow> go_field list \<Rightarrow> (string \<times> go_val) list \<Rightarrow> bool" where
  "fields_typed E fs kvs = list_all2 (\<lambda>f kv. fst kv = fd_name f \<and> typed E (fd_type f) (snd kv)) fs kvs"

lemma fields_typed_get:
  "fields_typed E fs kvs \<Longrightarrow> distinct (map fd_name fs) \<Longrightarrow> f \<in> set fs \<Longrightarrow> typed E (fd_type f) (get_field (fd_name f) kvs)"
  unfolding fields_typed_def
  by (induction rule: list_all2_induct) (auto simp: get_field_def image_iff)

lemma fields_typed_set:
  assumes "fields_typed E fs kvs" "distinct (map fd_name fs)" "f \<in> set fs" "typed E (fd_type f) v"
  shows "fields_typed E fs (set_field (fd_name f) v kvs)"
  using assms(1) unfolding fields_typed_def set_field_def list_all2_map2
proof (rule list.rel_mono_strong)
  fix f' kv assume "f' \<in> set fs" and kv: "fst kv = fd_name f' \<and> typed E (fd_type f') (snd kv)"
  with assms(2,3) have "fd_name f' = fd_name f \<Longrightarrow> f' = f"
    by (meson distinct_map inj_onD)
  with kv assms(4)
  show "fst (case kv of (k, w) \<Rightarrow> if k = fd_name f then (k, v) else (k, w)) = fd_name f'
    \<and> typed E (fd_type f') (snd (case kv of (k, w) \<Rightarrow> if k = fd_name f then (k, v) else (k, w)))"
    by (cases kv) auto
qed

lemma typed_fields: "struct_fields E x = Some fs \<Longrightarrow> typed E (TName x) v \<longleftrightarrow> (\<exists>kvs. v = VStruct kvs \<and> fields_typed E fs kvs)"
  by (simp add: typed_struct_iff fields_typed_def)

lemma typed_same_shape: "same_shape E t u \<Longrightarrow> typed E t v \<Longrightarrow> typed E u v"
  by (auto simp: same_shape_def typed_defined_iff split: go_type.splits option.splits go_shape.splits)

lemma typed_conv: "conv_ok E c t u \<Longrightarrow> typed E t v \<Longrightarrow> typed E u (apply_conv c v)"
  by (cases c) (auto intro: typed_same_shape split: go_type.splits)

lemma update_typed: "\<forall>kv \<in> set kvs. P (snd kv) \<Longrightarrow> P v \<Longrightarrow> \<forall>kv \<in> set (AList.update k v kvs). P (snd kv)"
  by (induction kvs) auto

lemma updates_typed:
  "\<forall>kv \<in> set kvs. P (snd kv) \<Longrightarrow> \<forall>kv \<in> set ms. P (snd kv) \<Longrightarrow>
     \<forall>kv \<in> set (foldl (\<lambda>kvs (k, v). AList.update (f k) v kvs) kvs ms). P (snd kv)"
proof (induction ms arbitrary: kvs)
  case Nil
  then show ?case by simp
next
  case (Cons m ms)
  obtain k v where m: "m = (k, v)" by fastforce
  with Cons.prems have "\<forall>kv \<in> set (AList.update (f k) v kvs). P (snd kv)"
    by (intro update_typed) auto
  from Cons.IH [OF this] Cons.prems(2) m show ?case by simp
qed

lemma typed_any_of: "typed E TAny (any_of j)"
proof (induction j)
  case (JArr js)
  then have "typed E (TSlice TAny) (VSlice (map any_of js))" by (intro ty_slice) simp
  then show ?case by (simp add: ty_any)
next
  case (JObj ms)
  have "\<forall>kv \<in> set (map (\<lambda>(k, j). (k, any_of j)) ms). typed E TAny (snd kv)"
    using JObj by fastforce
  from updates_typed [OF _ this, of "[]"] have "typed E (TMap TAny) (VMap
      (foldl (\<lambda>kvs (k, v). AList.update (json_unquote k) v kvs) [] (map (\<lambda>(k, j). (k, any_of j)) ms)))"
    by (intro ty_map) simp
  then show ?case by (simp add: ty_any)
qed auto

lemma typed_scalar: "typed E t old \<Longrightarrow> typed E t (fst (dec_scalar t old j))"
  by (induction t old j rule: dec_scalar.induct) (auto split: option.splits)

definition sound :: "go_env \<Rightarrow> decoder \<Rightarrow> bool" where
  "sound E d =
     ((\<forall>t. type_ok E t \<longrightarrow> typed E t (zero_of E t)) \<and>
      (\<forall>t old j v s. type_ok E t \<longrightarrow> typed E t old \<longrightarrow> d t old j = Some (v, s) \<longrightarrow> typed E t v))"

lemma sound_zero: "sound E d \<Longrightarrow> type_ok E t \<Longrightarrow> typed E t (zero_of E t)"
  by (simp add: sound_def)

lemma soundD: "sound E d \<Longrightarrow> type_ok E t \<Longrightarrow> typed E t old \<Longrightarrow> d t old j = Some (v, s) \<Longrightarrow> typed E t v"
  unfolding sound_def by blast

lemma sound_fresh: "sound E d \<Longrightarrow> type_ok E t \<Longrightarrow> d t (zero_of E t) j = Some (v, s) \<Longrightarrow> typed E t v"
  by (rule soundD [OF _ _ sound_zero])

lemma dec_items_typed:
  assumes "sound E d" "type_ok E t"
  shows "\<forall>v \<in> set olds. typed E t v \<Longrightarrow> dec_items d (zero E depth) t olds js = Some (vs, s) \<Longrightarrow> \<forall>v \<in> set vs. typed E t v"
proof (induction js arbitrary: olds vs s)
  case Nil
  then show ?case by simp
next
  case (Cons j js)
  let ?old = "case olds of v # _ \<Rightarrow> v | [] \<Rightarrow> zero_of E t"
  from Cons.prems(2) obtain v s1 where v: "d t ?old j = Some (v, s1)" by (auto split: option.splits)
  have "typed E t ?old" using Cons.prems(1) sound_zero [OF assms] by (cases olds) auto
  with assms v have tv: "typed E t v" by (auto dest: soundD)
  have tl: "\<forall>v \<in> set (tl olds). typed E t v" using Cons.prems(1) by (cases olds) auto
  show ?case
  proof (cases "\<exists>e. s1 = Abort e")
    case True
    with Cons.prems v tv tl show ?thesis by auto
  next
    case False
    with Cons.prems(2) v obtain vs' s' where "dec_items d (zero E depth) t (tl olds) js = Some (vs', s')" "vs = v # vs'"
      by (cases s1) auto
    with Cons.IH [OF tl] tv show ?thesis by simp
  qed
qed

lemma dec_entries_typed:
  assumes "sound E d" "type_ok E t"
  shows "\<forall>kv \<in> set kvs. typed E t (snd kv) \<Longrightarrow> dec_entries d (zero E depth) t kvs ms = Some (kvs', s) \<Longrightarrow>
    \<forall>kv \<in> set kvs'. typed E t (snd kv)"
proof (induction ms arbitrary: kvs kvs' s)
  case Nil
  then show ?case by simp
next
  case (Cons m ms)
  obtain k j where m: "m = (k, j)" by fastforce
  with Cons.prems(2) obtain v s1 where v: "d t (zero_of E t) j = Some (v, s1)" by (auto split: option.splits)
  with assms have "typed E t v" by (auto dest: sound_fresh)
  then have kvs1: "\<forall>kv \<in> set (AList.update (json_unquote k) v kvs). typed E t (snd kv)"
    using Cons.prems(1) by (simp add: update_typed)
  show ?case
  proof (cases "\<exists>e. s1 = Abort e")
    case True
    with Cons.prems v m show ?thesis by auto
  next
    case False
    with Cons.prems(2) v m obtain s' where "dec_entries d (zero E depth) t (AList.update (json_unquote k) v kvs) ms = Some (kvs', s')"
      by (cases s1) auto
    with Cons.IH [OF kvs1] show ?thesis by blast
  qed
qed

lemma dec_members_typed:
  assumes "sound E d" "distinct (map fd_name fs)" "set gs \<subseteq> set fs" "\<forall>f \<in> set gs. type_ok E (fd_type f)"
  shows "fields_typed E fs kvs \<Longrightarrow> dec_members d gs kvs ms = Some (kvs', s) \<Longrightarrow> fields_typed E fs kvs'"
proof (induction ms arbitrary: kvs kvs' s)
  case Nil
  then show ?case by simp
next
  case (Cons m ms)
  obtain k j where m: "m = (k, j)" by fastforce
  show ?case
  proof (cases "find_field gs (json_unquote k)")
    case None
    with Cons m show ?thesis by auto
  next
    case (Some f)
    then have f: "f \<in> set gs" "f \<in> set fs" using find_field_mem assms(3) by auto
    from Cons.prems(2) m Some obtain v s1
      where v: "d (fd_type f) (get_field (fd_name f) kvs) j = Some (v, s1)" by (auto split: option.splits)
    have "typed E (fd_type f) v"
      using soundD [OF assms(1) _ fields_typed_get [OF Cons.prems(1) assms(2) f(2)] v] assms(4) f(1) by blast
    with Cons.prems(1) assms(2) f(2) have kvs1: "fields_typed E fs (set_field (fd_name f) v kvs)"
      by (intro fields_typed_set)
    show ?thesis
    proof (cases "\<exists>e. s1 = Abort e")
      case True
      with Cons.prems v m Some kvs1 show ?thesis by auto
    next
      case False
      with Cons.prems(2) v m Some obtain s' where "dec_members d gs (set_field (fd_name f) v kvs) ms = Some (kvs', s')"
        by (cases s1) auto
      with Cons.IH [OF kvs1] show ?thesis by blast
    qed
  qed
qed

lemma dec_struct_typed:
  assumes "sound E d" "struct_fields E x = Some fs" "shape_ok E x D" "typed E (TName x) old"
    and "dec_struct d x fs old j = Some (v, s)"
  shows "typed E (TName x) v"
proof (cases "\<exists>ms. j = JObj ms")
  case True
  then obtain ms where j: "j = JObj ms" by blast
  obtain kvs where kvs: "old = VStruct kvs" "fields_typed E fs kvs"
    using assms(2,4) by (auto simp: typed_fields)
  from j assms(5) obtain kvs' where kvs': "dec_members d (json_fields fs) (struct_of old) ms = Some (kvs', s)" "v = VStruct kvs'"
    by (auto simp: dec_struct_def)
  have "fields_typed E fs kvs'"
    by (rule dec_members_typed [OF assms(1) _ _ _ _ kvs'(1)])
      (use assms(2,3) kvs in \<open>auto simp: shape_ok_def json_fields_def list_all_iff\<close>)
  with assms(2) kvs' show ?thesis by (simp add: typed_fields)
next
  case False
  with assms(4,5) show ?thesis by (auto simp: dec_struct_def split: json.splits)
qed

lemma good_items_typed:
  assumes "sound E d" "type_ok E t"
  shows "good_items d (zero E depth) t flt js = Some vs \<Longrightarrow> \<forall>v \<in> set vs. typed E t v"
proof (induction js arbitrary: vs)
  case Nil
  then show ?case by simp
next
  case (Cons j js)
  then obtain v s ws where v: "d t (zero_of E t) j = Some (v, s)" "good_items d (zero E depth) t flt js = Some ws"
      "vs = (if s = Fine \<and> keeps_item flt v then v # ws else ws)"
    by (auto split: option.splits)
  with Cons.IH sound_fresh [OF assms v(1)] show ?case by auto
qed

lemma find_name:
  "find (\<lambda>f. fd_name f = g) fs = Some f \<Longrightarrow> f \<in> set fs \<and> fd_name f = g"
  by (auto simp: find_Some_iff)

lemma null_fields_typed:
  assumes "fields_typed E fs kvs" "distinct (map fd_name fs)" "has_null_fields fs"
  shows "fields_typed E fs (set_field ''NullFields''
      (VSlice ((case get_field ''NullFields'' kvs of VSlice vs \<Rightarrow> vs | _ \<Rightarrow> []) @ [VStr jn])) kvs)"
proof -
  from assms(3) obtain f where f: "f \<in> set fs" "fd_name f = ''NullFields''" "fd_type f = TSlice TString"
    by (auto simp: has_null_fields_def list_ex_iff)
  from fields_typed_get [OF assms(1,2) f(1)] f have "typed E (TSlice TString) (get_field ''NullFields'' kvs)" by simp
  then have "typed E (TSlice TString) (VSlice ((case get_field ''NullFields'' kvs of VSlice vs \<Rightarrow> vs | _ \<Rightarrow> []) @ [VStr jn]))"
    by auto
  with fields_typed_set [OF assms(1,2) f(1)] f show ?thesis by simp
qed

lemma dec_action_typed:
  assumes "sound E d" "distinct (map fd_name fs)" "find (\<lambda>f. fd_name f = g) fs = Some f" "type_ok E (fd_type f)"
    and "fields_typed E fs kvs"
  shows "action_ok E (has_null_fields fs) (fd_type f) a \<Longrightarrow>
      dec_action d (zero E depth) fs g jn j kvs a = Some (kvs', e) \<Longrightarrow> fields_typed E fs kvs'"
proof (induction a arbitrary: kvs' e)
  note f = find_name [OF assms(3)]
  have put: "typed E (fd_type f) v \<Longrightarrow> fields_typed E fs (set_field g v kvs)" for v
    using fields_typed_set [OF assms(5,2)] f by blast
  have fresh: "fields_typed E fs (set_field g (apply_conv c v) kvs)"
    if "type_ok E t" "conv_ok E c t (fd_type f)" "d t (zero_of E t) j = Some (v, s)" for t c v s
    using that sound_fresh [OF assms(1)] typed_conv put by blast
  {
    case Tolerate
    then obtain v s where "d (fd_type f) (get_field g kvs) j = Some (v, s)" "kvs' = set_field g v kvs"
      using assms(3) by auto
    then show ?case
      using put soundD [OF assms(1,4) fields_typed_get [OF assms(5,2)]] f by blast
  next
    case (Into t c)
    then show ?case using fresh [of t c] assms(5) by (auto split: if_splits)
  next
    case (TryInto t c)
    then show ?case using fresh [of t c] assms(5) by (auto split: if_splits)
  next
    case (TryEnum t ss c)
    then show ?case using fresh [of t c] assms(5) by (auto split: if_splits)
  next
    case (TryItems t flt n c)
    have items: "fields_typed E fs (set_field g (apply_conv c (VSlice vs)) kvs)" if "\<forall>v \<in> set vs. typed E t v" for vs
      using that TryItems.prems(1) typed_conv [of E c "TSlice t" "fd_type f"] put by simp
    show ?case
    proof (cases j)
      case JNull
      with TryItems.prems(2) items [of "[]"] assms(5) show ?thesis by (auto split: if_splits)
    next
      case (JArr js)
      with TryItems.prems obtain vs where vs: "good_items d (zero E depth) t flt js = Some vs"
          "kvs' = set_field g (apply_conv c (VSlice vs)) kvs"
        by auto
      with good_items_typed [OF assms(1) _ vs(1)] TryItems.prems(1) items show ?thesis by simp
    qed (use TryItems.prems(2) assms(5) in auto)
  next
    case (NullOr a)
    then show ?case
      using null_fields_typed [OF assms(5,2)] by (auto split: if_splits)
  next
    case (SwitchOn dsc cases)
    have "set cs \<subseteq> set cases \<Longrightarrow> dec_cases d (zero E depth) fs g jn j kvs tag cs = Some (kvs', e) \<Longrightarrow> fields_typed E fs kvs'" for tag cs
    proof (induction cs)
      case Nil
      with assms(5) show ?case by simp
    next
      case (Cons sa cs)
      obtain s a where sa: "sa = (s, a)" by fastforce
      with Cons.prems(1) have "(s, a) \<in> set cases" by auto
      with SwitchOn.IH [of "(s, a)" a] SwitchOn.prems(1) Cons sa show ?case by (auto split: if_splits)
    qed
    from this [of cases] SwitchOn.prems(2) show ?case by simp
  }
qed

lemma dec_actions_typed:
  assumes "sound E d" "distinct (map fd_name fs)" "list_all (\<lambda>f. type_ok E (fd_type f)) fs"
  shows "list_all (\<lambda>(g, jn, a). (case find (\<lambda>f. fd_name f = g) fs of
                None \<Rightarrow> False | Some f \<Rightarrow> action_ok E (has_null_fields fs) (fd_type f) a)) acts \<Longrightarrow>
    fields_typed E fs kvs \<Longrightarrow> dec_actions d (zero E depth) fs acts raws kvs = Some (kvs', e) \<Longrightarrow> fields_typed E fs kvs'"
proof (induction acts arbitrary: kvs)
  case Nil
  then show ?case by simp
next
  case (Cons gja acts)
  obtain g jn a where gja: "gja = (g, jn, a)" using prod_cases3 by blast
  show ?case
  proof (cases "\<exists>j'. get_field (raw_name g) raws = VRaw j'")
    case False
    with Cons gja show ?thesis by (auto split: go_val.splits)
  next
    case True
    then obtain j' where j': "get_field (raw_name g) raws = VRaw j'" by blast
    from Cons.prems(1) gja obtain f
      where f: "find (\<lambda>f. fd_name f = g) fs = Some f" "action_ok E (has_null_fields fs) (fd_type f) a"
      by (auto split: option.splits)
    with assms(3) have "type_ok E (fd_type f)" by (auto simp: find_Some_iff list_all_length)
    note act = dec_action_typed [OF assms(1,2) f(1) this Cons.prems(2) f(2)]
    from Cons.prems(3) gja j' obtain kvs1 e1 where 1: "dec_action d (zero E depth) fs g jn j' kvs a = Some (kvs1, e1)"
      by (auto split: option.splits)
    show ?thesis
    proof (cases e1)
      case None
      with 1 Cons act [OF 1] gja j' show ?thesis by auto
    next
      case (Some err)
      with 1 Cons.prems act [OF 1] gja j' show ?thesis by auto
    qed
  qed
qed

lemma fields_typed_append:
  "fields_typed E (fs @ gs) kvs \<Longrightarrow> fields_typed E gs (drop (length fs) kvs)"
  by (auto simp: fields_typed_def list_all2_append1 dest: list_all2_lengthD)

definition raw_start :: "(string \<times> string \<times> member_action) list \<Rightarrow> go_val \<Rightarrow> go_val" where
  "raw_start acts v = VStruct (map (\<lambda>(g, jn, a). (raw_name g, VNil)) acts @ struct_of v)"

lemma dec_alias_unfold:
  "dec_alias d z x fs acts old j =
     (case dec_struct d x (raw_fields acts @ alias_fields acts fs) (raw_start acts (z (TName x))) j of
        None \<Rightarrow> None
      | Some (v, s) \<Rightarrow>
          if s \<noteq> Fine then Some (old, returned (error_of s))
          else (case dec_actions d z fs acts (struct_of v) (drop (length acts) (struct_of v)) of
                  None \<Rightarrow> None
                | Some (kvs, None) \<Rightarrow> Some (VStruct kvs, Fine)
                | Some (kvs, Some e) \<Rightarrow> Some (old, Abort e)))"
  unfolding dec_alias_def Let_def raw_start_def ..

lemma dec_alias_cases:
  assumes "dec_alias d z x fs acts old j = Some (v, s)"
  obtains v1 s1 where "dec_struct d x (raw_fields acts @ alias_fields acts fs) (raw_start acts (z (TName x))) j = Some (v1, s1)"
    and "s1 \<noteq> Fine \<and> v = old \<and> s = returned (error_of s1)
       \<or> s1 = Fine \<and> (\<exists>kvs e. dec_actions d z fs acts (struct_of v1) (drop (length acts) (struct_of v1)) = Some (kvs, e)
           \<and> (e = None \<and> v = VStruct kvs \<and> s = Fine \<or> (\<exists>err. e = Some err \<and> v = old \<and> s = Abort err)))"
  using assms unfolding dec_alias_unfold
  by (auto split: option.splits prod.splits if_splits)

lemma dec_alias_typed:
  assumes "sound E d" "struct_fields E x = Some fs" "shape_ok E x D" "alias_ok E fs acts"
    and "type_ok E (TName x)" "typed E (TName x) old" "dec_alias d (zero E depth) x fs acts old j = Some (v, s)"
  shows "typed E (TName x) v"
proof -
  let ?all = "raw_fields acts @ fs"
  let ?fs = "raw_fields acts @ alias_fields acts fs"
  let ?z = "zero_of E (TName x)"
  let ?kvs = "map (\<lambda>(g, jn, a). (raw_name g, VNil)) acts @ struct_of ?z"
  from assms(3,2) have fs: "distinct (map fd_name fs)" "list_all (\<lambda>f. type_ok E (fd_type f)) fs"
    by (auto simp: shape_ok_def)
  have len: "length (raw_fields acts) = length acts" by (simp add: raw_fields_def)
  have names: "map fd_name (raw_fields acts) = map (\<lambda>(g, jn, a). raw_name g) acts"
    by (auto simp: raw_fields_def fld_def)
  have dist: "distinct (map fd_name ?all)" using assms(4) names by (simp add: alias_ok_def)
  have "fields_typed E fs (struct_of ?z)"
    using sound_zero [OF assms(1,5)] typed_fields [OF assms(2)] by (metis struct_of.simps(1))
  moreover have "fields_typed E (raw_fields acts) (map (\<lambda>(g, jn, a). (raw_name g, VNil)) acts)"
    by (simp add: fields_typed_def raw_fields_def fld_def list_all2_map1 list_all2_map2 case_prod_beta list.rel_refl)
  ultimately have start: "fields_typed E ?all ?kvs"
    unfolding fields_typed_def by (intro list_all2_appendI)
  show ?thesis
    using assms(7)
  proof (rule dec_alias_cases)
    fix v1 s1
    assume v1: "dec_struct d x ?fs (raw_start acts ?z) j = Some (v1, s1)"
      and v: "s1 \<noteq> Fine \<and> v = old \<and> s = returned (error_of s1)
       \<or> s1 = Fine \<and> (\<exists>kvs e. dec_actions d (zero E depth) fs acts (struct_of v1) (drop (length acts) (struct_of v1)) = Some (kvs, e)
           \<and> (e = None \<and> v = VStruct kvs \<and> s = Fine \<or> (\<exists>err. e = Some err \<and> v = old \<and> s = Abort err)))"
    have all: "\<exists>kvs1. v1 = VStruct kvs1 \<and> fields_typed E ?all kvs1" if "s1 = Fine"
    proof (cases "\<exists>ms. j = JObj ms")
      case False
      with v1 that have "v1 = raw_start acts ?z" by (auto simp: dec_struct_def split: json.splits)
      with start show ?thesis unfolding raw_start_def by blast
    next
      case True
      then obtain ms where j: "j = JObj ms" by blast
      with v1 obtain kvs1 where kvs1: "dec_members d (json_fields ?fs) ?kvs ms = Some (kvs1, s1)" "v1 = VStruct kvs1"
        by (auto simp: dec_struct_def raw_start_def)
      have "fields_typed E ?all kvs1"
        by (rule dec_members_typed [OF assms(1) dist _ _ start kvs1(1)])
          (use fs(2) alias_fields_subset [of acts fs] in \<open>auto simp: json_fields_def list_all_iff\<close>)
      with kvs1 show ?thesis by blast
    qed
    have done_typed: "typed E (TName x) (VStruct kvs)"
      if "s1 = Fine" "dec_actions d (zero E depth) fs acts (struct_of v1) (drop (length acts) (struct_of v1)) = Some (kvs, e)" for kvs e
    proof -
      from all [OF that(1)] obtain kvs1 where kvs1: "v1 = VStruct kvs1" "fields_typed E ?all kvs1" by blast
      from fields_typed_append [OF kvs1(2)] len have "fields_typed E fs (drop (length acts) kvs1)" by simp
      from dec_actions_typed [OF assms(1) fs _ this, of acts "struct_of v1" kvs e] assms(4) that(2) kvs1(1)
      have "fields_typed E fs kvs" by (simp add: alias_ok_def)
      with typed_fields [OF assms(2)] show ?thesis by blast
    qed
    show ?thesis using v assms(6) done_typed by blast
  qed
qed

lemma dec_carrier_meta_typed:
  assumes "sound E d" "distinct (map fd_name fs)" "type_ok E (TName ty_Meta)" "typed E (TName ty_Meta) VNil"
    and "f \<in> set fs" "fd_name f = ''Meta''" "fd_type f = TName ty_Meta" "fields_typed E fs kvs"
    and "dec_carrier_meta d raw kvs = Some kvs'"
  shows "fields_typed E fs kvs'"
proof (cases "get_field ''Meta'' raw")
  case (VRaw m)
  with assms(9) obtain v s where v: "d (TName ty_Meta) VNil m = Some (v, s)" "kvs' = (if s = Fine then set_field ''Meta'' v kvs else kvs)"
    by (auto simp: dec_carrier_meta_def)
  from soundD [OF assms(1,3,4) v(1)] have "fields_typed E fs (set_field ''Meta'' v kvs)"
    using fields_typed_set [OF assms(8,2,5)] assms(6,7) by simp
  with v(2) assms(8) show ?thesis by simp
qed (use assms(8,9) in \<open>simp_all add: dec_carrier_meta_def\<close>)

lemma not_raw_case: "\<nexists>j. v = VRaw j \<Longrightarrow> (case v of VRaw j \<Rightarrow> f j | _ \<Rightarrow> y) = y"
  by (cases v) auto

lemma dec_carriers_typed:
  assumes "sound E d" "struct_fields E x = Some fs" "shape_ok E x D" "unmarshal_ok E x D" "gd_unmarshal D = McpCarriers"
    and "type_ok E (TName x)" "typed E (TName x) old" "dec_carriers d (zero E depth) x old j = Some (v, s)"
  shows "typed E (TName x) v"
proof -
  let ?z = "zero_of E (TName x)"
  from assms(4,5,2) have ok: "type_ok E (TName ty_Meta)" "type_ok E (TName ty_McpError)"
      "typed E (TName ty_Meta) VNil"
    and fs: "map (\<lambda>f. (fd_name f, fd_type f)) fs =
       [(''Meta'', TName ty_Meta), (''Error'', TPtr (TName ty_McpError)), (''Result'', TPtr TAny)]"
    by (auto simp: unmarshal_ok_def typed_defined_iff split: option.splits go_shape.splits go_type.splits)
  from fs obtain f1 f2 f3 where f: "fs = [f1, f2, f3]" "fd_name f1 = ''Meta''" "fd_type f1 = TName ty_Meta"
      "fd_name f2 = ''Error''" "fd_type f2 = TPtr (TName ty_McpError)" "fd_name f3 = ''Result''" "fd_type f3 = TPtr TAny"
    by (auto simp: map_eq_Cons_conv)
  then have dist: "distinct (map fd_name fs)" by simp
  have z: "fields_typed E fs (struct_of ?z)"
    using sound_zero [OF assms(1,6)] typed_fields [OF assms(2)] by (metis struct_of.simps(1))
  have carrier: "typed E (TName x) w"
    if "dec_carrier d (zero E depth) g t r raw old (struct_of ?z) = Some (w, s')"
      and "type_ok E t" "f \<in> set fs" "fd_name f = g" "fd_type f = TPtr t" for w s' g t r raw f
  proof -
    from that(1) obtain kvs where kvs: "dec_carrier_meta d raw (struct_of ?z) = Some kvs"
      by (auto simp: dec_carrier_def split: option.splits)
    have m: "fields_typed E fs kvs"
      by (rule dec_carrier_meta_typed [OF assms(1) dist ok(1,3) _ f(2,3) z kvs]) (simp add: f(1))
    from that(1) kvs obtain u s1 where u: "d t (zero_of E t) r = Some (u, s1)"
        "w = (if s1 = Fine then VStruct (set_field g (VPtr u) kvs) else old)"
      by (auto simp: dec_carrier_def split: if_splits)
    from fields_typed_set [OF m dist that(3), of "VPtr u"] sound_fresh [OF assms(1) that(2) u(1)] that(4,5)
    have "fields_typed E fs (set_field g (VPtr u) kvs)" by simp
    with u(2) assms(7) typed_fields [OF assms(2)] show ?thesis by auto
  qed
  obtain v1 s1 where v1: "dec_struct d x carrier_fields (VStruct (map (\<lambda>f. (fd_name f, VNil)) carrier_fields)) j = Some (v1, s1)"
    using assms(8) by (auto simp: dec_carriers_def split: option.splits)
  show ?thesis
  proof (cases "s1 = Fine")
    case False
    with v1 assms(7,8) show ?thesis by (simp add: dec_carriers_def)
  next
    case True
    note eq = assms(8) [unfolded dec_carriers_def v1 Let_def]
    show ?thesis
    proof (cases "\<exists>r. get_field ''Result'' (struct_of v1) = VRaw r")
      case True': True
      then obtain r where "get_field ''Result'' (struct_of v1) = VRaw r" by blast
      with eq True have "dec_carrier d (zero E depth) ''Result'' TAny r (struct_of v1) old (struct_of ?z) = Some (v, s)" by simp
      from carrier [OF this _ _ f(6,7)] f(1) show ?thesis by simp
    next
      case no_result: False
      show ?thesis
      proof (cases "\<exists>e. get_field ''Error'' (struct_of v1) = VRaw e")
        case False
        from eq True have "v = old" by (simp add: not_raw_case [OF no_result] not_raw_case [OF False])
        with assms(7) show ?thesis by simp
      next
        case True': True
        then obtain e where e: "get_field ''Error'' (struct_of v1) = VRaw e" by blast
        from eq True
        have "(if e = JNull then Some (old, Abort (Refused ''MessageMcpResponse.error must not be null''))
            else (case require_properties e [''code'', ''message''] [''code'', ''message''] of
                    Some err \<Rightarrow> Some (old, Abort err)
                  | None \<Rightarrow> dec_carrier d (zero E depth) ''Error'' (TName ty_McpError) e (struct_of v1) old (struct_of ?z))) = Some (v, s)"
          by (simp add: not_raw_case [OF no_result] e)
        then consider "v = old"
          | "dec_carrier d (zero E depth) ''Error'' (TName ty_McpError) e (struct_of v1) old (struct_of ?z) = Some (v, s)"
          by (auto split: if_splits option.splits)
        then show ?thesis
          using carrier [OF _ ok(2) _ f(4,5)] f(1) assms(7) by cases auto
      qed
    qed
  qed
qed

lemma dec_flat_or_groups_typed:
  assumes "sound E d" "struct_fields E x = Some fs" "unmarshal_ok E x D" "gd_unmarshal D = FlatOrGroups"
    and "typed E (TName x) old" "dec_flat_or_groups d (zero E depth) old j = Some (v, s)"
  shows "typed E (TName x) v"
proof -
  let ?U = "ty_UngroupedSessionConfigSelectOptions" and ?G = "ty_GroupedSessionConfigSelectOptions"
  from assms(3,4,2) have ok: "type_ok E (TName ?U)" "type_ok E (TName ?G)"
    and fs: "map (\<lambda>f. (fd_name f, fd_type f)) fs = [(''Ungrouped'', TPtr (TName ?U)), (''Groups'', TPtr (TName ?G))]"
    and U: "(case E ?U of Some D' \<Rightarrow> (case gd_shape D' of Defined (TSlice t) \<Rightarrow> True | _ \<Rightarrow> False) | None \<Rightarrow> False)"
    by (auto simp: unmarshal_ok_def)
  from fs obtain f1 f2 where f: "fs = [f1, f2]" "fd_name f1 = ''Ungrouped''" "fd_type f1 = TPtr (TName ?U)"
      "fd_name f2 = ''Groups''" "fd_type f2 = TPtr (TName ?G)"
    by (auto simp: map_eq_Cons_conv)
  have opts: "typed E (TName x) (options_value u g)" if "typed E (TPtr (TName ?U)) u" "typed E (TPtr (TName ?G)) g" for u g
    using that f typed_fields [OF assms(2)] by (simp add: options_value_def fields_typed_def)
  from U have empty: "typed E (TName ?U) (VSlice [])"
    by (auto simp: typed_defined_iff split: option.splits go_shape.splits go_type.splits)
  have wrapped: "typed E (TName x) w" if "dec_options_as d (zero E depth) y wrap old j = Some (w, s')" "type_ok E (TName y)"
      "\<And>u. typed E (TName y) u \<Longrightarrow> typed E (TName x) (wrap (VPtr u))" for w s' y wrap
    using that sound_fresh [OF assms(1) that(2)] assms(5) by (auto simp: dec_options_as_def split: if_splits)
  show ?thesis
    using assms(5,6) wrapped [of ?G "options_value VNil" v s] wrapped [of ?U "\<lambda>u. options_value u VNil" v s] ok opts empty
    unfolding dec_flat_or_groups_def
    by (simp split: json.splits list.splits option.splits prod.splits if_splits go_val.splits) blast+
qed

lemma typed_target: "typed E (TPtr t) old \<Longrightarrow> typed E t z \<Longrightarrow> typed E t (case old of VPtr v \<Rightarrow> v | _ \<Rightarrow> z)"
  by (cases old) auto

lemma map_first_Some: "map_option (\<lambda>(v, s). (f v, s)) r = Some (v, s) \<Longrightarrow> \<exists>w. r = Some (w, s) \<and> v = f w"
  by auto

lemma dec_plain_typed:
  assumes "sound E d" "type_ok E t" "typed E t old" "dec_plain d (zero E depth) t old j = Some (v, s)"
  shows "typed E t v"
proof (cases t)
  case (TPtr u)
  show ?thesis
  proof (cases "j = JNull")
    case True
    with TPtr assms(4) show ?thesis by (simp add: dec_ptr_def)
  next
    case False
    with TPtr assms(4) have "map_option (\<lambda>(v, s). (VPtr v, s)) (d u (case old of VPtr v \<Rightarrow> v | _ \<Rightarrow> zero_of E u) j) = Some (v, s)"
      by (simp only: dec_plain.simps dec_ptr_def if_False)
    then have "\<exists>w. d u (case old of VPtr v \<Rightarrow> v | _ \<Rightarrow> zero_of E u) j = Some (w, s) \<and> v = VPtr w"
      by (rule map_first_Some)
    then obtain w where w: "d u (case old of VPtr v \<Rightarrow> v | _ \<Rightarrow> zero_of E u) j = Some (w, s)" "v = VPtr w" by (elim exE conjE)
    from TPtr assms(2) have u: "type_ok E u" by simp
    have "typed E u (case old of VPtr v \<Rightarrow> v | _ \<Rightarrow> zero_of E u)"
      using assms(3) sound_zero [OF assms(1) u] unfolding TPtr by (rule typed_target)
    with assms(1) u have "typed E u w" using w(1) by (rule soundD)
    with TPtr w(2) show ?thesis by simp
  qed
next
  case (TSlice u)
  show ?thesis
  proof (cases j)
    case (JArr js)
    with TSlice assms(4) obtain vs where vs: "dec_items d (zero E depth) u (case old of VSlice vs \<Rightarrow> vs | _ \<Rightarrow> []) js = Some (vs, s)" "v = VSlice vs"
      by (auto simp: dec_slice_def)
    have "\<forall>w \<in> set (case old of VSlice vs \<Rightarrow> vs | _ \<Rightarrow> []). typed E u w"
      using TSlice assms(3) by (auto split: go_val.splits)
    from dec_items_typed [OF assms(1) _ this vs(1)] vs(2) TSlice assms(2) show ?thesis by simp
  qed (use TSlice assms(3,4) in \<open>auto simp: dec_slice_def\<close>)
next
  case (TMap u)
  show ?thesis
  proof (cases j)
    case (JObj ms)
    with TMap assms(4) obtain kvs where kvs: "dec_entries d (zero E depth) u (case old of VMap kvs \<Rightarrow> kvs | _ \<Rightarrow> []) ms = Some (kvs, s)" "v = VMap kvs"
      by (auto simp: dec_map_def)
    have "\<forall>kv \<in> set (case old of VMap kvs \<Rightarrow> kvs | _ \<Rightarrow> []). typed E u (snd kv)"
      using TMap assms(3) by (auto split: go_val.splits)
    from dec_entries_typed [OF assms(1) _ this kvs(1)] kvs(2) TMap assms(2) show ?thesis by simp
  qed (use TMap assms(3,4) in \<open>auto simp: dec_map_def\<close>)
next
  case TRaw
  with assms(4) show ?thesis by auto
next
  case TAny
  with assms(4) have "v = any_of j" by simp
  with TAny typed_any_of show ?thesis by simp
qed (use assms(4) typed_scalar [OF assms(3), of j] in force)+

lemma dec_shape_typed:
  assumes "sound E d" "E x = Some D" "shape_ok E x D" "typed E (TName x) old"
    and "dec_shape E d (zero E depth) x old j = Some (v, s)"
  shows "typed E (TName x) v"
proof (cases "struct_fields E x")
  case (Some fs)
  with assms(5) dec_struct_typed [OF assms(1) Some assms(3,4)] show ?thesis by (simp add: dec_shape_def)
next
  case None
  with assms(2,3,5) obtain t where t: "gd_shape D = Defined t" "type_ok E t" "dec_plain d (zero E depth) t old j = Some (v, s)"
    by (auto simp: dec_shape_def shape_ok_def split: go_shape.splits)
  with dec_plain_typed [OF assms(1) t(2) _ t(3)] assms(2,4) show ?thesis by (simp add: typed_defined_iff)
qed

theorem dec_layer_sound:
  assumes "wf_env E" "sound E d"
  shows "sound E (dec_layer E d)"
  unfolding sound_def
proof (intro conjI allI impI)
  fix t assume "type_ok E t"
  with assms(2) show "typed E t (zero_of E t)" by (rule sound_zero)
next
  fix t old j v s
  assume t: "type_ok E t" and old: "typed E t old" and v: "dec_layer E d t old j = Some (v, s)"
  show "typed E t v"
  proof (cases "\<exists>x. t = TName x")
    case False
    with v have "dec_plain d (zero E depth) t old j = Some (v, s)" by (cases t) (simp_all add: dec_layer_def)
    with dec_plain_typed [OF assms(2) t old] show ?thesis by blast
  next
    case True
    then obtain x D where x: "t = TName x" "E x = Some D" using t by auto
    with assms(1) have D: "shape_ok E x D" "unmarshal_ok E x D" by (auto simp: wf_env_def decl_ok_def)
    note shape = dec_shape_typed [OF assms(2) x(2) D(1)]
    from v x have name: "dec_name E d (zero E depth) x old j = Some (v, s)" by (simp add: dec_layer_def)
    show ?thesis
    proof (cases "gd_unmarshal D")
      case Reflected
      with name x old shape show ?thesis by (simp add: dec_name_def)
    next
      case PlainNumbers
      with name x old shape show ?thesis by (auto simp: dec_name_def)
    next
      case (ByAlias acts)
      with D(2) obtain fs where fs: "struct_fields E x = Some fs" "alias_ok E fs acts"
        by (auto simp: unmarshal_ok_def split: option.splits)
      with name x ByAlias have "dec_alias d (zero E depth) x fs acts old j = Some (v, s)" by (simp add: dec_name_def)
      from dec_alias_typed [OF assms(2) fs(1) D(1) fs(2) _ _ this] t old x show ?thesis by simp
    next
      case McpCarriers
      with name x have "dec_carriers d (zero E depth) x old j = Some (v, s)" by (simp add: dec_name_def)
      moreover from McpCarriers D(2) obtain fs where "struct_fields E x = Some fs"
        by (auto simp: unmarshal_ok_def split: option.splits)
      ultimately show ?thesis
        using dec_carriers_typed [OF assms(2) _ D McpCarriers] t old x by blast
    next
      case FlatOrGroups
      with name x have "dec_flat_or_groups d (zero E depth) old j = Some (v, s)" by (simp add: dec_name_def)
      moreover from FlatOrGroups D(2) obtain fs where "struct_fields E x = Some fs"
        by (auto simp: unmarshal_ok_def split: option.splits)
      ultimately show ?thesis
        using dec_flat_or_groups_typed [OF assms(2) _ D(2) FlatOrGroups] old x by blast
    qed
  qed
qed

theorem dec_sound: "wf_env E \<Longrightarrow> sound E (dec E n)"
proof (induction n)
  case 0
  then show ?case by (simp add: sound_def wf_zero)
next
  case (Suc n)
  have "dec E (Suc n) = dec_layer E (dec E n)" by (intro ext) simp
  with dec_layer_sound [OF Suc.prems Suc.IH [OF Suc.prems]] show ?case by simp
qed

end
