(* ===== verification/Go_Encode.thy ===== *)
theory Go_Encode
  imports Go_Decode Names
begin

text \<open>
  Encoding a Go value as JSON, as \<open>json.Marshal\<close> does it for the types of Go_Types, with the
  \<open>MarshalJSON\<close> methods of acp/types_gen.go. The result is the syntax tree of the text; strings
  are valid UTF-8. An error is the left value; \<open>None\<close> is an exceeded bound, or a value that is
  not of the type.
\<close>

section \<open>Strings\<close>

text \<open>
  Besides what \<open>quote_char\<close> escapes, the encoder escapes the characters that matter in HTML,
  and the line separators U+2028 and U+2029.
\<close>

definition html_char :: "char \<Rightarrow> bool" where
  "html_char c = (c = CHR ''<'' \<or> c = CHR ''>'' \<or> c = CHR ''&'')"

definition unicode_escape :: "nat \<Rightarrow> string" where
  "unicode_escape n = backslash # ''u00'' @ [hex_digit (n div 16), hex_digit n]"

fun line_separator :: "string \<Rightarrow> bool" where
  "line_separator (a # b # c # s) = (a = CHR 0xE2 \<and> b = CHR 0x80 \<and> (c = CHR 0xA8 \<or> c = CHR 0xA9))"
| "line_separator s = False"

fun go_quote :: "string \<Rightarrow> string" where
  "go_quote [] = []"
| "go_quote (c # s) =
     (if line_separator (c # s)
      then backslash # ''u202'' @ [if hd (tl s) = CHR 0xA8 then CHR ''8'' else CHR ''9''] @ go_quote (drop 2 s)
      else (if html_char c then unicode_escape (of_char c) else quote_char c) @ go_quote s)"

section \<open>Parts\<close>

type_synonym encoded = "(string + json) option"
type_synonym encoder = "go_type \<Rightarrow> go_val \<Rightarrow> encoded"

fun enc_list :: "encoder \<Rightarrow> go_type \<Rightarrow> go_val list \<Rightarrow> (string + json list) option" where
  "enc_list e t [] = Some (Inr [])"
| "enc_list e t (v # vs) =
     (case e t v of
        None \<Rightarrow> None
      | Some (Inl err) \<Rightarrow> Some (Inl err)
      | Some (Inr j) \<Rightarrow>
          (case enc_list e t vs of
             None \<Rightarrow> None
           | Some (Inl err) \<Rightarrow> Some (Inl err)
           | Some (Inr js) \<Rightarrow> Some (Inr (j # js))))"

text \<open>Members with their Go types: the keys are field names or map keys.\<close>

fun enc_members :: "encoder \<Rightarrow> (string \<times> go_type \<times> go_val) list \<Rightarrow> (string + (string \<times> json) list) option" where
  "enc_members e [] = Some (Inr [])"
| "enc_members e ((k, t, v) # ms) =
     (case e t v of
        None \<Rightarrow> None
      | Some (Inl err) \<Rightarrow> Some (Inl err)
      | Some (Inr j) \<Rightarrow>
          (case enc_members e ms of
             None \<Rightarrow> None
           | Some (Inl err) \<Rightarrow> Some (Inl err)
           | Some (Inr js) \<Rightarrow> Some (Inr ((go_quote k, j) # js))))"

definition object :: "(string + (string \<times> json) list) option \<Rightarrow> encoded" where
  "object r = map_option (map_sum id JObj) r"

definition enc_scalar :: "go_type \<Rightarrow> go_val \<Rightarrow> encoded" where
  "enc_scalar t v =
     (case v of
        VBool b \<Rightarrow> Some (Inr (if b then JTrue else JFalse))
      | VStr s \<Rightarrow> Some (Inr (JStr (go_quote s)))
      | VFloat n \<Rightarrow> Some (Inr (JNum n))
      | VNumber n \<Rightarrow>
          Some (if n = [] then Inr (JNum ''0'')
                else if number_token n then Inr (JNum n) else Inl ''invalid number literal'')
      | VInt i \<Rightarrow> Some (Inr (JNum (show_int i)))
      | _ \<Rightarrow> None)"

definition enc_plain :: "encoder \<Rightarrow> go_type \<Rightarrow> go_val \<Rightarrow> encoded" where
  "enc_plain e t v =
     (case t of
        TRaw \<Rightarrow> (case v of VNil \<Rightarrow> Some (Inr JNull) | VRaw j \<Rightarrow> Some (Inr j) | _ \<Rightarrow> None)
      | TAny \<Rightarrow> (case v of VNil \<Rightarrow> Some (Inr JNull) | VIface t' v' \<Rightarrow> e t' v' | _ \<Rightarrow> None)
      | TPtr t' \<Rightarrow> (case v of VNil \<Rightarrow> Some (Inr JNull) | VPtr v' \<Rightarrow> e t' v' | _ \<Rightarrow> None)
      | TSlice t' \<Rightarrow>
          (case v of
             VNil \<Rightarrow> Some (Inr JNull)
           | VSlice vs \<Rightarrow> map_option (map_sum id JArr) (enc_list e t' vs)
           | _ \<Rightarrow> None)
      | TMap t' \<Rightarrow>
          (case v of
             VNil \<Rightarrow> Some (Inr JNull)
           | VMap kvs \<Rightarrow> object (enc_members e (map (\<lambda>(k, w). (k, t', w)) (sort_key fst kvs)))
           | _ \<Rightarrow> None)
      | TName x \<Rightarrow> None
      | _ \<Rightarrow> enc_scalar t v)"

text \<open>The fields of a struct that are sent.\<close>

definition omitted :: "go_field \<Rightarrow> go_val \<Rightarrow> bool" where
  "omitted f v = (fd_omitempty f \<and> is_empty v \<or> fd_omitzero f \<and> is_zero v)"

definition sent :: "go_field list \<Rightarrow> (string \<times> go_val) list \<Rightarrow> (string \<times> go_type \<times> go_val) list" where
  "sent fs kvs =
     map (\<lambda>f. (fd_json f, fd_type f, get_field (fd_name f) kvs))
       (filter (\<lambda>f. \<not> omitted f (get_field (fd_name f) kvs)) (json_fields fs))"

section \<open>Methods over an alias and a wire struct\<close>

definition no_options :: go_val where
  "no_options = options_value (VPtr (VSlice [])) VNil"

definition filled_options :: "go_val \<Rightarrow> go_val" where
  "filled_options v =
     (if get_field ''Ungrouped'' (struct_of v) = VNil \<and> get_field ''Groups'' (struct_of v) = VNil
      then no_options else v)"

fun null_fields :: "go_val \<Rightarrow> go_val list" where
  "null_fields (VSlice vs) = vs"
| "null_fields v = []"

text \<open>A statement on the alias and the wire struct.\<close>

type_synonym wire_state = "(string \<times> go_val) list \<times> (string \<times> go_val) list"

definition upd_wire :: "string \<Rightarrow> go_val \<Rightarrow> bool \<Rightarrow> wire_state \<Rightarrow> wire_state" where
  "upd_wire g v send st = (fst st, if send then set_field g (VPtr v) (snd st) else snd st)"

definition upd_alias :: "string \<Rightarrow> go_val \<Rightarrow> wire_state \<Rightarrow> wire_state" where
  "upd_alias g v st = (set_field g v (fst st), snd st)"

definition slice_or_empty :: "go_val \<Rightarrow> go_val" where
  "slice_or_empty v = (if v = VNil then VSlice [] else v)"

fun in_case :: "string \<Rightarrow> (string \<times> ('a \<Rightarrow> 'a) list) list \<Rightarrow> 'a \<Rightarrow> 'a" where
  "in_case tag [] st = st"
| "in_case tag ((s, fs) # cs) st = (if s = tag then fold id fs st else in_case tag cs st)"

primrec emit1 :: "emit \<Rightarrow> wire_state \<Rightarrow> wire_state" where
  "emit1 (NonNil g) = (\<lambda>st. upd_alias g (slice_or_empty (get_field g (fst st))) st)"
| "emit1 (NonNilOptions g) = (\<lambda>st. upd_alias g (filled_options (get_field g (fst st))) st)"
| "emit1 (SendNonNil g) = (\<lambda>st. upd_wire g (get_field g (fst st)) (get_field g (fst st) \<noteq> VNil) st)"
| "emit1 (SendNonEmpty g) = (\<lambda>st. upd_wire g (get_field g (fst st)) (\<not> is_empty (get_field g (fst st))) st)"
| "emit1 (SendNonZero g) = (\<lambda>st. upd_wire g (get_field g (fst st)) (\<not> is_zero (get_field g (fst st))) st)"
| "emit1 (Send g) = (\<lambda>st. upd_wire g (get_field g (fst st)) True st)"
| "emit1 (SendSlice g) = (\<lambda>st. upd_wire g (slice_or_empty (get_field g (fst st))) True st)"
| "emit1 (SendOptions g) = (\<lambda>st. upd_wire g (filled_options (get_field g (fst st))) True st)"
| "emit1 (SendNull g jn) =
     (\<lambda>st. upd_wire g VNil (VStr jn \<in> set (null_fields (get_field ''NullFields'' (fst st)))) st)"
| "emit1 (EmitSwitch dsc cases) =
     (\<lambda>st. in_case (text_of (get_field dsc (fst st))) (map (map_prod id (map emit1)) cases) st)"

definition emits :: "emit list \<Rightarrow> wire_state \<Rightarrow> wire_state" where
  "emits es = fold emit1 es"

text \<open>The alias is embedded: its fields come first, without those a wire field hides.\<close>

definition enc_wire :: "encoder \<Rightarrow> go_field list \<Rightarrow> go_field list \<Rightarrow> emit list \<Rightarrow> (string \<times> go_val) list \<Rightarrow> encoded" where
  "enc_wire e fs wire es kvs =
     (case emits es (kvs, map (\<lambda>f. (fd_name f, VNil)) wire) of
        (a, w) \<Rightarrow>
          object (enc_members e
            (sent (filter (\<lambda>f. fd_json f \<notin> fd_json ` set wire) fs) a @ sent wire w)))"

section \<open>The two methods that occur once\<close>

text \<open>\<open>MessageMcpResponse.MarshalJSON\<close>: the first carrier present.\<close>

definition enc_carriers :: "encoder \<Rightarrow> (string \<times> go_val) list \<Rightarrow> encoded" where
  "enc_carriers e kvs =
     (if get_field ''Result'' kvs \<noteq> VNil
      then object (enc_members e (sent [omz ''Meta'' (TName ty_Meta) ''_meta'', fld ''Result'' (TPtr TAny) ''result''] kvs))
      else if get_field ''Error'' kvs \<noteq> VNil
      then object (enc_members e (sent [omz ''Meta'' (TName ty_Meta) ''_meta'', fld ''Error'' (TPtr (TName ty_McpError)) ''error''] kvs))
      else Some (Inl ''MessageMcpResponse requires one of: result, error''))"

text \<open>\<open>SessionConfigSelectOptions.MarshalJSON\<close>: the groups, else the flat options, else null.\<close>

definition enc_flat_or_groups :: "encoder \<Rightarrow> (string \<times> go_val) list \<Rightarrow> encoded" where
  "enc_flat_or_groups e kvs =
     (if get_field ''Groups'' kvs \<noteq> VNil
      then e (TPtr (TName ty_GroupedSessionConfigSelectOptions)) (get_field ''Groups'' kvs)
      else if get_field ''Ungrouped'' kvs \<noteq> VNil
      then e (TPtr (TName ty_UngroupedSessionConfigSelectOptions)) (get_field ''Ungrouped'' kvs)
      else Some (Inr JNull))"

section \<open>The encoder\<close>

definition enc_shape :: "go_env \<Rightarrow> encoder \<Rightarrow> go_name \<Rightarrow> go_val \<Rightarrow> encoded" where
  "enc_shape E e x v =
     (case struct_fields E x of
        Some fs \<Rightarrow> object (enc_members e (sent fs (struct_of v)))
      | None \<Rightarrow>
          (case E x of
             Some D \<Rightarrow> (case gd_shape D of Defined t \<Rightarrow> enc_plain e t v | _ \<Rightarrow> None)
           | None \<Rightarrow> None))"

definition enc_name :: "go_env \<Rightarrow> encoder \<Rightarrow> go_name \<Rightarrow> go_val \<Rightarrow> encoded" where
  "enc_name E e x v =
     (case E x of
        None \<Rightarrow> None
      | Some D \<Rightarrow>
          (case gd_marshal D of
             Encoded \<Rightarrow> enc_shape E e x v
           | ByWire wire es \<Rightarrow>
               (case struct_fields E x of
                  Some fs \<Rightarrow> enc_wire e fs wire es (struct_of v)
                | None \<Rightarrow> None)
           | EmitCarriers \<Rightarrow> enc_carriers e (struct_of v)
           | EmitFlatOrGroups \<Rightarrow> enc_flat_or_groups e (struct_of v)))"

definition enc_layer :: "go_env \<Rightarrow> encoder \<Rightarrow> encoder" where
  "enc_layer E e t v = (case t of TName x \<Rightarrow> enc_name E e x v | _ \<Rightarrow> enc_plain e t v)"

fun enc :: "go_env \<Rightarrow> nat \<Rightarrow> encoder" where
  "enc E 0 t v = None"
| "enc E (Suc n) t v = enc_layer E (enc E n) t v"

end
