(* ===== verification/Acp_Types.thy ===== *)
theory Acp_Types
  imports Acp_Types_1 Acp_Types_2 Acp_Types_3 Acp_Types_4 Go_Typing Go_Encode
begin

text \<open>All declarations of acp/types_gen.go as one environment, and that they fit together.\<close>

definition acp :: go_env where
  "acp x = (if x < 65 then acp_1 x else if x < 130 then acp_2 x else if x < 195 then acp_3 x else acp_4 x)"

definition fits :: "go_name \<Rightarrow> bool" where
  "fits x = (case acp x of Some D \<Rightarrow> decl_ok acp x D | None \<Rightarrow> False)"

lemma fits_1: "list_all fits [0..64]"
  by code_simp

lemma fits_2: "list_all fits [65..129]"
  by code_simp

lemma fits_3: "list_all fits [130..194]"
  by code_simp

lemma fits_4: "list_all fits [195..257]"
  by code_simp

lemma acp_bound: "acp x \<noteq> None \<Longrightarrow> 0 \<le> x \<and> x < 258"
  by (auto simp: acp_def acp_1_def acp_2_def acp_3_def acp_4_def split: if_splits)

lemma fits_all: "0 \<le> x \<Longrightarrow> x < 258 \<Longrightarrow> fits x"
proof -
  assume "0 \<le> x" "x < 258"
  then have "x \<in> set [0..64] \<or> x \<in> set [65..129] \<or> x \<in> set [130..194] \<or> x \<in> set [195..257]"
    unfolding set_upto atLeastAtMost_iff by arith
  then show "fits x"
    using fits_1 fits_2 fits_3 fits_4 unfolding list_all_iff by blast
qed

theorem wf_acp: "wf_env acp"
  unfolding wf_env_def
proof (intro allI impI)
  fix x D assume "acp x = Some D"
  with fits_all [of x] acp_bound [of x] show "decl_ok acp x D" by (simp add: fits_def)
qed

lemma acp_known: "0 \<le> x \<Longrightarrow> x < 258 \<Longrightarrow> type_ok acp (TName x)"
  using fits_all [of x] by (auto simp: fits_def split: option.splits)

end
