(* ===== verification/Go_Tolerance.thy ===== *)
theory Go_Tolerance
  imports Go_Typing
begin

text \<open>
  A field with a tolerant action cannot make decoding fail: whatever its member holds, the
  method returns the same error or none, and the other fields are the same. Two runs of the
  method on texts that differ in one such member are compared step by step.
\<close>

fun tolerant :: "member_action \<Rightarrow> bool" where
  "tolerant Tolerate = True"
| "tolerant (Into t c) = False"
| "tolerant (TryInto t c) = True"
| "tolerant (TryEnum t ss c) = True"
| "tolerant (TryItems t flt n c) = True"
| "tolerant (NullOr a) = tolerant a"
| "tolerant (SwitchOn d cs) = (\<forall>(s, a) \<in> set cs. tolerant a)"

text \<open>The fields whose decoded text an action looks at.\<close>

fun looks_at :: "member_action \<Rightarrow> string set" where
  "looks_at (NullOr a) = looks_at a"
| "looks_at (SwitchOn d cs) = insert d (\<Union>(s, a) \<in> set cs. looks_at a)"
| "looks_at a = {}"

text \<open>Two lists of fields that are the same but for the values of some names.\<close>

definition same_but :: "string set \<Rightarrow> (string \<times> go_val) list \<Rightarrow> (string \<times> go_val) list \<Rightarrow> bool" where
  "same_but S kvs kvs' = list_all2 (\<lambda>kv kv'. fst kv = fst kv' \<and> (fst kv \<notin> S \<longrightarrow> snd kv = snd kv')) kvs kvs'"

lemma same_but_refl [simp]: "same_but S kvs kvs"
  by (simp add: same_but_def list.rel_refl)

lemma same_but_get: "same_but S kvs kvs' \<Longrightarrow> g \<notin> S \<Longrightarrow> get_field g kvs = get_field g kvs'"
  unfolding same_but_def get_field_def by (induction rule: list_all2_induct) auto

lemma same_but_set: "same_but S kvs kvs' \<Longrightarrow> same_but S (set_field g v kvs) (set_field g v kvs')"
  unfolding same_but_def set_field_def list_all2_map1 list_all2_map2
  by (erule list.rel_mono_strong) auto

lemma same_but_set2: "g \<in> S \<Longrightarrow> same_but S kvs kvs' \<Longrightarrow> same_but S (set_field g v kvs) (set_field g v' kvs')"
  unfolding same_but_def set_field_def list_all2_map1 list_all2_map2
  by (erule list.rel_mono_strong) auto

lemma same_but_left: "g \<in> S \<Longrightarrow> same_but S kvs kvs' \<Longrightarrow> same_but S (set_field g v kvs) kvs'"
  unfolding same_but_def set_field_def list_all2_map1 by (erule list.rel_mono_strong) auto

lemma same_but_right: "g \<in> S \<Longrightarrow> same_but S kvs kvs' \<Longrightarrow> same_but S kvs (set_field g v kvs')"
  unfolding same_but_def set_field_def list_all2_map2 by (erule list.rel_mono_strong) auto

lemma same_but_drop: "same_but S kvs kvs' \<Longrightarrow> same_but S (drop n kvs) (drop n kvs')"
  unfolding same_but_def by (rule list_all2_dropI)

lemma same_but_mono: "same_but S kvs kvs' \<Longrightarrow> S \<subseteq> T \<Longrightarrow> same_but T kvs kvs'"
  unfolding same_but_def by (erule list.rel_mono_strong) auto

section \<open>The same action on fields that agree\<close>

text \<open>An action other than that of the differing field gives the same error.\<close>

lemma dec_action_same:
  assumes "same_but S kvs kvs'" "g \<notin> S" "\<And>v. v \<in> looks_at a \<Longrightarrow> v \<notin> S" "''NullFields'' \<in> S"
    and "dec_action d z fs g jn j kvs a = Some (k1, e)" "dec_action d z fs g jn j kvs' a = Some (k1', e')"
  shows "e = e' \<and> same_but S k1 k1'"
  using assms(3,5,6)
proof (induction a arbitrary: k1 e k1' e')
  case Tolerate
  with assms(1,2) show ?case
    by (auto simp: same_but_get intro: same_but_set split: option.splits)
next
  case (Into t c)
  then obtain v s where "d t (z t) j = Some (v, s)" by auto
  with Into assms(1) show ?case by (cases s) (auto intro: same_but_set)
next
  case (TryInto t c)
  then obtain v s where "d t (z t) j = Some (v, s)" by auto
  with TryInto assms(1) show ?case by (cases "s = Fine") (auto intro: same_but_set)
next
  case (TryEnum t ss c)
  then obtain v s where "d t (z t) j = Some (v, s)" by auto
  with TryEnum assms(1) show ?case by (cases "s = Fine \<and> text_of v \<in> set ss") (auto intro: same_but_set)
next
  case (TryItems t flt n c)
  with assms(1) show ?case by (cases j) (auto intro: same_but_set split: if_splits)
next
  case (NullOr a)
  with assms(1,4) show ?case by (cases "j = JNull") (auto intro: same_but_set2)
next
  case (SwitchOn dsc cases)
  have tag: "text_of (get_field dsc kvs') = text_of (get_field dsc kvs)"
    using same_but_get [OF assms(1), of dsc] SwitchOn.prems(1) by simp
  have "set cs \<subseteq> set cases \<Longrightarrow> dec_cases d z fs g jn j kvs tag cs = Some (k1, e) \<Longrightarrow>
      dec_cases d z fs g jn j kvs' tag cs = Some (k1', e') \<Longrightarrow> e = e' \<and> same_but S k1 k1'" for tag cs
  proof (induction cs)
    case Nil
    with assms(1) show ?case by simp
  next
    case (Cons sa cs)
    obtain s a where sa: "sa = (s, a)" by fastforce
    with Cons.prems(1) have "(s, a) \<in> set cases" by auto
    with SwitchOn.IH [of "(s, a)" a] SwitchOn.prems(1) Cons sa show ?case by (fastforce split: if_splits)
  qed
  from this [of cases "text_of (get_field dsc kvs)"] SwitchOn.prems(2,3) tag show ?case by simp
qed

text \<open>An action touches its own field only, or \<open>NullFields\<close>; a tolerant one returns no error.\<close>

lemma dec_action_frame:
  assumes "g \<in> S" "''NullFields'' \<in> S" "same_but S kvs kvs'"
  shows "dec_action d z fs g jn j kvs a = Some (k1, e) \<Longrightarrow> (tolerant a \<longrightarrow> e = None) \<and> same_but S k1 kvs'"
proof (induction a arbitrary: k1 e)
  case (Into t c)
  then obtain v s where "d t (z t) j = Some (v, s)" by auto
  with Into assms show ?case by (cases s) (auto intro: same_but_left)
next
  case (TryItems t flt n c)
  with assms show ?case by (cases j) (auto intro: same_but_left split: if_splits)
next
  case (NullOr a)
  with assms show ?case by (cases "j = JNull") (auto intro: same_but_left)
next
  case (SwitchOn dsc cases)
  have "set cs \<subseteq> set cases \<Longrightarrow> dec_cases d z fs g jn j kvs tag cs = Some (k1, e) \<Longrightarrow>
      (tolerant (SwitchOn dsc cases) \<longrightarrow> e = None) \<and> same_but S k1 kvs'" for tag cs
  proof (induction cs)
    case Nil
    with assms(3) show ?case by simp
  next
    case (Cons sa cs)
    obtain s a where sa: "sa = (s, a)" by fastforce
    with Cons.prems(1) have a: "(s, a) \<in> set cases" by auto
    show ?case
    proof (cases "s = tag")
      case True
      with Cons.prems(2) sa SwitchOn.IH [of "(s, a)" a] a show ?thesis by fastforce
    next
      case False
      with Cons sa show ?thesis by simp
    qed
  qed
  from this [of cases] SwitchOn.prems show ?case by simp
qed (use assms in \<open>auto intro: same_but_left split: if_splits option.splits\<close>)

lemma same_but_sym: "same_but S kvs kvs' \<Longrightarrow> same_but S kvs' kvs"
  unfolding same_but_def by (simp add: list_all2_conv_all_nth)

text \<open>The actions in order: the raw values differ in those of \<open>g\<close> only.\<close>

lemma dec_actions_same:
  assumes "''NullFields'' \<in> S" "g \<in> S" "\<forall>h. h \<noteq> g \<longrightarrow> get_field (raw_name h) raws = get_field (raw_name h) raws'"
  shows "\<forall>(h, jn, a) \<in> set acts. (h = g \<longrightarrow> tolerant a) \<and> (h \<noteq> g \<longrightarrow> h \<notin> S \<and> looks_at a \<inter> S = {}) \<Longrightarrow>
    same_but S kvs kvs' \<Longrightarrow>
    dec_actions d z fs acts raws kvs = Some (k1, e) \<Longrightarrow> dec_actions d z fs acts raws' kvs' = Some (k1', e') \<Longrightarrow>
    e = e' \<and> (e = None \<longrightarrow> same_but S k1 k1')"
proof (induction acts arbitrary: kvs kvs')
  case Nil
  then show ?case by simp
next
  case (Cons hja acts)
  obtain h jn a where hja: "hja = (h, jn, a)" using prod_cases3 by blast
  show ?case
  proof (cases "h = g")
    case True
    have run: "\<exists>k2. same_but S k2 kv' \<and> dec_actions d z fs acts rs k2 = Some r"
      if "dec_actions d z fs (hja # acts) rs kv = Some r" "same_but S kv kv'" for rs kv kv' r
    proof (cases "get_field (raw_name h) rs")
      case (VRaw j)
      with that(1) hja obtain k2 e2 where k2: "dec_action d z fs h jn j kv a = Some (k2, e2)"
        by (auto split: option.splits)
      with dec_action_frame [of h S kv kv' d z fs jn j a k2 e2] True Cons.prems(1) hja assms(1,2) that(2)
      have "e2 = None \<and> same_but S k2 kv'" by simp
      with k2 VRaw that(1) hja show ?thesis by auto
    qed (use that hja in auto)
    from run [OF Cons.prems(3,2)] obtain k2 where k2: "same_but S k2 kvs'" "dec_actions d z fs acts raws k2 = Some (k1, e)" by blast
    from run [OF Cons.prems(4) same_but_sym [OF k2(1)]] obtain k2' where
      k2': "same_but S k2' k2" "dec_actions d z fs acts raws' k2' = Some (k1', e')" by blast
    from Cons.IH [OF _ same_but_sym [OF k2'(1)] k2(2) k2'(2)] Cons.prems(1) show ?thesis by simp
  next
    case False
    with Cons.prems(1) hja have h: "h \<notin> S" "\<And>v. v \<in> looks_at a \<Longrightarrow> v \<notin> S" by auto
    from False assms(3) have raw: "get_field (raw_name h) raws' = get_field (raw_name h) raws" by simp
    show ?thesis
    proof (cases "get_field (raw_name h) raws")
      case (VRaw j)
      from Cons.prems(3) hja VRaw obtain k2 e2 where k2: "dec_action d z fs h jn j kvs a = Some (k2, e2)"
        by (auto split: option.splits)
      from Cons.prems(4) hja VRaw raw obtain k2' e2' where k2': "dec_action d z fs h jn j kvs' a = Some (k2', e2')"
        by (auto split: option.splits)
      from dec_action_same [OF Cons.prems(2) h assms(1) k2 k2'] have eq: "e2' = e2" "same_but S k2 k2'" by auto
      show ?thesis
      proof (cases e2)
        case None
        with Cons.IH [OF _ eq(2)] Cons.prems hja VRaw raw k2 k2' eq(1) show ?thesis by simp
      next
        case (Some err)
        with Cons.prems(3) hja VRaw k2 have "e = Some err" by simp
        moreover from Some Cons.prems(4) hja VRaw raw k2' eq(1) have "e' = Some err" by simp
        ultimately show ?thesis by simp
      qed
    qed (use Cons False hja raw in auto)
  qed
qed

section \<open>Texts that differ in one member\<close>

lemma same_but_equal: "same_but S kvs kvs' \<Longrightarrow> fst ` set kvs \<inter> S = {} \<Longrightarrow> kvs = kvs'"
  unfolding same_but_def by (induction rule: list_all2_induct) (auto simp: prod_eq_iff)

lemma dec_members_keys: "dec_members d fs kvs ms = Some (kvs', s) \<Longrightarrow> map fst kvs' = map fst kvs"
proof (induction ms arbitrary: kvs s)
  case Nil
  then show ?case by simp
next
  case (Cons m ms)
  obtain k j where m: "m = (k, j)" by fastforce
  show ?case
  proof (cases "find_field fs (json_unquote k)")
    case None
    with Cons m show ?thesis by simp
  next
    case (Some f)
    with Cons.prems m obtain v s1 where v: "d (fd_type f) (get_field (fd_name f) kvs) j = Some (v, s1)"
      by (auto split: option.splits)
    with Cons.prems m Some Cons.IH [of "set_field (fd_name f) v kvs"] show ?thesis by (cases s1) auto
  qed
qed

text \<open>Members with the same names and, but for the name \<open>jn\<close>, the same values.\<close>

definition differ_in :: "string \<Rightarrow> (string \<times> json) list \<Rightarrow> (string \<times> json) list \<Rightarrow> bool" where
  "differ_in jn ms ms' =
     list_all2 (\<lambda>m m'. fst m = fst m' \<and> (snd m = snd m' \<or> json_unquote (fst m) = jn)) ms ms'"

lemma dec_members_same:
  assumes "raw_exact d" "find_field fs jn = Some r" "fd_type r = TRaw" "differ_in jn ms ms'"
  shows "same_but {fd_name r} kvs kvs' \<Longrightarrow> \<forall>f \<in> set fs. fd_name f = fd_name r \<longrightarrow> fd_type f = TRaw \<Longrightarrow>
    dec_members d fs kvs ms = Some (k1, s) \<Longrightarrow> dec_members d fs kvs' ms' = Some (k1', s') \<Longrightarrow>
    s = s' \<and> same_but {fd_name r} k1 k1'"
  using assms(4) unfolding differ_in_def
proof (induction ms ms' arbitrary: kvs kvs' s s' rule: list_all2_induct)
  case Nil
  then show ?case by simp
next
  case (Cons m ms m' ms')
  obtain k j j' where m: "m = (k, j)" "m' = (k, j')" "j = j' \<or> json_unquote k = jn"
    using Cons.hyps(1) by (cases m; cases m') auto
  show ?case
  proof (cases "find_field fs (json_unquote k)")
    case None
    with Cons m show ?thesis by auto
  next
    case (Some f)
    then have f: "f \<in> set fs" by (rule find_field_mem)
    from Cons.prems(3) m Some obtain v t where v: "d (fd_type f) (get_field (fd_name f) kvs) j = Some (v, t)"
      by (auto split: option.splits)
    from Cons.prems(4) m Some obtain v' t' where v': "d (fd_type f) (get_field (fd_name f) kvs') j' = Some (v', t')"
      by (auto split: option.splits)
    have step: "t' = t \<and> same_but {fd_name r} (set_field (fd_name f) v kvs) (set_field (fd_name f) v' kvs')"
    proof (cases "fd_name f = fd_name r")
      case True
      with Cons.prems(2) f have "fd_type f = TRaw" by blast
      with assms(1) v v' have "t' = Fine" "t = Fine" unfolding raw_exact_def by metis+
      with True Cons.prems(1) show ?thesis by (auto intro: same_but_set2)
    next
      case False
      with m Some assms(2) have "j' = j" by auto
      moreover from False same_but_get [OF Cons.prems(1)] have "get_field (fd_name f) kvs' = get_field (fd_name f) kvs"
        by simp
      ultimately have "v' = v" "t' = t" using v v' by auto
      with Cons.prems(1) show ?thesis by (auto intro: same_but_set)
    qed
    show ?thesis
    proof (cases "\<exists>e. t = Abort e")
      case True
      with Cons.prems(3,4) m Some v v' step show ?thesis by auto
    next
      case False
      from Cons.prems(3) m Some v False obtain s2 where
        s2: "dec_members d fs (set_field (fd_name f) v kvs) ms = Some (k1, s2)" "s = joined t s2"
        by (cases t) auto
      from Cons.prems(4) m Some v' step False obtain s2' where
        s2': "dec_members d fs (set_field (fd_name f) v' kvs') ms' = Some (k1', s2')" "s' = joined t s2'"
        by (cases t) auto
      from Cons.IH [OF _ Cons.prems(2) s2(1) s2'(1)] step s2(2) s2'(2) show ?thesis by simp
    qed
  qed
qed

text \<open>No other action reads the field \<open>g\<close>, and its own action is tolerant.\<close>

definition lenient :: "(string \<times> string \<times> member_action) list \<Rightarrow> string \<Rightarrow> bool" where
  "lenient acts g =
     (\<forall>(h, jn, a) \<in> set acts. if h = g then tolerant a else h \<noteq> ''NullFields'' \<and> looks_at a \<inter> {g, ''NullFields''} = {})"

definition json_names_ok :: "(string \<times> string \<times> member_action) list \<Rightarrow> bool" where
  "json_names_ok acts = (distinct (map (fst \<circ> snd) acts) \<and> ''-'' \<notin> (fst \<circ> snd) ` set acts)"

lemma find_raw:
  assumes "(g, jn, a) \<in> set acts" "json_names_ok acts"
  shows "find_field (json_fields (raw_fields acts @ fs)) jn = Some (fld (raw_name g) TRaw jn)"
proof -
  from assms have "find (\<lambda>f. fd_json f = jn) (json_fields (raw_fields acts @ fs)) = Some (fld (raw_name g) TRaw jn)"
    unfolding json_names_ok_def
  proof (induction acts)
    case Nil
    then show ?case by simp
  next
    case (Cons hka acts)
    obtain h k b where hka: "hka = (h, k, b)" using prod_cases3 by blast
    show ?case
    proof (cases "hka = (g, jn, a)")
      case True
      with Cons.prems(2) show ?thesis by (auto simp: json_fields_def raw_fields_def fld_def)
    next
      case False
      with Cons.prems(1) have mem: "(g, jn, a) \<in> set acts" by simp
      then have "jn \<in> (fst \<circ> snd) ` set acts" by force
      with Cons.prems(2) hka have "k \<noteq> jn" by auto
      with Cons.IH [OF mem] Cons.prems(2) hka show ?thesis
        by (auto simp: json_fields_def raw_fields_def fld_def)
    qed
  qed
  then show ?thesis by (simp add: find_field_def)
qed

lemma dec_alias_lenient:
  assumes "raw_exact d" "alias_ok E fs acts" "map fst (struct_of (z (TName x))) = map fd_name fs"
    and "(g, jn, a) \<in> set acts" "json_names_ok acts" "lenient acts g" "differ_in jn ms ms'"
    and "dec_alias d z x fs acts old (JObj ms) = Some (v, s)" "dec_alias d z x fs acts old (JObj ms') = Some (v', s')"
  shows "s = s' \<and> (\<forall>h. h \<notin> {g, ''NullFields''} \<longrightarrow> get_field h (struct_of v) = get_field h (struct_of v'))"
proof -
  let ?fs = "json_fields (raw_fields acts @ alias_fields acts fs)"
  let ?start = "map (\<lambda>(g, jn, a). (raw_name g, VNil)) acts @ struct_of (z (TName x))"
  have dist: "distinct (map (\<lambda>(g, jn, a). raw_name g) acts @ map fd_name fs)" using assms(2) by (simp add: alias_ok_def)
  have raw_new: "raw_name g \<notin> fd_name ` set fs"
    using dist assms(4) by (force simp: disjoint_iff)
  from raw_new have not_raw: "f \<in> set fs \<Longrightarrow> fd_name f \<noteq> raw_name g" for f by (metis image_eqI)
  have raws: "\<forall>f \<in> set ?fs. fd_name f = raw_name g \<longrightarrow> fd_type f = TRaw"
    using not_raw subsetD [OF alias_fields_subset] by (fastforce simp: json_fields_def raw_fields_def fld_def)
  have struct: "\<exists>kvs. dec_members d ?fs ?start ms = Some (kvs, s1) \<and> v1 = VStruct kvs"
    if "dec_struct d x (raw_fields acts @ alias_fields acts fs) (raw_start acts (z (TName x))) (JObj ms) = Some (v1, s1)" for ms v1 s1
    using that by (auto simp: dec_struct_def raw_start_def)
  have own: "fst ` set (drop (length acts) kvs) \<inter> {raw_name g} = {}" if "dec_members d ?fs ?start ms = Some (kvs, s)" for kvs ms s
  proof -
    have "map fst kvs = map (\<lambda>(g, jn, a). raw_name g) acts @ map fd_name fs"
      using dec_members_keys [OF that] assms(3) by (auto simp: o_def case_prod_beta)
    then have "map fst (drop (length acts) kvs) = map fd_name fs" by (simp flip: drop_map)
    then have "fst ` set (drop (length acts) kvs) = fd_name ` set fs" by (metis list.set_map)
    with raw_new show ?thesis by simp
  qed
  from assms(8) obtain v1 s1 where v1:
    "dec_struct d x (raw_fields acts @ alias_fields acts fs) (raw_start acts (z (TName x))) (JObj ms) = Some (v1, s1)"
    "s1 \<noteq> Fine \<and> v = old \<and> s = returned (error_of s1)
       \<or> s1 = Fine \<and> (\<exists>kvs e. dec_actions d z fs acts (struct_of v1) (drop (length acts) (struct_of v1)) = Some (kvs, e)
           \<and> (e = None \<and> v = VStruct kvs \<and> s = Fine \<or> (\<exists>err. e = Some err \<and> v = old \<and> s = Abort err)))"
    by (rule dec_alias_cases)
  from assms(9) obtain v1' s1' where v1':
    "dec_struct d x (raw_fields acts @ alias_fields acts fs) (raw_start acts (z (TName x))) (JObj ms') = Some (v1', s1')"
    "s1' \<noteq> Fine \<and> v' = old \<and> s' = returned (error_of s1')
       \<or> s1' = Fine \<and> (\<exists>kvs e. dec_actions d z fs acts (struct_of v1') (drop (length acts) (struct_of v1')) = Some (kvs, e)
           \<and> (e = None \<and> v' = VStruct kvs \<and> s' = Fine \<or> (\<exists>err. e = Some err \<and> v' = old \<and> s' = Abort err)))"
    by (rule dec_alias_cases)
  from struct [OF v1(1)] obtain kvs where kvs: "dec_members d ?fs ?start ms = Some (kvs, s1)" "v1 = VStruct kvs" by blast
  from struct [OF v1'(1)] obtain kvs' where kvs': "dec_members d ?fs ?start ms' = Some (kvs', s1')" "v1' = VStruct kvs'" by blast
  have same: "s1' = s1 \<and> same_but {raw_name g} kvs kvs'"
    using dec_members_same [OF assms(1) find_raw [OF assms(4,5)] _ assms(7) _ _ kvs(1) kvs'(1)] raws
    by (simp add: fld_def)
  show ?thesis
  proof (cases "s1 = Fine")
    case False
    with v1(2) v1'(2) same show ?thesis by auto
  next
    case True
    have "drop (length acts) kvs = drop (length acts) kvs'"
      using same_but_equal [OF same_but_drop] same own [OF kvs(1)] by blast
    then have start: "same_but {g, ''NullFields''} (drop (length acts) kvs) (drop (length acts) kvs')" by simp
    have others: "\<forall>h. h \<noteq> g \<longrightarrow> get_field (raw_name h) kvs = get_field (raw_name h) kvs'"
      using same same_but_get by (auto simp: raw_name_def)
    have acts: "\<forall>(h, jn, a) \<in> set acts. (h = g \<longrightarrow> tolerant a) \<and>
        (h \<noteq> g \<longrightarrow> h \<notin> {g, ''NullFields''} \<and> looks_at a \<inter> {g, ''NullFields''} = {})"
      using assms(6) by (auto simp: lenient_def split: if_splits)
    from True v1(2) kvs(2) obtain k e where k: "dec_actions d z fs acts kvs (drop (length acts) kvs) = Some (k, e)"
      "e = None \<and> v = VStruct k \<and> s = Fine \<or> (\<exists>err. e = Some err \<and> v = old \<and> s = Abort err)" by auto
    from True same v1'(2) kvs'(2) obtain k' e' where k': "dec_actions d z fs acts kvs' (drop (length acts) kvs') = Some (k', e')"
      "e' = None \<and> v' = VStruct k' \<and> s' = Fine \<or> (\<exists>err. e' = Some err \<and> v' = old \<and> s' = Abort err)" by auto
    from dec_actions_same [OF _ _ others acts start k(1) k'(1)]
    have "e = e' \<and> (e = None \<longrightarrow> same_but {g, ''NullFields''} k k')" by simp
    with k(2) k'(2) same_but_get show ?thesis by auto
  qed
qed

section \<open>Members that are present\<close>

lemma members_step:
  assumes "dec_members d fs kvs ((k, j) # ms) = Some (kvs', Fine)"
  obtains "find_field fs (json_unquote k) = None" "dec_members d fs kvs ms = Some (kvs', Fine)"
  | f v where "find_field fs (json_unquote k) = Some f" "d (fd_type f) (get_field (fd_name f) kvs) j = Some (v, Fine)"
      "dec_members d fs (set_field (fd_name f) v kvs) ms = Some (kvs', Fine)"
proof (cases "find_field fs (json_unquote k)")
  case None
  with assms that(1) show thesis by simp
next
  case (Some f)
  with assms obtain v s where v: "d (fd_type f) (get_field (fd_name f) kvs) j = Some (v, s)"
    by (auto split: option.splits)
  with assms Some obtain s' where "dec_members d fs (set_field (fd_name f) v kvs) ms = Some (kvs', s')" "joined s s' = Fine"
    by (cases s) auto
  moreover from this have "s = Fine" "s' = Fine" by (cases s; cases s'; simp)+
  ultimately show thesis using that(2) [OF Some] v by simp
qed

text \<open>Where a struct decodes without an error, every member does.\<close>

lemma dec_members_all_fine:
  "dec_members d fs kvs ms = Some (kvs', Fine) \<Longrightarrow> (k, j) \<in> set ms \<Longrightarrow> find_field fs (json_unquote k) = Some f \<Longrightarrow>
   \<exists>old v. d (fd_type f) old j = Some (v, Fine)"
proof (induction ms arbitrary: kvs)
  case Nil
  then show ?case by simp
next
  case (Cons m ms)
  obtain k' j' where m: "m = (k', j')" by fastforce
  from Cons.prems(1) [unfolded m] show ?case
  proof (rule members_step)
    assume "find_field fs (json_unquote k') = None" "dec_members d fs kvs ms = Some (kvs', Fine)"
    with Cons m show ?thesis by auto
  next
    fix f' v assume "find_field fs (json_unquote k') = Some f'" "d (fd_type f') (get_field (fd_name f') kvs) j' = Some (v, Fine)"
      "dec_members d fs (set_field (fd_name f') v kvs) ms = Some (kvs', Fine)"
    with Cons.IH Cons.prems(2,3) m show ?thesis by (cases "(k, j) = (k', j')") auto
  qed
qed

text \<open>A raw field whose members are all other than null holds such a member in the end.\<close>

definition holds_text :: "go_val \<Rightarrow> bool" where
  "holds_text v = (\<exists>j. v = VRaw j \<and> j \<noteq> JNull)"

lemma dec_members_present:
  assumes "raw_exact d" "\<forall>f \<in> set fs. fd_name f = g \<longrightarrow> fd_type f = TRaw"
    and "\<forall>(k, j) \<in> set ms. \<forall>f. find_field fs (json_unquote k) = Some f \<and> fd_name f = g \<longrightarrow> j \<noteq> JNull"
  shows "dec_members d fs kvs ms = Some (kvs', Fine) \<Longrightarrow> g \<in> fst ` set kvs \<Longrightarrow>
    holds_text (get_field g kvs) \<or> (\<exists>(k, j) \<in> set ms. \<exists>f. find_field fs (json_unquote k) = Some f \<and> fd_name f = g) \<Longrightarrow>
    holds_text (get_field g kvs')"
  using assms(3)
proof (induction ms arbitrary: kvs)
  case Nil
  then show ?case by simp
next
  case (Cons m ms)
  obtain k j where m: "m = (k, j)" by fastforce
  from Cons.prems(1) [unfolded m] show ?case
  proof (rule members_step)
    assume "find_field fs (json_unquote k) = None" "dec_members d fs kvs ms = Some (kvs', Fine)"
    with Cons m show ?thesis by auto
  next
    fix f v assume f: "find_field fs (json_unquote k) = Some f" "d (fd_type f) (get_field (fd_name f) kvs) j = Some (v, Fine)"
      and rest: "dec_members d fs (set_field (fd_name f) v kvs) ms = Some (kvs', Fine)"
    have keys: "fst ` set (set_field (fd_name f) v kvs) = fst ` set kvs"
      by (metis list.set_map set_field_keys)
    have "holds_text (get_field g (set_field (fd_name f) v kvs))" if "fd_name f = g"
    proof -
      from that f(1) assms(2) have "fd_type f = TRaw" by (auto dest: find_field_mem)
      with f(2) assms(1) have "v = VRaw j" by (auto simp: raw_exact_def)
      moreover from Cons.prems(4) m f(1) that have "j \<noteq> JNull" by auto
      ultimately show ?thesis using that Cons.prems(2) by (simp add: get_set_field holds_text_def)
    qed
    moreover have "get_field g (set_field (fd_name f) v kvs) = get_field g kvs" if "fd_name f \<noteq> g"
      using that by (simp add: get_set_field)
    ultimately have now: "holds_text (get_field g (set_field (fd_name f) v kvs)) \<or>
        (\<exists>(k, j) \<in> set ms. \<exists>f. find_field fs (json_unquote k) = Some f \<and> fd_name f = g)"
      using Cons.prems(3) m f(1) by (cases "fd_name f = g") auto
    show ?thesis
      by (rule Cons.IH [OF rest]) (use now keys Cons.prems(2,4) m in auto)
  qed
qed

text \<open>The field of a tolerated pointer is set if its member is there, whatever it holds.\<close>

definition points :: "decoder \<Rightarrow> bool" where
  "points d = (\<forall>t old j v s. d (TPtr t) old j = Some (v, s) \<longrightarrow> j \<noteq> JNull \<longrightarrow> (\<exists>w. v = VPtr w))"

lemma points_dec: "points (dec E n)"
  by (cases n) (auto simp: points_def dec_layer_def dec_ptr_def)

lemma dec_actions_frame:
  assumes "g \<notin> (fst ` set acts)" "g \<noteq> ''NullFields''"
  shows "dec_actions d z fs acts raws kvs = Some (kvs', e) \<Longrightarrow> get_field g kvs' = get_field g kvs"
  using assms(1)
proof (induction acts arbitrary: kvs)
  case Nil
  then show ?case by simp
next
  case (Cons hka acts)
  obtain h jn a where hka: "hka = (h, jn, a)" using prod_cases3 by blast
  show ?case
  proof (cases "get_field (raw_name h) raws")
    case (VRaw j)
    with Cons.prems(1) hka obtain k1 e1 where k1: "dec_action d z fs h jn j kvs a = Some (k1, e1)"
      by (auto split: option.splits)
    have "same_but {h, ''NullFields''} k1 kvs"
      using dec_action_frame [OF _ _ same_but_refl k1] by simp
    with Cons.prems(2) hka assms(2) have "get_field g k1 = get_field g kvs" by (auto intro: same_but_get)
    with Cons hka VRaw k1 show ?thesis by (cases e1) auto
  qed (use Cons hka in auto)
qed

lemma dec_actions_pointer:
  assumes "points d" "g \<noteq> ''NullFields''" "find (\<lambda>f. fd_name f = g) fs = Some f" "fd_type f = TPtr t"
    and "holds_text (get_field (raw_name g) raws)"
  shows "dec_actions d z fs acts raws kvs = Some (kvs', None) \<Longrightarrow> distinct (map fst acts) \<Longrightarrow>
    (g, jn, Tolerate) \<in> set acts \<Longrightarrow> g \<in> fst ` set kvs \<Longrightarrow> \<exists>w. get_field g kvs' = VPtr w"
proof (induction acts arbitrary: kvs)
  case Nil
  then show ?case by simp
next
  case (Cons hka acts)
  obtain h jn' a where hka: "hka = (h, jn', a)" using prod_cases3 by blast
  show ?case
  proof (cases "hka = (g, jn, Tolerate)")
    case True
    from assms(5) obtain j where j: "get_field (raw_name g) raws = VRaw j" "j \<noteq> JNull" by (auto simp: holds_text_def)
    with Cons.prems(1) True assms(3) obtain v s where v: "d (TPtr t) (get_field g kvs) j = Some (v, s)"
        "dec_actions d z fs acts raws (set_field g v kvs) = Some (kvs', None)"
      using assms(4) by (auto split: option.splits)
    from Cons.prems(2) True have "g \<notin> fst ` set acts" by auto
    with dec_actions_frame [OF _ assms(2) v(2)] have "get_field g kvs' = get_field g (set_field g v kvs)" by blast
    moreover from v(1) j(2) assms(1) have "\<exists>w. v = VPtr w" unfolding points_def by blast
    ultimately show ?thesis using Cons.prems(4) by (auto simp: get_set_field)
  next
    case False
    with Cons.prems(3) have mem: "(g, jn, Tolerate) \<in> set acts" by simp
    show ?thesis
    proof (cases "get_field (raw_name h) raws")
      case (VRaw j)
      with Cons.prems(1) hka obtain k1 where k1: "dec_action d z fs h jn' j kvs a = Some (k1, None)"
          "dec_actions d z fs acts raws k1 = Some (kvs', None)"
        by (auto split: option.splits)
      have "same_but {h, ''NullFields''} k1 kvs"
        using dec_action_frame [OF _ _ same_but_refl k1(1)] by simp
      then have "map fst k1 = map fst kvs" by (simp add: same_but_def list_all2_conv_all_nth list_eq_iff_nth_eq)
      then have "fst ` set k1 = fst ` set kvs" by (metis list.set_map)
      with Cons.IH [OF k1(2) _ mem] Cons.prems(2,4) show ?thesis by simp
    qed (use Cons hka mem in auto)
  qed
qed

lemma find_field_folds: "find_field fs key = Some f \<Longrightarrow> fold_name (fd_json f) = fold_name key"
  by (auto simp: find_field_def find_Some_iff split: option.splits)

lemma returned_fine [simp]: "returned (error_of s) = Fine \<longleftrightarrow> s = Fine"
  by (cases s) auto

lemma dec_alias_fine:
  assumes "dec_alias d z x fs acts old j = Some (v, Fine)"
  obtains v1 where "dec_struct d x (raw_fields acts @ alias_fields acts fs) (raw_start acts (z (TName x))) j = Some (v1, Fine)"
    and "\<exists>kvs. dec_actions d z fs acts (struct_of v1) (drop (length acts) (struct_of v1)) = Some (kvs, None) \<and> v = VStruct kvs"
  using assms unfolding dec_alias_unfold
  by (auto split: option.splits prod.splits if_splits)

lemma dec_alias_pointer:
  assumes "raw_exact d" "points d" "alias_ok E fs acts" "map fst (struct_of (z (TName x))) = map fd_name fs"
    and "(g, jn, Tolerate) \<in> set acts" "json_names_ok acts" "g \<noteq> ''NullFields''"
    and "f \<in> set fs" "fd_name f = g" "fd_type f = TPtr t"
    and "\<exists>(k, j) \<in> set ms. json_unquote k = jn"
    and "\<forall>(k, j) \<in> set ms. fold_name (json_unquote k) = fold_name jn \<longrightarrow> j \<noteq> JNull"
    and "dec_alias d z x fs acts old (JObj ms) = Some (v, Fine)"
  shows "\<exists>w. get_field g (struct_of v) = VPtr w"
proof -
  let ?fs = "json_fields (raw_fields acts @ alias_fields acts fs)"
  let ?start = "map (\<lambda>(g, jn, a). (raw_name g, VNil)) acts @ struct_of (z (TName x))"
  have dist: "distinct (map (\<lambda>(g, jn, a). raw_name g) acts @ map fd_name fs)" using assms(3) by (simp add: alias_ok_def)
  from assms(13) obtain v1 where v1:
    "dec_struct d x (raw_fields acts @ alias_fields acts fs) (raw_start acts (z (TName x))) (JObj ms) = Some (v1, Fine)"
    "\<exists>kvs. dec_actions d z fs acts (struct_of v1) (drop (length acts) (struct_of v1)) = Some (kvs, None) \<and> v = VStruct kvs"
    by (rule dec_alias_fine)
  from v1(1) obtain kvs where kvs: "dec_members d ?fs ?start ms = Some (kvs, Fine)" "v1 = VStruct kvs"
    by (auto simp: dec_struct_def raw_start_def)
  have raws: "\<forall>f \<in> set ?fs. fd_name f = raw_name g \<longrightarrow> fd_type f = TRaw \<and> fd_json f = jn"
  proof (intro ballI impI)
    fix f assume f: "f \<in> set ?fs" "fd_name f = raw_name g"
    have "raw_name g \<notin> fd_name ` set fs" using dist assms(5) by (force simp: disjoint_iff)
    with f alias_fields_subset [of acts fs] have "f \<in> set (raw_fields acts)"
      by (auto simp: json_fields_def) (metis image_eqI subsetD)
    then obtain jn' a where a: "(g, jn', a) \<in> set acts" "f = fld (raw_name g) TRaw jn'"
      using f(2) by (auto simp: raw_fields_def fld_def raw_name_def)
    with assms(5) dist have "jn' = jn" by (auto simp: distinct_map inj_on_def)
    with a(2) show "fd_type f = TRaw \<and> fd_json f = jn" by (simp add: fld_def)
  qed
  have held: "holds_text (get_field (raw_name g) kvs)"
  proof (rule dec_members_present [OF assms(1) _ _ kvs(1)])
    show "\<forall>f \<in> set ?fs. fd_name f = raw_name g \<longrightarrow> fd_type f = TRaw" using raws by blast
    show "\<forall>(k, j) \<in> set ms. \<forall>f. find_field ?fs (json_unquote k) = Some f \<and> fd_name f = raw_name g \<longrightarrow> j \<noteq> JNull"
    proof (clarify)
      fix k f assume k: "(k, JNull) \<in> set ms" "find_field ?fs (json_unquote k) = Some f" "fd_name f = raw_name g"
      then have "fold_name (fd_json f) = fold_name (json_unquote k)" by (auto dest: find_field_folds)
      moreover from k raws have "fd_json f = jn" by (auto dest: find_field_mem)
      ultimately show False using assms(12) k(1) by auto
    qed
    show "raw_name g \<in> fst ` set ?start" using assms(5) by force
    show "holds_text (get_field (raw_name g) ?start) \<or>
        (\<exists>(k, j) \<in> set ms. \<exists>f. find_field ?fs (json_unquote k) = Some f \<and> fd_name f = raw_name g)"
    proof (rule disjI2)
      from assms(11) obtain k j where "(k, j) \<in> set ms" "json_unquote k = jn" by auto
      with find_raw [OF assms(5,6), of "alias_fields acts fs"]
      show "\<exists>(k, j) \<in> set ms. \<exists>f. find_field ?fs (json_unquote k) = Some f \<and> fd_name f = raw_name g"
        by (intro bexI [of _ "(k, j)"]) (simp_all add: fld_def)
    qed
  qed
  have keys: "map fst (drop (length acts) kvs) = map fd_name fs"
    using dec_members_keys [OF kvs(1)] assms(4) by (simp add: o_def case_prod_beta flip: drop_map)
  have "distinct (map fd_name fs)" using dist by simp
  with assms(8,9) have find: "find (\<lambda>f. fd_name f = g) fs = Some f"
    by (induction fs) (auto simp: image_iff)
  have "map (\<lambda>(g, jn, a). raw_name g) acts = map raw_name (map fst acts)" by (simp add: case_prod_beta)
  with dist have "distinct (map raw_name (map fst acts))" by simp
  then have once: "distinct (map fst acts)" by (rule distinct_map [THEN iffD1, THEN conjunct1])
  have field: "g \<in> fst ` set (drop (length acts) kvs)"
    using keys assms(8,9) by (metis image_eqI list.set_map)
  from v1(2) kvs(2) obtain kvs' where
    "dec_actions d z fs acts kvs (drop (length acts) kvs) = Some (kvs', None)" "v = VStruct kvs'" by auto
  with dec_actions_pointer [OF assms(2,7) find assms(10) held _ once assms(5) field] show ?thesis by auto
qed

end
