(* ===== verification/Acp_Props.thy ===== *)
theory Acp_Props
  imports Acp_Types Go_Tolerance
begin

text \<open>
  What decoding and encoding do for every type of acp/types_gen.go: results are well-typed,
  decoding returns, tolerated members, the types without methods of their own, and the lists
  that are never null on the wire.
\<close>

section \<open>Every type decodes to a well-typed value\<close>



text \<open>
  C20: decoding terminates. The methods of a type decode the same text again in other types,
  and fields decode parts of it; with \<open>enough\<close> nested calls, which is four for each level of
  nesting of the text and at most four more, every type of the protocol is decoded.
\<close>

theorem decode_returns:
  assumes "type_ok acp t" "enough acp t j \<le> n"
  shows "\<exists>v s. dec acp n t old j = Some (v, s)"
  using dec_returns [OF wf_acp, of n] assms by (auto simp: returns_on_def)

theorem decode_returns_witness:
  "\<exists>v s. dec acp 5 (TName ty_AgentAuthCapabilities) VNil (JObj [(''logout'', JNum ''5'')]) = Some (v, s)"
  by (rule decode_returns) (code_simp, code_simp)

section \<open>Tolerated members\<close>

text \<open>In every type a tolerated member has a JSON name of its own and no other member reads its field.\<close>

definition tolerance_ok :: "go_name \<Rightarrow> bool" where
  "tolerance_ok x =
     (case acp x of
        None \<Rightarrow> True
      | Some D \<Rightarrow>
          (case gd_unmarshal D of
             ByAlias acts \<Rightarrow>
               json_names_ok acts \<and> list_all (\<lambda>(g, jn, a). tolerant a \<longrightarrow> g \<noteq> ''NullFields'' \<and> lenient acts g) acts
           | _ \<Rightarrow> True))"

lemma tolerance_1: "list_all tolerance_ok [0..129]"
  by code_simp

lemma tolerance_2: "list_all tolerance_ok [130..194]"
  by code_simp

lemma tolerance_3: "list_all tolerance_ok [195..257]"
  by code_simp

lemma tolerance_all: "tolerance_ok x"
proof (cases "acp x")
  case None
  then show ?thesis by (simp add: tolerance_ok_def)
next
  case (Some D)
  then have "0 \<le> x" "x < 258" using acp_bound [of x] by auto
  then have "x \<in> set [0..129] \<or> x \<in> set [130..194] \<or> x \<in> set [195..257]"
    unfolding set_upto atLeastAtMost_iff by arith
  then show ?thesis
    using tolerance_1 tolerance_2 tolerance_3 unfolding list_all_iff by blast
qed

text \<open>What the properties use of a type with an \<open>UnmarshalJSON\<close> over an alias.\<close>

lemma alias_type:
  assumes "acp x = Some D" "gd_unmarshal D = ByAlias acts"
  obtains fs where "struct_fields acp x = Some fs" "alias_ok acp fs acts" "json_names_ok acts"
    "map fst (struct_of (zero_of acp (TName x))) = map fd_name fs"
    "\<And>n old j. dec acp (Suc n) (TName x) old j = dec_alias (dec acp n) (zero acp depth) x fs acts old j"
proof -
  from assms wf_acp obtain fs where fs: "struct_fields acp x = Some fs" "alias_ok acp fs acts"
    by (fastforce simp: wf_env_def decl_ok_def unmarshal_ok_def split: option.splits)
  moreover have "json_names_ok acts" using tolerance_all [of x] assms by (simp add: tolerance_ok_def)
  moreover have "map fst (struct_of (zero_of acp (TName x))) = map fd_name fs"
    using fs(1) by (simp add: zero.simps(7) depth_def)
  moreover have "dec acp (Suc n) (TName x) old j = dec_alias (dec acp n) (zero acp depth) x fs acts old j" for n old j
    using assms fs(1) by (simp add: dec_layer_def dec_name_def)
  ultimately show thesis by (rule that)
qed

lemma lenient_acp:
  "acp x = Some D \<Longrightarrow> gd_unmarshal D = ByAlias acts \<Longrightarrow> (g, jn, a) \<in> set acts \<Longrightarrow> tolerant a \<Longrightarrow>
   g \<noteq> ''NullFields'' \<and> lenient acts g"
  using tolerance_all [of x] by (auto simp: tolerance_ok_def list_all_iff)



text \<open>
  C22: a tolerated member that is malformed still counts as present. A field that is a pointer
  and is decoded by \<open>_ = unmarshalJSON(raw.F, &decoded.F)\<close> is not nil afterwards whenever its
  member is in the text and is not null, also if the member is of a wrong type and nothing
  of it could be decoded: the decoder allocates the value before it looks at the text. The
  documentation of the generator says the field is left at its Go zero value, which is nil.
\<close>

theorem malformed_pointer_present:
  assumes "acp x = Some D" "gd_unmarshal D = ByAlias acts" "(g, jn, Tolerate) \<in> set acts"
    and "struct_fields acp x = Some fs" "f \<in> set fs" "fd_name f = g" "fd_type f = TPtr t"
    and "\<exists>(k, j) \<in> set ms. json_unquote k = jn"
    and "\<forall>(k, j) \<in> set ms. fold_name (json_unquote k) = fold_name jn \<longrightarrow> j \<noteq> JNull"
    and "dec acp n (TName x) old (JObj ms) = Some (v, Fine)"
  shows "\<exists>w. get_field g (struct_of v) = VPtr w"
proof -
  obtain fs' where fs': "struct_fields acp x = Some fs'" "alias_ok acp fs' acts" "json_names_ok acts"
      "map fst (struct_of (zero_of acp (TName x))) = map fd_name fs'"
      "\<And>n old j. dec acp (Suc n) (TName x) old j = dec_alias (dec acp n) (zero acp depth) x fs' acts old j"
    using alias_type [OF assms(1,2)] by metis
  then have eq: "fs' = fs" using assms(4) by simp
  have "g \<noteq> ''NullFields''" using lenient_acp [OF assms(1-3)] by simp
  moreover from assms(10) obtain m where "n = Suc m" by (cases n) auto
  ultimately show ?thesis
    using dec_alias_pointer [where z = "zero acp depth", OF raw_exact_dec points_dec fs'(2,4) assms(3) fs'(3) _ _ assms(6,7,8,9)]
      assms(5,10) fs'(5) eq by simp
qed

theorem malformed_pointer_present_witness:
  "\<exists>w. get_field ''Logout'' (struct_of (VStruct
     [(''Meta'', VNil), (''Logout'', VPtr (VStruct [(''Meta'', VNil)])), (''Status'', VNil)])) = VPtr w"
proof (rule malformed_pointer_present)
  show "acp ty_AgentAuthCapabilities = Some decl_AgentAuthCapabilities" by code_simp
  show "gd_unmarshal decl_AgentAuthCapabilities = ByAlias unmarshal_AgentAuthCapabilities" by code_simp
  show "(''Logout'', ''logout'', Tolerate) \<in> set unmarshal_AgentAuthCapabilities" by code_simp
  show "struct_fields acp ty_AgentAuthCapabilities =
      Some [omz ''Meta'' (TName ty_Meta) ''_meta'', opt ''Logout'' (TPtr (TName ty_LogoutCapabilities)) ''logout'',
        opt ''Status'' (TPtr (TName ty_AuthStatusCapabilities)) ''status'']"
    by code_simp
  show "opt ''Logout'' (TPtr (TName ty_LogoutCapabilities)) ''logout'' \<in>
      set [omz ''Meta'' (TName ty_Meta) ''_meta'', opt ''Logout'' (TPtr (TName ty_LogoutCapabilities)) ''logout'',
        opt ''Status'' (TPtr (TName ty_AuthStatusCapabilities)) ''status'']" by simp
  show "fd_name (opt ''Logout'' (TPtr (TName ty_LogoutCapabilities)) ''logout'') = ''Logout''" by code_simp
  show "fd_type (opt ''Logout'' (TPtr (TName ty_LogoutCapabilities)) ''logout'') = TPtr (TName ty_LogoutCapabilities)"
    by code_simp
  show "\<exists>(k, j) \<in> set [(''logout'', JNum ''5'')]. json_unquote k = ''logout''" by code_simp
  show "\<forall>(k, j) \<in> set [(''logout'', JNum ''5'')]. fold_name (json_unquote k) = fold_name ''logout'' \<longrightarrow> j \<noteq> JNull"
    by code_simp
  show "dec acp 5 (TName ty_AgentAuthCapabilities) VNil (JObj [(''logout'', JNum ''5'')]) =
      Some (VStruct [(''Meta'', VNil), (''Logout'', VPtr (VStruct [(''Meta'', VNil)])), (''Status'', VNil)], Fine)"
    by code_simp
qed

section \<open>Types declared as another struct type\<close>

text \<open>A struct does not decode from a value that is neither an object nor null.\<close>

lemma dec_struct_not_fine:
  assumes "acp x = Some D" "struct_fields acp x = Some fs"
    and "gd_unmarshal D = Reflected \<or> (\<exists>acts. gd_unmarshal D = ByAlias acts)"
    and "j \<noteq> JNull" "\<forall>ms. j \<noteq> JObj ms" "dec acp n (TName x) old j = Some (v, s)"
  shows "s \<noteq> Fine"
proof -
  from assms(6) obtain m where n: "n = Suc m" by (cases n) auto
  have reject: "dec_struct d y gs u j = Some (u, Saved (Mismatch (TName y)))" for d y gs u
    using assms(4,5) by (cases j) (simp_all add: dec_struct_def)
  from assms(3) show ?thesis
  proof
    assume "gd_unmarshal D = Reflected"
    with assms(1,2,6) n show ?thesis by (auto simp: dec_layer_def dec_name_def dec_shape_def reject)
  next
    assume "\<exists>acts. gd_unmarshal D = ByAlias acts"
    with assms(1,2,6) n show ?thesis by (auto simp: dec_layer_def dec_name_def dec_alias_unfold reject)
  qed
qed

lemma proxy_request_decl:
  "acp ty_InitializeProxyRequest = Some decl_InitializeProxyRequest"
  "struct_fields acp ty_InitializeProxyRequest = struct_fields acp ty_InitializeRequest"
  "acp ty_InitializeRequest = Some decl_InitializeRequest"
  "gd_unmarshal decl_InitializeRequest = ByAlias unmarshal_InitializeRequest"
  "gd_unmarshal decl_InitializeProxyRequest = Reflected"
  "acp ty_Implementation = Some decl_Implementation"
  "gd_unmarshal decl_Implementation = ByAlias unmarshal_Implementation"
  by code_simp+

lemma client_info_field:
  "struct_fields acp ty_InitializeRequest = Some fs \<Longrightarrow> find_field (json_fields fs) ''clientInfo'' =
     Some (opt ''ClientInfo'' (TPtr (TName ty_Implementation)) ''clientInfo'')"
proof -
  have "map_option (\<lambda>fs. find_field (json_fields fs) ''clientInfo'') (struct_fields acp ty_InitializeRequest) =
      Some (Some (opt ''ClientInfo'' (TPtr (TName ty_Implementation)) ''clientInfo''))"
    by code_simp
  then show "struct_fields acp ty_InitializeRequest = Some fs \<Longrightarrow> ?thesis" by simp
qed

lemma implementation_fields: "struct_fields acp ty_Implementation \<noteq> None"
  by code_simp

text \<open>The proxy type decodes \<open>clientInfo\<close> as any other member, and its error is the error of the whole.\<close>

lemma proxy_client_info:
  assumes "(k, j) \<in> set ms" "json_unquote k = ''clientInfo''" "j \<noteq> JNull" "\<forall>o'. j \<noteq> JObj o'"
    and "dec acp n (TName ty_InitializeProxyRequest) old (JObj ms) = Some (w, s)"
  shows "s \<noteq> Fine"
proof
  assume fine: "s = Fine"
  from assms(5) obtain m where n: "n = Suc m" by (cases n) auto
  obtain fs where fs: "struct_fields acp ty_InitializeRequest = Some fs"
    using alias_type [OF proxy_request_decl(3,4)] by metis
  let ?d = "dec acp m"
  have "dec_struct ?d ty_InitializeProxyRequest fs old (JObj ms) = Some (w, Fine)"
    using assms(5) n fine fs proxy_request_decl(1,2,5) by (simp add: dec_layer_def dec_name_def dec_shape_def)
  then obtain kvs where kvs: "dec_members ?d (json_fields fs) (struct_of old) ms = Some (kvs, Fine)"
    by (auto simp: dec_struct_def)
  from dec_members_all_fine [OF kvs assms(1)] client_info_field [OF fs] assms(2)
  obtain o' v where v: "?d (TPtr (TName ty_Implementation)) o' j = Some (v, Fine)" by (auto simp: opt_def)
  then obtain m' where "m = Suc m'" by (cases m) auto
  with v assms(3) obtain u u' where u: "dec acp m' (TName ty_Implementation) u j = Some (u', Fine)"
    by (auto simp: dec_layer_def dec_ptr_def)
  obtain gs where gs: "struct_fields acp ty_Implementation = Some gs" using implementation_fields by blast
  from dec_struct_not_fine [OF proxy_request_decl(6) gs _ assms(3,4) u] proxy_request_decl(7) show False by simp
qed

text \<open>
  C30: \<open>proxy/initialize\<close> is stricter than \<open>initialize\<close>, though its parameters are documented
  to be the same: \<open>type InitializeProxyRequest InitializeRequest\<close> has the fields of the type
  but not its \<open>UnmarshalJSON\<close>. Whatever \<open>initialize\<close> accepts with a good \<open>clientInfo\<close> it also
  accepts when that member is neither an object nor null, while \<open>proxy/initialize\<close> then
  answers with an error.
\<close>

theorem proxy_initialize_strict:
  assumes "(k, j) \<in> set ms" "json_unquote k = ''clientInfo''" "j \<noteq> JNull" "\<forall>o'. j \<noteq> JObj o'"
    and "differ_in ''clientInfo'' ms ms'" "dec acp n (TName ty_InitializeRequest) old (JObj ms') = Some (v', Fine)"
    and "enough acp (TName ty_InitializeRequest) (JObj ms) \<le> n"
  shows "\<exists>v w s. dec acp n (TName ty_InitializeRequest) old (JObj ms) = Some (v, Fine)
    \<and> dec acp n (TName ty_InitializeProxyRequest) old (JObj ms) = Some (w, s) \<and> s \<noteq> Fine"
proof -
  from assms(6) obtain m where n: "n = Suc m" by (cases n) auto
  have member: "(''ClientInfo'', ''clientInfo'', Tolerate) \<in> set unmarshal_InitializeRequest" by code_simp
  obtain fs where fs: "alias_ok acp fs unmarshal_InitializeRequest" "json_names_ok unmarshal_InitializeRequest"
      "map fst (struct_of (zero_of acp (TName ty_InitializeRequest))) = map fd_name fs"
      "\<And>n old j. dec acp (Suc n) (TName ty_InitializeRequest) old j =
        dec_alias (dec acp n) (zero acp depth) ty_InitializeRequest fs unmarshal_InitializeRequest old j"
    using alias_type [OF proxy_request_decl(3,4)] by metis
  have lenient: "lenient unmarshal_InitializeRequest ''ClientInfo''"
    using lenient_acp [OF proxy_request_decl(3,4) member] by simp
  have ok: "type_ok acp (TName ty_InitializeRequest)" "type_ok acp (TName ty_InitializeProxyRequest)"
    using proxy_request_decl by simp_all
  have more: "enough acp (TName ty_InitializeProxyRequest) (JObj ms) \<le> n"
    using assms(7) proxy_request_decl by (simp add: enough_def)
  from dec_returns [OF wf_acp, of n] ok(1) assms(7) obtain v s where v: "dec acp n (TName ty_InitializeRequest) old (JObj ms) = Some (v, s)"
    by (fastforce simp: returns_on_def)
  from dec_returns [OF wf_acp, of n] ok(2) more obtain w t where w: "dec acp n (TName ty_InitializeProxyRequest) old (JObj ms) = Some (w, t)"
    by (fastforce simp: returns_on_def)
  have "s = Fine"
    using dec_alias_lenient [where z = "zero acp depth", OF raw_exact_dec fs(1,3) member fs(2) lenient assms(5)]
      v assms(6) n fs(4) by simp
  with v w proxy_client_info [OF assms(1-4) w] show ?thesis by blast
qed

theorem proxy_initialize_strict_witness:
  "\<exists>v w s. dec acp 9 (TName ty_InitializeRequest) VNil (JObj [(''clientInfo'', JNum ''5'')]) = Some (v, Fine)
    \<and> dec acp 9 (TName ty_InitializeProxyRequest) VNil (JObj [(''clientInfo'', JNum ''5'')]) = Some (w, s) \<and> s \<noteq> Fine"
proof (rule proxy_initialize_strict)
  show "(''clientInfo'', JNum ''5'') \<in> set [(''clientInfo'', JNum ''5'')]" by simp
  show "json_unquote ''clientInfo'' = ''clientInfo''" by code_simp
  show "JNum ''5'' \<noteq> JNull" "\<forall>o'. JNum ''5'' \<noteq> JObj o'" by simp_all
  show "differ_in ''clientInfo'' [(''clientInfo'', JNum ''5'')] [(''clientInfo'', JObj [])]" by code_simp
  have "case dec acp 9 (TName ty_InitializeRequest) VNil (JObj [(''clientInfo'', JObj [])]) of
      Some (v, s) \<Rightarrow> s = Fine | None \<Rightarrow> False" by code_simp
  then show "dec acp 9 (TName ty_InitializeRequest) VNil (JObj [(''clientInfo'', JObj [])]) =
      Some (fst (the (dec acp 9 (TName ty_InitializeRequest) VNil (JObj [(''clientInfo'', JObj [])]))), Fine)"
    by (auto split: option.splits)
  show "enough acp (TName ty_InitializeRequest) (JObj [(''clientInfo'', JNum ''5'')]) \<le> 9" by code_simp
qed

end
