(* ===== verification/Acp_Encode.thy ===== *)
theory Acp_Encode
  imports Acp_Types
begin

text \<open>
  Required lists on the wire: what the statements of a \<open>MarshalJSON\<close> do to the fields of the
  alias, and that no field a method fills is ever sent as null or left out.
\<close>

section \<open>The alias under the statements\<close>

text \<open>Statements that only set wire fields.\<close>

fun sends :: "emit \<Rightarrow> bool" where
  "sends (NonNil g) = False"
| "sends (NonNilOptions g) = False"
| "sends (EmitSwitch d cs) = (\<forall>(s, es) \<in> set cs. \<forall>e \<in> set es. sends e)"
| "sends e = True"

lemma fold_alias: "\<forall>f \<in> set fs. \<forall>st. fst (f st) = fst st \<Longrightarrow> fst (fold id fs st) = fst st"
  by (induction fs arbitrary: st) (simp_all del: split_paired_All)

lemma in_case_alias:
  "\<forall>c \<in> set cs. \<forall>f \<in> set (snd c). \<forall>st. fst (f st) = fst st \<Longrightarrow> fst (in_case tag cs st) = fst st"
proof (induction cs)
  case Nil
  then show ?case by simp
next
  case (Cons c cs)
  then show ?case by (cases c) (simp add: fold_alias)
qed

lemma sends_alias: "sends e \<Longrightarrow> fst (emit1 e st) = fst st"
proof (induction e arbitrary: st)
  case (EmitSwitch d cs)
  have "\<forall>c \<in> set (map (map_prod id (map emit1)) cs). \<forall>f \<in> set (snd c). \<forall>st. fst (f st) = fst st"
  proof (intro ballI allI)
    fix c f st assume c: "c \<in> set (map (map_prod id (map emit1)) cs)" "f \<in> set (snd c)"
    then obtain s es e where e: "(s, es) \<in> set cs" "e \<in> set es" "f = emit1 e" by auto
    with EmitSwitch.prems have "sends e" by fastforce
    with EmitSwitch.IH [of "(s, es)" es e] e show "fst (f st) = fst st" by simp
  qed
  then show ?case by (simp add: in_case_alias)
qed (simp_all add: upd_wire_def)

text \<open>What a method leaves in the field \<open>g\<close> of the alias.\<close>

definition fills_only :: "string \<Rightarrow> emit \<Rightarrow> bool" where
  "fills_only g e = (sends e \<or> (case e of NonNil h \<Rightarrow> True | NonNilOptions h \<Rightarrow> h \<noteq> g | _ \<Rightarrow> False))"

lemma emit1_alias:
  assumes "fills_only g e" "g \<in> fst ` set (fst st)"
  shows "get_field g (fst (emit1 e st)) =
      (if e = NonNil g then slice_or_empty (get_field g (fst st)) else get_field g (fst st))
    \<and> fst ` set (fst (emit1 e st)) = fst ` set (fst st)"
proof (cases "sends e")
  case True
  moreover from True have "e \<noteq> NonNil g" by auto
  ultimately show ?thesis by (simp add: sends_alias)
next
  case False
  have keys: "fst ` set (set_field h v kvs) = fst ` set kvs" for h v and kvs :: "(string \<times> go_val) list"
    by (metis list.set_map set_field_keys)
  from False assms show ?thesis
    by (cases e) (auto simp: fills_only_def upd_alias_def get_set_field keys)
qed

lemma slice_or_empty_idem [simp]: "slice_or_empty (slice_or_empty v) = slice_or_empty v"
  by (simp add: slice_or_empty_def)

lemma emits_alias:
  "\<forall>e \<in> set es. fills_only g e \<Longrightarrow> g \<in> fst ` set (fst st) \<Longrightarrow>
   get_field g (fst (emits es st)) =
     (if NonNil g \<in> set es then slice_or_empty (get_field g (fst st)) else get_field g (fst st))"
proof (induction es arbitrary: st)
  case Nil
  then show ?case by (simp add: emits_def)
next
  case (Cons e es)
  from emit1_alias [of g e st] Cons.prems
  have e: "get_field g (fst (emit1 e st)) = (if e = NonNil g then slice_or_empty (get_field g (fst st)) else get_field g (fst st))"
    "g \<in> fst ` set (fst (emit1 e st))" by simp_all
  with Cons.IH [of "emit1 e st"] Cons.prems(1) show ?case by (simp add: emits_def)
qed

section \<open>Members that are sent\<close>

lemma enc_members_sent:
  "enc_members e ms = Some (Inr js) \<Longrightarrow> (k, t, v) \<in> set ms \<Longrightarrow> \<exists>j. e t v = Some (Inr j) \<and> (go_quote k, j) \<in> set js"
proof (induction ms arbitrary: js)
  case Nil
  then show ?case by simp
next
  case (Cons m ms)
  obtain k' t' v' where m: "m = (k', t', v')" using prod_cases3 by blast
  with Cons.prems(1) obtain j js' where j: "e t' v' = Some (Inr j)" "enc_members e ms = Some (Inr js')" "js = (go_quote k', j) # js'"
    by (auto split: option.splits sum.splits)
  show ?case
  proof (cases "(k, t, v) = m")
    case True
    with m j show ?thesis by auto
  next
    case False
    with Cons.prems(2) Cons.IH [OF j(2)] j(3) show ?thesis by auto
  qed
qed

lemma map_sum_Inr: "map_sum id g r = Inr y \<longleftrightarrow> (\<exists>x. r = Inr x \<and> y = g x)"
  by (cases r) auto

lemma enc_slice: "enc E n (TSlice t) (VSlice vs) = Some (Inr j) \<Longrightarrow> \<exists>js. j = JArr js"
  by (cases n) (auto simp: enc_layer_def enc_plain_def map_sum_Inr)

text \<open>A list a method fills is sent, and is a list.\<close>

lemma filled_list_sent:
  assumes "struct_fields E x = Some fs" "typed E (TName x) (VStruct kvs)"
    and "f \<in> set fs" "fd_type f = TSlice t" "NonNil (fd_name f) \<in> set es" "\<forall>e \<in> set es. fills_only (fd_name f) e"
    and "distinct (map fd_name fs)" "\<not> fd_omitempty f" "\<not> fd_omitzero f" "fd_json f \<noteq> ''-''" "fd_json f \<notin> fd_json ` set wire"
    and "enc_wire (enc E n) fs wire es kvs = Some (Inr j)"
  shows "\<exists>ms js. j = JObj ms \<and> (go_quote (fd_json f), JArr js) \<in> set ms"
proof -
  let ?g = "fd_name f"
  obtain a w where aw: "emits es (kvs, map (\<lambda>f. (fd_name f, VNil)) wire) = (a, w)" by fastforce
  have kvs: "fields_typed E fs kvs" using assms(2) typed_fields [OF assms(1)] by simp
  then have names: "map fst kvs = map fd_name fs"
    by (auto simp: fields_typed_def list_all2_conv_all_nth list_eq_iff_nth_eq)
  have key: "?g \<in> fst ` set kvs" using names assms(3) by (metis image_eqI list.set_map)
  have "typed E (TSlice t) (get_field ?g kvs)"
    using fields_typed_get [OF kvs assms(7,3)] assms(4) by simp
  then obtain vs where "slice_or_empty (get_field ?g kvs) = VSlice vs" by (auto simp: slice_or_empty_def)
  with emits_alias [OF assms(6), of "(kvs, map (\<lambda>f. (fd_name f, VNil)) wire)"] key assms(5) aw
  have "get_field ?g a = VSlice vs" by simp
  then have "(fd_json f, TSlice t, VSlice vs) \<in> set (sent (filter (\<lambda>f. fd_json f \<notin> fd_json ` set wire) fs) a)"
    using assms(3,4,8-11) by (force simp: sent_def json_fields_def omitted_def)
  moreover from assms(12) aw obtain js where js: "j = JObj js"
      "enc_members (enc E n) (sent (filter (\<lambda>f. fd_json f \<notin> fd_json ` set wire) fs) a @ sent wire w) = Some (Inr js)"
    by (auto simp: enc_wire_def object_def map_sum_Inr)
  ultimately obtain j' where j': "enc E n (TSlice t) (VSlice vs) = Some (Inr j')" "(go_quote (fd_json f), j') \<in> set js"
    using enc_members_sent [OF js(2)] by fastforce
  with enc_slice js(1) show ?thesis by blast
qed

section \<open>Required lists of the protocol\<close>

definition required_list :: "go_field \<Rightarrow> bool" where
  "required_list f =
     ((case fd_type f of TSlice t \<Rightarrow> True | _ \<Rightarrow> False) \<and> \<not> fd_omitempty f \<and> \<not> fd_omitzero f \<and> fd_json f \<noteq> ''-'')"

text \<open>Every required list of a type is filled by its \<open>MarshalJSON\<close>.\<close>

definition lists_filled :: "go_name \<Rightarrow> bool" where
  "lists_filled x =
     (case acp x of
        None \<Rightarrow> True
      | Some D \<Rightarrow>
          (case struct_fields acp x of
             None \<Rightarrow> True
           | Some fs \<Rightarrow>
               list_all (\<lambda>f. required_list f \<longrightarrow>
                 (case gd_marshal D of
                    ByWire wire es \<Rightarrow>
                      list_ex (\<lambda>e. e = NonNil (fd_name f)) es \<and> list_all (fills_only (fd_name f)) es
                      \<and> list_all (\<lambda>h. fd_json h \<noteq> fd_json f) wire
                  | _ \<Rightarrow> False)) fs))"

lemma lists_filled_1: "list_all lists_filled [0..129]"
  by code_simp

lemma lists_filled_2: "list_all lists_filled [130..257]"
  by code_simp

lemma lists_filled_all: "lists_filled x"
proof (cases "acp x")
  case None
  then show ?thesis by (simp add: lists_filled_def)
next
  case (Some D)
  then have "0 \<le> x" "x < 258" using acp_bound [of x] by auto
  then have "x \<in> set [0..129] \<or> x \<in> set [130..257]"
    unfolding set_upto atLeastAtMost_iff by arith
  then show ?thesis
    using lists_filled_1 lists_filled_2 unfolding list_all_iff by blast
qed

text \<open>
  C31: a required list is never null on the wire. For every struct type of the protocol and
  every field that is a slice and not optional, whatever value of the type is encoded, also
  one whose field is nil: if the encoder gives a text, it is an object with the member of the
  field, and that member is an array.
\<close>

theorem required_lists_sent:
  assumes "struct_fields acp x = Some fs" "typed acp (TName x) v" "f \<in> set fs" "required_list f"
    and "enc acp n (TName x) v = Some (Inr j)"
  shows "\<exists>ms js. j = JObj ms \<and> (go_quote (fd_json f), JArr js) \<in> set ms"
proof -
  from assms(1) obtain D where D: "acp x = Some D" by (auto simp: struct_fields_def split: option.splits)
  from assms(4) obtain t where f: "fd_type f = TSlice t" "\<not> fd_omitempty f" "\<not> fd_omitzero f" "fd_json f \<noteq> ''-''"
    by (auto simp: required_list_def split: go_type.splits)
  from lists_filled_all [of x] D assms(1,3,4)
  have "(case gd_marshal D of
           ByWire wire es \<Rightarrow>
             NonNil (fd_name f) \<in> set es \<and> (\<forall>e \<in> set es. fills_only (fd_name f) e) \<and> (\<forall>h \<in> set wire. fd_json h \<noteq> fd_json f)
         | _ \<Rightarrow> False)"
    by (cases "gd_marshal D") (auto simp: lists_filled_def list_all_iff list_ex_iff)
  then obtain wire es where w: "gd_marshal D = ByWire wire es"
      "NonNil (fd_name f) \<in> set es" "\<forall>e \<in> set es. fills_only (fd_name f) e" "fd_json f \<notin> fd_json ` set wire"
    by (cases "gd_marshal D") (simp_all, metis imageE)
  from assms(1,2) obtain kvs where kvs: "v = VStruct kvs" by (auto simp: typed_fields)
  have "distinct (map fd_name fs)"
  proof -
    from wf_acp D have "shape_ok acp x D" unfolding wf_env_def decl_ok_def by blast
    with assms(1) show ?thesis by (simp add: shape_ok_def)
  qed
  moreover from assms(5) obtain m where "n = Suc m" by (cases n) auto
  with assms(1,5) D w(1) kvs have "enc_wire (enc acp m) fs wire es kvs = Some (Inr j)"
    by (simp add: enc_layer_def enc_name_def)
  ultimately show ?thesis
    using filled_list_sent [OF assms(1) _ assms(3) f(1) w(2,3) _ f(2-4) w(4)] assms(2) kvs by blast
qed

theorem required_lists_sent_witness:
  "\<exists>ms js. JObj [(''prompt'', JArr []), (''sessionId'', JStr ''s'')] = JObj ms
     \<and> (go_quote (fd_json (fld ''Prompt'' (TSlice (TName ty_ContentBlock)) ''prompt'')), JArr js) \<in> set ms"
proof (rule required_lists_sent)
  show "struct_fields acp ty_PromptRequest =
      Some [omz ''Meta'' (TName ty_Meta) ''_meta'', fld ''Prompt'' (TSlice (TName ty_ContentBlock)) ''prompt'',
        fld ''SessionID'' (TName ty_SessionId) ''sessionId'']" by code_simp
  then show "typed acp (TName ty_PromptRequest) (VStruct [(''Meta'', VNil), (''Prompt'', VNil), (''SessionID'', VStr ''s'')])"
    by (rule ty_struct)
      (simp add: omz_def fld_def typed_defined_iff [of _ _ decl_Meta] typed_defined_iff [of _ _ decl_SessionId]
        acp_def acp_1_def acp_3_def decl_Meta_def decl_SessionId_def defined_decl_def)
  show "fld ''Prompt'' (TSlice (TName ty_ContentBlock)) ''prompt'' \<in>
      set [omz ''Meta'' (TName ty_Meta) ''_meta'', fld ''Prompt'' (TSlice (TName ty_ContentBlock)) ''prompt'',
        fld ''SessionID'' (TName ty_SessionId) ''sessionId'']" by simp
  show "required_list (fld ''Prompt'' (TSlice (TName ty_ContentBlock)) ''prompt'')" by code_simp
  show "enc acp 4 (TName ty_PromptRequest) (VStruct [(''Meta'', VNil), (''Prompt'', VNil), (''SessionID'', VStr ''s'')]) =
      Some (Inr (JObj [(''prompt'', JArr []), (''sessionId'', JStr ''s'')]))" by code_simp
qed

end
