(* ===== verification/Acp_Constructors.thy ===== *)
theory Acp_Constructors
  imports Acp_Types
begin

text \<open>
  The constructor functions of acp/types_gen.go as data: the type they make, the types of their
  parameters, and what they put into each field. The other fields are zero.
\<close>

text \<open>
  \<open>Constant s\<close> is a constant with the value \<open>s\<close>, \<open>Given i\<close> the parameter number \<open>i\<close> (converted
  to the type of the field, if that is another string type), \<open>AddressOf i\<close> a pointer to it,
  \<open>Boxed i\<close> its value in an interface, and \<open>OptionsOf i\<close> the options of a selector, where none
  at all are replaced by an empty list.
\<close>

datatype argument = Constant string | Given nat | AddressOf nat | Boxed nat | OptionsOf nat

record constructor =
  new_type :: go_name
  new_params :: "go_type list"
  new_fields :: "(string \<times> argument) list"

fun argument_value :: "go_type list \<Rightarrow> go_val list \<Rightarrow> argument \<Rightarrow> go_val" where
  "argument_value ts vs (Constant s) = VStr s"
| "argument_value ts vs (Given i) = vs ! i"
| "argument_value ts vs (AddressOf i) = VPtr (vs ! i)"
| "argument_value ts vs (Boxed i) = VIface (ts ! i) (vs ! i)"
| "argument_value ts vs (OptionsOf i) = filled_options (vs ! i)"

definition construct :: "go_env \<Rightarrow> constructor \<Rightarrow> go_val list \<Rightarrow> go_val" where
  "construct E c vs =
     VStruct (fold (\<lambda>(g, a). set_field g (argument_value (new_params c) vs a)) (new_fields c)
       (struct_of (zero_of E (TName (new_type c)))))"

section \<open>The constructors\<close>

definition new_TerminalAuthMethod :: constructor where
  "new_TerminalAuthMethod =
    \<lparr>new_type = ty_AuthMethod, new_params = [TName ty_AuthMethodId, TString],
     new_fields =
       [(''Type'', Constant ''terminal''), (''ID'', Given 0), (''Name'', Given 1)]\<rparr>"

definition new_AgentAuthMethod :: constructor where
  "new_AgentAuthMethod =
    \<lparr>new_type = ty_AuthMethod, new_params = [TName ty_AuthMethodId, TString],
     new_fields =
       [(''ID'', Given 0), (''Name'', Given 1)]\<rparr>"

definition new_UnstructuredAvailableCommandInput :: constructor where
  "new_UnstructuredAvailableCommandInput =
    \<lparr>new_type = ty_AvailableCommandInput, new_params = [TString],
     new_fields =
       [(''Hint'', Given 0)]\<rparr>"

definition new_TextContentBlock :: constructor where
  "new_TextContentBlock =
    \<lparr>new_type = ty_ContentBlock, new_params = [TString],
     new_fields =
       [(''Type'', Constant ''text''), (''Text'', Given 0)]\<rparr>"

definition new_ImageContentBlock :: constructor where
  "new_ImageContentBlock =
    \<lparr>new_type = ty_ContentBlock, new_params = [TString, TString],
     new_fields =
       [(''Type'', Constant ''image''), (''Data'', Given 0), (''MimeType'', AddressOf 1)]\<rparr>"

definition new_AudioContentBlock :: constructor where
  "new_AudioContentBlock =
    \<lparr>new_type = ty_ContentBlock, new_params = [TString, TString],
     new_fields =
       [(''Type'', Constant ''audio''), (''Data'', Given 0), (''MimeType'', AddressOf 1)]\<rparr>"

definition new_ResourceLinkContentBlock :: constructor where
  "new_ResourceLinkContentBlock =
    \<lparr>new_type = ty_ContentBlock, new_params = [TString, TString],
     new_fields =
       [(''Type'', Constant ''resource_link''), (''Name'', Given 0), (''URI'', AddressOf 1)]\<rparr>"

definition new_ResourceContentBlock :: constructor where
  "new_ResourceContentBlock =
    \<lparr>new_type = ty_ContentBlock, new_params = [TName ty_EmbeddedResourceResource],
     new_fields =
       [(''Type'', Constant ''resource''), (''Resource'', Given 0)]\<rparr>"

definition new_FormCreateElicitationRequest :: constructor where
  "new_FormCreateElicitationRequest =
    \<lparr>new_type = ty_CreateElicitationRequest, new_params = [TString, TName ty_ElicitationSchema],
     new_fields =
       [(''Mode'', Constant ''form''), (''Message'', Given 0), (''RequestedSchema'', Given 1)]\<rparr>"

definition new_UrlCreateElicitationRequest :: constructor where
  "new_UrlCreateElicitationRequest =
    \<lparr>new_type = ty_CreateElicitationRequest, new_params = [TString, TName ty_ElicitationId, TString],
     new_fields =
       [(''Mode'', Constant ''url''), (''ElicitationID'', Given 1), (''Message'', Given 0),
        (''Url'', Given 2)]\<rparr>"

definition new_OtherCreateElicitationRequest :: constructor where
  "new_OtherCreateElicitationRequest =
    \<lparr>new_type = ty_CreateElicitationRequest, new_params = [TString, TString],
     new_fields =
       [(''Message'', Given 0), (''Mode'', Given 1)]\<rparr>"

definition new_AcceptCreateElicitationResponse :: constructor where
  "new_AcceptCreateElicitationResponse =
    \<lparr>new_type = ty_CreateElicitationResponse, new_params = [],
     new_fields =
       [(''Action'', Constant ''accept'')]\<rparr>"

definition new_DeclineCreateElicitationResponse :: constructor where
  "new_DeclineCreateElicitationResponse =
    \<lparr>new_type = ty_CreateElicitationResponse, new_params = [],
     new_fields =
       [(''Action'', Constant ''decline'')]\<rparr>"

definition new_CancelCreateElicitationResponse :: constructor where
  "new_CancelCreateElicitationResponse =
    \<lparr>new_type = ty_CreateElicitationResponse, new_params = [],
     new_fields =
       [(''Action'', Constant ''cancel'')]\<rparr>"

definition new_OtherCreateElicitationResponse :: constructor where
  "new_OtherCreateElicitationResponse =
    \<lparr>new_type = ty_CreateElicitationResponse, new_params = [TString],
     new_fields =
       [(''Action'', Given 0)]\<rparr>"

definition new_SessionElicitationFormMode :: constructor where
  "new_SessionElicitationFormMode =
    \<lparr>new_type = ty_ElicitationFormMode, new_params = [TName ty_ElicitationSchema, TName ty_SessionId],
     new_fields =
       [(''RequestedSchema'', Given 0), (''SessionID'', AddressOf 1)]\<rparr>"

definition new_RequestElicitationFormMode :: constructor where
  "new_RequestElicitationFormMode =
    \<lparr>new_type = ty_ElicitationFormMode, new_params = [TName ty_ElicitationSchema, TRaw],
     new_fields =
       [(''RequestID'', AddressOf 1), (''RequestedSchema'', Given 0)]\<rparr>"

definition new_StringElicitationPropertySchema :: constructor where
  "new_StringElicitationPropertySchema =
    \<lparr>new_type = ty_ElicitationPropertySchema, new_params = [],
     new_fields =
       [(''Type'', Constant ''string'')]\<rparr>"

definition new_NumberElicitationPropertySchema :: constructor where
  "new_NumberElicitationPropertySchema =
    \<lparr>new_type = ty_ElicitationPropertySchema, new_params = [],
     new_fields =
       [(''Type'', Constant ''number'')]\<rparr>"

definition new_IntegerElicitationPropertySchema :: constructor where
  "new_IntegerElicitationPropertySchema =
    \<lparr>new_type = ty_ElicitationPropertySchema, new_params = [],
     new_fields =
       [(''Type'', Constant ''integer'')]\<rparr>"

definition new_BooleanElicitationPropertySchema :: constructor where
  "new_BooleanElicitationPropertySchema =
    \<lparr>new_type = ty_ElicitationPropertySchema, new_params = [],
     new_fields =
       [(''Type'', Constant ''boolean'')]\<rparr>"

definition new_ArrayElicitationPropertySchema :: constructor where
  "new_ArrayElicitationPropertySchema =
    \<lparr>new_type = ty_ElicitationPropertySchema, new_params = [TName ty_MultiSelectItems],
     new_fields =
       [(''Type'', Constant ''array''), (''Items'', Given 0)]\<rparr>"

definition new_OtherElicitationPropertySchema :: constructor where
  "new_OtherElicitationPropertySchema =
    \<lparr>new_type = ty_ElicitationPropertySchema, new_params = [TString],
     new_fields =
       [(''Type'', Given 0)]\<rparr>"

definition new_SessionElicitationUrlMode :: constructor where
  "new_SessionElicitationUrlMode =
    \<lparr>new_type = ty_ElicitationUrlMode, new_params = [TName ty_ElicitationId, TString, TName ty_SessionId],
     new_fields =
       [(''ElicitationID'', Given 0), (''SessionID'', AddressOf 2), (''Url'', Given 1)]\<rparr>"

definition new_RequestElicitationUrlMode :: constructor where
  "new_RequestElicitationUrlMode =
    \<lparr>new_type = ty_ElicitationUrlMode, new_params = [TName ty_ElicitationId, TString, TRaw],
     new_fields =
       [(''ElicitationID'', Given 0), (''RequestID'', AddressOf 2), (''Url'', Given 1)]\<rparr>"

definition new_TextResourceContentsEmbeddedResourceResource :: constructor where
  "new_TextResourceContentsEmbeddedResourceResource =
    \<lparr>new_type = ty_EmbeddedResourceResource, new_params = [TString, TString],
     new_fields =
       [(''Text'', AddressOf 0), (''URI'', Given 1)]\<rparr>"

definition new_BlobResourceContentsEmbeddedResourceResource :: constructor where
  "new_BlobResourceContentsEmbeddedResourceResource =
    \<lparr>new_type = ty_EmbeddedResourceResource, new_params = [TString, TString],
     new_fields =
       [(''Blob'', AddressOf 0), (''URI'', Given 1)]\<rparr>"

definition new_EndTurnIdleStateUpdate :: constructor where
  "new_EndTurnIdleStateUpdate =
    \<lparr>new_type = ty_IdleStateUpdate, new_params = [],
     new_fields =
       [(''StopReason'', Constant ''end_turn'')]\<rparr>"

definition new_MaxTokensIdleStateUpdate :: constructor where
  "new_MaxTokensIdleStateUpdate =
    \<lparr>new_type = ty_IdleStateUpdate, new_params = [],
     new_fields =
       [(''StopReason'', Constant ''max_tokens'')]\<rparr>"

definition new_MaxTurnRequestsIdleStateUpdate :: constructor where
  "new_MaxTurnRequestsIdleStateUpdate =
    \<lparr>new_type = ty_IdleStateUpdate, new_params = [],
     new_fields =
       [(''StopReason'', Constant ''max_turn_requests'')]\<rparr>"

definition new_RefusalIdleStateUpdate :: constructor where
  "new_RefusalIdleStateUpdate =
    \<lparr>new_type = ty_IdleStateUpdate, new_params = [],
     new_fields =
       [(''StopReason'', Constant ''refusal'')]\<rparr>"

definition new_CancelledIdleStateUpdate :: constructor where
  "new_CancelledIdleStateUpdate =
    \<lparr>new_type = ty_IdleStateUpdate, new_params = [],
     new_fields =
       [(''StopReason'', Constant ''cancelled'')]\<rparr>"

definition new_ErrorIdleStateUpdate :: constructor where
  "new_ErrorIdleStateUpdate =
    \<lparr>new_type = ty_IdleStateUpdate, new_params = [],
     new_fields =
       [(''StopReason'', Constant ''error'')]\<rparr>"

definition new_OtherIdleStateUpdate :: constructor where
  "new_OtherIdleStateUpdate =
    \<lparr>new_type = ty_IdleStateUpdate, new_params = [TString],
     new_fields =
       [(''StopReason'', Given 0)]\<rparr>"

definition new_NoneIdleStateUpdate :: constructor where
  "new_NoneIdleStateUpdate =
    \<lparr>new_type = ty_IdleStateUpdate, new_params = [],
     new_fields =
       []\<rparr>"

definition new_HttpMcpServer :: constructor where
  "new_HttpMcpServer =
    \<lparr>new_type = ty_McpServer, new_params = [TString, TString, TSlice (TName ty_HttpHeader)],
     new_fields =
       [(''Type'', Constant ''http''), (''Headers'', Given 2), (''Name'', Given 0),
        (''Url'', Given 1)]\<rparr>"

definition new_SseMcpServer :: constructor where
  "new_SseMcpServer =
    \<lparr>new_type = ty_McpServer, new_params = [TString, TString, TSlice (TName ty_HttpHeader)],
     new_fields =
       [(''Type'', Constant ''sse''), (''Headers'', Given 2), (''Name'', Given 0),
        (''Url'', Given 1)]\<rparr>"

definition new_AcpMcpServer :: constructor where
  "new_AcpMcpServer =
    \<lparr>new_type = ty_McpServer, new_params = [TString, TName ty_McpServerAcpId],
     new_fields =
       [(''Type'', Constant ''acp''), (''Name'', Given 0), (''ServerID'', Given 1)]\<rparr>"

definition new_StdioMcpServer :: constructor where
  "new_StdioMcpServer =
    \<lparr>new_type = ty_McpServer, new_params = [TString, TString, TSlice TString, TSlice (TName ty_EnvVariable)],
     new_fields =
       [(''Args'', Given 2), (''Command'', Given 1), (''Env'', Given 3), (''Name'', Given 0)]\<rparr>"

definition new_ResultMessageMcpResponse :: constructor where
  "new_ResultMessageMcpResponse =
    \<lparr>new_type = ty_MessageMcpResponse, new_params = [TAny],
     new_fields =
       [(''Result'', AddressOf 0)]\<rparr>"

definition new_ErrorMessageMcpResponse :: constructor where
  "new_ErrorMessageMcpResponse =
    \<lparr>new_type = ty_MessageMcpResponse, new_params = [TName ty_McpError],
     new_fields =
       [(''Error'', AddressOf 0)]\<rparr>"

definition new_NewStringMultiSelectItems :: constructor where
  "new_NewStringMultiSelectItems =
    \<lparr>new_type = ty_MultiSelectItems, new_params = [TSlice TString],
     new_fields =
       [(''Type'', Constant ''string''), (''Enum'', Given 0)]\<rparr>"

definition new_OtherMultiSelectItems :: constructor where
  "new_OtherMultiSelectItems =
    \<lparr>new_type = ty_MultiSelectItems, new_params = [TString],
     new_fields =
       [(''Type'', Given 0)]\<rparr>"

definition new_NewTitledMultiSelectItems :: constructor where
  "new_NewTitledMultiSelectItems =
    \<lparr>new_type = ty_MultiSelectItems, new_params = [TSlice (TName ty_EnumOption)],
     new_fields =
       [(''AnyOf'', Given 0)]\<rparr>"

definition new_ItemsPlanUpdateContent :: constructor where
  "new_ItemsPlanUpdateContent =
    \<lparr>new_type = ty_PlanUpdateContent, new_params = [TName ty_PlanId, TSlice (TName ty_PlanEntry)],
     new_fields =
       [(''Type'', Constant ''items''), (''Entries'', Given 1), (''PlanID'', Given 0)]\<rparr>"

definition new_FilePlanUpdateContent :: constructor where
  "new_FilePlanUpdateContent =
    \<lparr>new_type = ty_PlanUpdateContent, new_params = [TName ty_PlanId, TString],
     new_fields =
       [(''Type'', Constant ''file''), (''PlanID'', Given 0), (''URI'', Given 1)]\<rparr>"

definition new_MarkdownPlanUpdateContent :: constructor where
  "new_MarkdownPlanUpdateContent =
    \<lparr>new_type = ty_PlanUpdateContent, new_params = [TName ty_PlanId, TString],
     new_fields =
       [(''Type'', Constant ''markdown''), (''Content'', Given 1), (''PlanID'', Given 0)]\<rparr>"

definition new_CancelledRequestPermissionOutcome :: constructor where
  "new_CancelledRequestPermissionOutcome =
    \<lparr>new_type = ty_RequestPermissionOutcome, new_params = [],
     new_fields =
       [(''Outcome'', Constant ''cancelled'')]\<rparr>"

definition new_SelectedRequestPermissionOutcome :: constructor where
  "new_SelectedRequestPermissionOutcome =
    \<lparr>new_type = ty_RequestPermissionOutcome, new_params = [TName ty_PermissionOptionId],
     new_fields =
       [(''Outcome'', Constant ''selected''), (''OptionID'', Given 0)]\<rparr>"

definition new_SelectSessionConfigOption :: constructor where
  "new_SelectSessionConfigOption =
    \<lparr>new_type = ty_SessionConfigOption, new_params = [TName ty_SessionConfigId, TString, TName ty_SessionConfigValueId, TName ty_SessionConfigSelectOptions],
     new_fields =
       [(''Type'', Constant ''select''), (''CurrentValue'', Boxed 2), (''ID'', Given 0),
        (''Name'', Given 1), (''Options'', OptionsOf 3)]\<rparr>"

definition new_BooleanSessionConfigOption :: constructor where
  "new_BooleanSessionConfigOption =
    \<lparr>new_type = ty_SessionConfigOption, new_params = [TName ty_SessionConfigId, TString, TBool],
     new_fields =
       [(''Type'', Constant ''boolean''), (''CurrentValue'', Boxed 2), (''ID'', Given 0),
        (''Name'', Given 1)]\<rparr>"

definition new_UserMessageChunkSessionUpdate :: constructor where
  "new_UserMessageChunkSessionUpdate =
    \<lparr>new_type = ty_SessionUpdate, new_params = [TName ty_ContentBlock],
     new_fields =
       [(''SessionUpdate'', Constant ''user_message_chunk''), (''Content'', Boxed 0)]\<rparr>"

definition new_AgentMessageChunkSessionUpdate :: constructor where
  "new_AgentMessageChunkSessionUpdate =
    \<lparr>new_type = ty_SessionUpdate, new_params = [TName ty_ContentBlock],
     new_fields =
       [(''SessionUpdate'', Constant ''agent_message_chunk''), (''Content'', Boxed 0)]\<rparr>"

definition new_AgentThoughtChunkSessionUpdate :: constructor where
  "new_AgentThoughtChunkSessionUpdate =
    \<lparr>new_type = ty_SessionUpdate, new_params = [TName ty_ContentBlock],
     new_fields =
       [(''SessionUpdate'', Constant ''agent_thought_chunk''), (''Content'', Boxed 0)]\<rparr>"

definition new_ToolCallSessionUpdate :: constructor where
  "new_ToolCallSessionUpdate =
    \<lparr>new_type = ty_SessionUpdate, new_params = [TName ty_ToolCallId, TString],
     new_fields =
       [(''SessionUpdate'', Constant ''tool_call''), (''Title'', AddressOf 1),
        (''ToolCallID'', Given 0)]\<rparr>"

definition new_ToolCallUpdateSessionUpdate :: constructor where
  "new_ToolCallUpdateSessionUpdate =
    \<lparr>new_type = ty_SessionUpdate, new_params = [TName ty_ToolCallId],
     new_fields =
       [(''SessionUpdate'', Constant ''tool_call_update''), (''ToolCallID'', Given 0)]\<rparr>"

definition new_PlanSessionUpdate :: constructor where
  "new_PlanSessionUpdate =
    \<lparr>new_type = ty_SessionUpdate, new_params = [TSlice (TName ty_PlanEntry)],
     new_fields =
       [(''SessionUpdate'', Constant ''plan''), (''Entries'', Given 0)]\<rparr>"

definition new_PlanUpdateSessionUpdate :: constructor where
  "new_PlanUpdateSessionUpdate =
    \<lparr>new_type = ty_SessionUpdate, new_params = [TName ty_PlanUpdateContent],
     new_fields =
       [(''SessionUpdate'', Constant ''plan_update''), (''Plan'', Given 0)]\<rparr>"

definition new_PlanRemovedSessionUpdate :: constructor where
  "new_PlanRemovedSessionUpdate =
    \<lparr>new_type = ty_SessionUpdate, new_params = [TName ty_PlanId],
     new_fields =
       [(''SessionUpdate'', Constant ''plan_removed''), (''PlanID'', Given 0)]\<rparr>"

definition new_AvailableCommandsUpdateSessionUpdate :: constructor where
  "new_AvailableCommandsUpdateSessionUpdate =
    \<lparr>new_type = ty_SessionUpdate, new_params = [TSlice (TName ty_AvailableCommand)],
     new_fields =
       [(''SessionUpdate'', Constant ''available_commands_update''),
        (''AvailableCommands'', Given 0)]\<rparr>"

definition new_CurrentModeUpdateSessionUpdate :: constructor where
  "new_CurrentModeUpdateSessionUpdate =
    \<lparr>new_type = ty_SessionUpdate, new_params = [TName ty_SessionModeId],
     new_fields =
       [(''SessionUpdate'', Constant ''current_mode_update''), (''CurrentModeID'', Given 0)]\<rparr>"

definition new_ConfigOptionUpdateSessionUpdate :: constructor where
  "new_ConfigOptionUpdateSessionUpdate =
    \<lparr>new_type = ty_SessionUpdate, new_params = [TSlice (TName ty_SessionConfigOption)],
     new_fields =
       [(''SessionUpdate'', Constant ''config_option_update''), (''ConfigOptions'', Given 0)]\<rparr>"

definition new_SessionInfoUpdateSessionUpdate :: constructor where
  "new_SessionInfoUpdateSessionUpdate =
    \<lparr>new_type = ty_SessionUpdate, new_params = [],
     new_fields =
       [(''SessionUpdate'', Constant ''session_info_update'')]\<rparr>"

definition new_UsageUpdateSessionUpdate :: constructor where
  "new_UsageUpdateSessionUpdate =
    \<lparr>new_type = ty_SessionUpdate, new_params = [TUnsigned 64, TUnsigned 64],
     new_fields =
       [(''SessionUpdate'', Constant ''usage_update''), (''Size'', Given 1), (''Used'', Given 0)]\<rparr>"

definition new_NoticeSessionUpdate :: constructor where
  "new_NoticeSessionUpdate =
    \<lparr>new_type = ty_SessionUpdate, new_params = [TName ty_NoticeSeverity, TString],
     new_fields =
       [(''SessionUpdate'', Constant ''notice''), (''Severity'', Given 0),
        (''Title'', AddressOf 1)]\<rparr>"

definition new_CompactionUpdateSessionUpdate :: constructor where
  "new_CompactionUpdateSessionUpdate =
    \<lparr>new_type = ty_SessionUpdate, new_params = [TName ty_CompactionId, TName ty_CompactionStatus],
     new_fields =
       [(''SessionUpdate'', Constant ''compaction_update''), (''CompactionID'', Given 0),
        (''Status'', AddressOf 1)]\<rparr>"

definition new_CompactionSummaryChunkSessionUpdate :: constructor where
  "new_CompactionSummaryChunkSessionUpdate =
    \<lparr>new_type = ty_SessionUpdate, new_params = [TName ty_CompactionId, TName ty_ContentBlock],
     new_fields =
       [(''SessionUpdate'', Constant ''compaction_summary_chunk''), (''CompactionID'', Given 0),
        (''Content'', Boxed 1)]\<rparr>"

definition new_SubagentUpdateSessionUpdate :: constructor where
  "new_SubagentUpdateSessionUpdate =
    \<lparr>new_type = ty_SessionUpdate, new_params = [TName ty_SessionId],
     new_fields =
       [(''SessionUpdate'', Constant ''subagent_update''), (''SessionID'', Given 0)]\<rparr>"

definition new_SessionMessageSessionUpdate :: constructor where
  "new_SessionMessageSessionUpdate =
    \<lparr>new_type = ty_SessionUpdate, new_params = [TName ty_MessageId],
     new_fields =
       [(''SessionUpdate'', Constant ''session_message''), (''MessageID'', AddressOf 0)]\<rparr>"

definition new_SessionMessageChunkSessionUpdate :: constructor where
  "new_SessionMessageChunkSessionUpdate =
    \<lparr>new_type = ty_SessionUpdate, new_params = [TName ty_MessageId, TName ty_ContentBlock],
     new_fields =
       [(''SessionUpdate'', Constant ''session_message_chunk''), (''Content'', Boxed 1),
        (''MessageID'', AddressOf 0)]\<rparr>"

definition new_BooleanSetSessionConfigOptionRequest :: constructor where
  "new_BooleanSetSessionConfigOptionRequest =
    \<lparr>new_type = ty_SetSessionConfigOptionRequest, new_params = [TName ty_SessionId, TName ty_SessionConfigId, TBool],
     new_fields =
       [(''Type'', Constant ''boolean''), (''ConfigID'', Given 1), (''SessionID'', Given 0),
        (''Value'', Boxed 2)]\<rparr>"

definition new_ValueIdSetSessionConfigOptionRequest :: constructor where
  "new_ValueIdSetSessionConfigOptionRequest =
    \<lparr>new_type = ty_SetSessionConfigOptionRequest, new_params = [TName ty_SessionId, TName ty_SessionConfigId, TName ty_SessionConfigValueId],
     new_fields =
       [(''ConfigID'', Given 1), (''SessionID'', Given 0), (''Value'', Boxed 2)]\<rparr>"

definition new_NewRunningStateUpdate :: constructor where
  "new_NewRunningStateUpdate =
    \<lparr>new_type = ty_StateUpdate, new_params = [],
     new_fields =
       [(''State'', Constant ''running'')]\<rparr>"

definition new_NewIdleStateUpdate :: constructor where
  "new_NewIdleStateUpdate =
    \<lparr>new_type = ty_StateUpdate, new_params = [],
     new_fields =
       [(''State'', Constant ''idle'')]\<rparr>"

definition new_NewRequiresActionStateUpdate :: constructor where
  "new_NewRequiresActionStateUpdate =
    \<lparr>new_type = ty_StateUpdate, new_params = [],
     new_fields =
       [(''State'', Constant ''requires_action'')]\<rparr>"

definition new_NewUnknownStateUpdate :: constructor where
  "new_NewUnknownStateUpdate =
    \<lparr>new_type = ty_StateUpdate, new_params = [],
     new_fields =
       [(''State'', Constant ''unknown'')]\<rparr>"

definition new_OtherStateUpdate :: constructor where
  "new_OtherStateUpdate =
    \<lparr>new_type = ty_StateUpdate, new_params = [TString],
     new_fields =
       [(''State'', Given 0)]\<rparr>"

definition new_ContentToolCallContent :: constructor where
  "new_ContentToolCallContent =
    \<lparr>new_type = ty_ToolCallContent, new_params = [TName ty_ContentBlock],
     new_fields =
       [(''Type'', Constant ''content''), (''Content'', Given 0)]\<rparr>"

definition new_DiffToolCallContent :: constructor where
  "new_DiffToolCallContent =
    \<lparr>new_type = ty_ToolCallContent, new_params = [TString, TString],
     new_fields =
       [(''Type'', Constant ''diff''), (''NewText'', Given 1), (''Path'', Given 0)]\<rparr>"

definition new_TerminalToolCallContent :: constructor where
  "new_TerminalToolCallContent =
    \<lparr>new_type = ty_ToolCallContent, new_params = [TName ty_TerminalId],
     new_fields =
       [(''Type'', Constant ''terminal''), (''TerminalID'', Given 0)]\<rparr>"

definition constructors :: "constructor list" where
  "constructors =
    [new_TerminalAuthMethod, new_AgentAuthMethod, new_UnstructuredAvailableCommandInput,
     new_TextContentBlock, new_ImageContentBlock, new_AudioContentBlock,
     new_ResourceLinkContentBlock, new_ResourceContentBlock, new_FormCreateElicitationRequest,
     new_UrlCreateElicitationRequest, new_OtherCreateElicitationRequest,
     new_AcceptCreateElicitationResponse, new_DeclineCreateElicitationResponse,
     new_CancelCreateElicitationResponse, new_OtherCreateElicitationResponse,
     new_SessionElicitationFormMode, new_RequestElicitationFormMode,
     new_StringElicitationPropertySchema, new_NumberElicitationPropertySchema,
     new_IntegerElicitationPropertySchema, new_BooleanElicitationPropertySchema,
     new_ArrayElicitationPropertySchema, new_OtherElicitationPropertySchema,
     new_SessionElicitationUrlMode, new_RequestElicitationUrlMode,
     new_TextResourceContentsEmbeddedResourceResource,
     new_BlobResourceContentsEmbeddedResourceResource, new_EndTurnIdleStateUpdate,
     new_MaxTokensIdleStateUpdate, new_MaxTurnRequestsIdleStateUpdate,
     new_RefusalIdleStateUpdate, new_CancelledIdleStateUpdate, new_ErrorIdleStateUpdate,
     new_OtherIdleStateUpdate, new_NoneIdleStateUpdate, new_HttpMcpServer, new_SseMcpServer,
     new_AcpMcpServer, new_StdioMcpServer, new_ResultMessageMcpResponse,
     new_ErrorMessageMcpResponse, new_NewStringMultiSelectItems, new_OtherMultiSelectItems,
     new_NewTitledMultiSelectItems, new_ItemsPlanUpdateContent, new_FilePlanUpdateContent,
     new_MarkdownPlanUpdateContent, new_CancelledRequestPermissionOutcome,
     new_SelectedRequestPermissionOutcome, new_SelectSessionConfigOption,
     new_BooleanSessionConfigOption, new_UserMessageChunkSessionUpdate,
     new_AgentMessageChunkSessionUpdate, new_AgentThoughtChunkSessionUpdate,
     new_ToolCallSessionUpdate, new_ToolCallUpdateSessionUpdate, new_PlanSessionUpdate,
     new_PlanUpdateSessionUpdate, new_PlanRemovedSessionUpdate,
     new_AvailableCommandsUpdateSessionUpdate, new_CurrentModeUpdateSessionUpdate,
     new_ConfigOptionUpdateSessionUpdate, new_SessionInfoUpdateSessionUpdate,
     new_UsageUpdateSessionUpdate, new_NoticeSessionUpdate, new_CompactionUpdateSessionUpdate,
     new_CompactionSummaryChunkSessionUpdate, new_SubagentUpdateSessionUpdate,
     new_SessionMessageSessionUpdate, new_SessionMessageChunkSessionUpdate,
     new_BooleanSetSessionConfigOptionRequest, new_ValueIdSetSessionConfigOptionRequest,
     new_NewRunningStateUpdate, new_NewIdleStateUpdate, new_NewRequiresActionStateUpdate,
     new_NewUnknownStateUpdate, new_OtherStateUpdate, new_ContentToolCallContent,
     new_DiffToolCallContent, new_TerminalToolCallContent]"

end
