(* ===== verification/Acp_Consts.thy ===== *)
theory Acp_Consts
  imports Go_Types
begin

text \<open>
  The constant blocks of acp/types_gen.go: the names and values of each enumeration, in order.
\<close>

definition consts_AuthMethodType :: "(string \<times> go_val) list" where
  "consts_AuthMethodType =
    [(''AuthMethodTypeTerminal'', VStr ''terminal'')]"

definition consts_AuthState :: "(string \<times> go_val) list" where
  "consts_AuthState =
    [(''AuthStateAuthenticated'', VStr ''authenticated''),
     (''AuthStateUnauthenticated'', VStr ''unauthenticated''),
     (''AuthStateNotRequired'', VStr ''not_required''), (''AuthStateUnknown'', VStr ''unknown'')]"

definition consts_CompactionStatus :: "(string \<times> go_val) list" where
  "consts_CompactionStatus =
    [(''CompactionStatusInProgress'', VStr ''in_progress''),
     (''CompactionStatusCompleted'', VStr ''completed''),
     (''CompactionStatusFailed'', VStr ''failed''),
     (''CompactionStatusCancelled'', VStr ''cancelled'')]"

definition consts_ContentBlockType :: "(string \<times> go_val) list" where
  "consts_ContentBlockType =
    [(''ContentBlockTypeText'', VStr ''text''), (''ContentBlockTypeImage'', VStr ''image''),
     (''ContentBlockTypeAudio'', VStr ''audio''),
     (''ContentBlockTypeResourceLink'', VStr ''resource_link''),
     (''ContentBlockTypeResource'', VStr ''resource'')]"

definition consts_CreateElicitationRequestType :: "(string \<times> go_val) list" where
  "consts_CreateElicitationRequestType =
    [(''CreateElicitationRequestTypeForm'', VStr ''form''),
     (''CreateElicitationRequestTypeUrl'', VStr ''url'')]"

definition consts_CreateElicitationResponseType :: "(string \<times> go_val) list" where
  "consts_CreateElicitationResponseType =
    [(''CreateElicitationResponseTypeAccept'', VStr ''accept''),
     (''CreateElicitationResponseTypeDecline'', VStr ''decline''),
     (''CreateElicitationResponseTypeCancel'', VStr ''cancel'')]"

definition consts_ElicitationPropertySchemaType :: "(string \<times> go_val) list" where
  "consts_ElicitationPropertySchemaType =
    [(''ElicitationPropertySchemaTypeString'', VStr ''string''),
     (''ElicitationPropertySchemaTypeNumber'', VStr ''number''),
     (''ElicitationPropertySchemaTypeInteger'', VStr ''integer''),
     (''ElicitationPropertySchemaTypeBoolean'', VStr ''boolean''),
     (''ElicitationPropertySchemaTypeArray'', VStr ''array'')]"

definition consts_ElicitationSchemaType :: "(string \<times> go_val) list" where
  "consts_ElicitationSchemaType =
    [(''ElicitationSchemaTypeObject'', VStr ''object'')]"

definition consts_ErrorCode :: "(string \<times> go_val) list" where
  "consts_ErrorCode =
    [(''ErrorCodeParseError'', VInt (-32700)), (''ErrorCodeInvalidRequest'', VInt (-32600)),
     (''ErrorCodeMethodNotFound'', VInt (-32601)), (''ErrorCodeInvalidParams'', VInt (-32602)),
     (''ErrorCodeInternalError'', VInt (-32603)), (''ErrorCodeRequestCancelled'', VInt (-32800)),
     (''ErrorCodeAuthenticationRequired'', VInt (-32000)),
     (''ErrorCodeResourceNotFound'', VInt (-32002))]"

definition consts_IdleStateUpdateType :: "(string \<times> go_val) list" where
  "consts_IdleStateUpdateType =
    [(''IdleStateUpdateTypeEndTurn'', VStr ''end_turn''),
     (''IdleStateUpdateTypeMaxTokens'', VStr ''max_tokens''),
     (''IdleStateUpdateTypeMaxTurnRequests'', VStr ''max_turn_requests''),
     (''IdleStateUpdateTypeRefusal'', VStr ''refusal''),
     (''IdleStateUpdateTypeCancelled'', VStr ''cancelled''),
     (''IdleStateUpdateTypeError'', VStr ''error'')]"

definition consts_LlmProtocol :: "(string \<times> go_val) list" where
  "consts_LlmProtocol =
    [(''LlmProtocolAnthropic'', VStr ''anthropic''), (''LlmProtocolOpenai'', VStr ''openai''),
     (''LlmProtocolAzure'', VStr ''azure''), (''LlmProtocolVertex'', VStr ''vertex''),
     (''LlmProtocolBedrock'', VStr ''bedrock'')]"

definition consts_McpServerType :: "(string \<times> go_val) list" where
  "consts_McpServerType =
    [(''McpServerTypeHttp'', VStr ''http''), (''McpServerTypeSse'', VStr ''sse''),
     (''McpServerTypeAcp'', VStr ''acp'')]"

definition consts_MultiSelectItemsType :: "(string \<times> go_val) list" where
  "consts_MultiSelectItemsType =
    [(''MultiSelectItemsTypeString'', VStr ''string'')]"

definition consts_NoticeSeverity :: "(string \<times> go_val) list" where
  "consts_NoticeSeverity =
    [(''NoticeSeverityInfo'', VStr ''info''), (''NoticeSeverityWarning'', VStr ''warning''),
     (''NoticeSeverityError'', VStr ''error'')]"

definition consts_PermissionOptionKind :: "(string \<times> go_val) list" where
  "consts_PermissionOptionKind =
    [(''PermissionOptionKindAllowOnce'', VStr ''allow_once''),
     (''PermissionOptionKindAllowAlways'', VStr ''allow_always''),
     (''PermissionOptionKindRejectOnce'', VStr ''reject_once''),
     (''PermissionOptionKindRejectAlways'', VStr ''reject_always'')]"

definition consts_PlanEntryPriority :: "(string \<times> go_val) list" where
  "consts_PlanEntryPriority =
    [(''PlanEntryPriorityHigh'', VStr ''high''), (''PlanEntryPriorityMedium'', VStr ''medium''),
     (''PlanEntryPriorityLow'', VStr ''low'')]"

definition consts_PlanEntryStatus :: "(string \<times> go_val) list" where
  "consts_PlanEntryStatus =
    [(''PlanEntryStatusPending'', VStr ''pending''),
     (''PlanEntryStatusInProgress'', VStr ''in_progress''),
     (''PlanEntryStatusCompleted'', VStr ''completed'')]"

definition consts_PlanUpdateContentType :: "(string \<times> go_val) list" where
  "consts_PlanUpdateContentType =
    [(''PlanUpdateContentTypeItems'', VStr ''items''),
     (''PlanUpdateContentTypeFile'', VStr ''file''),
     (''PlanUpdateContentTypeMarkdown'', VStr ''markdown'')]"

definition consts_RequestPermissionOutcomeType :: "(string \<times> go_val) list" where
  "consts_RequestPermissionOutcomeType =
    [(''RequestPermissionOutcomeTypeCancelled'', VStr ''cancelled''),
     (''RequestPermissionOutcomeTypeSelected'', VStr ''selected'')]"

definition consts_Role :: "(string \<times> go_val) list" where
  "consts_Role =
    [(''RoleAssistant'', VStr ''assistant''), (''RoleUser'', VStr ''user'')]"

definition consts_SessionArchiveFilter :: "(string \<times> go_val) list" where
  "consts_SessionArchiveFilter =
    [(''SessionArchiveFilterExclude'', VStr ''exclude''),
     (''SessionArchiveFilterInclude'', VStr ''include''),
     (''SessionArchiveFilterOnly'', VStr ''only'')]"

definition consts_SessionConfigOptionType :: "(string \<times> go_val) list" where
  "consts_SessionConfigOptionType =
    [(''SessionConfigOptionTypeSelect'', VStr ''select''),
     (''SessionConfigOptionTypeBoolean'', VStr ''boolean'')]"

definition consts_SessionConfigOptionCategory :: "(string \<times> go_val) list" where
  "consts_SessionConfigOptionCategory =
    [(''SessionConfigOptionCategoryMode'', VStr ''mode''),
     (''SessionConfigOptionCategoryModel'', VStr ''model''),
     (''SessionConfigOptionCategoryModelConfig'', VStr ''model_config''),
     (''SessionConfigOptionCategoryThoughtLevel'', VStr ''thought_level'')]"

definition consts_SessionStatus :: "(string \<times> go_val) list" where
  "consts_SessionStatus =
    [(''SessionStatusOpen'', VStr ''open''), (''SessionStatusSaved'', VStr ''saved'')]"

definition consts_SessionUpdateType :: "(string \<times> go_val) list" where
  "consts_SessionUpdateType =
    [(''SessionUpdateTypeUserMessageChunk'', VStr ''user_message_chunk''),
     (''SessionUpdateTypeAgentMessageChunk'', VStr ''agent_message_chunk''),
     (''SessionUpdateTypeAgentThoughtChunk'', VStr ''agent_thought_chunk''),
     (''SessionUpdateTypeToolCall'', VStr ''tool_call''),
     (''SessionUpdateTypeToolCallUpdate'', VStr ''tool_call_update''),
     (''SessionUpdateTypePlan'', VStr ''plan''),
     (''SessionUpdateTypePlanUpdate'', VStr ''plan_update''),
     (''SessionUpdateTypePlanRemoved'', VStr ''plan_removed''),
     (''SessionUpdateTypeAvailableCommandsUpdate'', VStr ''available_commands_update''),
     (''SessionUpdateTypeCurrentModeUpdate'', VStr ''current_mode_update''),
     (''SessionUpdateTypeConfigOptionUpdate'', VStr ''config_option_update''),
     (''SessionUpdateTypeSessionInfoUpdate'', VStr ''session_info_update''),
     (''SessionUpdateTypeUsageUpdate'', VStr ''usage_update''),
     (''SessionUpdateTypeNotice'', VStr ''notice''),
     (''SessionUpdateTypeCompactionUpdate'', VStr ''compaction_update''),
     (''SessionUpdateTypeCompactionSummaryChunk'', VStr ''compaction_summary_chunk''),
     (''SessionUpdateTypeSubagentUpdate'', VStr ''subagent_update''),
     (''SessionUpdateTypeSessionMessage'', VStr ''session_message''),
     (''SessionUpdateTypeSessionMessageChunk'', VStr ''session_message_chunk'')]"

definition consts_SetSessionConfigOptionRequestType :: "(string \<times> go_val) list" where
  "consts_SetSessionConfigOptionRequestType =
    [(''SetSessionConfigOptionRequestTypeBoolean'', VStr ''boolean'')]"

definition consts_StateUpdateType :: "(string \<times> go_val) list" where
  "consts_StateUpdateType =
    [(''StateUpdateTypeRunning'', VStr ''running''), (''StateUpdateTypeIdle'', VStr ''idle''),
     (''StateUpdateTypeRequiresAction'', VStr ''requires_action''),
     (''StateUpdateTypeUnknown'', VStr ''unknown'')]"

definition consts_StopReason :: "(string \<times> go_val) list" where
  "consts_StopReason =
    [(''StopReasonEndTurn'', VStr ''end_turn''), (''StopReasonMaxTokens'', VStr ''max_tokens''),
     (''StopReasonMaxTurnRequests'', VStr ''max_turn_requests''),
     (''StopReasonRefusal'', VStr ''refusal''), (''StopReasonCancelled'', VStr ''cancelled'')]"

definition consts_StringFormat :: "(string \<times> go_val) list" where
  "consts_StringFormat =
    [(''StringFormatEmail'', VStr ''email''), (''StringFormatUri'', VStr ''uri''),
     (''StringFormatDate'', VStr ''date''), (''StringFormatDateTime'', VStr ''date-time'')]"

definition consts_SystemPromptMode :: "(string \<times> go_val) list" where
  "consts_SystemPromptMode =
    [(''SystemPromptModeAppend'', VStr ''append''),
     (''SystemPromptModeOverride'', VStr ''override'')]"

definition consts_ToolCallContentType :: "(string \<times> go_val) list" where
  "consts_ToolCallContentType =
    [(''ToolCallContentTypeContent'', VStr ''content''),
     (''ToolCallContentTypeDiff'', VStr ''diff''),
     (''ToolCallContentTypeTerminal'', VStr ''terminal'')]"

definition consts_ToolCallStatus :: "(string \<times> go_val) list" where
  "consts_ToolCallStatus =
    [(''ToolCallStatusPending'', VStr ''pending''),
     (''ToolCallStatusInProgress'', VStr ''in_progress''),
     (''ToolCallStatusCompleted'', VStr ''completed''),
     (''ToolCallStatusFailed'', VStr ''failed'')]"

definition consts_ToolKind :: "(string \<times> go_val) list" where
  "consts_ToolKind =
    [(''ToolKindRead'', VStr ''read''), (''ToolKindEdit'', VStr ''edit''),
     (''ToolKindDelete'', VStr ''delete''), (''ToolKindMove'', VStr ''move''),
     (''ToolKindSearch'', VStr ''search''), (''ToolKindExecute'', VStr ''execute''),
     (''ToolKindThink'', VStr ''think''), (''ToolKindFetch'', VStr ''fetch''),
     (''ToolKindSwitchMode'', VStr ''switch_mode''), (''ToolKindOther'', VStr ''other'')]"

text \<open>The block of a type.\<close>

definition consts_of :: "go_name \<Rightarrow> (string \<times> go_val) list option" where
  "consts_of x =
    (if x = ty_AuthMethodType then Some consts_AuthMethodType
     else if x = ty_AuthState then Some consts_AuthState
     else if x = ty_CompactionStatus then Some consts_CompactionStatus
     else if x = ty_ContentBlockType then Some consts_ContentBlockType
     else if x = ty_CreateElicitationRequestType then Some consts_CreateElicitationRequestType
     else if x = ty_CreateElicitationResponseType then Some consts_CreateElicitationResponseType
     else if x = ty_ElicitationPropertySchemaType then Some consts_ElicitationPropertySchemaType
     else if x = ty_ElicitationSchemaType then Some consts_ElicitationSchemaType
     else if x = ty_ErrorCode then Some consts_ErrorCode
     else if x = ty_IdleStateUpdateType then Some consts_IdleStateUpdateType
     else if x = ty_LlmProtocol then Some consts_LlmProtocol
     else if x = ty_McpServerType then Some consts_McpServerType
     else if x = ty_MultiSelectItemsType then Some consts_MultiSelectItemsType
     else if x = ty_NoticeSeverity then Some consts_NoticeSeverity
     else if x = ty_PermissionOptionKind then Some consts_PermissionOptionKind
     else if x = ty_PlanEntryPriority then Some consts_PlanEntryPriority
     else if x = ty_PlanEntryStatus then Some consts_PlanEntryStatus
     else if x = ty_PlanUpdateContentType then Some consts_PlanUpdateContentType
     else if x = ty_RequestPermissionOutcomeType then Some consts_RequestPermissionOutcomeType
     else if x = ty_Role then Some consts_Role
     else if x = ty_SessionArchiveFilter then Some consts_SessionArchiveFilter
     else if x = ty_SessionConfigOptionType then Some consts_SessionConfigOptionType
     else if x = ty_SessionConfigOptionCategory then Some consts_SessionConfigOptionCategory
     else if x = ty_SessionStatus then Some consts_SessionStatus
     else if x = ty_SessionUpdateType then Some consts_SessionUpdateType
     else if x = ty_SetSessionConfigOptionRequestType then Some consts_SetSessionConfigOptionRequestType
     else if x = ty_StateUpdateType then Some consts_StateUpdateType
     else if x = ty_StopReason then Some consts_StopReason
     else if x = ty_StringFormat then Some consts_StringFormat
     else if x = ty_SystemPromptMode then Some consts_SystemPromptMode
     else if x = ty_ToolCallContentType then Some consts_ToolCallContentType
     else if x = ty_ToolCallStatus then Some consts_ToolCallStatus
     else if x = ty_ToolKind then Some consts_ToolKind
     else None)"

end
