(* ===== verification/Acp_Build.thy ===== *)
theory Acp_Build
  imports Acp_Constructors Acp_Consts
begin

text \<open>
  What the constructors build, and how the constants of an enumeration agree with the values
  its decoders accept.
\<close>

section \<open>Constructors\<close>

text \<open>Go converts between types of the same underlying type; a constant is converted from \<open>string\<close>.\<close>

definition converts :: "go_env \<Rightarrow> go_type \<Rightarrow> go_type \<Rightarrow> bool" where
  "converts E t u =
     (same_shape E t u
      \<or> t = TString \<and> (case u of
                          TName x \<Rightarrow> (case E x of Some D \<Rightarrow> gd_shape D = Defined TString | None \<Rightarrow> False)
                        | _ \<Rightarrow> False))"

lemma typed_converts: "converts E t u \<Longrightarrow> typed E t v \<Longrightarrow> typed E u v"
  using typed_same_shape [of E t u v]
  by (cases "same_shape E t u") (auto simp: converts_def typed_defined_iff split: go_type.splits option.splits)

fun argument_ok :: "go_env \<Rightarrow> go_type list \<Rightarrow> go_type \<Rightarrow> argument \<Rightarrow> bool" where
  "argument_ok E ts u (Constant s) = converts E TString u"
| "argument_ok E ts u (Given i) = (i < length ts \<and> converts E (ts ! i) u)"
| "argument_ok E ts u (AddressOf i) = (i < length ts \<and> (case u of TPtr u' \<Rightarrow> converts E (ts ! i) u' | _ \<Rightarrow> False))"
| "argument_ok E ts u (Boxed i) = (i < length ts \<and> u = TAny)"
| "argument_ok E ts u (OptionsOf i) =
     (i < length ts \<and> ts ! i = TName ty_SessionConfigSelectOptions \<and> u = TName ty_SessionConfigSelectOptions)"

definition constructor_ok :: "constructor \<Rightarrow> bool" where
  "constructor_ok c =
     (list_all (type_ok acp) (new_params c) \<and> type_ok acp (TName (new_type c))
      \<and> (case struct_fields acp (new_type c) of
           None \<Rightarrow> False
         | Some fs \<Rightarrow>
             list_all (\<lambda>(g, a). case find (\<lambda>f. fd_name f = g) fs of
                                  None \<Rightarrow> False
                                | Some f \<Rightarrow> argument_ok acp (new_params c) (fd_type f) a) (new_fields c)))"

lemma constructors_ok: "list_all constructor_ok constructors"
  by code_simp

lemma typed_no_options: "typed acp (TName ty_SessionConfigSelectOptions) no_options"
proof -
  have "struct_fields acp ty_SessionConfigSelectOptions =
      Some [fld ''Ungrouped'' (TPtr (TName ty_UngroupedSessionConfigSelectOptions)) ''Ungrouped'',
        fld ''Groups'' (TPtr (TName ty_GroupedSessionConfigSelectOptions)) ''Groups'']"
    by code_simp
  moreover have "acp ty_UngroupedSessionConfigSelectOptions = Some decl_UngroupedSessionConfigSelectOptions" by code_simp
  ultimately show ?thesis
    by (simp add: typed_struct_iff no_options_def options_value_def fld_def
      typed_defined_iff [of _ _ decl_UngroupedSessionConfigSelectOptions] decl_UngroupedSessionConfigSelectOptions_def
      defined_decl_def)
qed

lemma typed_argument:
  assumes "list_all2 (typed acp) ts vs" "argument_ok acp ts u a"
  shows "typed acp u (argument_value ts vs a)"
proof (cases a)
  case (Constant s)
  with assms(2) typed_converts [of acp TString u "VStr s"] show ?thesis by auto
next
  case (Given i)
  with assms typed_converts [of acp "ts ! i" u "vs ! i"] show ?thesis by (simp add: list_all2_conv_all_nth)
next
  case (AddressOf i)
  with assms(2) obtain u' where u: "u = TPtr u'" "converts acp (ts ! i) u'" "i < length ts"
    by (auto split: go_type.splits)
  with assms(1) typed_converts [OF u(2)] AddressOf show ?thesis by (simp add: list_all2_conv_all_nth)
next
  case (Boxed i)
  with assms show ?thesis by (simp add: list_all2_conv_all_nth)
next
  case (OptionsOf i)
  with assms have "typed acp u (vs ! i)" "u = TName ty_SessionConfigSelectOptions" by (auto simp: list_all2_conv_all_nth)
  with OptionsOf typed_no_options show ?thesis by (simp add: filled_options_def)
qed

text \<open>
  Every constructor builds a value of its type. Whatever well-typed arguments one of the
  constructor functions gets, the struct it returns is well-typed: constants are strings of the
  discriminator's type, arguments that go into pointer or interface fields are put behind a
  pointer or an interface, and a selector always has options.
\<close>

theorem constructors_typed:
  assumes "c \<in> set constructors" "list_all2 (typed acp) (new_params c) vs"
  shows "typed acp (TName (new_type c)) (construct acp c vs)"
proof -
  from assms(1) constructors_ok have ok: "constructor_ok c" by (simp add: list_all_iff)
  then obtain fs where fs: "struct_fields acp (new_type c) = Some fs" "type_ok acp (TName (new_type c))"
      "\<forall>(g, a) \<in> set (new_fields c). \<exists>f. find (\<lambda>f. fd_name f = g) fs = Some f \<and> argument_ok acp (new_params c) (fd_type f) a"
    by (fastforce simp: constructor_ok_def list_all_iff split: option.splits)
  from fs(2) obtain D where "acp (new_type c) = Some D" by auto
  with wf_acp have "shape_ok acp (new_type c) D" unfolding wf_env_def decl_ok_def by blast
  with fs(1) have dist: "distinct (map fd_name fs)" by (simp add: shape_ok_def)
  have "fields_typed acp fs (fold (\<lambda>(g, a). set_field g (argument_value (new_params c) vs a)) as kvs)"
    if "fields_typed acp fs kvs" "set as \<subseteq> set (new_fields c)" for as kvs
    using that
  proof (induction as arbitrary: kvs)
    case Nil
    then show ?case by simp
  next
    case (Cons ga as)
    obtain g a where ga: "ga = (g, a)" by fastforce
    with Cons.prems(2) fs(3) obtain f where f: "find (\<lambda>f. fd_name f = g) fs = Some f"
        "argument_ok acp (new_params c) (fd_type f) a" by fastforce
    then have "f \<in> set fs" "fd_name f = g" by (auto simp: find_Some_iff)
    with fields_typed_set [OF Cons.prems(1) dist] typed_argument [OF assms(2) f(2)]
    have "fields_typed acp fs (set_field g (argument_value (new_params c) vs a) kvs)" by blast
    with Cons.IH Cons.prems(2) ga show ?case by simp
  qed
  moreover have "fields_typed acp fs (struct_of (zero_of acp (TName (new_type c))))"
    using wf_zero [OF wf_acp fs(2)] typed_fields [OF fs(1)] by auto
  ultimately show ?thesis
    using typed_fields [OF fs(1)] by (simp add: construct_def)
qed

theorem constructors_typed_witness:
  "typed acp (TName ty_ContentBlock) (construct acp new_TextContentBlock [VStr ''hello''])"
  using constructors_typed [of new_TextContentBlock "[VStr ''hello'']"]
  by (simp add: constructors_def new_TextContentBlock_def ty_string)

section \<open>Enumerations\<close>

text \<open>The strings of the constant block of a type.\<close>

definition enum_strings :: "go_name \<Rightarrow> string list option" where
  "enum_strings x = map_option (map (text_of \<circ> snd)) (consts_of x)"

definition field_type :: "go_name \<Rightarrow> string \<Rightarrow> go_type option" where
  "field_type x g =
     (case struct_fields acp x of
        None \<Rightarrow> None
      | Some fs \<Rightarrow> map_option fd_type (find (\<lambda>f. fd_name f = g) fs))"

text \<open>
  The strings an action of the type \<open>x\<close> compares with are those of the constant blocks: the
  values of an enumeration, those of the discriminator of an array's items (where the empty
  string may be added, for items without one), and the labels of a switch.
\<close>

definition strings_match :: "go_type \<Rightarrow> string list \<Rightarrow> bool" where
  "strings_match t ss = (case t of TName y \<Rightarrow> enum_strings y = Some ss | _ \<Rightarrow> False)"

fun matches_constants :: "go_name \<Rightarrow> member_action \<Rightarrow> bool" where
  "matches_constants x (TryEnum t ss c) = strings_match t ss"
| "matches_constants x (TryItems t (ItemIn ss) n c) = strings_match t ss"
| "matches_constants x (TryItems t (ItemField g ss) n c) =
     (case t of
        TName y \<Rightarrow> (case field_type y g of Some u \<Rightarrow> strings_match u (filter (\<lambda>s. s \<noteq> []) ss) | None \<Rightarrow> False)
      | _ \<Rightarrow> False)"
| "matches_constants x (NullOr a) = matches_constants x a"
| "matches_constants x (SwitchOn d cs) =
     ((case field_type x d of
         Some (TName y) \<Rightarrow> (case enum_strings y of Some ss \<Rightarrow> list_all (\<lambda>(s, a). s = [] \<or> s \<in> set ss) cs | None \<Rightarrow> False)
       | _ \<Rightarrow> False)
      \<and> (\<forall>(s, a) \<in> set cs. matches_constants x a))"
| "matches_constants x a = True"

definition filters_match :: "go_name \<Rightarrow> bool" where
  "filters_match x =
     (case acp x of
        None \<Rightarrow> True
      | Some D \<Rightarrow>
          (case gd_unmarshal D of ByAlias acts \<Rightarrow> list_all (\<lambda>(g, jn, a). matches_constants x a) acts | _ \<Rightarrow> True))"

lemma filters_match_1: "list_all filters_match [0..194]"
  by code_simp

lemma filters_match_2: "list_all filters_match [195..257]"
  by code_simp

text \<open>
  The decoders accept exactly the constants. In every type of the protocol, whatever a
  decoder compares a decoded string with is what the constant blocks declare: the values a
  tolerated enumeration keeps and the discriminators a filtered array keeps are the constants
  of their type, all of them and in order, and every label of a switch is a constant of the
  discriminator's type.
\<close>

theorem filters_match_constants:
  assumes "acp x = Some D" "gd_unmarshal D = ByAlias acts" "(g, jn, a) \<in> set acts"
  shows "matches_constants x a"
proof -
  from assms(1) have "0 \<le> x" "x < 258" using acp_bound [of x] by auto
  then have "x \<in> set [0..194] \<or> x \<in> set [195..257]"
    unfolding set_upto atLeastAtMost_iff by arith
  then have "filters_match x"
    using filters_match_1 filters_match_2 unfolding list_all_iff by blast
  with assms show ?thesis by (auto simp: filters_match_def list_all_iff)
qed

theorem filters_match_constants_witness:
  "matches_constants ty_Annotations (TryItems (TName ty_Role) (ItemIn [''assistant'', ''user'']) True Address)"
  by (rule filters_match_constants [of _ decl_Annotations unmarshal_Annotations "''Audience''" "''audience''"]) code_simp+

end
