(* ===== verification/Schema.thy ===== *)
theory Schema
  imports Names
begin

text \<open>
  The JSON Schema the generator reads (\<open>jsonschema.Schema\<close>, a third-party package, as far as
  internal/schemagen uses its fields) and the predicates of internal/schemagen/typegen on it.
  A schema is its keywords and its sub-schemas. A map is the list of its entries; the entries
  of a map are schemas, and only a missing entry is a nil pointer.
\<close>

section \<open>Panics as values\<close>

text \<open>The generator reports what it cannot map by a panic, the left value of a sum.\<close>

definition or_panic :: "'e + 'a \<Rightarrow> ('a \<Rightarrow> 'e + 'b) \<Rightarrow> 'e + 'b" where
  "or_panic x f = (case x of Inl e \<Rightarrow> Inl e | Inr a \<Rightarrow> f a)"

lemma or_panic_simps [simp]:
  "or_panic (Inl e) f = Inl e"
  "or_panic (Inr a) f = f a"
  by (simp_all add: or_panic_def)

lemma or_panic_Inr: "or_panic x f = Inr b \<longleftrightarrow> (\<exists>a. x = Inr a \<and> f a = Inr b)"
  by (cases x) simp_all

fun each :: "('a \<Rightarrow> 's \<Rightarrow> 'e + 's) \<Rightarrow> 'a list \<Rightarrow> 's \<Rightarrow> 'e + 's" where
  "each f [] s = Inr s"
| "each f (x # xs) s = (case f x s of Inl e \<Rightarrow> Inl e | Inr s' \<Rightarrow> each f xs s')"

lemma each_Cons_Inr: "each f (x # xs) s = Inr t \<longleftrightarrow> (\<exists>s'. f x s = Inr s' \<and> each f xs s' = Inr t)"
  by (auto split: sum.splits)

lemma each_append: "each f (xs @ ys) s = or_panic (each f xs s) (each f ys)"
  by (induction xs arbitrary: s) (auto split: sum.splits)

lemma each_invariant:
  assumes "each f xs s = Inr t" "I s"
    and "\<And>x s s'. x \<in> set xs \<Longrightarrow> I s \<Longrightarrow> f x s = Inr s' \<Longrightarrow> I s'"
  shows "I t"
  using assms
proof (induction xs arbitrary: s)
  case Nil
  then show ?case by simp
next
  case (Cons x xs)
  from Cons.prems(1) obtain s' where s': "f x s = Inr s'" "each f xs s' = Inr t"
    by (auto simp: each_Cons_Inr simp del: each.simps)
  show ?case
    by (rule Cons.IH [OF s'(2)]) (use Cons.prems s' in auto)
qed

text \<open>What a step establishes for its element holds at the end, if every step keeps it.\<close>

lemma each_reaches:
  assumes "each f xs s = Inr t" "x \<in> set xs"
    and "\<And>s s'. f x s = Inr s' \<Longrightarrow> P s'"
    and "\<And>y s s'. P s \<Longrightarrow> f y s = Inr s' \<Longrightarrow> P s'"
  shows "P t"
proof -
  obtain us vs where xs: "xs = us @ x # vs" using split_list [OF assms(2)] by blast
  with assms(1) obtain a b where b: "f x a = Inr b" and rest: "each f vs b = Inr t"
    by (auto simp: each_append or_panic_Inr each_Cons_Inr simp del: each.simps)
  from rest assms(3) [OF b] show ?thesis using assms(4) by (rule each_invariant)
qed

section \<open>Schemas\<close>

text \<open>Values of \<open>any\<close> fields: \<open>const\<close>, the members of \<open>enum\<close>, and extension keywords.\<close>

datatype schema_value =
    ValString string | ValBool bool | ValNumber int | ValNull
  | ValMap "(string \<times> schema_value) list"

record schema_keywords =
  kw_ref :: string
  kw_type :: string
  kw_types :: "string list"
  kw_format :: string
  kw_title :: string
  kw_description :: string
  kw_enum :: "schema_value list"
  kw_const :: "schema_value option"
  kw_default :: string
  kw_required :: "string list"
  kw_extra :: "(string \<times> schema_value) list"

datatype schema =
  Schema (sc_keywords: schema_keywords)
    (sc_properties: "(string \<times> schema) list")
    (sc_items: "schema option")
    (sc_additional: "schema option")
    (sc_any_of: "schema list")
    (sc_one_of: "schema list")
    (sc_all_of: "schema list")

type_synonym schema_defs = "(string \<times> schema) list"

text \<open>The top-level schema: its \<open>anyOf\<close> branches and its definitions.\<close>

record document =
  doc_any_of :: "schema list"
  doc_defs :: schema_defs

definition no_keywords :: schema_keywords where
  "no_keywords =
     \<lparr>kw_ref = [], kw_type = [], kw_types = [], kw_format = [], kw_title = [], kw_description = [],
      kw_enum = [], kw_const = None, kw_default = [], kw_required = [], kw_extra = []\<rparr>"

definition leaf :: "schema_keywords \<Rightarrow> schema" where
  "leaf k = Schema k [] None None [] [] []"

text \<open>Forms that occur often: a reference, and \<open>allOf\<close> around a reference.\<close>

definition ref_to :: "string \<Rightarrow> schema" where
  "ref_to n = leaf (no_keywords\<lparr>kw_ref := ''#/$defs/'' @ n\<rparr>)"

definition wraps :: "schema_keywords \<Rightarrow> string \<Rightarrow> schema" where
  "wraps k n = Schema k [] None None [] [] [ref_to n]"

definition anything :: schema where
  "anything = leaf no_keywords"


definition sc_ref :: "schema \<Rightarrow> string" where "sc_ref s = kw_ref (sc_keywords s)"
definition sc_title :: "schema \<Rightarrow> string" where "sc_title s = kw_title (sc_keywords s)"
definition sc_const :: "schema \<Rightarrow> schema_value option" where "sc_const s = kw_const (sc_keywords s)"
definition sc_required :: "schema \<Rightarrow> string list" where "sc_required s = kw_required (sc_keywords s)"
definition sc_description :: "schema \<Rightarrow> string" where "sc_description s = kw_description (sc_keywords s)"

text \<open>\<open>schema.Extra[key].(string)\<close> and \<open>.(bool)\<close>; a failed assertion gives the zero value.\<close>

definition string_extra :: "schema \<Rightarrow> string \<Rightarrow> string" where
  "string_extra s key =
     (case map_of (kw_extra (sc_keywords s)) key of Some (ValString t) \<Rightarrow> t | _ \<Rightarrow> [])"

definition schema_bool_extra :: "schema option \<Rightarrow> string \<Rightarrow> bool" where
  "schema_bool_extra so key =
     (case so of
        None \<Rightarrow> False
      | Some s \<Rightarrow> (case map_of (kw_extra (sc_keywords s)) key of Some (ValBool b) \<Rightarrow> b | _ \<Rightarrow> False))"

section \<open>Predicates on schemas\<close>

definition ref_name :: "string \<Rightarrow> string" where
  "ref_name r = trim_prefix r ''#/$defs/''"

definition schema_type_name :: "schema option \<Rightarrow> string" where
  "schema_type_name so =
     (case so of
        None \<Rightarrow> []
      | Some s \<Rightarrow>
          if kw_type (sc_keywords s) \<noteq> [] then kw_type (sc_keywords s)
          else (case kw_types (sc_keywords s) of [t] \<Rightarrow> t | _ \<Rightarrow> []))"

text \<open>\<open>nullableSchema\<close>: the schema without null, for a pair of types or of branches one of which is null.\<close>

definition with_type :: "string \<Rightarrow> schema \<Rightarrow> schema" where
  "with_type t s =
     Schema (sc_keywords s\<lparr>kw_types := [], kw_type := t\<rparr>) (sc_properties s) (sc_items s)
       (sc_additional s) (sc_any_of s) (sc_one_of s) (sc_all_of s)"

definition last_non_null :: "schema list \<Rightarrow> schema option" where
  "last_non_null bs =
     foldl (\<lambda>found b. if schema_type_name (Some b) = ''null'' then found else Some b) None bs"

definition nullable_schema :: "schema \<Rightarrow> schema option" where
  "nullable_schema s =
     (let ts = kw_types (sc_keywords s) in
      if length ts = 2 \<and> ''null'' \<in> set ts
      then Some (with_type (foldl (\<lambda>t u. if u \<noteq> ''null'' then u else t) (kw_type (sc_keywords s)) ts) s)
      else if length (sc_any_of s) = 2 \<and> (\<exists>b \<in> set (sc_any_of s). schema_type_name (Some b) = ''null'')
      then last_non_null (sc_any_of s)
      else None)"

definition union_branches :: "schema \<Rightarrow> schema list" where
  "union_branches s = (if sc_one_of s \<noteq> [] then sc_one_of s else sc_any_of s)"

definition is_object_schema :: "schema \<Rightarrow> bool" where
  "is_object_schema s = (schema_type_name (Some s) = ''object'' \<and> sc_properties s \<noteq> [])"

definition const_string :: "schema option \<Rightarrow> string option" where
  "const_string so =
     (case so of
        None \<Rightarrow> None
      | Some s \<Rightarrow> (case sc_const s of Some (ValString t) \<Rightarrow> Some t | _ \<Rightarrow> None))"

fun is_string_value :: "schema_value \<Rightarrow> bool" where
  "is_string_value (ValString t) = True"
| "is_string_value _ = False"

fun string_value :: "schema_value \<Rightarrow> string" where
  "string_value (ValString t) = t"
| "string_value _ = []"

definition is_string_enum :: "schema \<Rightarrow> bool" where
  "is_string_enum s =
     (schema_type_name (Some s) = ''string'' \<and> kw_enum (sc_keywords s) \<noteq> []
      \<and> list_all is_string_value (kw_enum (sc_keywords s)))"

definition is_string_const_enum :: "schema \<Rightarrow> bool" where
  "is_string_const_enum s =
     (union_branches s \<noteq> []
      \<and> list_all (\<lambda>b. schema_type_name (Some b) = ''string'' \<and> const_string (Some b) \<noteq> None) (union_branches s))"

definition is_array_union :: "schema \<Rightarrow> bool" where
  "is_array_union s =
     (length (union_branches s) = 2
      \<and> list_all (\<lambda>b. schema_type_name (Some b) = ''array'' \<and> sc_title b \<noteq> []
           \<and> (case sc_items b of None \<Rightarrow> False | Some i \<Rightarrow> sc_ref i \<noteq> [])) (union_branches s))"

definition is_primitive_const_kind :: "string \<Rightarrow> bool" where
  "is_primitive_const_kind k = (k \<in> set [''string'', ''integer'', ''number'', ''boolean''])"

text \<open>
  \<open>primitiveConstUnionKind\<close>: the kind all branches share, and the format if the integer
  branches agree on one. The last component says whether some branch has a constant.
\<close>

definition primitive_const_union_kind :: "schema \<Rightarrow> (string \<times> string) option" where
  "primitive_const_union_kind s =
     (case union_branches s of
        [] \<Rightarrow> None
      | b # bs \<Rightarrow>
          let kind = schema_type_name (Some b);
              formats = remdups (map (\<lambda>c. kw_format (sc_keywords c)) (b # bs)) in
          if is_primitive_const_kind kind \<and> list_all (\<lambda>c. schema_type_name (Some c) = kind) bs
             \<and> list_ex (\<lambda>c. sc_const c \<noteq> None) (b # bs)
          then Some (kind, if kind = ''integer'' \<and> length formats = 1 then hd formats else [])
          else None)"

definition docs_ignored :: "schema \<Rightarrow> bool" where
  "docs_ignored s = schema_bool_extra (Some s) ''x-docs-ignore''"

definition has_only_protocol_envelope :: "document \<Rightarrow> bool" where
  "has_only_protocol_envelope d =
     (doc_any_of d \<noteq> [] \<and> list_all (\<lambda>b. sc_title b = ''ProtocolLevel'') (doc_any_of d))"

text \<open>The direct sub-schemas, in the order \<open>collectRefs\<close> visits them.\<close>

definition children :: "schema \<Rightarrow> schema list" where
  "children s =
     sc_any_of s @ sc_one_of s @ sc_all_of s @ map snd (sc_properties s)
     @ (case sc_items s of None \<Rightarrow> [] | Some i \<Rightarrow> [i])
     @ (case sc_additional s of None \<Rightarrow> [] | Some i \<Rightarrow> [i])"

end
