(* ===== verification/Schema_Refs.thy ===== *)
theory Schema_Refs
  imports Schema
begin

text \<open>
  Which definitions get code (internal/schemagen/typegen/gen.go): the traversal \<open>collectRefs\<close>,
  what it computes, and that the definitions \<open>Generate\<close> keeps refer only to each other. The
  recursion of \<open>collectRefs\<close> is written with its stack; the maps \<open>refs\<close> and \<open>seen\<close>, whose
  values are all true, are the lists of their keys.
\<close>

section \<open>The traversal\<close>

lemma size_properties: "(\<Sum>p\<leftarrow>ps. size (snd p)) \<le> size_list (size_prod (\<lambda>_. 0) size) ps"
  by (induction ps) auto

lemma size_branches: "sum_list (map size bs) \<le> size_list size bs"
  by (induction bs) auto

lemma size_children: "sum_list (map size (children s)) < size s"
proof (cases s)
  case (Schema k ps i a ao oo al)
  have "(\<Sum>p\<leftarrow>ps. size (snd p)) = sum_list (map (size \<circ> snd) ps)"
    by (simp add: comp_def)
  with Schema size_properties [of ps] size_branches [of ao] size_branches [of oo] size_branches [of al]
  show ?thesis
    by (cases i; cases a) (simp_all add: children_def)
qed

definition unseen :: "schema_defs \<Rightarrow> string list \<Rightarrow> string set" where
  "unseen defs seen = dom (map_of defs) - set seen"

lemma finite_unseen [simp]: "finite (unseen defs seen)"
  by (simp add: unseen_def finite_dom_map_of)

lemma card_unseen_less: "map_of defs n = Some d \<Longrightarrow> n \<notin> set seen \<Longrightarrow> card (unseen defs (n # seen)) < card (unseen defs seen)"
  by (rule psubset_card_mono) (auto simp: unseen_def finite_dom_map_of)

lemma unseen_missing: "map_of defs n = None \<Longrightarrow> unseen defs (n # seen) = unseen defs seen"
  by (auto simp: unseen_def)

function collect_refs :: "schema_defs \<Rightarrow> schema list \<Rightarrow> string list \<Rightarrow> string list \<Rightarrow> string list \<times> string list" where
  "collect_refs defs [] refs seen = (refs, seen)"
| "collect_refs defs (s # stack) refs seen =
     (let name = ref_name (sc_ref s) in
      if sc_ref s = [] then collect_refs defs (children s @ stack) refs seen
      else if name \<in> set seen then collect_refs defs (children s @ stack) (List.insert name refs) seen
      else
        (case map_of defs name of
           None \<Rightarrow> collect_refs defs (children s @ stack) (List.insert name refs) (name # seen)
         | Some d \<Rightarrow> collect_refs defs (d # children s @ stack) (List.insert name refs) (name # seen)))"
  by pat_completeness auto
termination
proof (relation "measures [\<lambda>(defs, stack, refs, seen). card (unseen defs seen),
    \<lambda>(defs, stack, refs, seen). sum_list (map size stack)]", goal_cases)
  case 1
  then show ?case by simp
next
  case (2 defs s stack refs seen)
  then show ?case using size_children [of s] by simp
next
  case (3 defs s stack refs seen)
  then show ?case using size_children [of s] by simp
next
  case (4 defs s stack refs seen)
  then show ?case using size_children [of s] by (simp add: unseen_missing)
next
  case (5 defs s stack refs seen)
  then show ?case by (simp add: card_unseen_less)
qed

declare collect_refs.simps(2) [simp del]

definition refs_of :: "schema_defs \<Rightarrow> schema \<Rightarrow> string list \<Rightarrow> string list" where
  "refs_of defs s refs = fst (collect_refs defs [s] refs [])"

section \<open>What it computes\<close>

text \<open>The names a schema refers to, in itself or through the definitions of names it refers to.\<close>

inductive reaches :: "schema_defs \<Rightarrow> schema \<Rightarrow> string \<Rightarrow> bool" for defs :: schema_defs where
  here: "sc_ref s \<noteq> [] \<Longrightarrow> reaches defs s (ref_name (sc_ref s))"
| inside: "c \<in> set (children s) \<Longrightarrow> reaches defs c n \<Longrightarrow> reaches defs s n"
| through: "sc_ref s \<noteq> [] \<Longrightarrow> map_of defs (ref_name (sc_ref s)) = Some d \<Longrightarrow> reaches defs d n \<Longrightarrow> reaches defs s n"

inductive mentions :: "schema \<Rightarrow> string \<Rightarrow> bool" where
  mention: "sc_ref s \<noteq> [] \<Longrightarrow> mentions s (ref_name (sc_ref s))"
| mention_inside: "c \<in> set (children s) \<Longrightarrow> mentions c n \<Longrightarrow> mentions s n"

lemma reaches_trans:
  assumes "reaches defs s n" "map_of defs n = Some d" "reaches defs d m"
  shows "reaches defs s m"
  using assms by (induction) (auto intro: reaches.intros)

lemma mentions_reaches: "mentions s n \<Longrightarrow> reaches defs s n"
  by (induction rule: mentions.induct) (auto intro: reaches.intros)

text \<open>A set of names that a schema's mentions lie in, closed under following definitions, holds all it reaches.\<close>

lemma reaches_closed:
  assumes "reaches defs s n"
    and "\<And>n d. n \<in> X \<Longrightarrow> map_of defs n = Some d \<Longrightarrow> Collect (mentions d) \<subseteq> X"
    and "Collect (mentions s) \<subseteq> X"
  shows "n \<in> X"
  using assms(1,3)
proof (induction)
  case (here s)
  then show ?case by (auto intro: mentions.intros)
next
  case (inside c s n)
  then show ?case by (auto intro: mentions.intros)
next
  case (through s d n)
  then have "ref_name (sc_ref s) \<in> X" by (auto intro: mentions.intros)
  with through assms(2) show ?case by blast
qed

lemma mentions_unfold:
  "Collect (mentions s) =
     (if sc_ref s = [] then {} else {ref_name (sc_ref s)}) \<union> (\<Union>c \<in> set (children s). Collect (mentions c))"
  by (subst mentions.simps [abs_def]) auto

definition stack_mentions :: "schema list \<Rightarrow> string set" where
  "stack_mentions st = (\<Union>s \<in> set st. Collect (mentions s))"

lemma stack_mentions_simps [simp]:
  "stack_mentions [] = {}"
  "stack_mentions (s # st) = Collect (mentions s) \<union> stack_mentions st"
  "stack_mentions (st @ st') = stack_mentions st \<union> stack_mentions st'"
  by (auto simp: stack_mentions_def)

lemma stack_mentions_children:
  "Collect (mentions s) = (if sc_ref s = [] then {} else {ref_name (sc_ref s)}) \<union> stack_mentions (children s)"
  by (subst mentions_unfold) (simp add: stack_mentions_def)

definition followed :: "schema_defs \<Rightarrow> string set \<Rightarrow> string \<Rightarrow> bool" where
  "followed defs X n = (\<forall>d. map_of defs n = Some d \<longrightarrow> Collect (mentions d) \<subseteq> X)"

text \<open>What a run of the traversal guarantees, for the stack and the maps it starts with.\<close>

definition collected :: "schema_defs \<Rightarrow> schema list \<Rightarrow> string list \<Rightarrow> string list \<Rightarrow> string list \<times> string list \<Rightarrow> bool" where
  "collected defs stack refs seen rs =
     (set refs \<subseteq> set (fst rs) \<and> set seen \<subseteq> set (snd rs)
      \<and> stack_mentions stack \<subseteq> set (snd rs) \<and> set (snd rs) \<subseteq> set seen \<union> set (fst rs)
      \<and> stack_mentions stack \<subseteq> set (fst rs)
      \<and> (\<forall>n \<in> set (snd rs) - set seen. followed defs (set (snd rs)) n)
      \<and> (\<forall>n \<in> set (fst rs) - set refs. \<exists>s \<in> set stack. reaches defs s n))"

lemma reaches_child: "\<exists>c \<in> set (children s @ stack). reaches defs c n \<Longrightarrow> \<exists>c \<in> set (s # stack). reaches defs c n"
  by (auto intro: inside)

lemma collected_plain:
  assumes "sc_ref s = []" "collected defs (children s @ stack) refs seen rs"
  shows "collected defs (s # stack) refs seen rs"
  using assms reaches_child [of s stack defs]
  unfolding collected_def stack_mentions_simps stack_mentions_children [of s] by simp

lemma collected_known:
  assumes "sc_ref s \<noteq> []" "ref_name (sc_ref s) \<in> set seen"
    and "collected defs (children s @ stack) (List.insert (ref_name (sc_ref s)) refs) seen rs"
  shows "collected defs (s # stack) refs seen rs"
proof -
  have "\<exists>c \<in> set (s # stack). reaches defs c n" if "n \<in> set (fst rs) - set refs" for n
    using that assms(1,3) reaches_child [of s stack defs n] here [OF assms(1), of defs]
    unfolding collected_def by (cases "n = ref_name (sc_ref s)") auto
  with assms show ?thesis
    unfolding collected_def stack_mentions_simps stack_mentions_children [of s] by auto
qed

lemma collected_missing:
  assumes "sc_ref s \<noteq> []" "map_of defs (ref_name (sc_ref s)) = None"
    and "collected defs (children s @ stack) (List.insert (ref_name (sc_ref s)) refs) (ref_name (sc_ref s) # seen) rs"
  shows "collected defs (s # stack) refs seen rs"
proof -
  have "\<exists>c \<in> set (s # stack). reaches defs c n" if "n \<in> set (fst rs) - set refs" for n
    using that assms(1,3) reaches_child [of s stack defs n] here [OF assms(1), of defs]
    unfolding collected_def by (cases "n = ref_name (sc_ref s)") auto
  moreover have "followed defs (set (snd rs)) n" if "n \<in> set (snd rs) - set seen" for n
    using that assms(2,3) unfolding collected_def
    by (cases "n = ref_name (sc_ref s)") (auto simp: followed_def [of _ _ "ref_name (sc_ref s)"])
  ultimately show ?thesis
    using assms unfolding collected_def stack_mentions_simps stack_mentions_children [of s] by auto
qed

lemma collected_new:
  assumes "sc_ref s \<noteq> []" "map_of defs (ref_name (sc_ref s)) = Some d"
    and "collected defs (d # children s @ stack) (List.insert (ref_name (sc_ref s)) refs) (ref_name (sc_ref s) # seen) rs"
  shows "collected defs (s # stack) refs seen rs"
proof -
  have "\<exists>c \<in> set (s # stack). reaches defs c n" if n: "n \<in> set (fst rs) - set refs" for n
  proof (cases "n = ref_name (sc_ref s)")
    case True
    with here [OF assms(1), of defs] show ?thesis by auto
  next
    case False
    with n have "n \<in> set (fst rs) - set (List.insert (ref_name (sc_ref s)) refs)" by simp
    with assms(3) obtain c where "c \<in> set (d # children s @ stack)" "reaches defs c n"
      unfolding collected_def by blast
    with reaches_child [of s stack defs n] through [OF assms(1,2), of n] show ?thesis by auto
  qed
  moreover have "followed defs (set (snd rs)) n" if "n \<in> set (snd rs) - set seen" for n
    using that assms(2,3) unfolding collected_def stack_mentions_simps
    by (cases "n = ref_name (sc_ref s)") (auto simp: followed_def [of _ _ "ref_name (sc_ref s)"])
  ultimately show ?thesis
    using assms unfolding collected_def stack_mentions_simps stack_mentions_children [of s] by auto
qed

lemma collected_refs: "collected defs stack refs seen (collect_refs defs stack refs seen)"
proof (induction defs stack refs seen rule: collect_refs.induct)
  case (1 defs refs seen)
  then show ?case by (simp add: collected_def)
next
  case (2 defs s stack refs seen)
  let ?n = "ref_name (sc_ref s)"
  note eq = collect_refs.simps(2) [of defs s stack refs seen]
  consider "sc_ref s = []" | "sc_ref s \<noteq> []" "?n \<in> set seen"
    | "sc_ref s \<noteq> []" "?n \<notin> set seen" "map_of defs ?n = None"
    | d where "sc_ref s \<noteq> []" "?n \<notin> set seen" "map_of defs ?n = Some d"
    by (cases "map_of defs ?n") auto
  then show ?case
  proof cases
    case 1
    with 2(1) eq show ?thesis by (simp add: collected_plain Let_def)
  next
    case c: 2
    with 2(2) eq show ?thesis by (simp add: collected_known Let_def)
  next
    case 3
    with 2(3) eq show ?thesis by (simp add: collected_missing Let_def)
  next
    case 4
    with 2(4) eq show ?thesis by (simp add: collected_new Let_def)
  qed
qed

lemma set_refs_of: "set (refs_of defs s refs) = set refs \<union> {n. reaches defs s n}"
proof -
  obtain r se where run: "collect_refs defs [s] refs [] = (r, se)" by fastforce
  with collected_refs [of defs "[s]" refs "[]"] have c: "collected defs [s] refs [] (r, se)" by simp
  have "n \<in> set se" if "reaches defs s n" for n
    using that
  proof (rule reaches_closed)
    show "Collect (mentions s) \<subseteq> set se" using c by (simp add: collected_def)
    show "Collect (mentions d) \<subseteq> set se" if "n \<in> set se" "map_of defs n = Some d" for n d
      using that c by (simp add: collected_def followed_def)
  qed
  then have "{n. reaches defs s n} \<subseteq> set se" by blast
  moreover have "set refs \<subseteq> set r" "set se \<subseteq> set r" "\<forall>n \<in> set r - set refs. reaches defs s n"
    using c by (simp_all add: collected_def)
  ultimately have "set r = set refs \<union> {n. reaches defs s n}" by blast
  with run show ?thesis by (simp add: refs_of_def)
qed

section \<open>The definitions that get code\<close>

text \<open>The loops over all definitions that collect what the ones that satisfy a condition reach.\<close>

definition refs_of_all :: "schema_defs \<Rightarrow> schema list \<Rightarrow> string list \<Rightarrow> string list" where
  "refs_of_all defs ss refs = fold (refs_of defs) ss refs"

lemma set_refs_of_all: "set (refs_of_all defs ss refs) = set refs \<union> {n. \<exists>s \<in> set ss. reaches defs s n}"
  unfolding refs_of_all_def by (induction ss arbitrary: refs) (auto simp: set_refs_of)

definition protocol_branch :: "schema \<Rightarrow> bool" where
  "protocol_branch b = (sc_title b = ''ProtocolLevel'' \<and> docs_ignored b)"

definition ignored_top_level_protocol_refs :: "document \<Rightarrow> string list" where
  "ignored_top_level_protocol_refs doc =
     (let defs = doc_defs doc;
          ignored = refs_of_all defs (filter protocol_branch (doc_any_of doc)) [];
          public = refs_of_all defs (filter (Not \<circ> protocol_branch) (doc_any_of doc)) [];
          public' = refs_of_all defs
            (map snd (filter (\<lambda>(n, d). \<not> docs_ignored d \<and> n \<notin> set ignored) defs)) public in
      filter (\<lambda>n. n \<notin> set public') ignored)"

definition public_definition_refs :: "document \<Rightarrow> string list \<Rightarrow> string list" where
  "public_definition_refs doc ignored =
     refs_of_all (doc_defs doc)
       (map snd (filter (\<lambda>(n, d). \<not> (docs_ignored d \<or> n \<in> set ignored)) (doc_defs doc))) []"

definition generated_definitions :: "document \<Rightarrow> (string \<times> schema) list" where
  "generated_definitions doc =
     (if doc_defs doc = [] \<or> has_only_protocol_envelope doc then []
      else
        let ignored = ignored_top_level_protocol_refs doc;
            public = public_definition_refs doc ignored in
        filter (\<lambda>(n, d). \<not> (n \<in> set ignored \<or> docs_ignored d \<and> n \<notin> set public)) (sort_key fst (doc_defs doc)))"

section \<open>No reference is left without a type\<close>

lemma refs_of_all_closed:
  assumes "m \<in> set (refs_of_all defs ss (refs_of_all defs ts []))"
    and "map_of defs m = Some d" "reaches defs d n"
  shows "n \<in> set (refs_of_all defs ss (refs_of_all defs ts []))"
proof -
  from assms(1) obtain s where "s \<in> set ss \<union> set ts" "reaches defs s m"
    unfolding set_refs_of_all by auto
  with reaches_trans [OF _ assms(2,3)] show ?thesis
    unfolding set_refs_of_all by blast
qed

lemma not_ignored_reaches:
  assumes "distinct (map fst (doc_defs doc))" "map_of (doc_defs doc) x = Some d" "\<not> docs_ignored d"
    and "x \<notin> set (ignored_top_level_protocol_refs doc)" "reaches (doc_defs doc) d n"
  shows "n \<notin> set (ignored_top_level_protocol_refs doc)"
proof -
  let ?defs = "doc_defs doc"
  let ?I = "refs_of_all ?defs (filter protocol_branch (doc_any_of doc)) []"
  let ?P = "refs_of_all ?defs (map snd (filter (\<lambda>(n, d). \<not> docs_ignored d \<and> n \<notin> set ?I) ?defs))
      (refs_of_all ?defs (filter (Not \<circ> protocol_branch) (doc_any_of doc)) [])"
  have ig: "set (ignored_top_level_protocol_refs doc) = set ?I - set ?P"
    by (auto simp: ignored_top_level_protocol_refs_def Let_def)
  have "n \<in> set ?P"
  proof (cases "x \<in> set ?I")
    case True
    with assms(4) ig have "x \<in> set ?P" by blast
    then show ?thesis using assms(2,5) by (rule refs_of_all_closed)
  next
    case False
    with assms(2,3) have "d \<in> set (map snd (filter (\<lambda>(n, d). \<not> docs_ignored d \<and> n \<notin> set ?I) ?defs))"
      by (force dest: map_of_SomeD)
    with assms(5) show ?thesis unfolding set_refs_of_all by blast
  qed
  with ig show ?thesis by blast
qed

lemma generated_definitions_iff:
  assumes "distinct (map fst (doc_defs doc))" "doc_defs doc \<noteq> []" "\<not> has_only_protocol_envelope doc"
  shows "(n, d) \<in> set (generated_definitions doc) \<longleftrightarrow>
    map_of (doc_defs doc) n = Some d \<and> n \<notin> set (ignored_top_level_protocol_refs doc)
    \<and> (docs_ignored d \<longrightarrow> (\<exists>x e. map_of (doc_defs doc) x = Some e \<and> \<not> docs_ignored e
         \<and> x \<notin> set (ignored_top_level_protocol_refs doc) \<and> reaches (doc_defs doc) e n))"
  using assms by (auto simp: generated_definitions_def Let_def public_definition_refs_def set_refs_of_all)

text \<open>
  C29: no generated type refers to a type that is not generated. For every schema, if a
  definition gets code, so does every definition that it mentions anywhere, whatever the
  documentation and protocol-level branches hide.
\<close>

theorem generated_closed:
  assumes "distinct (map fst (doc_defs doc))" "(n, d) \<in> set (generated_definitions doc)"
    and "mentions d m" "map_of (doc_defs doc) m = Some e"
  shows "(m, e) \<in> set (generated_definitions doc)"
proof -
  have ne: "doc_defs doc \<noteq> []" "\<not> has_only_protocol_envelope doc"
    using assms(2) by (auto simp: generated_definitions_def split: if_splits)
  note iff = generated_definitions_iff [OF assms(1) ne]
  have nm: "reaches (doc_defs doc) d m" using assms(3) by (rule mentions_reaches)
  obtain x c where x: "map_of (doc_defs doc) x = Some c" "\<not> docs_ignored c"
      "x \<notin> set (ignored_top_level_protocol_refs doc)" "reaches (doc_defs doc) c m"
    using assms(2) nm reaches_trans [OF _ _ nm] unfolding iff by blast
  then have "m \<notin> set (ignored_top_level_protocol_refs doc)"
    using not_ignored_reaches [OF assms(1)] by blast
  with x assms(4) show ?thesis unfolding iff by blast
qed

text \<open>A hidden definition that a public one wraps, and one that only the protocol level uses.\<close>

definition small_document :: document where
  "small_document =
     \<lparr>doc_any_of = [Schema (no_keywords\<lparr>kw_title := ''ProtocolLevel'', kw_extra := [(''x-docs-ignore'', ValBool True)]\<rparr>)
                      [] None None [ref_to ''Cancel''] [] [],
                    leaf (no_keywords\<lparr>kw_title := ''Agent''\<rparr>)],
      doc_defs = [(''Cancel'', leaf (no_keywords\<lparr>kw_type := ''object'', kw_extra := [(''x-docs-ignore'', ValBool True)]\<rparr>)),
                  (''Hidden'', leaf (no_keywords\<lparr>kw_type := ''string'', kw_extra := [(''x-docs-ignore'', ValBool True)]\<rparr>)),
                  (''Shown'', Schema no_keywords [] None None [] [] [ref_to ''Hidden''])]\<rparr>"

theorem generated_closed_witness:
  "map fst (generated_definitions small_document) = [''Hidden'', ''Shown'']
    \<and> (\<exists>e. (''Hidden'', e) \<in> set (generated_definitions small_document))"
proof -
  have names: "map fst (generated_definitions small_document) = [''Hidden'', ''Shown'']"
    by code_simp
  let ?shown = "Schema no_keywords [] None None [] [] [ref_to ''Hidden'']"
  have shown: "(''Shown'', ?shown) \<in> set (generated_definitions small_document)"
    by code_simp
  have "mentions (ref_to ''Hidden'') (ref_name (sc_ref (ref_to ''Hidden'')))"
    by (rule mention) code_simp
  moreover have "ref_name (sc_ref (ref_to ''Hidden'')) = ''Hidden''"
    by code_simp
  ultimately have "mentions ?shown ''Hidden''"
    by (simp add: mention_inside [of "ref_to ''Hidden''"] children_def)
  from generated_closed [OF _ shown this, of "leaf (no_keywords\<lparr>kw_type := ''string'', kw_extra := [(''x-docs-ignore'', ValBool True)]\<rparr>)"]
  have "(''Hidden'', leaf (no_keywords\<lparr>kw_type := ''string'', kw_extra := [(''x-docs-ignore'', ValBool True)]\<rparr>))
      \<in> set (generated_definitions small_document)"
    by (simp add: small_document_def)
  with names show ?thesis by blast
qed

end
