(* ===== verification/Rpcgen.thy ===== *)
theory Rpcgen
  imports Schema "HOL-Library.Product_Lexorder"
begin

text \<open>
  The RPC operations of a schema (internal/schemagen/rpcgen/model.go and sides.go): which
  definitions form a request or a notification, which endpoint handles it, and the Go names
  it gets. The map \<open>byKey\<close> is an association list; the code ranges over it in any order and
  sorts afterwards, by a key no two operations share.
\<close>

section \<open>Endpoints and sides\<close>

record endpoint =
  ep_conn :: string
  ep_dispatch :: string
  ep_filename :: string

definition agent_endpoint :: endpoint where
  "agent_endpoint =
     \<lparr>ep_conn = ''AgentConnection'', ep_dispatch = ''handleAgentRequest'', ep_filename = ''agent_gen.go''\<rparr>"

definition client_endpoint :: endpoint where
  "client_endpoint =
     \<lparr>ep_conn = ''Client'', ep_dispatch = ''handleClientRequest'', ep_filename = ''client_gen.go''\<rparr>"

definition endpoints :: "endpoint list" where
  "endpoints = [agent_endpoint, client_endpoint]"

definition peer :: "endpoint \<Rightarrow> endpoint" where
  "peer e = (if e = agent_endpoint then client_endpoint else agent_endpoint)"

record side_rule =
  rule_handlers :: "endpoint list"
  rule_methods :: "(string \<times> endpoint list) list"

definition handlers_for :: "side_rule \<Rightarrow> string \<Rightarrow> endpoint list" where
  "handlers_for r m = (case map_of (rule_methods r) m of Some hs \<Rightarrow> hs | None \<Rightarrow> rule_handlers r)"

definition sides :: "(string \<times> side_rule) list" where
  "sides =
     [(''agent'', \<lparr>rule_handlers = [agent_endpoint], rule_methods = []\<rparr>),
      (''client'', \<lparr>rule_handlers = [client_endpoint], rule_methods = []\<rparr>),
      (''both'', \<lparr>rule_handlers = [agent_endpoint, client_endpoint], rule_methods = []\<rparr>),
      (''protocol'', \<lparr>rule_handlers = [], rule_methods = []\<rparr>),
      (''proxy'', \<lparr>rule_handlers = [agent_endpoint, client_endpoint],
                  rule_methods = [(''proxy/initialize'', [agent_endpoint])]\<rparr>)]"

definition handles :: "endpoint list \<Rightarrow> endpoint \<Rightarrow> bool" where
  "handles hs e = (e \<in> set hs)"

lemma peer_peer: "e \<in> set endpoints \<Longrightarrow> peer (peer e) = e"
  by (auto simp: endpoints_def peer_def client_endpoint_def agent_endpoint_def)

section \<open>Operations\<close>

datatype op_kind = Request | Notification

instantiation op_kind :: linorder
begin

definition less_eq_op_kind :: "op_kind \<Rightarrow> op_kind \<Rightarrow> bool" where
  "less_eq_op_kind a b = (a = Request \<or> b = Notification)"

definition less_op_kind :: "op_kind \<Rightarrow> op_kind \<Rightarrow> bool" where
  "less_op_kind a b = (a = Request \<and> b = Notification)"

instance
proof
  fix a b c :: op_kind
  show "(a < b) = (a \<le> b \<and> \<not> b \<le> a)"
    by (cases a; cases b) (simp_all add: less_op_kind_def less_eq_op_kind_def)
  show "a \<le> a"
    by (cases a) (simp_all add: less_eq_op_kind_def)
  show "a \<le> b \<Longrightarrow> b \<le> c \<Longrightarrow> a \<le> c"
    by (auto simp: less_eq_op_kind_def)
  show "a \<le> b \<Longrightarrow> b \<le> a \<Longrightarrow> a = b"
    by (auto simp: less_eq_op_kind_def)
  show "a \<le> b \<or> b \<le> a"
    by (cases a; cases b) (simp_all add: less_eq_op_kind_def)
qed

end

definition kind_string :: "op_kind \<Rightarrow> string" where
  "kind_string k = (if k = Notification then ''notification'' else ''request'')"

record operation =
  op_method :: string
  op_kind :: op_kind
  op_side :: string
  op_handlers :: "endpoint list"
  op_const :: string
  op_name :: string
  op_params :: string
  op_result :: string
  op_description :: string

definition op_string :: "operation \<Rightarrow> string" where
  "op_string p = op_method p @ '' '' @ kind_string (op_kind p)"

definition handled_by :: "operation \<Rightarrow> endpoint \<Rightarrow> bool" where
  "handled_by p e = handles (op_handlers p) e"

definition sent_by :: "operation \<Rightarrow> endpoint \<Rightarrow> bool" where
  "sent_by p e = handled_by p (peer e)"

definition handler_interface :: "operation \<Rightarrow> string" where
  "handler_interface p = op_name p @ ''Handler''"

type_synonym op_table = "((string \<times> op_kind) \<times> operation) list"

section \<open>Building the operations\<close>

datatype role = ParamsRole | ResultRole

datatype gen_panic =
    NoEndpointMapping string string
  | NoRole string string
  | MixedSides string op_kind string string
  | TwoDefinitions string op_kind role string string
  | NoParams string op_kind
  | NoResponse string op_kind
  | TypeCollision string string string
  | IdentifierCollision string string string
  | MethodCollision string string string

definition role_of :: "string \<Rightarrow> (role \<times> op_kind) option" where
  "role_of type_name =
     (if has_suffix type_name ''Request'' then Some (ParamsRole, Request)
      else if has_suffix type_name ''Response'' then Some (ResultRole, Request)
      else if has_suffix type_name ''Notification'' then Some (ParamsRole, Notification)
      else None)"

definition new_operation :: "string \<Rightarrow> op_kind \<Rightarrow> string \<Rightarrow> endpoint list \<Rightarrow> operation" where
  "new_operation m k side handlers =
     \<lparr>op_method = m, op_kind = k, op_side = side, op_handlers = handlers, op_const = [], op_name = [],
      op_params = [], op_result = [], op_description = []\<rparr>"

fun target :: "role \<Rightarrow> operation \<Rightarrow> string" where
  "target ParamsRole p = op_params p"
| "target ResultRole p = op_result p"

text \<open>\<open>*target = typeName\<close>, and the description that goes with the parameters.\<close>

fun fill_target :: "role \<Rightarrow> string \<Rightarrow> string \<Rightarrow> operation \<Rightarrow> operation" where
  "fill_target ParamsRole t desc p = p\<lparr>op_params := t, op_description := desc\<rparr>"
| "fill_target ResultRole t desc p = p\<lparr>op_result := t\<rparr>"

definition entry :: "(string \<times> string) list \<Rightarrow> string \<Rightarrow> string" where
  "entry names n = (case map_of names n of Some v \<Rightarrow> v | None \<Rightarrow> [])"

text \<open>The body of the loop over the sorted definitions.\<close>

definition add_definition ::
  "(string \<times> string) list \<Rightarrow> (string \<times> string) list \<Rightarrow> string \<times> schema \<Rightarrow> op_table \<Rightarrow> gen_panic + op_table" where
  "add_definition type_names descriptions d tbl =
     (let m = string_extra (snd d) ''x-method'';
          side = string_extra (snd d) ''x-side'';
          t = entry type_names (fst d) in
      if m = [] then Inr tbl
      else
        (case map_of sides side of
           None \<Rightarrow> Inl (NoEndpointMapping (fst d) side)
         | Some rule \<Rightarrow>
             if handlers_for rule m = [] then Inr tbl
             else
               (case role_of t of
                  None \<Rightarrow> Inl (NoRole (fst d) m)
                | Some (role, k) \<Rightarrow>
                    let p = (case map_of tbl (m, k) of
                               Some p \<Rightarrow> p | None \<Rightarrow> new_operation m k side (handlers_for rule m)) in
                    if op_side p \<noteq> side then Inl (MixedSides m k (op_side p) side)
                    else if target role p \<noteq> [] then Inl (TwoDefinitions m k role (target role p) t)
                    else Inr (AList.update (m, k) (fill_target role t (entry descriptions (fst d)) p) tbl))))"

definition complete :: "operation \<Rightarrow> unit \<Rightarrow> gen_panic + unit" where
  "complete p u =
     (if op_params p = [] then Inl (NoParams (op_method p) (op_kind p))
      else if op_kind p = Request \<and> op_result p = [] then Inl (NoResponse (op_method p) (op_kind p))
      else Inr ())"

section \<open>Names\<close>

text \<open>\<open>assignNames\<close>: a constant for each method, and a method name for each operation.\<close>

definition const_names :: "string list \<Rightarrow> (string \<times> string) list" where
  "const_names methods =
     zip methods (name_all unique_name (map (\<lambda>m. ''Method'' @ pascal_identifier m) methods) [])"

definition assign_name :: "(string \<times> string) list \<Rightarrow> op_table \<Rightarrow> operation \<Rightarrow> operation" where
  "assign_name consts tbl p =
     (let c = entry consts (op_method p) in
      p\<lparr>op_const := c,
        op_name := trim_prefix c ''Method''
          @ (if op_kind p = Notification \<and> map_of tbl (op_method p, Request) \<noteq> None
             then ''Notification'' else [])\<rparr>)"

definition assign_names :: "op_table \<Rightarrow> operation list" where
  "assign_names tbl =
     (let consts = const_names (sort (remdups (map (op_method \<circ> snd) tbl))) in
      map (assign_name consts tbl \<circ> snd) tbl)"

text \<open>\<open>validateNames\<close>: the state is the methods and the identifiers declared so far.\<close>

definition declare_identifier ::
  "(string \<times> string) list \<Rightarrow> string \<Rightarrow> string \<Rightarrow> (string \<times> string) list \<Rightarrow> gen_panic + (string \<times> string) list" where
  "declare_identifier types identifier owner identifiers =
     (case map_of types identifier of
        Some raw \<Rightarrow> Inl (TypeCollision owner identifier raw)
      | None \<Rightarrow>
          (case map_of identifiers identifier of
             Some prev \<Rightarrow> if prev \<noteq> owner then Inl (IdentifierCollision prev owner identifier)
                          else Inr ((identifier, owner) # identifiers)
           | None \<Rightarrow> Inr ((identifier, owner) # identifiers)))"

definition validate_operation ::
  "(string \<times> string) list \<Rightarrow> operation \<Rightarrow> (string \<times> string) list \<times> (string \<times> string) list
     \<Rightarrow> gen_panic + (string \<times> string) list \<times> (string \<times> string) list" where
  "validate_operation types p st =
     (case map_of (fst st) (op_name p) of
        Some prev \<Rightarrow> Inl (MethodCollision prev (op_string p) (op_name p))
      | None \<Rightarrow>
          or_panic (declare_identifier types (op_const p) (op_method p) (snd st)) (\<lambda>ids.
          or_panic (declare_identifier types (handler_interface p) (op_string p) ids) (\<lambda>ids'.
          Inr ((op_name p, op_string p) # fst st, ids'))))"

definition validate_names :: "operation list \<Rightarrow> (string \<times> string) list \<Rightarrow> gen_panic + unit" where
  "validate_names ops types =
     or_panic (each (validate_operation types) ops ([], [])) (\<lambda>_. Inr ())"

section \<open>Descriptions\<close>

text \<open>\<open>envelopeDescriptions\<close>: the first description found for each payload definition.\<close>

definition describe :: "schema \<Rightarrow> (string \<times> string) list \<Rightarrow> (string \<times> string) list" where
  "describe variant descriptions =
     (case sc_all_of variant of
        [r] \<Rightarrow>
          if sc_ref r = [] \<or> sc_description variant = [] then descriptions
          else if map_of descriptions (ref_name (sc_ref r)) \<noteq> None then descriptions
          else (ref_name (sc_ref r), sc_description variant) # descriptions
      | _ \<Rightarrow> descriptions)"

definition envelope_variants :: "schema \<Rightarrow> schema list" where
  "envelope_variants d =
     (if map_of (kw_extra (sc_keywords d)) ''x-method'' \<notin> {None, Some ValNull} then []
      else (case map_of (sc_properties d) ''params'' of
              None \<Rightarrow> []
            | Some p \<Rightarrow> concat (map sc_any_of (sc_any_of p))))"

definition envelope_descriptions :: "document \<Rightarrow> (string \<times> string) list" where
  "envelope_descriptions doc =
     fold describe (concat (map (envelope_variants \<circ> snd) (sort_key fst (doc_defs doc)))) []"

section \<open>The whole\<close>

definition type_names :: "document \<Rightarrow> (string \<times> string) list" where
  "type_names doc =
     (let raws = sort (map fst (doc_defs doc)) in
      zip raws (name_all unique_const_name (map wanted_definition raws) []))"

lemma map_of_type_names:
  "distinct (map fst (doc_defs doc)) \<Longrightarrow> map_of (type_names doc) = definition_names (map fst (doc_defs doc))"
  by (simp add: type_names_def definition_names_def name_map_zip Let_def map_of_inject_set
      const_namer.name_all_length map_fst_zip flip: rev_map)

text \<open>The inverse of the map of type names.\<close>

definition named_types :: "document \<Rightarrow> (string \<times> string) list" where
  "named_types doc = map (\<lambda>(raw, name). (name, raw)) (type_names doc)"

definition operation_table :: "document \<Rightarrow> gen_panic + op_table" where
  "operation_table doc =
     each (add_definition (type_names doc) (envelope_descriptions doc)) (sort_key fst (doc_defs doc)) []"

definition order_operations :: "operation list \<Rightarrow> operation list" where
  "order_operations = sort_key (\<lambda>p. (op_const p, op_kind p))"

definition operations :: "document \<Rightarrow> gen_panic + operation list" where
  "operations doc =
     or_panic (operation_table doc) (\<lambda>tbl.
     or_panic (each complete (map snd tbl) ()) (\<lambda>_.
     let ops = order_operations (assign_names tbl) in
     or_panic (validate_names ops (named_types doc)) (\<lambda>_. Inr ops)))"

end
