(* ===== verification/Rpcgen_Props.thy ===== *)
theory Rpcgen_Props
  imports Rpcgen
begin

text \<open>
  What the list of operations guarantees: every definition with a method has its place in
  exactly one operation, or the generator panics; and the identifiers the operations declare
  are different from each other and from the names of the types.
\<close>

section \<open>The table of operations\<close>

definition operation_ok :: "string \<times> op_kind \<Rightarrow> operation \<Rightarrow> bool" where
  "operation_ok key p =
     (op_method p = fst key \<and> op_kind p = snd key
      \<and> (\<exists>rule. map_of sides (op_side p) = Some rule \<and> op_handlers p = handlers_for rule (fst key)
           \<and> op_handlers p \<noteq> []))"

definition table_ok :: "op_table \<Rightarrow> bool" where
  "table_ok tbl = (distinct (map fst tbl) \<and> (\<forall>key p. map_of tbl key = Some p \<longrightarrow> operation_ok key p))"

lemma fill_target_keeps [simp]:
  "op_method (fill_target r t desc p) = op_method p"
  "op_kind (fill_target r t desc p) = op_kind p"
  "op_side (fill_target r t desc p) = op_side p"
  "op_handlers (fill_target r t desc p) = op_handlers p"
  by (cases r; simp)+

lemma target_fill [simp]: "target r' (fill_target r t desc p) = (if r' = r then t else target r' p)"
  by (cases r; cases r') simp_all

lemma operation_ok_fill [simp]: "operation_ok key (fill_target r t desc p) = operation_ok key p"
  by (simp add: operation_ok_def)

text \<open>A step that returns either passes a definition by or updates one entry of the table.\<close>

definition slot :: "op_table \<Rightarrow> string \<Rightarrow> op_kind \<Rightarrow> string \<Rightarrow> side_rule \<Rightarrow> operation" where
  "slot tbl m k side rule =
     (case map_of tbl (m, k) of Some p \<Rightarrow> p | None \<Rightarrow> new_operation m k side (handlers_for rule m))"

definition passed_by :: "schema \<Rightarrow> bool" where
  "passed_by s =
     (string_extra s ''x-method'' = []
      \<or> (\<exists>rule. map_of sides (string_extra s ''x-side'') = Some rule \<and> handlers_for rule (string_extra s ''x-method'') = []))"

lemma add_definition_cases:
  assumes "add_definition tn ds d tbl = Inr tbl'"
  obtains (passed) "passed_by (snd d)" "tbl' = tbl"
  | (added) rule r k p where "string_extra (snd d) ''x-method'' \<noteq> []"
      "map_of sides (string_extra (snd d) ''x-side'') = Some rule"
      "handlers_for rule (string_extra (snd d) ''x-method'') \<noteq> []"
      "role_of (entry tn (fst d)) = Some (r, k)"
      "p = slot tbl (string_extra (snd d) ''x-method'') k (string_extra (snd d) ''x-side'') rule"
      "op_side p = string_extra (snd d) ''x-side''" "target r p = []"
      "tbl' = AList.update (string_extra (snd d) ''x-method'', k)
                (fill_target r (entry tn (fst d)) (entry ds (fst d)) p) tbl"
proof (cases "string_extra (snd d) ''x-method'' = []")
  case True
  with assms passed show ?thesis by (simp add: add_definition_def passed_by_def)
next
  case m: False
  show ?thesis
  proof (cases "map_of sides (string_extra (snd d) ''x-side'')")
    case None
    with assms m show ?thesis by (simp add: add_definition_def)
  next
    case rule: (Some rule)
    show ?thesis
    proof (cases "handlers_for rule (string_extra (snd d) ''x-method'') = []")
      case True
      with assms m rule passed show ?thesis by (simp add: add_definition_def passed_by_def)
    next
      case hs: False
      show ?thesis
      proof (cases "role_of (entry tn (fst d))")
        case None
        with assms m rule hs show ?thesis by (simp add: add_definition_def)
      next
        case (Some rk)
        obtain r k where rk: "rk = (r, k)" by fastforce
        show ?thesis
          by (rule added [of rule r k]) (use assms m rule hs Some rk in
            \<open>auto simp: add_definition_def slot_def Let_def split: if_splits\<close>)
      qed
    qed
  qed
qed

lemma table_ok_entry: "table_ok tbl \<Longrightarrow> map_of tbl key = Some p \<Longrightarrow> operation_ok key p"
  unfolding table_ok_def by blast

lemma slot_ok:
  assumes "table_ok tbl" "map_of sides side = Some rule" "handlers_for rule m \<noteq> []"
  shows "operation_ok (m, k) (slot tbl m k side rule)"
proof (cases "map_of tbl (m, k)")
  case None
  with assms show ?thesis by (simp add: slot_def operation_ok_def new_operation_def)
next
  case (Some p)
  with table_ok_entry [OF assms(1)] show ?thesis by (simp add: slot_def)
qed

lemma add_definition_ok:
  assumes "table_ok tbl" "add_definition tn ds d tbl = Inr tbl'"
  shows "table_ok tbl'"
  using assms(2)
proof (cases rule: add_definition_cases)
  case passed
  with assms(1) show ?thesis by simp
next
  case (added rule r k p)
  with slot_ok [OF assms(1) added(2,3)] assms(1) show ?thesis
    by (simp add: table_ok_def distinct_update update_conv')
qed

lemma operation_table_ok: "operation_table doc = Inr tbl \<Longrightarrow> table_ok tbl"
  unfolding operation_table_def
  by (erule each_invariant [where I = table_ok]) (simp add: table_ok_def, rule add_definition_ok)

text \<open>Where a definition's type name ends up, which later steps do not change.\<close>

definition recorded :: "string \<Rightarrow> string \<Rightarrow> string \<Rightarrow> op_table \<Rightarrow> bool" where
  "recorded m t side tbl =
     (\<exists>r k p. role_of t = Some (r, k) \<and> map_of tbl (m, k) = Some p \<and> target r p = t \<and> op_side p = side)"

lemma role_of_nonempty: "role_of t = Some rk \<Longrightarrow> t \<noteq> []"
  by (auto simp: role_of_def has_suffix_def)

lemma recorded_kept:
  assumes "recorded m t side tbl" "add_definition tn ds d tbl = Inr tbl'"
  shows "recorded m t side tbl'"
proof -
  from assms(1) obtain r k p where p: "role_of t = Some (r, k)" "map_of tbl (m, k) = Some p" "target r p = t" "op_side p = side"
    by (auto simp: recorded_def)
  from assms(2) show ?thesis
  proof (cases rule: add_definition_cases)
    case passed
    with assms(1) show ?thesis by simp
  next
    case (added rule' r' k' p')
    show ?thesis
    proof (cases "(string_extra (snd d) ''x-method'', k') = (m, k)")
      case False
      with p added show ?thesis by (auto simp: recorded_def update_conv')
    next
      case True
      with added p(2) have "p' = p" by (simp add: slot_def)
      with added(7) p(1,3) have "r' \<noteq> r" using role_of_nonempty by auto
      with True added(8) p \<open>p' = p\<close> show ?thesis by (auto simp: recorded_def update_conv')
    qed
  qed
qed

lemma definition_recorded:
  assumes "operation_table doc = Inr tbl" "(n, s) \<in> set (doc_defs doc)" "string_extra s ''x-method'' \<noteq> []"
  shows "\<exists>rule. map_of sides (string_extra s ''x-side'') = Some rule
    \<and> (handlers_for rule (string_extra s ''x-method'') = []
       \<or> recorded (string_extra s ''x-method'') (entry (type_names doc) n) (string_extra s ''x-side'') tbl)"
  using assms(1) unfolding operation_table_def
proof (rule each_reaches [where x = "(n, s)"])
  show "(n, s) \<in> set (sort_key fst (doc_defs doc))" using assms(2) by simp
next
  fix tbl tbl'
  assume "add_definition (type_names doc) (envelope_descriptions doc) (n, s) tbl = Inr tbl'"
  then show "\<exists>rule. map_of sides (string_extra s ''x-side'') = Some rule
    \<and> (handlers_for rule (string_extra s ''x-method'') = []
       \<or> recorded (string_extra s ''x-method'') (entry (type_names doc) n) (string_extra s ''x-side'') tbl')"
  proof (cases rule: add_definition_cases)
    case passed
    with assms(3) show ?thesis by (auto simp: passed_by_def)
  next
    case (added rule r k p)
    then show ?thesis by (auto simp: recorded_def update_conv')
  qed
qed (use recorded_kept in blast)

section \<open>From the table to the list\<close>

lemma operations_from:
  assumes "operations doc = Inr ops"
  obtains tbl where "operation_table doc = Inr tbl" "table_ok tbl" "ops = order_operations (assign_names tbl)"
    "each complete (map snd tbl) () = Inr ()" "validate_names ops (named_types doc) = Inr ()"
  using assms unfolding operations_def or_panic_Inr Let_def
  by (auto intro: operation_table_ok)

lemma assign_name_keeps [simp]:
  "op_method (assign_name c tbl p) = op_method p"
  "op_kind (assign_name c tbl p) = op_kind p"
  "op_side (assign_name c tbl p) = op_side p"
  "op_handlers (assign_name c tbl p) = op_handlers p"
  "op_params (assign_name c tbl p) = op_params p"
  "op_result (assign_name c tbl p) = op_result p"
  by (simp_all add: assign_name_def Let_def)

lemma target_assign_name [simp]: "target r (assign_name c tbl p) = target r p"
  by (cases r) simp_all

abbreviation consts_of_table :: "op_table \<Rightarrow> (string \<times> string) list" where
  "consts_of_table tbl \<equiv> const_names (sort (remdups (map (op_method \<circ> snd) tbl)))"

lemma set_ordered: "set (order_operations (assign_names tbl)) = (assign_name (consts_of_table tbl) tbl \<circ> snd) ` set tbl"
  by (simp add: order_operations_def assign_names_def Let_def)

lemma ordered_elem:
  assumes "table_ok tbl" "p \<in> set (order_operations (assign_names tbl))"
  obtains q where "map_of tbl (op_method p, op_kind p) = Some q" "p = assign_name (consts_of_table tbl) tbl q"
proof -
  from assms(2) obtain key q where q: "(key, q) \<in> set tbl" "p = assign_name (consts_of_table tbl) tbl q"
    unfolding set_ordered by auto
  with assms(1) have "map_of tbl key = Some q" by (simp add: table_ok_def)
  moreover from this have "operation_ok key q" using assms(1) table_ok_entry by blast
  ultimately show thesis using q(2) by (intro that) (auto simp: operation_ok_def)
qed

lemma ordered_unique:
  assumes "table_ok tbl" "p \<in> set (order_operations (assign_names tbl))" "q \<in> set (order_operations (assign_names tbl))"
    and "op_method p = op_method q" "op_kind p = op_kind q"
  shows "p = q"
  using assms by (metis ordered_elem option.inject)

text \<open>
  C27: the RPC methods of a schema. If the generator does not panic, every definition with a
  method has a side with a mapping; and if that side has endpoints that handle the method,
  the definition is the parameters or the result of exactly one operation of that method,
  as its name says, and that operation has the side and the handlers of the mapping.
\<close>

theorem definitions_become_operations:
  assumes "operations doc = Inr ops" "(n, s) \<in> set (doc_defs doc)" "string_extra s ''x-method'' \<noteq> []"
  shows "\<exists>rule. map_of sides (string_extra s ''x-side'') = Some rule
    \<and> (handlers_for rule (string_extra s ''x-method'') = []
       \<or> (\<exists>r k. role_of (entry (type_names doc) n) = Some (r, k)
          \<and> (\<exists>!p. p \<in> set ops \<and> op_method p = string_extra s ''x-method'' \<and> op_kind p = k)
          \<and> (\<exists>p \<in> set ops. op_method p = string_extra s ''x-method'' \<and> op_kind p = k
               \<and> target r p = entry (type_names doc) n \<and> op_side p = string_extra s ''x-side''
               \<and> op_handlers p = handlers_for rule (string_extra s ''x-method''))))"
proof -
  let ?m = "string_extra s ''x-method''" and ?side = "string_extra s ''x-side''" and ?t = "entry (type_names doc) n"
  obtain tbl where tbl: "operation_table doc = Inr tbl" "table_ok tbl" "ops = order_operations (assign_names tbl)"
    using assms(1) by (rule operations_from)
  from definition_recorded [OF tbl(1) assms(2,3)] obtain rule where rule: "map_of sides ?side = Some rule"
    and r: "handlers_for rule ?m = [] \<or> recorded ?m ?t ?side tbl"
    by blast
  from r show ?thesis
  proof
    assume "handlers_for rule ?m = []"
    with rule show ?thesis by blast
  next
    assume "recorded ?m ?t ?side tbl"
    then obtain r k q where q: "role_of ?t = Some (r, k)" "map_of tbl (?m, k) = Some q" "target r q = ?t" "op_side q = ?side"
      by (auto simp: recorded_def)
    let ?p = "assign_name (consts_of_table tbl) tbl q"
    from table_ok_entry [OF tbl(2) q(2)] q rule
    have p: "op_method ?p = ?m" "op_kind ?p = k" "target r ?p = ?t" "op_side ?p = ?side" "op_handlers ?p = handlers_for rule ?m"
      by (auto simp: operation_ok_def)
    have in_ops: "?p \<in> set ops" unfolding tbl(3) set_ordered using q(2) by (force dest: map_of_SomeD)
    with p ordered_unique [OF tbl(2)] tbl(3) have "\<exists>!p. p \<in> set ops \<and> op_method p = ?m \<and> op_kind p = k"
      by metis
    with rule q(1) p in_ops show ?thesis by blast
  qed
qed

text \<open>A schema with a method in both forms, and a protocol-level notification that no endpoint handles.\<close>

definition rpc_payload :: "string \<Rightarrow> string \<Rightarrow> schema" where
  "rpc_payload m side = leaf (no_keywords\<lparr>kw_extra := [(''x-method'', ValString m), (''x-side'', ValString side)]\<rparr>)"

definition small_rpc :: document where
  "small_rpc =
     \<lparr>doc_any_of = [],
      doc_defs = [(''PingNotification'', rpc_payload ''ping'' ''both''), (''PingRequest'', rpc_payload ''ping'' ''both''),
                  (''PingResponse'', rpc_payload ''ping'' ''both''), (''StopNotification'', rpc_payload ''$/stop'' ''protocol'')]\<rparr>"

definition small_ops :: "operation list" where
  "small_ops =
     [\<lparr>op_method = ''ping'', op_kind = Request, op_side = ''both'', op_handlers = [agent_endpoint, client_endpoint],
       op_const = ''MethodPing'', op_name = ''Ping'', op_params = ''PingRequest'', op_result = ''PingResponse'', op_description = []\<rparr>,
      \<lparr>op_method = ''ping'', op_kind = Notification, op_side = ''both'', op_handlers = [agent_endpoint, client_endpoint],
       op_const = ''MethodPing'', op_name = ''PingNotification'', op_params = ''PingNotification'', op_result = [], op_description = []\<rparr>]"

lemma small_operations: "operations small_rpc = Inr small_ops"
  by code_simp

theorem definitions_become_operations_witness:
  "\<exists>p \<in> set small_ops. op_method p = ''ping'' \<and> op_result p = ''PingResponse''"
proof -
  have "(''PingResponse'', rpc_payload ''ping'' ''both'') \<in> set (doc_defs small_rpc)"
    by (simp add: small_rpc_def)
  from definitions_become_operations [OF small_operations this]
  obtain rule where rule: "map_of sides ''both'' = Some rule"
    and c: "handlers_for rule ''ping'' = [] \<or>
      (\<exists>r k. role_of (entry (type_names small_rpc) ''PingResponse'') = Some (r, k)
        \<and> (\<exists>p \<in> set small_ops. op_method p = ''ping'' \<and> target r p = entry (type_names small_rpc) ''PingResponse''))"
    by (auto simp: rpc_payload_def leaf_def no_keywords_def string_extra_def)
  have "map_of sides ''both'' = Some \<lparr>rule_handlers = [agent_endpoint, client_endpoint], rule_methods = []\<rparr>"
    "entry (type_names small_rpc) ''PingResponse'' = ''PingResponse''" "role_of ''PingResponse'' = Some (ResultRole, Request)"
    by code_simp+
  with rule c show ?thesis by (auto simp: handlers_for_def)
qed

section \<open>Names of operations\<close>

lemma zip_lookup:
  assumes "distinct ks" "distinct vs" "length ks = length vs"
  shows "k \<in> set ks \<Longrightarrow> \<exists>v. map_of (zip ks vs) k = Some v \<and> (k, v) \<in> set (zip ks vs)"
    and "map_of (zip ks vs) k = Some v \<Longrightarrow> map_of (zip ks vs) k' = Some v \<Longrightarrow> k = k'"
proof -
  show "\<exists>v. map_of (zip ks vs) k = Some v \<and> (k, v) \<in> set (zip ks vs)" if "k \<in> set ks"
    using that assms(3) by (metis map_of_SomeD map_of_zip_is_Some)
  show "k = k'" if "map_of (zip ks vs) k = Some v" "map_of (zip ks vs) k' = Some v"
    using that assms by (auto dest!: map_of_SomeD simp: in_set_zip nth_eq_iff_index_eq)
qed

lemma name_all_zip_form:
  "(r, c) \<in> set (zip rs (name_all unique_name (map g rs) used)) \<Longrightarrow> c = g r \<or> (\<exists>j. c = g r @ show_nat j)"
proof (induction rs arbitrary: used)
  case Nil
  then show ?case by simp
next
  case (Cons a rs)
  have "fst (unique_name (g a) used) = g a \<or> (\<exists>j. fst (unique_name (g a) used) = g a @ show_nat j)"
    using suffixed_form [of 2 "g a" used] by (auto simp: unique_name_eq unique_const_name_def Let_def)
  with Cons show ?case by (auto split: prod.splits)
qed

lemma const_names_facts:
  assumes "distinct ms" "m \<in> set ms"
  shows "entry (const_names ms) m = ''Method'' @ pascal_identifier m
      \<or> (\<exists>j. entry (const_names ms) m = ''Method'' @ pascal_identifier m @ show_nat j)"
    and "m' \<in> set ms \<Longrightarrow> entry (const_names ms) m = entry (const_names ms) m' \<Longrightarrow> m = m'"
proof -
  let ?ns = "name_all unique_name (map (\<lambda>m. ''Method'' @ pascal_identifier m) ms) []"
  have ns: "distinct ?ns" "length ms = length ?ns"
    by (simp_all add: rpc_namer.name_all_distinct rpc_namer.name_all_length)
  note look = zip_lookup [OF assms(1) ns]
  from look(1) [OF assms(2)] obtain v where v: "map_of (zip ms ?ns) m = Some v" "(m, v) \<in> set (zip ms ?ns)" by blast
  then have e: "entry (const_names ms) m = v" by (simp add: entry_def const_names_def)
  from name_all_zip_form [OF v(2)] show "entry (const_names ms) m = ''Method'' @ pascal_identifier m
      \<or> (\<exists>j. entry (const_names ms) m = ''Method'' @ pascal_identifier m @ show_nat j)"
    unfolding e by simp
  show "m = m'" if m': "m' \<in> set ms" "entry (const_names ms) m = entry (const_names ms) m'"
  proof -
    from look(1) [OF m'(1)] obtain v' where v': "map_of (zip ms ?ns) m' = Some v'" by blast
    then have "entry (const_names ms) m' = v'" by (simp add: entry_def const_names_def)
    with e m'(2) v v' show ?thesis using look(2) by metis
  qed
qed

lemma ordered_const:
  assumes "p \<in> set (order_operations (assign_names tbl))"
  shows "op_const p = entry (consts_of_table tbl) (op_method p)"
    and "op_method p \<in> set (sort (remdups (map (op_method \<circ> snd) tbl)))"
  using assms unfolding set_ordered by (force simp: assign_name_def Let_def)+

lemma consts_match_methods:
  assumes "p \<in> set (order_operations (assign_names tbl))" "q \<in> set (order_operations (assign_names tbl))"
  shows "op_const p = op_const q \<longleftrightarrow> op_method p = op_method q"
  using const_names_facts(2) [OF _ ordered_const(2) [OF assms(1)] ordered_const(2) [OF assms(2)]]
  by (auto simp: ordered_const(1) [OF assms(1)] ordered_const(1) [OF assms(2)])

lemma pascal_last_word:
  assumes "\<forall>c \<in> set w. is_letter c"
  shows "w \<noteq> [] \<Longrightarrow> pascal_words (s @ CHR '' '' # w) word = pascal_words s word @ [w]"
proof -
  have alpha: "pascal_words u v = [v @ u]" if "\<forall>c \<in> set u. is_letter c" "v @ u \<noteq> []" for u v
    using that by (induction u arbitrary: v) auto
  have "\<not> is_letter (CHR '' '')" "\<not> is_digit (CHR '' '')" by code_simp+
  with alpha [of w "[]"] assms show "w \<noteq> [] \<Longrightarrow> pascal_words (s @ CHR '' '' # w) word = pascal_words s word @ [w]"
    by (induction s word rule: pascal_words.induct) auto
qed

lemma pascal_op_string:
  "\<exists>t. pascal_identifier (op_string q) = t @ (if op_kind q = Notification then ''Notification'' else ''Request'')"
proof -
  have "\<forall>c \<in> set ''request''. is_letter c" "\<forall>c \<in> set ''notification''. is_letter c"
    "upper_first ''request'' = ''Request''" "upper_first ''notification'' = ''Notification''"
    by code_simp+
  with pascal_last_word [of "''request''" "op_method q" "[]"] pascal_last_word [of "''notification''" "op_method q" "[]"]
  show ?thesis by (simp add: op_string_def kind_string_def pascal_identifier_def)
qed

lemma const_not_interface:
  assumes "p \<in> set (order_operations (assign_names tbl))" "op_method p = op_string q"
  shows "op_const p \<noteq> handler_interface q"
proof
  assume eq: "op_const p = handler_interface q"
  obtain t where t: "pascal_identifier (op_method p) = t @ (if op_kind q = Notification then ''Notification'' else ''Request'')"
    using pascal_op_string [of q] assms(2) by auto
  have "is_digit (last (show_nat j))" for j
    using show_nat_digits [of j] by simp
  with const_names_facts(1) [OF _ ordered_const(2) [OF assms(1)]]
  have "last (op_const p) \<in> {CHR ''n'', CHR ''t''} \<or> is_digit (last (op_const p))"
    unfolding ordered_const(1) [OF assms(1)] t by (auto split: if_splits)
  moreover have "last (op_const p) = CHR ''r''" by (simp add: eq handler_interface_def)
  moreover have "\<not> is_digit (CHR ''r'')" by code_simp
  ultimately show False by auto
qed

section \<open>Validation\<close>

lemma declare_identifier_Inr:
  "declare_identifier types i w ids = Inr ids' \<longleftrightarrow>
     ids' = (i, w) # ids \<and> map_of types i = None \<and> (\<forall>v. map_of ids i = Some v \<longrightarrow> v = w)"
  by (auto simp: declare_identifier_def split: option.splits)

lemma validate_operation_Inr:
  "validate_operation types p st = Inr st' \<longleftrightarrow>
     (\<exists>ids ids'. map_of (fst st) (op_name p) = None
        \<and> declare_identifier types (op_const p) (op_method p) (snd st) = Inr ids
        \<and> declare_identifier types (handler_interface p) (op_string p) ids = Inr ids'
        \<and> st' = ((op_name p, op_string p) # fst st, ids'))"
  by (auto simp: validate_operation_def or_panic_Inr split: option.splits)

definition declared :: "(string \<times> string) list \<Rightarrow> operation \<Rightarrow> (string \<times> string) list \<Rightarrow> bool" where
  "declared types p ids =
     (map_of ids (op_const p) = Some (op_method p) \<and> map_of ids (handler_interface p) = Some (op_string p)
      \<and> map_of types (op_const p) = None \<and> map_of types (handler_interface p) = None)"

lemma declared_kept:
  assumes "declared types p (snd st)" "validate_operation types q st = Inr st'"
  shows "declared types p (snd st')"
  using assms unfolding validate_operation_Inr declare_identifier_Inr declared_def by auto

lemma declared_now:
  assumes "validate_operation types p st = Inr st'"
  shows "declared types p (snd st')"
  using assms unfolding validate_operation_Inr declare_identifier_Inr declared_def
  by (auto split: if_splits)

lemma validated_declared:
  "each (validate_operation types) ops st = Inr st' \<Longrightarrow> p \<in> set ops \<Longrightarrow> declared types p (snd st')"
  by (rule each_reaches [where P = "\<lambda>st. declared types p (snd st)"]) (auto intro: declared_now declared_kept)

lemma validated_distinct:
  assumes "each (validate_operation types) ops st = Inr st'"
  shows "distinct (map op_name ops) \<and> (\<forall>p \<in> set ops. map_of (fst st) (op_name p) = None)"
  using assms
proof (induction ops arbitrary: st)
  case Nil
  then show ?case by simp
next
  case (Cons p ops)
  from Cons.prems obtain st1 where st1: "validate_operation types p st = Inr st1" "each (validate_operation types) ops st1 = Inr st'"
    by (auto simp: each_Cons_Inr simp del: each.simps)
  then have "fst st1 = (op_name p, op_string p) # fst st" "map_of (fst st) (op_name p) = None"
    by (auto simp: validate_operation_Inr)
  with Cons.IH [OF st1(2)] show ?case by (auto split: if_splits)
qed

text \<open>
  C28: the identifiers of the generated RPC code. If the generator does not panic, the methods
  of a connection type have different names and so have the handler interfaces; two
  operations share a constant exactly if they share the method; and no constant or interface
  has the name of another one or of a generated type.
\<close>

theorem operation_names_unique:
  assumes "operations doc = Inr ops"
  shows "distinct (map op_name ops) \<and> distinct (map handler_interface ops)
    \<and> (\<forall>p \<in> set ops. \<forall>q \<in> set ops.
         (op_const p = op_const q \<longleftrightarrow> op_method p = op_method q) \<and> op_const p \<noteq> handler_interface q)
    \<and> (\<forall>p \<in> set ops. {op_const p, handler_interface p} \<inter> set (map snd (type_names doc)) = {})"
proof -
  obtain tbl where tbl: "table_ok tbl" "ops = order_operations (assign_names tbl)"
    and v: "validate_names ops (named_types doc) = Inr ()"
    using assms by (rule operations_from)
  from v obtain st where st: "each (validate_operation (named_types doc)) ops ([], []) = Inr st"
    by (auto simp: validate_names_def or_panic_Inr)
  note decl = validated_declared [OF st]
  have d: "distinct (map op_name ops)" using validated_distinct [OF st] by blast
  have "map handler_interface ops = map (\<lambda>n. n @ ''Handler'') (map op_name ops)"
    by (simp add: handler_interface_def)
  with d have "distinct (map handler_interface ops)"
    by (simp only: distinct_map) (auto simp: inj_on_def)
  moreover have "op_const p \<noteq> handler_interface q" if "p \<in> set ops" "q \<in> set ops" for p q
    using const_not_interface [of p tbl q] decl [OF that(1)] decl [OF that(2)] that(1) tbl(2)
    by (auto simp: declared_def)
  moreover have "{op_const p, handler_interface p} \<inter> set (map snd (type_names doc)) = {}" if "p \<in> set ops" for p
  proof -
    have "set (map snd (type_names doc)) = dom (map_of (named_types doc))"
      by (simp add: named_types_def dom_map_of_conv_image_fst image_image split_beta)
    with decl [OF that] show ?thesis by (auto simp: declared_def)
  qed
  ultimately show ?thesis
    using d consts_match_methods [of _ tbl] tbl(2) by blast
qed

theorem operation_names_unique_witness:
  "distinct (map op_name small_ops) \<and> ''MethodPing'' \<notin> set (map snd (type_names small_rpc))"
  using operation_names_unique [OF small_operations] by (simp add: small_ops_def)

end
