(* ===== verification/Rpcgen_Code.thy ===== *)
theory Rpcgen_Code
  imports Rpcgen_Props Rpc
begin

text \<open>
  The code rpcgen emits (internal/schemagen/rpcgen/gen.go), as the syntax the calls of the
  package jennifer build: the constants and handler interfaces of methods_gen.go, the methods
  of a connection type and its dispatch function; what the dispatch code does when it runs;
  and that it does what the operations say. Comments and formatting are left out, and so is the
  call of \<open>jsonrpc2.Async\<close> at the top of a dispatch function, which changes no result.
\<close>

section \<open>The emitted syntax\<close>

text \<open>The statements of a dispatch function; \<open>MethodCall\<close> is the one method of an interface, \<open>h.name(ctx, params)\<close>.\<close>

datatype statement =
    AssertHandler string
  | IfNotOkNotFound
  | DecodeParams string
  | IfErrReturn
  | ReturnNilCall string
  | ReturnResultOfCall string
  | IfIsCall "statement list"
  | ReturnExtension

text \<open>The one method of a handler interface: its name, and the types of parameter and result.\<close>

record interface_decl =
  id_name :: string
  id_method :: string
  id_params :: string
  id_result :: "string option"

datatype method_body = ReturnNotify string | ReturnCall string string

record method_decl =
  md_receiver :: string
  md_name :: string
  md_params :: string
  md_result :: "string option"
  md_body :: method_body

record dispatch_decl =
  dd_name :: string
  dd_cases :: "(string \<times> statement list) list"
  dd_default :: "statement list"

section \<open>Emission\<close>

text \<open>\<open>methodsFile\<close>: each constant once, with the method it stands for; the interfaces.\<close>

fun method_consts :: "operation list \<Rightarrow> string list \<Rightarrow> (string \<times> string) list" where
  "method_consts [] seen = []"
| "method_consts (p # ops) seen =
     (if op_const p \<in> set seen then method_consts ops seen
      else (op_const p, op_method p) # method_consts ops (op_const p # seen))"

definition handler_method :: "operation \<Rightarrow> interface_decl" where
  "handler_method p =
     \<lparr>id_name = handler_interface p, id_method = op_name p, id_params = op_params p,
      id_result = (if op_kind p = Notification then None else Some (op_result p))\<rparr>"

definition connection_method :: "endpoint \<Rightarrow> operation \<Rightarrow> method_decl" where
  "connection_method e p =
     \<lparr>md_receiver = ep_conn e, md_name = op_name p, md_params = op_params p,
      md_result = (if op_kind p = Notification then None else Some (op_result p)),
      md_body = (if op_kind p = Notification then ReturnNotify (op_const p)
                 else ReturnCall (op_result p) (op_const p))\<rparr>"

definition connection_methods :: "endpoint \<Rightarrow> operation list \<Rightarrow> method_decl list" where
  "connection_methods e ops = map (connection_method e) (filter (\<lambda>p. sent_by p e) ops)"

definition dispatch_body :: "operation \<Rightarrow> statement list" where
  "dispatch_body p =
     [AssertHandler (handler_interface p), IfNotOkNotFound, DecodeParams (op_params p), IfErrReturn,
      (if op_kind p = Notification then ReturnNilCall (op_name p) else ReturnResultOfCall (op_name p))]"

definition case_body :: "operation list \<Rightarrow> statement list" where
  "case_body handled =
     (if length handled = 2 then IfIsCall (dispatch_body (handled ! 0)) # dispatch_body (handled ! 1)
      else dispatch_body (handled ! 0))"

text \<open>The map \<open>byMethod\<close>, and its keys in order.\<close>

definition by_method :: "endpoint \<Rightarrow> operation list \<Rightarrow> string \<Rightarrow> operation list" where
  "by_method e ops c = filter (\<lambda>p. op_const p = c) (filter (\<lambda>p. handled_by p e) ops)"

definition dispatch_func :: "endpoint \<Rightarrow> operation list \<Rightarrow> dispatch_decl" where
  "dispatch_func e ops =
     \<lparr>dd_name = ep_dispatch e,
      dd_cases = map (\<lambda>c. (c, case_body (by_method e ops c)))
        (sort (remdups (map op_const (filter (\<lambda>p. handled_by p e) ops)))),
      dd_default = [ReturnExtension]\<rparr>"

section \<open>Running a dispatch function\<close>

text \<open>
  What the code of the dispatch function calls: the methods of the application's handler by
  the name of the interface it is asserted to be, the decoders of the parameter types, and
  \<open>handleExtension\<close>.
\<close>

record 'p runtime =
  rt_request :: "string \<Rightarrow> ('p \<Rightarrow> go_value \<times> go_error option) option"
  rt_notify :: "string \<Rightarrow> ('p \<Rightarrow> go_error option) option"
  rt_codec :: "'p codec"
  rt_extension :: "request \<Rightarrow> go_value option \<times> go_error option"

definition implements :: "'p runtime \<Rightarrow> string \<Rightarrow> bool" where
  "implements r i = (rt_request r i \<noteq> None \<or> rt_notify r i \<noteq> None)"

text \<open>
  The local variables \<open>h, ok\<close> and \<open>params, err\<close>. Statements that use a variable before it is
  declared, or that fall off the end, are no Go program and have no result.
\<close>

record 'p locals =
  lo_handler :: "string option"
  lo_params :: "(go_error + 'p) option"

fun run_statements :: "'p runtime \<Rightarrow> request \<Rightarrow> 'p locals \<Rightarrow> statement list \<Rightarrow> (go_value option \<times> go_error option) option" where
  "run_statements r req l [] = None"
| "run_statements r req l (AssertHandler i # rest) =
     run_statements r req (l\<lparr>lo_handler := Some i\<rparr>) rest"
| "run_statements r req l (IfNotOkNotFound # rest) =
     (case lo_handler l of
        None \<Rightarrow> None
      | Some i \<Rightarrow>
          if implements r i then run_statements r req l rest
          else Some (None, Some (method_not_found (req_method req))))"
| "run_statements r req l (DecodeParams t # rest) =
     run_statements r req
       (l\<lparr>lo_params := Some (decode_params (zero_params (rt_codec r) t) (unmarshal_params (rt_codec r) t) req)\<rparr>) rest"
| "run_statements r req l (IfErrReturn # rest) =
     (case lo_params l of
        None \<Rightarrow> None
      | Some (Inl e) \<Rightarrow> Some (None, Some e)
      | Some (Inr p) \<Rightarrow> run_statements r req l rest)"
| "run_statements r req l (ReturnNilCall m # rest) =
     (case (lo_handler l, lo_params l) of
        (Some i, Some (Inr p)) \<Rightarrow> map_option (\<lambda>f. (None, f p)) (rt_notify r i)
      | _ \<Rightarrow> None)"
| "run_statements r req l (ReturnResultOfCall m # rest) =
     (case (lo_handler l, lo_params l) of
        (Some i, Some (Inr p)) \<Rightarrow> map_option (\<lambda>f. rpc_result (f p)) (rt_request r i)
      | _ \<Rightarrow> None)"
| "run_statements r req l (IfIsCall body # rest) =
     (if is_call req then run_statements r req l (body @ rest) else run_statements r req l rest)"
| "run_statements r req l (ReturnExtension # rest) = Some (rt_extension r req)"

text \<open>The switch over \<open>req.Method\<close>; a case is a constant, which stands for its method.\<close>

definition run_dispatch ::
  "(string \<times> string) list \<Rightarrow> dispatch_decl \<Rightarrow> 'p runtime \<Rightarrow> request \<Rightarrow> (go_value option \<times> go_error option) option" where
  "run_dispatch consts dd r req =
     run_statements r req \<lparr>lo_handler = None, lo_params = None\<rparr>
       (case find (\<lambda>(c, body). map_of consts c = Some (req_method req)) (dd_cases dd) of
          Some (c, body) \<Rightarrow> body
        | None \<Rightarrow> dd_default dd)"

section \<open>What the operations ask for\<close>

text \<open>
  A handler method has the kind its interface declares; Go's type checker ensures that.
\<close>

definition respects_interfaces :: "operation list \<Rightarrow> 'p runtime \<Rightarrow> bool" where
  "respects_interfaces ops r =
     (\<forall>p \<in> set ops. (if op_kind p = Request then rt_notify r (handler_interface p) = None
                      else rt_request r (handler_interface p) = None))"

text \<open>
  The operation a message is for: of those the endpoint handles under the method, the one of
  the message's own kind, or else the one there is.
\<close>

definition operation_for :: "endpoint \<Rightarrow> operation list \<Rightarrow> string \<Rightarrow> bool \<Rightarrow> operation option" where
  "operation_for e ops m is_req =
     (let handled = filter (\<lambda>p. handled_by p e \<and> op_method p = m) ops in
      case find (\<lambda>p. op_kind p = (if is_req then Request else Notification)) handled of
        Some p \<Rightarrow> Some p
      | None \<Rightarrow> (case handled of [] \<Rightarrow> None | p # _ \<Rightarrow> Some p))"

definition serve :: "'p runtime \<Rightarrow> operation \<Rightarrow> request \<Rightarrow> go_value option \<times> go_error option" where
  "serve r p req =
     (case (if op_kind p = Request then map_option (\<lambda>f. rpc_result \<circ> f) (rt_request r (handler_interface p))
            else map_option (\<lambda>f. Pair None \<circ> f) (rt_notify r (handler_interface p))) of
        None \<Rightarrow> (None, Some (method_not_found (req_method req)))
      | Some f \<Rightarrow>
          (case decode_params (zero_params (rt_codec r) (op_params p)) (unmarshal_params (rt_codec r) (op_params p)) req of
             Inl err \<Rightarrow> (None, Some err)
           | Inr v \<Rightarrow> f v))"

definition answered :: "endpoint \<Rightarrow> operation list \<Rightarrow> 'p runtime \<Rightarrow> request \<Rightarrow> go_value option \<times> go_error option" where
  "answered e ops r req =
     (case operation_for e ops (req_method req) (is_call req) of
        Some p \<Rightarrow> serve r p req
      | None \<Rightarrow> rt_extension r req)"

section \<open>The dispatch code does it\<close>

lemma dispatch_body_runs:
  assumes "respects_interfaces ops r" "p \<in> set ops"
  shows "run_statements r req l (dispatch_body p @ rest) = Some (serve r p req)"
proof -
  have "if op_kind p = Request then rt_notify r (handler_interface p) = None
      else rt_request r (handler_interface p) = None"
    using assms unfolding respects_interfaces_def by blast
  then show ?thesis
    by (cases "op_kind p"; cases "rt_request r (handler_interface p)"; cases "rt_notify r (handler_interface p)")
      (auto simp: dispatch_body_def serve_def implements_def split: sum.splits)
qed

lemma sorted_kinds:
  "sorted ks \<Longrightarrow> distinct ks \<Longrightarrow> ks \<in> {[], [Request], [Notification], [Request, Notification]}"
proof (induction ks)
  case Nil
  then show ?case by simp
next
  case (Cons k ks)
  then have "ks \<in> {[], [Request], [Notification], [Request, Notification]}" by simp
  with Cons.prems show ?case
    by (cases k) (auto simp: less_eq_op_kind_def)
qed

text \<open>What is needed of the list of operations.\<close>

definition well_ordered :: "operation list \<Rightarrow> bool" where
  "well_ordered ops =
     (sorted (map (\<lambda>p. (op_const p, op_kind p)) ops) \<and> distinct (map (\<lambda>p. (op_method p, op_kind p)) ops)
      \<and> (\<forall>p \<in> set ops. \<forall>q \<in> set ops. op_const p = op_const q \<longleftrightarrow> op_method p = op_method q))"

lemma operations_well_ordered:
  assumes "operations doc = Inr ops"
  shows "well_ordered ops"
proof -
  obtain tbl where tbl: "table_ok tbl" "ops = order_operations (assign_names tbl)"
    and v: "validate_names ops (named_types doc) = Inr ()"
    using assms by (rule operations_from)
  from v have "distinct (map op_name ops)"
    using validated_distinct by (auto simp: validate_names_def or_panic_Inr)
  then have "distinct ops" by (simp add: distinct_map)
  moreover have "inj_on (\<lambda>p. (op_method p, op_kind p)) (set ops)"
    using ordered_unique [OF tbl(1)] unfolding tbl(2) by (auto intro: inj_onI)
  moreover have "sorted (map (\<lambda>p. (op_const p, op_kind p)) ops)"
    unfolding tbl(2) order_operations_def by (rule sorted_sort_key)
  ultimately show ?thesis
    using consts_match_methods tbl(2) by (simp add: well_ordered_def distinct_map)
qed

lemma handled_cases:
  assumes "well_ordered ops" "handled = filter (\<lambda>p. handled_by p e \<and> op_method p = m) ops"
  obtains "handled = []" | p where "handled = [p]"
  | p q where "handled = [p, q]" "op_kind p = Request" "op_kind q = Notification"
proof -
  have sub: "set handled \<subseteq> set ops" "\<And>p. p \<in> set handled \<Longrightarrow> op_method p = m" using assms(2) by auto
  have "sorted (map (\<lambda>p. (op_const p, op_kind p)) handled)"
    using assms by (auto simp: well_ordered_def intro: sorted_filter)
  moreover have "(op_const p, op_kind p) \<le> (op_const q, op_kind q) \<longleftrightarrow> op_kind p \<le> op_kind q"
    if "p \<in> set handled" "q \<in> set handled" for p q
  proof -
    have "op_const p = op_const q" using that sub assms(1) unfolding well_ordered_def by (metis subsetD)
    then show ?thesis by simp
  qed
  ultimately have "sorted (map op_kind handled)"
    by (simp add: sorted_map sorted_wrt_iff_nth_less)
  moreover have "distinct (map op_kind handled)"
  proof -
    have "distinct (map (\<lambda>p. (op_method p, op_kind p)) handled)"
      using assms by (auto simp: well_ordered_def distinct_map inj_on_def)
    then have "distinct (map (Pair m) (map op_kind handled))"
      using sub(2) by (simp add: distinct_map inj_on_def comp_def)
    then show ?thesis by (auto simp: distinct_map inj_on_def)
  qed
  ultimately have "map op_kind handled \<in> {[], [Request], [Notification], [Request, Notification]}"
    by (rule sorted_kinds)
  then show thesis using that by (auto simp: map_eq_Cons_conv)
qed

lemma map_of_method_consts:
  assumes "p \<in> set ops" "op_const p \<notin> set seen"
    and "\<And>q. q \<in> set ops \<Longrightarrow> op_const q = op_const p \<Longrightarrow> op_method q = op_method p"
  shows "map_of (method_consts ops seen) (op_const p) = Some (op_method p)"
  using assms
proof (induction ops arbitrary: seen)
  case Nil
  then show ?case by simp
next
  case (Cons q ops)
  have m: "op_method a = op_method p" if "a \<in> set ops" "op_const a = op_const p" for a
    using Cons.prems(3) [of a] that by simp
  show ?case
  proof (cases "op_const q = op_const p")
    case True
    with Cons.prems(2) Cons.prems(3) [of q] show ?thesis by simp
  next
    case False
    with Cons.prems(1) have p: "p \<in> set ops" by auto
    have "op_const p \<notin> set (op_const q # seen)" using False Cons.prems(2) by simp
    with Cons.IH [OF p _ m] Cons.prems(2) False show ?thesis by simp
  qed
qed

lemma find_case:
  assumes "c \<in> set cs" "\<And>d. d \<in> set cs \<Longrightarrow> P d \<longleftrightarrow> d = c"
  shows "find (\<lambda>(c, b). P c) (map (\<lambda>c. (c, f c)) cs) = Some (c, f c)"
  using assms by (induction cs) (auto split: if_splits)

lemma find_no_case:
  "(\<And>d. d \<in> set cs \<Longrightarrow> \<not> P d) \<Longrightarrow> find (\<lambda>(c, b). P c) (map (\<lambda>c. (c, f c)) cs) = None"
  by (induction cs) auto

lemma dispatch_implements_operations_core:
  assumes "operations doc = Inr ops" "respects_interfaces ops r"
  shows "run_dispatch (method_consts ops []) (dispatch_func e ops) r req = Some (answered e ops r req)"
proof -
  let ?m = "req_method req"
  let ?cs = "sort (remdups (map op_const (filter (\<lambda>p. handled_by p e) ops)))"
  let ?P = "\<lambda>c. map_of (method_consts ops []) c = Some ?m"
  have wo: "well_ordered ops" using assms(1) by (rule operations_well_ordered)
  then have match: "op_const p = op_const q \<longleftrightarrow> op_method p = op_method q" if "p \<in> set ops" "q \<in> set ops" for p q
    using that unfolding well_ordered_def by blast
  have const_value: "map_of (method_consts ops []) (op_const p) = Some (op_method p)" if "p \<in> set ops" for p
    using map_of_method_consts [of p ops "[]"] that match by auto
  define handled where "handled = filter (\<lambda>p. handled_by p e \<and> op_method p = ?m) ops"
  have run: "run_dispatch (method_consts ops []) (dispatch_func e ops) r req =
      run_statements r req \<lparr>lo_handler = None, lo_params = None\<rparr>
        (if handled = [] then [ReturnExtension] else case_body handled)"
  proof (cases "handled = []")
    case True
    then have "\<not> ?P c" if "c \<in> set ?cs" for c
      using that const_value by (auto simp: handled_def filter_empty_conv)
    then have "find (\<lambda>(c, b). ?P c) (dd_cases (dispatch_func e ops)) = None"
      unfolding dispatch_func_def dispatch_decl.simps by (rule find_no_case)
    with True show ?thesis by (simp add: run_dispatch_def dispatch_func_def)
  next
    case False
    then obtain p where p: "p \<in> set ops" "handled_by p e" "op_method p = ?m"
      by (auto simp: handled_def filter_empty_conv)
    have "by_method e ops (op_const p) = handled"
      unfolding by_method_def handled_def filter_filter using match [OF _ p(1)] p(3) by (intro filter_cong) auto
    moreover have "find (\<lambda>(c, b). ?P c) (map (\<lambda>c. (c, case_body (by_method e ops c))) ?cs) =
        Some (op_const p, case_body (by_method e ops (op_const p)))"
    proof (rule find_case)
      show "op_const p \<in> set ?cs" using p by auto
      show "?P d \<longleftrightarrow> d = op_const p" if "d \<in> set ?cs" for d
        using that const_value match [OF _ p(1)] p(3) by auto
    qed
    ultimately show ?thesis using False by (simp add: run_dispatch_def dispatch_func_def)
  qed
  have sub: "set handled \<subseteq> set ops" by (auto simp: handled_def)
  note body = dispatch_body_runs [OF assms(2)]
  have single: "run_statements r req l (dispatch_body p) = Some (serve r p req)" if "p \<in> set ops" for p l
    using body [OF that, of req l "[]"] by simp
  from wo handled_def show ?thesis
  proof (cases rule: handled_cases)
    case 1
    then show ?thesis unfolding run by (simp add: answered_def operation_for_def flip: handled_def)
  next
    case (2 p)
    with sub single show ?thesis unfolding run
      by (simp add: answered_def operation_for_def case_body_def flip: handled_def)
  next
    case (3 p q)
    with sub single body show ?thesis unfolding run
      by (simp add: answered_def operation_for_def case_body_def flip: handled_def)
  qed
qed

text \<open>
  C23: the generated dispatch function implements the operations. For every schema from which
  the generator makes code, the emitted dispatch function of an endpoint, run on any message
  with any handler, looks at the one operation the endpoint handles under the message's
  method (of its kind, if the method has both kinds): it asserts the operation's interface,
  decodes its parameters, calls its method and answers accordingly; a message that no
  operation is for goes to the extension handler.
\<close>

theorem dispatch_implements_operations:
  assumes "operations doc = Inr ops" "respects_interfaces ops r"
  shows "run_dispatch (method_consts ops []) (dispatch_func e ops) r req = Some (answered e ops r req)"
  using assms by (rule dispatch_implements_operations_core)

text \<open>An application that answers the calls of \<open>ping\<close>, with parameters that stay text.\<close>

definition ping_runtime :: "string runtime" where
  "ping_runtime =
     \<lparr>rt_request = (\<lambda>i. if i = ''PingHandler'' then Some (\<lambda>v. (Inr (''got '' @ v), None)) else None),
      rt_notify = (\<lambda>i. None),
      rt_codec = \<lparr>zero_params = (\<lambda>t. []), unmarshal_params = (\<lambda>t v. Inr v)\<rparr>,
      rt_extension = (\<lambda>req. (None, Some (method_not_found (req_method req))))\<rparr>"

definition ping_message :: request where
  "ping_message = \<lparr>req_id = StringID ''a'', req_method = ''ping'', req_params = ''7''\<rparr>"

lemma ping_respects: "respects_interfaces small_ops ping_runtime"
  by (simp add: respects_interfaces_def small_ops_def ping_runtime_def handler_interface_def)

lemma ping_served: "serve ping_runtime (hd small_ops) ping_message = (Some (Inr ''got 7''), None)"
  by (simp add: serve_def small_ops_def ping_runtime_def ping_message_def handler_interface_def
      decode_params_def rpc_result_def)

lemma ping_for: "operation_for agent_endpoint small_ops (req_method ping_message) (is_call ping_message) = Some (hd small_ops)"
  by code_simp

theorem dispatch_implements_operations_witness:
  "run_dispatch (method_consts small_ops []) (dispatch_func agent_endpoint small_ops) ping_runtime ping_message
     = Some (Some (Inr ''got 7''), None)"
  using dispatch_implements_operations [OF small_operations ping_respects, of agent_endpoint ping_message]
  by (simp add: answered_def ping_for ping_served)

section \<open>Both sides of a generated call\<close>

fun body_const :: "method_body \<Rightarrow> string" where
  "body_const (ReturnNotify c) = c"
| "body_const (ReturnCall t c) = c"

lemma operation_for_handled:
  assumes "well_ordered ops" "p \<in> set ops" "handled_by p e" "is_req = (op_kind p = Request)"
  shows "operation_for e ops (op_method p) is_req = Some p"
proof -
  let ?handled = "filter (\<lambda>q. handled_by q e \<and> op_method q = op_method p) ops"
  have p: "p \<in> set ?handled" using assms by simp
  have other: "q = p" if "q \<in> set ?handled" "op_kind q = op_kind p" for q
    using that assms(1,2) by (auto simp: well_ordered_def distinct_map inj_on_def)
  have k: "(op_kind q = (if is_req then Request else Notification)) = (op_kind q = op_kind p)" for q
    using assms(4) by (cases "op_kind p") auto
  have "find (\<lambda>q. op_kind q = op_kind p) ?handled = Some p"
    using p other by (induction ops) auto
  then show ?thesis by (simp add: operation_for_def k)
qed

text \<open>
  C26: what one endpoint sends the other serves. Every method generated for a connection type
  sends its message under a method that the dispatch function of the other endpoint has a
  case for; and that case serves the message with the interface whose one method has the same
  name, the same parameter type and the same result type.
\<close>

theorem sent_messages_are_served:
  assumes "operations doc = Inr ops" "respects_interfaces ops r"
    and "md \<in> set (connection_methods e ops)"
    and "map_of (method_consts ops []) (body_const (md_body md)) = Some (req_method req)"
    and "is_call req = (md_result md \<noteq> None)"
  shows "\<exists>p \<in> set ops. id_method (handler_method p) = md_name md \<and> id_params (handler_method p) = md_params md
    \<and> id_result (handler_method p) = md_result md
    \<and> run_dispatch (method_consts ops []) (dispatch_func (peer e) ops) r req = Some (serve r p req)"
proof -
  obtain p where p: "p \<in> set ops" "sent_by p e" "md = connection_method e p"
    using assms(3) by (auto simp: connection_methods_def)
  have wo: "well_ordered ops" using assms(1) by (rule operations_well_ordered)
  then have "map_of (method_consts ops []) (op_const p) = Some (op_method p)"
    using p(1) by (auto intro!: map_of_method_consts simp: well_ordered_def)
  with assms(4) have m: "req_method req = op_method p"
    by (cases "op_kind p") (simp_all add: p(3) connection_method_def)
  have k: "is_call req = (op_kind p = Request)"
    using assms(5) by (cases "op_kind p") (simp_all add: p(3) connection_method_def)
  have "operation_for (peer e) ops (op_method p) (is_call req) = Some p"
    using wo p(1,2) k by (intro operation_for_handled) (auto simp: sent_by_def)
  with dispatch_implements_operations_core [OF assms(1,2), of "peer e" req]
  have "run_dispatch (method_consts ops []) (dispatch_func (peer e) ops) r req = Some (serve r p req)"
    by (simp add: answered_def m)
  with p show ?thesis
    by (intro bexI [of _ p]) (auto simp: handler_method_def connection_method_def)
qed

theorem sent_messages_are_served_witness:
  "\<exists>p \<in> set small_ops. id_method (handler_method p) = ''Ping''
    \<and> run_dispatch (method_consts small_ops []) (dispatch_func (peer client_endpoint) small_ops) ping_runtime ping_message
        = Some (serve ping_runtime p ping_message)"
proof -
  have "connection_method client_endpoint (hd small_ops) \<in> set (connection_methods client_endpoint small_ops)"
    by code_simp
  moreover have "map_of (method_consts small_ops []) (body_const (md_body (connection_method client_endpoint (hd small_ops))))
      = Some (req_method ping_message)"
    by code_simp
  moreover have "is_call ping_message = (md_result (connection_method client_endpoint (hd small_ops)) \<noteq> None)"
    by code_simp
  moreover have "md_name (connection_method client_endpoint (hd small_ops)) = ''Ping''"
    by code_simp
  ultimately show ?thesis
    using sent_messages_are_served [OF small_operations ping_respects] by metis
qed

end
