(* ===== verification/Rpcgen_Eval.thy ===== *)
theory Rpcgen_Eval
  imports Rpcgen_Code
begin

text \<open>
  Evaluating the generator on a large schema. The rows of a schema, its definitions with a
  method, are coded; the table of operations is computed on codes and decoded afterwards
  (locale \<open>coded_rows\<close>). Sorted lists are searched only between neighbours.
\<close>

section \<open>Rows\<close>

text \<open>
  A row: the role and the kind its type name gives it, and the codes of type, method and side.
  Codes are of types on which equality is fast.
\<close>

type_synonym ('t, 'm, 's) row = "role \<times> op_kind \<times> 't \<times> 'm \<times> 's"
type_synonym ('t, 'm, 's) small_table = "(('m \<times> op_kind) \<times> 's \<times> 't option \<times> 't option) list"

fun add_small :: "('t, 'm, 's) row \<Rightarrow> ('t, 'm, 's) small_table \<Rightarrow> unit + ('t, 'm, 's) small_table" where
  "add_small (r, k, t, m, s) tbl =
     (case (case map_of tbl (m, k) of Some e \<Rightarrow> e | None \<Rightarrow> (s, None, None)) of
        (s', p, q) \<Rightarrow>
          if s' \<noteq> s then Inl ()
          else
            (case r of
               ParamsRole \<Rightarrow>
                 (case p of Some _ \<Rightarrow> Inl () | None \<Rightarrow> Inr (AList.update (m, k) (s, Some t, q) tbl))
             | ResultRole \<Rightarrow>
                 (case q of Some _ \<Rightarrow> Inl () | None \<Rightarrow> Inr (AList.update (m, k) (s, p, Some t) tbl))))"

text \<open>What the codes stand for.\<close>

record ('t, 'm, 's) coding =
  method_of :: "'m \<Rightarrow> string"
  type_of :: "'t \<Rightarrow> string"
  side_of :: "'s \<Rightarrow> string"
  rule_of :: "'s \<Rightarrow> side_rule"

definition type_text :: "('t, 'm, 's) coding \<Rightarrow> 't option \<Rightarrow> string" where
  "type_text cd t = (case t of None \<Rightarrow> [] | Some i \<Rightarrow> type_of cd i)"

definition decode_op :: "('t, 'm, 's) coding \<Rightarrow> 'm \<times> op_kind \<Rightarrow> 's \<times> 't option \<times> 't option \<Rightarrow> operation" where
  "decode_op cd key e =
     \<lparr>op_method = method_of cd (fst key), op_kind = snd key, op_side = side_of cd (fst e),
      op_handlers = handlers_for (rule_of cd (fst e)) (method_of cd (fst key)), op_const = [], op_name = [],
      op_params = type_text cd (fst (snd e)), op_result = type_text cd (snd (snd e)), op_description = []\<rparr>"

definition decode_table :: "('t, 'm, 's) coding \<Rightarrow> ('t, 'm, 's) small_table \<Rightarrow> op_table" where
  "decode_table cd tbl = map (\<lambda>(key, e). ((method_of cd (fst key), snd key), decode_op cd key e)) tbl"

text \<open>What of a definition decides about the operations, and the row it fits.\<close>

definition rpc_key :: "string \<times> schema \<Rightarrow> string \<times> string \<times> string" where
  "rpc_key d = (fst d, string_extra (snd d) ''x-method'', string_extra (snd d) ''x-side'')"

definition handled_key :: "string \<times> string \<times> string \<Rightarrow> bool" where
  "handled_key key = (fst (snd key) \<noteq> [] \<and> snd (snd key) \<noteq> ''protocol'')"

fun row_ok :: "('t, 'm, 's) coding \<Rightarrow> string \<times> string \<times> string \<Rightarrow> ('t, 'm, 's) row \<Rightarrow> bool" where
  "row_ok cd (n, m, side) (r, k, t, mc, s) =
     (m \<noteq> [] \<and> m = method_of cd mc \<and> side = side_of cd s \<and> handlers_for (rule_of cd s) m \<noteq> []
      \<and> n = type_of cd t \<and> role_of n = Some (r, k))"

definition wanted_const :: "string \<Rightarrow> string" where
  "wanted_const m = ''Method'' @ pascal_identifier m"

lemma entry_zip_map: "m \<in> set ms \<Longrightarrow> entry (zip ms (map f ms)) m = f m"
  by (simp add: entry_def map_of_zip_map)

text \<open>An operation of the table with its names.\<close>

definition named_op ::
  "('t, 'm, 's) coding \<Rightarrow> ('t, 'm, 's) small_table \<Rightarrow> ('m \<times> op_kind) \<times> 's \<times> 't option \<times> 't option \<Rightarrow> operation" where
  "named_op cd tbl ke =
     (let c = wanted_const (method_of cd (fst (fst ke))) in
      (decode_op cd (fst ke) (snd ke))
        \<lparr>op_const := c,
         op_name := trim_prefix c ''Method''
           @ (if snd (fst ke) = Notification \<and> map_of tbl (fst (fst ke), Request) \<noteq> None then ''Notification'' else [])\<rparr>)"

locale coded_rows =
  fixes cd :: "('t, 'm, 's) coding"
  assumes method_inj: "inj (method_of cd)"
    and side_rules: "map_of sides (side_of cd s) = Some (rule_of cd s)"
begin

lemma map_of_decode: "map_of (decode_table cd tbl) (method_of cd m, k) = map_option (decode_op cd (m, k)) (map_of tbl (m, k))"
  by (induction tbl) (auto simp: decode_table_def dest: injD [OF method_inj])

lemma update_decode:
  "AList.update (method_of cd m, k) (decode_op cd (m, k) e) (decode_table cd tbl) = decode_table cd (AList.update (m, k) e tbl)"
  by (induction tbl) (auto simp: decode_table_def dest: injD [OF method_inj])

lemma add_row:
  assumes "row_ok cd (rpc_key d) row" "entry tn (fst d) = fst d" "entry ds (fst d) = []"
    and "add_small row tbl = Inr tbl'"
  shows "add_definition tn ds d (decode_table cd tbl) = Inr (decode_table cd tbl')"
proof -
  obtain r k t m s where row: "row = (r, k, t, m, s)" by (cases row) auto
  obtain s' p q where old: "(case map_of tbl (m, k) of Some e \<Rightarrow> e | None \<Rightarrow> (s, None, None)) = (s', p, q)"
    by (rule prod_cases3)
  let ?p = "decode_op cd (m, k) (s', p, q)"
  have slot: "(case map_of (decode_table cd tbl) (method_of cd m, k) of Some p \<Rightarrow> p
      | None \<Rightarrow> new_operation (method_of cd m) k (side_of cd s) (handlers_for (rule_of cd s) (method_of cd m))) = ?p"
    using old by (cases "map_of tbl (m, k)") (auto simp: map_of_decode decode_op_def new_operation_def type_text_def)
  from assms(4) old have s: "s' = s" by (simp add: row split: if_splits)
  have none: "r = ParamsRole \<Longrightarrow> p = None" "r = ResultRole \<Longrightarrow> q = None"
    using assms(4) old by (auto simp: row split: if_splits option.splits)
  then have free: "target r ?p = []"
    by (cases r) (simp_all add: decode_op_def type_text_def)
  have "tbl' = AList.update (m, k) (if r = ParamsRole then (s, Some t, q) else (s, p, Some t)) tbl"
    using assms(4) old none by (cases r) (auto simp: row split: if_splits)
  moreover have "fill_target r (type_of cd t) [] ?p = decode_op cd (m, k) (if r = ParamsRole then (s, Some t, q) else (s, p, Some t))"
    using s by (cases r) (auto simp: decode_op_def type_text_def)
  ultimately have "AList.update (method_of cd m, k) (fill_target r (type_of cd t) [] ?p) (decode_table cd tbl) = decode_table cd tbl'"
    by (simp only: update_decode)
  moreover have "op_side ?p = side_of cd s" using s by (simp add: decode_op_def)
  ultimately show ?thesis
    using assms(1-3) free side_rules [of s] unfolding row add_definition_def rpc_key_def
    by (auto simp: slot Let_def)
qed

lemma add_rows:
  assumes "list_all2 (row_ok cd) (map rpc_key xs) rows"
    and "\<forall>d \<in> set xs. entry tn (fst d) = fst d \<and> entry ds (fst d) = []"
    and "each add_small rows tbl = Inr tbl'"
  shows "each (add_definition tn ds) xs (decode_table cd tbl) = Inr (decode_table cd tbl')"
  using assms
proof (induction xs arbitrary: rows tbl)
  case Nil
  then show ?case by simp
next
  case (Cons x xs)
  from Cons.prems(1) obtain row rest where rows: "rows = row # rest" "row_ok cd (rpc_key x) row"
      "list_all2 (row_ok cd) (map rpc_key xs) rest"
    by (auto simp: list_all2_Cons1)
  with Cons.prems(3) obtain t1 where "add_small row tbl = Inr t1" "each add_small rest t1 = Inr tbl'"
    by (auto simp: each_Cons_Inr simp del: each.simps)
  with Cons rows show ?case by (simp add: each_Cons_Inr add_row del: each.simps)
qed

lemma methods_decode: "map (op_method \<circ> snd) (decode_table cd tbl) = map (\<lambda>(key, e). method_of cd (fst key)) tbl"
  by (simp add: decode_table_def decode_op_def split_beta comp_def)

lemma assign_decode:
  assumes "consts_of_table (decode_table cd tbl) = zip ms (map wanted_const ms)"
    and "\<forall>(key, e) \<in> set tbl. method_of cd (fst key) \<in> set ms"
  shows "assign_names (decode_table cd tbl) = map (named_op cd tbl) tbl"
proof -
  have "assign_name (zip ms (map wanted_const ms)) (decode_table cd tbl) (decode_op cd (m, k) e) = named_op cd tbl ((m, k), e)"
    if "((m, k), e) \<in> set tbl" for m k e
    using that assms(2)
    by (auto simp: assign_name_def named_op_def decode_op_def entry_zip_map map_of_decode Let_def)
  then show ?thesis
    unfolding assign_names_def Let_def assms(1) by (auto simp: decode_table_def)
qed

end

text \<open>Definitions that are passed by can be left out.\<close>

lemma add_passed: "\<not> handled_key (rpc_key d) \<Longrightarrow> add_definition tn ds d tbl = Inr tbl"
  by (auto simp: handled_key_def rpc_key_def add_definition_def sides_def handlers_for_def Let_def)

lemma each_filter:
  assumes "\<And>x s. \<not> P x \<Longrightarrow> f x s = Inr s"
  shows "each f xs s = each f (filter P xs) s"
  using assms by (induction xs arbitrary: s) (auto split: sum.splits)

section \<open>Sorted lists\<close>

lemma strictly_sorted:
  "successively (<) xs \<Longrightarrow> sorted xs \<and> distinct (xs :: 'a::linorder list)"
  by (simp add: successively_conv_sorted_wrt strict_sorted_iff)

lemma sort_strict: "successively (<) xs \<Longrightarrow> sort xs = (xs :: 'a::linorder list)"
  using strictly_sorted [of xs] by (simp add: sorted_sort_id)

lemma sort_same_set:
  "successively (<) xs \<Longrightarrow> set ys = set xs \<Longrightarrow> sort (remdups ys) = (xs :: 'a::linorder list)"
  using strictly_sorted [of xs] by (metis remdups_id_iff_distinct sort_strict sorted_list_of_set_sort_remdups)

lemma sort_key_map:
  assumes "\<And>x y. x \<in> set xs \<Longrightarrow> y \<in> set xs \<Longrightarrow> g (f x) \<le> g (f y) \<longleftrightarrow> h x \<le> h y"
  shows "sort_key g (map f xs) = map f (sort_key h xs)"
proof -
  have "insort_key g (f x) (map f ys) = map f (insort_key h x ys)" if "x \<in> set xs" "set ys \<subseteq> set xs" for x ys
    using that assms by (induction ys) auto
  moreover have "set zs \<subseteq> set xs \<Longrightarrow> sort_key g (map f zs) = map f (sort_key h zs)" for zs
    using calculation by (induction zs) (auto simp: set_sort)
  ultimately show ?thesis by blast
qed

text \<open>Names that are different already are kept.\<close>

lemma names_kept: "successively (<) ns \<Longrightarrow> name_all unique_const_name ns [] = ns \<and> name_all unique_name ns [] = ns"
  using strictly_sorted [of ns] by (simp add: const_namer.name_all_keeps rpc_namer.name_all_keeps)

lemma entry_zip_same: "n \<in> set ns \<Longrightarrow> entry (zip ns ns) n = n"
  by (simp add: entry_def zip_same_conv_map map_of_map_restrict [of id, simplified] split: option.splits)

section \<open>The cases of a sorted list of operations\<close>

function grouped :: "('a \<Rightarrow> 'b) \<Rightarrow> ('a list \<Rightarrow> 'c) \<Rightarrow> 'a list \<Rightarrow> ('b \<times> 'c) list" where
  "grouped g f [] = []"
| "grouped g f (p # ps) =
     (g p, f (p # takeWhile (\<lambda>q. g q = g p) ps)) # grouped g f (dropWhile (\<lambda>q. g q = g p) ps)"
  by pat_completeness auto
termination
  by (relation "measure (\<lambda>(g, f, ps). length ps)") (auto simp: less_Suc_eq_le length_dropWhile_le)

lemma sorted_split_same:
  "sorted (map g (p # ps)) \<Longrightarrow> filter (\<lambda>q. g q = g p) (p # ps) = p # takeWhile (\<lambda>q. g q = g p) ps"
proof (induction ps)
  case Nil
  then show ?case by simp
next
  case (Cons a ps)
  show ?case
  proof (cases "g a = g p")
    case True
    with Cons show ?thesis by auto
  next
    case False
    with Cons.prems have "g p < g a" "\<forall>x \<in> set ps. g a \<le> g x" by auto
    then have "filter (\<lambda>q. g q = g p) ps = []" by (auto simp: filter_empty_conv)
    with False show ?thesis by simp
  qed
qed

lemma sorted_split_other:
  "c \<noteq> g p \<Longrightarrow> filter (\<lambda>q. g q = c) (p # ps) = filter (\<lambda>q. g q = c) (dropWhile (\<lambda>q. g q = g p) ps)"
  by (induction ps) auto

lemma grouped_filter:
  "sorted (map g ps) \<Longrightarrow>
     grouped g f ps = map (\<lambda>c. (c, f (filter (\<lambda>p. g p = c) ps))) (remdups_adj (map g ps))"
proof (induction g f ps rule: grouped.induct)
  case (1 g f)
  then show ?case by simp
next
  case (2 g f p ps)
  let ?rest = "dropWhile (\<lambda>q. g q = g p) ps"
  have sorted: "sorted (map g ?rest)"
    using 2(2) unfolding sorted_map by (simp add: sorted_wrt_dropWhile)
  have rem: "remdups_adj (map g (p # ps)) = g p # remdups_adj (map g ?rest)"
    by (simp add: remdups_adj_Cons' dropWhile_map comp_def)
  have "c \<noteq> g p" if "c \<in> set (map g ?rest)" for c
  proof (cases ?rest)
    case Nil
    with that show ?thesis by simp
  next
    case (Cons q qs)
    then have "q \<in> set ps" "g q \<noteq> g p"
      by (metis list.set_intros(1) set_dropWhileD) (metis (mono_tags, lifting) Cons hd_dropWhile list.sel(1) list.simps(3))
    with 2(2) have "g p < g q" by auto
    moreover have "g q \<le> c" using that sorted Cons by auto
    ultimately show ?thesis by auto
  qed
  then have "c \<in> set (remdups_adj (map g ?rest)) \<Longrightarrow>
      filter (\<lambda>q. g q = c) (p # ps) = filter (\<lambda>q. g q = c) ?rest" for c
    using sorted_split_other by (metis remdups_adj_set)
  with 2(1) [OF sorted] sorted_split_same [OF 2(2)] show ?case
    unfolding rem grouped.simps by (simp cong: map_cong)
qed

lemma distinct_remdups_adj_sorted: "sorted xs \<Longrightarrow> distinct (remdups_adj (xs :: 'a::linorder list))"
  by (induction xs rule: remdups_adj.induct) auto

lemma sort_remdups_sorted: "sorted xs \<Longrightarrow> sort (remdups xs) = remdups_adj (xs :: 'a::linorder list)"
  by (rule sorted_distinct_set_unique) (simp_all add: distinct_remdups_adj_sorted)

lemma dispatch_cases_grouped:
  assumes "well_ordered ops"
  shows "dd_cases (dispatch_func e ops) = grouped op_const case_body (filter (\<lambda>p. handled_by p e) ops)"
proof -
  let ?hs = "filter (\<lambda>p. handled_by p e) ops"
  have "sorted (map op_const ops)"
  proof -
    have "sorted (map (\<lambda>p. (op_const p, op_kind p)) ops)" using assms by (simp add: well_ordered_def)
    then show ?thesis unfolding sorted_map by (rule sorted_wrt_mono_rel [rotated]) (auto simp: less_eq_prod_def)
  qed
  then have "sorted (map op_const ?hs)" by (rule sorted_filter)
  then show ?thesis
    by (simp add: dispatch_func_def grouped_filter sort_remdups_sorted by_method_def)
qed

section \<open>Names and validation\<close>

lemma const_names_strict:
  "successively (<) (map wanted_const ms) \<Longrightarrow> const_names ms = zip ms (map wanted_const ms)"
  using names_kept [of "map wanted_const ms"] unfolding const_names_def wanted_const_def by metis

definition identifiers_of :: "operation \<Rightarrow> (string \<times> string) set" where
  "identifiers_of p = {(op_const p, op_method p), (handler_interface p, op_string p)}"

definition no_clash :: "operation set \<Rightarrow> (string \<times> string) list \<Rightarrow> bool" where
  "no_clash A types =
     ((\<forall>p \<in> A. map_of types (op_const p) = None \<and> map_of types (handler_interface p) = None)
      \<and> (\<forall>x \<in> \<Union> (identifiers_of ` A). \<forall>y \<in> \<Union> (identifiers_of ` A). fst x = fst y \<longrightarrow> snd x = snd y))"

lemma declare_ok:
  assumes "map_of types i = None" "\<forall>y \<in> set ids. fst y = i \<longrightarrow> snd y = w"
  shows "declare_identifier types i w ids = Inr ((i, w) # ids)"
  using assms unfolding declare_identifier_Inr by (force dest: map_of_SomeD)

lemma validate_ok:
  assumes "no_clash A types" "set ops \<subseteq> A" "distinct (map op_name ops)"
    and "\<forall>p \<in> set ops. map_of (fst st) (op_name p) = None" "set (snd st) \<subseteq> \<Union> (identifiers_of ` A)"
  shows "\<exists>st'. each (validate_operation types) ops st = Inr st'"
  using assms(2-)
proof (induction ops arbitrary: st)
  case Nil
  then show ?case by simp
next
  case (Cons p ops)
  let ?c = "(op_const p, op_method p)" and ?i = "(handler_interface p, op_string p)"
  have p: "p \<in> A" using Cons.prems(1) by simp
  then have own: "?c \<in> \<Union> (identifiers_of ` A)" "?i \<in> \<Union> (identifiers_of ` A)"
    by (auto simp: identifiers_of_def)
  have agree: "snd x = snd y" if "x \<in> \<Union> (identifiers_of ` A)" "y \<in> \<Union> (identifiers_of ` A)" "fst x = fst y" for x y
    using assms(1) that unfolding no_clash_def by blast
  have free: "map_of types (op_const p) = None" "map_of types (handler_interface p) = None"
    using assms(1) p by (auto simp: no_clash_def)
  have seen: "snd y = snd x" if "y \<in> set (?c # snd st)" "fst y = fst x" "x \<in> {?c, ?i}" for x y
  proof (rule agree)
    show "y \<in> \<Union> (identifiers_of ` A)" using that(1) own(1) Cons.prems(4) by (simp del: UN_iff) blast
    show "x \<in> \<Union> (identifiers_of ` A)" using that(3) own by (simp del: UN_iff) blast
  qed (rule that(2))
  have "\<forall>y \<in> set (snd st). fst y = op_const p \<longrightarrow> snd y = op_method p"
    using seen [of _ ?c] by simp
  then have d1: "declare_identifier types (op_const p) (op_method p) (snd st) = Inr (?c # snd st)"
    using free(1) by (intro declare_ok) auto
  have "\<forall>y \<in> set (?c # snd st). fst y = handler_interface p \<longrightarrow> snd y = op_string p"
    using seen [of _ ?i] by simp
  then have d2: "declare_identifier types (handler_interface p) (op_string p) (?c # snd st) = Inr (?i # ?c # snd st)"
    using free(2) by (intro declare_ok) auto
  have n: "map_of (fst st) (op_name p) = None" using Cons.prems(3) by simp
  let ?st = "((op_name p, op_string p) # fst st, ?i # ?c # snd st)"
  have "validate_operation types p st = Inr ?st"
    unfolding validate_operation_Inr using n d1 d2 by auto
  moreover have "\<exists>st'. each (validate_operation types) ops ?st = Inr st'"
    using Cons.prems own by (intro Cons.IH) (auto simp: image_iff split: if_splits)
  ultimately show ?case by (simp add: each_Cons_Inr del: each.simps)
qed

lemma validate_names_ok:
  assumes "no_clash (set ops) types" "distinct (map op_name ops)"
  shows "validate_names ops types = Inr ()"
  using validate_ok [OF assms(1) subset_refl assms(2), of "([], [])"]
  by (auto simp: validate_names_def or_panic_Inr)

text \<open>Constants begin with \<open>Method\<close>, interfaces end with \<open>Handler\<close>, and type names do neither.\<close>

lemma no_clash_by_shape:
  assumes "\<forall>p \<in> A. \<forall>q \<in> A. op_const p = op_const q \<longrightarrow> op_method p = op_method q" "inj_on op_name A"
    and "\<forall>p \<in> A. has_prefix (op_const p) ''Method'' \<and> \<not> has_prefix (handler_interface p) ''Method''"
    and "\<forall>t \<in> fst ` set types. \<not> has_prefix t ''Method'' \<and> \<not> has_suffix t ''Handler''"
  shows "no_clash A types"
proof -
  have "has_suffix (handler_interface p) ''Handler''" for p
    by (simp add: handler_interface_def has_suffix_def)
  then have "map_of types (op_const p) = None \<and> map_of types (handler_interface p) = None" if "p \<in> A" for p
    using assms(3,4) that by (metis map_of_eq_None_iff)
  moreover have "handler_interface p = handler_interface q \<Longrightarrow> p = q" if "p \<in> A" "q \<in> A" for p q
    using assms(2) that by (simp add: handler_interface_def inj_onD)
  moreover have "snd x = snd y"
    if "p \<in> A" "q \<in> A" "x \<in> identifiers_of p" "y \<in> identifiers_of q" "fst x = fst y" for p q x y
  proof -
    have ne: "op_const p \<noteq> handler_interface q" "op_const q \<noteq> handler_interface p"
      using assms(3) that(1,2) by metis+
    have c: "op_const p = op_const q \<Longrightarrow> op_method p = op_method q"
      and h: "handler_interface p = handler_interface q \<Longrightarrow> p = q"
      using assms(1) calculation(2) that(1,2) by blast+
    show ?thesis
      using that(3-5) ne c h unfolding identifiers_of_def by (elim insertE emptyE) simp_all
  qed
  ultimately show ?thesis unfolding no_clash_def by blast
qed

lemma each_complete:
  assumes "\<forall>p \<in> set ps. op_params p \<noteq> [] \<and> (op_kind p = Request \<longrightarrow> op_result p \<noteq> [])"
  shows "each complete ps () = Inr ()"
  using assms by (induction ps) (auto simp: complete_def)

text \<open>A schema without descriptions has no descriptions of methods.\<close>

lemma no_descriptions:
  assumes "\<forall>d \<in> set (doc_defs doc). \<forall>v \<in> set (envelope_variants (snd d)). sc_description v = []"
  shows "envelope_descriptions doc = []"
proof -
  have "describe v [] = []" if "sc_description v = []" for v
    using that by (auto simp: describe_def split: list.splits)
  moreover have "fold describe vs [] = []" if "\<forall>v \<in> set vs. describe v [] = []" for vs
    using that by (induction vs) auto
  ultimately show ?thesis using assms by (simp add: envelope_descriptions_def)
qed

end
