(* ===== verification/Acp_Schema_1.thy ===== *)
theory Acp_Schema_1
  imports Schema
begin

text \<open>
  The definitions \<open>AgentAuthCapabilities\<close> to \<open>CreateTerminalResponse\<close> of internal/schemagen/schema.json, with the keywords the
  generator reads. Descriptions, and defaults other than \<open>true\<close>, are left out.
\<close>

definition schema_AgentAuthCapabilities :: schema where
  "schema_AgentAuthCapabilities =
    Schema (no_keywords\<lparr>kw_type := ''object''\<rparr>)
    [(''_meta'', Schema (no_keywords\<lparr>kw_types := [''object'', ''null''], kw_extra := [(''x-deserialize-default-on-error'', ValBool True)]\<rparr>)
      []
      None (Some (anything)) [] [] []),
     (''logout'', Schema (no_keywords\<lparr>kw_extra := [(''x-deserialize-default-on-error'', ValBool True)]\<rparr>)
      []
      None None [ref_to ''LogoutCapabilities'',
       leaf (no_keywords\<lparr>kw_type := ''null''\<rparr>)] [] []),
     (''status'', Schema (no_keywords\<lparr>kw_extra := [(''x-deserialize-default-on-error'', ValBool True)]\<rparr>)
      []
      None None [ref_to ''AuthStatusCapabilities'',
       leaf (no_keywords\<lparr>kw_type := ''null''\<rparr>)] [] [])]
    None None [] [] []"

definition schema_AgentCapabilities :: schema where
  "schema_AgentCapabilities =
    Schema (no_keywords\<lparr>kw_type := ''object''\<rparr>)
    [(''_meta'', Schema (no_keywords\<lparr>kw_types := [''object'', ''null''], kw_extra := [(''x-deserialize-default-on-error'', ValBool True)]\<rparr>)
      []
      None (Some (anything)) [] [] []),
     (''auth'', wraps (no_keywords\<lparr>kw_extra := [(''x-deserialize-default-on-error'', ValBool True)]\<rparr>) ''AgentAuthCapabilities''),
     (''loadSession'', leaf (no_keywords\<lparr>kw_type := ''boolean'', kw_extra := [(''x-deserialize-default-on-error'', ValBool True)]\<rparr>)),
     (''mcpCapabilities'', wraps (no_keywords\<lparr>kw_extra := [(''x-deserialize-default-on-error'', ValBool True)]\<rparr>) ''McpCapabilities''),
     (''promptCapabilities'', wraps (no_keywords\<lparr>kw_extra := [(''x-deserialize-default-on-error'', ValBool True)]\<rparr>) ''PromptCapabilities''),
     (''providers'', Schema (no_keywords\<lparr>kw_extra := [(''x-deserialize-default-on-error'', ValBool True)]\<rparr>)
      []
      None None [ref_to ''ProvidersCapabilities'',
       leaf (no_keywords\<lparr>kw_type := ''null''\<rparr>)] [] []),
     (''sessionCapabilities'', wraps (no_keywords\<lparr>kw_extra := [(''x-deserialize-default-on-error'', ValBool True)]\<rparr>) ''SessionCapabilities'')]
    None None [] [] []"

definition schema_AgentNotification :: schema where
  "schema_AgentNotification =
    Schema (no_keywords\<lparr>kw_type := ''object'', kw_required := [''method''], kw_extra := [(''x-docs-ignore'', ValBool True)]\<rparr>)
    [(''method'', leaf (no_keywords\<lparr>kw_type := ''string''\<rparr>)),
     (''params'', Schema no_keywords
      []
      None None [Schema no_keywords
        []
        None None [wraps (no_keywords\<lparr>kw_title := ''SessionNotification''\<rparr>) ''SessionNotification'',
         wraps (no_keywords\<lparr>kw_title := ''CompleteElicitationNotification''\<rparr>) ''CompleteElicitationNotification'',
         wraps (no_keywords\<lparr>kw_title := ''AuthStatusUpdateNotification''\<rparr>) ''AuthStatusUpdateNotification'',
         wraps (no_keywords\<lparr>kw_title := ''ExtNotification''\<rparr>) ''ExtNotification''] [] [],
       leaf (no_keywords\<lparr>kw_type := ''null''\<rparr>)] [] [])]
    None None [] [] []"

definition schema_AgentRequest :: schema where
  "schema_AgentRequest =
    Schema (no_keywords\<lparr>kw_type := ''object'', kw_required := [''id'', ''method''], kw_extra := [(''x-docs-ignore'', ValBool True)]\<rparr>)
    [(''id'', wraps no_keywords ''RequestId''),
     (''method'', leaf (no_keywords\<lparr>kw_type := ''string''\<rparr>)),
     (''params'', Schema no_keywords
      []
      None None [Schema no_keywords
        []
        None None [wraps (no_keywords\<lparr>kw_title := ''WriteTextFileRequest''\<rparr>) ''WriteTextFileRequest'',
         wraps (no_keywords\<lparr>kw_title := ''ReadTextFileRequest''\<rparr>) ''ReadTextFileRequest'',
         wraps (no_keywords\<lparr>kw_title := ''RequestPermissionRequest''\<rparr>) ''RequestPermissionRequest'',
         wraps (no_keywords\<lparr>kw_title := ''CreateTerminalRequest''\<rparr>) ''CreateTerminalRequest'',
         wraps (no_keywords\<lparr>kw_title := ''TerminalOutputRequest''\<rparr>) ''TerminalOutputRequest'',
         wraps (no_keywords\<lparr>kw_title := ''ReleaseTerminalRequest''\<rparr>) ''ReleaseTerminalRequest'',
         wraps (no_keywords\<lparr>kw_title := ''WaitForTerminalExitRequest''\<rparr>) ''WaitForTerminalExitRequest'',
         wraps (no_keywords\<lparr>kw_title := ''KillTerminalRequest''\<rparr>) ''KillTerminalRequest'',
         wraps (no_keywords\<lparr>kw_title := ''CreateElicitationRequest''\<rparr>) ''CreateElicitationRequest'',
         wraps (no_keywords\<lparr>kw_title := ''MessageMcpRequest''\<rparr>) ''MessageMcpRequest'',
         wraps (no_keywords\<lparr>kw_title := ''ExtMethodRequest''\<rparr>) ''ExtRequest''] [] [],
       leaf (no_keywords\<lparr>kw_type := ''null''\<rparr>)] [] [])]
    None None [] [] []"

definition schema_AgentResponse :: schema where
  "schema_AgentResponse =
    Schema (no_keywords\<lparr>kw_extra := [(''x-docs-ignore'', ValBool True)]\<rparr>)
    []
    None None [Schema (no_keywords\<lparr>kw_type := ''object'', kw_title := ''Result'', kw_required := [''id'', ''result'']\<rparr>)
      [(''id'', wraps no_keywords ''RequestId''),
       (''result'', Schema no_keywords
        []
        None None [wraps (no_keywords\<lparr>kw_title := ''InitializeResponse''\<rparr>) ''InitializeResponse'',
         wraps (no_keywords\<lparr>kw_title := ''AuthenticateResponse''\<rparr>) ''AuthenticateResponse'',
         wraps (no_keywords\<lparr>kw_title := ''ListProvidersResponse''\<rparr>) ''ListProvidersResponse'',
         wraps (no_keywords\<lparr>kw_title := ''SetProviderResponse''\<rparr>) ''SetProviderResponse'',
         wraps (no_keywords\<lparr>kw_title := ''DisableProviderResponse''\<rparr>) ''DisableProviderResponse'',
         wraps (no_keywords\<lparr>kw_title := ''LogoutResponse''\<rparr>) ''LogoutResponse'',
         wraps (no_keywords\<lparr>kw_title := ''AuthStatusResponse''\<rparr>) ''AuthStatusResponse'',
         wraps (no_keywords\<lparr>kw_title := ''NewSessionResponse''\<rparr>) ''NewSessionResponse'',
         wraps (no_keywords\<lparr>kw_title := ''LoadSessionResponse''\<rparr>) ''LoadSessionResponse'',
         wraps (no_keywords\<lparr>kw_title := ''ListSessionsResponse''\<rparr>) ''ListSessionsResponse'',
         wraps (no_keywords\<lparr>kw_title := ''DeleteSessionResponse''\<rparr>) ''DeleteSessionResponse'',
         wraps (no_keywords\<lparr>kw_title := ''ForkSessionResponse''\<rparr>) ''ForkSessionResponse'',
         wraps (no_keywords\<lparr>kw_title := ''ArchiveSessionResponse''\<rparr>) ''ArchiveSessionResponse'',
         wraps (no_keywords\<lparr>kw_title := ''UnarchiveSessionResponse''\<rparr>) ''UnarchiveSessionResponse'',
         wraps (no_keywords\<lparr>kw_title := ''SessionStatusResponse''\<rparr>) ''SessionStatusResponse'',
         wraps (no_keywords\<lparr>kw_title := ''SetSessionTitleResponse''\<rparr>) ''SetSessionTitleResponse'',
         wraps (no_keywords\<lparr>kw_title := ''ResumeSessionResponse''\<rparr>) ''ResumeSessionResponse'',
         wraps (no_keywords\<lparr>kw_title := ''CloseSessionResponse''\<rparr>) ''CloseSessionResponse'',
         wraps (no_keywords\<lparr>kw_title := ''SetSessionModeResponse''\<rparr>) ''SetSessionModeResponse'',
         wraps (no_keywords\<lparr>kw_title := ''SetSessionConfigOptionResponse''\<rparr>) ''SetSessionConfigOptionResponse'',
         wraps (no_keywords\<lparr>kw_title := ''PromptResponse''\<rparr>) ''PromptResponse'',
         wraps (no_keywords\<lparr>kw_title := ''ExtMethodResponse''\<rparr>) ''ExtResponse''] [] [])]
      None None [] [] [],
     Schema (no_keywords\<lparr>kw_type := ''object'', kw_title := ''Error'', kw_required := [''id'', ''error'']\<rparr>)
      [(''error'', wraps no_keywords ''Error''),
       (''id'', wraps no_keywords ''RequestId'')]
      None None [] [] []] [] []"

definition schema_Annotations :: schema where
  "schema_Annotations =
    Schema (no_keywords\<lparr>kw_type := ''object''\<rparr>)
    [(''_meta'', Schema (no_keywords\<lparr>kw_types := [''object'', ''null''], kw_extra := [(''x-deserialize-default-on-error'', ValBool True)]\<rparr>)
      []
      None (Some (anything)) [] [] []),
     (''audience'', Schema (no_keywords\<lparr>kw_types := [''array'', ''null''], kw_extra := [(''x-deserialize-default-on-error'', ValBool True), (''x-deserialize-skip-invalid-items'', ValBool True)]\<rparr>)
      []
      (Some (ref_to ''Role'')) None [] [] []),
     (''lastModified'', leaf (no_keywords\<lparr>kw_types := [''string'', ''null''], kw_extra := [(''x-deserialize-default-on-error'', ValBool True)]\<rparr>)),
     (''priority'', leaf (no_keywords\<lparr>kw_types := [''number'', ''null''], kw_format := ''double'', kw_extra := [(''x-deserialize-default-on-error'', ValBool True)]\<rparr>))]
    None None [] [] []"

definition schema_ArchiveSessionRequest :: schema where
  "schema_ArchiveSessionRequest =
    Schema (no_keywords\<lparr>kw_type := ''object'', kw_required := [''sessionId''], kw_extra := [(''x-method'', ValString ''session/archive''), (''x-side'', ValString ''agent'')]\<rparr>)
    [(''_meta'', Schema (no_keywords\<lparr>kw_types := [''object'', ''null''], kw_extra := [(''x-deserialize-default-on-error'', ValBool True)]\<rparr>)
      []
      None (Some (anything)) [] [] []),
     (''sessionId'', wraps no_keywords ''SessionId'')]
    None None [] [] []"

definition schema_ArchiveSessionResponse :: schema where
  "schema_ArchiveSessionResponse =
    Schema (no_keywords\<lparr>kw_type := ''object'', kw_extra := [(''x-method'', ValString ''session/archive''), (''x-side'', ValString ''agent'')]\<rparr>)
    [(''_meta'', Schema (no_keywords\<lparr>kw_types := [''object'', ''null''], kw_extra := [(''x-deserialize-default-on-error'', ValBool True)]\<rparr>)
      []
      None (Some (anything)) [] [] [])]
    None None [] [] []"

definition schema_AudioContent :: schema where
  "schema_AudioContent =
    Schema (no_keywords\<lparr>kw_type := ''object'', kw_required := [''data'', ''mimeType'']\<rparr>)
    [(''_meta'', Schema (no_keywords\<lparr>kw_types := [''object'', ''null''], kw_extra := [(''x-deserialize-default-on-error'', ValBool True)]\<rparr>)
      []
      None (Some (anything)) [] [] []),
     (''annotations'', Schema (no_keywords\<lparr>kw_extra := [(''x-deserialize-default-on-error'', ValBool True)]\<rparr>)
      []
      None None [ref_to ''Annotations'',
       leaf (no_keywords\<lparr>kw_type := ''null''\<rparr>)] [] []),
     (''data'', leaf (no_keywords\<lparr>kw_type := ''string''\<rparr>)),
     (''mimeType'', leaf (no_keywords\<lparr>kw_type := ''string''\<rparr>))]
    None None [] [] []"

definition schema_AuthAccount :: schema where
  "schema_AuthAccount =
    Schema (no_keywords\<lparr>kw_type := ''object'', kw_required := [''label'']\<rparr>)
    [(''_meta'', Schema (no_keywords\<lparr>kw_types := [''object'', ''null''], kw_extra := [(''x-deserialize-default-on-error'', ValBool True)]\<rparr>)
      []
      None (Some (anything)) [] [] []),
     (''active'', leaf (no_keywords\<lparr>kw_types := [''boolean'', ''null''], kw_extra := [(''x-deserialize-default-on-error'', ValBool True)]\<rparr>)),
     (''email'', leaf (no_keywords\<lparr>kw_types := [''string'', ''null''], kw_extra := [(''x-deserialize-default-on-error'', ValBool True)]\<rparr>)),
     (''label'', leaf (no_keywords\<lparr>kw_type := ''string''\<rparr>)),
     (''name'', leaf (no_keywords\<lparr>kw_types := [''string'', ''null''], kw_extra := [(''x-deserialize-default-on-error'', ValBool True)]\<rparr>)),
     (''organization'', leaf (no_keywords\<lparr>kw_types := [''string'', ''null''], kw_extra := [(''x-deserialize-default-on-error'', ValBool True)]\<rparr>))]
    None None [] [] []"

definition schema_AuthCapabilities :: schema where
  "schema_AuthCapabilities =
    Schema (no_keywords\<lparr>kw_type := ''object''\<rparr>)
    [(''_meta'', Schema (no_keywords\<lparr>kw_types := [''object'', ''null''], kw_extra := [(''x-deserialize-default-on-error'', ValBool True)]\<rparr>)
      []
      None (Some (anything)) [] [] []),
     (''terminal'', leaf (no_keywords\<lparr>kw_type := ''boolean'', kw_extra := [(''x-deserialize-default-on-error'', ValBool True)]\<rparr>))]
    None None [] [] []"

definition schema_AuthMethod :: schema where
  "schema_AuthMethod =
    Schema no_keywords
    []
    None None [Schema (no_keywords\<lparr>kw_type := ''object'', kw_required := [''type'']\<rparr>)
      [(''type'', leaf (no_keywords\<lparr>kw_type := ''string'', kw_const := Some (ValString ''terminal'')\<rparr>))]
      None None [] [] [ref_to ''AuthMethodTerminal''],
     wraps (no_keywords\<lparr>kw_title := ''agent''\<rparr>) ''AuthMethodAgent''] [] []"

definition schema_AuthMethodAgent :: schema where
  "schema_AuthMethodAgent =
    Schema (no_keywords\<lparr>kw_type := ''object'', kw_required := [''id'', ''name'']\<rparr>)
    [(''_meta'', Schema (no_keywords\<lparr>kw_types := [''object'', ''null''], kw_extra := [(''x-deserialize-default-on-error'', ValBool True)]\<rparr>)
      []
      None (Some (anything)) [] [] []),
     (''description'', leaf (no_keywords\<lparr>kw_types := [''string'', ''null''], kw_extra := [(''x-deserialize-default-on-error'', ValBool True)]\<rparr>)),
     (''id'', wraps no_keywords ''AuthMethodId''),
     (''name'', leaf (no_keywords\<lparr>kw_type := ''string''\<rparr>))]
    None None [] [] []"

definition schema_AuthMethodId :: schema where
  "schema_AuthMethodId =
    leaf (no_keywords\<lparr>kw_type := ''string''\<rparr>)"

definition schema_AuthMethodTerminal :: schema where
  "schema_AuthMethodTerminal =
    Schema (no_keywords\<lparr>kw_type := ''object'', kw_required := [''id'', ''name'']\<rparr>)
    [(''_meta'', Schema (no_keywords\<lparr>kw_types := [''object'', ''null''], kw_extra := [(''x-deserialize-default-on-error'', ValBool True)]\<rparr>)
      []
      None (Some (anything)) [] [] []),
     (''args'', Schema (no_keywords\<lparr>kw_type := ''array'', kw_extra := [(''x-deserialize-default-on-null'', ValBool True)]\<rparr>)
      []
      (Some (leaf (no_keywords\<lparr>kw_type := ''string''\<rparr>))) None [] [] []),
     (''description'', leaf (no_keywords\<lparr>kw_types := [''string'', ''null''], kw_extra := [(''x-deserialize-default-on-error'', ValBool True)]\<rparr>)),
     (''env'', Schema (no_keywords\<lparr>kw_type := ''object'', kw_extra := [(''x-deserialize-default-on-null'', ValBool True)]\<rparr>)
      []
      None (Some (leaf (no_keywords\<lparr>kw_type := ''string''\<rparr>))) [] [] []),
     (''id'', wraps no_keywords ''AuthMethodId''),
     (''name'', leaf (no_keywords\<lparr>kw_type := ''string''\<rparr>))]
    None None [] [] []"

definition schema_AuthState :: schema where
  "schema_AuthState =
    Schema no_keywords
    []
    None None [leaf (no_keywords\<lparr>kw_type := ''string'', kw_const := Some (ValString ''authenticated'')\<rparr>),
     leaf (no_keywords\<lparr>kw_type := ''string'', kw_const := Some (ValString ''unauthenticated'')\<rparr>),
     leaf (no_keywords\<lparr>kw_type := ''string'', kw_const := Some (ValString ''not_required'')\<rparr>),
     leaf (no_keywords\<lparr>kw_type := ''string'', kw_const := Some (ValString ''unknown'')\<rparr>),
     leaf (no_keywords\<lparr>kw_type := ''string'', kw_title := ''other''\<rparr>)] [] []"

definition schema_AuthStatusCapabilities :: schema where
  "schema_AuthStatusCapabilities =
    Schema (no_keywords\<lparr>kw_type := ''object''\<rparr>)
    [(''_meta'', Schema (no_keywords\<lparr>kw_types := [''object'', ''null''], kw_extra := [(''x-deserialize-default-on-error'', ValBool True)]\<rparr>)
      []
      None (Some (anything)) [] [] [])]
    None None [] [] []"

definition schema_AuthStatusRequest :: schema where
  "schema_AuthStatusRequest =
    Schema (no_keywords\<lparr>kw_type := ''object'', kw_extra := [(''x-method'', ValString ''auth/status''), (''x-side'', ValString ''agent'')]\<rparr>)
    [(''_meta'', Schema (no_keywords\<lparr>kw_types := [''object'', ''null''], kw_extra := [(''x-deserialize-default-on-error'', ValBool True)]\<rparr>)
      []
      None (Some (anything)) [] [] [])]
    None None [] [] []"

definition schema_AuthStatusResponse :: schema where
  "schema_AuthStatusResponse =
    Schema (no_keywords\<lparr>kw_type := ''object'', kw_required := [''state''], kw_extra := [(''x-method'', ValString ''auth/status''), (''x-side'', ValString ''agent'')]\<rparr>)
    [(''_meta'', Schema (no_keywords\<lparr>kw_types := [''object'', ''null''], kw_extra := [(''x-deserialize-default-on-error'', ValBool True)]\<rparr>)
      []
      None (Some (anything)) [] [] []),
     (''accounts'', Schema (no_keywords\<lparr>kw_type := ''array'', kw_extra := [(''x-deserialize-default-on-error'', ValBool True), (''x-deserialize-skip-invalid-items'', ValBool True)]\<rparr>)
      []
      (Some (ref_to ''AuthAccount'')) None [] [] []),
     (''state'', wraps no_keywords ''AuthState'')]
    None None [] [] []"

definition schema_AuthStatusUpdateNotification :: schema where
  "schema_AuthStatusUpdateNotification =
    Schema (no_keywords\<lparr>kw_type := ''object'', kw_required := [''state''], kw_extra := [(''x-method'', ValString ''auth/status_update''), (''x-side'', ValString ''client'')]\<rparr>)
    [(''_meta'', Schema (no_keywords\<lparr>kw_types := [''object'', ''null''], kw_extra := [(''x-deserialize-default-on-error'', ValBool True)]\<rparr>)
      []
      None (Some (anything)) [] [] []),
     (''accounts'', Schema (no_keywords\<lparr>kw_type := ''array'', kw_extra := [(''x-deserialize-default-on-error'', ValBool True), (''x-deserialize-skip-invalid-items'', ValBool True)]\<rparr>)
      []
      (Some (ref_to ''AuthAccount'')) None [] [] []),
     (''state'', wraps no_keywords ''AuthState'')]
    None None [] [] []"

definition schema_AuthenticateRequest :: schema where
  "schema_AuthenticateRequest =
    Schema (no_keywords\<lparr>kw_type := ''object'', kw_required := [''methodId''], kw_extra := [(''x-method'', ValString ''authenticate''), (''x-side'', ValString ''agent'')]\<rparr>)
    [(''_meta'', Schema (no_keywords\<lparr>kw_types := [''object'', ''null''], kw_extra := [(''x-deserialize-default-on-error'', ValBool True)]\<rparr>)
      []
      None (Some (anything)) [] [] []),
     (''methodId'', wraps no_keywords ''AuthMethodId'')]
    None None [] [] []"

definition schema_AuthenticateResponse :: schema where
  "schema_AuthenticateResponse =
    Schema (no_keywords\<lparr>kw_type := ''object'', kw_extra := [(''x-method'', ValString ''authenticate''), (''x-side'', ValString ''agent'')]\<rparr>)
    [(''_meta'', Schema (no_keywords\<lparr>kw_types := [''object'', ''null''], kw_extra := [(''x-deserialize-default-on-error'', ValBool True)]\<rparr>)
      []
      None (Some (anything)) [] [] [])]
    None None [] [] []"

definition schema_AvailableCommand :: schema where
  "schema_AvailableCommand =
    Schema (no_keywords\<lparr>kw_type := ''object'', kw_required := [''name'', ''description'']\<rparr>)
    [(''_meta'', Schema (no_keywords\<lparr>kw_types := [''object'', ''null''], kw_extra := [(''x-deserialize-default-on-error'', ValBool True)]\<rparr>)
      []
      None (Some (anything)) [] [] []),
     (''description'', leaf (no_keywords\<lparr>kw_type := ''string''\<rparr>)),
     (''input'', Schema (no_keywords\<lparr>kw_extra := [(''x-deserialize-default-on-error'', ValBool True)]\<rparr>)
      []
      None None [ref_to ''AvailableCommandInput'',
       leaf (no_keywords\<lparr>kw_type := ''null''\<rparr>)] [] []),
     (''name'', leaf (no_keywords\<lparr>kw_type := ''string''\<rparr>))]
    None None [] [] []"

definition schema_AvailableCommandInput :: schema where
  "schema_AvailableCommandInput =
    Schema no_keywords
    []
    None None [wraps (no_keywords\<lparr>kw_title := ''unstructured''\<rparr>) ''UnstructuredCommandInput''] [] []"

definition schema_AvailableCommandsUpdate :: schema where
  "schema_AvailableCommandsUpdate =
    Schema (no_keywords\<lparr>kw_type := ''object'', kw_required := [''availableCommands'']\<rparr>)
    [(''_meta'', Schema (no_keywords\<lparr>kw_types := [''object'', ''null''], kw_extra := [(''x-deserialize-default-on-error'', ValBool True)]\<rparr>)
      []
      None (Some (anything)) [] [] []),
     (''availableCommands'', Schema (no_keywords\<lparr>kw_type := ''array'', kw_extra := [(''x-deserialize-default-on-error'', ValBool True), (''x-deserialize-skip-invalid-items'', ValBool True)]\<rparr>)
      []
      (Some (ref_to ''AvailableCommand'')) None [] [] [])]
    None None [] [] []"

definition schema_BlobResourceContents :: schema where
  "schema_BlobResourceContents =
    Schema (no_keywords\<lparr>kw_type := ''object'', kw_required := [''blob'', ''uri'']\<rparr>)
    [(''_meta'', Schema (no_keywords\<lparr>kw_types := [''object'', ''null''], kw_extra := [(''x-deserialize-default-on-error'', ValBool True)]\<rparr>)
      []
      None (Some (anything)) [] [] []),
     (''blob'', leaf (no_keywords\<lparr>kw_type := ''string''\<rparr>)),
     (''mimeType'', leaf (no_keywords\<lparr>kw_types := [''string'', ''null''], kw_extra := [(''x-deserialize-default-on-error'', ValBool True)]\<rparr>)),
     (''uri'', leaf (no_keywords\<lparr>kw_type := ''string''\<rparr>))]
    None None [] [] []"

definition schema_BooleanConfigOptionCapabilities :: schema where
  "schema_BooleanConfigOptionCapabilities =
    Schema (no_keywords\<lparr>kw_type := ''object''\<rparr>)
    [(''_meta'', Schema (no_keywords\<lparr>kw_types := [''object'', ''null''], kw_extra := [(''x-deserialize-default-on-error'', ValBool True)]\<rparr>)
      []
      None (Some (anything)) [] [] [])]
    None None [] [] []"

definition schema_BooleanPropertySchema :: schema where
  "schema_BooleanPropertySchema =
    Schema (no_keywords\<lparr>kw_type := ''object''\<rparr>)
    [(''_meta'', Schema (no_keywords\<lparr>kw_types := [''object'', ''null''], kw_extra := [(''x-deserialize-default-on-error'', ValBool True)]\<rparr>)
      []
      None (Some (anything)) [] [] []),
     (''default'', leaf (no_keywords\<lparr>kw_types := [''boolean'', ''null''], kw_extra := [(''x-deserialize-default-on-error'', ValBool True)]\<rparr>)),
     (''description'', leaf (no_keywords\<lparr>kw_types := [''string'', ''null''], kw_extra := [(''x-deserialize-default-on-error'', ValBool True)]\<rparr>)),
     (''title'', leaf (no_keywords\<lparr>kw_types := [''string'', ''null''], kw_extra := [(''x-deserialize-default-on-error'', ValBool True)]\<rparr>))]
    None None [] [] []"

definition schema_CancelNotification :: schema where
  "schema_CancelNotification =
    Schema (no_keywords\<lparr>kw_type := ''object'', kw_required := [''sessionId''], kw_extra := [(''x-method'', ValString ''session/cancel''), (''x-side'', ValString ''agent'')]\<rparr>)
    [(''_meta'', Schema (no_keywords\<lparr>kw_types := [''object'', ''null''], kw_extra := [(''x-deserialize-default-on-error'', ValBool True)]\<rparr>)
      []
      None (Some (anything)) [] [] []),
     (''sessionId'', wraps no_keywords ''SessionId'')]
    None None [] [] []"

definition schema_CancelRequestNotification :: schema where
  "schema_CancelRequestNotification =
    Schema (no_keywords\<lparr>kw_type := ''object'', kw_required := [''requestId''], kw_extra := [(''x-method'', ValString ''$/cancel_request''), (''x-side'', ValString ''protocol'')]\<rparr>)
    [(''_meta'', Schema (no_keywords\<lparr>kw_types := [''object'', ''null''], kw_extra := [(''x-deserialize-default-on-error'', ValBool True)]\<rparr>)
      []
      None (Some (anything)) [] [] []),
     (''requestId'', wraps no_keywords ''RequestId'')]
    None None [] [] []"

definition schema_ClientCapabilities :: schema where
  "schema_ClientCapabilities =
    Schema (no_keywords\<lparr>kw_type := ''object''\<rparr>)
    [(''_meta'', Schema (no_keywords\<lparr>kw_types := [''object'', ''null''], kw_extra := [(''x-deserialize-default-on-error'', ValBool True)]\<rparr>)
      []
      None (Some (anything)) [] [] []),
     (''auth'', wraps (no_keywords\<lparr>kw_extra := [(''x-deserialize-default-on-error'', ValBool True)]\<rparr>) ''AuthCapabilities''),
     (''elicitation'', Schema (no_keywords\<lparr>kw_extra := [(''x-deserialize-default-on-error'', ValBool True)]\<rparr>)
      []
      None None [ref_to ''ElicitationCapabilities'',
       leaf (no_keywords\<lparr>kw_type := ''null''\<rparr>)] [] []),
     (''fs'', wraps (no_keywords\<lparr>kw_extra := [(''x-deserialize-default-on-error'', ValBool True)]\<rparr>) ''FileSystemCapabilities''),
     (''plan'', Schema (no_keywords\<lparr>kw_extra := [(''x-deserialize-default-on-error'', ValBool True)]\<rparr>)
      []
      None None [ref_to ''PlanCapabilities'',
       leaf (no_keywords\<lparr>kw_type := ''null''\<rparr>)] [] []),
     (''session'', Schema (no_keywords\<lparr>kw_extra := [(''x-deserialize-default-on-error'', ValBool True)]\<rparr>)
      []
      None None [ref_to ''ClientSessionCapabilities'',
       leaf (no_keywords\<lparr>kw_type := ''null''\<rparr>)] [] []),
     (''subagents'', Schema (no_keywords\<lparr>kw_extra := [(''x-deserialize-default-on-error'', ValBool True)]\<rparr>)
      []
      None None [ref_to ''SubagentCapabilities'',
       leaf (no_keywords\<lparr>kw_type := ''null''\<rparr>)] [] []),
     (''terminal'', leaf (no_keywords\<lparr>kw_type := ''boolean'', kw_extra := [(''x-deserialize-default-on-error'', ValBool True)]\<rparr>))]
    None None [] [] []"

definition schema_ClientNotification :: schema where
  "schema_ClientNotification =
    Schema (no_keywords\<lparr>kw_type := ''object'', kw_required := [''method''], kw_extra := [(''x-docs-ignore'', ValBool True)]\<rparr>)
    [(''method'', leaf (no_keywords\<lparr>kw_type := ''string''\<rparr>)),
     (''params'', Schema no_keywords
      []
      None None [Schema no_keywords
        []
        None None [wraps (no_keywords\<lparr>kw_title := ''CancelNotification''\<rparr>) ''CancelNotification'',
         wraps (no_keywords\<lparr>kw_title := ''MessageMcpNotification''\<rparr>) ''MessageMcpNotification'',
         wraps (no_keywords\<lparr>kw_title := ''ExtNotification''\<rparr>) ''ExtNotification''] [] [],
       leaf (no_keywords\<lparr>kw_type := ''null''\<rparr>)] [] [])]
    None None [] [] []"

definition schema_ClientRequest :: schema where
  "schema_ClientRequest =
    Schema (no_keywords\<lparr>kw_type := ''object'', kw_required := [''id'', ''method''], kw_extra := [(''x-docs-ignore'', ValBool True)]\<rparr>)
    [(''id'', wraps no_keywords ''RequestId''),
     (''method'', leaf (no_keywords\<lparr>kw_type := ''string''\<rparr>)),
     (''params'', Schema no_keywords
      []
      None None [Schema no_keywords
        []
        None None [wraps (no_keywords\<lparr>kw_title := ''InitializeRequest''\<rparr>) ''InitializeRequest'',
         wraps (no_keywords\<lparr>kw_title := ''AuthenticateRequest''\<rparr>) ''AuthenticateRequest'',
         wraps (no_keywords\<lparr>kw_title := ''ListProvidersRequest''\<rparr>) ''ListProvidersRequest'',
         wraps (no_keywords\<lparr>kw_title := ''SetProviderRequest''\<rparr>) ''SetProviderRequest'',
         wraps (no_keywords\<lparr>kw_title := ''DisableProviderRequest''\<rparr>) ''DisableProviderRequest'',
         wraps (no_keywords\<lparr>kw_title := ''LogoutRequest''\<rparr>) ''LogoutRequest'',
         wraps (no_keywords\<lparr>kw_title := ''AuthStatusRequest''\<rparr>) ''AuthStatusRequest'',
         wraps (no_keywords\<lparr>kw_title := ''NewSessionRequest''\<rparr>) ''NewSessionRequest'',
         wraps (no_keywords\<lparr>kw_title := ''LoadSessionRequest''\<rparr>) ''LoadSessionRequest'',
         wraps (no_keywords\<lparr>kw_title := ''ListSessionsRequest''\<rparr>) ''ListSessionsRequest'',
         wraps (no_keywords\<lparr>kw_title := ''DeleteSessionRequest''\<rparr>) ''DeleteSessionRequest'',
         wraps (no_keywords\<lparr>kw_title := ''ForkSessionRequest''\<rparr>) ''ForkSessionRequest'',
         wraps (no_keywords\<lparr>kw_title := ''ArchiveSessionRequest''\<rparr>) ''ArchiveSessionRequest'',
         wraps (no_keywords\<lparr>kw_title := ''UnarchiveSessionRequest''\<rparr>) ''UnarchiveSessionRequest'',
         wraps (no_keywords\<lparr>kw_title := ''SessionStatusRequest''\<rparr>) ''SessionStatusRequest'',
         wraps (no_keywords\<lparr>kw_title := ''SetSessionTitleRequest''\<rparr>) ''SetSessionTitleRequest'',
         wraps (no_keywords\<lparr>kw_title := ''ResumeSessionRequest''\<rparr>) ''ResumeSessionRequest'',
         wraps (no_keywords\<lparr>kw_title := ''CloseSessionRequest''\<rparr>) ''CloseSessionRequest'',
         wraps (no_keywords\<lparr>kw_title := ''SetSessionModeRequest''\<rparr>) ''SetSessionModeRequest'',
         wraps (no_keywords\<lparr>kw_title := ''SetSessionConfigOptionRequest''\<rparr>) ''SetSessionConfigOptionRequest'',
         wraps (no_keywords\<lparr>kw_title := ''PromptRequest''\<rparr>) ''PromptRequest'',
         wraps (no_keywords\<lparr>kw_title := ''ExtMethodRequest''\<rparr>) ''ExtRequest''] [] [],
       leaf (no_keywords\<lparr>kw_type := ''null''\<rparr>)] [] [])]
    None None [] [] []"

definition schema_ClientResponse :: schema where
  "schema_ClientResponse =
    Schema (no_keywords\<lparr>kw_extra := [(''x-docs-ignore'', ValBool True)]\<rparr>)
    []
    None None [Schema (no_keywords\<lparr>kw_type := ''object'', kw_title := ''Result'', kw_required := [''id'', ''result'']\<rparr>)
      [(''id'', wraps no_keywords ''RequestId''),
       (''result'', Schema no_keywords
        []
        None None [wraps (no_keywords\<lparr>kw_title := ''WriteTextFileResponse''\<rparr>) ''WriteTextFileResponse'',
         wraps (no_keywords\<lparr>kw_title := ''ReadTextFileResponse''\<rparr>) ''ReadTextFileResponse'',
         wraps (no_keywords\<lparr>kw_title := ''RequestPermissionResponse''\<rparr>) ''RequestPermissionResponse'',
         wraps (no_keywords\<lparr>kw_title := ''CreateTerminalResponse''\<rparr>) ''CreateTerminalResponse'',
         wraps (no_keywords\<lparr>kw_title := ''TerminalOutputResponse''\<rparr>) ''TerminalOutputResponse'',
         wraps (no_keywords\<lparr>kw_title := ''ReleaseTerminalResponse''\<rparr>) ''ReleaseTerminalResponse'',
         wraps (no_keywords\<lparr>kw_title := ''WaitForTerminalExitResponse''\<rparr>) ''WaitForTerminalExitResponse'',
         wraps (no_keywords\<lparr>kw_title := ''KillTerminalResponse''\<rparr>) ''KillTerminalResponse'',
         wraps (no_keywords\<lparr>kw_title := ''CreateElicitationResponse''\<rparr>) ''CreateElicitationResponse'',
         wraps (no_keywords\<lparr>kw_title := ''MessageMcpResponse''\<rparr>) ''MessageMcpResponse'',
         wraps (no_keywords\<lparr>kw_title := ''ExtMethodResponse''\<rparr>) ''ExtResponse''] [] [])]
      None None [] [] [],
     Schema (no_keywords\<lparr>kw_type := ''object'', kw_title := ''Error'', kw_required := [''id'', ''error'']\<rparr>)
      [(''error'', wraps no_keywords ''Error''),
       (''id'', wraps no_keywords ''RequestId'')]
      None None [] [] []] [] []"

definition schema_ClientSessionCapabilities :: schema where
  "schema_ClientSessionCapabilities =
    Schema (no_keywords\<lparr>kw_type := ''object''\<rparr>)
    [(''_meta'', Schema (no_keywords\<lparr>kw_types := [''object'', ''null''], kw_extra := [(''x-deserialize-default-on-error'', ValBool True)]\<rparr>)
      []
      None (Some (anything)) [] [] []),
     (''compaction'', Schema (no_keywords\<lparr>kw_extra := [(''x-deserialize-default-on-error'', ValBool True)]\<rparr>)
      []
      None None [ref_to ''CompactionCapabilities'',
       leaf (no_keywords\<lparr>kw_type := ''null''\<rparr>)] [] []),
     (''configOptions'', Schema (no_keywords\<lparr>kw_extra := [(''x-deserialize-default-on-error'', ValBool True)]\<rparr>)
      []
      None None [ref_to ''SessionConfigOptionsCapabilities'',
       leaf (no_keywords\<lparr>kw_type := ''null''\<rparr>)] [] []),
     (''notices'', Schema (no_keywords\<lparr>kw_extra := [(''x-deserialize-default-on-error'', ValBool True)]\<rparr>)
      []
      None None [ref_to ''NoticeCapabilities'',
       leaf (no_keywords\<lparr>kw_type := ''null''\<rparr>)] [] [])]
    None None [] [] []"

definition schema_CloseSessionRequest :: schema where
  "schema_CloseSessionRequest =
    Schema (no_keywords\<lparr>kw_type := ''object'', kw_required := [''sessionId''], kw_extra := [(''x-method'', ValString ''session/close''), (''x-side'', ValString ''agent'')]\<rparr>)
    [(''_meta'', Schema (no_keywords\<lparr>kw_types := [''object'', ''null''], kw_extra := [(''x-deserialize-default-on-error'', ValBool True)]\<rparr>)
      []
      None (Some (anything)) [] [] []),
     (''sessionId'', wraps no_keywords ''SessionId'')]
    None None [] [] []"

definition schema_CloseSessionResponse :: schema where
  "schema_CloseSessionResponse =
    Schema (no_keywords\<lparr>kw_type := ''object'', kw_extra := [(''x-method'', ValString ''session/close''), (''x-side'', ValString ''agent'')]\<rparr>)
    [(''_meta'', Schema (no_keywords\<lparr>kw_types := [''object'', ''null''], kw_extra := [(''x-deserialize-default-on-error'', ValBool True)]\<rparr>)
      []
      None (Some (anything)) [] [] [])]
    None None [] [] []"

definition schema_CompactionCapabilities :: schema where
  "schema_CompactionCapabilities =
    leaf (no_keywords\<lparr>kw_type := ''object''\<rparr>)"

definition schema_CompactionId :: schema where
  "schema_CompactionId =
    leaf (no_keywords\<lparr>kw_type := ''string''\<rparr>)"

definition schema_CompactionStatus :: schema where
  "schema_CompactionStatus =
    Schema no_keywords
    []
    None None [leaf (no_keywords\<lparr>kw_type := ''string'', kw_const := Some (ValString ''in_progress'')\<rparr>),
     leaf (no_keywords\<lparr>kw_type := ''string'', kw_const := Some (ValString ''completed'')\<rparr>),
     leaf (no_keywords\<lparr>kw_type := ''string'', kw_const := Some (ValString ''failed'')\<rparr>),
     leaf (no_keywords\<lparr>kw_type := ''string'', kw_const := Some (ValString ''cancelled'')\<rparr>),
     leaf (no_keywords\<lparr>kw_type := ''string'', kw_title := ''other''\<rparr>)] [] []"

definition schema_CompactionSummaryChunk :: schema where
  "schema_CompactionSummaryChunk =
    Schema (no_keywords\<lparr>kw_type := ''object'', kw_required := [''compactionId'', ''content'']\<rparr>)
    [(''_meta'', Schema (no_keywords\<lparr>kw_types := [''object'', ''null''], kw_extra := [(''x-deserialize-default-on-error'', ValBool True)]\<rparr>)
      []
      None (Some (anything)) [] [] []),
     (''compactionId'', wraps no_keywords ''CompactionId''),
     (''content'', wraps no_keywords ''ContentBlock'')]
    None None [] [] []"

definition schema_CompactionUpdate :: schema where
  "schema_CompactionUpdate =
    Schema (no_keywords\<lparr>kw_type := ''object'', kw_required := [''compactionId'', ''status'']\<rparr>)
    [(''_meta'', Schema (no_keywords\<lparr>kw_types := [''object'', ''null''], kw_extra := [(''x-deserialize-default-on-error'', ValBool True)]\<rparr>)
      []
      None (Some (anything)) [] [] []),
     (''compactionId'', wraps no_keywords ''CompactionId''),
     (''error'', leaf (no_keywords\<lparr>kw_types := [''string'', ''null''], kw_extra := [(''x-deserialize-default-on-error'', ValBool True)]\<rparr>)),
     (''status'', wraps no_keywords ''CompactionStatus''),
     (''summary'', Schema (no_keywords\<lparr>kw_types := [''array'', ''null''], kw_extra := [(''x-deserialize-default-on-error'', ValBool True), (''x-deserialize-skip-invalid-items'', ValBool True)]\<rparr>)
      []
      (Some (ref_to ''ContentBlock'')) None [] [] [])]
    None None [] [] []"

definition schema_CompleteElicitationNotification :: schema where
  "schema_CompleteElicitationNotification =
    Schema (no_keywords\<lparr>kw_type := ''object'', kw_required := [''elicitationId''], kw_extra := [(''x-method'', ValString ''elicitation/complete''), (''x-side'', ValString ''client'')]\<rparr>)
    [(''_meta'', Schema (no_keywords\<lparr>kw_types := [''object'', ''null''], kw_extra := [(''x-deserialize-default-on-error'', ValBool True)]\<rparr>)
      []
      None (Some (anything)) [] [] []),
     (''elicitationId'', wraps no_keywords ''ElicitationId'')]
    None None [] [] []"

definition schema_ConfigOptionUpdate :: schema where
  "schema_ConfigOptionUpdate =
    Schema (no_keywords\<lparr>kw_type := ''object'', kw_required := [''configOptions'']\<rparr>)
    [(''_meta'', Schema (no_keywords\<lparr>kw_types := [''object'', ''null''], kw_extra := [(''x-deserialize-default-on-error'', ValBool True)]\<rparr>)
      []
      None (Some (anything)) [] [] []),
     (''configOptions'', Schema (no_keywords\<lparr>kw_type := ''array'', kw_extra := [(''x-deserialize-default-on-error'', ValBool True), (''x-deserialize-skip-invalid-items'', ValBool True)]\<rparr>)
      []
      (Some (ref_to ''SessionConfigOption'')) None [] [] [])]
    None None [] [] []"

definition schema_Content :: schema where
  "schema_Content =
    Schema (no_keywords\<lparr>kw_type := ''object'', kw_required := [''content'']\<rparr>)
    [(''_meta'', Schema (no_keywords\<lparr>kw_types := [''object'', ''null''], kw_extra := [(''x-deserialize-default-on-error'', ValBool True)]\<rparr>)
      []
      None (Some (anything)) [] [] []),
     (''content'', wraps no_keywords ''ContentBlock'')]
    None None [] [] []"

definition schema_ContentBlock :: schema where
  "schema_ContentBlock =
    Schema (no_keywords\<lparr>kw_extra := [(''discriminator'', ValMap [(''propertyName'', ValString ''type'')])]\<rparr>)
    []
    None None [] [Schema (no_keywords\<lparr>kw_type := ''object'', kw_required := [''type'']\<rparr>)
      [(''type'', leaf (no_keywords\<lparr>kw_type := ''string'', kw_const := Some (ValString ''text'')\<rparr>))]
      None None [] [] [ref_to ''TextContent''],
     Schema (no_keywords\<lparr>kw_type := ''object'', kw_required := [''type'']\<rparr>)
      [(''type'', leaf (no_keywords\<lparr>kw_type := ''string'', kw_const := Some (ValString ''image'')\<rparr>))]
      None None [] [] [ref_to ''ImageContent''],
     Schema (no_keywords\<lparr>kw_type := ''object'', kw_required := [''type'']\<rparr>)
      [(''type'', leaf (no_keywords\<lparr>kw_type := ''string'', kw_const := Some (ValString ''audio'')\<rparr>))]
      None None [] [] [ref_to ''AudioContent''],
     Schema (no_keywords\<lparr>kw_type := ''object'', kw_required := [''type'']\<rparr>)
      [(''type'', leaf (no_keywords\<lparr>kw_type := ''string'', kw_const := Some (ValString ''resource_link'')\<rparr>))]
      None None [] [] [ref_to ''ResourceLink''],
     Schema (no_keywords\<lparr>kw_type := ''object'', kw_required := [''type'']\<rparr>)
      [(''type'', leaf (no_keywords\<lparr>kw_type := ''string'', kw_const := Some (ValString ''resource'')\<rparr>))]
      None None [] [] [ref_to ''EmbeddedResource'']] []"

definition schema_ContentChunk :: schema where
  "schema_ContentChunk =
    Schema (no_keywords\<lparr>kw_type := ''object'', kw_required := [''content'']\<rparr>)
    [(''_meta'', Schema (no_keywords\<lparr>kw_types := [''object'', ''null''], kw_extra := [(''x-deserialize-default-on-error'', ValBool True)]\<rparr>)
      []
      None (Some (anything)) [] [] []),
     (''content'', wraps no_keywords ''ContentBlock''),
     (''messageId'', Schema (no_keywords\<lparr>kw_extra := [(''x-deserialize-default-on-error'', ValBool True)]\<rparr>)
      []
      None None [ref_to ''MessageId'',
       leaf (no_keywords\<lparr>kw_type := ''null''\<rparr>)] [] [])]
    None None [] [] []"

definition schema_Cost :: schema where
  "schema_Cost =
    Schema (no_keywords\<lparr>kw_type := ''object'', kw_required := [''amount'', ''currency'']\<rparr>)
    [(''_meta'', Schema (no_keywords\<lparr>kw_types := [''object'', ''null''], kw_extra := [(''x-deserialize-default-on-error'', ValBool True)]\<rparr>)
      []
      None (Some (anything)) [] [] []),
     (''amount'', leaf (no_keywords\<lparr>kw_type := ''number'', kw_format := ''double''\<rparr>)),
     (''currency'', leaf (no_keywords\<lparr>kw_type := ''string''\<rparr>))]
    None None [] [] []"

definition schema_CreateElicitationRequest :: schema where
  "schema_CreateElicitationRequest =
    Schema (no_keywords\<lparr>kw_type := ''object'', kw_required := [''message''], kw_extra := [(''x-method'', ValString ''elicitation/create''), (''x-side'', ValString ''client'')]\<rparr>)
    [(''_meta'', Schema (no_keywords\<lparr>kw_types := [''object'', ''null''], kw_extra := [(''x-deserialize-default-on-error'', ValBool True)]\<rparr>)
      []
      None (Some (anything)) [] [] []),
     (''message'', leaf (no_keywords\<lparr>kw_type := ''string''\<rparr>))]
    None None [Schema (no_keywords\<lparr>kw_type := ''object'', kw_required := [''mode'']\<rparr>)
      [(''mode'', leaf (no_keywords\<lparr>kw_type := ''string'', kw_const := Some (ValString ''form'')\<rparr>))]
      None None [] [] [ref_to ''ElicitationFormMode''],
     Schema (no_keywords\<lparr>kw_type := ''object'', kw_required := [''mode'']\<rparr>)
      [(''mode'', leaf (no_keywords\<lparr>kw_type := ''string'', kw_const := Some (ValString ''url'')\<rparr>))]
      None None [] [] [ref_to ''ElicitationUrlMode''],
     Schema (no_keywords\<lparr>kw_type := ''object'', kw_title := ''other'', kw_required := [''mode'']\<rparr>)
      [(''mode'', leaf (no_keywords\<lparr>kw_type := ''string''\<rparr>))]
      None None [wraps (no_keywords\<lparr>kw_title := ''Session''\<rparr>) ''ElicitationSessionScope'',
       wraps (no_keywords\<lparr>kw_title := ''Request''\<rparr>) ''ElicitationRequestScope''] [] []] [] []"

definition schema_CreateElicitationResponse :: schema where
  "schema_CreateElicitationResponse =
    Schema (no_keywords\<lparr>kw_type := ''object'', kw_extra := [(''x-method'', ValString ''elicitation/create''), (''x-side'', ValString ''client'')]\<rparr>)
    [(''_meta'', Schema (no_keywords\<lparr>kw_types := [''object'', ''null''], kw_extra := [(''x-deserialize-default-on-error'', ValBool True)]\<rparr>)
      []
      None (Some (anything)) [] [] [])]
    None None [Schema (no_keywords\<lparr>kw_type := ''object'', kw_required := [''action'']\<rparr>)
      [(''action'', leaf (no_keywords\<lparr>kw_type := ''string'', kw_const := Some (ValString ''accept'')\<rparr>))]
      None None [] [] [ref_to ''ElicitationAcceptAction''],
     Schema (no_keywords\<lparr>kw_type := ''object'', kw_required := [''action'']\<rparr>)
      [(''action'', leaf (no_keywords\<lparr>kw_type := ''string'', kw_const := Some (ValString ''decline'')\<rparr>))]
      None None [] [] [],
     Schema (no_keywords\<lparr>kw_type := ''object'', kw_required := [''action'']\<rparr>)
      [(''action'', leaf (no_keywords\<lparr>kw_type := ''string'', kw_const := Some (ValString ''cancel'')\<rparr>))]
      None None [] [] [],
     Schema (no_keywords\<lparr>kw_type := ''object'', kw_title := ''other'', kw_required := [''action'']\<rparr>)
      [(''action'', leaf (no_keywords\<lparr>kw_type := ''string''\<rparr>))]
      None (Some (anything)) [] [] []] [] []"

definition schema_CreateTerminalRequest :: schema where
  "schema_CreateTerminalRequest =
    Schema (no_keywords\<lparr>kw_type := ''object'', kw_required := [''sessionId'', ''command''], kw_extra := [(''x-method'', ValString ''terminal/create''), (''x-side'', ValString ''client'')]\<rparr>)
    [(''_meta'', Schema (no_keywords\<lparr>kw_types := [''object'', ''null''], kw_extra := [(''x-deserialize-default-on-error'', ValBool True)]\<rparr>)
      []
      None (Some (anything)) [] [] []),
     (''args'', Schema (no_keywords\<lparr>kw_type := ''array'', kw_extra := [(''x-deserialize-default-on-null'', ValBool True)]\<rparr>)
      []
      (Some (leaf (no_keywords\<lparr>kw_type := ''string''\<rparr>))) None [] [] []),
     (''command'', leaf (no_keywords\<lparr>kw_type := ''string''\<rparr>)),
     (''cwd'', leaf (no_keywords\<lparr>kw_types := [''string'', ''null'']\<rparr>)),
     (''env'', Schema (no_keywords\<lparr>kw_type := ''array'', kw_extra := [(''x-deserialize-default-on-null'', ValBool True)]\<rparr>)
      []
      (Some (ref_to ''EnvVariable'')) None [] [] []),
     (''outputByteLimit'', leaf (no_keywords\<lparr>kw_types := [''integer'', ''null''], kw_format := ''uint64''\<rparr>)),
     (''sessionId'', wraps no_keywords ''SessionId'')]
    None None [] [] []"

definition schema_CreateTerminalResponse :: schema where
  "schema_CreateTerminalResponse =
    Schema (no_keywords\<lparr>kw_type := ''object'', kw_required := [''terminalId''], kw_extra := [(''x-method'', ValString ''terminal/create''), (''x-side'', ValString ''client'')]\<rparr>)
    [(''_meta'', Schema (no_keywords\<lparr>kw_types := [''object'', ''null''], kw_extra := [(''x-deserialize-default-on-error'', ValBool True)]\<rparr>)
      []
      None (Some (anything)) [] [] []),
     (''terminalId'', wraps no_keywords ''TerminalId'')]
    None None [] [] []"

definition acp_definitions_1 :: schema_defs where
  "acp_definitions_1 =
    [(''AgentAuthCapabilities'', schema_AgentAuthCapabilities),
     (''AgentCapabilities'', schema_AgentCapabilities),
     (''AgentNotification'', schema_AgentNotification),
     (''AgentRequest'', schema_AgentRequest),
     (''AgentResponse'', schema_AgentResponse),
     (''Annotations'', schema_Annotations),
     (''ArchiveSessionRequest'', schema_ArchiveSessionRequest),
     (''ArchiveSessionResponse'', schema_ArchiveSessionResponse),
     (''AudioContent'', schema_AudioContent),
     (''AuthAccount'', schema_AuthAccount),
     (''AuthCapabilities'', schema_AuthCapabilities),
     (''AuthMethod'', schema_AuthMethod),
     (''AuthMethodAgent'', schema_AuthMethodAgent),
     (''AuthMethodId'', schema_AuthMethodId),
     (''AuthMethodTerminal'', schema_AuthMethodTerminal),
     (''AuthState'', schema_AuthState),
     (''AuthStatusCapabilities'', schema_AuthStatusCapabilities),
     (''AuthStatusRequest'', schema_AuthStatusRequest),
     (''AuthStatusResponse'', schema_AuthStatusResponse),
     (''AuthStatusUpdateNotification'', schema_AuthStatusUpdateNotification),
     (''AuthenticateRequest'', schema_AuthenticateRequest),
     (''AuthenticateResponse'', schema_AuthenticateResponse),
     (''AvailableCommand'', schema_AvailableCommand),
     (''AvailableCommandInput'', schema_AvailableCommandInput),
     (''AvailableCommandsUpdate'', schema_AvailableCommandsUpdate),
     (''BlobResourceContents'', schema_BlobResourceContents),
     (''BooleanConfigOptionCapabilities'', schema_BooleanConfigOptionCapabilities),
     (''BooleanPropertySchema'', schema_BooleanPropertySchema),
     (''CancelNotification'', schema_CancelNotification),
     (''CancelRequestNotification'', schema_CancelRequestNotification),
     (''ClientCapabilities'', schema_ClientCapabilities),
     (''ClientNotification'', schema_ClientNotification),
     (''ClientRequest'', schema_ClientRequest),
     (''ClientResponse'', schema_ClientResponse),
     (''ClientSessionCapabilities'', schema_ClientSessionCapabilities),
     (''CloseSessionRequest'', schema_CloseSessionRequest),
     (''CloseSessionResponse'', schema_CloseSessionResponse),
     (''CompactionCapabilities'', schema_CompactionCapabilities),
     (''CompactionId'', schema_CompactionId),
     (''CompactionStatus'', schema_CompactionStatus),
     (''CompactionSummaryChunk'', schema_CompactionSummaryChunk),
     (''CompactionUpdate'', schema_CompactionUpdate),
     (''CompleteElicitationNotification'', schema_CompleteElicitationNotification),
     (''ConfigOptionUpdate'', schema_ConfigOptionUpdate),
     (''Content'', schema_Content),
     (''ContentBlock'', schema_ContentBlock),
     (''ContentChunk'', schema_ContentChunk),
     (''Cost'', schema_Cost),
     (''CreateElicitationRequest'', schema_CreateElicitationRequest),
     (''CreateElicitationResponse'', schema_CreateElicitationResponse),
     (''CreateTerminalRequest'', schema_CreateTerminalRequest),
     (''CreateTerminalResponse'', schema_CreateTerminalResponse)]"

end
