(* ===== verification/Acp_Schema_2.thy ===== *)
theory Acp_Schema_2
  imports Schema
begin

text \<open>
  The definitions \<open>CurrentModeUpdate\<close> to \<open>MultiSelectPropertySchema\<close> of internal/schemagen/schema.json, with the keywords the
  generator reads. Descriptions, and defaults other than \<open>true\<close>, are left out.
\<close>

definition schema_CurrentModeUpdate :: schema where
  "schema_CurrentModeUpdate =
    Schema (no_keywords\<lparr>kw_type := ''object'', kw_required := [''currentModeId'']\<rparr>)
    [(''_meta'', Schema (no_keywords\<lparr>kw_types := [''object'', ''null''], kw_extra := [(''x-deserialize-default-on-error'', ValBool True)]\<rparr>)
      []
      None (Some (anything)) [] [] []),
     (''currentModeId'', wraps no_keywords ''SessionModeId'')]
    None None [] [] []"

definition schema_DeleteSessionRequest :: schema where
  "schema_DeleteSessionRequest =
    Schema (no_keywords\<lparr>kw_type := ''object'', kw_required := [''sessionId''], kw_extra := [(''x-method'', ValString ''session/delete''), (''x-side'', ValString ''agent'')]\<rparr>)
    [(''_meta'', Schema (no_keywords\<lparr>kw_types := [''object'', ''null''], kw_extra := [(''x-deserialize-default-on-error'', ValBool True)]\<rparr>)
      []
      None (Some (anything)) [] [] []),
     (''sessionId'', wraps no_keywords ''SessionId'')]
    None None [] [] []"

definition schema_DeleteSessionResponse :: schema where
  "schema_DeleteSessionResponse =
    Schema (no_keywords\<lparr>kw_type := ''object'', kw_extra := [(''x-method'', ValString ''session/delete''), (''x-side'', ValString ''agent'')]\<rparr>)
    [(''_meta'', Schema (no_keywords\<lparr>kw_types := [''object'', ''null''], kw_extra := [(''x-deserialize-default-on-error'', ValBool True)]\<rparr>)
      []
      None (Some (anything)) [] [] [])]
    None None [] [] []"

definition schema_Diff :: schema where
  "schema_Diff =
    Schema (no_keywords\<lparr>kw_type := ''object'', kw_required := [''path'', ''newText'']\<rparr>)
    [(''_meta'', Schema (no_keywords\<lparr>kw_types := [''object'', ''null''], kw_extra := [(''x-deserialize-default-on-error'', ValBool True)]\<rparr>)
      []
      None (Some (anything)) [] [] []),
     (''newText'', leaf (no_keywords\<lparr>kw_type := ''string''\<rparr>)),
     (''oldText'', leaf (no_keywords\<lparr>kw_types := [''string'', ''null''], kw_extra := [(''x-deserialize-default-on-error'', ValBool True)]\<rparr>)),
     (''path'', leaf (no_keywords\<lparr>kw_type := ''string''\<rparr>))]
    None None [] [] []"

definition schema_DisableProviderRequest :: schema where
  "schema_DisableProviderRequest =
    Schema (no_keywords\<lparr>kw_type := ''object'', kw_required := [''providerId''], kw_extra := [(''x-method'', ValString ''providers/disable''), (''x-side'', ValString ''agent'')]\<rparr>)
    [(''_meta'', Schema (no_keywords\<lparr>kw_types := [''object'', ''null''], kw_extra := [(''x-deserialize-default-on-error'', ValBool True)]\<rparr>)
      []
      None (Some (anything)) [] [] []),
     (''providerId'', wraps no_keywords ''ProviderId'')]
    None None [] [] []"

definition schema_DisableProviderResponse :: schema where
  "schema_DisableProviderResponse =
    Schema (no_keywords\<lparr>kw_type := ''object'', kw_extra := [(''x-method'', ValString ''providers/disable''), (''x-side'', ValString ''agent'')]\<rparr>)
    [(''_meta'', Schema (no_keywords\<lparr>kw_types := [''object'', ''null''], kw_extra := [(''x-deserialize-default-on-error'', ValBool True)]\<rparr>)
      []
      None (Some (anything)) [] [] [])]
    None None [] [] []"

definition schema_ElicitationAcceptAction :: schema where
  "schema_ElicitationAcceptAction =
    Schema (no_keywords\<lparr>kw_type := ''object''\<rparr>)
    [(''content'', Schema (no_keywords\<lparr>kw_types := [''object'', ''null'']\<rparr>)
      []
      None (Some (ref_to ''ElicitationContentValue'')) [] [] [])]
    None None [] [] []"

definition schema_ElicitationCapabilities :: schema where
  "schema_ElicitationCapabilities =
    Schema (no_keywords\<lparr>kw_type := ''object''\<rparr>)
    [(''_meta'', Schema (no_keywords\<lparr>kw_types := [''object'', ''null''], kw_extra := [(''x-deserialize-default-on-error'', ValBool True)]\<rparr>)
      []
      None (Some (anything)) [] [] []),
     (''form'', Schema (no_keywords\<lparr>kw_extra := [(''x-deserialize-default-on-error'', ValBool True)]\<rparr>)
      []
      None None [ref_to ''ElicitationFormCapabilities'',
       leaf (no_keywords\<lparr>kw_type := ''null''\<rparr>)] [] []),
     (''url'', Schema (no_keywords\<lparr>kw_extra := [(''x-deserialize-default-on-error'', ValBool True)]\<rparr>)
      []
      None None [ref_to ''ElicitationUrlCapabilities'',
       leaf (no_keywords\<lparr>kw_type := ''null''\<rparr>)] [] [])]
    None None [] [] []"

definition schema_ElicitationContentValue :: schema where
  "schema_ElicitationContentValue =
    Schema no_keywords
    []
    None None [leaf (no_keywords\<lparr>kw_type := ''string'', kw_title := ''String''\<rparr>),
     leaf (no_keywords\<lparr>kw_type := ''integer'', kw_format := ''int64'', kw_title := ''Integer''\<rparr>),
     leaf (no_keywords\<lparr>kw_type := ''number'', kw_format := ''double'', kw_title := ''Number''\<rparr>),
     leaf (no_keywords\<lparr>kw_type := ''boolean'', kw_title := ''Boolean''\<rparr>),
     Schema (no_keywords\<lparr>kw_type := ''array'', kw_title := ''StringArray''\<rparr>)
      []
      (Some (leaf (no_keywords\<lparr>kw_type := ''string''\<rparr>))) None [] [] []] [] []"

definition schema_ElicitationFormCapabilities :: schema where
  "schema_ElicitationFormCapabilities =
    Schema (no_keywords\<lparr>kw_type := ''object''\<rparr>)
    [(''_meta'', Schema (no_keywords\<lparr>kw_types := [''object'', ''null''], kw_extra := [(''x-deserialize-default-on-error'', ValBool True)]\<rparr>)
      []
      None (Some (anything)) [] [] [])]
    None None [] [] []"

definition schema_ElicitationFormMode :: schema where
  "schema_ElicitationFormMode =
    Schema (no_keywords\<lparr>kw_type := ''object'', kw_required := [''requestedSchema'']\<rparr>)
    [(''requestedSchema'', wraps no_keywords ''ElicitationSchema'')]
    None None [wraps (no_keywords\<lparr>kw_title := ''Session''\<rparr>) ''ElicitationSessionScope'',
     wraps (no_keywords\<lparr>kw_title := ''Request''\<rparr>) ''ElicitationRequestScope''] [] []"

definition schema_ElicitationId :: schema where
  "schema_ElicitationId =
    leaf (no_keywords\<lparr>kw_type := ''string''\<rparr>)"

definition schema_ElicitationPropertySchema :: schema where
  "schema_ElicitationPropertySchema =
    Schema no_keywords
    []
    None None [Schema (no_keywords\<lparr>kw_type := ''object'', kw_required := [''type'']\<rparr>)
      [(''type'', leaf (no_keywords\<lparr>kw_type := ''string'', kw_const := Some (ValString ''string'')\<rparr>))]
      None None [] [] [ref_to ''StringPropertySchema''],
     Schema (no_keywords\<lparr>kw_type := ''object'', kw_required := [''type'']\<rparr>)
      [(''type'', leaf (no_keywords\<lparr>kw_type := ''string'', kw_const := Some (ValString ''number'')\<rparr>))]
      None None [] [] [ref_to ''NumberPropertySchema''],
     Schema (no_keywords\<lparr>kw_type := ''object'', kw_required := [''type'']\<rparr>)
      [(''type'', leaf (no_keywords\<lparr>kw_type := ''string'', kw_const := Some (ValString ''integer'')\<rparr>))]
      None None [] [] [ref_to ''IntegerPropertySchema''],
     Schema (no_keywords\<lparr>kw_type := ''object'', kw_required := [''type'']\<rparr>)
      [(''type'', leaf (no_keywords\<lparr>kw_type := ''string'', kw_const := Some (ValString ''boolean'')\<rparr>))]
      None None [] [] [ref_to ''BooleanPropertySchema''],
     Schema (no_keywords\<lparr>kw_type := ''object'', kw_required := [''type'']\<rparr>)
      [(''type'', leaf (no_keywords\<lparr>kw_type := ''string'', kw_const := Some (ValString ''array'')\<rparr>))]
      None None [] [] [ref_to ''MultiSelectPropertySchema''],
     Schema (no_keywords\<lparr>kw_type := ''object'', kw_title := ''other'', kw_required := [''type'']\<rparr>)
      [(''type'', leaf (no_keywords\<lparr>kw_type := ''string''\<rparr>))]
      None (Some (anything)) [] [] []] [] []"

definition schema_ElicitationRequestScope :: schema where
  "schema_ElicitationRequestScope =
    Schema (no_keywords\<lparr>kw_type := ''object'', kw_required := [''requestId'']\<rparr>)
    [(''requestId'', wraps no_keywords ''RequestId'')]
    None None [] [] []"

definition schema_ElicitationSchema :: schema where
  "schema_ElicitationSchema =
    Schema (no_keywords\<lparr>kw_type := ''object''\<rparr>)
    [(''_meta'', Schema (no_keywords\<lparr>kw_types := [''object'', ''null''], kw_extra := [(''x-deserialize-default-on-error'', ValBool True)]\<rparr>)
      []
      None (Some (anything)) [] [] []),
     (''description'', leaf (no_keywords\<lparr>kw_types := [''string'', ''null''], kw_extra := [(''x-deserialize-default-on-error'', ValBool True)]\<rparr>)),
     (''properties'', Schema (no_keywords\<lparr>kw_type := ''object''\<rparr>)
      []
      None (Some (ref_to ''ElicitationPropertySchema'')) [] [] []),
     (''required'', Schema (no_keywords\<lparr>kw_types := [''array'', ''null'']\<rparr>)
      []
      (Some (leaf (no_keywords\<lparr>kw_type := ''string''\<rparr>))) None [] [] []),
     (''title'', leaf (no_keywords\<lparr>kw_types := [''string'', ''null''], kw_extra := [(''x-deserialize-default-on-error'', ValBool True)]\<rparr>)),
     (''type'', wraps (no_keywords\<lparr>kw_extra := [(''x-deserialize-default-on-error'', ValBool True)]\<rparr>) ''ElicitationSchemaType'')]
    None None [] [] []"

definition schema_ElicitationSchemaType :: schema where
  "schema_ElicitationSchemaType =
    Schema no_keywords
    []
    None None [] [leaf (no_keywords\<lparr>kw_type := ''string'', kw_const := Some (ValString ''object'')\<rparr>)] []"

definition schema_ElicitationSessionScope :: schema where
  "schema_ElicitationSessionScope =
    Schema (no_keywords\<lparr>kw_type := ''object'', kw_required := [''sessionId'']\<rparr>)
    [(''sessionId'', wraps no_keywords ''SessionId''),
     (''toolCallId'', Schema (no_keywords\<lparr>kw_extra := [(''x-deserialize-default-on-error'', ValBool True)]\<rparr>)
      []
      None None [ref_to ''ToolCallId'',
       leaf (no_keywords\<lparr>kw_type := ''null''\<rparr>)] [] [])]
    None None [] [] []"

definition schema_ElicitationUrlCapabilities :: schema where
  "schema_ElicitationUrlCapabilities =
    Schema (no_keywords\<lparr>kw_type := ''object''\<rparr>)
    [(''_meta'', Schema (no_keywords\<lparr>kw_types := [''object'', ''null''], kw_extra := [(''x-deserialize-default-on-error'', ValBool True)]\<rparr>)
      []
      None (Some (anything)) [] [] [])]
    None None [] [] []"

definition schema_ElicitationUrlMode :: schema where
  "schema_ElicitationUrlMode =
    Schema (no_keywords\<lparr>kw_type := ''object'', kw_required := [''elicitationId'', ''url'']\<rparr>)
    [(''elicitationId'', wraps no_keywords ''ElicitationId''),
     (''url'', leaf (no_keywords\<lparr>kw_type := ''string'', kw_format := ''uri''\<rparr>))]
    None None [wraps (no_keywords\<lparr>kw_title := ''Session''\<rparr>) ''ElicitationSessionScope'',
     wraps (no_keywords\<lparr>kw_title := ''Request''\<rparr>) ''ElicitationRequestScope''] [] []"

definition schema_EmbeddedResource :: schema where
  "schema_EmbeddedResource =
    Schema (no_keywords\<lparr>kw_type := ''object'', kw_required := [''resource'']\<rparr>)
    [(''_meta'', Schema (no_keywords\<lparr>kw_types := [''object'', ''null''], kw_extra := [(''x-deserialize-default-on-error'', ValBool True)]\<rparr>)
      []
      None (Some (anything)) [] [] []),
     (''annotations'', Schema (no_keywords\<lparr>kw_extra := [(''x-deserialize-default-on-error'', ValBool True)]\<rparr>)
      []
      None None [ref_to ''Annotations'',
       leaf (no_keywords\<lparr>kw_type := ''null''\<rparr>)] [] []),
     (''resource'', wraps no_keywords ''EmbeddedResourceResource'')]
    None None [] [] []"

definition schema_EmbeddedResourceResource :: schema where
  "schema_EmbeddedResourceResource =
    Schema no_keywords
    []
    None None [wraps (no_keywords\<lparr>kw_title := ''TextResourceContents''\<rparr>) ''TextResourceContents'',
     wraps (no_keywords\<lparr>kw_title := ''BlobResourceContents''\<rparr>) ''BlobResourceContents''] [] []"

definition schema_EnumOption :: schema where
  "schema_EnumOption =
    Schema (no_keywords\<lparr>kw_type := ''object'', kw_required := [''const'', ''title'']\<rparr>)
    [(''_meta'', Schema (no_keywords\<lparr>kw_types := [''object'', ''null''], kw_extra := [(''x-deserialize-default-on-error'', ValBool True)]\<rparr>)
      []
      None (Some (anything)) [] [] []),
     (''const'', leaf (no_keywords\<lparr>kw_type := ''string''\<rparr>)),
     (''description'', leaf (no_keywords\<lparr>kw_types := [''string'', ''null''], kw_extra := [(''x-deserialize-default-on-error'', ValBool True)]\<rparr>)),
     (''title'', leaf (no_keywords\<lparr>kw_type := ''string''\<rparr>))]
    None None [] [] []"

definition schema_EnvVariable :: schema where
  "schema_EnvVariable =
    Schema (no_keywords\<lparr>kw_type := ''object'', kw_required := [''name'', ''value'']\<rparr>)
    [(''_meta'', Schema (no_keywords\<lparr>kw_types := [''object'', ''null''], kw_extra := [(''x-deserialize-default-on-error'', ValBool True)]\<rparr>)
      []
      None (Some (anything)) [] [] []),
     (''name'', leaf (no_keywords\<lparr>kw_type := ''string''\<rparr>)),
     (''value'', leaf (no_keywords\<lparr>kw_type := ''string''\<rparr>))]
    None None [] [] []"

definition schema_Error :: schema where
  "schema_Error =
    Schema (no_keywords\<lparr>kw_type := ''object'', kw_required := [''code'', ''message'']\<rparr>)
    [(''code'', wraps no_keywords ''ErrorCode''),
     (''data'', leaf (no_keywords\<lparr>kw_extra := [(''x-deserialize-default-on-error'', ValBool True)]\<rparr>)),
     (''message'', leaf (no_keywords\<lparr>kw_type := ''string''\<rparr>))]
    None None [] [] []"

definition schema_ErrorCode :: schema where
  "schema_ErrorCode =
    Schema no_keywords
    []
    None None [leaf (no_keywords\<lparr>kw_type := ''integer'', kw_format := ''int32'', kw_title := ''Parse error'', kw_const := Some (ValNumber (- 32700))\<rparr>),
     leaf (no_keywords\<lparr>kw_type := ''integer'', kw_format := ''int32'', kw_title := ''Invalid request'', kw_const := Some (ValNumber (- 32600))\<rparr>),
     leaf (no_keywords\<lparr>kw_type := ''integer'', kw_format := ''int32'', kw_title := ''Method not found'', kw_const := Some (ValNumber (- 32601))\<rparr>),
     leaf (no_keywords\<lparr>kw_type := ''integer'', kw_format := ''int32'', kw_title := ''Invalid params'', kw_const := Some (ValNumber (- 32602))\<rparr>),
     leaf (no_keywords\<lparr>kw_type := ''integer'', kw_format := ''int32'', kw_title := ''Internal error'', kw_const := Some (ValNumber (- 32603))\<rparr>),
     leaf (no_keywords\<lparr>kw_type := ''integer'', kw_format := ''int32'', kw_title := ''Request cancelled'', kw_const := Some (ValNumber (- 32800))\<rparr>),
     leaf (no_keywords\<lparr>kw_type := ''integer'', kw_format := ''int32'', kw_title := ''Authentication required'', kw_const := Some (ValNumber (- 32000))\<rparr>),
     leaf (no_keywords\<lparr>kw_type := ''integer'', kw_format := ''int32'', kw_title := ''Resource not found'', kw_const := Some (ValNumber (- 32002))\<rparr>),
     leaf (no_keywords\<lparr>kw_type := ''integer'', kw_format := ''int32'', kw_title := ''Other''\<rparr>)] [] []"

definition schema_ErrorStopReason :: schema where
  "schema_ErrorStopReason =
    Schema (no_keywords\<lparr>kw_type := ''object''\<rparr>)
    [(''error'', Schema (no_keywords\<lparr>kw_extra := [(''x-deserialize-default-on-error'', ValBool True)]\<rparr>)
      []
      None None [ref_to ''Error'',
       leaf (no_keywords\<lparr>kw_type := ''null''\<rparr>)] [] [])]
    None None [] [] []"

definition schema_ExtNotification :: schema where
  "schema_ExtNotification =
    anything"

definition schema_ExtRequest :: schema where
  "schema_ExtRequest =
    anything"

definition schema_ExtResponse :: schema where
  "schema_ExtResponse =
    anything"

definition schema_FileSystemCapabilities :: schema where
  "schema_FileSystemCapabilities =
    Schema (no_keywords\<lparr>kw_type := ''object''\<rparr>)
    [(''_meta'', Schema (no_keywords\<lparr>kw_types := [''object'', ''null''], kw_extra := [(''x-deserialize-default-on-error'', ValBool True)]\<rparr>)
      []
      None (Some (anything)) [] [] []),
     (''readTextFile'', leaf (no_keywords\<lparr>kw_type := ''boolean'', kw_extra := [(''x-deserialize-default-on-error'', ValBool True)]\<rparr>)),
     (''writeTextFile'', leaf (no_keywords\<lparr>kw_type := ''boolean'', kw_extra := [(''x-deserialize-default-on-error'', ValBool True)]\<rparr>))]
    None None [] [] []"

definition schema_ForkSessionRequest :: schema where
  "schema_ForkSessionRequest =
    Schema (no_keywords\<lparr>kw_type := ''object'', kw_required := [''sessionId'', ''cwd''], kw_extra := [(''x-method'', ValString ''session/fork''), (''x-side'', ValString ''agent'')]\<rparr>)
    [(''_meta'', Schema (no_keywords\<lparr>kw_types := [''object'', ''null''], kw_extra := [(''x-deserialize-default-on-error'', ValBool True)]\<rparr>)
      []
      None (Some (anything)) [] [] []),
     (''additionalDirectories'', Schema (no_keywords\<lparr>kw_type := ''array'', kw_extra := [(''x-deserialize-default-on-null'', ValBool True)]\<rparr>)
      []
      (Some (leaf (no_keywords\<lparr>kw_type := ''string''\<rparr>))) None [] [] []),
     (''cwd'', leaf (no_keywords\<lparr>kw_type := ''string''\<rparr>)),
     (''mcpServers'', Schema (no_keywords\<lparr>kw_type := ''array'', kw_extra := [(''x-deserialize-default-on-null'', ValBool True)]\<rparr>)
      []
      (Some (ref_to ''McpServer'')) None [] [] []),
     (''sessionId'', wraps no_keywords ''SessionId''),
     (''systemPrompt'', Schema no_keywords
      []
      None None [ref_to ''SystemPrompt'',
       leaf (no_keywords\<lparr>kw_type := ''null''\<rparr>)] [] [])]
    None None [] [] []"

definition schema_ForkSessionResponse :: schema where
  "schema_ForkSessionResponse =
    Schema (no_keywords\<lparr>kw_type := ''object'', kw_required := [''sessionId''], kw_extra := [(''x-method'', ValString ''session/fork''), (''x-side'', ValString ''agent'')]\<rparr>)
    [(''_meta'', Schema (no_keywords\<lparr>kw_types := [''object'', ''null''], kw_extra := [(''x-deserialize-default-on-error'', ValBool True)]\<rparr>)
      []
      None (Some (anything)) [] [] []),
     (''configOptions'', Schema (no_keywords\<lparr>kw_types := [''array'', ''null''], kw_extra := [(''x-deserialize-default-on-error'', ValBool True), (''x-deserialize-skip-invalid-items'', ValBool True)]\<rparr>)
      []
      (Some (ref_to ''SessionConfigOption'')) None [] [] []),
     (''modes'', Schema (no_keywords\<lparr>kw_extra := [(''x-deserialize-default-on-error'', ValBool True)]\<rparr>)
      []
      None None [ref_to ''SessionModeState'',
       leaf (no_keywords\<lparr>kw_type := ''null''\<rparr>)] [] []),
     (''sessionId'', wraps no_keywords ''SessionId'')]
    None None [] [] []"

definition schema_HttpHeader :: schema where
  "schema_HttpHeader =
    Schema (no_keywords\<lparr>kw_type := ''object'', kw_required := [''name'', ''value'']\<rparr>)
    [(''_meta'', Schema (no_keywords\<lparr>kw_types := [''object'', ''null''], kw_extra := [(''x-deserialize-default-on-error'', ValBool True)]\<rparr>)
      []
      None (Some (anything)) [] [] []),
     (''name'', leaf (no_keywords\<lparr>kw_type := ''string''\<rparr>)),
     (''value'', leaf (no_keywords\<lparr>kw_type := ''string''\<rparr>))]
    None None [] [] []"

definition schema_IdleStateUpdate :: schema where
  "schema_IdleStateUpdate =
    Schema (no_keywords\<lparr>kw_type := ''object''\<rparr>)
    [(''_meta'', Schema (no_keywords\<lparr>kw_types := [''object'', ''null''], kw_extra := [(''x-deserialize-default-on-error'', ValBool True)]\<rparr>)
      []
      None (Some (anything)) [] [] []),
     (''stopReason'', leaf (no_keywords\<lparr>kw_types := [''string'', ''null''], kw_extra := [(''x-deserialize-default-on-error'', ValBool True)]\<rparr>)),
     (''usage'', Schema (no_keywords\<lparr>kw_extra := [(''x-deserialize-default-on-error'', ValBool True)]\<rparr>)
      []
      None None [ref_to ''Usage'',
       leaf (no_keywords\<lparr>kw_type := ''null''\<rparr>)] [] [])]
    None None [Schema (no_keywords\<lparr>kw_type := ''object'', kw_required := [''stopReason'']\<rparr>)
      [(''stopReason'', leaf (no_keywords\<lparr>kw_type := ''string'', kw_const := Some (ValString ''end_turn'')\<rparr>))]
      None None [] [] [],
     Schema (no_keywords\<lparr>kw_type := ''object'', kw_required := [''stopReason'']\<rparr>)
      [(''stopReason'', leaf (no_keywords\<lparr>kw_type := ''string'', kw_const := Some (ValString ''max_tokens'')\<rparr>))]
      None None [] [] [],
     Schema (no_keywords\<lparr>kw_type := ''object'', kw_required := [''stopReason'']\<rparr>)
      [(''stopReason'', leaf (no_keywords\<lparr>kw_type := ''string'', kw_const := Some (ValString ''max_turn_requests'')\<rparr>))]
      None None [] [] [],
     Schema (no_keywords\<lparr>kw_type := ''object'', kw_required := [''stopReason'']\<rparr>)
      [(''stopReason'', leaf (no_keywords\<lparr>kw_type := ''string'', kw_const := Some (ValString ''refusal'')\<rparr>))]
      None None [] [] [],
     Schema (no_keywords\<lparr>kw_type := ''object'', kw_required := [''stopReason'']\<rparr>)
      [(''stopReason'', leaf (no_keywords\<lparr>kw_type := ''string'', kw_const := Some (ValString ''cancelled'')\<rparr>))]
      None None [] [] [],
     Schema (no_keywords\<lparr>kw_type := ''object'', kw_required := [''stopReason'']\<rparr>)
      [(''stopReason'', leaf (no_keywords\<lparr>kw_type := ''string'', kw_const := Some (ValString ''error'')\<rparr>))]
      None None [] [] [ref_to ''ErrorStopReason''],
     Schema (no_keywords\<lparr>kw_type := ''object'', kw_title := ''other'', kw_required := [''stopReason'']\<rparr>)
      [(''stopReason'', leaf (no_keywords\<lparr>kw_type := ''string''\<rparr>))]
      None (Some (anything)) [] [] [],
     Schema (no_keywords\<lparr>kw_type := ''object'', kw_title := ''none''\<rparr>)
      [(''stopReason'', leaf (no_keywords\<lparr>kw_type := ''null''\<rparr>))]
      None None [] [] []] [] []"

definition schema_ImageContent :: schema where
  "schema_ImageContent =
    Schema (no_keywords\<lparr>kw_type := ''object'', kw_required := [''data'', ''mimeType'']\<rparr>)
    [(''_meta'', Schema (no_keywords\<lparr>kw_types := [''object'', ''null''], kw_extra := [(''x-deserialize-default-on-error'', ValBool True)]\<rparr>)
      []
      None (Some (anything)) [] [] []),
     (''annotations'', Schema (no_keywords\<lparr>kw_extra := [(''x-deserialize-default-on-error'', ValBool True)]\<rparr>)
      []
      None None [ref_to ''Annotations'',
       leaf (no_keywords\<lparr>kw_type := ''null''\<rparr>)] [] []),
     (''data'', leaf (no_keywords\<lparr>kw_type := ''string''\<rparr>)),
     (''mimeType'', leaf (no_keywords\<lparr>kw_type := ''string''\<rparr>)),
     (''uri'', leaf (no_keywords\<lparr>kw_types := [''string'', ''null''], kw_extra := [(''x-deserialize-default-on-error'', ValBool True)]\<rparr>))]
    None None [] [] []"

definition schema_Implementation :: schema where
  "schema_Implementation =
    Schema (no_keywords\<lparr>kw_type := ''object'', kw_required := [''name'', ''version'']\<rparr>)
    [(''_meta'', Schema (no_keywords\<lparr>kw_types := [''object'', ''null''], kw_extra := [(''x-deserialize-default-on-error'', ValBool True)]\<rparr>)
      []
      None (Some (anything)) [] [] []),
     (''name'', leaf (no_keywords\<lparr>kw_type := ''string''\<rparr>)),
     (''title'', leaf (no_keywords\<lparr>kw_types := [''string'', ''null''], kw_extra := [(''x-deserialize-default-on-error'', ValBool True)]\<rparr>)),
     (''version'', leaf (no_keywords\<lparr>kw_type := ''string''\<rparr>))]
    None None [] [] []"

definition schema_InitializeProxyRequest :: schema where
  "schema_InitializeProxyRequest =
    wraps (no_keywords\<lparr>kw_extra := [(''x-method'', ValString ''proxy/initialize''), (''x-side'', ValString ''proxy'')]\<rparr>) ''InitializeRequest''"

definition schema_InitializeProxyResponse :: schema where
  "schema_InitializeProxyResponse =
    wraps (no_keywords\<lparr>kw_extra := [(''x-method'', ValString ''proxy/initialize''), (''x-side'', ValString ''proxy'')]\<rparr>) ''InitializeResponse''"

definition schema_InitializeRequest :: schema where
  "schema_InitializeRequest =
    Schema (no_keywords\<lparr>kw_type := ''object'', kw_required := [''protocolVersion''], kw_extra := [(''x-method'', ValString ''initialize''), (''x-side'', ValString ''agent'')]\<rparr>)
    [(''_meta'', Schema (no_keywords\<lparr>kw_types := [''object'', ''null''], kw_extra := [(''x-deserialize-default-on-error'', ValBool True)]\<rparr>)
      []
      None (Some (anything)) [] [] []),
     (''clientCapabilities'', wraps (no_keywords\<lparr>kw_extra := [(''x-deserialize-default-on-error'', ValBool True)]\<rparr>) ''ClientCapabilities''),
     (''clientInfo'', Schema (no_keywords\<lparr>kw_extra := [(''x-deserialize-default-on-error'', ValBool True)]\<rparr>)
      []
      None None [ref_to ''Implementation'',
       leaf (no_keywords\<lparr>kw_type := ''null''\<rparr>)] [] []),
     (''protocolVersion'', wraps no_keywords ''ProtocolVersion'')]
    None None [] [] []"

definition schema_InitializeResponse :: schema where
  "schema_InitializeResponse =
    Schema (no_keywords\<lparr>kw_type := ''object'', kw_required := [''protocolVersion''], kw_extra := [(''x-method'', ValString ''initialize''), (''x-side'', ValString ''agent'')]\<rparr>)
    [(''_meta'', Schema (no_keywords\<lparr>kw_types := [''object'', ''null''], kw_extra := [(''x-deserialize-default-on-error'', ValBool True)]\<rparr>)
      []
      None (Some (anything)) [] [] []),
     (''agentCapabilities'', wraps (no_keywords\<lparr>kw_extra := [(''x-deserialize-default-on-error'', ValBool True)]\<rparr>) ''AgentCapabilities''),
     (''agentInfo'', Schema (no_keywords\<lparr>kw_extra := [(''x-deserialize-default-on-error'', ValBool True)]\<rparr>)
      []
      None None [ref_to ''Implementation'',
       leaf (no_keywords\<lparr>kw_type := ''null''\<rparr>)] [] []),
     (''authMethods'', Schema (no_keywords\<lparr>kw_type := ''array'', kw_extra := [(''x-deserialize-default-on-error'', ValBool True), (''x-deserialize-skip-invalid-items'', ValBool True)]\<rparr>)
      []
      (Some (ref_to ''AuthMethod'')) None [] [] []),
     (''protocolVersion'', wraps no_keywords ''ProtocolVersion'')]
    None None [] [] []"

definition schema_IntegerPropertySchema :: schema where
  "schema_IntegerPropertySchema =
    Schema (no_keywords\<lparr>kw_type := ''object''\<rparr>)
    [(''_meta'', Schema (no_keywords\<lparr>kw_types := [''object'', ''null''], kw_extra := [(''x-deserialize-default-on-error'', ValBool True)]\<rparr>)
      []
      None (Some (anything)) [] [] []),
     (''default'', leaf (no_keywords\<lparr>kw_types := [''integer'', ''null''], kw_format := ''int64'', kw_extra := [(''x-deserialize-default-on-error'', ValBool True)]\<rparr>)),
     (''description'', leaf (no_keywords\<lparr>kw_types := [''string'', ''null''], kw_extra := [(''x-deserialize-default-on-error'', ValBool True)]\<rparr>)),
     (''maximum'', leaf (no_keywords\<lparr>kw_types := [''integer'', ''null''], kw_format := ''int64''\<rparr>)),
     (''minimum'', leaf (no_keywords\<lparr>kw_types := [''integer'', ''null''], kw_format := ''int64''\<rparr>)),
     (''title'', leaf (no_keywords\<lparr>kw_types := [''string'', ''null''], kw_extra := [(''x-deserialize-default-on-error'', ValBool True)]\<rparr>))]
    None None [] [] []"

definition schema_KillTerminalRequest :: schema where
  "schema_KillTerminalRequest =
    Schema (no_keywords\<lparr>kw_type := ''object'', kw_required := [''sessionId'', ''terminalId''], kw_extra := [(''x-method'', ValString ''terminal/kill''), (''x-side'', ValString ''client'')]\<rparr>)
    [(''_meta'', Schema (no_keywords\<lparr>kw_types := [''object'', ''null''], kw_extra := [(''x-deserialize-default-on-error'', ValBool True)]\<rparr>)
      []
      None (Some (anything)) [] [] []),
     (''sessionId'', wraps no_keywords ''SessionId''),
     (''terminalId'', wraps no_keywords ''TerminalId'')]
    None None [] [] []"

definition schema_KillTerminalResponse :: schema where
  "schema_KillTerminalResponse =
    Schema (no_keywords\<lparr>kw_type := ''object'', kw_extra := [(''x-method'', ValString ''terminal/kill''), (''x-side'', ValString ''client'')]\<rparr>)
    [(''_meta'', Schema (no_keywords\<lparr>kw_types := [''object'', ''null''], kw_extra := [(''x-deserialize-default-on-error'', ValBool True)]\<rparr>)
      []
      None (Some (anything)) [] [] [])]
    None None [] [] []"

definition schema_ListProvidersRequest :: schema where
  "schema_ListProvidersRequest =
    Schema (no_keywords\<lparr>kw_type := ''object'', kw_extra := [(''x-method'', ValString ''providers/list''), (''x-side'', ValString ''agent'')]\<rparr>)
    [(''_meta'', Schema (no_keywords\<lparr>kw_types := [''object'', ''null''], kw_extra := [(''x-deserialize-default-on-error'', ValBool True)]\<rparr>)
      []
      None (Some (anything)) [] [] [])]
    None None [] [] []"

definition schema_ListProvidersResponse :: schema where
  "schema_ListProvidersResponse =
    Schema (no_keywords\<lparr>kw_type := ''object'', kw_required := [''providers''], kw_extra := [(''x-method'', ValString ''providers/list''), (''x-side'', ValString ''agent'')]\<rparr>)
    [(''_meta'', Schema (no_keywords\<lparr>kw_types := [''object'', ''null''], kw_extra := [(''x-deserialize-default-on-error'', ValBool True)]\<rparr>)
      []
      None (Some (anything)) [] [] []),
     (''providers'', Schema (no_keywords\<lparr>kw_type := ''array''\<rparr>)
      []
      (Some (ref_to ''ProviderInfo'')) None [] [] [])]
    None None [] [] []"

definition schema_ListSessionsRequest :: schema where
  "schema_ListSessionsRequest =
    Schema (no_keywords\<lparr>kw_type := ''object'', kw_extra := [(''x-method'', ValString ''session/list''), (''x-side'', ValString ''agent'')]\<rparr>)
    [(''_meta'', Schema (no_keywords\<lparr>kw_types := [''object'', ''null''], kw_extra := [(''x-deserialize-default-on-error'', ValBool True)]\<rparr>)
      []
      None (Some (anything)) [] [] []),
     (''archived'', Schema no_keywords
      []
      None None [ref_to ''SessionArchiveFilter'',
       leaf (no_keywords\<lparr>kw_type := ''null''\<rparr>)] [] []),
     (''cursor'', leaf (no_keywords\<lparr>kw_types := [''string'', ''null'']\<rparr>)),
     (''cwd'', leaf (no_keywords\<lparr>kw_types := [''string'', ''null'']\<rparr>))]
    None None [] [] []"

definition schema_ListSessionsResponse :: schema where
  "schema_ListSessionsResponse =
    Schema (no_keywords\<lparr>kw_type := ''object'', kw_required := [''sessions''], kw_extra := [(''x-method'', ValString ''session/list''), (''x-side'', ValString ''agent'')]\<rparr>)
    [(''_meta'', Schema (no_keywords\<lparr>kw_types := [''object'', ''null''], kw_extra := [(''x-deserialize-default-on-error'', ValBool True)]\<rparr>)
      []
      None (Some (anything)) [] [] []),
     (''nextCursor'', leaf (no_keywords\<lparr>kw_types := [''string'', ''null''], kw_extra := [(''x-deserialize-default-on-error'', ValBool True)]\<rparr>)),
     (''sessions'', Schema (no_keywords\<lparr>kw_type := ''array'', kw_extra := [(''x-deserialize-default-on-error'', ValBool True), (''x-deserialize-skip-invalid-items'', ValBool True)]\<rparr>)
      []
      (Some (ref_to ''SessionInfo'')) None [] [] [])]
    None None [] [] []"

definition schema_LlmProtocol :: schema where
  "schema_LlmProtocol =
    Schema no_keywords
    []
    None None [leaf (no_keywords\<lparr>kw_type := ''string'', kw_const := Some (ValString ''anthropic'')\<rparr>),
     leaf (no_keywords\<lparr>kw_type := ''string'', kw_const := Some (ValString ''openai'')\<rparr>),
     leaf (no_keywords\<lparr>kw_type := ''string'', kw_const := Some (ValString ''azure'')\<rparr>),
     leaf (no_keywords\<lparr>kw_type := ''string'', kw_const := Some (ValString ''vertex'')\<rparr>),
     leaf (no_keywords\<lparr>kw_type := ''string'', kw_const := Some (ValString ''bedrock'')\<rparr>),
     leaf (no_keywords\<lparr>kw_type := ''string'', kw_title := ''other''\<rparr>)] [] []"

definition schema_LoadSessionRequest :: schema where
  "schema_LoadSessionRequest =
    Schema (no_keywords\<lparr>kw_type := ''object'', kw_required := [''mcpServers'', ''cwd'', ''sessionId''], kw_extra := [(''x-method'', ValString ''session/load''), (''x-side'', ValString ''agent'')]\<rparr>)
    [(''_meta'', Schema (no_keywords\<lparr>kw_types := [''object'', ''null''], kw_extra := [(''x-deserialize-default-on-error'', ValBool True)]\<rparr>)
      []
      None (Some (anything)) [] [] []),
     (''additionalDirectories'', Schema (no_keywords\<lparr>kw_type := ''array'', kw_extra := [(''x-deserialize-default-on-null'', ValBool True)]\<rparr>)
      []
      (Some (leaf (no_keywords\<lparr>kw_type := ''string''\<rparr>))) None [] [] []),
     (''cwd'', leaf (no_keywords\<lparr>kw_type := ''string''\<rparr>)),
     (''mcpServers'', Schema (no_keywords\<lparr>kw_type := ''array'', kw_extra := [(''x-deserialize-default-on-null'', ValBool True)]\<rparr>)
      []
      (Some (ref_to ''McpServer'')) None [] [] []),
     (''sessionId'', wraps no_keywords ''SessionId''),
     (''systemPrompt'', Schema no_keywords
      []
      None None [ref_to ''SystemPrompt'',
       leaf (no_keywords\<lparr>kw_type := ''null''\<rparr>)] [] [])]
    None None [] [] []"

definition schema_LoadSessionResponse :: schema where
  "schema_LoadSessionResponse =
    Schema (no_keywords\<lparr>kw_type := ''object'', kw_extra := [(''x-method'', ValString ''session/load''), (''x-side'', ValString ''agent'')]\<rparr>)
    [(''_meta'', Schema (no_keywords\<lparr>kw_types := [''object'', ''null''], kw_extra := [(''x-deserialize-default-on-error'', ValBool True)]\<rparr>)
      []
      None (Some (anything)) [] [] []),
     (''configOptions'', Schema (no_keywords\<lparr>kw_types := [''array'', ''null''], kw_extra := [(''x-deserialize-default-on-error'', ValBool True), (''x-deserialize-skip-invalid-items'', ValBool True)]\<rparr>)
      []
      (Some (ref_to ''SessionConfigOption'')) None [] [] []),
     (''modes'', Schema (no_keywords\<lparr>kw_extra := [(''x-deserialize-default-on-error'', ValBool True)]\<rparr>)
      []
      None None [ref_to ''SessionModeState'',
       leaf (no_keywords\<lparr>kw_type := ''null''\<rparr>)] [] [])]
    None None [] [] []"

definition schema_LogoutCapabilities :: schema where
  "schema_LogoutCapabilities =
    Schema (no_keywords\<lparr>kw_type := ''object''\<rparr>)
    [(''_meta'', Schema (no_keywords\<lparr>kw_types := [''object'', ''null''], kw_extra := [(''x-deserialize-default-on-error'', ValBool True)]\<rparr>)
      []
      None (Some (anything)) [] [] [])]
    None None [] [] []"

definition schema_LogoutRequest :: schema where
  "schema_LogoutRequest =
    Schema (no_keywords\<lparr>kw_type := ''object'', kw_extra := [(''x-method'', ValString ''logout''), (''x-side'', ValString ''agent'')]\<rparr>)
    [(''_meta'', Schema (no_keywords\<lparr>kw_types := [''object'', ''null''], kw_extra := [(''x-deserialize-default-on-error'', ValBool True)]\<rparr>)
      []
      None (Some (anything)) [] [] [])]
    None None [] [] []"

definition schema_LogoutResponse :: schema where
  "schema_LogoutResponse =
    Schema (no_keywords\<lparr>kw_type := ''object'', kw_extra := [(''x-method'', ValString ''logout''), (''x-side'', ValString ''agent'')]\<rparr>)
    [(''_meta'', Schema (no_keywords\<lparr>kw_types := [''object'', ''null''], kw_extra := [(''x-deserialize-default-on-error'', ValBool True)]\<rparr>)
      []
      None (Some (anything)) [] [] [])]
    None None [] [] []"

definition schema_McpCapabilities :: schema where
  "schema_McpCapabilities =
    Schema (no_keywords\<lparr>kw_type := ''object''\<rparr>)
    [(''_meta'', Schema (no_keywords\<lparr>kw_types := [''object'', ''null''], kw_extra := [(''x-deserialize-default-on-error'', ValBool True)]\<rparr>)
      []
      None (Some (anything)) [] [] []),
     (''acp'', leaf (no_keywords\<lparr>kw_type := ''boolean'', kw_extra := [(''x-deserialize-default-on-error'', ValBool True)]\<rparr>)),
     (''http'', leaf (no_keywords\<lparr>kw_type := ''boolean'', kw_extra := [(''x-deserialize-default-on-error'', ValBool True)]\<rparr>)),
     (''sse'', leaf (no_keywords\<lparr>kw_type := ''boolean'', kw_extra := [(''x-deserialize-default-on-error'', ValBool True)]\<rparr>))]
    None None [] [] []"

definition schema_McpError :: schema where
  "schema_McpError =
    Schema (no_keywords\<lparr>kw_type := ''object'', kw_required := [''code'', ''message'']\<rparr>)
    [(''code'', leaf (no_keywords\<lparr>kw_type := ''integer'', kw_format := ''int32''\<rparr>)),
     (''data'', anything),
     (''message'', leaf (no_keywords\<lparr>kw_type := ''string''\<rparr>))]
    None (Some (anything)) [] [] []"

definition schema_McpRequestId :: schema where
  "schema_McpRequestId =
    leaf (no_keywords\<lparr>kw_type := ''string''\<rparr>)"

definition schema_McpServer :: schema where
  "schema_McpServer =
    Schema no_keywords
    []
    None None [Schema (no_keywords\<lparr>kw_type := ''object'', kw_required := [''type'']\<rparr>)
      [(''type'', leaf (no_keywords\<lparr>kw_type := ''string'', kw_const := Some (ValString ''http'')\<rparr>))]
      None None [] [] [ref_to ''McpServerHttp''],
     Schema (no_keywords\<lparr>kw_type := ''object'', kw_required := [''type'']\<rparr>)
      [(''type'', leaf (no_keywords\<lparr>kw_type := ''string'', kw_const := Some (ValString ''sse'')\<rparr>))]
      None None [] [] [ref_to ''McpServerSse''],
     Schema (no_keywords\<lparr>kw_type := ''object'', kw_required := [''type'']\<rparr>)
      [(''type'', leaf (no_keywords\<lparr>kw_type := ''string'', kw_const := Some (ValString ''acp'')\<rparr>))]
      None None [] [] [ref_to ''McpServerAcp''],
     wraps (no_keywords\<lparr>kw_title := ''stdio''\<rparr>) ''McpServerStdio''] [] []"

definition schema_McpServerAcp :: schema where
  "schema_McpServerAcp =
    Schema (no_keywords\<lparr>kw_type := ''object'', kw_required := [''name'', ''serverId'']\<rparr>)
    [(''_meta'', Schema (no_keywords\<lparr>kw_types := [''object'', ''null''], kw_extra := [(''x-deserialize-default-on-error'', ValBool True)]\<rparr>)
      []
      None (Some (anything)) [] [] []),
     (''name'', leaf (no_keywords\<lparr>kw_type := ''string''\<rparr>)),
     (''serverId'', wraps no_keywords ''McpServerAcpId'')]
    None None [] [] []"

definition schema_McpServerAcpId :: schema where
  "schema_McpServerAcpId =
    leaf (no_keywords\<lparr>kw_type := ''string''\<rparr>)"

definition schema_McpServerHttp :: schema where
  "schema_McpServerHttp =
    Schema (no_keywords\<lparr>kw_type := ''object'', kw_required := [''name'', ''url'', ''headers'']\<rparr>)
    [(''_meta'', Schema (no_keywords\<lparr>kw_types := [''object'', ''null''], kw_extra := [(''x-deserialize-default-on-error'', ValBool True)]\<rparr>)
      []
      None (Some (anything)) [] [] []),
     (''headers'', Schema (no_keywords\<lparr>kw_type := ''array'', kw_extra := [(''x-deserialize-default-on-null'', ValBool True)]\<rparr>)
      []
      (Some (ref_to ''HttpHeader'')) None [] [] []),
     (''name'', leaf (no_keywords\<lparr>kw_type := ''string''\<rparr>)),
     (''url'', leaf (no_keywords\<lparr>kw_type := ''string''\<rparr>))]
    None None [] [] []"

definition schema_McpServerSse :: schema where
  "schema_McpServerSse =
    Schema (no_keywords\<lparr>kw_type := ''object'', kw_required := [''name'', ''url'', ''headers'']\<rparr>)
    [(''_meta'', Schema (no_keywords\<lparr>kw_types := [''object'', ''null''], kw_extra := [(''x-deserialize-default-on-error'', ValBool True)]\<rparr>)
      []
      None (Some (anything)) [] [] []),
     (''headers'', Schema (no_keywords\<lparr>kw_type := ''array'', kw_extra := [(''x-deserialize-default-on-null'', ValBool True)]\<rparr>)
      []
      (Some (ref_to ''HttpHeader'')) None [] [] []),
     (''name'', leaf (no_keywords\<lparr>kw_type := ''string''\<rparr>)),
     (''url'', leaf (no_keywords\<lparr>kw_type := ''string''\<rparr>))]
    None None [] [] []"

definition schema_McpServerStdio :: schema where
  "schema_McpServerStdio =
    Schema (no_keywords\<lparr>kw_type := ''object'', kw_required := [''name'', ''command'', ''args'', ''env'']\<rparr>)
    [(''_meta'', Schema (no_keywords\<lparr>kw_types := [''object'', ''null''], kw_extra := [(''x-deserialize-default-on-error'', ValBool True)]\<rparr>)
      []
      None (Some (anything)) [] [] []),
     (''args'', Schema (no_keywords\<lparr>kw_type := ''array'', kw_extra := [(''x-deserialize-default-on-null'', ValBool True)]\<rparr>)
      []
      (Some (leaf (no_keywords\<lparr>kw_type := ''string''\<rparr>))) None [] [] []),
     (''command'', leaf (no_keywords\<lparr>kw_type := ''string''\<rparr>)),
     (''env'', Schema (no_keywords\<lparr>kw_type := ''array'', kw_extra := [(''x-deserialize-default-on-null'', ValBool True)]\<rparr>)
      []
      (Some (ref_to ''EnvVariable'')) None [] [] []),
     (''name'', leaf (no_keywords\<lparr>kw_type := ''string''\<rparr>))]
    None None [] [] []"

definition schema_MessageId :: schema where
  "schema_MessageId =
    leaf (no_keywords\<lparr>kw_type := ''string''\<rparr>)"

definition schema_MessageMcpNotification :: schema where
  "schema_MessageMcpNotification =
    Schema (no_keywords\<lparr>kw_type := ''object'', kw_required := [''serverId'', ''requestId'', ''method''], kw_extra := [(''x-method'', ValString ''mcp/message''), (''x-side'', ValString ''agent'')]\<rparr>)
    [(''_meta'', Schema (no_keywords\<lparr>kw_types := [''object'', ''null''], kw_extra := [(''x-deserialize-default-on-error'', ValBool True)]\<rparr>)
      []
      None (Some (anything)) [] [] []),
     (''method'', leaf (no_keywords\<lparr>kw_type := ''string''\<rparr>)),
     (''params'', Schema (no_keywords\<lparr>kw_types := [''object'', ''null'']\<rparr>)
      []
      None (Some (anything)) [] [] []),
     (''requestId'', wraps no_keywords ''McpRequestId''),
     (''serverId'', wraps no_keywords ''McpServerAcpId'')]
    None None [] [] []"

definition schema_MessageMcpRequest :: schema where
  "schema_MessageMcpRequest =
    Schema (no_keywords\<lparr>kw_type := ''object'', kw_required := [''serverId'', ''requestId'', ''method''], kw_extra := [(''x-method'', ValString ''mcp/message''), (''x-side'', ValString ''client'')]\<rparr>)
    [(''_meta'', Schema (no_keywords\<lparr>kw_types := [''object'', ''null''], kw_extra := [(''x-deserialize-default-on-error'', ValBool True)]\<rparr>)
      []
      None (Some (anything)) [] [] []),
     (''method'', leaf (no_keywords\<lparr>kw_type := ''string''\<rparr>)),
     (''params'', Schema (no_keywords\<lparr>kw_types := [''object'', ''null'']\<rparr>)
      []
      None (Some (anything)) [] [] []),
     (''requestId'', wraps no_keywords ''McpRequestId''),
     (''serverId'', wraps no_keywords ''McpServerAcpId'')]
    None None [] [] []"

definition schema_MessageMcpResponse :: schema where
  "schema_MessageMcpResponse =
    Schema (no_keywords\<lparr>kw_extra := [(''x-method'', ValString ''mcp/message''), (''x-side'', ValString ''client'')]\<rparr>)
    []
    None None [Schema (no_keywords\<lparr>kw_type := ''object'', kw_title := ''Result'', kw_required := [''result'']\<rparr>)
      [(''_meta'', Schema (no_keywords\<lparr>kw_types := [''object'', ''null''], kw_extra := [(''x-deserialize-default-on-error'', ValBool True)]\<rparr>)
        []
        None (Some (anything)) [] [] []),
       (''result'', anything)]
      None None [] [] [],
     Schema (no_keywords\<lparr>kw_type := ''object'', kw_title := ''Error'', kw_required := [''error'']\<rparr>)
      [(''_meta'', Schema (no_keywords\<lparr>kw_types := [''object'', ''null''], kw_extra := [(''x-deserialize-default-on-error'', ValBool True)]\<rparr>)
        []
        None (Some (anything)) [] [] []),
       (''error'', wraps no_keywords ''McpError'')]
      None None [] [] []] [] []"

definition schema_MultiSelectItems :: schema where
  "schema_MultiSelectItems =
    Schema no_keywords
    []
    None None [Schema (no_keywords\<lparr>kw_type := ''object'', kw_required := [''type'']\<rparr>)
      [(''type'', leaf (no_keywords\<lparr>kw_type := ''string'', kw_const := Some (ValString ''string'')\<rparr>))]
      None None [] [] [ref_to ''StringMultiSelectItems''],
     Schema (no_keywords\<lparr>kw_type := ''object'', kw_title := ''other'', kw_required := [''type'']\<rparr>)
      [(''type'', leaf (no_keywords\<lparr>kw_type := ''string''\<rparr>))]
      None (Some (anything)) [] [] [],
     wraps (no_keywords\<lparr>kw_title := ''titled''\<rparr>) ''TitledMultiSelectItems''] [] []"

definition schema_MultiSelectPropertySchema :: schema where
  "schema_MultiSelectPropertySchema =
    Schema (no_keywords\<lparr>kw_type := ''object'', kw_required := [''items'']\<rparr>)
    [(''_meta'', Schema (no_keywords\<lparr>kw_types := [''object'', ''null''], kw_extra := [(''x-deserialize-default-on-error'', ValBool True)]\<rparr>)
      []
      None (Some (anything)) [] [] []),
     (''default'', Schema (no_keywords\<lparr>kw_types := [''array'', ''null''], kw_extra := [(''x-deserialize-default-on-error'', ValBool True), (''x-deserialize-skip-invalid-items'', ValBool True)]\<rparr>)
      []
      (Some (leaf (no_keywords\<lparr>kw_type := ''string''\<rparr>))) None [] [] []),
     (''description'', leaf (no_keywords\<lparr>kw_types := [''string'', ''null''], kw_extra := [(''x-deserialize-default-on-error'', ValBool True)]\<rparr>)),
     (''items'', wraps no_keywords ''MultiSelectItems''),
     (''maxItems'', leaf (no_keywords\<lparr>kw_types := [''integer'', ''null''], kw_format := ''uint64''\<rparr>)),
     (''minItems'', leaf (no_keywords\<lparr>kw_types := [''integer'', ''null''], kw_format := ''uint64''\<rparr>)),
     (''title'', leaf (no_keywords\<lparr>kw_types := [''string'', ''null''], kw_extra := [(''x-deserialize-default-on-error'', ValBool True)]\<rparr>))]
    None None [] [] []"

definition acp_definitions_2 :: schema_defs where
  "acp_definitions_2 =
    [(''CurrentModeUpdate'', schema_CurrentModeUpdate),
     (''DeleteSessionRequest'', schema_DeleteSessionRequest),
     (''DeleteSessionResponse'', schema_DeleteSessionResponse),
     (''Diff'', schema_Diff),
     (''DisableProviderRequest'', schema_DisableProviderRequest),
     (''DisableProviderResponse'', schema_DisableProviderResponse),
     (''ElicitationAcceptAction'', schema_ElicitationAcceptAction),
     (''ElicitationCapabilities'', schema_ElicitationCapabilities),
     (''ElicitationContentValue'', schema_ElicitationContentValue),
     (''ElicitationFormCapabilities'', schema_ElicitationFormCapabilities),
     (''ElicitationFormMode'', schema_ElicitationFormMode),
     (''ElicitationId'', schema_ElicitationId),
     (''ElicitationPropertySchema'', schema_ElicitationPropertySchema),
     (''ElicitationRequestScope'', schema_ElicitationRequestScope),
     (''ElicitationSchema'', schema_ElicitationSchema),
     (''ElicitationSchemaType'', schema_ElicitationSchemaType),
     (''ElicitationSessionScope'', schema_ElicitationSessionScope),
     (''ElicitationUrlCapabilities'', schema_ElicitationUrlCapabilities),
     (''ElicitationUrlMode'', schema_ElicitationUrlMode),
     (''EmbeddedResource'', schema_EmbeddedResource),
     (''EmbeddedResourceResource'', schema_EmbeddedResourceResource),
     (''EnumOption'', schema_EnumOption),
     (''EnvVariable'', schema_EnvVariable),
     (''Error'', schema_Error),
     (''ErrorCode'', schema_ErrorCode),
     (''ErrorStopReason'', schema_ErrorStopReason),
     (''ExtNotification'', schema_ExtNotification),
     (''ExtRequest'', schema_ExtRequest),
     (''ExtResponse'', schema_ExtResponse),
     (''FileSystemCapabilities'', schema_FileSystemCapabilities),
     (''ForkSessionRequest'', schema_ForkSessionRequest),
     (''ForkSessionResponse'', schema_ForkSessionResponse),
     (''HttpHeader'', schema_HttpHeader),
     (''IdleStateUpdate'', schema_IdleStateUpdate),
     (''ImageContent'', schema_ImageContent),
     (''Implementation'', schema_Implementation),
     (''InitializeProxyRequest'', schema_InitializeProxyRequest),
     (''InitializeProxyResponse'', schema_InitializeProxyResponse),
     (''InitializeRequest'', schema_InitializeRequest),
     (''InitializeResponse'', schema_InitializeResponse),
     (''IntegerPropertySchema'', schema_IntegerPropertySchema),
     (''KillTerminalRequest'', schema_KillTerminalRequest),
     (''KillTerminalResponse'', schema_KillTerminalResponse),
     (''ListProvidersRequest'', schema_ListProvidersRequest),
     (''ListProvidersResponse'', schema_ListProvidersResponse),
     (''ListSessionsRequest'', schema_ListSessionsRequest),
     (''ListSessionsResponse'', schema_ListSessionsResponse),
     (''LlmProtocol'', schema_LlmProtocol),
     (''LoadSessionRequest'', schema_LoadSessionRequest),
     (''LoadSessionResponse'', schema_LoadSessionResponse),
     (''LogoutCapabilities'', schema_LogoutCapabilities),
     (''LogoutRequest'', schema_LogoutRequest),
     (''LogoutResponse'', schema_LogoutResponse),
     (''McpCapabilities'', schema_McpCapabilities),
     (''McpError'', schema_McpError),
     (''McpRequestId'', schema_McpRequestId),
     (''McpServer'', schema_McpServer),
     (''McpServerAcp'', schema_McpServerAcp),
     (''McpServerAcpId'', schema_McpServerAcpId),
     (''McpServerHttp'', schema_McpServerHttp),
     (''McpServerSse'', schema_McpServerSse),
     (''McpServerStdio'', schema_McpServerStdio),
     (''MessageId'', schema_MessageId),
     (''MessageMcpNotification'', schema_MessageMcpNotification),
     (''MessageMcpRequest'', schema_MessageMcpRequest),
     (''MessageMcpResponse'', schema_MessageMcpResponse),
     (''MultiSelectItems'', schema_MultiSelectItems),
     (''MultiSelectPropertySchema'', schema_MultiSelectPropertySchema)]"

end
