(* ===== verification/Acp_Schema_3.thy ===== *)
theory Acp_Schema_3
  imports Schema
begin

text \<open>
  The definitions \<open>NewSessionRequest\<close> to \<open>SessionMessageChunk\<close> of internal/schemagen/schema.json, with the keywords the
  generator reads. Descriptions, and defaults other than \<open>true\<close>, are left out.
\<close>

definition schema_NewSessionRequest :: schema where
  "schema_NewSessionRequest =
    Schema (no_keywords\<lparr>kw_type := ''object'', kw_required := [''cwd'', ''mcpServers''], kw_extra := [(''x-method'', ValString ''session/new''), (''x-side'', ValString ''agent'')]\<rparr>)
    [(''_meta'', Schema (no_keywords\<lparr>kw_types := [''object'', ''null''], kw_extra := [(''x-deserialize-default-on-error'', ValBool True)]\<rparr>)
      []
      None (Some (anything)) [] [] []),
     (''additionalDirectories'', Schema (no_keywords\<lparr>kw_type := ''array'', kw_extra := [(''x-deserialize-default-on-null'', ValBool True)]\<rparr>)
      []
      (Some (leaf (no_keywords\<lparr>kw_type := ''string''\<rparr>))) None [] [] []),
     (''cwd'', leaf (no_keywords\<lparr>kw_type := ''string''\<rparr>)),
     (''mcpServers'', Schema (no_keywords\<lparr>kw_type := ''array'', kw_extra := [(''x-deserialize-default-on-null'', ValBool True)]\<rparr>)
      []
      (Some (ref_to ''McpServer'')) None [] [] []),
     (''systemPrompt'', Schema no_keywords
      []
      None None [ref_to ''SystemPrompt'',
       leaf (no_keywords\<lparr>kw_type := ''null''\<rparr>)] [] [])]
    None None [] [] []"

definition schema_NewSessionResponse :: schema where
  "schema_NewSessionResponse =
    Schema (no_keywords\<lparr>kw_type := ''object'', kw_required := [''sessionId''], kw_extra := [(''x-method'', ValString ''session/new''), (''x-side'', ValString ''agent'')]\<rparr>)
    [(''_meta'', Schema (no_keywords\<lparr>kw_types := [''object'', ''null''], kw_extra := [(''x-deserialize-default-on-error'', ValBool True)]\<rparr>)
      []
      None (Some (anything)) [] [] []),
     (''configOptions'', Schema (no_keywords\<lparr>kw_types := [''array'', ''null''], kw_extra := [(''x-deserialize-default-on-error'', ValBool True), (''x-deserialize-skip-invalid-items'', ValBool True)]\<rparr>)
      []
      (Some (ref_to ''SessionConfigOption'')) None [] [] []),
     (''modes'', Schema (no_keywords\<lparr>kw_extra := [(''x-deserialize-default-on-error'', ValBool True)]\<rparr>)
      []
      None None [ref_to ''SessionModeState'',
       leaf (no_keywords\<lparr>kw_type := ''null''\<rparr>)] [] []),
     (''sessionId'', wraps no_keywords ''SessionId'')]
    None None [] [] []"

definition schema_Notice :: schema where
  "schema_Notice =
    Schema (no_keywords\<lparr>kw_type := ''object'', kw_required := [''severity'', ''title'']\<rparr>)
    [(''_meta'', Schema (no_keywords\<lparr>kw_types := [''object'', ''null''], kw_extra := [(''x-deserialize-default-on-error'', ValBool True)]\<rparr>)
      []
      None (Some (anything)) [] [] []),
     (''description'', leaf (no_keywords\<lparr>kw_types := [''string'', ''null''], kw_extra := [(''x-deserialize-default-on-error'', ValBool True)]\<rparr>)),
     (''severity'', wraps no_keywords ''NoticeSeverity''),
     (''title'', leaf (no_keywords\<lparr>kw_type := ''string''\<rparr>))]
    None None [] [] []"

definition schema_NoticeCapabilities :: schema where
  "schema_NoticeCapabilities =
    leaf (no_keywords\<lparr>kw_type := ''object''\<rparr>)"

definition schema_NoticeSeverity :: schema where
  "schema_NoticeSeverity =
    Schema no_keywords
    []
    None None [leaf (no_keywords\<lparr>kw_type := ''string'', kw_const := Some (ValString ''info'')\<rparr>),
     leaf (no_keywords\<lparr>kw_type := ''string'', kw_const := Some (ValString ''warning'')\<rparr>),
     leaf (no_keywords\<lparr>kw_type := ''string'', kw_const := Some (ValString ''error'')\<rparr>),
     leaf (no_keywords\<lparr>kw_type := ''string'', kw_title := ''other''\<rparr>)] [] []"

definition schema_NumberPropertySchema :: schema where
  "schema_NumberPropertySchema =
    Schema (no_keywords\<lparr>kw_type := ''object''\<rparr>)
    [(''_meta'', Schema (no_keywords\<lparr>kw_types := [''object'', ''null''], kw_extra := [(''x-deserialize-default-on-error'', ValBool True)]\<rparr>)
      []
      None (Some (anything)) [] [] []),
     (''default'', leaf (no_keywords\<lparr>kw_types := [''number'', ''null''], kw_format := ''double'', kw_extra := [(''x-deserialize-default-on-error'', ValBool True)]\<rparr>)),
     (''description'', leaf (no_keywords\<lparr>kw_types := [''string'', ''null''], kw_extra := [(''x-deserialize-default-on-error'', ValBool True)]\<rparr>)),
     (''maximum'', leaf (no_keywords\<lparr>kw_types := [''number'', ''null''], kw_format := ''double''\<rparr>)),
     (''minimum'', leaf (no_keywords\<lparr>kw_types := [''number'', ''null''], kw_format := ''double''\<rparr>)),
     (''title'', leaf (no_keywords\<lparr>kw_types := [''string'', ''null''], kw_extra := [(''x-deserialize-default-on-error'', ValBool True)]\<rparr>))]
    None None [] [] []"

definition schema_PermissionOption :: schema where
  "schema_PermissionOption =
    Schema (no_keywords\<lparr>kw_type := ''object'', kw_required := [''optionId'', ''name'', ''kind'']\<rparr>)
    [(''_meta'', Schema (no_keywords\<lparr>kw_types := [''object'', ''null''], kw_extra := [(''x-deserialize-default-on-error'', ValBool True)]\<rparr>)
      []
      None (Some (anything)) [] [] []),
     (''kind'', wraps no_keywords ''PermissionOptionKind''),
     (''name'', leaf (no_keywords\<lparr>kw_type := ''string''\<rparr>)),
     (''optionId'', wraps no_keywords ''PermissionOptionId'')]
    None None [] [] []"

definition schema_PermissionOptionId :: schema where
  "schema_PermissionOptionId =
    leaf (no_keywords\<lparr>kw_type := ''string''\<rparr>)"

definition schema_PermissionOptionKind :: schema where
  "schema_PermissionOptionKind =
    Schema no_keywords
    []
    None None [] [leaf (no_keywords\<lparr>kw_type := ''string'', kw_const := Some (ValString ''allow_once'')\<rparr>),
     leaf (no_keywords\<lparr>kw_type := ''string'', kw_const := Some (ValString ''allow_always'')\<rparr>),
     leaf (no_keywords\<lparr>kw_type := ''string'', kw_const := Some (ValString ''reject_once'')\<rparr>),
     leaf (no_keywords\<lparr>kw_type := ''string'', kw_const := Some (ValString ''reject_always'')\<rparr>)] []"

definition schema_Plan :: schema where
  "schema_Plan =
    Schema (no_keywords\<lparr>kw_type := ''object'', kw_required := [''entries'']\<rparr>)
    [(''_meta'', Schema (no_keywords\<lparr>kw_types := [''object'', ''null''], kw_extra := [(''x-deserialize-default-on-error'', ValBool True)]\<rparr>)
      []
      None (Some (anything)) [] [] []),
     (''entries'', Schema (no_keywords\<lparr>kw_type := ''array'', kw_extra := [(''x-deserialize-default-on-error'', ValBool True), (''x-deserialize-skip-invalid-items'', ValBool True)]\<rparr>)
      []
      (Some (ref_to ''PlanEntry'')) None [] [] [])]
    None None [] [] []"

definition schema_PlanCapabilities :: schema where
  "schema_PlanCapabilities =
    Schema (no_keywords\<lparr>kw_type := ''object''\<rparr>)
    [(''_meta'', Schema (no_keywords\<lparr>kw_types := [''object'', ''null''], kw_extra := [(''x-deserialize-default-on-error'', ValBool True)]\<rparr>)
      []
      None (Some (anything)) [] [] [])]
    None None [] [] []"

definition schema_PlanEntry :: schema where
  "schema_PlanEntry =
    Schema (no_keywords\<lparr>kw_type := ''object'', kw_required := [''content'', ''priority'', ''status'']\<rparr>)
    [(''_meta'', Schema (no_keywords\<lparr>kw_types := [''object'', ''null''], kw_extra := [(''x-deserialize-default-on-error'', ValBool True)]\<rparr>)
      []
      None (Some (anything)) [] [] []),
     (''content'', leaf (no_keywords\<lparr>kw_type := ''string''\<rparr>)),
     (''priority'', wraps no_keywords ''PlanEntryPriority''),
     (''status'', wraps no_keywords ''PlanEntryStatus'')]
    None None [] [] []"

definition schema_PlanEntryPriority :: schema where
  "schema_PlanEntryPriority =
    Schema no_keywords
    []
    None None [] [leaf (no_keywords\<lparr>kw_type := ''string'', kw_const := Some (ValString ''high'')\<rparr>),
     leaf (no_keywords\<lparr>kw_type := ''string'', kw_const := Some (ValString ''medium'')\<rparr>),
     leaf (no_keywords\<lparr>kw_type := ''string'', kw_const := Some (ValString ''low'')\<rparr>)] []"

definition schema_PlanEntryStatus :: schema where
  "schema_PlanEntryStatus =
    Schema no_keywords
    []
    None None [] [leaf (no_keywords\<lparr>kw_type := ''string'', kw_const := Some (ValString ''pending'')\<rparr>),
     leaf (no_keywords\<lparr>kw_type := ''string'', kw_const := Some (ValString ''in_progress'')\<rparr>),
     leaf (no_keywords\<lparr>kw_type := ''string'', kw_const := Some (ValString ''completed'')\<rparr>)] []"

definition schema_PlanFile :: schema where
  "schema_PlanFile =
    Schema (no_keywords\<lparr>kw_type := ''object'', kw_required := [''planId'', ''uri'']\<rparr>)
    [(''_meta'', Schema (no_keywords\<lparr>kw_types := [''object'', ''null''], kw_extra := [(''x-deserialize-default-on-error'', ValBool True)]\<rparr>)
      []
      None (Some (anything)) [] [] []),
     (''planId'', wraps no_keywords ''PlanId''),
     (''uri'', leaf (no_keywords\<lparr>kw_type := ''string''\<rparr>))]
    None None [] [] []"

definition schema_PlanId :: schema where
  "schema_PlanId =
    leaf (no_keywords\<lparr>kw_type := ''string''\<rparr>)"

definition schema_PlanItems :: schema where
  "schema_PlanItems =
    Schema (no_keywords\<lparr>kw_type := ''object'', kw_required := [''planId'', ''entries'']\<rparr>)
    [(''_meta'', Schema (no_keywords\<lparr>kw_types := [''object'', ''null''], kw_extra := [(''x-deserialize-default-on-error'', ValBool True)]\<rparr>)
      []
      None (Some (anything)) [] [] []),
     (''entries'', Schema (no_keywords\<lparr>kw_type := ''array'', kw_extra := [(''x-deserialize-default-on-error'', ValBool True), (''x-deserialize-skip-invalid-items'', ValBool True)]\<rparr>)
      []
      (Some (ref_to ''PlanEntry'')) None [] [] []),
     (''planId'', wraps no_keywords ''PlanId'')]
    None None [] [] []"

definition schema_PlanMarkdown :: schema where
  "schema_PlanMarkdown =
    Schema (no_keywords\<lparr>kw_type := ''object'', kw_required := [''planId'', ''content'']\<rparr>)
    [(''_meta'', Schema (no_keywords\<lparr>kw_types := [''object'', ''null''], kw_extra := [(''x-deserialize-default-on-error'', ValBool True)]\<rparr>)
      []
      None (Some (anything)) [] [] []),
     (''content'', leaf (no_keywords\<lparr>kw_type := ''string''\<rparr>)),
     (''planId'', wraps no_keywords ''PlanId'')]
    None None [] [] []"

definition schema_PlanRemoved :: schema where
  "schema_PlanRemoved =
    Schema (no_keywords\<lparr>kw_type := ''object'', kw_required := [''planId'']\<rparr>)
    [(''_meta'', Schema (no_keywords\<lparr>kw_types := [''object'', ''null''], kw_extra := [(''x-deserialize-default-on-error'', ValBool True)]\<rparr>)
      []
      None (Some (anything)) [] [] []),
     (''planId'', wraps no_keywords ''PlanId'')]
    None None [] [] []"

definition schema_PlanUpdate :: schema where
  "schema_PlanUpdate =
    Schema (no_keywords\<lparr>kw_type := ''object'', kw_required := [''plan'']\<rparr>)
    [(''_meta'', Schema (no_keywords\<lparr>kw_types := [''object'', ''null''], kw_extra := [(''x-deserialize-default-on-error'', ValBool True)]\<rparr>)
      []
      None (Some (anything)) [] [] []),
     (''plan'', wraps no_keywords ''PlanUpdateContent'')]
    None None [] [] []"

definition schema_PlanUpdateContent :: schema where
  "schema_PlanUpdateContent =
    Schema (no_keywords\<lparr>kw_extra := [(''discriminator'', ValMap [(''propertyName'', ValString ''type'')])]\<rparr>)
    []
    None None [] [Schema (no_keywords\<lparr>kw_type := ''object'', kw_required := [''type'']\<rparr>)
      [(''type'', leaf (no_keywords\<lparr>kw_type := ''string'', kw_const := Some (ValString ''items'')\<rparr>))]
      None None [] [] [ref_to ''PlanItems''],
     Schema (no_keywords\<lparr>kw_type := ''object'', kw_required := [''type'']\<rparr>)
      [(''type'', leaf (no_keywords\<lparr>kw_type := ''string'', kw_const := Some (ValString ''file'')\<rparr>))]
      None None [] [] [ref_to ''PlanFile''],
     Schema (no_keywords\<lparr>kw_type := ''object'', kw_required := [''type'']\<rparr>)
      [(''type'', leaf (no_keywords\<lparr>kw_type := ''string'', kw_const := Some (ValString ''markdown'')\<rparr>))]
      None None [] [] [ref_to ''PlanMarkdown'']] []"

definition schema_PromptCapabilities :: schema where
  "schema_PromptCapabilities =
    Schema (no_keywords\<lparr>kw_type := ''object''\<rparr>)
    [(''_meta'', Schema (no_keywords\<lparr>kw_types := [''object'', ''null''], kw_extra := [(''x-deserialize-default-on-error'', ValBool True)]\<rparr>)
      []
      None (Some (anything)) [] [] []),
     (''audio'', leaf (no_keywords\<lparr>kw_type := ''boolean'', kw_extra := [(''x-deserialize-default-on-error'', ValBool True)]\<rparr>)),
     (''embeddedContext'', leaf (no_keywords\<lparr>kw_type := ''boolean'', kw_extra := [(''x-deserialize-default-on-error'', ValBool True)]\<rparr>)),
     (''image'', leaf (no_keywords\<lparr>kw_type := ''boolean'', kw_extra := [(''x-deserialize-default-on-error'', ValBool True)]\<rparr>))]
    None None [] [] []"

definition schema_PromptRequest :: schema where
  "schema_PromptRequest =
    Schema (no_keywords\<lparr>kw_type := ''object'', kw_required := [''sessionId'', ''prompt''], kw_extra := [(''x-method'', ValString ''session/prompt''), (''x-side'', ValString ''agent'')]\<rparr>)
    [(''_meta'', Schema (no_keywords\<lparr>kw_types := [''object'', ''null''], kw_extra := [(''x-deserialize-default-on-error'', ValBool True)]\<rparr>)
      []
      None (Some (anything)) [] [] []),
     (''prompt'', Schema (no_keywords\<lparr>kw_type := ''array''\<rparr>)
      []
      (Some (ref_to ''ContentBlock'')) None [] [] []),
     (''sessionId'', wraps no_keywords ''SessionId'')]
    None None [] [] []"

definition schema_PromptResponse :: schema where
  "schema_PromptResponse =
    Schema (no_keywords\<lparr>kw_type := ''object'', kw_required := [''stopReason''], kw_extra := [(''x-method'', ValString ''session/prompt''), (''x-side'', ValString ''agent'')]\<rparr>)
    [(''_meta'', Schema (no_keywords\<lparr>kw_types := [''object'', ''null''], kw_extra := [(''x-deserialize-default-on-error'', ValBool True)]\<rparr>)
      []
      None (Some (anything)) [] [] []),
     (''stopReason'', wraps no_keywords ''StopReason''),
     (''usage'', Schema (no_keywords\<lparr>kw_extra := [(''x-deserialize-default-on-error'', ValBool True)]\<rparr>)
      []
      None None [ref_to ''Usage'',
       leaf (no_keywords\<lparr>kw_type := ''null''\<rparr>)] [] [])]
    None None [] [] []"

definition schema_ProtocolVersion :: schema where
  "schema_ProtocolVersion =
    leaf (no_keywords\<lparr>kw_type := ''integer'', kw_format := ''uint16''\<rparr>)"

definition schema_ProviderCurrentConfig :: schema where
  "schema_ProviderCurrentConfig =
    Schema (no_keywords\<lparr>kw_type := ''object'', kw_required := [''apiType'', ''baseUrl'']\<rparr>)
    [(''_meta'', Schema (no_keywords\<lparr>kw_types := [''object'', ''null''], kw_extra := [(''x-deserialize-default-on-error'', ValBool True)]\<rparr>)
      []
      None (Some (anything)) [] [] []),
     (''apiType'', wraps no_keywords ''LlmProtocol''),
     (''baseUrl'', leaf (no_keywords\<lparr>kw_type := ''string''\<rparr>))]
    None None [] [] []"

definition schema_ProviderId :: schema where
  "schema_ProviderId =
    leaf (no_keywords\<lparr>kw_type := ''string''\<rparr>)"

definition schema_ProviderInfo :: schema where
  "schema_ProviderInfo =
    Schema (no_keywords\<lparr>kw_type := ''object'', kw_required := [''providerId'', ''supported'', ''required'']\<rparr>)
    [(''_meta'', Schema (no_keywords\<lparr>kw_types := [''object'', ''null''], kw_extra := [(''x-deserialize-default-on-error'', ValBool True)]\<rparr>)
      []
      None (Some (anything)) [] [] []),
     (''current'', Schema no_keywords
      []
      None None [ref_to ''ProviderCurrentConfig'',
       leaf (no_keywords\<lparr>kw_type := ''null''\<rparr>)] [] []),
     (''providerId'', wraps no_keywords ''ProviderId''),
     (''required'', leaf (no_keywords\<lparr>kw_type := ''boolean''\<rparr>)),
     (''supported'', Schema (no_keywords\<lparr>kw_type := ''array'', kw_extra := [(''x-deserialize-default-on-error'', ValBool True), (''x-deserialize-skip-invalid-items'', ValBool True)]\<rparr>)
      []
      (Some (ref_to ''LlmProtocol'')) None [] [] [])]
    None None [] [] []"

definition schema_ProvidersCapabilities :: schema where
  "schema_ProvidersCapabilities =
    Schema (no_keywords\<lparr>kw_type := ''object''\<rparr>)
    [(''_meta'', Schema (no_keywords\<lparr>kw_types := [''object'', ''null''], kw_extra := [(''x-deserialize-default-on-error'', ValBool True)]\<rparr>)
      []
      None (Some (anything)) [] [] [])]
    None None [] [] []"

definition schema_ProxyNotification :: schema where
  "schema_ProxyNotification =
    Schema (no_keywords\<lparr>kw_type := ''object'', kw_required := [''method''], kw_extra := [(''x-docs-ignore'', ValBool True)]\<rparr>)
    [(''method'', leaf (no_keywords\<lparr>kw_type := ''string''\<rparr>)),
     (''params'', Schema no_keywords
      []
      None None [Schema no_keywords
        []
        None None [wraps (no_keywords\<lparr>kw_title := ''ProxySuccessorNotification''\<rparr>) ''ProxySuccessorNotification''] [] [],
       leaf (no_keywords\<lparr>kw_type := ''null''\<rparr>)] [] [])]
    None None [] [] []"

definition schema_ProxyRequest :: schema where
  "schema_ProxyRequest =
    Schema (no_keywords\<lparr>kw_type := ''object'', kw_required := [''id'', ''method''], kw_extra := [(''x-docs-ignore'', ValBool True)]\<rparr>)
    [(''id'', wraps no_keywords ''RequestId''),
     (''method'', leaf (no_keywords\<lparr>kw_type := ''string''\<rparr>)),
     (''params'', Schema no_keywords
      []
      None None [Schema no_keywords
        []
        None None [wraps (no_keywords\<lparr>kw_title := ''InitializeProxyRequest''\<rparr>) ''InitializeProxyRequest'',
         wraps (no_keywords\<lparr>kw_title := ''ProxySuccessorRequest''\<rparr>) ''ProxySuccessorRequest''] [] [],
       leaf (no_keywords\<lparr>kw_type := ''null''\<rparr>)] [] [])]
    None None [] [] []"

definition schema_ProxyResponse :: schema where
  "schema_ProxyResponse =
    Schema (no_keywords\<lparr>kw_extra := [(''x-docs-ignore'', ValBool True)]\<rparr>)
    []
    None None [Schema (no_keywords\<lparr>kw_type := ''object'', kw_title := ''Result'', kw_required := [''id'', ''result'']\<rparr>)
      [(''id'', wraps no_keywords ''RequestId''),
       (''result'', Schema no_keywords
        []
        None None [wraps (no_keywords\<lparr>kw_title := ''InitializeProxyResponse''\<rparr>) ''InitializeProxyResponse'',
         wraps (no_keywords\<lparr>kw_title := ''ProxySuccessorResponse''\<rparr>) ''ProxySuccessorResponse''] [] [])]
      None None [] [] [],
     Schema (no_keywords\<lparr>kw_type := ''object'', kw_title := ''Error'', kw_required := [''id'', ''error'']\<rparr>)
      [(''error'', wraps no_keywords ''Error''),
       (''id'', wraps no_keywords ''RequestId'')]
      None None [] [] []] [] []"

definition schema_ProxySuccessorNotification :: schema where
  "schema_ProxySuccessorNotification =
    Schema (no_keywords\<lparr>kw_type := ''object'', kw_required := [''method''], kw_extra := [(''x-method'', ValString ''proxy/successor''), (''x-side'', ValString ''proxy'')]\<rparr>)
    [(''_meta'', Schema (no_keywords\<lparr>kw_types := [''object'', ''null''], kw_extra := [(''x-deserialize-default-on-error'', ValBool True)]\<rparr>)
      []
      None (Some (anything)) [] [] []),
     (''method'', leaf (no_keywords\<lparr>kw_type := ''string''\<rparr>)),
     (''params'', anything)]
    None None [] [] []"

definition schema_ProxySuccessorRequest :: schema where
  "schema_ProxySuccessorRequest =
    Schema (no_keywords\<lparr>kw_type := ''object'', kw_required := [''method''], kw_extra := [(''x-method'', ValString ''proxy/successor''), (''x-side'', ValString ''proxy'')]\<rparr>)
    [(''_meta'', Schema (no_keywords\<lparr>kw_types := [''object'', ''null''], kw_extra := [(''x-deserialize-default-on-error'', ValBool True)]\<rparr>)
      []
      None (Some (anything)) [] [] []),
     (''method'', leaf (no_keywords\<lparr>kw_type := ''string''\<rparr>)),
     (''params'', anything)]
    None None [] [] []"

definition schema_ProxySuccessorResponse :: schema where
  "schema_ProxySuccessorResponse =
    leaf (no_keywords\<lparr>kw_extra := [(''x-method'', ValString ''proxy/successor''), (''x-side'', ValString ''proxy'')]\<rparr>)"

definition schema_ReadTextFileRequest :: schema where
  "schema_ReadTextFileRequest =
    Schema (no_keywords\<lparr>kw_type := ''object'', kw_required := [''sessionId'', ''path''], kw_extra := [(''x-method'', ValString ''fs/read_text_file''), (''x-side'', ValString ''client'')]\<rparr>)
    [(''_meta'', Schema (no_keywords\<lparr>kw_types := [''object'', ''null''], kw_extra := [(''x-deserialize-default-on-error'', ValBool True)]\<rparr>)
      []
      None (Some (anything)) [] [] []),
     (''limit'', leaf (no_keywords\<lparr>kw_types := [''integer'', ''null''], kw_format := ''uint32''\<rparr>)),
     (''line'', leaf (no_keywords\<lparr>kw_types := [''integer'', ''null''], kw_format := ''uint32''\<rparr>)),
     (''path'', leaf (no_keywords\<lparr>kw_type := ''string''\<rparr>)),
     (''sessionId'', wraps no_keywords ''SessionId'')]
    None None [] [] []"

definition schema_ReadTextFileResponse :: schema where
  "schema_ReadTextFileResponse =
    Schema (no_keywords\<lparr>kw_type := ''object'', kw_required := [''content''], kw_extra := [(''x-method'', ValString ''fs/read_text_file''), (''x-side'', ValString ''client'')]\<rparr>)
    [(''_meta'', Schema (no_keywords\<lparr>kw_types := [''object'', ''null''], kw_extra := [(''x-deserialize-default-on-error'', ValBool True)]\<rparr>)
      []
      None (Some (anything)) [] [] []),
     (''content'', leaf (no_keywords\<lparr>kw_type := ''string''\<rparr>))]
    None None [] [] []"

definition schema_ReleaseTerminalRequest :: schema where
  "schema_ReleaseTerminalRequest =
    Schema (no_keywords\<lparr>kw_type := ''object'', kw_required := [''sessionId'', ''terminalId''], kw_extra := [(''x-method'', ValString ''terminal/release''), (''x-side'', ValString ''client'')]\<rparr>)
    [(''_meta'', Schema (no_keywords\<lparr>kw_types := [''object'', ''null''], kw_extra := [(''x-deserialize-default-on-error'', ValBool True)]\<rparr>)
      []
      None (Some (anything)) [] [] []),
     (''sessionId'', wraps no_keywords ''SessionId''),
     (''terminalId'', wraps no_keywords ''TerminalId'')]
    None None [] [] []"

definition schema_ReleaseTerminalResponse :: schema where
  "schema_ReleaseTerminalResponse =
    Schema (no_keywords\<lparr>kw_type := ''object'', kw_extra := [(''x-method'', ValString ''terminal/release''), (''x-side'', ValString ''client'')]\<rparr>)
    [(''_meta'', Schema (no_keywords\<lparr>kw_types := [''object'', ''null''], kw_extra := [(''x-deserialize-default-on-error'', ValBool True)]\<rparr>)
      []
      None (Some (anything)) [] [] [])]
    None None [] [] []"

definition schema_RequestId :: schema where
  "schema_RequestId =
    Schema no_keywords
    []
    None None [leaf (no_keywords\<lparr>kw_type := ''null'', kw_title := ''Null''\<rparr>),
     leaf (no_keywords\<lparr>kw_type := ''integer'', kw_format := ''int64'', kw_title := ''Number''\<rparr>),
     leaf (no_keywords\<lparr>kw_type := ''string'', kw_title := ''Str''\<rparr>)] [] []"

definition schema_RequestPermissionOutcome :: schema where
  "schema_RequestPermissionOutcome =
    Schema (no_keywords\<lparr>kw_extra := [(''discriminator'', ValMap [(''propertyName'', ValString ''outcome'')])]\<rparr>)
    []
    None None [] [Schema (no_keywords\<lparr>kw_type := ''object'', kw_required := [''outcome'']\<rparr>)
      [(''outcome'', leaf (no_keywords\<lparr>kw_type := ''string'', kw_const := Some (ValString ''cancelled'')\<rparr>))]
      None None [] [] [],
     Schema (no_keywords\<lparr>kw_type := ''object'', kw_required := [''outcome'']\<rparr>)
      [(''outcome'', leaf (no_keywords\<lparr>kw_type := ''string'', kw_const := Some (ValString ''selected'')\<rparr>))]
      None None [] [] [ref_to ''SelectedPermissionOutcome'']] []"

definition schema_RequestPermissionRequest :: schema where
  "schema_RequestPermissionRequest =
    Schema (no_keywords\<lparr>kw_type := ''object'', kw_required := [''sessionId'', ''toolCall'', ''options''], kw_extra := [(''x-method'', ValString ''session/request_permission''), (''x-side'', ValString ''client'')]\<rparr>)
    [(''_meta'', Schema (no_keywords\<lparr>kw_types := [''object'', ''null''], kw_extra := [(''x-deserialize-default-on-error'', ValBool True)]\<rparr>)
      []
      None (Some (anything)) [] [] []),
     (''options'', Schema (no_keywords\<lparr>kw_type := ''array''\<rparr>)
      []
      (Some (ref_to ''PermissionOption'')) None [] [] []),
     (''sessionId'', wraps no_keywords ''SessionId''),
     (''toolCall'', wraps no_keywords ''ToolCallUpdate'')]
    None None [] [] []"

definition schema_RequestPermissionResponse :: schema where
  "schema_RequestPermissionResponse =
    Schema (no_keywords\<lparr>kw_type := ''object'', kw_required := [''outcome''], kw_extra := [(''x-method'', ValString ''session/request_permission''), (''x-side'', ValString ''client'')]\<rparr>)
    [(''_meta'', Schema (no_keywords\<lparr>kw_types := [''object'', ''null''], kw_extra := [(''x-deserialize-default-on-error'', ValBool True)]\<rparr>)
      []
      None (Some (anything)) [] [] []),
     (''outcome'', wraps no_keywords ''RequestPermissionOutcome'')]
    None None [] [] []"

definition schema_RequiresActionStateUpdate :: schema where
  "schema_RequiresActionStateUpdate =
    Schema (no_keywords\<lparr>kw_type := ''object''\<rparr>)
    [(''_meta'', Schema (no_keywords\<lparr>kw_types := [''object'', ''null''], kw_extra := [(''x-deserialize-default-on-error'', ValBool True)]\<rparr>)
      []
      None (Some (anything)) [] [] [])]
    None None [] [] []"

definition schema_ResourceLink :: schema where
  "schema_ResourceLink =
    Schema (no_keywords\<lparr>kw_type := ''object'', kw_required := [''name'', ''uri'']\<rparr>)
    [(''_meta'', Schema (no_keywords\<lparr>kw_types := [''object'', ''null''], kw_extra := [(''x-deserialize-default-on-error'', ValBool True)]\<rparr>)
      []
      None (Some (anything)) [] [] []),
     (''annotations'', Schema (no_keywords\<lparr>kw_extra := [(''x-deserialize-default-on-error'', ValBool True)]\<rparr>)
      []
      None None [ref_to ''Annotations'',
       leaf (no_keywords\<lparr>kw_type := ''null''\<rparr>)] [] []),
     (''description'', leaf (no_keywords\<lparr>kw_types := [''string'', ''null''], kw_extra := [(''x-deserialize-default-on-error'', ValBool True)]\<rparr>)),
     (''mimeType'', leaf (no_keywords\<lparr>kw_types := [''string'', ''null''], kw_extra := [(''x-deserialize-default-on-error'', ValBool True)]\<rparr>)),
     (''name'', leaf (no_keywords\<lparr>kw_type := ''string''\<rparr>)),
     (''size'', leaf (no_keywords\<lparr>kw_types := [''integer'', ''null''], kw_format := ''int64'', kw_extra := [(''x-deserialize-default-on-error'', ValBool True)]\<rparr>)),
     (''title'', leaf (no_keywords\<lparr>kw_types := [''string'', ''null''], kw_extra := [(''x-deserialize-default-on-error'', ValBool True)]\<rparr>)),
     (''uri'', leaf (no_keywords\<lparr>kw_type := ''string''\<rparr>))]
    None None [] [] []"

definition schema_ResumeSessionRequest :: schema where
  "schema_ResumeSessionRequest =
    Schema (no_keywords\<lparr>kw_type := ''object'', kw_required := [''sessionId'', ''cwd''], kw_extra := [(''x-method'', ValString ''session/resume''), (''x-side'', ValString ''agent'')]\<rparr>)
    [(''_meta'', Schema (no_keywords\<lparr>kw_types := [''object'', ''null''], kw_extra := [(''x-deserialize-default-on-error'', ValBool True)]\<rparr>)
      []
      None (Some (anything)) [] [] []),
     (''additionalDirectories'', Schema (no_keywords\<lparr>kw_type := ''array'', kw_extra := [(''x-deserialize-default-on-null'', ValBool True)]\<rparr>)
      []
      (Some (leaf (no_keywords\<lparr>kw_type := ''string''\<rparr>))) None [] [] []),
     (''cwd'', leaf (no_keywords\<lparr>kw_type := ''string''\<rparr>)),
     (''mcpServers'', Schema (no_keywords\<lparr>kw_type := ''array'', kw_extra := [(''x-deserialize-default-on-null'', ValBool True)]\<rparr>)
      []
      (Some (ref_to ''McpServer'')) None [] [] []),
     (''sessionId'', wraps no_keywords ''SessionId''),
     (''systemPrompt'', Schema no_keywords
      []
      None None [ref_to ''SystemPrompt'',
       leaf (no_keywords\<lparr>kw_type := ''null''\<rparr>)] [] [])]
    None None [] [] []"

definition schema_ResumeSessionResponse :: schema where
  "schema_ResumeSessionResponse =
    Schema (no_keywords\<lparr>kw_type := ''object'', kw_extra := [(''x-method'', ValString ''session/resume''), (''x-side'', ValString ''agent'')]\<rparr>)
    [(''_meta'', Schema (no_keywords\<lparr>kw_types := [''object'', ''null''], kw_extra := [(''x-deserialize-default-on-error'', ValBool True)]\<rparr>)
      []
      None (Some (anything)) [] [] []),
     (''configOptions'', Schema (no_keywords\<lparr>kw_types := [''array'', ''null''], kw_extra := [(''x-deserialize-default-on-error'', ValBool True), (''x-deserialize-skip-invalid-items'', ValBool True)]\<rparr>)
      []
      (Some (ref_to ''SessionConfigOption'')) None [] [] []),
     (''modes'', Schema (no_keywords\<lparr>kw_extra := [(''x-deserialize-default-on-error'', ValBool True)]\<rparr>)
      []
      None None [ref_to ''SessionModeState'',
       leaf (no_keywords\<lparr>kw_type := ''null''\<rparr>)] [] [])]
    None None [] [] []"

definition schema_Role :: schema where
  "schema_Role =
    Schema no_keywords
    []
    None None [] [leaf (no_keywords\<lparr>kw_type := ''string'', kw_const := Some (ValString ''assistant'')\<rparr>),
     leaf (no_keywords\<lparr>kw_type := ''string'', kw_const := Some (ValString ''user'')\<rparr>)] []"

definition schema_RunningStateUpdate :: schema where
  "schema_RunningStateUpdate =
    Schema (no_keywords\<lparr>kw_type := ''object''\<rparr>)
    [(''_meta'', Schema (no_keywords\<lparr>kw_types := [''object'', ''null''], kw_extra := [(''x-deserialize-default-on-error'', ValBool True)]\<rparr>)
      []
      None (Some (anything)) [] [] [])]
    None None [] [] []"

definition schema_SelectedPermissionOutcome :: schema where
  "schema_SelectedPermissionOutcome =
    Schema (no_keywords\<lparr>kw_type := ''object'', kw_required := [''optionId'']\<rparr>)
    [(''_meta'', Schema (no_keywords\<lparr>kw_types := [''object'', ''null''], kw_extra := [(''x-deserialize-default-on-error'', ValBool True)]\<rparr>)
      []
      None (Some (anything)) [] [] []),
     (''optionId'', wraps no_keywords ''PermissionOptionId'')]
    None None [] [] []"

definition schema_SessionAdditionalDirectoriesCapabilities :: schema where
  "schema_SessionAdditionalDirectoriesCapabilities =
    Schema (no_keywords\<lparr>kw_type := ''object''\<rparr>)
    [(''_meta'', Schema (no_keywords\<lparr>kw_types := [''object'', ''null''], kw_extra := [(''x-deserialize-default-on-error'', ValBool True)]\<rparr>)
      []
      None (Some (anything)) [] [] [])]
    None None [] [] []"

definition schema_SessionArchiveCapabilities :: schema where
  "schema_SessionArchiveCapabilities =
    Schema (no_keywords\<lparr>kw_type := ''object''\<rparr>)
    [(''_meta'', Schema (no_keywords\<lparr>kw_types := [''object'', ''null''], kw_extra := [(''x-deserialize-default-on-error'', ValBool True)]\<rparr>)
      []
      None (Some (anything)) [] [] [])]
    None None [] [] []"

definition schema_SessionArchiveFilter :: schema where
  "schema_SessionArchiveFilter =
    Schema no_keywords
    []
    None None [leaf (no_keywords\<lparr>kw_type := ''string'', kw_const := Some (ValString ''exclude'')\<rparr>),
     leaf (no_keywords\<lparr>kw_type := ''string'', kw_const := Some (ValString ''include'')\<rparr>),
     leaf (no_keywords\<lparr>kw_type := ''string'', kw_const := Some (ValString ''only'')\<rparr>),
     leaf (no_keywords\<lparr>kw_type := ''string'', kw_title := ''other''\<rparr>)] [] []"

definition schema_SessionCancelCapabilities :: schema where
  "schema_SessionCancelCapabilities =
    Schema (no_keywords\<lparr>kw_type := ''object''\<rparr>)
    [(''_meta'', Schema (no_keywords\<lparr>kw_types := [''object'', ''null''], kw_extra := [(''x-deserialize-default-on-error'', ValBool True)]\<rparr>)
      []
      None (Some (anything)) [] [] [])]
    None None [] [] []"

definition schema_SessionCapabilities :: schema where
  "schema_SessionCapabilities =
    Schema (no_keywords\<lparr>kw_type := ''object''\<rparr>)
    [(''_meta'', Schema (no_keywords\<lparr>kw_types := [''object'', ''null''], kw_extra := [(''x-deserialize-default-on-error'', ValBool True)]\<rparr>)
      []
      None (Some (anything)) [] [] []),
     (''additionalDirectories'', Schema (no_keywords\<lparr>kw_extra := [(''x-deserialize-default-on-error'', ValBool True)]\<rparr>)
      []
      None None [ref_to ''SessionAdditionalDirectoriesCapabilities'',
       leaf (no_keywords\<lparr>kw_type := ''null''\<rparr>)] [] []),
     (''archive'', Schema (no_keywords\<lparr>kw_extra := [(''x-deserialize-default-on-error'', ValBool True)]\<rparr>)
      []
      None None [ref_to ''SessionArchiveCapabilities'',
       leaf (no_keywords\<lparr>kw_type := ''null''\<rparr>)] [] []),
     (''close'', Schema (no_keywords\<lparr>kw_extra := [(''x-deserialize-default-on-error'', ValBool True)]\<rparr>)
      []
      None None [ref_to ''SessionCloseCapabilities'',
       leaf (no_keywords\<lparr>kw_type := ''null''\<rparr>)] [] []),
     (''delete'', Schema (no_keywords\<lparr>kw_extra := [(''x-deserialize-default-on-error'', ValBool True)]\<rparr>)
      []
      None None [ref_to ''SessionDeleteCapabilities'',
       leaf (no_keywords\<lparr>kw_type := ''null''\<rparr>)] [] []),
     (''fork'', Schema (no_keywords\<lparr>kw_extra := [(''x-deserialize-default-on-error'', ValBool True)]\<rparr>)
      []
      None None [ref_to ''SessionForkCapabilities'',
       leaf (no_keywords\<lparr>kw_type := ''null''\<rparr>)] [] []),
     (''list'', Schema (no_keywords\<lparr>kw_extra := [(''x-deserialize-default-on-error'', ValBool True)]\<rparr>)
      []
      None None [ref_to ''SessionListCapabilities'',
       leaf (no_keywords\<lparr>kw_type := ''null''\<rparr>)] [] []),
     (''resume'', Schema (no_keywords\<lparr>kw_extra := [(''x-deserialize-default-on-error'', ValBool True)]\<rparr>)
      []
      None None [ref_to ''SessionResumeCapabilities'',
       leaf (no_keywords\<lparr>kw_type := ''null''\<rparr>)] [] []),
     (''status'', Schema (no_keywords\<lparr>kw_extra := [(''x-deserialize-default-on-error'', ValBool True)]\<rparr>)
      []
      None None [ref_to ''SessionStatusCapabilities'',
       leaf (no_keywords\<lparr>kw_type := ''null''\<rparr>)] [] []),
     (''systemPrompt'', Schema (no_keywords\<lparr>kw_extra := [(''x-deserialize-default-on-error'', ValBool True)]\<rparr>)
      []
      None None [ref_to ''SessionSystemPromptCapabilities'',
       leaf (no_keywords\<lparr>kw_type := ''null''\<rparr>)] [] []),
     (''title'', Schema (no_keywords\<lparr>kw_extra := [(''x-deserialize-default-on-error'', ValBool True)]\<rparr>)
      []
      None None [ref_to ''SessionTitleCapabilities'',
       leaf (no_keywords\<lparr>kw_type := ''null''\<rparr>)] [] [])]
    None None [] [] []"

definition schema_SessionCloseCapabilities :: schema where
  "schema_SessionCloseCapabilities =
    Schema (no_keywords\<lparr>kw_type := ''object''\<rparr>)
    [(''_meta'', Schema (no_keywords\<lparr>kw_types := [''object'', ''null''], kw_extra := [(''x-deserialize-default-on-error'', ValBool True)]\<rparr>)
      []
      None (Some (anything)) [] [] [])]
    None None [] [] []"

definition schema_SessionConfigBoolean :: schema where
  "schema_SessionConfigBoolean =
    Schema (no_keywords\<lparr>kw_type := ''object'', kw_required := [''currentValue'']\<rparr>)
    [(''currentValue'', leaf (no_keywords\<lparr>kw_type := ''boolean''\<rparr>))]
    None None [] [] []"

definition schema_SessionConfigGroupId :: schema where
  "schema_SessionConfigGroupId =
    leaf (no_keywords\<lparr>kw_type := ''string''\<rparr>)"

definition schema_SessionConfigId :: schema where
  "schema_SessionConfigId =
    leaf (no_keywords\<lparr>kw_type := ''string''\<rparr>)"

definition schema_SessionConfigOption :: schema where
  "schema_SessionConfigOption =
    Schema (no_keywords\<lparr>kw_type := ''object'', kw_required := [''id'', ''name''], kw_extra := [(''discriminator'', ValMap [(''propertyName'', ValString ''type'')])]\<rparr>)
    [(''_meta'', Schema (no_keywords\<lparr>kw_types := [''object'', ''null''], kw_extra := [(''x-deserialize-default-on-error'', ValBool True)]\<rparr>)
      []
      None (Some (anything)) [] [] []),
     (''category'', Schema (no_keywords\<lparr>kw_extra := [(''x-deserialize-default-on-error'', ValBool True)]\<rparr>)
      []
      None None [ref_to ''SessionConfigOptionCategory'',
       leaf (no_keywords\<lparr>kw_type := ''null''\<rparr>)] [] []),
     (''description'', leaf (no_keywords\<lparr>kw_types := [''string'', ''null''], kw_extra := [(''x-deserialize-default-on-error'', ValBool True)]\<rparr>)),
     (''id'', wraps no_keywords ''SessionConfigId''),
     (''name'', leaf (no_keywords\<lparr>kw_type := ''string''\<rparr>))]
    None None [] [Schema (no_keywords\<lparr>kw_type := ''object'', kw_required := [''type'']\<rparr>)
      [(''type'', leaf (no_keywords\<lparr>kw_type := ''string'', kw_const := Some (ValString ''select'')\<rparr>))]
      None None [] [] [ref_to ''SessionConfigSelect''],
     Schema (no_keywords\<lparr>kw_type := ''object'', kw_required := [''type'']\<rparr>)
      [(''type'', leaf (no_keywords\<lparr>kw_type := ''string'', kw_const := Some (ValString ''boolean'')\<rparr>))]
      None None [] [] [ref_to ''SessionConfigBoolean'']] []"

definition schema_SessionConfigOptionCategory :: schema where
  "schema_SessionConfigOptionCategory =
    Schema no_keywords
    []
    None None [leaf (no_keywords\<lparr>kw_type := ''string'', kw_const := Some (ValString ''mode'')\<rparr>),
     leaf (no_keywords\<lparr>kw_type := ''string'', kw_const := Some (ValString ''model'')\<rparr>),
     leaf (no_keywords\<lparr>kw_type := ''string'', kw_const := Some (ValString ''model_config'')\<rparr>),
     leaf (no_keywords\<lparr>kw_type := ''string'', kw_const := Some (ValString ''thought_level'')\<rparr>),
     leaf (no_keywords\<lparr>kw_type := ''string'', kw_title := ''other''\<rparr>)] [] []"

definition schema_SessionConfigOptionsCapabilities :: schema where
  "schema_SessionConfigOptionsCapabilities =
    Schema (no_keywords\<lparr>kw_type := ''object''\<rparr>)
    [(''_meta'', Schema (no_keywords\<lparr>kw_types := [''object'', ''null''], kw_extra := [(''x-deserialize-default-on-error'', ValBool True)]\<rparr>)
      []
      None (Some (anything)) [] [] []),
     (''boolean'', Schema (no_keywords\<lparr>kw_extra := [(''x-deserialize-default-on-error'', ValBool True)]\<rparr>)
      []
      None None [ref_to ''BooleanConfigOptionCapabilities'',
       leaf (no_keywords\<lparr>kw_type := ''null''\<rparr>)] [] [])]
    None None [] [] []"

definition schema_SessionConfigSelect :: schema where
  "schema_SessionConfigSelect =
    Schema (no_keywords\<lparr>kw_type := ''object'', kw_required := [''currentValue'', ''options'']\<rparr>)
    [(''currentValue'', wraps no_keywords ''SessionConfigValueId''),
     (''options'', wraps no_keywords ''SessionConfigSelectOptions'')]
    None None [] [] []"

definition schema_SessionConfigSelectGroup :: schema where
  "schema_SessionConfigSelectGroup =
    Schema (no_keywords\<lparr>kw_type := ''object'', kw_required := [''group'', ''name'', ''options'']\<rparr>)
    [(''_meta'', Schema (no_keywords\<lparr>kw_types := [''object'', ''null''], kw_extra := [(''x-deserialize-default-on-error'', ValBool True)]\<rparr>)
      []
      None (Some (anything)) [] [] []),
     (''group'', wraps no_keywords ''SessionConfigGroupId''),
     (''name'', leaf (no_keywords\<lparr>kw_type := ''string''\<rparr>)),
     (''options'', Schema (no_keywords\<lparr>kw_type := ''array'', kw_extra := [(''x-deserialize-default-on-error'', ValBool True), (''x-deserialize-skip-invalid-items'', ValBool True)]\<rparr>)
      []
      (Some (ref_to ''SessionConfigSelectOption'')) None [] [] [])]
    None None [] [] []"

definition schema_SessionConfigSelectOption :: schema where
  "schema_SessionConfigSelectOption =
    Schema (no_keywords\<lparr>kw_type := ''object'', kw_required := [''value'', ''name'']\<rparr>)
    [(''_meta'', Schema (no_keywords\<lparr>kw_types := [''object'', ''null''], kw_extra := [(''x-deserialize-default-on-error'', ValBool True)]\<rparr>)
      []
      None (Some (anything)) [] [] []),
     (''description'', leaf (no_keywords\<lparr>kw_types := [''string'', ''null''], kw_extra := [(''x-deserialize-default-on-error'', ValBool True)]\<rparr>)),
     (''name'', leaf (no_keywords\<lparr>kw_type := ''string''\<rparr>)),
     (''value'', wraps no_keywords ''SessionConfigValueId'')]
    None None [] [] []"

definition schema_SessionConfigSelectOptions :: schema where
  "schema_SessionConfigSelectOptions =
    Schema no_keywords
    []
    None None [Schema (no_keywords\<lparr>kw_type := ''array'', kw_title := ''Ungrouped''\<rparr>)
      []
      (Some (ref_to ''SessionConfigSelectOption'')) None [] [] [],
     Schema (no_keywords\<lparr>kw_type := ''array'', kw_title := ''Grouped''\<rparr>)
      []
      (Some (ref_to ''SessionConfigSelectGroup'')) None [] [] []] [] []"

definition schema_SessionConfigValueId :: schema where
  "schema_SessionConfigValueId =
    leaf (no_keywords\<lparr>kw_type := ''string''\<rparr>)"

definition schema_SessionDeleteCapabilities :: schema where
  "schema_SessionDeleteCapabilities =
    Schema (no_keywords\<lparr>kw_type := ''object''\<rparr>)
    [(''_meta'', Schema (no_keywords\<lparr>kw_types := [''object'', ''null''], kw_extra := [(''x-deserialize-default-on-error'', ValBool True)]\<rparr>)
      []
      None (Some (anything)) [] [] [])]
    None None [] [] []"

definition schema_SessionForkCapabilities :: schema where
  "schema_SessionForkCapabilities =
    Schema (no_keywords\<lparr>kw_type := ''object''\<rparr>)
    [(''_meta'', Schema (no_keywords\<lparr>kw_types := [''object'', ''null''], kw_extra := [(''x-deserialize-default-on-error'', ValBool True)]\<rparr>)
      []
      None (Some (anything)) [] [] [])]
    None None [] [] []"

definition schema_SessionId :: schema where
  "schema_SessionId =
    leaf (no_keywords\<lparr>kw_type := ''string''\<rparr>)"

definition schema_SessionInfo :: schema where
  "schema_SessionInfo =
    Schema (no_keywords\<lparr>kw_type := ''object'', kw_required := [''sessionId'', ''cwd'']\<rparr>)
    [(''_meta'', Schema (no_keywords\<lparr>kw_types := [''object'', ''null''], kw_extra := [(''x-deserialize-default-on-error'', ValBool True)]\<rparr>)
      []
      None (Some (anything)) [] [] []),
     (''additionalDirectories'', Schema (no_keywords\<lparr>kw_type := ''array'', kw_extra := [(''x-deserialize-default-on-error'', ValBool True), (''x-deserialize-skip-invalid-items'', ValBool True)]\<rparr>)
      []
      (Some (leaf (no_keywords\<lparr>kw_type := ''string''\<rparr>))) None [] [] []),
     (''archived'', leaf (no_keywords\<lparr>kw_types := [''boolean'', ''null''], kw_extra := [(''x-deserialize-default-on-error'', ValBool True)]\<rparr>)),
     (''cwd'', leaf (no_keywords\<lparr>kw_type := ''string''\<rparr>)),
     (''sessionId'', wraps no_keywords ''SessionId''),
     (''title'', leaf (no_keywords\<lparr>kw_types := [''string'', ''null''], kw_extra := [(''x-deserialize-default-on-error'', ValBool True)]\<rparr>)),
     (''updatedAt'', leaf (no_keywords\<lparr>kw_types := [''string'', ''null''], kw_extra := [(''x-deserialize-default-on-error'', ValBool True)]\<rparr>))]
    None None [] [] []"

definition schema_SessionInfoUpdate :: schema where
  "schema_SessionInfoUpdate =
    Schema (no_keywords\<lparr>kw_type := ''object''\<rparr>)
    [(''_meta'', Schema (no_keywords\<lparr>kw_types := [''object'', ''null''], kw_extra := [(''x-deserialize-default-on-error'', ValBool True)]\<rparr>)
      []
      None (Some (anything)) [] [] []),
     (''title'', leaf (no_keywords\<lparr>kw_types := [''string'', ''null''], kw_extra := [(''x-deserialize-default-on-error'', ValBool True)]\<rparr>)),
     (''updatedAt'', leaf (no_keywords\<lparr>kw_types := [''string'', ''null''], kw_extra := [(''x-deserialize-default-on-error'', ValBool True)]\<rparr>))]
    None None [] [] []"

definition schema_SessionListCapabilities :: schema where
  "schema_SessionListCapabilities =
    Schema (no_keywords\<lparr>kw_type := ''object''\<rparr>)
    [(''_meta'', Schema (no_keywords\<lparr>kw_types := [''object'', ''null''], kw_extra := [(''x-deserialize-default-on-error'', ValBool True)]\<rparr>)
      []
      None (Some (anything)) [] [] [])]
    None None [] [] []"

definition schema_SessionMessage :: schema where
  "schema_SessionMessage =
    Schema (no_keywords\<lparr>kw_type := ''object'', kw_required := [''messageId'']\<rparr>)
    [(''_meta'', Schema (no_keywords\<lparr>kw_types := [''object'', ''null''], kw_extra := [(''x-deserialize-default-on-error'', ValBool True)]\<rparr>)
      []
      None (Some (anything)) [] [] []),
     (''content'', Schema (no_keywords\<lparr>kw_types := [''array'', ''null''], kw_extra := [(''x-deserialize-default-on-error'', ValBool True), (''x-deserialize-skip-invalid-items'', ValBool True)]\<rparr>)
      []
      (Some (ref_to ''ContentBlock'')) None [] [] []),
     (''messageId'', wraps no_keywords ''MessageId''),
     (''recipientMessageId'', Schema (no_keywords\<lparr>kw_extra := [(''x-deserialize-default-on-error'', ValBool True)]\<rparr>)
      []
      None None [ref_to ''MessageId'',
       leaf (no_keywords\<lparr>kw_type := ''null''\<rparr>)] [] []),
     (''recipientSessionId'', Schema (no_keywords\<lparr>kw_extra := [(''x-deserialize-default-on-error'', ValBool True)]\<rparr>)
      []
      None None [ref_to ''SessionId'',
       leaf (no_keywords\<lparr>kw_type := ''null''\<rparr>)] [] []),
     (''senderMessageId'', Schema (no_keywords\<lparr>kw_extra := [(''x-deserialize-default-on-error'', ValBool True)]\<rparr>)
      []
      None None [ref_to ''MessageId'',
       leaf (no_keywords\<lparr>kw_type := ''null''\<rparr>)] [] []),
     (''senderSessionId'', Schema (no_keywords\<lparr>kw_extra := [(''x-deserialize-default-on-error'', ValBool True)]\<rparr>)
      []
      None None [ref_to ''SessionId'',
       leaf (no_keywords\<lparr>kw_type := ''null''\<rparr>)] [] [])]
    None None [] [] []"

definition schema_SessionMessageChunk :: schema where
  "schema_SessionMessageChunk =
    Schema (no_keywords\<lparr>kw_type := ''object'', kw_required := [''messageId'', ''content'']\<rparr>)
    [(''_meta'', Schema (no_keywords\<lparr>kw_types := [''object'', ''null''], kw_extra := [(''x-deserialize-default-on-error'', ValBool True)]\<rparr>)
      []
      None (Some (anything)) [] [] []),
     (''content'', wraps no_keywords ''ContentBlock''),
     (''messageId'', wraps no_keywords ''MessageId'')]
    None None [] [] []"

definition acp_definitions_3 :: schema_defs where
  "acp_definitions_3 =
    [(''NewSessionRequest'', schema_NewSessionRequest),
     (''NewSessionResponse'', schema_NewSessionResponse),
     (''Notice'', schema_Notice),
     (''NoticeCapabilities'', schema_NoticeCapabilities),
     (''NoticeSeverity'', schema_NoticeSeverity),
     (''NumberPropertySchema'', schema_NumberPropertySchema),
     (''PermissionOption'', schema_PermissionOption),
     (''PermissionOptionId'', schema_PermissionOptionId),
     (''PermissionOptionKind'', schema_PermissionOptionKind),
     (''Plan'', schema_Plan),
     (''PlanCapabilities'', schema_PlanCapabilities),
     (''PlanEntry'', schema_PlanEntry),
     (''PlanEntryPriority'', schema_PlanEntryPriority),
     (''PlanEntryStatus'', schema_PlanEntryStatus),
     (''PlanFile'', schema_PlanFile),
     (''PlanId'', schema_PlanId),
     (''PlanItems'', schema_PlanItems),
     (''PlanMarkdown'', schema_PlanMarkdown),
     (''PlanRemoved'', schema_PlanRemoved),
     (''PlanUpdate'', schema_PlanUpdate),
     (''PlanUpdateContent'', schema_PlanUpdateContent),
     (''PromptCapabilities'', schema_PromptCapabilities),
     (''PromptRequest'', schema_PromptRequest),
     (''PromptResponse'', schema_PromptResponse),
     (''ProtocolVersion'', schema_ProtocolVersion),
     (''ProviderCurrentConfig'', schema_ProviderCurrentConfig),
     (''ProviderId'', schema_ProviderId),
     (''ProviderInfo'', schema_ProviderInfo),
     (''ProvidersCapabilities'', schema_ProvidersCapabilities),
     (''ProxyNotification'', schema_ProxyNotification),
     (''ProxyRequest'', schema_ProxyRequest),
     (''ProxyResponse'', schema_ProxyResponse),
     (''ProxySuccessorNotification'', schema_ProxySuccessorNotification),
     (''ProxySuccessorRequest'', schema_ProxySuccessorRequest),
     (''ProxySuccessorResponse'', schema_ProxySuccessorResponse),
     (''ReadTextFileRequest'', schema_ReadTextFileRequest),
     (''ReadTextFileResponse'', schema_ReadTextFileResponse),
     (''ReleaseTerminalRequest'', schema_ReleaseTerminalRequest),
     (''ReleaseTerminalResponse'', schema_ReleaseTerminalResponse),
     (''RequestId'', schema_RequestId),
     (''RequestPermissionOutcome'', schema_RequestPermissionOutcome),
     (''RequestPermissionRequest'', schema_RequestPermissionRequest),
     (''RequestPermissionResponse'', schema_RequestPermissionResponse),
     (''RequiresActionStateUpdate'', schema_RequiresActionStateUpdate),
     (''ResourceLink'', schema_ResourceLink),
     (''ResumeSessionRequest'', schema_ResumeSessionRequest),
     (''ResumeSessionResponse'', schema_ResumeSessionResponse),
     (''Role'', schema_Role),
     (''RunningStateUpdate'', schema_RunningStateUpdate),
     (''SelectedPermissionOutcome'', schema_SelectedPermissionOutcome),
     (''SessionAdditionalDirectoriesCapabilities'', schema_SessionAdditionalDirectoriesCapabilities),
     (''SessionArchiveCapabilities'', schema_SessionArchiveCapabilities),
     (''SessionArchiveFilter'', schema_SessionArchiveFilter),
     (''SessionCancelCapabilities'', schema_SessionCancelCapabilities),
     (''SessionCapabilities'', schema_SessionCapabilities),
     (''SessionCloseCapabilities'', schema_SessionCloseCapabilities),
     (''SessionConfigBoolean'', schema_SessionConfigBoolean),
     (''SessionConfigGroupId'', schema_SessionConfigGroupId),
     (''SessionConfigId'', schema_SessionConfigId),
     (''SessionConfigOption'', schema_SessionConfigOption),
     (''SessionConfigOptionCategory'', schema_SessionConfigOptionCategory),
     (''SessionConfigOptionsCapabilities'', schema_SessionConfigOptionsCapabilities),
     (''SessionConfigSelect'', schema_SessionConfigSelect),
     (''SessionConfigSelectGroup'', schema_SessionConfigSelectGroup),
     (''SessionConfigSelectOption'', schema_SessionConfigSelectOption),
     (''SessionConfigSelectOptions'', schema_SessionConfigSelectOptions),
     (''SessionConfigValueId'', schema_SessionConfigValueId),
     (''SessionDeleteCapabilities'', schema_SessionDeleteCapabilities),
     (''SessionForkCapabilities'', schema_SessionForkCapabilities),
     (''SessionId'', schema_SessionId),
     (''SessionInfo'', schema_SessionInfo),
     (''SessionInfoUpdate'', schema_SessionInfoUpdate),
     (''SessionListCapabilities'', schema_SessionListCapabilities),
     (''SessionMessage'', schema_SessionMessage),
     (''SessionMessageChunk'', schema_SessionMessageChunk)]"

end
