(* ===== verification/Acp_Schema_4.thy ===== *)
theory Acp_Schema_4
  imports Schema
begin

text \<open>
  The definitions \<open>SessionMode\<close> to \<open>WriteTextFileResponse\<close> of internal/schemagen/schema.json, with the keywords the
  generator reads. Descriptions, and defaults other than \<open>true\<close>, are left out.
\<close>

definition schema_SessionMode :: schema where
  "schema_SessionMode =
    Schema (no_keywords\<lparr>kw_type := ''object'', kw_required := [''id'', ''name'']\<rparr>)
    [(''_meta'', Schema (no_keywords\<lparr>kw_types := [''object'', ''null''], kw_extra := [(''x-deserialize-default-on-error'', ValBool True)]\<rparr>)
      []
      None (Some (anything)) [] [] []),
     (''description'', leaf (no_keywords\<lparr>kw_types := [''string'', ''null''], kw_extra := [(''x-deserialize-default-on-error'', ValBool True)]\<rparr>)),
     (''id'', wraps no_keywords ''SessionModeId''),
     (''name'', leaf (no_keywords\<lparr>kw_type := ''string''\<rparr>))]
    None None [] [] []"

definition schema_SessionModeId :: schema where
  "schema_SessionModeId =
    leaf (no_keywords\<lparr>kw_type := ''string''\<rparr>)"

definition schema_SessionModeState :: schema where
  "schema_SessionModeState =
    Schema (no_keywords\<lparr>kw_type := ''object'', kw_required := [''currentModeId'', ''availableModes'']\<rparr>)
    [(''_meta'', Schema (no_keywords\<lparr>kw_types := [''object'', ''null''], kw_extra := [(''x-deserialize-default-on-error'', ValBool True)]\<rparr>)
      []
      None (Some (anything)) [] [] []),
     (''availableModes'', Schema (no_keywords\<lparr>kw_type := ''array'', kw_extra := [(''x-deserialize-default-on-error'', ValBool True), (''x-deserialize-skip-invalid-items'', ValBool True)]\<rparr>)
      []
      (Some (ref_to ''SessionMode'')) None [] [] []),
     (''currentModeId'', wraps no_keywords ''SessionModeId'')]
    None None [] [] []"

definition schema_SessionNotification :: schema where
  "schema_SessionNotification =
    Schema (no_keywords\<lparr>kw_type := ''object'', kw_required := [''sessionId'', ''update''], kw_extra := [(''x-method'', ValString ''session/update''), (''x-side'', ValString ''client'')]\<rparr>)
    [(''_meta'', Schema (no_keywords\<lparr>kw_types := [''object'', ''null''], kw_extra := [(''x-deserialize-default-on-error'', ValBool True)]\<rparr>)
      []
      None (Some (anything)) [] [] []),
     (''sessionId'', wraps no_keywords ''SessionId''),
     (''update'', wraps no_keywords ''SessionUpdate'')]
    None None [] [] []"

definition schema_SessionResumeCapabilities :: schema where
  "schema_SessionResumeCapabilities =
    Schema (no_keywords\<lparr>kw_type := ''object''\<rparr>)
    [(''_meta'', Schema (no_keywords\<lparr>kw_types := [''object'', ''null''], kw_extra := [(''x-deserialize-default-on-error'', ValBool True)]\<rparr>)
      []
      None (Some (anything)) [] [] [])]
    None None [] [] []"

definition schema_SessionStatus :: schema where
  "schema_SessionStatus =
    Schema no_keywords
    []
    None None [leaf (no_keywords\<lparr>kw_type := ''string'', kw_const := Some (ValString ''open'')\<rparr>),
     leaf (no_keywords\<lparr>kw_type := ''string'', kw_const := Some (ValString ''saved'')\<rparr>),
     leaf (no_keywords\<lparr>kw_type := ''string'', kw_title := ''other''\<rparr>)] [] []"

definition schema_SessionStatusCapabilities :: schema where
  "schema_SessionStatusCapabilities =
    Schema (no_keywords\<lparr>kw_type := ''object''\<rparr>)
    [(''_meta'', Schema (no_keywords\<lparr>kw_types := [''object'', ''null''], kw_extra := [(''x-deserialize-default-on-error'', ValBool True)]\<rparr>)
      []
      None (Some (anything)) [] [] [])]
    None None [] [] []"

definition schema_SessionStatusRequest :: schema where
  "schema_SessionStatusRequest =
    Schema (no_keywords\<lparr>kw_type := ''object'', kw_required := [''sessionId''], kw_extra := [(''x-method'', ValString ''session/status''), (''x-side'', ValString ''agent'')]\<rparr>)
    [(''_meta'', Schema (no_keywords\<lparr>kw_types := [''object'', ''null''], kw_extra := [(''x-deserialize-default-on-error'', ValBool True)]\<rparr>)
      []
      None (Some (anything)) [] [] []),
     (''sessionId'', wraps no_keywords ''SessionId'')]
    None None [] [] []"

definition schema_SessionStatusResponse :: schema where
  "schema_SessionStatusResponse =
    Schema (no_keywords\<lparr>kw_type := ''object'', kw_required := [''status''], kw_extra := [(''x-method'', ValString ''session/status''), (''x-side'', ValString ''agent'')]\<rparr>)
    [(''_meta'', Schema (no_keywords\<lparr>kw_types := [''object'', ''null''], kw_extra := [(''x-deserialize-default-on-error'', ValBool True)]\<rparr>)
      []
      None (Some (anything)) [] [] []),
     (''status'', wraps no_keywords ''SessionStatus'')]
    None None [] [] []"

definition schema_SessionSystemPromptCapabilities :: schema where
  "schema_SessionSystemPromptCapabilities =
    Schema (no_keywords\<lparr>kw_type := ''object''\<rparr>)
    [(''_meta'', Schema (no_keywords\<lparr>kw_types := [''object'', ''null''], kw_extra := [(''x-deserialize-default-on-error'', ValBool True)]\<rparr>)
      []
      None (Some (anything)) [] [] []),
     (''mode'', Schema (no_keywords\<lparr>kw_extra := [(''x-deserialize-default-on-error'', ValBool True)]\<rparr>)
      []
      None None [ref_to ''SessionSystemPromptModeCapabilities'',
       leaf (no_keywords\<lparr>kw_type := ''null''\<rparr>)] [] [])]
    None None [] [] []"

definition schema_SessionSystemPromptModeCapabilities :: schema where
  "schema_SessionSystemPromptModeCapabilities =
    Schema (no_keywords\<lparr>kw_type := ''object''\<rparr>)
    [(''_meta'', Schema (no_keywords\<lparr>kw_types := [''object'', ''null''], kw_extra := [(''x-deserialize-default-on-error'', ValBool True)]\<rparr>)
      []
      None (Some (anything)) [] [] []),
     (''override'', Schema (no_keywords\<lparr>kw_extra := [(''x-deserialize-default-on-error'', ValBool True)]\<rparr>)
      []
      None None [ref_to ''SessionSystemPromptOverrideCapabilities'',
       leaf (no_keywords\<lparr>kw_type := ''null''\<rparr>)] [] [])]
    None None [] [] []"

definition schema_SessionSystemPromptOverrideCapabilities :: schema where
  "schema_SessionSystemPromptOverrideCapabilities =
    Schema (no_keywords\<lparr>kw_type := ''object''\<rparr>)
    [(''_meta'', Schema (no_keywords\<lparr>kw_types := [''object'', ''null''], kw_extra := [(''x-deserialize-default-on-error'', ValBool True)]\<rparr>)
      []
      None (Some (anything)) [] [] [])]
    None None [] [] []"

definition schema_SessionTitleCapabilities :: schema where
  "schema_SessionTitleCapabilities =
    Schema (no_keywords\<lparr>kw_type := ''object''\<rparr>)
    [(''_meta'', Schema (no_keywords\<lparr>kw_types := [''object'', ''null''], kw_extra := [(''x-deserialize-default-on-error'', ValBool True)]\<rparr>)
      []
      None (Some (anything)) [] [] [])]
    None None [] [] []"

definition schema_SessionUpdate :: schema where
  "schema_SessionUpdate =
    Schema (no_keywords\<lparr>kw_extra := [(''discriminator'', ValMap [(''propertyName'', ValString ''sessionUpdate'')])]\<rparr>)
    []
    None None [] [Schema (no_keywords\<lparr>kw_type := ''object'', kw_required := [''sessionUpdate'']\<rparr>)
      [(''sessionUpdate'', leaf (no_keywords\<lparr>kw_type := ''string'', kw_const := Some (ValString ''user_message_chunk'')\<rparr>))]
      None None [] [] [ref_to ''ContentChunk''],
     Schema (no_keywords\<lparr>kw_type := ''object'', kw_required := [''sessionUpdate'']\<rparr>)
      [(''sessionUpdate'', leaf (no_keywords\<lparr>kw_type := ''string'', kw_const := Some (ValString ''agent_message_chunk'')\<rparr>))]
      None None [] [] [ref_to ''ContentChunk''],
     Schema (no_keywords\<lparr>kw_type := ''object'', kw_required := [''sessionUpdate'']\<rparr>)
      [(''sessionUpdate'', leaf (no_keywords\<lparr>kw_type := ''string'', kw_const := Some (ValString ''agent_thought_chunk'')\<rparr>))]
      None None [] [] [ref_to ''ContentChunk''],
     Schema (no_keywords\<lparr>kw_type := ''object'', kw_required := [''sessionUpdate'']\<rparr>)
      [(''sessionUpdate'', leaf (no_keywords\<lparr>kw_type := ''string'', kw_const := Some (ValString ''tool_call'')\<rparr>))]
      None None [] [] [ref_to ''ToolCall''],
     Schema (no_keywords\<lparr>kw_type := ''object'', kw_required := [''sessionUpdate'']\<rparr>)
      [(''sessionUpdate'', leaf (no_keywords\<lparr>kw_type := ''string'', kw_const := Some (ValString ''tool_call_update'')\<rparr>))]
      None None [] [] [ref_to ''ToolCallUpdate''],
     Schema (no_keywords\<lparr>kw_type := ''object'', kw_required := [''sessionUpdate'']\<rparr>)
      [(''sessionUpdate'', leaf (no_keywords\<lparr>kw_type := ''string'', kw_const := Some (ValString ''plan'')\<rparr>))]
      None None [] [] [ref_to ''Plan''],
     Schema (no_keywords\<lparr>kw_type := ''object'', kw_required := [''sessionUpdate'']\<rparr>)
      [(''sessionUpdate'', leaf (no_keywords\<lparr>kw_type := ''string'', kw_const := Some (ValString ''plan_update'')\<rparr>))]
      None None [] [] [ref_to ''PlanUpdate''],
     Schema (no_keywords\<lparr>kw_type := ''object'', kw_required := [''sessionUpdate'']\<rparr>)
      [(''sessionUpdate'', leaf (no_keywords\<lparr>kw_type := ''string'', kw_const := Some (ValString ''plan_removed'')\<rparr>))]
      None None [] [] [ref_to ''PlanRemoved''],
     Schema (no_keywords\<lparr>kw_type := ''object'', kw_required := [''sessionUpdate'']\<rparr>)
      [(''sessionUpdate'', leaf (no_keywords\<lparr>kw_type := ''string'', kw_const := Some (ValString ''available_commands_update'')\<rparr>))]
      None None [] [] [ref_to ''AvailableCommandsUpdate''],
     Schema (no_keywords\<lparr>kw_type := ''object'', kw_required := [''sessionUpdate'']\<rparr>)
      [(''sessionUpdate'', leaf (no_keywords\<lparr>kw_type := ''string'', kw_const := Some (ValString ''current_mode_update'')\<rparr>))]
      None None [] [] [ref_to ''CurrentModeUpdate''],
     Schema (no_keywords\<lparr>kw_type := ''object'', kw_required := [''sessionUpdate'']\<rparr>)
      [(''sessionUpdate'', leaf (no_keywords\<lparr>kw_type := ''string'', kw_const := Some (ValString ''config_option_update'')\<rparr>))]
      None None [] [] [ref_to ''ConfigOptionUpdate''],
     Schema (no_keywords\<lparr>kw_type := ''object'', kw_required := [''sessionUpdate'']\<rparr>)
      [(''sessionUpdate'', leaf (no_keywords\<lparr>kw_type := ''string'', kw_const := Some (ValString ''session_info_update'')\<rparr>))]
      None None [] [] [ref_to ''SessionInfoUpdate''],
     Schema (no_keywords\<lparr>kw_type := ''object'', kw_required := [''sessionUpdate'']\<rparr>)
      [(''sessionUpdate'', leaf (no_keywords\<lparr>kw_type := ''string'', kw_const := Some (ValString ''usage_update'')\<rparr>))]
      None None [] [] [ref_to ''UsageUpdate''],
     Schema (no_keywords\<lparr>kw_type := ''object'', kw_required := [''sessionUpdate'']\<rparr>)
      [(''sessionUpdate'', leaf (no_keywords\<lparr>kw_type := ''string'', kw_const := Some (ValString ''notice'')\<rparr>))]
      None None [] [] [ref_to ''Notice''],
     Schema (no_keywords\<lparr>kw_type := ''object'', kw_required := [''sessionUpdate'']\<rparr>)
      [(''sessionUpdate'', leaf (no_keywords\<lparr>kw_type := ''string'', kw_const := Some (ValString ''compaction_update'')\<rparr>))]
      None None [] [] [ref_to ''CompactionUpdate''],
     Schema (no_keywords\<lparr>kw_type := ''object'', kw_required := [''sessionUpdate'']\<rparr>)
      [(''sessionUpdate'', leaf (no_keywords\<lparr>kw_type := ''string'', kw_const := Some (ValString ''compaction_summary_chunk'')\<rparr>))]
      None None [] [] [ref_to ''CompactionSummaryChunk''],
     Schema (no_keywords\<lparr>kw_type := ''object'', kw_required := [''sessionUpdate'']\<rparr>)
      [(''sessionUpdate'', leaf (no_keywords\<lparr>kw_type := ''string'', kw_const := Some (ValString ''subagent_update'')\<rparr>))]
      None None [] [] [ref_to ''SubagentUpdate''],
     Schema (no_keywords\<lparr>kw_type := ''object'', kw_required := [''sessionUpdate'']\<rparr>)
      [(''sessionUpdate'', leaf (no_keywords\<lparr>kw_type := ''string'', kw_const := Some (ValString ''session_message'')\<rparr>))]
      None None [] [] [ref_to ''SessionMessage''],
     Schema (no_keywords\<lparr>kw_type := ''object'', kw_required := [''sessionUpdate'']\<rparr>)
      [(''sessionUpdate'', leaf (no_keywords\<lparr>kw_type := ''string'', kw_const := Some (ValString ''session_message_chunk'')\<rparr>))]
      None None [] [] [ref_to ''SessionMessageChunk'']] []"

definition schema_SetProviderRequest :: schema where
  "schema_SetProviderRequest =
    Schema (no_keywords\<lparr>kw_type := ''object'', kw_required := [''providerId'', ''apiType'', ''baseUrl''], kw_extra := [(''x-method'', ValString ''providers/set''), (''x-side'', ValString ''agent'')]\<rparr>)
    [(''_meta'', Schema (no_keywords\<lparr>kw_types := [''object'', ''null''], kw_extra := [(''x-deserialize-default-on-error'', ValBool True)]\<rparr>)
      []
      None (Some (anything)) [] [] []),
     (''apiType'', wraps no_keywords ''LlmProtocol''),
     (''baseUrl'', leaf (no_keywords\<lparr>kw_type := ''string''\<rparr>)),
     (''headers'', Schema (no_keywords\<lparr>kw_type := ''object''\<rparr>)
      []
      None (Some (leaf (no_keywords\<lparr>kw_type := ''string''\<rparr>))) [] [] []),
     (''providerId'', wraps no_keywords ''ProviderId'')]
    None None [] [] []"

definition schema_SetProviderResponse :: schema where
  "schema_SetProviderResponse =
    Schema (no_keywords\<lparr>kw_type := ''object'', kw_extra := [(''x-method'', ValString ''providers/set''), (''x-side'', ValString ''agent'')]\<rparr>)
    [(''_meta'', Schema (no_keywords\<lparr>kw_types := [''object'', ''null''], kw_extra := [(''x-deserialize-default-on-error'', ValBool True)]\<rparr>)
      []
      None (Some (anything)) [] [] [])]
    None None [] [] []"

definition schema_SetSessionConfigOptionRequest :: schema where
  "schema_SetSessionConfigOptionRequest =
    Schema (no_keywords\<lparr>kw_type := ''object'', kw_required := [''sessionId'', ''configId''], kw_extra := [(''x-method'', ValString ''session/set_config_option''), (''x-side'', ValString ''agent'')]\<rparr>)
    [(''_meta'', Schema (no_keywords\<lparr>kw_types := [''object'', ''null''], kw_extra := [(''x-deserialize-default-on-error'', ValBool True)]\<rparr>)
      []
      None (Some (anything)) [] [] []),
     (''configId'', wraps no_keywords ''SessionConfigId''),
     (''sessionId'', wraps no_keywords ''SessionId'')]
    None None [Schema (no_keywords\<lparr>kw_type := ''object'', kw_required := [''type'', ''value'']\<rparr>)
      [(''type'', leaf (no_keywords\<lparr>kw_type := ''string'', kw_const := Some (ValString ''boolean'')\<rparr>)),
       (''value'', leaf (no_keywords\<lparr>kw_type := ''boolean''\<rparr>))]
      None None [] [] [],
     Schema (no_keywords\<lparr>kw_type := ''object'', kw_title := ''value_id'', kw_required := [''value'']\<rparr>)
      [(''value'', wraps no_keywords ''SessionConfigValueId'')]
      None None [] [] []] [] []"

definition schema_SetSessionConfigOptionResponse :: schema where
  "schema_SetSessionConfigOptionResponse =
    Schema (no_keywords\<lparr>kw_type := ''object'', kw_required := [''configOptions''], kw_extra := [(''x-method'', ValString ''session/set_config_option''), (''x-side'', ValString ''agent'')]\<rparr>)
    [(''_meta'', Schema (no_keywords\<lparr>kw_types := [''object'', ''null''], kw_extra := [(''x-deserialize-default-on-error'', ValBool True)]\<rparr>)
      []
      None (Some (anything)) [] [] []),
     (''configOptions'', Schema (no_keywords\<lparr>kw_type := ''array'', kw_extra := [(''x-deserialize-default-on-error'', ValBool True), (''x-deserialize-skip-invalid-items'', ValBool True)]\<rparr>)
      []
      (Some (ref_to ''SessionConfigOption'')) None [] [] [])]
    None None [] [] []"

definition schema_SetSessionModeRequest :: schema where
  "schema_SetSessionModeRequest =
    Schema (no_keywords\<lparr>kw_type := ''object'', kw_required := [''sessionId'', ''modeId''], kw_extra := [(''x-method'', ValString ''session/set_mode''), (''x-side'', ValString ''agent'')]\<rparr>)
    [(''_meta'', Schema (no_keywords\<lparr>kw_types := [''object'', ''null''], kw_extra := [(''x-deserialize-default-on-error'', ValBool True)]\<rparr>)
      []
      None (Some (anything)) [] [] []),
     (''modeId'', wraps no_keywords ''SessionModeId''),
     (''sessionId'', wraps no_keywords ''SessionId'')]
    None None [] [] []"

definition schema_SetSessionModeResponse :: schema where
  "schema_SetSessionModeResponse =
    Schema (no_keywords\<lparr>kw_type := ''object'', kw_extra := [(''x-method'', ValString ''session/set_mode''), (''x-side'', ValString ''agent'')]\<rparr>)
    [(''_meta'', Schema (no_keywords\<lparr>kw_types := [''object'', ''null''], kw_extra := [(''x-deserialize-default-on-error'', ValBool True)]\<rparr>)
      []
      None (Some (anything)) [] [] [])]
    None None [] [] []"

definition schema_SetSessionTitleRequest :: schema where
  "schema_SetSessionTitleRequest =
    Schema (no_keywords\<lparr>kw_type := ''object'', kw_required := [''sessionId'', ''title''], kw_extra := [(''x-method'', ValString ''session/set_title''), (''x-side'', ValString ''agent'')]\<rparr>)
    [(''_meta'', Schema (no_keywords\<lparr>kw_types := [''object'', ''null''], kw_extra := [(''x-deserialize-default-on-error'', ValBool True)]\<rparr>)
      []
      None (Some (anything)) [] [] []),
     (''sessionId'', wraps no_keywords ''SessionId''),
     (''title'', leaf (no_keywords\<lparr>kw_type := ''string''\<rparr>))]
    None None [] [] []"

definition schema_SetSessionTitleResponse :: schema where
  "schema_SetSessionTitleResponse =
    Schema (no_keywords\<lparr>kw_type := ''object'', kw_required := [''title''], kw_extra := [(''x-method'', ValString ''session/set_title''), (''x-side'', ValString ''agent'')]\<rparr>)
    [(''_meta'', Schema (no_keywords\<lparr>kw_types := [''object'', ''null''], kw_extra := [(''x-deserialize-default-on-error'', ValBool True)]\<rparr>)
      []
      None (Some (anything)) [] [] []),
     (''title'', leaf (no_keywords\<lparr>kw_type := ''string''\<rparr>))]
    None None [] [] []"

definition schema_StateUpdate :: schema where
  "schema_StateUpdate =
    Schema no_keywords
    []
    None None [Schema (no_keywords\<lparr>kw_type := ''object'', kw_required := [''state'']\<rparr>)
      [(''state'', leaf (no_keywords\<lparr>kw_type := ''string'', kw_const := Some (ValString ''running'')\<rparr>))]
      None None [] [] [ref_to ''RunningStateUpdate''],
     Schema (no_keywords\<lparr>kw_type := ''object'', kw_required := [''state'']\<rparr>)
      [(''state'', leaf (no_keywords\<lparr>kw_type := ''string'', kw_const := Some (ValString ''idle'')\<rparr>))]
      None None [] [] [ref_to ''IdleStateUpdate''],
     Schema (no_keywords\<lparr>kw_type := ''object'', kw_required := [''state'']\<rparr>)
      [(''state'', leaf (no_keywords\<lparr>kw_type := ''string'', kw_const := Some (ValString ''requires_action'')\<rparr>))]
      None None [] [] [ref_to ''RequiresActionStateUpdate''],
     Schema (no_keywords\<lparr>kw_type := ''object'', kw_required := [''state'']\<rparr>)
      [(''state'', leaf (no_keywords\<lparr>kw_type := ''string'', kw_const := Some (ValString ''unknown'')\<rparr>))]
      None None [] [] [ref_to ''UnknownStateUpdate''],
     Schema (no_keywords\<lparr>kw_type := ''object'', kw_title := ''other'', kw_required := [''state'']\<rparr>)
      [(''state'', leaf (no_keywords\<lparr>kw_type := ''string''\<rparr>))]
      None (Some (anything)) [] [] []] [] []"

definition schema_StopReason :: schema where
  "schema_StopReason =
    Schema no_keywords
    []
    None None [] [leaf (no_keywords\<lparr>kw_type := ''string'', kw_const := Some (ValString ''end_turn'')\<rparr>),
     leaf (no_keywords\<lparr>kw_type := ''string'', kw_const := Some (ValString ''max_tokens'')\<rparr>),
     leaf (no_keywords\<lparr>kw_type := ''string'', kw_const := Some (ValString ''max_turn_requests'')\<rparr>),
     leaf (no_keywords\<lparr>kw_type := ''string'', kw_const := Some (ValString ''refusal'')\<rparr>),
     leaf (no_keywords\<lparr>kw_type := ''string'', kw_const := Some (ValString ''cancelled'')\<rparr>)] []"

definition schema_StringFormat :: schema where
  "schema_StringFormat =
    Schema no_keywords
    []
    None None [] [leaf (no_keywords\<lparr>kw_type := ''string'', kw_const := Some (ValString ''email'')\<rparr>),
     leaf (no_keywords\<lparr>kw_type := ''string'', kw_const := Some (ValString ''uri'')\<rparr>),
     leaf (no_keywords\<lparr>kw_type := ''string'', kw_const := Some (ValString ''date'')\<rparr>),
     leaf (no_keywords\<lparr>kw_type := ''string'', kw_const := Some (ValString ''date-time'')\<rparr>)] []"

definition schema_StringMultiSelectItems :: schema where
  "schema_StringMultiSelectItems =
    Schema (no_keywords\<lparr>kw_type := ''object'', kw_required := [''enum'']\<rparr>)
    [(''_meta'', Schema (no_keywords\<lparr>kw_types := [''object'', ''null''], kw_extra := [(''x-deserialize-default-on-error'', ValBool True)]\<rparr>)
      []
      None (Some (anything)) [] [] []),
     (''enum'', Schema (no_keywords\<lparr>kw_type := ''array''\<rparr>)
      []
      (Some (leaf (no_keywords\<lparr>kw_type := ''string''\<rparr>))) None [] [] [])]
    None None [] [] []"

definition schema_StringPropertySchema :: schema where
  "schema_StringPropertySchema =
    Schema (no_keywords\<lparr>kw_type := ''object''\<rparr>)
    [(''_meta'', Schema (no_keywords\<lparr>kw_types := [''object'', ''null''], kw_extra := [(''x-deserialize-default-on-error'', ValBool True)]\<rparr>)
      []
      None (Some (anything)) [] [] []),
     (''default'', leaf (no_keywords\<lparr>kw_types := [''string'', ''null''], kw_extra := [(''x-deserialize-default-on-error'', ValBool True)]\<rparr>)),
     (''description'', leaf (no_keywords\<lparr>kw_types := [''string'', ''null''], kw_extra := [(''x-deserialize-default-on-error'', ValBool True)]\<rparr>)),
     (''enum'', Schema (no_keywords\<lparr>kw_types := [''array'', ''null'']\<rparr>)
      []
      (Some (leaf (no_keywords\<lparr>kw_type := ''string''\<rparr>))) None [] [] []),
     (''format'', Schema no_keywords
      []
      None None [ref_to ''StringFormat'',
       leaf (no_keywords\<lparr>kw_type := ''null''\<rparr>)] [] []),
     (''maxLength'', leaf (no_keywords\<lparr>kw_types := [''integer'', ''null''], kw_format := ''uint32''\<rparr>)),
     (''minLength'', leaf (no_keywords\<lparr>kw_types := [''integer'', ''null''], kw_format := ''uint32''\<rparr>)),
     (''oneOf'', Schema (no_keywords\<lparr>kw_types := [''array'', ''null'']\<rparr>)
      []
      (Some (ref_to ''EnumOption'')) None [] [] []),
     (''pattern'', leaf (no_keywords\<lparr>kw_types := [''string'', ''null'']\<rparr>)),
     (''title'', leaf (no_keywords\<lparr>kw_types := [''string'', ''null''], kw_extra := [(''x-deserialize-default-on-error'', ValBool True)]\<rparr>))]
    None None [] [] []"

definition schema_SubagentCapabilities :: schema where
  "schema_SubagentCapabilities =
    Schema (no_keywords\<lparr>kw_type := ''object''\<rparr>)
    [(''_meta'', Schema (no_keywords\<lparr>kw_types := [''object'', ''null''], kw_extra := [(''x-deserialize-default-on-error'', ValBool True)]\<rparr>)
      []
      None (Some (anything)) [] [] [])]
    None None [] [] []"

definition schema_SubagentSessionCapabilities :: schema where
  "schema_SubagentSessionCapabilities =
    Schema (no_keywords\<lparr>kw_type := ''object''\<rparr>)
    [(''_meta'', Schema (no_keywords\<lparr>kw_types := [''object'', ''null''], kw_extra := [(''x-deserialize-default-on-error'', ValBool True)]\<rparr>)
      []
      None (Some (anything)) [] [] []),
     (''cancel'', Schema (no_keywords\<lparr>kw_extra := [(''x-deserialize-default-on-error'', ValBool True)]\<rparr>)
      []
      None None [ref_to ''SessionCancelCapabilities'',
       leaf (no_keywords\<lparr>kw_type := ''null''\<rparr>)] [] [])]
    None None [] [] []"

definition schema_SubagentUpdate :: schema where
  "schema_SubagentUpdate =
    Schema (no_keywords\<lparr>kw_type := ''object'', kw_required := [''sessionId'']\<rparr>)
    [(''_meta'', Schema (no_keywords\<lparr>kw_types := [''object'', ''null''], kw_extra := [(''x-deserialize-default-on-error'', ValBool True)]\<rparr>)
      []
      None (Some (anything)) [] [] []),
     (''additionalDirectories'', Schema (no_keywords\<lparr>kw_types := [''array'', ''null'']\<rparr>)
      []
      (Some (leaf (no_keywords\<lparr>kw_type := ''string''\<rparr>))) None [] [] []),
     (''capabilities'', Schema (no_keywords\<lparr>kw_extra := [(''x-deserialize-default-on-error'', ValBool True)]\<rparr>)
      []
      None None [ref_to ''SubagentSessionCapabilities'',
       leaf (no_keywords\<lparr>kw_type := ''null''\<rparr>)] [] []),
     (''cwd'', leaf (no_keywords\<lparr>kw_types := [''string'', ''null'']\<rparr>)),
     (''description'', leaf (no_keywords\<lparr>kw_types := [''string'', ''null''], kw_extra := [(''x-deserialize-default-on-error'', ValBool True)]\<rparr>)),
     (''sessionId'', wraps no_keywords ''SessionId''),
     (''state'', Schema (no_keywords\<lparr>kw_extra := [(''x-deserialize-default-on-error'', ValBool True)]\<rparr>)
      []
      None None [ref_to ''StateUpdate'',
       leaf (no_keywords\<lparr>kw_type := ''null''\<rparr>)] [] []),
     (''title'', leaf (no_keywords\<lparr>kw_types := [''string'', ''null''], kw_extra := [(''x-deserialize-default-on-error'', ValBool True)]\<rparr>))]
    None None [] [] []"

definition schema_SystemPrompt :: schema where
  "schema_SystemPrompt =
    Schema (no_keywords\<lparr>kw_type := ''object'', kw_required := [''mode'', ''content'']\<rparr>)
    [(''_meta'', Schema (no_keywords\<lparr>kw_types := [''object'', ''null''], kw_extra := [(''x-deserialize-default-on-error'', ValBool True)]\<rparr>)
      []
      None (Some (anything)) [] [] []),
     (''content'', Schema (no_keywords\<lparr>kw_type := ''array''\<rparr>)
      []
      (Some (ref_to ''ContentBlock'')) None [] [] []),
     (''mode'', wraps no_keywords ''SystemPromptMode'')]
    None None [] [] []"

definition schema_SystemPromptMode :: schema where
  "schema_SystemPromptMode =
    Schema no_keywords
    []
    None None [leaf (no_keywords\<lparr>kw_type := ''string'', kw_const := Some (ValString ''append'')\<rparr>),
     leaf (no_keywords\<lparr>kw_type := ''string'', kw_const := Some (ValString ''override'')\<rparr>),
     leaf (no_keywords\<lparr>kw_type := ''string'', kw_title := ''other''\<rparr>)] [] []"

definition schema_Terminal :: schema where
  "schema_Terminal =
    Schema (no_keywords\<lparr>kw_type := ''object'', kw_required := [''terminalId'']\<rparr>)
    [(''_meta'', Schema (no_keywords\<lparr>kw_types := [''object'', ''null''], kw_extra := [(''x-deserialize-default-on-error'', ValBool True)]\<rparr>)
      []
      None (Some (anything)) [] [] []),
     (''terminalId'', wraps no_keywords ''TerminalId'')]
    None None [] [] []"

definition schema_TerminalExitStatus :: schema where
  "schema_TerminalExitStatus =
    Schema (no_keywords\<lparr>kw_type := ''object''\<rparr>)
    [(''_meta'', Schema (no_keywords\<lparr>kw_types := [''object'', ''null''], kw_extra := [(''x-deserialize-default-on-error'', ValBool True)]\<rparr>)
      []
      None (Some (anything)) [] [] []),
     (''exitCode'', leaf (no_keywords\<lparr>kw_types := [''integer'', ''null''], kw_format := ''uint32'', kw_extra := [(''x-deserialize-default-on-error'', ValBool True)]\<rparr>)),
     (''signal'', leaf (no_keywords\<lparr>kw_types := [''string'', ''null''], kw_extra := [(''x-deserialize-default-on-error'', ValBool True)]\<rparr>))]
    None None [] [] []"

definition schema_TerminalId :: schema where
  "schema_TerminalId =
    leaf (no_keywords\<lparr>kw_type := ''string''\<rparr>)"

definition schema_TerminalOutputRequest :: schema where
  "schema_TerminalOutputRequest =
    Schema (no_keywords\<lparr>kw_type := ''object'', kw_required := [''sessionId'', ''terminalId''], kw_extra := [(''x-method'', ValString ''terminal/output''), (''x-side'', ValString ''client'')]\<rparr>)
    [(''_meta'', Schema (no_keywords\<lparr>kw_types := [''object'', ''null''], kw_extra := [(''x-deserialize-default-on-error'', ValBool True)]\<rparr>)
      []
      None (Some (anything)) [] [] []),
     (''sessionId'', wraps no_keywords ''SessionId''),
     (''terminalId'', wraps no_keywords ''TerminalId'')]
    None None [] [] []"

definition schema_TerminalOutputResponse :: schema where
  "schema_TerminalOutputResponse =
    Schema (no_keywords\<lparr>kw_type := ''object'', kw_required := [''output'', ''truncated''], kw_extra := [(''x-method'', ValString ''terminal/output''), (''x-side'', ValString ''client'')]\<rparr>)
    [(''_meta'', Schema (no_keywords\<lparr>kw_types := [''object'', ''null''], kw_extra := [(''x-deserialize-default-on-error'', ValBool True)]\<rparr>)
      []
      None (Some (anything)) [] [] []),
     (''exitStatus'', Schema (no_keywords\<lparr>kw_extra := [(''x-deserialize-default-on-error'', ValBool True)]\<rparr>)
      []
      None None [ref_to ''TerminalExitStatus'',
       leaf (no_keywords\<lparr>kw_type := ''null''\<rparr>)] [] []),
     (''output'', leaf (no_keywords\<lparr>kw_type := ''string''\<rparr>)),
     (''truncated'', leaf (no_keywords\<lparr>kw_type := ''boolean''\<rparr>))]
    None None [] [] []"

definition schema_TextContent :: schema where
  "schema_TextContent =
    Schema (no_keywords\<lparr>kw_type := ''object'', kw_required := [''text'']\<rparr>)
    [(''_meta'', Schema (no_keywords\<lparr>kw_types := [''object'', ''null''], kw_extra := [(''x-deserialize-default-on-error'', ValBool True)]\<rparr>)
      []
      None (Some (anything)) [] [] []),
     (''annotations'', Schema (no_keywords\<lparr>kw_extra := [(''x-deserialize-default-on-error'', ValBool True)]\<rparr>)
      []
      None None [ref_to ''Annotations'',
       leaf (no_keywords\<lparr>kw_type := ''null''\<rparr>)] [] []),
     (''text'', leaf (no_keywords\<lparr>kw_type := ''string''\<rparr>))]
    None None [] [] []"

definition schema_TextResourceContents :: schema where
  "schema_TextResourceContents =
    Schema (no_keywords\<lparr>kw_type := ''object'', kw_required := [''text'', ''uri'']\<rparr>)
    [(''_meta'', Schema (no_keywords\<lparr>kw_types := [''object'', ''null''], kw_extra := [(''x-deserialize-default-on-error'', ValBool True)]\<rparr>)
      []
      None (Some (anything)) [] [] []),
     (''mimeType'', leaf (no_keywords\<lparr>kw_types := [''string'', ''null''], kw_extra := [(''x-deserialize-default-on-error'', ValBool True)]\<rparr>)),
     (''text'', leaf (no_keywords\<lparr>kw_type := ''string''\<rparr>)),
     (''uri'', leaf (no_keywords\<lparr>kw_type := ''string''\<rparr>))]
    None None [] [] []"

definition schema_TitledMultiSelectItems :: schema where
  "schema_TitledMultiSelectItems =
    Schema (no_keywords\<lparr>kw_type := ''object'', kw_required := [''anyOf'']\<rparr>)
    [(''_meta'', Schema (no_keywords\<lparr>kw_types := [''object'', ''null''], kw_extra := [(''x-deserialize-default-on-error'', ValBool True)]\<rparr>)
      []
      None (Some (anything)) [] [] []),
     (''anyOf'', Schema (no_keywords\<lparr>kw_type := ''array''\<rparr>)
      []
      (Some (ref_to ''EnumOption'')) None [] [] [])]
    None None [] [] []"

definition schema_ToolCall :: schema where
  "schema_ToolCall =
    Schema (no_keywords\<lparr>kw_type := ''object'', kw_required := [''toolCallId'', ''title'']\<rparr>)
    [(''_meta'', Schema (no_keywords\<lparr>kw_types := [''object'', ''null''], kw_extra := [(''x-deserialize-default-on-error'', ValBool True)]\<rparr>)
      []
      None (Some (anything)) [] [] []),
     (''content'', Schema (no_keywords\<lparr>kw_type := ''array'', kw_extra := [(''x-deserialize-default-on-error'', ValBool True), (''x-deserialize-skip-invalid-items'', ValBool True)]\<rparr>)
      []
      (Some (ref_to ''ToolCallContent'')) None [] [] []),
     (''kind'', wraps (no_keywords\<lparr>kw_extra := [(''x-deserialize-default-on-error'', ValBool True)]\<rparr>) ''ToolKind''),
     (''locations'', Schema (no_keywords\<lparr>kw_type := ''array'', kw_extra := [(''x-deserialize-default-on-error'', ValBool True), (''x-deserialize-skip-invalid-items'', ValBool True)]\<rparr>)
      []
      (Some (ref_to ''ToolCallLocation'')) None [] [] []),
     (''name'', leaf (no_keywords\<lparr>kw_types := [''string'', ''null''], kw_extra := [(''x-deserialize-default-on-error'', ValBool True)]\<rparr>)),
     (''rawInput'', leaf (no_keywords\<lparr>kw_extra := [(''x-deserialize-default-on-error'', ValBool True)]\<rparr>)),
     (''rawOutput'', leaf (no_keywords\<lparr>kw_extra := [(''x-deserialize-default-on-error'', ValBool True)]\<rparr>)),
     (''status'', wraps (no_keywords\<lparr>kw_extra := [(''x-deserialize-default-on-error'', ValBool True)]\<rparr>) ''ToolCallStatus''),
     (''title'', leaf (no_keywords\<lparr>kw_type := ''string''\<rparr>)),
     (''toolCallId'', wraps no_keywords ''ToolCallId'')]
    None None [] [] []"

definition schema_ToolCallContent :: schema where
  "schema_ToolCallContent =
    Schema (no_keywords\<lparr>kw_extra := [(''discriminator'', ValMap [(''propertyName'', ValString ''type'')])]\<rparr>)
    []
    None None [] [Schema (no_keywords\<lparr>kw_type := ''object'', kw_required := [''type'']\<rparr>)
      [(''type'', leaf (no_keywords\<lparr>kw_type := ''string'', kw_const := Some (ValString ''content'')\<rparr>))]
      None None [] [] [ref_to ''Content''],
     Schema (no_keywords\<lparr>kw_type := ''object'', kw_required := [''type'']\<rparr>)
      [(''type'', leaf (no_keywords\<lparr>kw_type := ''string'', kw_const := Some (ValString ''diff'')\<rparr>))]
      None None [] [] [ref_to ''Diff''],
     Schema (no_keywords\<lparr>kw_type := ''object'', kw_required := [''type'']\<rparr>)
      [(''type'', leaf (no_keywords\<lparr>kw_type := ''string'', kw_const := Some (ValString ''terminal'')\<rparr>))]
      None None [] [] [ref_to ''Terminal'']] []"

definition schema_ToolCallId :: schema where
  "schema_ToolCallId =
    leaf (no_keywords\<lparr>kw_type := ''string''\<rparr>)"

definition schema_ToolCallLocation :: schema where
  "schema_ToolCallLocation =
    Schema (no_keywords\<lparr>kw_type := ''object'', kw_required := [''path'']\<rparr>)
    [(''_meta'', Schema (no_keywords\<lparr>kw_types := [''object'', ''null''], kw_extra := [(''x-deserialize-default-on-error'', ValBool True)]\<rparr>)
      []
      None (Some (anything)) [] [] []),
     (''line'', leaf (no_keywords\<lparr>kw_types := [''integer'', ''null''], kw_format := ''uint32'', kw_extra := [(''x-deserialize-default-on-error'', ValBool True)]\<rparr>)),
     (''path'', leaf (no_keywords\<lparr>kw_type := ''string''\<rparr>))]
    None None [] [] []"

definition schema_ToolCallStatus :: schema where
  "schema_ToolCallStatus =
    Schema no_keywords
    []
    None None [] [leaf (no_keywords\<lparr>kw_type := ''string'', kw_const := Some (ValString ''pending'')\<rparr>),
     leaf (no_keywords\<lparr>kw_type := ''string'', kw_const := Some (ValString ''in_progress'')\<rparr>),
     leaf (no_keywords\<lparr>kw_type := ''string'', kw_const := Some (ValString ''completed'')\<rparr>),
     leaf (no_keywords\<lparr>kw_type := ''string'', kw_const := Some (ValString ''failed'')\<rparr>)] []"

definition schema_ToolCallUpdate :: schema where
  "schema_ToolCallUpdate =
    Schema (no_keywords\<lparr>kw_type := ''object'', kw_required := [''toolCallId'']\<rparr>)
    [(''_meta'', Schema (no_keywords\<lparr>kw_types := [''object'', ''null''], kw_extra := [(''x-deserialize-default-on-error'', ValBool True)]\<rparr>)
      []
      None (Some (anything)) [] [] []),
     (''content'', Schema (no_keywords\<lparr>kw_types := [''array'', ''null''], kw_extra := [(''x-deserialize-default-on-error'', ValBool True), (''x-deserialize-skip-invalid-items'', ValBool True)]\<rparr>)
      []
      (Some (ref_to ''ToolCallContent'')) None [] [] []),
     (''kind'', Schema (no_keywords\<lparr>kw_extra := [(''x-deserialize-default-on-error'', ValBool True)]\<rparr>)
      []
      None None [ref_to ''ToolKind'',
       leaf (no_keywords\<lparr>kw_type := ''null''\<rparr>)] [] []),
     (''locations'', Schema (no_keywords\<lparr>kw_types := [''array'', ''null''], kw_extra := [(''x-deserialize-default-on-error'', ValBool True), (''x-deserialize-skip-invalid-items'', ValBool True)]\<rparr>)
      []
      (Some (ref_to ''ToolCallLocation'')) None [] [] []),
     (''name'', leaf (no_keywords\<lparr>kw_types := [''string'', ''null''], kw_extra := [(''x-deserialize-default-on-error'', ValBool True)]\<rparr>)),
     (''rawInput'', leaf (no_keywords\<lparr>kw_extra := [(''x-deserialize-default-on-error'', ValBool True)]\<rparr>)),
     (''rawOutput'', leaf (no_keywords\<lparr>kw_extra := [(''x-deserialize-default-on-error'', ValBool True)]\<rparr>)),
     (''status'', Schema (no_keywords\<lparr>kw_extra := [(''x-deserialize-default-on-error'', ValBool True)]\<rparr>)
      []
      None None [ref_to ''ToolCallStatus'',
       leaf (no_keywords\<lparr>kw_type := ''null''\<rparr>)] [] []),
     (''title'', leaf (no_keywords\<lparr>kw_types := [''string'', ''null''], kw_extra := [(''x-deserialize-default-on-error'', ValBool True)]\<rparr>)),
     (''toolCallId'', wraps no_keywords ''ToolCallId'')]
    None None [] [] []"

definition schema_ToolKind :: schema where
  "schema_ToolKind =
    Schema no_keywords
    []
    None None [] [leaf (no_keywords\<lparr>kw_type := ''string'', kw_const := Some (ValString ''read'')\<rparr>),
     leaf (no_keywords\<lparr>kw_type := ''string'', kw_const := Some (ValString ''edit'')\<rparr>),
     leaf (no_keywords\<lparr>kw_type := ''string'', kw_const := Some (ValString ''delete'')\<rparr>),
     leaf (no_keywords\<lparr>kw_type := ''string'', kw_const := Some (ValString ''move'')\<rparr>),
     leaf (no_keywords\<lparr>kw_type := ''string'', kw_const := Some (ValString ''search'')\<rparr>),
     leaf (no_keywords\<lparr>kw_type := ''string'', kw_const := Some (ValString ''execute'')\<rparr>),
     leaf (no_keywords\<lparr>kw_type := ''string'', kw_const := Some (ValString ''think'')\<rparr>),
     leaf (no_keywords\<lparr>kw_type := ''string'', kw_const := Some (ValString ''fetch'')\<rparr>),
     leaf (no_keywords\<lparr>kw_type := ''string'', kw_const := Some (ValString ''switch_mode'')\<rparr>),
     leaf (no_keywords\<lparr>kw_type := ''string'', kw_const := Some (ValString ''other'')\<rparr>)] []"

definition schema_UnarchiveSessionRequest :: schema where
  "schema_UnarchiveSessionRequest =
    Schema (no_keywords\<lparr>kw_type := ''object'', kw_required := [''sessionId''], kw_extra := [(''x-method'', ValString ''session/unarchive''), (''x-side'', ValString ''agent'')]\<rparr>)
    [(''_meta'', Schema (no_keywords\<lparr>kw_types := [''object'', ''null''], kw_extra := [(''x-deserialize-default-on-error'', ValBool True)]\<rparr>)
      []
      None (Some (anything)) [] [] []),
     (''sessionId'', wraps no_keywords ''SessionId'')]
    None None [] [] []"

definition schema_UnarchiveSessionResponse :: schema where
  "schema_UnarchiveSessionResponse =
    Schema (no_keywords\<lparr>kw_type := ''object'', kw_extra := [(''x-method'', ValString ''session/unarchive''), (''x-side'', ValString ''agent'')]\<rparr>)
    [(''_meta'', Schema (no_keywords\<lparr>kw_types := [''object'', ''null''], kw_extra := [(''x-deserialize-default-on-error'', ValBool True)]\<rparr>)
      []
      None (Some (anything)) [] [] [])]
    None None [] [] []"

definition schema_UnknownStateUpdate :: schema where
  "schema_UnknownStateUpdate =
    Schema (no_keywords\<lparr>kw_type := ''object''\<rparr>)
    [(''_meta'', Schema (no_keywords\<lparr>kw_types := [''object'', ''null''], kw_extra := [(''x-deserialize-default-on-error'', ValBool True)]\<rparr>)
      []
      None (Some (anything)) [] [] [])]
    None None [] [] []"

definition schema_UnstructuredCommandInput :: schema where
  "schema_UnstructuredCommandInput =
    Schema (no_keywords\<lparr>kw_type := ''object'', kw_required := [''hint'']\<rparr>)
    [(''_meta'', Schema (no_keywords\<lparr>kw_types := [''object'', ''null''], kw_extra := [(''x-deserialize-default-on-error'', ValBool True)]\<rparr>)
      []
      None (Some (anything)) [] [] []),
     (''hint'', leaf (no_keywords\<lparr>kw_type := ''string''\<rparr>))]
    None None [] [] []"

definition schema_Usage :: schema where
  "schema_Usage =
    Schema (no_keywords\<lparr>kw_type := ''object'', kw_required := [''totalTokens'', ''inputTokens'', ''outputTokens'']\<rparr>)
    [(''_meta'', Schema (no_keywords\<lparr>kw_types := [''object'', ''null''], kw_extra := [(''x-deserialize-default-on-error'', ValBool True)]\<rparr>)
      []
      None (Some (anything)) [] [] []),
     (''cachedReadTokens'', leaf (no_keywords\<lparr>kw_types := [''integer'', ''null''], kw_format := ''uint64'', kw_extra := [(''x-deserialize-default-on-error'', ValBool True)]\<rparr>)),
     (''cachedWriteTokens'', leaf (no_keywords\<lparr>kw_types := [''integer'', ''null''], kw_format := ''uint64'', kw_extra := [(''x-deserialize-default-on-error'', ValBool True)]\<rparr>)),
     (''inputTokens'', leaf (no_keywords\<lparr>kw_type := ''integer'', kw_format := ''uint64''\<rparr>)),
     (''outputTokens'', leaf (no_keywords\<lparr>kw_type := ''integer'', kw_format := ''uint64''\<rparr>)),
     (''thoughtTokens'', leaf (no_keywords\<lparr>kw_types := [''integer'', ''null''], kw_format := ''uint64'', kw_extra := [(''x-deserialize-default-on-error'', ValBool True)]\<rparr>)),
     (''totalTokens'', leaf (no_keywords\<lparr>kw_type := ''integer'', kw_format := ''uint64''\<rparr>))]
    None None [] [] []"

definition schema_UsageUpdate :: schema where
  "schema_UsageUpdate =
    Schema (no_keywords\<lparr>kw_type := ''object'', kw_required := [''used'', ''size'']\<rparr>)
    [(''_meta'', Schema (no_keywords\<lparr>kw_types := [''object'', ''null''], kw_extra := [(''x-deserialize-default-on-error'', ValBool True)]\<rparr>)
      []
      None (Some (anything)) [] [] []),
     (''cost'', Schema (no_keywords\<lparr>kw_extra := [(''x-deserialize-default-on-error'', ValBool True)]\<rparr>)
      []
      None None [ref_to ''Cost'',
       leaf (no_keywords\<lparr>kw_type := ''null''\<rparr>)] [] []),
     (''size'', leaf (no_keywords\<lparr>kw_type := ''integer'', kw_format := ''uint64''\<rparr>)),
     (''used'', leaf (no_keywords\<lparr>kw_type := ''integer'', kw_format := ''uint64''\<rparr>))]
    None None [] [] []"

definition schema_WaitForTerminalExitRequest :: schema where
  "schema_WaitForTerminalExitRequest =
    Schema (no_keywords\<lparr>kw_type := ''object'', kw_required := [''sessionId'', ''terminalId''], kw_extra := [(''x-method'', ValString ''terminal/wait_for_exit''), (''x-side'', ValString ''client'')]\<rparr>)
    [(''_meta'', Schema (no_keywords\<lparr>kw_types := [''object'', ''null''], kw_extra := [(''x-deserialize-default-on-error'', ValBool True)]\<rparr>)
      []
      None (Some (anything)) [] [] []),
     (''sessionId'', wraps no_keywords ''SessionId''),
     (''terminalId'', wraps no_keywords ''TerminalId'')]
    None None [] [] []"

definition schema_WaitForTerminalExitResponse :: schema where
  "schema_WaitForTerminalExitResponse =
    Schema (no_keywords\<lparr>kw_type := ''object'', kw_extra := [(''x-method'', ValString ''terminal/wait_for_exit''), (''x-side'', ValString ''client'')]\<rparr>)
    [(''_meta'', Schema (no_keywords\<lparr>kw_types := [''object'', ''null''], kw_extra := [(''x-deserialize-default-on-error'', ValBool True)]\<rparr>)
      []
      None (Some (anything)) [] [] []),
     (''exitCode'', leaf (no_keywords\<lparr>kw_types := [''integer'', ''null''], kw_format := ''uint32'', kw_extra := [(''x-deserialize-default-on-error'', ValBool True)]\<rparr>)),
     (''signal'', leaf (no_keywords\<lparr>kw_types := [''string'', ''null''], kw_extra := [(''x-deserialize-default-on-error'', ValBool True)]\<rparr>))]
    None None [] [] []"

definition schema_WriteTextFileRequest :: schema where
  "schema_WriteTextFileRequest =
    Schema (no_keywords\<lparr>kw_type := ''object'', kw_required := [''sessionId'', ''path'', ''content''], kw_extra := [(''x-method'', ValString ''fs/write_text_file''), (''x-side'', ValString ''client'')]\<rparr>)
    [(''_meta'', Schema (no_keywords\<lparr>kw_types := [''object'', ''null''], kw_extra := [(''x-deserialize-default-on-error'', ValBool True)]\<rparr>)
      []
      None (Some (anything)) [] [] []),
     (''content'', leaf (no_keywords\<lparr>kw_type := ''string''\<rparr>)),
     (''path'', leaf (no_keywords\<lparr>kw_type := ''string''\<rparr>)),
     (''sessionId'', wraps no_keywords ''SessionId'')]
    None None [] [] []"

definition schema_WriteTextFileResponse :: schema where
  "schema_WriteTextFileResponse =
    Schema (no_keywords\<lparr>kw_type := ''object'', kw_extra := [(''x-method'', ValString ''fs/write_text_file''), (''x-side'', ValString ''client'')]\<rparr>)
    [(''_meta'', Schema (no_keywords\<lparr>kw_types := [''object'', ''null''], kw_extra := [(''x-deserialize-default-on-error'', ValBool True)]\<rparr>)
      []
      None (Some (anything)) [] [] [])]
    None None [] [] []"

definition acp_definitions_4 :: schema_defs where
  "acp_definitions_4 =
    [(''SessionMode'', schema_SessionMode),
     (''SessionModeId'', schema_SessionModeId),
     (''SessionModeState'', schema_SessionModeState),
     (''SessionNotification'', schema_SessionNotification),
     (''SessionResumeCapabilities'', schema_SessionResumeCapabilities),
     (''SessionStatus'', schema_SessionStatus),
     (''SessionStatusCapabilities'', schema_SessionStatusCapabilities),
     (''SessionStatusRequest'', schema_SessionStatusRequest),
     (''SessionStatusResponse'', schema_SessionStatusResponse),
     (''SessionSystemPromptCapabilities'', schema_SessionSystemPromptCapabilities),
     (''SessionSystemPromptModeCapabilities'', schema_SessionSystemPromptModeCapabilities),
     (''SessionSystemPromptOverrideCapabilities'', schema_SessionSystemPromptOverrideCapabilities),
     (''SessionTitleCapabilities'', schema_SessionTitleCapabilities),
     (''SessionUpdate'', schema_SessionUpdate),
     (''SetProviderRequest'', schema_SetProviderRequest),
     (''SetProviderResponse'', schema_SetProviderResponse),
     (''SetSessionConfigOptionRequest'', schema_SetSessionConfigOptionRequest),
     (''SetSessionConfigOptionResponse'', schema_SetSessionConfigOptionResponse),
     (''SetSessionModeRequest'', schema_SetSessionModeRequest),
     (''SetSessionModeResponse'', schema_SetSessionModeResponse),
     (''SetSessionTitleRequest'', schema_SetSessionTitleRequest),
     (''SetSessionTitleResponse'', schema_SetSessionTitleResponse),
     (''StateUpdate'', schema_StateUpdate),
     (''StopReason'', schema_StopReason),
     (''StringFormat'', schema_StringFormat),
     (''StringMultiSelectItems'', schema_StringMultiSelectItems),
     (''StringPropertySchema'', schema_StringPropertySchema),
     (''SubagentCapabilities'', schema_SubagentCapabilities),
     (''SubagentSessionCapabilities'', schema_SubagentSessionCapabilities),
     (''SubagentUpdate'', schema_SubagentUpdate),
     (''SystemPrompt'', schema_SystemPrompt),
     (''SystemPromptMode'', schema_SystemPromptMode),
     (''Terminal'', schema_Terminal),
     (''TerminalExitStatus'', schema_TerminalExitStatus),
     (''TerminalId'', schema_TerminalId),
     (''TerminalOutputRequest'', schema_TerminalOutputRequest),
     (''TerminalOutputResponse'', schema_TerminalOutputResponse),
     (''TextContent'', schema_TextContent),
     (''TextResourceContents'', schema_TextResourceContents),
     (''TitledMultiSelectItems'', schema_TitledMultiSelectItems),
     (''ToolCall'', schema_ToolCall),
     (''ToolCallContent'', schema_ToolCallContent),
     (''ToolCallId'', schema_ToolCallId),
     (''ToolCallLocation'', schema_ToolCallLocation),
     (''ToolCallStatus'', schema_ToolCallStatus),
     (''ToolCallUpdate'', schema_ToolCallUpdate),
     (''ToolKind'', schema_ToolKind),
     (''UnarchiveSessionRequest'', schema_UnarchiveSessionRequest),
     (''UnarchiveSessionResponse'', schema_UnarchiveSessionResponse),
     (''UnknownStateUpdate'', schema_UnknownStateUpdate),
     (''UnstructuredCommandInput'', schema_UnstructuredCommandInput),
     (''Usage'', schema_Usage),
     (''UsageUpdate'', schema_UsageUpdate),
     (''WaitForTerminalExitRequest'', schema_WaitForTerminalExitRequest),
     (''WaitForTerminalExitResponse'', schema_WaitForTerminalExitResponse),
     (''WriteTextFileRequest'', schema_WriteTextFileRequest),
     (''WriteTextFileResponse'', schema_WriteTextFileResponse)]"

end
