(* ===== verification/Acp_Schema.thy ===== *)
theory Acp_Schema
  imports Acp_Schema_1 Acp_Schema_2 Acp_Schema_3 Acp_Schema_4
begin

text \<open>The schema of the protocol as one document, with its definitions in the order of their names.\<close>

definition acp_branches :: "schema list" where
  "acp_branches =
    [Schema (no_keywords\<lparr>kw_type := ''object'', kw_title := ''Agent'', kw_required := [''jsonrpc'']\<rparr>)
      [(''jsonrpc'', leaf (no_keywords\<lparr>kw_type := ''string'', kw_enum := [ValString ''2.0'']\<rparr>))]
      None None [wraps (no_keywords\<lparr>kw_title := ''Request''\<rparr>) ''AgentRequest'',
       wraps (no_keywords\<lparr>kw_title := ''Response''\<rparr>) ''AgentResponse'',
       wraps (no_keywords\<lparr>kw_title := ''Notification''\<rparr>) ''AgentNotification''] [] [],
     Schema (no_keywords\<lparr>kw_type := ''object'', kw_title := ''Client'', kw_required := [''jsonrpc'']\<rparr>)
      [(''jsonrpc'', leaf (no_keywords\<lparr>kw_type := ''string'', kw_enum := [ValString ''2.0'']\<rparr>))]
      None None [wraps (no_keywords\<lparr>kw_title := ''Request''\<rparr>) ''ClientRequest'',
       wraps (no_keywords\<lparr>kw_title := ''Response''\<rparr>) ''ClientResponse'',
       wraps (no_keywords\<lparr>kw_title := ''Notification''\<rparr>) ''ClientNotification''] [] [],
     Schema (no_keywords\<lparr>kw_type := ''object'', kw_title := ''ProtocolLevel'', kw_required := [''jsonrpc'', ''method''], kw_extra := [(''x-docs-ignore'', ValBool True)]\<rparr>)
      [(''jsonrpc'', leaf (no_keywords\<lparr>kw_type := ''string'', kw_enum := [ValString ''2.0'']\<rparr>)),
       (''method'', leaf (no_keywords\<lparr>kw_type := ''string''\<rparr>)),
       (''params'', Schema no_keywords
        []
        None None [Schema no_keywords
          []
          None None [wraps (no_keywords\<lparr>kw_title := ''CancelRequestNotification''\<rparr>) ''CancelRequestNotification''] [] [],
         leaf (no_keywords\<lparr>kw_type := ''null''\<rparr>)] [] [])]
      None None [] [] [],
     Schema (no_keywords\<lparr>kw_type := ''object'', kw_title := ''Proxy'', kw_required := [''jsonrpc'']\<rparr>)
      [(''jsonrpc'', leaf (no_keywords\<lparr>kw_type := ''string'', kw_enum := [ValString ''2.0'']\<rparr>))]
      None None [wraps (no_keywords\<lparr>kw_title := ''Request''\<rparr>) ''ProxyRequest'',
       wraps (no_keywords\<lparr>kw_title := ''Response''\<rparr>) ''ProxyResponse'',
       wraps (no_keywords\<lparr>kw_title := ''Notification''\<rparr>) ''ProxyNotification''] [] []]"

definition acp_document :: document where
  "acp_document =
     \<lparr>doc_any_of = acp_branches,
      doc_defs = acp_definitions_1 @ acp_definitions_2 @ acp_definitions_3 @ acp_definitions_4\<rparr>"

end
