(* ===== verification/Acp_Schema_Names.thy ===== *)
theory Acp_Schema_Names
  imports Rpcgen_Eval Acp_Schema
begin

text \<open>
  The names of the definitions of the protocol schema: in order, different, and Go identifiers
  as they are, so that the generator keeps them.
\<close>

definition acp_names :: "string list" where
  "acp_names =
     [''AgentAuthCapabilities'', ''AgentCapabilities'', ''AgentNotification'', ''AgentRequest'',
      ''AgentResponse'', ''Annotations'', ''ArchiveSessionRequest'', ''ArchiveSessionResponse'',
      ''AudioContent'', ''AuthAccount'', ''AuthCapabilities'', ''AuthMethod'', ''AuthMethodAgent'',
      ''AuthMethodId'', ''AuthMethodTerminal'', ''AuthState'', ''AuthStatusCapabilities'',
      ''AuthStatusRequest'', ''AuthStatusResponse'', ''AuthStatusUpdateNotification'',
      ''AuthenticateRequest'', ''AuthenticateResponse'', ''AvailableCommand'', ''AvailableCommandInput'',
      ''AvailableCommandsUpdate'', ''BlobResourceContents'', ''BooleanConfigOptionCapabilities'',
      ''BooleanPropertySchema'', ''CancelNotification'', ''CancelRequestNotification'',
      ''ClientCapabilities'', ''ClientNotification'', ''ClientRequest'', ''ClientResponse'',
      ''ClientSessionCapabilities'', ''CloseSessionRequest'', ''CloseSessionResponse'',
      ''CompactionCapabilities'', ''CompactionId'', ''CompactionStatus'', ''CompactionSummaryChunk'',
      ''CompactionUpdate'', ''CompleteElicitationNotification'', ''ConfigOptionUpdate'', ''Content'',
      ''ContentBlock'', ''ContentChunk'', ''Cost'', ''CreateElicitationRequest'',
      ''CreateElicitationResponse'', ''CreateTerminalRequest'', ''CreateTerminalResponse'',
      ''CurrentModeUpdate'', ''DeleteSessionRequest'', ''DeleteSessionResponse'', ''Diff'',
      ''DisableProviderRequest'', ''DisableProviderResponse'', ''ElicitationAcceptAction'',
      ''ElicitationCapabilities'', ''ElicitationContentValue'', ''ElicitationFormCapabilities'',
      ''ElicitationFormMode'', ''ElicitationId'', ''ElicitationPropertySchema'',
      ''ElicitationRequestScope'', ''ElicitationSchema'', ''ElicitationSchemaType'',
      ''ElicitationSessionScope'', ''ElicitationUrlCapabilities'', ''ElicitationUrlMode'',
      ''EmbeddedResource'', ''EmbeddedResourceResource'', ''EnumOption'', ''EnvVariable'', ''Error'',
      ''ErrorCode'', ''ErrorStopReason'', ''ExtNotification'', ''ExtRequest'', ''ExtResponse'',
      ''FileSystemCapabilities'', ''ForkSessionRequest'', ''ForkSessionResponse'', ''HttpHeader'',
      ''IdleStateUpdate'', ''ImageContent'', ''Implementation'', ''InitializeProxyRequest'',
      ''InitializeProxyResponse'', ''InitializeRequest'', ''InitializeResponse'',
      ''IntegerPropertySchema'', ''KillTerminalRequest'', ''KillTerminalResponse'',
      ''ListProvidersRequest'', ''ListProvidersResponse'', ''ListSessionsRequest'',
      ''ListSessionsResponse'', ''LlmProtocol'', ''LoadSessionRequest'', ''LoadSessionResponse'',
      ''LogoutCapabilities'', ''LogoutRequest'', ''LogoutResponse'', ''McpCapabilities'', ''McpError'',
      ''McpRequestId'', ''McpServer'', ''McpServerAcp'', ''McpServerAcpId'', ''McpServerHttp'',
      ''McpServerSse'', ''McpServerStdio'', ''MessageId'', ''MessageMcpNotification'',
      ''MessageMcpRequest'', ''MessageMcpResponse'', ''MultiSelectItems'', ''MultiSelectPropertySchema'',
      ''NewSessionRequest'', ''NewSessionResponse'', ''Notice'', ''NoticeCapabilities'',
      ''NoticeSeverity'', ''NumberPropertySchema'', ''PermissionOption'', ''PermissionOptionId'',
      ''PermissionOptionKind'', ''Plan'', ''PlanCapabilities'', ''PlanEntry'', ''PlanEntryPriority'',
      ''PlanEntryStatus'', ''PlanFile'', ''PlanId'', ''PlanItems'', ''PlanMarkdown'', ''PlanRemoved'',
      ''PlanUpdate'', ''PlanUpdateContent'', ''PromptCapabilities'', ''PromptRequest'',
      ''PromptResponse'', ''ProtocolVersion'', ''ProviderCurrentConfig'', ''ProviderId'',
      ''ProviderInfo'', ''ProvidersCapabilities'', ''ProxyNotification'', ''ProxyRequest'',
      ''ProxyResponse'', ''ProxySuccessorNotification'', ''ProxySuccessorRequest'',
      ''ProxySuccessorResponse'', ''ReadTextFileRequest'', ''ReadTextFileResponse'',
      ''ReleaseTerminalRequest'', ''ReleaseTerminalResponse'', ''RequestId'',
      ''RequestPermissionOutcome'', ''RequestPermissionRequest'', ''RequestPermissionResponse'',
      ''RequiresActionStateUpdate'', ''ResourceLink'', ''ResumeSessionRequest'',
      ''ResumeSessionResponse'', ''Role'', ''RunningStateUpdate'', ''SelectedPermissionOutcome'',
      ''SessionAdditionalDirectoriesCapabilities'', ''SessionArchiveCapabilities'',
      ''SessionArchiveFilter'', ''SessionCancelCapabilities'', ''SessionCapabilities'',
      ''SessionCloseCapabilities'', ''SessionConfigBoolean'', ''SessionConfigGroupId'',
      ''SessionConfigId'', ''SessionConfigOption'', ''SessionConfigOptionCategory'',
      ''SessionConfigOptionsCapabilities'', ''SessionConfigSelect'', ''SessionConfigSelectGroup'',
      ''SessionConfigSelectOption'', ''SessionConfigSelectOptions'', ''SessionConfigValueId'',
      ''SessionDeleteCapabilities'', ''SessionForkCapabilities'', ''SessionId'', ''SessionInfo'',
      ''SessionInfoUpdate'', ''SessionListCapabilities'', ''SessionMessage'', ''SessionMessageChunk'',
      ''SessionMode'', ''SessionModeId'', ''SessionModeState'', ''SessionNotification'',
      ''SessionResumeCapabilities'', ''SessionStatus'', ''SessionStatusCapabilities'',
      ''SessionStatusRequest'', ''SessionStatusResponse'', ''SessionSystemPromptCapabilities'',
      ''SessionSystemPromptModeCapabilities'', ''SessionSystemPromptOverrideCapabilities'',
      ''SessionTitleCapabilities'', ''SessionUpdate'', ''SetProviderRequest'', ''SetProviderResponse'',
      ''SetSessionConfigOptionRequest'', ''SetSessionConfigOptionResponse'', ''SetSessionModeRequest'',
      ''SetSessionModeResponse'', ''SetSessionTitleRequest'', ''SetSessionTitleResponse'',
      ''StateUpdate'', ''StopReason'', ''StringFormat'', ''StringMultiSelectItems'',
      ''StringPropertySchema'', ''SubagentCapabilities'', ''SubagentSessionCapabilities'',
      ''SubagentUpdate'', ''SystemPrompt'', ''SystemPromptMode'', ''Terminal'', ''TerminalExitStatus'',
      ''TerminalId'', ''TerminalOutputRequest'', ''TerminalOutputResponse'', ''TextContent'',
      ''TextResourceContents'', ''TitledMultiSelectItems'', ''ToolCall'', ''ToolCallContent'',
      ''ToolCallId'', ''ToolCallLocation'', ''ToolCallStatus'', ''ToolCallUpdate'', ''ToolKind'',
      ''UnarchiveSessionRequest'', ''UnarchiveSessionResponse'', ''UnknownStateUpdate'',
      ''UnstructuredCommandInput'', ''Usage'', ''UsageUpdate'', ''WaitForTerminalExitRequest'',
      ''WaitForTerminalExitResponse'', ''WriteTextFileRequest'', ''WriteTextFileResponse'']"

lemma acp_def_names: "map fst (doc_defs acp_document) = acp_names"
  by (simp add: acp_document_def acp_definitions_1_def acp_definitions_2_def acp_definitions_3_def
      acp_definitions_4_def acp_names_def)

lemma acp_names_strict: "successively (<) acp_names"
  by code_simp

lemma acp_names_wanted: "map wanted_definition acp_names = acp_names"
  by code_simp

lemma acp_defs_sorted: "sort_key fst (doc_defs acp_document) = doc_defs acp_document"
  using strictly_sorted [OF acp_names_strict] by (intro sort_key_id_if_sorted) (simp add: acp_def_names)

lemma acp_type_names: "type_names acp_document = zip acp_names acp_names"
  using names_kept [OF acp_names_strict]
  by (simp add: type_names_def acp_def_names sort_strict [OF acp_names_strict] acp_names_wanted Let_def)

lemma acp_entry: "d \<in> set (doc_defs acp_document) \<Longrightarrow> entry (type_names acp_document) (fst d) = fst d"
  by (simp add: acp_type_names entry_zip_same flip: acp_def_names)

end
