(* ===== verification/Rpcgen_Acp.thy ===== *)
theory Rpcgen_Acp
  imports Acp_Schema_Names
begin

text \<open>
  The generator of RPC code run on the schema of the protocol (internal/schemagen/schema.json):
  the operations it finds, and that the code it emits for them is the code of
  acp/methods_gen.go, acp/agent_gen.go and acp/client_gen.go that the theories Methods and Rpc model.
\<close>

section \<open>The definitions\<close>

lemma acp_keys_1:
  "map rpc_key acp_definitions_1 =
     [(''AgentAuthCapabilities'', [], []), (''AgentCapabilities'', [], []),
      (''AgentNotification'', [], []), (''AgentRequest'', [], []), (''AgentResponse'', [], []),
      (''Annotations'', [], []), (''ArchiveSessionRequest'', ''session/archive'', ''agent''),
      (''ArchiveSessionResponse'', ''session/archive'', ''agent''), (''AudioContent'', [], []),
      (''AuthAccount'', [], []), (''AuthCapabilities'', [], []), (''AuthMethod'', [], []),
      (''AuthMethodAgent'', [], []), (''AuthMethodId'', [], []), (''AuthMethodTerminal'', [], []),
      (''AuthState'', [], []), (''AuthStatusCapabilities'', [], []),
      (''AuthStatusRequest'', ''auth/status'', ''agent''),
      (''AuthStatusResponse'', ''auth/status'', ''agent''),
      (''AuthStatusUpdateNotification'', ''auth/status_update'', ''client''),
      (''AuthenticateRequest'', ''authenticate'', ''agent''),
      (''AuthenticateResponse'', ''authenticate'', ''agent''), (''AvailableCommand'', [], []),
      (''AvailableCommandInput'', [], []), (''AvailableCommandsUpdate'', [], []),
      (''BlobResourceContents'', [], []), (''BooleanConfigOptionCapabilities'', [], []),
      (''BooleanPropertySchema'', [], []), (''CancelNotification'', ''session/cancel'', ''agent''),
      (''CancelRequestNotification'', ''$/cancel_request'', ''protocol''),
      (''ClientCapabilities'', [], []), (''ClientNotification'', [], []), (''ClientRequest'', [], []),
      (''ClientResponse'', [], []), (''ClientSessionCapabilities'', [], []),
      (''CloseSessionRequest'', ''session/close'', ''agent''),
      (''CloseSessionResponse'', ''session/close'', ''agent''), (''CompactionCapabilities'', [], []),
      (''CompactionId'', [], []), (''CompactionStatus'', [], []), (''CompactionSummaryChunk'', [], []),
      (''CompactionUpdate'', [], []),
      (''CompleteElicitationNotification'', ''elicitation/complete'', ''client''),
      (''ConfigOptionUpdate'', [], []), (''Content'', [], []), (''ContentBlock'', [], []),
      (''ContentChunk'', [], []), (''Cost'', [], []),
      (''CreateElicitationRequest'', ''elicitation/create'', ''client''),
      (''CreateElicitationResponse'', ''elicitation/create'', ''client''),
      (''CreateTerminalRequest'', ''terminal/create'', ''client''),
      (''CreateTerminalResponse'', ''terminal/create'', ''client'')]"
  by code_simp

lemma acp_plain_1: "list_all (\<lambda>d. list_all (\<lambda>v. sc_description v = []) (envelope_variants (snd d))) acp_definitions_1"
  by code_simp

lemma acp_keys_2:
  "map rpc_key acp_definitions_2 =
     [(''CurrentModeUpdate'', [], []), (''DeleteSessionRequest'', ''session/delete'', ''agent''),
      (''DeleteSessionResponse'', ''session/delete'', ''agent''), (''Diff'', [], []),
      (''DisableProviderRequest'', ''providers/disable'', ''agent''),
      (''DisableProviderResponse'', ''providers/disable'', ''agent''),
      (''ElicitationAcceptAction'', [], []), (''ElicitationCapabilities'', [], []),
      (''ElicitationContentValue'', [], []), (''ElicitationFormCapabilities'', [], []),
      (''ElicitationFormMode'', [], []), (''ElicitationId'', [], []),
      (''ElicitationPropertySchema'', [], []), (''ElicitationRequestScope'', [], []),
      (''ElicitationSchema'', [], []), (''ElicitationSchemaType'', [], []),
      (''ElicitationSessionScope'', [], []), (''ElicitationUrlCapabilities'', [], []),
      (''ElicitationUrlMode'', [], []), (''EmbeddedResource'', [], []),
      (''EmbeddedResourceResource'', [], []), (''EnumOption'', [], []), (''EnvVariable'', [], []),
      (''Error'', [], []), (''ErrorCode'', [], []), (''ErrorStopReason'', [], []),
      (''ExtNotification'', [], []), (''ExtRequest'', [], []), (''ExtResponse'', [], []),
      (''FileSystemCapabilities'', [], []), (''ForkSessionRequest'', ''session/fork'', ''agent''),
      (''ForkSessionResponse'', ''session/fork'', ''agent''), (''HttpHeader'', [], []),
      (''IdleStateUpdate'', [], []), (''ImageContent'', [], []), (''Implementation'', [], []),
      (''InitializeProxyRequest'', ''proxy/initialize'', ''proxy''),
      (''InitializeProxyResponse'', ''proxy/initialize'', ''proxy''),
      (''InitializeRequest'', ''initialize'', ''agent''),
      (''InitializeResponse'', ''initialize'', ''agent''), (''IntegerPropertySchema'', [], []),
      (''KillTerminalRequest'', ''terminal/kill'', ''client''),
      (''KillTerminalResponse'', ''terminal/kill'', ''client''),
      (''ListProvidersRequest'', ''providers/list'', ''agent''),
      (''ListProvidersResponse'', ''providers/list'', ''agent''),
      (''ListSessionsRequest'', ''session/list'', ''agent''),
      (''ListSessionsResponse'', ''session/list'', ''agent''), (''LlmProtocol'', [], []),
      (''LoadSessionRequest'', ''session/load'', ''agent''),
      (''LoadSessionResponse'', ''session/load'', ''agent''), (''LogoutCapabilities'', [], []),
      (''LogoutRequest'', ''logout'', ''agent''), (''LogoutResponse'', ''logout'', ''agent''),
      (''McpCapabilities'', [], []), (''McpError'', [], []), (''McpRequestId'', [], []),
      (''McpServer'', [], []), (''McpServerAcp'', [], []), (''McpServerAcpId'', [], []),
      (''McpServerHttp'', [], []), (''McpServerSse'', [], []), (''McpServerStdio'', [], []),
      (''MessageId'', [], []), (''MessageMcpNotification'', ''mcp/message'', ''agent''),
      (''MessageMcpRequest'', ''mcp/message'', ''client''),
      (''MessageMcpResponse'', ''mcp/message'', ''client''), (''MultiSelectItems'', [], []),
      (''MultiSelectPropertySchema'', [], [])]"
  by code_simp

lemma acp_plain_2: "list_all (\<lambda>d. list_all (\<lambda>v. sc_description v = []) (envelope_variants (snd d))) acp_definitions_2"
  by code_simp

lemma acp_keys_3:
  "map rpc_key acp_definitions_3 =
     [(''NewSessionRequest'', ''session/new'', ''agent''),
      (''NewSessionResponse'', ''session/new'', ''agent''), (''Notice'', [], []),
      (''NoticeCapabilities'', [], []), (''NoticeSeverity'', [], []), (''NumberPropertySchema'', [], []),
      (''PermissionOption'', [], []), (''PermissionOptionId'', [], []),
      (''PermissionOptionKind'', [], []), (''Plan'', [], []), (''PlanCapabilities'', [], []),
      (''PlanEntry'', [], []), (''PlanEntryPriority'', [], []), (''PlanEntryStatus'', [], []),
      (''PlanFile'', [], []), (''PlanId'', [], []), (''PlanItems'', [], []), (''PlanMarkdown'', [], []),
      (''PlanRemoved'', [], []), (''PlanUpdate'', [], []), (''PlanUpdateContent'', [], []),
      (''PromptCapabilities'', [], []), (''PromptRequest'', ''session/prompt'', ''agent''),
      (''PromptResponse'', ''session/prompt'', ''agent''), (''ProtocolVersion'', [], []),
      (''ProviderCurrentConfig'', [], []), (''ProviderId'', [], []), (''ProviderInfo'', [], []),
      (''ProvidersCapabilities'', [], []), (''ProxyNotification'', [], []), (''ProxyRequest'', [], []),
      (''ProxyResponse'', [], []), (''ProxySuccessorNotification'', ''proxy/successor'', ''proxy''),
      (''ProxySuccessorRequest'', ''proxy/successor'', ''proxy''),
      (''ProxySuccessorResponse'', ''proxy/successor'', ''proxy''),
      (''ReadTextFileRequest'', ''fs/read_text_file'', ''client''),
      (''ReadTextFileResponse'', ''fs/read_text_file'', ''client''),
      (''ReleaseTerminalRequest'', ''terminal/release'', ''client''),
      (''ReleaseTerminalResponse'', ''terminal/release'', ''client''), (''RequestId'', [], []),
      (''RequestPermissionOutcome'', [], []),
      (''RequestPermissionRequest'', ''session/request_permission'', ''client''),
      (''RequestPermissionResponse'', ''session/request_permission'', ''client''),
      (''RequiresActionStateUpdate'', [], []), (''ResourceLink'', [], []),
      (''ResumeSessionRequest'', ''session/resume'', ''agent''),
      (''ResumeSessionResponse'', ''session/resume'', ''agent''), (''Role'', [], []),
      (''RunningStateUpdate'', [], []), (''SelectedPermissionOutcome'', [], []),
      (''SessionAdditionalDirectoriesCapabilities'', [], []), (''SessionArchiveCapabilities'', [], []),
      (''SessionArchiveFilter'', [], []), (''SessionCancelCapabilities'', [], []),
      (''SessionCapabilities'', [], []), (''SessionCloseCapabilities'', [], []),
      (''SessionConfigBoolean'', [], []), (''SessionConfigGroupId'', [], []),
      (''SessionConfigId'', [], []), (''SessionConfigOption'', [], []),
      (''SessionConfigOptionCategory'', [], []), (''SessionConfigOptionsCapabilities'', [], []),
      (''SessionConfigSelect'', [], []), (''SessionConfigSelectGroup'', [], []),
      (''SessionConfigSelectOption'', [], []), (''SessionConfigSelectOptions'', [], []),
      (''SessionConfigValueId'', [], []), (''SessionDeleteCapabilities'', [], []),
      (''SessionForkCapabilities'', [], []), (''SessionId'', [], []), (''SessionInfo'', [], []),
      (''SessionInfoUpdate'', [], []), (''SessionListCapabilities'', [], []),
      (''SessionMessage'', [], []), (''SessionMessageChunk'', [], [])]"
  by code_simp

lemma acp_plain_3: "list_all (\<lambda>d. list_all (\<lambda>v. sc_description v = []) (envelope_variants (snd d))) acp_definitions_3"
  by code_simp

lemma acp_keys_4:
  "map rpc_key acp_definitions_4 =
     [(''SessionMode'', [], []), (''SessionModeId'', [], []), (''SessionModeState'', [], []),
      (''SessionNotification'', ''session/update'', ''client''), (''SessionResumeCapabilities'', [], []),
      (''SessionStatus'', [], []), (''SessionStatusCapabilities'', [], []),
      (''SessionStatusRequest'', ''session/status'', ''agent''),
      (''SessionStatusResponse'', ''session/status'', ''agent''),
      (''SessionSystemPromptCapabilities'', [], []), (''SessionSystemPromptModeCapabilities'', [], []),
      (''SessionSystemPromptOverrideCapabilities'', [], []), (''SessionTitleCapabilities'', [], []),
      (''SessionUpdate'', [], []), (''SetProviderRequest'', ''providers/set'', ''agent''),
      (''SetProviderResponse'', ''providers/set'', ''agent''),
      (''SetSessionConfigOptionRequest'', ''session/set_config_option'', ''agent''),
      (''SetSessionConfigOptionResponse'', ''session/set_config_option'', ''agent''),
      (''SetSessionModeRequest'', ''session/set_mode'', ''agent''),
      (''SetSessionModeResponse'', ''session/set_mode'', ''agent''),
      (''SetSessionTitleRequest'', ''session/set_title'', ''agent''),
      (''SetSessionTitleResponse'', ''session/set_title'', ''agent''), (''StateUpdate'', [], []),
      (''StopReason'', [], []), (''StringFormat'', [], []), (''StringMultiSelectItems'', [], []),
      (''StringPropertySchema'', [], []), (''SubagentCapabilities'', [], []),
      (''SubagentSessionCapabilities'', [], []), (''SubagentUpdate'', [], []),
      (''SystemPrompt'', [], []), (''SystemPromptMode'', [], []), (''Terminal'', [], []),
      (''TerminalExitStatus'', [], []), (''TerminalId'', [], []),
      (''TerminalOutputRequest'', ''terminal/output'', ''client''),
      (''TerminalOutputResponse'', ''terminal/output'', ''client''), (''TextContent'', [], []),
      (''TextResourceContents'', [], []), (''TitledMultiSelectItems'', [], []), (''ToolCall'', [], []),
      (''ToolCallContent'', [], []), (''ToolCallId'', [], []), (''ToolCallLocation'', [], []),
      (''ToolCallStatus'', [], []), (''ToolCallUpdate'', [], []), (''ToolKind'', [], []),
      (''UnarchiveSessionRequest'', ''session/unarchive'', ''agent''),
      (''UnarchiveSessionResponse'', ''session/unarchive'', ''agent''), (''UnknownStateUpdate'', [], []),
      (''UnstructuredCommandInput'', [], []), (''Usage'', [], []), (''UsageUpdate'', [], []),
      (''WaitForTerminalExitRequest'', ''terminal/wait_for_exit'', ''client''),
      (''WaitForTerminalExitResponse'', ''terminal/wait_for_exit'', ''client''),
      (''WriteTextFileRequest'', ''fs/write_text_file'', ''client''),
      (''WriteTextFileResponse'', ''fs/write_text_file'', ''client'')]"
  by code_simp

lemma acp_plain_4: "list_all (\<lambda>d. list_all (\<lambda>v. sc_description v = []) (envelope_variants (snd d))) acp_definitions_4"
  by code_simp

lemma acp_descriptions: "envelope_descriptions acp_document = []"
  using acp_plain_1 acp_plain_2 acp_plain_3 acp_plain_4
  by (intro no_descriptions) (auto simp: acp_document_def list_all_iff)

section \<open>The table\<close>

definition acp_payloads :: "string list" where
  "acp_payloads =
     [''ArchiveSessionRequest'', ''ArchiveSessionResponse'', ''AuthStatusRequest'',
      ''AuthStatusResponse'', ''AuthStatusUpdateNotification'', ''AuthenticateRequest'',
      ''AuthenticateResponse'', ''CancelNotification'', ''CloseSessionRequest'',
      ''CloseSessionResponse'', ''CompleteElicitationNotification'', ''CreateElicitationRequest'',
      ''CreateElicitationResponse'', ''CreateTerminalRequest'', ''CreateTerminalResponse'',
      ''DeleteSessionRequest'', ''DeleteSessionResponse'', ''DisableProviderRequest'',
      ''DisableProviderResponse'', ''ForkSessionRequest'', ''ForkSessionResponse'',
      ''InitializeProxyRequest'', ''InitializeProxyResponse'', ''InitializeRequest'',
      ''InitializeResponse'', ''KillTerminalRequest'', ''KillTerminalResponse'',
      ''ListProvidersRequest'', ''ListProvidersResponse'', ''ListSessionsRequest'',
      ''ListSessionsResponse'', ''LoadSessionRequest'', ''LoadSessionResponse'', ''LogoutRequest'',
      ''LogoutResponse'', ''MessageMcpNotification'', ''MessageMcpRequest'', ''MessageMcpResponse'',
      ''NewSessionRequest'', ''NewSessionResponse'', ''PromptRequest'', ''PromptResponse'',
      ''ProxySuccessorNotification'', ''ProxySuccessorRequest'', ''ProxySuccessorResponse'',
      ''ReadTextFileRequest'', ''ReadTextFileResponse'', ''ReleaseTerminalRequest'',
      ''ReleaseTerminalResponse'', ''RequestPermissionRequest'', ''RequestPermissionResponse'',
      ''ResumeSessionRequest'', ''ResumeSessionResponse'', ''SessionNotification'',
      ''SessionStatusRequest'', ''SessionStatusResponse'', ''SetProviderRequest'',
      ''SetProviderResponse'', ''SetSessionConfigOptionRequest'', ''SetSessionConfigOptionResponse'',
      ''SetSessionModeRequest'', ''SetSessionModeResponse'', ''SetSessionTitleRequest'',
      ''SetSessionTitleResponse'', ''TerminalOutputRequest'', ''TerminalOutputResponse'',
      ''UnarchiveSessionRequest'', ''UnarchiveSessionResponse'', ''WaitForTerminalExitRequest'',
      ''WaitForTerminalExitResponse'', ''WriteTextFileRequest'', ''WriteTextFileResponse'']"

definition acp_side :: "int \<Rightarrow> string" where
  "acp_side s = (if s = 0 then ''agent'' else if s = 1 then ''client'' else ''proxy'')"

definition acp_coding :: "(int, acp_method, int) coding" where
  "acp_coding =
     \<lparr>method_of = method_name, type_of = (\<lambda>t. acp_payloads ! nat t), side_of = acp_side,
      rule_of = (\<lambda>s. the (map_of sides (acp_side s)))\<rparr>"

definition acp_rows :: "(int, acp_method, int) row list" where
  "acp_rows =
     [(ParamsRole, Request, 0, MethodSessionArchive, 0),
      (ResultRole, Request, 1, MethodSessionArchive, 0), (ParamsRole, Request, 2, MethodAuthStatus, 0),
      (ResultRole, Request, 3, MethodAuthStatus, 0),
      (ParamsRole, Notification, 4, MethodAuthStatusUpdate, 1),
      (ParamsRole, Request, 5, MethodAuthenticate, 0), (ResultRole, Request, 6, MethodAuthenticate, 0),
      (ParamsRole, Notification, 7, MethodSessionCancel, 0),
      (ParamsRole, Request, 8, MethodSessionClose, 0), (ResultRole, Request, 9, MethodSessionClose, 0),
      (ParamsRole, Notification, 10, MethodElicitationComplete, 1),
      (ParamsRole, Request, 11, MethodElicitationCreate, 1),
      (ResultRole, Request, 12, MethodElicitationCreate, 1),
      (ParamsRole, Request, 13, MethodTerminalCreate, 1),
      (ResultRole, Request, 14, MethodTerminalCreate, 1),
      (ParamsRole, Request, 15, MethodSessionDelete, 0),
      (ResultRole, Request, 16, MethodSessionDelete, 0),
      (ParamsRole, Request, 17, MethodProvidersDisable, 0),
      (ResultRole, Request, 18, MethodProvidersDisable, 0),
      (ParamsRole, Request, 19, MethodSessionFork, 0), (ResultRole, Request, 20, MethodSessionFork, 0),
      (ParamsRole, Request, 21, MethodProxyInitialize, 2),
      (ResultRole, Request, 22, MethodProxyInitialize, 2),
      (ParamsRole, Request, 23, MethodInitialize, 0), (ResultRole, Request, 24, MethodInitialize, 0),
      (ParamsRole, Request, 25, MethodTerminalKill, 1), (ResultRole, Request, 26, MethodTerminalKill, 1),
      (ParamsRole, Request, 27, MethodProvidersList, 0),
      (ResultRole, Request, 28, MethodProvidersList, 0), (ParamsRole, Request, 29, MethodSessionList, 0),
      (ResultRole, Request, 30, MethodSessionList, 0), (ParamsRole, Request, 31, MethodSessionLoad, 0),
      (ResultRole, Request, 32, MethodSessionLoad, 0), (ParamsRole, Request, 33, MethodLogout, 0),
      (ResultRole, Request, 34, MethodLogout, 0), (ParamsRole, Notification, 35, MethodMcpMessage, 0),
      (ParamsRole, Request, 36, MethodMcpMessage, 1), (ResultRole, Request, 37, MethodMcpMessage, 1),
      (ParamsRole, Request, 38, MethodSessionNew, 0), (ResultRole, Request, 39, MethodSessionNew, 0),
      (ParamsRole, Request, 40, MethodSessionPrompt, 0),
      (ResultRole, Request, 41, MethodSessionPrompt, 0),
      (ParamsRole, Notification, 42, MethodProxySuccessor, 2),
      (ParamsRole, Request, 43, MethodProxySuccessor, 2),
      (ResultRole, Request, 44, MethodProxySuccessor, 2),
      (ParamsRole, Request, 45, MethodFsReadTextFile, 1),
      (ResultRole, Request, 46, MethodFsReadTextFile, 1),
      (ParamsRole, Request, 47, MethodTerminalRelease, 1),
      (ResultRole, Request, 48, MethodTerminalRelease, 1),
      (ParamsRole, Request, 49, MethodSessionRequestPermission, 1),
      (ResultRole, Request, 50, MethodSessionRequestPermission, 1),
      (ParamsRole, Request, 51, MethodSessionResume, 0),
      (ResultRole, Request, 52, MethodSessionResume, 0),
      (ParamsRole, Notification, 53, MethodSessionUpdate, 1),
      (ParamsRole, Request, 54, MethodSessionStatus, 0),
      (ResultRole, Request, 55, MethodSessionStatus, 0),
      (ParamsRole, Request, 56, MethodProvidersSet, 0), (ResultRole, Request, 57, MethodProvidersSet, 0),
      (ParamsRole, Request, 58, MethodSessionSetConfigOption, 0),
      (ResultRole, Request, 59, MethodSessionSetConfigOption, 0),
      (ParamsRole, Request, 60, MethodSessionSetMode, 0),
      (ResultRole, Request, 61, MethodSessionSetMode, 0),
      (ParamsRole, Request, 62, MethodSessionSetTitle, 0),
      (ResultRole, Request, 63, MethodSessionSetTitle, 0),
      (ParamsRole, Request, 64, MethodTerminalOutput, 1),
      (ResultRole, Request, 65, MethodTerminalOutput, 1),
      (ParamsRole, Request, 66, MethodSessionUnarchive, 0),
      (ResultRole, Request, 67, MethodSessionUnarchive, 0),
      (ParamsRole, Request, 68, MethodTerminalWaitForExit, 1),
      (ResultRole, Request, 69, MethodTerminalWaitForExit, 1),
      (ParamsRole, Request, 70, MethodFsWriteTextFile, 1),
      (ResultRole, Request, 71, MethodFsWriteTextFile, 1)]"

definition acp_table :: "(int, acp_method, int) small_table" where
  "acp_table =
     [((MethodSessionArchive, Request), (0, Some 0, Some 1)),
      ((MethodAuthStatus, Request), (0, Some 2, Some 3)),
      ((MethodAuthStatusUpdate, Notification), (1, Some 4, None)),
      ((MethodAuthenticate, Request), (0, Some 5, Some 6)),
      ((MethodSessionCancel, Notification), (0, Some 7, None)),
      ((MethodSessionClose, Request), (0, Some 8, Some 9)),
      ((MethodElicitationComplete, Notification), (1, Some 10, None)),
      ((MethodElicitationCreate, Request), (1, Some 11, Some 12)),
      ((MethodTerminalCreate, Request), (1, Some 13, Some 14)),
      ((MethodSessionDelete, Request), (0, Some 15, Some 16)),
      ((MethodProvidersDisable, Request), (0, Some 17, Some 18)),
      ((MethodSessionFork, Request), (0, Some 19, Some 20)),
      ((MethodProxyInitialize, Request), (2, Some 21, Some 22)),
      ((MethodInitialize, Request), (0, Some 23, Some 24)),
      ((MethodTerminalKill, Request), (1, Some 25, Some 26)),
      ((MethodProvidersList, Request), (0, Some 27, Some 28)),
      ((MethodSessionList, Request), (0, Some 29, Some 30)),
      ((MethodSessionLoad, Request), (0, Some 31, Some 32)),
      ((MethodLogout, Request), (0, Some 33, Some 34)),
      ((MethodMcpMessage, Notification), (0, Some 35, None)),
      ((MethodMcpMessage, Request), (1, Some 36, Some 37)),
      ((MethodSessionNew, Request), (0, Some 38, Some 39)),
      ((MethodSessionPrompt, Request), (0, Some 40, Some 41)),
      ((MethodProxySuccessor, Notification), (2, Some 42, None)),
      ((MethodProxySuccessor, Request), (2, Some 43, Some 44)),
      ((MethodFsReadTextFile, Request), (1, Some 45, Some 46)),
      ((MethodTerminalRelease, Request), (1, Some 47, Some 48)),
      ((MethodSessionRequestPermission, Request), (1, Some 49, Some 50)),
      ((MethodSessionResume, Request), (0, Some 51, Some 52)),
      ((MethodSessionUpdate, Notification), (1, Some 53, None)),
      ((MethodSessionStatus, Request), (0, Some 54, Some 55)),
      ((MethodProvidersSet, Request), (0, Some 56, Some 57)),
      ((MethodSessionSetConfigOption, Request), (0, Some 58, Some 59)),
      ((MethodSessionSetMode, Request), (0, Some 60, Some 61)),
      ((MethodSessionSetTitle, Request), (0, Some 62, Some 63)),
      ((MethodTerminalOutput, Request), (1, Some 64, Some 65)),
      ((MethodSessionUnarchive, Request), (0, Some 66, Some 67)),
      ((MethodTerminalWaitForExit, Request), (1, Some 68, Some 69)),
      ((MethodFsWriteTextFile, Request), (1, Some 70, Some 71))]"

definition acp_entries :: "(int, acp_method, int) small_table" where
  "acp_entries =
     [((MethodAuthStatus, Request), (0, Some 2, Some 3)),
      ((MethodAuthStatusUpdate, Notification), (1, Some 4, None)),
      ((MethodAuthenticate, Request), (0, Some 5, Some 6)),
      ((MethodElicitationComplete, Notification), (1, Some 10, None)),
      ((MethodElicitationCreate, Request), (1, Some 11, Some 12)),
      ((MethodFsReadTextFile, Request), (1, Some 45, Some 46)),
      ((MethodFsWriteTextFile, Request), (1, Some 70, Some 71)),
      ((MethodInitialize, Request), (0, Some 23, Some 24)),
      ((MethodLogout, Request), (0, Some 33, Some 34)),
      ((MethodMcpMessage, Request), (1, Some 36, Some 37)),
      ((MethodMcpMessage, Notification), (0, Some 35, None)),
      ((MethodProvidersDisable, Request), (0, Some 17, Some 18)),
      ((MethodProvidersList, Request), (0, Some 27, Some 28)),
      ((MethodProvidersSet, Request), (0, Some 56, Some 57)),
      ((MethodProxyInitialize, Request), (2, Some 21, Some 22)),
      ((MethodProxySuccessor, Request), (2, Some 43, Some 44)),
      ((MethodProxySuccessor, Notification), (2, Some 42, None)),
      ((MethodSessionArchive, Request), (0, Some 0, Some 1)),
      ((MethodSessionCancel, Notification), (0, Some 7, None)),
      ((MethodSessionClose, Request), (0, Some 8, Some 9)),
      ((MethodSessionDelete, Request), (0, Some 15, Some 16)),
      ((MethodSessionFork, Request), (0, Some 19, Some 20)),
      ((MethodSessionList, Request), (0, Some 29, Some 30)),
      ((MethodSessionLoad, Request), (0, Some 31, Some 32)),
      ((MethodSessionNew, Request), (0, Some 38, Some 39)),
      ((MethodSessionPrompt, Request), (0, Some 40, Some 41)),
      ((MethodSessionRequestPermission, Request), (1, Some 49, Some 50)),
      ((MethodSessionResume, Request), (0, Some 51, Some 52)),
      ((MethodSessionSetConfigOption, Request), (0, Some 58, Some 59)),
      ((MethodSessionSetMode, Request), (0, Some 60, Some 61)),
      ((MethodSessionSetTitle, Request), (0, Some 62, Some 63)),
      ((MethodSessionStatus, Request), (0, Some 54, Some 55)),
      ((MethodSessionUnarchive, Request), (0, Some 66, Some 67)),
      ((MethodSessionUpdate, Notification), (1, Some 53, None)),
      ((MethodTerminalCreate, Request), (1, Some 13, Some 14)),
      ((MethodTerminalKill, Request), (1, Some 25, Some 26)),
      ((MethodTerminalOutput, Request), (1, Some 64, Some 65)),
      ((MethodTerminalRelease, Request), (1, Some 47, Some 48)),
      ((MethodTerminalWaitForExit, Request), (1, Some 68, Some 69))]"

definition acp_ops :: "operation list" where
  "acp_ops =
    [\<lparr>op_method = ''auth/status'', op_kind = Request, op_side = ''agent'', op_handlers = [agent_endpoint],
      op_const = ''MethodAuthStatus'', op_name = ''AuthStatus'', op_params = ''AuthStatusRequest'', op_result = ''AuthStatusResponse'', op_description = []\<rparr>,
     \<lparr>op_method = ''auth/status_update'', op_kind = Notification, op_side = ''client'', op_handlers = [client_endpoint],
      op_const = ''MethodAuthStatusUpdate'', op_name = ''AuthStatusUpdate'', op_params = ''AuthStatusUpdateNotification'', op_result = [], op_description = []\<rparr>,
     \<lparr>op_method = ''authenticate'', op_kind = Request, op_side = ''agent'', op_handlers = [agent_endpoint],
      op_const = ''MethodAuthenticate'', op_name = ''Authenticate'', op_params = ''AuthenticateRequest'', op_result = ''AuthenticateResponse'', op_description = []\<rparr>,
     \<lparr>op_method = ''elicitation/complete'', op_kind = Notification, op_side = ''client'', op_handlers = [client_endpoint],
      op_const = ''MethodElicitationComplete'', op_name = ''ElicitationComplete'', op_params = ''CompleteElicitationNotification'', op_result = [], op_description = []\<rparr>,
     \<lparr>op_method = ''elicitation/create'', op_kind = Request, op_side = ''client'', op_handlers = [client_endpoint],
      op_const = ''MethodElicitationCreate'', op_name = ''ElicitationCreate'', op_params = ''CreateElicitationRequest'', op_result = ''CreateElicitationResponse'', op_description = []\<rparr>,
     \<lparr>op_method = ''fs/read_text_file'', op_kind = Request, op_side = ''client'', op_handlers = [client_endpoint],
      op_const = ''MethodFsReadTextFile'', op_name = ''FsReadTextFile'', op_params = ''ReadTextFileRequest'', op_result = ''ReadTextFileResponse'', op_description = []\<rparr>,
     \<lparr>op_method = ''fs/write_text_file'', op_kind = Request, op_side = ''client'', op_handlers = [client_endpoint],
      op_const = ''MethodFsWriteTextFile'', op_name = ''FsWriteTextFile'', op_params = ''WriteTextFileRequest'', op_result = ''WriteTextFileResponse'', op_description = []\<rparr>,
     \<lparr>op_method = ''initialize'', op_kind = Request, op_side = ''agent'', op_handlers = [agent_endpoint],
      op_const = ''MethodInitialize'', op_name = ''Initialize'', op_params = ''InitializeRequest'', op_result = ''InitializeResponse'', op_description = []\<rparr>,
     \<lparr>op_method = ''logout'', op_kind = Request, op_side = ''agent'', op_handlers = [agent_endpoint],
      op_const = ''MethodLogout'', op_name = ''Logout'', op_params = ''LogoutRequest'', op_result = ''LogoutResponse'', op_description = []\<rparr>,
     \<lparr>op_method = ''mcp/message'', op_kind = Request, op_side = ''client'', op_handlers = [client_endpoint],
      op_const = ''MethodMcpMessage'', op_name = ''McpMessage'', op_params = ''MessageMcpRequest'', op_result = ''MessageMcpResponse'', op_description = []\<rparr>,
     \<lparr>op_method = ''mcp/message'', op_kind = Notification, op_side = ''agent'', op_handlers = [agent_endpoint],
      op_const = ''MethodMcpMessage'', op_name = ''McpMessageNotification'', op_params = ''MessageMcpNotification'', op_result = [], op_description = []\<rparr>,
     \<lparr>op_method = ''providers/disable'', op_kind = Request, op_side = ''agent'', op_handlers = [agent_endpoint],
      op_const = ''MethodProvidersDisable'', op_name = ''ProvidersDisable'', op_params = ''DisableProviderRequest'', op_result = ''DisableProviderResponse'', op_description = []\<rparr>,
     \<lparr>op_method = ''providers/list'', op_kind = Request, op_side = ''agent'', op_handlers = [agent_endpoint],
      op_const = ''MethodProvidersList'', op_name = ''ProvidersList'', op_params = ''ListProvidersRequest'', op_result = ''ListProvidersResponse'', op_description = []\<rparr>,
     \<lparr>op_method = ''providers/set'', op_kind = Request, op_side = ''agent'', op_handlers = [agent_endpoint],
      op_const = ''MethodProvidersSet'', op_name = ''ProvidersSet'', op_params = ''SetProviderRequest'', op_result = ''SetProviderResponse'', op_description = []\<rparr>,
     \<lparr>op_method = ''proxy/initialize'', op_kind = Request, op_side = ''proxy'', op_handlers = [agent_endpoint],
      op_const = ''MethodProxyInitialize'', op_name = ''ProxyInitialize'', op_params = ''InitializeProxyRequest'', op_result = ''InitializeProxyResponse'', op_description = []\<rparr>,
     \<lparr>op_method = ''proxy/successor'', op_kind = Request, op_side = ''proxy'', op_handlers = [agent_endpoint, client_endpoint],
      op_const = ''MethodProxySuccessor'', op_name = ''ProxySuccessor'', op_params = ''ProxySuccessorRequest'', op_result = ''ProxySuccessorResponse'', op_description = []\<rparr>,
     \<lparr>op_method = ''proxy/successor'', op_kind = Notification, op_side = ''proxy'', op_handlers = [agent_endpoint, client_endpoint],
      op_const = ''MethodProxySuccessor'', op_name = ''ProxySuccessorNotification'', op_params = ''ProxySuccessorNotification'', op_result = [], op_description = []\<rparr>,
     \<lparr>op_method = ''session/archive'', op_kind = Request, op_side = ''agent'', op_handlers = [agent_endpoint],
      op_const = ''MethodSessionArchive'', op_name = ''SessionArchive'', op_params = ''ArchiveSessionRequest'', op_result = ''ArchiveSessionResponse'', op_description = []\<rparr>,
     \<lparr>op_method = ''session/cancel'', op_kind = Notification, op_side = ''agent'', op_handlers = [agent_endpoint],
      op_const = ''MethodSessionCancel'', op_name = ''SessionCancel'', op_params = ''CancelNotification'', op_result = [], op_description = []\<rparr>,
     \<lparr>op_method = ''session/close'', op_kind = Request, op_side = ''agent'', op_handlers = [agent_endpoint],
      op_const = ''MethodSessionClose'', op_name = ''SessionClose'', op_params = ''CloseSessionRequest'', op_result = ''CloseSessionResponse'', op_description = []\<rparr>,
     \<lparr>op_method = ''session/delete'', op_kind = Request, op_side = ''agent'', op_handlers = [agent_endpoint],
      op_const = ''MethodSessionDelete'', op_name = ''SessionDelete'', op_params = ''DeleteSessionRequest'', op_result = ''DeleteSessionResponse'', op_description = []\<rparr>,
     \<lparr>op_method = ''session/fork'', op_kind = Request, op_side = ''agent'', op_handlers = [agent_endpoint],
      op_const = ''MethodSessionFork'', op_name = ''SessionFork'', op_params = ''ForkSessionRequest'', op_result = ''ForkSessionResponse'', op_description = []\<rparr>,
     \<lparr>op_method = ''session/list'', op_kind = Request, op_side = ''agent'', op_handlers = [agent_endpoint],
      op_const = ''MethodSessionList'', op_name = ''SessionList'', op_params = ''ListSessionsRequest'', op_result = ''ListSessionsResponse'', op_description = []\<rparr>,
     \<lparr>op_method = ''session/load'', op_kind = Request, op_side = ''agent'', op_handlers = [agent_endpoint],
      op_const = ''MethodSessionLoad'', op_name = ''SessionLoad'', op_params = ''LoadSessionRequest'', op_result = ''LoadSessionResponse'', op_description = []\<rparr>,
     \<lparr>op_method = ''session/new'', op_kind = Request, op_side = ''agent'', op_handlers = [agent_endpoint],
      op_const = ''MethodSessionNew'', op_name = ''SessionNew'', op_params = ''NewSessionRequest'', op_result = ''NewSessionResponse'', op_description = []\<rparr>,
     \<lparr>op_method = ''session/prompt'', op_kind = Request, op_side = ''agent'', op_handlers = [agent_endpoint],
      op_const = ''MethodSessionPrompt'', op_name = ''SessionPrompt'', op_params = ''PromptRequest'', op_result = ''PromptResponse'', op_description = []\<rparr>,
     \<lparr>op_method = ''session/request_permission'', op_kind = Request, op_side = ''client'', op_handlers = [client_endpoint],
      op_const = ''MethodSessionRequestPermission'', op_name = ''SessionRequestPermission'', op_params = ''RequestPermissionRequest'', op_result = ''RequestPermissionResponse'', op_description = []\<rparr>,
     \<lparr>op_method = ''session/resume'', op_kind = Request, op_side = ''agent'', op_handlers = [agent_endpoint],
      op_const = ''MethodSessionResume'', op_name = ''SessionResume'', op_params = ''ResumeSessionRequest'', op_result = ''ResumeSessionResponse'', op_description = []\<rparr>,
     \<lparr>op_method = ''session/set_config_option'', op_kind = Request, op_side = ''agent'', op_handlers = [agent_endpoint],
      op_const = ''MethodSessionSetConfigOption'', op_name = ''SessionSetConfigOption'', op_params = ''SetSessionConfigOptionRequest'', op_result = ''SetSessionConfigOptionResponse'', op_description = []\<rparr>,
     \<lparr>op_method = ''session/set_mode'', op_kind = Request, op_side = ''agent'', op_handlers = [agent_endpoint],
      op_const = ''MethodSessionSetMode'', op_name = ''SessionSetMode'', op_params = ''SetSessionModeRequest'', op_result = ''SetSessionModeResponse'', op_description = []\<rparr>,
     \<lparr>op_method = ''session/set_title'', op_kind = Request, op_side = ''agent'', op_handlers = [agent_endpoint],
      op_const = ''MethodSessionSetTitle'', op_name = ''SessionSetTitle'', op_params = ''SetSessionTitleRequest'', op_result = ''SetSessionTitleResponse'', op_description = []\<rparr>,
     \<lparr>op_method = ''session/status'', op_kind = Request, op_side = ''agent'', op_handlers = [agent_endpoint],
      op_const = ''MethodSessionStatus'', op_name = ''SessionStatus'', op_params = ''SessionStatusRequest'', op_result = ''SessionStatusResponse'', op_description = []\<rparr>,
     \<lparr>op_method = ''session/unarchive'', op_kind = Request, op_side = ''agent'', op_handlers = [agent_endpoint],
      op_const = ''MethodSessionUnarchive'', op_name = ''SessionUnarchive'', op_params = ''UnarchiveSessionRequest'', op_result = ''UnarchiveSessionResponse'', op_description = []\<rparr>,
     \<lparr>op_method = ''session/update'', op_kind = Notification, op_side = ''client'', op_handlers = [client_endpoint],
      op_const = ''MethodSessionUpdate'', op_name = ''SessionUpdate'', op_params = ''SessionNotification'', op_result = [], op_description = []\<rparr>,
     \<lparr>op_method = ''terminal/create'', op_kind = Request, op_side = ''client'', op_handlers = [client_endpoint],
      op_const = ''MethodTerminalCreate'', op_name = ''TerminalCreate'', op_params = ''CreateTerminalRequest'', op_result = ''CreateTerminalResponse'', op_description = []\<rparr>,
     \<lparr>op_method = ''terminal/kill'', op_kind = Request, op_side = ''client'', op_handlers = [client_endpoint],
      op_const = ''MethodTerminalKill'', op_name = ''TerminalKill'', op_params = ''KillTerminalRequest'', op_result = ''KillTerminalResponse'', op_description = []\<rparr>,
     \<lparr>op_method = ''terminal/output'', op_kind = Request, op_side = ''client'', op_handlers = [client_endpoint],
      op_const = ''MethodTerminalOutput'', op_name = ''TerminalOutput'', op_params = ''TerminalOutputRequest'', op_result = ''TerminalOutputResponse'', op_description = []\<rparr>,
     \<lparr>op_method = ''terminal/release'', op_kind = Request, op_side = ''client'', op_handlers = [client_endpoint],
      op_const = ''MethodTerminalRelease'', op_name = ''TerminalRelease'', op_params = ''ReleaseTerminalRequest'', op_result = ''ReleaseTerminalResponse'', op_description = []\<rparr>,
     \<lparr>op_method = ''terminal/wait_for_exit'', op_kind = Request, op_side = ''client'', op_handlers = [client_endpoint],
      op_const = ''MethodTerminalWaitForExit'', op_name = ''TerminalWaitForExit'', op_params = ''WaitForTerminalExitRequest'', op_result = ''WaitForTerminalExitResponse'', op_description = []\<rparr>]"

lemma all_methods: "m \<in> set (map fst method_names)"
  by (cases m) (simp_all add: method_names_def method_names_1_def method_names_2_def method_names_3_def)

lemma method_name_inj: "inj method_name"
proof (rule injI)
  fix m m' :: acp_method
  assume eq: "method_name m = method_name m'"
  have "(m, method_name m) \<in> set method_names" for m
    using all_methods [of m] method_names_distinct by (auto simp: method_name_def)
  then have "(m, method_name m) \<in> set method_names" "(m', method_name m) \<in> set method_names"
    using eq by metis+
  with method_names_distinct show "m = m'"
    by (metis eq_snd_iff inj_on_def distinct_map fst_conv)
qed

interpretation acp_rows: coded_rows acp_coding
proof
  show "inj (method_of acp_coding)" using method_name_inj by (simp add: acp_coding_def)
  show "map_of sides (side_of acp_coding s) = Some (rule_of acp_coding s)" for s
    by (simp add: acp_coding_def acp_side_def sides_def)
qed

lemma acp_small: "each add_small acp_rows [] = Inr acp_table"
  by code_simp

lemma acp_rows_ok: "list_all2 (row_ok acp_coding)
   (filter handled_key (map rpc_key acp_definitions_1 @ map rpc_key acp_definitions_2
      @ map rpc_key acp_definitions_3 @ map rpc_key acp_definitions_4)) acp_rows"
  unfolding acp_keys_1 acp_keys_2 acp_keys_3 acp_keys_4 by code_simp

lemma acp_operation_table: "operation_table acp_document = Inr (decode_table acp_coding acp_table)"
proof -
  let ?add = "add_definition (type_names acp_document) []"
  let ?ds = "filter (handled_key \<circ> rpc_key) (doc_defs acp_document)"
  have "map rpc_key ?ds = filter handled_key (map rpc_key (doc_defs acp_document))"
    by (simp add: filter_map)
  with acp_rows_ok have "list_all2 (row_ok acp_coding) (map rpc_key ?ds) acp_rows"
    by (simp add: acp_document_def)
  then have "each ?add ?ds (decode_table acp_coding []) = Inr (decode_table acp_coding acp_table)"
    by (rule acp_rows.add_rows [OF _ _ acp_small]) (auto simp: acp_entry entry_def [of "[]"])
  then show ?thesis
    unfolding operation_table_def acp_defs_sorted acp_descriptions
    using each_filter [of "handled_key \<circ> rpc_key" ?add "doc_defs acp_document" "[]"] add_passed
    by (simp add: decode_table_def)
qed

text \<open>The Go names of the constants and of the handler interfaces, as they are spelled.\<close>

primrec const_text :: "acp_method \<Rightarrow> string" where
  "const_text MethodAuthStatus = ''MethodAuthStatus''"
| "const_text MethodAuthStatusUpdate = ''MethodAuthStatusUpdate''"
| "const_text MethodAuthenticate = ''MethodAuthenticate''"
| "const_text MethodElicitationComplete = ''MethodElicitationComplete''"
| "const_text MethodElicitationCreate = ''MethodElicitationCreate''"
| "const_text MethodFsReadTextFile = ''MethodFsReadTextFile''"
| "const_text MethodFsWriteTextFile = ''MethodFsWriteTextFile''"
| "const_text MethodInitialize = ''MethodInitialize''"
| "const_text MethodLogout = ''MethodLogout''"
| "const_text MethodMcpMessage = ''MethodMcpMessage''"
| "const_text MethodProvidersDisable = ''MethodProvidersDisable''"
| "const_text MethodProvidersList = ''MethodProvidersList''"
| "const_text MethodProvidersSet = ''MethodProvidersSet''"
| "const_text MethodProxyInitialize = ''MethodProxyInitialize''"
| "const_text MethodProxySuccessor = ''MethodProxySuccessor''"
| "const_text MethodSessionArchive = ''MethodSessionArchive''"
| "const_text MethodSessionCancel = ''MethodSessionCancel''"
| "const_text MethodSessionClose = ''MethodSessionClose''"
| "const_text MethodSessionDelete = ''MethodSessionDelete''"
| "const_text MethodSessionFork = ''MethodSessionFork''"
| "const_text MethodSessionList = ''MethodSessionList''"
| "const_text MethodSessionLoad = ''MethodSessionLoad''"
| "const_text MethodSessionNew = ''MethodSessionNew''"
| "const_text MethodSessionPrompt = ''MethodSessionPrompt''"
| "const_text MethodSessionRequestPermission = ''MethodSessionRequestPermission''"
| "const_text MethodSessionResume = ''MethodSessionResume''"
| "const_text MethodSessionSetConfigOption = ''MethodSessionSetConfigOption''"
| "const_text MethodSessionSetMode = ''MethodSessionSetMode''"
| "const_text MethodSessionSetTitle = ''MethodSessionSetTitle''"
| "const_text MethodSessionStatus = ''MethodSessionStatus''"
| "const_text MethodSessionUnarchive = ''MethodSessionUnarchive''"
| "const_text MethodSessionUpdate = ''MethodSessionUpdate''"
| "const_text MethodTerminalCreate = ''MethodTerminalCreate''"
| "const_text MethodTerminalKill = ''MethodTerminalKill''"
| "const_text MethodTerminalOutput = ''MethodTerminalOutput''"
| "const_text MethodTerminalRelease = ''MethodTerminalRelease''"
| "const_text MethodTerminalWaitForExit = ''MethodTerminalWaitForExit''"

primrec iface_text :: "handler_iface \<Rightarrow> string" where
  "iface_text AuthStatusHandler = ''AuthStatusHandler''"
| "iface_text AuthStatusUpdateHandler = ''AuthStatusUpdateHandler''"
| "iface_text AuthenticateHandler = ''AuthenticateHandler''"
| "iface_text ElicitationCompleteHandler = ''ElicitationCompleteHandler''"
| "iface_text ElicitationCreateHandler = ''ElicitationCreateHandler''"
| "iface_text FsReadTextFileHandler = ''FsReadTextFileHandler''"
| "iface_text FsWriteTextFileHandler = ''FsWriteTextFileHandler''"
| "iface_text InitializeHandler = ''InitializeHandler''"
| "iface_text LogoutHandler = ''LogoutHandler''"
| "iface_text McpMessageHandler = ''McpMessageHandler''"
| "iface_text McpMessageNotificationHandler = ''McpMessageNotificationHandler''"
| "iface_text ProvidersDisableHandler = ''ProvidersDisableHandler''"
| "iface_text ProvidersListHandler = ''ProvidersListHandler''"
| "iface_text ProvidersSetHandler = ''ProvidersSetHandler''"
| "iface_text ProxyInitializeHandler = ''ProxyInitializeHandler''"
| "iface_text ProxySuccessorHandler = ''ProxySuccessorHandler''"
| "iface_text ProxySuccessorNotificationHandler = ''ProxySuccessorNotificationHandler''"
| "iface_text SessionArchiveHandler = ''SessionArchiveHandler''"
| "iface_text SessionCancelHandler = ''SessionCancelHandler''"
| "iface_text SessionCloseHandler = ''SessionCloseHandler''"
| "iface_text SessionDeleteHandler = ''SessionDeleteHandler''"
| "iface_text SessionForkHandler = ''SessionForkHandler''"
| "iface_text SessionListHandler = ''SessionListHandler''"
| "iface_text SessionLoadHandler = ''SessionLoadHandler''"
| "iface_text SessionNewHandler = ''SessionNewHandler''"
| "iface_text SessionPromptHandler = ''SessionPromptHandler''"
| "iface_text SessionRequestPermissionHandler = ''SessionRequestPermissionHandler''"
| "iface_text SessionResumeHandler = ''SessionResumeHandler''"
| "iface_text SessionSetConfigOptionHandler = ''SessionSetConfigOptionHandler''"
| "iface_text SessionSetModeHandler = ''SessionSetModeHandler''"
| "iface_text SessionSetTitleHandler = ''SessionSetTitleHandler''"
| "iface_text SessionStatusHandler = ''SessionStatusHandler''"
| "iface_text SessionUnarchiveHandler = ''SessionUnarchiveHandler''"
| "iface_text SessionUpdateHandler = ''SessionUpdateHandler''"
| "iface_text TerminalCreateHandler = ''TerminalCreateHandler''"
| "iface_text TerminalKillHandler = ''TerminalKillHandler''"
| "iface_text TerminalOutputHandler = ''TerminalOutputHandler''"
| "iface_text TerminalReleaseHandler = ''TerminalReleaseHandler''"
| "iface_text TerminalWaitForExitHandler = ''TerminalWaitForExitHandler''"

definition acp_methods :: "acp_method list" where
  "acp_methods =
     [MethodAuthStatus, MethodAuthStatusUpdate, MethodAuthenticate, MethodElicitationComplete,
      MethodElicitationCreate, MethodFsReadTextFile, MethodFsWriteTextFile, MethodInitialize,
      MethodLogout, MethodMcpMessage, MethodProvidersDisable, MethodProvidersList, MethodProvidersSet,
      MethodProxyInitialize, MethodProxySuccessor, MethodSessionArchive, MethodSessionCancel,
      MethodSessionClose, MethodSessionDelete, MethodSessionFork, MethodSessionList, MethodSessionLoad,
      MethodSessionNew, MethodSessionPrompt, MethodSessionRequestPermission, MethodSessionResume,
      MethodSessionSetConfigOption, MethodSessionSetMode, MethodSessionSetTitle, MethodSessionStatus,
      MethodSessionUnarchive, MethodSessionUpdate, MethodTerminalCreate, MethodTerminalKill,
      MethodTerminalOutput, MethodTerminalRelease, MethodTerminalWaitForExit]"

section \<open>The operations\<close>

lemma acp_method_texts: "set (map (op_method \<circ> snd) (decode_table acp_coding acp_table)) = set (map method_name acp_methods)"
proof -
  have "set (map (fst \<circ> fst) acp_table) = set acp_methods" by code_simp
  then have "method_name ` set (map (fst \<circ> fst) acp_table) = method_name ` set acp_methods" by (rule arg_cong)
  then show ?thesis
    unfolding acp_rows.methods_decode by (simp add: acp_coding_def split_beta image_image)
qed

lemma acp_methods_strict: "successively (<) (map method_name acp_methods)"
  by code_simp

lemma acp_wanted: "map wanted_const (map method_name acp_methods) = map const_text acp_methods"
  by code_simp

lemma acp_consts_strict: "successively (<) (map const_text acp_methods)"
  by code_simp

lemma acp_consts: "consts_of_table (decode_table acp_coding acp_table)
    = zip (map method_name acp_methods) (map wanted_const (map method_name acp_methods))"
  unfolding sort_same_set [OF acp_methods_strict acp_method_texts]
  by (rule const_names_strict) (simp only: acp_wanted acp_consts_strict)

lemma acp_assigned: "assign_names (decode_table acp_coding acp_table) = map (named_op acp_coding acp_table) acp_table"
proof (rule acp_rows.assign_decode [OF acp_consts])
  have "list_all (\<lambda>(key, e). fst key \<in> set acp_methods) acp_table" by code_simp
  then show "\<forall>(key, e) \<in> set acp_table. method_of acp_coding (fst key) \<in> set (map method_name acp_methods)"
    by (auto simp: list_all_iff acp_coding_def)
qed

lemma acp_named: "map (named_op acp_coding acp_table) acp_entries = acp_ops"
  by code_simp

lemma acp_same_entries: "mset acp_table = mset acp_entries"
  by code_simp

lemma acp_ops_strict: "successively (<) (map (\<lambda>p. (op_const p, op_kind p)) acp_ops)"
  by code_simp

lemma acp_ordered: "order_operations (assign_names (decode_table acp_coding acp_table)) = acp_ops"
  unfolding order_operations_def acp_assigned
proof (rule sort_key_inj_key_eq)
  show same: "mset (map (named_op acp_coding acp_table) acp_table) = mset acp_ops"
    unfolding acp_named [symmetric] mset_map acp_same_entries ..
  have d: "distinct (map (\<lambda>p. (op_const p, op_kind p)) acp_ops)"
    using strictly_sorted [OF acp_ops_strict] ..
  show "inj_on (\<lambda>p. (op_const p, op_kind p)) (set (map (named_op acp_coding acp_table) acp_table))"
    using d unfolding mset_eq_setD [OF same] by (simp add: distinct_map)
  show "sorted (map (\<lambda>p. (op_const p, op_kind p)) acp_ops)"
    using strictly_sorted [OF acp_ops_strict] ..
qed

lemma acp_op_names_strict: "successively (<) (map op_name acp_ops)"
  by code_simp

lemma acp_prefixes: "list_all (\<lambda>p. has_prefix (op_const p) ''Method'' \<and> \<not> has_prefix (handler_interface p) ''Method'') acp_ops"
  by code_simp

lemma acp_type_shapes: "list_all (\<lambda>t. \<not> has_prefix t ''Method'' \<and> \<not> has_suffix t ''Handler'') acp_names"
  by code_simp

lemma acp_no_clash: "no_clash (set acp_ops) (named_types acp_document)"
proof (rule no_clash_by_shape)
  show "\<forall>p \<in> set acp_ops. \<forall>q \<in> set acp_ops. op_const p = op_const q \<longrightarrow> op_method p = op_method q"
    using consts_match_methods acp_ordered by metis
  show "inj_on op_name (set acp_ops)"
    using strictly_sorted [OF acp_op_names_strict] by (simp add: distinct_map)
  show "\<forall>p \<in> set acp_ops. has_prefix (op_const p) ''Method'' \<and> \<not> has_prefix (handler_interface p) ''Method''"
    using acp_prefixes by (simp add: list_all_iff)
  have "fst ` set (named_types acp_document) = set acp_names"
    by (force simp: named_types_def acp_type_names zip_same_conv_map)
  then show "\<forall>t \<in> fst ` set (named_types acp_document). \<not> has_prefix t ''Method'' \<and> \<not> has_suffix t ''Handler''"
    using acp_type_shapes by (simp add: list_all_iff)
qed

lemma acp_filled: "list_all (\<lambda>p. op_params p \<noteq> [] \<and> (op_kind p = Request \<longrightarrow> op_result p \<noteq> [])) acp_ops"
  by code_simp

lemma acp_operations: "operations acp_document = Inr acp_ops"
proof -
  have "each complete (map snd (decode_table acp_coding acp_table)) () = Inr ()"
  proof (rule each_complete, rule ballI)
    fix p assume "p \<in> set (map snd (decode_table acp_coding acp_table))"
    then have "assign_name (consts_of_table (decode_table acp_coding acp_table)) (decode_table acp_coding acp_table) p \<in> set acp_ops"
      unfolding acp_ordered [symmetric] set_ordered by auto
    with acp_filled show "op_params p \<noteq> [] \<and> (op_kind p = Request \<longrightarrow> op_result p \<noteq> [])"
      by (fastforce simp: list_all_iff)
  qed
  moreover have "validate_names acp_ops (named_types acp_document) = Inr ()"
    using acp_no_clash strictly_sorted [OF acp_op_names_strict] by (simp add: validate_names_ok)
  ultimately show ?thesis
    by (simp add: operations_def acp_operation_table acp_ordered Let_def)
qed

section \<open>The code\<close>

text \<open>The declarations that the tables of the theory Methods stand for.\<close>

definition iface_method :: "handler_iface \<Rightarrow> string" where
  "iface_method i = trim_suffix (iface_text i) ''Handler''"

fun interface_of :: "handler_iface \<times> handler_sig \<Rightarrow> interface_decl" where
  "interface_of (i, RequestSig p r) =
     \<lparr>id_name = iface_text i, id_method = iface_method i, id_params = p, id_result = Some r\<rparr>"
| "interface_of (i, NotifySig p) =
     \<lparr>id_name = iface_text i, id_method = iface_method i, id_params = p, id_result = None\<rparr>"

fun route_code :: "route \<Rightarrow> statement list" where
  "route_code (RequestTo i p) =
     [AssertHandler (iface_text i), IfNotOkNotFound, DecodeParams p, IfErrReturn, ReturnResultOfCall (iface_method i)]"
| "route_code (NotifyTo i p) =
     [AssertHandler (iface_text i), IfNotOkNotFound, DecodeParams p, IfErrReturn, ReturnNilCall (iface_method i)]"

definition case_code :: "acp_method \<times> (bool \<Rightarrow> route) \<Rightarrow> string \<times> statement list" where
  "case_code mf =
     (const_text (fst mf),
      if snd mf True = snd mf False then route_code (snd mf True)
      else IfIsCall (route_code (snd mf True)) # route_code (snd mf False))"

fun use_code :: "string \<Rightarrow> string \<times> outgoing_use \<Rightarrow> method_decl" where
  "use_code conn (n, CallsMethod m p r) =
     \<lparr>md_receiver = conn, md_name = n, md_params = p, md_result = Some r, md_body = ReturnCall r (const_text m)\<rparr>"
| "use_code conn (n, NotifiesMethod m p) =
     \<lparr>md_receiver = conn, md_name = n, md_params = p, md_result = None, md_body = ReturnNotify (const_text m)\<rparr>"

lemma acp_well_ordered: "well_ordered acp_ops"
  by (rule operations_well_ordered [OF acp_operations])

lemma acp_method_consts: "method_consts acp_ops [] = map (\<lambda>(m, w). (const_text m, w)) method_names"
  by code_simp

lemma acp_handler_methods: "map handler_method acp_ops = map interface_of interface_sigs"
  by code_simp

lemma acp_agent_cases: "dd_cases (dispatch_func agent_endpoint acp_ops) = map case_code agent_cases"
  unfolding dispatch_cases_grouped [OF acp_well_ordered] by code_simp

lemma acp_client_cases: "dd_cases (dispatch_func client_endpoint acp_ops) = map case_code client_cases"
  unfolding dispatch_cases_grouped [OF acp_well_ordered] by code_simp

lemma acp_client_methods: "connection_methods client_endpoint acp_ops = map (use_code ''Client'') client_methods"
  by code_simp

lemma acp_agent_methods: "connection_methods agent_endpoint acp_ops = map (use_code ''AgentConnection'') agent_connection_methods"
  by code_simp

text \<open>
  C25: the generated files are what the generator makes of the schema. Run on the schema of the
  protocol, the generator does not panic, and the code it emits has exactly the constants and
  the handler interfaces of methods_gen.go, the methods of \<open>Client\<close> and \<open>AgentConnection\<close>, and the
  cases of the two dispatch functions of agent_gen.go and client_gen.go, in their order.
\<close>

theorem acp_code_generated:
  "operations acp_document = Inr acp_ops
   \<and> method_consts acp_ops [] = map (\<lambda>(m, w). (const_text m, w)) method_names
   \<and> map handler_method acp_ops = map interface_of interface_sigs
   \<and> dd_cases (dispatch_func agent_endpoint acp_ops) = map case_code agent_cases
   \<and> dd_cases (dispatch_func client_endpoint acp_ops) = map case_code client_cases
   \<and> connection_methods client_endpoint acp_ops = map (use_code ''Client'') client_methods
   \<and> connection_methods agent_endpoint acp_ops = map (use_code ''AgentConnection'') agent_connection_methods"
  using acp_operations acp_method_consts acp_handler_methods acp_agent_cases acp_client_cases acp_client_methods
    acp_agent_methods by blast

section \<open>The dispatch of the endpoints\<close>

lemma const_text_inj: "inj const_text"
proof -
  have "m \<in> set acp_methods" for m
    by (cases m) (simp_all add: acp_methods_def)
  then have "set acp_methods = UNIV" by auto
  with strictly_sorted [OF acp_consts_strict] show ?thesis by (simp add: distinct_map)
qed

lemma iface_texts_strict: "successively (<) (map iface_text (map fst interface_sigs))"
  by code_simp

lemma all_ifaces: "set (map fst interface_sigs) = UNIV"
proof -
  have "i \<in> set (map fst interface_sigs)" for i
    by (cases i) (simp_all add: interface_sigs_def interface_sigs_1_def interface_sigs_2_def
        interface_sigs_3_def interface_sigs_4_def)
  then show ?thesis by auto
qed

lemma iface_text_inj: "inj iface_text"
  using strictly_sorted [OF iface_texts_strict] by (metis all_ifaces distinct_map)

lemma map_of_inj_keys: "inj f \<Longrightarrow> map_of (map (\<lambda>(k, v). (f k, v)) xs) (f k) = map_of xs k"
  by (induction xs) (auto dest: injD)

text \<open>The application's handler as the dispatch code sees it: its methods by the name of the interface.\<close>

definition iface_named :: "string \<Rightarrow> handler_iface option" where
  "iface_named n = map_of (map (\<lambda>i. (iface_text i, i)) (map fst interface_sigs)) n"

lemma iface_named_text [simp]: "iface_named (iface_text i) = Some i"
proof -
  have "map_of (map (\<lambda>i. (iface_text i, i)) ifs) (iface_text i) = Some i" if "i \<in> set ifs" for ifs
    using that iface_text_inj by (induction ifs) (auto dest: injD)
  then show ?thesis by (simp only: iface_named_def all_ifaces UNIV_I)
qed

definition handler_runtime :: "'p codec \<Rightarrow> 'p app_handler \<Rightarrow> 'p runtime" where
  "handler_runtime cd h =
     \<lparr>rt_request = (\<lambda>n. case iface_named n of
         None \<Rightarrow> None
       | Some i \<Rightarrow> (case sig_of i of Some (RequestSig p r) \<Rightarrow> request_method h i | _ \<Rightarrow> None)),
      rt_notify = (\<lambda>n. case iface_named n of
         None \<Rightarrow> None
       | Some i \<Rightarrow> (case sig_of i of Some (NotifySig p) \<Rightarrow> notify_method h i | _ \<Rightarrow> None)),
      rt_codec = cd,
      rt_extension = handle_extension h\<rparr>"

fun route_ok :: "route \<Rightarrow> bool" where
  "route_ok (RequestTo i p) = (case sig_of i of Some (RequestSig _ _) \<Rightarrow> True | _ \<Rightarrow> False)"
| "route_ok (NotifyTo i p) = (case sig_of i of Some (NotifySig _) \<Rightarrow> True | _ \<Rightarrow> False)"

lemma route_code_runs:
  "route_ok rt \<Longrightarrow> run_statements (handler_runtime cd h) req l (route_code rt @ rest) = Some (run_route cd h req rt)"
  by (cases rt) (auto simp: handler_runtime_def run_route_def implements_def split: option.splits handler_sig.splits sum.splits)

lemma case_code_runs:
  assumes "route_ok (f True)" "route_ok (f False)"
  shows "run_statements (handler_runtime cd h) req l (snd (case_code (m, f))) = Some (run_route cd h req (f (is_call req)))"
  using route_code_runs [OF assms(1), of cd h req l] route_code_runs [OF assms(2), of cd h req l "[]"]
    route_code_runs [OF assms(1), of cd h req l "[]"]
  by (cases "is_call req") (auto simp: case_code_def)

lemma find_case_code:
  assumes "\<And>m. map_of consts (const_text m) = Some (method_name m)"
  shows "find (\<lambda>(c, b). map_of consts c = Some w) (map case_code cases)
    = map_option (\<lambda>(k, f). case_code (k, f)) (find (\<lambda>(k, f). method_name k = w) cases)"
  by (induction cases) (auto simp: case_code_def assms)

lemma lookup_case_find:
  "lookup_case cases w c = map_option (\<lambda>(k, f). f c) (find (\<lambda>(k, f). method_name k = w) cases)"
  by (induction cases) (auto simp: lookup_case_def)

lemma run_case_codes:
  assumes "dd_cases dd = map case_code cases" "dd_default dd = [ReturnExtension]"
    and "list_all (\<lambda>(m, f). route_ok (f True) \<and> route_ok (f False)) cases"
  shows "run_dispatch (method_consts acp_ops []) dd (handler_runtime cd h) req = Some (handle_with cases cd h req)"
proof -
  have const_value: "map_of (method_consts acp_ops []) (const_text m) = Some (method_name m)" for m
    unfolding acp_method_consts map_of_inj_keys [OF const_text_inj]
    using all_methods [of m] by (auto simp: method_name_def map_of_eq_None_iff split: option.splits)
  note find = find_case_code [OF const_value, of "req_method req" cases]
  show ?thesis
  proof (cases "find (\<lambda>(k, f). method_name k = req_method req) cases")
    case None
    with find assms(1,2) show ?thesis
      by (simp add: run_dispatch_def handle_with_def lookup_case_find handler_runtime_def)
  next
    case (Some kf)
    obtain k f where kf: "kf = (k, f)" by fastforce
    with Some have "(k, f) \<in> set cases" by (auto simp: find_Some_iff in_set_conv_nth)
    with assms(3) have ok: "route_ok (f True)" "route_ok (f False)" by (auto simp: list_all_iff)
    obtain c b where cb: "case_code (k, f) = (c, b)" by fastforce
    with case_code_runs [OF ok, of cd h req "\<lparr>lo_handler = None, lo_params = None\<rparr>" k]
    have "run_statements (handler_runtime cd h) req \<lparr>lo_handler = None, lo_params = None\<rparr> b
        = Some (run_route cd h req (f (is_call req)))" by simp
    with find Some kf cb assms(1) show ?thesis
      by (simp add: run_dispatch_def handle_with_def lookup_case_find)
  qed
qed

text \<open>
  C24: the generated dispatch functions are the handlers of the endpoints. For every
  application and every message, running the code that the generator emits for the schema of
  the protocol gives what the modelled \<open>handleAgentRequest\<close> and \<open>handleClientRequest\<close> give.
\<close>

theorem generated_dispatch_is_handler:
  "run_dispatch (method_consts acp_ops []) (dispatch_func agent_endpoint acp_ops) (handler_runtime cd h) req
     = Some (handle_agent_request cd h req)
   \<and> run_dispatch (method_consts acp_ops []) (dispatch_func client_endpoint acp_ops) (handler_runtime cd h) req
     = Some (handle_client_request cd h req)"
proof -
  have "list_all (\<lambda>(m, f). route_ok (f True) \<and> route_ok (f False)) agent_cases"
    "list_all (\<lambda>(m, f). route_ok (f True) \<and> route_ok (f False)) client_cases"
    by code_simp+
  moreover have "dd_default (dispatch_func e acp_ops) = [ReturnExtension]" for e
    by (simp add: dispatch_func_def)
  ultimately show ?thesis
    unfolding handle_agent_request_def handle_client_request_def
    using run_case_codes [OF acp_agent_cases] run_case_codes [OF acp_client_cases] by blast
qed

end
