(* ===== verification/Typegen_Schema.thy ===== *)
theory Typegen_Schema
  imports Schema
begin

text \<open>
  How the generator of the ACP types reads a schema (internal/schemagen/typegen): the Go type
  of a schema (primitive.go), unstructured numbers (numbers.go), null (nulls.go,
  required_keys.go), and the properties, required names, discriminators and constants of the
  branches of a union (union.go). Comments in the generated code are left out, so that
  descriptions are not read.

  Several of these functions follow references without remembering where they have been. Their
  recursion is bounded by a number, the depth of the stack they are given: \<open>Endless\<close> is a
  stack overflow, as a definition that refers to itself causes it.
\<close>

section \<open>Errors and loops\<close>

datatype emit_panic =
    UnsupportedRef string | UnresolvedRef string | UnresolvedVariant string
  | UnsupportedNumber string | UnsupportedInteger string | UnsupportedType string
  | SkipItemsOfNoArray string | SkipItemsWithoutSchema string
  | NullableAssigned string string
  | NilPointer | IndexOutOfRange

datatype gen_error = GenPanic emit_panic | Endless

type_synonym 'a gen = "gen_error + 'a"

fun map_gen :: "('a \<Rightarrow> 'b gen) \<Rightarrow> 'a list \<Rightarrow> 'b list gen" where
  "map_gen f [] = Inr []"
| "map_gen f (x # xs) = or_panic (f x) (\<lambda>y. or_panic (map_gen f xs) (\<lambda>ys. Inr (y # ys)))"

text \<open>A loop that returns false at the first element without the property.\<close>

fun all_gen :: "('a \<Rightarrow> bool gen) \<Rightarrow> 'a list \<Rightarrow> bool gen" where
  "all_gen f [] = Inr True"
| "all_gen f (x # xs) = or_panic (f x) (\<lambda>b. if b then all_gen f xs else Inr False)"

text \<open>\<open>&&\<close> and \<open>||\<close> look at their right side only if need be.\<close>

definition or_else :: "bool \<Rightarrow> bool gen \<Rightarrow> bool gen" where
  "or_else b c = (if b then Inr True else c)"

definition and_then :: "bool \<Rightarrow> bool gen \<Rightarrow> bool gen" where
  "and_then b c = (if b then c else Inr False)"

text \<open>What follows a result is evaluated only when the result is there.\<close>

declare or_panic_def [code_unfold] or_else_def [code_unfold] and_then_def [code_unfold]

section \<open>The definitions and their Go names\<close>

text \<open>
  The map \<open>defs\<close>; the Go names \<open>DefinitionNames\<close> computes of it, which the code recomputes at
  every use, as a map, as its inverse and as a list; and the depth of the stack. The list is a
  function so that it is not built before it is needed.
\<close>

record gen_env =
  ge_def :: "string \<Rightarrow> schema option"
  ge_name :: "string \<Rightarrow> string option"
  ge_raw :: "string \<Rightarrow> string option"
  ge_go_names :: "unit \<Rightarrow> string list"
  ge_depth :: nat

definition gen_env_of :: "schema_defs \<Rightarrow> nat \<Rightarrow> gen_env" where
  "gen_env_of defs depth =
     (let names = definition_names (map fst defs); raws = sort (map fst defs) in
      \<lparr>ge_def = map_of defs, ge_name = names, ge_raw = (\<lambda>go. find (\<lambda>raw. names raw = Some go) raws),
       ge_go_names = (\<lambda>u. map (\<lambda>raw. the (names raw)) raws), ge_depth = depth\<rparr>)"

definition go_definition_name :: "gen_env \<Rightarrow> string \<Rightarrow> string" where
  "go_definition_name E raw =
     (if raw = [] then []
      else case ge_name E raw of
             Some name \<Rightarrow> if name \<noteq> [] then name else wanted_definition raw
           | None \<Rightarrow> wanted_definition raw)"

section \<open>Properties and required names of a variant\<close>

text \<open>
  The code compares pointers to property schemas to find out which definition a property is
  of. A property is therefore kept with its home, the name of the definition in whose
  \<open>Properties\<close> its schema stands, which is empty for a schema that stands elsewhere. In a list
  of properties the first entry of a name is the one that counts.
\<close>

type_synonym property = "string \<times> schema"
type_synonym properties = "(string \<times> property) list"

definition homed :: "string \<Rightarrow> (string \<times> schema) list \<Rightarrow> properties" where
  "homed home ps = map (\<lambda>(n, s). (n, (home, s))) ps"

definition sorted_property_names :: "(string \<times> 'a) list \<Rightarrow> string list" where
  "sorted_property_names ps = sort (remdups (map fst ps))"

definition wrapped_ref :: "schema \<Rightarrow> string" where
  "wrapped_ref s = (case sc_all_of s of [a] \<Rightarrow> sc_ref a | _ \<Rightarrow> [])"

definition variant_ref :: "schema \<Rightarrow> string" where
  "variant_ref b = (if wrapped_ref b \<noteq> [] then ref_name (wrapped_ref b) else [])"

definition override_by :: "(schema \<Rightarrow> properties gen) \<Rightarrow> schema \<Rightarrow> properties \<Rightarrow> properties gen" where
  "override_by of_branch b ps = or_panic (of_branch b) (\<lambda>qs. Inr (qs @ ps))"

definition schema_variant_properties ::
  "(schema \<Rightarrow> properties gen) \<Rightarrow> string \<Rightarrow> schema \<Rightarrow> properties gen" where
  "schema_variant_properties of_branch home s =
     each (override_by of_branch) (union_branches s) (homed home (sc_properties s))"

fun variant_properties_to :: "nat \<Rightarrow> gen_env \<Rightarrow> schema \<Rightarrow> properties gen" where
  "variant_properties_to 0 E b = Inl Endless"
| "variant_properties_to (Suc n) E b =
     or_panic
       (if variant_ref b = [] then Inr []
        else case ge_def E (variant_ref b) of
               None \<Rightarrow> Inl (GenPanic (UnresolvedVariant (variant_ref b)))
             | Some def \<Rightarrow> schema_variant_properties (variant_properties_to n E) (variant_ref b) def)
       (\<lambda>ps. Inr (homed [] (sc_properties b) @ ps))"

definition variant_properties :: "gen_env \<Rightarrow> schema \<Rightarrow> properties gen" where
  "variant_properties E b = variant_properties_to (ge_depth E) E b"

definition add_missing :: "string list \<Rightarrow> string list \<Rightarrow> string list" where
  "add_missing = foldl (\<lambda>rs r. if r \<in> set rs then rs else rs @ [r])"

definition intersect_strings :: "string list \<Rightarrow> string list \<Rightarrow> string list" where
  "intersect_strings a b = filter (\<lambda>v. v \<in> set b) a"

definition also_required :: "(schema \<Rightarrow> string list gen) \<Rightarrow> schema \<Rightarrow> string list \<Rightarrow> string list gen" where
  "also_required of_branch b common = or_panic (of_branch b) (\<lambda>required. Inr (intersect_strings common required))"

definition schema_variant_required ::
  "(schema \<Rightarrow> string list gen) \<Rightarrow> schema \<Rightarrow> string list gen" where
  "schema_variant_required of_branch s =
     (case union_branches s of
        [] \<Rightarrow> Inr (sc_required s)
      | b # bs \<Rightarrow>
          or_panic (of_branch b) (\<lambda>first.
          or_panic (each (also_required of_branch) bs first) (\<lambda>common.
            Inr (add_missing (sc_required s) common))))"

fun variant_required_to :: "nat \<Rightarrow> gen_env \<Rightarrow> schema \<Rightarrow> string list gen" where
  "variant_required_to 0 E b = Inl Endless"
| "variant_required_to (Suc n) E b =
     or_panic
       (if variant_ref b = [] then Inr []
        else case ge_def E (variant_ref b) of
               None \<Rightarrow> Inl (GenPanic (UnresolvedVariant (variant_ref b)))
             | Some def \<Rightarrow> schema_variant_required (variant_required_to n E) def)
       (\<lambda>req. Inr (add_missing req (sc_required b)))"

definition variant_required :: "gen_env \<Rightarrow> schema \<Rightarrow> string list gen" where
  "variant_required E b = variant_required_to (ge_depth E) E b"

section \<open>Constants and discriminators\<close>

text \<open>\<open>constValue\<close> takes the first string constant in the order the map is visited in.\<close>

definition const_value :: "schema \<Rightarrow> string" where
  "const_value s =
     (case const_string (Some s) of
        Some t \<Rightarrow> t
      | None \<Rightarrow>
          (case find (\<lambda>(n, p). const_string (Some p) \<noteq> None) (sc_properties s) of
             Some (n, p) \<Rightarrow> the (const_string (Some p))
           | None \<Rightarrow> []))"

definition const_at :: "(string \<times> 'a) list \<Rightarrow> ('a \<Rightarrow> schema) \<Rightarrow> string \<Rightarrow> string option" where
  "const_at ps schema_of name = (case map_of ps name of None \<Rightarrow> None | Some p \<Rightarrow> const_string (Some (schema_of p)))"

definition has_const_at :: "(string \<times> 'a) list \<Rightarrow> ('a \<Rightarrow> schema) \<Rightarrow> string \<Rightarrow> bool" where
  "has_const_at ps schema_of name = (const_at ps schema_of name \<noteq> None)"

definition first_const :: "(string \<times> 'a) list \<Rightarrow> ('a \<Rightarrow> schema) \<Rightarrow> string option" where
  "first_const ps schema_of =
     (case find (has_const_at ps schema_of) (sorted_property_names ps) of
        None \<Rightarrow> None
      | Some n \<Rightarrow> const_at ps schema_of n)"

text \<open>\<open>variantConst\<close> without the description, which goes into a comment.\<close>

definition variant_const :: "gen_env \<Rightarrow> string \<Rightarrow> schema \<Rightarrow> string gen" where
  "variant_const E discriminator b =
     or_panic
       (if discriminator = [] then Inr None
        else case const_at (sc_properties b) id discriminator of
               Some t \<Rightarrow> Inr (Some t)
             | None \<Rightarrow> or_panic (variant_properties E b) (\<lambda>ps. Inr (const_at ps snd discriminator)))
       (\<lambda>found. case found of
          Some t \<Rightarrow> Inr t
        | None \<Rightarrow>
            (case first_const (sc_properties b) id of
               Some t \<Rightarrow> Inr t
             | None \<Rightarrow>
                 or_panic (variant_properties E b) (\<lambda>ps.
                   Inr (case first_const ps snd of Some t \<Rightarrow> t | None \<Rightarrow> []))))"

definition is_variant :: "gen_env \<Rightarrow> schema \<Rightarrow> bool gen" where
  "is_variant E b =
     (if sc_title b = [] \<and> const_value b = [] then Inr False
      else or_panic (variant_properties E b) (\<lambda>ps. Inr (ps \<noteq> [])))"

definition is_discriminator_union :: "gen_env \<Rightarrow> schema \<Rightarrow> bool gen" where
  "is_discriminator_union E s =
     (if union_branches s = [] then Inr False else all_gen (is_variant E) (union_branches s))"

definition explicit_discriminator_field :: "schema \<Rightarrow> string" where
  "explicit_discriminator_field s =
     (case map_of (kw_extra (sc_keywords s)) ''discriminator'' of
        Some (ValMap m) \<Rightarrow> (case map_of m ''propertyName'' of Some (ValString t) \<Rightarrow> t | _ \<Rightarrow> [])
      | _ \<Rightarrow> [])"

definition constant_at :: "(string \<times> 'a) list \<Rightarrow> ('a \<Rightarrow> schema) \<Rightarrow> string \<Rightarrow> bool" where
  "constant_at ps schema_of n = (case map_of ps n of None \<Rightarrow> False | Some p \<Rightarrow> sc_const (schema_of p) \<noteq> None)"

definition first_with_const :: "(string \<times> 'a) list \<Rightarrow> ('a \<Rightarrow> schema) \<Rightarrow> string option" where
  "first_with_const ps schema_of = find (constant_at ps schema_of) (sorted_property_names ps)"

definition own_constant :: "schema \<Rightarrow> string option" where
  "own_constant b = first_with_const (sc_properties b) id"

definition variant_constant :: "gen_env \<Rightarrow> schema \<Rightarrow> string option \<Rightarrow> string option gen" where
  "variant_constant E b found =
     (case found of
        Some n \<Rightarrow> Inr (Some n)
      | None \<Rightarrow> or_panic (variant_properties E b) (\<lambda>ps. Inr (first_with_const ps snd)))"

definition discriminator_field :: "gen_env \<Rightarrow> schema \<Rightarrow> schema list \<Rightarrow> string gen" where
  "discriminator_field E s branches =
     (if explicit_discriminator_field s \<noteq> [] then Inr (explicit_discriminator_field s)
      else case List.map_filter own_constant branches of
             n # _ \<Rightarrow> Inr n
           | [] \<Rightarrow>
               or_panic (each (variant_constant E) branches None) (\<lambda>found.
                 Inr (case found of Some n \<Rightarrow> n | None \<Rightarrow> [])))"

definition inline_union :: "schema list \<Rightarrow> bool" where
  "inline_union branches = list_all (\<lambda>b. variant_ref b = []) branches"

section \<open>Go types of schemas\<close>

text \<open>A type as code, and \<open>type_text\<close>, the same type as the text the generator keeps beside it.\<close>

datatype gen_type =
    GBool | GString | GFloat64 | GAny | GRaw
  | GSigned nat | GUnsigned nat
  | GName string
  | GPtr gen_type | GSlice gen_type | GMap gen_type

fun type_text_of :: "gen_type \<Rightarrow> string" where
  "type_text_of GBool = ''bool''"
| "type_text_of GString = ''string''"
| "type_text_of GFloat64 = ''float64''"
| "type_text_of GAny = ''any''"
| "type_text_of GRaw = ''json.RawMessage''"
| "type_text_of (GSigned n) = ''int'' @ show_nat n"
| "type_text_of (GUnsigned n) = ''uint'' @ show_nat n"
| "type_text_of (GName x) = x"
| "type_text_of (GPtr t) = ''*'' @ type_text_of t"
| "type_text_of (GSlice t) = ''[]'' @ type_text_of t"
| "type_text_of (GMap t) = ''map[string]'' @ type_text_of t"

type_synonym typed_text = "gen_type \<times> string"

definition integer_type :: "string \<Rightarrow> typed_text gen" where
  "integer_type format =
     (if format = [] \<or> format = ''int64'' then Inr (GSigned 64, ''int64'')
      else if format = ''int32'' then Inr (GSigned 32, ''int32'')
      else if format = ''uint16'' then Inr (GUnsigned 16, ''uint16'')
      else if format = ''uint32'' then Inr (GUnsigned 32, ''uint32'')
      else if format = ''uint64'' then Inr (GUnsigned 64, ''uint64'')
      else Inl (GenPanic (UnsupportedInteger format)))"

definition schema_default_true :: "schema option \<Rightarrow> bool" where
  "schema_default_true so = (case so of None \<Rightarrow> False | Some s \<Rightarrow> kw_default (sc_keywords s) = ''true'')"

definition ref_type :: "gen_env \<Rightarrow> string \<Rightarrow> bool \<Rightarrow> typed_text gen" where
  "ref_type E ref optional =
     (let raw = ref_name ref; name = go_definition_name E raw in
      if \<not> has_prefix ref ''#/$defs/'' then Inl (GenPanic (UnsupportedRef ref))
      else case ge_def E raw of
             None \<Rightarrow> Inl (GenPanic (UnresolvedRef ref))
           | Some def \<Rightarrow>
               if \<not> optional \<or> raw = [] then Inr (GName name, name)
               else or_panic (or_else (is_object_schema def) (is_discriminator_union E def)) (\<lambda>carrier.
                 Inr (if carrier then (GPtr (GName name), ''*'' @ name) else (GName name, name))))"

definition scalar_type :: "schema \<Rightarrow> typed_text gen" where
  "scalar_type s =
     (let t = schema_type_name (Some s); format = kw_format (sc_keywords s) in
      if t = ''string'' then Inr (GString, ''string'')
      else if t = ''integer'' then integer_type format
      else if t = ''number'' then
        (if format \<noteq> [] \<and> format \<noteq> ''double'' then Inl (GenPanic (UnsupportedNumber format))
         else Inr (GFloat64, ''float64''))
      else if t = ''boolean'' then Inr (GBool, ''bool'')
      else if t = ''object'' then Inr (GMap GAny, ''map[string]any'')
      else if t = ''array'' then Inr (GSlice GAny, ''[]any'')
      else if t = ''null'' \<or> t = [] then Inr (GAny, ''any'')
      else Inl (GenPanic (UnsupportedType t)))"

definition slice_of :: "typed_text \<Rightarrow> typed_text gen" where
  "slice_of item = Inr (GSlice (fst item), ''[]'' @ snd item)"

definition map_to :: "typed_text \<Rightarrow> typed_text gen" where
  "map_to item = Inr (GMap (fst item), ''map[string]'' @ snd item)"

definition pointer_to :: "typed_text \<Rightarrow> typed_text gen" where
  "pointer_to base =
     Inr (if snd base = ''any'' \<or> snd base = ''map[string]any'' then base
          else (GPtr (fst base), ''*'' @ trim_prefix (snd base) ''*''))"

text \<open>A schema without null is smaller, or has no more list of types.\<close>

definition type_measure :: "schema option \<Rightarrow> nat" where
  "type_measure so = (case so of None \<Rightarrow> 0 | Some s \<Rightarrow> 2 * size s + (if kw_types (sc_keywords s) = [] then 0 else 1))"

lemma size_branch: "b \<in> set (sc_any_of s) \<Longrightarrow> size b < size s"
  by (cases s) (auto simp: size_list_estimation dest: size_list_estimation' [where f = size, OF _ order_refl])

lemma last_non_null_in: "last_non_null bs = Some b \<Longrightarrow> b \<in> set bs"
proof -
  have "foldl (\<lambda>found b. if schema_type_name (Some b) = ''null'' then found else Some b) acc bs = Some b
      \<Longrightarrow> b \<in> set bs \<or> acc = Some b" for acc
    by (induction bs arbitrary: acc) (auto split: if_splits)
  then show "last_non_null bs = Some b \<Longrightarrow> b \<in> set bs"
    by (auto simp: last_non_null_def)
qed

lemma nullable_measure: "nullable_schema s = Some s' \<Longrightarrow> type_measure (Some s') < type_measure (Some s)"
proof -
  assume *: "nullable_schema s = Some s'"
  show ?thesis
  proof (cases "length (kw_types (sc_keywords s)) = 2 \<and> ''null'' \<in> set (kw_types (sc_keywords s))")
    case True
    with * obtain t where "s' = with_type t s" by (auto simp: nullable_schema_def Let_def)
    with True show ?thesis by (cases s) (auto simp: with_type_def type_measure_def)
  next
    case False
    with * have "s' \<in> set (sc_any_of s)"
      by (auto simp: nullable_schema_def Let_def split: if_splits dest: last_non_null_in)
    then show ?thesis using size_branch [of s' s] by (simp add: type_measure_def)
  qed
qed

lemma items_measure: "sc_items s = Some i \<Longrightarrow> type_measure (Some i) < type_measure (Some s)"
  by (cases s) (auto simp: type_measure_def)

lemma additional_measure: "sc_additional s = Some i \<Longrightarrow> type_measure (Some i) < type_measure (Some s)"
  by (cases s) (auto simp: type_measure_def)

function schema_type :: "gen_env \<Rightarrow> schema option \<Rightarrow> bool \<Rightarrow> typed_text gen" where
  "schema_type E None optional = Inr (GAny, ''any'')"
| "schema_type E (Some s) optional =
     (if sc_ref s \<noteq> [] then ref_type E (sc_ref s) optional
      else if wrapped_ref s \<noteq> [] then ref_type E (wrapped_ref s) optional
      else case nullable_schema s of
        Some non_null \<Rightarrow> or_panic (schema_type E (Some non_null) False) pointer_to
      | None \<Rightarrow>
          if length (sc_any_of s) > 1 \<or> length (sc_one_of s) > 1 then Inr (GRaw, ''json.RawMessage'')
          else (case (if schema_type_name (Some s) = ''array'' then sc_items s else None) of
            Some item \<Rightarrow> or_panic (schema_type E (Some item) False) slice_of
          | None \<Rightarrow>
              (case (if schema_type_name (Some s) = ''object'' then sc_additional s else None) of
                 Some item \<Rightarrow> or_panic (schema_type E (Some item) False) map_to
               | None \<Rightarrow> scalar_type s)))"
  by pat_completeness auto
termination
  by (relation "measure (\<lambda>(E, so, optional). type_measure so)")
    (auto split: if_splits intro: nullable_measure items_measure additional_measure)

declare schema_type.simps(2) [simp del]

section \<open>Unstructured numbers\<close>

lemma length_trim_prefix: "length (trim_prefix s p) \<le> length s"
  by (simp add: trim_prefix_def)

lemma trim_prefix_same: "length (trim_prefix s p) = length s \<Longrightarrow> trim_prefix s p = s"
  by (cases "has_prefix s p") (auto simp: trim_prefix_def has_prefix_iff)

lemma trim_prefixes_shorter:
  assumes "trim_prefix (trim_prefix (trim_prefix t p) q) r \<noteq> t"
  shows "length (trim_prefix (trim_prefix (trim_prefix t p) q) r) < length t"
proof -
  let ?a = "trim_prefix t p" and ?b = "trim_prefix (trim_prefix t p) q"
  let ?c = "trim_prefix ?b r"
  have le: "length ?a \<le> length t" "length ?b \<le> length ?a" "length ?c \<le> length ?b"
    by (rule length_trim_prefix)+
  show ?thesis
  proof (rule ccontr)
    assume "\<not> length ?c < length t"
    with le have "length ?a = length t" "length ?b = length ?a" "length ?c = length ?b" by auto
    then have "?a = t" "?b = ?a" "?c = ?b" by (simp_all only: trim_prefix_same)
    with assms show False by simp
  qed
qed

function strip_collections :: "string \<Rightarrow> string" where
  "strip_collections t =
     (let next_text = trim_prefix (trim_prefix (trim_prefix t ''*'') ''[]'') ''map[string]'' in
      if t = next_text then t else strip_collections next_text)"
  by pat_completeness auto

termination
proof (relation "measure length", goal_cases)
  case 1
  show ?case by simp
next
  case (2 t nt)
  then show ?case using trim_prefixes_shorter [of t "''*''" "''[]''" "''map[string]''"] by (simp only: in_measure)
qed

declare strip_collections.simps [simp del]

text \<open>
  \<open>numberType\<close>: whether numbers below a type are unstructured, looking through named types,
  each only once.
\<close>

fun number_type :: "nat \<Rightarrow> gen_env \<Rightarrow> string \<Rightarrow> bool \<Rightarrow> string list \<Rightarrow> bool gen" where
  "number_type 0 E t collections seen = Inl Endless"
| "number_type (Suc n) E t collections seen =
     (let t = (if collections then strip_collections t else t) in
      if t = ''any'' \<or> \<not> collections \<and> has_prefix t ''*'' then Inr True
      else if t = [] \<or> \<not> is_upper (hd t) \<or> t \<in> set seen then Inr False
      else case ge_raw E t of
        None \<Rightarrow> Inr False
      | Some raw \<Rightarrow>
          (case ge_def E raw of
             None \<Rightarrow> Inl (GenPanic NilPointer)
           | Some def \<Rightarrow>
               or_panic (or_else (is_object_schema def)
                   (or_panic (is_discriminator_union E def) (\<lambda>union. Inr (union \<or> is_array_union def)))) (\<lambda>carrier.
                 if carrier then Inr False
                 else or_panic (schema_type E (Some def) False) (\<lambda>typ.
                   number_type n E (snd typ) collections (t # seen)))))"

definition unstructured_type :: "gen_env \<Rightarrow> string \<Rightarrow> bool gen" where
  "unstructured_type E t = number_type (ge_depth E) E t True []"

definition requires_container_decoder :: "gen_env \<Rightarrow> string \<Rightarrow> bool gen" where
  "requires_container_decoder E t = number_type (ge_depth E) E t False []"

end
