(* ===== verification/Typegen_Code.thy ===== *)
theory Typegen_Code
  imports Typegen_Schema
begin

text \<open>
  The Go code the generator of the ACP types emits, as syntax: declarations, and the statements
  of \<open>UnmarshalJSON\<close>, \<open>MarshalJSON\<close> and the constructors, in the forms internal/schemagen/typegen
  builds with the package jennifer. A type is \<open>gen_type\<close> where the generator inserts code, and
  text where it inserts an identifier it has as text. Receivers and local names are left out.
\<close>

text \<open>Expressions: a local or parameter, a constant, an address, and the conversions of \<open>convertUnionFieldValue\<close>.\<close>

datatype gen_expr =
    EVar string
  | EConst string
  | EAddr gen_expr
  | EConvert string gen_expr                 \<comment> \<open>\<open>T(e)\<close>\<close>
  | EPointerTo string string gen_expr        \<comment> \<open>\<open>func(v S) *T { converted := T(v); return &converted }(e)\<close>\<close>
  | EPointerOrNil string string gen_expr     \<comment> \<open>the same for \<open>v *S\<close>, and nil for nil\<close>

datatype case_label = LitLabel string | ConstLabel string

text \<open>The switch around the append of an item: none, over the item, or over a field of it.\<close>

datatype item_check = NoCheck | CheckItem "case_label list" | CheckItemField string "case_label list"

text \<open>
  What a decoder does with a member that is present, whose raw text is \<open>raw.F\<close>.
  \<open>IgnoreErrors\<close> and \<open>ReturnErrors\<close> decode into \<open>decoded.F\<close> itself.
  \<open>DecodeFresh T tolerant e\<close> decodes into a new \<open>value\<close> of type \<open>T\<close> and assigns \<open>e\<close>.
  \<open>DecodeEnum T vs e\<close> assigns \<open>e\<close> if the string is one of \<open>vs\<close>.
  \<open>DecodeItems T c tolerant non_nil e\<close> decodes the items one by one into \<open>items\<close>; if the member is
  no array it returns the error, or with \<open>tolerant\<close> does nothing, and with \<open>non_nil\<close> it does
  nothing for null.
  \<open>DecodeAnyItems T c e a\<close> does that for an array, and \<open>a\<close> for anything else.
  \<open>BySwitch d cs\<close> switches over the field \<open>d\<close>, where a case without a label is the default.
\<close>

datatype gen_action =
    IgnoreErrors
  | ReturnErrors
  | DecodeFresh gen_type bool gen_expr
  | DecodeEnum string "string list" gen_expr
  | DecodeItems gen_type item_check bool bool gen_expr
  | DecodeAnyItems gen_type item_check gen_expr gen_action
  | NullOrElse string gen_action
  | BySwitch string "(case_label option \<times> gen_action) list"

text \<open>A field of a struct; the tag is the arguments of \<open>jsonTag\<close>. \<open>NullFields\<close> has the tag \<open>-\<close>.\<close>

record gen_field =
  gf_name :: string
  gf_type :: gen_type
  gf_json :: string
  gf_omitempty :: bool
  gf_omitzero :: bool

definition null_fields_declaration :: gen_field where
  "null_fields_declaration =
     \<lparr>gf_name = ''NullFields'', gf_type = GSlice GString, gf_json = ''-'', gf_omitempty = False, gf_omitzero = False\<rparr>"

text \<open>One case of the decoder of a union whose branches are told apart by a required key.\<close>

record carrier_case =
  cc_key :: string
  cc_field :: string
  cc_non_null :: bool
  cc_require :: "(string list \<times> string list) option"
  cc_fields :: "(string \<times> bool \<times> gen_action) list"

record array_decoder =
  au_flat_type :: string
  au_flat_field :: string
  au_group_type :: string
  au_group_field :: string
  au_probe_field :: string
  au_probe_json :: string
  au_presence :: bool

datatype gen_unmarshal =
    PlainDecoder
  | AliasDecoder "(string \<times> string \<times> gen_action) list"
  | CarrierDecoder "(string \<times> string) list" "carrier_case list"
  | ArrayUnionDecoder array_decoder

datatype send_condition = IfNotNil | IfNotEmpty | IfNotZero

text \<open>What replaces an array union without a variant: its variant fields, the flat field and type, and the union type.\<close>

record empty_union =
  eu_fields :: "string list"
  eu_flat_field :: string
  eu_flat_type :: string
  eu_type :: string

datatype gen_emit =
    FillSlice string gen_type
  | FillOptions string empty_union
  | SendIf send_condition string
  | SendAlways string
  | SendFilled string gen_type
  | SendFilledOptions string empty_union
  | SendNullIfListed string string
  | SwitchEmit string "(case_label option \<times> gen_emit list) list"

datatype gen_marshal =
    AliasEncoder "gen_emit list"
  | WireEncoder "gen_field list" "gen_emit list"
  | CarrierEncoder "(string \<times> gen_field list) list"
  | ArrayUnionEncoder "string list"

record gen_constructor =
  gc_name :: string
  gc_params :: "(string \<times> gen_type) list"
  gc_prelude :: "gen_emit list"
  gc_type :: string
  gc_fields :: "(string \<times> gen_expr) list"

datatype gen_shape = GStruct "gen_field list" | GDefined gen_type | GAlias gen_type

datatype gen_decl =
    TypeDecl string gen_shape
  | ConstDecl string "(string \<times> schema_value) list"
  | FuncDecl gen_constructor
  | UnmarshalDecl string gen_unmarshal
  | MarshalDecl string gen_marshal

end
