(* ===== verification/Typegen_Fields.thy ===== *)
theory Typegen_Fields
  imports Typegen_Code
begin

text \<open>
  The fields of the generated types and the decoding of one field: \<open>deserializeField\<close> and the
  code made of it (internal/schemagen/typegen/deserialize.go), explicit nulls (nulls.go), and
  the names of constants (const.go).
\<close>

section \<open>Names of constants\<close>

text \<open>\<open>fmt.Sprint\<close> of a value of the schema, where numbers are integers below 10^21.\<close>

fun sprint_value :: "schema_value \<Rightarrow> string" where
  "sprint_value (ValString t) = t"
| "sprint_value (ValBool b) = (if b then ''true'' else ''false'')"
| "sprint_value (ValNumber i) = show_int i"
| "sprint_value ValNull = ''<nil>''"
| "sprint_value (ValMap m) =
     ''map['' @ concat (map (\<lambda>(i, k, v). (if i = 0 then [] else '' '') @ k @ '':'' @ v)
       (enumerate 0 (sort_key fst (map (\<lambda>(k, v). (k, sprint_value v)) m)))) @ '']''"

definition const_value_name :: "schema_value \<Rightarrow> string" where
  "const_value_name v =
     (if v = ValString [] then ''Empty''
      else let name = pascal_identifier (sprint_value v) in if name = [] then ''Value'' else name)"

definition primitive_const_name :: "schema \<Rightarrow> string" where
  "primitive_const_name b =
     (let name = pascal_identifier (sc_title b) in
      if name \<noteq> [] then name
      else case sc_const b of None \<Rightarrow> [] | Some v \<Rightarrow> const_value_name v)"

text \<open>
  \<open>uniqueConstName\<close> for a type: the names in use are the Go names of the definitions without
  those in \<open>freed\<close>, and those in \<open>added\<close>.
\<close>

definition unique_type_name :: "gen_env \<Rightarrow> string list \<Rightarrow> string list \<Rightarrow> string \<Rightarrow> string" where
  "unique_type_name E freed added name =
     (if (ge_raw E name = None \<or> name \<in> set freed) \<and> name \<notin> set added then name
      else suffixed name (filter (\<lambda>n. n \<notin> set freed) (ge_go_names E ()) @ added) 2)"

definition discriminator_type_name :: "gen_env \<Rightarrow> string \<Rightarrow> string" where
  "discriminator_type_name E union_name = unique_type_name E [union_name] [] (union_name @ ''Type'')"

text \<open>The map of the constants of a discriminator: from values to names, without the empty value.\<close>

definition name_const ::
  "gen_env \<Rightarrow> string \<Rightarrow> string \<Rightarrow> schema \<Rightarrow> (string \<times> string) list \<times> string list
     \<Rightarrow> ((string \<times> string) list \<times> string list) gen" where
  "name_const E discriminator_type discriminator b st =
     or_panic (variant_const E discriminator b) (\<lambda>value.
       case st of (names, used) \<Rightarrow>
         if value = [] \<or> map_of names value \<noteq> None then Inr (names, used)
         else case unique_const_name (discriminator_type @ const_value_name (ValString value)) used of
                (name, used') \<Rightarrow> Inr (names @ [(value, name)], used'))"

definition discriminator_const_names ::
  "gen_env \<Rightarrow> string \<Rightarrow> string \<Rightarrow> schema list \<Rightarrow> (string \<times> string) list gen" where
  "discriminator_const_names E discriminator_type discriminator branches =
     (if discriminator = [] then Inr []
      else or_panic (each (name_const E discriminator_type discriminator) branches ([], [])) (\<lambda>st. Inr (fst st)))"

definition const_name :: "(string \<times> string) list \<Rightarrow> string \<Rightarrow> string" where
  "const_name const_names value = (case map_of const_names value of Some n \<Rightarrow> n | None \<Rightarrow> [])"

section \<open>The values of a closed string enumeration\<close>

fun enum_of_branches :: "(schema \<Rightarrow> string list gen) \<Rightarrow> schema list \<Rightarrow> string list \<Rightarrow> string list gen" where
  "enum_of_branches of_branch [] values = Inr values"
| "enum_of_branches of_branch (b # bs) values =
     (if schema_type_name (Some b) = ''null'' then enum_of_branches of_branch bs values
      else or_panic (of_branch b) (\<lambda>vs.
        if vs = [] then Inr [] else enum_of_branches of_branch bs (values @ vs)))"

definition string_enum_layer :: "(schema option \<Rightarrow> string list gen) \<Rightarrow> gen_env \<Rightarrow> schema option \<Rightarrow> string list gen" where
  "string_enum_layer rec E so =
     (case so of
        None \<Rightarrow> Inr []
      | Some s \<Rightarrow>
          if sc_ref s \<noteq> [] then rec (ge_def E (ref_name (sc_ref s)))
          else if wrapped_ref s \<noteq> [] then rec (ge_def E (ref_name (wrapped_ref s)))
          else (case nullable_schema s of
            Some non_null \<Rightarrow> rec (Some non_null)
          | None \<Rightarrow>
              if is_string_enum s then Inr (map string_value (kw_enum (sc_keywords s)))
              else (case (if schema_type_name so = ''string'' then const_string so else None) of
                Some t \<Rightarrow> Inr [t]
              | None \<Rightarrow> enum_of_branches (rec \<circ> Some) (union_branches s) [])))"

fun string_enum_values_to :: "nat \<Rightarrow> gen_env \<Rightarrow> schema option \<Rightarrow> string list gen" where
  "string_enum_values_to 0 E so = Inl Endless"
| "string_enum_values_to (Suc n) E so = string_enum_layer (string_enum_values_to n E) E so"

definition string_enum_values :: "gen_env \<Rightarrow> schema option \<Rightarrow> string list gen" where
  "string_enum_values E so = string_enum_values_to (ge_depth E) E so"

section \<open>Fields\<close>

text \<open>The fields of nulls.go that tell null from absence though the schema does not say so.\<close>

definition null_sensitive_fields :: "(string \<times> string list) list" where
  "null_sensitive_fields =
    [(''SubagentUpdate'', [''title'', ''description'', ''capabilities'', ''state'', ''cwd'', ''additionalDirectories'', ''_meta'']),
     (''SessionMessage'', [''content'', ''senderSessionId'', ''recipientSessionId'', ''senderMessageId'', ''recipientMessageId'', ''_meta'']),
     (''McpError'', [''data''])]"

definition preserves_json_null :: "string \<Rightarrow> property \<Rightarrow> bool" where
  "preserves_json_null json_name prop =
     (schema_bool_extra (Some (snd prop)) ''x-go-preserve-null''
      \<or> (case map_of null_sensitive_fields (fst prop) of
           Some names \<Rightarrow> json_name \<in> set names
         | None \<Rightarrow> False))"

record item_validator =
  iv_discriminator :: string
  iv_cases :: "case_label list"
  iv_values :: "string list"

record deserialize_field =
  df_unstructured :: bool
  df_json :: string
  df_go :: string
  df_code :: gen_type
  df_text :: string
  df_item_code :: "gen_type option"
  df_item_text :: string
  df_validator :: "item_validator option"
  df_enum :: "string list"
  df_default_on_error :: bool
  df_skip_invalid :: bool
  df_preserve_null :: bool

definition skip_invalid_items_target :: "deserialize_field \<Rightarrow> bool option" where
  "skip_invalid_items_target f =
     (if has_prefix (df_text f) ''[]'' then Some False
      else if has_prefix (df_text f) ''*[]'' then Some True
      else None)"

function deserialize_item_schema :: "schema option \<Rightarrow> schema option" where
  "deserialize_item_schema None = None"
| "deserialize_item_schema (Some s) =
     (case nullable_schema s of
        Some non_null \<Rightarrow> deserialize_item_schema (Some non_null)
      | None \<Rightarrow> if schema_type_name (Some s) = ''array'' then sc_items s else None)"
  by pat_completeness auto
termination
  by (relation "measure type_measure") (auto intro: nullable_measure)

declare deserialize_item_schema.simps(2) [simp del]

definition referenced_definition_name :: "schema \<Rightarrow> string" where
  "referenced_definition_name s =
     (if sc_ref s \<noteq> [] then ref_name (sc_ref s)
      else if wrapped_ref s \<noteq> [] then ref_name (wrapped_ref s)
      else [])"

text \<open>The validator of the items of a tagged union: the values of its discriminator, each once.\<close>

fun validator_cases :: "(string \<times> string) list \<Rightarrow> string list \<Rightarrow> case_label list" where
  "validator_cases const_names [] = []"
| "validator_cases const_names (v # vs) =
     (if const_name const_names v \<noteq> [] then ConstLabel (const_name const_names v) # validator_cases const_names vs
      else if v = [] then LitLabel [] # validator_cases const_names vs
      else validator_cases const_names vs)"

definition once :: "string list \<Rightarrow> string list" where
  "once vs = rev (foldl (\<lambda>seen v. if v \<in> set seen then seen else v # seen) [] vs)"

definition discriminator_validator :: "gen_env \<Rightarrow> schema \<Rightarrow> item_validator option gen" where
  "discriminator_validator E s =
     (let name = referenced_definition_name s in
      case (if name = [] then None else ge_def E name) of
        None \<Rightarrow> Inr None
      | Some def \<Rightarrow>
          or_panic (is_discriminator_union E def) (\<lambda>union.
            if \<not> union then Inr None
            else or_panic (discriminator_field E def (union_branches def)) (\<lambda>discriminator.
              if discriminator = [] then Inr None
              else or_panic (discriminator_const_names E (discriminator_type_name E (go_definition_name E name))
                  discriminator (union_branches def)) (\<lambda>const_names.
                or_panic (map_gen (variant_const E discriminator) (union_branches def)) (\<lambda>found.
                  let values = once found; cases = validator_cases const_names values in
                  Inr (if cases = [] then None
                       else Some \<lparr>iv_discriminator = field_name discriminator, iv_cases = cases, iv_values = values\<rparr>))))))"

fun string_const_enum_item_to :: "nat \<Rightarrow> gen_env \<Rightarrow> schema option \<Rightarrow> (schema \<times> string) option gen" where
  "string_const_enum_item_to 0 E so = Inl Endless"
| "string_const_enum_item_to (Suc n) E so =
     (case so of
        None \<Rightarrow> Inr None
      | Some s \<Rightarrow>
          if sc_ref s \<noteq> [] \<or> wrapped_ref s \<noteq> [] then
            or_panic (string_const_enum_item_to n E (ge_def E (referenced_definition_name s)))
              (\<lambda>found. Inr (map_option (\<lambda>(def, t). (def, go_definition_name E (referenced_definition_name s))) found))
          else (case nullable_schema s of
            Some non_null \<Rightarrow> string_const_enum_item_to n E (Some non_null)
          | None \<Rightarrow> Inr (if is_string_const_enum s then Some (s, []) else None)))"

fun const_enum_cases :: "string \<Rightarrow> schema list \<Rightarrow> string list \<Rightarrow> case_label list" where
  "const_enum_cases type_name [] used = []"
| "const_enum_cases type_name (b # bs) used =
     (if type_name = [] then LitLabel (const_value b) # const_enum_cases type_name bs used
      else case unique_const_name (type_name @ primitive_const_name b) used of
             (name, used') \<Rightarrow> ConstLabel name # const_enum_cases type_name bs used')"

definition string_const_enum_item_cases :: "gen_env \<Rightarrow> schema \<Rightarrow> case_label list gen" where
  "string_const_enum_item_cases E s =
     or_panic (string_const_enum_item_to (ge_depth E) E (Some s)) (\<lambda>found.
       Inr (case found of None \<Rightarrow> [] | Some (def, type_name) \<Rightarrow> const_enum_cases type_name (union_branches def) []))"

definition skip_invalid_items_validator :: "gen_env \<Rightarrow> schema \<Rightarrow> item_validator option gen" where
  "skip_invalid_items_validator E s =
     or_panic (discriminator_validator E s) (\<lambda>v. case v of
       Some v \<Rightarrow> Inr (Some v)
     | None \<Rightarrow>
         or_panic (string_const_enum_item_cases E s) (\<lambda>cases.
         or_panic (string_enum_values E (Some s)) (\<lambda>values.
           let labels = (if cases \<noteq> [] then cases else map LitLabel values) in
           Inr (if labels = [] then None
                else Some \<lparr>iv_discriminator = [], iv_cases = labels, iv_values = values\<rparr>))))"

definition plain_field :: "bool \<Rightarrow> string list \<Rightarrow> string \<Rightarrow> property \<Rightarrow> typed_text \<Rightarrow> deserialize_field" where
  "plain_field unstructured values json_name prop typ =
     \<lparr>df_unstructured = unstructured, df_json = json_name, df_go = field_name json_name,
      df_code = fst typ, df_text = snd typ, df_item_code = None, df_item_text = [], df_validator = None,
      df_enum = values,
      df_default_on_error = schema_bool_extra (Some (snd prop)) ''x-deserialize-default-on-error'',
      df_skip_invalid = schema_bool_extra (Some (snd prop)) ''x-deserialize-skip-invalid-items'',
      df_preserve_null = preserves_json_null json_name prop\<rparr>"

definition with_items :: "gen_env \<Rightarrow> property \<Rightarrow> deserialize_field \<Rightarrow> deserialize_field gen" where
  "with_items E prop f =
     (if skip_invalid_items_target f = None then Inl (GenPanic (SkipItemsOfNoArray (df_json f)))
      else case deserialize_item_schema (Some (snd prop)) of
        None \<Rightarrow> Inl (GenPanic (SkipItemsWithoutSchema (df_json f)))
      | Some item \<Rightarrow>
          or_panic (schema_type E (Some item) False) (\<lambda>typ.
          or_panic (skip_invalid_items_validator E item) (\<lambda>validator.
            Inr (f\<lparr>df_item_code := Some (fst typ), df_item_text := snd typ, df_validator := validator\<rparr>))))"

definition new_deserialize_field ::
  "gen_env \<Rightarrow> string \<Rightarrow> property \<Rightarrow> typed_text \<Rightarrow> deserialize_field gen" where
  "new_deserialize_field E json_name prop typ =
     or_panic (unstructured_type E (snd typ)) (\<lambda>unstructured.
     or_panic (string_enum_values E (Some (snd prop))) (\<lambda>values.
       let f = plain_field unstructured values json_name prop typ in
       if df_skip_invalid f then with_items E prop f else Inr f))"

text \<open>The field for \<open>_meta\<close>, which is tolerant only if it preserves null.\<close>

definition meta_field :: "string \<Rightarrow> property \<Rightarrow> deserialize_field" where
  "meta_field go prop =
     \<lparr>df_unstructured = False, df_json = ''_meta'', df_go = go, df_code = GName ''Meta'', df_text = ''Meta'',
      df_item_code = None, df_item_text = [], df_validator = None, df_enum = [],
      df_default_on_error = (preserves_json_null ''_meta'' prop
        \<and> schema_bool_extra (Some (snd prop)) ''x-deserialize-default-on-error''),
      df_skip_invalid = False, df_preserve_null = preserves_json_null ''_meta'' prop\<rparr>"

definition merge_deserialize_rules :: "deserialize_field \<Rightarrow> deserialize_field \<Rightarrow> deserialize_field" where
  "merge_deserialize_rules existing f =
     existing
       \<lparr>df_unstructured := df_unstructured existing \<or> df_unstructured f,
        df_default_on_error := df_default_on_error existing \<or> df_default_on_error f,
        df_skip_invalid := df_skip_invalid existing \<or> df_skip_invalid f,
        df_preserve_null := df_preserve_null existing \<or> df_preserve_null f,
        df_enum := add_missing (df_enum existing) (df_enum f),
        df_item_code := (case df_item_code existing of None \<Rightarrow> df_item_code f | Some t \<Rightarrow> Some t),
        df_validator := (case df_validator existing of None \<Rightarrow> df_validator f | Some v \<Rightarrow> Some v)\<rparr>"

definition needs_deserialize_unmarshal :: "deserialize_field \<Rightarrow> bool" where
  "needs_deserialize_unmarshal f = (df_default_on_error f \<or> df_skip_invalid f \<or> df_preserve_null f)"

section \<open>The code that decodes a field\<close>

definition check_code :: "deserialize_field \<Rightarrow> item_check" where
  "check_code f =
     (case df_validator f of
        None \<Rightarrow> NoCheck
      | Some v \<Rightarrow> if iv_discriminator v = [] then CheckItem (iv_cases v) else CheckItemField (iv_discriminator v) (iv_cases v))"

text \<open>The items of an array, if the field skips invalid ones: their type, and the target.\<close>

definition item_mode :: "deserialize_field \<Rightarrow> (gen_type \<times> bool option) option" where
  "item_mode f =
     (case df_item_code f of
        None \<Rightarrow> None
      | Some t \<Rightarrow>
          if \<not> df_skip_invalid f then None
          else if df_text f = ''any'' then Some (t, None)
          else map_option (\<lambda>pointer. (t, Some pointer)) (skip_invalid_items_target f))"

text \<open>\<open>deserializeFieldUnmarshalCode\<close>, with the code for enumerations and items it calls.\<close>

definition address_if :: "bool \<Rightarrow> string \<Rightarrow> gen_expr" where
  "address_if pointer x = (if pointer then EAddr (EVar x) else EVar x)"

definition deserialize_field_unmarshal_code :: "deserialize_field \<Rightarrow> gen_action" where
  "deserialize_field_unmarshal_code f =
     (case item_mode f of
        Some (t, None) \<Rightarrow>
          DecodeAnyItems t (check_code f) (EVar ''items'') (if df_default_on_error f then IgnoreErrors else ReturnErrors)
      | Some (t, Some pointer) \<Rightarrow>
          DecodeItems t (check_code f) (df_default_on_error f) pointer (address_if pointer ''items'')
      | None \<Rightarrow>
          if df_default_on_error f \<and> df_enum f \<noteq> [] then
            DecodeEnum (trim_prefix (df_text f) ''*'') (df_enum f) (address_if (has_prefix (df_text f) ''*'') ''value'')
          else if df_default_on_error f then IgnoreErrors
          else ReturnErrors)"

text \<open>\<open>deserializeVariantFieldCode\<close>: the same into fresh variables, with an assignment of its own.\<close>

definition deserialize_variant_field_code ::
  "deserialize_field \<Rightarrow> (gen_expr \<Rightarrow> gen_expr gen) \<Rightarrow> gen_action gen" where
  "deserialize_variant_field_code f assign =
     (case item_mode f of
        Some (t, None) \<Rightarrow>
          or_panic (assign (EVar ''items'')) (\<lambda>items.
          or_panic (assign (EVar ''value'')) (\<lambda>e.
            Inr (DecodeAnyItems t (check_code f) items (DecodeFresh GAny (df_default_on_error f) e))))
      | Some (t, Some pointer) \<Rightarrow>
          or_panic (assign (address_if pointer ''items'')) (\<lambda>items.
            Inr (DecodeItems t (check_code f) (df_default_on_error f) pointer items))
      | None \<Rightarrow>
          if df_default_on_error f \<and> df_enum f \<noteq> [] then
            or_panic (assign (address_if (has_prefix (df_text f) ''*'') ''value'')) (\<lambda>e.
              Inr (DecodeEnum (trim_prefix (df_text f) ''*'') (df_enum f) e))
          else
            or_panic (assign (EVar ''value'')) (\<lambda>e.
              Inr (DecodeFresh (df_code f) (df_default_on_error f) e)))"

definition preserve_null_unmarshal_code :: "deserialize_field \<Rightarrow> gen_action \<Rightarrow> gen_action" where
  "preserve_null_unmarshal_code f body = (if df_preserve_null f then NullOrElse (df_json f) body else body)"

definition field_decoder :: "(string \<times> gen_action) list \<Rightarrow> deserialize_field \<Rightarrow> gen_action gen" where
  "field_decoder custom f =
     (case map_of custom (df_json f) of
        Some code \<Rightarrow> Inr code
      | None \<Rightarrow>
          if df_preserve_null f then
            or_panic (deserialize_variant_field_code f Inr) (\<lambda>body. Inr (preserve_null_unmarshal_code f body))
          else Inr (deserialize_field_unmarshal_code f))"

definition tolerant_entry :: "(string \<times> gen_action) list \<Rightarrow> deserialize_field \<Rightarrow> (string \<times> string \<times> gen_action) gen" where
  "tolerant_entry custom f = or_panic (field_decoder custom f) (\<lambda>a. Inr (df_go f, df_json f, a))"

definition deserialize_unmarshal_code ::
  "deserialize_field list \<Rightarrow> (string \<times> gen_action) list \<Rightarrow> gen_unmarshal option gen" where
  "deserialize_unmarshal_code fs custom =
     (let tolerant = filter (\<lambda>f. needs_deserialize_unmarshal f \<or> map_of custom (df_json f) \<noteq> None) fs in
      if tolerant = [] then
        Inr (if list_ex (\<lambda>f. df_unstructured f \<or> df_text f = ''any'') fs then Some PlainDecoder else None)
      else
        or_panic (map_gen (tolerant_entry custom) tolerant) (\<lambda>actions. Inr (Some (AliasDecoder actions))))"

section \<open>Explicit nulls on the wire\<close>

definition preserved_null_fields :: "deserialize_field list \<Rightarrow> deserialize_field list" where
  "preserved_null_fields = filter df_preserve_null"

definition wire_field :: "deserialize_field \<Rightarrow> gen_field" where
  "wire_field f =
     \<lparr>gf_name = df_go f, gf_type = GPtr (df_code f), gf_json = df_json f, gf_omitempty = True, gf_omitzero = False\<rparr>"

definition null_field_wire_fields :: "deserialize_field list \<Rightarrow> gen_field list" where
  "null_field_wire_fields = map wire_field"

definition null_field_marshal_assignments :: "deserialize_field list \<Rightarrow> gen_emit list" where
  "null_field_marshal_assignments = map (\<lambda>f. SendNullIfListed (df_go f) (df_json f))"

definition optional_wire_field_assignment :: "deserialize_field \<Rightarrow> gen_emit" where
  "optional_wire_field_assignment f =
     (if df_json f = ''_meta'' then SendIf IfNotNil (df_go f)
      else if has_prefix (df_text f) ''[]'' \<or> has_prefix (df_text f) ''map['' then SendIf IfNotEmpty (df_go f)
      else if has_prefix (df_text f) ''*'' \<or> df_text f = ''any'' then SendIf IfNotNil (df_go f)
      else SendIf IfNotZero (df_go f))"

section \<open>Facts about fields\<close>

lemma with_items_keeps:
  assumes "with_items E prop f = Inr f'"
  shows "\<exists>t u v. f' = f\<lparr>df_item_code := Some t, df_item_text := u, df_validator := v\<rparr>"
    and "skip_invalid_items_target f \<noteq> None"
  using assms by (auto simp: with_items_def or_panic_Inr split: if_splits option.splits)

lemma new_field_cases:
  assumes "new_deserialize_field E n prop typ = Inr f"
  obtains u vs where "string_enum_values E (Some (snd prop)) = Inr vs"
    "if df_skip_invalid (plain_field u vs n prop typ) then with_items E prop (plain_field u vs n prop typ) = Inr f
     else f = plain_field u vs n prop typ"
proof -
  from assms obtain u vs where "string_enum_values E (Some (snd prop)) = Inr vs"
    and "(let f = plain_field u vs n prop typ in if df_skip_invalid f then with_items E prop f else Inr f) = Inr f"
    by (auto simp: new_deserialize_field_def or_panic_Inr)
  with that [of vs u] show thesis by (simp add: Let_def split: if_splits)
qed

lemma new_field:
  assumes "new_deserialize_field E n prop typ = Inr f"
  shows "df_json f = n \<and> df_go f = field_name n \<and> df_code f = fst typ \<and> df_text f = snd typ
    \<and> df_default_on_error f = schema_bool_extra (Some (snd prop)) ''x-deserialize-default-on-error''
    \<and> df_skip_invalid f = schema_bool_extra (Some (snd prop)) ''x-deserialize-skip-invalid-items''
    \<and> df_preserve_null f = preserves_json_null n prop
    \<and> string_enum_values E (Some (snd prop)) = Inr (df_enum f)"
  by (rule new_field_cases [OF assms])
    (auto simp: plain_field_def split: if_splits dest!: with_items_keeps(1))

lemma new_field_items:
  assumes "new_deserialize_field E n prop typ = Inr f" "df_skip_invalid f"
  shows "\<exists>t pointer. item_mode f = Some (t, Some pointer)"
proof (rule new_field_cases [OF assms(1)])
  fix u vs
  let ?f = "plain_field u vs n prop typ"
  assume "if df_skip_invalid ?f then with_items E prop ?f = Inr f else f = ?f"
  with assms(2) have w: "with_items E prop ?f = Inr f" by (auto split: if_splits)
  from with_items_keeps [OF w] obtain t where t: "df_item_code f = Some t" "df_text f = df_text ?f"
      "skip_invalid_items_target ?f \<noteq> None"
    by auto
  then have "skip_invalid_items_target f \<noteq> None" unfolding skip_invalid_items_target_def by metis
  moreover from this have "df_text f \<noteq> ''any''" by (auto simp: skip_invalid_items_target_def has_prefix_def)
  ultimately show ?thesis using t(1) assms(2) by (auto simp: item_mode_def)
qed

lemma no_item_mode: "\<not> df_skip_invalid f \<Longrightarrow> item_mode f = None"
  by (simp add: item_mode_def split: option.split)

end
