(* ===== verification/Typegen_Object.thy ===== *)
theory Typegen_Object
  imports Typegen_Fields
begin

text \<open>
  The code of objects (object.go), of enumerations of constants (enum.go, const.go) and of
  unions of two kinds of arrays (the end of union.go), in internal/schemagen/typegen.
\<close>

section \<open>Kinds of schemas\<close>

fun same_kinds :: "(schema \<Rightarrow> string gen) \<Rightarrow> string \<Rightarrow> schema list \<Rightarrow> string gen" where
  "same_kinds of_branch kind [] = Inr kind"
| "same_kinds of_branch kind (b # bs) =
     or_panic (of_branch b) (\<lambda>k. if k \<noteq> kind then Inr [] else same_kinds of_branch kind bs)"

definition schema_kind_layer :: "(schema \<Rightarrow> string gen) \<Rightarrow> gen_env \<Rightarrow> schema \<Rightarrow> string gen" where
  "schema_kind_layer rec E s =
     (let ref = (if sc_ref s \<noteq> [] then sc_ref s else wrapped_ref s) in
      if ref \<noteq> [] then
        (case ge_def E (ref_name ref) of None \<Rightarrow> Inl (GenPanic (UnresolvedRef ref)) | Some def \<Rightarrow> rec def)
      else case nullable_schema s of
        Some non_null \<Rightarrow> rec non_null
      | None \<Rightarrow>
          (case union_branches s of
             [] \<Rightarrow> Inr (schema_type_name (Some s))
           | b # bs \<Rightarrow> or_panic (rec b) (\<lambda>kind. same_kinds rec kind bs)))"

fun schema_kind_to :: "nat \<Rightarrow> gen_env \<Rightarrow> schema \<Rightarrow> string gen" where
  "schema_kind_to 0 E s = Inl Endless"
| "schema_kind_to (Suc n) E s = schema_kind_layer (schema_kind_to n E) E s"

definition schema_kind :: "gen_env \<Rightarrow> schema option \<Rightarrow> string gen" where
  "schema_kind E so = (case so of None \<Rightarrow> Inr [] | Some s \<Rightarrow> schema_kind_to (ge_depth E) E s)"

section \<open>Unions of two arrays\<close>

record array_union_variant =
  av_branch :: schema
  av_field :: string
  av_type :: string

definition array_union_base_field_name :: "string \<Rightarrow> string" where
  "array_union_base_field_name title = (if title = ''Grouped'' then ''Groups'' else pascal_identifier title)"

definition or_text :: "string \<Rightarrow> string \<Rightarrow> string" where
  "or_text s other = (if s = [] then other else s)"

fun name_array_variants :: "gen_env \<Rightarrow> string \<Rightarrow> schema list \<Rightarrow> string list \<Rightarrow> string list \<Rightarrow> array_union_variant list" where
  "name_array_variants E name [] used_fields types = []"
| "name_array_variants E name (b # bs) used_fields types =
     (case unique_const_name (or_text (array_union_base_field_name (sc_title b)) ''Variant'') used_fields of
        (f, used_fields') \<Rightarrow>
          (let t = unique_type_name E [] types (or_text (pascal_identifier (sc_title b)) ''Variant'' @ name) in
           \<lparr>av_branch = b, av_field = f, av_type = t\<rparr> # name_array_variants E name bs used_fields' (t # types)))"

definition array_union_variants :: "gen_env \<Rightarrow> string \<Rightarrow> schema list \<Rightarrow> array_union_variant list" where
  "array_union_variants E name branches = name_array_variants E name branches [] []"

text \<open>The schema of the items of a branch: the definition its \<open>items\<close> refer to, or nil.\<close>

definition item_definition :: "gen_env \<Rightarrow> schema \<Rightarrow> schema option gen" where
  "item_definition E b =
     (case sc_items b of None \<Rightarrow> Inl (GenPanic NilPointer) | Some i \<Rightarrow> Inr (ge_def E (ref_name (sc_ref i))))"

fun some_array :: "gen_env \<Rightarrow> schema \<Rightarrow> string list \<Rightarrow> string list \<Rightarrow> bool gen" where
  "some_array E item others [] = Inr False"
| "some_array E item others (f # fs) =
     (if f \<in> set others then some_array E item others fs
      else or_panic (schema_kind E (map_of (sc_properties item) f)) (\<lambda>kind.
        if kind = ''array'' then Inr True else some_array E item others fs))"

definition property_names :: "schema option \<Rightarrow> string list" where
  "property_names so = (case so of None \<Rightarrow> [] | Some s \<Rightarrow> map fst (sc_properties s))"

definition array_union_grouped_branch :: "gen_env \<Rightarrow> schema \<Rightarrow> schema option \<Rightarrow> schema option \<Rightarrow> bool gen" where
  "array_union_grouped_branch E b item other =
     (if sc_title b = ''Grouped'' then Inr True
      else case item of
        None \<Rightarrow> Inr False
      | Some i \<Rightarrow> some_array E i (property_names other) (sc_required i))"

text \<open>The flat variant and the grouped one.\<close>

definition array_union_decode_variants ::
  "gen_env \<Rightarrow> array_union_variant list \<Rightarrow> (array_union_variant \<times> array_union_variant) gen" where
  "array_union_decode_variants E variants =
     (case variants of
        [] \<Rightarrow> Inl (GenPanic IndexOutOfRange)
      | [v0, v1] \<Rightarrow>
          or_panic (item_definition E (av_branch v0)) (\<lambda>i0.
          or_panic (item_definition E (av_branch v1)) (\<lambda>i1.
          or_panic (array_union_grouped_branch E (av_branch v0) i0 i1) (\<lambda>g0.
          or_panic (array_union_grouped_branch E (av_branch v1) i1 i0) (\<lambda>g1.
            Inr (if g0 \<and> \<not> g1 then (v1, v0) else (v0, v1))))))
      | v # vs \<Rightarrow> Inr (v, last variants))"

definition array_union_probe_field :: "schema option \<Rightarrow> schema option \<Rightarrow> string" where
  "array_union_probe_field flat_item group_item =
     (case group_item of
        None \<Rightarrow> ''group''
      | Some g \<Rightarrow>
          (case find (\<lambda>f. f \<notin> set (property_names flat_item)) (sc_required g) of
             Some f \<Rightarrow> f
           | None \<Rightarrow> (case sc_required g of f # _ \<Rightarrow> f | [] \<Rightarrow> ''group'')))"

definition array_union_probe_uses_presence :: "gen_env \<Rightarrow> schema option \<Rightarrow> string \<Rightarrow> bool gen" where
  "array_union_probe_uses_presence E so f =
     (case so of
        None \<Rightarrow> Inr False
      | Some s \<Rightarrow>
          (case map_of (sc_properties s) f of
             None \<Rightarrow> Inr False
           | Some prop \<Rightarrow>
               if sc_ref prop \<noteq> [] \<or> wrapped_ref prop \<noteq> [] then Inr True
               else or_panic (schema_kind E (Some prop)) (\<lambda>kind. Inr (kind \<noteq> ''string''))))"

definition array_union_decoder :: "gen_env \<Rightarrow> array_union_variant list \<Rightarrow> array_decoder gen" where
  "array_union_decoder E variants =
     or_panic (array_union_decode_variants E variants) (\<lambda>(flat, group).
     or_panic (item_definition E (av_branch flat)) (\<lambda>flat_item.
     or_panic (item_definition E (av_branch group)) (\<lambda>group_item.
       let probe = array_union_probe_field flat_item group_item in
       or_panic (array_union_probe_uses_presence E group_item probe) (\<lambda>presence.
         Inr \<lparr>au_flat_type = av_type flat, au_flat_field = av_field flat, au_group_type = av_type group,
              au_group_field = av_field group, au_probe_field = field_name probe, au_probe_json = probe,
              au_presence = presence\<rparr>))))"

definition variant_field :: "array_union_variant \<Rightarrow> gen_field" where
  "variant_field v =
     \<lparr>gf_name = av_field v, gf_type = GPtr (GName (av_type v)), gf_json = av_field v, gf_omitempty = False, gf_omitzero = False\<rparr>"

definition array_variant_type :: "gen_env \<Rightarrow> array_union_variant \<Rightarrow> gen_decl gen" where
  "array_variant_type E v =
     or_panic (schema_type E (Some (av_branch v)) False) (\<lambda>typ. Inr (TypeDecl (av_type v) (GDefined (fst typ))))"

definition array_union_code :: "gen_env \<Rightarrow> string \<Rightarrow> schema \<Rightarrow> gen_decl list gen" where
  "array_union_code E name s =
     (let variants = array_union_variants E name (union_branches s) in
      or_panic (map_gen (array_variant_type E) variants) (\<lambda>types.
      or_panic (array_union_decoder E variants) (\<lambda>decoder.
        Inr (TypeDecl name (GStruct (map variant_field variants)) # types
          @ [MarshalDecl name (ArrayUnionEncoder (rev (map av_field variants))),
             UnmarshalDecl name (ArrayUnionDecoder decoder)]))))"

text \<open>The array union a property is, directly or by reference, and what replaces its nil value.\<close>

definition constructor_array_union_schema :: "gen_env \<Rightarrow> schema \<Rightarrow> schema option gen" where
  "constructor_array_union_schema E s =
     (let ref = (if sc_ref s \<noteq> [] then sc_ref s else wrapped_ref s) in
      if ref \<noteq> [] then
        (case ge_def E (ref_name ref) of
           None \<Rightarrow> Inl (GenPanic NilPointer)
         | Some def \<Rightarrow> Inr (if is_array_union def then Some def else None))
      else Inr (if is_array_union s then Some s else None))"

definition empty_array_union :: "gen_env \<Rightarrow> string \<Rightarrow> schema \<Rightarrow> empty_union option gen" where
  "empty_array_union E type_name s =
     (let variants = array_union_variants E type_name (union_branches s) in
      if variants = [] then Inr None
      else or_panic (array_union_decode_variants E variants) (\<lambda>(flat, group).
        Inr (Some \<lparr>eu_fields = map av_field variants, eu_flat_field = av_field flat, eu_flat_type = av_type flat,
                   eu_type = type_name\<rparr>)))"

section \<open>Enumerations\<close>

fun enum_consts :: "string \<Rightarrow> schema_value list \<Rightarrow> string list \<Rightarrow> (string \<times> schema_value) list" where
  "enum_consts name [] used = []"
| "enum_consts name (v # vs) used =
     (if is_string_value v
      then (case unique_const_name (name @ const_value_name v) used of
              (c, used') \<Rightarrow> (c, v) # enum_consts name vs used')
      else enum_consts name vs used)"

definition string_enum_code :: "string \<Rightarrow> schema \<Rightarrow> gen_decl list" where
  "string_enum_code name s =
     [TypeDecl name (GDefined GString), ConstDecl name (enum_consts name (kw_enum (sc_keywords s)) [])]"

text \<open>The constants of branches, named after their titles or values; \<open>value_of\<close> may leave a branch out.\<close>

fun branch_consts :: "(schema \<Rightarrow> schema_value option) \<Rightarrow> string \<Rightarrow> schema list \<Rightarrow> string list \<Rightarrow> (string \<times> schema_value) list" where
  "branch_consts value_of name [] used = []"
| "branch_consts value_of name (b # bs) used =
     (case value_of b of
        None \<Rightarrow> branch_consts value_of name bs used
      | Some v \<Rightarrow>
          (case unique_const_name (name @ primitive_const_name b) used of
             (c, used') \<Rightarrow> (c, v) # branch_consts value_of name bs used'))"

definition string_const :: "schema \<Rightarrow> schema_value option" where
  "string_const b = Some (ValString (case const_string (Some b) of Some t \<Rightarrow> t | None \<Rightarrow> []))"

definition string_const_enum_code :: "string \<Rightarrow> schema \<Rightarrow> gen_decl list" where
  "string_const_enum_code name s =
     [TypeDecl name (GDefined GString), ConstDecl name (branch_consts string_const name (union_branches s) [])]"

definition primitive_const_type :: "string \<Rightarrow> string \<Rightarrow> gen_type gen" where
  "primitive_const_type kind format =
     (if kind = ''string'' then Inr GString
      else if kind = ''integer'' then or_panic (integer_type format) (\<lambda>(code, t). Inr code)
      else if kind = ''number'' then Inr GFloat64
      else if kind = ''boolean'' then Inr GBool
      else Inr GAny)"

text \<open>It is called for a union whose branches share a kind.\<close>

definition primitive_const_union_code :: "string \<Rightarrow> schema \<Rightarrow> gen_decl list gen" where
  "primitive_const_union_code name s =
     (case primitive_const_union_kind s of
        None \<Rightarrow> Inr []
      | Some (kind, format) \<Rightarrow>
          or_panic (primitive_const_type kind format) (\<lambda>code.
            Inr [TypeDecl name (GDefined code), ConstDecl name (branch_consts sc_const name (union_branches s) [])]))"

section \<open>Objects\<close>

definition pointer_default_true_bool :: "string \<Rightarrow> schema \<Rightarrow> bool \<Rightarrow> bool" where
  "pointer_default_true_bool json_name s optional =
     (optional \<and> json_name = ''secret'' \<and> schema_type_name (Some s) = ''boolean'' \<and> schema_default_true (Some s))"

text \<open>A field of an object; \<open>of_schema\<close> is the schema, which the field for \<open>_meta\<close> does not keep.\<close>

record object_member =
  of_field :: deserialize_field
  of_omitempty :: bool
  of_omitzero :: bool
  of_required :: bool
  of_schema :: "schema option"

definition object_field ::
  "gen_env \<Rightarrow> string list \<Rightarrow> (string \<rightharpoonup> string) \<Rightarrow> properties \<Rightarrow> string \<Rightarrow> object_member gen" where
  "object_field E required go_names ps n =
     (case map_of ps n of
        None \<Rightarrow> Inl (GenPanic NilPointer)
      | Some prop \<Rightarrow>
          (let go = (case go_names n of Some g \<Rightarrow> g | None \<Rightarrow> []); optional = (n \<notin> set required) in
           if n = ''_meta''
           then Inr \<lparr>of_field = meta_field go prop, of_omitempty = False, of_omitzero = True,
                     of_required = False, of_schema = None\<rparr>
           else
             or_panic (schema_type E (Some (snd prop)) optional) (\<lambda>typ.
             or_panic (new_deserialize_field E n prop
                 (if pointer_default_true_bool n (snd prop) optional then (GPtr GBool, ''*bool'') else typ)) (\<lambda>f.
               Inr \<lparr>of_field = f\<lparr>df_go := go\<rparr>, of_omitempty = optional, of_omitzero = False,
                    of_required = \<not> optional, of_schema = Some (snd prop)\<rparr>))))"

definition struct_field :: "object_member \<Rightarrow> gen_field" where
  "struct_field f =
     \<lparr>gf_name = df_go (of_field f), gf_type = df_code (of_field f), gf_json = df_json (of_field f),
      gf_omitempty = of_omitempty f, gf_omitzero = of_omitzero f\<rparr>"

text \<open>The required fields that must not become null on the wire.\<close>

definition required_text :: "string \<Rightarrow> object_member \<Rightarrow> bool" where
  "required_text prefix f = (of_required f \<and> has_prefix (df_text (of_field f)) prefix)"

definition required_array_union :: "gen_env \<Rightarrow> object_member \<Rightarrow> (object_member \<times> schema) list gen" where
  "required_array_union E f =
     (case (if of_required f \<and> df_json (of_field f) = ''options'' \<and> \<not> has_prefix (df_text (of_field f)) ''*''
            then of_schema f else None) of
        None \<Rightarrow> Inr []
      | Some s \<Rightarrow>
          or_panic (constructor_array_union_schema E s) (\<lambda>found.
            Inr (case found of None \<Rightarrow> [] | Some u \<Rightarrow> [(f, u)])))"

definition required_array_union_marshal :: "gen_env \<Rightarrow> object_member \<times> schema \<Rightarrow> gen_emit list gen" where
  "required_array_union_marshal E fu =
     or_panic (empty_array_union E (df_text (of_field (fst fu))) (snd fu)) (\<lambda>empty.
       Inr (case empty of None \<Rightarrow> [] | Some u \<Rightarrow> [FillOptions (df_go (of_field (fst fu))) u]))"

definition fill_slice :: "deserialize_field \<Rightarrow> gen_emit" where
  "fill_slice f = FillSlice (df_go f) (df_code f)"

text \<open>\<open>objectCode\<close>: the declarations, whether \<open>Meta\<close> is needed, and the methods that come last in the file.\<close>

type_synonym gen_code = "gen_decl list \<times> bool \<times> gen_decl list"

definition preserves_at :: "properties \<Rightarrow> string \<Rightarrow> bool" where
  "preserves_at ps n = (case map_of ps n of Some p \<Rightarrow> preserves_json_null n p | None \<Rightarrow> False)"

definition keeps_null_fields :: "string \<Rightarrow> schema \<Rightarrow> bool" where
  "keeps_null_fields raw s = list_ex (preserves_at (homed raw (sc_properties s))) (sorted_property_names (sc_properties s))"

definition object_go_names :: "string \<Rightarrow> schema \<Rightarrow> (string \<rightharpoonup> string)" where
  "object_go_names raw s =
     unique_field_names_with_reserved (sorted_property_names (sc_properties s))
       (if keeps_null_fields raw s then [''NullFields''] else [])"

definition object_members :: "gen_env \<Rightarrow> string \<Rightarrow> schema \<Rightarrow> object_member list gen" where
  "object_members E raw s =
     map_gen (object_field E (sc_required s) (object_go_names raw s) (homed raw (sc_properties s)))
       (sorted_property_names (sc_properties s))"

definition object_struct :: "string \<Rightarrow> schema \<Rightarrow> object_member list \<Rightarrow> gen_shape" where
  "object_struct raw s fs =
     GStruct (map struct_field fs @ (if keeps_null_fields raw s then [null_fields_declaration] else []))"

definition has_required_map :: "object_member list \<Rightarrow> bool" where
  "has_required_map = list_ex (required_text ''map['')"

definition has_optional_pointer :: "object_member list \<Rightarrow> bool" where
  "has_optional_pointer = list_ex (\<lambda>f. \<not> of_required f \<and> has_prefix (df_text (of_field f)) ''*'')"

text \<open>The \<open>MarshalJSON\<close> of an object, if it needs one.\<close>

definition object_marshal :: "gen_env \<Rightarrow> object_member list \<Rightarrow> (object_member \<times> schema) list \<Rightarrow> gen_marshal option gen" where
  "object_marshal E fs unions =
     (let slices = filter (required_text ''[]'') fs;
          nulls = preserved_null_fields (map of_field fs) in
      if nulls = [] \<and> (slices = [] \<and> unions = [] \<or> has_required_map fs) then Inr None
      else
        or_panic (if has_required_map fs then Inr [] else map_gen (required_array_union_marshal E) unions) (\<lambda>fills.
          let body = (if has_required_map fs then [] else map (fill_slice \<circ> of_field) slices) @ concat fills in
          Inr (Some
            (if nulls = [] then AliasEncoder body
             else WireEncoder (null_field_wire_fields nulls)
               (body @ map optional_wire_field_assignment nulls @ null_field_marshal_assignments nulls)))))"

text \<open>The methods of an object with an optional pointer come last in the file, if it has a \<open>MarshalJSON\<close>.\<close>

definition object_decls :: "string \<Rightarrow> gen_shape \<Rightarrow> bool \<Rightarrow> bool \<Rightarrow> gen_unmarshal option \<Rightarrow> gen_marshal option \<Rightarrow> gen_code" where
  "object_decls name shape pointer needs_meta unmarshal marshal =
     (let unmarshals = (case unmarshal of None \<Rightarrow> [] | Some u \<Rightarrow> [UnmarshalDecl name u]) in
      case marshal of
        None \<Rightarrow> (TypeDecl name shape # unmarshals, needs_meta, [])
      | Some m \<Rightarrow>
          if pointer then ([TypeDecl name shape], needs_meta, MarshalDecl name m # unmarshals)
          else (TypeDecl name shape # MarshalDecl name m # unmarshals, needs_meta, []))"

definition object_code :: "gen_env \<Rightarrow> string \<Rightarrow> string \<Rightarrow> schema \<Rightarrow> gen_code gen" where
  "object_code E name raw s =
     or_panic (object_members E raw s) (\<lambda>fs.
     or_panic (map_gen (required_array_union E) fs) (\<lambda>unions.
     or_panic (deserialize_unmarshal_code (map of_field fs) []) (\<lambda>unmarshal.
     or_panic (object_marshal E fs (concat unions)) (\<lambda>marshal.
       Inr (object_decls name (object_struct raw s fs) (has_optional_pointer fs)
              (''_meta'' \<in> set (sorted_property_names (sc_properties s))) unmarshal marshal)))))"

end
