(* ===== verification/Typegen_Union.thy ===== *)
theory Typegen_Union
  imports Typegen_Object
begin

text \<open>
  The code of unions that are flattened into one struct (union.go), and of those among them
  whose branches are told apart by a required key (required_keys.go), in
  internal/schemagen/typegen.
\<close>

section \<open>Fields of a union\<close>

text \<open>\<open>fieldsByJSON\<close> and \<open>fieldOrder\<close> are one list, in the order in which the names come first.\<close>

record union_field =
  uf_field :: deserialize_field
  uf_schema :: property
  uf_common :: "deserialize_field option"
  uf_variants :: "(string \<times> deserialize_field) list"

type_synonym union_fields = "(string \<times> union_field) list"

definition new_union_field :: "gen_env \<Rightarrow> string \<Rightarrow> property \<Rightarrow> union_field gen" where
  "new_union_field E n prop =
     or_panic
       (if n = ''_meta'' then Inr (meta_field (field_name n) prop)
        else or_panic (schema_type E (Some (snd prop)) False) (new_deserialize_field E n prop))
       (\<lambda>f. Inr \<lparr>uf_field = f, uf_schema = prop, uf_common = None, uf_variants = []\<rparr>)"

definition nullable_union_field :: "deserialize_field \<Rightarrow> deserialize_field \<Rightarrow> (string \<times> gen_type) option" where
  "nullable_union_field a b =
     (if has_prefix (df_text a) ''*'' \<and> trim_prefix (df_text a) ''*'' = df_text b then Some (df_text a, df_code a)
      else if has_prefix (df_text b) ''*'' \<and> trim_prefix (df_text b) ''*'' = df_text a then Some (df_text b, df_code b)
      else None)"

definition set_type :: "string \<Rightarrow> gen_type \<Rightarrow> deserialize_field \<Rightarrow> deserialize_field" where
  "set_type t code f = f\<lparr>df_text := t, df_code := code\<rparr>"

definition merge_union_field :: "gen_env \<Rightarrow> union_field \<Rightarrow> union_field \<Rightarrow> union_field gen" where
  "merge_union_field E existing new =
     (let merged = merge_deserialize_rules (uf_field existing) (uf_field new);
          result = (\<lambda>f. existing\<lparr>uf_field := f\<rparr>) in
      if df_text merged = df_text (uf_field new) then Inr (result merged)
      else case nullable_union_field merged (uf_field new) of
        Some (t, code) \<Rightarrow> Inr (result (set_type t code merged))
      | None \<Rightarrow>
          or_panic (schema_kind E (Some (snd (uf_schema new)))) (\<lambda>kind.
          or_panic (schema_kind E (Some (snd (uf_schema existing)))) (\<lambda>old_kind.
            Inr (result (if kind \<noteq> old_kind \<or> \<not> is_primitive_const_kind kind then set_type ''any'' GAny merged
                         else merged)))))"

text \<open>
  The closure \<open>addField\<close>; \<open>owner\<close> is None for a property of the union itself, and the value of
  the discriminator for one of a branch.
\<close>

definition with_source :: "string option \<Rightarrow> deserialize_field \<Rightarrow> union_field \<Rightarrow> union_field" where
  "with_source owner source f =
     (case owner of
        None \<Rightarrow> f\<lparr>uf_common := Some source\<rparr>
      | Some value \<Rightarrow> f\<lparr>uf_variants := uf_variants f @ [(value, source)]\<rparr>)"

definition add_union_field ::
  "gen_env \<Rightarrow> string \<Rightarrow> string option \<Rightarrow> string \<Rightarrow> property \<Rightarrow> union_fields \<Rightarrow> union_fields gen" where
  "add_union_field E discriminator owner n prop fs =
     (if sc_const (snd prop) \<noteq> None \<or> n = discriminator then Inr fs
      else or_panic (new_union_field E n prop) (\<lambda>new.
        or_panic
          (case map_of fs n of
             None \<Rightarrow> Inr new
           | Some existing \<Rightarrow>
               if n = ''_meta''
               then Inr (existing\<lparr>uf_field := merge_deserialize_rules (uf_field existing) (uf_field new)\<rparr>)
               else merge_union_field E existing new)
          (\<lambda>f. Inr (AList.update n (with_source owner (uf_field new) f) fs))))"

section \<open>Fields a variant requires\<close>

datatype required_kind = RequiredSlice | RequiredArrayUnion | RequiredValue

record required_field =
  rf_value :: string
  rf_field :: deserialize_field
  rf_schema :: property
  rf_common :: bool
  rf_kind :: required_kind

fun constructor_const_branch_to :: "nat \<Rightarrow> gen_env \<Rightarrow> schema option \<Rightarrow> schema option gen" where
  "constructor_const_branch_to 0 E so = Inl Endless"
| "constructor_const_branch_to (Suc n) E so =
     (case so of
        None \<Rightarrow> Inr None
      | Some s \<Rightarrow>
          let ref = (if sc_ref s \<noteq> [] then sc_ref s else wrapped_ref s) in
          if ref \<noteq> [] then constructor_const_branch_to n E (ge_def E (ref_name ref))
          else Inr (case union_branches s of
                      [b] \<Rightarrow> if sc_const b = None \<or> \<not> is_primitive_const_kind (schema_type_name (Some b)) then None else Some b
                    | _ \<Rightarrow> None))"

definition constructor_const_field_name :: "gen_env \<Rightarrow> schema \<Rightarrow> string option gen" where
  "constructor_const_field_name E s =
     or_panic (schema_type E (Some s) False) (\<lambda>(code, t).
     or_panic (constructor_const_branch_to (ge_depth E) E (Some s)) (\<lambda>branch.
       Inr (case branch of
              None \<Rightarrow> None
            | Some b \<Rightarrow>
                if t = [] \<or> has_prefix t ''*'' \<or> t = ''any'' then None else Some (t @ primitive_const_name b))))"

definition needs_discriminatorless_presence_pointer :: "gen_env \<Rightarrow> schema \<Rightarrow> string \<Rightarrow> bool gen" where
  "needs_discriminatorless_presence_pointer E s t =
     (if t = [] \<or> has_prefix t ''*'' \<or> has_prefix t ''[]'' then Inr False
      else or_panic (constructor_const_field_name E s) (\<lambda>name. Inr (name = None)))"

text \<open>What one required property adds: a field for the marshaler, or its name for a presence pointer.\<close>

definition required_property ::
  "gen_env \<Rightarrow> string \<Rightarrow> string \<Rightarrow> string \<Rightarrow> property \<Rightarrow> (required_field list \<times> string list) gen" where
  "required_property E discriminator value n prop =
     or_panic (schema_type E (Some (snd prop)) False) (\<lambda>typ.
     or_panic (new_deserialize_field E n prop typ) (\<lambda>f.
       let entry = (\<lambda>kind. \<lparr>rf_value = value, rf_field = f, rf_schema = prop, rf_common = False, rf_kind = kind\<rparr>) in
       if has_prefix (snd typ) ''[]'' then Inr ([entry RequiredSlice], [])
       else if discriminator = [] then
         or_panic (needs_discriminatorless_presence_pointer E (snd prop) (snd typ)) (\<lambda>presence.
           Inr ([], if presence then [n] else []))
       else
         or_panic (if has_prefix (snd typ) ''*'' then Inr None else constructor_array_union_schema E (snd prop)) (\<lambda>union.
           Inr ([entry (if union = None then RequiredValue else RequiredArrayUnion)], []))))"

text \<open>The state of the loop over the branches.\<close>

record union_state =
  us_fields :: union_fields
  us_required :: "required_field list"
  us_counted :: "string list"
  us_presence :: "string list"

definition branch_property ::
  "gen_env \<Rightarrow> string \<Rightarrow> string \<Rightarrow> string list \<Rightarrow> properties \<Rightarrow> string \<Rightarrow> union_state \<Rightarrow> union_state gen" where
  "branch_property E discriminator value branch_required ps n st =
     (case map_of ps n of
        None \<Rightarrow> Inl (GenPanic NilPointer)
      | Some prop \<Rightarrow>
          or_panic
            (if n \<in> set branch_required \<and> sc_const (snd prop) = None \<and> n \<noteq> discriminator
             then required_property E discriminator value n prop else Inr ([], []))
            (\<lambda>(required, presence).
          or_panic (add_union_field E discriminator (Some value) n prop (us_fields st)) (\<lambda>fs.
            Inr (st\<lparr>us_fields := fs, us_required := us_required st @ required,
                    us_presence := us_presence st @ presence\<rparr>))))"

definition union_branch :: "gen_env \<Rightarrow> string \<Rightarrow> schema \<Rightarrow> union_state \<Rightarrow> union_state gen" where
  "union_branch E discriminator b st =
     or_panic (variant_const E discriminator b) (\<lambda>value.
     or_panic (variant_required E b) (\<lambda>branch_required.
     or_panic (variant_properties E b) (\<lambda>ps.
       each (branch_property E discriminator value branch_required ps) (sorted_property_names ps)
         (st\<lparr>us_counted := us_counted st @ branch_required\<rparr>))))"

text \<open>The required lists of the union itself.\<close>

definition common_required :: "gen_env \<Rightarrow> properties \<Rightarrow> string \<Rightarrow> required_field list gen" where
  "common_required E ps n =
     (case map_of ps n of
        None \<Rightarrow> Inr []
      | Some prop \<Rightarrow>
          or_panic (schema_type E (Some (snd prop)) False) (\<lambda>typ.
            if has_prefix (snd typ) ''[]'' then
              or_panic (new_deserialize_field E n prop typ) (\<lambda>f.
                Inr [\<lparr>rf_value = [], rf_field = f, rf_schema = prop, rf_common = True, rf_kind = RequiredSlice\<rparr>])
            else Inr []))"

definition is_required_in_all_variants :: "string list \<Rightarrow> string list \<Rightarrow> nat \<Rightarrow> string \<Rightarrow> bool" where
  "is_required_in_all_variants parent_required counted branch_count n =
     (n \<in> set parent_required \<or> count_list counted n = branch_count)"

section \<open>Values of one type in a field of another\<close>

definition convert_union_field_value :: "string \<Rightarrow> string \<Rightarrow> gen_expr \<Rightarrow> gen_expr gen" where
  "convert_union_field_value field_type value_type e =
     (if field_type = value_type \<or> field_type = [] \<or> field_type = ''any'' \<or> value_type = [] then Inr e
      else if has_prefix field_type ''*'' then
        (let goal = trim_prefix field_type ''*'' in
         Inr (if has_prefix value_type ''*'' then EPointerOrNil goal (trim_prefix value_type ''*'') e
              else EPointerTo goal value_type e))
      else if has_prefix value_type ''*'' then Inl (GenPanic (NullableAssigned value_type field_type))
      else Inr (EConvert field_type e))"

definition assign_union_field :: "string \<Rightarrow> string \<Rightarrow> string \<Rightarrow> gen_expr gen" where
  "assign_union_field field_type param_type param_name =
     (if field_type = ''*'' @ param_type then Inr (EAddr (EVar param_name))
      else convert_union_field_value field_type param_type (EVar param_name))"

section \<open>Decoding a field that the variants decode differently\<close>

definition same_deserialize_field :: "deserialize_field \<Rightarrow> deserialize_field \<Rightarrow> bool" where
  "same_deserialize_field a b =
     (df_text a = df_text b \<and> df_item_text a = df_item_text b
      \<and> df_default_on_error a = df_default_on_error b \<and> df_skip_invalid a = df_skip_invalid b
      \<and> df_preserve_null a = df_preserve_null b \<and> df_enum a = df_enum b
      \<and> (case (df_validator a, df_validator b) of
           (None, None) \<Rightarrow> True
         | (Some v, Some w) \<Rightarrow> iv_discriminator v = iv_discriminator w \<and> iv_values v = iv_values w
         | _ \<Rightarrow> False))"

definition union_field_sources :: "union_field \<Rightarrow> deserialize_field list" where
  "union_field_sources f =
     (case uf_common f of None \<Rightarrow> [] | Some c \<Rightarrow> [c]) @ map snd (uf_variants f)"

definition union_field_needs_variant_unmarshal :: "union_field \<Rightarrow> bool" where
  "union_field_needs_variant_unmarshal f =
     (if df_preserve_null (uf_field f) \<and> uf_common f = None then True
      else if \<not> needs_deserialize_unmarshal (uf_field f) then False
      else case union_field_sources f of
        s # s' # rest \<Rightarrow> list_ex (\<lambda>t. \<not> same_deserialize_field s t) (s' # rest)
      | _ \<Rightarrow> False)"

definition union_field_source :: "union_field \<Rightarrow> string \<Rightarrow> deserialize_field option" where
  "union_field_source f value =
     (case find (\<lambda>(v, s). v = value) (uf_variants f) of
        Some (v, s) \<Rightarrow> Some s
      | None \<Rightarrow> uf_common f)"

definition value_label :: "(string \<times> string) list \<Rightarrow> string \<Rightarrow> case_label" where
  "value_label const_names value =
     (if const_name const_names value \<noteq> [] then ConstLabel (const_name const_names value) else LitLabel value)"

definition variant_case ::
  "union_field \<Rightarrow> (string \<times> string) list \<Rightarrow> string \<Rightarrow> (case_label option \<times> gen_action) list gen" where
  "variant_case f const_names value =
     (case union_field_source f value of
        None \<Rightarrow> Inr []
      | Some source \<Rightarrow>
          or_panic (deserialize_variant_field_code source
              (convert_union_field_value (df_text (uf_field f)) (df_text source))) (\<lambda>code.
            Inr [(if value = [] then None else Some (value_label const_names value),
                  preserve_null_unmarshal_code source code)]))"

text \<open>The default case is emitted last.\<close>

definition discriminator_union_field_unmarshal ::
  "union_field \<Rightarrow> string \<Rightarrow> string list \<Rightarrow> (string \<times> string) list \<Rightarrow> gen_action gen" where
  "discriminator_union_field_unmarshal f discriminator_go values const_names =
     or_panic (map_gen (variant_case f const_names) (once values)) (\<lambda>cases.
       Inr (BySwitch discriminator_go
         (filter (\<lambda>c. fst c \<noteq> None) (concat cases) @ filter (\<lambda>c. fst c = None) (concat cases))))"

section \<open>Encoding\<close>

definition first_of_name :: "required_field list \<Rightarrow> required_field list" where
  "first_of_name rs =
     rev (foldl (\<lambda>seen r. if df_go (rf_field r) \<in> set (map (df_go \<circ> rf_field) seen) then seen else r # seen) [] rs)"

definition array_union_field_assignment :: "gen_env \<Rightarrow> deserialize_field \<Rightarrow> property \<Rightarrow> gen_emit gen" where
  "array_union_field_assignment E f prop =
     or_panic (constructor_array_union_schema E (snd prop)) (\<lambda>union. case union of
       None \<Rightarrow> Inr (SendAlways (df_go f))
     | Some u \<Rightarrow>
         or_panic (empty_array_union E (df_text f) u) (\<lambda>empty.
           Inr (case empty of None \<Rightarrow> SendAlways (df_go f) | Some eu \<Rightarrow> SendFilledOptions (df_go f) eu)))"

definition marshal_field_assignment :: "gen_env \<Rightarrow> required_field \<Rightarrow> gen_emit gen" where
  "marshal_field_assignment E r =
     (case rf_kind r of
        RequiredSlice \<Rightarrow> Inr (SendFilled (df_go (rf_field r)) (df_code (rf_field r)))
      | RequiredArrayUnion \<Rightarrow> array_union_field_assignment E (rf_field r) (rf_schema r)
      | RequiredValue \<Rightarrow> Inr (SendAlways (df_go (rf_field r))))"

text \<open>The values of the discriminator that require a field, each with its fields, in order.\<close>

definition required_group :: "gen_env \<Rightarrow> (string \<times> string) list \<Rightarrow> required_field list \<Rightarrow> string \<Rightarrow> (case_label option \<times> gen_emit list) gen" where
  "required_group E const_names rs value =
     or_panic (map_gen (marshal_field_assignment E) (first_of_name (filter (\<lambda>r. rf_value r = value) rs))) (\<lambda>es.
       Inr (Some (if const_name const_names value \<noteq> [] then ConstLabel (const_name const_names value) else LitLabel []), es))"

definition null_case ::
  "(string \<times> string) list \<Rightarrow> union_fields \<Rightarrow> deserialize_field list \<Rightarrow> string \<Rightarrow> (case_label option \<times> gen_emit list) list" where
  "null_case const_names fs nulls value =
     (let kept = filter (\<lambda>f. case map_of fs (df_json f) of
          None \<Rightarrow> False
        | Some uf \<Rightarrow> (case union_field_source uf value of Some source \<Rightarrow> df_preserve_null source | None \<Rightarrow> False)) nulls in
      if kept = [] then []
      else [(if const_name const_names value \<noteq> [] then Some (ConstLabel (const_name const_names value)) else None,
             null_field_marshal_assignments kept)])"

definition discriminator_union_marshal ::
  "gen_env \<Rightarrow> string \<Rightarrow> required_field list \<Rightarrow> (string \<times> string) list \<Rightarrow> deserialize_field list \<Rightarrow> union_fields
     \<Rightarrow> string list \<Rightarrow> gen_marshal gen" where
  "discriminator_union_marshal E discriminator required const_names nulls fs values =
     (let listed = map rf_field (first_of_name required);
          ordered = listed @ filter (\<lambda>f. df_go f \<notin> set (map df_go listed)) nulls;
          own = filter (\<lambda>r. \<not> rf_common r) required in
      or_panic (map_gen (marshal_field_assignment E) (first_of_name (filter rf_common required))) (\<lambda>common.
      or_panic (map_gen (required_group E const_names own) (once (map rf_value own))) (\<lambda>groups.
        let null_cases = concat (map (null_case const_names fs nulls) values) in
        Inr (WireEncoder (map wire_field ordered)
          (map optional_wire_field_assignment ordered @ common
           @ [SwitchEmit (field_name discriminator) groups]
           @ (if null_cases = [] then [] else [SwitchEmit (field_name discriminator) null_cases]))))))"

definition shared_assignment :: "gen_env \<Rightarrow> string list \<Rightarrow> string list \<Rightarrow> nat \<Rightarrow> required_field \<Rightarrow> gen_emit gen" where
  "shared_assignment E names common branch_count r =
     (if df_go (rf_field r) \<in> set common \<or> count_list names (df_go (rf_field r)) = branch_count
      then marshal_field_assignment E r
      else Inr (SendIf IfNotNil (df_go (rf_field r))))"

definition discriminatorless_union_marshal :: "gen_env \<Rightarrow> required_field list \<Rightarrow> nat \<Rightarrow> gen_marshal gen" where
  "discriminatorless_union_marshal E required branch_count =
     (let names = map (df_go \<circ> rf_field) required;
          common = map (df_go \<circ> rf_field) (filter rf_common required);
          ordered = sort_key (df_json \<circ> rf_field) (first_of_name required) in
      or_panic (map_gen (shared_assignment E names common branch_count) ordered) (\<lambda>es.
        Inr (WireEncoder (map (wire_field \<circ> rf_field) ordered) es)))"

section \<open>Unions told apart by a required key\<close>

fun distinct_keys :: "gen_env \<Rightarrow> schema list \<Rightarrow> string list \<Rightarrow> bool gen" where
  "distinct_keys E [] seen = Inr True"
| "distinct_keys E (b # bs) seen =
     or_panic (variant_required E b) (\<lambda>required. case required of
       [key] \<Rightarrow>
         if key \<in> set seen then Inr False
         else or_panic (variant_properties E b) (\<lambda>ps. case map_of ps key of
             None \<Rightarrow> Inr False
           | Some prop \<Rightarrow>
               if sc_const (snd prop) \<noteq> None \<or> nullable_schema (snd prop) \<noteq> None then Inr False
               else distinct_keys E bs (key # seen))
     | _ \<Rightarrow> Inr False)"

definition has_required_key_branches :: "gen_env \<Rightarrow> schema \<Rightarrow> bool gen" where
  "has_required_key_branches E s =
     (if length (sc_any_of s) < 2 \<or> sc_required s \<noteq> [] \<or> sc_properties s \<noteq> [] then Inr False
      else distinct_keys E (sc_any_of s) [])"

fun allows_json_null_to :: "nat \<Rightarrow> gen_env \<Rightarrow> schema option \<Rightarrow> bool gen" where
  "allows_json_null_to 0 E so = Inl Endless"
| "allows_json_null_to (Suc n) E so =
     (case so of
        None \<Rightarrow> Inr True
      | Some s \<Rightarrow>
          if sc_ref s \<noteq> [] then allows_json_null_to n E (ge_def E (ref_name (sc_ref s)))
          else (case sc_all_of s of
            [a] \<Rightarrow> allows_json_null_to n E (Some a)
          | _ \<Rightarrow> Inr (nullable_schema s \<noteq> None \<or> schema_type_name so = ''null''
                      \<or> schema_type_name so = [] \<and> union_branches s = [])))"

definition allows_json_null :: "gen_env \<Rightarrow> schema option \<Rightarrow> bool gen" where
  "allows_json_null E so = allows_json_null_to (ge_depth E) E so"

fun resolved_object_schema_to :: "nat \<Rightarrow> gen_env \<Rightarrow> schema option \<Rightarrow> schema option gen" where
  "resolved_object_schema_to 0 E so = Inl Endless"
| "resolved_object_schema_to (Suc n) E so =
     (case so of
        None \<Rightarrow> Inr None
      | Some s \<Rightarrow>
          if sc_ref s \<noteq> [] then resolved_object_schema_to n E (ge_def E (ref_name (sc_ref s)))
          else (case sc_all_of s of
            [a] \<Rightarrow> resolved_object_schema_to n E (Some a)
          | _ \<Rightarrow> Inr (if is_object_schema s then Some s else None)))"

text \<open>A missing entry of \<open>fieldsByJSON\<close> reads as the zero field.\<close>

definition no_field :: deserialize_field where
  "no_field =
     \<lparr>df_unstructured = False, df_json = [], df_go = [], df_code = GAny, df_text = [], df_item_code = None,
      df_item_text = [], df_validator = None, df_enum = [], df_default_on_error = False,
      df_skip_invalid = False, df_preserve_null = False\<rparr>"

definition field_of :: "union_fields \<Rightarrow> string \<Rightarrow> deserialize_field" where
  "field_of fs n = (case map_of fs n of None \<Rightarrow> no_field | Some f \<Rightarrow> uf_field f)"

text \<open>The only required name of a branch; \<open>hasRequiredKeyBranches\<close> has checked that there is one.\<close>

definition branch_key :: "gen_env \<Rightarrow> schema \<Rightarrow> string gen" where
  "branch_key E b =
     or_panic (variant_required E b) (\<lambda>required.
       case required of key # _ \<Rightarrow> Inr key | [] \<Rightarrow> Inl (GenPanic IndexOutOfRange))"

definition carrier_fields_sent :: "gen_env \<Rightarrow> union_fields \<Rightarrow> schema \<Rightarrow> (string \<times> gen_field list) gen" where
  "carrier_fields_sent E fs b =
     or_panic (branch_key E b) (\<lambda>key.
     or_panic (variant_properties E b) (\<lambda>ps.
       Inr (df_go (field_of fs key),
            map (\<lambda>n. \<lparr>gf_name = df_go (field_of fs n), gf_type = df_code (field_of fs n), gf_json = n,
                      gf_omitempty = (n \<noteq> key \<and> n \<noteq> ''_meta''), gf_omitzero = (n = ''_meta'')\<rparr>)
              (sorted_property_names ps))))"

definition required_key_union_marshal :: "gen_env \<Rightarrow> schema \<Rightarrow> union_fields \<Rightarrow> gen_marshal gen" where
  "required_key_union_marshal E s fs =
     or_panic (map_gen (carrier_fields_sent E fs) (sc_any_of s)) (\<lambda>cases. Inr (CarrierEncoder cases))"

definition carrier_field :: "gen_env \<Rightarrow> union_fields \<Rightarrow> properties \<Rightarrow> string \<Rightarrow> string \<Rightarrow> (string \<times> bool \<times> gen_action) gen" where
  "carrier_field E fs ps key n =
     (case map_of ps n of
        None \<Rightarrow> Inl (GenPanic NilPointer)
      | Some prop \<Rightarrow>
          or_panic (new_union_field E n prop) (\<lambda>new.
            let source = (uf_field new)\<lparr>df_go := df_go (field_of fs n),
                  df_default_on_error := schema_bool_extra (Some (snd prop)) ''x-deserialize-default-on-error''\<rparr>;
                goal = df_text (field_of fs n) in
            or_panic (deserialize_variant_field_code source (\<lambda>e.
                or_panic (convert_union_field_value goal (df_text source) e) (\<lambda>converted.
                  Inr (if goal = ''*'' @ df_text source then EAddr e else converted)))) (\<lambda>code.
              Inr (df_go source, n \<noteq> key, preserve_null_unmarshal_code source code))))"

definition non_null_name :: "gen_env \<Rightarrow> schema \<Rightarrow> string \<Rightarrow> string list gen" where
  "non_null_name E object n =
     or_panic (allows_json_null E (map_of (sc_properties object) n)) (\<lambda>nullable. Inr (if nullable then [] else [n]))"

definition carrier_requirement :: "gen_env \<Rightarrow> schema option \<Rightarrow> (string list \<times> string list) option gen" where
  "carrier_requirement E so =
     or_panic (resolved_object_schema_to (ge_depth E) E so) (\<lambda>found. case found of
       None \<Rightarrow> Inr None
     | Some object \<Rightarrow>
         or_panic (map_gen (non_null_name E object) (sc_required object)) (\<lambda>non_null.
           Inr (Some (sc_required object, concat non_null))))"

definition carrier_case_of :: "gen_env \<Rightarrow> union_fields \<Rightarrow> schema \<Rightarrow> carrier_case gen" where
  "carrier_case_of E fs b =
     or_panic (branch_key E b) (\<lambda>key.
     or_panic (variant_properties E b) (\<lambda>ps.
     or_panic (allows_json_null E (map_option snd (map_of ps key))) (\<lambda>nullable.
     or_panic (carrier_requirement E (map_option snd (map_of ps key))) (\<lambda>require.
     or_panic (map_gen (carrier_field E fs ps key) (sorted_property_names ps)) (\<lambda>codes.
       Inr \<lparr>cc_key = key, cc_field = df_go (field_of fs key), cc_non_null = (\<not> nullable),
            cc_require = require, cc_fields = codes\<rparr>)))))"

definition required_key_union_unmarshal :: "gen_env \<Rightarrow> schema \<Rightarrow> union_fields \<Rightarrow> gen_unmarshal gen" where
  "required_key_union_unmarshal E s fs =
     or_panic (map_gen (carrier_case_of E fs) (sc_any_of s)) (\<lambda>cases.
       Inr (CarrierDecoder (map (\<lambda>n. (df_go (field_of fs n), n)) (sort (map fst fs))) cases))"

section \<open>Constructors\<close>

definition union_constructor_name :: "gen_env \<Rightarrow> string \<Rightarrow> schema \<Rightarrow> string \<Rightarrow> string" where
  "union_constructor_name E union_name b value =
     (let ref = go_definition_name E (variant_ref b);
          titled = pascal_identifier (sc_title b);
          valued = (if titled = [] \<and> value \<noteq> [] then const_value_name (ValString value) else titled);
          base = (if valued = [] \<and> ref \<noteq> [] then trim_prefix ref union_name else valued) @ union_name in
      if ref \<noteq> [] \<and> base = ref then ''New'' @ base else base)"

fun union_constructor_names :: "gen_env \<Rightarrow> string \<Rightarrow> (schema \<times> string) list \<Rightarrow> string list \<Rightarrow> string list" where
  "union_constructor_names E union_name [] used = []"
| "union_constructor_names E union_name ((b, value) # bs) used =
     (case unique_const_name (union_constructor_name E union_name b value) used of
        (c, used') \<Rightarrow> c # union_constructor_names E union_name bs used')"

definition merged_required :: "string list \<Rightarrow> string list \<Rightarrow> string list" where
  "merged_required = add_missing"

text \<open>The required names that become parameters, and those that are constants.\<close>

definition constructor_parameter :: "gen_env \<Rightarrow> properties \<Rightarrow> string \<Rightarrow> string list \<times> (string \<times> string) list \<Rightarrow> (string list \<times> (string \<times> string) list) gen" where
  "constructor_parameter E ps n st =
     (case map_of ps n of
        None \<Rightarrow> Inr st
      | Some prop \<Rightarrow>
          if sc_const (snd prop) \<noteq> None then Inr st
          else or_panic (constructor_const_field_name E (snd prop)) (\<lambda>name.
            Inr (case name of
                   Some c \<Rightarrow> (fst st, (n, c) # snd st)
                 | None \<Rightarrow> (fst st @ [n], snd st))))"

text \<open>A parameter with its type and what the constructor does to it first.\<close>

definition parameter_code ::
  "gen_env \<Rightarrow> string \<Rightarrow> properties \<Rightarrow> (string \<rightharpoonup> string) \<Rightarrow> string \<Rightarrow> (string \<times> string \<times> deserialize_field \<times> gen_emit list) gen" where
  "parameter_code E discriminator ps param_names n =
     (case map_of ps n of
        None \<Rightarrow> Inl (GenPanic NilPointer)
      | Some prop \<Rightarrow>
          or_panic (new_union_field E n prop) (\<lambda>new.
            let f = uf_field new; p = (case param_names n of Some p \<Rightarrow> p | None \<Rightarrow> []) in
            or_panic (if has_prefix (df_text f) ''*'' then Inr None else constructor_array_union_schema E (snd prop)) (\<lambda>union.
            or_panic (case union of None \<Rightarrow> Inr None | Some u \<Rightarrow> empty_array_union E (df_text f) u) (\<lambda>empty.
              Inr (n, p, f,
                (if discriminator = [] \<and> has_prefix (df_text f) ''[]'' then [FillSlice p (df_code f)] else [])
                @ (case empty of None \<Rightarrow> [] | Some eu \<Rightarrow> [FillOptions p eu]))))))"

definition literal_field ::
  "gen_env \<Rightarrow> string \<Rightarrow> string \<Rightarrow> properties \<Rightarrow> string list \<Rightarrow> (string \<times> string) list \<Rightarrow> (string \<times> string \<times> string) list
     \<Rightarrow> union_fields \<Rightarrow> string \<Rightarrow> (string \<times> gen_expr) list gen" where
  "literal_field E union_name discriminator ps required const_fields params fs n =
     (case map_of ps n of
        None \<Rightarrow> Inl (GenPanic NilPointer)
      | Some prop \<Rightarrow>
          if sc_const (snd prop) \<noteq> None \<or> n \<notin> set required then Inr []
          else
            (let go = (if n = discriminator then field_name discriminator else df_go (field_of fs n));
                 t = (if n = discriminator then discriminator_type_name E union_name else df_text (field_of fs n)) in
             case map_of const_fields n of
               Some c \<Rightarrow>
                 or_panic (new_union_field E n prop) (\<lambda>source.
                 or_panic (convert_union_field_value t (df_text (uf_field source)) (EConst c)) (\<lambda>e. Inr [(go, e)]))
             | None \<Rightarrow>
                 (case map_of params n of
                    Some (p, param_type) \<Rightarrow> or_panic (assign_union_field t param_type p) (\<lambda>e. Inr [(go, e)])
                  | None \<Rightarrow> or_panic (assign_union_field t [] (parameter_name n)) (\<lambda>e. Inr [(go, e)]))))"

definition union_constructor_code ::
  "gen_env \<Rightarrow> string \<Rightarrow> string \<Rightarrow> properties \<Rightarrow> string list \<Rightarrow> union_fields \<Rightarrow> (string \<times> string) list
     \<Rightarrow> schema \<times> string \<times> string \<Rightarrow> gen_decl gen" where
  "union_constructor_code E union_name discriminator parent_properties parent_required fs const_names branch =
     (case branch of (b, value, constructor_name) \<Rightarrow>
       or_panic (variant_properties E b) (\<lambda>own.
       or_panic (variant_required E b) (\<lambda>own_required.
       let ps = own @ parent_properties; required = merged_required parent_required own_required in
       or_panic (each (constructor_parameter E ps) required ([], [])) (\<lambda>(param_json, const_fields).
       or_panic (map_gen (parameter_code E discriminator ps (unique_parameter_names param_json)) param_json) (\<lambda>params.
       or_panic (map_gen (literal_field E union_name discriminator ps required const_fields
           (map (\<lambda>(n, p, f, es). (n, p, df_text f)) params) fs) (sorted_property_names ps)) (\<lambda>literals.
         Inr (FuncDecl
           \<lparr>gc_name = constructor_name, gc_params = map (\<lambda>(n, p, f, es). (p, df_code f)) params,
            gc_prelude = concat (map (\<lambda>(n, p, f, es). es) params), gc_type = union_name,
            gc_fields = (if const_name const_names value \<noteq> [] \<and> discriminator \<noteq> []
                         then [(field_name discriminator, EConst (const_name const_names value))] else [])
                        @ concat literals\<rparr>)))))))"

section \<open>The union\<close>

definition needs_omit_zero :: "gen_env \<Rightarrow> schema \<Rightarrow> bool gen" where
  "needs_omit_zero E s =
     (let ref = (if sc_ref s \<noteq> [] then sc_ref s else wrapped_ref s);
          carrier = (\<lambda>d. or_else (is_object_schema d)
            (or_panic (is_discriminator_union E d) (\<lambda>union. Inr (union \<or> is_array_union d)))) in
      if ref \<noteq> [] then
        (case ge_def E (ref_name ref) of None \<Rightarrow> Inl (GenPanic (UnresolvedRef ref)) | Some def \<Rightarrow> carrier def)
      else carrier s)"

text \<open>The go names of the fields, in the fields and in their sources.\<close>

definition with_go_name :: "(string \<rightharpoonup> string) \<Rightarrow> string \<times> union_field \<Rightarrow> string \<times> union_field" where
  "with_go_name go_names nf =
     (let go = (case go_names (fst nf) of Some g \<Rightarrow> g | None \<Rightarrow> []); f = snd nf in
      (fst nf, f\<lparr>uf_field := (uf_field f)\<lparr>df_go := go\<rparr>,
                uf_common := map_option (\<lambda>s. s\<lparr>df_go := go\<rparr>) (uf_common f),
                uf_variants := map (\<lambda>(v, s). (v, s\<lparr>df_go := go\<rparr>)) (uf_variants f)\<rparr>))"

definition with_presence :: "string list \<Rightarrow> string \<times> union_field \<Rightarrow> string \<times> union_field" where
  "with_presence presence nf =
     (let f = uf_field (snd nf) in
      if fst nf \<notin> set presence \<or> df_text f = [] \<or> has_prefix (df_text f) ''*'' then nf
      else (fst nf, (snd nf)\<lparr>uf_field := f\<lparr>df_code := GPtr (df_code f), df_text := ''*'' @ df_text f\<rparr>\<rparr>))"

definition settle_required :: "union_fields \<Rightarrow> required_field \<Rightarrow> required_field" where
  "settle_required fs r =
     (case map_of fs (df_json (rf_field r)) of
        None \<Rightarrow> r
      | Some f \<Rightarrow> r\<lparr>rf_field := (rf_field r)\<lparr>df_go := df_go (uf_field f), df_code := df_code (uf_field f),
                     df_text := df_text (uf_field f)\<rparr>\<rparr>)"

definition union_struct_field :: "gen_env \<Rightarrow> (string \<Rightarrow> bool) \<Rightarrow> string \<times> union_field \<Rightarrow> gen_field gen" where
  "union_struct_field E in_all nf =
     (case nf of (n, f) \<Rightarrow>
       or_panic (and_then (\<not> in_all n) (needs_omit_zero E (snd (uf_schema f)))) (\<lambda>zero.
         let meta = (n = ''_meta'' \<and> df_text (uf_field f) = ''Meta'') in
         Inr \<lparr>gf_name = df_go (uf_field f), gf_type = df_code (uf_field f), gf_json = n,
              gf_omitempty = (\<not> meta \<and> \<not> in_all n), gf_omitzero = (meta \<or> zero)\<rparr>))"

text \<open>All a union becomes, before it is written out.\<close>

record union_parts =
  up_discriminator :: string
  up_type :: string
  up_values :: "string list"
  up_const_names :: "(string \<times> string) list"
  up_fields :: union_fields
  up_required :: "required_field list"
  up_in_all :: "string \<Rightarrow> bool"
  up_reserved :: "string list"

definition common_property :: "gen_env \<Rightarrow> string \<Rightarrow> properties \<Rightarrow> string \<Rightarrow> union_fields \<Rightarrow> union_fields gen" where
  "common_property E discriminator parent n fs =
     (case map_of parent n of
        None \<Rightarrow> Inr fs
      | Some prop \<Rightarrow> add_union_field E discriminator None n prop fs)"

definition discriminator_union_parts :: "gen_env \<Rightarrow> string \<Rightarrow> string \<Rightarrow> schema \<Rightarrow> union_parts gen" where
  "discriminator_union_parts E name raw s =
     (let branches = union_branches s; parent = homed raw (sc_properties s) in
      or_panic (discriminator_field E s branches) (\<lambda>discriminator.
      let discriminator_type = discriminator_type_name E name in
      or_panic (discriminator_const_names E discriminator_type discriminator branches) (\<lambda>const_names.
      or_panic (map_gen (variant_const E discriminator) branches) (\<lambda>values.
      or_panic (each (common_property E discriminator parent) (sorted_property_names parent) []) (\<lambda>fs0.
      or_panic (each (union_branch E discriminator) branches
          \<lparr>us_fields = fs0, us_required = [], us_counted = [], us_presence = []\<rparr>) (\<lambda>st.
      or_panic (map_gen (common_required E parent) (sc_required s)) (\<lambda>common.
      let in_all = is_required_in_all_variants (sc_required s) (us_counted st) (length branches);
          reserved = (if discriminator \<noteq> [] then [field_name discriminator] else [])
            @ (if list_ex (\<lambda>(n, f). df_preserve_null (uf_field f)) (us_fields st) then [''NullFields''] else []);
          ordered = sort_key fst (us_fields st);
          go_names = unique_field_names_with_reserved (map fst ordered) reserved;
          fs = map (with_presence (filter (\<lambda>n. \<not> in_all n) (us_presence st)) \<circ> with_go_name go_names) ordered;
          required = filter (\<lambda>r. \<not> (rf_kind r = RequiredValue \<and> in_all (df_json (rf_field r))))
            (map (settle_required fs) (us_required st @ concat common)) in
      Inr \<lparr>up_discriminator = discriminator, up_type = discriminator_type, up_values = values,
           up_const_names = const_names, up_fields = fs, up_required = required, up_in_all = in_all,
           up_reserved = reserved\<rparr>)))))))"

definition union_struct :: "gen_env \<Rightarrow> union_parts \<Rightarrow> gen_field list gen" where
  "union_struct E u =
     or_panic (map_gen (union_struct_field E (up_in_all u)) (up_fields u)) (\<lambda>fs.
       Inr ((if up_discriminator u \<noteq> []
             then [\<lparr>gf_name = field_name (up_discriminator u), gf_type = GName (up_type u), gf_json = up_discriminator u,
                    gf_omitempty = (\<not> up_in_all u (up_discriminator u)), gf_omitzero = False\<rparr>] else [])
            @ fs @ (if ''NullFields'' \<in> set (up_reserved u) then [null_fields_declaration] else [])))"

definition union_discriminator :: "union_parts \<Rightarrow> gen_decl list" where
  "union_discriminator u =
     (if up_discriminator u = [] then []
      else [TypeDecl (up_type u) (GDefined GString),
            ConstDecl (up_type u)
              (map (\<lambda>v. (const_name (up_const_names u) v, ValString v))
                (filter (\<lambda>v. const_name (up_const_names u) v \<noteq> []) (up_values u)))])"

definition custom_decoder :: "union_parts \<Rightarrow> string \<times> union_field \<Rightarrow> (string \<times> gen_action) list gen" where
  "custom_decoder u nf =
     (if up_discriminator u \<noteq> [] \<and> union_field_needs_variant_unmarshal (snd nf)
      then or_panic (discriminator_union_field_unmarshal (snd nf) (field_name (up_discriminator u)) (up_values u) (up_const_names u))
             (\<lambda>a. Inr [(fst nf, a)])
      else Inr [])"

definition custom_unmarshal :: "union_parts \<Rightarrow> (string \<times> gen_action) list gen" where
  "custom_unmarshal u =
     or_panic (map_gen (custom_decoder u) (up_fields u)) (\<lambda>cs. Inr (concat cs))"

definition union_methods :: "gen_env \<Rightarrow> string \<Rightarrow> schema \<Rightarrow> union_parts \<Rightarrow> gen_decl list gen" where
  "union_methods E name s u =
     (let fs = map (uf_field \<circ> snd) (up_fields u); nulls = preserved_null_fields fs in
      or_panic (custom_unmarshal u) (\<lambda>custom.
      or_panic (deserialize_unmarshal_code fs custom) (\<lambda>unmarshal.
      or_panic (if up_discriminator u = [] then has_required_key_branches E s else Inr False) (\<lambda>carriers.
        if carriers then
          or_panic (required_key_union_marshal E s (up_fields u)) (\<lambda>m.
          or_panic (required_key_union_unmarshal E s (up_fields u)) (\<lambda>d.
            Inr [MarshalDecl name m, UnmarshalDecl name d]))
        else
          or_panic
            (if up_required u = [] \<and> nulls = [] then Inr []
             else or_panic
               (if up_discriminator u \<noteq> []
                then discriminator_union_marshal E (up_discriminator u) (up_required u) (up_const_names u) nulls (up_fields u) (up_values u)
                else discriminatorless_union_marshal E (up_required u) (length (union_branches s)))
               (\<lambda>m. Inr [MarshalDecl name m])) (\<lambda>marshal.
            Inr (marshal @ (case unmarshal of None \<Rightarrow> [] | Some d \<Rightarrow> [UnmarshalDecl name d])))))))"

definition discriminator_union_code :: "gen_env \<Rightarrow> string \<Rightarrow> string \<Rightarrow> schema \<Rightarrow> gen_code gen" where
  "discriminator_union_code E name raw s =
     or_panic (discriminator_union_parts E name raw s) (\<lambda>u.
     or_panic (union_struct E u) (\<lambda>struct.
     let branches = zip (union_branches s) (up_values u) in
     or_panic (map_gen (union_constructor_code E name (up_discriminator u) (homed raw (sc_properties s)) (sc_required s)
         (up_fields u) (up_const_names u))
         (map2 (\<lambda>(b, v) c. (b, v, c)) branches (union_constructor_names E name branches []))) (\<lambda>constructors.
     or_panic (union_methods E name s u) (\<lambda>methods.
       Inr (TypeDecl name (GStruct struct) # union_discriminator u @ constructors @ methods,
            ''_meta'' \<in> set (map fst (up_fields u)), [])))))"

end
