(* ===== verification/Typegen.thy ===== *)
theory Typegen
  imports Typegen_Union Schema_Refs
begin

text \<open>
  The file acp/types_gen.go as a whole (internal/schemagen/typegen/gen.go): the code of one
  definition, chosen by its form, and the code of a document.
\<close>

definition default_code :: "gen_env \<Rightarrow> string \<Rightarrow> schema \<Rightarrow> gen_decl list gen" where
  "default_code E name s =
     or_panic (schema_type E (Some s) False) (\<lambda>(code, t).
     or_panic (requires_container_decoder E t) (\<lambda>container.
     or_panic (and_then (\<not> container) (unstructured_type E t)) (\<lambda>numbers.
       Inr (TypeDecl name (if t = ''json.RawMessage'' then GAlias code else GDefined code)
            # (if numbers then [UnmarshalDecl name PlainDecoder] else [])))))"

definition only_types :: "gen_decl list gen \<Rightarrow> gen_code gen" where
  "only_types ds = or_panic ds (\<lambda>ds. Inr (ds, False, []))"

definition definition_code :: "gen_env \<Rightarrow> string \<Rightarrow> string \<Rightarrow> schema \<Rightarrow> gen_code gen" where
  "definition_code E name raw s =
     or_panic (is_discriminator_union E s) (\<lambda>union.
       if union then discriminator_union_code E name raw s
       else if is_array_union s then only_types (array_union_code E name s)
       else if is_object_schema s then object_code E name raw s
       else if is_string_enum s then Inr (string_enum_code name s, False, [])
       else if is_string_const_enum s then Inr (string_const_enum_code name s, False, [])
       else if primitive_const_union_kind s \<noteq> None then only_types (primitive_const_union_code name s)
       else only_types (default_code E name s))"

definition meta_code :: "gen_decl list" where
  "meta_code = [TypeDecl ''Meta'' (GDefined (GMap GAny)), UnmarshalDecl ''Meta'' PlainDecoder]"

text \<open>The declarations of the file; an empty list stands for no file.\<close>

definition types_file :: "gen_code list \<Rightarrow> gen_decl list" where
  "types_file codes =
     (if list_ex (fst \<circ> snd) codes then meta_code else [])
     @ concat (map fst codes) @ concat (map (snd \<circ> snd) codes)"

definition generate_types :: "document \<Rightarrow> nat \<Rightarrow> gen_decl list gen" where
  "generate_types doc depth =
     (let E = gen_env_of (doc_defs doc) depth in
      or_panic (map_gen (\<lambda>(raw, d). definition_code E (go_definition_name E raw) raw d) (generated_definitions doc)) (\<lambda>codes.
        Inr (types_file codes)))"

end
