(* ===== verification/Typegen_Read.thy ===== *)
theory Typegen_Read
  imports Typegen Go_Types Acp_Constructors
begin

text \<open>
  Reading emitted code as the declarations of Go_Types. A name stands for a type, which for an
  alias is the type it is declared as, and the name of a constant for its value. A form the ACP
  types do not use is read as None.
\<close>

record go_reading =
  gr_type :: "string \<Rightarrow> go_type option"
  gr_const :: "string \<Rightarrow> string option"

section \<open>Types and assignments\<close>

fun read_type :: "go_reading \<Rightarrow> gen_type \<Rightarrow> go_type option" where
  "read_type R GBool = Some TBool"
| "read_type R GString = Some TString"
| "read_type R GFloat64 = Some TFloat64"
| "read_type R GAny = Some TAny"
| "read_type R GRaw = Some TRaw"
| "read_type R (GSigned n) = Some (TSigned n)"
| "read_type R (GUnsigned n) = Some (TUnsigned n)"
| "read_type R (GName x) = gr_type R x"
| "read_type R (GPtr t) = map_option TPtr (read_type R t)"
| "read_type R (GSlice t) = map_option TSlice (read_type R t)"
| "read_type R (GMap t) = map_option TMap (read_type R t)"

text \<open>A type the generator has as an identifier.\<close>

definition read_type_name :: "go_reading \<Rightarrow> string \<Rightarrow> go_type option" where
  "read_type_name R t = (if t = ''string'' then Some TString else gr_type R t)"

text \<open>Whether an expression gives a value or its address. Conversions do not change a value.\<close>

fun takes_address :: "gen_expr \<Rightarrow> bool option" where
  "takes_address (EVar x) = Some False"
| "takes_address (EConst c) = None"
| "takes_address (EAddr e) = (if takes_address e = Some False then Some True else None)"
| "takes_address (EConvert t e) = takes_address e"
| "takes_address (EPointerTo t u e) = (if takes_address e = Some False then Some True else None)"
| "takes_address (EPointerOrNil t u e) = takes_address e"

definition read_conv :: "gen_type \<Rightarrow> go_type \<Rightarrow> gen_expr \<Rightarrow> conv option" where
  "read_conv field_type t e =
     (case takes_address e of
        None \<Rightarrow> None
      | Some address \<Rightarrow>
          Some (if field_type = GAny \<and> t \<noteq> TAny then (if address then BoxAddress t else Box t)
                else if address then Address else Same))"

section \<open>Decoders\<close>

fun read_label :: "go_reading \<Rightarrow> case_label \<Rightarrow> string option" where
  "read_label R (LitLabel s) = Some s"
| "read_label R (ConstLabel c) = gr_const R c"

fun read_all :: "('a \<Rightarrow> 'b option) \<Rightarrow> 'a list \<Rightarrow> 'b list option" where
  "read_all f [] = Some []"
| "read_all f (x # xs) =
     (case f x of None \<Rightarrow> None | Some y \<Rightarrow> map_option (\<lambda>ys. y # ys) (read_all f xs))"

fun read_check :: "go_reading \<Rightarrow> item_check \<Rightarrow> item_filter option" where
  "read_check R NoCheck = Some AnyItem"
| "read_check R (CheckItem ls) = map_option ItemIn (read_all (read_label R) ls)"
| "read_check R (CheckItemField g ls) = map_option (ItemField g) (read_all (read_label R) ls)"

fun read_action :: "go_reading \<Rightarrow> gen_type \<Rightarrow> gen_action \<Rightarrow> member_action option"
  and read_cases :: "go_reading \<Rightarrow> gen_type \<Rightarrow> (case_label option \<times> gen_action) list \<Rightarrow> (string \<times> member_action) list option" where
  "read_action R ft IgnoreErrors = Some Tolerate"
| "read_action R ft ReturnErrors = None"
| "read_action R ft (DecodeFresh t tolerant e) =
     (case read_type R t of
        None \<Rightarrow> None
      | Some t' \<Rightarrow> map_option (if tolerant then TryInto t' else Into t') (read_conv ft t' e))"
| "read_action R ft (DecodeEnum t vs e) =
     (case read_type_name R t of None \<Rightarrow> None | Some t' \<Rightarrow> map_option (TryEnum t' vs) (read_conv ft t' e))"
| "read_action R ft (DecodeItems t check tolerant non_nil e) =
     (case (read_type R t, read_check R check) of
        (Some t', Some flt) \<Rightarrow>
          if tolerant then map_option (TryItems t' flt non_nil) (read_conv ft (TSlice t') e) else None
      | _ \<Rightarrow> None)"
| "read_action R ft (DecodeAnyItems t check e a) = None"
| "read_action R ft (NullOrElse n a) = map_option NullOr (read_action R ft a)"
| "read_action R ft (BySwitch d cs) = map_option (SwitchOn d) (read_cases R ft cs)"
| "read_cases R ft [] = Some []"
| "read_cases R ft ((l, a) # cs) =
     (case (Option.bind l (read_label R), read_action R ft a, read_cases R ft cs) of
        (Some s, Some m, Some ms) \<Rightarrow> Some ((s, m) # ms)
      | _ \<Rightarrow> None)"

definition emitted_type :: "gen_field list \<Rightarrow> string \<Rightarrow> gen_type" where
  "emitted_type fs g = (case find (\<lambda>f. gf_name f = g) fs of Some f \<Rightarrow> gf_type f | None \<Rightarrow> GAny)"

text \<open>
  The decoder of carriers and the one of an array union are those Go_Decode has for the only
  types of the ACP that have one; what the generator must emit for them is written out.
\<close>

definition mcp_carriers :: gen_unmarshal where
  "mcp_carriers =
     CarrierDecoder [(''Meta'', ''_meta''), (''Error'', ''error''), (''Result'', ''result'')]
       [\<lparr>cc_key = ''result'', cc_field = ''Result'', cc_non_null = False, cc_require = None,
         cc_fields = [(''Meta'', True, DecodeFresh (GName ''Meta'') True (EVar ''value'')),
                      (''Result'', False, DecodeFresh GAny False (EAddr (EVar ''value'')))]\<rparr>,
        \<lparr>cc_key = ''error'', cc_field = ''Error'', cc_non_null = True,
         cc_require = Some ([''code'', ''message''], [''code'', ''message'']),
         cc_fields = [(''Meta'', True, DecodeFresh (GName ''Meta'') True (EVar ''value'')),
                      (''Error'', False, DecodeFresh (GName ''McpError'') False (EAddr (EVar ''value'')))]\<rparr>]"

definition select_options :: gen_unmarshal where
  "select_options =
     ArrayUnionDecoder
       \<lparr>au_flat_type = ''UngroupedSessionConfigSelectOptions'', au_flat_field = ''Ungrouped'',
        au_group_type = ''GroupedSessionConfigSelectOptions'', au_group_field = ''Groups'',
        au_probe_field = ''Group'', au_probe_json = ''group'', au_presence = True\<rparr>"

definition read_unmarshal :: "go_reading \<Rightarrow> gen_field list \<Rightarrow> gen_unmarshal \<Rightarrow> unmarshaler option" where
  "read_unmarshal R fs u =
     (case u of
        PlainDecoder \<Rightarrow> Some PlainNumbers
      | AliasDecoder acts \<Rightarrow>
          map_option ByAlias (read_all (\<lambda>(g, n, a).
            map_option (\<lambda>m. (g, n, m)) (read_action R (emitted_type fs g) a)) acts)
      | CarrierDecoder raws cases \<Rightarrow> if u = mcp_carriers then Some McpCarriers else None
      | ArrayUnionDecoder code \<Rightarrow> if u = select_options then Some FlatOrGroups else None)"

section \<open>Encoders\<close>

definition select_empty :: empty_union where
  "select_empty =
     \<lparr>eu_fields = [''Ungrouped'', ''Groups''], eu_flat_field = ''Ungrouped'',
      eu_flat_type = ''UngroupedSessionConfigSelectOptions'', eu_type = ''SessionConfigSelectOptions''\<rparr>"

fun read_emit :: "go_reading \<Rightarrow> gen_emit \<Rightarrow> emit option"
  and read_emit_cases :: "go_reading \<Rightarrow> (case_label option \<times> gen_emit list) list \<Rightarrow> (string \<times> emit list) list option"
  and read_emits :: "go_reading \<Rightarrow> gen_emit list \<Rightarrow> emit list option" where
  "read_emit R (FillSlice g t) = Some (NonNil g)"
| "read_emit R (FillOptions g eu) = (if eu = select_empty then Some (NonNilOptions g) else None)"
| "read_emit R (SendIf c g) =
     Some (case c of IfNotNil \<Rightarrow> SendNonNil g | IfNotEmpty \<Rightarrow> SendNonEmpty g | IfNotZero \<Rightarrow> SendNonZero g)"
| "read_emit R (SendAlways g) = Some (Send g)"
| "read_emit R (SendFilled g t) = Some (SendSlice g)"
| "read_emit R (SendFilledOptions g eu) = (if eu = select_empty then Some (SendOptions g) else None)"
| "read_emit R (SendNullIfListed g n) = Some (SendNull g n)"
| "read_emit R (SwitchEmit d cs) = map_option (EmitSwitch d) (read_emit_cases R cs)"
| "read_emit_cases R [] = Some []"
| "read_emit_cases R ((l, es) # cs) =
     (case (Option.bind l (read_label R), read_emits R es, read_emit_cases R cs) of
        (Some s, Some es', Some cs') \<Rightarrow> Some ((s, es') # cs')
      | _ \<Rightarrow> None)"
| "read_emits R [] = Some []"
| "read_emits R (e # es) =
     (case (read_emit R e, read_emits R es) of (Some e', Some es') \<Rightarrow> Some (e' # es') | _ \<Rightarrow> None)"

definition read_field :: "go_reading \<Rightarrow> gen_field \<Rightarrow> go_field option" where
  "read_field R f =
     map_option (\<lambda>t. \<lparr>fd_name = gf_name f, fd_type = t, fd_json = gf_json f, fd_omitempty = gf_omitempty f,
       fd_omitzero = gf_omitzero f\<rparr>) (read_type R (gf_type f))"

definition mcp_sent :: gen_marshal where
  "mcp_sent =
     (let sent = (\<lambda>g t j. \<lparr>gf_name = g, gf_type = t, gf_json = j, gf_omitempty = False, gf_omitzero = (j = ''_meta'')\<rparr>) in
      CarrierEncoder
       [(''Result'', [sent ''Meta'' (GName ''Meta'') ''_meta'', sent ''Result'' (GPtr GAny) ''result'']),
        (''Error'', [sent ''Meta'' (GName ''Meta'') ''_meta'', sent ''Error'' (GPtr (GName ''McpError'')) ''error''])])"

definition read_marshal :: "go_reading \<Rightarrow> gen_marshal \<Rightarrow> marshaler option" where
  "read_marshal R m =
     (case m of
        AliasEncoder es \<Rightarrow> map_option (ByWire []) (read_emits R es)
      | WireEncoder wire es \<Rightarrow>
          (case (read_all (read_field R) wire, read_emits R es) of
             (Some w, Some es') \<Rightarrow> Some (ByWire w es')
           | _ \<Rightarrow> None)
      | CarrierEncoder cases \<Rightarrow> if m = mcp_sent then Some EmitCarriers else None
      | ArrayUnionEncoder gs \<Rightarrow> if gs = [''Groups'', ''Ungrouped''] then Some EmitFlatOrGroups else None)"

section \<open>Declarations\<close>

text \<open>The declaration of a type: its shape and the methods that stand with it.\<close>

fun shape_of :: "gen_decl list \<Rightarrow> string \<Rightarrow> gen_shape option" where
  "shape_of [] x = None"
| "shape_of (TypeDecl y s # ds) x = (if y = x then Some s else shape_of ds x)"
| "shape_of (d # ds) x = shape_of ds x"

fun unmarshal_of :: "gen_decl list \<Rightarrow> string \<Rightarrow> gen_unmarshal option" where
  "unmarshal_of [] x = None"
| "unmarshal_of (UnmarshalDecl y u # ds) x = (if y = x then Some u else unmarshal_of ds x)"
| "unmarshal_of (d # ds) x = unmarshal_of ds x"

fun marshal_of :: "gen_decl list \<Rightarrow> string \<Rightarrow> gen_marshal option" where
  "marshal_of [] x = None"
| "marshal_of (MarshalDecl y m # ds) x = (if y = x then Some m else marshal_of ds x)"
| "marshal_of (d # ds) x = marshal_of ds x"

text \<open>\<open>type X Y\<close> is read as a type like the struct \<open>Y\<close>. An alias declares no type of its own.\<close>

definition read_shape :: "go_reading \<Rightarrow> gen_shape \<Rightarrow> go_shape option" where
  "read_shape R s =
     (case s of
        GStruct fs \<Rightarrow> map_option Struct (read_all (read_field R) fs)
      | GDefined t \<Rightarrow>
          (case t of
             GName x \<Rightarrow> (case gr_type R x of Some (TName k) \<Rightarrow> Some (LikeStruct k) | _ \<Rightarrow> None)
           | _ \<Rightarrow> map_option Defined (read_type R t))
      | GAlias t \<Rightarrow> None)"

definition shape_fields :: "gen_shape \<Rightarrow> gen_field list" where
  "shape_fields s = (case s of GStruct fs \<Rightarrow> fs | _ \<Rightarrow> [])"

definition read_decl :: "go_reading \<Rightarrow> gen_decl list \<Rightarrow> string \<Rightarrow> go_decl option" where
  "read_decl R ds x =
     (case shape_of ds x of
        None \<Rightarrow> None
      | Some s \<Rightarrow>
          (case (read_shape R s,
                 (case unmarshal_of ds x of None \<Rightarrow> Some Reflected | Some u \<Rightarrow> read_unmarshal R (shape_fields s) u),
                 (case marshal_of ds x of None \<Rightarrow> Some Encoded | Some m \<Rightarrow> read_marshal R m)) of
             (Some s', Some u', Some m') \<Rightarrow> Some \<lparr>gd_shape = s', gd_unmarshal = u', gd_marshal = m'\<rparr>
           | _ \<Rightarrow> None))"

end
