(* ===== verification/Typegen_Run.thy ===== *)
theory Typegen_Run
  imports Typegen_Read
begin

text \<open>
  What the emitted decoders do: the meaning of every statement form of \<open>gen_action\<close>, over a
  decoder as in Go_Decode, and that it is the meaning Go_Decode gives to the forms the ACP types
  use. With it, what a schema says about malformed members is what the emitted code does.
\<close>

section \<open>The meaning of an action\<close>

text \<open>An action on the member \<open>j\<close> of a field \<open>g\<close>, which has the type \<open>ft\<close>; None is code that cannot be read.\<close>

definition run_into ::
  "decoder \<Rightarrow> go_field list \<Rightarrow> string \<Rightarrow> json \<Rightarrow> (string \<times> go_val) list \<Rightarrow> (status \<Rightarrow> dec_error option) \<Rightarrow> fields_result" where
  "run_into d fs g j kvs err =
     (case find (\<lambda>f. fd_name f = g) fs of
        None \<Rightarrow> None
      | Some f \<Rightarrow> map_option (\<lambda>(v, s). (set_field g v kvs, err s)) (d (fd_type f) (get_field g kvs) j))"

definition run_items ::
  "decoder \<Rightarrow> (go_type \<Rightarrow> go_val) \<Rightarrow> string \<Rightarrow> json \<Rightarrow> (string \<times> go_val) list \<Rightarrow> go_type \<Rightarrow> item_filter \<Rightarrow> bool \<Rightarrow> conv
     \<Rightarrow> dec_error option \<Rightarrow> fields_result" where
  "run_items d z g j kvs t flt non_nil c err =
     (case j of
        JArr js \<Rightarrow> map_option (\<lambda>vs. (set_field g (apply_conv c (VSlice vs)) kvs, None)) (good_items d z t flt js)
      | JNull \<Rightarrow> Some (if non_nil then kvs else set_field g (apply_conv c (VSlice [])) kvs, None)
      | _ \<Rightarrow> Some (kvs, err))"

fun run_action ::
  "go_reading \<Rightarrow> decoder \<Rightarrow> (go_type \<Rightarrow> go_val) \<Rightarrow> go_field list \<Rightarrow> gen_type \<Rightarrow> string \<Rightarrow> json \<Rightarrow> (string \<times> go_val) list
     \<Rightarrow> gen_action \<Rightarrow> fields_result"
  and run_cases ::
  "go_reading \<Rightarrow> decoder \<Rightarrow> (go_type \<Rightarrow> go_val) \<Rightarrow> go_field list \<Rightarrow> gen_type \<Rightarrow> string \<Rightarrow> json \<Rightarrow> (string \<times> go_val) list
     \<Rightarrow> string \<Rightarrow> (case_label option \<times> gen_action) list \<Rightarrow> fields_result option" where
  "run_action R d z fs ft g j kvs IgnoreErrors = run_into d fs g j kvs (\<lambda>s. None)"
| "run_action R d z fs ft g j kvs ReturnErrors = run_into d fs g j kvs error_of"
| "run_action R d z fs ft g j kvs (DecodeFresh t tolerant e) =
     (case read_type R t of
        None \<Rightarrow> None
      | Some t' \<Rightarrow>
          (case read_conv ft t' e of
             None \<Rightarrow> None
           | Some c \<Rightarrow>
               map_option (\<lambda>(v, s). if s = Fine then (set_field g (apply_conv c v) kvs, None)
                                    else (kvs, if tolerant then None else error_of s)) (d t' (z t') j)))"
| "run_action R d z fs ft g j kvs (DecodeEnum t vs e) =
     (case read_type_name R t of
        None \<Rightarrow> None
      | Some t' \<Rightarrow>
          (case read_conv ft t' e of
             None \<Rightarrow> None
           | Some c \<Rightarrow>
               map_option (\<lambda>(v, s). (if s = Fine \<and> text_of v \<in> set vs then set_field g (apply_conv c v) kvs else kvs, None))
                 (d t' (z t') j)))"
| "run_action R d z fs ft g j kvs (DecodeItems t check tolerant non_nil e) =
     (case (read_type R t, read_check R check) of
        (Some t', Some flt) \<Rightarrow>
          (case read_conv ft (TSlice t') e of
             None \<Rightarrow> None
           | Some c \<Rightarrow> run_items d z g j kvs t' flt non_nil c (if tolerant then None else Some (Mismatch (TSlice TRaw))))
      | _ \<Rightarrow> None)"
| "run_action R d z fs ft g j kvs (DecodeAnyItems t check e a) =
     (case j of
        JArr js \<Rightarrow>
          (case (read_type R t, read_check R check) of
             (Some t', Some flt) \<Rightarrow>
               (case read_conv ft (TSlice t') e of
                  None \<Rightarrow> None
                | Some c \<Rightarrow> run_items d z g j kvs t' flt True c None)
           | _ \<Rightarrow> None)
      | _ \<Rightarrow> run_action R d z fs ft g j kvs a)"
| "run_action R d z fs ft g j kvs (NullOrElse n a) =
     (if j = JNull
      then Some (set_field ''NullFields''
             (VSlice ((case get_field ''NullFields'' kvs of VSlice vs \<Rightarrow> vs | _ \<Rightarrow> []) @ [VStr n])) kvs, None)
      else run_action R d z fs ft g j kvs a)"
| "run_action R d z fs ft g j kvs (BySwitch dsc cs) =
     (case run_cases R d z fs ft g j kvs (text_of (get_field dsc kvs)) cs of Some r \<Rightarrow> r | None \<Rightarrow> Some (kvs, None))"
| "run_cases R d z fs ft g j kvs tag [] = None"
| "run_cases R d z fs ft g j kvs tag ((l, a) # cs) =
     (case l of
        None \<Rightarrow>
          (case run_cases R d z fs ft g j kvs tag cs of
             Some r \<Rightarrow> Some r
           | None \<Rightarrow> Some (run_action R d z fs ft g j kvs a))
      | Some l' \<Rightarrow>
          if read_label R l' = Some tag then Some (run_action R d z fs ft g j kvs a)
          else run_cases R d z fs ft g j kvs tag cs)"

text \<open>The names the nulls are recorded under in the two models agree in an entry of a decoder.\<close>

fun nulls_named :: "string \<Rightarrow> gen_action \<Rightarrow> bool"
  and cases_named :: "string \<Rightarrow> (case_label option \<times> gen_action) list \<Rightarrow> bool" where
  "nulls_named jn (NullOrElse n a) \<longleftrightarrow> n = jn \<and> nulls_named jn a"
| "nulls_named jn (BySwitch dsc cs) \<longleftrightarrow> cases_named jn cs"
| "nulls_named jn (DecodeAnyItems t check e a) \<longleftrightarrow> nulls_named jn a"
| "nulls_named jn a \<longleftrightarrow> True"
| "cases_named jn [] \<longleftrightarrow> True"
| "cases_named jn ((l, a) # cs) \<longleftrightarrow> nulls_named jn a \<and> cases_named jn cs"

text \<open>An action that reads as one of Go_Decode does what that one does.\<close>

lemma run_reads:
  "nulls_named jn a \<Longrightarrow> read_action R ft a = Some m \<Longrightarrow>
     run_action R d z fs ft g j kvs a = dec_action d z fs g jn j kvs m"
  "cases_named jn cs \<Longrightarrow> read_cases R ft cs = Some ms \<Longrightarrow>
     (case run_cases R d z fs ft g j kvs tag cs of Some r \<Rightarrow> r | None \<Rightarrow> Some (kvs, None))
       = dec_cases d z fs g jn j kvs tag ms"
proof (induction R ft a and R ft cs arbitrary: m and ms tag rule: read_action_read_cases.induct)
  case (3 R ft t tolerant e)
  then obtain t' c where *: "read_type R t = Some t'" "read_conv ft t' e = Some c"
      "m = (if tolerant then TryInto t' c else Into t' c)"
    by (auto split: option.splits if_splits)
  then show ?case by (cases "d t' (z t') j") auto
next
  case (8 R ft dsc cs)
  then obtain ms where *: "read_cases R ft cs = Some ms" "m = SwitchOn dsc ms" by auto
  have "cases_named jn cs" using 8(2) by simp
  from 8(1) [OF this *(1), of "text_of (get_field dsc kvs)"] * show ?case by simp
next
  case (10 R ft l a cs)
  then obtain l' s m' ms' where *: "l = Some l'" "read_label R l' = Some s" "read_action R ft a = Some m'"
      "read_cases R ft cs = Some ms'" "ms = (s, m') # ms'"
    by (auto split: option.splits simp: bind_eq_Some_conv)
  from 10 * show ?case by (auto split: option.splits)
qed (auto simp: run_into_def run_items_def split: option.splits if_splits json.splits)

section \<open>Marked and unmarked fields\<close>

text \<open>What running the code of one field amounts to, by its marks.\<close>

definition kept_value :: "string list \<Rightarrow> go_val \<Rightarrow> status \<Rightarrow> bool" where
  "kept_value values v s \<longleftrightarrow> s = Fine \<and> text_of v \<in> set values"

lemma run_tolerant:
  assumes "df_default_on_error f"
    and "run_action R d z fs ft g j kvs (deserialize_field_unmarshal_code f) = Some (kvs', err)"
  shows "err = None"
  using assms
  by (auto simp: deserialize_field_unmarshal_code_def run_into_def run_items_def split: option.splits json.splits if_splits)

lemma run_enum:
  assumes "df_default_on_error f" "item_mode f = None" "df_enum f \<noteq> []"
    and "run_action R d z fs ft g j kvs (deserialize_field_unmarshal_code f) = Some (kvs', err)"
  shows "\<exists>t v s c. d t (z t) j = Some (v, s)
    \<and> kvs' = (if kept_value (df_enum f) v s then set_field g (apply_conv c v) kvs else kvs)"
proof -
  from assms obtain t c v s where "d t (z t) j = Some (v, s)"
      "kvs' = (if kept_value (df_enum f) v s then set_field g (apply_conv c v) kvs else kvs)"
    by (auto simp: deserialize_field_unmarshal_code_def kept_value_def simp del: if_split split: option.splits)
  then show ?thesis by blast
qed

lemma run_items_kept:
  assumes "item_mode f = Some (t, Some pointer)"
    and "run_action R d z fs ft g (JArr js) kvs (deserialize_field_unmarshal_code f) = Some (kvs', err)"
  shows "err = None \<and> (\<exists>t flt vs c. good_items d z t flt js = Some vs \<and> kvs' = set_field g (apply_conv c (VSlice vs)) kvs)"
  using assms by (auto simp: deserialize_field_unmarshal_code_def run_items_def split: option.splits if_splits)

lemma run_items_refused:
  assumes "item_mode f = Some (t, Some pointer)" "\<not> df_default_on_error f" "j \<noteq> JNull" "\<forall>js. j \<noteq> JArr js"
    and "run_action R d z fs ft g j kvs (deserialize_field_unmarshal_code f) = Some (kvs', err)"
  shows "err = Some (Mismatch (TSlice TRaw)) \<and> kvs' = kvs"
  using assms by (cases j) (auto simp: deserialize_field_unmarshal_code_def run_items_def split: option.splits if_splits)


text \<open>A string that is marked, and a number in its place.\<close>

definition marked_string :: schema where
  "marked_string = leaf (no_keywords\<lparr>kw_type := ''string'', kw_extra := [(''x-deserialize-default-on-error'', ValBool True)]\<rparr>)"

definition nothing_read :: go_reading where
  "nothing_read = \<lparr>gr_type = (\<lambda>x. None), gr_const = (\<lambda>x. None)\<rparr>"


end
