(* ===== verification/Typegen_Struct.thy ===== *)
theory Typegen_Struct
  imports Typegen_Object
begin

text \<open>
  What the struct the generator makes of an object schema is: one field for every property, in
  the order of the JSON names, under different Go names; and which lists its \<open>MarshalJSON\<close>
  fills in.
\<close>

section \<open>The members of an object\<close>

lemma map_gen_Inr: "map_gen f xs = Inr ys \<longleftrightarrow> list_all2 (\<lambda>x y. f x = Inr y) xs ys"
  by (induction xs arbitrary: ys) (auto simp: or_panic_Inr list_all2_Cons1)

lemma map_gen_image:
  assumes "map_gen f xs = Inr ys" "\<And>x y. x \<in> set xs \<Longrightarrow> f x = Inr y \<Longrightarrow> g y = h x"
  shows "map g ys = map h xs"
  using assms by (induction xs arbitrary: ys) (auto simp: or_panic_Inr)

lemma map_gen_member: "map_gen f xs = Inr ys \<Longrightarrow> y \<in> set ys \<Longrightarrow> \<exists>x \<in> set xs. f x = Inr y"
  by (induction xs arbitrary: ys) (auto simp: or_panic_Inr)

lemma map_gen_of: "map_gen f xs = Inr ys \<Longrightarrow> x \<in> set xs \<Longrightarrow> \<exists>y \<in> set ys. f x = Inr y"
  by (induction xs arbitrary: ys) (auto simp: or_panic_Inr)

lemma map_of_homed: "map_of (homed home ps) n = map_option (Pair home) (map_of ps n)"
  by (induction ps) (auto simp: homed_def)

lemma sorted_property_names [simp]:
  "set (sorted_property_names ps) = fst ` set ps" "distinct (sorted_property_names ps)"
  by (simp_all add: sorted_property_names_def)

text \<open>The Go type of a property, and the text of it.\<close>

definition member_type :: "gen_env \<Rightarrow> schema \<Rightarrow> string \<Rightarrow> schema \<Rightarrow> typed_text gen" where
  "member_type E s n prop =
     (let optional = (n \<notin> set (sc_required s)) in
      or_panic (schema_type E (Some prop) optional) (\<lambda>typ.
        Inr (if pointer_default_true_bool n prop optional then (GPtr GBool, ''*bool'') else typ)))"

lemma object_field_spec:
  assumes "object_field E (sc_required s) go (homed raw (sc_properties s)) n = Inr f"
  shows "df_json (of_field f) = n" "df_go (of_field f) = (case go n of Some g \<Rightarrow> g | None \<Rightarrow> [])"
    and "of_omitempty f \<longleftrightarrow> n \<noteq> ''_meta'' \<and> n \<notin> set (sc_required s)"
    and "of_required f \<longleftrightarrow> n \<noteq> ''_meta'' \<and> n \<in> set (sc_required s)"
    and "df_preserve_null (of_field f) \<longleftrightarrow> preserves_at (homed raw (sc_properties s)) n"
    and "n = ''_meta'' \<Longrightarrow> df_code (of_field f) = GName ''Meta''"
    and "n \<noteq> ''_meta'' \<Longrightarrow> \<exists>prop. map_of (sc_properties s) n = Some prop \<and> of_schema f = Some prop
      \<and> member_type E s n prop = Inr (df_code (of_field f), df_text (of_field f))"
proof -
  let ?go = "case go n of Some g \<Rightarrow> g | None \<Rightarrow> []"
  from assms obtain p where p: "map_of (sc_properties s) n = Some p"
    by (auto simp: object_field_def map_of_homed split: option.splits)
  note field = assms [unfolded object_field_def map_of_homed p option.map option.case Let_def snd_conv]
  have "df_json (of_field f) = n \<and> df_go (of_field f) = ?go
    \<and> (of_omitempty f \<longleftrightarrow> n \<noteq> ''_meta'' \<and> n \<notin> set (sc_required s))
    \<and> (of_required f \<longleftrightarrow> n \<noteq> ''_meta'' \<and> n \<in> set (sc_required s))
    \<and> (df_preserve_null (of_field f) \<longleftrightarrow> preserves_json_null n (raw, p))
    \<and> (n = ''_meta'' \<longrightarrow> df_code (of_field f) = GName ''Meta'')
    \<and> (n \<noteq> ''_meta'' \<longrightarrow> of_schema f = Some p \<and> member_type E s n p = Inr (df_code (of_field f), df_text (of_field f)))"
  proof (cases "n = ''_meta''")
    case True
    with field show ?thesis by (auto simp: meta_field_def)
  next
    case False
    with field obtain ty g where ty: "member_type E s n p = Inr ty"
      and g: "new_deserialize_field E n (raw, p) ty = Inr g"
      and f: "f = \<lparr>of_field = g\<lparr>df_go := ?go\<rparr>, of_omitempty = (n \<notin> set (sc_required s)), of_omitzero = False,
        of_required = (n \<in> set (sc_required s)), of_schema = Some p\<rparr>"
      by (simp only: or_panic_Inr member_type_def Let_def if_False) (elim exE conjE, simp)
    from new_field [OF g] False ty show ?thesis by (simp add: f)
  qed
  from this p show "df_json (of_field f) = n" "df_go (of_field f) = ?go"
    and "of_omitempty f \<longleftrightarrow> n \<noteq> ''_meta'' \<and> n \<notin> set (sc_required s)"
    and "of_required f \<longleftrightarrow> n \<noteq> ''_meta'' \<and> n \<in> set (sc_required s)"
    and "df_preserve_null (of_field f) \<longleftrightarrow> preserves_at (homed raw (sc_properties s)) n"
    and "n = ''_meta'' \<Longrightarrow> df_code (of_field f) = GName ''Meta''"
    and "n \<noteq> ''_meta'' \<Longrightarrow> \<exists>prop. map_of (sc_properties s) n = Some prop \<and> of_schema f = Some prop
      \<and> member_type E s n prop = Inr (df_code (of_field f), df_text (of_field f))"
    by (simp_all add: preserves_at_def map_of_homed)
qed

lemma object_members_spec:
  assumes "object_members E raw s = Inr fs"
  shows "map (df_json \<circ> of_field) fs = sorted_property_names (sc_properties s)"
    and "map (df_go \<circ> of_field) fs = map (\<lambda>n. the (object_go_names raw s n)) (sorted_property_names (sc_properties s))"
    and "f \<in> set fs \<Longrightarrow> object_field E (sc_required s) (object_go_names raw s) (homed raw (sc_properties s)) (df_json (of_field f)) = Inr f"
proof -
  note m = assms [unfolded object_members_def]
  have dom: "dom (object_go_names raw s) = fst ` set (sc_properties s)"
    by (simp add: object_go_names_def name_map_names(1) [OF unique_field_names_with_reserved_def])
  show "map (df_json \<circ> of_field) fs = sorted_property_names (sc_properties s)"
    using map_gen_image [OF m, where g = "df_json \<circ> of_field" and h = id] object_field_spec(1) by fastforce
  show "map (df_go \<circ> of_field) fs = map (\<lambda>n. the (object_go_names raw s n)) (sorted_property_names (sc_properties s))"
  proof (rule map_gen_image [OF m])
    fix n y
    assume "n \<in> set (sorted_property_names (sc_properties s))"
      and f: "object_field E (sc_required s) (object_go_names raw s) (homed raw (sc_properties s)) n = Inr y"
    then obtain g where "object_go_names raw s n = Some g" using dom by fastforce
    then show "(df_go \<circ> of_field) y = the (object_go_names raw s n)"
      using object_field_spec(2) [OF f] by simp
  qed
  show "f \<in> set fs \<Longrightarrow> object_field E (sc_required s) (object_go_names raw s) (homed raw (sc_properties s)) (df_json (of_field f)) = Inr f"
    using map_gen_member [OF m, of f] object_field_spec(1) by blast
qed

lemma object_go_names_distinct:
  assumes "object_members E raw s = Inr fs"
  shows "distinct (map (df_go \<circ> of_field) fs @ (if keeps_null_fields raw s then [''NullFields''] else []))"
proof -
  let ?names = "sorted_property_names (sc_properties s)"
  note n = name_map_names [OF object_go_names_def [of raw s, unfolded unique_field_names_with_reserved_def]]
  have go: "the (object_go_names raw s x) \<in> ran (object_go_names raw s)" if "x \<in> set ?names" for x
    using n(1) that by (force simp: ran_def)
  have "inj_on (\<lambda>x. the (object_go_names raw s x)) (set ?names)"
    using n(1,2) by (intro inj_onI) (metis domD inj_onD option.sel)
  moreover have "''NullFields'' \<notin> (\<lambda>x. the (object_go_names raw s x)) ` set ?names" if "keeps_null_fields raw s"
    using n(3) go that by fastforce
  ultimately show ?thesis
    unfolding object_members_spec(2) [OF assms] by (auto simp: distinct_map)
qed

section \<open>Structs\<close>

lemma struct_field_simps [simp]:
  "gf_name (struct_field f) = df_go (of_field f)" "gf_json (struct_field f) = df_json (of_field f)"
  "gf_type (struct_field f) = df_code (of_field f)" "gf_omitempty (struct_field f) = of_omitempty f"
  by (simp_all add: struct_field_def)

lemma object_code_cases:
  assumes "object_code E name raw s = Inr (ds, needs_meta, tail)"
  obtains fs unions marshal rest where "object_members E raw s = Inr fs"
    and "map_gen (required_array_union E) fs = Inr unions"
    and "object_marshal E fs (concat unions) = Inr marshal"
    and "ds = TypeDecl name (object_struct raw s fs) # rest"
    and "needs_meta \<longleftrightarrow> ''_meta'' \<in> fst ` set (sc_properties s)"
    and "\<And>n m. MarshalDecl n m \<in> set (ds @ tail) \<longleftrightarrow> n = name \<and> marshal = Some m"
proof -
  from assms obtain fs unions unmarshal marshal where *: "object_members E raw s = Inr fs"
      "map_gen (required_array_union E) fs = Inr unions" "object_marshal E fs (concat unions) = Inr marshal"
    and code: "object_decls name (object_struct raw s fs) (has_optional_pointer fs)
        (''_meta'' \<in> set (sorted_property_names (sc_properties s))) unmarshal marshal = (ds, needs_meta, tail)"
    by (auto simp: object_code_def or_panic_Inr)
  show thesis
  proof (rule that [OF *])
    show "ds = TypeDecl name (object_struct raw s fs) # drop 1 ds"
      using code by (auto simp: object_decls_def Let_def split: option.splits if_splits)
    show "needs_meta \<longleftrightarrow> ''_meta'' \<in> fst ` set (sc_properties s)"
      using code by (auto simp: object_decls_def Let_def split: option.splits if_splits)
    show "MarshalDecl n m \<in> set (ds @ tail) \<longleftrightarrow> n = name \<and> marshal = Some m" for n m
      using code by (auto simp: object_decls_def Let_def split: option.splits if_splits)
  qed
qed


section \<open>Required lists\<close>

lemma filled_in:
  assumes "object_marshal E ms unions = Inr marshal" "\<not> has_required_map ms"
    and "f \<in> set ms" "required_text ''[]'' f"
  shows "\<exists>es. FillSlice (df_go (of_field f)) (df_code (of_field f)) \<in> set es
    \<and> (marshal = Some (AliasEncoder es) \<or> (\<exists>wire. marshal = Some (WireEncoder wire es)))"
  using assms
  by (auto simp: object_marshal_def Let_def or_panic_Inr filter_empty_conv fill_slice_def split: if_splits)


text \<open>
  C38: one required map switches this off. If a required property is a map and no property keeps
  explicit nulls, the object gets no \<open>MarshalJSON\<close>, and its required lists are sent as null when
  they are nil.
\<close>

theorem required_map_stops_filling:
  assumes "object_code E name raw s = Inr (ds, needs_meta, tail)"
    and "k \<in> set (sc_required s)" "k \<noteq> ''_meta''" "map_of (sc_properties s) k = Some q"
    and "schema_type E (Some q) False = Inr (c, ''map['' @ t)"
    and "\<not> keeps_null_fields raw s"
  shows "MarshalDecl x m \<notin> set (ds @ tail)"
proof (rule object_code_cases [OF assms(1)])
  fix ms unions marshal rest
  assume m: "object_members E raw s = Inr ms" and marshal: "object_marshal E ms (concat unions) = Inr marshal"
    and decl: "\<And>x m. MarshalDecl x m \<in> set (ds @ tail) \<longleftrightarrow> x = name \<and> marshal = Some m"
  note spec = object_members_spec [OF m]
  note field = object_field_spec [OF spec(3)]
  have "k \<in> set (map (df_json \<circ> of_field) ms)"
    unfolding spec(1) using map_of_SomeD [OF assms(4)] by force
  then obtain f where f: "f \<in> set ms" "df_json (of_field f) = k" by auto
  then have req: "of_required f" using field(4) [OF f(1)] assms(2,3) by simp
  have "df_text (of_field f) = ''map['' @ t"
    using field(7) [OF f(1)] f(2) assms(2-5) by (auto simp: member_type_def or_panic_Inr pointer_default_true_bool_def)
  with f(1) req have "has_required_map ms"
    by (auto simp: has_required_map_def list_ex_iff required_text_def simp del: append_Cons)
  moreover have "preserved_null_fields (map of_field ms) = []"
  proof -
    have "df_json (of_field x) \<in> set (sorted_property_names (sc_properties s))" if "x \<in> set ms" for x
      unfolding spec(1) [symmetric] using that by auto
    then show ?thesis
      using assms(6) field(5) unfolding preserved_null_fields_def filter_empty_conv keeps_null_fields_def list_ex_iff
      by fastforce
  qed
  ultimately have "marshal = None" using marshal by (simp add: object_marshal_def)
  then show ?thesis using decl by simp
qed

text \<open>A tool that requires a list of texts, and one that requires a map besides.\<close>

definition texts :: schema where
  "texts = Schema (no_keywords\<lparr>kw_type := ''array''\<rparr>) [] (Some (leaf (no_keywords\<lparr>kw_type := ''string''\<rparr>))) None [] [] []"

definition text_map :: schema where
  "text_map = Schema (no_keywords\<lparr>kw_type := ''object''\<rparr>) [] None (Some (leaf (no_keywords\<lparr>kw_type := ''string''\<rparr>))) [] [] []"

definition tool_schema :: schema where
  "tool_schema = Schema (no_keywords\<lparr>kw_type := ''object'', kw_required := [''args'']\<rparr>)
     [(''args'', texts), (''_meta'', text_map)] None None [] [] []"

definition tool_with_map :: schema where
  "tool_with_map = Schema (no_keywords\<lparr>kw_type := ''object'', kw_required := [''args'', ''env'']\<rparr>)
     [(''args'', texts), (''env'', text_map)] None None [] [] []"

definition succeeds :: "'a gen \<Rightarrow> bool" where
  "succeeds r = (case r of Inl e \<Rightarrow> False | Inr a \<Rightarrow> True)"

lemma tool_succeeds:
  "succeeds (object_code (gen_env_of [] 3) ''Tool'' ''Tool'' tool_schema)"
  "succeeds (object_code (gen_env_of [] 3) ''Tool'' ''Tool'' tool_with_map)"
  by code_simp+

lemma succeeds_obtain: "succeeds r \<Longrightarrow> (\<And>a. r = Inr a \<Longrightarrow> thesis) \<Longrightarrow> thesis"
  by (cases r) (auto simp: succeeds_def)



theorem required_map_stops_filling_witness:
  "\<exists>ds meta tail. object_code (gen_env_of [] 3) ''Tool'' ''Tool'' tool_with_map = Inr (ds, meta, tail)
    \<and> MarshalDecl ''Tool'' (AliasEncoder [FillSlice ''Args'' (GSlice GString)]) \<notin> set (ds @ tail)"
proof -
  let ?E = "gen_env_of [] 3"
  obtain ds meta tail where code: "object_code ?E ''Tool'' ''Tool'' tool_with_map = Inr (ds, meta, tail)"
    using tool_succeeds(2) by (auto elim: succeeds_obtain)
  have env: "''env'' \<in> set (sc_required tool_with_map)" "''env'' \<noteq> ''_meta''"
    "map_of (sc_properties tool_with_map) ''env'' = Some text_map"
    "schema_type ?E (Some text_map) False = Inr (GMap GString, ''map['' @ ''string]string'')"
    "\<not> keeps_null_fields ''Tool'' tool_with_map"
    by code_simp+
  from required_map_stops_filling [OF code env] code show ?thesis by blast
qed

end
