(* ===== verification/Typegen_Variants.thy ===== *)
theory Typegen_Variants
  imports Typegen Typegen_Struct
begin

text \<open>
  The constants and constructors of a tagged union: every variant has a constructor of its own
  that sets the discriminator to the constant of the variant's value.
\<close>

section \<open>Constants of a discriminator\<close>

lemma map_of_append_None: "map_of xs k = None \<Longrightarrow> map_of (xs @ ys) k = map_of ys k"
  by (simp add: map_add_def)

text \<open>The invariant of the loop that names the constants.\<close>

definition const_table :: "(string \<times> string) list \<times> string list \<Rightarrow> bool" where
  "const_table st \<longleftrightarrow> distinct (map fst (fst st)) \<and> distinct (map snd (fst st)) \<and> set (snd st) = snd ` set (fst st)
     \<and> [] \<notin> fst ` set (fst st) \<and> [] \<notin> snd ` set (fst st)"

lemma unique_const_name_fresh:
  assumes "unique_const_name n used = (c, used')"
  shows "c \<notin> set used" "set used' = insert c (set used)" "n \<noteq> [] \<Longrightarrow> c \<noteq> []"
proof -
  show "c \<notin> set used" "set used' = insert c (set used)"
    using const_namer.uniq_fresh [of n used] const_namer.uniq_used [of n used] assms by simp_all
  show "n \<noteq> [] \<Longrightarrow> c \<noteq> []"
    using assms suffixed_form [where name = n and used = used and k = 2] by (auto simp: unique_const_name_def Let_def split: if_splits)
qed

lemma const_value_name_nonempty [simp]: "const_value_name v \<noteq> []"
  by (simp add: const_value_name_def Let_def)

lemma name_const_step:
  assumes "name_const E t d b st = Inr st'" "const_table st"
  shows "const_table st'" "set (fst st) \<subseteq> set (fst st')"
    and "variant_const E d b = Inr v \<Longrightarrow> v \<noteq> [] \<Longrightarrow> v \<in> fst ` set (fst st')"
proof -
  obtain names used where st: "st = (names, used)" by fastforce
  from assms(1) obtain w where w: "variant_const E d b = Inr w"
    by (auto simp: name_const_def or_panic_Inr)
  obtain c used' where c: "unique_const_name (t @ const_value_name (ValString w)) used = (c, used')" by fastforce
  have "const_table st' \<and> set (fst st) \<subseteq> set (fst st') \<and> (w \<noteq> [] \<longrightarrow> w \<in> fst ` set (fst st'))"
  proof (cases "w = [] \<or> map_of names w \<noteq> None")
    case True
    with assms w show ?thesis by (auto simp: name_const_def st map_of_eq_None_iff)
  next
    case False
    with assms(1) w c have st': "st' = (names @ [(w, c)], used')" by (simp add: name_const_def st)
    from unique_const_name_fresh [OF c] False assms(2) show ?thesis
      by (auto simp: st' st const_table_def map_of_eq_None_iff)
  qed
  with w show "const_table st'" "set (fst st) \<subseteq> set (fst st')"
    and "variant_const E d b = Inr v \<Longrightarrow> v \<noteq> [] \<Longrightarrow> v \<in> fst ` set (fst st')"
    by auto
qed

lemma name_consts:
  assumes "each (name_const E t d) bs st = Inr st'" "const_table st"
  shows "const_table st' \<and> set (fst st) \<subseteq> set (fst st')
    \<and> (\<forall>b \<in> set bs. \<forall>v. variant_const E d b = Inr v \<and> v \<noteq> [] \<longrightarrow> v \<in> fst ` set (fst st'))"
  using assms
proof (induction bs arbitrary: st)
  case Nil
  then show ?case by simp
next
  case (Cons b bs)
  from Cons.prems(1) obtain s where s: "name_const E t d b st = Inr s" "each (name_const E t d) bs s = Inr st'"
    by (auto simp: each_Cons_Inr simp del: each.simps)
  note step = name_const_step [OF s(1) Cons.prems(2)]
  note rest = Cons.IH [OF s(2) step(1)]
  have "v \<in> fst ` set (fst st')" if "variant_const E d b = Inr v" "v \<noteq> []" for v
    using step(3) [OF that] rest by blast
  with step(2) rest show ?case by auto
qed

lemma discriminator_const_names_table:
  assumes "discriminator_const_names E t d bs = Inr names" "d \<noteq> []"
  shows "const_table (names, map snd names)"
    and "b \<in> set bs \<Longrightarrow> variant_const E d b = Inr v \<Longrightarrow> v \<noteq> [] \<Longrightarrow> v \<in> fst ` set names"
proof -
  from assms obtain used where *: "each (name_const E t d) bs ([], []) = Inr (names, used)"
    by (auto simp: discriminator_const_names_def or_panic_Inr)
  have "const_table ([], [])" by (simp add: const_table_def)
  from name_consts [OF * this] show "const_table (names, map snd names)"
    and "b \<in> set bs \<Longrightarrow> variant_const E d b = Inr v \<Longrightarrow> v \<noteq> [] \<Longrightarrow> v \<in> fst ` set names"
    by (auto simp: const_table_def)
qed

text \<open>Constants of different values differ; only the empty value has none.\<close>

lemma const_name_values:
  assumes "const_table (names, used)"
  shows "v \<in> fst ` set names \<Longrightarrow> const_name names v \<noteq> []"
    and "const_name names v = const_name names w \<Longrightarrow> const_name names v \<noteq> [] \<Longrightarrow> v = w"
proof -
  have inj: "map_of names a = Some c \<Longrightarrow> map_of names b = Some c \<Longrightarrow> a = b" for a b c
  proof -
    assume "map_of names a = Some c" "map_of names b = Some c"
    then have "(a, c) \<in> set names" "(b, c) \<in> set names" by (auto dest: map_of_SomeD)
    moreover have "inj_on snd (set names)" using assms by (simp add: const_table_def distinct_map)
    ultimately show "a = b" by (metis Pair_inject inj_onD snd_conv)
  qed
  have ne: "map_of names a = Some c \<Longrightarrow> c \<noteq> []" for a c
    using assms by (force simp: const_table_def dest: map_of_SomeD)
  show "v \<in> fst ` set names \<Longrightarrow> const_name names v \<noteq> []"
    using ne by (auto simp: const_name_def map_of_eq_None_iff split: option.splits)
  show "const_name names v = const_name names w \<Longrightarrow> const_name names v \<noteq> [] \<Longrightarrow> v = w"
    using inj [of v _ w] ne [of w] by (cases "map_of names v"; cases "map_of names w") (simp_all add: const_name_def)
qed

lemma const_name_empty: "const_table (names, used) \<Longrightarrow> const_name names [] = []"
  by (auto simp: const_table_def const_name_def split: option.split dest!: map_of_SomeD) force

section \<open>Constructors\<close>

lemma union_constructor_names_name_all:
  "union_constructor_names E x bvs used =
     name_all unique_const_name (map (\<lambda>(b, v). union_constructor_name E x b v) bvs) used"
  by (induction E x bvs used rule: union_constructor_names.induct) (auto split: prod.splits)

lemma union_constructor_names_distinct: "distinct (union_constructor_names E x bvs used)"
  by (simp add: union_constructor_names_name_all const_namer.name_all_distinct)

lemma union_constructor_names_length [simp]: "length (union_constructor_names E x bvs used) = length bvs"
  by (simp add: union_constructor_names_name_all const_namer.name_all_length)

fun constructors_of :: "gen_decl list \<Rightarrow> gen_constructor list" where
  "constructors_of [] = []"
| "constructors_of (FuncDecl c # ds) = c # constructors_of ds"
| "constructors_of (d # ds) = constructors_of ds"

lemma constructors_of_append [simp]: "constructors_of (ds @ es) = constructors_of ds @ constructors_of es"
  by (induction ds rule: constructors_of.induct) auto

lemma constructors_of_no_func: "(\<forall>c. FuncDecl c \<notin> set ds) \<Longrightarrow> constructors_of ds = []"
  by (induction ds rule: constructors_of.induct) auto

lemma constructors_of_FuncDecls: "constructors_of (map FuncDecl cs) = cs"
  by (induction cs) auto

lemma union_constructor_code_form:
  assumes "union_constructor_code E x d ps req fs names (b, v, c) = Inr decl"
  shows "\<exists>g. decl = FuncDecl g \<and> gc_name g = c \<and> gc_type g = x
    \<and> (d \<noteq> [] \<and> const_name names v \<noteq> [] \<longrightarrow> (field_name d, EConst (const_name names v)) \<in> set (gc_fields g))"
  using assms by (auto simp: union_constructor_code_def or_panic_Inr Let_def split: prod.splits)

lemma union_constructors:
  assumes "map_gen (union_constructor_code E x d ps req fs names)
      (map2 (\<lambda>(b, v) c. (b, v, c)) bvs cs) = Inr decls" "length cs = length bvs"
  shows "\<exists>gs. decls = map FuncDecl gs \<and> map gc_name gs = cs
    \<and> (\<forall>i < length bvs. d \<noteq> [] \<and> const_name names (snd (bvs ! i)) \<noteq> []
         \<longrightarrow> (field_name d, EConst (const_name names (snd (bvs ! i)))) \<in> set (gc_fields (gs ! i)))"
  using assms
proof (induction bvs arbitrary: cs decls)
  case Nil
  then show ?case by auto
next
  case (Cons bv bvs)
  obtain b v where bv: "bv = (b, v)" by fastforce
  from Cons.prems(2) obtain c cs' where cs: "cs = c # cs'" "length cs' = length bvs" by (cases cs) auto
  from Cons.prems(1) obtain decl decls' where
    1: "union_constructor_code E x d ps req fs names (b, v, c) = Inr decl"
    and 2: "map_gen (union_constructor_code E x d ps req fs names) (map2 (\<lambda>(b, v) c. (b, v, c)) bvs cs') = Inr decls'"
    and decls: "decls = decl # decls'"
    by (auto simp: bv cs or_panic_Inr)
  from union_constructor_code_form [OF 1] obtain g where g: "decl = FuncDecl g" "gc_name g = c"
      "d \<noteq> [] \<and> const_name names v \<noteq> [] \<longrightarrow> (field_name d, EConst (const_name names v)) \<in> set (gc_fields g)"
    by blast
  from Cons.IH [OF 2 cs(2)] obtain gs where gs: "decls' = map FuncDecl gs" "map gc_name gs = cs'"
      "\<forall>i < length bvs. d \<noteq> [] \<and> const_name names (snd (bvs ! i)) \<noteq> []
         \<longrightarrow> (field_name d, EConst (const_name names (snd (bvs ! i)))) \<in> set (gc_fields (gs ! i))"
    by blast
  with g show ?case
    by (intro exI [of _ "g # gs"]) (auto simp: decls cs bv nth_Cons split: nat.split)
qed

section \<open>The union\<close>

lemma union_parts:
  assumes "discriminator_union_parts E x raw s = Inr u"
  shows "discriminator_field E s (union_branches s) = Inr (up_discriminator u)
    \<and> discriminator_const_names E (up_type u) (up_discriminator u) (union_branches s) = Inr (up_const_names u)
    \<and> map_gen (variant_const E (up_discriminator u)) (union_branches s) = Inr (up_values u)"
  using assms unfolding discriminator_union_parts_def Let_def or_panic_Inr
  by (elim exE conjE) (drule Inr_inject, erule subst, simp only: union_parts.select_convs simp_thms)

lemma union_methods_only:
  assumes "union_methods E x s u = Inr ds"
  shows "FuncDecl c \<notin> set ds" "ConstDecl t cs \<notin> set ds"
  using assms by (auto simp: union_methods_def or_panic_Inr Let_def split: if_splits option.splits)

text \<open>The constants declared for a discriminator, one for each variant with a value.\<close>

definition declared_consts :: "union_parts \<Rightarrow> (string \<times> schema_value) list" where
  "declared_consts u =
     map (\<lambda>v. (const_name (up_const_names u) v, ValString v))
       (filter (\<lambda>v. const_name (up_const_names u) v \<noteq> []) (up_values u))"

lemma union_code_form:
  assumes "discriminator_union_code E x raw s = Inr (ds, meta, tail)"
  obtains u shape gs methods where "discriminator_union_parts E x raw s = Inr u"
    and "ds = TypeDecl x shape # union_discriminator u @ map FuncDecl gs @ methods"
    and "\<And>c. FuncDecl c \<notin> set methods" "\<And>t cs. ConstDecl t cs \<notin> set methods"
    and "distinct (map gc_name gs)" "length gs = length (union_branches s)"
    and "\<And>i. i < length (union_branches s) \<Longrightarrow> up_discriminator u \<noteq> [] \<Longrightarrow>
      const_name (up_const_names u) (up_values u ! i) \<noteq> [] \<Longrightarrow>
      (field_name (up_discriminator u), EConst (const_name (up_const_names u) (up_values u ! i))) \<in> set (gc_fields (gs ! i))"
proof -
  from assms obtain u struct decls methods where u: "discriminator_union_parts E x raw s = Inr u"
    and decls: "map_gen (union_constructor_code E x (up_discriminator u) (homed raw (sc_properties s)) (sc_required s)
         (up_fields u) (up_const_names u))
         (map2 (\<lambda>(b, v) c. (b, v, c)) (zip (union_branches s) (up_values u))
           (union_constructor_names E x (zip (union_branches s) (up_values u)) [])) = Inr decls"
    and methods: "union_methods E x s u = Inr methods"
    and ds: "ds = TypeDecl x (GStruct struct) # union_discriminator u @ decls @ methods"
    unfolding discriminator_union_code_def or_panic_Inr Let_def by blast
  have len: "length (up_values u) = length (union_branches s)"
    using union_parts [OF u] by (auto simp: map_gen_Inr dest: list_all2_lengthD)
  from union_constructors [OF decls union_constructor_names_length] obtain gs where
    gs: "decls = map FuncDecl gs"
      "map gc_name gs = union_constructor_names E x (zip (union_branches s) (up_values u)) []"
      "\<forall>i < length (zip (union_branches s) (up_values u)). up_discriminator u \<noteq> []
         \<and> const_name (up_const_names u) (snd (zip (union_branches s) (up_values u) ! i)) \<noteq> []
         \<longrightarrow> (field_name (up_discriminator u), EConst (const_name (up_const_names u) (snd (zip (union_branches s) (up_values u) ! i))))
               \<in> set (gc_fields (gs ! i))"
    by blast
  have "length gs = length (union_branches s)"
    using arg_cong [OF gs(2), of length] len by simp
  moreover have "distinct (map gc_name gs)"
    unfolding gs(2) by (rule union_constructor_names_distinct)
  moreover have "(field_name (up_discriminator u), EConst (const_name (up_const_names u) (up_values u ! i))) \<in> set (gc_fields (gs ! i))"
    if "i < length (union_branches s)" "up_discriminator u \<noteq> []" "const_name (up_const_names u) (up_values u ! i) \<noteq> []" for i
    using gs(3) that len by auto
  ultimately show thesis
    using that [OF u ds [unfolded gs(1)]] union_methods_only [OF methods] by blast
qed

lemma distinct_consts:
  assumes "const_table (up_const_names u, used)"
    and "\<And>v. v \<in> set (up_values u) \<Longrightarrow> v \<noteq> [] \<Longrightarrow> v \<in> fst ` set (up_const_names u)"
  shows "distinct (map fst (declared_consts u)) \<longleftrightarrow> distinct (filter (\<lambda>v. v \<noteq> []) (up_values u))"
proof -
  have eq: "filter (\<lambda>v. const_name (up_const_names u) v \<noteq> []) (up_values u) = filter (\<lambda>v. v \<noteq> []) (up_values u)"
    using assms const_name_values(1) [OF assms(1)] const_name_empty [OF assms(1)] by (intro filter_cong) auto
  have "inj_on (const_name (up_const_names u)) (set (filter (\<lambda>v. v \<noteq> []) (up_values u)))"
    using const_name_values [OF assms(1)] assms(2) by (intro inj_onI) auto
  then show ?thesis
    unfolding declared_consts_def eq by (simp add: comp_def distinct_map)
qed

text \<open>
  C34: a tagged union has a constructor for every variant, under different names, and the
  constructor of a variant sets the discriminator to a constant that is declared with exactly
  the variant's value; constants of different values have different names. The constants are
  declared once each if and only if no two variants share a value: the generator declares the
  constant of a value that comes twice a second time, which does not compile.
\<close>

theorem union_variants:
  assumes "discriminator_union_code E x raw s = Inr (ds, meta, tail)"
  shows "\<exists>d values. discriminator_field E s (union_branches s) = Inr d
    \<and> map_gen (variant_const E d) (union_branches s) = Inr values
    \<and> distinct (map gc_name (constructors_of ds)) \<and> length (constructors_of ds) = length (union_branches s)
    \<and> (d \<noteq> [] \<longrightarrow> (\<exists>t cs. ConstDecl t cs \<in> set ds
        \<and> (\<forall>i < length (union_branches s). values ! i \<noteq> [] \<longrightarrow>
             (\<exists>c. (field_name d, EConst c) \<in> set (gc_fields (constructors_of ds ! i)) \<and> (c, ValString (values ! i)) \<in> set cs))
        \<and> (\<forall>c v w. (c, v) \<in> set cs \<and> (c, w) \<in> set cs \<longrightarrow> v = w)
        \<and> (distinct (map fst cs) \<longleftrightarrow> distinct (filter (\<lambda>v. v \<noteq> []) values))))"
proof (rule union_code_form [OF assms])
  fix u shape gs methods
  assume u: "discriminator_union_parts E x raw s = Inr u"
    and ds: "ds = TypeDecl x shape # union_discriminator u @ map FuncDecl gs @ methods"
    and no_func: "\<And>c. FuncDecl c \<notin> set methods"
    and gs: "distinct (map gc_name gs)" "length gs = length (union_branches s)"
      "\<And>i. i < length (union_branches s) \<Longrightarrow> up_discriminator u \<noteq> [] \<Longrightarrow>
        const_name (up_const_names u) (up_values u ! i) \<noteq> [] \<Longrightarrow>
        (field_name (up_discriminator u), EConst (const_name (up_const_names u) (up_values u ! i))) \<in> set (gc_fields (gs ! i))"
  note parts = union_parts [OF u]
  let ?d = "up_discriminator u" and ?vs = "up_values u" and ?cs = "declared_consts u"
  have "constructors_of (union_discriminator u) = []"
    by (simp add: union_discriminator_def)
  then have ctors: "constructors_of ds = gs"
    using constructors_of_no_func [of methods] no_func by (simp add: ds constructors_of_FuncDecls)
  have len: "length ?vs = length (union_branches s)"
    using parts by (auto simp: map_gen_Inr dest: list_all2_lengthD)
  have "\<exists>t cs. ConstDecl t cs \<in> set ds
      \<and> (\<forall>i < length (union_branches s). ?vs ! i \<noteq> [] \<longrightarrow>
           (\<exists>c. (field_name ?d, EConst c) \<in> set (gc_fields (gs ! i)) \<and> (c, ValString (?vs ! i)) \<in> set cs))
      \<and> (\<forall>c v w. (c, v) \<in> set cs \<and> (c, w) \<in> set cs \<longrightarrow> v = w)
      \<and> (distinct (map fst cs) \<longleftrightarrow> distinct (filter (\<lambda>v. v \<noteq> []) ?vs))" if d: "?d \<noteq> []"
  proof -
    note table = discriminator_const_names_table [OF conjunct1 [OF conjunct2 [OF parts]] d]
    note const_facts = const_name_values [OF table(1)]
    have named: "v \<in> fst ` set (up_const_names u)" if "v \<in> set ?vs" "v \<noteq> []" for v
      using that table(2) parts by (auto dest!: map_gen_member)
    have const: "const_name (up_const_names u) v \<noteq> []" if "v \<in> set ?vs" "v \<noteq> []" for v
      using const_facts(1) named that by blast
    have "ConstDecl (up_type u) ?cs \<in> set ds"
      using d by (simp add: ds union_discriminator_def declared_consts_def)
    moreover have "\<exists>c. (field_name ?d, EConst c) \<in> set (gc_fields (gs ! i)) \<and> (c, ValString (?vs ! i)) \<in> set ?cs"
      if "i < length (union_branches s)" "?vs ! i \<noteq> []" for i
      using gs(3) [OF that(1) d] const [of "?vs ! i"] that len
      by (intro exI [of _ "const_name (up_const_names u) (?vs ! i)"]) (auto simp: declared_consts_def)
    moreover have "\<forall>c v w. (c, v) \<in> set ?cs \<and> (c, w) \<in> set ?cs \<longrightarrow> v = w"
      using const_facts(2) by (auto simp: declared_consts_def)
    ultimately show ?thesis using distinct_consts [OF table(1) named] by blast
  qed
  then show ?thesis using parts gs(1,2) ctors by blast
qed

text \<open>Two shapes, told apart by \<open>kind\<close>.\<close>

definition shape_branch :: "string \<Rightarrow> string \<Rightarrow> schema" where
  "shape_branch title kind =
     Schema (no_keywords\<lparr>kw_type := ''object'', kw_title := title, kw_required := [''kind'', ''size'']\<rparr>)
       [(''kind'', leaf (no_keywords\<lparr>kw_type := ''string'', kw_const := Some (ValString kind)\<rparr>)),
        (''size'', leaf (no_keywords\<lparr>kw_type := ''integer''\<rparr>))] None None [] [] []"

definition shapes :: schema where
  "shapes = Schema no_keywords [] None None [] [shape_branch ''Circle'' ''circle'', shape_branch ''Square'' ''square''] []"

theorem union_variants_witness:
  "\<exists>ds meta tail t cs. discriminator_union_code (gen_env_of [] 3) ''Shape'' ''Shape'' shapes = Inr (ds, meta, tail)
    \<and> ConstDecl t cs \<in> set ds \<and> distinct (map fst cs)
    \<and> (\<exists>c. (field_name ''kind'', EConst c) \<in> set (gc_fields (constructors_of ds ! 1)) \<and> (c, ValString ''square'') \<in> set cs)"
proof -
  let ?E = "gen_env_of [] 3"
  have "succeeds (discriminator_union_code ?E ''Shape'' ''Shape'' shapes)" by code_simp
  then obtain ds meta tail where code: "discriminator_union_code ?E ''Shape'' ''Shape'' shapes = Inr (ds, meta, tail)"
    by (auto elim: succeeds_obtain)
  have facts: "discriminator_field ?E shapes (union_branches shapes) = Inr ''kind''"
    "map_gen (variant_const ?E ''kind'') (union_branches shapes) = Inr [''circle'', ''square'']"
    "length (union_branches shapes) = 2" "distinct (filter (\<lambda>v. v \<noteq> []) [''circle'', ''square''])"
    by code_simp+
  from union_variants [OF code] facts(1,2,4) obtain t cs where "ConstDecl t cs \<in> set ds" "distinct (map fst cs)"
    and *: "\<forall>i < length (union_branches shapes). [''circle'', ''square''] ! i \<noteq> [] \<longrightarrow>
      (\<exists>c. (field_name ''kind'', EConst c) \<in> set (gc_fields (constructors_of ds ! i))
        \<and> (c, ValString ([''circle'', ''square''] ! i)) \<in> set cs)"
    by auto
  moreover from * [rule_format, of 1] facts(3)
  have "\<exists>c. (field_name ''kind'', EConst c) \<in> set (gc_fields (constructors_of ds ! 1)) \<and> (c, ValString ''square'') \<in> set cs"
    by simp
  ultimately show ?thesis using code by blast
qed

end
