(* ===== verification/Typegen_Total.thy ===== *)
theory Typegen_Total
  imports Typegen
begin

text \<open>
  That the searches of the type generator end: through the branches of unions, when no
  definition is a variant of itself, and through named types always, because each is entered
  once; and that the text kept beside a type is the text of it.
\<close>

section \<open>Schema types\<close>

lemma or_panic_Endless: "or_panic x f = Inl Endless \<longleftrightarrow> x = Inl Endless \<or> (\<exists>a. x = Inr a \<and> f a = Inl Endless)"
  by (cases x) auto

lemma scalar_type_returns: "scalar_type s \<noteq> Inl Endless"
  by (simp add: scalar_type_def integer_type_def Let_def)

lemma pointer_to_returns: "pointer_to t \<noteq> Inl Endless" "slice_of t \<noteq> Inl Endless" "map_to t \<noteq> Inl Endless"
  by (simp_all add: pointer_to_def slice_of_def map_to_def)

lemma ref_type_returns: "ref_type E r False \<noteq> Inl Endless"
  by (simp add: ref_type_def Let_def split: option.split)

lemma schema_type_returns: "schema_type E so False \<noteq> Inl Endless"
proof (induction E so False rule: schema_type.induct)
  case (1 E)
  then show ?case by simp
next
  case (2 E s)
  then show ?case
    by (subst schema_type.simps)
      (auto simp: or_panic_Endless ref_type_returns scalar_type_returns pointer_to_returns split: option.splits)
qed

section \<open>Variants\<close>

text \<open>A definition that a branch of another one refers to has a smaller rank.\<close>

definition ranked :: "schema_defs \<Rightarrow> (string \<Rightarrow> nat) \<Rightarrow> bool" where
  "ranked defs rank \<longleftrightarrow> (\<forall>(n, d) \<in> set defs. \<forall>b \<in> set (union_branches d). rank (variant_ref b) < rank n)"

lemma each_Endless: "each f xs s = Inl e \<Longrightarrow> \<exists>x \<in> set xs. \<exists>t. f x t = Inl e"
  by (induction xs arbitrary: s) (auto split: sum.splits)

lemma each_visits: "each f xs s = Inr t \<Longrightarrow> x \<in> set xs \<Longrightarrow> \<exists>a b. f x a = Inr b"
  by (induction xs arbitrary: s) (auto split: sum.splits)

lemma gen_env_of_def_simp [simp]: "ge_def (gen_env_of defs depth) = map_of defs" "ge_depth (gen_env_of defs depth) = depth"
  by (simp_all add: gen_env_of_def Let_def)

lemma variant_properties_to_returns:
  assumes "ranked defs rank" "rank (variant_ref b) < n"
  shows "variant_properties_to n (gen_env_of defs depth) b \<noteq> Inl Endless"
  using assms(2)
proof (induction n arbitrary: b)
  case 0
  then show ?case by simp
next
  case (Suc n)
  let ?E = "gen_env_of defs depth"
  have "schema_variant_properties (variant_properties_to n ?E) (variant_ref b) d \<noteq> Inl Endless"
    if d: "map_of defs (variant_ref b) = Some d" for d
  proof
    assume "schema_variant_properties (variant_properties_to n ?E) (variant_ref b) d = Inl Endless"
    then obtain c where c: "c \<in> set (union_branches d)" "variant_properties_to n ?E c = Inl Endless"
      by (auto simp: schema_variant_properties_def override_by_def or_panic_Endless dest!: each_Endless)
    have "rank (variant_ref c) < rank (variant_ref b)"
      using assms(1) map_of_SomeD [OF d] c(1) by (auto simp: ranked_def)
    with Suc c(2) show False by simp
  qed
  then show ?case by (auto simp: or_panic_Endless split: option.splits)
qed

lemma all_gen_Endless: "all_gen f xs = Inl e \<Longrightarrow> \<exists>x \<in> set xs. f x = Inl e"
  by (induction xs) (auto simp: or_panic_def split: sum.splits if_splits)

lemma is_discriminator_union_returns:
  assumes "ranked defs rank" "\<forall>b \<in> set (union_branches d). rank (variant_ref b) < depth"
  shows "is_discriminator_union (gen_env_of defs depth) d \<noteq> Inl Endless"
  using assms variant_properties_to_returns [OF assms(1)]
  by (auto simp: is_discriminator_union_def is_variant_def variant_properties_def or_panic_Endless
      dest!: all_gen_Endless split: if_splits)

section \<open>Named types\<close>

lemma find_in: "find P xs = Some x \<Longrightarrow> x \<in> set xs \<and> P x"
  by (induction xs) (auto split: if_splits)

lemma ge_raw_Some:
  assumes "ge_raw (gen_env_of defs depth) t = Some raw"
  shows "t \<in> ran (definition_names (map fst defs))" "raw \<in> fst ` set defs"
  using find_in [of _ "sort (map fst defs)" raw] assms by (auto simp: gen_env_of_def Let_def ran_def)

lemma dom_definition_names: "dom (definition_names ns) = set ns"
  by (simp add: definition_names_def name_map_names(1))

lemma ran_image: "ran m = (\<lambda>x. the (m x)) ` dom m"
  by (force simp: ran_def)

lemma names_finite: "finite (ran (definition_names ns))" "card (ran (definition_names ns)) \<le> length ns"
proof -
  show "finite (ran (definition_names ns))" by (simp add: ran_image dom_definition_names)
  have "card (ran (definition_names ns)) \<le> card (set ns)"
    unfolding ran_image dom_definition_names by (rule card_image_le) simp
  also have "\<dots> \<le> length ns" by (rule card_length)
  finally show "card (ran (definition_names ns)) \<le> length ns" .
qed

lemma number_type_returns:
  assumes "\<forall>(m, d) \<in> set defs. is_discriminator_union (gen_env_of defs depth) d \<noteq> Inl Endless"
    and "card (ran (definition_names (map fst defs)) - set seen) < n"
  shows "number_type n (gen_env_of defs depth) t c seen \<noteq> Inl Endless"
  using assms(2)
proof (induction n arbitrary: t seen)
  case 0
  then show ?case by simp
next
  case (Suc n)
  let ?E = "gen_env_of defs depth" and ?names = "ran (definition_names (map fst defs))"
  define u where "u = (if c then strip_collections t else t)"
  have "number_type n ?E v c (u # seen) \<noteq> Inl Endless"
    if "u \<notin> set seen" "ge_raw ?E u = Some raw" for raw v
  proof (rule Suc.IH)
    have "card (?names - set (u # seen)) < card (?names - set seen)"
    proof (rule psubset_card_mono)
      show "finite (?names - set seen)" using names_finite(1) by simp
      have "u \<in> ?names - set seen" using ge_raw_Some(1) [OF that(2)] that(1) by simp
      then show "?names - set (u # seen) \<subset> ?names - set seen" unfolding list.set by blast
    qed
    with Suc.prems show "card (?names - set (u # seen)) < n" by simp
  qed
  moreover have "is_discriminator_union ?E d \<noteq> Inl Endless" if "map_of defs raw = Some d" for raw d
    using assms(1) map_of_SomeD [OF that] by auto
  ultimately show ?case
    using schema_type_returns [of ?E] unfolding number_type.simps Let_def u_def [symmetric]
    by (auto simp: or_panic_Endless or_else_def split: option.split)
qed

text \<open>
  C39: the searches of the generator end. If no definition is, through its branches, a variant of
  itself, and the stack is deeper than the number of definitions and than every chain of
  variants, then collecting the properties of a variant returns, telling whether a definition is
  a tagged union returns, and so do both searches for unstructured numbers, for every type and
  however the named types refer to each other: no name is entered twice.
\<close>

theorem searches_end:
  assumes "ranked defs rank" "\<forall>n. rank n < depth" "length defs < depth"
  shows "variant_properties (gen_env_of defs depth) b \<noteq> Inl Endless
    \<and> is_discriminator_union (gen_env_of defs depth) d \<noteq> Inl Endless
    \<and> unstructured_type (gen_env_of defs depth) t \<noteq> Inl Endless
    \<and> requires_container_decoder (gen_env_of defs depth) t \<noteq> Inl Endless"
proof -
  have union: "is_discriminator_union (gen_env_of defs depth) d \<noteq> Inl Endless" for d
    using is_discriminator_union_returns [OF assms(1)] assms(2) by simp
  have "card (ran (definition_names (map fst defs)) - set []) < depth"
    using names_finite(2) [of "map fst defs"] assms(3) by simp
  with union have "number_type depth (gen_env_of defs depth) t c [] \<noteq> Inl Endless" for c
    by (intro number_type_returns) auto
  moreover have "variant_properties (gen_env_of defs depth) b \<noteq> Inl Endless"
    using variant_properties_to_returns [OF assms(1)] assms(2) by (simp add: variant_properties_def)
  ultimately show ?thesis
    using union by (simp add: unstructured_type_def requires_container_decoder_def)
qed

text \<open>A box that is a variant of a base, and a definition that is a variant of itself.\<close>

definition boxed_defs :: schema_defs where
  "boxed_defs =
     [(''Base'', Schema (no_keywords\<lparr>kw_type := ''object''\<rparr>) [(''size'', leaf (no_keywords\<lparr>kw_type := ''integer''\<rparr>))] None None [] [] []),
      (''Box'', Schema no_keywords [] None None [] [wraps (no_keywords\<lparr>kw_title := ''Plain''\<rparr>) ''Base''] [])]"

definition looping_defs :: schema_defs where
  "looping_defs = [(''Loop'', Schema no_keywords [] None None [] [wraps no_keywords ''Loop''] [])]"

theorem searches_end_witness:
  "unstructured_type (gen_env_of boxed_defs 3) ''[]Box'' \<noteq> Inl Endless
    \<and> is_discriminator_union (gen_env_of boxed_defs 3) (snd (boxed_defs ! 1)) \<noteq> Inl Endless"
proof -
  let ?rank = "\<lambda>n. if n = ''Box'' then 1 else (0::nat)"
  have "variant_ref (wraps (no_keywords\<lparr>kw_title := ''Plain''\<rparr>) ''Base'') = ''Base''" by code_simp
  then have "ranked boxed_defs ?rank" by (simp add: ranked_def boxed_defs_def union_branches_def)
  moreover have "\<forall>n. ?rank n < 3" "length boxed_defs < 3" by (simp_all add: boxed_defs_def)
  ultimately show ?thesis using searches_end by blast
qed

text \<open>
  C40: a definition that is a variant of itself never returns: whatever the depth of the stack,
  collecting the properties of such a branch gives no result. The generator is meant to panic
  with a message on a schema it cannot handle; on this one it overflows its stack.
\<close>

theorem recursive_variant_overflows:
  assumes "map_of defs (variant_ref b) = Some d" "b \<in> set (union_branches d)" "variant_ref b \<noteq> []"
  shows "variant_properties (gen_env_of defs depth) b \<noteq> Inr ps
    \<and> (union_branches d = [b] \<longrightarrow> variant_properties (gen_env_of defs depth) b = Inl Endless)"
proof -
  have "\<forall>ps. variant_properties_to n (gen_env_of defs depth) b \<noteq> Inr ps" for n
  proof (induction n)
    case 0
    then show ?case by simp
  next
    case (Suc n)
    show ?case
    proof (intro allI notI)
      fix ps
      assume "variant_properties_to (Suc n) (gen_env_of defs depth) b = Inr ps"
      then obtain qs where
        "each (override_by (variant_properties_to n (gen_env_of defs depth))) (union_branches d) (homed (variant_ref b) (sc_properties d)) = Inr qs"
        using assms(1,3) by (auto simp: or_panic_Inr schema_variant_properties_def)
      then show False
        using Suc assms(2) by (auto simp: override_by_def or_panic_Inr dest!: each_visits)
    qed
  qed
  moreover have "variant_properties_to n (gen_env_of defs depth) b = Inl Endless" if "union_branches d = [b]" for n
    using assms(1,3) that by (induction n) (auto simp: schema_variant_properties_def override_by_def)
  ultimately show ?thesis by (simp add: variant_properties_def)
qed

theorem recursive_variant_overflows_witness:
  "variant_properties (gen_env_of looping_defs 1000) (wraps no_keywords ''Loop'') = Inl Endless"
proof -
  have "variant_ref (wraps no_keywords ''Loop'') = ''Loop''" by code_simp
  moreover have "map_of looping_defs ''Loop'' = Some (snd (hd looping_defs))"
    "union_branches (snd (hd looping_defs)) = [wraps no_keywords ''Loop'']"
    by (simp_all add: looping_defs_def union_branches_def)
  ultimately show ?thesis
    using recursive_variant_overflows [of looping_defs "wraps no_keywords ''Loop''" "snd (hd looping_defs)"] by simp
qed

section \<open>The text of a type\<close>

text \<open>A schema in which null is never allowed twice, along the way \<open>schemaType\<close> takes.\<close>

lemma member_measure: "type_measure (sc_items s) < type_measure (Some s)" "type_measure (sc_additional s) < type_measure (Some s)"
proof -
  have "0 < type_measure (Some s)" by (cases s) (simp add: type_measure_def)
  then show "type_measure (sc_items s) < type_measure (Some s)"
    using items_measure [of s] by (cases "sc_items s") (auto simp: type_measure_def [of None])
  from \<open>0 < type_measure (Some s)\<close> show "type_measure (sc_additional s) < type_measure (Some s)"
    using additional_measure [of s] by (cases "sc_additional s") (auto simp: type_measure_def [of None])
qed

function single_null :: "schema option \<Rightarrow> bool" where
  "single_null None = True"
| "single_null (Some s) =
     (case nullable_schema s of
        Some t \<Rightarrow> (sc_ref t \<noteq> [] \<or> wrapped_ref t \<noteq> [] \<or> nullable_schema t = None) \<and> single_null (Some t)
      | None \<Rightarrow> single_null (sc_items s) \<and> single_null (sc_additional s))"
  by pat_completeness auto
termination
  by (relation "measure type_measure") (auto intro: nullable_measure member_measure)

declare single_null.simps(2) [simp del]

definition starless :: "string \<Rightarrow> bool" where
  "starless t \<longleftrightarrow> (\<forall>u. t \<noteq> ''*'' @ u)"

lemma starless_simps [simp]:
  "starless []" "starless (c # t) \<longleftrightarrow> c \<noteq> CHR ''*''" "starless t \<Longrightarrow> trim_prefix t ''*'' = t"
  by (auto simp: starless_def trim_prefix_def has_prefix_iff)

lemma wanted_definition_alnum: "\<forall>c \<in> set (wanted_definition r). alnum c"
proof -
  have "\<forall>u \<in> set (pascal_words r []). \<forall>c \<in> set u. alnum c"
    using pascal_words_alnum [of _ r "[]"] by fastforce
  then have "\<forall>c \<in> set (pascal_identifier r). alnum c"
    using alnum_upper_first by (fastforce simp: pascal_identifier_def)
  moreover have "\<forall>c \<in> set ''Definition''. alnum c" by code_simp
  ultimately show ?thesis by (simp add: wanted_definition_def Let_def)
qed

lemma go_definition_name_starless: "starless (go_definition_name (gen_env_of defs depth) raw)"
proof -
  have "starless t" if "\<forall>c \<in> set t. alnum c" for t
  proof -
    have "\<not> alnum (CHR ''*'')" by code_simp
    with that show ?thesis by (auto simp: starless_def)
  qed
  moreover have "\<forall>c \<in> set name. alnum c" if "definition_names (map fst defs) raw = Some name" for name
    using name_map_names(4) [OF definition_names_def [of "map fst defs"], of name] that wanted_definition_alnum alnum_show_nat
    by (force simp: ran_def)
  ultimately show ?thesis
    using wanted_definition_alnum
    by (auto simp: go_definition_name_def gen_env_of_def Let_def split: option.splits)
qed

lemma scalar_type_text:
  assumes "scalar_type s = Inr (code, text)"
  shows "text = type_text_of code \<and> starless text"
proof -
  have "show_nat 64 = ''64''" "show_nat 32 = ''32''" "show_nat 16 = ''16''" by code_simp+
  with assms show ?thesis
    by (auto simp: scalar_type_def integer_type_def Let_def split: if_splits) (erule subst, simp)+
qed

lemma ref_type_text:
  assumes "ref_type (gen_env_of defs depth) r optional = Inr (code, text)"
  shows "text = type_text_of code \<and> (\<not> optional \<longrightarrow> starless text)"
  using assms go_definition_name_starless [of defs depth]
  by (auto simp: ref_type_def or_panic_Inr Let_def split: if_splits option.splits)

lemma schema_type_text:
  assumes "schema_type E so optional = Inr (code, text)" "E = gen_env_of defs depth" "single_null so"
  shows "text = type_text_of code
    \<and> (\<forall>s. so = Some s \<and> \<not> optional \<and> (sc_ref s \<noteq> [] \<or> wrapped_ref s \<noteq> [] \<or> nullable_schema s = None) \<longrightarrow> starless text)"
  using assms
proof (induction E so optional arbitrary: "code" "text" rule: schema_type.induct)
  case (1 E optional)
  then show ?case by simp
next
  case (2 E s optional)
  note ty = trans [OF sym [OF schema_type.simps(2)] 2(4)] and E = 2(5) and null = iffD1 [OF single_null.simps(2) 2(6)]
  consider "sc_ref s \<noteq> []" | "sc_ref s = []" "wrapped_ref s \<noteq> []"
    | t where "sc_ref s = []" "wrapped_ref s = []" "nullable_schema s = Some t"
    | "sc_ref s = []" "wrapped_ref s = []" "nullable_schema s = None" by (cases "nullable_schema s") auto
  then show ?case
  proof cases
    case 1
    with ty show ?thesis using ref_type_text E by simp
  next
    case 2
    with ty show ?thesis using ref_type_text E by simp
  next
    case (3 t)
    with ty null obtain c u where *: "schema_type E (Some t) False = Inr (c, u)" "pointer_to (c, u) = Inr (code, text)"
        "single_null (Some t)" "sc_ref t \<noteq> [] \<or> wrapped_ref t \<noteq> [] \<or> nullable_schema t = None"
      by (auto simp: or_panic_Inr)
    with 2 3 have "u = type_text_of c" "starless u" by simp_all
    with *(2) 3 show ?thesis by (auto simp: pointer_to_def split: if_splits)
  next
    case 4
    with null have nulls: "single_null (sc_items s)" "single_null (sc_additional s)" by simp_all
    from 4 ty E nulls "2.IH"(1,2) show ?thesis
      by (auto simp: or_panic_Inr slice_of_def map_to_def dest!: scalar_type_text split: if_splits option.splits)
  qed
qed

text \<open>
  The text the generator keeps beside the code of a type, on whose prefixes it decides how to
  decode and encode a field, is the text of that code, for every schema that allows null at most
  once along the way.
\<close>

theorem type_text_exact:
  assumes "schema_type (gen_env_of defs depth) so optional = Inr (code, text)" "single_null so"
  shows "text = type_text_of code"
  using schema_type_text [OF assms(1) refl assms(2)] by blast

definition maybe_text :: schema where
  "maybe_text = Schema (no_keywords\<lparr>kw_types := [''string'', ''null'']\<rparr>) [] None None [] [] []"

definition null_schema :: schema where
  "null_schema = leaf (no_keywords\<lparr>kw_type := ''null''\<rparr>)"

theorem type_text_exact_witness:
  "schema_type (gen_env_of [] 1) (Some maybe_text) True = Inr (GPtr GString, type_text_of (GPtr GString))"
proof -
  have "schema_type (gen_env_of [] 1) (Some maybe_text) True = Inr (GPtr GString, ''*string'')" by code_simp
  moreover have "single_null (Some maybe_text)" by code_simp
  ultimately show ?thesis using type_text_exact by fastforce
qed

text \<open>Where null is allowed twice it is not: the code is a pointer to a pointer, the text a pointer.\<close>

theorem double_null_pointer:
  assumes "sc_ref s = []" "wrapped_ref s = []" "nullable_schema s = Some t"
    and "sc_ref t = []" "wrapped_ref t = []" "nullable_schema t = Some u"
    and "schema_type E (Some u) False = Inr (c, x)" "x \<noteq> ''any''" "x \<noteq> ''map[string]any''"
  shows "schema_type E (Some s) optional = Inr (GPtr (GPtr c), ''*'' @ trim_prefix x ''*'')"
proof -
  have "schema_type E (Some t) False = Inr (GPtr c, ''*'' @ trim_prefix x ''*'')"
    using assms(4-9) by (simp add: schema_type.simps(2) pointer_to_def)
  with assms(1-3) show ?thesis
    using trim_prefix_append [of "''*''" "trim_prefix x ''*''"] by (simp add: schema_type.simps(2) pointer_to_def)
qed

theorem double_null_pointer_witness:
  "schema_type (gen_env_of [] 1) (Some (Schema no_keywords [] None None [maybe_text, null_schema] [] [])) True
     = Inr (GPtr (GPtr GString), ''*string'')"
proof -
  let ?s = "Schema no_keywords [] None None [maybe_text, null_schema] [] []" and ?u = "with_type ''string'' maybe_text"
  have "sc_ref ?s = []" "wrapped_ref ?s = []" "nullable_schema ?s = Some maybe_text"
    "sc_ref maybe_text = []" "wrapped_ref maybe_text = []" "nullable_schema maybe_text = Some ?u"
    "schema_type (gen_env_of [] 1) (Some ?u) False = Inr (GString, ''string'')"
    by code_simp+
  from double_null_pointer [OF this] show ?thesis by (simp add: trim_prefix_def has_prefix_def)
qed

end
