(* ===== verification/Typegen_Closed.thy ===== *)
theory Typegen_Closed
  imports Typegen_Variants Typegen_Total
begin

text \<open>
  That the generated file declares what it uses: every definition that gets code gets a type
  under its Go name, and every type name in the struct of an object is declared in the file.
\<close>

section \<open>Names in types\<close>

fun names_of_type :: "gen_type \<Rightarrow> string set" where
  "names_of_type (GName x) = {x}"
| "names_of_type (GPtr t) = names_of_type t"
| "names_of_type (GSlice t) = names_of_type t"
| "names_of_type (GMap t) = names_of_type t"
| "names_of_type t = {}"

text \<open>A name that stands for a definition which the schema mentions.\<close>

definition names_mentioned :: "schema_defs \<Rightarrow> nat \<Rightarrow> schema \<Rightarrow> string \<Rightarrow> bool" where
  "names_mentioned defs depth s x \<longleftrightarrow>
     (\<exists>m d. mentions s m \<and> map_of defs m = Some d \<and> x = go_definition_name (gen_env_of defs depth) m)"

lemma mentions_with_type: "mentions (with_type t s) m \<Longrightarrow> mentions s m"
  unfolding mem_Collect_eq [of m "mentions _", symmetric] mentions_unfold [of s] mentions_unfold [of "with_type t s"]
  by (auto simp: with_type_def children_def sc_ref_def)

lemma mentions_nullable:
  assumes "nullable_schema s = Some t" "mentions t m"
  shows "mentions s m"
proof (cases "length (kw_types (sc_keywords s)) = 2 \<and> ''null'' \<in> set (kw_types (sc_keywords s))")
  case True
  with assms obtain u where "t = with_type u s" by (auto simp: nullable_schema_def Let_def)
  with assms(2) show ?thesis by (auto dest: mentions_with_type)
next
  case False
  with assms(1) have "t \<in> set (sc_any_of s)"
    by (auto simp: nullable_schema_def Let_def split: if_splits dest: last_non_null_in)
  then have "t \<in> set (children s)" by (simp add: children_def)
  then show ?thesis using assms(2) by (rule mention_inside)
qed

lemma names_mentioned_mono:
  "(\<And>m. mentions t m \<Longrightarrow> mentions s m) \<Longrightarrow> names_mentioned defs depth t x \<Longrightarrow> names_mentioned defs depth s x"
  by (auto simp: names_mentioned_def)

lemma mentions_child: "c \<in> set (children s) \<Longrightarrow> mentions c m \<Longrightarrow> mentions s m"
  by (rule mention_inside)

lemma ref_type_names:
  assumes "ref_type (gen_env_of defs depth) r optional = Inr (code, t)" "x \<in> names_of_type code"
  shows "\<exists>d. map_of defs (ref_name r) = Some d \<and> x = go_definition_name (gen_env_of defs depth) (ref_name r)"
  using assms by (auto simp: ref_type_def or_panic_Inr Let_def split: if_splits option.splits)

lemma scalar_type_names: "scalar_type s = Inr (code, t) \<Longrightarrow> names_of_type code = {}"
  by (auto simp: scalar_type_def integer_type_def Let_def split: if_splits)

lemma wrapped_ref_mentioned: "wrapped_ref s \<noteq> [] \<Longrightarrow> mentions s (ref_name (wrapped_ref s))"
proof -
  assume *: "wrapped_ref s \<noteq> []"
  then obtain a where a: "sc_all_of s = [a]" "wrapped_ref s = sc_ref a"
    by (auto simp: wrapped_ref_def split: list.splits)
  then have "a \<in> set (children s)" by (simp add: children_def)
  moreover have "mentions a (ref_name (sc_ref a))" using * a by (auto intro: mention)
  ultimately show ?thesis unfolding a(2) by (rule mention_inside)
qed

lemma schema_type_names:
  assumes "schema_type E so optional = Inr (code, t)" "E = gen_env_of defs depth" "x \<in> names_of_type code"
  shows "\<exists>s. so = Some s \<and> names_mentioned defs depth s x"
  using assms
proof (induction E so optional arbitrary: "code" t rule: schema_type.induct)
  case (1 E optional)
  then show ?case by simp
next
  case (2 E s optional)
  note ty = trans [OF sym [OF schema_type.simps(2)] 2(4)] and E = 2(5) and x = 2(6)
  consider "sc_ref s \<noteq> []" | "sc_ref s = []" "wrapped_ref s \<noteq> []"
    | u where "sc_ref s = []" "wrapped_ref s = []" "nullable_schema s = Some u"
    | "sc_ref s = []" "wrapped_ref s = []" "nullable_schema s = None" by (cases "nullable_schema s") auto
  then show ?case
  proof cases
    case 1
    with ty E x have "names_mentioned defs depth s x"
      using ref_type_names [of defs depth "sc_ref s"] mention [OF 1] by (auto simp: names_mentioned_def)
    then show ?thesis by simp
  next
    case 2
    with ty E x have "names_mentioned defs depth s x"
      using ref_type_names [of defs depth "wrapped_ref s"] wrapped_ref_mentioned [OF 2(2)]
      by (auto simp: names_mentioned_def)
    then show ?thesis by simp
  next
    case (3 u)
    with ty obtain c v where *: "schema_type E (Some u) False = Inr (c, v)" "pointer_to (c, v) = Inr (code, t)"
      by (auto simp: or_panic_Inr)
    from *(2) x have "x \<in> names_of_type c" by (auto simp: pointer_to_def split: if_splits)
    with 2 3 *(1) have "names_mentioned defs depth u x" by simp
    then show ?thesis using names_mentioned_mono [of u s] mentions_nullable [OF 3(3)] by simp
  next
    case 4
    have child: "names_mentioned defs depth s x"
      if "sc_items s = Some c \<or> sc_additional s = Some c" "names_mentioned defs depth c x" for c
    proof -
      have "c \<in> set (children s)" using that(1) by (auto simp: children_def)
      then show ?thesis using that(2) names_mentioned_mono [of c s] mentions_child [of c s] by blast
    qed
    show ?thesis using 4 ty E x "2.IH"(1,2)
      by (auto simp: or_panic_Inr slice_of_def map_to_def scalar_type_names intro: child split: if_splits option.splits)
  qed
qed

section \<open>Every definition gets its type\<close>

lemma definition_code_declares:
  assumes "definition_code E name raw s = Inr (ds, meta, tail)"
  shows "\<exists>shape. TypeDecl name shape \<in> set ds"
proof -
  from assms consider
      "discriminator_union_code E name raw s = Inr (ds, meta, tail)" | "array_union_code E name s = Inr ds"
    | "object_code E name raw s = Inr (ds, meta, tail)" | "ds = string_enum_code name s" | "ds = string_const_enum_code name s"
    | "primitive_const_union_kind s \<noteq> None" "primitive_const_union_code name s = Inr ds" | "default_code E name s = Inr ds"
    unfolding definition_code_def or_panic_Inr by (auto simp: only_types_def or_panic_Inr split: if_splits)
  then show ?thesis
  proof cases
    case 1
    then show ?thesis by (rule union_code_form) auto
  next
    case 2
    then show ?thesis by (auto simp: array_union_code_def or_panic_Inr Let_def)
  next
    case 3
    then show ?thesis by (rule object_code_cases) auto
  next
    case 6
    then show ?thesis by (auto simp: primitive_const_union_code_def or_panic_Inr)
  qed (auto simp: string_enum_code_def string_const_enum_code_def default_code_def or_panic_Inr)
qed

lemma generate_types_parts:
  assumes "generate_types doc depth = Inr file" "(raw, s) \<in> set (generated_definitions doc)"
    and "E = gen_env_of (doc_defs doc) depth"
  shows "\<exists>ds meta tail. definition_code E (go_definition_name E raw) raw s = Inr (ds, meta, tail)
    \<and> set ds \<subseteq> set file \<and> set tail \<subseteq> set file \<and> (meta \<longrightarrow> set meta_code \<subseteq> set file)"
proof -
  from assms(1,3) obtain codes where
    codes: "map_gen (\<lambda>(raw, d). definition_code E (go_definition_name E raw) raw d) (generated_definitions doc) = Inr codes"
    and types: "file = types_file codes"
    by (auto simp: generate_types_def or_panic_Inr Let_def)
  from map_gen_of [OF codes assms(2)] obtain c where c: "c \<in> set codes"
      "definition_code E (go_definition_name E raw) raw s = Inr c" by auto
  then have "set (fst c) \<subseteq> set file" "set (snd (snd c)) \<subseteq> set file" "fst (snd c) \<longrightarrow> set meta_code \<subseteq> set file"
    by (auto simp: types types_file_def list_ex_iff)
  with c(2) show ?thesis by (cases c) auto
qed

text \<open>
  C33: the generated file is closed. Every definition that gets code is declared in it under its
  Go name; and of an object among them, every type name that occurs in the type of a field is
  declared in it too, whether it is \<open>Meta\<close> or the name of another definition: the traversal that
  chooses the definitions and the emission of their types agree on what is referred to.
\<close>

theorem file_declares_types:
  assumes "distinct (map fst (doc_defs doc))" "generate_types doc depth = Inr file"
    and "(raw, s) \<in> set (generated_definitions doc)" "E = gen_env_of (doc_defs doc) depth"
  shows "(\<exists>shape. TypeDecl (go_definition_name E raw) shape \<in> set file)
    \<and> (is_discriminator_union E s = Inr False \<and> \<not> is_array_union s \<and> is_object_schema s \<longrightarrow>
        (\<exists>fs. TypeDecl (go_definition_name E raw) (GStruct fs) \<in> set file
          \<and> (\<forall>f \<in> set fs. \<forall>x \<in> names_of_type (gf_type f). \<exists>shape. TypeDecl x shape \<in> set file)))"
proof (intro conjI impI)
  obtain ds meta tail where code: "definition_code E (go_definition_name E raw) raw s = Inr (ds, meta, tail)"
    and sub: "set ds \<subseteq> set file" "meta \<longrightarrow> set meta_code \<subseteq> set file"
    using generate_types_parts [OF assms(2-4)] by blast
  from definition_code_declares [OF code] sub(1)
  show "\<exists>shape. TypeDecl (go_definition_name E raw) shape \<in> set file" by blast
  assume "is_discriminator_union E s = Inr False \<and> \<not> is_array_union s \<and> is_object_schema s"
  with code have object: "object_code E (go_definition_name E raw) raw s = Inr (ds, meta, tail)"
    by (simp add: definition_code_def)
  obtain ms rest where ms: "object_members E raw s = Inr ms"
    and ds: "ds = TypeDecl (go_definition_name E raw) (object_struct raw s ms) # rest"
    and meta: "meta \<longleftrightarrow> ''_meta'' \<in> fst ` set (sc_properties s)"
    using object by (rule object_code_cases)
  note field = object_field_spec [OF object_members_spec(3) [OF ms]]
  have declared: "\<exists>shape. TypeDecl x shape \<in> set file" if "mentions s m" "map_of (doc_defs doc) m = Some d"
      "x = go_definition_name E m" for x m d
  proof -
    note x = that(3) and gen = generated_closed [OF assms(1,3) that(1,2)]
    obtain es u v where "definition_code E x m d = Inr (es, u, v)" "set es \<subseteq> set file"
      using generate_types_parts [OF assms(2) gen assms(4)] x by blast
    then show ?thesis using definition_code_declares [of E x m d es u v] by blast
  qed
  have "\<exists>shape. TypeDecl x shape \<in> set file" if f: "f \<in> set ms" and x: "x \<in> names_of_type (df_code (of_field f))" for f x
  proof (cases "df_json (of_field f) = ''_meta''")
    case True
    have "df_json (of_field f) \<in> set (map (df_json \<circ> of_field) ms)" using f by simp
    with True have "meta" unfolding object_members_spec(1) [OF ms] meta by simp
    with sub(2) x True field(6) [OF f] show ?thesis by (auto simp: meta_code_def)
  next
    case False
    then obtain p where p: "map_of (sc_properties s) (df_json (of_field f)) = Some p"
        "member_type E s (df_json (of_field f)) p = Inr (df_code (of_field f), df_text (of_field f))"
      using field(7) [OF f] by blast
    then have "p \<in> set (children s)" by (force simp: children_def dest: map_of_SomeD)
    have "df_code (of_field f) = GPtr GBool \<or> (\<exists>opt t. schema_type E (Some p) opt = Inr (df_code (of_field f), t))"
      using p(2) by (auto simp: member_type_def or_panic_Inr Let_def split: if_splits)
    then obtain opt t where "schema_type E (Some p) opt = Inr (df_code (of_field f), t)" using x by auto
    from schema_type_names [OF this assms(4) x] obtain m d where "mentions p m" "map_of (doc_defs doc) m = Some d"
        "x = go_definition_name E m"
      by (auto simp: names_mentioned_def assms(4))
    then show ?thesis using declared mention_inside [OF \<open>p \<in> set (children s)\<close>] by blast
  qed
  then have "\<forall>f \<in> set (map struct_field ms @ (if keeps_null_fields raw s then [null_fields_declaration] else [])).
      \<forall>x \<in> names_of_type (gf_type f). \<exists>shape. TypeDecl x shape \<in> set file"
    by (auto simp: null_fields_declaration_def)
  then show "\<exists>fs. TypeDecl (go_definition_name E raw) (GStruct fs) \<in> set file
      \<and> (\<forall>f \<in> set fs. \<forall>x \<in> names_of_type (gf_type f). \<exists>shape. TypeDecl x shape \<in> set file)"
    using sub(1) unfolding ds object_struct_def by auto
qed

text \<open>A tool with an owner.\<close>

definition owned_tool :: schema where
  "owned_tool = Schema (no_keywords\<lparr>kw_type := ''object'', kw_required := [''owner'']\<rparr>)
     [(''owner'', ref_to ''person''), (''_meta'', text_map)] None None [] [] []"

definition tools_document :: document where
  "tools_document =
     \<lparr>doc_any_of = [leaf (no_keywords\<lparr>kw_title := ''Agent''\<rparr>)],
      doc_defs = [(''person'', leaf (no_keywords\<lparr>kw_type := ''string''\<rparr>)), (''tool'', owned_tool)]\<rparr>"

theorem file_declares_types_witness:
  "\<exists>file fs shape. generate_types tools_document 3 = Inr file \<and> TypeDecl ''Tool'' (GStruct fs) \<in> set file
    \<and> TypeDecl ''Person'' shape \<in> set file"
proof -
  let ?E = "gen_env_of (doc_defs tools_document) 3"
  have "succeeds (generate_types tools_document 3)" by code_simp
  then obtain out where file_is: "generate_types tools_document 3 = Inr out" by (auto elim: succeeds_obtain)
  have names: "distinct (map fst (doc_defs tools_document))" by code_simp
  have gen: "generated_definitions tools_document = doc_defs tools_document" by code_simp
  then have defs: "(''tool'', owned_tool) \<in> set (generated_definitions tools_document)"
    "(''person'', leaf (no_keywords\<lparr>kw_type := ''string''\<rparr>)) \<in> set (generated_definitions tools_document)"
    by (simp_all add: tools_document_def)
  have go: "go_definition_name ?E ''tool'' = ''Tool''" "go_definition_name ?E ''person'' = ''Person''"
    "is_discriminator_union ?E owned_tool = Inr False" "\<not> is_array_union owned_tool" "is_object_schema owned_tool"
    by code_simp+
  from file_declares_types [OF names file_is defs(1) refl] file_declares_types [OF names file_is defs(2) refl] file_is go
  show ?thesis by auto
qed

end
