(* ===== verification/Typegen_Env.thy ===== *)
theory Typegen_Env
  imports Typegen_Read Acp_Schema_Names
begin

text \<open>
  The definitions of the protocol schema as the generator looks them up: a search by halves over
  the names, and that it agrees with the list.
\<close>

section \<open>Search by halves\<close>

lemma map_of_split:
  assumes "list_all (\<lambda>x. x < k) (map fst xs)" "list_all (\<lambda>x. k \<le> x) (map fst ys)"
  shows "map_of (xs @ ys) n = (if n < k then map_of xs n else map_of (ys :: (string \<times> 'a) list) n)"
proof -
  have "n < k \<Longrightarrow> map_of ys n = None"
    using assms(2) by (auto simp: map_of_eq_None_iff list_all_iff not_le)
  moreover have "\<not> n < k \<Longrightarrow> map_of xs n = None"
    using assms(1) by (auto simp: map_of_eq_None_iff list_all_iff)
  ultimately show ?thesis by (auto simp: map_add_def split: option.splits)
qed

lemma below_above:
  assumes "successively (<) (xs @ k # ys)"
  shows "list_all (\<lambda>x. x < k) xs" "list_all (\<lambda>x. (k::'a::linorder) \<le> x) (k # ys)"
proof -
  have "sorted_wrt (<) (xs @ k # ys)" using assms by (simp add: successively_conv_sorted_wrt)
  then show "list_all (\<lambda>x. x < k) xs" "list_all (\<lambda>x. k \<le> x) (k # ys)"
    by (auto simp: sorted_wrt_append list_all_iff)
qed

lemma map_of_halves:
  assumes "successively (<) (map fst (xs @ (k, v) # ys))"
  shows "map_of (xs @ (k, v) # ys) n = (if n < k then map_of xs n else map_of ((k, v) # ys :: (string \<times> 'a) list) n)"
  using below_above [of "map fst xs" k "map fst ys"] assms by (intro map_of_split) simp_all

text \<open>The search: nested conditions over short lists of definitions, which stay folded.\<close>

definition part_1 :: schema_defs where
  "part_1 =
    [(''AgentAuthCapabilities'', schema_AgentAuthCapabilities),
     (''AgentCapabilities'', schema_AgentCapabilities),
     (''AgentNotification'', schema_AgentNotification),
     (''AgentRequest'', schema_AgentRequest),
     (''AgentResponse'', schema_AgentResponse),
     (''Annotations'', schema_Annotations),
     (''ArchiveSessionRequest'', schema_ArchiveSessionRequest),
     (''ArchiveSessionResponse'', schema_ArchiveSessionResponse)]"

definition part_2 :: schema_defs where
  "part_2 =
    [(''AudioContent'', schema_AudioContent),
     (''AuthAccount'', schema_AuthAccount),
     (''AuthCapabilities'', schema_AuthCapabilities),
     (''AuthMethod'', schema_AuthMethod),
     (''AuthMethodAgent'', schema_AuthMethodAgent),
     (''AuthMethodId'', schema_AuthMethodId),
     (''AuthMethodTerminal'', schema_AuthMethodTerminal),
     (''AuthState'', schema_AuthState)]"

definition part_3 :: schema_defs where
  "part_3 =
    [(''AuthStatusCapabilities'', schema_AuthStatusCapabilities),
     (''AuthStatusRequest'', schema_AuthStatusRequest),
     (''AuthStatusResponse'', schema_AuthStatusResponse),
     (''AuthStatusUpdateNotification'', schema_AuthStatusUpdateNotification),
     (''AuthenticateRequest'', schema_AuthenticateRequest),
     (''AuthenticateResponse'', schema_AuthenticateResponse),
     (''AvailableCommand'', schema_AvailableCommand),
     (''AvailableCommandInput'', schema_AvailableCommandInput)]"

definition part_4 :: schema_defs where
  "part_4 =
    [(''AvailableCommandsUpdate'', schema_AvailableCommandsUpdate),
     (''BlobResourceContents'', schema_BlobResourceContents),
     (''BooleanConfigOptionCapabilities'', schema_BooleanConfigOptionCapabilities),
     (''BooleanPropertySchema'', schema_BooleanPropertySchema),
     (''CancelNotification'', schema_CancelNotification),
     (''CancelRequestNotification'', schema_CancelRequestNotification),
     (''ClientCapabilities'', schema_ClientCapabilities),
     (''ClientNotification'', schema_ClientNotification)]"

definition part_5 :: schema_defs where
  "part_5 =
    [(''ClientRequest'', schema_ClientRequest),
     (''ClientResponse'', schema_ClientResponse),
     (''ClientSessionCapabilities'', schema_ClientSessionCapabilities),
     (''CloseSessionRequest'', schema_CloseSessionRequest),
     (''CloseSessionResponse'', schema_CloseSessionResponse),
     (''CompactionCapabilities'', schema_CompactionCapabilities),
     (''CompactionId'', schema_CompactionId),
     (''CompactionStatus'', schema_CompactionStatus)]"

definition part_6 :: schema_defs where
  "part_6 =
    [(''CompactionSummaryChunk'', schema_CompactionSummaryChunk),
     (''CompactionUpdate'', schema_CompactionUpdate),
     (''CompleteElicitationNotification'', schema_CompleteElicitationNotification),
     (''ConfigOptionUpdate'', schema_ConfigOptionUpdate),
     (''Content'', schema_Content),
     (''ContentBlock'', schema_ContentBlock),
     (''ContentChunk'', schema_ContentChunk),
     (''Cost'', schema_Cost)]"

definition part_7 :: schema_defs where
  "part_7 =
    [(''CreateElicitationRequest'', schema_CreateElicitationRequest),
     (''CreateElicitationResponse'', schema_CreateElicitationResponse),
     (''CreateTerminalRequest'', schema_CreateTerminalRequest),
     (''CreateTerminalResponse'', schema_CreateTerminalResponse),
     (''CurrentModeUpdate'', schema_CurrentModeUpdate),
     (''DeleteSessionRequest'', schema_DeleteSessionRequest),
     (''DeleteSessionResponse'', schema_DeleteSessionResponse),
     (''Diff'', schema_Diff)]"

definition part_8 :: schema_defs where
  "part_8 =
    [(''DisableProviderRequest'', schema_DisableProviderRequest),
     (''DisableProviderResponse'', schema_DisableProviderResponse),
     (''ElicitationAcceptAction'', schema_ElicitationAcceptAction),
     (''ElicitationCapabilities'', schema_ElicitationCapabilities),
     (''ElicitationContentValue'', schema_ElicitationContentValue),
     (''ElicitationFormCapabilities'', schema_ElicitationFormCapabilities),
     (''ElicitationFormMode'', schema_ElicitationFormMode),
     (''ElicitationId'', schema_ElicitationId)]"

definition part_9 :: schema_defs where
  "part_9 =
    [(''ElicitationPropertySchema'', schema_ElicitationPropertySchema),
     (''ElicitationRequestScope'', schema_ElicitationRequestScope),
     (''ElicitationSchema'', schema_ElicitationSchema),
     (''ElicitationSchemaType'', schema_ElicitationSchemaType),
     (''ElicitationSessionScope'', schema_ElicitationSessionScope),
     (''ElicitationUrlCapabilities'', schema_ElicitationUrlCapabilities),
     (''ElicitationUrlMode'', schema_ElicitationUrlMode),
     (''EmbeddedResource'', schema_EmbeddedResource)]"

definition part_10 :: schema_defs where
  "part_10 =
    [(''EmbeddedResourceResource'', schema_EmbeddedResourceResource),
     (''EnumOption'', schema_EnumOption),
     (''EnvVariable'', schema_EnvVariable),
     (''Error'', schema_Error),
     (''ErrorCode'', schema_ErrorCode),
     (''ErrorStopReason'', schema_ErrorStopReason),
     (''ExtNotification'', schema_ExtNotification),
     (''ExtRequest'', schema_ExtRequest)]"

definition part_11 :: schema_defs where
  "part_11 =
    [(''ExtResponse'', schema_ExtResponse),
     (''FileSystemCapabilities'', schema_FileSystemCapabilities),
     (''ForkSessionRequest'', schema_ForkSessionRequest),
     (''ForkSessionResponse'', schema_ForkSessionResponse),
     (''HttpHeader'', schema_HttpHeader),
     (''IdleStateUpdate'', schema_IdleStateUpdate),
     (''ImageContent'', schema_ImageContent),
     (''Implementation'', schema_Implementation)]"

definition part_12 :: schema_defs where
  "part_12 =
    [(''InitializeProxyRequest'', schema_InitializeProxyRequest),
     (''InitializeProxyResponse'', schema_InitializeProxyResponse),
     (''InitializeRequest'', schema_InitializeRequest),
     (''InitializeResponse'', schema_InitializeResponse),
     (''IntegerPropertySchema'', schema_IntegerPropertySchema),
     (''KillTerminalRequest'', schema_KillTerminalRequest),
     (''KillTerminalResponse'', schema_KillTerminalResponse),
     (''ListProvidersRequest'', schema_ListProvidersRequest)]"

definition part_13 :: schema_defs where
  "part_13 =
    [(''ListProvidersResponse'', schema_ListProvidersResponse),
     (''ListSessionsRequest'', schema_ListSessionsRequest),
     (''ListSessionsResponse'', schema_ListSessionsResponse),
     (''LlmProtocol'', schema_LlmProtocol),
     (''LoadSessionRequest'', schema_LoadSessionRequest),
     (''LoadSessionResponse'', schema_LoadSessionResponse),
     (''LogoutCapabilities'', schema_LogoutCapabilities),
     (''LogoutRequest'', schema_LogoutRequest)]"

definition part_14 :: schema_defs where
  "part_14 =
    [(''LogoutResponse'', schema_LogoutResponse),
     (''McpCapabilities'', schema_McpCapabilities),
     (''McpError'', schema_McpError),
     (''McpRequestId'', schema_McpRequestId),
     (''McpServer'', schema_McpServer),
     (''McpServerAcp'', schema_McpServerAcp),
     (''McpServerAcpId'', schema_McpServerAcpId),
     (''McpServerHttp'', schema_McpServerHttp)]"

definition part_15 :: schema_defs where
  "part_15 =
    [(''McpServerSse'', schema_McpServerSse),
     (''McpServerStdio'', schema_McpServerStdio),
     (''MessageId'', schema_MessageId),
     (''MessageMcpNotification'', schema_MessageMcpNotification),
     (''MessageMcpRequest'', schema_MessageMcpRequest),
     (''MessageMcpResponse'', schema_MessageMcpResponse),
     (''MultiSelectItems'', schema_MultiSelectItems),
     (''MultiSelectPropertySchema'', schema_MultiSelectPropertySchema)]"

definition part_16 :: schema_defs where
  "part_16 =
    [(''NewSessionRequest'', schema_NewSessionRequest),
     (''NewSessionResponse'', schema_NewSessionResponse),
     (''Notice'', schema_Notice),
     (''NoticeCapabilities'', schema_NoticeCapabilities),
     (''NoticeSeverity'', schema_NoticeSeverity),
     (''NumberPropertySchema'', schema_NumberPropertySchema),
     (''PermissionOption'', schema_PermissionOption),
     (''PermissionOptionId'', schema_PermissionOptionId)]"

definition part_17 :: schema_defs where
  "part_17 =
    [(''PermissionOptionKind'', schema_PermissionOptionKind),
     (''Plan'', schema_Plan),
     (''PlanCapabilities'', schema_PlanCapabilities),
     (''PlanEntry'', schema_PlanEntry),
     (''PlanEntryPriority'', schema_PlanEntryPriority),
     (''PlanEntryStatus'', schema_PlanEntryStatus),
     (''PlanFile'', schema_PlanFile),
     (''PlanId'', schema_PlanId)]"

definition part_18 :: schema_defs where
  "part_18 =
    [(''PlanItems'', schema_PlanItems),
     (''PlanMarkdown'', schema_PlanMarkdown),
     (''PlanRemoved'', schema_PlanRemoved),
     (''PlanUpdate'', schema_PlanUpdate),
     (''PlanUpdateContent'', schema_PlanUpdateContent),
     (''PromptCapabilities'', schema_PromptCapabilities),
     (''PromptRequest'', schema_PromptRequest),
     (''PromptResponse'', schema_PromptResponse)]"

definition part_19 :: schema_defs where
  "part_19 =
    [(''ProtocolVersion'', schema_ProtocolVersion),
     (''ProviderCurrentConfig'', schema_ProviderCurrentConfig),
     (''ProviderId'', schema_ProviderId),
     (''ProviderInfo'', schema_ProviderInfo),
     (''ProvidersCapabilities'', schema_ProvidersCapabilities),
     (''ProxyNotification'', schema_ProxyNotification),
     (''ProxyRequest'', schema_ProxyRequest),
     (''ProxyResponse'', schema_ProxyResponse)]"

definition part_20 :: schema_defs where
  "part_20 =
    [(''ProxySuccessorNotification'', schema_ProxySuccessorNotification),
     (''ProxySuccessorRequest'', schema_ProxySuccessorRequest),
     (''ProxySuccessorResponse'', schema_ProxySuccessorResponse),
     (''ReadTextFileRequest'', schema_ReadTextFileRequest),
     (''ReadTextFileResponse'', schema_ReadTextFileResponse),
     (''ReleaseTerminalRequest'', schema_ReleaseTerminalRequest),
     (''ReleaseTerminalResponse'', schema_ReleaseTerminalResponse),
     (''RequestId'', schema_RequestId)]"

definition part_21 :: schema_defs where
  "part_21 =
    [(''RequestPermissionOutcome'', schema_RequestPermissionOutcome),
     (''RequestPermissionRequest'', schema_RequestPermissionRequest),
     (''RequestPermissionResponse'', schema_RequestPermissionResponse),
     (''RequiresActionStateUpdate'', schema_RequiresActionStateUpdate),
     (''ResourceLink'', schema_ResourceLink),
     (''ResumeSessionRequest'', schema_ResumeSessionRequest),
     (''ResumeSessionResponse'', schema_ResumeSessionResponse),
     (''Role'', schema_Role)]"

definition part_22 :: schema_defs where
  "part_22 =
    [(''RunningStateUpdate'', schema_RunningStateUpdate),
     (''SelectedPermissionOutcome'', schema_SelectedPermissionOutcome),
     (''SessionAdditionalDirectoriesCapabilities'', schema_SessionAdditionalDirectoriesCapabilities),
     (''SessionArchiveCapabilities'', schema_SessionArchiveCapabilities),
     (''SessionArchiveFilter'', schema_SessionArchiveFilter),
     (''SessionCancelCapabilities'', schema_SessionCancelCapabilities),
     (''SessionCapabilities'', schema_SessionCapabilities),
     (''SessionCloseCapabilities'', schema_SessionCloseCapabilities)]"

definition part_23 :: schema_defs where
  "part_23 =
    [(''SessionConfigBoolean'', schema_SessionConfigBoolean),
     (''SessionConfigGroupId'', schema_SessionConfigGroupId),
     (''SessionConfigId'', schema_SessionConfigId),
     (''SessionConfigOption'', schema_SessionConfigOption),
     (''SessionConfigOptionCategory'', schema_SessionConfigOptionCategory),
     (''SessionConfigOptionsCapabilities'', schema_SessionConfigOptionsCapabilities),
     (''SessionConfigSelect'', schema_SessionConfigSelect),
     (''SessionConfigSelectGroup'', schema_SessionConfigSelectGroup)]"

definition part_24 :: schema_defs where
  "part_24 =
    [(''SessionConfigSelectOption'', schema_SessionConfigSelectOption),
     (''SessionConfigSelectOptions'', schema_SessionConfigSelectOptions),
     (''SessionConfigValueId'', schema_SessionConfigValueId),
     (''SessionDeleteCapabilities'', schema_SessionDeleteCapabilities),
     (''SessionForkCapabilities'', schema_SessionForkCapabilities),
     (''SessionId'', schema_SessionId),
     (''SessionInfo'', schema_SessionInfo),
     (''SessionInfoUpdate'', schema_SessionInfoUpdate)]"

definition part_25 :: schema_defs where
  "part_25 =
    [(''SessionListCapabilities'', schema_SessionListCapabilities),
     (''SessionMessage'', schema_SessionMessage),
     (''SessionMessageChunk'', schema_SessionMessageChunk),
     (''SessionMode'', schema_SessionMode),
     (''SessionModeId'', schema_SessionModeId),
     (''SessionModeState'', schema_SessionModeState),
     (''SessionNotification'', schema_SessionNotification),
     (''SessionResumeCapabilities'', schema_SessionResumeCapabilities)]"

definition part_26 :: schema_defs where
  "part_26 =
    [(''SessionStatus'', schema_SessionStatus),
     (''SessionStatusCapabilities'', schema_SessionStatusCapabilities),
     (''SessionStatusRequest'', schema_SessionStatusRequest),
     (''SessionStatusResponse'', schema_SessionStatusResponse),
     (''SessionSystemPromptCapabilities'', schema_SessionSystemPromptCapabilities),
     (''SessionSystemPromptModeCapabilities'', schema_SessionSystemPromptModeCapabilities),
     (''SessionSystemPromptOverrideCapabilities'', schema_SessionSystemPromptOverrideCapabilities),
     (''SessionTitleCapabilities'', schema_SessionTitleCapabilities)]"

definition part_27 :: schema_defs where
  "part_27 =
    [(''SessionUpdate'', schema_SessionUpdate),
     (''SetProviderRequest'', schema_SetProviderRequest),
     (''SetProviderResponse'', schema_SetProviderResponse),
     (''SetSessionConfigOptionRequest'', schema_SetSessionConfigOptionRequest),
     (''SetSessionConfigOptionResponse'', schema_SetSessionConfigOptionResponse),
     (''SetSessionModeRequest'', schema_SetSessionModeRequest),
     (''SetSessionModeResponse'', schema_SetSessionModeResponse),
     (''SetSessionTitleRequest'', schema_SetSessionTitleRequest)]"

definition part_28 :: schema_defs where
  "part_28 =
    [(''SetSessionTitleResponse'', schema_SetSessionTitleResponse),
     (''StateUpdate'', schema_StateUpdate),
     (''StopReason'', schema_StopReason),
     (''StringFormat'', schema_StringFormat),
     (''StringMultiSelectItems'', schema_StringMultiSelectItems),
     (''StringPropertySchema'', schema_StringPropertySchema),
     (''SubagentCapabilities'', schema_SubagentCapabilities),
     (''SubagentSessionCapabilities'', schema_SubagentSessionCapabilities)]"

definition part_29 :: schema_defs where
  "part_29 =
    [(''SubagentUpdate'', schema_SubagentUpdate),
     (''SystemPrompt'', schema_SystemPrompt),
     (''SystemPromptMode'', schema_SystemPromptMode),
     (''Terminal'', schema_Terminal),
     (''TerminalExitStatus'', schema_TerminalExitStatus),
     (''TerminalId'', schema_TerminalId),
     (''TerminalOutputRequest'', schema_TerminalOutputRequest),
     (''TerminalOutputResponse'', schema_TerminalOutputResponse)]"

definition part_30 :: schema_defs where
  "part_30 =
    [(''TextContent'', schema_TextContent),
     (''TextResourceContents'', schema_TextResourceContents),
     (''TitledMultiSelectItems'', schema_TitledMultiSelectItems),
     (''ToolCall'', schema_ToolCall),
     (''ToolCallContent'', schema_ToolCallContent),
     (''ToolCallId'', schema_ToolCallId),
     (''ToolCallLocation'', schema_ToolCallLocation),
     (''ToolCallStatus'', schema_ToolCallStatus)]"

definition part_31 :: schema_defs where
  "part_31 =
    [(''ToolCallUpdate'', schema_ToolCallUpdate),
     (''ToolKind'', schema_ToolKind),
     (''UnarchiveSessionRequest'', schema_UnarchiveSessionRequest),
     (''UnarchiveSessionResponse'', schema_UnarchiveSessionResponse),
     (''UnknownStateUpdate'', schema_UnknownStateUpdate),
     (''UnstructuredCommandInput'', schema_UnstructuredCommandInput),
     (''Usage'', schema_Usage),
     (''UsageUpdate'', schema_UsageUpdate)]"

definition part_32 :: schema_defs where
  "part_32 =
    [(''WaitForTerminalExitRequest'', schema_WaitForTerminalExitRequest),
     (''WaitForTerminalExitResponse'', schema_WaitForTerminalExitResponse),
     (''WriteTextFileRequest'', schema_WriteTextFileRequest),
     (''WriteTextFileResponse'', schema_WriteTextFileResponse)]"

definition find_1 :: "string \<Rightarrow> schema option" where
  "find_1 n =
    (if n = ''AgentAuthCapabilities'' then Some schema_AgentAuthCapabilities
     else if n = ''AgentCapabilities'' then Some schema_AgentCapabilities
     else if n = ''AgentNotification'' then Some schema_AgentNotification
     else if n = ''AgentRequest'' then Some schema_AgentRequest
     else if n = ''AgentResponse'' then Some schema_AgentResponse
     else if n = ''Annotations'' then Some schema_Annotations
     else if n = ''ArchiveSessionRequest'' then Some schema_ArchiveSessionRequest
     else if n = ''ArchiveSessionResponse'' then Some schema_ArchiveSessionResponse
     else None)"

definition find_2 :: "string \<Rightarrow> schema option" where
  "find_2 n =
    (if n = ''AudioContent'' then Some schema_AudioContent
     else if n = ''AuthAccount'' then Some schema_AuthAccount
     else if n = ''AuthCapabilities'' then Some schema_AuthCapabilities
     else if n = ''AuthMethod'' then Some schema_AuthMethod
     else if n = ''AuthMethodAgent'' then Some schema_AuthMethodAgent
     else if n = ''AuthMethodId'' then Some schema_AuthMethodId
     else if n = ''AuthMethodTerminal'' then Some schema_AuthMethodTerminal
     else if n = ''AuthState'' then Some schema_AuthState
     else None)"

definition find_3 :: "string \<Rightarrow> schema option" where
  "find_3 n =
    (if n = ''AuthStatusCapabilities'' then Some schema_AuthStatusCapabilities
     else if n = ''AuthStatusRequest'' then Some schema_AuthStatusRequest
     else if n = ''AuthStatusResponse'' then Some schema_AuthStatusResponse
     else if n = ''AuthStatusUpdateNotification'' then Some schema_AuthStatusUpdateNotification
     else if n = ''AuthenticateRequest'' then Some schema_AuthenticateRequest
     else if n = ''AuthenticateResponse'' then Some schema_AuthenticateResponse
     else if n = ''AvailableCommand'' then Some schema_AvailableCommand
     else if n = ''AvailableCommandInput'' then Some schema_AvailableCommandInput
     else None)"

definition find_4 :: "string \<Rightarrow> schema option" where
  "find_4 n =
    (if n = ''AvailableCommandsUpdate'' then Some schema_AvailableCommandsUpdate
     else if n = ''BlobResourceContents'' then Some schema_BlobResourceContents
     else if n = ''BooleanConfigOptionCapabilities'' then Some schema_BooleanConfigOptionCapabilities
     else if n = ''BooleanPropertySchema'' then Some schema_BooleanPropertySchema
     else if n = ''CancelNotification'' then Some schema_CancelNotification
     else if n = ''CancelRequestNotification'' then Some schema_CancelRequestNotification
     else if n = ''ClientCapabilities'' then Some schema_ClientCapabilities
     else if n = ''ClientNotification'' then Some schema_ClientNotification
     else None)"

definition find_5 :: "string \<Rightarrow> schema option" where
  "find_5 n =
    (if n = ''ClientRequest'' then Some schema_ClientRequest
     else if n = ''ClientResponse'' then Some schema_ClientResponse
     else if n = ''ClientSessionCapabilities'' then Some schema_ClientSessionCapabilities
     else if n = ''CloseSessionRequest'' then Some schema_CloseSessionRequest
     else if n = ''CloseSessionResponse'' then Some schema_CloseSessionResponse
     else if n = ''CompactionCapabilities'' then Some schema_CompactionCapabilities
     else if n = ''CompactionId'' then Some schema_CompactionId
     else if n = ''CompactionStatus'' then Some schema_CompactionStatus
     else None)"

definition find_6 :: "string \<Rightarrow> schema option" where
  "find_6 n =
    (if n = ''CompactionSummaryChunk'' then Some schema_CompactionSummaryChunk
     else if n = ''CompactionUpdate'' then Some schema_CompactionUpdate
     else if n = ''CompleteElicitationNotification'' then Some schema_CompleteElicitationNotification
     else if n = ''ConfigOptionUpdate'' then Some schema_ConfigOptionUpdate
     else if n = ''Content'' then Some schema_Content
     else if n = ''ContentBlock'' then Some schema_ContentBlock
     else if n = ''ContentChunk'' then Some schema_ContentChunk
     else if n = ''Cost'' then Some schema_Cost
     else None)"

definition find_7 :: "string \<Rightarrow> schema option" where
  "find_7 n =
    (if n = ''CreateElicitationRequest'' then Some schema_CreateElicitationRequest
     else if n = ''CreateElicitationResponse'' then Some schema_CreateElicitationResponse
     else if n = ''CreateTerminalRequest'' then Some schema_CreateTerminalRequest
     else if n = ''CreateTerminalResponse'' then Some schema_CreateTerminalResponse
     else if n = ''CurrentModeUpdate'' then Some schema_CurrentModeUpdate
     else if n = ''DeleteSessionRequest'' then Some schema_DeleteSessionRequest
     else if n = ''DeleteSessionResponse'' then Some schema_DeleteSessionResponse
     else if n = ''Diff'' then Some schema_Diff
     else None)"

definition find_8 :: "string \<Rightarrow> schema option" where
  "find_8 n =
    (if n = ''DisableProviderRequest'' then Some schema_DisableProviderRequest
     else if n = ''DisableProviderResponse'' then Some schema_DisableProviderResponse
     else if n = ''ElicitationAcceptAction'' then Some schema_ElicitationAcceptAction
     else if n = ''ElicitationCapabilities'' then Some schema_ElicitationCapabilities
     else if n = ''ElicitationContentValue'' then Some schema_ElicitationContentValue
     else if n = ''ElicitationFormCapabilities'' then Some schema_ElicitationFormCapabilities
     else if n = ''ElicitationFormMode'' then Some schema_ElicitationFormMode
     else if n = ''ElicitationId'' then Some schema_ElicitationId
     else None)"

definition find_9 :: "string \<Rightarrow> schema option" where
  "find_9 n =
    (if n = ''ElicitationPropertySchema'' then Some schema_ElicitationPropertySchema
     else if n = ''ElicitationRequestScope'' then Some schema_ElicitationRequestScope
     else if n = ''ElicitationSchema'' then Some schema_ElicitationSchema
     else if n = ''ElicitationSchemaType'' then Some schema_ElicitationSchemaType
     else if n = ''ElicitationSessionScope'' then Some schema_ElicitationSessionScope
     else if n = ''ElicitationUrlCapabilities'' then Some schema_ElicitationUrlCapabilities
     else if n = ''ElicitationUrlMode'' then Some schema_ElicitationUrlMode
     else if n = ''EmbeddedResource'' then Some schema_EmbeddedResource
     else None)"

definition find_10 :: "string \<Rightarrow> schema option" where
  "find_10 n =
    (if n = ''EmbeddedResourceResource'' then Some schema_EmbeddedResourceResource
     else if n = ''EnumOption'' then Some schema_EnumOption
     else if n = ''EnvVariable'' then Some schema_EnvVariable
     else if n = ''Error'' then Some schema_Error
     else if n = ''ErrorCode'' then Some schema_ErrorCode
     else if n = ''ErrorStopReason'' then Some schema_ErrorStopReason
     else if n = ''ExtNotification'' then Some schema_ExtNotification
     else if n = ''ExtRequest'' then Some schema_ExtRequest
     else None)"

definition find_11 :: "string \<Rightarrow> schema option" where
  "find_11 n =
    (if n = ''ExtResponse'' then Some schema_ExtResponse
     else if n = ''FileSystemCapabilities'' then Some schema_FileSystemCapabilities
     else if n = ''ForkSessionRequest'' then Some schema_ForkSessionRequest
     else if n = ''ForkSessionResponse'' then Some schema_ForkSessionResponse
     else if n = ''HttpHeader'' then Some schema_HttpHeader
     else if n = ''IdleStateUpdate'' then Some schema_IdleStateUpdate
     else if n = ''ImageContent'' then Some schema_ImageContent
     else if n = ''Implementation'' then Some schema_Implementation
     else None)"

definition find_12 :: "string \<Rightarrow> schema option" where
  "find_12 n =
    (if n = ''InitializeProxyRequest'' then Some schema_InitializeProxyRequest
     else if n = ''InitializeProxyResponse'' then Some schema_InitializeProxyResponse
     else if n = ''InitializeRequest'' then Some schema_InitializeRequest
     else if n = ''InitializeResponse'' then Some schema_InitializeResponse
     else if n = ''IntegerPropertySchema'' then Some schema_IntegerPropertySchema
     else if n = ''KillTerminalRequest'' then Some schema_KillTerminalRequest
     else if n = ''KillTerminalResponse'' then Some schema_KillTerminalResponse
     else if n = ''ListProvidersRequest'' then Some schema_ListProvidersRequest
     else None)"

definition find_13 :: "string \<Rightarrow> schema option" where
  "find_13 n =
    (if n = ''ListProvidersResponse'' then Some schema_ListProvidersResponse
     else if n = ''ListSessionsRequest'' then Some schema_ListSessionsRequest
     else if n = ''ListSessionsResponse'' then Some schema_ListSessionsResponse
     else if n = ''LlmProtocol'' then Some schema_LlmProtocol
     else if n = ''LoadSessionRequest'' then Some schema_LoadSessionRequest
     else if n = ''LoadSessionResponse'' then Some schema_LoadSessionResponse
     else if n = ''LogoutCapabilities'' then Some schema_LogoutCapabilities
     else if n = ''LogoutRequest'' then Some schema_LogoutRequest
     else None)"

definition find_14 :: "string \<Rightarrow> schema option" where
  "find_14 n =
    (if n = ''LogoutResponse'' then Some schema_LogoutResponse
     else if n = ''McpCapabilities'' then Some schema_McpCapabilities
     else if n = ''McpError'' then Some schema_McpError
     else if n = ''McpRequestId'' then Some schema_McpRequestId
     else if n = ''McpServer'' then Some schema_McpServer
     else if n = ''McpServerAcp'' then Some schema_McpServerAcp
     else if n = ''McpServerAcpId'' then Some schema_McpServerAcpId
     else if n = ''McpServerHttp'' then Some schema_McpServerHttp
     else None)"

definition find_15 :: "string \<Rightarrow> schema option" where
  "find_15 n =
    (if n = ''McpServerSse'' then Some schema_McpServerSse
     else if n = ''McpServerStdio'' then Some schema_McpServerStdio
     else if n = ''MessageId'' then Some schema_MessageId
     else if n = ''MessageMcpNotification'' then Some schema_MessageMcpNotification
     else if n = ''MessageMcpRequest'' then Some schema_MessageMcpRequest
     else if n = ''MessageMcpResponse'' then Some schema_MessageMcpResponse
     else if n = ''MultiSelectItems'' then Some schema_MultiSelectItems
     else if n = ''MultiSelectPropertySchema'' then Some schema_MultiSelectPropertySchema
     else None)"

definition find_16 :: "string \<Rightarrow> schema option" where
  "find_16 n =
    (if n = ''NewSessionRequest'' then Some schema_NewSessionRequest
     else if n = ''NewSessionResponse'' then Some schema_NewSessionResponse
     else if n = ''Notice'' then Some schema_Notice
     else if n = ''NoticeCapabilities'' then Some schema_NoticeCapabilities
     else if n = ''NoticeSeverity'' then Some schema_NoticeSeverity
     else if n = ''NumberPropertySchema'' then Some schema_NumberPropertySchema
     else if n = ''PermissionOption'' then Some schema_PermissionOption
     else if n = ''PermissionOptionId'' then Some schema_PermissionOptionId
     else None)"

definition find_17 :: "string \<Rightarrow> schema option" where
  "find_17 n =
    (if n = ''PermissionOptionKind'' then Some schema_PermissionOptionKind
     else if n = ''Plan'' then Some schema_Plan
     else if n = ''PlanCapabilities'' then Some schema_PlanCapabilities
     else if n = ''PlanEntry'' then Some schema_PlanEntry
     else if n = ''PlanEntryPriority'' then Some schema_PlanEntryPriority
     else if n = ''PlanEntryStatus'' then Some schema_PlanEntryStatus
     else if n = ''PlanFile'' then Some schema_PlanFile
     else if n = ''PlanId'' then Some schema_PlanId
     else None)"

definition find_18 :: "string \<Rightarrow> schema option" where
  "find_18 n =
    (if n = ''PlanItems'' then Some schema_PlanItems
     else if n = ''PlanMarkdown'' then Some schema_PlanMarkdown
     else if n = ''PlanRemoved'' then Some schema_PlanRemoved
     else if n = ''PlanUpdate'' then Some schema_PlanUpdate
     else if n = ''PlanUpdateContent'' then Some schema_PlanUpdateContent
     else if n = ''PromptCapabilities'' then Some schema_PromptCapabilities
     else if n = ''PromptRequest'' then Some schema_PromptRequest
     else if n = ''PromptResponse'' then Some schema_PromptResponse
     else None)"

definition find_19 :: "string \<Rightarrow> schema option" where
  "find_19 n =
    (if n = ''ProtocolVersion'' then Some schema_ProtocolVersion
     else if n = ''ProviderCurrentConfig'' then Some schema_ProviderCurrentConfig
     else if n = ''ProviderId'' then Some schema_ProviderId
     else if n = ''ProviderInfo'' then Some schema_ProviderInfo
     else if n = ''ProvidersCapabilities'' then Some schema_ProvidersCapabilities
     else if n = ''ProxyNotification'' then Some schema_ProxyNotification
     else if n = ''ProxyRequest'' then Some schema_ProxyRequest
     else if n = ''ProxyResponse'' then Some schema_ProxyResponse
     else None)"

definition find_20 :: "string \<Rightarrow> schema option" where
  "find_20 n =
    (if n = ''ProxySuccessorNotification'' then Some schema_ProxySuccessorNotification
     else if n = ''ProxySuccessorRequest'' then Some schema_ProxySuccessorRequest
     else if n = ''ProxySuccessorResponse'' then Some schema_ProxySuccessorResponse
     else if n = ''ReadTextFileRequest'' then Some schema_ReadTextFileRequest
     else if n = ''ReadTextFileResponse'' then Some schema_ReadTextFileResponse
     else if n = ''ReleaseTerminalRequest'' then Some schema_ReleaseTerminalRequest
     else if n = ''ReleaseTerminalResponse'' then Some schema_ReleaseTerminalResponse
     else if n = ''RequestId'' then Some schema_RequestId
     else None)"

definition find_21 :: "string \<Rightarrow> schema option" where
  "find_21 n =
    (if n = ''RequestPermissionOutcome'' then Some schema_RequestPermissionOutcome
     else if n = ''RequestPermissionRequest'' then Some schema_RequestPermissionRequest
     else if n = ''RequestPermissionResponse'' then Some schema_RequestPermissionResponse
     else if n = ''RequiresActionStateUpdate'' then Some schema_RequiresActionStateUpdate
     else if n = ''ResourceLink'' then Some schema_ResourceLink
     else if n = ''ResumeSessionRequest'' then Some schema_ResumeSessionRequest
     else if n = ''ResumeSessionResponse'' then Some schema_ResumeSessionResponse
     else if n = ''Role'' then Some schema_Role
     else None)"

definition find_22 :: "string \<Rightarrow> schema option" where
  "find_22 n =
    (if n = ''RunningStateUpdate'' then Some schema_RunningStateUpdate
     else if n = ''SelectedPermissionOutcome'' then Some schema_SelectedPermissionOutcome
     else if n = ''SessionAdditionalDirectoriesCapabilities'' then Some schema_SessionAdditionalDirectoriesCapabilities
     else if n = ''SessionArchiveCapabilities'' then Some schema_SessionArchiveCapabilities
     else if n = ''SessionArchiveFilter'' then Some schema_SessionArchiveFilter
     else if n = ''SessionCancelCapabilities'' then Some schema_SessionCancelCapabilities
     else if n = ''SessionCapabilities'' then Some schema_SessionCapabilities
     else if n = ''SessionCloseCapabilities'' then Some schema_SessionCloseCapabilities
     else None)"

definition find_23 :: "string \<Rightarrow> schema option" where
  "find_23 n =
    (if n = ''SessionConfigBoolean'' then Some schema_SessionConfigBoolean
     else if n = ''SessionConfigGroupId'' then Some schema_SessionConfigGroupId
     else if n = ''SessionConfigId'' then Some schema_SessionConfigId
     else if n = ''SessionConfigOption'' then Some schema_SessionConfigOption
     else if n = ''SessionConfigOptionCategory'' then Some schema_SessionConfigOptionCategory
     else if n = ''SessionConfigOptionsCapabilities'' then Some schema_SessionConfigOptionsCapabilities
     else if n = ''SessionConfigSelect'' then Some schema_SessionConfigSelect
     else if n = ''SessionConfigSelectGroup'' then Some schema_SessionConfigSelectGroup
     else None)"

definition find_24 :: "string \<Rightarrow> schema option" where
  "find_24 n =
    (if n = ''SessionConfigSelectOption'' then Some schema_SessionConfigSelectOption
     else if n = ''SessionConfigSelectOptions'' then Some schema_SessionConfigSelectOptions
     else if n = ''SessionConfigValueId'' then Some schema_SessionConfigValueId
     else if n = ''SessionDeleteCapabilities'' then Some schema_SessionDeleteCapabilities
     else if n = ''SessionForkCapabilities'' then Some schema_SessionForkCapabilities
     else if n = ''SessionId'' then Some schema_SessionId
     else if n = ''SessionInfo'' then Some schema_SessionInfo
     else if n = ''SessionInfoUpdate'' then Some schema_SessionInfoUpdate
     else None)"

definition find_25 :: "string \<Rightarrow> schema option" where
  "find_25 n =
    (if n = ''SessionListCapabilities'' then Some schema_SessionListCapabilities
     else if n = ''SessionMessage'' then Some schema_SessionMessage
     else if n = ''SessionMessageChunk'' then Some schema_SessionMessageChunk
     else if n = ''SessionMode'' then Some schema_SessionMode
     else if n = ''SessionModeId'' then Some schema_SessionModeId
     else if n = ''SessionModeState'' then Some schema_SessionModeState
     else if n = ''SessionNotification'' then Some schema_SessionNotification
     else if n = ''SessionResumeCapabilities'' then Some schema_SessionResumeCapabilities
     else None)"

definition find_26 :: "string \<Rightarrow> schema option" where
  "find_26 n =
    (if n = ''SessionStatus'' then Some schema_SessionStatus
     else if n = ''SessionStatusCapabilities'' then Some schema_SessionStatusCapabilities
     else if n = ''SessionStatusRequest'' then Some schema_SessionStatusRequest
     else if n = ''SessionStatusResponse'' then Some schema_SessionStatusResponse
     else if n = ''SessionSystemPromptCapabilities'' then Some schema_SessionSystemPromptCapabilities
     else if n = ''SessionSystemPromptModeCapabilities'' then Some schema_SessionSystemPromptModeCapabilities
     else if n = ''SessionSystemPromptOverrideCapabilities'' then Some schema_SessionSystemPromptOverrideCapabilities
     else if n = ''SessionTitleCapabilities'' then Some schema_SessionTitleCapabilities
     else None)"

definition find_27 :: "string \<Rightarrow> schema option" where
  "find_27 n =
    (if n = ''SessionUpdate'' then Some schema_SessionUpdate
     else if n = ''SetProviderRequest'' then Some schema_SetProviderRequest
     else if n = ''SetProviderResponse'' then Some schema_SetProviderResponse
     else if n = ''SetSessionConfigOptionRequest'' then Some schema_SetSessionConfigOptionRequest
     else if n = ''SetSessionConfigOptionResponse'' then Some schema_SetSessionConfigOptionResponse
     else if n = ''SetSessionModeRequest'' then Some schema_SetSessionModeRequest
     else if n = ''SetSessionModeResponse'' then Some schema_SetSessionModeResponse
     else if n = ''SetSessionTitleRequest'' then Some schema_SetSessionTitleRequest
     else None)"

definition find_28 :: "string \<Rightarrow> schema option" where
  "find_28 n =
    (if n = ''SetSessionTitleResponse'' then Some schema_SetSessionTitleResponse
     else if n = ''StateUpdate'' then Some schema_StateUpdate
     else if n = ''StopReason'' then Some schema_StopReason
     else if n = ''StringFormat'' then Some schema_StringFormat
     else if n = ''StringMultiSelectItems'' then Some schema_StringMultiSelectItems
     else if n = ''StringPropertySchema'' then Some schema_StringPropertySchema
     else if n = ''SubagentCapabilities'' then Some schema_SubagentCapabilities
     else if n = ''SubagentSessionCapabilities'' then Some schema_SubagentSessionCapabilities
     else None)"

definition find_29 :: "string \<Rightarrow> schema option" where
  "find_29 n =
    (if n = ''SubagentUpdate'' then Some schema_SubagentUpdate
     else if n = ''SystemPrompt'' then Some schema_SystemPrompt
     else if n = ''SystemPromptMode'' then Some schema_SystemPromptMode
     else if n = ''Terminal'' then Some schema_Terminal
     else if n = ''TerminalExitStatus'' then Some schema_TerminalExitStatus
     else if n = ''TerminalId'' then Some schema_TerminalId
     else if n = ''TerminalOutputRequest'' then Some schema_TerminalOutputRequest
     else if n = ''TerminalOutputResponse'' then Some schema_TerminalOutputResponse
     else None)"

definition find_30 :: "string \<Rightarrow> schema option" where
  "find_30 n =
    (if n = ''TextContent'' then Some schema_TextContent
     else if n = ''TextResourceContents'' then Some schema_TextResourceContents
     else if n = ''TitledMultiSelectItems'' then Some schema_TitledMultiSelectItems
     else if n = ''ToolCall'' then Some schema_ToolCall
     else if n = ''ToolCallContent'' then Some schema_ToolCallContent
     else if n = ''ToolCallId'' then Some schema_ToolCallId
     else if n = ''ToolCallLocation'' then Some schema_ToolCallLocation
     else if n = ''ToolCallStatus'' then Some schema_ToolCallStatus
     else None)"

definition find_31 :: "string \<Rightarrow> schema option" where
  "find_31 n =
    (if n = ''ToolCallUpdate'' then Some schema_ToolCallUpdate
     else if n = ''ToolKind'' then Some schema_ToolKind
     else if n = ''UnarchiveSessionRequest'' then Some schema_UnarchiveSessionRequest
     else if n = ''UnarchiveSessionResponse'' then Some schema_UnarchiveSessionResponse
     else if n = ''UnknownStateUpdate'' then Some schema_UnknownStateUpdate
     else if n = ''UnstructuredCommandInput'' then Some schema_UnstructuredCommandInput
     else if n = ''Usage'' then Some schema_Usage
     else if n = ''UsageUpdate'' then Some schema_UsageUpdate
     else None)"

definition find_32 :: "string \<Rightarrow> schema option" where
  "find_32 n =
    (if n = ''WaitForTerminalExitRequest'' then Some schema_WaitForTerminalExitRequest
     else if n = ''WaitForTerminalExitResponse'' then Some schema_WaitForTerminalExitResponse
     else if n = ''WriteTextFileRequest'' then Some schema_WriteTextFileRequest
     else if n = ''WriteTextFileResponse'' then Some schema_WriteTextFileResponse
     else None)"

definition find_group_1 :: "string \<Rightarrow> schema option" where
  "find_group_1 n =
    (if n < ''ClientRequest'' then (if n < ''AuthStatusCapabilities'' then (if n < ''AudioContent'' then find_1 n
     else find_2 n)
     else (if n < ''AvailableCommandsUpdate'' then find_3 n
     else find_4 n))
     else (if n < ''CreateElicitationRequest'' then (if n < ''CompactionSummaryChunk'' then find_5 n
     else find_6 n)
     else (if n < ''DisableProviderRequest'' then find_7 n
     else find_8 n)))"

definition find_group_2 :: "string \<Rightarrow> schema option" where
  "find_group_2 n =
    (if n < ''ListProvidersResponse'' then (if n < ''ExtResponse'' then (if n < ''EmbeddedResourceResource'' then find_9 n
     else find_10 n)
     else (if n < ''InitializeProxyRequest'' then find_11 n
     else find_12 n))
     else (if n < ''McpServerSse'' then (if n < ''LogoutResponse'' then find_13 n
     else find_14 n)
     else (if n < ''NewSessionRequest'' then find_15 n
     else find_16 n)))"

definition find_group_3 :: "string \<Rightarrow> schema option" where
  "find_group_3 n =
    (if n < ''RequestPermissionOutcome'' then (if n < ''ProtocolVersion'' then (if n < ''PlanItems'' then find_17 n
     else find_18 n)
     else (if n < ''ProxySuccessorNotification'' then find_19 n
     else find_20 n))
     else (if n < ''SessionConfigBoolean'' then (if n < ''RunningStateUpdate'' then find_21 n
     else find_22 n)
     else (if n < ''SessionConfigSelectOption'' then find_23 n
     else find_24 n)))"

definition find_group_4 :: "string \<Rightarrow> schema option" where
  "find_group_4 n =
    (if n < ''SubagentUpdate'' then (if n < ''SessionUpdate'' then (if n < ''SessionStatus'' then find_25 n
     else find_26 n)
     else (if n < ''SetSessionTitleResponse'' then find_27 n
     else find_28 n))
     else (if n < ''ToolCallUpdate'' then (if n < ''TextContent'' then find_29 n
     else find_30 n)
     else (if n < ''WaitForTerminalExitRequest'' then find_31 n
     else find_32 n)))"

definition acp_find :: "string \<Rightarrow> schema option" where
  "acp_find n =
    (if n < ''PermissionOptionKind'' then if n < ''ElicitationPropertySchema'' then find_group_1 n else find_group_2 n
     else if n < ''SessionListCapabilities'' then find_group_3 n else find_group_4 n)"

section \<open>It finds what the list holds\<close>

lemma find_1: "find_1 n = map_of part_1 n"
  by (simp add: find_1_def part_1_def)

lemma find_2: "find_2 n = map_of part_2 n"
  by (simp add: find_2_def part_2_def)

lemma find_3: "find_3 n = map_of part_3 n"
  by (simp add: find_3_def part_3_def)

lemma find_4: "find_4 n = map_of part_4 n"
  by (simp add: find_4_def part_4_def)

lemma find_5: "find_5 n = map_of part_5 n"
  by (simp add: find_5_def part_5_def)

lemma find_6: "find_6 n = map_of part_6 n"
  by (simp add: find_6_def part_6_def)

lemma find_7: "find_7 n = map_of part_7 n"
  by (simp add: find_7_def part_7_def)

lemma find_8: "find_8 n = map_of part_8 n"
  by (simp add: find_8_def part_8_def)

lemma find_9: "find_9 n = map_of part_9 n"
  by (simp add: find_9_def part_9_def)

lemma find_10: "find_10 n = map_of part_10 n"
  by (simp add: find_10_def part_10_def)

lemma find_11: "find_11 n = map_of part_11 n"
  by (simp add: find_11_def part_11_def)

lemma find_12: "find_12 n = map_of part_12 n"
  by (simp add: find_12_def part_12_def)

lemma find_13: "find_13 n = map_of part_13 n"
  by (simp add: find_13_def part_13_def)

lemma find_14: "find_14 n = map_of part_14 n"
  by (simp add: find_14_def part_14_def)

lemma find_15: "find_15 n = map_of part_15 n"
  by (simp add: find_15_def part_15_def)

lemma find_16: "find_16 n = map_of part_16 n"
  by (simp add: find_16_def part_16_def)

lemma find_17: "find_17 n = map_of part_17 n"
  by (simp add: find_17_def part_17_def)

lemma find_18: "find_18 n = map_of part_18 n"
  by (simp add: find_18_def part_18_def)

lemma find_19: "find_19 n = map_of part_19 n"
  by (simp add: find_19_def part_19_def)

lemma find_20: "find_20 n = map_of part_20 n"
  by (simp add: find_20_def part_20_def)

lemma find_21: "find_21 n = map_of part_21 n"
  by (simp add: find_21_def part_21_def)

lemma find_22: "find_22 n = map_of part_22 n"
  by (simp add: find_22_def part_22_def)

lemma find_23: "find_23 n = map_of part_23 n"
  by (simp add: find_23_def part_23_def)

lemma find_24: "find_24 n = map_of part_24 n"
  by (simp add: find_24_def part_24_def)

lemma find_25: "find_25 n = map_of part_25 n"
  by (simp add: find_25_def part_25_def)

lemma find_26: "find_26 n = map_of part_26 n"
  by (simp add: find_26_def part_26_def)

lemma find_27: "find_27 n = map_of part_27 n"
  by (simp add: find_27_def part_27_def)

lemma find_28: "find_28 n = map_of part_28 n"
  by (simp add: find_28_def part_28_def)

lemma find_29: "find_29 n = map_of part_29 n"
  by (simp add: find_29_def part_29_def)

lemma find_30: "find_30 n = map_of part_30 n"
  by (simp add: find_30_def part_30_def)

lemma find_31: "find_31 n = map_of part_31 n"
  by (simp add: find_31_def part_31_def)

lemma find_32: "find_32 n = map_of part_32 n"
  by (simp add: find_32_def part_32_def)

lemma names_1: "map fst part_1 = [''AgentAuthCapabilities'', ''AgentCapabilities'', ''AgentNotification'', ''AgentRequest'', ''AgentResponse'', ''Annotations'', ''ArchiveSessionRequest'', ''ArchiveSessionResponse'']"
  by (simp add: part_1_def)

lemma names_2: "map fst part_2 = [''AudioContent'', ''AuthAccount'', ''AuthCapabilities'', ''AuthMethod'', ''AuthMethodAgent'', ''AuthMethodId'', ''AuthMethodTerminal'', ''AuthState'']"
  by (simp add: part_2_def)

lemma names_3: "map fst part_3 = [''AuthStatusCapabilities'', ''AuthStatusRequest'', ''AuthStatusResponse'', ''AuthStatusUpdateNotification'', ''AuthenticateRequest'', ''AuthenticateResponse'', ''AvailableCommand'', ''AvailableCommandInput'']"
  by (simp add: part_3_def)

lemma names_4: "map fst part_4 = [''AvailableCommandsUpdate'', ''BlobResourceContents'', ''BooleanConfigOptionCapabilities'', ''BooleanPropertySchema'', ''CancelNotification'', ''CancelRequestNotification'', ''ClientCapabilities'', ''ClientNotification'']"
  by (simp add: part_4_def)

lemma names_5: "map fst part_5 = [''ClientRequest'', ''ClientResponse'', ''ClientSessionCapabilities'', ''CloseSessionRequest'', ''CloseSessionResponse'', ''CompactionCapabilities'', ''CompactionId'', ''CompactionStatus'']"
  by (simp add: part_5_def)

lemma names_6: "map fst part_6 = [''CompactionSummaryChunk'', ''CompactionUpdate'', ''CompleteElicitationNotification'', ''ConfigOptionUpdate'', ''Content'', ''ContentBlock'', ''ContentChunk'', ''Cost'']"
  by (simp add: part_6_def)

lemma names_7: "map fst part_7 = [''CreateElicitationRequest'', ''CreateElicitationResponse'', ''CreateTerminalRequest'', ''CreateTerminalResponse'', ''CurrentModeUpdate'', ''DeleteSessionRequest'', ''DeleteSessionResponse'', ''Diff'']"
  by (simp add: part_7_def)

lemma names_8: "map fst part_8 = [''DisableProviderRequest'', ''DisableProviderResponse'', ''ElicitationAcceptAction'', ''ElicitationCapabilities'', ''ElicitationContentValue'', ''ElicitationFormCapabilities'', ''ElicitationFormMode'', ''ElicitationId'']"
  by (simp add: part_8_def)

lemma names_9: "map fst part_9 = [''ElicitationPropertySchema'', ''ElicitationRequestScope'', ''ElicitationSchema'', ''ElicitationSchemaType'', ''ElicitationSessionScope'', ''ElicitationUrlCapabilities'', ''ElicitationUrlMode'', ''EmbeddedResource'']"
  by (simp add: part_9_def)

lemma names_10: "map fst part_10 = [''EmbeddedResourceResource'', ''EnumOption'', ''EnvVariable'', ''Error'', ''ErrorCode'', ''ErrorStopReason'', ''ExtNotification'', ''ExtRequest'']"
  by (simp add: part_10_def)

lemma names_11: "map fst part_11 = [''ExtResponse'', ''FileSystemCapabilities'', ''ForkSessionRequest'', ''ForkSessionResponse'', ''HttpHeader'', ''IdleStateUpdate'', ''ImageContent'', ''Implementation'']"
  by (simp add: part_11_def)

lemma names_12: "map fst part_12 = [''InitializeProxyRequest'', ''InitializeProxyResponse'', ''InitializeRequest'', ''InitializeResponse'', ''IntegerPropertySchema'', ''KillTerminalRequest'', ''KillTerminalResponse'', ''ListProvidersRequest'']"
  by (simp add: part_12_def)

lemma names_13: "map fst part_13 = [''ListProvidersResponse'', ''ListSessionsRequest'', ''ListSessionsResponse'', ''LlmProtocol'', ''LoadSessionRequest'', ''LoadSessionResponse'', ''LogoutCapabilities'', ''LogoutRequest'']"
  by (simp add: part_13_def)

lemma names_14: "map fst part_14 = [''LogoutResponse'', ''McpCapabilities'', ''McpError'', ''McpRequestId'', ''McpServer'', ''McpServerAcp'', ''McpServerAcpId'', ''McpServerHttp'']"
  by (simp add: part_14_def)

lemma names_15: "map fst part_15 = [''McpServerSse'', ''McpServerStdio'', ''MessageId'', ''MessageMcpNotification'', ''MessageMcpRequest'', ''MessageMcpResponse'', ''MultiSelectItems'', ''MultiSelectPropertySchema'']"
  by (simp add: part_15_def)

lemma names_16: "map fst part_16 = [''NewSessionRequest'', ''NewSessionResponse'', ''Notice'', ''NoticeCapabilities'', ''NoticeSeverity'', ''NumberPropertySchema'', ''PermissionOption'', ''PermissionOptionId'']"
  by (simp add: part_16_def)

lemma names_17: "map fst part_17 = [''PermissionOptionKind'', ''Plan'', ''PlanCapabilities'', ''PlanEntry'', ''PlanEntryPriority'', ''PlanEntryStatus'', ''PlanFile'', ''PlanId'']"
  by (simp add: part_17_def)

lemma names_18: "map fst part_18 = [''PlanItems'', ''PlanMarkdown'', ''PlanRemoved'', ''PlanUpdate'', ''PlanUpdateContent'', ''PromptCapabilities'', ''PromptRequest'', ''PromptResponse'']"
  by (simp add: part_18_def)

lemma names_19: "map fst part_19 = [''ProtocolVersion'', ''ProviderCurrentConfig'', ''ProviderId'', ''ProviderInfo'', ''ProvidersCapabilities'', ''ProxyNotification'', ''ProxyRequest'', ''ProxyResponse'']"
  by (simp add: part_19_def)

lemma names_20: "map fst part_20 = [''ProxySuccessorNotification'', ''ProxySuccessorRequest'', ''ProxySuccessorResponse'', ''ReadTextFileRequest'', ''ReadTextFileResponse'', ''ReleaseTerminalRequest'', ''ReleaseTerminalResponse'', ''RequestId'']"
  by (simp add: part_20_def)

lemma names_21: "map fst part_21 = [''RequestPermissionOutcome'', ''RequestPermissionRequest'', ''RequestPermissionResponse'', ''RequiresActionStateUpdate'', ''ResourceLink'', ''ResumeSessionRequest'', ''ResumeSessionResponse'', ''Role'']"
  by (simp add: part_21_def)

lemma names_22: "map fst part_22 = [''RunningStateUpdate'', ''SelectedPermissionOutcome'', ''SessionAdditionalDirectoriesCapabilities'', ''SessionArchiveCapabilities'', ''SessionArchiveFilter'', ''SessionCancelCapabilities'', ''SessionCapabilities'', ''SessionCloseCapabilities'']"
  by (simp add: part_22_def)

lemma names_23: "map fst part_23 = [''SessionConfigBoolean'', ''SessionConfigGroupId'', ''SessionConfigId'', ''SessionConfigOption'', ''SessionConfigOptionCategory'', ''SessionConfigOptionsCapabilities'', ''SessionConfigSelect'', ''SessionConfigSelectGroup'']"
  by (simp add: part_23_def)

lemma names_24: "map fst part_24 = [''SessionConfigSelectOption'', ''SessionConfigSelectOptions'', ''SessionConfigValueId'', ''SessionDeleteCapabilities'', ''SessionForkCapabilities'', ''SessionId'', ''SessionInfo'', ''SessionInfoUpdate'']"
  by (simp add: part_24_def)

lemma names_25: "map fst part_25 = [''SessionListCapabilities'', ''SessionMessage'', ''SessionMessageChunk'', ''SessionMode'', ''SessionModeId'', ''SessionModeState'', ''SessionNotification'', ''SessionResumeCapabilities'']"
  by (simp add: part_25_def)

lemma names_26: "map fst part_26 = [''SessionStatus'', ''SessionStatusCapabilities'', ''SessionStatusRequest'', ''SessionStatusResponse'', ''SessionSystemPromptCapabilities'', ''SessionSystemPromptModeCapabilities'', ''SessionSystemPromptOverrideCapabilities'', ''SessionTitleCapabilities'']"
  by (simp add: part_26_def)

lemma names_27: "map fst part_27 = [''SessionUpdate'', ''SetProviderRequest'', ''SetProviderResponse'', ''SetSessionConfigOptionRequest'', ''SetSessionConfigOptionResponse'', ''SetSessionModeRequest'', ''SetSessionModeResponse'', ''SetSessionTitleRequest'']"
  by (simp add: part_27_def)

lemma names_28: "map fst part_28 = [''SetSessionTitleResponse'', ''StateUpdate'', ''StopReason'', ''StringFormat'', ''StringMultiSelectItems'', ''StringPropertySchema'', ''SubagentCapabilities'', ''SubagentSessionCapabilities'']"
  by (simp add: part_28_def)

lemma names_29: "map fst part_29 = [''SubagentUpdate'', ''SystemPrompt'', ''SystemPromptMode'', ''Terminal'', ''TerminalExitStatus'', ''TerminalId'', ''TerminalOutputRequest'', ''TerminalOutputResponse'']"
  by (simp add: part_29_def)

lemma names_30: "map fst part_30 = [''TextContent'', ''TextResourceContents'', ''TitledMultiSelectItems'', ''ToolCall'', ''ToolCallContent'', ''ToolCallId'', ''ToolCallLocation'', ''ToolCallStatus'']"
  by (simp add: part_30_def)

lemma names_31: "map fst part_31 = [''ToolCallUpdate'', ''ToolKind'', ''UnarchiveSessionRequest'', ''UnarchiveSessionResponse'', ''UnknownStateUpdate'', ''UnstructuredCommandInput'', ''Usage'', ''UsageUpdate'']"
  by (simp add: part_31_def)

lemma names_32: "map fst part_32 = [''WaitForTerminalExitRequest'', ''WaitForTerminalExitResponse'', ''WriteTextFileRequest'', ''WriteTextFileResponse'']"
  by (simp add: part_32_def)

lemma acp_parts:
  "doc_defs acp_document = part_1 @ part_2 @ part_3 @ part_4 @ part_5 @ part_6 @ part_7 @ part_8 @ part_9 @ part_10 @ part_11 @ part_12 @ part_13 @ part_14 @ part_15 @ part_16 @ part_17 @ part_18 @ part_19 @ part_20 @ part_21 @ part_22 @ part_23 @ part_24 @ part_25 @ part_26 @ part_27 @ part_28 @ part_29 @ part_30 @ part_31 @ part_32"
  by (simp add: acp_document_def acp_definitions_1_def acp_definitions_2_def acp_definitions_3_def acp_definitions_4_def
    part_1_def part_2_def part_3_def part_4_def part_5_def part_6_def part_7_def part_8_def part_9_def part_10_def part_11_def part_12_def part_13_def part_14_def part_15_def part_16_def part_17_def part_18_def part_19_def part_20_def part_21_def part_22_def part_23_def part_24_def part_25_def part_26_def part_27_def part_28_def part_29_def part_30_def part_31_def part_32_def)

lemmas names_parts = names_1 names_2 names_3 names_4 names_5 names_6 names_7 names_8 names_9 names_10 names_11 names_12 names_13 names_14 names_15 names_16 names_17 names_18 names_19 names_20 names_21 names_22 names_23 names_24 names_25 names_26 names_27 names_28 names_29 names_30 names_31 names_32

lemma split_1_2:
  "map_of ((part_1) @ part_2) n =
    (if n < ''AudioContent'' then map_of (part_1) n else map_of (part_2) n)"
proof (rule map_of_split)
  show "list_all (\<lambda>x. x < ''AudioContent'') (map fst (part_1))" unfolding names_parts map_append by code_simp
  show "list_all (\<lambda>x. ''AudioContent'' \<le> x) (map fst (part_2))" unfolding names_parts map_append by code_simp
qed

lemma split_3_4:
  "map_of ((part_3) @ part_4) n =
    (if n < ''AvailableCommandsUpdate'' then map_of (part_3) n else map_of (part_4) n)"
proof (rule map_of_split)
  show "list_all (\<lambda>x. x < ''AvailableCommandsUpdate'') (map fst (part_3))" unfolding names_parts map_append by code_simp
  show "list_all (\<lambda>x. ''AvailableCommandsUpdate'' \<le> x) (map fst (part_4))" unfolding names_parts map_append by code_simp
qed

lemma split_1_4:
  "map_of ((part_1 @ part_2) @ part_3 @ part_4) n =
    (if n < ''AuthStatusCapabilities'' then map_of (part_1 @ part_2) n else map_of (part_3 @ part_4) n)"
proof (rule map_of_split)
  show "list_all (\<lambda>x. x < ''AuthStatusCapabilities'') (map fst (part_1 @ part_2))" unfolding names_parts map_append by code_simp
  show "list_all (\<lambda>x. ''AuthStatusCapabilities'' \<le> x) (map fst (part_3 @ part_4))" unfolding names_parts map_append by code_simp
qed

lemma split_5_6:
  "map_of ((part_5) @ part_6) n =
    (if n < ''CompactionSummaryChunk'' then map_of (part_5) n else map_of (part_6) n)"
proof (rule map_of_split)
  show "list_all (\<lambda>x. x < ''CompactionSummaryChunk'') (map fst (part_5))" unfolding names_parts map_append by code_simp
  show "list_all (\<lambda>x. ''CompactionSummaryChunk'' \<le> x) (map fst (part_6))" unfolding names_parts map_append by code_simp
qed

lemma split_7_8:
  "map_of ((part_7) @ part_8) n =
    (if n < ''DisableProviderRequest'' then map_of (part_7) n else map_of (part_8) n)"
proof (rule map_of_split)
  show "list_all (\<lambda>x. x < ''DisableProviderRequest'') (map fst (part_7))" unfolding names_parts map_append by code_simp
  show "list_all (\<lambda>x. ''DisableProviderRequest'' \<le> x) (map fst (part_8))" unfolding names_parts map_append by code_simp
qed

lemma split_5_8:
  "map_of ((part_5 @ part_6) @ part_7 @ part_8) n =
    (if n < ''CreateElicitationRequest'' then map_of (part_5 @ part_6) n else map_of (part_7 @ part_8) n)"
proof (rule map_of_split)
  show "list_all (\<lambda>x. x < ''CreateElicitationRequest'') (map fst (part_5 @ part_6))" unfolding names_parts map_append by code_simp
  show "list_all (\<lambda>x. ''CreateElicitationRequest'' \<le> x) (map fst (part_7 @ part_8))" unfolding names_parts map_append by code_simp
qed

lemma split_1_8:
  "map_of ((part_1 @ part_2 @ part_3 @ part_4) @ part_5 @ part_6 @ part_7 @ part_8) n =
    (if n < ''ClientRequest'' then map_of (part_1 @ part_2 @ part_3 @ part_4) n else map_of (part_5 @ part_6 @ part_7 @ part_8) n)"
proof (rule map_of_split)
  show "list_all (\<lambda>x. x < ''ClientRequest'') (map fst (part_1 @ part_2 @ part_3 @ part_4))" unfolding names_parts map_append by code_simp
  show "list_all (\<lambda>x. ''ClientRequest'' \<le> x) (map fst (part_5 @ part_6 @ part_7 @ part_8))" unfolding names_parts map_append by code_simp
qed

lemma split_9_10:
  "map_of ((part_9) @ part_10) n =
    (if n < ''EmbeddedResourceResource'' then map_of (part_9) n else map_of (part_10) n)"
proof (rule map_of_split)
  show "list_all (\<lambda>x. x < ''EmbeddedResourceResource'') (map fst (part_9))" unfolding names_parts map_append by code_simp
  show "list_all (\<lambda>x. ''EmbeddedResourceResource'' \<le> x) (map fst (part_10))" unfolding names_parts map_append by code_simp
qed

lemma split_11_12:
  "map_of ((part_11) @ part_12) n =
    (if n < ''InitializeProxyRequest'' then map_of (part_11) n else map_of (part_12) n)"
proof (rule map_of_split)
  show "list_all (\<lambda>x. x < ''InitializeProxyRequest'') (map fst (part_11))" unfolding names_parts map_append by code_simp
  show "list_all (\<lambda>x. ''InitializeProxyRequest'' \<le> x) (map fst (part_12))" unfolding names_parts map_append by code_simp
qed

lemma split_9_12:
  "map_of ((part_9 @ part_10) @ part_11 @ part_12) n =
    (if n < ''ExtResponse'' then map_of (part_9 @ part_10) n else map_of (part_11 @ part_12) n)"
proof (rule map_of_split)
  show "list_all (\<lambda>x. x < ''ExtResponse'') (map fst (part_9 @ part_10))" unfolding names_parts map_append by code_simp
  show "list_all (\<lambda>x. ''ExtResponse'' \<le> x) (map fst (part_11 @ part_12))" unfolding names_parts map_append by code_simp
qed

lemma split_13_14:
  "map_of ((part_13) @ part_14) n =
    (if n < ''LogoutResponse'' then map_of (part_13) n else map_of (part_14) n)"
proof (rule map_of_split)
  show "list_all (\<lambda>x. x < ''LogoutResponse'') (map fst (part_13))" unfolding names_parts map_append by code_simp
  show "list_all (\<lambda>x. ''LogoutResponse'' \<le> x) (map fst (part_14))" unfolding names_parts map_append by code_simp
qed

lemma split_15_16:
  "map_of ((part_15) @ part_16) n =
    (if n < ''NewSessionRequest'' then map_of (part_15) n else map_of (part_16) n)"
proof (rule map_of_split)
  show "list_all (\<lambda>x. x < ''NewSessionRequest'') (map fst (part_15))" unfolding names_parts map_append by code_simp
  show "list_all (\<lambda>x. ''NewSessionRequest'' \<le> x) (map fst (part_16))" unfolding names_parts map_append by code_simp
qed

lemma split_13_16:
  "map_of ((part_13 @ part_14) @ part_15 @ part_16) n =
    (if n < ''McpServerSse'' then map_of (part_13 @ part_14) n else map_of (part_15 @ part_16) n)"
proof (rule map_of_split)
  show "list_all (\<lambda>x. x < ''McpServerSse'') (map fst (part_13 @ part_14))" unfolding names_parts map_append by code_simp
  show "list_all (\<lambda>x. ''McpServerSse'' \<le> x) (map fst (part_15 @ part_16))" unfolding names_parts map_append by code_simp
qed

lemma split_9_16:
  "map_of ((part_9 @ part_10 @ part_11 @ part_12) @ part_13 @ part_14 @ part_15 @ part_16) n =
    (if n < ''ListProvidersResponse'' then map_of (part_9 @ part_10 @ part_11 @ part_12) n else map_of (part_13 @ part_14 @ part_15 @ part_16) n)"
proof (rule map_of_split)
  show "list_all (\<lambda>x. x < ''ListProvidersResponse'') (map fst (part_9 @ part_10 @ part_11 @ part_12))" unfolding names_parts map_append by code_simp
  show "list_all (\<lambda>x. ''ListProvidersResponse'' \<le> x) (map fst (part_13 @ part_14 @ part_15 @ part_16))" unfolding names_parts map_append by code_simp
qed

lemma split_1_16:
  "map_of ((part_1 @ part_2 @ part_3 @ part_4 @ part_5 @ part_6 @ part_7 @ part_8) @ part_9 @ part_10 @ part_11 @ part_12 @ part_13 @ part_14 @ part_15 @ part_16) n =
    (if n < ''ElicitationPropertySchema'' then map_of (part_1 @ part_2 @ part_3 @ part_4 @ part_5 @ part_6 @ part_7 @ part_8) n else map_of (part_9 @ part_10 @ part_11 @ part_12 @ part_13 @ part_14 @ part_15 @ part_16) n)"
proof (rule map_of_split)
  show "list_all (\<lambda>x. x < ''ElicitationPropertySchema'') (map fst (part_1 @ part_2 @ part_3 @ part_4 @ part_5 @ part_6 @ part_7 @ part_8))" unfolding names_parts map_append by code_simp
  show "list_all (\<lambda>x. ''ElicitationPropertySchema'' \<le> x) (map fst (part_9 @ part_10 @ part_11 @ part_12 @ part_13 @ part_14 @ part_15 @ part_16))" unfolding names_parts map_append by code_simp
qed

lemma split_17_18:
  "map_of ((part_17) @ part_18) n =
    (if n < ''PlanItems'' then map_of (part_17) n else map_of (part_18) n)"
proof (rule map_of_split)
  show "list_all (\<lambda>x. x < ''PlanItems'') (map fst (part_17))" unfolding names_parts map_append by code_simp
  show "list_all (\<lambda>x. ''PlanItems'' \<le> x) (map fst (part_18))" unfolding names_parts map_append by code_simp
qed

lemma split_19_20:
  "map_of ((part_19) @ part_20) n =
    (if n < ''ProxySuccessorNotification'' then map_of (part_19) n else map_of (part_20) n)"
proof (rule map_of_split)
  show "list_all (\<lambda>x. x < ''ProxySuccessorNotification'') (map fst (part_19))" unfolding names_parts map_append by code_simp
  show "list_all (\<lambda>x. ''ProxySuccessorNotification'' \<le> x) (map fst (part_20))" unfolding names_parts map_append by code_simp
qed

lemma split_17_20:
  "map_of ((part_17 @ part_18) @ part_19 @ part_20) n =
    (if n < ''ProtocolVersion'' then map_of (part_17 @ part_18) n else map_of (part_19 @ part_20) n)"
proof (rule map_of_split)
  show "list_all (\<lambda>x. x < ''ProtocolVersion'') (map fst (part_17 @ part_18))" unfolding names_parts map_append by code_simp
  show "list_all (\<lambda>x. ''ProtocolVersion'' \<le> x) (map fst (part_19 @ part_20))" unfolding names_parts map_append by code_simp
qed

lemma split_21_22:
  "map_of ((part_21) @ part_22) n =
    (if n < ''RunningStateUpdate'' then map_of (part_21) n else map_of (part_22) n)"
proof (rule map_of_split)
  show "list_all (\<lambda>x. x < ''RunningStateUpdate'') (map fst (part_21))" unfolding names_parts map_append by code_simp
  show "list_all (\<lambda>x. ''RunningStateUpdate'' \<le> x) (map fst (part_22))" unfolding names_parts map_append by code_simp
qed

lemma split_23_24:
  "map_of ((part_23) @ part_24) n =
    (if n < ''SessionConfigSelectOption'' then map_of (part_23) n else map_of (part_24) n)"
proof (rule map_of_split)
  show "list_all (\<lambda>x. x < ''SessionConfigSelectOption'') (map fst (part_23))" unfolding names_parts map_append by code_simp
  show "list_all (\<lambda>x. ''SessionConfigSelectOption'' \<le> x) (map fst (part_24))" unfolding names_parts map_append by code_simp
qed

lemma split_21_24:
  "map_of ((part_21 @ part_22) @ part_23 @ part_24) n =
    (if n < ''SessionConfigBoolean'' then map_of (part_21 @ part_22) n else map_of (part_23 @ part_24) n)"
proof (rule map_of_split)
  show "list_all (\<lambda>x. x < ''SessionConfigBoolean'') (map fst (part_21 @ part_22))" unfolding names_parts map_append by code_simp
  show "list_all (\<lambda>x. ''SessionConfigBoolean'' \<le> x) (map fst (part_23 @ part_24))" unfolding names_parts map_append by code_simp
qed

lemma split_17_24:
  "map_of ((part_17 @ part_18 @ part_19 @ part_20) @ part_21 @ part_22 @ part_23 @ part_24) n =
    (if n < ''RequestPermissionOutcome'' then map_of (part_17 @ part_18 @ part_19 @ part_20) n else map_of (part_21 @ part_22 @ part_23 @ part_24) n)"
proof (rule map_of_split)
  show "list_all (\<lambda>x. x < ''RequestPermissionOutcome'') (map fst (part_17 @ part_18 @ part_19 @ part_20))" unfolding names_parts map_append by code_simp
  show "list_all (\<lambda>x. ''RequestPermissionOutcome'' \<le> x) (map fst (part_21 @ part_22 @ part_23 @ part_24))" unfolding names_parts map_append by code_simp
qed

lemma split_25_26:
  "map_of ((part_25) @ part_26) n =
    (if n < ''SessionStatus'' then map_of (part_25) n else map_of (part_26) n)"
proof (rule map_of_split)
  show "list_all (\<lambda>x. x < ''SessionStatus'') (map fst (part_25))" unfolding names_parts map_append by code_simp
  show "list_all (\<lambda>x. ''SessionStatus'' \<le> x) (map fst (part_26))" unfolding names_parts map_append by code_simp
qed

lemma split_27_28:
  "map_of ((part_27) @ part_28) n =
    (if n < ''SetSessionTitleResponse'' then map_of (part_27) n else map_of (part_28) n)"
proof (rule map_of_split)
  show "list_all (\<lambda>x. x < ''SetSessionTitleResponse'') (map fst (part_27))" unfolding names_parts map_append by code_simp
  show "list_all (\<lambda>x. ''SetSessionTitleResponse'' \<le> x) (map fst (part_28))" unfolding names_parts map_append by code_simp
qed

lemma split_25_28:
  "map_of ((part_25 @ part_26) @ part_27 @ part_28) n =
    (if n < ''SessionUpdate'' then map_of (part_25 @ part_26) n else map_of (part_27 @ part_28) n)"
proof (rule map_of_split)
  show "list_all (\<lambda>x. x < ''SessionUpdate'') (map fst (part_25 @ part_26))" unfolding names_parts map_append by code_simp
  show "list_all (\<lambda>x. ''SessionUpdate'' \<le> x) (map fst (part_27 @ part_28))" unfolding names_parts map_append by code_simp
qed

lemma split_29_30:
  "map_of ((part_29) @ part_30) n =
    (if n < ''TextContent'' then map_of (part_29) n else map_of (part_30) n)"
proof (rule map_of_split)
  show "list_all (\<lambda>x. x < ''TextContent'') (map fst (part_29))" unfolding names_parts map_append by code_simp
  show "list_all (\<lambda>x. ''TextContent'' \<le> x) (map fst (part_30))" unfolding names_parts map_append by code_simp
qed

lemma split_31_32:
  "map_of ((part_31) @ part_32) n =
    (if n < ''WaitForTerminalExitRequest'' then map_of (part_31) n else map_of (part_32) n)"
proof (rule map_of_split)
  show "list_all (\<lambda>x. x < ''WaitForTerminalExitRequest'') (map fst (part_31))" unfolding names_parts map_append by code_simp
  show "list_all (\<lambda>x. ''WaitForTerminalExitRequest'' \<le> x) (map fst (part_32))" unfolding names_parts map_append by code_simp
qed

lemma split_29_32:
  "map_of ((part_29 @ part_30) @ part_31 @ part_32) n =
    (if n < ''ToolCallUpdate'' then map_of (part_29 @ part_30) n else map_of (part_31 @ part_32) n)"
proof (rule map_of_split)
  show "list_all (\<lambda>x. x < ''ToolCallUpdate'') (map fst (part_29 @ part_30))" unfolding names_parts map_append by code_simp
  show "list_all (\<lambda>x. ''ToolCallUpdate'' \<le> x) (map fst (part_31 @ part_32))" unfolding names_parts map_append by code_simp
qed

lemma split_25_32:
  "map_of ((part_25 @ part_26 @ part_27 @ part_28) @ part_29 @ part_30 @ part_31 @ part_32) n =
    (if n < ''SubagentUpdate'' then map_of (part_25 @ part_26 @ part_27 @ part_28) n else map_of (part_29 @ part_30 @ part_31 @ part_32) n)"
proof (rule map_of_split)
  show "list_all (\<lambda>x. x < ''SubagentUpdate'') (map fst (part_25 @ part_26 @ part_27 @ part_28))" unfolding names_parts map_append by code_simp
  show "list_all (\<lambda>x. ''SubagentUpdate'' \<le> x) (map fst (part_29 @ part_30 @ part_31 @ part_32))" unfolding names_parts map_append by code_simp
qed

lemma split_17_32:
  "map_of ((part_17 @ part_18 @ part_19 @ part_20 @ part_21 @ part_22 @ part_23 @ part_24) @ part_25 @ part_26 @ part_27 @ part_28 @ part_29 @ part_30 @ part_31 @ part_32) n =
    (if n < ''SessionListCapabilities'' then map_of (part_17 @ part_18 @ part_19 @ part_20 @ part_21 @ part_22 @ part_23 @ part_24) n else map_of (part_25 @ part_26 @ part_27 @ part_28 @ part_29 @ part_30 @ part_31 @ part_32) n)"
proof (rule map_of_split)
  show "list_all (\<lambda>x. x < ''SessionListCapabilities'') (map fst (part_17 @ part_18 @ part_19 @ part_20 @ part_21 @ part_22 @ part_23 @ part_24))" unfolding names_parts map_append by code_simp
  show "list_all (\<lambda>x. ''SessionListCapabilities'' \<le> x) (map fst (part_25 @ part_26 @ part_27 @ part_28 @ part_29 @ part_30 @ part_31 @ part_32))" unfolding names_parts map_append by code_simp
qed

lemma split_1_32:
  "map_of ((part_1 @ part_2 @ part_3 @ part_4 @ part_5 @ part_6 @ part_7 @ part_8 @ part_9 @ part_10 @ part_11 @ part_12 @ part_13 @ part_14 @ part_15 @ part_16) @ part_17 @ part_18 @ part_19 @ part_20 @ part_21 @ part_22 @ part_23 @ part_24 @ part_25 @ part_26 @ part_27 @ part_28 @ part_29 @ part_30 @ part_31 @ part_32) n =
    (if n < ''PermissionOptionKind'' then map_of (part_1 @ part_2 @ part_3 @ part_4 @ part_5 @ part_6 @ part_7 @ part_8 @ part_9 @ part_10 @ part_11 @ part_12 @ part_13 @ part_14 @ part_15 @ part_16) n else map_of (part_17 @ part_18 @ part_19 @ part_20 @ part_21 @ part_22 @ part_23 @ part_24 @ part_25 @ part_26 @ part_27 @ part_28 @ part_29 @ part_30 @ part_31 @ part_32) n)"
proof (rule map_of_split)
  show "list_all (\<lambda>x. x < ''PermissionOptionKind'') (map fst (part_1 @ part_2 @ part_3 @ part_4 @ part_5 @ part_6 @ part_7 @ part_8 @ part_9 @ part_10 @ part_11 @ part_12 @ part_13 @ part_14 @ part_15 @ part_16))" unfolding names_parts map_append by code_simp
  show "list_all (\<lambda>x. ''PermissionOptionKind'' \<le> x) (map fst (part_17 @ part_18 @ part_19 @ part_20 @ part_21 @ part_22 @ part_23 @ part_24 @ part_25 @ part_26 @ part_27 @ part_28 @ part_29 @ part_30 @ part_31 @ part_32))" unfolding names_parts map_append by code_simp
qed

lemma acp_find: "acp_find n = map_of (doc_defs acp_document) n"
  unfolding acp_parts acp_find_def find_group_1_def find_group_2_def find_group_3_def find_group_4_def
    find_1 find_2 find_3 find_4 find_5 find_6 find_7 find_8 find_9 find_10 find_11 find_12 find_13 find_14 find_15 find_16 find_17 find_18 find_19 find_20 find_21 find_22 find_23 find_24 find_25 find_26 find_27 find_28 find_29 find_30 find_31 find_32
  by (simp only: split_1_2 [symmetric] split_3_4 [symmetric] split_1_4 [symmetric] split_5_6 [symmetric] split_7_8 [symmetric] split_5_8 [symmetric] split_1_8 [symmetric] split_9_10 [symmetric] split_11_12 [symmetric] split_9_12 [symmetric] split_13_14 [symmetric] split_15_16 [symmetric] split_13_16 [symmetric] split_9_16 [symmetric] split_1_16 [symmetric] split_17_18 [symmetric] split_19_20 [symmetric] split_17_20 [symmetric] split_21_22 [symmetric] split_23_24 [symmetric] split_21_24 [symmetric] split_17_24 [symmetric] split_25_26 [symmetric] split_27_28 [symmetric] split_25_28 [symmetric] split_29_30 [symmetric] split_31_32 [symmetric] split_29_32 [symmetric] split_25_32 [symmetric] split_17_32 [symmetric] split_1_32 [symmetric] append_assoc)

definition known_1 :: "string \<Rightarrow> bool" where
  "known_1 n =
    (n = ''AgentAuthCapabilities''
     \<or> n = ''AgentCapabilities''
     \<or> n = ''AgentNotification''
     \<or> n = ''AgentRequest''
     \<or> n = ''AgentResponse''
     \<or> n = ''Annotations''
     \<or> n = ''ArchiveSessionRequest''
     \<or> n = ''ArchiveSessionResponse'')"

definition known_2 :: "string \<Rightarrow> bool" where
  "known_2 n =
    (n = ''AudioContent''
     \<or> n = ''AuthAccount''
     \<or> n = ''AuthCapabilities''
     \<or> n = ''AuthMethod''
     \<or> n = ''AuthMethodAgent''
     \<or> n = ''AuthMethodId''
     \<or> n = ''AuthMethodTerminal''
     \<or> n = ''AuthState'')"

definition known_3 :: "string \<Rightarrow> bool" where
  "known_3 n =
    (n = ''AuthStatusCapabilities''
     \<or> n = ''AuthStatusRequest''
     \<or> n = ''AuthStatusResponse''
     \<or> n = ''AuthStatusUpdateNotification''
     \<or> n = ''AuthenticateRequest''
     \<or> n = ''AuthenticateResponse''
     \<or> n = ''AvailableCommand''
     \<or> n = ''AvailableCommandInput'')"

definition known_4 :: "string \<Rightarrow> bool" where
  "known_4 n =
    (n = ''AvailableCommandsUpdate''
     \<or> n = ''BlobResourceContents''
     \<or> n = ''BooleanConfigOptionCapabilities''
     \<or> n = ''BooleanPropertySchema''
     \<or> n = ''CancelNotification''
     \<or> n = ''CancelRequestNotification''
     \<or> n = ''ClientCapabilities''
     \<or> n = ''ClientNotification'')"

definition known_5 :: "string \<Rightarrow> bool" where
  "known_5 n =
    (n = ''ClientRequest''
     \<or> n = ''ClientResponse''
     \<or> n = ''ClientSessionCapabilities''
     \<or> n = ''CloseSessionRequest''
     \<or> n = ''CloseSessionResponse''
     \<or> n = ''CompactionCapabilities''
     \<or> n = ''CompactionId''
     \<or> n = ''CompactionStatus'')"

definition known_6 :: "string \<Rightarrow> bool" where
  "known_6 n =
    (n = ''CompactionSummaryChunk''
     \<or> n = ''CompactionUpdate''
     \<or> n = ''CompleteElicitationNotification''
     \<or> n = ''ConfigOptionUpdate''
     \<or> n = ''Content''
     \<or> n = ''ContentBlock''
     \<or> n = ''ContentChunk''
     \<or> n = ''Cost'')"

definition known_7 :: "string \<Rightarrow> bool" where
  "known_7 n =
    (n = ''CreateElicitationRequest''
     \<or> n = ''CreateElicitationResponse''
     \<or> n = ''CreateTerminalRequest''
     \<or> n = ''CreateTerminalResponse''
     \<or> n = ''CurrentModeUpdate''
     \<or> n = ''DeleteSessionRequest''
     \<or> n = ''DeleteSessionResponse''
     \<or> n = ''Diff'')"

definition known_8 :: "string \<Rightarrow> bool" where
  "known_8 n =
    (n = ''DisableProviderRequest''
     \<or> n = ''DisableProviderResponse''
     \<or> n = ''ElicitationAcceptAction''
     \<or> n = ''ElicitationCapabilities''
     \<or> n = ''ElicitationContentValue''
     \<or> n = ''ElicitationFormCapabilities''
     \<or> n = ''ElicitationFormMode''
     \<or> n = ''ElicitationId'')"

definition known_9 :: "string \<Rightarrow> bool" where
  "known_9 n =
    (n = ''ElicitationPropertySchema''
     \<or> n = ''ElicitationRequestScope''
     \<or> n = ''ElicitationSchema''
     \<or> n = ''ElicitationSchemaType''
     \<or> n = ''ElicitationSessionScope''
     \<or> n = ''ElicitationUrlCapabilities''
     \<or> n = ''ElicitationUrlMode''
     \<or> n = ''EmbeddedResource'')"

definition known_10 :: "string \<Rightarrow> bool" where
  "known_10 n =
    (n = ''EmbeddedResourceResource''
     \<or> n = ''EnumOption''
     \<or> n = ''EnvVariable''
     \<or> n = ''Error''
     \<or> n = ''ErrorCode''
     \<or> n = ''ErrorStopReason''
     \<or> n = ''ExtNotification''
     \<or> n = ''ExtRequest'')"

definition known_11 :: "string \<Rightarrow> bool" where
  "known_11 n =
    (n = ''ExtResponse''
     \<or> n = ''FileSystemCapabilities''
     \<or> n = ''ForkSessionRequest''
     \<or> n = ''ForkSessionResponse''
     \<or> n = ''HttpHeader''
     \<or> n = ''IdleStateUpdate''
     \<or> n = ''ImageContent''
     \<or> n = ''Implementation'')"

definition known_12 :: "string \<Rightarrow> bool" where
  "known_12 n =
    (n = ''InitializeProxyRequest''
     \<or> n = ''InitializeProxyResponse''
     \<or> n = ''InitializeRequest''
     \<or> n = ''InitializeResponse''
     \<or> n = ''IntegerPropertySchema''
     \<or> n = ''KillTerminalRequest''
     \<or> n = ''KillTerminalResponse''
     \<or> n = ''ListProvidersRequest'')"

definition known_13 :: "string \<Rightarrow> bool" where
  "known_13 n =
    (n = ''ListProvidersResponse''
     \<or> n = ''ListSessionsRequest''
     \<or> n = ''ListSessionsResponse''
     \<or> n = ''LlmProtocol''
     \<or> n = ''LoadSessionRequest''
     \<or> n = ''LoadSessionResponse''
     \<or> n = ''LogoutCapabilities''
     \<or> n = ''LogoutRequest'')"

definition known_14 :: "string \<Rightarrow> bool" where
  "known_14 n =
    (n = ''LogoutResponse''
     \<or> n = ''McpCapabilities''
     \<or> n = ''McpError''
     \<or> n = ''McpRequestId''
     \<or> n = ''McpServer''
     \<or> n = ''McpServerAcp''
     \<or> n = ''McpServerAcpId''
     \<or> n = ''McpServerHttp'')"

definition known_15 :: "string \<Rightarrow> bool" where
  "known_15 n =
    (n = ''McpServerSse''
     \<or> n = ''McpServerStdio''
     \<or> n = ''MessageId''
     \<or> n = ''MessageMcpNotification''
     \<or> n = ''MessageMcpRequest''
     \<or> n = ''MessageMcpResponse''
     \<or> n = ''MultiSelectItems''
     \<or> n = ''MultiSelectPropertySchema'')"

definition known_16 :: "string \<Rightarrow> bool" where
  "known_16 n =
    (n = ''NewSessionRequest''
     \<or> n = ''NewSessionResponse''
     \<or> n = ''Notice''
     \<or> n = ''NoticeCapabilities''
     \<or> n = ''NoticeSeverity''
     \<or> n = ''NumberPropertySchema''
     \<or> n = ''PermissionOption''
     \<or> n = ''PermissionOptionId'')"

definition known_17 :: "string \<Rightarrow> bool" where
  "known_17 n =
    (n = ''PermissionOptionKind''
     \<or> n = ''Plan''
     \<or> n = ''PlanCapabilities''
     \<or> n = ''PlanEntry''
     \<or> n = ''PlanEntryPriority''
     \<or> n = ''PlanEntryStatus''
     \<or> n = ''PlanFile''
     \<or> n = ''PlanId'')"

definition known_18 :: "string \<Rightarrow> bool" where
  "known_18 n =
    (n = ''PlanItems''
     \<or> n = ''PlanMarkdown''
     \<or> n = ''PlanRemoved''
     \<or> n = ''PlanUpdate''
     \<or> n = ''PlanUpdateContent''
     \<or> n = ''PromptCapabilities''
     \<or> n = ''PromptRequest''
     \<or> n = ''PromptResponse'')"

definition known_19 :: "string \<Rightarrow> bool" where
  "known_19 n =
    (n = ''ProtocolVersion''
     \<or> n = ''ProviderCurrentConfig''
     \<or> n = ''ProviderId''
     \<or> n = ''ProviderInfo''
     \<or> n = ''ProvidersCapabilities''
     \<or> n = ''ProxyNotification''
     \<or> n = ''ProxyRequest''
     \<or> n = ''ProxyResponse'')"

definition known_20 :: "string \<Rightarrow> bool" where
  "known_20 n =
    (n = ''ProxySuccessorNotification''
     \<or> n = ''ProxySuccessorRequest''
     \<or> n = ''ProxySuccessorResponse''
     \<or> n = ''ReadTextFileRequest''
     \<or> n = ''ReadTextFileResponse''
     \<or> n = ''ReleaseTerminalRequest''
     \<or> n = ''ReleaseTerminalResponse''
     \<or> n = ''RequestId'')"

definition known_21 :: "string \<Rightarrow> bool" where
  "known_21 n =
    (n = ''RequestPermissionOutcome''
     \<or> n = ''RequestPermissionRequest''
     \<or> n = ''RequestPermissionResponse''
     \<or> n = ''RequiresActionStateUpdate''
     \<or> n = ''ResourceLink''
     \<or> n = ''ResumeSessionRequest''
     \<or> n = ''ResumeSessionResponse''
     \<or> n = ''Role'')"

definition known_22 :: "string \<Rightarrow> bool" where
  "known_22 n =
    (n = ''RunningStateUpdate''
     \<or> n = ''SelectedPermissionOutcome''
     \<or> n = ''SessionAdditionalDirectoriesCapabilities''
     \<or> n = ''SessionArchiveCapabilities''
     \<or> n = ''SessionArchiveFilter''
     \<or> n = ''SessionCancelCapabilities''
     \<or> n = ''SessionCapabilities''
     \<or> n = ''SessionCloseCapabilities'')"

definition known_23 :: "string \<Rightarrow> bool" where
  "known_23 n =
    (n = ''SessionConfigBoolean''
     \<or> n = ''SessionConfigGroupId''
     \<or> n = ''SessionConfigId''
     \<or> n = ''SessionConfigOption''
     \<or> n = ''SessionConfigOptionCategory''
     \<or> n = ''SessionConfigOptionsCapabilities''
     \<or> n = ''SessionConfigSelect''
     \<or> n = ''SessionConfigSelectGroup'')"

definition known_24 :: "string \<Rightarrow> bool" where
  "known_24 n =
    (n = ''SessionConfigSelectOption''
     \<or> n = ''SessionConfigSelectOptions''
     \<or> n = ''SessionConfigValueId''
     \<or> n = ''SessionDeleteCapabilities''
     \<or> n = ''SessionForkCapabilities''
     \<or> n = ''SessionId''
     \<or> n = ''SessionInfo''
     \<or> n = ''SessionInfoUpdate'')"

definition known_25 :: "string \<Rightarrow> bool" where
  "known_25 n =
    (n = ''SessionListCapabilities''
     \<or> n = ''SessionMessage''
     \<or> n = ''SessionMessageChunk''
     \<or> n = ''SessionMode''
     \<or> n = ''SessionModeId''
     \<or> n = ''SessionModeState''
     \<or> n = ''SessionNotification''
     \<or> n = ''SessionResumeCapabilities'')"

definition known_26 :: "string \<Rightarrow> bool" where
  "known_26 n =
    (n = ''SessionStatus''
     \<or> n = ''SessionStatusCapabilities''
     \<or> n = ''SessionStatusRequest''
     \<or> n = ''SessionStatusResponse''
     \<or> n = ''SessionSystemPromptCapabilities''
     \<or> n = ''SessionSystemPromptModeCapabilities''
     \<or> n = ''SessionSystemPromptOverrideCapabilities''
     \<or> n = ''SessionTitleCapabilities'')"

definition known_27 :: "string \<Rightarrow> bool" where
  "known_27 n =
    (n = ''SessionUpdate''
     \<or> n = ''SetProviderRequest''
     \<or> n = ''SetProviderResponse''
     \<or> n = ''SetSessionConfigOptionRequest''
     \<or> n = ''SetSessionConfigOptionResponse''
     \<or> n = ''SetSessionModeRequest''
     \<or> n = ''SetSessionModeResponse''
     \<or> n = ''SetSessionTitleRequest'')"

definition known_28 :: "string \<Rightarrow> bool" where
  "known_28 n =
    (n = ''SetSessionTitleResponse''
     \<or> n = ''StateUpdate''
     \<or> n = ''StopReason''
     \<or> n = ''StringFormat''
     \<or> n = ''StringMultiSelectItems''
     \<or> n = ''StringPropertySchema''
     \<or> n = ''SubagentCapabilities''
     \<or> n = ''SubagentSessionCapabilities'')"

definition known_29 :: "string \<Rightarrow> bool" where
  "known_29 n =
    (n = ''SubagentUpdate''
     \<or> n = ''SystemPrompt''
     \<or> n = ''SystemPromptMode''
     \<or> n = ''Terminal''
     \<or> n = ''TerminalExitStatus''
     \<or> n = ''TerminalId''
     \<or> n = ''TerminalOutputRequest''
     \<or> n = ''TerminalOutputResponse'')"

definition known_30 :: "string \<Rightarrow> bool" where
  "known_30 n =
    (n = ''TextContent''
     \<or> n = ''TextResourceContents''
     \<or> n = ''TitledMultiSelectItems''
     \<or> n = ''ToolCall''
     \<or> n = ''ToolCallContent''
     \<or> n = ''ToolCallId''
     \<or> n = ''ToolCallLocation''
     \<or> n = ''ToolCallStatus'')"

definition known_31 :: "string \<Rightarrow> bool" where
  "known_31 n =
    (n = ''ToolCallUpdate''
     \<or> n = ''ToolKind''
     \<or> n = ''UnarchiveSessionRequest''
     \<or> n = ''UnarchiveSessionResponse''
     \<or> n = ''UnknownStateUpdate''
     \<or> n = ''UnstructuredCommandInput''
     \<or> n = ''Usage''
     \<or> n = ''UsageUpdate'')"

definition known_32 :: "string \<Rightarrow> bool" where
  "known_32 n =
    (n = ''WaitForTerminalExitRequest''
     \<or> n = ''WaitForTerminalExitResponse''
     \<or> n = ''WriteTextFileRequest''
     \<or> n = ''WriteTextFileResponse'')"

definition known_group_1 :: "string \<Rightarrow> bool" where
  "known_group_1 n =
    (if n < ''ClientRequest'' then (if n < ''AuthStatusCapabilities'' then (if n < ''AudioContent'' then known_1 n
     else known_2 n)
     else (if n < ''AvailableCommandsUpdate'' then known_3 n
     else known_4 n))
     else (if n < ''CreateElicitationRequest'' then (if n < ''CompactionSummaryChunk'' then known_5 n
     else known_6 n)
     else (if n < ''DisableProviderRequest'' then known_7 n
     else known_8 n)))"

definition known_group_2 :: "string \<Rightarrow> bool" where
  "known_group_2 n =
    (if n < ''ListProvidersResponse'' then (if n < ''ExtResponse'' then (if n < ''EmbeddedResourceResource'' then known_9 n
     else known_10 n)
     else (if n < ''InitializeProxyRequest'' then known_11 n
     else known_12 n))
     else (if n < ''McpServerSse'' then (if n < ''LogoutResponse'' then known_13 n
     else known_14 n)
     else (if n < ''NewSessionRequest'' then known_15 n
     else known_16 n)))"

definition known_group_3 :: "string \<Rightarrow> bool" where
  "known_group_3 n =
    (if n < ''RequestPermissionOutcome'' then (if n < ''ProtocolVersion'' then (if n < ''PlanItems'' then known_17 n
     else known_18 n)
     else (if n < ''ProxySuccessorNotification'' then known_19 n
     else known_20 n))
     else (if n < ''SessionConfigBoolean'' then (if n < ''RunningStateUpdate'' then known_21 n
     else known_22 n)
     else (if n < ''SessionConfigSelectOption'' then known_23 n
     else known_24 n)))"

definition known_group_4 :: "string \<Rightarrow> bool" where
  "known_group_4 n =
    (if n < ''SubagentUpdate'' then (if n < ''SessionUpdate'' then (if n < ''SessionStatus'' then known_25 n
     else known_26 n)
     else (if n < ''SetSessionTitleResponse'' then known_27 n
     else known_28 n))
     else (if n < ''ToolCallUpdate'' then (if n < ''TextContent'' then known_29 n
     else known_30 n)
     else (if n < ''WaitForTerminalExitRequest'' then known_31 n
     else known_32 n)))"

definition acp_known :: "string \<Rightarrow> bool" where
  "acp_known n =
    (if n < ''PermissionOptionKind'' then if n < ''ElicitationPropertySchema'' then known_group_1 n else known_group_2 n
     else if n < ''SessionListCapabilities'' then known_group_3 n else known_group_4 n)"

lemma known_1: "known_1 n \<longleftrightarrow> find_1 n \<noteq> None"
  by (simp add: known_1_def find_1_def)

lemma known_2: "known_2 n \<longleftrightarrow> find_2 n \<noteq> None"
  by (simp add: known_2_def find_2_def)

lemma known_3: "known_3 n \<longleftrightarrow> find_3 n \<noteq> None"
  by (simp add: known_3_def find_3_def)

lemma known_4: "known_4 n \<longleftrightarrow> find_4 n \<noteq> None"
  by (simp add: known_4_def find_4_def)

lemma known_5: "known_5 n \<longleftrightarrow> find_5 n \<noteq> None"
  by (simp add: known_5_def find_5_def)

lemma known_6: "known_6 n \<longleftrightarrow> find_6 n \<noteq> None"
  by (simp add: known_6_def find_6_def)

lemma known_7: "known_7 n \<longleftrightarrow> find_7 n \<noteq> None"
  by (simp add: known_7_def find_7_def)

lemma known_8: "known_8 n \<longleftrightarrow> find_8 n \<noteq> None"
  by (simp add: known_8_def find_8_def)

lemma known_9: "known_9 n \<longleftrightarrow> find_9 n \<noteq> None"
  by (simp add: known_9_def find_9_def)

lemma known_10: "known_10 n \<longleftrightarrow> find_10 n \<noteq> None"
  by (simp add: known_10_def find_10_def)

lemma known_11: "known_11 n \<longleftrightarrow> find_11 n \<noteq> None"
  by (simp add: known_11_def find_11_def)

lemma known_12: "known_12 n \<longleftrightarrow> find_12 n \<noteq> None"
  by (simp add: known_12_def find_12_def)

lemma known_13: "known_13 n \<longleftrightarrow> find_13 n \<noteq> None"
  by (simp add: known_13_def find_13_def)

lemma known_14: "known_14 n \<longleftrightarrow> find_14 n \<noteq> None"
  by (simp add: known_14_def find_14_def)

lemma known_15: "known_15 n \<longleftrightarrow> find_15 n \<noteq> None"
  by (simp add: known_15_def find_15_def)

lemma known_16: "known_16 n \<longleftrightarrow> find_16 n \<noteq> None"
  by (simp add: known_16_def find_16_def)

lemma known_17: "known_17 n \<longleftrightarrow> find_17 n \<noteq> None"
  by (simp add: known_17_def find_17_def)

lemma known_18: "known_18 n \<longleftrightarrow> find_18 n \<noteq> None"
  by (simp add: known_18_def find_18_def)

lemma known_19: "known_19 n \<longleftrightarrow> find_19 n \<noteq> None"
  by (simp add: known_19_def find_19_def)

lemma known_20: "known_20 n \<longleftrightarrow> find_20 n \<noteq> None"
  by (simp add: known_20_def find_20_def)

lemma known_21: "known_21 n \<longleftrightarrow> find_21 n \<noteq> None"
  by (simp add: known_21_def find_21_def)

lemma known_22: "known_22 n \<longleftrightarrow> find_22 n \<noteq> None"
  by (simp add: known_22_def find_22_def)

lemma known_23: "known_23 n \<longleftrightarrow> find_23 n \<noteq> None"
  by (simp add: known_23_def find_23_def)

lemma known_24: "known_24 n \<longleftrightarrow> find_24 n \<noteq> None"
  by (simp add: known_24_def find_24_def)

lemma known_25: "known_25 n \<longleftrightarrow> find_25 n \<noteq> None"
  by (simp add: known_25_def find_25_def)

lemma known_26: "known_26 n \<longleftrightarrow> find_26 n \<noteq> None"
  by (simp add: known_26_def find_26_def)

lemma known_27: "known_27 n \<longleftrightarrow> find_27 n \<noteq> None"
  by (simp add: known_27_def find_27_def)

lemma known_28: "known_28 n \<longleftrightarrow> find_28 n \<noteq> None"
  by (simp add: known_28_def find_28_def)

lemma known_29: "known_29 n \<longleftrightarrow> find_29 n \<noteq> None"
  by (simp add: known_29_def find_29_def)

lemma known_30: "known_30 n \<longleftrightarrow> find_30 n \<noteq> None"
  by (simp add: known_30_def find_30_def)

lemma known_31: "known_31 n \<longleftrightarrow> find_31 n \<noteq> None"
  by (simp add: known_31_def find_31_def)

lemma known_32: "known_32 n \<longleftrightarrow> find_32 n \<noteq> None"
  by (simp add: known_32_def find_32_def)

lemma acp_known_find: "acp_known n \<longleftrightarrow> acp_find n \<noteq> None"
  unfolding acp_find_def acp_known_def find_group_1_def known_group_1_def find_group_2_def known_group_2_def find_group_3_def known_group_3_def find_group_4_def known_group_4_def
    known_1 known_2 known_3 known_4 known_5 known_6 known_7 known_8 known_9 known_10 known_11 known_12 known_13 known_14 known_15 known_16 known_17 known_18 known_19 known_20 known_21 known_22 known_23 known_24 known_25 known_26 known_27 known_28 known_29 known_30 known_31 known_32
  by (simp only: if_distrib [of "\<lambda>x. x \<noteq> None"] cong: if_cong)

section \<open>The environment\<close>

definition acp_go :: "string \<Rightarrow> string option" where
  "acp_go n = (if acp_known n then Some n else None)"

definition acp_go_names :: "unit \<Rightarrow> string list" where
  "acp_go_names u = acp_names"

definition acp_env :: gen_env where
  "acp_env = \<lparr>ge_def = acp_find, ge_name = acp_go, ge_raw = acp_go, ge_go_names = acp_go_names, ge_depth = 8\<rparr>"

lemma acp_known_names: "acp_known n \<longleftrightarrow> n \<in> set acp_names"
  unfolding acp_known_find acp_find by (simp add: map_of_eq_None_iff flip: acp_def_names)

lemma acp_definition_names: "definition_names (map fst (doc_defs acp_document)) = acp_go"
proof -
  have "map_of (zip acp_names acp_names) = acp_go"
    by (auto simp: fun_eq_iff acp_go_def acp_known_names zip_same_conv_map map_of_map_restrict [of id, simplified] restrict_map_def)
  then show ?thesis
    using map_of_type_names [of acp_document] strictly_sorted [OF acp_names_strict] by (simp add: acp_type_names acp_def_names)
qed

lemma find_same: "find (\<lambda>x. x = y) xs = (if y \<in> set xs then Some y else None)"
  by (induction xs) auto

theorem acp_env: "gen_env_of (doc_defs acp_document) 8 = acp_env"
proof -
  have "(\<lambda>raw. acp_go raw = Some go) = (\<lambda>raw. raw = go \<and> raw \<in> set acp_names)" for go
    by (auto simp: fun_eq_iff acp_go_def acp_known_names)
  then have raw: "find (\<lambda>raw. acp_go raw = Some go) acp_names = acp_go go" for go
    using find_cong [of acp_names acp_names "\<lambda>raw. raw = go \<and> raw \<in> set acp_names" "\<lambda>raw. raw = go"]
    by (simp add: find_same acp_go_def acp_known_names)
  have "map (\<lambda>raw. the (acp_go raw)) acp_names = acp_names"
    by (intro map_idI) (simp add: acp_go_def acp_known_names)
  moreover have "definition_names acp_names = acp_go"
    using acp_definition_names unfolding acp_def_names .
  moreover have "acp_find = map_of (doc_defs acp_document)" by (rule ext) (rule acp_find)
  moreover have "acp_go_names = (\<lambda>u. acp_names)" by (rule ext) (simp add: acp_go_names_def)
  ultimately show ?thesis
    by (simp only: gen_env_of_def acp_env_def acp_def_names sort_strict [OF acp_names_strict] raw Let_def)
qed

end
