(* ===== verification/Typegen_Reading.thy ===== *)
theory Typegen_Reading
  imports Typegen_Env Acp_Consts
begin

text \<open>
  What the names in the generated file acp/types_gen.go stand for: types, by their numbers in
  Acp_Names, and the string constants of Acp_Consts.
\<close>

definition acp_type_1 :: "string \<Rightarrow> go_type option" where
  "acp_type_1 n =
    (if n = ''AgentAuthCapabilities'' then Some (TName 1)
     else if n = ''AgentCapabilities'' then Some (TName 2)
     else if n = ''Annotations'' then Some (TName 3)
     else if n = ''ArchiveSessionRequest'' then Some (TName 4)
     else if n = ''ArchiveSessionResponse'' then Some (TName 5)
     else if n = ''AudioContent'' then Some (TName 6)
     else if n = ''AuthAccount'' then Some (TName 7)
     else if n = ''AuthCapabilities'' then Some (TName 8)
     else None)"

definition acp_type_2 :: "string \<Rightarrow> go_type option" where
  "acp_type_2 n =
    (if n = ''AuthMethod'' then Some (TName 9)
     else if n = ''AuthMethodAgent'' then Some (TName 11)
     else if n = ''AuthMethodId'' then Some (TName 12)
     else if n = ''AuthMethodTerminal'' then Some (TName 13)
     else if n = ''AuthMethodType'' then Some (TName 10)
     else if n = ''AuthState'' then Some (TName 14)
     else if n = ''AuthStatusCapabilities'' then Some (TName 15)
     else if n = ''AuthStatusRequest'' then Some (TName 16)
     else None)"

definition acp_type_3 :: "string \<Rightarrow> go_type option" where
  "acp_type_3 n =
    (if n = ''AuthStatusResponse'' then Some (TName 17)
     else if n = ''AuthStatusUpdateNotification'' then Some (TName 18)
     else if n = ''AuthenticateRequest'' then Some (TName 19)
     else if n = ''AuthenticateResponse'' then Some (TName 20)
     else if n = ''AvailableCommand'' then Some (TName 21)
     else if n = ''AvailableCommandInput'' then Some (TName 22)
     else if n = ''AvailableCommandsUpdate'' then Some (TName 23)
     else if n = ''BlobResourceContents'' then Some (TName 24)
     else None)"

definition acp_type_4 :: "string \<Rightarrow> go_type option" where
  "acp_type_4 n =
    (if n = ''BooleanConfigOptionCapabilities'' then Some (TName 25)
     else if n = ''BooleanPropertySchema'' then Some (TName 26)
     else if n = ''CancelNotification'' then Some (TName 27)
     else if n = ''ClientCapabilities'' then Some (TName 28)
     else if n = ''ClientSessionCapabilities'' then Some (TName 29)
     else if n = ''CloseSessionRequest'' then Some (TName 30)
     else if n = ''CloseSessionResponse'' then Some (TName 31)
     else if n = ''CompactionCapabilities'' then Some (TName 32)
     else None)"

definition acp_type_5 :: "string \<Rightarrow> go_type option" where
  "acp_type_5 n =
    (if n = ''CompactionId'' then Some (TName 33)
     else if n = ''CompactionStatus'' then Some (TName 34)
     else if n = ''CompactionSummaryChunk'' then Some (TName 35)
     else if n = ''CompactionUpdate'' then Some (TName 36)
     else if n = ''CompleteElicitationNotification'' then Some (TName 37)
     else if n = ''ConfigOptionUpdate'' then Some (TName 38)
     else if n = ''Content'' then Some (TName 39)
     else if n = ''ContentBlock'' then Some (TName 40)
     else None)"

definition acp_type_6 :: "string \<Rightarrow> go_type option" where
  "acp_type_6 n =
    (if n = ''ContentBlockType'' then Some (TName 41)
     else if n = ''ContentChunk'' then Some (TName 42)
     else if n = ''Cost'' then Some (TName 43)
     else if n = ''CreateElicitationRequest'' then Some (TName 44)
     else if n = ''CreateElicitationRequestType'' then Some (TName 45)
     else if n = ''CreateElicitationResponse'' then Some (TName 46)
     else if n = ''CreateElicitationResponseType'' then Some (TName 47)
     else if n = ''CreateTerminalRequest'' then Some (TName 48)
     else None)"

definition acp_type_7 :: "string \<Rightarrow> go_type option" where
  "acp_type_7 n =
    (if n = ''CreateTerminalResponse'' then Some (TName 49)
     else if n = ''CurrentModeUpdate'' then Some (TName 50)
     else if n = ''DeleteSessionRequest'' then Some (TName 51)
     else if n = ''DeleteSessionResponse'' then Some (TName 52)
     else if n = ''Diff'' then Some (TName 53)
     else if n = ''DisableProviderRequest'' then Some (TName 54)
     else if n = ''DisableProviderResponse'' then Some (TName 55)
     else if n = ''ElicitationAcceptAction'' then Some (TName 56)
     else None)"

definition acp_type_8 :: "string \<Rightarrow> go_type option" where
  "acp_type_8 n =
    (if n = ''ElicitationCapabilities'' then Some (TName 57)
     else if n = ''ElicitationContentValue'' then Some (TRaw)
     else if n = ''ElicitationFormCapabilities'' then Some (TName 58)
     else if n = ''ElicitationFormMode'' then Some (TName 59)
     else if n = ''ElicitationId'' then Some (TName 60)
     else if n = ''ElicitationPropertySchema'' then Some (TName 61)
     else if n = ''ElicitationPropertySchemaType'' then Some (TName 62)
     else if n = ''ElicitationRequestScope'' then Some (TName 63)
     else None)"

definition acp_type_9 :: "string \<Rightarrow> go_type option" where
  "acp_type_9 n =
    (if n = ''ElicitationSchema'' then Some (TName 64)
     else if n = ''ElicitationSchemaType'' then Some (TName 65)
     else if n = ''ElicitationSessionScope'' then Some (TName 66)
     else if n = ''ElicitationUrlCapabilities'' then Some (TName 67)
     else if n = ''ElicitationUrlMode'' then Some (TName 68)
     else if n = ''EmbeddedResource'' then Some (TName 69)
     else if n = ''EmbeddedResourceResource'' then Some (TName 70)
     else if n = ''EnumOption'' then Some (TName 71)
     else None)"

definition acp_type_10 :: "string \<Rightarrow> go_type option" where
  "acp_type_10 n =
    (if n = ''EnvVariable'' then Some (TName 72)
     else if n = ''Error'' then Some (TName 73)
     else if n = ''ErrorCode'' then Some (TName 74)
     else if n = ''ErrorStopReason'' then Some (TName 75)
     else if n = ''ExtNotification'' then Some (TName 76)
     else if n = ''ExtRequest'' then Some (TName 77)
     else if n = ''ExtResponse'' then Some (TName 78)
     else if n = ''FileSystemCapabilities'' then Some (TName 79)
     else None)"

definition acp_type_11 :: "string \<Rightarrow> go_type option" where
  "acp_type_11 n =
    (if n = ''ForkSessionRequest'' then Some (TName 80)
     else if n = ''ForkSessionResponse'' then Some (TName 81)
     else if n = ''GroupedSessionConfigSelectOptions'' then Some (TName 187)
     else if n = ''HttpHeader'' then Some (TName 82)
     else if n = ''IdleStateUpdate'' then Some (TName 83)
     else if n = ''IdleStateUpdateType'' then Some (TName 84)
     else if n = ''ImageContent'' then Some (TName 85)
     else if n = ''Implementation'' then Some (TName 86)
     else None)"

definition acp_type_12 :: "string \<Rightarrow> go_type option" where
  "acp_type_12 n =
    (if n = ''InitializeProxyRequest'' then Some (TName 87)
     else if n = ''InitializeProxyResponse'' then Some (TName 88)
     else if n = ''InitializeRequest'' then Some (TName 89)
     else if n = ''InitializeResponse'' then Some (TName 90)
     else if n = ''IntegerPropertySchema'' then Some (TName 91)
     else if n = ''KillTerminalRequest'' then Some (TName 92)
     else if n = ''KillTerminalResponse'' then Some (TName 93)
     else if n = ''ListProvidersRequest'' then Some (TName 94)
     else None)"

definition acp_type_13 :: "string \<Rightarrow> go_type option" where
  "acp_type_13 n =
    (if n = ''ListProvidersResponse'' then Some (TName 95)
     else if n = ''ListSessionsRequest'' then Some (TName 96)
     else if n = ''ListSessionsResponse'' then Some (TName 97)
     else if n = ''LlmProtocol'' then Some (TName 98)
     else if n = ''LoadSessionRequest'' then Some (TName 99)
     else if n = ''LoadSessionResponse'' then Some (TName 100)
     else if n = ''LogoutCapabilities'' then Some (TName 101)
     else if n = ''LogoutRequest'' then Some (TName 102)
     else None)"

definition acp_type_14 :: "string \<Rightarrow> go_type option" where
  "acp_type_14 n =
    (if n = ''LogoutResponse'' then Some (TName 103)
     else if n = ''McpCapabilities'' then Some (TName 104)
     else if n = ''McpError'' then Some (TName 105)
     else if n = ''McpRequestId'' then Some (TName 106)
     else if n = ''McpServer'' then Some (TName 107)
     else if n = ''McpServerAcp'' then Some (TName 109)
     else if n = ''McpServerAcpId'' then Some (TName 110)
     else if n = ''McpServerHttp'' then Some (TName 111)
     else None)"

definition acp_type_15 :: "string \<Rightarrow> go_type option" where
  "acp_type_15 n =
    (if n = ''McpServerSse'' then Some (TName 112)
     else if n = ''McpServerStdio'' then Some (TName 113)
     else if n = ''McpServerType'' then Some (TName 108)
     else if n = ''MessageId'' then Some (TName 114)
     else if n = ''MessageMcpNotification'' then Some (TName 115)
     else if n = ''MessageMcpRequest'' then Some (TName 116)
     else if n = ''MessageMcpResponse'' then Some (TName 117)
     else if n = ''Meta'' then Some (TName 0)
     else None)"

definition acp_type_16 :: "string \<Rightarrow> go_type option" where
  "acp_type_16 n =
    (if n = ''MultiSelectItems'' then Some (TName 118)
     else if n = ''MultiSelectItemsType'' then Some (TName 119)
     else if n = ''MultiSelectPropertySchema'' then Some (TName 120)
     else if n = ''NewSessionRequest'' then Some (TName 121)
     else if n = ''NewSessionResponse'' then Some (TName 122)
     else if n = ''Notice'' then Some (TName 123)
     else if n = ''NoticeCapabilities'' then Some (TName 124)
     else if n = ''NoticeSeverity'' then Some (TName 125)
     else None)"

definition acp_type_17 :: "string \<Rightarrow> go_type option" where
  "acp_type_17 n =
    (if n = ''NumberPropertySchema'' then Some (TName 126)
     else if n = ''PermissionOption'' then Some (TName 127)
     else if n = ''PermissionOptionId'' then Some (TName 128)
     else if n = ''PermissionOptionKind'' then Some (TName 129)
     else if n = ''Plan'' then Some (TName 130)
     else if n = ''PlanCapabilities'' then Some (TName 131)
     else if n = ''PlanEntry'' then Some (TName 132)
     else if n = ''PlanEntryPriority'' then Some (TName 133)
     else None)"

definition acp_type_18 :: "string \<Rightarrow> go_type option" where
  "acp_type_18 n =
    (if n = ''PlanEntryStatus'' then Some (TName 134)
     else if n = ''PlanFile'' then Some (TName 135)
     else if n = ''PlanId'' then Some (TName 136)
     else if n = ''PlanItems'' then Some (TName 137)
     else if n = ''PlanMarkdown'' then Some (TName 138)
     else if n = ''PlanRemoved'' then Some (TName 139)
     else if n = ''PlanUpdate'' then Some (TName 140)
     else if n = ''PlanUpdateContent'' then Some (TName 141)
     else None)"

definition acp_type_19 :: "string \<Rightarrow> go_type option" where
  "acp_type_19 n =
    (if n = ''PlanUpdateContentType'' then Some (TName 142)
     else if n = ''PromptCapabilities'' then Some (TName 143)
     else if n = ''PromptRequest'' then Some (TName 144)
     else if n = ''PromptResponse'' then Some (TName 145)
     else if n = ''ProtocolVersion'' then Some (TName 146)
     else if n = ''ProviderCurrentConfig'' then Some (TName 147)
     else if n = ''ProviderId'' then Some (TName 148)
     else if n = ''ProviderInfo'' then Some (TName 149)
     else None)"

definition acp_type_20 :: "string \<Rightarrow> go_type option" where
  "acp_type_20 n =
    (if n = ''ProvidersCapabilities'' then Some (TName 150)
     else if n = ''ProxySuccessorNotification'' then Some (TName 151)
     else if n = ''ProxySuccessorRequest'' then Some (TName 152)
     else if n = ''ProxySuccessorResponse'' then Some (TName 153)
     else if n = ''ReadTextFileRequest'' then Some (TName 154)
     else if n = ''ReadTextFileResponse'' then Some (TName 155)
     else if n = ''ReleaseTerminalRequest'' then Some (TName 156)
     else if n = ''ReleaseTerminalResponse'' then Some (TName 157)
     else None)"

definition acp_type_21 :: "string \<Rightarrow> go_type option" where
  "acp_type_21 n =
    (if n = ''RequestId'' then Some (TRaw)
     else if n = ''RequestPermissionOutcome'' then Some (TName 158)
     else if n = ''RequestPermissionOutcomeType'' then Some (TName 159)
     else if n = ''RequestPermissionRequest'' then Some (TName 160)
     else if n = ''RequestPermissionResponse'' then Some (TName 161)
     else if n = ''RequiresActionStateUpdate'' then Some (TName 162)
     else if n = ''ResourceLink'' then Some (TName 163)
     else if n = ''ResumeSessionRequest'' then Some (TName 164)
     else None)"

definition acp_type_22 :: "string \<Rightarrow> go_type option" where
  "acp_type_22 n =
    (if n = ''ResumeSessionResponse'' then Some (TName 165)
     else if n = ''Role'' then Some (TName 166)
     else if n = ''RunningStateUpdate'' then Some (TName 167)
     else if n = ''SelectedPermissionOutcome'' then Some (TName 168)
     else if n = ''SessionAdditionalDirectoriesCapabilities'' then Some (TName 169)
     else if n = ''SessionArchiveCapabilities'' then Some (TName 170)
     else if n = ''SessionArchiveFilter'' then Some (TName 171)
     else if n = ''SessionCancelCapabilities'' then Some (TName 172)
     else None)"

definition acp_type_23 :: "string \<Rightarrow> go_type option" where
  "acp_type_23 n =
    (if n = ''SessionCapabilities'' then Some (TName 173)
     else if n = ''SessionCloseCapabilities'' then Some (TName 174)
     else if n = ''SessionConfigBoolean'' then Some (TName 175)
     else if n = ''SessionConfigGroupId'' then Some (TName 176)
     else if n = ''SessionConfigId'' then Some (TName 177)
     else if n = ''SessionConfigOption'' then Some (TName 178)
     else if n = ''SessionConfigOptionCategory'' then Some (TName 180)
     else if n = ''SessionConfigOptionType'' then Some (TName 179)
     else None)"

definition acp_type_24 :: "string \<Rightarrow> go_type option" where
  "acp_type_24 n =
    (if n = ''SessionConfigOptionsCapabilities'' then Some (TName 181)
     else if n = ''SessionConfigSelect'' then Some (TName 182)
     else if n = ''SessionConfigSelectGroup'' then Some (TName 183)
     else if n = ''SessionConfigSelectOption'' then Some (TName 184)
     else if n = ''SessionConfigSelectOptions'' then Some (TName 185)
     else if n = ''SessionConfigValueId'' then Some (TName 188)
     else if n = ''SessionDeleteCapabilities'' then Some (TName 189)
     else if n = ''SessionForkCapabilities'' then Some (TName 190)
     else None)"

definition acp_type_25 :: "string \<Rightarrow> go_type option" where
  "acp_type_25 n =
    (if n = ''SessionId'' then Some (TName 191)
     else if n = ''SessionInfo'' then Some (TName 192)
     else if n = ''SessionInfoUpdate'' then Some (TName 193)
     else if n = ''SessionListCapabilities'' then Some (TName 194)
     else if n = ''SessionMessage'' then Some (TName 195)
     else if n = ''SessionMessageChunk'' then Some (TName 196)
     else if n = ''SessionMode'' then Some (TName 197)
     else if n = ''SessionModeId'' then Some (TName 198)
     else None)"

definition acp_type_26 :: "string \<Rightarrow> go_type option" where
  "acp_type_26 n =
    (if n = ''SessionModeState'' then Some (TName 199)
     else if n = ''SessionNotification'' then Some (TName 200)
     else if n = ''SessionResumeCapabilities'' then Some (TName 201)
     else if n = ''SessionStatus'' then Some (TName 202)
     else if n = ''SessionStatusCapabilities'' then Some (TName 203)
     else if n = ''SessionStatusRequest'' then Some (TName 204)
     else if n = ''SessionStatusResponse'' then Some (TName 205)
     else if n = ''SessionSystemPromptCapabilities'' then Some (TName 206)
     else None)"

definition acp_type_27 :: "string \<Rightarrow> go_type option" where
  "acp_type_27 n =
    (if n = ''SessionSystemPromptModeCapabilities'' then Some (TName 207)
     else if n = ''SessionSystemPromptOverrideCapabilities'' then Some (TName 208)
     else if n = ''SessionTitleCapabilities'' then Some (TName 209)
     else if n = ''SessionUpdate'' then Some (TName 210)
     else if n = ''SessionUpdateType'' then Some (TName 211)
     else if n = ''SetProviderRequest'' then Some (TName 212)
     else if n = ''SetProviderResponse'' then Some (TName 213)
     else if n = ''SetSessionConfigOptionRequest'' then Some (TName 214)
     else None)"

definition acp_type_28 :: "string \<Rightarrow> go_type option" where
  "acp_type_28 n =
    (if n = ''SetSessionConfigOptionRequestType'' then Some (TName 215)
     else if n = ''SetSessionConfigOptionResponse'' then Some (TName 216)
     else if n = ''SetSessionModeRequest'' then Some (TName 217)
     else if n = ''SetSessionModeResponse'' then Some (TName 218)
     else if n = ''SetSessionTitleRequest'' then Some (TName 219)
     else if n = ''SetSessionTitleResponse'' then Some (TName 220)
     else if n = ''StateUpdate'' then Some (TName 221)
     else if n = ''StateUpdateType'' then Some (TName 222)
     else None)"

definition acp_type_29 :: "string \<Rightarrow> go_type option" where
  "acp_type_29 n =
    (if n = ''StopReason'' then Some (TName 223)
     else if n = ''StringFormat'' then Some (TName 224)
     else if n = ''StringMultiSelectItems'' then Some (TName 225)
     else if n = ''StringPropertySchema'' then Some (TName 226)
     else if n = ''SubagentCapabilities'' then Some (TName 227)
     else if n = ''SubagentSessionCapabilities'' then Some (TName 228)
     else if n = ''SubagentUpdate'' then Some (TName 229)
     else if n = ''SystemPrompt'' then Some (TName 230)
     else None)"

definition acp_type_30 :: "string \<Rightarrow> go_type option" where
  "acp_type_30 n =
    (if n = ''SystemPromptMode'' then Some (TName 231)
     else if n = ''Terminal'' then Some (TName 232)
     else if n = ''TerminalExitStatus'' then Some (TName 233)
     else if n = ''TerminalId'' then Some (TName 234)
     else if n = ''TerminalOutputRequest'' then Some (TName 235)
     else if n = ''TerminalOutputResponse'' then Some (TName 236)
     else if n = ''TextContent'' then Some (TName 237)
     else if n = ''TextResourceContents'' then Some (TName 238)
     else None)"

definition acp_type_31 :: "string \<Rightarrow> go_type option" where
  "acp_type_31 n =
    (if n = ''TitledMultiSelectItems'' then Some (TName 239)
     else if n = ''ToolCall'' then Some (TName 240)
     else if n = ''ToolCallContent'' then Some (TName 241)
     else if n = ''ToolCallContentType'' then Some (TName 242)
     else if n = ''ToolCallId'' then Some (TName 243)
     else if n = ''ToolCallLocation'' then Some (TName 244)
     else if n = ''ToolCallStatus'' then Some (TName 245)
     else if n = ''ToolCallUpdate'' then Some (TName 246)
     else None)"

definition acp_type_32 :: "string \<Rightarrow> go_type option" where
  "acp_type_32 n =
    (if n = ''ToolKind'' then Some (TName 247)
     else if n = ''UnarchiveSessionRequest'' then Some (TName 248)
     else if n = ''UnarchiveSessionResponse'' then Some (TName 249)
     else if n = ''UngroupedSessionConfigSelectOptions'' then Some (TName 186)
     else if n = ''UnknownStateUpdate'' then Some (TName 250)
     else if n = ''UnstructuredCommandInput'' then Some (TName 251)
     else if n = ''Usage'' then Some (TName 252)
     else if n = ''UsageUpdate'' then Some (TName 253)
     else None)"

definition acp_type_33 :: "string \<Rightarrow> go_type option" where
  "acp_type_33 n =
    (if n = ''WaitForTerminalExitRequest'' then Some (TName 254)
     else if n = ''WaitForTerminalExitResponse'' then Some (TName 255)
     else if n = ''WriteTextFileRequest'' then Some (TName 256)
     else if n = ''WriteTextFileResponse'' then Some (TName 257)
     else None)"

definition acp_type :: "string \<Rightarrow> go_type option" where
  "acp_type n =
    (if n < ''NumberPropertySchema'' then (if n < ''ElicitationSchema'' then (if n < ''CompactionId'' then (if n < ''AuthStatusResponse'' then (if n < ''AuthMethod'' then acp_type_1 n
     else acp_type_2 n)
     else (if n < ''BooleanConfigOptionCapabilities'' then acp_type_3 n
     else acp_type_4 n))
     else (if n < ''CreateTerminalResponse'' then (if n < ''ContentBlockType'' then acp_type_5 n
     else acp_type_6 n)
     else (if n < ''ElicitationCapabilities'' then acp_type_7 n
     else acp_type_8 n)))
     else (if n < ''ListProvidersResponse'' then (if n < ''ForkSessionRequest'' then (if n < ''EnvVariable'' then acp_type_9 n
     else acp_type_10 n)
     else (if n < ''InitializeProxyRequest'' then acp_type_11 n
     else acp_type_12 n))
     else (if n < ''McpServerSse'' then (if n < ''LogoutResponse'' then acp_type_13 n
     else acp_type_14 n)
     else (if n < ''MultiSelectItems'' then acp_type_15 n
     else acp_type_16 n))))
     else (if n < ''SessionId'' then (if n < ''RequestId'' then (if n < ''PlanUpdateContentType'' then (if n < ''PlanEntryStatus'' then acp_type_17 n
     else acp_type_18 n)
     else (if n < ''ProvidersCapabilities'' then acp_type_19 n
     else acp_type_20 n))
     else (if n < ''SessionCapabilities'' then (if n < ''ResumeSessionResponse'' then acp_type_21 n
     else acp_type_22 n)
     else (if n < ''SessionConfigOptionsCapabilities'' then acp_type_23 n
     else acp_type_24 n)))
     else (if n < ''StopReason'' then (if n < ''SessionSystemPromptModeCapabilities'' then (if n < ''SessionModeState'' then acp_type_25 n
     else acp_type_26 n)
     else (if n < ''SetSessionConfigOptionRequestType'' then acp_type_27 n
     else acp_type_28 n))
     else (if n < ''TitledMultiSelectItems'' then (if n < ''SystemPromptMode'' then acp_type_29 n
     else acp_type_30 n)
     else (if n < ''ToolKind'' then acp_type_31 n
     else (if n < ''WaitForTerminalExitRequest'' then acp_type_32 n
     else acp_type_33 n))))))"

definition acp_const_1 :: "string \<Rightarrow> string option" where
  "acp_const_1 n =
    (if n = ''AuthMethodTypeTerminal'' then Some ''terminal''
     else if n = ''AuthStateAuthenticated'' then Some ''authenticated''
     else if n = ''AuthStateNotRequired'' then Some ''not_required''
     else if n = ''AuthStateUnauthenticated'' then Some ''unauthenticated''
     else if n = ''AuthStateUnknown'' then Some ''unknown''
     else if n = ''CompactionStatusCancelled'' then Some ''cancelled''
     else if n = ''CompactionStatusCompleted'' then Some ''completed''
     else if n = ''CompactionStatusFailed'' then Some ''failed''
     else None)"

definition acp_const_2 :: "string \<Rightarrow> string option" where
  "acp_const_2 n =
    (if n = ''CompactionStatusInProgress'' then Some ''in_progress''
     else if n = ''ContentBlockTypeAudio'' then Some ''audio''
     else if n = ''ContentBlockTypeImage'' then Some ''image''
     else if n = ''ContentBlockTypeResource'' then Some ''resource''
     else if n = ''ContentBlockTypeResourceLink'' then Some ''resource_link''
     else if n = ''ContentBlockTypeText'' then Some ''text''
     else if n = ''CreateElicitationRequestTypeForm'' then Some ''form''
     else if n = ''CreateElicitationRequestTypeUrl'' then Some ''url''
     else None)"

definition acp_const_3 :: "string \<Rightarrow> string option" where
  "acp_const_3 n =
    (if n = ''CreateElicitationResponseTypeAccept'' then Some ''accept''
     else if n = ''CreateElicitationResponseTypeCancel'' then Some ''cancel''
     else if n = ''CreateElicitationResponseTypeDecline'' then Some ''decline''
     else if n = ''ElicitationPropertySchemaTypeArray'' then Some ''array''
     else if n = ''ElicitationPropertySchemaTypeBoolean'' then Some ''boolean''
     else if n = ''ElicitationPropertySchemaTypeInteger'' then Some ''integer''
     else if n = ''ElicitationPropertySchemaTypeNumber'' then Some ''number''
     else if n = ''ElicitationPropertySchemaTypeString'' then Some ''string''
     else None)"

definition acp_const_4 :: "string \<Rightarrow> string option" where
  "acp_const_4 n =
    (if n = ''ElicitationSchemaTypeObject'' then Some ''object''
     else if n = ''IdleStateUpdateTypeCancelled'' then Some ''cancelled''
     else if n = ''IdleStateUpdateTypeEndTurn'' then Some ''end_turn''
     else if n = ''IdleStateUpdateTypeError'' then Some ''error''
     else if n = ''IdleStateUpdateTypeMaxTokens'' then Some ''max_tokens''
     else if n = ''IdleStateUpdateTypeMaxTurnRequests'' then Some ''max_turn_requests''
     else if n = ''IdleStateUpdateTypeRefusal'' then Some ''refusal''
     else if n = ''LlmProtocolAnthropic'' then Some ''anthropic''
     else None)"

definition acp_const_5 :: "string \<Rightarrow> string option" where
  "acp_const_5 n =
    (if n = ''LlmProtocolAzure'' then Some ''azure''
     else if n = ''LlmProtocolBedrock'' then Some ''bedrock''
     else if n = ''LlmProtocolOpenai'' then Some ''openai''
     else if n = ''LlmProtocolVertex'' then Some ''vertex''
     else if n = ''McpServerTypeAcp'' then Some ''acp''
     else if n = ''McpServerTypeHttp'' then Some ''http''
     else if n = ''McpServerTypeSse'' then Some ''sse''
     else if n = ''MultiSelectItemsTypeString'' then Some ''string''
     else None)"

definition acp_const_6 :: "string \<Rightarrow> string option" where
  "acp_const_6 n =
    (if n = ''NoticeSeverityError'' then Some ''error''
     else if n = ''NoticeSeverityInfo'' then Some ''info''
     else if n = ''NoticeSeverityWarning'' then Some ''warning''
     else if n = ''PermissionOptionKindAllowAlways'' then Some ''allow_always''
     else if n = ''PermissionOptionKindAllowOnce'' then Some ''allow_once''
     else if n = ''PermissionOptionKindRejectAlways'' then Some ''reject_always''
     else if n = ''PermissionOptionKindRejectOnce'' then Some ''reject_once''
     else if n = ''PlanEntryPriorityHigh'' then Some ''high''
     else None)"

definition acp_const_7 :: "string \<Rightarrow> string option" where
  "acp_const_7 n =
    (if n = ''PlanEntryPriorityLow'' then Some ''low''
     else if n = ''PlanEntryPriorityMedium'' then Some ''medium''
     else if n = ''PlanEntryStatusCompleted'' then Some ''completed''
     else if n = ''PlanEntryStatusInProgress'' then Some ''in_progress''
     else if n = ''PlanEntryStatusPending'' then Some ''pending''
     else if n = ''PlanUpdateContentTypeFile'' then Some ''file''
     else if n = ''PlanUpdateContentTypeItems'' then Some ''items''
     else if n = ''PlanUpdateContentTypeMarkdown'' then Some ''markdown''
     else None)"

definition acp_const_8 :: "string \<Rightarrow> string option" where
  "acp_const_8 n =
    (if n = ''RequestPermissionOutcomeTypeCancelled'' then Some ''cancelled''
     else if n = ''RequestPermissionOutcomeTypeSelected'' then Some ''selected''
     else if n = ''RoleAssistant'' then Some ''assistant''
     else if n = ''RoleUser'' then Some ''user''
     else if n = ''SessionArchiveFilterExclude'' then Some ''exclude''
     else if n = ''SessionArchiveFilterInclude'' then Some ''include''
     else if n = ''SessionArchiveFilterOnly'' then Some ''only''
     else if n = ''SessionConfigOptionCategoryMode'' then Some ''mode''
     else None)"

definition acp_const_9 :: "string \<Rightarrow> string option" where
  "acp_const_9 n =
    (if n = ''SessionConfigOptionCategoryModel'' then Some ''model''
     else if n = ''SessionConfigOptionCategoryModelConfig'' then Some ''model_config''
     else if n = ''SessionConfigOptionCategoryThoughtLevel'' then Some ''thought_level''
     else if n = ''SessionConfigOptionTypeBoolean'' then Some ''boolean''
     else if n = ''SessionConfigOptionTypeSelect'' then Some ''select''
     else if n = ''SessionStatusOpen'' then Some ''open''
     else if n = ''SessionStatusSaved'' then Some ''saved''
     else if n = ''SessionUpdateTypeAgentMessageChunk'' then Some ''agent_message_chunk''
     else None)"

definition acp_const_10 :: "string \<Rightarrow> string option" where
  "acp_const_10 n =
    (if n = ''SessionUpdateTypeAgentThoughtChunk'' then Some ''agent_thought_chunk''
     else if n = ''SessionUpdateTypeAvailableCommandsUpdate'' then Some ''available_commands_update''
     else if n = ''SessionUpdateTypeCompactionSummaryChunk'' then Some ''compaction_summary_chunk''
     else if n = ''SessionUpdateTypeCompactionUpdate'' then Some ''compaction_update''
     else if n = ''SessionUpdateTypeConfigOptionUpdate'' then Some ''config_option_update''
     else if n = ''SessionUpdateTypeCurrentModeUpdate'' then Some ''current_mode_update''
     else if n = ''SessionUpdateTypeNotice'' then Some ''notice''
     else if n = ''SessionUpdateTypePlan'' then Some ''plan''
     else None)"

definition acp_const_11 :: "string \<Rightarrow> string option" where
  "acp_const_11 n =
    (if n = ''SessionUpdateTypePlanRemoved'' then Some ''plan_removed''
     else if n = ''SessionUpdateTypePlanUpdate'' then Some ''plan_update''
     else if n = ''SessionUpdateTypeSessionInfoUpdate'' then Some ''session_info_update''
     else if n = ''SessionUpdateTypeSessionMessage'' then Some ''session_message''
     else if n = ''SessionUpdateTypeSessionMessageChunk'' then Some ''session_message_chunk''
     else if n = ''SessionUpdateTypeSubagentUpdate'' then Some ''subagent_update''
     else if n = ''SessionUpdateTypeToolCall'' then Some ''tool_call''
     else if n = ''SessionUpdateTypeToolCallUpdate'' then Some ''tool_call_update''
     else None)"

definition acp_const_12 :: "string \<Rightarrow> string option" where
  "acp_const_12 n =
    (if n = ''SessionUpdateTypeUsageUpdate'' then Some ''usage_update''
     else if n = ''SessionUpdateTypeUserMessageChunk'' then Some ''user_message_chunk''
     else if n = ''SetSessionConfigOptionRequestTypeBoolean'' then Some ''boolean''
     else if n = ''StateUpdateTypeIdle'' then Some ''idle''
     else if n = ''StateUpdateTypeRequiresAction'' then Some ''requires_action''
     else if n = ''StateUpdateTypeRunning'' then Some ''running''
     else if n = ''StateUpdateTypeUnknown'' then Some ''unknown''
     else if n = ''StopReasonCancelled'' then Some ''cancelled''
     else None)"

definition acp_const_13 :: "string \<Rightarrow> string option" where
  "acp_const_13 n =
    (if n = ''StopReasonEndTurn'' then Some ''end_turn''
     else if n = ''StopReasonMaxTokens'' then Some ''max_tokens''
     else if n = ''StopReasonMaxTurnRequests'' then Some ''max_turn_requests''
     else if n = ''StopReasonRefusal'' then Some ''refusal''
     else if n = ''StringFormatDate'' then Some ''date''
     else if n = ''StringFormatDateTime'' then Some ''date-time''
     else if n = ''StringFormatEmail'' then Some ''email''
     else if n = ''StringFormatUri'' then Some ''uri''
     else None)"

definition acp_const_14 :: "string \<Rightarrow> string option" where
  "acp_const_14 n =
    (if n = ''SystemPromptModeAppend'' then Some ''append''
     else if n = ''SystemPromptModeOverride'' then Some ''override''
     else if n = ''ToolCallContentTypeContent'' then Some ''content''
     else if n = ''ToolCallContentTypeDiff'' then Some ''diff''
     else if n = ''ToolCallContentTypeTerminal'' then Some ''terminal''
     else if n = ''ToolCallStatusCompleted'' then Some ''completed''
     else if n = ''ToolCallStatusFailed'' then Some ''failed''
     else if n = ''ToolCallStatusInProgress'' then Some ''in_progress''
     else None)"

definition acp_const_15 :: "string \<Rightarrow> string option" where
  "acp_const_15 n =
    (if n = ''ToolCallStatusPending'' then Some ''pending''
     else if n = ''ToolKindDelete'' then Some ''delete''
     else if n = ''ToolKindEdit'' then Some ''edit''
     else if n = ''ToolKindExecute'' then Some ''execute''
     else if n = ''ToolKindFetch'' then Some ''fetch''
     else if n = ''ToolKindMove'' then Some ''move''
     else if n = ''ToolKindOther'' then Some ''other''
     else if n = ''ToolKindRead'' then Some ''read''
     else None)"

definition acp_const_16 :: "string \<Rightarrow> string option" where
  "acp_const_16 n =
    (if n = ''ToolKindSearch'' then Some ''search''
     else if n = ''ToolKindSwitchMode'' then Some ''switch_mode''
     else if n = ''ToolKindThink'' then Some ''think''
     else None)"

definition acp_const :: "string \<Rightarrow> string option" where
  "acp_const n =
    (if n < ''SessionConfigOptionCategoryModel'' then (if n < ''LlmProtocolAzure'' then (if n < ''CreateElicitationResponseTypeAccept'' then (if n < ''CompactionStatusInProgress'' then acp_const_1 n
     else acp_const_2 n)
     else (if n < ''ElicitationSchemaTypeObject'' then acp_const_3 n
     else acp_const_4 n))
     else (if n < ''PlanEntryPriorityLow'' then (if n < ''NoticeSeverityError'' then acp_const_5 n
     else acp_const_6 n)
     else (if n < ''RequestPermissionOutcomeTypeCancelled'' then acp_const_7 n
     else acp_const_8 n)))
     else (if n < ''StopReasonEndTurn'' then (if n < ''SessionUpdateTypePlanRemoved'' then (if n < ''SessionUpdateTypeAgentThoughtChunk'' then acp_const_9 n
     else acp_const_10 n)
     else (if n < ''SessionUpdateTypeUsageUpdate'' then acp_const_11 n
     else acp_const_12 n))
     else (if n < ''ToolCallStatusPending'' then (if n < ''SystemPromptModeAppend'' then acp_const_13 n
     else acp_const_14 n)
     else (if n < ''ToolKindSearch'' then acp_const_15 n
     else acp_const_16 n))))"

definition acp_reading :: go_reading where
  "acp_reading = \<lparr>gr_type = acp_type, gr_const = acp_const\<rparr>"

end
