(* ===== verification/Typegen_Match.thy ===== *)
theory Typegen_Match
  imports Typegen_Reading Acp_Types
begin

text \<open>
  The generator evaluated on the definitions of schema.json: the code it emits for a definition,
  read as a declaration, against the declaration of the same type in acp/types_gen.go as
  Acp_Types models it.
\<close>

text \<open>The declaration of the type that is generated for the definition \<open>n\<close>.\<close>

definition generated_decl :: "gen_env \<Rightarrow> string \<Rightarrow> go_decl option" where
  "generated_decl E n =
     (case ge_def E n of
        None \<Rightarrow> None
      | Some s \<Rightarrow>
          (case definition_code E (go_definition_name E n) n s of
             Inl e \<Rightarrow> None
           | Inr (ds, meta, tail) \<Rightarrow> read_decl acp_reading (ds @ tail) (go_definition_name E n)))"

text \<open>The code generated for a definition declares the type that the file has under its number.\<close>

definition generates :: "gen_env \<Rightarrow> string \<times> go_name \<Rightarrow> bool" where
  "generates E nk =
     (case generated_decl E (fst nk) of
        None \<Rightarrow> False
      | Some D \<Rightarrow> acp (snd nk) = Some D)"

text \<open>
  Definitions of every form: enumerations and single constants, wrappers and defined types,
  structs, and in \<open>union_types\<close> the tagged unions.
\<close>

definition small_types_1 :: "(string \<times> go_name) list" where
  "small_types_1 =
    [(''AgentAuthCapabilities'', ty_AgentAuthCapabilities),
      (''ArchiveSessionRequest'', ty_ArchiveSessionRequest),
      (''ArchiveSessionResponse'', ty_ArchiveSessionResponse), (''AudioContent'', ty_AudioContent),
      (''AuthCapabilities'', ty_AuthCapabilities), (''AuthMethodAgent'', ty_AuthMethodAgent),
      (''AuthMethodId'', ty_AuthMethodId), (''AuthState'', ty_AuthState),
      (''AuthStatusCapabilities'', ty_AuthStatusCapabilities),
      (''AuthStatusRequest'', ty_AuthStatusRequest), (''AuthStatusResponse'', ty_AuthStatusResponse),
      (''AuthStatusUpdateNotification'', ty_AuthStatusUpdateNotification),
      (''AuthenticateRequest'', ty_AuthenticateRequest),
      (''AuthenticateResponse'', ty_AuthenticateResponse), (''AvailableCommand'', ty_AvailableCommand),
      (''AvailableCommandsUpdate'', ty_AvailableCommandsUpdate),
      (''BlobResourceContents'', ty_BlobResourceContents),
      (''BooleanConfigOptionCapabilities'', ty_BooleanConfigOptionCapabilities),
      (''BooleanPropertySchema'', ty_BooleanPropertySchema),
      (''CancelNotification'', ty_CancelNotification), (''CloseSessionRequest'', ty_CloseSessionRequest),
      (''CloseSessionResponse'', ty_CloseSessionResponse),
      (''CompactionCapabilities'', ty_CompactionCapabilities), (''CompactionId'', ty_CompactionId),
      (''CompactionStatus'', ty_CompactionStatus), (''CompactionSummaryChunk'', ty_CompactionSummaryChunk),
      (''CompleteElicitationNotification'', ty_CompleteElicitationNotification),
      (''ConfigOptionUpdate'', ty_ConfigOptionUpdate), (''Content'', ty_Content),
      (''ContentChunk'', ty_ContentChunk), (''Cost'', ty_Cost),
      (''CreateTerminalResponse'', ty_CreateTerminalResponse),
      (''CurrentModeUpdate'', ty_CurrentModeUpdate), (''DeleteSessionRequest'', ty_DeleteSessionRequest),
      (''DeleteSessionResponse'', ty_DeleteSessionResponse), (''Diff'', ty_Diff),
      (''DisableProviderRequest'', ty_DisableProviderRequest),
      (''DisableProviderResponse'', ty_DisableProviderResponse),
      (''ElicitationAcceptAction'', ty_ElicitationAcceptAction),
      (''ElicitationCapabilities'', ty_ElicitationCapabilities),
      (''ElicitationFormCapabilities'', ty_ElicitationFormCapabilities),
      (''ElicitationId'', ty_ElicitationId), (''ElicitationRequestScope'', ty_ElicitationRequestScope),
      (''ElicitationSchemaType'', ty_ElicitationSchemaType),
      (''ElicitationSessionScope'', ty_ElicitationSessionScope),
      (''ElicitationUrlCapabilities'', ty_ElicitationUrlCapabilities),
      (''EmbeddedResource'', ty_EmbeddedResource), (''EnumOption'', ty_EnumOption),
      (''EnvVariable'', ty_EnvVariable), (''Error'', ty_Error), (''ErrorStopReason'', ty_ErrorStopReason),
      (''ExtNotification'', ty_ExtNotification), (''ExtRequest'', ty_ExtRequest),
      (''ExtResponse'', ty_ExtResponse), (''FileSystemCapabilities'', ty_FileSystemCapabilities),
      (''HttpHeader'', ty_HttpHeader), (''Implementation'', ty_Implementation),
      (''InitializeProxyRequest'', ty_InitializeProxyRequest)]"

definition small_types_2 :: "(string \<times> go_name) list" where
  "small_types_2 =
    [(''InitializeProxyResponse'', ty_InitializeProxyResponse),
      (''KillTerminalRequest'', ty_KillTerminalRequest),
      (''KillTerminalResponse'', ty_KillTerminalResponse),
      (''ListProvidersRequest'', ty_ListProvidersRequest),
      (''ListProvidersResponse'', ty_ListProvidersResponse),
      (''ListSessionsRequest'', ty_ListSessionsRequest), (''LlmProtocol'', ty_LlmProtocol),
      (''LogoutCapabilities'', ty_LogoutCapabilities), (''LogoutRequest'', ty_LogoutRequest),
      (''LogoutResponse'', ty_LogoutResponse), (''McpCapabilities'', ty_McpCapabilities),
      (''McpRequestId'', ty_McpRequestId), (''McpServerAcp'', ty_McpServerAcp),
      (''McpServerAcpId'', ty_McpServerAcpId), (''McpServerHttp'', ty_McpServerHttp),
      (''McpServerSse'', ty_McpServerSse), (''MessageId'', ty_MessageId), (''Notice'', ty_Notice),
      (''NoticeCapabilities'', ty_NoticeCapabilities), (''NoticeSeverity'', ty_NoticeSeverity),
      (''PermissionOption'', ty_PermissionOption), (''PermissionOptionId'', ty_PermissionOptionId),
      (''PermissionOptionKind'', ty_PermissionOptionKind), (''Plan'', ty_Plan),
      (''PlanCapabilities'', ty_PlanCapabilities), (''PlanEntry'', ty_PlanEntry),
      (''PlanEntryPriority'', ty_PlanEntryPriority), (''PlanEntryStatus'', ty_PlanEntryStatus),
      (''PlanFile'', ty_PlanFile), (''PlanId'', ty_PlanId), (''PlanItems'', ty_PlanItems),
      (''PlanMarkdown'', ty_PlanMarkdown), (''PlanRemoved'', ty_PlanRemoved),
      (''PlanUpdate'', ty_PlanUpdate), (''PromptCapabilities'', ty_PromptCapabilities),
      (''PromptResponse'', ty_PromptResponse), (''ProtocolVersion'', ty_ProtocolVersion),
      (''ProviderCurrentConfig'', ty_ProviderCurrentConfig), (''ProviderId'', ty_ProviderId),
      (''ProvidersCapabilities'', ty_ProvidersCapabilities),
      (''ProxySuccessorNotification'', ty_ProxySuccessorNotification),
      (''ProxySuccessorRequest'', ty_ProxySuccessorRequest),
      (''ProxySuccessorResponse'', ty_ProxySuccessorResponse),
      (''ReadTextFileResponse'', ty_ReadTextFileResponse),
      (''ReleaseTerminalRequest'', ty_ReleaseTerminalRequest),
      (''ReleaseTerminalResponse'', ty_ReleaseTerminalResponse),
      (''RequestPermissionResponse'', ty_RequestPermissionResponse),
      (''RequiresActionStateUpdate'', ty_RequiresActionStateUpdate), (''Role'', ty_Role),
      (''RunningStateUpdate'', ty_RunningStateUpdate),
      (''SelectedPermissionOutcome'', ty_SelectedPermissionOutcome),
      (''SessionAdditionalDirectoriesCapabilities'', ty_SessionAdditionalDirectoriesCapabilities),
      (''SessionArchiveCapabilities'', ty_SessionArchiveCapabilities),
      (''SessionArchiveFilter'', ty_SessionArchiveFilter),
      (''SessionCancelCapabilities'', ty_SessionCancelCapabilities),
      (''SessionCloseCapabilities'', ty_SessionCloseCapabilities),
      (''SessionConfigBoolean'', ty_SessionConfigBoolean),
      (''SessionConfigGroupId'', ty_SessionConfigGroupId), (''SessionConfigId'', ty_SessionConfigId)]"

definition small_types_3 :: "(string \<times> go_name) list" where
  "small_types_3 =
    [(''SessionConfigOptionCategory'', ty_SessionConfigOptionCategory),
      (''SessionConfigOptionsCapabilities'', ty_SessionConfigOptionsCapabilities),
      (''SessionConfigSelect'', ty_SessionConfigSelect),
      (''SessionConfigSelectOption'', ty_SessionConfigSelectOption),
      (''SessionConfigValueId'', ty_SessionConfigValueId),
      (''SessionDeleteCapabilities'', ty_SessionDeleteCapabilities),
      (''SessionForkCapabilities'', ty_SessionForkCapabilities), (''SessionId'', ty_SessionId),
      (''SessionInfoUpdate'', ty_SessionInfoUpdate),
      (''SessionListCapabilities'', ty_SessionListCapabilities),
      (''SessionMessageChunk'', ty_SessionMessageChunk), (''SessionMode'', ty_SessionMode),
      (''SessionModeId'', ty_SessionModeId), (''SessionModeState'', ty_SessionModeState),
      (''SessionNotification'', ty_SessionNotification),
      (''SessionResumeCapabilities'', ty_SessionResumeCapabilities), (''SessionStatus'', ty_SessionStatus),
      (''SessionStatusCapabilities'', ty_SessionStatusCapabilities),
      (''SessionStatusRequest'', ty_SessionStatusRequest),
      (''SessionStatusResponse'', ty_SessionStatusResponse),
      (''SessionSystemPromptCapabilities'', ty_SessionSystemPromptCapabilities),
      (''SessionSystemPromptModeCapabilities'', ty_SessionSystemPromptModeCapabilities),
      (''SessionSystemPromptOverrideCapabilities'', ty_SessionSystemPromptOverrideCapabilities),
      (''SessionTitleCapabilities'', ty_SessionTitleCapabilities),
      (''SetProviderResponse'', ty_SetProviderResponse),
      (''SetSessionConfigOptionResponse'', ty_SetSessionConfigOptionResponse),
      (''SetSessionModeRequest'', ty_SetSessionModeRequest),
      (''SetSessionModeResponse'', ty_SetSessionModeResponse),
      (''SetSessionTitleRequest'', ty_SetSessionTitleRequest),
      (''SetSessionTitleResponse'', ty_SetSessionTitleResponse), (''StopReason'', ty_StopReason),
      (''StringFormat'', ty_StringFormat), (''StringMultiSelectItems'', ty_StringMultiSelectItems),
      (''SubagentCapabilities'', ty_SubagentCapabilities),
      (''SubagentSessionCapabilities'', ty_SubagentSessionCapabilities),
      (''SystemPrompt'', ty_SystemPrompt), (''SystemPromptMode'', ty_SystemPromptMode),
      (''Terminal'', ty_Terminal), (''TerminalExitStatus'', ty_TerminalExitStatus),
      (''TerminalId'', ty_TerminalId), (''TerminalOutputRequest'', ty_TerminalOutputRequest),
      (''TerminalOutputResponse'', ty_TerminalOutputResponse), (''TextContent'', ty_TextContent),
      (''TextResourceContents'', ty_TextResourceContents),
      (''TitledMultiSelectItems'', ty_TitledMultiSelectItems), (''ToolCallId'', ty_ToolCallId),
      (''ToolCallLocation'', ty_ToolCallLocation), (''ToolCallStatus'', ty_ToolCallStatus),
      (''ToolKind'', ty_ToolKind), (''UnarchiveSessionRequest'', ty_UnarchiveSessionRequest),
      (''UnarchiveSessionResponse'', ty_UnarchiveSessionResponse),
      (''UnknownStateUpdate'', ty_UnknownStateUpdate),
      (''UnstructuredCommandInput'', ty_UnstructuredCommandInput), (''UsageUpdate'', ty_UsageUpdate),
      (''WaitForTerminalExitRequest'', ty_WaitForTerminalExitRequest),
      (''WaitForTerminalExitResponse'', ty_WaitForTerminalExitResponse),
      (''WriteTextFileRequest'', ty_WriteTextFileRequest),
      (''WriteTextFileResponse'', ty_WriteTextFileResponse), (''ErrorCode'', ty_ErrorCode)]"

definition struct_types :: "(string \<times> go_name) list" where
  "struct_types =
    [(''Annotations'', ty_Annotations), (''AgentCapabilities'', ty_AgentCapabilities),
      (''PromptRequest'', ty_PromptRequest), (''McpError'', ty_McpError),
      (''SessionConfigSelectOptions'', ty_SessionConfigSelectOptions),
      (''MessageMcpResponse'', ty_MessageMcpResponse),
      (''AvailableCommandInput'', ty_AvailableCommandInput),
      (''EmbeddedResourceResource'', ty_EmbeddedResourceResource)]"

definition union_types :: "(string \<times> go_name) list" where
  "union_types =
    [(''AuthMethod'', ty_AuthMethod), (''RequestPermissionOutcome'', ty_RequestPermissionOutcome),
      (''ToolCallContent'', ty_ToolCallContent), (''McpServer'', ty_McpServer),
      (''PlanUpdateContent'', ty_PlanUpdateContent)]"

lemma small_types_1_generated: "list_all (generates acp_env) small_types_1"
  by code_simp

lemma small_types_2_generated: "list_all (generates acp_env) small_types_2"
  by code_simp

lemma small_types_3_generated: "list_all (generates acp_env) small_types_3"
  by code_simp

lemma struct_types_generated: "list_all (generates acp_env) struct_types"
  by code_simp

lemma union_types_generated: "list_all (generates acp_env) union_types"
  by code_simp

definition checked_types :: "(string \<times> go_name) list" where
  "checked_types = small_types_1 @ small_types_2 @ small_types_3 @ struct_types @ union_types"

text \<open>
  C32: the checked-in file acp/types_gen.go is what the generator makes of schema.json, for the
  types in \<open>checked_types\<close>: the environment built from the document gives a definition, its code
  is emitted without an error, and read as Go it is the declaration in the file, with its fields,
  tags and tolerant decoders.
\<close>

theorem generated_types_match:
  "list_all (generates (gen_env_of (doc_defs acp_document) 8)) checked_types"
  unfolding acp_env checked_types_def list_all_append
  by (intro conjI small_types_1_generated small_types_2_generated small_types_3_generated struct_types_generated union_types_generated)

end
