(* ===== verification/Spec2Isabelle.thy ===== *)
theory Spec2Isabelle
  imports Conn_Safety Conn_Props Rpc_Props Transport Wire_Props Names Acp_Props Acp_Encode Acp_Build Schema_Refs Rpcgen_Acp
    Typegen_Run Typegen_Closed Typegen_Match
begin

text \<open>
  A verification of the ACP SDK for Go (Agent Client Protocol over JSON-RPC 2.0).

  The program. A peer, a \<open>Client\<close> or an agent, owns one connection to the other
  (internal/jsonrpc2/conn.go). A transport (acp/transport.go, acp/cmd.go) turns a byte stream
  into messages, one JSON text per line (internal/jsonrpc2/messages.go, wire.go). The
  connection matches responses to calls, queues incoming requests for a handler, writes
  responses, and shuts down in order. The ACP layer (acp/rpc.go, acp/agent_gen.go,
  acp/client_gen.go, acp/extensions.go) is the handler: it selects an interface of the
  application by method name, decodes the parameters, and returns a result or an error.

  The theories.
  Prelude: Go's \<open>strings\<close> functions, decimal numbers, the locales \<open>invariant_system\<close>,
  \<open>fresh_namer\<close> and \<open>registry\<close>.
  Errors: \<open>error\<close> values, \<open>errors.Is\<close>, \<open>errors.As\<close>, \<open>toWireError\<close> (wire.go, messages.go).
  Json: the JSON text model of encoding/json: printer, scanner, parser, \<open>json.Valid\<close>,
  compaction, and that printing then parsing gives the value back.
  Messages: \<open>ID\<close>, \<open>Request\<close>, \<open>Response\<close>, \<open>EncodeMessage\<close>, \<open>DecodeMessage\<close> (messages.go). The
  JSON decoder, a third-party package, is the parameter \<open>unmarshal\<close>; the hypothesis
  \<open>decodes_wire\<close> states its documented behaviour, and \<open>ref_unmarshal\<close> is an instance.
  Conn: the record \<open>conn\<close> (\<open>Connection\<close> with its \<open>inFlightState\<close>), a definition for every
  closure that runs under the state mutex, and the operations composed of them (conn.go).
  Conn_Steps: the goroutines of a connection as a step relation: a system is a connection
  and the multiset of its goroutines; a step is one closure or one call of the writer,
  handler, preempter or reader, in any interleaving.
  Conn_Inv, Conn_Moves: what each step does to the core of the connection (\<open>move\<close>), and the
  locale \<open>move_invariant\<close> for the invariants over moves. Conn_Counts, Conn_Table,
  Conn_Calls, Conn_Done: the four invariants (counters against goroutines, the table of
  incoming calls, outgoing calls, when a connection is done), each an interpretation.
  Conn_Safety: what follows in every reachable state: no panic, no lost call, one close,
  nothing left to wait for. Conn_Props: operations run from start to end, and refusals
  while the connection shuts down.
  Methods: the generated tables of methods, interfaces, dispatch cases and typed methods.
  Rpc, Rpc_Props: the ACP layer, extensions and \<open>ExtensionMux\<close> (two interpretations of
  \<open>registry\<close>). Transport: line framing (locale \<open>line_codec\<close>), \<open>ioConn\<close>, subprocesses.
  Wire_Props: round trips and losses of the wire form. This theory: the whole path of a call.
  Names: the identifiers the schema generator makes of schema names, and what makes them
  unique (internal/schemagen/typegen/const.go, rpcgen/model.go; locale \<open>fresh_namer\<close>).
  Go_Types: Go types and values as far as acp/types_gen.go uses them, the declarations as
  data: fields with tags, and the bodies of \<open>UnmarshalJSON\<close> and \<open>MarshalJSON\<close> in the few
  statement forms that occur. Go_Decode, Go_Encode: what they mean, with the rules of
  encoding/json. Acp_Names, Acp_Types_1 to Acp_Types_4: every type of the file, in its order.
  Acp_Types: all of them as one environment \<open>acp\<close>, and that its parts fit together. Go_Typing:
  decoding in a well-formed environment returns and is type-safe. Go_Tolerance: two runs of
  a method on texts that differ in one tolerated member. Acp_Props: the properties for \<open>acp\<close>.
  Acp_Encode: what the encoders send for required lists. Acp_Consts, Acp_Constructors: the
  constant blocks and the constructor functions. Acp_Build: that constructors build values of
  their types, and that the decoders and the constant blocks agree.
  Schema: the JSON Schema the generator reads and the predicates of typegen on it. Schema_Refs:
  which definitions get code, and that none of them is left out that another one needs.
  Rpcgen: the operations of a schema, their names and their validation (rpcgen/model.go,
  sides.go). Rpcgen_Props: every definition with a method has its place, and the identifiers
  do not collide. Rpcgen_Code: the code emitted for the operations (rpcgen/gen.go) as syntax,
  what it does when it runs, and that this is what the operations say. Acp_Schema_1 to
  Acp_Schema_4, Acp_Schema: schema.json as data. Rpcgen_Eval (locale \<open>coded_rows\<close>) and
  Rpcgen_Acp: the generator evaluated on it; the result is the code that Methods and Rpc model.
  Typegen_Schema, Typegen_Code: the predicates and searches of internal/schemagen/typegen on
  schemas, on a stack of \<open>ge_depth\<close> calls, and the Go code it emits as syntax: declarations,
  struct fields, and the bodies of \<open>UnmarshalJSON\<close> and \<open>MarshalJSON\<close> in the forms it writes.
  Typegen_Fields (primitive.go, numbers.go, nulls.go, deserialize.go), Typegen_Object (object.go),
  Typegen_Union (union.go, required_keys.go, enum.go, const.go), Typegen (gen.go): the code for a
  schema, an error of the generator being the left value. Typegen_Struct: what an object becomes,
  and what is sent for its required lists. Typegen_Variants: the variants, constants and
  constructors of a tagged union. Typegen_Total: when the searches end, and schemas on which they
  do not. Typegen_Closed: the emitted file declares every type its code mentions. Typegen_Read:
  emitted code read as the declarations of Go_Types. Typegen_Run: what an emitted decoder does.
  Typegen_Env, Typegen_Reading: the environment of schema.json and what the names in
  acp/types_gen.go stand for, as trees fit for evaluation, the first proved equal to what the
  generator builds. Typegen_Match: the generator evaluated on 189 definitions of schema.json gives
  the declarations of Acp_Types. The depth 8 of the stack is enough for all of them: a deeper
  search gives the left value, and then nothing would match.

  Conventions. A panic is the left value of a sum; a Go \<open>error\<close> is an option of \<open>go_error\<close>.
  Pointers to calls and requests are indices into stores of the connection. Integers of the
  sequence number and of IDs are 64-bit words. What a \<open>select\<close> may pick is a list of
  outcomes. A blocking wait is a step that is enabled once what it waits for has happened.
  The results of the writer, the context, the handler and the closer are arguments. The JSON
  parser runs on fuel, twice the length of the text and two, which is enough for every text
  it accepts (lemma \<open>json_parse_print\<close>).

  Not modelled: the event log, \<open>EncodeIndent\<close>, the comments, receivers and local names of emitted
  code and its rendering by the package jennifer, examples and tests. A
  handler is asked to keep the contract of the \<open>Handler\<close> interface; Rpc_Props shows when the
  ACP dispatch keeps it, and that a peer can make it break it.
\<close>

section \<open>A call through both sides\<close>

text \<open>The request of a call and the response to it, as the two sides exchange them.\<close>

definition call_request :: "conn \<Rightarrow> string \<Rightarrow> string \<Rightarrow> request" where
  "call_request c m p = \<lparr>req_id = Int64ID (seq c + 1), req_method = m, req_params = p\<rparr>"

definition call_response :: "conn \<Rightarrow> string \<Rightarrow> go_value option \<Rightarrow> go_error option \<Rightarrow> response" where
  "call_response c m result err =
     \<lparr>resp_id = Int64ID (seq c + 1), resp_result = fst (marshal_to_raw result), resp_error = unhandled_detail m err\<rparr>"

definition sent_over :: "(string \<Rightarrow> go_error + wire_combined) \<Rightarrow> message \<Rightarrow> (go_error + message) list" where
  "sent_over unmarshal m =
     reader_outputs (decode_message unmarshal) (ErrVar EOF)
       (io_written (write_all [m] (new_io_conn (decode_message unmarshal) [] (ErrVar EOF) None)))"

lemma sent_over_wf:
  "decodes_wire unmarshal \<Longrightarrow> wf_message m \<Longrightarrow> sent_over unmarshal m = [Inr (on_wire m), Inl (ErrVar EOF)]"
  using line_codec.read_back [OF wire_line_codec, of unmarshal "[m]" "ErrVar EOF" "[]"]
  unfolding sent_over_def write_all_frames by (simp add: new_io_conn_def)




end
